(* ===== verification/Cpp_String.thy ===== *)
theory Cpp_String
  imports Main
begin

text \<open>
  What the C++ sources use of \<^verbatim>\<open>std::string\<close> and \<^verbatim>\<open>boost::algorithm\<close>: decimal printing
  (\<^verbatim>\<open>std::to_string\<close>) and parsing (\<^verbatim>\<open>std::stoll\<close>, \<^verbatim>\<open>std::stoull\<close>, \<^verbatim>\<open>atoi\<close>), splitting at a delimiter
  (\<^verbatim>\<open>boost::split\<close> with one delimiter and no token compression) and replacement of all occurrences of a pattern
  (\<^verbatim>\<open>boost::replace_all\<close>).  Exceptions are values of \<open>cpp_error\<close>.
\<close>

datatype cpp_error =
    OutOfRange       \<comment> \<open>\<^verbatim>\<open>std::out_of_range\<close>\<close>
  | InvalidArgument  \<comment> \<open>\<^verbatim>\<open>std::invalid_argument\<close>\<close>
  | RuntimeError     \<comment> \<open>\<^verbatim>\<open>std::runtime_error\<close>\<close>
  | JsonError        \<comment> \<open>\<^verbatim>\<open>nlohmann::json::exception\<close>\<close>
  | BadAlloc         \<comment> \<open>\<^verbatim>\<open>std::bad_alloc\<close>\<close>
  | Thrown string    \<comment> \<open>\<^verbatim>\<open>std::exception\<close> with its text\<close>
  | Undefined        \<comment> \<open>undefined behaviour\<close>

section \<open>Associative containers\<close>

text \<open>A \<^verbatim>\<open>std::map\<close> or \<^verbatim>\<open>std::unordered_map\<close> as the list of its entries: \<^verbatim>\<open>insert\<close> keeps an existing entry,
  \<^verbatim>\<open>operator[] =\<close> overwrites it, \<^verbatim>\<open>at\<close> throws when there is none, \<^verbatim>\<open>erase\<close> removes it.\<close>

definition std_insert :: "'k \<Rightarrow> 'v \<Rightarrow> ('k \<times> 'v) list \<Rightarrow> ('k \<times> 'v) list" where
  "std_insert k v m = (if map_of m k = None then m @ [(k, v)] else m)"

definition std_set :: "'k \<Rightarrow> 'v \<Rightarrow> ('k \<times> 'v) list \<Rightarrow> ('k \<times> 'v) list" where
  "std_set k v m = (if map_of m k = None then m @ [(k, v)] else map (\<lambda>(k', v'). (k', if k' = k then v else v')) m)"

definition std_at :: "('k \<times> 'v) list \<Rightarrow> 'k \<Rightarrow> cpp_error + 'v" where
  "std_at m k = (case map_of m k of None \<Rightarrow> Inl OutOfRange | Some v \<Rightarrow> Inr v)"

definition std_erase :: "'k \<Rightarrow> ('k \<times> 'v) list \<Rightarrow> ('k \<times> 'v) list" where
  "std_erase k m = filter (\<lambda>(k', v). k' \<noteq> k) m"

lemma map_of_std_insert [simp]: "map_of (std_insert k v m) k' = (if k' = k \<and> map_of m k = None then Some v else map_of m k')"
  by (auto simp: std_insert_def map_add_def split: option.splits)

lemma distinct_std_insert: "distinct (map fst m) \<Longrightarrow> distinct (map fst (std_insert k v m))"
  by (auto simp: std_insert_def map_of_eq_None_iff)

lemma map_of_std_set [simp]: "map_of (std_set k v m) = (map_of m)(k \<mapsto> v)"
proof (cases "map_of m k")
  case (Some w)
  have "map_of (map (\<lambda>(k', v'). (k', if k' = k then v else v')) m) k' = ((map_of m)(k \<mapsto> v)) k'"
    if "map_of m k' \<noteq> None \<or> k' \<noteq> k" for k' using that by (induction m) auto
  with Some show ?thesis by (fastforce simp: std_set_def)
qed (auto simp: std_set_def map_add_def split: option.splits)

lemma map_of_std_erase [simp]: "map_of (std_erase k m) = (map_of m)(k := None)"
  by (induction m) (auto simp: std_erase_def)

section \<open>Decimal numbers\<close>

definition is_digit :: "char \<Rightarrow> bool" where
  "is_digit c \<longleftrightarrow> 48 \<le> (of_char c :: nat) \<and> (of_char c :: nat) \<le> 57"

definition digit_char :: "nat \<Rightarrow> char" where
  "digit_char n = char_of (48 + n)"

definition is_space :: "char \<Rightarrow> bool" where
  "is_space c \<longleftrightarrow> (of_char c :: nat) = 32 \<or> (9 \<le> (of_char c :: nat) \<and> (of_char c :: nat) \<le> 13)"

fun dec :: "nat \<Rightarrow> string" where
  "dec n = (if n < 10 then [digit_char n] else dec (n div 10) @ [digit_char (n mod 10)])"

declare dec.simps [simp del]

definition to_string :: "int \<Rightarrow> string" where
  "to_string x = (if x < 0 then ''-'' @ dec (nat (- x)) else dec (nat x))"

text \<open>The longest prefix of digits, read as a number.\<close>

fun dec_val :: "nat \<Rightarrow> string \<Rightarrow> nat" where
  "dec_val acc [] = acc"
| "dec_val acc (c # cs) = (if is_digit c then dec_val (acc * 10 + (of_char c - 48)) cs else acc)"

definition unsigned_prefix :: "string \<Rightarrow> nat option" where
  "unsigned_prefix s = (case s of [] \<Rightarrow> None | c # _ \<Rightarrow> if is_digit c then Some (dec_val 0 s) else None)"

text \<open>\<^verbatim>\<open>strtoll\<close>: leading white space, an optional sign, digits; the rest is ignored.\<close>

definition strtol :: "string \<Rightarrow> int option" where
  "strtol s =
    (let s = dropWhile is_space s
     in case s of
          [] \<Rightarrow> None
        | c # cs \<Rightarrow>
            if c = CHR ''-'' then map_option (\<lambda>n. - int n) (unsigned_prefix cs)
            else if c = CHR ''+'' then map_option int (unsigned_prefix cs)
            else map_option int (unsigned_prefix s))"

definition stoll :: "string \<Rightarrow> cpp_error + int" where
  "stoll s = (case strtol s of
      None \<Rightarrow> Inl InvalidArgument
    | Some x \<Rightarrow> if - (2 ^ 63) \<le> x \<and> x < 2 ^ 63 then Inr x else Inl OutOfRange)"

definition stoi :: "string \<Rightarrow> cpp_error + int" where
  "stoi s = (case strtol s of
      None \<Rightarrow> Inl InvalidArgument
    | Some x \<Rightarrow> if - (2 ^ 31) \<le> x \<and> x < 2 ^ 31 then Inr x else Inl OutOfRange)"

text \<open>\<^verbatim>\<open>std::stoull\<close> negates modulo \<open>2^64\<close>, as \<^verbatim>\<open>strtoull\<close> does.\<close>

definition stoull :: "string \<Rightarrow> cpp_error + int" where
  "stoull s = (case strtol s of
      None \<Rightarrow> Inl InvalidArgument
    | Some x \<Rightarrow> if \<bar>x\<bar> < 2 ^ 64 then Inr (x mod 2 ^ 64) else Inl OutOfRange)"

text \<open>\<^verbatim>\<open>atoi\<close> returns 0 when there is no number.\<close>

definition atoi :: "string \<Rightarrow> int" where
  "atoi s = (case strtol s of None \<Rightarrow> 0 | Some x \<Rightarrow> x)"

section \<open>Splitting and replacing\<close>

fun split_at :: "char \<Rightarrow> string \<Rightarrow> string list" where
  "split_at d [] = [[]]"
| "split_at d (c # cs) =
    (if c = d then [] # split_at d cs
     else case split_at d cs of [] \<Rightarrow> [[c]] | t # ts \<Rightarrow> (c # t) # ts)"

definition starts_with :: "string \<Rightarrow> string \<Rightarrow> bool" where
  "starts_with p s \<longleftrightarrow> take (length p) s = p"

function replace_all :: "string \<Rightarrow> string \<Rightarrow> string \<Rightarrow> string" where
  "replace_all p r s =
    (if s = [] \<or> p = [] then s
     else if starts_with p s then r @ replace_all p r (drop (length p) s)
     else hd s # replace_all p r (tl s))"
  by pat_completeness auto

termination by (relation "measure (\<lambda>(p, r, s). length s)") auto

declare replace_all.simps [simp del]

text \<open>The substrings of a string.\<close>

fun occurs_in :: "string \<Rightarrow> string \<Rightarrow> bool" where
  "occurs_in p [] = (p = [])"
| "occurs_in p (c # cs) = (starts_with p (c # cs) \<or> occurs_in p cs)"

section \<open>Decimal round trips\<close>

lemma digit_char_digit [simp]: "n < 10 \<Longrightarrow> is_digit (digit_char n)" "n < 10 \<Longrightarrow> of_char (digit_char n) = 48 + n"
  by (simp_all add: is_digit_def digit_char_def)

lemma dec_val_digits:
  "list_all is_digit ds \<Longrightarrow> dec_val acc (ds @ rest) = dec_val (dec_val acc ds) rest"
  by (induction ds arbitrary: acc) auto

lemma dec_digits: "list_all is_digit (dec n)"
  by (induction n rule: dec.induct) (subst dec.simps, simp)

lemma dec_nonempty: "\<exists>c cs. dec n = c # cs \<and> is_digit c"
proof -
  have "dec n \<noteq> []" by (subst dec.simps) simp
  then show ?thesis using dec_digits [of n] by (cases "dec n") auto
qed

lemma dec_val_dec: "dec_val 0 (dec n) = n"
proof (induction n rule: dec.induct)
  case (1 n)
  show ?case
  proof (cases "n < 10")
    case True
    then show ?thesis by (subst dec.simps) simp
  next
    case False
    then have "dec_val 0 (dec (n div 10) @ [digit_char (n mod 10)]) = n"
      using 1 by (simp add: dec_val_digits [OF dec_digits])
    then show ?thesis using False by (subst dec.simps) simp
  qed
qed

lemma dec_val_stop: "rest = [] \<or> \<not> is_digit (hd rest) \<Longrightarrow> dec_val acc rest = acc"
  by (cases rest) auto

lemma unsigned_prefix_dec:
  assumes "rest = [] \<or> \<not> is_digit (hd rest)"
  shows "unsigned_prefix (dec n @ rest) = Some n"
  using dec_nonempty [of n] assms
  by (auto simp: unsigned_prefix_def dec_val_digits [OF dec_digits] dec_val_dec dec_val_stop split: list.splits)

lemma digit_not_space: "is_digit c \<Longrightarrow> \<not> is_space c" "is_digit c \<Longrightarrow> c \<noteq> CHR ''-''" "is_digit c \<Longrightarrow> c \<noteq> CHR ''+''"
  by (auto simp: is_digit_def is_space_def)

lemma strtol_to_string: "strtol (to_string x) = Some x"
proof (cases "x < 0")
  case True
  have "\<not> is_space CHR ''-''" by (simp add: is_space_def)
  then show ?thesis
    using True unsigned_prefix_dec [of "[]" "nat (- x)"] by (simp add: to_string_def strtol_def Let_def)
next
  case False
  obtain c cs where d: "dec (nat x) = c # cs" "is_digit c" using dec_nonempty by blast
  then show ?thesis
    using False unsigned_prefix_dec [of "[]" "nat x"] digit_not_space [of c]
    by (simp add: to_string_def strtol_def Let_def)
qed

lemma stoll_to_string: "- (2 ^ 63) \<le> x \<Longrightarrow> x < 2 ^ 63 \<Longrightarrow> stoll (to_string x) = Inr x"
  by (simp add: stoll_def strtol_to_string)

lemma stoi_to_string: "- (2 ^ 31) \<le> x \<Longrightarrow> x < 2 ^ 31 \<Longrightarrow> stoi (to_string x) = Inr x"
  by (simp add: stoi_def strtol_to_string)

lemma stoull_to_string: "0 \<le> x \<Longrightarrow> x < 2 ^ 64 \<Longrightarrow> stoull (to_string x) = Inr x"
  by (simp add: stoull_def strtol_to_string)

lemma atoi_to_string: "atoi (to_string x) = x"
  by (simp add: atoi_def strtol_to_string)

lemma set_dec: "c \<in> set (dec n) \<Longrightarrow> is_digit c"
  using dec_digits [of n] by (auto simp: list_all_iff)

lemma set_to_string: "c \<in> set (to_string x) \<Longrightarrow> is_digit c \<or> c = CHR ''-''"
  using set_dec by (auto simp: to_string_def split: if_splits)

section \<open>Splitting\<close>

lemma split_at_nonempty [simp]: "split_at d s \<noteq> []"
  by (induction s) (auto split: list.splits)

lemma split_at_id: "d \<notin> set s \<Longrightarrow> split_at d s = [s]"
  by (induction s) auto

lemma split_at_append: "d \<notin> set s \<Longrightarrow> split_at d (s @ d # t) = s # split_at d t"
  by (induction s) (auto split: list.splits)

lemma split_at_pair: "d \<notin> set s \<Longrightarrow> d \<notin> set t \<Longrightarrow> split_at d (s @ d # t) = [s, t]"
  by (simp add: split_at_append split_at_id)

text \<open>Joining with the delimiter and splitting gives the parts back.\<close>

fun join_with :: "char \<Rightarrow> string list \<Rightarrow> string" where
  "join_with d [] = []"
| "join_with d [s] = s"
| "join_with d (s # t # ts) = s @ d # join_with d (t # ts)"

lemma split_join: "ts \<noteq> [] \<Longrightarrow> \<forall>t \<in> set ts. d \<notin> set t \<Longrightarrow> split_at d (join_with d ts) = ts"
  by (induction d ts rule: join_with.induct) (auto simp: split_at_id split_at_append)

lemma join_split: "join_with d (split_at d s) = s"
proof (induction s)
  case (Cons c cs)
  obtain t ts where "split_at d cs = t # ts" by (cases "split_at d cs") auto
  with Cons show ?case by (cases ts) auto
qed simp

section \<open>Replacing\<close>

lemma replace_all_Nil [simp]: "replace_all p r [] = []"
  by (subst replace_all.simps) simp

lemma replace_char:
  "replace_all [d] r (c # cs) = (if c = d then r else [c]) @ replace_all [d] r cs"
  by (subst replace_all.simps) (simp add: starts_with_def)

lemma replace_char_concat: "replace_all [d] r s = concat (map (\<lambda>c. if c = d then r else [c]) s)"
  by (induction s) (simp_all add: replace_char)

lemma replace_absent: "\<not> occurs_in p s \<Longrightarrow> replace_all p r s = s"
proof (induction s)
  case (Cons c cs)
  then show ?case by (subst replace_all.simps) auto
qed simp

lemma replace_all_no_match: "p \<noteq> [] \<Longrightarrow> \<not> starts_with p (c # s) \<Longrightarrow> replace_all p r (c # s) = c # replace_all p r s"
  by (subst replace_all.simps) simp

lemma replace_all_match: "p \<noteq> [] \<Longrightarrow> replace_all p r (p @ s) = r @ replace_all p r s"
  by (subst replace_all.simps) (simp add: starts_with_def)

end
