(* ===== verification/Ordered_Map.thy ===== *)
theory Ordered_Map
  imports Cpp_String "HOL-Library.List_Lexorder" "HOL-Library.Char_ord"
begin

text \<open>
  A \<^verbatim>\<open>std::map\<close> as the list of its entries in key order: \<^verbatim>\<open>operator[] =\<close> and \<^verbatim>\<open>insert\<close>, which keeps an existing entry.  Strings are
  ordered lexicographically by their bytes.  A JSON object of \<^verbatim>\<open>nlohmann/json.hpp\<close> is such a map, so that filling one from
  an unordered map sorts the entries.
\<close>

fun omap_set :: "'k::linorder \<Rightarrow> 'v \<Rightarrow> ('k \<times> 'v) list \<Rightarrow> ('k \<times> 'v) list" where
  "omap_set k v [] = [(k, v)]"
| "omap_set k v ((l, w) # m) = (if k < l then (k, v) # (l, w) # m else if k = l then (k, v) # m else (l, w) # omap_set k v m)"

definition omap_insert :: "'k::linorder \<Rightarrow> 'v \<Rightarrow> ('k \<times> 'v) list \<Rightarrow> ('k \<times> 'v) list" where
  "omap_insert k v m = (if map_of m k = None then omap_set k v m else m)"

definition omap_ok :: "('k::linorder \<times> 'v) list \<Rightarrow> bool" where
  "omap_ok m \<longleftrightarrow> sorted_wrt (<) (map fst m)"

lemma fst_omap_set: "fst ` set (omap_set k v m) = insert k (fst ` set m)"
  by (induction k v m rule: omap_set.induct) auto

lemma omap_set_ok: "omap_ok m \<Longrightarrow> omap_ok (omap_set k v m)"
proof (induction k v m rule: omap_set.induct)
  case (2 k v l w m)
  then have "omap_ok m" "\<forall>x \<in> fst ` set m. l < x" by (auto simp: omap_ok_def)
  moreover have "\<forall>x \<in> fst ` set (omap_set k v m). l < x" if "l < k" using that calculation(2) by (auto simp: fst_omap_set)
  ultimately show ?case using 2 by (auto simp: omap_ok_def not_less_iff_gr_or_eq intro: less_trans)
qed (simp add: omap_ok_def)

lemma map_of_omap_set: "omap_ok m \<Longrightarrow> map_of (omap_set k v m) = (map_of m)(k \<mapsto> v)"
proof (induction k v m rule: omap_set.induct)
  case (2 k v l w m)
  then have m: "omap_ok m" "\<And>x. x \<in> fst ` set m \<Longrightarrow> l < x" by (auto simp: omap_ok_def)
  then show ?case using 2 by (auto simp: fun_eq_iff)
qed simp

lemma omap_insert_ok: "omap_ok m \<Longrightarrow> omap_ok (omap_insert k v m)"
  by (simp add: omap_insert_def omap_set_ok)

lemma map_of_omap_insert: "omap_ok m \<Longrightarrow> map_of (omap_insert k v m) l = (if l = k \<and> map_of m k = None then Some v else map_of m l)"
  by (simp add: omap_insert_def map_of_omap_set)

text \<open>The object that a loop over a map fills entry by entry.\<close>

definition sorted_entries :: "('k::linorder \<times> 'v) list \<Rightarrow> ('k \<times> 'v) list" where
  "sorted_entries m = fold (\<lambda>(k, v). omap_set k v) m []"

lemma set_omap_set: "set (omap_set k v m) \<subseteq> insert (k, v) (set m)"
  by (induction k v m rule: omap_set.induct) auto

lemma fold_omap_set:
  assumes "omap_ok m"
  shows "omap_ok (fold (\<lambda>(k, v). omap_set k v) es m)" "fst ` set (fold (\<lambda>(k, v). omap_set k v) es m) = fst ` set es \<union> fst ` set m"
    "set (fold (\<lambda>(k, v). omap_set k v) es m) \<subseteq> set es \<union> set m"
proof -
  have "omap_ok (fold (\<lambda>(k, v). omap_set k v) es m) \<and> fst ` set (fold (\<lambda>(k, v). omap_set k v) es m) = fst ` set es \<union> fst ` set m \<and>
      set (fold (\<lambda>(k, v). omap_set k v) es m) \<subseteq> set es \<union> set m"
    using assms
  proof (induction es arbitrary: m)
    case (Cons e es)
    obtain k v where e: "e = (k, v)" by (cases e)
    from Cons.IH [OF omap_set_ok [OF Cons.prems, of k v]] set_omap_set [of k v m] show ?case
      by (auto simp: e fst_omap_set)
  qed simp
  then show "omap_ok (fold (\<lambda>(k, v). omap_set k v) es m)" "fst ` set (fold (\<lambda>(k, v). omap_set k v) es m) = fst ` set es \<union> fst ` set m"
    "set (fold (\<lambda>(k, v). omap_set k v) es m) \<subseteq> set es \<union> set m" by simp_all
qed

lemma sorted_entries_ok: "omap_ok (sorted_entries m)"
  unfolding sorted_entries_def by (rule fold_omap_set) (simp add: omap_ok_def)

lemma sorted_entries_set: "fst ` set (sorted_entries m) = fst ` set m" "set (sorted_entries m) \<subseteq> set m"
  using fold_omap_set(2,3) [of "[]" m] by (simp_all add: sorted_entries_def omap_ok_def)

lemma sorted_entries_Nil [simp]: "sorted_entries m = [] \<longleftrightarrow> m = []"
  using sorted_entries_set(1) [of m] by (cases m) auto

lemma distinct_sorted_entries: "distinct (map fst (sorted_entries m))"
  using sorted_entries_ok [of m] by (simp add: omap_ok_def strict_sorted_iff)

lemma sorted_entries_keys: "map fst (sorted_entries m) = sorted_list_of_set (fst ` set m)"
proof -
  have "sorted_wrt (<) (map fst (sorted_entries m))" using sorted_entries_ok [of m] by (simp add: omap_ok_def)
  moreover have "set (map fst (sorted_entries m)) = fst ` set m" using sorted_entries_set(1) by simp
  ultimately show ?thesis by (intro strict_sorted_equal) simp_all
qed

end
