(* ===== verification/Message.thy ===== *)
theory Message
  imports Ordered_Map
begin

text \<open>
  Messages between nodes (\<^verbatim>\<open>functions.cpp\<close>, \<^verbatim>\<open>types.h\<close>): the commands, the textual encoding
  \<^verbatim>\<open>field:value|field:value\<close> that \<^verbatim>\<open>gossip\<close> builds and \<^verbatim>\<open>getFieldsAndValues\<close> reads, the registry of known nodes,
  and \<^verbatim>\<open>processIncomingData\<close>, which every incoming message goes through.  A \<^verbatim>\<open>FieldValueMap\<close>
  (\<^verbatim>\<open>std::unordered_map\<close>) is the list of its entries in the order the map is iterated; the theorems hold for every
  order.
\<close>

section \<open>Commands\<close>

datatype CommandType =
    connectionRequest | codeDelivery | choseRandomNumber | verificationResult | closeBlock | stateChange
  | syncNewBlock | blockRequest | blockResponse | fetchFunction | fetchTemplate | fetchDocument
  | deterministicCodeDelivery | canCommit | txNotification | verifyBlock | exception | storageurl | exeFunction
  | syncNodes | stateChangeResponse

definition command_types :: "CommandType list" where
  "command_types =
    [connectionRequest, codeDelivery, choseRandomNumber, verificationResult, closeBlock, stateChange,
     syncNewBlock, blockRequest, blockResponse, fetchFunction, fetchTemplate, fetchDocument,
     deterministicCodeDelivery, canCommit, txNotification, verifyBlock, exception, storageurl, exeFunction,
     syncNodes, stateChangeResponse]"

fun cmd_code :: "CommandType \<Rightarrow> int" where
  "cmd_code connectionRequest = 1"
| "cmd_code codeDelivery = 2"
| "cmd_code choseRandomNumber = 3"
| "cmd_code verificationResult = 4"
| "cmd_code closeBlock = 5"
| "cmd_code stateChange = 6"
| "cmd_code syncNewBlock = 7"
| "cmd_code blockRequest = 8"
| "cmd_code blockResponse = 9"
| "cmd_code fetchFunction = 10"
| "cmd_code fetchTemplate = 11"
| "cmd_code fetchDocument = 12"
| "cmd_code deterministicCodeDelivery = 13"
| "cmd_code canCommit = 14"
| "cmd_code txNotification = 15"
| "cmd_code verifyBlock = 16"
| "cmd_code exception = 17"
| "cmd_code storageurl = 18"
| "cmd_code exeFunction = 19"
| "cmd_code syncNodes = 20"
| "cmd_code stateChangeResponse = 21"

text \<open>\<^verbatim>\<open>static_cast<CommandType>(int)\<close>: the underlying type is \<^verbatim>\<open>char\<close>, so only the low 8 bits count; a value that
  is no enumerator is \<open>None\<close>.\<close>

definition cmd_of_int :: "int \<Rightarrow> CommandType option" where
  "cmd_of_int n = find (\<lambda>c. cmd_code c = n mod 256) command_types"

section \<open>Field-value maps\<close>

type_synonym field_map = "(string \<times> string) list"

definition encode_value :: "string \<Rightarrow> string" where
  "encode_value v = replace_all ''|'' ''%7C'' (replace_all '':'' ''%3A'' v)"

definition decode_value :: "string \<Rightarrow> string" where
  "decode_value v = replace_all ''%7C'' ''|'' (replace_all ''%3A'' '':'' v)"

text \<open>The loop over the pairs; it stops at the first pair without a delimiter.\<close>

fun parse_pairs :: "string list \<Rightarrow> field_map \<Rightarrow> cpp_error + field_map" where
  "parse_pairs [] m = Inr m"
| "parse_pairs (p # ps) m =
    (case split_at CHR '':'' p of
       f # v # _ \<Rightarrow> parse_pairs ps (std_insert f (decode_value v) m)
     | _ \<Rightarrow> Inl OutOfRange)"

definition getFieldsAndValues :: "string \<Rightarrow> cpp_error + field_map" where
  "getFieldsAndValues inputString = parse_pairs (split_at CHR ''|'' inputString) []"

section \<open>Sending\<close>

text \<open>The packet of \<^verbatim>\<open>gossip(channelId, cmd, kv)\<close>: the command, then the entries of \<open>kv\<close>; a reserved key is an
  error.\<close>

definition reserved_keys :: "string list" where
  "reserved_keys = [''msgid'', ''k'', ''c'', ''chanid'']"

fun add_fields :: "field_map \<Rightarrow> string \<Rightarrow> cpp_error + string" where
  "add_fields [] msg = Inr msg"
| "add_fields ((key, v) # kv) msg =
    (if key \<in> set reserved_keys then Inl RuntimeError
     else add_fields kv (msg @ ''|'' @ key @ '':'' @ encode_value v))"

definition gossip_fields :: "CommandType \<Rightarrow> field_map \<Rightarrow> cpp_error + string" where
  "gossip_fields cmd kv = add_fields kv (''c'' @ '':'' @ to_string (cmd_code cmd))"

definition removeNullTerminators :: "string \<Rightarrow> string" where
  "removeNullTerminators s = filter (\<lambda>c. c \<noteq> CHR 0x00) s"

text \<open>\<^verbatim>\<open>gossip(channelId, msg, isMayday)\<close>: the message id, the key of the sending node and the time are appended to
  a new message; the text is put into the DHT under the nonce and \<^verbatim>\<open>g<nonce>\<close> is sent on the channel.  The result
  is the DHT entry and the packet.\<close>

definition gossip_msg :: "string \<Rightarrow> string \<Rightarrow> int \<Rightarrow> string \<Rightarrow> bool \<Rightarrow> string" where
  "gossip_msg guid node_id now msg isMayday =
    (let msg = (if isMayday then msg
                else msg @ ''|'' @ ''msgid'' @ '':'' @ guid @ ''|'' @ ''k'' @ '':'' @ node_id
                         @ ''|'' @ ''tm'' @ '':'' @ to_string now)
     in removeNullTerminators msg)"

definition gossip_packet :: "int \<Rightarrow> string" where
  "gossip_packet nonce = ''g'' @ to_string nonce"

text \<open>\<^verbatim>\<open>sendMessageWithRetry\<close>: \<open>oks\<close> are the outcomes of the successive publications; the result is the number of
  publications made and whether one succeeded.\<close>

fun sendMessageWithRetry :: "bool list \<Rightarrow> nat \<Rightarrow> nat \<times> bool" where
  "sendMessageWithRetry oks tries =
    (case oks of
       [] \<Rightarrow> (0, False)
     | ok # oks \<Rightarrow>
         if ok then (1, True)
         else if tries < 2 then (let (n, r) = sendMessageWithRetry oks (tries + 1) in (n + 1, r))
         else (1, False))"

section \<open>The registry of nodes\<close>

datatype NodeType = masterNode | verifierNode | storageNode

text \<open>\<^verbatim>\<open>static_cast<NodeType>(int)\<close>, again through a \<^verbatim>\<open>char\<close>.\<close>

definition node_type_of_int :: "int \<Rightarrow> NodeType option" where
  "node_type_of_int n =
    (let c = n mod 256
     in if c = 0 then Some masterNode else if c = 1 then Some verifierNode else if c = 2 then Some storageNode else None)"

text \<open>The type is \<open>None\<close> for a \<^verbatim>\<open>char\<close> that is no enumerator.\<close>

record BlockChainNode =
  node_key :: string
  node_uri :: string
  node_type :: "NodeType option"

type_synonym nodes_map = "(string \<times> BlockChainNode) list"

record registry =
  masterNodes :: nodes_map
  verifierNodes :: nodes_map
  storageNodes :: nodes_map
  verifierKeys :: "string list"
  storageKeys :: "string list"

text \<open>The payload of \<^verbatim>\<open>syncNodes\<close>, as the three JSON objects it lists: their entries are sorted, whatever the order of the
  unordered maps they are filled from.\<close>

type_synonym sync_input = "nodes_map \<times> nodes_map \<times> nodes_map"

definition buildSyncNodesInput :: "registry \<Rightarrow> sync_input" where
  "buildSyncNodesInput r = (sorted_entries (masterNodes r), sorted_entries (verifierNodes r), sorted_entries (storageNodes r))"

text \<open>\<^verbatim>\<open>addNode\<close>; the second result is the message to a new master node.\<close>

definition addNode :: "string \<Rightarrow> string \<Rightarrow> NodeType option \<Rightarrow> registry \<Rightarrow> registry \<times> (string \<times> sync_input) option" where
  "addNode key uri type r =
    (case type of
       None \<Rightarrow> (r, None)
     | Some masterNode \<Rightarrow>
         (let r = r\<lparr>masterNodes := std_insert key \<lparr>node_key = key, node_uri = uri, node_type = Some masterNode\<rparr> (masterNodes r)\<rparr>
          in (r, Some (key, buildSyncNodesInput r)))
     | Some verifierNode \<Rightarrow>
         (r\<lparr>verifierNodes := std_insert key \<lparr>node_key = key, node_uri = uri, node_type = Some verifierNode\<rparr> (verifierNodes r),
            verifierKeys := verifierKeys r @ [key]\<rparr>, None)
     | Some storageNode \<Rightarrow>
         (r\<lparr>storageNodes := std_insert key \<lparr>node_key = key, node_uri = uri, node_type = Some storageNode\<rparr> (storageNodes r),
            storageKeys := storageKeys r @ [key]\<rparr>, None))"

text \<open>\<^verbatim>\<open>syncNodes\<close> of the receiving master node.\<close>

definition sync_nodes :: "sync_input \<Rightarrow> registry \<Rightarrow> registry" where
  "sync_nodes d r =
    (let (mj, vj, sj) = d;
         r = fold (\<lambda>(k, n) r. r\<lparr>masterNodes := std_insert k n (masterNodes r)\<rparr>) mj r;
         r = fold (\<lambda>(k, n) r. r\<lparr>verifierNodes := std_insert k n (verifierNodes r), verifierKeys := verifierKeys r @ [k]\<rparr>) vj r
     in fold (\<lambda>(k, n) r. r\<lparr>storageNodes := std_insert k n (storageNodes r), storageKeys := storageKeys r @ [k]\<rparr>) sj r)"

definition getNumberOfStorageNodes :: "registry \<Rightarrow> nat" where
  "getNumberOfStorageNodes r = length (storageNodes r)"

definition getNumberOfVerifiers :: "registry \<Rightarrow> nat" where
  "getNumberOfVerifiers r = length (verifierNodes r)"

text \<open>A reference to a temporary is returned when there is no such key.\<close>

definition getStorageNodeKey :: "registry \<Rightarrow> nat \<Rightarrow> cpp_error + string" where
  "getStorageNodeKey r n = (if n + 1 \<le> length (storageKeys r) then Inr (storageKeys r ! n) else Inl Undefined)"

definition getVerifierNodeKey :: "registry \<Rightarrow> nat \<Rightarrow> cpp_error + string" where
  "getVerifierNodeKey r n = (if n < length (verifierKeys r) then Inr (verifierKeys r ! n) else Inl Undefined)"

section \<open>Receiving\<close>

text \<open>\<^verbatim>\<open>dataHandler\<close>: only a packet \<^verbatim>\<open>g<nonce>\<close> leads anywhere; \<open>dht\<close> is what the DHT returns under a key, the
  empty string for nothing.\<close>

definition dataHandler :: "(string \<Rightarrow> string) \<Rightarrow> string \<Rightarrow> string option" where
  "dataHandler dht msg =
    (if msg = [] then None
     else if hd msg = CHR ''g'' then
       (let nonce = tl msg; data = dht nonce
        in if data = [] then None else Some (data @ ''|nonce:'' @ nonce))
     else None)"

record comm_state =
  processedMessages :: "string set"
  nodes :: registry

datatype incoming_result =
    OwnMessage | OldMessage | DuplicateMessage | ConnectionAccepted "(string \<times> sync_input) option"
  | Dispatch CommandType field_map | NoHandler | Failed cpp_error

text \<open>What is sent back on the web socket: the recipient, the reference id and the client's transaction id.\<close>

type_synonym ws_ack = "string \<times> string \<times> string"

definition attempt :: "'s \<Rightarrow> cpp_error + 'a \<Rightarrow> ('a \<Rightarrow> 's \<times> 'o list \<times> incoming_result) \<Rightarrow> 's \<times> 'o list \<times> incoming_result" where
  "attempt st r k = (case r of Inl e \<Rightarrow> (st, [], Failed e) | Inr x \<Rightarrow> k x)"

definition after_output :: "'o \<Rightarrow> 's \<times> 'o list \<times> incoming_result \<Rightarrow> 's \<times> 'o list \<times> incoming_result" where
  "after_output x r = (case r of (st, outs, res) \<Rightarrow> (st, x # outs, res))"

text \<open>The tail of \<^verbatim>\<open>processIncomingData\<close>, once a message is accepted.\<close>

definition dispatch ::
    "CommandType set \<Rightarrow> string \<Rightarrow> bool \<Rightarrow> comm_state \<Rightarrow> field_map \<Rightarrow> comm_state \<times> ws_ack list \<times> incoming_result" where
  "dispatch handlers key fromWebSocket st theFields =
    (let theFields = std_insert ''ws'' (if fromWebSocket then ''1'' else ''0'') theFields
     in attempt st (std_at theFields ''c'') (\<lambda>c.
          let cmd = cmd_of_int (atoi c);
              theFields = std_insert ''k'' key theFields
          in if cmd = Some connectionRequest then
               attempt st (std_at theFields ''k'') (\<lambda>nodeKey.
               attempt st (std_at theFields ''t'') (\<lambda>t.
               attempt st (std_at theFields ''u'') (\<lambda>uri.
                 let (r, out) = addNode nodeKey uri (node_type_of_int (atoi t)) (nodes st)
                 in (st\<lparr>nodes := r\<rparr>, [], ConnectionAccepted out))))
             else
               (case cmd of
                  None \<Rightarrow> (st, [], NoHandler)
                | Some cmd \<Rightarrow> if cmd \<in> handlers then (st, [], Dispatch cmd theFields) else (st, [], NoHandler))))"

definition processIncomingData ::
    "int \<Rightarrow> string \<Rightarrow> CommandType set \<Rightarrow> (string \<Rightarrow> string) \<Rightarrow> string \<Rightarrow> comm_state \<Rightarrow> string \<Rightarrow> string \<Rightarrow> int \<Rightarrow> bool \<Rightarrow>
     comm_state \<times> ws_ack list \<times> incoming_result" where
  "processIncomingData appStartupTime node_id handlers infohash guid st data key timestamp fromWebSocket =
    attempt st (getFieldsAndValues data) (\<lambda>theFields.
    attempt st (if fromWebSocket then Inr [] else std_at theFields ''k'') (\<lambda>k.
      if \<not> fromWebSocket \<and> k = node_id then (st, [], OwnMessage)
      else
        attempt st (case map_of theFields ''tm'' of
                  Some tm \<Rightarrow> map_sum id (\<lambda>t. (t, theFields)) (stoll tm)
                | None \<Rightarrow> Inr (timestamp, std_insert ''tm'' (to_string timestamp) theFields)) (\<lambda>(timestamp, theFields).
          if appStartupTime > timestamp then (st, [], OldMessage)
          else if \<not> fromWebSocket then
            attempt st (std_at theFields ''msgid'') (\<lambda>messageId.
              if messageId \<in> processedMessages st then (st, [], DuplicateMessage)
              else dispatch handlers key fromWebSocket
                     (st\<lparr>processedMessages := insert messageId (processedMessages st)\<rparr>) theFields)
          else
            attempt st (std_at theFields ''tm'') (\<lambda>tm.
            attempt st (std_at theFields ''txid'') (\<lambda>txid.
              let refId = infohash (key @ guid @ tm);
                  theFields = std_set ''utxid'' txid theFields;
                  theFields = std_set ''txid'' refId theFields
              in attempt st (std_at theFields ''utxid'') (\<lambda>utxid.
                   after_output (key, refId, utxid) (dispatch handlers key fromWebSocket st theFields)))))))"

section \<open>Encoding of values\<close>

abbreviation esc :: "char \<Rightarrow> string \<Rightarrow> string \<Rightarrow> string" where
  "esc d p s \<equiv> concat (map (\<lambda>c. if c = d then p else [c]) s)"

text \<open>An escape starts with a percent sign and goes on with characters that are neither percent signs nor
  delimiters.\<close>

definition escape :: "string \<Rightarrow> bool" where
  "escape p \<longleftrightarrow> (\<exists>a b. p = [CHR ''%'', a, b] \<and> a \<notin> {CHR ''%'', CHR '':'', CHR ''|''} \<and> b \<notin> {CHR ''%'', CHR '':'', CHR ''|''})"

lemma escapes: "escape ''%3A''" "escape ''%7C''"
  by (simp_all add: escape_def)

lemma starts_with_Cons [simp]: "starts_with (a # p) (c # s) \<longleftrightarrow> a = c \<and> starts_with p s" "starts_with (a # p) [] = False"
  "starts_with [] s"
  by (auto simp: starts_with_def)

lemma esc_starts:
  assumes "escape q" and "d \<in> {CHR '':'', CHR ''|''}" and "a \<notin> {CHR ''%'', CHR '':'', CHR ''|''}"
  shows "starts_with (a # p) (esc d q s) \<longleftrightarrow> (\<exists>t. s = a # t \<and> starts_with p (esc d q t))"
  using assms by (cases s) (auto simp: escape_def)

text \<open>Escaping one delimiter neither creates nor destroys an occurrence of an escape outside the text it inserts.\<close>

lemma esc_starts_escape:
  assumes "escape p" and "escape q" and "d \<in> {CHR '':'', CHR ''|''}" and "c \<noteq> d"
  shows "starts_with p (c # esc d q s) \<longleftrightarrow> starts_with p (c # s)"
proof -
  obtain a b where p: "p = [CHR ''%'', a, b]" and ab: "a \<notin> {CHR ''%'', CHR '':'', CHR ''|''}" "b \<notin> {CHR ''%'', CHR '':'', CHR ''|''}"
    using assms(1) by (auto simp: escape_def)
  have "starts_with [a, b] (esc d q s) \<longleftrightarrow> starts_with [a, b] s"
    using esc_starts [OF assms(2,3) ab(1), of "[b]" s] esc_starts [OF assms(2,3) ab(2), of "[]"]
    by (cases s; cases "tl s") auto
  then show ?thesis by (simp add: p)
qed


lemma unescape:
  assumes "escape p" and "d \<in> {CHR '':'', CHR ''|''}" and "\<not> occurs_in p s"
  shows "replace_all p [d] (esc d p s) = s"
  using assms(3)
proof (induction s)
  case (Cons c cs)
  have p: "p \<noteq> []" using assms(1) by (auto simp: escape_def)
  show ?case
  proof (cases "c = d")
    case True
    with Cons show ?thesis by (simp add: replace_all_match [OF p])
  next
    case False
    then have "\<not> starts_with p (c # esc d p cs)"
      using Cons.prems esc_starts_escape [OF assms(1,1,2)] by simp
    with False Cons show ?thesis by (simp add: replace_all_no_match [OF p])
  qed
qed simp

lemma occurs_esc:
  assumes "escape p" and "escape q" and "p \<noteq> q" and "d \<in> {CHR '':'', CHR ''|''}" and "\<not> occurs_in p s"
  shows "\<not> occurs_in p (esc d q s)"
  using assms(5)
proof (induction s)
  case (Cons c cs)
  obtain a b where p: "p = [CHR ''%'', a, b]" using assms(1) by (auto simp: escape_def)
  obtain a' b' where q: "q = [CHR ''%'', a', b']" "a' \<noteq> CHR ''%''" "b' \<noteq> CHR ''%''" using assms(2) by (auto simp: escape_def)
  show ?case
  proof (cases "c = d")
    case True
    then show ?thesis using Cons assms(3) by (auto simp: p q)
  next
    case False
    then show ?thesis using Cons esc_starts_escape [OF assms(1,2,4) False] by simp
  qed
qed simp

lemma esc_swap: "esc CHR ''|'' ''%7C'' (esc CHR '':'' ''%3A'' v) = esc CHR '':'' ''%3A'' (esc CHR ''|'' ''%7C'' v)"
  by (induction v) auto

lemma encode_value_esc: "encode_value v = esc CHR ''|'' ''%7C'' (esc CHR '':'' ''%3A'' v)"
  by (simp add: encode_value_def replace_char_concat)

lemma decode_encode:
  assumes "\<not> occurs_in ''%3A'' v" and "\<not> occurs_in ''%7C'' v"
  shows "decode_value (encode_value v) = v"
proof -
  have "\<not> occurs_in ''%3A'' (esc CHR ''|'' ''%7C'' v)"
    by (rule occurs_esc [OF escapes]) (use assms in simp_all)
  then have "replace_all ''%3A'' '':'' (encode_value v) = esc CHR ''|'' ''%7C'' v"
    unfolding encode_value_esc esc_swap by (intro unescape escapes) simp_all
  moreover have "replace_all ''%7C'' ''|'' (esc CHR ''|'' ''%7C'' v) = v"
    by (intro unescape escapes assms(2)) simp_all
  ultimately show ?thesis by (simp add: decode_value_def)
qed

lemma encode_value_clean: "CHR '':'' \<notin> set (encode_value v)" "CHR ''|'' \<notin> set (encode_value v)"
  by (auto simp: encode_value_esc split: if_splits)

lemma encode_value_chars: "c \<in> set (encode_value v) \<Longrightarrow> c \<in> set v \<union> set ''%3A7C''"
  by (auto simp: encode_value_esc split: if_splits)

section \<open>Parsing what was printed\<close>

definition field_ok :: "string \<times> string \<Rightarrow> bool" where
  "field_ok = (\<lambda>(k, v). CHR '':'' \<notin> set k \<and> CHR ''|'' \<notin> set k \<and> CHR 0x00 \<notin> set k \<and> CHR 0x00 \<notin> set v \<and>
     \<not> occurs_in ''%3A'' v \<and> \<not> occurs_in ''%7C'' v)"

definition print_field :: "string \<times> string \<Rightarrow> string" where
  "print_field = (\<lambda>(k, v). k @ '':'' @ encode_value v)"

lemma split_fields:
  "\<forall>p \<in> set (x # ps). CHR ''|'' \<notin> set p \<Longrightarrow> split_at CHR ''|'' (x @ concat (map (\<lambda>p. CHR ''|'' # p) ps)) = x # ps"
proof (induction ps arbitrary: x)
  case Nil
  then show ?case by (simp add: split_at_id)
next
  case (Cons p ps)
  then show ?case using Cons.IH [of p] by (simp add: split_at_append)
qed

lemma parse_fields:
  assumes "\<forall>e \<in> set kv. field_ok e" and "distinct (map fst (m @ kv))"
  shows "parse_pairs (map print_field kv) m = Inr (m @ kv)"
  using assms
proof (induction kv arbitrary: m)
  case (Cons e kv)
  obtain k v where e: "e = (k, v)" by force
  have "split_at CHR '':'' (print_field e) = [k, encode_value v]"
    using Cons.prems(1) encode_value_clean(1) by (simp add: e field_ok_def print_field_def split_at_pair)
  moreover have "decode_value (encode_value v) = v"
    using Cons.prems(1) by (intro decode_encode) (simp_all add: e field_ok_def)
  moreover have "std_insert k v m = m @ [(k, v)]"
    using Cons.prems(2) by (auto simp: e std_insert_def map_of_eq_None_iff)
  ultimately show ?case using Cons.IH [of "m @ [(k, v)]"] Cons.prems by (simp add: e)
qed simp

lemma print_field_clean: "field_ok e \<Longrightarrow> CHR ''|'' \<notin> set (print_field e)"
  using encode_value_clean(2) by (auto simp: field_ok_def print_field_def)

lemma parse_printed:
  assumes "\<forall>e \<in> set (e0 # kv). field_ok e" and "distinct (map fst (e0 # kv))"
  shows "getFieldsAndValues (print_field e0 @ concat (map (\<lambda>e. CHR ''|'' # print_field e) kv)) = Inr (e0 # kv)"
proof -
  have "split_at CHR ''|'' (print_field e0 @ concat (map (\<lambda>p. CHR ''|'' # p) (map print_field kv))) = map print_field (e0 # kv)"
    using split_fields [of "print_field e0" "map print_field kv"] print_field_clean assms(1) by auto
  then show ?thesis
    using parse_fields [of "e0 # kv" "[]"] assms by (simp add: getFieldsAndValues_def comp_def)
qed

text \<open>The text \<^verbatim>\<open>gossip\<close> builds.\<close>

lemma add_fields_eq:
  "\<forall>e \<in> set kv. fst e \<notin> set reserved_keys \<Longrightarrow> add_fields kv msg = Inr (msg @ concat (map (\<lambda>e. CHR ''|'' # print_field e) kv))"
  by (induction kv arbitrary: msg) (auto simp: print_field_def)

lemma add_fields_reserved: "\<exists>e \<in> set kv. fst e \<in> set reserved_keys \<Longrightarrow> add_fields kv msg = Inl RuntimeError"
  by (induction kv arbitrary: msg) force+

lemma starts_with_occurs: "occurs_in p s \<Longrightarrow> p \<noteq> [] \<Longrightarrow> hd p \<in> set s"
  by (induction s) (auto simp: starts_with_def hd_append2 split: list.splits dest: arg_cong [where f = hd])

lemma plain_value: "CHR ''%'' \<notin> set v \<Longrightarrow> \<not> occurs_in ''%3A'' v \<and> \<not> occurs_in ''%7C'' v"
  using starts_with_occurs [of "''%3A''" v] starts_with_occurs [of "''%7C''" v] by auto

lemma encode_plain: "CHR '':'' \<notin> set v \<Longrightarrow> CHR ''|'' \<notin> set v \<Longrightarrow> encode_value v = v"
proof (induction v)
  case Nil
  then show ?case by (simp add: encode_value_esc)
next
  case (Cons c v)
  then show ?case by (auto simp: encode_value_esc)
qed

text \<open>Ids and numbers: letters, digits and signs only.\<close>

definition plain :: "string \<Rightarrow> bool" where
  "plain v \<longleftrightarrow> list_all (\<lambda>c. c \<notin> {CHR '':'', CHR ''|'', CHR ''%'', CHR 0x00}) v"

lemma plain_to_string: "plain (to_string x)"
proof -
  have "c \<notin> {CHR '':'', CHR ''|'', CHR ''%'', CHR 0x00}" if "c \<in> set (to_string x)" for c
    using set_to_string [OF that] by (auto simp: is_digit_def)
  then show ?thesis by (simp add: plain_def list_all_iff)
qed

lemma plain_field: "plain k \<Longrightarrow> plain v \<Longrightarrow> field_ok (k, v)" "plain v \<Longrightarrow> encode_value v = v"
  using plain_value [of v] encode_plain [of v] by (auto simp: field_ok_def plain_def list_all_iff)


section \<open>A message from one node to another\<close>

lemma remove_null_id: "CHR 0x00 \<notin> set s \<Longrightarrow> removeNullTerminators s = s"
  unfolding removeNullTerminators_def by (rule filter_True) auto

definition message_fields :: "CommandType \<Rightarrow> field_map \<Rightarrow> string \<Rightarrow> string \<Rightarrow> int \<Rightarrow> field_map" where
  "message_fields cmd kv guid node_id now =
    (''c'', to_string (cmd_code cmd)) # kv @ [(''msgid'', guid), (''k'', node_id), (''tm'', to_string now)]"

definition sendable :: "field_map \<Rightarrow> string \<Rightarrow> string \<Rightarrow> bool" where
  "sendable kv guid node_id \<longleftrightarrow> list_all field_ok kv \<and> distinct (map fst kv) \<and>
     list_all (\<lambda>e. fst e \<notin> {''c'', ''msgid'', ''k'', ''tm'', ''chanid'', ''ws''}) kv \<and> plain guid \<and> plain node_id"

lemma message_fields_ok:
  assumes "sendable kv guid node_id"
  shows "\<forall>e \<in> set (message_fields cmd kv guid node_id now). field_ok e"
    and "distinct (map fst (message_fields cmd kv guid node_id now))"
proof -
  have "plain ''c''" "plain ''msgid''" "plain ''k''" "plain ''tm''" by (simp_all add: plain_def)
  then show "\<forall>e \<in> set (message_fields cmd kv guid node_id now). field_ok e"
    using assms by (auto simp: message_fields_def sendable_def list_all_iff plain_to_string intro!: plain_field(1))
  show "distinct (map fst (message_fields cmd kv guid node_id now))"
    using assms by (auto simp: message_fields_def sendable_def list_all_iff)
qed

lemma gossip_text:
  assumes "sendable kv guid node_id"
  shows "\<exists>msg. gossip_fields cmd kv = Inr msg \<and>
    gossip_msg guid node_id now msg False =
      (case message_fields cmd kv guid node_id now of e0 # es \<Rightarrow> print_field e0 @ concat (map (\<lambda>e. CHR ''|'' # print_field e) es))"
proof -
  let ?es = "message_fields cmd kv guid node_id now"
  let ?msg = "''c'' @ '':'' @ to_string (cmd_code cmd) @ concat (map (\<lambda>e. CHR ''|'' # print_field e) kv)"
  have e: "encode_value (to_string x) = to_string x" "encode_value guid = guid" "encode_value node_id = node_id" for x
    using assms by (simp_all add: plain_field(2) plain_to_string sendable_def)
  have r: "\<forall>e \<in> set kv. fst e \<notin> set reserved_keys"
    using assms by (auto simp: sendable_def list_all_iff reserved_keys_def)
  have body: "?msg @ ''|'' @ ''msgid'' @ '':'' @ guid @ ''|'' @ ''k'' @ '':'' @ node_id @ ''|'' @ ''tm'' @ '':'' @ to_string now =
      (case ?es of e0 # es \<Rightarrow> print_field e0 @ concat (map (\<lambda>e. CHR ''|'' # print_field e) es))" (is "?l = _")
    by (simp add: message_fields_def print_field_def e)
  have z: "CHR 0x00 \<notin> set (print_field e)" if "field_ok e" for e
    using that encode_value_chars [of "CHR 0x00" "snd e"] by (auto simp: field_ok_def print_field_def)
  have "CHR 0x00 \<notin> set ?l"
    unfolding body using message_fields_ok(1) [OF assms, of cmd now] z by (auto simp: message_fields_def)
  then have "removeNullTerminators ?l = ?l" by (rule remove_null_id)
  then show ?thesis
    using body add_fields_eq [OF r] by (intro exI [of _ ?msg]) (simp add: gossip_fields_def gossip_msg_def Let_def)
qed

lemma gossip_parsed:
  assumes "sendable kv guid node_id"
  shows "\<exists>msg. gossip_fields cmd kv = Inr msg \<and>
    getFieldsAndValues (gossip_msg guid node_id now msg False) = Inr (message_fields cmd kv guid node_id now)"
proof -
  obtain e0 es where es: "message_fields cmd kv guid node_id now = e0 # es" by (simp add: message_fields_def)
  from gossip_text [OF assms, of cmd now] parse_printed [of e0 es] message_fields_ok [OF assms, of cmd now]
  show ?thesis unfolding es by auto
qed

text \<open>The receiver fetches the text from the DHT and appends the nonce.\<close>

lemma gossip_received:
  assumes "sendable kv guid node_id" and "''nonce'' \<notin> fst ` set kv"
  shows "\<exists>msg. gossip_fields cmd kv = Inr msg \<and>
    getFieldsAndValues (gossip_msg guid node_id now msg False @ ''|nonce:'' @ to_string nonce) =
      Inr (message_fields cmd kv guid node_id now @ [(''nonce'', to_string nonce)])"
proof -
  let ?es = "message_fields cmd kv guid node_id now"
  obtain e0 es where es: "?es = e0 # es" by (simp add: message_fields_def)
  have n: "field_ok (''nonce'', to_string nonce)" "encode_value (to_string nonce) = to_string nonce"
    by (auto intro!: plain_field simp: plain_to_string) (simp add: plain_def)
  obtain msg where g: "gossip_fields cmd kv = Inr msg"
    "gossip_msg guid node_id now msg False = print_field e0 @ concat (map (\<lambda>e. CHR ''|'' # print_field e) es)"
    using gossip_text [OF assms(1), of cmd now] unfolding es by auto
  have "distinct (map fst (e0 # (es @ [(''nonce'', to_string nonce)])))"
    using message_fields_ok(2) [OF assms(1), of cmd now] assms(2) unfolding es [symmetric] append_Cons [symmetric]
    by (auto simp: message_fields_def)
  with parse_printed [of e0 "es @ [(''nonce'', to_string nonce)]"] message_fields_ok(1) [OF assms(1), of cmd now] n(1)
  have "getFieldsAndValues (print_field e0 @ concat (map (\<lambda>e. CHR ''|'' # print_field e) (es @ [(''nonce'', to_string nonce)]))) =
      Inr (e0 # es @ [(''nonce'', to_string nonce)])" unfolding es by auto
  then show ?thesis using g n(2) unfolding es by (simp add: print_field_def)
qed


section \<open>Delivery\<close>

lemma cmd_roundtrip: "cmd_of_int (cmd_code cmd) = Some cmd"
  by (cases cmd) (simp_all add: cmd_of_int_def command_types_def)

lemma std_insert_present: "map_of m k = Some w \<Longrightarrow> std_insert k v m = m"
  by (simp add: std_insert_def)

lemma map_of_append_None: "map_of m k = None \<Longrightarrow> map_of (m @ n) k = map_of n k"
  by (simp add: map_add_def)

lemma message_fields_lookup:
  assumes "sendable kv guid node_id"
  shows "map_of (message_fields cmd kv guid node_id now @ es) ''c'' = Some (to_string (cmd_code cmd))"
    "map_of (message_fields cmd kv guid node_id now @ es) ''msgid'' = Some guid"
    "map_of (message_fields cmd kv guid node_id now @ es) ''k'' = Some node_id"
    "map_of (message_fields cmd kv guid node_id now @ es) ''tm'' = Some (to_string now)"
    "map_of (message_fields cmd kv guid node_id now) ''ws'' = None"
proof -
  have n: "map_of kv f = None" if "f \<in> {''c'', ''msgid'', ''k'', ''tm'', ''chanid'', ''ws''}" for f
    using assms that by (auto simp: sendable_def list_all_iff map_of_eq_None_iff)
  show "map_of (message_fields cmd kv guid node_id now @ es) ''c'' = Some (to_string (cmd_code cmd))"
    by (simp add: message_fields_def)
  show "map_of (message_fields cmd kv guid node_id now @ es) ''msgid'' = Some guid"
    "map_of (message_fields cmd kv guid node_id now @ es) ''k'' = Some node_id"
    "map_of (message_fields cmd kv guid node_id now @ es) ''tm'' = Some (to_string now)"
    by (simp_all add: message_fields_def map_add_def n)
  show "map_of (message_fields cmd kv guid node_id now) ''ws'' = None"
    by (simp add: message_fields_def map_add_def n)
qed

lemma process_dispatches:
  assumes "getFieldsAndValues data = Inr fs" and "map_of fs ''k'' = Some sender" and "sender \<noteq> node_id"
    and "map_of fs ''tm'' = Some (to_string now)" and "appStartupTime \<le> now" and "- (2 ^ 63) \<le> now" and "now < 2 ^ 63"
    and "map_of fs ''msgid'' = Some guid" and "guid \<notin> processedMessages st" and "map_of fs ''ws'' = None"
    and "map_of fs ''c'' = Some (to_string (cmd_code cmd))" and "cmd \<in> handlers" and "cmd \<noteq> connectionRequest"
  shows "processIncomingData appStartupTime node_id handlers infohash ref st data [] 0 False =
    (st\<lparr>processedMessages := insert guid (processedMessages st)\<rparr>, [], Dispatch cmd (fs @ [(''ws'', ''0'')]))"
proof -
  have ws: "std_insert ''ws'' ''0'' fs = fs @ [(''ws'', ''0'')]" using assms(10) by (simp add: std_insert_def)
  have "dispatch handlers [] False st' fs = (st', [], Dispatch cmd (fs @ [(''ws'', ''0'')]))" for st'
    using assms(2,10-13) by (simp add: dispatch_def ws attempt_def std_at_def map_add_def atoi_to_string cmd_roundtrip std_insert_def Let_def)
  then show ?thesis
    using assms(1-9) by (simp add: processIncomingData_def attempt_def std_at_def stoll_to_string)
qed

lemma process_duplicate:
  assumes "getFieldsAndValues data = Inr fs" and "map_of fs ''k'' = Some sender" and "sender \<noteq> node_id"
    and "map_of fs ''tm'' = Some (to_string now)" and "appStartupTime \<le> now" and "- (2 ^ 63) \<le> now" and "now < 2 ^ 63"
    and "map_of fs ''msgid'' = Some guid" and "guid \<in> processedMessages st"
  shows "processIncomingData appStartupTime node_id handlers infohash ref st data [] 0 False = (st, [], DuplicateMessage)"
  using assms by (simp add: processIncomingData_def attempt_def std_at_def stoll_to_string)

lemma gossip_delivered:
  assumes s: "sendable kv guid sender" and n: "''nonce'' \<notin> fst ` set kv" and "sender \<noteq> node_id"
    and "guid \<notin> processedMessages st" and h: "cmd \<in> handlers" "cmd \<noteq> connectionRequest"
    and t: "appStartupTime \<le> now" "- (2 ^ 63) \<le> now" "now < 2 ^ 63"
  shows "\<exists>msg. gossip_fields cmd kv = Inr msg \<and>
    processIncomingData appStartupTime node_id handlers infohash ref st
      (gossip_msg guid sender now msg False @ ''|nonce:'' @ to_string nonce) [] 0 False =
      (st\<lparr>processedMessages := insert guid (processedMessages st)\<rparr>, [],
       Dispatch cmd (message_fields cmd kv guid sender now @ [(''nonce'', to_string nonce), (''ws'', ''0'')]))"
proof -
  let ?fs = "message_fields cmd kv guid sender now @ [(''nonce'', to_string nonce)]"
  obtain msg where g: "gossip_fields cmd kv = Inr msg"
    "getFieldsAndValues (gossip_msg guid sender now msg False @ ''|nonce:'' @ to_string nonce) = Inr ?fs"
    using gossip_received [OF s n, of cmd now nonce] by blast
  note l = message_fields_lookup [OF s, of cmd now]
  have ws: "map_of ?fs ''ws'' = None" using l(5) by (simp add: map_add_def)
  from process_dispatches [OF g(2) l(3) assms(3) l(4) t l(2) assms(4) ws l(1) h] g(1) show ?thesis
    by (intro exI [of _ msg]) simp
qed

section \<open>At most once\<close>

text \<open>A receiver that remembers the keys it has accepted: over any sequence of inputs the accepted keys are distinct,
  and none of them was known at the start.\<close>

locale at_most_once =
  fixes step :: "'s \<Rightarrow> 'm \<Rightarrow> 's \<times> 'r" and ok :: "'s \<Rightarrow> bool" and seen :: "'s \<Rightarrow> 'k set" and accepted :: "'r \<Rightarrow> 'k option"
  assumes step_ok: "ok s \<Longrightarrow> step s m = (s', r) \<Longrightarrow> ok s'"
    and step_mono: "ok s \<Longrightarrow> step s m = (s', r) \<Longrightarrow> seen s \<subseteq> seen s'"
    and step_accepts: "ok s \<Longrightarrow> step s m = (s', r) \<Longrightarrow> accepted r = Some k \<Longrightarrow> k \<notin> seen s \<and> k \<in> seen s'"
begin

fun run :: "'s \<Rightarrow> 'm list \<Rightarrow> 's \<times> 'r list" where
  "run s [] = (s, [])"
| "run s (m # ms) = (let (s, r) = step s m; (s, rs) = run s ms in (s, r # rs))"

lemma run_fresh: "ok s \<Longrightarrow> run s ms = (s', rs) \<Longrightarrow> k \<in> set (List.map_filter accepted rs) \<Longrightarrow> k \<notin> seen s"
proof (induction ms arbitrary: s rs)
  case Nil
  then show ?case by (simp add: map_filter_simps)
next
  case (Cons m ms)
  obtain s1 r rs' where st: "step s m = (s1, r)" and rn: "run s1 ms = (s', rs')" and rs: "rs = r # rs'"
    using Cons.prems(2) by (auto split: prod.splits)
  show ?case
  proof (cases "accepted r = Some k")
    case True
    then show ?thesis using step_accepts [OF Cons.prems(1) st] by blast
  next
    case False
    then have "k \<in> set (List.map_filter accepted rs')" using Cons.prems(3) by (auto simp: rs map_filter_simps split: option.splits)
    then show ?thesis using Cons.IH [OF step_ok [OF Cons.prems(1) st] rn] step_mono [OF Cons.prems(1) st] by blast
  qed
qed

lemma run_distinct: "ok s \<Longrightarrow> run s ms = (s', rs) \<Longrightarrow> distinct (List.map_filter accepted rs)"
proof (induction ms arbitrary: s rs)
  case Nil
  then show ?case by (simp add: map_filter_simps)
next
  case (Cons m ms)
  obtain s1 r rs' where st: "step s m = (s1, r)" and rn: "run s1 ms = (s', rs')" and rs: "rs = r # rs'"
    using Cons.prems(2) by (auto split: prod.splits)
  note ok1 = step_ok [OF Cons.prems(1) st]
  have "k \<notin> set (List.map_filter accepted rs')" if "accepted r = Some k" for k
    using run_fresh [OF ok1 rn, of k] step_accepts [OF Cons.prems(1) st that] by blast
  with Cons.IH [OF ok1 rn] show ?case by (simp add: rs map_filter_simps split: option.split)
qed

lemma run_results:
  assumes "\<And>s m s' r. ok s \<Longrightarrow> step s m = (s', r) \<Longrightarrow> P r"
  shows "ok s \<Longrightarrow> run s ms = (s', rs) \<Longrightarrow> list_all P rs"
proof (induction ms arbitrary: s rs)
  case (Cons m ms)
  obtain s1 r rs' where st: "step s m = (s1, r)" and rn: "run s1 ms = (s', rs')" and rs: "rs = r # rs'"
    using Cons.prems(2) by (auto split: prod.splits)
  then show ?case using assms [OF Cons.prems(1) st] Cons.IH [OF step_ok [OF Cons.prems(1) st] rn] by simp
qed simp

lemma run_invariant:
  assumes "\<And>s m s' r. I s \<Longrightarrow> step s m = (s', r) \<Longrightarrow> I s'"
  shows "I s \<Longrightarrow> run s ms = (s', rs) \<Longrightarrow> I s'"
  by (induction ms arbitrary: s rs) (auto split: prod.splits dest: assms)

end

text \<open>The receiving side of gossip as such a receiver: the key is the message id of a dispatched message.\<close>

definition receive ::
    "int \<Rightarrow> string \<Rightarrow> CommandType set \<Rightarrow> comm_state \<Rightarrow> string \<Rightarrow> comm_state \<times> incoming_result" where
  "receive appStartupTime node_id handlers st data =
    (case processIncomingData appStartupTime node_id handlers (\<lambda>x. x) [] st data [] 0 False of (st, _, r) \<Rightarrow> (st, r))"

definition dispatched_id :: "incoming_result \<Rightarrow> string option" where
  "dispatched_id r = (case r of Dispatch cmd fs \<Rightarrow> map_of fs ''msgid'' | _ \<Rightarrow> None)"

lemma dispatch_result:
  "dispatch handlers key ws st fs = (st', outs, r) \<Longrightarrow>
    processedMessages st' = processedMessages st \<and> (dispatched_id r = None \<or> dispatched_id r = map_of fs ''msgid'')"
  by (auto simp: dispatch_def attempt_def Let_def dispatched_id_def map_of_std_insert split: sum.splits if_splits option.splits prod.splits)

text \<open>A gossip message either leaves the state alone and is not dispatched, or has a new id and is handed on.\<close>

lemma receive_cases:
  assumes "processIncomingData a n h ih ref st d key t False = (st', outs, r)"
  obtains (stop) "st' = st" and "dispatched_id r = None"
    | (go) fs m where "map_of fs ''msgid'' = Some m" and "m \<notin> processedMessages st"
        and "dispatch h key False (st\<lparr>processedMessages := insert m (processedMessages st)\<rparr>) fs = (st', outs, r)"
proof (cases "getFieldsAndValues d")
  case (Inl e)
  with assms show ?thesis by (intro stop) (auto simp: processIncomingData_def attempt_def dispatched_id_def)
next
  case f: (Inr fs)
  let ?tm = "case map_of fs ''tm'' of Some tm \<Rightarrow> map_sum id (\<lambda>t. (t, fs)) (stoll tm) | None \<Rightarrow> Inr (t, std_insert ''tm'' (to_string t) fs)"
  consider (early) "st' = st" "r \<in> {OwnMessage, OldMessage, DuplicateMessage} \<or> (\<exists>e. r = Failed e)"
    | (late) t' fs' m where "?tm = Inr (t', fs')" "std_at fs' ''msgid'' = Inr m" "m \<notin> processedMessages st"
        "dispatch h key False (st\<lparr>processedMessages := insert m (processedMessages st)\<rparr>) fs' = (st', outs, r)"
    using assms unfolding processIncomingData_def f attempt_def
    by (cases "std_at fs ''k''"; cases ?tm) (auto split: if_splits sum.splits)
  then show ?thesis
  proof cases
    case early
    then show ?thesis by (intro stop) (auto simp: dispatched_id_def)
  next
    case late
    then show ?thesis by (intro go [of fs' m]) (auto simp: std_at_def split: option.splits)
  qed
qed

lemma receive_step:
  assumes "receive a n h st d = (st', r)"
  shows "processedMessages st \<subseteq> processedMessages st'"
    and "dispatched_id r = Some k \<Longrightarrow> k \<notin> processedMessages st \<and> k \<in> processedMessages st'"
proof -
  obtain outs where p: "processIncomingData a n h (\<lambda>x. x) [] st d [] 0 False = (st', outs, r)"
    using assms by (auto simp: receive_def split: prod.splits)
  from p show "processedMessages st \<subseteq> processedMessages st'"
  proof (cases rule: receive_cases)
    case (go fs m)
    then show ?thesis using dispatch_result [OF go(3)] by auto
  qed simp
  from p show "k \<notin> processedMessages st \<and> k \<in> processedMessages st'" if k: "dispatched_id r = Some k"
  proof (cases rule: receive_cases)
    case (go fs m)
    then show ?thesis using dispatch_result [OF go(3)] k by auto
  qed (use k in simp)
qed

interpretation gossip_receiver: at_most_once "receive a n h" "\<lambda>_. True" processedMessages dispatched_id for a n h
  by unfold_locales (use receive_step in blast)+

section \<open>The registry invariant\<close>

text \<open>One kind of node: the map holds nodes of that kind under their own keys, and the vector the random choice is made
  from lists exactly the keys of the map (possibly repeated).\<close>

definition kind_ok :: "NodeType \<Rightarrow> nodes_map \<Rightarrow> string list \<Rightarrow> bool" where
  "kind_ok t m ks \<longleftrightarrow> distinct (map fst m) \<and> set ks = fst ` set m \<and>
     list_all (\<lambda>(k, n). node_key n = k \<and> node_type n = Some t) m"

definition registry_ok :: "registry \<Rightarrow> bool" where
  "registry_ok r \<longleftrightarrow> kind_ok verifierNode (verifierNodes r) (verifierKeys r) \<and>
     kind_ok storageNode (storageNodes r) (storageKeys r)"

definition empty_registry :: registry where
  "empty_registry = \<lparr>masterNodes = [], verifierNodes = [], storageNodes = [], verifierKeys = [], storageKeys = []\<rparr>"

text \<open>The registries of the network: nodes connect, and a master node takes over the registry another one sends.\<close>

inductive registry_reachable :: "registry \<Rightarrow> bool" where
  reg_empty: "registry_reachable empty_registry"
| reg_connect: "registry_reachable r \<Longrightarrow> registry_reachable (fst (addNode key uri type r))"
| reg_sync: "registry_reachable r \<Longrightarrow> registry_reachable r' \<Longrightarrow> registry_reachable (sync_nodes (buildSyncNodesInput r') r)"

lemma kind_ok_insert:
  assumes "kind_ok t m ks" and "node_key n = k" and "node_type n = Some t"
  shows "kind_ok t (std_insert k n m) (ks @ [k])"
proof (cases "map_of m k")
  case None
  then have "k \<notin> fst ` set m" by (simp add: map_of_eq_None_iff)
  with None assms show ?thesis by (auto simp: kind_ok_def std_insert_def)
next
  case (Some n')
  then have "k \<in> fst ` set m" by (force dest: map_of_SomeD)
  with Some assms show ?thesis by (auto simp: kind_ok_def std_insert_def)
qed

lemma addNode_ok: "registry_ok r \<Longrightarrow> registry_ok (fst (addNode key uri type r))"
  by (auto simp: registry_ok_def addNode_def Let_def kind_ok_insert split: option.splits NodeType.splits)

lemma fold_masters:
  "registry_ok r \<Longrightarrow> registry_ok (fold (\<lambda>(k, n) r. r\<lparr>masterNodes := std_insert k n (masterNodes r)\<rparr>) ms r)"
  by (rule fold_invariant [where Q = "\<lambda>_. True"]) (auto simp: registry_ok_def)

lemma fold_verifiers:
  assumes "registry_ok r" and "kind_ok verifierNode vs ks"
  shows "registry_ok (fold (\<lambda>(k, n) r. r\<lparr>verifierNodes := std_insert k n (verifierNodes r), verifierKeys := verifierKeys r @ [k]\<rparr>) vs r)"
  by (rule fold_invariant [where Q = "\<lambda>e. e \<in> set vs"])
    (use assms in \<open>auto simp: registry_ok_def kind_ok_def [of _ vs] list_all_iff intro!: kind_ok_insert\<close>)

lemma fold_storages:
  assumes "registry_ok r" and "kind_ok storageNode vs ks"
  shows "registry_ok (fold (\<lambda>(k, n) r. r\<lparr>storageNodes := std_insert k n (storageNodes r), storageKeys := storageKeys r @ [k]\<rparr>) vs r)"
  by (rule fold_invariant [where Q = "\<lambda>e. e \<in> set vs"])
    (use assms in \<open>auto simp: registry_ok_def kind_ok_def [of _ vs] list_all_iff intro!: kind_ok_insert\<close>)

lemma kind_ok_sorted: "kind_ok t m ks \<Longrightarrow> kind_ok t (sorted_entries m) ks"
  using sorted_entries_set [of m] distinct_sorted_entries [of m] by (auto simp: kind_ok_def list_all_iff)

lemma sync_nodes_ok:
  assumes "registry_ok r" and "registry_ok r'"
  shows "registry_ok (sync_nodes (buildSyncNodesInput r') r)"
  using assms(2) fold_storages [OF fold_verifiers [OF fold_masters [OF assms(1)] kind_ok_sorted] kind_ok_sorted]
  unfolding sync_nodes_def buildSyncNodesInput_def Let_def registry_ok_def [of r'] by (auto split: prod.split)

lemma reachable_ok: "registry_reachable r \<Longrightarrow> registry_ok r"
proof (induction rule: registry_reachable.induct)
  case reg_empty
  then show ?case by (simp add: empty_registry_def registry_ok_def kind_ok_def)
qed (simp_all add: addNode_ok sync_nodes_ok)

lemma kind_ok_nth:
  assumes "kind_ok t m ks" and "n < length m"
  shows "n < length ks" and "\<exists>node. map_of m (ks ! n) = Some node \<and> node_key node = ks ! n \<and> node_type node = Some t"
proof -
  have "length m = card (set ks)" using assms(1) distinct_card [of "map fst m"] by (simp add: kind_ok_def)
  then show l: "n < length ks" using assms(2) card_length [of ks] by simp
  then have "ks ! n \<in> fst ` set m" using assms(1) nth_mem [OF l] by (simp add: kind_ok_def)
  then obtain node where "map_of m (ks ! n) = Some node" by (metis map_of_eq_None_iff not_Some_eq)
  moreover from this have "(ks ! n, node) \<in> set m" by (rule map_of_SomeD)
  ultimately show "\<exists>node. map_of m (ks ! n) = Some node \<and> node_key node = ks ! n \<and> node_type node = Some t"
    using assms(1) by (auto simp: kind_ok_def list_all_iff)
qed

text \<open>A processed message changes the registry only through \<^verbatim>\<open>addNode\<close>.\<close>

lemma dispatch_registry:
  "dispatch h key ws st fs = (st', outs, r) \<Longrightarrow> nodes st' = nodes st \<or> (\<exists>k u t. nodes st' = fst (addNode k u t (nodes st)))"
  by (simp add: dispatch_def attempt_def Let_def split: sum.splits if_splits option.splits prod.splits) (metis fst_conv comm_state.select_convs(2) comm_state.surjective comm_state.update_convs(2))+

lemma receive_registry:
  assumes "receive a n h st d = (st', r)" and "registry_reachable (nodes st)"
  shows "registry_reachable (nodes st')"
proof -
  obtain outs where p: "processIncomingData a n h (\<lambda>x. x) [] st d [] 0 False = (st', outs, r)"
    using assms by (auto simp: receive_def split: prod.splits)
  from p assms(2) show ?thesis
  proof (cases rule: receive_cases)
    case (go fs m)
    then show ?thesis using dispatch_registry [OF go(3)] assms(2) reg_connect by auto
  qed simp
qed

section \<open>Properties\<close>

text \<open>Claim (C8): a message that \<^verbatim>\<open>gossip\<close> sends is dispatched by its receiver with exactly the fields of the sender.
  For fields whose names contain no delimiter, whose values contain no NUL and no literal escape, and which use no
  reserved name: the text is built without an error; when the DHT returns it under the nonce, the notification packet
  leads \<^verbatim>\<open>dataHandler\<close> to it; and another node that has not seen the message id, was started before the message was
  sent and has a handler for the command runs that handler on the sent fields, extended by the nonce and the
  web-socket flag, and remembers the id.\<close>

theorem gossip_message_delivered:
  assumes "sendable kv guid sender" and "''nonce'' \<notin> fst ` set kv" and "sender \<noteq> node_id"
    and "guid \<notin> processedMessages st" and "cmd \<in> handlers" and "cmd \<noteq> connectionRequest"
    and "appStartupTime \<le> now" and "- (2 ^ 63) \<le> now" and "now < 2 ^ 63"
  shows "\<exists>msg data. gossip_fields cmd kv = Inr msg \<and>
    (\<forall>dht. dht (to_string nonce) = gossip_msg guid sender now msg False \<longrightarrow> dataHandler dht (gossip_packet nonce) = Some data) \<and>
    processIncomingData appStartupTime node_id handlers infohash ref st data [] 0 False =
      (st\<lparr>processedMessages := insert guid (processedMessages st)\<rparr>, [],
       Dispatch cmd (message_fields cmd kv guid sender now @ [(''nonce'', to_string nonce), (''ws'', ''0'')]))"
proof -
  obtain msg where m: "gossip_fields cmd kv = Inr msg"
    and p: "processIncomingData appStartupTime node_id handlers infohash ref st
        (gossip_msg guid sender now msg False @ ''|nonce:'' @ to_string nonce) [] 0 False =
      (st\<lparr>processedMessages := insert guid (processedMessages st)\<rparr>, [],
       Dispatch cmd (message_fields cmd kv guid sender now @ [(''nonce'', to_string nonce), (''ws'', ''0'')]))"
    using gossip_delivered [OF assms, of infohash ref nonce] by blast
  obtain msg' where m': "gossip_fields cmd kv = Inr msg'"
      "getFieldsAndValues (gossip_msg guid sender now msg' False) = Inr (message_fields cmd kv guid sender now)"
    using gossip_parsed [OF assms(1), of cmd now] by blast
  have "gossip_msg guid sender now msg False \<noteq> []"
    using m m' by (auto simp: getFieldsAndValues_def split_at.simps)
  with m p show ?thesis
    by (intro exI [of _ msg] exI [of _ "gossip_msg guid sender now msg False @ ''|nonce:'' @ to_string nonce"])
      (auto simp: dataHandler_def gossip_packet_def Let_def)
qed

theorem gossip_message_delivered_witness:
  "\<exists>msg data. gossip_fields codeDelivery [(''code'', ''x = {a: 1|2}'')] = Inr msg \<and>
    dataHandler (\<lambda>_. gossip_msg ''0af3'' ''n1'' 1500 msg False) (gossip_packet 17) = Some data \<and>
    processIncomingData 1000 ''n2'' {codeDelivery} (\<lambda>x. x) []
        \<lparr>processedMessages = {''77''}, nodes = empty_registry\<rparr> data [] 0 False =
      (\<lparr>processedMessages = {''0af3'', ''77''}, nodes = empty_registry\<rparr>, [],
       Dispatch codeDelivery (message_fields codeDelivery [(''code'', ''x = {a: 1|2}'')] ''0af3'' ''n1'' 1500 @
         [(''nonce'', to_string 17), (''ws'', ''0'')]))"
proof -
  have "sendable [(''code'', ''x = {a: 1|2}'')] ''0af3'' ''n1''"
    by (simp add: sendable_def field_ok_def plain_def starts_with_def)
  then show ?thesis
    using gossip_message_delivered [of "[(''code'', ''x = {a: 1|2}'')]" "''0af3''" "''n1''" "''n2''"
        "\<lparr>processedMessages = {''77''}, nodes = empty_registry\<rparr>" codeDelivery "{codeDelivery}" 1000 1500 17 "\<lambda>x. x" "[]"] by auto
qed

text \<open>Claim (C32): over any sequence of gossip texts, valid or not, a node hands each message id to a handler at most
  once, and never one it knew before; the node registry it builds stays one that connections alone produce.\<close>

theorem gossip_at_most_once:
  assumes "gossip_receiver.run appStartupTime node_id handlers st msgs = (st', results)"
  shows "distinct (List.map_filter dispatched_id results) \<and>
    set (List.map_filter dispatched_id results) \<inter> processedMessages st = {} \<and>
    (registry_reachable (nodes st) \<longrightarrow> registry_reachable (nodes st'))"
proof -
  have "registry_reachable (nodes st')" if "registry_reachable (nodes st)"
    by (rule gossip_receiver.run_invariant [where I = "\<lambda>st. registry_reachable (nodes st)", OF _ that assms])
      (erule (1) receive_registry [rotated])
  then show ?thesis using gossip_receiver.run_distinct [OF _ assms] gossip_receiver.run_fresh [OF _ assms] by blast
qed

theorem gossip_at_most_once_witness:
  "let msgs = [''c:2|msgid:a|k:n1|tm:5'', ''c:3|msgid:b|k:n1|tm:5'', ''c:2|msgid:a|k:n1|tm:5'', ''junk'']; st = \<lparr>processedMessages = {}, nodes = empty_registry\<rparr>
   in distinct (List.map_filter dispatched_id (snd (gossip_receiver.run 1 ''n2'' {codeDelivery, choseRandomNumber} st msgs)))"
  unfolding Let_def by (rule gossip_at_most_once [THEN conjunct1]) (rule prod.collapse [symmetric])

text \<open>In every registry that connections and synchronisations between master nodes produce, a random choice
  below the number of known verifiers (storage nodes) is a valid index and yields the key of a registered node of that
  kind, although reconnecting nodes leave repeated keys.\<close>

theorem registry_selection:
  assumes "registry_reachable r"
  shows "(\<forall>n < getNumberOfVerifiers r. \<exists>k node. getVerifierNodeKey r n = Inr k \<and> map_of (verifierNodes r) k = Some node \<and>
      node_key node = k \<and> node_type node = Some verifierNode) \<and>
    (\<forall>n < getNumberOfStorageNodes r. \<exists>k node. getStorageNodeKey r n = Inr k \<and> map_of (storageNodes r) k = Some node \<and>
      node_key node = k \<and> node_type node = Some storageNode)"
  using reachable_ok [OF assms] kind_ok_nth [of verifierNode "verifierNodes r" "verifierKeys r"]
    kind_ok_nth [of storageNode "storageNodes r" "storageKeys r"]
  by (auto simp: registry_ok_def getNumberOfVerifiers_def getNumberOfStorageNodes_def getVerifierNodeKey_def getStorageNodeKey_def Suc_le_eq)

theorem registry_selection_witness:
  "let r = fst (addNode ''v'' ''ws:1'' (Some verifierNode) (fst (addNode ''v'' ''ws:1'' (Some verifierNode) empty_registry)))
   in getNumberOfVerifiers r = 1 \<and> verifierKeys r = [''v'', ''v''] \<and> (\<exists>k node. getVerifierNodeKey r 0 = Inr k \<and>
     map_of (verifierNodes r) k = Some node \<and> node_key node = k \<and> node_type node = Some verifierNode)"
proof -
  let ?r = "fst (addNode ''v'' ''ws:1'' (Some verifierNode) (fst (addNode ''v'' ''ws:1'' (Some verifierNode) empty_registry)))"
  have "registry_reachable ?r" by (intro reg_connect reg_empty)
  moreover have "getNumberOfVerifiers ?r = 1" "verifierKeys ?r = [''v'', ''v'']"
    by (simp_all add: addNode_def empty_registry_def std_insert_def getNumberOfVerifiers_def)
  ultimately show ?thesis using registry_selection [of ?r] by (simp add: Let_def)
qed

text \<open>The encoding does not escape the percent sign, so a value that contains a literal escape arrives changed.\<close>

lemma escape_not_preserved: "decode_value (encode_value ''a%3Ab'') = ''a:b''"
  by code_simp

end
