(* ===== verification/Packets.thy ===== *)
theory Packets
  imports Message
begin

text \<open>
  Packets below the message level: reassembly of fragments (\<^verbatim>\<open>IncomingMessage.cpp\<close>), \<^verbatim>\<open>fragmentPacket\<close> and the
  header that \<^verbatim>\<open>compressString\<close> puts in front of compressed data (\<^verbatim>\<open>functions.cpp\<close>).  The zlib filters are
  parameters.  Times are milliseconds since the epoch, the epoch being the value of a default time point.
\<close>

section \<open>Incoming messages\<close>

record IncomingMessage =
  messages :: "string list"
  lastPacketIndex :: nat
  originator :: string
  howManyReceived :: nat
  numberOfMaydays :: int
  timeToWait :: int
  arrivalTime :: int
  lastPacketTime :: int

definition DEFAULT_WAIT_TIME :: int where
  "DEFAULT_WAIT_TIME = 1000"

definition incoming_default :: "int \<Rightarrow> IncomingMessage" where
  "incoming_default now = \<lparr>messages = [], lastPacketIndex = 0, originator = [], howManyReceived = 0, numberOfMaydays = 0,
     timeToWait = DEFAULT_WAIT_TIME, arrivalTime = now, lastPacketTime = 0\<rparr>"

text \<open>The two constructors; sizes are \<^verbatim>\<open>size_t\<close>.\<close>

definition incoming_of_fragments :: "int \<Rightarrow> string list \<Rightarrow> IncomingMessage" where
  "incoming_of_fragments now fragments =
    (incoming_default now)\<lparr>messages := fragments, lastPacketIndex := nat ((int (length fragments) - 1) mod 2 ^ 64),
       howManyReceived := length fragments\<rparr>"

definition incoming_of_size :: "int \<Rightarrow> nat \<Rightarrow> string \<Rightarrow> IncomingMessage" where
  "incoming_of_size now lastIndex orig =
    (incoming_default now)\<lparr>lastPacketIndex := lastIndex, originator := orig, messages := replicate ((lastIndex + 1) mod 2 ^ 64) []\<rparr>"

text \<open>\<^verbatim>\<open>find(':') + 1\<close> is 0 when there is no colon.\<close>

definition payload :: "string \<Rightarrow> string" where
  "payload s = (if CHR '':'' \<in> set s then tl (dropWhile (\<lambda>c. c \<noteq> CHR '':'') s) else s)"

definition add :: "int \<Rightarrow> nat \<Rightarrow> string \<Rightarrow> IncomingMessage \<Rightarrow> IncomingMessage \<times> string" where
  "add now index fragment im =
    (if length (messages im) \<le> index then (im, [])
     else if messages im ! index = [] then
       (let im = im\<lparr>messages := (messages im)[index := fragment], lastPacketTime := now,
                    timeToWait := DEFAULT_WAIT_TIME, numberOfMaydays := 0\<rparr>;
            im = im\<lparr>howManyReceived := howManyReceived im + 1\<rparr>
        in if lastPacketIndex im < howManyReceived im then (im, concat (map payload (messages im))) else (im, []))
     else (im, []))"

definition getSecondsElapsed :: "int \<Rightarrow> IncomingMessage \<Rightarrow> int" where
  "getSecondsElapsed now im = sgn (now - arrivalTime im) * (\<bar>now - arrivalTime im\<bar> div 1000)"

definition isMissing :: "IncomingMessage \<Rightarrow> bool" where
  "isMissing im \<longleftrightarrow> howManyReceived im \<le> lastPacketIndex im"

definition canSendMayday :: "int \<Rightarrow> IncomingMessage \<Rightarrow> IncomingMessage \<times> bool" where
  "canSendMayday now im =
    (if timeToWait im \<le> now - lastPacketTime im then
       (let im = im\<lparr>numberOfMaydays := numberOfMaydays im + 1\<rparr>
        in (im\<lparr>timeToWait := timeToWait im + DEFAULT_WAIT_TIME * numberOfMaydays im\<rparr>, True))
     else (im, False))"

fun mayday_loop :: "string list \<Rightarrow> int \<Rightarrow> string \<Rightarrow> string" where
  "mayday_loop [] index packet = packet"
| "mayday_loop (m # ms) index packet =
    mayday_loop ms (index + 1)
      (if m = [] then (if packet \<noteq> [] then packet @ '','' else packet) @ to_string index else packet)"

definition getMaydayPacket :: "IncomingMessage \<Rightarrow> string" where
  "getMaydayPacket im = mayday_loop (messages im) 0 []"

definition getSegmentAt :: "nat \<Rightarrow> IncomingMessage \<Rightarrow> string" where
  "getSegmentAt index im = (if length (messages im) \<le> index then [] else messages im ! index)"

section \<open>Fragments\<close>

definition two_digits :: "nat \<Rightarrow> string" where
  "two_digits n = (let s = to_string (int n) in if length s = 1 then ''0'' @ s else s)"

text \<open>The loop makes \<open>numPackets - currentPacket\<close> rounds; the first result is what is put into the DHT.\<close>

definition fragmentPacket :: "nat \<Rightarrow> string \<Rightarrow> (string \<times> string) option \<times> string list" where
  "fragmentPacket nonce packet =
    (let packetSize = 50;
         numPackets = length packet div packetSize + (if length packet mod packetSize \<noteq> 0 then 1 else 0)
     in if 1 < numPackets then (Some (to_string (int nonce), packet), [])
        else (None, map (\<lambda>currentPacket.
                to_string (int nonce) @ two_digits currentPacket @ two_digits (numPackets - 1) @ '':''
                  @ take packetSize (drop (currentPacket * packetSize) packet)) [0 ..< numPackets]))"

section \<open>Compressed strings\<close>

text \<open>The loop over the compressed bytes: positions of the NULs into the header, the other bytes into the rest.\<close>

fun strip_loop :: "string \<Rightarrow> int \<Rightarrow> string \<Rightarrow> string \<times> string" where
  "strip_loop [] position headers = (headers, [])"
| "strip_loop (c # cs) position headers =
    (if c = CHR 0x00 then
       strip_loop cs (position + 1) ((if headers \<noteq> [] then headers @ '','' else headers) @ to_string position)
     else (let (headers, rest) = strip_loop cs (position + 1) headers in (headers, c # rest)))"

definition compressString :: "(string \<Rightarrow> string) \<Rightarrow> string \<Rightarrow> string" where
  "compressString zlib_compress data =
    (let (headers, rest) = strip_loop (zlib_compress (removeNullTerminators data)) 0 [] in headers @ ''_'' @ rest)"

text \<open>\<^verbatim>\<open>insert\<close> at an iterator outside the string is undefined.\<close>

fun insert_nulls :: "string list \<Rightarrow> string \<Rightarrow> cpp_error + string" where
  "insert_nulls [] s = Inr s"
| "insert_nulls (p # ps) s =
    (case stoi p of
       Inl e \<Rightarrow> Inl e
     | Inr i \<Rightarrow> if 0 \<le> i \<and> i \<le> int (length s) then insert_nulls ps (take (nat i) s @ CHR 0x00 # drop (nat i) s)
               else Inl Undefined)"

definition decompressString :: "(string \<Rightarrow> cpp_error + string) \<Rightarrow> string \<Rightarrow> cpp_error + string" where
  "decompressString zlib_decompress data =
    (case split_at CHR ''_'' data of
       headers # part # parts \<Rightarrow>
         (let compressedString = part @ concat (map (\<lambda>p. ''_'' @ p) parts)
          in case insert_nulls (split_at CHR '','' headers) compressedString of
               Inl e \<Rightarrow> Inl e
             | Inr s \<Rightarrow> zlib_decompress s)
     | _ \<Rightarrow> Inl Undefined)"

section \<open>Comma-separated numbers\<close>

text \<open>Both headers are built the same way: a comma before every number but the first.\<close>

lemma join_snoc: "join_with d (ts @ [t]) = (if ts = [] then t else join_with d ts @ d # t)"
  by (induction d ts rule: join_with.induct) auto

lemma join_empty_iff: "\<forall>t \<in> set ts. t \<noteq> [] \<Longrightarrow> join_with d ts = [] \<longleftrightarrow> ts = []"
  by (induction d ts rule: join_with.induct) auto

lemma set_join: "set (join_with d ts) \<subseteq> insert d (\<Union> (set ` set ts))"
  by (induction d ts rule: join_with.induct) auto

lemma to_string_nonempty [simp]: "to_string x \<noteq> []"
  using dec_nonempty [of "nat x"] by (auto simp: to_string_def)

abbreviation numbers :: "int list \<Rightarrow> string" where
  "numbers is \<equiv> join_with CHR '','' (map to_string is)"

lemma numbers_snoc: "(if numbers is \<noteq> [] then numbers is @ '','' else numbers is) @ to_string i = numbers (is @ [i])"
  using join_empty_iff [of "map to_string is" "CHR '',''"] by (auto simp: join_snoc)

lemma numbers_clean: "CHR '','' \<notin> set (to_string i)" "CHR ''_'' \<notin> set (numbers is)"
proof -
  show "CHR '','' \<notin> set (to_string i)" using set_to_string [of "CHR '',''" i] by (auto simp: is_digit_def)
  have "CHR ''_'' \<notin> set (to_string i)" for i using set_to_string [of "CHR ''_''" i] by (auto simp: is_digit_def)
  then show "CHR ''_'' \<notin> set (numbers is)" using set_join [of "CHR '',''" "map to_string is"] by auto
qed

lemma split_numbers: "is \<noteq> [] \<Longrightarrow> split_at CHR '','' (numbers is) = map to_string is"
  by (rule split_join) (auto simp: numbers_clean(1))

text \<open>The positions of the elements that satisfy a test.\<close>

fun positions :: "('a \<Rightarrow> bool) \<Rightarrow> int \<Rightarrow> 'a list \<Rightarrow> int list" where
  "positions P i [] = []"
| "positions P i (x # xs) = (if P x then i # positions P (i + 1) xs else positions P (i + 1) xs)"

lemma positions_set: "set (positions P i xs) = {i + int j |j. j < length xs \<and> P (xs ! j)}"
proof (induction xs arbitrary: i)
  case (Cons x xs)
  have "{i + int j |j. j < length (x # xs) \<and> P ((x # xs) ! j)} =
      (if P x then {i} else {}) \<union> {i + 1 + int j |j. j < length xs \<and> P (xs ! j)}" (is "?l = ?a \<union> ?b")
  proof (intro set_eqI iffI)
    fix y assume "y \<in> ?l"
    then obtain j where j: "y = i + int j" "j < length (x # xs)" "P ((x # xs) ! j)" by blast
    then show "y \<in> ?a \<union> ?b" by (cases j) auto
  next
    fix y assume "y \<in> ?a \<union> ?b"
    then consider "y = i" "P x" | j where "y = i + 1 + int j" "j < length xs" "P (xs ! j)" by (auto split: if_splits)
    then show "y \<in> ?l" by cases (force intro: exI [of _ 0], force intro: exI [of _ "Suc j" for j])
  qed
  with Cons.IH [of "i + 1"] show ?case by simp
qed simp

lemma positions_sorted: "sorted_wrt (<) (positions P i xs)"
  by (induction xs arbitrary: i) (auto simp: positions_set)

lemma mayday_positions: "mayday_loop ms i (numbers is) = numbers (is @ positions (\<lambda>m. m = []) i ms)"
  by (induction ms arbitrary: i "is") (simp_all del: map_append add: numbers_snoc)

lemma strip_positions:
  "strip_loop cs i (numbers is) = (numbers (is @ positions (\<lambda>c. c = CHR 0x00) i cs), filter (\<lambda>c. c \<noteq> CHR 0x00) cs)"
  by (induction cs arbitrary: i "is") (simp_all del: map_append add: numbers_snoc)

lemma insert_positions:
  assumes "length pre + length cs \<le> 2 ^ 31"
  shows "insert_nulls (map to_string (positions (\<lambda>c. c = CHR 0x00) (int (length pre)) cs)) (pre @ filter (\<lambda>c. c \<noteq> CHR 0x00) cs) = Inr (pre @ cs)"
  using assms
proof (induction cs arbitrary: pre)
  case (Cons c cs)
  have "int (length pre) < 2 ^ 31" using Cons.prems by simp
  then have "stoi (to_string (int (length pre))) = Inr (int (length pre))" by (intro stoi_to_string) auto
  with Cons.IH [of "pre @ [c]"] Cons.prems show ?case by (auto simp: add.commute)
qed simp

lemma split_header:
  assumes "CHR ''_'' \<notin> set h"
  shows "\<exists>part parts. split_at CHR ''_'' (h @ ''_'' @ rest) = h # part # parts \<and> part @ concat (map (\<lambda>p. ''_'' @ p) parts) = rest"
proof -
  obtain part parts where p: "split_at CHR ''_'' rest = part # parts" by (cases "split_at CHR ''_'' rest") auto
  have "join_with CHR ''_'' (part # parts) = part @ concat (map (\<lambda>p. ''_'' @ p) parts)"
    by (induction parts arbitrary: part) auto
  with p join_split [of "CHR ''_''" rest] show ?thesis using split_at_append [OF assms, of rest] by auto
qed

lemma decompress_compress:
  fixes z :: string
  assumes "length z \<le> 2 ^ 31" and "zlib_compress (removeNullTerminators d) = z"
  shows "decompressString zlib_decompress (compressString zlib_compress d) =
    (if CHR 0x00 \<in> set z then zlib_decompress z else Inl InvalidArgument)"
proof -
  let ?ps = "positions (\<lambda>c. c = CHR 0x00) 0 z" and ?rest = "filter (\<lambda>c. c \<noteq> CHR 0x00) z"
  have c: "compressString zlib_compress d = numbers ?ps @ ''_'' @ ?rest"
    using strip_positions [of z 0 "[]"] assms(2) by (simp add: compressString_def)
  have e: "?ps = [] \<longleftrightarrow> CHR 0x00 \<notin> set z"
    using positions_set [of "\<lambda>c. c = CHR 0x00" 0 z] by (auto simp: in_set_conv_nth simp flip: set_empty2)
  obtain part parts where p: "split_at CHR ''_'' (numbers ?ps @ ''_'' @ ?rest) = numbers ?ps # part # parts"
      "part @ concat (map (\<lambda>p. ''_'' @ p) parts) = ?rest"
    using split_header [OF numbers_clean(2)] by blast
  have "stoi [] = Inl InvalidArgument" by (simp add: stoi_def strtol_def)
  then show ?thesis
    using insert_positions [of "[]" z] assms(1) split_numbers [of ?ps] e
    unfolding decompressString_def c p by (auto simp: p(2))
qed

section \<open>Reassembly\<close>

text \<open>What is stored of a fragmented message once the indices in \<open>R\<close> have arrived.\<close>

definition gathered :: "string list \<Rightarrow> nat set \<Rightarrow> string list" where
  "gathered frags R = map (\<lambda>i. if i \<in> R then frags ! i else []) [0 ..< length frags]"

definition holds_fragments :: "string list \<Rightarrow> nat set \<Rightarrow> IncomingMessage \<Rightarrow> bool" where
  "holds_fragments frags R im \<longleftrightarrow> messages im = gathered frags R \<and> lastPacketIndex im + 1 = length frags \<and>
     howManyReceived im = card (R \<inter> {..< length frags})"

text \<open>The text returned when the arrival of a fragment changes the received indices from \<open>R\<close> to \<open>R'\<close>.\<close>

definition completed :: "string list \<Rightarrow> nat set \<Rightarrow> nat set \<Rightarrow> string" where
  "completed frags R R' = (if {..< length frags} \<subseteq> R' \<and> \<not> {..< length frags} \<subseteq> R then concat (map payload frags) else [])"

lemma full_card: "card (R \<inter> {..< n}) = n \<longleftrightarrow> {..< n} \<subseteq> R" "card (R \<inter> {..< n}) \<le> n" for R :: "nat set"
proof -
  show "card (R \<inter> {..< n}) \<le> n" using card_mono [of "{..< n}" "R \<inter> {..< n}"] by simp
  show "card (R \<inter> {..< n}) = n \<longleftrightarrow> {..< n} \<subseteq> R" using card_subset_eq [of "{..< n}" "R \<inter> {..< n}"] by (auto simp: Int_absorb1)
qed

lemma gathered_full: "{..< length frags} \<subseteq> R \<Longrightarrow> gathered frags R = frags"
  by (rule nth_equalityI) (auto simp: gathered_def)

lemma gathered_insert: "i < length frags \<Longrightarrow> (gathered frags R)[i := frags ! i] = gathered frags (insert i R)"
  by (rule nth_equalityI) (auto simp: gathered_def nth_list_update)

lemma gathered_nth: "i < length frags \<Longrightarrow> gathered frags R ! i = (if i \<in> R then frags ! i else [])"
  "length (gathered frags R) = length frags"
  by (simp_all add: gathered_def)

lemma add_step:
  assumes h: "holds_fragments frags R im" and ne: "[] \<notin> set frags" and a: "add now i (frags ! i) im = (im', out)"
  shows "holds_fragments frags (insert i R) im'" and "out = completed frags R (insert i R)"
proof -
  consider (out) "length frags \<le> i" | (dup) "i < length frags" "i \<in> R" | (new) "i < length frags" "i \<notin> R" by linarith
  then have "holds_fragments frags (insert i R) im' \<and> out = completed frags R (insert i R)"
  proof cases
    case out
    then have "insert i R \<inter> {..< length frags} = R \<inter> {..< length frags}" "gathered frags (insert i R) = gathered frags R"
      by (auto simp: gathered_def)
    with out h a show ?thesis by (auto simp: holds_fragments_def add_def completed_def gathered_nth(2))
  next
    case dup
    then have "frags ! i \<noteq> []" using ne nth_mem by fastforce
    with dup h a show ?thesis by (auto simp: holds_fragments_def add_def gathered_nth insert_absorb completed_def)
  next
    case new
    then have c: "card (insert i R \<inter> {..< length frags}) = card (R \<inter> {..< length frags}) + 1" by (simp add: Int_insert_left)
    have f: "\<not> {..< length frags} \<subseteq> R" using new by auto
    have "lastPacketIndex im < howManyReceived im + 1 \<longleftrightarrow> {..< length frags} \<subseteq> insert i R"
      using h c full_card [of "insert i R" "length frags"] unfolding holds_fragments_def by linarith
    then show ?thesis
      using new h a f c gathered_full [of frags "insert i R"]
      by (auto simp: holds_fragments_def add_def gathered_nth Let_def gathered_insert completed_def split: if_splits)
  qed
  then show "holds_fragments frags (insert i R) im'" "out = completed frags R (insert i R)" by simp_all
qed

text \<open>A sequence of arrivals: the time and the index of each.\<close>

fun add_all :: "string list \<Rightarrow> (int \<times> nat) list \<Rightarrow> IncomingMessage \<Rightarrow> IncomingMessage \<times> string list" where
  "add_all frags [] im = (im, [])"
| "add_all frags ((now, i) # es) im =
    (let (im, out) = add now i (frags ! i) im; (im, outs) = add_all frags es im in (im, out # outs))"

lemma add_all_run:
  assumes "[] \<notin> set frags" and "holds_fragments frags R im" and "add_all frags es im = (im', outs)"
  shows "holds_fragments frags (R \<union> set (map snd es)) im' \<and> length outs = length es \<and>
    (\<forall>k < length es. outs ! k = completed frags (R \<union> set (map snd (take k es))) (R \<union> set (map snd (take (Suc k) es))))"
  using assms(2,3)
proof (induction es arbitrary: R im outs)
  case (Cons e es)
  obtain now i where e: "e = (now, i)" by force
  obtain im1 out outs' where a: "add now i (frags ! i) im = (im1, out)" "add_all frags es im1 = (im', outs')" "outs = out # outs'"
    using Cons.prems(2) by (auto simp: e split: prod.splits)
  note s = add_step [OF Cons.prems(1) assms(1) a(1)]
  have "outs ! k = completed frags (R \<union> set (map snd (take k (e # es)))) (R \<union> set (map snd (take (Suc k) (e # es))))"
    if "k < length (e # es)" for k
    using that Cons.IH [OF s(1) a(2)] s(2) by (cases k) (auto simp: a(3) e Un_insert_right)
  then show ?case using Cons.IH [OF s(1) a(2)] by (simp add: a(3) e)
qed simp

lemma isMissing_iff: "holds_fragments frags R im \<Longrightarrow> isMissing im \<longleftrightarrow> \<not> {..< length frags} \<subseteq> R"
  using full_card [of R "length frags"] unfolding holds_fragments_def isMissing_def by linarith

lemma mayday_missing:
  assumes "holds_fragments frags R im" and "[] \<notin> set frags"
  shows "\<exists>is. getMaydayPacket im = numbers is \<and> sorted_wrt (<) is \<and> set is = {int j |j. j < length frags \<and> j \<notin> R}"
proof (intro exI conjI)
  let ?is = "positions (\<lambda>m. m = []) 0 (messages im)"
  show "getMaydayPacket im = numbers ?is"
    using mayday_positions [of "messages im" 0 "[]"] by (simp add: getMaydayPacket_def)
  show "sorted_wrt (<) ?is" by (rule positions_sorted)
  have "frags ! j \<noteq> []" if "j < length frags" for j using nth_mem [OF that] assms(2) by auto
  then show "set ?is = {int j |j. j < length frags \<and> j \<notin> R}"
    using assms(1) by (auto simp: positions_set holds_fragments_def gathered_nth)
qed

lemma holds_initially: "lastIndex + 1 < 2 ^ 64 \<Longrightarrow> length frags = lastIndex + 1 \<Longrightarrow> holds_fragments frags {} (incoming_of_size now lastIndex orig)"
  by (simp add: holds_fragments_def incoming_of_size_def incoming_default_def gathered_def map_replicate_const)

text \<open>The back-off: after \<open>n\<close> requests without an arrival the waiting time is \<open>1000 + 500 n (n + 1)\<close> milliseconds.\<close>

definition backoff_ok :: "IncomingMessage \<Rightarrow> bool" where
  "backoff_ok im \<longleftrightarrow> 0 \<le> numberOfMaydays im \<and> timeToWait im = 1000 + 500 * numberOfMaydays im * (numberOfMaydays im + 1)"

lemma backoff_ok_kept:
  "backoff_ok im \<Longrightarrow> backoff_ok (fst (add now i f im))" "backoff_ok im \<Longrightarrow> backoff_ok (fst (canSendMayday now im))"
  "backoff_ok (incoming_of_size now l orig)" "backoff_ok (incoming_of_fragments now fs)"
  by (simp_all add: backoff_ok_def add_def canSendMayday_def Let_def DEFAULT_WAIT_TIME_def incoming_of_size_def
      incoming_of_fragments_def incoming_default_def algebra_simps)

section \<open>Properties\<close>

text \<open>Claim (C34): the fragments of a message, arriving in any order, repeated and mixed with indices that are out of
  range, are reassembled exactly once: the call that brings the last missing fragment returns the payloads in order and
  every other call returns the empty string; \<^verbatim>\<open>isMissing\<close> tells exactly whether a fragment is still missing and
  \<^verbatim>\<open>getMaydayPacket\<close> lists exactly the missing indices in increasing order.\<close>

theorem fragments_reassembled:
  assumes "length frags = lastIndex + 1" and "lastIndex + 1 < 2 ^ 64" and "[] \<notin> set frags"
    and "add_all frags es (incoming_of_size now lastIndex orig) = (im, outs)"
  shows "length outs = length es \<and>
    (\<forall>k < length es. outs ! k =
       (if {..lastIndex} \<subseteq> set (map snd (take (Suc k) es)) \<and> \<not> {..lastIndex} \<subseteq> set (map snd (take k es))
        then concat (map payload frags) else [])) \<and>
    (isMissing im \<longleftrightarrow> \<not> {..lastIndex} \<subseteq> set (map snd es)) \<and>
    (\<exists>is. getMaydayPacket im = numbers is \<and> sorted_wrt (<) is \<and> set is = {int j |j. j \<le> lastIndex \<and> j \<notin> set (map snd es)})"
proof -
  have l: "{..< length frags} = {..lastIndex}" "j < length frags \<longleftrightarrow> j \<le> lastIndex" for j using assms(1) by auto
  note run = add_all_run [OF assms(3) holds_initially [OF assms(2,1)] assms(4)]
  then show ?thesis
    using isMissing_iff [of frags "set (map snd es)" im] mayday_missing [of frags "set (map snd es)" im] assms(3)
    unfolding l completed_def by simp
qed

theorem fragments_reassembled_witness:
  "snd (add_all [''70001:he'', ''70101:l:lo''] [(5, 1), (6, 1), (7, 9), (8, 0)] (incoming_of_size 0 1 ''n'')) = [[], [], [], ''hel:lo'']"
proof -
  let ?fs = "[''70001:he'', ''70101:l:lo'']" and ?es = "[(5 :: int, 1 :: nat), (6, 1), (7, 9), (8, 0)]"
  define outs where "outs = snd (add_all ?fs ?es (incoming_of_size 0 1 ''n''))"
  have upto: "{..1} = {0, 1 :: nat}" by auto
  have pl: "concat (map payload ?fs) = ''hel:lo''" by code_simp
  note run = fragments_reassembled [of ?fs 1 ?es 0 "''n''", OF _ _ _ surjective_pairing, folded outs_def, unfolded pl upto, simplified]
  have n: "length outs = 4" using run by simp
  have "outs ! 0 = []" "outs ! 1 = []" "outs ! 2 = []" "outs ! 3 = ''hel:lo''"
    using run [THEN conjunct2, THEN conjunct1, THEN spec, of 0] run [THEN conjunct2, THEN conjunct1, THEN spec, of 1]
      run [THEN conjunct2, THEN conjunct1, THEN spec, of 2] run [THEN conjunct2, THEN conjunct1, THEN spec, of 3]
    by simp_all
  then have "outs = [[], [], [], ''hel:lo'']"
    using n by (auto simp: numeral_eq_Suc length_Suc_conv)
  then show ?thesis by (simp only: outs_def)
qed

text \<open>\<^verbatim>\<open>decompressString\<close> undoes \<^verbatim>\<open>compressString\<close>, up to the NULs of the input, when the compressed data
  contains a NUL; when it contains none, the empty header makes \<^verbatim>\<open>std::stoi\<close> throw.\<close>

theorem compress_roundtrip:
  assumes "\<And>s. zlib_decompress (zlib_compress s) = Inr s" and "length (zlib_compress (removeNullTerminators d)) \<le> 2 ^ 31"
  shows "decompressString zlib_decompress (compressString zlib_compress d) =
    (if CHR 0x00 \<in> set (zlib_compress (removeNullTerminators d)) then Inr (removeNullTerminators d) else Inl InvalidArgument)"
  using decompress_compress [of _ zlib_compress d zlib_decompress, OF assms(2) refl] assms(1) by simp

theorem compress_roundtrip_witness:
  "let zip = \<lambda>s. [CHR ''x'', CHR 0x00] @ s; unzip = \<lambda>s. Inr (drop 2 s)
   in decompressString unzip (compressString zip ''a_b,c'') = Inr ''a_b,c''"
  using compress_roundtrip [of "\<lambda>s. Inr (drop 2 s)" "\<lambda>s. [CHR ''x'', CHR 0x00] @ s" "''a_b,c''"]
  by (simp add: removeNullTerminators_def Let_def)

text \<open>\<^verbatim>\<open>fragmentPacket\<close> and reassembly fit together.  A packet of 1 to 50 bytes becomes one fragment, which
  a receiver expecting one fragment turns back into the packet; a longer packet goes whole into the DHT under its
  nonce and yields no fragment; an empty packet yields nothing.\<close>

theorem fragment_roundtrip:
  "fragmentPacket nonce packet =
    (if packet = [] then (None, [])
     else if 50 < length packet then (Some (to_string (int nonce), packet), [])
     else (None, [to_string (int nonce) @ ''0000:'' @ packet])) \<and>
   (packet \<noteq> [] \<longrightarrow> snd (add now 0 (to_string (int nonce) @ ''0000:'' @ packet) (incoming_of_size start 0 orig)) = packet)"
proof -
  let ?num = "length packet div 50 + (if length packet mod 50 \<noteq> 0 then 1 else 0)"
  have z: "two_digits 0 = ''00''" by code_simp
  have "CHR '':'' \<notin> set (to_string (int nonce))" using set_to_string [of "CHR '':''" "int nonce"] by (auto simp: is_digit_def)
  then have "payload (to_string (int nonce) @ ''0000:'' @ packet) = packet"
    by (subst payload_def, subst dropWhile_append2) auto
  moreover have "fragmentPacket nonce packet = (if packet = [] then (None, [])
     else if 50 < length packet then (Some (to_string (int nonce), packet), [])
     else (None, [to_string (int nonce) @ ''0000:'' @ packet]))"
  proof -
    consider (empty) "packet = []" | (small) "packet \<noteq> []" "length packet \<le> 50" | (big) "packet \<noteq> []" "50 < length packet" by linarith
    then show ?thesis
    proof cases
      case empty
      then show ?thesis by (simp add: fragmentPacket_def)
    next
      case small
      then have "0 < length packet" by simp
      with small(2) have "?num = 1" by (cases "length packet = 50") auto
      with small z show ?thesis unfolding fragmentPacket_def Let_def by simp
    next
      case big
      then have "1 < ?num" by auto
      with big show ?thesis unfolding fragmentPacket_def Let_def by simp
    qed
  qed
  ultimately show ?thesis by (simp add: add_def incoming_of_size_def incoming_default_def Let_def)
qed

theorem fragment_roundtrip_witness:
  "snd (fragmentPacket 7 ''a:b'') = [to_string 7 @ ''0000:a:b''] \<and>
   snd (add 3 0 (to_string 7 @ ''0000:'' @ ''a:b'') (incoming_of_size 1 0 ''n'')) = ''a:b''"
  using fragment_roundtrip [of 7 "''a:b''" 3 1 "''n''"] by simp

end
