(* ===== verification/Prelude.thy ===== *)
theory Prelude
  imports Main "HOL-Library.Word"
begin

text \<open>
  Shared vocabulary of the development: names for the C integer types, the C shift operators on
  them, the two's complement reading of a word, little-endian values of byte strings, and the
  generic lemmas that move between words and integers.  Collections:
  \<open>sint_exact\<close> holds the rules that read a word expression as the integer expression it computes
  when nothing overflows.
\<close>

unbundle bit_operations_syntax

type_synonym u8 = "8 word"
type_synonym i32 = "32 word"
type_synonym i64 = "64 word"
type_synonym u64 = "64 word"
type_synonym bytes = "8 word list"

text \<open>The shifts of C: \<open>sar\<close> is \<open>>>\<close> on a signed operand (arithmetic, as on every compiler the
  project is built with), \<open>shr\<close> is \<open>>>\<close> on an unsigned operand, \<open>shl\<close> is \<open><<\<close>.\<close>

abbreviation sar :: "'a::len word \<Rightarrow> nat \<Rightarrow> 'a word" where
  "sar w n \<equiv> signed_drop_bit n w"

abbreviation shr :: "'a::len word \<Rightarrow> nat \<Rightarrow> 'a word" where
  "shr w n \<equiv> drop_bit n w"

abbreviation shl :: "'a::len word \<Rightarrow> nat \<Rightarrow> 'a word" where
  "shl w n \<equiv> push_bit n w"

text \<open>The integers that a signed machine integer of \<open>n\<close> bits can hold.\<close>

definition srange :: "nat \<Rightarrow> int \<Rightarrow> bool" where
  "srange n x \<longleftrightarrow> - (2 ^ (n - 1)) \<le> x \<and> x < 2 ^ (n - 1)"

text \<open>The little-endian value of a byte string: \<open>s[0] + 256 * s[1] + ...\<close>.\<close>

primrec le_val :: "bytes \<Rightarrow> int" where
  "le_val [] = 0"
| "le_val (b # bs) = uint b + 256 * le_val bs"

named_theorems sint_exact

section \<open>Signed words and integers\<close>

lemma sint_of_int:
  assumes "srange LENGTH('a::len) x"
  shows "sint (of_int x :: 'a word) = x"
  using assms by (simp add: srange_def sint_sbintrunc' signed_take_bit_int_eq_self)

lemma of_int_sint_word [simp]: "of_int (sint w) = (w :: 'a::len word)"
  by simp

lemma sint_eqI:
  fixes w :: "'a::len word"
  assumes "w = of_int x" and "srange LENGTH('a) x"
  shows "sint w = x"
  using assms sint_of_int by simp

lemma srange_sint [simp]: "srange LENGTH('a) (sint (w :: 'a::len word))"
  unfolding srange_def using sint_ge sint_lt by blast

lemma sint_add_exact [sint_exact]:
  fixes a b :: "'a::len word"
  assumes "srange LENGTH('a) (sint a + sint b)"
  shows "sint (a + b) = sint a + sint b"
  by (rule sint_eqI) (use assms in auto)

lemma sint_sub_exact [sint_exact]:
  fixes a b :: "'a::len word"
  assumes "srange LENGTH('a) (sint a - sint b)"
  shows "sint (a - b) = sint a - sint b"
  by (rule sint_eqI) (use assms in auto)

lemma sint_uminus_exact [sint_exact]:
  fixes a :: "'a::len word"
  assumes "srange LENGTH('a) (- sint a)"
  shows "sint (- a) = - sint a"
  by (rule sint_eqI) (use assms in auto)

lemma sint_mult_exact [sint_exact]:
  fixes a b :: "'a::len word"
  assumes "srange LENGTH('a) (sint a * sint b)"
  shows "sint (a * b) = sint a * sint b"
  by (rule sint_eqI) (use assms in auto)

lemma sint_sar: "sint (sar w n) = sint w div 2 ^ n"
  by (simp add: sint_signed_drop_bit_eq drop_bit_eq_div)

lemma shl_eq_mult: "shl w n = w * 2 ^ n" for w :: "'a::len word"
  by (simp add: push_bit_eq_mult)

lemma scast_of_int: "scast (w :: 'a::len word) = (of_int (sint w) :: 'b::len word)"
  by (rule scast_eq)

lemma sint_scast_down:
  fixes w :: "'a::len word"
  assumes "srange LENGTH('b::len) (sint w)"
  shows "sint (scast w :: 'b word) = sint w"
  unfolding scast_of_int using assms by (rule sint_of_int)

lemma sint_scast_up:
  fixes w :: "'a::len word"
  assumes "LENGTH('a) \<le> LENGTH('b::len)"
  shows "sint (scast w :: 'b word) = sint w"
proof (rule sint_scast_down)
  have "(2::int) ^ (LENGTH('a) - 1) \<le> 2 ^ (LENGTH('b) - 1)"
    using assms by (intro power_increasing) auto
  with srange_sint [of w] show "srange LENGTH('b) (sint w)"
    unfolding srange_def by linarith
qed

text \<open>Bounds of a product of bounded integers.\<close>

lemma abs_mult_bound:
  fixes x y a b :: int
  assumes "\<bar>x\<bar> \<le> a" and "\<bar>y\<bar> \<le> b"
  shows "\<bar>x * y\<bar> \<le> a * b"
proof -
  have "0 \<le> a" using assms(1) by linarith
  then show ?thesis using assms by (simp add: abs_mult mult_mono)
qed

lemma uint_shr: "uint (shr w n) = uint w div 2 ^ n"
  by (subst unsigned_drop_bit_eq) (simp add: take_bit_int_eq_self drop_bit_eq_div)

lemma sint_eq_uint_small: "uint w < 2 ^ (LENGTH('a) - 1) \<Longrightarrow> sint w = uint w" for w :: "'a::len word"
  using order_trans [of "- (2 ^ (LENGTH('a) - 1))" 0 "uint w"] by (intro sint_eqI) (simp_all add: srange_def)

lemma xor_zero_iff: "a XOR b = 0 \<longleftrightarrow> a = b" for a b :: "'a::len word"
proof
  assume "a XOR b = 0"
  then have "a XOR (a XOR b) = a" by simp
  then show "a = b" by (simp flip: xor.assoc)
qed simp

lemma and_15: "w AND 15 = take_bit 4 w" for w :: "'a::len word"
  by (simp add: take_bit_eq_mask mask_numeral)

section \<open>Little-endian values\<close>

lemma le_val_append: "le_val (xs @ ys) = le_val xs + 256 ^ length xs * le_val ys"
  by (induction xs) (auto simp: algebra_simps)

lemma uint_byte: "0 \<le> uint (b :: u8) \<and> uint b < 256"
  using uint_lt2p [of b] by simp

lemma le_val_nonneg: "0 \<le> le_val s"
  by (induction s) auto

lemma le_val_less: "le_val s < 256 ^ length s"
proof (induction s)
  case Nil
  then show ?case by simp
next
  case (Cons b s)
  with uint_byte [of b] show ?case by simp
qed

lemma digit_inj:
  fixes x y s t :: int
  assumes "0 \<le> x \<and> x < B" and "0 \<le> y \<and> y < B" and "x + B * s = y + B * t"
  shows "x = y \<and> s = t"
proof -
  have "(x + B * s) mod B = (y + B * t) mod B" using assms(3) by simp
  then have "x = y" using assms(1,2) by simp
  with assms show ?thesis by auto
qed

lemma le_val_inj: "length s = length t \<Longrightarrow> le_val s = le_val t \<Longrightarrow> s = t"
proof (induction s t rule: list_induct2)
  case Nil
  then show ?case by simp
next
  case (Cons b s c t)
  then have "uint b = uint c \<and> le_val s = le_val t"
    by (intro digit_inj [OF uint_byte uint_byte]) simp
  with Cons.IH show ?case by (simp add: word_uint_eq_iff)
qed

section \<open>Joining and cutting bit fields\<close>

lemma take_bit_small:
  fixes a :: "'a::len word"
  assumes "uint a < 2 ^ n"
  shows "take_bit n a = a"
proof -
  have "uint (take_bit n a) = uint a mod 2 ^ n"
    unfolding unsigned_take_bit_eq by (rule take_bit_eq_mod)
  then have "uint (take_bit n a) = uint a" using assms by simp
  then show ?thesis by (simp only: word_uint_eq_iff)
qed

text \<open>Joining a value below \<open>2^n\<close> with one shifted up by \<open>n\<close> is addition.\<close>

lemma or_shl_eq_add:
  fixes a b :: "'a::len word"
  assumes "uint a < 2 ^ n"
  shows "a OR shl b n = a + shl b n"
proof -
  have "take_bit n a AND shl b n = 0"
    by (rule bit_word_eqI) (auto simp: bit_and_iff bit_push_bit_iff bit_take_bit_iff)
  then show ?thesis
    using assms by (simp add: take_bit_small disjunctive_add_eq_or)
qed

lemma uint_ucast_byte:
  fixes w :: "'a::len word"
  assumes "8 \<le> LENGTH('a)"
  shows "uint (ucast w :: u8) = sint w mod 256"
proof -
  have "sint w mod 256 = take_bit 8 (sint w)" by (simp add: take_bit_eq_mod)
  also have "\<dots> = take_bit 8 (uint w)"
    unfolding sint_uint using assms by (simp add: take_bit_signed_take_bit)
  finally show ?thesis by (simp add: unsigned_ucast_eq)
qed

lemma byte_of_int:
  assumes "8 \<le> LENGTH('a::len)"
  shows "uint (ucast (of_int x :: 'a word) :: u8) = x mod 256"
proof -
  have "sint (of_int x :: 'a word) mod 256 = take_bit 8 (signed_take_bit (LENGTH('a) - 1) x)"
    by (simp add: sint_sbintrunc' take_bit_eq_mod)
  also have "\<dots> = take_bit 8 x" using assms by (simp add: take_bit_signed_take_bit)
  finally show ?thesis using assms by (simp only: uint_ucast_byte) (simp add: take_bit_eq_mod)
qed

text \<open>The byte \<^verbatim>\<open>(unsigned char) (a >> n)\<close>.\<close>

lemma byte_sar:
  fixes w :: "'a::len word"
  assumes "8 \<le> LENGTH('a)"
  shows "uint (ucast (sar w n) :: u8) = sint w div 2 ^ n mod 256"
  using assms by (simp add: uint_ucast_byte sint_sar)

text \<open>The byte \<^verbatim>\<open>(unsigned char) ((a >> n) | (b << m))\<close> where \<open>a >> n\<close> has at most \<open>m\<close> bits.\<close>

lemma byte_join:
  fixes a b :: "'a::len word"
  assumes "8 \<le> LENGTH('a)" and "0 \<le> sint a" and "sint a div 2 ^ n < 2 ^ m" and "m \<le> 8"
  shows "uint (ucast (sar a n OR shl b m) :: u8) = sint a div 2 ^ n + 2 ^ m * (sint b mod 2 ^ (8 - m))"
proof -
  let ?x = "sint a div 2 ^ n"
  have x: "0 \<le> ?x" using assms(2) by (simp add: pos_imp_zdiv_nonneg_iff)
  have "uint (sar a n) = sint (sar a n) mod 2 ^ LENGTH('a)"
    by (metis of_int_sint_word uint_word_of_int)
  also have "\<dots> \<le> sint (sar a n)" using x by (simp add: sint_sar zmod_le_nonneg_dividend)
  finally have small: "uint (sar a n) < 2 ^ m" using assms(3) by (simp add: sint_sar)
  have "sar a n OR shl b m = of_int (?x + sint b * 2 ^ m)"
    using or_shl_eq_add [OF small, of b] by (simp add: shl_eq_mult flip: sint_sar)
  then have "uint (ucast (sar a n OR shl b m) :: u8) = (?x + sint b * 2 ^ m) mod 256"
    by (simp only: byte_of_int [OF assms(1)])
  also have "(256::int) = 2 ^ m * 2 ^ (8 - m)" using assms(4) by (simp flip: power_add)
  also have "(?x + sint b * 2 ^ m) mod (2 ^ m * 2 ^ (8 - m)) = ?x + 2 ^ m * (sint b mod 2 ^ (8 - m))"
    using x assms(3) zmod_zmult2_eq [of "2 ^ (8 - m)" "?x + sint b * 2 ^ m" "2 ^ m"] by simp
  finally show ?thesis .
qed

end
