(* ===== verification/Limbs.thy ===== *)
theory Limbs
  imports Prelude
begin

text \<open>
  Multi-limb integer arithmetic.  The field and scalar routines of \<^verbatim>\<open>src/shared/ed25519/src\<close> keep a
  large integer in local variables \<open>h0, h1, ...\<close> (or \<open>s0, s1, ...\<close>) and normalise it by straight-line
  sequences of four statement groups.  A group is a \<open>limb_op\<close>; \<open>exec_op\<close> gives it the
  meaning of the C statements on machine words, \<open>iexec_op\<close> the meaning on unbounded integers.
  \<open>bnd_op\<close> is an interval analysis of a group: \<open>None\<close> when some intermediate value could leave
  the machine type, otherwise the intervals of the limbs afterwards.  The main lemma
  \<open>exec_ops_sound\<close> says that a sequence accepted by the analysis computes on words exactly what it
  computes on integers, and that the results lie in the computed intervals.
\<close>

section \<open>Statement groups\<close>

text \<open>
  \<^item> \<open>Round i k\<close>: \<^verbatim>\<open>carry = (h[i] + (1 << (k-1))) >> k; h[i+1] += carry; h[i] -= carry << k;\<close>
  \<^item> \<open>Floor i k\<close>: \<^verbatim>\<open>carry = h[i] >> k; h[i+1] += carry; h[i] -= carry << k;\<close>
  \<^item> \<open>Drop i k\<close>: \<^verbatim>\<open>carry = h[i] >> k; h[i] -= carry << k;\<close>
  \<^item> \<open>Wrap\<close>: \<^verbatim>\<open>carry = (h[9] + (1 << 24)) >> 25; h[0] += carry * 19; h[9] -= carry << 25;\<close>
  \<^item> \<open>Fold k\<close>: \<^verbatim>\<open>h[k-12] += h[k] * 666643; h[k-11] += h[k] * 470296; h[k-10] += h[k] * 654183;
    h[k-9] -= h[k] * 997805; h[k-8] += h[k] * 136657; h[k-7] -= h[k] * 683901; h[k] = 0;\<close>
\<close>

datatype limb_op = Round nat nat | Floor nat nat | Drop nat nat | Wrap | Fold nat

text \<open>One carry on machine words: subtract \<open>carry << k\<close> at \<open>i\<close>, add \<open>m * carry\<close> at \<open>j\<close>.\<close>

definition add_at :: "nat \<Rightarrow> 'a::plus \<Rightarrow> 'a list \<Rightarrow> 'a list" where
  "add_at j v h = h[j := h ! j + v]"

definition sub_at :: "nat \<Rightarrow> 'a::minus \<Rightarrow> 'a list \<Rightarrow> 'a list" where
  "sub_at j v h = h[j := h ! j - v]"

fun exec_op :: "limb_op \<Rightarrow> 'a::len word list \<Rightarrow> 'a word list" where
  "exec_op (Round i k) h =
     (let carry = sar (h ! i + shl 1 (k - 1)) k
      in sub_at i (shl carry k) (add_at (i + 1) carry h))"
| "exec_op (Floor i k) h =
     (let carry = sar (h ! i) k
      in sub_at i (shl carry k) (add_at (i + 1) carry h))"
| "exec_op (Drop i k) h =
     (let carry = sar (h ! i) k
      in sub_at i (shl carry k) h)"
| "exec_op Wrap h =
     (let carry = sar (h ! 9 + shl 1 24) 25
      in sub_at 9 (shl carry 25) (add_at 0 (carry * 19) h))"
| "exec_op (Fold k) h =
     (let h = add_at (k - 12) (h ! k * 666643) h;
          h = add_at (k - 11) (h ! k * 470296) h;
          h = add_at (k - 10) (h ! k * 654183) h;
          h = sub_at (k - 9) (h ! k * 997805) h;
          h = add_at (k - 8) (h ! k * 136657) h;
          h = sub_at (k - 7) (h ! k * 683901) h
      in h[k := 0])"

definition exec_ops :: "limb_op list \<Rightarrow> 'a::len word list \<Rightarrow> 'a word list" where
  "exec_ops ops h = fold exec_op ops h"


text \<open>The same groups on unbounded integers: the shift is floor division.\<close>

fun iexec_op :: "limb_op \<Rightarrow> int list \<Rightarrow> int list" where
  "iexec_op (Round i k) h =
     (let carry = (h ! i + 2 ^ (k - 1)) div 2 ^ k
      in sub_at i (carry * 2 ^ k) (add_at (i + 1) carry h))"
| "iexec_op (Floor i k) h =
     (let carry = h ! i div 2 ^ k
      in sub_at i (carry * 2 ^ k) (add_at (i + 1) carry h))"
| "iexec_op (Drop i k) h =
     (let carry = h ! i div 2 ^ k
      in sub_at i (carry * 2 ^ k) h)"
| "iexec_op Wrap h =
     (let carry = (h ! 9 + 2 ^ 24) div 2 ^ 25
      in sub_at 9 (carry * 2 ^ 25) (add_at 0 (carry * 19) h))"
| "iexec_op (Fold k) h =
     (let h = add_at (k - 12) (h ! k * 666643) h;
          h = add_at (k - 11) (h ! k * 470296) h;
          h = add_at (k - 10) (h ! k * 654183) h;
          h = sub_at (k - 9) (h ! k * 997805) h;
          h = add_at (k - 8) (h ! k * 136657) h;
          h = sub_at (k - 7) (h ! k * 683901) h
      in h[k := 0])"

definition iexec_ops :: "limb_op list \<Rightarrow> int list \<Rightarrow> int list" where
  "iexec_ops ops h = fold iexec_op ops h"

section \<open>Interval analysis\<close>

type_synonym ival = "int \<times> int"

definition in_iv :: "int \<Rightarrow> ival \<Rightarrow> bool" where
  "in_iv x b \<longleftrightarrow> fst b \<le> x \<and> x \<le> snd b"

definition iv_fits :: "nat \<Rightarrow> ival \<Rightarrow> bool" where
  "iv_fits n b \<longleftrightarrow> - (2 ^ (n - 1)) \<le> fst b \<and> snd b < 2 ^ (n - 1)"

definition iv_add :: "ival \<Rightarrow> ival \<Rightarrow> ival" where
  "iv_add a b = (fst a + fst b, snd a + snd b)"

definition iv_sub :: "ival \<Rightarrow> ival \<Rightarrow> ival" where
  "iv_sub a b = (fst a - snd b, snd a - fst b)"

definition iv_scale :: "int \<Rightarrow> ival \<Rightarrow> ival" where
  "iv_scale c b = (fst b * c, snd b * c)"

definition iv_floor :: "nat \<Rightarrow> ival \<Rightarrow> ival" where
  "iv_floor k b = (fst b div 2 ^ k, snd b div 2 ^ k)"

definition within :: "int list \<Rightarrow> ival list \<Rightarrow> bool" where
  "within h b \<longleftrightarrow> list_all2 in_iv h b"

text \<open>One guarded update of limb \<open>j\<close> by a value in \<open>v\<close>.\<close>

definition bnd_add :: "nat \<Rightarrow> nat \<Rightarrow> ival \<Rightarrow> ival list \<Rightarrow> ival list option" where
  "bnd_add n j v b =
     (if j < length b \<and> iv_fits n v \<and> iv_fits n (iv_add (b ! j) v)
      then Some (b[j := iv_add (b ! j) v]) else None)"

definition bnd_sub :: "nat \<Rightarrow> nat \<Rightarrow> ival \<Rightarrow> ival list \<Rightarrow> ival list option" where
  "bnd_sub n j v b =
     (if j < length b \<and> iv_fits n v \<and> iv_fits n (iv_sub (b ! j) v)
      then Some (b[j := iv_sub (b ! j) v]) else None)"

text \<open>The remainder a carry leaves in its limb, after the neighbour has been updated.\<close>

definition bnd_rest :: "nat \<Rightarrow> nat \<Rightarrow> nat \<Rightarrow> ival \<Rightarrow> ival \<Rightarrow> ival list \<Rightarrow> ival list option" where
  "bnd_rest n i k carry rest b =
     (if i < length b \<and> 0 < k \<and> k < n \<and> iv_fits n (iv_scale (2 ^ k) carry) \<and> iv_fits n rest
      then Some (b[i := rest]) else None)"

definition iv_round :: "nat \<Rightarrow> ival \<Rightarrow> ival" where
  "iv_round k b = (fst b + 2 ^ (k - 1), snd b + 2 ^ (k - 1))"

fun bnd_op :: "nat \<Rightarrow> limb_op \<Rightarrow> ival list \<Rightarrow> ival list option" where
  "bnd_op n (Round i k) b =
     (let r = iv_round k (b ! i); carry = iv_floor k r
      in if iv_fits n r
         then Option.bind (bnd_add n (i + 1) carry b)
                (bnd_rest n i k carry (- (2 ^ (k - 1)), 2 ^ (k - 1) - 1))
         else None)"
| "bnd_op n (Floor i k) b =
     (let carry = iv_floor k (b ! i)
      in Option.bind (bnd_add n (i + 1) carry b) (bnd_rest n i k carry (0, 2 ^ k - 1)))"
| "bnd_op n (Drop i k) b =
     (let carry = iv_floor k (b ! i) in bnd_rest n i k carry (0, 2 ^ k - 1) b)"
| "bnd_op n Wrap b =
     (let r = iv_round 25 (b ! 9); carry = iv_floor 25 r
      in if iv_fits n r \<and> iv_fits n carry
         then Option.bind (bnd_add n 0 (iv_scale 19 carry) b)
                (bnd_rest n 9 25 carry (- (2 ^ 24), 2 ^ 24 - 1))
         else None)"
| "bnd_op n (Fold k) b =
     (if 12 \<le> k \<and> k < length b then
        Option.bind (bnd_add n (k - 12) (iv_scale 666643 (b ! k)) b) (\<lambda>b.
        Option.bind (bnd_add n (k - 11) (iv_scale 470296 (b ! k)) b) (\<lambda>b.
        Option.bind (bnd_add n (k - 10) (iv_scale 654183 (b ! k)) b) (\<lambda>b.
        Option.bind (bnd_sub n (k - 9) (iv_scale 997805 (b ! k)) b) (\<lambda>b.
        Option.bind (bnd_add n (k - 8) (iv_scale 136657 (b ! k)) b) (\<lambda>b.
        Option.bind (bnd_sub n (k - 7) (iv_scale 683901 (b ! k)) b) (\<lambda>b.
        Some (b[k := (0, 0)])))))))
      else None)"

fun bnd_ops :: "nat \<Rightarrow> limb_op list \<Rightarrow> ival list \<Rightarrow> ival list option" where
  "bnd_ops n [] b = Some b"
| "bnd_ops n (op # ops) b =
     (case bnd_op n op b of None \<Rightarrow> None | Some b' \<Rightarrow> bnd_ops n ops b')"

section \<open>Values of limb vectors\<close>

text \<open>\<open>limb_val ws h\<close> is the integer \<open>h[0] * 2^ws[0] + h[1] * 2^ws[1] + ...\<close>; \<open>op_ok m ws\<close> are the
  groups that keep this value modulo \<open>m\<close> (exactly, for \<open>m = 0\<close>).\<close>

definition limb_val :: "nat list \<Rightarrow> int list \<Rightarrow> int" where
  "limb_val ws h = sum_list (map2 (\<lambda>w x. x * 2 ^ w) ws h)"

fun op_ok :: "int \<Rightarrow> nat list \<Rightarrow> limb_op \<Rightarrow> bool" where
  "op_ok m ws (Round i k) \<longleftrightarrow> i + 1 < length ws \<and> ws ! (i + 1) = ws ! i + k"
| "op_ok m ws (Floor i k) \<longleftrightarrow> i + 1 < length ws \<and> ws ! (i + 1) = ws ! i + k"
| "op_ok m ws (Drop i k) \<longleftrightarrow> False"
| "op_ok m ws Wrap \<longleftrightarrow> 9 < length ws \<and> (19 * 2 ^ (ws ! 0) - 2 ^ 25 * 2 ^ (ws ! 9)) mod m = 0"
| "op_ok m ws (Fold k) \<longleftrightarrow> 12 \<le> k \<and> k < length ws \<and>
     (666643 * 2 ^ (ws ! (k - 12)) + 470296 * 2 ^ (ws ! (k - 11)) + 654183 * 2 ^ (ws ! (k - 10))
      - 997805 * 2 ^ (ws ! (k - 9)) + 136657 * 2 ^ (ws ! (k - 8)) - 683901 * 2 ^ (ws ! (k - 7))
      - 2 ^ (ws ! k)) mod m = 0"

section \<open>Soundness of the analysis\<close>

lemma within_length: "within h b \<Longrightarrow> length h = length b"
  by (simp add: within_def list_all2_lengthD)

lemma within_nth: "within h b \<Longrightarrow> i < length b \<Longrightarrow> in_iv (h ! i) (b ! i)"
  by (simp add: within_def list_all2_conv_all_nth)

lemma within_update: "within h b \<Longrightarrow> in_iv x v \<Longrightarrow> within (h[i := x]) (b[i := v])"
  unfolding within_def by (rule list_all2_update_cong)

lemma in_iv_add: "in_iv x a \<Longrightarrow> in_iv y b \<Longrightarrow> in_iv (x + y) (iv_add a b)"
  by (auto simp: in_iv_def iv_add_def)

lemma in_iv_sub: "in_iv x a \<Longrightarrow> in_iv y b \<Longrightarrow> in_iv (x - y) (iv_sub a b)"
  by (auto simp: in_iv_def iv_sub_def)

lemma in_iv_scale: "0 \<le> c \<Longrightarrow> in_iv x b \<Longrightarrow> in_iv (x * c) (iv_scale c b)"
  by (auto simp: in_iv_def iv_scale_def mult_right_mono)

lemma in_iv_floor: "in_iv x b \<Longrightarrow> in_iv (x div 2 ^ k) (iv_floor k b)"
  by (auto simp: in_iv_def iv_floor_def zdiv_mono1)

lemma in_iv_round: "in_iv x b \<Longrightarrow> in_iv (x + 2 ^ (k - 1)) (iv_round k b)"
  by (auto simp: in_iv_def iv_round_def)

lemma iv_fits_srange: "iv_fits n b \<Longrightarrow> in_iv x b \<Longrightarrow> srange n x"
  by (auto simp: iv_fits_def in_iv_def srange_def)

lemmas in_iv_intros = in_iv_add in_iv_sub in_iv_scale in_iv_floor in_iv_round


lemma length_add_at [simp]: "length (add_at j v h) = length h"
  by (simp add: add_at_def)

lemma length_sub_at [simp]: "length (sub_at j v h) = length h"
  by (simp add: sub_at_def)

lemma nth_add_at [simp]: "i \<noteq> j \<Longrightarrow> add_at j v h ! i = h ! i"
  by (simp add: add_at_def)

lemma nth_sub_at [simp]: "i \<noteq> j \<Longrightarrow> sub_at j v h ! i = h ! i"
  by (simp add: sub_at_def)

text \<open>The analysis of one update: what the word list represents afterwards, and its intervals.
  A word list \<open>h\<close> represents the integers \<open>map sint h\<close>.\<close>

lemma bnd_add_sound:
  fixes h :: "'a::len word list"
  assumes "bnd_add LENGTH('a) j v b = Some b'" and "within (map sint h) b" and "in_iv (sint w) v"
  shows "map sint (add_at j w h) = add_at j (sint w) (map sint h)
    \<and> within (map sint (add_at j w h)) b' \<and> length b' = length b"
proof -
  have j: "j < length b" and fits: "iv_fits LENGTH('a) (iv_add (b ! j) v)"
    and b': "b' = b[j := iv_add (b ! j) v]"
    using assms(1) by (auto simp: bnd_add_def split: if_splits)
  have len: "length h = length b" using within_length [OF assms(2)] by simp
  have iv: "in_iv (sint (h ! j) + sint w) (iv_add (b ! j) v)"
    using within_nth [OF assms(2) j] assms(3) j len by (simp add: in_iv_add)
  have "sint (h ! j + w) = sint (h ! j) + sint w"
    by (rule sint_add_exact) (rule iv_fits_srange [OF fits iv])
  then have eq: "map sint (add_at j w h) = add_at j (sint w) (map sint h)"
    using j len by (simp add: add_at_def map_update)
  have "within (add_at j (sint w) (map sint h)) b'"
    using within_update [OF assms(2) iv] j len by (simp add: add_at_def b')
  with eq b' show ?thesis by simp
qed

lemma bnd_sub_sound:
  fixes h :: "'a::len word list"
  assumes "bnd_sub LENGTH('a) j v b = Some b'" and "within (map sint h) b" and "in_iv (sint w) v"
  shows "map sint (sub_at j w h) = sub_at j (sint w) (map sint h)
    \<and> within (map sint (sub_at j w h)) b' \<and> length b' = length b"
proof -
  have j: "j < length b" and fits: "iv_fits LENGTH('a) (iv_sub (b ! j) v)"
    and b': "b' = b[j := iv_sub (b ! j) v]"
    using assms(1) by (auto simp: bnd_sub_def split: if_splits)
  have len: "length h = length b" using within_length [OF assms(2)] by simp
  have iv: "in_iv (sint (h ! j) - sint w) (iv_sub (b ! j) v)"
    using within_nth [OF assms(2) j] assms(3) j len by (simp add: in_iv_sub)
  have "sint (h ! j - w) = sint (h ! j) - sint w"
    by (rule sint_sub_exact) (rule iv_fits_srange [OF fits iv])
  then have eq: "map sint (sub_at j w h) = sub_at j (sint w) (map sint h)"
    using j len by (simp add: sub_at_def map_update)
  have "within (sub_at j (sint w) (map sint h)) b'"
    using within_update [OF assms(2) iv] j len by (simp add: sub_at_def b')
  with eq b' show ?thesis by simp
qed

lemma sint_shl_exact:
  fixes c :: "'a::len word"
  assumes "srange LENGTH('a) (sint c * 2 ^ k)"
  shows "sint (shl c k) = sint c * 2 ^ k"
  by (rule sint_eqI) (use assms in \<open>simp_all add: shl_eq_mult\<close>)

lemma bnd_rest_sound:
  fixes h :: "'a::len word list"
  assumes "bnd_rest LENGTH('a) i k carry rest b = Some b'" and "within (map sint h) b"
    and "in_iv (sint c) carry" and "in_iv (sint (h ! i) - sint c * 2 ^ k) rest"
  shows "map sint (sub_at i (shl c k) h) = sub_at i (sint c * 2 ^ k) (map sint h)
    \<and> within (map sint (sub_at i (shl c k) h)) b' \<and> length b' = length b"
proof -
  have i: "i < length b" and fits: "iv_fits LENGTH('a) (iv_scale (2 ^ k) carry)"
    and rest: "iv_fits LENGTH('a) rest" and b': "b' = b[i := rest]"
    using assms(1) by (auto simp: bnd_rest_def split: if_splits)
  have len: "length h = length b" using within_length [OF assms(2)] by simp
  have shl: "sint (shl c k) = sint c * 2 ^ k"
    by (rule sint_shl_exact) (rule iv_fits_srange [OF fits], simp add: in_iv_scale assms(3))
  have "sint (h ! i - shl c k) = sint (h ! i) - sint (shl c k)"
    by (rule sint_sub_exact) (use iv_fits_srange [OF rest assms(4)] shl in simp)
  then have eq: "map sint (sub_at i (shl c k) h) = sub_at i (sint c * 2 ^ k) (map sint h)"
    using i len shl by (simp add: sub_at_def map_update)
  have "within (sub_at i (sint c * 2 ^ k) (map sint h)) b'"
    using within_update [OF assms(2,4)] i len by (simp add: sub_at_def b')
  with eq b' show ?thesis by simp
qed

lemma round_rest: "0 < k \<Longrightarrow> in_iv (x - (x + 2 ^ (k - 1)) div 2 ^ k * 2 ^ k) (- (2 ^ (k - 1)), 2 ^ (k - 1) - 1)"
proof -
  assume k: "0 < k"
  have two: "(2::int) ^ k = 2 * 2 ^ (k - 1)" using k by (cases k) auto
  have "x + 2 ^ (k - 1) - (x + 2 ^ (k - 1)) div 2 ^ k * 2 ^ k = (x + 2 ^ (k - 1)) mod 2 ^ k"
    by (simp add: minus_div_mult_eq_mod)
  moreover have "0 \<le> (x + 2 ^ (k - 1)) mod 2 ^ k" and "(x + 2 ^ (k - 1)) mod 2 ^ k < 2 ^ k"
    by simp_all
  ultimately show ?thesis using two unfolding in_iv_def fst_conv snd_conv by linarith
qed

lemma floor_rest: "in_iv (x - x div 2 ^ k * 2 ^ k) (0, 2 ^ k - 1)" for x :: int
  by (simp add: in_iv_def minus_div_mult_eq_mod)

lemma sint_round_carry:
  fixes w :: "'a::len word"
  assumes "iv_fits LENGTH('a) (iv_round k b)" and "in_iv (sint w) b" and "0 < k" and "k < LENGTH('a)"
  shows "sint (sar (w + shl 1 (k - 1)) k) = (sint w + 2 ^ (k - 1)) div 2 ^ k"
proof -
  have "srange LENGTH('a) (sint w + 2 ^ (k - 1))"
    using iv_fits_srange [OF assms(1) in_iv_round [OF assms(2)]] .
  then have "sint (w + shl 1 (k - 1)) = sint w + 2 ^ (k - 1)"
    by (intro sint_eqI) (simp_all add: shl_eq_mult)
  then show ?thesis by (simp add: sint_sar)
qed

lemma bnd_rest_k: "bnd_rest n i k carry rest b = Some b' \<Longrightarrow> 0 < k \<and> k < n \<and> i < length b"
  by (auto simp: bnd_rest_def split: if_splits)

lemma bnd_add_j: "bnd_add n j v b = Some b' \<Longrightarrow> j < length b \<and> length b' = length b"
  by (auto simp: bnd_add_def split: if_splits)

lemma carry_sound:
  fixes h :: "'a::len word list"
  assumes add: "bnd_add LENGTH('a) j v b = Some b1"
    and rest: "bnd_rest LENGTH('a) i k carry rest b1 = Some b'"
    and h: "within (map sint h) b" and w: "sint w = x" "in_iv x v" and c: "sint c = y" "in_iv y carry"
    and r: "in_iv (sint (h ! i) - y * 2 ^ k) rest" and ij: "i \<noteq> j"
  shows "map sint (sub_at i (shl c k) (add_at j w h)) = sub_at i (y * 2 ^ k) (add_at j x (map sint h))
    \<and> within (map sint (sub_at i (shl c k) (add_at j w h))) b'"
  using bnd_add_sound [OF add h, of w] bnd_rest_sound [OF rest, of "add_at j w h" c] w c r ij by auto

lemma round_sound:
  fixes h :: "'a::len word list"
  assumes "bnd_op LENGTH('a) (Round i k) b = Some b'" and h: "within (map sint h) b"
  shows "map sint (exec_op (Round i k) h) = iexec_op (Round i k) (map sint h)
    \<and> within (map sint (exec_op (Round i k) h)) b'"
proof -
  let ?carry = "iv_floor k (iv_round k (b ! i))"
  obtain b1 where fits: "iv_fits LENGTH('a) (iv_round k (b ! i))"
    and add: "bnd_add LENGTH('a) (i + 1) ?carry b = Some b1"
    and rest: "bnd_rest LENGTH('a) i k ?carry (- (2 ^ (k - 1)), 2 ^ (k - 1) - 1) b1 = Some b'"
    using assms(1) by (auto simp: Let_def bind_eq_Some_conv split: if_splits)
  have k: "0 < k" "k < LENGTH('a)" and i: "i < length b"
    using bnd_rest_k [OF rest] bnd_add_j [OF add] by auto
  have len: "length h = length b" using within_length [OF h] by simp
  have hi: "in_iv (sint (h ! i)) (b ! i)" using within_nth [OF h i] i len by simp
  let ?c = "sar (h ! i + shl 1 (k - 1)) k"
  have c: "sint ?c = (sint (h ! i) + 2 ^ (k - 1)) div 2 ^ k"
    using sint_round_carry [OF fits hi k] .
  have cin: "in_iv ((sint (h ! i) + 2 ^ (k - 1)) div 2 ^ k) ?carry"
    using hi by (intro in_iv_intros)
  have nth: "map sint h ! i = sint (h ! i)" using i len by simp
  show ?thesis
    unfolding exec_op.simps iexec_op.simps Let_def nth
    by (rule carry_sound [OF add rest h c cin c cin round_rest [OF k(1)]]) simp
qed

lemma floor_sound:
  fixes h :: "'a::len word list"
  assumes "bnd_op LENGTH('a) (Floor i k) b = Some b'" and h: "within (map sint h) b"
  shows "map sint (exec_op (Floor i k) h) = iexec_op (Floor i k) (map sint h)
    \<and> within (map sint (exec_op (Floor i k) h)) b'"
proof -
  let ?carry = "iv_floor k (b ! i)"
  obtain b1 where add: "bnd_add LENGTH('a) (i + 1) ?carry b = Some b1"
    and rest: "bnd_rest LENGTH('a) i k ?carry (0, 2 ^ k - 1) b1 = Some b'"
    using assms(1) by (auto simp: Let_def bind_eq_Some_conv split: if_splits)
  have i: "i < length b" using bnd_rest_k [OF rest] bnd_add_j [OF add] by auto
  have len: "length h = length b" using within_length [OF h] by simp
  have hi: "in_iv (sint (h ! i)) (b ! i)" using within_nth [OF h i] i len by simp
  have cin: "in_iv (sint (h ! i) div 2 ^ k) ?carry" using hi by (rule in_iv_floor)
  have nth: "map sint h ! i = sint (h ! i)" using i len by simp
  show ?thesis
    unfolding exec_op.simps iexec_op.simps Let_def nth
    by (rule carry_sound [OF add rest h sint_sar cin sint_sar cin floor_rest]) simp
qed

lemma drop_sound:
  fixes h :: "'a::len word list"
  assumes "bnd_op LENGTH('a) (Drop i k) b = Some b'" and h: "within (map sint h) b"
  shows "map sint (exec_op (Drop i k) h) = iexec_op (Drop i k) (map sint h)
    \<and> within (map sint (exec_op (Drop i k) h)) b'"
proof -
  have rest: "bnd_rest LENGTH('a) i k (iv_floor k (b ! i)) (0, 2 ^ k - 1) b = Some b'"
    using assms(1) by (simp add: Let_def)
  have i: "i < length b" using bnd_rest_k [OF rest] by simp
  have len: "length h = length b" using within_length [OF h] by simp
  have hi: "in_iv (sint (h ! i)) (b ! i)" using within_nth [OF h i] i len by simp
  have cin: "in_iv (sint (sar (h ! i) k)) (iv_floor k (b ! i))"
    unfolding sint_sar using hi by (rule in_iv_floor)
  have nth: "map sint h ! i = sint (h ! i)" using i len by simp
  show ?thesis
    using bnd_rest_sound [OF rest h cin] floor_rest [of "sint (h ! i)" k]
    unfolding exec_op.simps iexec_op.simps Let_def nth sint_sar by blast
qed

lemma wrap_sound:
  fixes h :: "'a::len word list"
  assumes "bnd_op LENGTH('a) Wrap b = Some b'" and h: "within (map sint h) b" and n: "25 < LENGTH('a)"
  shows "map sint (exec_op Wrap h) = iexec_op Wrap (map sint h)
    \<and> within (map sint (exec_op Wrap h)) b'"
proof -
  let ?carry = "iv_floor 25 (iv_round 25 (b ! 9))"
  obtain b1 where fits: "iv_fits LENGTH('a) (iv_round 25 (b ! 9))"
    and add: "bnd_add LENGTH('a) 0 (iv_scale 19 ?carry) b = Some b1"
    and rest: "bnd_rest LENGTH('a) 9 25 ?carry (- (2 ^ 24), 2 ^ 24 - 1) b1 = Some b'"
    using assms(1) by (auto simp: Let_def bind_eq_Some_conv split: if_splits)
  have i: "9 < length b" using bnd_rest_k [OF rest] bnd_add_j [OF add] by auto
  have len: "length h = length b" using within_length [OF h] by simp
  have hi: "in_iv (sint (h ! 9)) (b ! 9)" using within_nth [OF h i] i len by simp
  let ?c = "sar (h ! 9 + shl 1 24) 25"
  have c: "sint ?c = (sint (h ! 9) + 2 ^ 24) div 2 ^ 25"
    using sint_round_carry [OF fits hi _ n] by simp
  have cin: "in_iv ((sint (h ! 9) + 2 ^ 24) div 2 ^ 25) ?carry"
    using in_iv_floor [OF in_iv_round [OF hi, of 25], of 25] by simp
  have vin: "in_iv ((sint (h ! 9) + 2 ^ 24) div 2 ^ 25 * 19) (iv_scale 19 ?carry)"
    by (rule in_iv_scale [OF _ cin]) simp
  have "iv_fits LENGTH('a) (iv_scale 19 ?carry)"
    using add by (auto simp: bnd_add_def split: if_splits)
  then have "srange LENGTH('a) ((sint (h ! 9) + 2 ^ 24) div 2 ^ 25 * 19)"
    using vin by (rule iv_fits_srange)
  then have c19: "sint (?c * 19) = (sint (h ! 9) + 2 ^ 24) div 2 ^ 25 * 19"
    unfolding c [symmetric] by (intro sint_eqI) simp_all
  have r: "in_iv (sint (h ! 9) - (sint (h ! 9) + 2 ^ 24) div 2 ^ 25 * 2 ^ 25) (- (2 ^ 24), 2 ^ 24 - 1)"
    using round_rest [of 25 "sint (h ! 9)"] by simp
  have nth: "map sint h ! 9 = sint (h ! 9)" using i len by simp
  show ?thesis
    unfolding exec_op.simps iexec_op.simps Let_def nth
    by (rule carry_sound [OF add rest h c19 vin c cin r]) simp
qed


lemma mul_const_sound:
  fixes h :: "'a::len word list"
  assumes "iv_fits LENGTH('a) (iv_scale c (b ! k))" and "within (map sint h) b" and "k < length b"
    and "0 \<le> c"
  shows "sint (h ! k * of_int c) = map sint h ! k * c \<and> in_iv (sint (h ! k * of_int c)) (iv_scale c (b ! k))"
proof -
  have k: "k < length h" using assms(3) within_length [OF assms(2)] by simp
  have iv: "in_iv (sint (h ! k) * c) (iv_scale c (b ! k))"
    using within_nth [OF assms(2,3)] k assms(4) by (simp add: in_iv_scale)
  have "sint (h ! k * of_int c) = sint (h ! k) * c"
    by (rule sint_eqI) (use iv_fits_srange [OF assms(1) iv] in simp_all)
  with iv k show ?thesis by simp
qed

text \<open>The six multiply-and-add statements of a \<open>Fold\<close>, one at a time.\<close>

lemma fold_add_sound:
  fixes h :: "'a::len word list"
  assumes "bnd_add LENGTH('a) j (iv_scale (numeral c) (b ! k)) b = Some b'"
    and "within (map sint h) b" and "k < length b"
  shows "map sint (add_at j (h ! k * numeral c) h) = add_at j (map sint h ! k * numeral c) (map sint h)
    \<and> within (map sint (add_at j (h ! k * numeral c) h)) b' \<and> k < length b'"
proof -
  have "iv_fits LENGTH('a) (iv_scale (numeral c) (b ! k))"
    using assms(1) by (auto simp: bnd_add_def split: if_splits)
  then show ?thesis
    using mul_const_sound [of "numeral c" b k h] bnd_add_sound [OF assms(1,2), of "h ! k * numeral c"]
      assms(2,3) by auto
qed

lemma fold_sub_sound:
  fixes h :: "'a::len word list"
  assumes "bnd_sub LENGTH('a) j (iv_scale (numeral c) (b ! k)) b = Some b'"
    and "within (map sint h) b" and "k < length b"
  shows "map sint (sub_at j (h ! k * numeral c) h) = sub_at j (map sint h ! k * numeral c) (map sint h)
    \<and> within (map sint (sub_at j (h ! k * numeral c) h)) b' \<and> k < length b'"
proof -
  have "iv_fits LENGTH('a) (iv_scale (numeral c) (b ! k))"
    using assms(1) by (auto simp: bnd_sub_def split: if_splits)
  then show ?thesis
    using mul_const_sound [of "numeral c" b k h] bnd_sub_sound [OF assms(1,2), of "h ! k * numeral c"]
      assms(2,3) by auto
qed

lemma fold_sound:
  fixes h :: "'a::len word list"
  assumes "bnd_op LENGTH('a) (Fold k) b = Some b'" and h: "within (map sint h) b"
  shows "map sint (exec_op (Fold k) h) = iexec_op (Fold k) (map sint h)
    \<and> within (map sint (exec_op (Fold k) h)) b'"
proof -
  define n where "n = LENGTH('a)"
  obtain b1 b2 b3 b4 b5 b6 where k: "k < length b"
    and 1: "bnd_add n (k - 12) (iv_scale 666643 (b ! k)) b = Some b1"
    and 2: "bnd_add n (k - 11) (iv_scale 470296 (b1 ! k)) b1 = Some b2"
    and 3: "bnd_add n (k - 10) (iv_scale 654183 (b2 ! k)) b2 = Some b3"
    and 4: "bnd_sub n (k - 9) (iv_scale 997805 (b3 ! k)) b3 = Some b4"
    and 5: "bnd_add n (k - 8) (iv_scale 136657 (b4 ! k)) b4 = Some b5"
    and 6: "bnd_sub n (k - 7) (iv_scale 683901 (b5 ! k)) b5 = Some b6"
    and b': "b' = b6[k := (0, 0)]"
    using assms(1) unfolding n_def [symmetric]
    by (auto simp: bind_eq_Some_conv split: if_splits)
  define h1 where "h1 = add_at (k - 12) (h ! k * 666643) h"
  define h2 where "h2 = add_at (k - 11) (h1 ! k * 470296) h1"
  define h3 where "h3 = add_at (k - 10) (h2 ! k * 654183) h2"
  define h4 where "h4 = sub_at (k - 9) (h3 ! k * 997805) h3"
  define h5 where "h5 = add_at (k - 8) (h4 ! k * 136657) h4"
  define h6 where "h6 = sub_at (k - 7) (h5 ! k * 683901) h5"
  note s1 = fold_add_sound [OF 1 [unfolded n_def] h k, folded h1_def]
  note s2 = fold_add_sound [OF 2 [unfolded n_def] s1 [THEN conjunct2, THEN conjunct1]
      s1 [THEN conjunct2, THEN conjunct2], folded h2_def]
  note s3 = fold_add_sound [OF 3 [unfolded n_def] s2 [THEN conjunct2, THEN conjunct1]
      s2 [THEN conjunct2, THEN conjunct2], folded h3_def]
  note s4 = fold_sub_sound [OF 4 [unfolded n_def] s3 [THEN conjunct2, THEN conjunct1]
      s3 [THEN conjunct2, THEN conjunct2], folded h4_def]
  note s5 = fold_add_sound [OF 5 [unfolded n_def] s4 [THEN conjunct2, THEN conjunct1]
      s4 [THEN conjunct2, THEN conjunct2], folded h5_def]
  note s6 = fold_sub_sound [OF 6 [unfolded n_def] s5 [THEN conjunct2, THEN conjunct1]
      s5 [THEN conjunct2, THEN conjunct2], folded h6_def]
  have w: "exec_op (Fold k) h = h6[k := 0]"
    unfolding exec_op.simps Let_def h6_def h5_def h4_def h3_def h2_def h1_def ..
  have i: "iexec_op (Fold k) (map sint h) = (map sint h6)[k := 0]"
    unfolding iexec_op.simps Let_def s6 [THEN conjunct1] s5 [THEN conjunct1] s4 [THEN conjunct1]
      s3 [THEN conjunct1] s2 [THEN conjunct1] s1 [THEN conjunct1] ..
  have "within ((map sint h6)[k := 0]) b'"
    unfolding b' by (rule within_update [OF s6 [THEN conjunct2, THEN conjunct1]]) (simp add: in_iv_def)
  then show ?thesis unfolding w i by (simp add: map_update)
qed

theorem exec_ops_sound:
  fixes h :: "'a::len word list"
  assumes "bnd_ops LENGTH('a) ops b = Some b'" and "within (map sint h) b" and "25 < LENGTH('a)"
  shows "map sint (exec_ops ops h) = iexec_ops ops (map sint h)
    \<and> within (map sint (exec_ops ops h)) b'"
  using assms(1,2)
proof (induction ops arbitrary: h b)
  case Nil
  then show ?case by (simp add: exec_ops_def iexec_ops_def)
next
  case (Cons op ops)
  from Cons.prems(1) obtain b1 where b1: "bnd_op LENGTH('a) op b = Some b1"
    and rest: "bnd_ops LENGTH('a) ops b1 = Some b'"
    by (auto split: option.splits)
  have step: "map sint (exec_op op h) = iexec_op op (map sint h) \<and> within (map sint (exec_op op h)) b1"
    using b1 Cons.prems(2) assms(3)
    by (cases op) (blast dest: round_sound floor_sound drop_sound wrap_sound fold_sound)+
  then have "map sint (exec_ops ops (exec_op op h)) = iexec_ops ops (map sint (exec_op op h))
      \<and> within (map sint (exec_ops ops (exec_op op h))) b'"
    by (intro Cons.IH [OF rest]) (rule conjunct2)
  with step show ?case unfolding exec_ops_def iexec_ops_def fold_Cons comp_apply by metis
qed

section \<open>Values are kept\<close>

lemma limb_val_update:
  "j < length h \<Longrightarrow> length h = length ws \<Longrightarrow>
    limb_val ws (h[j := v]) = limb_val ws h + (v - h ! j) * 2 ^ (ws ! j)"
  unfolding limb_val_def
proof (induction h arbitrary: j ws)
  case Nil
  then show ?case by simp
next
  case (Cons x h)
  then obtain w ws' where ws: "ws = w # ws'" "length h = length ws'" by (cases ws) auto
  show ?case
  proof (cases j)
    case 0
    then show ?thesis by (simp add: ws algebra_simps)
  next
    case (Suc i)
    with Cons.IH [of i ws'] Cons.prems ws show ?thesis by simp
  qed
qed

lemma limb_val_add_at:
  "j < length h \<Longrightarrow> length h = length ws \<Longrightarrow> limb_val ws (add_at j v h) = limb_val ws h + v * 2 ^ (ws ! j)"
  by (simp add: add_at_def limb_val_update)

lemma limb_val_sub_at:
  "j < length h \<Longrightarrow> length h = length ws \<Longrightarrow> limb_val ws (sub_at j v h) = limb_val ws h - v * 2 ^ (ws ! j)"
  by (simp add: sub_at_def limb_val_update algebra_simps)

lemmas limb_val_simps = limb_val_add_at limb_val_sub_at limb_val_update

lemma length_iexec_op [simp]: "length (iexec_op op h) = length h"
  by (cases op) (simp_all add: Let_def)

lemma mod_add_multiple: "d mod m = 0 \<Longrightarrow> (x + c * d) mod m = x mod m" for x c d m :: int
proof -
  assume "d mod m = 0"
  then obtain q where "d = m * q" by auto
  then have "x + c * d = x + m * (c * q)" by simp
  then show ?thesis by (simp only: mod_mult_self2)
qed

lemma iexec_op_val:
  assumes "op_ok m ws op" and "length h = length ws"
  shows "limb_val ws (iexec_op op h) mod m = limb_val ws h mod m"
proof (cases op)
  case (Round i k)
  with assms show ?thesis by (simp add: Let_def limb_val_simps power_add)
next
  case (Floor i k)
  with assms show ?thesis by (simp add: Let_def limb_val_simps power_add)
next
  case (Drop i k)
  with assms show ?thesis by simp
next
  case Wrap
  let ?c = "(h ! 9 + 2 ^ 24) div 2 ^ 25"
  have "0 < length h" "9 < length h" using assms Wrap by auto
  then have "limb_val ws (iexec_op op h)
      = limb_val ws h + ?c * (19 * 2 ^ (ws ! 0) - 2 ^ 25 * 2 ^ (ws ! 9))"
    using assms Wrap by (simp add: Let_def limb_val_simps algebra_simps)
  then show ?thesis using assms Wrap by (simp add: mod_add_multiple)
next
  case (Fold k)
  have k: "12 \<le> k" "k < length h" "length h = length ws" using assms Fold by auto
  have ne: "k \<noteq> k - 12" "k \<noteq> k - 11" "k \<noteq> k - 10" "k \<noteq> k - 9" "k \<noteq> k - 8" "k \<noteq> k - 7"
    and lt: "k - 12 < length h" "k - 11 < length h" "k - 10 < length h" "k - 9 < length h"
      "k - 8 < length h" "k - 7 < length h"
    using k by linarith+
  have "limb_val ws (iexec_op op h) = limb_val ws h + h ! k *
     (666643 * 2 ^ (ws ! (k - 12)) + 470296 * 2 ^ (ws ! (k - 11)) + 654183 * 2 ^ (ws ! (k - 10))
      - 997805 * 2 ^ (ws ! (k - 9)) + 136657 * 2 ^ (ws ! (k - 8)) - 683901 * 2 ^ (ws ! (k - 7))
      - 2 ^ (ws ! k))"
    using k lt ne unfolding Fold by (simp add: Let_def limb_val_simps algebra_simps)
  then show ?thesis using assms Fold by (simp add: mod_add_multiple)
qed

theorem iexec_ops_val:
  assumes "list_all (op_ok m ws) ops" and "length h = length ws"
  shows "limb_val ws (iexec_ops ops h) mod m = limb_val ws h mod m"
  using assms
proof (induction ops arbitrary: h)
  case Nil
  then show ?case by (simp add: iexec_ops_def)
next
  case (Cons op ops)
  then have "limb_val ws (iexec_ops ops (iexec_op op h)) mod m = limb_val ws (iexec_op op h) mod m"
    by simp
  with Cons.prems show ?case by (simp add: iexec_ops_def iexec_op_val)
qed

end
