(* ===== verification/Gf.thy ===== *)
theory Gf
  imports Prelude
begin

text \<open>
  The abstract field that \<^verbatim>\<open>fe.h\<close> describes: the integers modulo \<open>p = 2^255 - 19\<close>, as a type of
  its own with the ring operations, so that the specifications of the field and group routines are
  equations in a commutative ring.  The canonical map from the integers is \<open>of_int\<close>.
\<close>

definition p25519 :: int where
  "p25519 = 2 ^ 255 - 19"

lemma p25519_gt_1 [simp]: "1 < p25519"
  by (simp add: p25519_def)

lemma p25519_pos [simp]: "0 < p25519"
  by (simp add: p25519_def)

typedef gf = "{0 ..< p25519}" morphisms rep_gf abs_gf
  by (rule exI [of _ 0]) simp

setup_lifting type_definition_gf

instantiation gf :: comm_ring_1
begin

lift_definition zero_gf :: gf is 0 by simp
lift_definition one_gf :: gf is 1 by simp
lift_definition plus_gf :: "gf \<Rightarrow> gf \<Rightarrow> gf" is "\<lambda>x y. (x + y) mod p25519" by simp
lift_definition minus_gf :: "gf \<Rightarrow> gf \<Rightarrow> gf" is "\<lambda>x y. (x - y) mod p25519" by simp
lift_definition uminus_gf :: "gf \<Rightarrow> gf" is "\<lambda>x. (- x) mod p25519" by simp
lift_definition times_gf :: "gf \<Rightarrow> gf \<Rightarrow> gf" is "\<lambda>x y. (x * y) mod p25519" by simp

instance
  by standard (transfer; simp add: mod_simps algebra_simps)+

end

lemma rep_gf_of_int [simp]: "rep_gf (of_int x) = x mod p25519"
proof (induction x rule: int_induct [where k = 0])
  case base
  show ?case by (simp add: zero_gf.rep_eq)
next
  case (step1 i)
  then show ?case by (simp add: plus_gf.rep_eq one_gf.rep_eq mod_simps)
next
  case (step2 i)
  then show ?case by (simp add: minus_gf.rep_eq one_gf.rep_eq mod_simps)
qed

lemma of_int_gf_eq_iff: "(of_int x :: gf) = of_int y \<longleftrightarrow> x mod p25519 = y mod p25519"
  by (simp add: rep_gf_inject [symmetric])

lemma of_int_gf_eq_0_iff: "(of_int x :: gf) = 0 \<longleftrightarrow> x mod p25519 = 0"
  using of_int_gf_eq_iff [of x 0] by simp

lemma of_int_rep_gf [simp]: "of_int (rep_gf a) = a"
proof -
  have "rep_gf (of_int (rep_gf a)) = rep_gf a"
    using rep_gf [of a] by simp
  then show ?thesis by (simp only: rep_gf_inject)
qed

lemma rep_gf_range: "0 \<le> rep_gf a \<and> rep_gf a < p25519"
  using rep_gf [of a] by simp

end
