(* ===== verification/Fe.thy ===== *)
theory Fe
  imports Limbs Gf
begin

text \<open>
  Field elements (\<^verbatim>\<open>src/shared/ed25519/src/fe.h\<close>, first part of \<^verbatim>\<open>fe.c\<close>): the type \<open>fe\<close> of ten signed 32-bit
  limbs, the integer it represents, the bounds the comments of \<^verbatim>\<open>fe.c\<close> state, and the routines without
  carries: \<open>fe_0\<close>, \<open>fe_1\<close>, \<open>fe_copy\<close>, \<open>fe_add\<close>, \<open>fe_sub\<close>, \<open>fe_neg\<close>, \<open>fe_cmov\<close>, \<open>fe_cswap\<close>.
  A routine that writes its result through a pointer argument returns it here.
\<close>

section \<open>Data\<close>

text \<open>\<^verbatim>\<open>typedef int32_t fe[10]\<close>: the array's ten entries.\<close>

datatype fe = Fe i32 i32 i32 i32 i32 i32 i32 i32 i32 i32

fun fe_limbs :: "fe \<Rightarrow> i32 list" where
  "fe_limbs (Fe f0 f1 f2 f3 f4 f5 f6 f7 f8 f9) = [f0, f1, f2, f3, f4, f5, f6, f7, f8, f9]"

text \<open>The represented integer \<open>t[0] + 2^26 t[1] + 2^51 t[2] + 2^77 t[3] + ... + 2^230 t[9]\<close>.\<close>

definition fe_weights :: "nat list" where
  "fe_weights = [0, 26, 51, 77, 102, 128, 153, 179, 204, 230]"

definition fe_val :: "fe \<Rightarrow> int" where
  "fe_val f = limb_val fe_weights (map sint (fe_limbs f))"

definition fe_abs :: "fe \<Rightarrow> gf" where
  "fe_abs f = of_int (fe_val f)"

text \<open>\<open>fe_bounded c k f\<close> is the comments' \<open>|f|\<close> bounded by \<open>(c/100)*2^k, (c/100)*2^(k-1), ...\<close>.\<close>

definition fe_bounded :: "int \<Rightarrow> nat \<Rightarrow> fe \<Rightarrow> bool" where
  "fe_bounded c k f \<longleftrightarrow>
     list_all2 (\<lambda>x e. 100 * \<bar>sint x\<bar> \<le> c * 2 ^ (k - e)) (fe_limbs f) [0, 1, 0, 1, 0, 1, 0, 1, 0, 1]"

section \<open>Operations\<close>

definition fe_0 :: fe where
  "fe_0 = Fe 0 0 0 0 0 0 0 0 0 0"

definition fe_1 :: fe where
  "fe_1 = Fe 1 0 0 0 0 0 0 0 0 0"

fun fe_add :: "fe \<Rightarrow> fe \<Rightarrow> fe" where
  "fe_add (Fe f0 f1 f2 f3 f4 f5 f6 f7 f8 f9) (Fe g0 g1 g2 g3 g4 g5 g6 g7 g8 g9) =
     Fe (f0 + g0) (f1 + g1) (f2 + g2) (f3 + g3) (f4 + g4) (f5 + g5) (f6 + g6) (f7 + g7) (f8 + g8) (f9 + g9)"

text \<open>The mask \<open>b = (unsigned int) (- (int) b)\<close> selects \<open>f ^ g\<close> when \<open>b = 1\<close>.\<close>

definition fe_cmov :: "fe \<Rightarrow> fe \<Rightarrow> 32 word \<Rightarrow> fe" where
  "fe_cmov f g b =
    (case f of Fe f0 f1 f2 f3 f4 f5 f6 f7 f8 f9 \<Rightarrow> case g of Fe g0 g1 g2 g3 g4 g5 g6 g7 g8 g9 \<Rightarrow>
     let x0 = f0 XOR g0;
         x1 = f1 XOR g1;
         x2 = f2 XOR g2;
         x3 = f3 XOR g3;
         x4 = f4 XOR g4;
         x5 = f5 XOR g5;
         x6 = f6 XOR g6;
         x7 = f7 XOR g7;
         x8 = f8 XOR g8;
         x9 = f9 XOR g9;
         b = - b;
         x0 = x0 AND b;
         x1 = x1 AND b;
         x2 = x2 AND b;
         x3 = x3 AND b;
         x4 = x4 AND b;
         x5 = x5 AND b;
         x6 = x6 AND b;
         x7 = x7 AND b;
         x8 = x8 AND b;
         x9 = x9 AND b
     in Fe (f0 XOR x0) (f1 XOR x1) (f2 XOR x2) (f3 XOR x3) (f4 XOR x4) (f5 XOR x5) (f6 XOR x6) (f7 XOR x7) (f8 XOR x8) (f9 XOR x9))"

definition fe_cswap :: "fe \<Rightarrow> fe \<Rightarrow> 32 word \<Rightarrow> fe \<times> fe" where
  "fe_cswap f g b =
    (case f of Fe f0 f1 f2 f3 f4 f5 f6 f7 f8 f9 \<Rightarrow> case g of Fe g0 g1 g2 g3 g4 g5 g6 g7 g8 g9 \<Rightarrow>
     let x0 = f0 XOR g0;
         x1 = f1 XOR g1;
         x2 = f2 XOR g2;
         x3 = f3 XOR g3;
         x4 = f4 XOR g4;
         x5 = f5 XOR g5;
         x6 = f6 XOR g6;
         x7 = f7 XOR g7;
         x8 = f8 XOR g8;
         x9 = f9 XOR g9;
         b = - b;
         x0 = x0 AND b;
         x1 = x1 AND b;
         x2 = x2 AND b;
         x3 = x3 AND b;
         x4 = x4 AND b;
         x5 = x5 AND b;
         x6 = x6 AND b;
         x7 = x7 AND b;
         x8 = x8 AND b;
         x9 = x9 AND b
     in (Fe (f0 XOR x0) (f1 XOR x1) (f2 XOR x2) (f3 XOR x3) (f4 XOR x4) (f5 XOR x5) (f6 XOR x6) (f7 XOR x7) (f8 XOR x8) (f9 XOR x9),
         Fe (g0 XOR x0) (g1 XOR x1) (g2 XOR x2) (g3 XOR x3) (g4 XOR x4) (g5 XOR x5) (g6 XOR x6) (g7 XOR x7) (g8 XOR x8) (g9 XOR x9)))"

fun fe_copy :: "fe \<Rightarrow> fe" where
  "fe_copy (Fe f0 f1 f2 f3 f4 f5 f6 f7 f8 f9) = Fe f0 f1 f2 f3 f4 f5 f6 f7 f8 f9"

fun fe_neg :: "fe \<Rightarrow> fe" where
  "fe_neg (Fe f0 f1 f2 f3 f4 f5 f6 f7 f8 f9) =
     Fe (- f0) (- f1) (- f2) (- f3) (- f4) (- f5) (- f6) (- f7) (- f8) (- f9)"

fun fe_sub :: "fe \<Rightarrow> fe \<Rightarrow> fe" where
  "fe_sub (Fe f0 f1 f2 f3 f4 f5 f6 f7 f8 f9) (Fe g0 g1 g2 g3 g4 g5 g6 g7 g8 g9) =
     Fe (f0 - g0) (f1 - g1) (f2 - g2) (f3 - g3) (f4 - g4) (f5 - g5) (f6 - g6) (f7 - g7) (f8 - g8) (f9 - g9)"

section \<open>Values and bounds\<close>

lemma fe_val_simp:
  "fe_val (Fe f0 f1 f2 f3 f4 f5 f6 f7 f8 f9) = sint f0 + sint f1 * 2 ^ 26 + sint f2 * 2 ^ 51 + sint f3 * 2 ^ 77
    + sint f4 * 2 ^ 102 + sint f5 * 2 ^ 128 + sint f6 * 2 ^ 153 + sint f7 * 2 ^ 179
    + sint f8 * 2 ^ 204 + sint f9 * 2 ^ 230"
  unfolding fe_val_def limb_val_def fe_weights_def by simp

lemma fe_bounded_simp:
  "fe_bounded c k (Fe f0 f1 f2 f3 f4 f5 f6 f7 f8 f9) \<longleftrightarrow>
     100 * \<bar>sint f0\<bar> \<le> c * 2 ^ k \<and> 100 * \<bar>sint f1\<bar> \<le> c * 2 ^ (k - 1) \<and>
     100 * \<bar>sint f2\<bar> \<le> c * 2 ^ k \<and> 100 * \<bar>sint f3\<bar> \<le> c * 2 ^ (k - 1) \<and>
     100 * \<bar>sint f4\<bar> \<le> c * 2 ^ k \<and> 100 * \<bar>sint f5\<bar> \<le> c * 2 ^ (k - 1) \<and>
     100 * \<bar>sint f6\<bar> \<le> c * 2 ^ k \<and> 100 * \<bar>sint f7\<bar> \<le> c * 2 ^ (k - 1) \<and>
     100 * \<bar>sint f8\<bar> \<le> c * 2 ^ k \<and> 100 * \<bar>sint f9\<bar> \<le> c * 2 ^ (k - 1)"
  by (simp add: fe_bounded_def)

lemma fe_bounded_mono: "fe_bounded c k f \<Longrightarrow> c \<le> d \<Longrightarrow> fe_bounded d k f"
  unfolding fe_bounded_def
  by (erule list_all2_mono) (auto elim: order_trans intro: mult_right_mono)

lemma fe_bounded_26: "fe_bounded c 26 f \<longleftrightarrow> fe_bounded (2 * c) 25 f"
  by (cases f) (simp add: fe_bounded_simp)

lemma fe_0_val [simp]: "fe_val fe_0 = 0" and fe_1_val [simp]: "fe_val fe_1 = 1"
  by (simp_all add: fe_0_def fe_1_def fe_val_simp)

lemma fe_0_abs [simp]: "fe_abs fe_0 = 0" and fe_1_abs [simp]: "fe_abs fe_1 = 1"
  by (simp_all add: fe_abs_def)

lemma fe_0_bounded [simp]: "0 \<le> c \<Longrightarrow> fe_bounded c k fe_0"
  by (simp add: fe_0_def fe_bounded_simp)

lemma fe_1_bounded [simp]: "1 \<le> c \<Longrightarrow> fe_bounded c 25 fe_1"
  by (simp add: fe_1_def fe_bounded_simp)

lemma fe_copy_id [simp]: "fe_copy f = f"
  by (cases f) simp


text \<open>Limb-wise arithmetic stays exact as long as the factors add up to at most 60.\<close>

lemma limb_exact_range:
  assumes "100 * \<bar>x\<bar> \<le> c * 2 ^ m" and "c \<le> 6000" and "m \<le> 25"
  shows "srange LENGTH(32) x"
proof -
  have "c * 2 ^ m \<le> 6000 * 2 ^ m" using assms(2) by simp
  also have "(2::int) ^ m \<le> 2 ^ 25" using assms(3) by (intro power_increasing) auto
  then have "6000 * (2::int) ^ m \<le> 6000 * 2 ^ 25" by simp
  finally have "\<bar>x\<bar> \<le> 2013265920" using assms(1) by simp
  then show ?thesis unfolding srange_def by (simp add: abs_le_iff)
qed

lemma scaled_abs_add: "100 * \<bar>x\<bar> \<le> a \<Longrightarrow> 100 * \<bar>y\<bar> \<le> b \<Longrightarrow> 100 * \<bar>x + y\<bar> \<le> a + b" for x y a b :: int
  using add_mono [of "100 * \<bar>x\<bar>" a "100 * \<bar>y\<bar>" b] mult_left_mono [OF abs_triangle_ineq [of x y], of 100]
  by (simp add: distrib_left)

lemma scaled_abs_sub: "100 * \<bar>x\<bar> \<le> a \<Longrightarrow> 100 * \<bar>y\<bar> \<le> b \<Longrightarrow> 100 * \<bar>x - y\<bar> \<le> a + b" for x y a b :: int
  using add_mono [of "100 * \<bar>x\<bar>" a "100 * \<bar>y\<bar>" b] mult_left_mono [OF abs_triangle_ineq4 [of x y], of 100]
  by (simp add: distrib_left)

lemma limb_add:
  fixes x y :: i32
  assumes "100 * \<bar>sint x\<bar> \<le> a * 2 ^ m" and "100 * \<bar>sint y\<bar> \<le> b * 2 ^ m"
    and "a + b \<le> 6000" and "m \<le> 25"
  shows "sint (x + y) = sint x + sint y \<and> 100 * \<bar>sint (x + y)\<bar> \<le> (a + b) * 2 ^ m"
proof -
  have le: "100 * \<bar>sint x + sint y\<bar> \<le> (a + b) * 2 ^ m"
    unfolding distrib_right by (rule scaled_abs_add [OF assms(1,2)])
  have "sint (x + y) = sint x + sint y"
    by (rule sint_add_exact) (rule limb_exact_range [OF le assms(3,4)])
  with le show ?thesis by simp
qed

lemma limb_sub:
  fixes x y :: i32
  assumes "100 * \<bar>sint x\<bar> \<le> a * 2 ^ m" and "100 * \<bar>sint y\<bar> \<le> b * 2 ^ m"
    and "a + b \<le> 6000" and "m \<le> 25"
  shows "sint (x - y) = sint x - sint y \<and> 100 * \<bar>sint (x - y)\<bar> \<le> (a + b) * 2 ^ m"
proof -
  have le: "100 * \<bar>sint x - sint y\<bar> \<le> (a + b) * 2 ^ m"
    unfolding distrib_right by (rule scaled_abs_sub [OF assms(1,2)])
  have "sint (x - y) = sint x - sint y"
    by (rule sint_sub_exact) (rule limb_exact_range [OF le assms(3,4)])
  with le show ?thesis by simp
qed

lemma limb_neg:
  fixes x :: i32
  assumes "100 * \<bar>sint x\<bar> \<le> a * 2 ^ m" and "a \<le> 6000" and "m \<le> 25"
  shows "sint (- x) = - sint x \<and> 100 * \<bar>sint (- x)\<bar> \<le> a * 2 ^ m"
proof -
  have "srange LENGTH(32) (- sint x)"
    by (rule limb_exact_range [OF _ assms(2,3)]) (use assms(1) in simp)
  then have "sint (- x) = - sint x" by (rule sint_uminus_exact)
  with assms(1) show ?thesis by simp
qed

text \<open>The same for whole limb vectors; \<open>es\<close> are the per-limb offsets of the exponent.\<close>

abbreviation limbs_bounded :: "int \<Rightarrow> i32 list \<Rightarrow> nat list \<Rightarrow> bool" where
  "limbs_bounded c xs es \<equiv> list_all2 (\<lambda>x e. 100 * \<bar>sint x\<bar> \<le> c * 2 ^ (25 - e)) xs es"

lemma limbs_add:
  assumes "limbs_bounded a xs es" and "limbs_bounded b ys es" and "a + b \<le> 6000"
  shows "map sint (map2 (+) xs ys) = map2 (+) (map sint xs) (map sint ys)
    \<and> limbs_bounded (a + b) (map2 (+) xs ys) es"
  using assms
proof (induction xs es arbitrary: ys rule: list_all2_induct)
  case Nil
  then show ?case by simp
next
  case (Cons x xs e es)
  then obtain y zs where ys: "ys = y # zs" and y: "100 * \<bar>sint y\<bar> \<le> b * 2 ^ (25 - e)"
    and zs: "limbs_bounded b zs es"
    by (auto simp: list_all2_Cons2)
  from limb_add [OF Cons.hyps(1) y assms(3)] Cons.IH [OF zs assms(3)] show ?case
    by (auto simp: ys)
qed

lemma limbs_sub:
  assumes "limbs_bounded a xs es" and "limbs_bounded b ys es" and "a + b \<le> 6000"
  shows "map sint (map2 (-) xs ys) = map2 (-) (map sint xs) (map sint ys)
    \<and> limbs_bounded (a + b) (map2 (-) xs ys) es"
  using assms
proof (induction xs es arbitrary: ys rule: list_all2_induct)
  case Nil
  then show ?case by simp
next
  case (Cons x xs e es)
  then obtain y zs where ys: "ys = y # zs" and y: "100 * \<bar>sint y\<bar> \<le> b * 2 ^ (25 - e)"
    and zs: "limbs_bounded b zs es"
    by (auto simp: list_all2_Cons2)
  from limb_sub [OF Cons.hyps(1) y assms(3)] Cons.IH [OF zs assms(3)] show ?case
    by (auto simp: ys)
qed

lemma limbs_neg:
  assumes "limbs_bounded a xs es" and "a \<le> 6000"
  shows "map sint (map uminus xs) = map uminus (map sint xs) \<and> limbs_bounded a (map uminus xs) es"
  using assms
proof (induction xs es rule: list_all2_induct)
  case Nil
  then show ?case by simp
next
  case (Cons x xs e es)
  from limb_neg [OF Cons.hyps(1) assms(2)] Cons.IH [OF assms(2)] show ?case by auto
qed

lemma limb_val_map2_add:
  "length xs = length ws \<Longrightarrow> length ys = length ws \<Longrightarrow>
    limb_val ws (map2 (+) xs ys) = limb_val ws xs + limb_val ws ys"
  by (induction ws arbitrary: xs ys) (auto simp: limb_val_def length_Suc_conv algebra_simps)

lemma limb_val_map2_sub:
  "length xs = length ws \<Longrightarrow> length ys = length ws \<Longrightarrow>
    limb_val ws (map2 (-) xs ys) = limb_val ws xs - limb_val ws ys"
  by (induction ws arbitrary: xs ys) (auto simp: limb_val_def length_Suc_conv algebra_simps)

lemma limb_val_map_uminus:
  "length xs = length ws \<Longrightarrow> limb_val ws (map uminus xs) = - limb_val ws xs"
  by (induction ws arbitrary: xs) (auto simp: limb_val_def length_Suc_conv algebra_simps)

lemma fe_limbs_ops:
  "fe_limbs (fe_add f g) = map2 (+) (fe_limbs f) (fe_limbs g)"
  "fe_limbs (fe_sub f g) = map2 (-) (fe_limbs f) (fe_limbs g)"
  "fe_limbs (fe_neg f) = map uminus (fe_limbs f)"
  by (cases f; cases g; simp)+

lemma length_fe_limbs [simp]: "length (fe_limbs f) = 10"
  by (cases f) simp

lemma length_fe_weights [simp]: "length fe_weights = 10"
  by (simp add: fe_weights_def)

lemma fe_add_ok:
  assumes "fe_bounded a 25 f" and "fe_bounded b 25 g" and "a + b \<le> 6000"
  shows "fe_val (fe_add f g) = fe_val f + fe_val g \<and> fe_bounded (a + b) 25 (fe_add f g)"
  using limbs_add [OF assms(1,2) [unfolded fe_bounded_def] assms(3)]
  by (simp add: fe_val_def fe_bounded_def fe_limbs_ops limb_val_map2_add)

lemma fe_sub_ok:
  assumes "fe_bounded a 25 f" and "fe_bounded b 25 g" and "a + b \<le> 6000"
  shows "fe_val (fe_sub f g) = fe_val f - fe_val g \<and> fe_bounded (a + b) 25 (fe_sub f g)"
  using limbs_sub [OF assms(1,2) [unfolded fe_bounded_def] assms(3)]
  by (simp add: fe_val_def fe_bounded_def fe_limbs_ops limb_val_map2_sub)

lemma fe_neg_ok:
  assumes "fe_bounded a 25 f" and "a \<le> 6000"
  shows "fe_val (fe_neg f) = - fe_val f \<and> fe_bounded a 25 (fe_neg f)"
  using limbs_neg [OF assms(1) [unfolded fe_bounded_def] assms(2)]
  by (simp add: fe_val_def fe_bounded_def fe_limbs_ops limb_val_map_uminus del: map_map)

section \<open>Conditional move and swap\<close>

lemma mask_select:
  fixes x y :: "'a::len word"
  shows "x XOR ((x XOR y) AND - 0) = x" and "y XOR ((x XOR y) AND - 0) = y"
    and "x XOR ((x XOR y) AND - 1) = y" and "y XOR ((x XOR y) AND - 1) = x"
  by (rule bit_word_eqI, simp add: bit_xor_iff bit_and_iff; blast)+

lemma fe_cmov_eq: "b = 0 \<or> b = 1 \<Longrightarrow> fe_cmov f g b = (if b = 1 then g else f)"
  unfolding fe_cmov_def
  by (cases f; cases g; elim disjE) (simp_all only: fe.case Let_def mask_select if_True zero_neq_one if_False simp_thms)

lemma fe_cswap_eq: "b = 0 \<or> b = 1 \<Longrightarrow> fe_cswap f g b = (if b = 1 then (g, f) else (f, g))"
  unfolding fe_cswap_def
  by (cases f; cases g; elim disjE) (simp_all only: fe.case Let_def mask_select if_True zero_neq_one if_False simp_thms)

end
