(* ===== verification/Fe_Mul.thy ===== *)
theory Fe_Mul
  imports Fe
begin

text \<open>
  Multiplication, squaring, doubled squaring and multiplication by 121666 (\<^verbatim>\<open>fe.c\<close>).  Each routine forms
  ten 64-bit sums \<open>h0, ..., h9\<close>, runs a carry chain over them and stores the low words.
  \<open>fe_mul_correct\<close> and its companions show that under the bounds the comments require no sum
  overflows, that the result represents the product modulo \<open>2^255 - 19\<close> and that it
  meets the bounds the comments promise.
\<close>

section \<open>Definitions\<close>

text \<open>The conversion \<^verbatim>\<open>(int64_t)\<close> of an \<^verbatim>\<open>int32_t\<close>, and the conversion back on a store.\<close>

abbreviation i64_of :: "i32 \<Rightarrow> i64" where
  "i64_of x \<equiv> scast x"

text \<open>\<^verbatim>\<open>h[0] = (int32_t) h0; ...; h[9] = (int32_t) h9;\<close>\<close>

definition fe_store :: "i64 list \<Rightarrow> fe" where
  "fe_store h = Fe (scast (h ! 0)) (scast (h ! 1)) (scast (h ! 2)) (scast (h ! 3)) (scast (h ! 4))
     (scast (h ! 5)) (scast (h ! 6)) (scast (h ! 7)) (scast (h ! 8)) (scast (h ! 9))"

text \<open>The schoolbook sums of \<open>fe_mul\<close>, before the carries.\<close>

definition fe_mul_sums :: "fe \<Rightarrow> fe \<Rightarrow> i64 list" where
  "fe_mul_sums f g =
    (case f of Fe f0 f1 f2 f3 f4 f5 f6 f7 f8 f9 \<Rightarrow> case g of Fe g0 g1 g2 g3 g4 g5 g6 g7 g8 g9 \<Rightarrow>
     let g1_19 = 19 * g1;
         g2_19 = 19 * g2;
         g3_19 = 19 * g3;
         g4_19 = 19 * g4;
         g5_19 = 19 * g5;
         g6_19 = 19 * g6;
         g7_19 = 19 * g7;
         g8_19 = 19 * g8;
         g9_19 = 19 * g9;
         f1_2 = 2 * f1;
         f3_2 = 2 * f3;
         f5_2 = 2 * f5;
         f7_2 = 2 * f7;
         f9_2 = 2 * f9;
         f0g0 = i64_of f0 * i64_of g0;
         f0g1 = i64_of f0 * i64_of g1;
         f0g2 = i64_of f0 * i64_of g2;
         f0g3 = i64_of f0 * i64_of g3;
         f0g4 = i64_of f0 * i64_of g4;
         f0g5 = i64_of f0 * i64_of g5;
         f0g6 = i64_of f0 * i64_of g6;
         f0g7 = i64_of f0 * i64_of g7;
         f0g8 = i64_of f0 * i64_of g8;
         f0g9 = i64_of f0 * i64_of g9;
         f1g0 = i64_of f1 * i64_of g0;
         f1g1_2 = i64_of f1_2 * i64_of g1;
         f1g2 = i64_of f1 * i64_of g2;
         f1g3_2 = i64_of f1_2 * i64_of g3;
         f1g4 = i64_of f1 * i64_of g4;
         f1g5_2 = i64_of f1_2 * i64_of g5;
         f1g6 = i64_of f1 * i64_of g6;
         f1g7_2 = i64_of f1_2 * i64_of g7;
         f1g8 = i64_of f1 * i64_of g8;
         f1g9_38 = i64_of f1_2 * i64_of g9_19;
         f2g0 = i64_of f2 * i64_of g0;
         f2g1 = i64_of f2 * i64_of g1;
         f2g2 = i64_of f2 * i64_of g2;
         f2g3 = i64_of f2 * i64_of g3;
         f2g4 = i64_of f2 * i64_of g4;
         f2g5 = i64_of f2 * i64_of g5;
         f2g6 = i64_of f2 * i64_of g6;
         f2g7 = i64_of f2 * i64_of g7;
         f2g8_19 = i64_of f2 * i64_of g8_19;
         f2g9_19 = i64_of f2 * i64_of g9_19;
         f3g0 = i64_of f3 * i64_of g0;
         f3g1_2 = i64_of f3_2 * i64_of g1;
         f3g2 = i64_of f3 * i64_of g2;
         f3g3_2 = i64_of f3_2 * i64_of g3;
         f3g4 = i64_of f3 * i64_of g4;
         f3g5_2 = i64_of f3_2 * i64_of g5;
         f3g6 = i64_of f3 * i64_of g6;
         f3g7_38 = i64_of f3_2 * i64_of g7_19;
         f3g8_19 = i64_of f3 * i64_of g8_19;
         f3g9_38 = i64_of f3_2 * i64_of g9_19;
         f4g0 = i64_of f4 * i64_of g0;
         f4g1 = i64_of f4 * i64_of g1;
         f4g2 = i64_of f4 * i64_of g2;
         f4g3 = i64_of f4 * i64_of g3;
         f4g4 = i64_of f4 * i64_of g4;
         f4g5 = i64_of f4 * i64_of g5;
         f4g6_19 = i64_of f4 * i64_of g6_19;
         f4g7_19 = i64_of f4 * i64_of g7_19;
         f4g8_19 = i64_of f4 * i64_of g8_19;
         f4g9_19 = i64_of f4 * i64_of g9_19;
         f5g0 = i64_of f5 * i64_of g0;
         f5g1_2 = i64_of f5_2 * i64_of g1;
         f5g2 = i64_of f5 * i64_of g2;
         f5g3_2 = i64_of f5_2 * i64_of g3;
         f5g4 = i64_of f5 * i64_of g4;
         f5g5_38 = i64_of f5_2 * i64_of g5_19;
         f5g6_19 = i64_of f5 * i64_of g6_19;
         f5g7_38 = i64_of f5_2 * i64_of g7_19;
         f5g8_19 = i64_of f5 * i64_of g8_19;
         f5g9_38 = i64_of f5_2 * i64_of g9_19;
         f6g0 = i64_of f6 * i64_of g0;
         f6g1 = i64_of f6 * i64_of g1;
         f6g2 = i64_of f6 * i64_of g2;
         f6g3 = i64_of f6 * i64_of g3;
         f6g4_19 = i64_of f6 * i64_of g4_19;
         f6g5_19 = i64_of f6 * i64_of g5_19;
         f6g6_19 = i64_of f6 * i64_of g6_19;
         f6g7_19 = i64_of f6 * i64_of g7_19;
         f6g8_19 = i64_of f6 * i64_of g8_19;
         f6g9_19 = i64_of f6 * i64_of g9_19;
         f7g0 = i64_of f7 * i64_of g0;
         f7g1_2 = i64_of f7_2 * i64_of g1;
         f7g2 = i64_of f7 * i64_of g2;
         f7g3_38 = i64_of f7_2 * i64_of g3_19;
         f7g4_19 = i64_of f7 * i64_of g4_19;
         f7g5_38 = i64_of f7_2 * i64_of g5_19;
         f7g6_19 = i64_of f7 * i64_of g6_19;
         f7g7_38 = i64_of f7_2 * i64_of g7_19;
         f7g8_19 = i64_of f7 * i64_of g8_19;
         f7g9_38 = i64_of f7_2 * i64_of g9_19;
         f8g0 = i64_of f8 * i64_of g0;
         f8g1 = i64_of f8 * i64_of g1;
         f8g2_19 = i64_of f8 * i64_of g2_19;
         f8g3_19 = i64_of f8 * i64_of g3_19;
         f8g4_19 = i64_of f8 * i64_of g4_19;
         f8g5_19 = i64_of f8 * i64_of g5_19;
         f8g6_19 = i64_of f8 * i64_of g6_19;
         f8g7_19 = i64_of f8 * i64_of g7_19;
         f8g8_19 = i64_of f8 * i64_of g8_19;
         f8g9_19 = i64_of f8 * i64_of g9_19;
         f9g0 = i64_of f9 * i64_of g0;
         f9g1_38 = i64_of f9_2 * i64_of g1_19;
         f9g2_19 = i64_of f9 * i64_of g2_19;
         f9g3_38 = i64_of f9_2 * i64_of g3_19;
         f9g4_19 = i64_of f9 * i64_of g4_19;
         f9g5_38 = i64_of f9_2 * i64_of g5_19;
         f9g6_19 = i64_of f9 * i64_of g6_19;
         f9g7_38 = i64_of f9_2 * i64_of g7_19;
         f9g8_19 = i64_of f9 * i64_of g8_19;
         f9g9_38 = i64_of f9_2 * i64_of g9_19;
         h0 = f0g0 + f1g9_38 + f2g8_19 + f3g7_38 + f4g6_19 + f5g5_38 + f6g4_19 + f7g3_38 + f8g2_19 + f9g1_38;
         h1 = f0g1 + f1g0 + f2g9_19 + f3g8_19 + f4g7_19 + f5g6_19 + f6g5_19 + f7g4_19 + f8g3_19 + f9g2_19;
         h2 = f0g2 + f1g1_2 + f2g0 + f3g9_38 + f4g8_19 + f5g7_38 + f6g6_19 + f7g5_38 + f8g4_19 + f9g3_38;
         h3 = f0g3 + f1g2 + f2g1 + f3g0 + f4g9_19 + f5g8_19 + f6g7_19 + f7g6_19 + f8g5_19 + f9g4_19;
         h4 = f0g4 + f1g3_2 + f2g2 + f3g1_2 + f4g0 + f5g9_38 + f6g8_19 + f7g7_38 + f8g6_19 + f9g5_38;
         h5 = f0g5 + f1g4 + f2g3 + f3g2 + f4g1 + f5g0 + f6g9_19 + f7g8_19 + f8g7_19 + f9g6_19;
         h6 = f0g6 + f1g5_2 + f2g4 + f3g3_2 + f4g2 + f5g1_2 + f6g0 + f7g9_38 + f8g8_19 + f9g7_38;
         h7 = f0g7 + f1g6 + f2g5 + f3g4 + f4g3 + f5g2 + f6g1 + f7g0 + f8g9_19 + f9g8_19;
         h8 = f0g8 + f1g7_2 + f2g6 + f3g5_2 + f4g4 + f5g3_2 + f6g2 + f7g1_2 + f8g0 + f9g9_38;
         h9 = f0g9 + f1g8 + f2g7 + f3g6 + f4g5 + f5g4 + f6g3 + f7g2 + f8g1 + f9g0
     in [h0, h1, h2, h3, h4, h5, h6, h7, h8, h9])"

text \<open>The carry chain that \<open>fe_mul\<close>, \<open>fe_sq\<close> and \<open>fe_sq2\<close> share.\<close>

definition fe_mul_carries :: "limb_op list" where
  "fe_mul_carries =
     [Round 0 26, Round 4 26,
      Round 1 25, Round 5 25,
      Round 2 26, Round 6 26,
      Round 3 25, Round 7 25,
      Round 4 26, Round 8 26,
      Wrap,
      Round 0 26]"

definition fe_mul :: "fe \<Rightarrow> fe \<Rightarrow> fe" where
  "fe_mul f g = fe_store (exec_ops fe_mul_carries (fe_mul_sums f g))"

definition fe_mul121666_sums :: "fe \<Rightarrow> i64 list" where
  "fe_mul121666_sums f =
    (case f of Fe f0 f1 f2 f3 f4 f5 f6 f7 f8 f9 \<Rightarrow>
     [i64_of f0 * 121666,
      i64_of f1 * 121666,
      i64_of f2 * 121666,
      i64_of f3 * 121666,
      i64_of f4 * 121666,
      i64_of f5 * 121666,
      i64_of f6 * 121666,
      i64_of f7 * 121666,
      i64_of f8 * 121666,
      i64_of f9 * 121666])"

text \<open>The carry chain of \<open>fe_mul121666\<close> and \<open>fe_frombytes\<close>: odd limbs, then even limbs.\<close>

definition fe_odd_even_carries :: "limb_op list" where
  "fe_odd_even_carries =
     [Wrap, Round 1 25, Round 3 25, Round 5 25, Round 7 25,
      Round 0 26, Round 2 26, Round 4 26, Round 6 26, Round 8 26]"

definition fe_mul121666 :: "fe \<Rightarrow> fe" where
  "fe_mul121666 f = fe_store (exec_ops fe_odd_even_carries (fe_mul121666_sums f))"

definition fe_sq_sums :: "fe \<Rightarrow> i64 list" where
  "fe_sq_sums f =
    (case f of Fe f0 f1 f2 f3 f4 f5 f6 f7 f8 f9 \<Rightarrow>
     let f0_2 = 2 * f0;
         f1_2 = 2 * f1;
         f2_2 = 2 * f2;
         f3_2 = 2 * f3;
         f4_2 = 2 * f4;
         f5_2 = 2 * f5;
         f6_2 = 2 * f6;
         f7_2 = 2 * f7;
         f5_38 = 38 * f5;
         f6_19 = 19 * f6;
         f7_38 = 38 * f7;
         f8_19 = 19 * f8;
         f9_38 = 38 * f9;
         f0f0 = i64_of f0 * i64_of f0;
         f0f1_2 = i64_of f0_2 * i64_of f1;
         f0f2_2 = i64_of f0_2 * i64_of f2;
         f0f3_2 = i64_of f0_2 * i64_of f3;
         f0f4_2 = i64_of f0_2 * i64_of f4;
         f0f5_2 = i64_of f0_2 * i64_of f5;
         f0f6_2 = i64_of f0_2 * i64_of f6;
         f0f7_2 = i64_of f0_2 * i64_of f7;
         f0f8_2 = i64_of f0_2 * i64_of f8;
         f0f9_2 = i64_of f0_2 * i64_of f9;
         f1f1_2 = i64_of f1_2 * i64_of f1;
         f1f2_2 = i64_of f1_2 * i64_of f2;
         f1f3_4 = i64_of f1_2 * i64_of f3_2;
         f1f4_2 = i64_of f1_2 * i64_of f4;
         f1f5_4 = i64_of f1_2 * i64_of f5_2;
         f1f6_2 = i64_of f1_2 * i64_of f6;
         f1f7_4 = i64_of f1_2 * i64_of f7_2;
         f1f8_2 = i64_of f1_2 * i64_of f8;
         f1f9_76 = i64_of f1_2 * i64_of f9_38;
         f2f2 = i64_of f2 * i64_of f2;
         f2f3_2 = i64_of f2_2 * i64_of f3;
         f2f4_2 = i64_of f2_2 * i64_of f4;
         f2f5_2 = i64_of f2_2 * i64_of f5;
         f2f6_2 = i64_of f2_2 * i64_of f6;
         f2f7_2 = i64_of f2_2 * i64_of f7;
         f2f8_38 = i64_of f2_2 * i64_of f8_19;
         f2f9_38 = i64_of f2 * i64_of f9_38;
         f3f3_2 = i64_of f3_2 * i64_of f3;
         f3f4_2 = i64_of f3_2 * i64_of f4;
         f3f5_4 = i64_of f3_2 * i64_of f5_2;
         f3f6_2 = i64_of f3_2 * i64_of f6;
         f3f7_76 = i64_of f3_2 * i64_of f7_38;
         f3f8_38 = i64_of f3_2 * i64_of f8_19;
         f3f9_76 = i64_of f3_2 * i64_of f9_38;
         f4f4 = i64_of f4 * i64_of f4;
         f4f5_2 = i64_of f4_2 * i64_of f5;
         f4f6_38 = i64_of f4_2 * i64_of f6_19;
         f4f7_38 = i64_of f4 * i64_of f7_38;
         f4f8_38 = i64_of f4_2 * i64_of f8_19;
         f4f9_38 = i64_of f4 * i64_of f9_38;
         f5f5_38 = i64_of f5 * i64_of f5_38;
         f5f6_38 = i64_of f5_2 * i64_of f6_19;
         f5f7_76 = i64_of f5_2 * i64_of f7_38;
         f5f8_38 = i64_of f5_2 * i64_of f8_19;
         f5f9_76 = i64_of f5_2 * i64_of f9_38;
         f6f6_19 = i64_of f6 * i64_of f6_19;
         f6f7_38 = i64_of f6 * i64_of f7_38;
         f6f8_38 = i64_of f6_2 * i64_of f8_19;
         f6f9_38 = i64_of f6 * i64_of f9_38;
         f7f7_38 = i64_of f7 * i64_of f7_38;
         f7f8_38 = i64_of f7_2 * i64_of f8_19;
         f7f9_76 = i64_of f7_2 * i64_of f9_38;
         f8f8_19 = i64_of f8 * i64_of f8_19;
         f8f9_38 = i64_of f8 * i64_of f9_38;
         f9f9_38 = i64_of f9 * i64_of f9_38;
         h0 = f0f0 + f1f9_76 + f2f8_38 + f3f7_76 + f4f6_38 + f5f5_38;
         h1 = f0f1_2 + f2f9_38 + f3f8_38 + f4f7_38 + f5f6_38;
         h2 = f0f2_2 + f1f1_2 + f3f9_76 + f4f8_38 + f5f7_76 + f6f6_19;
         h3 = f0f3_2 + f1f2_2 + f4f9_38 + f5f8_38 + f6f7_38;
         h4 = f0f4_2 + f1f3_4 + f2f2 + f5f9_76 + f6f8_38 + f7f7_38;
         h5 = f0f5_2 + f1f4_2 + f2f3_2 + f6f9_38 + f7f8_38;
         h6 = f0f6_2 + f1f5_4 + f2f4_2 + f3f3_2 + f7f9_76 + f8f8_19;
         h7 = f0f7_2 + f1f6_2 + f2f5_2 + f3f4_2 + f8f9_38;
         h8 = f0f8_2 + f1f7_4 + f2f6_2 + f3f5_4 + f4f4 + f9f9_38;
         h9 = f0f9_2 + f1f8_2 + f2f7_2 + f3f6_2 + f4f5_2
     in [h0, h1, h2, h3, h4, h5, h6, h7, h8, h9])"

definition fe_sq :: "fe \<Rightarrow> fe" where
  "fe_sq f = fe_store (exec_ops fe_mul_carries (fe_sq_sums f))"

text \<open>\<open>fe_sq2\<close> forms the sums of \<open>fe_sq\<close> and doubles them: \<^verbatim>\<open>h0 += h0; ...; h9 += h9;\<close>\<close>

definition fe_sq2 :: "fe \<Rightarrow> fe" where
  "fe_sq2 f = fe_store (exec_ops fe_mul_carries (map (\<lambda>h. h + h) (fe_sq_sums f)))"

section \<open>Sums of products\<close>

text \<open>A sum of products of 32-bit integers, taken in 64 bits, is exact when one factor of each
  product is small enough for the number of products.\<close>

lemma sum_products_bound:
  fixes ps :: "(i32 \<times> i32) list"
  assumes "\<forall>(a, b) \<in> set ps. \<bar>sint a\<bar> \<le> 2 ^ m"
  shows "\<bar>\<Sum>(a, b) \<leftarrow> ps. sint a * sint b\<bar> \<le> int (length ps) * (2 ^ m * 2 ^ 31)"
  using assms
proof (induction ps)
  case Nil
  then show ?case by simp
next
  case (Cons p ps)
  obtain a b where p: "p = (a, b)" by (cases p)
  have "\<bar>sint b\<bar> \<le> 2 ^ 31"
    using srange_sint [of b] by (auto simp: srange_def)
  then have "\<bar>sint a * sint b\<bar> \<le> 2 ^ m * 2 ^ 31"
    using Cons.prems by (intro abs_mult_bound) (auto simp: p)
  moreover have "\<bar>\<Sum>(a, b) \<leftarrow> ps. sint a * sint b\<bar> \<le> int (length ps) * (2 ^ m * 2 ^ 31)"
    using Cons by simp
  ultimately show ?case
    using abs_triangle_ineq [of "sint a * sint b" "\<Sum>(a, b) \<leftarrow> ps. sint a * sint b"]
    by (simp add: p distrib_right)
qed

lemma sum_products_word:
  "(\<Sum>(a, b) \<leftarrow> ps. i64_of a * i64_of b) = of_int (\<Sum>(a, b) \<leftarrow> ps. sint a * sint b)"
  by (induction ps)
    (auto simp only: list.map sum_list.Nil sum_list.Cons case_prod_conv scast_of_int
      of_int_add of_int_mult of_int_0)

lemma sint_sum_products:
  fixes ps :: "(i32 \<times> i32) list"
  assumes "\<forall>(a, b) \<in> set ps. \<bar>sint a\<bar> \<le> 2 ^ m" and "int (length ps) * (2 ^ m * 2 ^ 31) < 2 ^ 63"
  shows "sint (\<Sum>(a, b) \<leftarrow> ps. i64_of a * i64_of b) = (\<Sum>(a, b) \<leftarrow> ps. sint a * sint b)"
proof (rule sint_eqI [OF sum_products_word])
  show "srange LENGTH(64) (\<Sum>(a, b) \<leftarrow> ps. sint a * sint b)"
    using sum_products_bound [OF assms(1)] assms(2) by (auto simp: srange_def abs_le_iff)
qed

text \<open>The instances for the lengths that occur.\<close>

lemma sint_sum10:
  fixes a0 a1 a2 a3 a4 a5 a6 a7 a8 a9 b0 b1 b2 b3 b4 b5 b6 b7 b8 b9 :: i32
  assumes "\<bar>sint a0\<bar> \<le> 2 ^ 27" and "\<bar>sint a1\<bar> \<le> 2 ^ 27" and "\<bar>sint a2\<bar> \<le> 2 ^ 27" and "\<bar>sint a3\<bar> \<le> 2 ^ 27" and "\<bar>sint a4\<bar> \<le> 2 ^ 27" and "\<bar>sint a5\<bar> \<le> 2 ^ 27" and "\<bar>sint a6\<bar> \<le> 2 ^ 27" and "\<bar>sint a7\<bar> \<le> 2 ^ 27" and "\<bar>sint a8\<bar> \<le> 2 ^ 27" and "\<bar>sint a9\<bar> \<le> 2 ^ 27"
  shows "sint (i64_of a0 * i64_of b0 + i64_of a1 * i64_of b1 + i64_of a2 * i64_of b2 + i64_of a3 * i64_of b3 + i64_of a4 * i64_of b4 + i64_of a5 * i64_of b5 + i64_of a6 * i64_of b6 + i64_of a7 * i64_of b7 + i64_of a8 * i64_of b8 + i64_of a9 * i64_of b9)
    = sint a0 * sint b0 + sint a1 * sint b1 + sint a2 * sint b2 + sint a3 * sint b3 + sint a4 * sint b4 + sint a5 * sint b5 + sint a6 * sint b6 + sint a7 * sint b7 + sint a8 * sint b8 + sint a9 * sint b9"
    and "\<bar>sint a0 * sint b0 + sint a1 * sint b1 + sint a2 * sint b2 + sint a3 * sint b3 + sint a4 * sint b4 + sint a5 * sint b5 + sint a6 * sint b6 + sint a7 * sint b7 + sint a8 * sint b8 + sint a9 * sint b9\<bar> \<le> 10 * 2 ^ (27 + 31)"
  using sint_sum_products [of "[(a0, b0), (a1, b1), (a2, b2), (a3, b3), (a4, b4), (a5, b5), (a6, b6), (a7, b7), (a8, b8), (a9, b9)]" 27]
    sum_products_bound [of "[(a0, b0), (a1, b1), (a2, b2), (a3, b3), (a4, b4), (a5, b5), (a6, b6), (a7, b7), (a8, b8), (a9, b9)]" 27] assms
  by (simp_all add: add.assoc)

lemma sint_sum6:
  fixes a0 a1 a2 a3 a4 a5 b0 b1 b2 b3 b4 b5 :: i32
  assumes "\<bar>sint a0\<bar> \<le> 2 ^ 28" and "\<bar>sint a1\<bar> \<le> 2 ^ 28" and "\<bar>sint a2\<bar> \<le> 2 ^ 28" and "\<bar>sint a3\<bar> \<le> 2 ^ 28" and "\<bar>sint a4\<bar> \<le> 2 ^ 28" and "\<bar>sint a5\<bar> \<le> 2 ^ 28"
  shows "sint (i64_of a0 * i64_of b0 + i64_of a1 * i64_of b1 + i64_of a2 * i64_of b2 + i64_of a3 * i64_of b3 + i64_of a4 * i64_of b4 + i64_of a5 * i64_of b5)
    = sint a0 * sint b0 + sint a1 * sint b1 + sint a2 * sint b2 + sint a3 * sint b3 + sint a4 * sint b4 + sint a5 * sint b5"
    and "\<bar>sint a0 * sint b0 + sint a1 * sint b1 + sint a2 * sint b2 + sint a3 * sint b3 + sint a4 * sint b4 + sint a5 * sint b5\<bar> \<le> 6 * 2 ^ (28 + 31)"
  using sint_sum_products [of "[(a0, b0), (a1, b1), (a2, b2), (a3, b3), (a4, b4), (a5, b5)]" 28]
    sum_products_bound [of "[(a0, b0), (a1, b1), (a2, b2), (a3, b3), (a4, b4), (a5, b5)]" 28] assms
  by (simp_all add: add.assoc)

lemma sint_sum5:
  fixes a0 a1 a2 a3 a4 b0 b1 b2 b3 b4 :: i32
  assumes "\<bar>sint a0\<bar> \<le> 2 ^ 28" and "\<bar>sint a1\<bar> \<le> 2 ^ 28" and "\<bar>sint a2\<bar> \<le> 2 ^ 28" and "\<bar>sint a3\<bar> \<le> 2 ^ 28" and "\<bar>sint a4\<bar> \<le> 2 ^ 28"
  shows "sint (i64_of a0 * i64_of b0 + i64_of a1 * i64_of b1 + i64_of a2 * i64_of b2 + i64_of a3 * i64_of b3 + i64_of a4 * i64_of b4)
    = sint a0 * sint b0 + sint a1 * sint b1 + sint a2 * sint b2 + sint a3 * sint b3 + sint a4 * sint b4"
    and "\<bar>sint a0 * sint b0 + sint a1 * sint b1 + sint a2 * sint b2 + sint a3 * sint b3 + sint a4 * sint b4\<bar> \<le> 5 * 2 ^ (28 + 31)"
  using sint_sum_products [of "[(a0, b0), (a1, b1), (a2, b2), (a3, b3), (a4, b4)]" 28]
    sum_products_bound [of "[(a0, b0), (a1, b1), (a2, b2), (a3, b3), (a4, b4)]" 28] assms
  by (simp_all add: add.assoc)

text \<open>The documented input bound, limb by limb, and the 32-bit precomputations.\<close>

definition wide_even :: "i32 \<Rightarrow> bool" where
  "wide_even x \<longleftrightarrow> 100 * \<bar>sint x\<bar> \<le> 165 * 2 ^ 26"

definition wide_odd :: "i32 \<Rightarrow> bool" where
  "wide_odd x \<longleftrightarrow> 100 * \<bar>sint x\<bar> \<le> 165 * 2 ^ 25"

lemma fe_bounded_wide:
  "fe_bounded 165 26 (Fe f0 f1 f2 f3 f4 f5 f6 f7 f8 f9) \<longleftrightarrow>
     wide_even f0 \<and> wide_odd f1 \<and> wide_even f2 \<and> wide_odd f3 \<and> wide_even f4 \<and>
     wide_odd f5 \<and> wide_even f6 \<and> wide_odd f7 \<and> wide_even f8 \<and> wide_odd f9"
  by (simp add: fe_bounded_simp wide_even_def wide_odd_def)

lemma sint_scaled:
  fixes x :: i32
  assumes "\<bar>numeral c * sint x\<bar> < 2 ^ 31"
  shows "sint (numeral c * x) = numeral c * sint x"
  by (rule sint_eqI) (use assms in \<open>auto simp: srange_def abs_less_iff\<close>)

lemma wide_scaled:
  "wide_even x \<Longrightarrow> sint (2 * x) = 2 * sint x"
  "wide_even x \<Longrightarrow> sint (19 * x) = 19 * sint x"
  "wide_odd x \<Longrightarrow> sint (2 * x) = 2 * sint x"
  "wide_odd x \<Longrightarrow> sint (19 * x) = 19 * sint x"
  "wide_odd x \<Longrightarrow> sint (38 * x) = 38 * sint x"
  by (rule sint_scaled, simp add: wide_even_def wide_odd_def abs_mult)+

lemma wide_bounds:
  "wide_even x \<Longrightarrow> \<bar>sint x\<bar> \<le> 2 ^ 27"
  "wide_odd x \<Longrightarrow> \<bar>sint x\<bar> \<le> 2 ^ 27"
  "wide_odd x \<Longrightarrow> \<bar>sint (2 * x)\<bar> \<le> 2 ^ 27"
  "wide_even x \<Longrightarrow> \<bar>sint x\<bar> \<le> 2 ^ 28"
  "wide_odd x \<Longrightarrow> \<bar>sint x\<bar> \<le> 2 ^ 28"
  "wide_even x \<Longrightarrow> \<bar>sint (2 * x)\<bar> \<le> 2 ^ 28"
  "wide_odd x \<Longrightarrow> \<bar>sint (2 * x)\<bar> \<le> 2 ^ 28"
  by (simp_all add: wide_scaled abs_mult) (simp_all add: wide_even_def wide_odd_def)

section \<open>The schoolbook sums\<close>

lemma mult_scaled:
  "2 * sint x * (19 * sint y) = 38 * (sint x * sint y)" "2 * sint x * (38 * sint y) = 76 * (sint x * sint y)"
  "2 * sint x * (2 * sint y) = 4 * (sint x * sint y)" "2 * sint x * sint y = 2 * (sint x * sint y)"
  "sint x * (19 * sint y) = 19 * (sint x * sint y)" "sint x * (38 * sint y) = 38 * (sint x * sint y)"
  by simp_all

lemma fe_mul_sums_sint:
  assumes "fe_bounded 165 26 (Fe f0 f1 f2 f3 f4 f5 f6 f7 f8 f9)" and "fe_bounded 165 26 (Fe g0 g1 g2 g3 g4 g5 g6 g7 g8 g9)"
  shows "map sint (fe_mul_sums (Fe f0 f1 f2 f3 f4 f5 f6 f7 f8 f9) (Fe g0 g1 g2 g3 g4 g5 g6 g7 g8 g9)) =
    [sint f0 * sint g0 + 38 * (sint f1 * sint g9) + 19 * (sint f2 * sint g8) + 38 * (sint f3 * sint g7) + 19 * (sint f4 * sint g6) + 38 * (sint f5 * sint g5) + 19 * (sint f6 * sint g4) + 38 * (sint f7 * sint g3) + 19 * (sint f8 * sint g2) + 38 * (sint f9 * sint g1),
     sint f0 * sint g1 + sint f1 * sint g0 + 19 * (sint f2 * sint g9) + 19 * (sint f3 * sint g8) + 19 * (sint f4 * sint g7) + 19 * (sint f5 * sint g6) + 19 * (sint f6 * sint g5) + 19 * (sint f7 * sint g4) + 19 * (sint f8 * sint g3) + 19 * (sint f9 * sint g2),
     sint f0 * sint g2 + 2 * (sint f1 * sint g1) + sint f2 * sint g0 + 38 * (sint f3 * sint g9) + 19 * (sint f4 * sint g8) + 38 * (sint f5 * sint g7) + 19 * (sint f6 * sint g6) + 38 * (sint f7 * sint g5) + 19 * (sint f8 * sint g4) + 38 * (sint f9 * sint g3),
     sint f0 * sint g3 + sint f1 * sint g2 + sint f2 * sint g1 + sint f3 * sint g0 + 19 * (sint f4 * sint g9) + 19 * (sint f5 * sint g8) + 19 * (sint f6 * sint g7) + 19 * (sint f7 * sint g6) + 19 * (sint f8 * sint g5) + 19 * (sint f9 * sint g4),
     sint f0 * sint g4 + 2 * (sint f1 * sint g3) + sint f2 * sint g2 + 2 * (sint f3 * sint g1) + sint f4 * sint g0 + 38 * (sint f5 * sint g9) + 19 * (sint f6 * sint g8) + 38 * (sint f7 * sint g7) + 19 * (sint f8 * sint g6) + 38 * (sint f9 * sint g5),
     sint f0 * sint g5 + sint f1 * sint g4 + sint f2 * sint g3 + sint f3 * sint g2 + sint f4 * sint g1 + sint f5 * sint g0 + 19 * (sint f6 * sint g9) + 19 * (sint f7 * sint g8) + 19 * (sint f8 * sint g7) + 19 * (sint f9 * sint g6),
     sint f0 * sint g6 + 2 * (sint f1 * sint g5) + sint f2 * sint g4 + 2 * (sint f3 * sint g3) + sint f4 * sint g2 + 2 * (sint f5 * sint g1) + sint f6 * sint g0 + 38 * (sint f7 * sint g9) + 19 * (sint f8 * sint g8) + 38 * (sint f9 * sint g7),
     sint f0 * sint g7 + sint f1 * sint g6 + sint f2 * sint g5 + sint f3 * sint g4 + sint f4 * sint g3 + sint f5 * sint g2 + sint f6 * sint g1 + sint f7 * sint g0 + 19 * (sint f8 * sint g9) + 19 * (sint f9 * sint g8),
     sint f0 * sint g8 + 2 * (sint f1 * sint g7) + sint f2 * sint g6 + 2 * (sint f3 * sint g5) + sint f4 * sint g4 + 2 * (sint f5 * sint g3) + sint f6 * sint g2 + 2 * (sint f7 * sint g1) + sint f8 * sint g0 + 38 * (sint f9 * sint g9),
     sint f0 * sint g9 + sint f1 * sint g8 + sint f2 * sint g7 + sint f3 * sint g6 + sint f4 * sint g5 + sint f5 * sint g4 + sint f6 * sint g3 + sint f7 * sint g2 + sint f8 * sint g1 + sint f9 * sint g0]"
  using assms unfolding fe_bounded_wide
  by (simp only: fe_mul_sums_def fe.case Let_def list.map sint_sum10 wide_bounds)
    (simp only: wide_scaled mult_scaled)

lemma replicate_10: "replicate 10 x = [x, x, x, x, x, x, x, x, x, x]"
  by (simp add: numeral_eq_Suc)

lemma fe_mul_sums_bound:
  assumes "fe_bounded 165 26 f" and "fe_bounded 165 26 g"
  shows "within (map sint (fe_mul_sums f g)) (replicate 10 (- (10 * 2 ^ 58), 10 * 2 ^ 58))"
proof (cases f, cases g)
  fix f0 f1 f2 f3 f4 f5 f6 f7 f8 f9 g0 g1 g2 g3 g4 g5 g6 g7 g8 g9
  assume fg: "f = Fe f0 f1 f2 f3 f4 f5 f6 f7 f8 f9" "g = Fe g0 g1 g2 g3 g4 g5 g6 g7 g8 g9"
  have *: "\<bar>x\<bar> \<le> 10 * 2 ^ (27 + 31) \<Longrightarrow> in_iv x (- (10 * 2 ^ 58), 10 * 2 ^ 58)" for x
    by (simp add: in_iv_def abs_le_iff)
  show ?thesis
    using assms unfolding fg fe_bounded_wide within_def replicate_10
    by (simp only: fe_mul_sums_def fe.case Let_def list.map sint_sum10 wide_bounds
        list_all2_Cons list_all2_Nil * simp_thms)
qed

section \<open>Carry chains and stores\<close>

lemma fe_limbs_store: "length h = 10 \<Longrightarrow> fe_limbs (fe_store h) = map scast h"
  by (rule nth_equalityI) (auto simp: fe_store_def nth_Cons' less_Suc_eq numeral_eq_Suc)

text \<open>Intervals that meet the bound \<open>(c/100) * 2^25, (c/100) * 2^24, ...\<close>.\<close>

definition ivs_bounded :: "int \<Rightarrow> ival list \<Rightarrow> bool" where
  "ivs_bounded c b \<longleftrightarrow>
     list_all2 (\<lambda>iv e. - (c * 2 ^ (25 - e)) \<le> 100 * fst iv \<and> 100 * snd iv \<le> c * 2 ^ (25 - e)) b
       [0, 1, 0, 1, 0, 1, 0, 1, 0, 1]"

lemma within_bounded:
  assumes "within xs b" and "list_all2 (\<lambda>iv e. - (c * 2 ^ (25 - e)) \<le> 100 * fst iv \<and> 100 * snd iv \<le> c * 2 ^ (25 - e)) b es"
  shows "list_all2 (\<lambda>x e. 100 * \<bar>x\<bar> \<le> c * 2 ^ (25 - e)) xs es"
  using assms unfolding within_def
proof (induction xs b arbitrary: es rule: list_all2_induct)
  case Nil
  then show ?case by simp
next
  case (Cons x xs iv b)
  then show ?case by (auto simp: list_all2_Cons1 in_iv_def abs_le_iff)
qed

lemma map_sint_scast:
  assumes "list_all2 (\<lambda>x e. 100 * \<bar>x\<bar> \<le> c * 2 ^ (25 - e)) (map sint h) es" and "c \<le> 6000"
  shows "map sint (map scast h :: i32 list) = map sint (h :: i64 list)"
  using assms
proof (induction h arbitrary: es)
  case Nil
  then show ?case by simp
next
  case (Cons w h)
  then obtain e es' where w: "100 * \<bar>sint w\<bar> \<le> c * 2 ^ (25 - e)" and "c \<le> 6000"
    and "list_all2 (\<lambda>x e. 100 * \<bar>x\<bar> \<le> c * 2 ^ (25 - e)) (map sint h) es'"
    by (auto simp: list_all2_Cons1)
  moreover have "sint (scast w :: i32) = sint w"
    by (rule sint_scast_down) (rule limb_exact_range [OF w Cons.prems(2)], simp)
  ultimately show ?case using Cons.IH by (simp del: map_map)
qed

lemma carries_ok:
  assumes "bnd_ops 64 ops b = Some b'" and "within (map sint h) b" and "length h = 10"
    and "list_all (op_ok p25519 fe_weights) ops" and "ivs_bounded c b'" and "c \<le> 6000"
  shows "fe_val (fe_store (exec_ops ops h)) mod p25519 = limb_val fe_weights (map sint h) mod p25519
    \<and> fe_bounded c 25 (fe_store (exec_ops ops h))"
proof -
  let ?r = "exec_ops ops h"
  have "map sint ?r = iexec_ops ops (map sint h)" and r: "within (map sint ?r) b'"
    using exec_ops_sound [of ops b b' h] assms(1,2) by auto
  then have val: "limb_val fe_weights (map sint ?r) mod p25519 = limb_val fe_weights (map sint h) mod p25519"
    using iexec_ops_val [OF assms(4)] assms(3) by simp
  have bd: "list_all2 (\<lambda>x e. 100 * \<bar>x\<bar> \<le> c * 2 ^ (25 - e)) (map sint ?r) [0, 1, 0, 1, 0, 1, 0, 1, 0, 1]"
    by (rule within_bounded [OF r assms(5) [unfolded ivs_bounded_def]])
  then have len: "length ?r = 10" by (auto dest: list_all2_lengthD)
  have sint: "map sint (fe_limbs (fe_store ?r)) = map sint ?r"
    unfolding fe_limbs_store [OF len] by (rule map_sint_scast [OF bd assms(6)])
  have "fe_bounded c 25 (fe_store ?r)"
    using bd unfolding fe_bounded_def sint [symmetric] list_all2_map1 .
  with val sint show ?thesis by (simp add: fe_val_def)
qed

lemma fe_mul_carries_bnd:
  "case bnd_ops 64 fe_mul_carries (replicate 10 (- (12 * 2 ^ 59), 12 * 2 ^ 59)) of
     None \<Rightarrow> False | Some b' \<Rightarrow> ivs_bounded 101 b'"
  by code_simp

lemma fe_odd_even_carries_bnd:
  "case bnd_ops 64 fe_odd_even_carries (replicate 10 (- (2 ^ 44), 2 ^ 44)) of
     None \<Rightarrow> False | Some b' \<Rightarrow> ivs_bounded 102 b'"
  by code_simp

lemma fe_carries_ok_p: "list_all (op_ok p25519 fe_weights) fe_mul_carries"
  "list_all (op_ok p25519 fe_weights) fe_odd_even_carries"
  by (simp_all add: fe_mul_carries_def fe_odd_even_carries_def fe_weights_def p25519_def)

section \<open>Multiplication\<close>

text \<open>The schoolbook sums represent the product: what they miss is a multiple of \<open>2^255 - 19\<close>.\<close>

lemma fe_mul_poly:
  fixes f0 f1 f2 f3 f4 f5 f6 f7 f8 f9 g0 g1 g2 g3 g4 g5 g6 g7 g8 g9 :: int
  shows "(f0 + f1 * 2 ^ 26 + f2 * 2 ^ 51 + f3 * 2 ^ 77 + f4 * 2 ^ 102 + f5 * 2 ^ 128 + f6 * 2 ^ 153 + f7 * 2 ^ 179 + f8 * 2 ^ 204 + f9 * 2 ^ 230) * (g0 + g1 * 2 ^ 26 + g2 * 2 ^ 51 + g3 * 2 ^ 77 + g4 * 2 ^ 102 + g5 * 2 ^ 128 + g6 * 2 ^ 153 + g7 * 2 ^ 179 + g8 * 2 ^ 204 + g9 * 2 ^ 230) =
   (f0 * g0 + 38 * (f1 * g9) + 19 * (f2 * g8) + 38 * (f3 * g7) + 19 * (f4 * g6) + 38 * (f5 * g5) + 19 * (f6 * g4) + 38 * (f7 * g3) + 19 * (f8 * g2) + 38 * (f9 * g1))
   + (f0 * g1 + f1 * g0 + 19 * (f2 * g9) + 19 * (f3 * g8) + 19 * (f4 * g7) + 19 * (f5 * g6) + 19 * (f6 * g5) + 19 * (f7 * g4) + 19 * (f8 * g3) + 19 * (f9 * g2)) * 2 ^ 26
   + (f0 * g2 + 2 * (f1 * g1) + f2 * g0 + 38 * (f3 * g9) + 19 * (f4 * g8) + 38 * (f5 * g7) + 19 * (f6 * g6) + 38 * (f7 * g5) + 19 * (f8 * g4) + 38 * (f9 * g3)) * 2 ^ 51
   + (f0 * g3 + f1 * g2 + f2 * g1 + f3 * g0 + 19 * (f4 * g9) + 19 * (f5 * g8) + 19 * (f6 * g7) + 19 * (f7 * g6) + 19 * (f8 * g5) + 19 * (f9 * g4)) * 2 ^ 77
   + (f0 * g4 + 2 * (f1 * g3) + f2 * g2 + 2 * (f3 * g1) + f4 * g0 + 38 * (f5 * g9) + 19 * (f6 * g8) + 38 * (f7 * g7) + 19 * (f8 * g6) + 38 * (f9 * g5)) * 2 ^ 102
   + (f0 * g5 + f1 * g4 + f2 * g3 + f3 * g2 + f4 * g1 + f5 * g0 + 19 * (f6 * g9) + 19 * (f7 * g8) + 19 * (f8 * g7) + 19 * (f9 * g6)) * 2 ^ 128
   + (f0 * g6 + 2 * (f1 * g5) + f2 * g4 + 2 * (f3 * g3) + f4 * g2 + 2 * (f5 * g1) + f6 * g0 + 38 * (f7 * g9) + 19 * (f8 * g8) + 38 * (f9 * g7)) * 2 ^ 153
   + (f0 * g7 + f1 * g6 + f2 * g5 + f3 * g4 + f4 * g3 + f5 * g2 + f6 * g1 + f7 * g0 + 19 * (f8 * g9) + 19 * (f9 * g8)) * 2 ^ 179
   + (f0 * g8 + 2 * (f1 * g7) + f2 * g6 + 2 * (f3 * g5) + f4 * g4 + 2 * (f5 * g3) + f6 * g2 + 2 * (f7 * g1) + f8 * g0 + 38 * (f9 * g9)) * 2 ^ 204
   + (f0 * g9 + f1 * g8 + f2 * g7 + f3 * g6 + f4 * g5 + f5 * g4 + f6 * g3 + f7 * g2 + f8 * g1 + f9 * g0) * 2 ^ 230
   + (2 ^ 255 - 19) * (f1 * g9 * 2 ^ 1 + f2 * g8 * 2 ^ 0 + f2 * g9 * 2 ^ 26 + f3 * g7 * 2 ^ 1 + f3 * g8 * 2 ^ 26 + f3 * g9 * 2 ^ 52 + f4 * g6 * 2 ^ 0 + f4 * g7 * 2 ^ 26 + f4 * g8 * 2 ^ 51 + f4 * g9 * 2 ^ 77 + f5 * g5 * 2 ^ 1 + f5 * g6 * 2 ^ 26 + f5 * g7 * 2 ^ 52 + f5 * g8 * 2 ^ 77 + f5 * g9 * 2 ^ 103 + f6 * g4 * 2 ^ 0 + f6 * g5 * 2 ^ 26 + f6 * g6 * 2 ^ 51 + f6 * g7 * 2 ^ 77 + f6 * g8 * 2 ^ 102 + f6 * g9 * 2 ^ 128 + f7 * g3 * 2 ^ 1 + f7 * g4 * 2 ^ 26 + f7 * g5 * 2 ^ 52 + f7 * g6 * 2 ^ 77 + f7 * g7 * 2 ^ 103 + f7 * g8 * 2 ^ 128 + f7 * g9 * 2 ^ 154 + f8 * g2 * 2 ^ 0 + f8 * g3 * 2 ^ 26 + f8 * g4 * 2 ^ 51 + f8 * g5 * 2 ^ 77 + f8 * g6 * 2 ^ 102 + f8 * g7 * 2 ^ 128 + f8 * g8 * 2 ^ 153 + f8 * g9 * 2 ^ 179 + f9 * g1 * 2 ^ 1 + f9 * g2 * 2 ^ 26 + f9 * g3 * 2 ^ 52 + f9 * g4 * 2 ^ 77 + f9 * g5 * 2 ^ 103 + f9 * g6 * 2 ^ 128 + f9 * g7 * 2 ^ 154 + f9 * g8 * 2 ^ 179 + f9 * g9 * 2 ^ 205)"
  by algebra

lemma limb_val_fe:
  "limb_val fe_weights [h0, h1, h2, h3, h4, h5, h6, h7, h8, h9] =
     h0 + h1 * 2 ^ 26 + h2 * 2 ^ 51 + h3 * 2 ^ 77 + h4 * 2 ^ 102 + h5 * 2 ^ 128 + h6 * 2 ^ 153
     + h7 * 2 ^ 179 + h8 * 2 ^ 204 + h9 * 2 ^ 230"
  by (simp add: limb_val_def fe_weights_def)

lemma mod_p25519_cancel: "(x + (2 ^ 255 - 19) * q) mod p25519 = x mod p25519"
  unfolding p25519_def by simp

lemma fe_mul_sums_val:
  assumes "fe_bounded 165 26 f" and "fe_bounded 165 26 g"
  shows "limb_val fe_weights (map sint (fe_mul_sums f g)) mod p25519 = fe_val f * fe_val g mod p25519"
proof (cases f, cases g)
  fix f0 f1 f2 f3 f4 f5 f6 f7 f8 f9 g0 g1 g2 g3 g4 g5 g6 g7 g8 g9
  assume fg: "f = Fe f0 f1 f2 f3 f4 f5 f6 f7 f8 f9" "g = Fe g0 g1 g2 g3 g4 g5 g6 g7 g8 g9"
  show ?thesis
    using assms unfolding fg
    by (simp only: fe_mul_sums_sint fe_val_simp fe_mul_poly mod_p25519_cancel limb_val_fe)
qed

lemma within_widen:
  assumes "within xs (replicate n (- a, a))" and "a \<le> b"
  shows "within xs (replicate n (- b, b))"
  using assms unfolding within_def list_all2_conv_all_nth by (auto simp: in_iv_def) 

lemma mul_carries_ok:
  assumes "within (map sint h) (replicate 10 (- a, a))" and "a \<le> 12 * 2 ^ 59"
  shows "fe_val (fe_store (exec_ops fe_mul_carries h)) mod p25519 = limb_val fe_weights (map sint h) mod p25519
    \<and> fe_bounded 101 25 (fe_store (exec_ops fe_mul_carries h))"
proof -
  obtain b' where b': "bnd_ops 64 fe_mul_carries (replicate 10 (- (12 * 2 ^ 59), 12 * 2 ^ 59)) = Some b'"
    and c: "ivs_bounded 101 b'"
    using fe_mul_carries_bnd by (auto split: option.splits)
  have "length h = 10" using within_length [OF assms(1)] by simp
  then show ?thesis
    by (rule carries_ok [OF b' within_widen [OF assms] _ fe_carries_ok_p(1) c]) simp
qed

section \<open>Squaring and multiplication by 121666\<close>

lemma fe_sq_sums_sint:
  assumes "fe_bounded 165 26 (Fe f0 f1 f2 f3 f4 f5 f6 f7 f8 f9)"
  shows "map sint (fe_sq_sums (Fe f0 f1 f2 f3 f4 f5 f6 f7 f8 f9)) =
    [sint f0 * sint f0 + 76 * (sint f1 * sint f9) + 38 * (sint f2 * sint f8) + 76 * (sint f3 * sint f7) + 38 * (sint f4 * sint f6) + 38 * (sint f5 * sint f5),
     2 * (sint f0 * sint f1) + 38 * (sint f2 * sint f9) + 38 * (sint f3 * sint f8) + 38 * (sint f4 * sint f7) + 38 * (sint f5 * sint f6),
     2 * (sint f0 * sint f2) + 2 * (sint f1 * sint f1) + 76 * (sint f3 * sint f9) + 38 * (sint f4 * sint f8) + 76 * (sint f5 * sint f7) + 19 * (sint f6 * sint f6),
     2 * (sint f0 * sint f3) + 2 * (sint f1 * sint f2) + 38 * (sint f4 * sint f9) + 38 * (sint f5 * sint f8) + 38 * (sint f6 * sint f7),
     2 * (sint f0 * sint f4) + 4 * (sint f1 * sint f3) + sint f2 * sint f2 + 76 * (sint f5 * sint f9) + 38 * (sint f6 * sint f8) + 38 * (sint f7 * sint f7),
     2 * (sint f0 * sint f5) + 2 * (sint f1 * sint f4) + 2 * (sint f2 * sint f3) + 38 * (sint f6 * sint f9) + 38 * (sint f7 * sint f8),
     2 * (sint f0 * sint f6) + 4 * (sint f1 * sint f5) + 2 * (sint f2 * sint f4) + 2 * (sint f3 * sint f3) + 76 * (sint f7 * sint f9) + 19 * (sint f8 * sint f8),
     2 * (sint f0 * sint f7) + 2 * (sint f1 * sint f6) + 2 * (sint f2 * sint f5) + 2 * (sint f3 * sint f4) + 38 * (sint f8 * sint f9),
     2 * (sint f0 * sint f8) + 4 * (sint f1 * sint f7) + 2 * (sint f2 * sint f6) + 4 * (sint f3 * sint f5) + sint f4 * sint f4 + 38 * (sint f9 * sint f9),
     2 * (sint f0 * sint f9) + 2 * (sint f1 * sint f8) + 2 * (sint f2 * sint f7) + 2 * (sint f3 * sint f6) + 2 * (sint f4 * sint f5)]"
  using assms unfolding fe_bounded_wide
  by (simp only: fe_sq_sums_def fe.case Let_def list.map sint_sum5 sint_sum6 wide_bounds)
    (simp only: wide_scaled mult_scaled)

lemma fe_sq_sums_bound:
  assumes "fe_bounded 165 26 f"
  shows "within (map sint (fe_sq_sums f)) (replicate 10 (- (6 * 2 ^ 59), 6 * 2 ^ 59))"
proof (cases f)
  case (Fe f0 f1 f2 f3 f4 f5 f6 f7 f8 f9)
  have *: "\<bar>x\<bar> \<le> 6 * 2 ^ (28 + 31) \<Longrightarrow> in_iv x (- (6 * 2 ^ 59), 6 * 2 ^ 59)"
    "\<bar>x\<bar> \<le> 5 * 2 ^ (28 + 31) \<Longrightarrow> in_iv x (- (6 * 2 ^ 59), 6 * 2 ^ 59)" for x
    by (simp_all add: in_iv_def abs_le_iff)
  show ?thesis
    using assms unfolding Fe fe_bounded_wide within_def replicate_10
    by (simp only: fe_sq_sums_def fe.case Let_def list.map sint_sum5 sint_sum6 wide_bounds
        list_all2_Cons list_all2_Nil * simp_thms)
qed

lemma fe_sq_poly:
  fixes f0 f1 f2 f3 f4 f5 f6 f7 f8 f9 :: int
  shows "(f0 + f1 * 2 ^ 26 + f2 * 2 ^ 51 + f3 * 2 ^ 77 + f4 * 2 ^ 102 + f5 * 2 ^ 128 + f6 * 2 ^ 153 + f7 * 2 ^ 179 + f8 * 2 ^ 204 + f9 * 2 ^ 230) * (f0 + f1 * 2 ^ 26 + f2 * 2 ^ 51 + f3 * 2 ^ 77 + f4 * 2 ^ 102 + f5 * 2 ^ 128 + f6 * 2 ^ 153 + f7 * 2 ^ 179 + f8 * 2 ^ 204 + f9 * 2 ^ 230) =
   (f0 * f0 + 76 * (f1 * f9) + 38 * (f2 * f8) + 76 * (f3 * f7) + 38 * (f4 * f6) + 38 * (f5 * f5))
   + (2 * (f0 * f1) + 38 * (f2 * f9) + 38 * (f3 * f8) + 38 * (f4 * f7) + 38 * (f5 * f6)) * 2 ^ 26
   + (2 * (f0 * f2) + 2 * (f1 * f1) + 76 * (f3 * f9) + 38 * (f4 * f8) + 76 * (f5 * f7) + 19 * (f6 * f6)) * 2 ^ 51
   + (2 * (f0 * f3) + 2 * (f1 * f2) + 38 * (f4 * f9) + 38 * (f5 * f8) + 38 * (f6 * f7)) * 2 ^ 77
   + (2 * (f0 * f4) + 4 * (f1 * f3) + f2 * f2 + 76 * (f5 * f9) + 38 * (f6 * f8) + 38 * (f7 * f7)) * 2 ^ 102
   + (2 * (f0 * f5) + 2 * (f1 * f4) + 2 * (f2 * f3) + 38 * (f6 * f9) + 38 * (f7 * f8)) * 2 ^ 128
   + (2 * (f0 * f6) + 4 * (f1 * f5) + 2 * (f2 * f4) + 2 * (f3 * f3) + 76 * (f7 * f9) + 19 * (f8 * f8)) * 2 ^ 153
   + (2 * (f0 * f7) + 2 * (f1 * f6) + 2 * (f2 * f5) + 2 * (f3 * f4) + 38 * (f8 * f9)) * 2 ^ 179
   + (2 * (f0 * f8) + 4 * (f1 * f7) + 2 * (f2 * f6) + 4 * (f3 * f5) + f4 * f4 + 38 * (f9 * f9)) * 2 ^ 204
   + (2 * (f0 * f9) + 2 * (f1 * f8) + 2 * (f2 * f7) + 2 * (f3 * f6) + 2 * (f4 * f5)) * 2 ^ 230
   + (2 ^ 255 - 19) * (f1 * f9 * 2 ^ 1 + f2 * f8 * 2 ^ 0 + f2 * f9 * 2 ^ 26 + f3 * f7 * 2 ^ 1 + f3 * f8 * 2 ^ 26 + f3 * f9 * 2 ^ 52 + f4 * f6 * 2 ^ 0 + f4 * f7 * 2 ^ 26 + f4 * f8 * 2 ^ 51 + f4 * f9 * 2 ^ 77 + f5 * f5 * 2 ^ 1 + f5 * f6 * 2 ^ 26 + f5 * f7 * 2 ^ 52 + f5 * f8 * 2 ^ 77 + f5 * f9 * 2 ^ 103 + f6 * f4 * 2 ^ 0 + f6 * f5 * 2 ^ 26 + f6 * f6 * 2 ^ 51 + f6 * f7 * 2 ^ 77 + f6 * f8 * 2 ^ 102 + f6 * f9 * 2 ^ 128 + f7 * f3 * 2 ^ 1 + f7 * f4 * 2 ^ 26 + f7 * f5 * 2 ^ 52 + f7 * f6 * 2 ^ 77 + f7 * f7 * 2 ^ 103 + f7 * f8 * 2 ^ 128 + f7 * f9 * 2 ^ 154 + f8 * f2 * 2 ^ 0 + f8 * f3 * 2 ^ 26 + f8 * f4 * 2 ^ 51 + f8 * f5 * 2 ^ 77 + f8 * f6 * 2 ^ 102 + f8 * f7 * 2 ^ 128 + f8 * f8 * 2 ^ 153 + f8 * f9 * 2 ^ 179 + f9 * f1 * 2 ^ 1 + f9 * f2 * 2 ^ 26 + f9 * f3 * 2 ^ 52 + f9 * f4 * 2 ^ 77 + f9 * f5 * 2 ^ 103 + f9 * f6 * 2 ^ 128 + f9 * f7 * 2 ^ 154 + f9 * f8 * 2 ^ 179 + f9 * f9 * 2 ^ 205)"
  by algebra

lemma fe_sq_sums_val:
  assumes "fe_bounded 165 26 f"
  shows "limb_val fe_weights (map sint (fe_sq_sums f)) mod p25519 = fe_val f * fe_val f mod p25519"
proof (cases f)
  case (Fe f0 f1 f2 f3 f4 f5 f6 f7 f8 f9)
  show ?thesis
    using assms unfolding Fe
    by (simp only: fe_sq_sums_sint fe_val_simp fe_sq_poly mod_p25519_cancel limb_val_fe)
qed

lemma double_exact:
  fixes h :: "i64 list"
  assumes "within (map sint h) (replicate n (- (6 * 2 ^ 59), 6 * 2 ^ 59))"
  shows "map sint (map (\<lambda>h. h + h) h) = map2 (+) (map sint h) (map sint h)
    \<and> within (map sint (map (\<lambda>h. h + h) h)) (replicate n (- (12 * 2 ^ 59), 12 * 2 ^ 59))"
  using assms
proof (induction h arbitrary: n)
  case Nil
  then show ?case by (simp add: within_def)
next
  case (Cons x h)
  then obtain m where n: "n = Suc m" by (cases n) (auto simp: within_def)
  have x: "in_iv (sint x) (- (6 * 2 ^ 59), 6 * 2 ^ 59)"
    and h: "within (map sint h) (replicate m (- (6 * 2 ^ 59), 6 * 2 ^ 59))"
    using Cons.prems by (auto simp: within_def n)
  have "sint (x + x) = sint x + sint x"
    by (rule sint_add_exact) (use x in \<open>auto simp: srange_def in_iv_def\<close>)
  with x Cons.IH [OF h] show ?case by (auto simp: within_def n in_iv_def)
qed

lemma fe_mul121666_sums_ok:
  assumes "fe_bounded 110 26 f"
  shows "limb_val fe_weights (map sint (fe_mul121666_sums f)) = fe_val f * 121666
    \<and> within (map sint (fe_mul121666_sums f)) (replicate 10 (- (2 ^ 44), 2 ^ 44))"
proof (cases f)
  case (Fe f0 f1 f2 f3 f4 f5 f6 f7 f8 f9)
  have x: "sint (i64_of x * 121666) = sint x * 121666 \<and> in_iv (sint x * 121666) (- (2 ^ 44), 2 ^ 44)"
    if "100 * \<bar>sint x\<bar> \<le> 110 * 2 ^ 26" for x
  proof -
    have r: "\<bar>sint x\<bar> \<le> 73819750" using that by simp
    have "i64_of x * 121666 = of_int (sint x * 121666)"
      by (simp only: scast_of_int of_int_mult of_int_numeral)
    moreover have "srange LENGTH(64) (sint x * 121666)"
      using r by (simp add: srange_def abs_le_iff)
    ultimately have "sint (i64_of x * 121666) = sint x * 121666" by (rule sint_eqI)
    then show ?thesis using r by (simp add: in_iv_def abs_le_iff)
  qed
  have odd: "100 * \<bar>a\<bar> \<le> 110 * 2 ^ (26 - 1) \<Longrightarrow> 100 * \<bar>a\<bar> \<le> 110 * 2 ^ 26" for a :: int by simp
  show ?thesis
    using assms unfolding Fe fe_bounded_simp within_def replicate_10
    by (simp only: fe_mul121666_sums_def fe.case list.map limb_val_fe fe_val_simp x odd
        list_all2_Cons list_all2_Nil simp_thms) algebra
qed

section \<open>The routines are correct\<close>

lemma fe_abs_eqI: "fe_val f mod p25519 = x mod p25519 \<Longrightarrow> fe_abs f = of_int x"
  by (simp add: fe_abs_def of_int_gf_eq_iff)

lemma fe_mul_ok:
  assumes "fe_bounded 165 26 f" and "fe_bounded 165 26 g"
  shows "fe_abs (fe_mul f g) = fe_abs f * fe_abs g \<and> fe_bounded 101 25 (fe_mul f g)"
  using mul_carries_ok [OF fe_mul_sums_bound [OF assms]] fe_abs_eqI [of "fe_mul f g" "fe_val f * fe_val g"]
  by (simp add: fe_mul_sums_val [OF assms] fe_mul_def fe_abs_def [of f] fe_abs_def [of g])

lemma fe_sq_ok:
  assumes "fe_bounded 165 26 f"
  shows "fe_abs (fe_sq f) = fe_abs f * fe_abs f \<and> fe_bounded 101 25 (fe_sq f)"
  using mul_carries_ok [OF fe_sq_sums_bound [OF assms]] fe_abs_eqI [of "fe_sq f" "fe_val f * fe_val f"]
  by (simp add: fe_sq_sums_val [OF assms] fe_sq_def fe_abs_def [of f])

lemma fe_sq2_ok:
  assumes "fe_bounded 165 26 f"
  shows "fe_abs (fe_sq2 f) = 2 * (fe_abs f * fe_abs f) \<and> fe_bounded 101 25 (fe_sq2 f)"
proof -
  let ?h = "fe_sq_sums f"
  have len: "length ?h = 10" using within_length [OF fe_sq_sums_bound [OF assms]] by simp
  note d = double_exact [OF fe_sq_sums_bound [OF assms]]
  have eq: "limb_val fe_weights (map2 (+) (map sint ?h) (map sint ?h))
      = limb_val fe_weights (map sint ?h) + limb_val fe_weights (map sint ?h)"
    using len by (intro limb_val_map2_add) simp_all
  have "limb_val fe_weights (map sint (map (\<lambda>h. h + h) ?h)) mod p25519
      = (fe_val f * fe_val f + fe_val f * fe_val f) mod p25519"
    unfolding d [THEN conjunct1] eq by (intro mod_add_cong fe_sq_sums_val [OF assms])
  then show ?thesis
    using mul_carries_ok [OF d [THEN conjunct2]]
      fe_abs_eqI [of "fe_sq2 f" "fe_val f * fe_val f + fe_val f * fe_val f"]
    by (simp add: fe_sq2_def fe_abs_def [of f] del: map_map)
qed

lemma fe_mul121666_ok:
  assumes "fe_bounded 110 26 f"
  shows "fe_abs (fe_mul121666 f) = 121666 * fe_abs f \<and> fe_bounded 102 25 (fe_mul121666 f)"
proof -
  obtain b' where b': "bnd_ops 64 fe_odd_even_carries (replicate 10 (- (2 ^ 44), 2 ^ 44)) = Some b'"
    and c: "ivs_bounded 102 b'"
    using fe_odd_even_carries_bnd by (auto split: option.splits)
  note sums = fe_mul121666_sums_ok [OF assms]
  have "length (fe_mul121666_sums f) = 10" using within_length [OF conjunct2 [OF sums]] by simp
  from carries_ok [OF b' conjunct2 [OF sums] this fe_carries_ok_p(2) c] show ?thesis
    using fe_abs_eqI [of "fe_mul121666 f" "fe_val f * 121666"] sums
    by (simp add: fe_mul121666_def fe_abs_def [of f] mult.commute)
qed

section \<open>Exact arithmetic\<close>

text \<open>The sums over unbounded integers: the terms of limb \<open>k\<close>, of which those beyond the tenth limb come back with the factor 19,
  and those of two odd limbs are doubled.\<close>

definition mul_term :: "int list \<Rightarrow> int list \<Rightarrow> nat \<Rightarrow> nat \<Rightarrow> int" where
  "mul_term f g k i =
    (let j = (k + 10 - i) mod 10
     in (if odd i \<and> odd j then 2 else 1) * f ! i * ((if k < i then 19 else 1) * g ! j))"

definition schoolbook :: "int list \<Rightarrow> int list \<Rightarrow> int list" where
  "schoolbook f g = map (\<lambda>k. \<Sum>i \<leftarrow> [0..<10]. mul_term f g k i) [0..<10]"

lemma upt_10: "[0..<10] = [0, 1, 2, 3, 4, 5, 6, 7, 8, 9 :: nat]"
  by (simp add: upt_rec)

lemma fe_mul_sums_exact:
  assumes "fe_bounded 165 26 f" and "fe_bounded 165 26 g"
  shows "map sint (fe_mul_sums f g) = schoolbook (map sint (fe_limbs f)) (map sint (fe_limbs g))"
proof (cases f, cases g)
  fix f0 f1 f2 f3 f4 f5 f6 f7 f8 f9 g0 g1 g2 g3 g4 g5 g6 g7 g8 g9
  assume fg: "f = Fe f0 f1 f2 f3 f4 f5 f6 f7 f8 f9" "g = Fe g0 g1 g2 g3 g4 g5 g6 g7 g8 g9"
  show ?thesis
    using assms unfolding fg schoolbook_def upt_10 by (simp only: fe_mul_sums_sint) (simp add: mul_term_def)
qed

lemma fe_limb_bounds:
  assumes "fe_bounded 165 26 f" and "i < 10"
  shows "\<bar>sint (fe_limbs f ! i)\<bar> \<le> 2 ^ 27" "odd i \<Longrightarrow> \<bar>2 * sint (fe_limbs f ! i)\<bar> \<le> 2 ^ 27" "\<bar>19 * sint (fe_limbs f ! i)\<bar> < 2 ^ 31"
proof -
  have "i \<in> {0, 1, 2, 3, 4, 5, 6, 7, 8, 9}" using assms(2) by auto
  then have "[0, 1, 0, 1, 0, 1, 0, 1, 0, 1] ! i = i mod 2" by auto
  moreover have "length (fe_limbs f) = 10" by (cases f) simp
  ultimately have b: "100 * \<bar>sint (fe_limbs f ! i)\<bar> \<le> 165 * 2 ^ (26 - i mod 2)"
    using list_all2_nthD [OF assms(1) [unfolded fe_bounded_def], of i] assms(2) by simp
  then show "odd i \<Longrightarrow> \<bar>2 * sint (fe_limbs f ! i)\<bar> \<le> 2 ^ 27" by (simp add: odd_iff_mod_2_eq_one abs_mult)
  have "(2 :: int) ^ (26 - i mod 2) \<le> 2 ^ 26" by (rule power_increasing) simp_all
  then have "100 * \<bar>sint (fe_limbs f ! i)\<bar> \<le> 165 * 2 ^ 26" using b by linarith
  then show "\<bar>sint (fe_limbs f ! i)\<bar> \<le> 2 ^ 27" "\<bar>19 * sint (fe_limbs f ! i)\<bar> < 2 ^ 31" by (simp_all add: abs_mult)
qed

lemma mul_term_bound:
  assumes "fe_bounded 165 26 f" and "fe_bounded 165 26 g" and "i < 10"
  shows "\<bar>mul_term (map sint (fe_limbs f)) (map sint (fe_limbs g)) k i\<bar> \<le> 2 ^ 58"
proof -
  define j where "j = (k + 10 - i) mod 10"
  have j: "j < 10" by (simp add: j_def)
  have len: "length (fe_limbs h) = 10" for h by (cases h) simp
  let ?a = "(if odd i \<and> odd j then 2 else 1) * sint (fe_limbs f ! i)" and ?b = "(if k < i then 19 else 1) * sint (fe_limbs g ! j)"
  have "\<bar>?a\<bar> \<le> 2 ^ 27" "\<bar>?b\<bar> \<le> 2 ^ 31"
    using fe_limb_bounds [OF assms(1,3)] fe_limb_bounds [OF assms(2) j] by auto
  then have "\<bar>?a\<bar> * \<bar>?b\<bar> \<le> 2 ^ 27 * 2 ^ 31" by (intro mult_mono) simp_all
  then show ?thesis using assms(3) j by (simp add: mul_term_def j_def [symmetric] len abs_mult)
qed

lemma mul_terms_bound:
  assumes "fe_bounded 165 26 f" and "fe_bounded 165 26 g"
  shows "(\<Sum>i \<leftarrow> [0..<10]. \<bar>mul_term (map sint (fe_limbs f)) (map sint (fe_limbs g)) k i\<bar>) < 2 ^ 63"
proof -
  have "(\<Sum>i \<leftarrow> [0..<10]. \<bar>mul_term (map sint (fe_limbs f)) (map sint (fe_limbs g)) k i\<bar>) \<le> (\<Sum>i \<leftarrow> [0..<10 :: nat]. 2 ^ 58)"
    by (rule sum_list_mono, rule mul_term_bound [OF assms]) simp
  also have "\<dots> < 2 ^ 63" by (simp add: upt_10)
  finally show ?thesis .
qed

text \<open>The chain of carries, up to any point.\<close>

lemma bnd_ops_prefix: "bnd_ops n (xs @ ys) b = Some b' \<Longrightarrow> \<exists>b1. bnd_ops n xs b = Some b1"
  by (induction xs arbitrary: b) (auto split: option.splits)

lemma mul_carries_exact:
  assumes "within (map sint h) (replicate 10 (- a, a))" and "a \<le> 12 * 2 ^ 59"
  shows "map sint (exec_ops (take n fe_mul_carries) h) = iexec_ops (take n fe_mul_carries) (map sint (h :: i64 list))"
proof -
  obtain b' where "bnd_ops 64 (take n fe_mul_carries @ drop n fe_mul_carries) (replicate 10 (- (12 * 2 ^ 59), 12 * 2 ^ 59)) = Some b'"
    using fe_mul_carries_bnd by (auto split: option.splits)
  from bnd_ops_prefix [OF this] obtain b1 where "bnd_ops 64 (take n fe_mul_carries) (replicate 10 (- (12 * 2 ^ 59), 12 * 2 ^ 59)) = Some b1" by blast
  then show ?thesis using exec_ops_sound [of "take n fe_mul_carries" _ b1 h] within_widen [OF assms] by simp
qed

text \<open>The stores of the result as 32-bit limbs lose nothing.\<close>

lemma mul_store_exact:
  assumes "within (map sint h) (replicate 10 (- a, a))" and "a \<le> 12 * 2 ^ 59"
  shows "map sint (fe_limbs (fe_store (exec_ops fe_mul_carries h))) = map sint (exec_ops fe_mul_carries (h :: i64 list))"
proof -
  obtain b' where b': "bnd_ops 64 fe_mul_carries (replicate 10 (- (12 * 2 ^ 59), 12 * 2 ^ 59)) = Some b'" and c: "ivs_bounded 101 b'"
    using fe_mul_carries_bnd by (auto split: option.splits)
  have "bnd_ops LENGTH(64) fe_mul_carries (replicate 10 (- (12 * 2 ^ 59), 12 * 2 ^ 59)) = Some b'" using b' by simp
  from exec_ops_sound [OF this within_widen [OF assms]] have "within (map sint (exec_ops fe_mul_carries h)) b'" by (rule conjunct2) simp
  from within_bounded [OF this c [unfolded ivs_bounded_def]]
  have bd: "list_all2 (\<lambda>x e. 100 * \<bar>x\<bar> \<le> 101 * 2 ^ (25 - e)) (map sint (exec_ops fe_mul_carries h)) [0, 1, 0, 1, 0, 1, 0, 1, 0, 1]" .
  then have "length (exec_ops fe_mul_carries h) = 10" by (auto dest: list_all2_lengthD)
  then show ?thesis using map_sint_scast [OF bd] by (simp add: fe_limbs_store)
qed

section \<open>Properties\<close>

text \<open>Claim (C30): \<open>fe_mul\<close> multiplies in the field, and nothing overflows.  For operands within the
  documented bound \<open>1.65 * 2^26, 1.65 * 2^25, ...\<close> the result represents the product modulo \<open>2^255 - 19\<close>, and its limbs are within
  \<open>1.01 * 2^25, 1.01 * 2^24, ...\<close>.  The premultiplied limbs fit into 32 bits; the terms of every limb have absolute values
  that together stay below \<open>2^63\<close>, so that no partial sum overflows 64 bits; the sums, the limbs after
  every step of the carry chain and the stored limbs are those that the same operations yield on unbounded integers.\<close>

theorem fe_mul_correct:
  assumes "fe_bounded 165 26 f" and "fe_bounded 165 26 g"
  shows "let F = map sint (fe_limbs f); G = map sint (fe_limbs g) in
    fe_abs (fe_mul f g) = fe_abs f * fe_abs g \<and> fe_bounded 101 25 (fe_mul f g) \<and>
    (\<forall>i < 10. \<bar>19 * G ! i\<bar> < 2 ^ 31 \<and> (odd i \<longrightarrow> \<bar>2 * F ! i\<bar> < 2 ^ 31)) \<and>
    (\<forall>k < 10. (\<Sum>i \<leftarrow> [0..<10]. \<bar>mul_term F G k i\<bar>) < 2 ^ 63) \<and>
    map sint (fe_mul_sums f g) = schoolbook F G \<and>
    (\<forall>n. map sint (exec_ops (take n fe_mul_carries) (fe_mul_sums f g)) = iexec_ops (take n fe_mul_carries) (schoolbook F G)) \<and>
    map sint (fe_limbs (fe_mul f g)) = iexec_ops fe_mul_carries (schoolbook F G)"
proof -
  have len: "length (fe_limbs h) = 10" for h by (cases h) simp
  note b = fe_mul_sums_bound [OF assms] and s = fe_mul_sums_exact [OF assms]
  have c: "map sint (exec_ops (take n fe_mul_carries) (fe_mul_sums f g)) =
      iexec_ops (take n fe_mul_carries) (schoolbook (map sint (fe_limbs f)) (map sint (fe_limbs g)))" for n
    using mul_carries_exact [OF b, of n] by (simp add: s)
  have "map sint (fe_limbs (fe_mul f g)) = iexec_ops fe_mul_carries (schoolbook (map sint (fe_limbs f)) (map sint (fe_limbs g)))"
    using mul_store_exact [OF b] c [of "length fe_mul_carries"] by (simp add: fe_mul_def)
  moreover have "\<bar>19 * map sint (fe_limbs g) ! i\<bar> < 2 ^ 31 \<and> (odd i \<longrightarrow> \<bar>2 * map sint (fe_limbs f) ! i\<bar> < 2 ^ 31)" if "i < 10" for i
    using fe_limb_bounds(3) [OF assms(2) that] fe_limb_bounds(2) [OF assms(1) that] that by (auto simp: len)
  ultimately show ?thesis unfolding Let_def using fe_mul_ok [OF assms] s c mul_terms_bound [OF assms] by blast
qed

theorem fe_mul_correct_witness:
  "let f = Fe 110729625 55364812 (-110729625) 55364812 0 0 0 0 1 (-55364812); g = Fe 3 0 0 0 0 0 0 0 0 7
   in fe_abs (fe_mul f g) = fe_abs f * fe_abs g \<and> fe_bounded 101 25 (fe_mul f g) \<and>
     map sint (fe_mul_sums f g) = schoolbook (map sint (fe_limbs f)) (map sint (fe_limbs g))"
proof -
  let ?f = "Fe 110729625 55364812 (-110729625) 55364812 0 0 0 0 1 (-55364812)" and ?g = "Fe 3 0 0 0 0 0 0 0 0 7"
  have "fe_bounded 165 26 ?f" "fe_bounded 165 26 ?g" by (simp_all add: fe_bounded_simp)
  from fe_mul_correct [OF this] show ?thesis unfolding Let_def by (elim conjE) (intro conjI)
qed

text \<open>The specialised routines agree with multiplication: \<open>fe_sq\<close> is \<open>fe_mul\<close> of an element with
  itself and \<open>fe_sq2\<close> twice that, although both compute with merged and doubled products.\<close>

theorem fe_sq_agrees_with_mul:
  assumes "fe_bounded 165 26 f"
  shows "fe_abs (fe_sq f) = fe_abs (fe_mul f f) \<and> fe_abs (fe_sq2 f) = 2 * fe_abs (fe_mul f f)
    \<and> fe_bounded 101 25 (fe_sq f) \<and> fe_bounded 101 25 (fe_sq2 f)"
  using fe_mul_ok [OF assms assms] fe_sq_ok [OF assms] fe_sq2_ok [OF assms] by simp

theorem fe_sq_agrees_with_mul_witness:
  "fe_abs (fe_sq (Fe 5 0 0 0 (-9) 0 0 0 0 33554431)) = fe_abs (fe_mul (Fe 5 0 0 0 (-9) 0 0 0 0 33554431) (Fe 5 0 0 0 (-9) 0 0 0 0 33554431))"
  using fe_sq_agrees_with_mul [of "Fe 5 0 0 0 (-9) 0 0 0 0 33554431"] by (simp add: fe_bounded_simp)

end
