(* ===== verification/Fe_Bytes.thy ===== *)
theory Fe_Bytes
  imports Fe_Mul
begin

text \<open>
  Packing and unpacking field elements (\<^verbatim>\<open>fe.c\<close>): \<open>load_3\<close>, \<open>load_4\<close>, \<open>fe_frombytes\<close>, \<open>fe_tobytes\<close>
  and the predicates \<open>fe_isnegative\<close> and \<open>fe_isnonzero\<close> that are read off the packed form.
  \<open>fe_frombytes\<close> reads 255 bits little-endian; \<open>fe_tobytes\<close> writes the unique representative in
  \<open>0 .. 2^255 - 20\<close> of the element.  A byte buffer is the list of its bytes, and a pointer into it a
  position.
\<close>

section \<open>Definitions\<close>

text \<open>\<open>load_3 s k\<close> is \<^verbatim>\<open>load_3(s + k)\<close>.\<close>

definition load_3 :: "bytes \<Rightarrow> nat \<Rightarrow> u64" where
  "load_3 s k =
    (let result = ucast (s ! k);
         result = result OR shl (ucast (s ! (k + 1))) 8;
         result = result OR shl (ucast (s ! (k + 2))) 16
     in result)"

definition load_4 :: "bytes \<Rightarrow> nat \<Rightarrow> u64" where
  "load_4 s k =
    (let result = ucast (s ! k);
         result = result OR shl (ucast (s ! (k + 1))) 8;
         result = result OR shl (ucast (s ! (k + 2))) 16;
         result = result OR shl (ucast (s ! (k + 3))) 24
     in result)"

definition fe_frombytes :: "bytes \<Rightarrow> fe" where
  "fe_frombytes s =
    fe_store (exec_ops fe_odd_even_carries
      [load_4 s 0,
       shl (load_3 s 4) 6,
       shl (load_3 s 7) 5,
       shl (load_3 s 10) 3,
       shl (load_3 s 13) 2,
       load_4 s 16,
       shl (load_3 s 20) 7,
       shl (load_3 s 23) 5,
       shl (load_3 s 26) 4,
       shl (load_3 s 29 AND 8388607) 2])"

text \<open>The quotient \<open>q\<close> of \<open>fe_tobytes\<close>, the floor of \<open>h / (2^255 - 19)\<close>.\<close>

definition fe_tobytes_q :: "fe \<Rightarrow> i32" where
  "fe_tobytes_q h =
    (case h of Fe h0 h1 h2 h3 h4 h5 h6 h7 h8 h9 \<Rightarrow>
     let q = sar (19 * h9 + shl 1 24) 25;
         q = sar (h0 + q) 26;
         q = sar (h1 + q) 25;
         q = sar (h2 + q) 26;
         q = sar (h3 + q) 25;
         q = sar (h4 + q) 26;
         q = sar (h5 + q) 25;
         q = sar (h6 + q) 26;
         q = sar (h7 + q) 25;
         q = sar (h8 + q) 26;
         q = sar (h9 + q) 25
     in q)"

text \<open>The second part: subtract \<open>(2^255 - 19) q\<close> and carry, dropping \<open>2^255 q\<close> at the top.\<close>

definition fe_tobytes_carries :: "limb_op list" where
  "fe_tobytes_carries =
     [Floor 0 26, Floor 1 25, Floor 2 26, Floor 3 25, Floor 4 26,
      Floor 5 25, Floor 6 26, Floor 7 25, Floor 8 26, Drop 9 25]"

definition fe_pack :: "i32 list \<Rightarrow> bytes" where
  "fe_pack h =
    [ucast (sar (h ! 0) 0),
     ucast (sar (h ! 0) 8),
     ucast (sar (h ! 0) 16),
     ucast (sar (h ! 0) 24 OR shl (h ! 1) 2),
     ucast (sar (h ! 1) 6),
     ucast (sar (h ! 1) 14),
     ucast (sar (h ! 1) 22 OR shl (h ! 2) 3),
     ucast (sar (h ! 2) 5),
     ucast (sar (h ! 2) 13),
     ucast (sar (h ! 2) 21 OR shl (h ! 3) 5),
     ucast (sar (h ! 3) 3),
     ucast (sar (h ! 3) 11),
     ucast (sar (h ! 3) 19 OR shl (h ! 4) 6),
     ucast (sar (h ! 4) 2),
     ucast (sar (h ! 4) 10),
     ucast (sar (h ! 4) 18),
     ucast (sar (h ! 5) 0),
     ucast (sar (h ! 5) 8),
     ucast (sar (h ! 5) 16),
     ucast (sar (h ! 5) 24 OR shl (h ! 6) 1),
     ucast (sar (h ! 6) 7),
     ucast (sar (h ! 6) 15),
     ucast (sar (h ! 6) 23 OR shl (h ! 7) 3),
     ucast (sar (h ! 7) 5),
     ucast (sar (h ! 7) 13),
     ucast (sar (h ! 7) 21 OR shl (h ! 8) 4),
     ucast (sar (h ! 8) 4),
     ucast (sar (h ! 8) 12),
     ucast (sar (h ! 8) 20 OR shl (h ! 9) 6),
     ucast (sar (h ! 9) 2),
     ucast (sar (h ! 9) 10),
     ucast (sar (h ! 9) 18)]"

definition fe_tobytes :: "fe \<Rightarrow> bytes" where
  "fe_tobytes h =
    (case h of Fe h0 h1 h2 h3 h4 h5 h6 h7 h8 h9 \<Rightarrow>
     let q = fe_tobytes_q h;
         h0 = h0 + 19 * q;
         h = exec_ops fe_tobytes_carries [h0, h1, h2, h3, h4, h5, h6, h7, h8, h9]
     in fe_pack h)"

definition fe_isnegative :: "fe \<Rightarrow> i32" where
  "fe_isnegative f = (let s = fe_tobytes f in ucast (s ! 0 AND 1))"

text \<open>The unrolled \<^verbatim>\<open>r = s[0]; r |= s[1]; ...; r |= s[31]; return r != 0;\<close>.\<close>

definition fe_isnonzero :: "fe \<Rightarrow> i32" where
  "fe_isnonzero f =
    (let s = fe_tobytes f;
         r = fold (\<lambda>i r. r OR s ! i) [1..<32] (s ! 0)
     in if r \<noteq> 0 then 1 else 0)"

section \<open>Unpacking\<close>

lemma or_byte:
  fixes b :: u8
  assumes "0 \<le> x" and "x < 2 ^ n" and "n \<le> 56"
  shows "(of_int x OR shl (ucast b) n :: u64) = of_int (x + uint b * 2 ^ n)"
    and "x + uint b * 2 ^ n < 2 ^ (n + 8)"
proof -
  have "(2::int) ^ n \<le> 2 ^ 64" using assms(3) by (intro power_increasing) auto
  with assms(2) have "x < 2 ^ 64" by linarith
  then have "uint (of_int x :: u64) = x" using assms(1) by (simp add: uint_word_of_int)
  then have "(of_int x OR shl (ucast b) n :: u64) = of_int x + shl (ucast b) n"
    using assms(2) by (intro or_shl_eq_add) simp
  also have "\<dots> = of_int x + of_int (uint b) * of_int (2 ^ n)"
    by (simp only: shl_eq_mult ucast_eq of_int_power of_int_numeral)
  finally show "(of_int x OR shl (ucast b) n :: u64) = of_int (x + uint b * 2 ^ n)"
    by (simp only: of_int_add of_int_mult)
  have "(uint b + 1) * 2 ^ n \<le> 256 * 2 ^ n"
    using uint_byte [of b] by (intro mult_right_mono) (simp_all only: zero_le_power zero_le_numeral, linarith)
  moreover have "(2::int) ^ (n + 8) = 256 * 2 ^ n" by (simp add: power_add)
  ultimately show "x + uint b * 2 ^ n < 2 ^ (n + 8)"
    using assms(2) by (simp only: distrib_right)
qed

lemma load_3_nth: "load_3 s k = of_int (le_val [s ! k, s ! (k + 1), s ! (k + 2)])"
proof -
  have u: "(ucast (s ! k) :: u64) = of_int (uint (s ! k))" by (rule ucast_eq)
  note b = uint_byte [of "s ! k"]
  have 1: "(of_int (uint (s ! k)) OR shl (ucast (s ! (k + 1))) 8 :: u64)
      = of_int (uint (s ! k) + uint (s ! (k + 1)) * 2 ^ 8)"
    "uint (s ! k) + uint (s ! (k + 1)) * 2 ^ 8 < 2 ^ 16"
    using or_byte [of "uint (s ! k)" 8] b by simp_all
  have 2: "(of_int (uint (s ! k) + uint (s ! (k + 1)) * 2 ^ 8) OR shl (ucast (s ! (k + 2))) 16 :: u64)
      = of_int (uint (s ! k) + uint (s ! (k + 1)) * 2 ^ 8 + uint (s ! (k + 2)) * 2 ^ 16)"
    using 1(2) by (intro or_byte) simp_all
  show ?thesis unfolding load_3_def Let_def u 1 2 by simp
qed

lemma load_4_nth: "load_4 s k = of_int (le_val [s ! k, s ! (k + 1), s ! (k + 2), s ! (k + 3)])"
proof -
  let ?x = "le_val [s ! k, s ! (k + 1), s ! (k + 2)]"
  have "load_4 s k = load_3 s k OR shl (ucast (s ! (k + 3))) 24"
    unfolding load_4_def load_3_def Let_def ..
  also have "\<dots> = of_int (?x + uint (s ! (k + 3)) * 2 ^ 24)"
    unfolding load_3_nth using le_val_less [of "[s ! k, s ! (k + 1), s ! (k + 2)]"] le_val_nonneg
    by (intro or_byte) simp_all
  also have "?x + uint (s ! (k + 3)) * 2 ^ 24 = le_val [s ! k, s ! (k + 1), s ! (k + 2), s ! (k + 3)]"
    by simp
  finally show ?thesis .
qed

text \<open>The little-endian value of the \<open>n\<close> bytes at position \<open>k\<close>.\<close>

definition chunk :: "bytes \<Rightarrow> nat \<Rightarrow> nat \<Rightarrow> int" where
  "chunk s k n = le_val (take n (drop k s))"

lemma chunk_split: "k + n \<le> length s \<Longrightarrow> le_val (drop k s) = chunk s k n + 256 ^ n * le_val (drop (k + n) s)"
  using le_val_append [of "take n (drop k s)" "drop n (drop k s)"]
  unfolding append_take_drop_id by (simp add: chunk_def add.commute)

lemma chunk_less: "k + n \<le> length s \<Longrightarrow> 0 \<le> chunk s k n \<and> chunk s k n < 256 ^ n"
  using le_val_nonneg [of "take n (drop k s)"] le_val_less [of "take n (drop k s)"]
  by (simp add: chunk_def)

lemma take_Suc_drop: "k < length s \<Longrightarrow> take (Suc n) (drop k s) = s ! k # take n (drop (k + 1) s)"
  by (simp add: Cons_nth_drop_Suc [symmetric])

lemma load_3_eq: "k + 3 \<le> length s \<Longrightarrow> load_3 s k = of_int (chunk s k 3)"
  unfolding load_3_nth chunk_def by (simp add: numeral_3_eq_3 take_Suc_drop add.assoc)

lemma load_4_eq: "k + 4 \<le> length s \<Longrightarrow> load_4 s k = of_int (chunk s k 4)"
  unfolding load_4_nth chunk_def
  by (simp add: eval_nat_numeral take_Suc_drop add.assoc)

text \<open>The words of \<open>fe_frombytes\<close> before the carries, as integers.\<close>

lemma sint_shl_load:
  assumes "0 \<le> x" and "x < 2 ^ 32" and "n \<le> 8"
  shows "sint (shl (of_int x :: u64) n) = x * 2 ^ n \<and> 0 \<le> x * 2 ^ n \<and> x * 2 ^ n \<le> 2 ^ 44"
proof -
  have "(2::int) ^ n \<le> 2 ^ 8" using assms(3) by (intro power_increasing) auto
  then have "x * 2 ^ n \<le> 2 ^ 32 * 2 ^ 8" using assms by (intro mult_mono) auto
  then have le: "x * 2 ^ n \<le> 2 ^ 44" by simp
  have nn: "0 \<le> x * 2 ^ n" using assms(1) by simp
  have "srange LENGTH(64) (x * 2 ^ n)" unfolding srange_def using le nn by simp
  moreover have "shl (of_int x :: u64) n = of_int (x * 2 ^ n)"
    by (simp only: shl_eq_mult of_int_mult of_int_power of_int_numeral)
  ultimately show ?thesis using le nn sint_eqI by blast
qed

lemma and_23_bits: "(of_int x AND 8388607 :: u64) = of_int (x mod 2 ^ 23)"
proof -
  have "(8388607 :: u64) = mask 23" by (simp add: mask_eq_exp_minus_1)
  then have "(of_int x AND 8388607 :: u64) = take_bit 23 (of_int x)" by (simp only: take_bit_eq_mask)
  also have "\<dots> = of_int (take_bit 23 x)" by (simp only: take_bit_of_int)
  finally show ?thesis by (simp only: take_bit_eq_mod)
qed

lemma frombytes_words:
  assumes "length s = 32"
  shows "map sint [load_4 s 0, shl (load_3 s 4) 6, shl (load_3 s 7) 5, shl (load_3 s 10) 3, shl (load_3 s 13) 2, load_4 s 16, shl (load_3 s 20) 7, shl (load_3 s 23) 5, shl (load_3 s 26) 4, shl (load_3 s 29 AND 8388607) 2] =
    [chunk s 0 4, chunk s 4 3 * 2 ^ 6, chunk s 7 3 * 2 ^ 5, chunk s 10 3 * 2 ^ 3, chunk s 13 3 * 2 ^ 2, chunk s 16 4, chunk s 20 3 * 2 ^ 7, chunk s 23 3 * 2 ^ 5, chunk s 26 3 * 2 ^ 4, chunk s 29 3 mod 2 ^ 23 * 2 ^ 2]" (is "_ = ?v")
    and "within (map sint [load_4 s 0, shl (load_3 s 4) 6, shl (load_3 s 7) 5, shl (load_3 s 10) 3, shl (load_3 s 13) 2, load_4 s 16, shl (load_3 s 20) 7, shl (load_3 s 23) 5, shl (load_3 s 26) 4, shl (load_3 s 29 AND 8388607) 2]) (replicate 10 (- (2 ^ 44), 2 ^ 44))"
proof -
  have c4: "0 \<le> chunk s k 4 \<and> chunk s k 4 < 2 ^ 32" if "k + 4 \<le> 32" for k
    using chunk_less [of k 4 s] that assms by simp
  have c3: "0 \<le> chunk s k 3 \<and> chunk s k 3 < 2 ^ 32" if "k + 3 \<le> 32" for k
    using chunk_less [of k 3 s] that assms by simp
  have top: "0 \<le> chunk s 29 3 mod 2 ^ 23" "chunk s 29 3 mod 2 ^ 23 < 2 ^ 32"
    using pos_mod_bound [of "2 ^ 23" "chunk s 29 3"] by simp_all
  have l4: "sint (load_4 s k) = chunk s k 4 \<and> 0 \<le> chunk s k 4 \<and> chunk s k 4 \<le> 2 ^ 44" if "k + 4 \<le> 32" for k
    using sint_shl_load [of "chunk s k 4" 0] c4 [OF that] that assms by (simp add: load_4_eq)
  have l3: "sint (shl (load_3 s k) n) = chunk s k 3 * 2 ^ n \<and> 0 \<le> chunk s k 3 * 2 ^ n \<and> chunk s k 3 * 2 ^ n \<le> 2 ^ 44"
    if "k + 3 \<le> 32" and "n \<le> 8" for k n
    using sint_shl_load [of "chunk s k 3" n] c3 [OF that(1)] that assms by (simp only: load_3_eq)
  have l9: "sint (shl (load_3 s 29 AND 8388607) 2) = chunk s 29 3 mod 2 ^ 23 * 2 ^ 2
      \<and> 0 \<le> chunk s 29 3 mod 2 ^ 23 * 2 ^ 2 \<and> chunk s 29 3 mod 2 ^ 23 * 2 ^ 2 \<le> 2 ^ 44"
    using sint_shl_load [OF top, of 2] assms by (simp only: load_3_eq and_23_bits)
  show v: "map sint [load_4 s 0, shl (load_3 s 4) 6, shl (load_3 s 7) 5, shl (load_3 s 10) 3, shl (load_3 s 13) 2, load_4 s 16, shl (load_3 s 20) 7, shl (load_3 s 23) 5, shl (load_3 s 26) 4, shl (load_3 s 29 AND 8388607) 2] = ?v"
    unfolding list.map by (simp only: l4 l3 l9 list.inject simp_thms)
  have iv: "in_iv x (- (2 ^ 44), 2 ^ 44)" if "0 \<le> x \<and> x \<le> 2 ^ 44" for x
    using that by (simp add: in_iv_def)
  show "within (map sint [load_4 s 0, shl (load_3 s 4) 6, shl (load_3 s 7) 5, shl (load_3 s 10) 3, shl (load_3 s 13) 2, load_4 s 16, shl (load_3 s 20) 7, shl (load_3 s 23) 5, shl (load_3 s 26) 4, shl (load_3 s 29 AND 8388607) 2]) (replicate 10 (- (2 ^ 44), 2 ^ 44))"
    unfolding v within_def replicate_10 list_all2_Cons list_all2_Nil2
    by (intro conjI iv l4 [THEN conjunct2] l3 [THEN conjunct2] l9 [THEN conjunct2]) (rule refl | simp)+
qed

lemma frombytes_val:
  assumes "length s = 32"
  shows "limb_val fe_weights [chunk s 0 4, chunk s 4 3 * 2 ^ 6, chunk s 7 3 * 2 ^ 5, chunk s 10 3 * 2 ^ 3, chunk s 13 3 * 2 ^ 2, chunk s 16 4, chunk s 20 3 * 2 ^ 7, chunk s 23 3 * 2 ^ 5, chunk s 26 3 * 2 ^ 4, chunk s 29 3 mod 2 ^ 23 * 2 ^ 2]
    = le_val s mod 2 ^ 255"
proof -
  note cs = chunk_split [of _ _ s, unfolded assms]
  have tail: "le_val (drop 32 s) = 0" using assms by simp
  define low where "low = 2 ^ 0 * chunk s 0 4 + 2 ^ 32 * chunk s 4 3 + 2 ^ 56 * chunk s 7 3 + 2 ^ 80 * chunk s 10 3 + 2 ^ 104 * chunk s 13 3 + 2 ^ 128 * chunk s 16 4 + 2 ^ 160 * chunk s 20 3 + 2 ^ 184 * chunk s 23 3 + 2 ^ 208 * chunk s 26 3"
  have "le_val s = low + 2 ^ 232 * chunk s 29 3"
    using cs [of 0 4] cs [of 4 3] cs [of 7 3] cs [of 10 3] cs [of 13 3] cs [of 16 4] cs [of 20 3] cs [of 23 3] cs [of 26 3] cs [of 29 3] tail
    unfolding low_def by simp
  moreover have "0 \<le> low" "low < 2 ^ 232"
    using chunk_less [of 0 4 s] chunk_less [of 4 3 s] chunk_less [of 7 3 s] chunk_less [of 10 3 s] chunk_less [of 13 3 s] chunk_less [of 16 4 s] chunk_less [of 20 3 s] chunk_less [of 23 3 s] chunk_less [of 26 3 s]
    unfolding low_def assms by simp_all
  moreover have "limb_val fe_weights [chunk s 0 4, chunk s 4 3 * 2 ^ 6, chunk s 7 3 * 2 ^ 5, chunk s 10 3 * 2 ^ 3, chunk s 13 3 * 2 ^ 2, chunk s 16 4, chunk s 20 3 * 2 ^ 7, chunk s 23 3 * 2 ^ 5, chunk s 26 3 * 2 ^ 4, chunk s 29 3 mod 2 ^ 23 * 2 ^ 2] = low + 2 ^ 232 * (chunk s 29 3 mod 2 ^ 23)"
    unfolding limb_val_fe low_def by simp
  ultimately show ?thesis
    using zmod_zmult2_eq [of "2 ^ 23" "low + 2 ^ 232 * chunk s 29 3" "2 ^ 232"] by simp
qed

lemma fe_frombytes_ok:
  assumes "length s = 32"
  shows "fe_abs (fe_frombytes s) = of_int (le_val s mod 2 ^ 255) \<and> fe_bounded 102 25 (fe_frombytes s)"
proof -
  obtain b' where b': "bnd_ops 64 fe_odd_even_carries (replicate 10 (- (2 ^ 44), 2 ^ 44)) = Some b'"
    and c: "ivs_bounded 102 b'"
    using fe_odd_even_carries_bnd by (auto split: option.splits)
  note w = frombytes_words [OF assms]
  note r = carries_ok [OF b' w(2) _ fe_carries_ok_p(2) c, unfolded w(1) frombytes_val [OF assms]]
  show ?thesis unfolding fe_frombytes_def
    by (rule conjI, rule fe_abs_eqI) (use r in simp_all)
qed

section \<open>The quotient of \<open>fe_tobytes\<close>\<close>

lemma nested_floor: "(a + b div 2 ^ m) div 2 ^ n = (a * 2 ^ m + b) div 2 ^ (m + n)" for a b :: int
  by (simp add: power_add zdiv_zmult2_eq)

lemma sint_quot_step:
  fixes h q :: i32
  assumes "\<bar>sint h\<bar> \<le> 2 ^ 27" and "\<bar>sint q\<bar> \<le> 2 ^ 27" and "25 \<le> k"
  shows "sint (sar (h + q) k) = (sint h + sint q) div 2 ^ k \<and> \<bar>sint (sar (h + q) k)\<bar> \<le> 2 ^ 27"
proof -
  let ?x = "sint h + sint q"
  have le: "- (2 ^ 28) \<le> ?x" "?x \<le> 2 ^ 28" using assms(1,2) by (auto simp: abs_le_iff)
  then have "sint (h + q) = ?x" by (intro sint_add_exact) (simp add: srange_def)
  then have eq: "sint (sar (h + q) k) = ?x div 2 ^ k" by (simp add: sint_sar)
  have p: "(2::int) ^ 25 \<le> 2 ^ k" using assms(3) by (intro power_increasing) auto
  have "- (2 ^ 28) div 2 ^ k \<le> ?x div 2 ^ k" and "?x div 2 ^ k \<le> 2 ^ 28 div 2 ^ k"
    using le by (intro zdiv_mono1; simp)+
  moreover have "(2::int) ^ 28 div 2 ^ k \<le> 2 ^ 28 div 2 ^ 25"
    using p by (intro zdiv_mono2) simp_all
  moreover have "- (2 ^ 28) div 2 ^ 25 \<le> - (2 ^ 28) div (2::int) ^ k"
    using p by (intro zdiv_mono2_neg) simp_all
  ultimately show ?thesis unfolding eq by (simp add: abs_le_iff)
qed

lemma scaled_bound: "100 * \<bar>x\<bar> \<le> c \<Longrightarrow> c \<le> 100 * d + 99 \<Longrightarrow> - d \<le> x \<and> x \<le> d" for x c d :: int
  by linarith

lemma tobytes_bounds:
  assumes "fe_bounded 110 26 (Fe h0 h1 h2 h3 h4 h5 h6 h7 h8 h9)"
  shows "- 73819750 \<le> sint h0 \<and> sint h0 \<le> 73819750"
    and "- 36909875 \<le> sint h1 \<and> sint h1 \<le> 36909875"
    and "- 73819750 \<le> sint h2 \<and> sint h2 \<le> 73819750"
    and "- 36909875 \<le> sint h3 \<and> sint h3 \<le> 36909875"
    and "- 73819750 \<le> sint h4 \<and> sint h4 \<le> 73819750"
    and "- 36909875 \<le> sint h5 \<and> sint h5 \<le> 36909875"
    and "- 73819750 \<le> sint h6 \<and> sint h6 \<le> 73819750"
    and "- 36909875 \<le> sint h7 \<and> sint h7 \<le> 36909875"
    and "- 73819750 \<le> sint h8 \<and> sint h8 \<le> 73819750"
    and "- 36909875 \<le> sint h9 \<and> sint h9 \<le> 36909875"
proof -
  have k: "110 * 2 ^ 26 \<le> 100 * 73819750 + (99::int)" "110 * 2 ^ (26 - 1) \<le> 100 * 36909875 + (99::int)"
    by simp_all
  show "- 73819750 \<le> sint h0 \<and> sint h0 \<le> 73819750"
    using assms unfolding fe_bounded_simp by (elim conjE) (erule scaled_bound, rule k)
  show "- 36909875 \<le> sint h1 \<and> sint h1 \<le> 36909875"
    using assms unfolding fe_bounded_simp by (elim conjE) (erule scaled_bound, rule k)
  show "- 73819750 \<le> sint h2 \<and> sint h2 \<le> 73819750"
    using assms unfolding fe_bounded_simp by (elim conjE) (erule scaled_bound, rule k)
  show "- 36909875 \<le> sint h3 \<and> sint h3 \<le> 36909875"
    using assms unfolding fe_bounded_simp by (elim conjE) (erule scaled_bound, rule k)
  show "- 73819750 \<le> sint h4 \<and> sint h4 \<le> 73819750"
    using assms unfolding fe_bounded_simp by (elim conjE) (erule scaled_bound, rule k)
  show "- 36909875 \<le> sint h5 \<and> sint h5 \<le> 36909875"
    using assms unfolding fe_bounded_simp by (elim conjE) (erule scaled_bound, rule k)
  show "- 73819750 \<le> sint h6 \<and> sint h6 \<le> 73819750"
    using assms unfolding fe_bounded_simp by (elim conjE) (erule scaled_bound, rule k)
  show "- 36909875 \<le> sint h7 \<and> sint h7 \<le> 36909875"
    using assms unfolding fe_bounded_simp by (elim conjE) (erule scaled_bound, rule k)
  show "- 73819750 \<le> sint h8 \<and> sint h8 \<le> 73819750"
    using assms unfolding fe_bounded_simp by (elim conjE) (erule scaled_bound, rule k)
  show "- 36909875 \<le> sint h9 \<and> sint h9 \<le> 36909875"
    using assms unfolding fe_bounded_simp by (elim conjE) (erule scaled_bound, rule k)
qed

text \<open>The chain of shifts is one floor division: the carries nest.\<close>

lemma fe_tobytes_q_eq:
  assumes "fe_bounded 110 26 h"
  shows "sint (fe_tobytes_q h) =
    (2 ^ 25 * fe_val h + 19 * sint (fe_limbs h ! 9) + 2 ^ 24) div 2 ^ 280"
proof (cases h)
  case (Fe h0 h1 h2 h3 h4 h5 h6 h7 h8 h9)
  have b: "\<bar>sint h0\<bar> \<le> 2 ^ 27" "\<bar>sint h1\<bar> \<le> 2 ^ 27" "\<bar>sint h2\<bar> \<le> 2 ^ 27" "\<bar>sint h3\<bar> \<le> 2 ^ 27" "\<bar>sint h4\<bar> \<le> 2 ^ 27" "\<bar>sint h5\<bar> \<le> 2 ^ 27" "\<bar>sint h6\<bar> \<le> 2 ^ 27" "\<bar>sint h7\<bar> \<le> 2 ^ 27" "\<bar>sint h8\<bar> \<le> 2 ^ 27" "\<bar>sint h9\<bar> \<le> 2 ^ 27"
    using tobytes_bounds [OF assms [unfolded Fe]] by (simp_all add: abs_le_iff)
  have b9: "- 36909875 \<le> sint h9" "sint h9 \<le> 36909875"
    using tobytes_bounds [OF assms [unfolded Fe]] by blast+
  have 19: "sint (19 * h9) = 19 * sint h9"
    using sint_mult_exact [of 19 h9] b9 by (simp add: srange_def)
  have "sint (19 * h9 + shl 1 24) = 19 * sint h9 + 2 ^ 24"
    using sint_add_exact [of "19 * h9" "shl 1 24"] b9 by (simp add: 19 srange_def)
  then have s: "sint (sar (19 * h9 + shl 1 24) 25) = (19 * sint h9 + 2 ^ 24) div 2 ^ 25"
    by (simp add: sint_sar)
  have "(19 * - 36909875 + 2 ^ 24) div 2 ^ 25 \<le> (19 * sint h9 + 2 ^ 24) div 2 ^ 25"
    and "(19 * sint h9 + 2 ^ 24) div 2 ^ 25 \<le> (19 * 36909875 + 2 ^ 24) div 2 ^ 25"
    using b9 by (intro zdiv_mono1; simp)+
  then have sb: "\<bar>sint (sar (19 * h9 + shl 1 24) 25)\<bar> \<le> 2 ^ 27"
    unfolding s by (simp add: abs_le_iff)
  have k: "25 \<le> (25::nat)" "25 \<le> (26::nat)" by simp_all
  note q0 = sint_quot_step [OF b(1) sb k(2)]
  note q1 = sint_quot_step [OF b(2) q0 [THEN conjunct2] k(1)]
  note q2 = sint_quot_step [OF b(3) q1 [THEN conjunct2] k(2)]
  note q3 = sint_quot_step [OF b(4) q2 [THEN conjunct2] k(1)]
  note q4 = sint_quot_step [OF b(5) q3 [THEN conjunct2] k(2)]
  note q5 = sint_quot_step [OF b(6) q4 [THEN conjunct2] k(1)]
  note q6 = sint_quot_step [OF b(7) q5 [THEN conjunct2] k(2)]
  note q7 = sint_quot_step [OF b(8) q6 [THEN conjunct2] k(1)]
  note q8 = sint_quot_step [OF b(9) q7 [THEN conjunct2] k(2)]
  note q9 = sint_quot_step [OF b(10) q8 [THEN conjunct2] k(1)]
  show ?thesis unfolding Fe fe_tobytes_q_def fe.case Let_def fe_val_simp
    by (simp only: q9 q8 q7 q6 q5 q4 q3 q2 q1 q0 s nested_floor)
      (rule arg_cong2 [where f = "(div)"], (simp; algebra), simp)
qed

text \<open>With this quotient the remainder is the canonical representative.\<close>

lemma quotient_exact:
  fixes H low h9 q :: int
  assumes "H = low + h9 * 2 ^ 230" and "- (5 * 2 ^ 229) \<le> 2 * low \<and> 2 * low \<le> 5 * 2 ^ 229"
    and "- 36909875 \<le> h9 \<and> h9 \<le> 36909875"
    and "q = (2 ^ 25 * H + 19 * h9 + 2 ^ 24) div 2 ^ 280"
  shows "0 \<le> H - p25519 * q \<and> H - p25519 * q < p25519" and "- 2 \<le> q \<and> q \<le> 2"
proof -
  define N where "N = 2 ^ 25 * H + 19 * h9 + 2 ^ 24"
  have "N = 2 ^ 280 * q + N mod 2 ^ 280" unfolding assms(4) N_def by simp
  moreover have "0 \<le> N mod 2 ^ 280" "N mod 2 ^ 280 < 2 ^ 280" by simp_all
  ultimately have "2 ^ 280 * q \<le> N" "N < 2 ^ 280 * q + 2 ^ 280" by linarith+
  with assms(1,2,3) show "0 \<le> H - p25519 * q \<and> H - p25519 * q < p25519" and "- 2 \<le> q \<and> q \<le> 2"
    unfolding N_def p25519_def by simp_all
qed

text \<open>The carries of the second part leave limbs of 26 and 25 bits.\<close>

lemma tobytes_carries_bnd:
  "bnd_ops 32 fe_tobytes_carries
     [(- 73819788, 73819788), (- 36909875, 36909875), (- 73819750, 73819750), (- 36909875, 36909875),
      (- 73819750, 73819750), (- 36909875, 36909875), (- 73819750, 73819750), (- 36909875, 36909875),
      (- 73819750, 73819750), (- 36909875, 36909875)] =
   Some [(0, 2 ^ 26 - 1), (0, 2 ^ 25 - 1), (0, 2 ^ 26 - 1), (0, 2 ^ 25 - 1), (0, 2 ^ 26 - 1),
      (0, 2 ^ 25 - 1), (0, 2 ^ 26 - 1), (0, 2 ^ 25 - 1), (0, 2 ^ 26 - 1), (0, 2 ^ 25 - 1)]"
  by code_simp

lemma iexec_drop_val:
  assumes "length h = 10"
  shows "limb_val fe_weights (iexec_op (Drop 9 25) h) = limb_val fe_weights h - 2 ^ 255 * (h ! 9 div 2 ^ 25)"
  using assms by (simp add: Let_def limb_val_sub_at fe_weights_def)

lemma tobytes_carries_val:
  assumes "length h = 10"
  shows "limb_val fe_weights (iexec_ops fe_tobytes_carries h) mod 2 ^ 255 = limb_val fe_weights h mod 2 ^ 255"
proof -
  define fl where "fl = [Floor 0 26, Floor 1 25, Floor 2 26, Floor 3 25, Floor 4 26,
      Floor 5 25, Floor 6 26, Floor 7 25, Floor 8 26]"
  have split: "iexec_ops fe_tobytes_carries h = iexec_op (Drop 9 25) (iexec_ops fl h)"
    unfolding iexec_ops_def fe_tobytes_carries_def fl_def by (simp only: fold_simps)
  have len: "length (iexec_ops fl h) = 10"
    unfolding iexec_ops_def fl_def using assms by (simp only: fold_simps length_iexec_op)
  have "list_all (op_ok (2 ^ 255) fe_weights) fl" by (simp add: fl_def fe_weights_def)
  from iexec_ops_val [OF this, of h] assms
  have "limb_val fe_weights (iexec_ops fl h) mod 2 ^ 255 = limb_val fe_weights h mod 2 ^ 255"
    by (simp only: length_fe_weights)
  moreover have "(x - 2 ^ 255 * c) mod 2 ^ 255 = x mod 2 ^ 255" for x c :: int
    using mod_mult_self2 [of x "2 ^ 255" "- c"] by simp
  ultimately show ?thesis unfolding split iexec_drop_val [OF len] by (simp only:)
qed

text \<open>Limbs of 26 and 25 bits represent a number below \<open>2^255\<close>.\<close>

abbreviation limb_ivs :: "ival list" where
  "limb_ivs \<equiv> [(0, 2 ^ 26 - 1), (0, 2 ^ 25 - 1), (0, 2 ^ 26 - 1), (0, 2 ^ 25 - 1), (0, 2 ^ 26 - 1),
      (0, 2 ^ 25 - 1), (0, 2 ^ 26 - 1), (0, 2 ^ 25 - 1), (0, 2 ^ 26 - 1), (0, 2 ^ 25 - 1)]"

lemma limb_ivs_val:
  assumes "within h limb_ivs"
  shows "0 \<le> limb_val fe_weights h \<and> limb_val fe_weights h < 2 ^ 255"
proof -
  from assms obtain h0 h1 h2 h3 h4 h5 h6 h7 h8 h9 where h: "h = [h0, h1, h2, h3, h4, h5, h6, h7, h8, h9]"
    unfolding within_def by (auto simp: list_all2_Cons2)
  show ?thesis using assms unfolding h limb_val_fe within_def list_all2_Cons in_iv_def fst_conv snd_conv
    by simp
qed

section \<open>Packing\<close>

text \<open>Cutting a limb at bit \<open>a\<close> into the low bits, two or three whole bytes and the rest.\<close>

lemma cut_byte: "x div 2 ^ a = x div 2 ^ a mod 256 + 256 * (x div 2 ^ (a + 8))" for x :: int
  by (simp add: power_add zdiv_zmult2_eq)

lemma cut_join:
  fixes x :: int
  assumes "x = r + P * y" and "y = u + 256 * z" and "z = v + 256 * t"
  shows "x = r + P * u + P * 256 * v + P * 65536 * t"
  unfolding assms(1) assms(2) assms(3) by (simp add: algebra_simps)

lemma cut_2: "x = x mod 2 ^ a + 2 ^ a * (x div 2 ^ a mod 256) + 2 ^ a * 256 * (x div 2 ^ (a + 8) mod 256)
    + 2 ^ a * 65536 * (x div 2 ^ (a + 16))" for x :: int
proof (rule cut_join)
  show "x = x mod 2 ^ a + 2 ^ a * (x div 2 ^ a)" by simp
  show "x div 2 ^ (a + 8) = x div 2 ^ (a + 8) mod 256 + 256 * (x div 2 ^ (a + 16))"
    using cut_byte [of x "a + 8"] by (simp add: add.assoc)
qed (rule cut_byte)

lemma div_less_power:
  fixes x :: int
  assumes "0 \<le> x" and "x < 2 ^ (n + m)"
  shows "x div 2 ^ n < 2 ^ m \<and> 0 \<le> x div 2 ^ n"
proof
  have "2 ^ n * (x div 2 ^ n) + x mod 2 ^ n = x" and "0 \<le> x mod 2 ^ n" by simp_all
  then have "2 ^ n * (x div 2 ^ n) \<le> x" by linarith
  also have "\<dots> < 2 ^ n * 2 ^ m" using assms(2) by (simp add: power_add)
  finally show "x div 2 ^ n < 2 ^ m" by simp
qed (use assms(1) in \<open>simp add: pos_imp_zdiv_nonneg_iff\<close>)

lemma pack_poly:
  fixes u0 v0 w0 t0 l1 u1 v1 t1 l2 u2 v2 t2 l3 u3 v3 t3 l4 u4 v4 t4 u5 v5 w5 t5 l6 u6 v6 t6 l7 u7 v7 t7 l8 u8 v8 t8 l9 u9 v9 t9 x0 x1 x2 x3 x4 x5 x6 x7 x8 x9 :: int
  assumes "x0 = 2 ^ 0 * u0 + 2 ^ 0 * 256 * v0 + 2 ^ 0 * 65536 * w0 + 2 ^ 24 * t0"
    and "x1 = l1 + 2 ^ 6 * u1 + 2 ^ 6 * 256 * v1 + 2 ^ 6 * 65536 * t1"
    and "x2 = l2 + 2 ^ 5 * u2 + 2 ^ 5 * 256 * v2 + 2 ^ 5 * 65536 * t2"
    and "x3 = l3 + 2 ^ 3 * u3 + 2 ^ 3 * 256 * v3 + 2 ^ 3 * 65536 * t3"
    and "x4 = l4 + 2 ^ 2 * u4 + 2 ^ 2 * 256 * v4 + 2 ^ 2 * 65536 * t4"
    and "x5 = 2 ^ 0 * u5 + 2 ^ 0 * 256 * v5 + 2 ^ 0 * 65536 * w5 + 2 ^ 24 * t5"
    and "x6 = l6 + 2 ^ 7 * u6 + 2 ^ 7 * 256 * v6 + 2 ^ 7 * 65536 * t6"
    and "x7 = l7 + 2 ^ 5 * u7 + 2 ^ 5 * 256 * v7 + 2 ^ 5 * 65536 * t7"
    and "x8 = l8 + 2 ^ 4 * u8 + 2 ^ 4 * 256 * v8 + 2 ^ 4 * 65536 * t8"
    and "x9 = l9 + 2 ^ 2 * u9 + 2 ^ 2 * 256 * v9 + 2 ^ 2 * 65536 * t9"
  shows "u0 + 256 * (v0 + 256 * (w0 + 256 * ((t0 + 2 ^ 2 * l1) + 256 * (u1 + 256 * (v1 + 256 * ((t1 + 2 ^ 3 * l2) + 256 * (u2 + 256 * (v2 + 256 * ((t2 + 2 ^ 5 * l3) + 256 * (u3 + 256 * (v3 + 256 * ((t3 + 2 ^ 6 * l4) + 256 * (u4 + 256 * (v4 + 256 * (t4 + 256 * (u5 + 256 * (v5 + 256 * (w5 + 256 * ((t5 + 2 ^ 1 * l6) + 256 * (u6 + 256 * (v6 + 256 * ((t6 + 2 ^ 3 * l7) + 256 * (u7 + 256 * (v7 + 256 * ((t7 + 2 ^ 4 * l8) + 256 * (u8 + 256 * (v8 + 256 * ((t8 + 2 ^ 6 * l9) + 256 * (u9 + 256 * (v9 + 256 * (t9 + 256 * (0))))))))))))))))))))))))))))))))
    = x0 + x1 * 2 ^ 26 + x2 * 2 ^ 51 + x3 * 2 ^ 77 + x4 * 2 ^ 102 + x5 * 2 ^ 128 + x6 * 2 ^ 153 + x7 * 2 ^ 179 + x8 * 2 ^ 204 + x9 * 2 ^ 230"
  unfolding assms by algebra

lemma fe_pack_val:
  assumes "within (map sint [h0, h1, h2, h3, h4, h5, h6, h7, h8, h9]) limb_ivs"
  shows "le_val (fe_pack [h0, h1, h2, h3, h4, h5, h6, h7, h8, h9]) = limb_val fe_weights (map sint [h0, h1, h2, h3, h4, h5, h6, h7, h8, h9])"
proof -
  have r: "0 \<le> sint h0" "sint h0 < 2 ^ 26"
    "0 \<le> sint h1" "sint h1 < 2 ^ 25"
    "0 \<le> sint h2" "sint h2 < 2 ^ 26"
    "0 \<le> sint h3" "sint h3 < 2 ^ 25"
    "0 \<le> sint h4" "sint h4 < 2 ^ 26"
    "0 \<le> sint h5" "sint h5 < 2 ^ 25"
    "0 \<le> sint h6" "sint h6 < 2 ^ 26"
    "0 \<le> sint h7" "sint h7 < 2 ^ 25"
    "0 \<le> sint h8" "sint h8 < 2 ^ 26"
    "0 \<le> sint h9" "sint h9 < 2 ^ 25"
    using assms unfolding within_def list_all2_map1 list_all2_Cons in_iv_def by simp_all
  have j3: "uint (ucast (sar h0 24 OR shl h1 2) :: u8) = sint h0 div 2 ^ 24 + 2 ^ 2 * (sint h1 mod 2 ^ 6)"
    using byte_join [of h0 24 2 h1] div_less_power [of "sint h0" 24 2] r(1,2) by simp
  have j6: "uint (ucast (sar h1 22 OR shl h2 3) :: u8) = sint h1 div 2 ^ 22 + 2 ^ 3 * (sint h2 mod 2 ^ 5)"
    using byte_join [of h1 22 3 h2] div_less_power [of "sint h1" 22 3] r(3,4) by simp
  have j9: "uint (ucast (sar h2 21 OR shl h3 5) :: u8) = sint h2 div 2 ^ 21 + 2 ^ 5 * (sint h3 mod 2 ^ 3)"
    using byte_join [of h2 21 5 h3] div_less_power [of "sint h2" 21 5] r(5,6) by simp
  have j12: "uint (ucast (sar h3 19 OR shl h4 6) :: u8) = sint h3 div 2 ^ 19 + 2 ^ 6 * (sint h4 mod 2 ^ 2)"
    using byte_join [of h3 19 6 h4] div_less_power [of "sint h3" 19 6] r(7,8) by simp
  have j19: "uint (ucast (sar h5 24 OR shl h6 1) :: u8) = sint h5 div 2 ^ 24 + 2 ^ 1 * (sint h6 mod 2 ^ 7)"
    using byte_join [of h5 24 1 h6] div_less_power [of "sint h5" 24 1] r(11,12) by simp
  have j22: "uint (ucast (sar h6 23 OR shl h7 3) :: u8) = sint h6 div 2 ^ 23 + 2 ^ 3 * (sint h7 mod 2 ^ 5)"
    using byte_join [of h6 23 3 h7] div_less_power [of "sint h6" 23 3] r(13,14) by simp
  have j25: "uint (ucast (sar h7 21 OR shl h8 4) :: u8) = sint h7 div 2 ^ 21 + 2 ^ 4 * (sint h8 mod 2 ^ 4)"
    using byte_join [of h7 21 4 h8] div_less_power [of "sint h7" 21 4] r(15,16) by simp
  have j28: "uint (ucast (sar h8 20 OR shl h9 6) :: u8) = sint h8 div 2 ^ 20 + 2 ^ 6 * (sint h9 mod 2 ^ 2)"
    using byte_join [of h8 20 6 h9] div_less_power [of "sint h8" 20 6] r(17,18) by simp
  have t4: "sint h4 div 2 ^ 18 mod 256 = sint h4 div 2 ^ 18"
    using div_less_power [of "sint h4" 18 8] r(9,10) by simp
  have t9: "sint h9 div 2 ^ 18 mod 256 = sint h9 div 2 ^ 18"
    using div_less_power [of "sint h9" 18 7] r(19,20) by simp
  have c0: "x = 2 ^ 0 * (x div 2 ^ 0 mod 256) + 2 ^ 0 * 256 * (x div 2 ^ 8 mod 256)
      + 2 ^ 0 * 65536 * (x div 2 ^ 16 mod 256) + 2 ^ 24 * (x div 2 ^ 24)" for x :: int
    using cut_2 [of x 0] cut_byte [of x 16] by simp
  have c: "x = x mod 2 ^ a + 2 ^ a * (x div 2 ^ a mod 256) + 2 ^ a * 256 * (x div 2 ^ b mod 256)
      + 2 ^ a * 65536 * (x div 2 ^ d)" if "b = a + 8" "d = a + 16" for x :: int and a b d :: nat
    unfolding that by (rule cut_2)
  have pack: "fe_pack [h0, h1, h2, h3, h4, h5, h6, h7, h8, h9] =
    [ucast (sar h0 0), ucast (sar h0 8), ucast (sar h0 16), ucast (sar h0 24 OR shl h1 2), ucast (sar h1 6), ucast (sar h1 14), ucast (sar h1 22 OR shl h2 3), ucast (sar h2 5), ucast (sar h2 13), ucast (sar h2 21 OR shl h3 5), ucast (sar h3 3), ucast (sar h3 11), ucast (sar h3 19 OR shl h4 6), ucast (sar h4 2), ucast (sar h4 10), ucast (sar h4 18), ucast (sar h5 0), ucast (sar h5 8), ucast (sar h5 16), ucast (sar h5 24 OR shl h6 1), ucast (sar h6 7), ucast (sar h6 15), ucast (sar h6 23 OR shl h7 3), ucast (sar h7 5), ucast (sar h7 13), ucast (sar h7 21 OR shl h8 4), ucast (sar h8 4), ucast (sar h8 12), ucast (sar h8 20 OR shl h9 6), ucast (sar h9 2), ucast (sar h9 10), ucast (sar h9 18)]"
    unfolding fe_pack_def by simp
  have b: "uint (ucast (sar h n) :: u8) = sint h div 2 ^ n mod 256" for h :: i32 and n
    by (simp add: byte_sar)
  show ?thesis
    unfolding list.map limb_val_fe pack le_val.simps b t4 t9 j3 j6 j9 j12 j19 j22 j25 j28
    by (rule pack_poly; (rule c0 | rule c; simp))
qed

section \<open>\<open>fe_tobytes\<close> writes the canonical representative\<close>

lemma length_exec_op [simp]: "length (exec_op op h) = length h"
  by (cases op) (simp_all add: Let_def)

lemma length_exec_ops [simp]: "length (exec_ops ops h) = length h"
  unfolding exec_ops_def by (induction ops arbitrary: h) simp_all

lemma list_10E:
  assumes "length h = 10"
  obtains h0 h1 h2 h3 h4 h5 h6 h7 h8 h9 where "h = [h0, h1, h2, h3, h4, h5, h6, h7, h8, h9]"
  using assms by (auto simp: length_Suc_conv numeral_eq_Suc)

lemma fe_pack_ok:
  assumes "within (map sint h) limb_ivs"
  shows "le_val (fe_pack h) = limb_val fe_weights (map sint h)"
proof -
  have "length h = 10" using within_length [OF assms] by simp
  then obtain h0 h1 h2 h3 h4 h5 h6 h7 h8 h9 where h: "h = [h0, h1, h2, h3, h4, h5, h6, h7, h8, h9]"
    by (rule list_10E)
  show ?thesis using assms unfolding h by (rule fe_pack_val)
qed

lemma fe_tobytes_val:
  assumes "fe_bounded 110 26 f"
  shows "le_val (fe_tobytes f) = fe_val f mod p25519"
proof (cases f)
  case (Fe h0 h1 h2 h3 h4 h5 h6 h7 h8 h9)
  define q where "q = sint (fe_tobytes_q f)"
  define low where "low = fe_val f - sint h9 * 2 ^ 230"
  note b = tobytes_bounds [OF assms [unfolded Fe]]
  have low: "- (5 * 2 ^ 229) \<le> 2 * low \<and> 2 * low \<le> 5 * 2 ^ 229"
    using b unfolding low_def Fe fe_val_simp by simp
  have "q = (2 ^ 25 * fe_val f + 19 * sint h9 + 2 ^ 24) div 2 ^ 280"
    unfolding q_def fe_tobytes_q_eq [OF assms] unfolding Fe by simp
  note q = quotient_exact [OF _ low b(10) this, unfolded low_def, simplified]
  have 19: "sint (19 * fe_tobytes_q f) = 19 * q"
    using q(2) sint_mult_exact [of 19 "fe_tobytes_q f"] by (simp add: q_def srange_def)
  have h0: "sint (h0 + 19 * fe_tobytes_q f) = sint h0 + 19 * q"
    using q(2) b(1) sint_add_exact [of h0 "19 * fe_tobytes_q f"] by (simp add: 19 srange_def)
  let ?h = "[h0 + 19 * fe_tobytes_q f, h1, h2, h3, h4, h5, h6, h7, h8, h9]"
  have "within (map sint ?h)
     [(- 73819788, 73819788), (- 36909875, 36909875), (- 73819750, 73819750), (- 36909875, 36909875),
      (- 73819750, 73819750), (- 36909875, 36909875), (- 73819750, 73819750), (- 36909875, 36909875),
      (- 73819750, 73819750), (- 36909875, 36909875)]"
    using b q(2) unfolding within_def list.map h0 list_all2_Cons in_iv_def by simp
  from exec_ops_sound [where 'a = 32, simplified, OF tobytes_carries_bnd this]
  have ex: "map sint (exec_ops fe_tobytes_carries ?h) = iexec_ops fe_tobytes_carries (map sint ?h)"
    and iv: "within (map sint (exec_ops fe_tobytes_carries ?h)) limb_ivs"
    by (blast, blast)
  let ?v = "limb_val fe_weights (map sint (exec_ops fe_tobytes_carries ?h))"
  have "?v mod 2 ^ 255 = (fe_val f + 19 * q) mod 2 ^ 255"
  proof -
    have "limb_val fe_weights (map sint ?h) = fe_val f + 19 * q"
      unfolding list.map h0 limb_val_fe unfolding Fe fe_val_simp by simp
    then show ?thesis unfolding ex by (subst tobytes_carries_val) simp_all
  qed
  also have "fe_val f + 19 * q = (fe_val f - p25519 * q) + 2 ^ 255 * q"
    by (simp add: p25519_def algebra_simps)
  also have "\<dots> mod 2 ^ 255 = fe_val f - p25519 * q"
    unfolding mod_mult_self2 using q(1) by (intro mod_pos_pos_trivial) (auto simp: p25519_def)
  finally have "?v = fe_val f - p25519 * q" using limb_ivs_val [OF iv] by simp
  also have "\<dots> = fe_val f mod p25519"
    using q(1) mod_mult_self2 [of "fe_val f - p25519 * q" p25519 q] by simp
  finally show ?thesis
    unfolding fe_pack_ok [OF iv, symmetric] by (simp add: fe_tobytes_def Fe Let_def)
qed

lemma fe_pack_length [simp]: "length (fe_pack h) = 32"
  by (simp add: fe_pack_def)

lemma fe_tobytes_length [simp]: "length (fe_tobytes f) = 32"
  by (cases f) (simp add: fe_tobytes_def Let_def)

lemma fe_tobytes_ok:
  "fe_bounded 110 26 f \<Longrightarrow> le_val (fe_tobytes f) = rep_gf (fe_abs f)"
  by (simp add: fe_tobytes_val fe_abs_def)

text \<open>Two representations pack to the same bytes exactly when they represent the same element.\<close>

lemma fe_tobytes_eq_iff:
  assumes "fe_bounded 110 26 f" and "fe_bounded 110 26 g"
  shows "fe_tobytes f = fe_tobytes g \<longleftrightarrow> fe_abs f = fe_abs g"
proof
  assume "fe_abs f = fe_abs g"
  then have "le_val (fe_tobytes f) = le_val (fe_tobytes g)" using assms by (simp add: fe_tobytes_ok)
  then show "fe_tobytes f = fe_tobytes g" by (rule le_val_inj [rotated]) simp
next
  assume "fe_tobytes f = fe_tobytes g"
  then have "rep_gf (fe_abs f) = rep_gf (fe_abs g)" using assms by (simp flip: fe_tobytes_ok)
  then show "fe_abs f = fe_abs g" by (simp only: rep_gf_inject)
qed

lemma fe_bounded_102_26: "fe_bounded 102 25 f \<Longrightarrow> fe_bounded 110 26 f"
  unfolding fe_bounded_26 by (erule fe_bounded_mono) simp

text \<open>Unpacking and packing again reduces modulo \<open>2^255 - 19\<close>; a canonical string comes back.\<close>

lemma fe_frombytes_tobytes:
  assumes "length s = 32" and "le_val s < p25519"
  shows "fe_tobytes (fe_frombytes s) = s"
proof (rule le_val_inj)
  have small: "le_val s mod 2 ^ 255 = le_val s"
    using assms(2) le_val_nonneg [of s] by (intro mod_pos_pos_trivial) (auto simp: p25519_def)
  show "le_val (fe_tobytes (fe_frombytes s)) = le_val s"
    using fe_frombytes_ok [OF assms(1), unfolded small] assms(2) le_val_nonneg [of s]
    by (simp add: fe_tobytes_ok fe_bounded_102_26)
qed (use assms(1) in simp)

lemma fe_tobytes_frombytes:
  assumes "fe_bounded 110 26 f"
  shows "fe_abs (fe_frombytes (fe_tobytes f)) = fe_abs f"
proof -
  have "le_val (fe_tobytes f) mod 2 ^ 255 = rep_gf (fe_abs f)"
    using rep_gf_range [of "fe_abs f"] unfolding fe_tobytes_ok [OF assms]
    by (intro mod_pos_pos_trivial) (auto simp: p25519_def)
  then show ?thesis using fe_frombytes_ok [of "fe_tobytes f"] by simp
qed

text \<open>The sign bit and the zero test.\<close>

lemma le_val_parity: "0 < length s \<Longrightarrow> le_val s mod 2 = uint (s ! 0) mod 2"
  using mod_mult_self2 [of "uint (s ! 0)" 2 "128 * le_val (tl s)"] by (cases s) simp_all

lemma fe_isnegative_ok:
  assumes "fe_bounded 110 26 f"
  shows "fe_isnegative f = of_int (rep_gf (fe_abs f) mod 2)"
proof -
  let ?b = "fe_tobytes f ! 0"
  have "uint (?b AND 1) = uint ?b mod 2" by (simp add: and_one_eq uint_mod_distrib)
  also have "\<dots> = rep_gf (fe_abs f) mod 2"
    using le_val_parity [of "fe_tobytes f"] by (simp add: fe_tobytes_ok [OF assms])
  finally show ?thesis by (simp only: fe_isnegative_def Let_def ucast_eq)
qed

lemma fold_or_zero: "fold (\<lambda>i r. r OR f i) is r = (0 :: u8) \<longleftrightarrow> r = 0 \<and> (\<forall>i \<in> set is. f i = 0)"
  by (induction "is" arbitrary: r) (auto simp: or_eq_0_iff)

lemma le_val_eq_0_iff: "le_val s = 0 \<longleftrightarrow> (\<forall>b \<in> set s. b = 0)"
proof (induction s)
  case Nil
  then show ?case by simp
next
  case (Cons b s)
  have "uint b = 0 \<and> le_val s = 0" if "uint b + 256 * le_val s = 0"
    using that uint_byte [of b] le_val_nonneg [of s] by linarith
  with Cons.IH show ?case by (auto simp: uint_0_iff)
qed

lemma fe_isnonzero_ok:
  assumes "fe_bounded 110 26 f"
  shows "fe_isnonzero f = (if fe_abs f = 0 then 0 else 1)"
proof -
  let ?s = "fe_tobytes f"
  have "fold (\<lambda>i r. r OR ?s ! i) [1..<32] (?s ! 0) = 0 \<longleftrightarrow> (\<forall>i < 32. ?s ! i = 0)"
    unfolding fold_or_zero by (auto simp: Suc_le_eq)
  also have "\<dots> \<longleftrightarrow> le_val ?s = 0" unfolding le_val_eq_0_iff by (simp add: all_set_conv_all_nth)
  also have "\<dots> \<longleftrightarrow> fe_abs f = 0"
    unfolding fe_tobytes_ok [OF assms] by (metis rep_gf_inject zero_gf.rep_eq)
  finally show ?thesis by (simp add: fe_isnonzero_def Let_def)
qed

section \<open>Properties\<close>

text \<open>\<open>fe_tobytes\<close> writes the canonical encoding: 32 bytes whose little-endian value is the
  representative of the element in \<open>0 .. 2^255 - 20\<close>, for every operand within \<open>1.1 * 2^26, 1.1 * 2^25, ...\<close>.\<close>

theorem fe_tobytes_canonical:
  assumes "fe_bounded 110 26 f"
  shows "length (fe_tobytes f) = 32 \<and> le_val (fe_tobytes f) = rep_gf (fe_abs f) \<and> le_val (fe_tobytes f) < p25519"
  using fe_tobytes_ok [OF assms] rep_gf_range by simp

theorem fe_tobytes_canonical_witness:
  "le_val (fe_tobytes (Fe (-1) 0 0 0 0 0 0 0 0 0)) = rep_gf (fe_abs (Fe (-1) 0 0 0 0 0 0 0 0 0))
   \<and> le_val (fe_tobytes (Fe (-1) 0 0 0 0 0 0 0 0 0)) < p25519"
  using fe_tobytes_canonical [of "Fe (-1) 0 0 0 0 0 0 0 0 0"] by (simp add: fe_bounded_simp)

text \<open>Packing and unpacking are inverse: a canonical encoding survives \<open>fe_frombytes\<close> followed by
  \<open>fe_tobytes\<close>, and unpacking what \<open>fe_tobytes\<close> wrote gives the same field element.\<close>

theorem fe_bytes_roundtrip:
  "(length s = 32 \<and> le_val s < p25519 \<longrightarrow> fe_tobytes (fe_frombytes s) = s) \<and>
   (fe_bounded 110 26 f \<longrightarrow> fe_abs (fe_frombytes (fe_tobytes f)) = fe_abs f)"
  using fe_frombytes_tobytes fe_tobytes_frombytes by blast

theorem fe_bytes_roundtrip_witness:
  "fe_tobytes (fe_frombytes (replicate 31 7 @ [1])) = replicate 31 7 @ [1] \<and>
   fe_abs (fe_frombytes (fe_tobytes (Fe 1 2 3 4 5 6 7 8 9 10))) = fe_abs (Fe 1 2 3 4 5 6 7 8 9 10)"
proof -
  have "le_val (replicate 31 7 @ [1]) < p25519" unfolding p25519_def by code_simp
  then show ?thesis
    using fe_bytes_roundtrip [of "replicate 31 7 @ [1]" "Fe 1 2 3 4 5 6 7 8 9 10"] by (simp add: fe_bounded_simp)
qed

text \<open>The sign and zero tests are exact: \<open>fe_isnegative\<close> is the parity of the canonical
  representative, \<open>fe_isnonzero\<close> is 0 exactly on representations of zero.\<close>

theorem fe_tests_exact:
  assumes "fe_bounded 110 26 f"
  shows "fe_isnegative f = of_int (rep_gf (fe_abs f) mod 2) \<and> (fe_isnonzero f = 0 \<longleftrightarrow> fe_abs f = 0)"
  using fe_isnegative_ok [OF assms] fe_isnonzero_ok [OF assms] by simp

theorem fe_tests_exact_witness: "fe_isnonzero fe_0 = 0 \<and> fe_isnegative fe_1 = of_int (rep_gf (fe_abs fe_1) mod 2)"
  using fe_tests_exact [of fe_0] fe_tests_exact [of fe_1] fe_bounded_26 [of 110 fe_1] by simp

end
