(* ===== verification/Fe_Pow.thy ===== *)
theory Fe_Pow
  imports Fe_Bytes
begin

text \<open>
  Inversion and the power used for square roots (\<^verbatim>\<open>fe.c\<close>: \<open>fe_invert\<close>, \<open>fe_pow22523\<close>).  Both are
  addition chains over \<open>fe_sq\<close> and \<open>fe_mul\<close>; the reasoning about addition chains is done once, in the
  locale \<open>mult_chain\<close>, for any representation of a commutative monoid whose multiplication
  and squaring keep a well-formedness condition.
\<close>

section \<open>Definitions\<close>

text \<open>The loop \<^verbatim>\<open>for (; i < n; ++i) { fe_sq(t, t); }\<close>.\<close>

function fe_sq_loop :: "nat \<Rightarrow> nat \<Rightarrow> fe \<Rightarrow> fe" where
  "fe_sq_loop i n t = (if i < n then fe_sq_loop (i + 1) n (fe_sq t) else t)"
  by auto
termination by (relation "measure (\<lambda>(i, n, t). n - i)") auto

declare fe_sq_loop.simps [simp del]

definition fe_invert :: "fe \<Rightarrow> fe" where
  "fe_invert z =
    (let t0 = fe_sq z;
         t0 = fe_sq_loop 1 1 t0;
         t1 = fe_sq t0;
         t1 = fe_sq_loop 1 2 t1;
         t1 = fe_mul z t1;
         t0 = fe_mul t0 t1;
         t2 = fe_sq t0;
         t2 = fe_sq_loop 1 1 t2;
         t1 = fe_mul t1 t2;
         t2 = fe_sq t1;
         t2 = fe_sq_loop 1 5 t2;
         t1 = fe_mul t2 t1;
         t2 = fe_sq t1;
         t2 = fe_sq_loop 1 10 t2;
         t2 = fe_mul t2 t1;
         t3 = fe_sq t2;
         t3 = fe_sq_loop 1 20 t3;
         t2 = fe_mul t3 t2;
         t2 = fe_sq t2;
         t2 = fe_sq_loop 1 10 t2;
         t1 = fe_mul t2 t1;
         t2 = fe_sq t1;
         t2 = fe_sq_loop 1 50 t2;
         t2 = fe_mul t2 t1;
         t3 = fe_sq t2;
         t3 = fe_sq_loop 1 100 t3;
         t2 = fe_mul t3 t2;
         t2 = fe_sq t2;
         t2 = fe_sq_loop 1 50 t2;
         t1 = fe_mul t2 t1;
         t1 = fe_sq t1;
         t1 = fe_sq_loop 1 5 t1;
         out = fe_mul t1 t0
     in out)"

definition fe_pow22523 :: "fe \<Rightarrow> fe" where
  "fe_pow22523 z =
    (let t0 = fe_sq z;
         t0 = fe_sq_loop 1 1 t0;
         t1 = fe_sq t0;
         t1 = fe_sq_loop 1 2 t1;
         t1 = fe_mul z t1;
         t0 = fe_mul t0 t1;
         t0 = fe_sq t0;
         t0 = fe_sq_loop 1 1 t0;
         t0 = fe_mul t1 t0;
         t1 = fe_sq t0;
         t1 = fe_sq_loop 1 5 t1;
         t0 = fe_mul t1 t0;
         t1 = fe_sq t0;
         t1 = fe_sq_loop 1 10 t1;
         t1 = fe_mul t1 t0;
         t2 = fe_sq t1;
         t2 = fe_sq_loop 1 20 t2;
         t1 = fe_mul t2 t1;
         t1 = fe_sq t1;
         t1 = fe_sq_loop 1 10 t1;
         t0 = fe_mul t1 t0;
         t1 = fe_sq t0;
         t1 = fe_sq_loop 1 50 t1;
         t1 = fe_mul t1 t0;
         t2 = fe_sq t1;
         t2 = fe_sq_loop 1 100 t2;
         t1 = fe_mul t2 t1;
         t1 = fe_sq t1;
         t1 = fe_sq_loop 1 50 t1;
         t0 = fe_mul t1 t0;
         t0 = fe_sq t0;
         t0 = fe_sq_loop 1 2 t0;
         out = fe_mul t0 z
     in out)"

section \<open>Addition chains\<close>

locale mult_chain =
  fixes mul :: "'r \<Rightarrow> 'r \<Rightarrow> 'r" and sq :: "'r \<Rightarrow> 'r"
    and loop :: "nat \<Rightarrow> nat \<Rightarrow> 'r \<Rightarrow> 'r" and rep :: "'r \<Rightarrow> 'a::comm_monoid_mult"
    and ok :: "'r \<Rightarrow> bool" and reduced :: "'r \<Rightarrow> bool"
  assumes mul_rep: "ok x \<Longrightarrow> ok y \<Longrightarrow> rep (mul x y) = rep x * rep y \<and> reduced (mul x y)"
    and sq_rep: "ok x \<Longrightarrow> rep (sq x) = rep x * rep x \<and> reduced (sq x)"
    and reduced_ok: "reduced x \<Longrightarrow> ok x"
    and loop_step: "loop i n t = (if i < n then loop (i + 1) n (sq t) else t)"
begin

definition represents :: "'r \<Rightarrow> 'r \<Rightarrow> nat \<Rightarrow> bool" where
  "represents z x e \<longleftrightarrow> ok x \<and> rep x = rep z ^ e"

lemma represents_base: "ok z \<Longrightarrow> represents z z 1"
  by (simp add: represents_def)

lemma represents_mul: "represents z x a \<Longrightarrow> represents z y b \<Longrightarrow> represents z (mul x y) (a + b)"
  by (simp add: represents_def mul_rep power_add reduced_ok)

lemma represents_mul_reduced:
  "represents z x a \<Longrightarrow> represents z y b \<Longrightarrow> rep (mul x y) = rep z ^ (a + b) \<and> reduced (mul x y)"
  by (simp add: represents_def mul_rep power_add)

lemma represents_sq: "represents z x a \<Longrightarrow> represents z (sq x) (2 * a)"
  by (simp add: represents_def sq_rep mult_2 power_add reduced_ok)

lemma represents_loop: "represents z x a \<Longrightarrow> represents z (loop i n x) (2 ^ (n - i) * a)"
proof (induction "n - i" arbitrary: i x a)
  case 0
  then show ?case by (simp add: loop_step [of i n x])
next
  case (Suc k)
  then have "represents z (loop (i + 1) n (sq x)) (2 ^ (n - (i + 1)) * (2 * a))"
    using represents_sq by (intro Suc.hyps(1)) auto
  moreover have "n - i = Suc (n - (i + 1))" and "i < n" using Suc.hyps(2) by simp_all
  ultimately show ?case by (simp add: loop_step [of i n x] ac_simps)
qed

end

lemma fe_bounded_101_165: "fe_bounded 101 25 f \<Longrightarrow> fe_bounded 165 26 f"
  unfolding fe_bounded_26 by (erule fe_bounded_mono) simp

interpretation fe_chain: mult_chain fe_mul fe_sq fe_sq_loop fe_abs "fe_bounded 165 26" "fe_bounded 101 25"
  by unfold_locales (use fe_mul_ok fe_sq_ok fe_bounded_101_165 fe_sq_loop.simps in blast)+

section \<open>The exponents\<close>

lemma fe_invert_ok:
  assumes "fe_bounded 165 26 z"
  shows "fe_abs (fe_invert z) = fe_abs z ^ (2 ^ 255 - 21) \<and> fe_bounded 101 25 (fe_invert z)"
proof -
  note sq = fe_chain.represents_sq and loop = fe_chain.represents_loop and mul = fe_chain.represents_mul
  have e0: "fe_chain.represents z z 1" by (rule fe_chain.represents_base [OF assms])
  note e1 = sq [OF e0, simplified]
  note e2 = loop [OF e1, of 1 1, simplified]
  note e3 = sq [OF e2, simplified]
  note e4 = loop [OF e3, of 1 2, simplified]
  note e5 = mul [OF e0 e4, simplified]
  note e6 = mul [OF e2 e5, simplified]
  note e7 = sq [OF e6, simplified]
  note e8 = loop [OF e7, of 1 1, simplified]
  note e9 = mul [OF e5 e8, simplified]
  note e10 = sq [OF e9, simplified]
  note e11 = loop [OF e10, of 1 5, simplified]
  note e12 = mul [OF e11 e9, simplified]
  note e13 = sq [OF e12, simplified]
  note e14 = loop [OF e13, of 1 10, simplified]
  note e15 = mul [OF e14 e12, simplified]
  note e16 = sq [OF e15, simplified]
  note e17 = loop [OF e16, of 1 20, simplified]
  note e18 = mul [OF e17 e15, simplified]
  note e19 = sq [OF e18, simplified]
  note e20 = loop [OF e19, of 1 10, simplified]
  note e21 = mul [OF e20 e12, simplified]
  note e22 = sq [OF e21, simplified]
  note e23 = loop [OF e22, of 1 50, simplified]
  note e24 = mul [OF e23 e21, simplified]
  note e25 = sq [OF e24, simplified]
  note e26 = loop [OF e25, of 1 100, simplified]
  note e27 = mul [OF e26 e24, simplified]
  note e28 = sq [OF e27, simplified]
  note e29 = loop [OF e28, of 1 50, simplified]
  note e30 = mul [OF e29 e21, simplified]
  note e31 = sq [OF e30, simplified]
  note e32 = loop [OF e31, of 1 5, simplified]
  note e33 = fe_chain.represents_mul_reduced [OF e32 e6, simplified]
  show ?thesis unfolding fe_invert_def Let_def using e33 by simp
qed

lemma fe_pow22523_ok:
  assumes "fe_bounded 165 26 z"
  shows "fe_abs (fe_pow22523 z) = fe_abs z ^ (2 ^ 252 - 3) \<and> fe_bounded 101 25 (fe_pow22523 z)"
proof -
  note sq = fe_chain.represents_sq and loop = fe_chain.represents_loop and mul = fe_chain.represents_mul
  have e0: "fe_chain.represents z z 1" by (rule fe_chain.represents_base [OF assms])
  note e1 = sq [OF e0, simplified]
  note e2 = loop [OF e1, of 1 1, simplified]
  note e3 = sq [OF e2, simplified]
  note e4 = loop [OF e3, of 1 2, simplified]
  note e5 = mul [OF e0 e4, simplified]
  note e6 = mul [OF e2 e5, simplified]
  note e7 = sq [OF e6, simplified]
  note e8 = loop [OF e7, of 1 1, simplified]
  note e9 = mul [OF e5 e8, simplified]
  note e10 = sq [OF e9, simplified]
  note e11 = loop [OF e10, of 1 5, simplified]
  note e12 = mul [OF e11 e9, simplified]
  note e13 = sq [OF e12, simplified]
  note e14 = loop [OF e13, of 1 10, simplified]
  note e15 = mul [OF e14 e12, simplified]
  note e16 = sq [OF e15, simplified]
  note e17 = loop [OF e16, of 1 20, simplified]
  note e18 = mul [OF e17 e15, simplified]
  note e19 = sq [OF e18, simplified]
  note e20 = loop [OF e19, of 1 10, simplified]
  note e21 = mul [OF e20 e12, simplified]
  note e22 = sq [OF e21, simplified]
  note e23 = loop [OF e22, of 1 50, simplified]
  note e24 = mul [OF e23 e21, simplified]
  note e25 = sq [OF e24, simplified]
  note e26 = loop [OF e25, of 1 100, simplified]
  note e27 = mul [OF e26 e24, simplified]
  note e28 = sq [OF e27, simplified]
  note e29 = loop [OF e28, of 1 50, simplified]
  note e30 = mul [OF e29 e21, simplified]
  note e31 = sq [OF e30, simplified]
  note e32 = loop [OF e31, of 1 2, simplified]
  note e33 = fe_chain.represents_mul_reduced [OF e32 e0, simplified]
  show ?thesis unfolding fe_pow22523_def Let_def using e33 by simp
qed

section \<open>Properties\<close>

text \<open>The addition chains of \<open>fe_invert\<close> and \<open>fe_pow22523\<close> compute the powers \<open>2^255 - 21\<close>
  and \<open>2^252 - 3\<close>, with reduced results.\<close>

theorem fe_powers:
  assumes "fe_bounded 165 26 z"
  shows "fe_abs (fe_invert z) = fe_abs z ^ (2 ^ 255 - 21) \<and> fe_abs (fe_pow22523 z) = fe_abs z ^ (2 ^ 252 - 3)
    \<and> fe_bounded 101 25 (fe_invert z) \<and> fe_bounded 101 25 (fe_pow22523 z)"
  using fe_invert_ok [OF assms] fe_pow22523_ok [OF assms] by blast

theorem fe_powers_witness: "fe_abs (fe_invert (Fe 2 0 0 0 0 0 0 0 0 0)) = fe_abs (Fe 2 0 0 0 0 0 0 0 0 0) ^ (2 ^ 255 - 21)"
  by (rule fe_powers [THEN conjunct1]) (simp add: fe_bounded_simp)

end
