(* ===== verification/Sc.thy ===== *)
theory Sc
  imports Fe_Pow
begin

text \<open>
  Arithmetic modulo the group order (\<^verbatim>\<open>sc.c\<close>): \<open>sc_reduce\<close> and \<open>sc_muladd\<close>.  A scalar is loaded into
  limbs of 21 bits; multiples of the group order are folded away from the top limbs with the
  constants of \<open>2^252 = - 27742317777372353535851937790883648493\<close>, carries are propagated, and the result is
  packed into 32 bytes.  The straight-line code is a list of statement groups (theory \<open>Limbs\<close>).  Shown
  here: no intermediate value overflows 64 bits, and the bytes written are the fully reduced residue.
\<close>

section \<open>Definitions\<close>

definition sc_load_3 :: "bytes \<Rightarrow> nat \<Rightarrow> u64" where
  "sc_load_3 s k =
    (let result = ucast (s ! k);
         result = result OR shl (ucast (s ! (k + 1))) 8;
         result = result OR shl (ucast (s ! (k + 2))) 16
     in result)"

definition sc_load_4 :: "bytes \<Rightarrow> nat \<Rightarrow> u64" where
  "sc_load_4 s k =
    (let result = ucast (s ! k);
         result = result OR shl (ucast (s ! (k + 1))) 8;
         result = result OR shl (ucast (s ! (k + 2))) 16;
         result = result OR shl (ucast (s ! (k + 3))) 24
     in result)"

text \<open>The group order \<open>l\<close> of the comments.\<close>

definition order25519 :: int where
  "order25519 = 2 ^ 252 + 27742317777372353535851937790883648493"

subsection \<open>\<open>sc_reduce\<close>\<close>

definition sc_reduce_load :: "bytes \<Rightarrow> i64 list" where
  "sc_reduce_load s =
    [2097151 AND sc_load_3 s 0,
     2097151 AND shr (sc_load_4 s 2) 5,
     2097151 AND shr (sc_load_3 s 5) 2,
     2097151 AND shr (sc_load_4 s 7) 7,
     2097151 AND shr (sc_load_4 s 10) 4,
     2097151 AND shr (sc_load_3 s 13) 1,
     2097151 AND shr (sc_load_4 s 15) 6,
     2097151 AND shr (sc_load_3 s 18) 3,
     2097151 AND sc_load_3 s 21,
     2097151 AND shr (sc_load_4 s 23) 5,
     2097151 AND shr (sc_load_3 s 26) 2,
     2097151 AND shr (sc_load_4 s 28) 7,
     2097151 AND shr (sc_load_4 s 31) 4,
     2097151 AND shr (sc_load_3 s 34) 1,
     2097151 AND shr (sc_load_4 s 36) 6,
     2097151 AND shr (sc_load_3 s 39) 3,
     2097151 AND sc_load_3 s 42,
     2097151 AND shr (sc_load_4 s 44) 5,
     2097151 AND shr (sc_load_3 s 47) 2,
     2097151 AND shr (sc_load_4 s 49) 7,
     2097151 AND shr (sc_load_4 s 52) 4,
     2097151 AND shr (sc_load_3 s 55) 1,
     2097151 AND shr (sc_load_4 s 57) 6,
     shr (sc_load_4 s 60) 3]"

definition sc_reduce_fold_high :: "limb_op list" where
  "sc_reduce_fold_high =
     [Fold 23, Fold 22, Fold 21, Fold 20, Fold 19, Fold 18]"

definition sc_reduce_carry_mid :: "limb_op list" where
  "sc_reduce_carry_mid =
     [Round 6 21, Round 8 21, Round 10 21, Round 12 21, Round 14 21, Round 16 21, Round 7 21,
      Round 9 21, Round 11 21, Round 13 21, Round 15 21]"

definition sc_reduce_fold_mid :: "limb_op list" where
  "sc_reduce_fold_mid =
     [Fold 17, Fold 16, Fold 15, Fold 14, Fold 13, Fold 12]"

definition sc_reduce_carry_low :: "limb_op list" where
  "sc_reduce_carry_low =
     [Round 0 21, Round 2 21, Round 4 21, Round 6 21, Round 8 21, Round 10 21, Round 1 21,
      Round 3 21, Round 5 21, Round 7 21, Round 9 21, Round 11 21]"

definition sc_reduce_final :: "limb_op list" where
  "sc_reduce_final =
     [Fold 12, Floor 0 21, Floor 1 21, Floor 2 21, Floor 3 21, Floor 4 21, Floor 5 21, Floor 6 21,
      Floor 7 21, Floor 8 21, Floor 9 21, Floor 10 21, Floor 11 21, Fold 12, Floor 0 21,
      Floor 1 21, Floor 2 21, Floor 3 21, Floor 4 21, Floor 5 21, Floor 6 21, Floor 7 21,
      Floor 8 21, Floor 9 21, Floor 10 21]"

definition sc_reduce_pack :: "i64 list \<Rightarrow> bytes" where
  "sc_reduce_pack h =
    [ucast (sar (h ! 0) 0),
     ucast (sar (h ! 0) 8),
     ucast (sar (h ! 0) 16 OR shl (h ! 1) 5),
     ucast (sar (h ! 1) 3),
     ucast (sar (h ! 1) 11),
     ucast (sar (h ! 1) 19 OR shl (h ! 2) 2),
     ucast (sar (h ! 2) 6),
     ucast (sar (h ! 2) 14 OR shl (h ! 3) 7),
     ucast (sar (h ! 3) 1),
     ucast (sar (h ! 3) 9),
     ucast (sar (h ! 3) 17 OR shl (h ! 4) 4),
     ucast (sar (h ! 4) 4),
     ucast (sar (h ! 4) 12),
     ucast (sar (h ! 4) 20 OR shl (h ! 5) 1),
     ucast (sar (h ! 5) 7),
     ucast (sar (h ! 5) 15 OR shl (h ! 6) 6),
     ucast (sar (h ! 6) 2),
     ucast (sar (h ! 6) 10),
     ucast (sar (h ! 6) 18 OR shl (h ! 7) 3),
     ucast (sar (h ! 7) 5),
     ucast (sar (h ! 7) 13),
     ucast (sar (h ! 8) 0),
     ucast (sar (h ! 8) 8),
     ucast (sar (h ! 8) 16 OR shl (h ! 9) 5),
     ucast (sar (h ! 9) 3),
     ucast (sar (h ! 9) 11),
     ucast (sar (h ! 9) 19 OR shl (h ! 10) 2),
     ucast (sar (h ! 10) 6),
     ucast (sar (h ! 10) 14 OR shl (h ! 11) 7),
     ucast (sar (h ! 11) 1),
     ucast (sar (h ! 11) 9),
     ucast (sar (h ! 11) 17)]"

definition sc_reduce :: "bytes \<Rightarrow> bytes" where
  "sc_reduce s =
    sc_reduce_pack (exec_ops (sc_reduce_fold_high @ sc_reduce_carry_mid @ sc_reduce_fold_mid @ sc_reduce_carry_low @ sc_reduce_final)
      (sc_reduce_load s))"

subsection \<open>\<open>sc_muladd\<close>\<close>

text \<open>The same twelve loads are made of each operand.\<close>

definition sc_muladd_load :: "bytes \<Rightarrow> i64 list" where
  "sc_muladd_load a =
    [2097151 AND sc_load_3 a 0,
     2097151 AND shr (sc_load_4 a 2) 5,
     2097151 AND shr (sc_load_3 a 5) 2,
     2097151 AND shr (sc_load_4 a 7) 7,
     2097151 AND shr (sc_load_4 a 10) 4,
     2097151 AND shr (sc_load_3 a 13) 1,
     2097151 AND shr (sc_load_4 a 15) 6,
     2097151 AND shr (sc_load_3 a 18) 3,
     2097151 AND sc_load_3 a 21,
     2097151 AND shr (sc_load_4 a 23) 5,
     2097151 AND shr (sc_load_3 a 26) 2,
     shr (sc_load_4 a 28) 7]"

definition sc_muladd_sums :: "i64 list \<Rightarrow> i64 list \<Rightarrow> i64 list \<Rightarrow> i64 list" where
  "sc_muladd_sums a b c =
    [(c ! 0) + (a ! 0) * (b ! 0),
     (c ! 1) + (a ! 0) * (b ! 1) + (a ! 1) * (b ! 0),
     (c ! 2) + (a ! 0) * (b ! 2) + (a ! 1) * (b ! 1) + (a ! 2) * (b ! 0),
     (c ! 3) + (a ! 0) * (b ! 3) + (a ! 1) * (b ! 2) + (a ! 2) * (b ! 1) + (a ! 3) * (b ! 0),
     (c ! 4) + (a ! 0) * (b ! 4) + (a ! 1) * (b ! 3) + (a ! 2) * (b ! 2) + (a ! 3) * (b ! 1) + (a ! 4) * (b ! 0),
     (c ! 5) + (a ! 0) * (b ! 5) + (a ! 1) * (b ! 4) + (a ! 2) * (b ! 3) + (a ! 3) * (b ! 2) + (a ! 4) * (b ! 1) + (a ! 5) * (b ! 0),
     (c ! 6) + (a ! 0) * (b ! 6) + (a ! 1) * (b ! 5) + (a ! 2) * (b ! 4) + (a ! 3) * (b ! 3) + (a ! 4) * (b ! 2) + (a ! 5) * (b ! 1) + (a ! 6) * (b ! 0),
     (c ! 7) + (a ! 0) * (b ! 7) + (a ! 1) * (b ! 6) + (a ! 2) * (b ! 5) + (a ! 3) * (b ! 4) + (a ! 4) * (b ! 3) + (a ! 5) * (b ! 2) + (a ! 6) * (b ! 1) + (a ! 7) * (b ! 0),
     (c ! 8) + (a ! 0) * (b ! 8) + (a ! 1) * (b ! 7) + (a ! 2) * (b ! 6) + (a ! 3) * (b ! 5) + (a ! 4) * (b ! 4) + (a ! 5) * (b ! 3) + (a ! 6) * (b ! 2) + (a ! 7) * (b ! 1) + (a ! 8) * (b ! 0),
     (c ! 9) + (a ! 0) * (b ! 9) + (a ! 1) * (b ! 8) + (a ! 2) * (b ! 7) + (a ! 3) * (b ! 6) + (a ! 4) * (b ! 5) + (a ! 5) * (b ! 4) + (a ! 6) * (b ! 3) + (a ! 7) * (b ! 2) + (a ! 8) * (b ! 1) + (a ! 9) * (b ! 0),
     (c ! 10) + (a ! 0) * (b ! 10) + (a ! 1) * (b ! 9) + (a ! 2) * (b ! 8) + (a ! 3) * (b ! 7) + (a ! 4) * (b ! 6) + (a ! 5) * (b ! 5) + (a ! 6) * (b ! 4) + (a ! 7) * (b ! 3) + (a ! 8) * (b ! 2) + (a ! 9) * (b ! 1) + (a ! 10) * (b ! 0),
     (c ! 11) + (a ! 0) * (b ! 11) + (a ! 1) * (b ! 10) + (a ! 2) * (b ! 9) + (a ! 3) * (b ! 8) + (a ! 4) * (b ! 7) + (a ! 5) * (b ! 6) + (a ! 6) * (b ! 5) + (a ! 7) * (b ! 4) + (a ! 8) * (b ! 3) + (a ! 9) * (b ! 2) + (a ! 10) * (b ! 1) + (a ! 11) * (b ! 0),
     (a ! 1) * (b ! 11) + (a ! 2) * (b ! 10) + (a ! 3) * (b ! 9) + (a ! 4) * (b ! 8) + (a ! 5) * (b ! 7) + (a ! 6) * (b ! 6) + (a ! 7) * (b ! 5) + (a ! 8) * (b ! 4) + (a ! 9) * (b ! 3) + (a ! 10) * (b ! 2) + (a ! 11) * (b ! 1),
     (a ! 2) * (b ! 11) + (a ! 3) * (b ! 10) + (a ! 4) * (b ! 9) + (a ! 5) * (b ! 8) + (a ! 6) * (b ! 7) + (a ! 7) * (b ! 6) + (a ! 8) * (b ! 5) + (a ! 9) * (b ! 4) + (a ! 10) * (b ! 3) + (a ! 11) * (b ! 2),
     (a ! 3) * (b ! 11) + (a ! 4) * (b ! 10) + (a ! 5) * (b ! 9) + (a ! 6) * (b ! 8) + (a ! 7) * (b ! 7) + (a ! 8) * (b ! 6) + (a ! 9) * (b ! 5) + (a ! 10) * (b ! 4) + (a ! 11) * (b ! 3),
     (a ! 4) * (b ! 11) + (a ! 5) * (b ! 10) + (a ! 6) * (b ! 9) + (a ! 7) * (b ! 8) + (a ! 8) * (b ! 7) + (a ! 9) * (b ! 6) + (a ! 10) * (b ! 5) + (a ! 11) * (b ! 4),
     (a ! 5) * (b ! 11) + (a ! 6) * (b ! 10) + (a ! 7) * (b ! 9) + (a ! 8) * (b ! 8) + (a ! 9) * (b ! 7) + (a ! 10) * (b ! 6) + (a ! 11) * (b ! 5),
     (a ! 6) * (b ! 11) + (a ! 7) * (b ! 10) + (a ! 8) * (b ! 9) + (a ! 9) * (b ! 8) + (a ! 10) * (b ! 7) + (a ! 11) * (b ! 6),
     (a ! 7) * (b ! 11) + (a ! 8) * (b ! 10) + (a ! 9) * (b ! 9) + (a ! 10) * (b ! 8) + (a ! 11) * (b ! 7),
     (a ! 8) * (b ! 11) + (a ! 9) * (b ! 10) + (a ! 10) * (b ! 9) + (a ! 11) * (b ! 8),
     (a ! 9) * (b ! 11) + (a ! 10) * (b ! 10) + (a ! 11) * (b ! 9),
     (a ! 10) * (b ! 11) + (a ! 11) * (b ! 10),
     (a ! 11) * (b ! 11),
     0]"

definition sc_muladd_carry_all :: "limb_op list" where
  "sc_muladd_carry_all =
     [Round 0 21, Round 2 21, Round 4 21, Round 6 21, Round 8 21, Round 10 21, Round 12 21,
      Round 14 21, Round 16 21, Round 18 21, Round 20 21, Round 22 21, Round 1 21, Round 3 21,
      Round 5 21, Round 7 21, Round 9 21, Round 11 21, Round 13 21, Round 15 21, Round 17 21,
      Round 19 21, Round 21 21]"

definition sc_muladd_fold_high :: "limb_op list" where
  "sc_muladd_fold_high =
     [Fold 23, Fold 22, Fold 21, Fold 20, Fold 19, Fold 18]"

definition sc_muladd_carry_mid :: "limb_op list" where
  "sc_muladd_carry_mid =
     [Round 6 21, Round 8 21, Round 10 21, Round 12 21, Round 14 21, Round 16 21, Round 7 21,
      Round 9 21, Round 11 21, Round 13 21, Round 15 21]"

definition sc_muladd_fold_mid :: "limb_op list" where
  "sc_muladd_fold_mid =
     [Fold 17, Fold 16, Fold 15, Fold 14, Fold 13, Fold 12]"

definition sc_muladd_carry_low :: "limb_op list" where
  "sc_muladd_carry_low =
     [Round 0 21, Round 2 21, Round 4 21, Round 6 21, Round 8 21, Round 10 21, Round 1 21,
      Round 3 21, Round 5 21, Round 7 21, Round 9 21, Round 11 21]"

definition sc_muladd_final :: "limb_op list" where
  "sc_muladd_final =
     [Fold 12, Floor 0 21, Floor 1 21, Floor 2 21, Floor 3 21, Floor 4 21, Floor 5 21, Floor 6 21,
      Floor 7 21, Floor 8 21, Floor 9 21, Floor 10 21, Floor 11 21, Fold 12, Floor 0 21,
      Floor 1 21, Floor 2 21, Floor 3 21, Floor 4 21, Floor 5 21, Floor 6 21, Floor 7 21,
      Floor 8 21, Floor 9 21, Floor 10 21]"

definition sc_muladd_pack :: "i64 list \<Rightarrow> bytes" where
  "sc_muladd_pack h =
    [ucast (sar (h ! 0) 0),
     ucast (sar (h ! 0) 8),
     ucast (sar (h ! 0) 16 OR shl (h ! 1) 5),
     ucast (sar (h ! 1) 3),
     ucast (sar (h ! 1) 11),
     ucast (sar (h ! 1) 19 OR shl (h ! 2) 2),
     ucast (sar (h ! 2) 6),
     ucast (sar (h ! 2) 14 OR shl (h ! 3) 7),
     ucast (sar (h ! 3) 1),
     ucast (sar (h ! 3) 9),
     ucast (sar (h ! 3) 17 OR shl (h ! 4) 4),
     ucast (sar (h ! 4) 4),
     ucast (sar (h ! 4) 12),
     ucast (sar (h ! 4) 20 OR shl (h ! 5) 1),
     ucast (sar (h ! 5) 7),
     ucast (sar (h ! 5) 15 OR shl (h ! 6) 6),
     ucast (sar (h ! 6) 2),
     ucast (sar (h ! 6) 10),
     ucast (sar (h ! 6) 18 OR shl (h ! 7) 3),
     ucast (sar (h ! 7) 5),
     ucast (sar (h ! 7) 13),
     ucast (sar (h ! 8) 0),
     ucast (sar (h ! 8) 8),
     ucast (sar (h ! 8) 16 OR shl (h ! 9) 5),
     ucast (sar (h ! 9) 3),
     ucast (sar (h ! 9) 11),
     ucast (sar (h ! 9) 19 OR shl (h ! 10) 2),
     ucast (sar (h ! 10) 6),
     ucast (sar (h ! 10) 14 OR shl (h ! 11) 7),
     ucast (sar (h ! 11) 1),
     ucast (sar (h ! 11) 9),
     ucast (sar (h ! 11) 17)]"

definition sc_muladd :: "bytes \<Rightarrow> bytes \<Rightarrow> bytes \<Rightarrow> bytes" where
  "sc_muladd a b c =
    sc_muladd_pack (exec_ops (sc_muladd_carry_all @ sc_muladd_fold_high @ sc_muladd_carry_mid @ sc_muladd_fold_mid @ sc_muladd_carry_low @ sc_muladd_final)
      (sc_muladd_sums (sc_muladd_load a) (sc_muladd_load b) (sc_muladd_load c)))"

section \<open>Loading\<close>

lemma sc_load_3_eq: "sc_load_3 = load_3" and sc_load_4_eq: "sc_load_4 = load_4"
  by (intro ext, simp only: sc_load_3_def sc_load_4_def load_3_def load_4_def)+

definition sc_weights :: "nat list" where
  "sc_weights = map (\<lambda>i. 21 * i) [0..<24]"

text \<open>The digits of \<open>x\<close> to the base \<open>2^21\<close>, with everything above position \<open>n\<close> in the last limb.\<close>

definition digits21 :: "nat \<Rightarrow> int \<Rightarrow> int list" where
  "digits21 n x = map (\<lambda>i. x div 2 ^ (21 * i) mod 2 ^ 21) [0..<n] @ [x div 2 ^ (21 * n)]"

lemma limb_val_append:
  "length ws = length h \<Longrightarrow> limb_val (ws @ ws') (h @ h') = limb_val ws h + limb_val ws' h'"
  by (simp add: limb_val_def)

lemma limb_val_digits21: "limb_val (map (\<lambda>i. 21 * i) [0..<Suc n]) (digits21 n x) = x"
proof (induction n)
  case 0
  then show ?case by (simp add: digits21_def limb_val_def)
next
  case (Suc n)
  let ?d = "\<lambda>i. x div 2 ^ (21 * i)"
  let ?w = "map (\<lambda>i. 21 * i) [0..<n]" and ?h = "map (\<lambda>i. ?d i mod 2 ^ 21) [0..<n]"
  have "?d n = ?d n mod 2 ^ 21 + 2 ^ 21 * ?d (Suc n)"
    by (simp add: power_add zdiv_zmult2_eq add.commute [of 21])
  then have "?d n * 2 ^ (21 * n) = (?d n mod 2 ^ 21 + 2 ^ 21 * ?d (Suc n)) * 2 ^ (21 * n)"
    by (rule arg_cong)
  then have split: "?d n * 2 ^ (21 * n) = ?d n mod 2 ^ 21 * 2 ^ (21 * n) + ?d (Suc n) * 2 ^ (21 * Suc n)"
    by (simp add: power_add algebra_simps)
  have "x = limb_val (?w @ [21 * n]) (?h @ [?d n])"
    using Suc.IH by (simp add: digits21_def)
  also have "\<dots> = limb_val ?w ?h + ?d n * 2 ^ (21 * n)"
    by (subst limb_val_append) (simp_all add: limb_val_def)
  also have "\<dots> = limb_val (?w @ [21 * n, 21 * Suc n]) (?h @ [?d n mod 2 ^ 21, ?d (Suc n)])"
    unfolding split by (subst limb_val_append) (simp_all add: limb_val_def)
  finally show ?case by (simp add: digits21_def)
qed

lemma take_drop_take:
  "m + j \<le> n \<Longrightarrow> take_bit m (drop_bit j (take_bit n x)) = take_bit m (drop_bit j x)" for x :: int
  by (rule bit_eqI) (auto simp: bit_take_bit_iff bit_drop_bit_eq)

lemma mod_div_mod:
  fixes x :: int
  assumes "m + j \<le> n"
  shows "x mod 2 ^ n div 2 ^ j mod 2 ^ m = x div 2 ^ j mod 2 ^ m"
  using take_drop_take [OF assms, of x] by (simp only: take_bit_eq_mod drop_bit_eq_div)

lemma chunk_eq:
  assumes "k + n \<le> length s"
  shows "chunk s k n = le_val s div 2 ^ (8 * k) mod 2 ^ (8 * n)"
proof -
  have p: "(256::int) ^ j = 2 ^ (8 * j)" for j by (simp add: power_mult)
  have "le_val s = chunk s 0 k + 2 ^ (8 * k) * le_val (drop k s)"
    using chunk_split [of 0 k s] assms by (simp add: p)
  moreover have "0 \<le> chunk s 0 k \<and> chunk s 0 k < 2 ^ (8 * k)"
    using chunk_less [of 0 k s] assms by (simp add: p)
  ultimately have "le_val s div 2 ^ (8 * k) = le_val (drop k s)" by simp
  also have "\<dots> = chunk s k n + 2 ^ (8 * n) * le_val (drop (k + n) s)"
    using chunk_split [OF assms] by (simp add: p)
  finally show ?thesis using chunk_less [OF assms] by (simp add: p)
qed

lemma chunk_digit:
  assumes "k + n \<le> length s" and "21 + j \<le> 8 * n" and "t = 8 * k + j"
  shows "chunk s k n div 2 ^ j mod 2 ^ 21 = le_val s div 2 ^ t mod 2 ^ 21"
  unfolding chunk_eq [OF assms(1)] mod_div_mod [OF assms(2)] assms(3) power_add
  by (simp add: zdiv_zmult2_eq)

lemma chunk_top:
  assumes "k + n = length s" and "t = 8 * k + j"
  shows "chunk s k n div 2 ^ j = le_val s div 2 ^ t"
proof -
  have "le_val s < 2 ^ (8 * (k + n))" using le_val_less [of s] by (simp add: assms(1) power_mult)
  then have "le_val s div 2 ^ (8 * k) < 2 ^ (8 * n) \<and> 0 \<le> le_val s div 2 ^ (8 * k)"
    using le_val_nonneg [of s] by (intro div_less_power) (simp_all add: distrib_left)
  then have "chunk s k n = le_val s div 2 ^ (8 * k)" using assms(1) by (simp add: chunk_eq)
  then show ?thesis by (simp add: assms(2) power_add zdiv_zmult2_eq)
qed

lemma uint_of_int_small: "0 \<le> x \<Longrightarrow> x < 2 ^ 64 \<Longrightarrow> uint (of_int x :: u64) = x"
  by (simp add: uint_word_of_int)

lemma shr_load:
  assumes "0 \<le> x" and "x < 2 ^ 32"
  shows "shr (of_int x :: u64) j = of_int (x div 2 ^ j)"
proof -
  have u: "uint (of_int x :: u64) = x" by (rule uint_of_int_small) (use assms in simp_all)
  have "uint (shr (of_int x :: u64) j) = x div 2 ^ j"
    by (simp only: uint_shr u)
  moreover have "uint (of_int (x div 2 ^ j) :: u64) = x div 2 ^ j"
  proof (rule uint_of_int_small)
    show "0 \<le> x div 2 ^ j" using assms(1) by (simp add: pos_imp_zdiv_nonneg_iff)
    have "x div 2 ^ j \<le> x" using assms(1) zdiv_mono2 [of x 1 "2 ^ j"] by simp
    then show "x div 2 ^ j < 2 ^ 64" using assms(2) by simp
  qed
  ultimately show ?thesis by (simp only: word_uint_eq_iff)
qed

lemma and_21_bits: "(2097151 AND of_int x :: u64) = of_int (x mod 2 ^ 21)"
proof -
  have "(2097151 :: u64) = mask 21" by (simp add: mask_eq_exp_minus_1)
  then have "(2097151 AND of_int x :: u64) = take_bit 21 (of_int x)"
    by (simp only: take_bit_eq_mask and.commute)
  also have "\<dots> = of_int (take_bit 21 x)" by (simp only: take_bit_of_int)
  finally show ?thesis by (simp only: take_bit_eq_mod)
qed

lemma load_limb:
  assumes "k + n \<le> length s" and "n \<le> 4" and "21 + j \<le> 8 * n" and "t = 8 * k + j"
  shows "(2097151 AND shr (of_int (chunk s k n)) j :: u64) = of_int (le_val s div 2 ^ t mod 2 ^ 21)"
proof -
  have "(256::int) ^ n \<le> 256 ^ 4" using assms(2) by (intro power_increasing) auto
  then have "0 \<le> chunk s k n" "chunk s k n < 2 ^ 32" using chunk_less [OF assms(1)] by simp_all
  then show ?thesis by (simp only: shr_load and_21_bits chunk_digit [OF assms(1,3,4)])
qed

lemma sc_reduce_load_digits:
  assumes "length s = 64"
  shows "sc_reduce_load s = map of_int (digits21 23 (le_val s))"
proof -
  let ?d = "\<lambda>t. of_int (le_val s div 2 ^ t mod 2 ^ 21) :: u64"
  have l3: "sc_load_3 s k = of_int (chunk s k 3)" if "k + 3 \<le> 64" for k
    using that assms by (simp add: sc_load_3_eq load_3_eq)
  have l4: "sc_load_4 s k = of_int (chunk s k 4)" if "k + 4 \<le> 64" for k
    using that assms by (simp add: sc_load_4_eq load_4_eq)
  have a3: "2097151 AND shr (sc_load_3 s k) j = ?d (8 * k + j)" if "k + 3 \<le> 64" "j \<le> 3" for k j
    using load_limb [of k 3 s j, OF _ _ _ refl] that assms by (simp only: l3)
  have a4: "2097151 AND shr (sc_load_4 s k) j = ?d (8 * k + j)" if "k + 4 \<le> 64" "j \<le> 11" for k j
    using load_limb [of k 4 s j, OF _ _ _ refl] that assms by (simp only: l4)
  have a0: "2097151 AND sc_load_3 s k = ?d (8 * k)" if "k + 3 \<le> 64" for k
    using a3 [of k 0] that by simp
  have top: "shr (sc_load_4 s 60) 3 = of_int (le_val s div 2 ^ 483)"
    using shr_load [of "chunk s 60 4" 3] chunk_less [of 60 4 s] assms
      chunk_top [of 60 4 s 483 3] by (simp add: l4)
  have "map of_int (digits21 23 (le_val s)) = map (\<lambda>i. ?d (21 * i)) [0..<23] @ [of_int (le_val s div 2 ^ 483)]"
    unfolding digits21_def by simp
  also have "[0..<23] = [0, 1, 2, 3, 4, 5, 6, 7, 8, 9, 10, 11, 12, 13, 14, 15, 16, 17, 18, 19, 20, 21, 22]" by code_simp
  also have "map (\<lambda>i. ?d (21 * i)) \<dots> @ [of_int (le_val s div 2 ^ 483)] = sc_reduce_load s"
    unfolding sc_reduce_load_def using a0 a3 a4 by (simp add: top)
  finally show ?thesis ..
qed

lemma sc_muladd_load_digits:
  assumes "length s = 32"
  shows "sc_muladd_load s = map of_int (digits21 11 (le_val s))"
proof -
  let ?d = "\<lambda>t. of_int (le_val s div 2 ^ t mod 2 ^ 21) :: u64"
  have l3: "sc_load_3 s k = of_int (chunk s k 3)" if "k + 3 \<le> 32" for k
    using that assms by (simp add: sc_load_3_eq load_3_eq)
  have l4: "sc_load_4 s k = of_int (chunk s k 4)" if "k + 4 \<le> 32" for k
    using that assms by (simp add: sc_load_4_eq load_4_eq)
  have a3: "2097151 AND shr (sc_load_3 s k) j = ?d (8 * k + j)" if "k + 3 \<le> 32" "j \<le> 3" for k j
    using load_limb [of k 3 s j, OF _ _ _ refl] that assms by (simp only: l3)
  have a4: "2097151 AND shr (sc_load_4 s k) j = ?d (8 * k + j)" if "k + 4 \<le> 32" "j \<le> 11" for k j
    using load_limb [of k 4 s j, OF _ _ _ refl] that assms by (simp only: l4)
  have a0: "2097151 AND sc_load_3 s k = ?d (8 * k)" if "k + 3 \<le> 32" for k
    using a3 [of k 0] that by simp
  have top: "shr (sc_load_4 s 28) 7 = of_int (le_val s div 2 ^ 231)"
    using shr_load [of "chunk s 28 4" 7] chunk_less [of 28 4 s] assms
      chunk_top [of 28 4 s 231 7] by (simp add: l4)
  have "map of_int (digits21 11 (le_val s)) = map (\<lambda>i. ?d (21 * i)) [0..<11] @ [of_int (le_val s div 2 ^ 231)]"
    unfolding digits21_def by simp
  also have "[0..<11] = [0, 1, 2, 3, 4, 5, 6, 7, 8, 9, 10]" by code_simp
  also have "map (\<lambda>i. ?d (21 * i)) \<dots> @ [of_int (le_val s div 2 ^ 231)] = sc_muladd_load s"
    unfolding sc_muladd_load_def using a0 a3 a4 by (simp add: top)
  finally show ?thesis ..
qed

section \<open>Reduction\<close>

lemma length_sc_weights [simp]: "length sc_weights = 24"
  by (simp add: sc_weights_def)

lemma nth_sc_weights [simp]: "i < 24 \<Longrightarrow> sc_weights ! i = 21 * i"
  by (simp add: sc_weights_def)

lemma exec_ops_append: "exec_ops (xs @ ys) h = exec_ops ys (exec_ops xs h)"
  and iexec_ops_append: "iexec_ops (xs @ ys) g = iexec_ops ys (iexec_ops xs g)"
  by (simp_all add: exec_ops_def iexec_ops_def)

lemma length_iexec_ops [simp]: "length (iexec_ops ops h) = length h"
  unfolding iexec_ops_def by (induction ops arbitrary: h) simp_all

text \<open>The interval of the value of a limb vector.\<close>

lemma within_val:
  "within h b \<Longrightarrow> length ws = length b \<Longrightarrow>
    limb_val ws (map fst b) \<le> limb_val ws h \<and> limb_val ws h \<le> limb_val ws (map snd b)"
  unfolding within_def limb_val_def
proof (induction h b arbitrary: ws rule: list_all2_induct)
  case Nil
  then show ?case by simp
next
  case (Cons x xs iv b)
  then obtain w ws' where ws: "ws = w # ws'" and len: "length ws' = length b"
    by (auto simp: length_Suc_conv)
  have "fst iv * 2 ^ w \<le> x * 2 ^ w" "x * 2 ^ w \<le> snd iv * 2 ^ w"
    using Cons.hyps(1) by (simp_all add: in_iv_def)
  with Cons.IH [OF len] show ?case by (auto simp: ws intro!: add_mono)
qed

text \<open>The value with limb \<open>i\<close> set apart.\<close>

lemma limb_val_apart:
  "i < length h \<Longrightarrow> length h = length ws \<Longrightarrow> limb_val ws h = limb_val ws (h[i := 0]) + h ! i * 2 ^ (ws ! i)"
  by (simp add: limb_val_update)

abbreviation zero_ivs :: "nat \<Rightarrow> ival list" where
  "zero_ivs n \<equiv> replicate n (0, 0)"

text \<open>Up to the last two passes: the value is kept modulo the group order, and bounded.\<close>

definition sc_head :: "limb_op list" where
  "sc_head = sc_reduce_fold_high @ sc_reduce_carry_mid @ sc_reduce_fold_mid @ sc_reduce_carry_low @ [Fold 12]"

definition sc_floors :: "limb_op list" where
  "sc_floors = [Floor 0 21, Floor 1 21, Floor 2 21, Floor 3 21, Floor 4 21, Floor 5 21, Floor 6 21, Floor 7 21, Floor 8 21, Floor 9 21, Floor 10 21, Floor 11 21]"

definition sc_last :: "limb_op list" where
  "sc_last = [Fold 12, Floor 0 21, Floor 1 21, Floor 2 21, Floor 3 21, Floor 4 21, Floor 5 21, Floor 6 21, Floor 7 21, Floor 8 21, Floor 9 21, Floor 10 21]"

lemma sc_reduce_ops_eq:
  "sc_reduce_fold_high @ sc_reduce_carry_mid @ sc_reduce_fold_mid @ sc_reduce_carry_low @ sc_reduce_final
    = sc_head @ sc_floors @ sc_last"
  by (simp add: sc_head_def sc_floors_def sc_last_def sc_reduce_final_def)

lemma sc_muladd_ops_eq:
  "sc_muladd_carry_all @ sc_muladd_fold_high @ sc_muladd_carry_mid @ sc_muladd_fold_mid @ sc_muladd_carry_low
     @ sc_muladd_final = sc_muladd_carry_all @ sc_head @ sc_floors @ sc_last"
  by (simp add: sc_head_def sc_floors_def sc_last_def sc_muladd_fold_high_def sc_reduce_fold_high_def
      sc_muladd_carry_mid_def sc_reduce_carry_mid_def sc_muladd_fold_mid_def sc_reduce_fold_mid_def
      sc_muladd_carry_low_def sc_reduce_carry_low_def sc_muladd_final_def)

definition head_ok :: "ival list \<Rightarrow> bool" where
  "head_ok b \<longleftrightarrow>
     list_all2 (\<lambda>iv c. - c \<le> fst iv \<and> snd iv \<le> c) b (replicate 12 (2 ^ 30) @ replicate 12 0)
     \<and> - (2 ^ 252) \<le> limb_val sc_weights (map fst b) \<and> limb_val sc_weights (map snd b) < 2 ^ 252"

lemma sc_reduce_head_bnd:
  "case bnd_ops 64 sc_head (replicate 23 (0, 2 ^ 21 - 1) @ [(0, 2 ^ 29 - 1)]) of
     None \<Rightarrow> False | Some b' \<Rightarrow> head_ok b'"
  by code_simp

lemma sc_muladd_head_bnd:
  "case bnd_ops 64 (sc_muladd_carry_all @ sc_head)
      (replicate 11 (0, 12 * 2 ^ 42) @ replicate 11 (0, 3 * 2 ^ 46) @ [(0, 2 ^ 50), (0, 0)]) of
     None \<Rightarrow> False | Some b' \<Rightarrow> head_ok b'"
  by code_simp

lemma sc_floors_bnd:
  "bnd_ops 64 sc_floors (replicate 12 (- (2 ^ 30), 2 ^ 30) @ zero_ivs 12)
    = Some (replicate 12 (0, 2 ^ 21 - 1) @ [(- 513, 512)] @ zero_ivs 11)"
  by code_simp

lemma sc_last_bnd:
  "bnd_ops 64 sc_last (replicate 12 (0, 2 ^ 21 - 1) @ [(- 1, 0)] @ zero_ivs 11)
    = Some (replicate 11 (0, 2 ^ 21 - 1) @ [(- 1, 2 ^ 21)] @ zero_ivs 12)"
  by code_simp

lemma fold_12_val:
  assumes "length h = 24"
  shows "limb_val sc_weights (iexec_op (Fold 12) h) = limb_val sc_weights h - order25519 * h ! 12"
  using assms by (simp add: Let_def limb_val_simps order25519_def algebra_simps)

lemma ops_val_exact:
  assumes "list_all (op_ok 0 sc_weights) ops" and "length h = 24"
  shows "limb_val sc_weights (iexec_ops ops h) = limb_val sc_weights h"
  using iexec_ops_val [OF assms(1), of h] assms(2) by simp

lemma order25519_pos [simp]: "0 < order25519"
  by (simp add: order25519_def)

lemma head_ok_within:
  assumes "within h b" and "head_ok b"
  shows "within h (replicate 12 (- (2 ^ 30), 2 ^ 30) @ zero_ivs 12)
    \<and> - (2 ^ 252) \<le> limb_val sc_weights h \<and> limb_val sc_weights h < 2 ^ 252"
proof -
  have c: "list_all2 (\<lambda>iv c. - c \<le> fst iv \<and> snd iv \<le> c) b (replicate 12 (2 ^ 30) @ replicate 12 0)"
    and v: "- (2 ^ 252) \<le> limb_val sc_weights (map fst b)" "limb_val sc_weights (map snd b) < 2 ^ 252"
    using assms(2) unfolding head_ok_def by blast+
  have len: "length b = 24" using list_all2_lengthD [OF c] by simp
  have "list_all2 (\<lambda>x c. in_iv x (- c, c)) h (replicate 12 (2 ^ 30) @ replicate 12 0)"
    using assms(1) c unfolding within_def
    by (rule list_all2_trans [rotated]) (auto simp: in_iv_def)
  then have "list_all2 in_iv h (map (\<lambda>c. (- c, c)) (replicate 12 (2 ^ 30) @ replicate 12 0))"
    by (simp only: list_all2_map2)
  moreover have "limb_val sc_weights (map fst b) \<le> limb_val sc_weights h"
    "limb_val sc_weights h \<le> limb_val sc_weights (map snd b)"
    using within_val [OF assms(1), of sc_weights] len by simp_all
  ultimately show ?thesis using v unfolding within_def by (simp only: map_append map_replicate) simp
qed

text \<open>The last two passes subtract or add the group order once where needed.\<close>

lemma order_adjust:
  fixes v c :: int
  assumes "- (2 ^ 252) \<le> v" and "v < 2 ^ 252" and "0 \<le> low" and "low < 2 ^ 252" and "v = low + c * 2 ^ 252"
  shows "v - order25519 * c = v mod order25519" and "- 1 \<le> c \<and> c \<le> 0"
proof -
  show c: "- 1 \<le> c \<and> c \<le> 0" using assms by simp
  then have "c = - 1 \<or> c = 0" by linarith
  then have "0 \<le> v - order25519 * c \<and> v - order25519 * c < order25519"
    using assms by (auto simp: order25519_def)
  then have "(v - order25519 * c) mod order25519 = v - order25519 * c" by simp
  moreover have "(v - order25519 * c) mod order25519 = v mod order25519"
    using mod_mult_self2 [of v order25519 "- c"] by simp
  ultimately show "v - order25519 * c = v mod order25519" by simp
qed

lemma zero_ivs_12: "(0, 0) # zero_ivs 11 = zero_ivs 12"
  by (simp flip: replicate_Suc)

lemma sc_tail_ok:
  fixes h :: "i64 list"
  assumes "within (map sint h) b" and "head_ok b"
  defines "r \<equiv> exec_ops (sc_floors @ sc_last) h"
  shows "limb_val sc_weights (map sint r) = limb_val sc_weights (map sint h) mod order25519"
    and "within (map sint r) (replicate 11 (0, 2 ^ 21 - 1) @ [(- 1, 2 ^ 21)] @ zero_ivs 12)"
proof -
  let ?v = "limb_val sc_weights (map sint h)" and ?f = "exec_ops sc_floors h"
  note hd = head_ok_within [OF assms(1,2)]
  have len: "length h = 24" using within_length [OF conjunct1 [OF hd]] by simp
  note fl = exec_ops_sound [where 'a = 64, simplified, OF sc_floors_bnd conjunct1 [OF hd]]
  have "list_all (op_ok 0 sc_weights) sc_floors" by (simp add: sc_floors_def)
  then have vf: "limb_val sc_weights (map sint ?f) = ?v"
    using fl len by (simp add: ops_val_exact)
  have lf: "length ?f = 24" using len by simp
  have id: "(map sint ?f)[12 := sint (?f ! 12)] = map sint ?f"
    using lf list_update_id [of "map sint ?f" 12] by simp
  have b12: "(replicate 12 (0, 2 ^ 21 - 1) @ [(- 513, 512)] @ zero_ivs 11)[12 := x]
      = replicate 12 (0, 2 ^ 21 - 1) @ [x] @ zero_ivs 11" for x
    by (simp add: list_update_append)
  let ?g = "(map sint ?f)[12 := 0]"
  have low: "within ?g (replicate 12 (0, 2 ^ 21 - 1) @ zero_ivs 12)"
    using within_update [OF conjunct2 [OF fl], of 0 "(0, 0)" 12, unfolded b12]
    by (simp add: in_iv_def zero_ivs_12)
  have ivs: "limb_val sc_weights (map fst (replicate 12 (0, 2 ^ 21 - 1) @ zero_ivs 12)) = 0"
    "limb_val sc_weights (map snd (replicate 12 (0, 2 ^ 21 - 1) @ zero_ivs 12)) < 2 ^ 252" by code_simp+
  have "0 \<le> limb_val sc_weights ?g \<and> limb_val sc_weights ?g < 2 ^ 252"
    using within_val [OF low, of sc_weights] ivs by simp
  moreover have "?v = limb_val sc_weights ?g + sint (?f ! 12) * 2 ^ 252"
    using limb_val_apart [of 12 "map sint ?f" sc_weights] lf vf by simp
  ultimately have adj: "?v - order25519 * sint (?f ! 12) = ?v mod order25519" "- 1 \<le> sint (?f ! 12) \<and> sint (?f ! 12) \<le> 0"
    using order_adjust [of ?v "limb_val sc_weights ?g" "sint (?f ! 12)"] hd by blast+
  have "within (map sint ?f) (replicate 12 (0, 2 ^ 21 - 1) @ [(- 1, 0)] @ zero_ivs 11)"
    using within_update [OF conjunct2 [OF fl], of "sint (?f ! 12)" "(- 1, 0)" 12, unfolded b12 id] adj(2)
    by (simp add: in_iv_def)
  note la = exec_ops_sound [where 'a = 64, simplified, OF sc_last_bnd this]
  show "within (map sint r) (replicate 11 (0, 2 ^ 21 - 1) @ [(- 1, 2 ^ 21)] @ zero_ivs 12)"
    unfolding r_def exec_ops_append using la by blast
  have "list_all (op_ok 0 sc_weights) (tl sc_last)" by (simp add: sc_last_def)
  then have "limb_val sc_weights (iexec_ops (Fold 12 # tl sc_last) (map sint ?f))
      = limb_val sc_weights (map sint ?f) - order25519 * sint (?f ! 12)"
    using lf ops_val_exact [of "tl sc_last" "iexec_op (Fold 12) (map sint ?f)"]
    by (simp add: iexec_ops_def fold_12_val del: iexec_op.simps)
  then show "limb_val sc_weights (map sint r) = ?v mod order25519"
    unfolding r_def exec_ops_append using la adj(1) vf by (simp add: sc_last_def)
qed

section \<open>Packing\<close>

lemma sc_pack_poly:
  fixes u0 v0 t0 l1 u1 v1 t1 l2 u2 t2 l3 u3 v3 t3 l4 u4 v4 t4 l5 u5 t5 l6 u6 v6 t6 l7 u7 t7 u8 v8 t8 l9 u9 v9 t9 l10 u10 t10 l11 u11 v11 t11 x0 x1 x2 x3 x4 x5 x6 x7 x8 x9 x10 x11 :: int
  assumes "x0 = 2 ^ 0 * u0 + 2 ^ 0 * 256 * v0 + 2 ^ 0 * 65536 * t0"
    and "x1 = l1 + 2 ^ 3 * u1 + 2 ^ 3 * 256 * v1 + 2 ^ 3 * 65536 * t1"
    and "x2 = l2 + 2 ^ 6 * u2 + 2 ^ 6 * 256 * t2"
    and "x3 = l3 + 2 ^ 1 * u3 + 2 ^ 1 * 256 * v3 + 2 ^ 1 * 65536 * t3"
    and "x4 = l4 + 2 ^ 4 * u4 + 2 ^ 4 * 256 * v4 + 2 ^ 4 * 65536 * t4"
    and "x5 = l5 + 2 ^ 7 * u5 + 2 ^ 7 * 256 * t5"
    and "x6 = l6 + 2 ^ 2 * u6 + 2 ^ 2 * 256 * v6 + 2 ^ 2 * 65536 * t6"
    and "x7 = l7 + 2 ^ 5 * u7 + 2 ^ 5 * 256 * t7"
    and "x8 = 2 ^ 0 * u8 + 2 ^ 0 * 256 * v8 + 2 ^ 0 * 65536 * t8"
    and "x9 = l9 + 2 ^ 3 * u9 + 2 ^ 3 * 256 * v9 + 2 ^ 3 * 65536 * t9"
    and "x10 = l10 + 2 ^ 6 * u10 + 2 ^ 6 * 256 * t10"
    and "x11 = l11 + 2 ^ 1 * u11 + 2 ^ 1 * 256 * v11 + 2 ^ 1 * 65536 * t11"
  shows "u0 + 256 * (v0 + 256 * ((t0 + 2 ^ 5 * l1) + 256 * (u1 + 256 * (v1 + 256 * ((t1 + 2 ^ 2 * l2) + 256 * (u2 + 256 * ((t2 + 2 ^ 7 * l3) + 256 * (u3 + 256 * (v3 + 256 * ((t3 + 2 ^ 4 * l4) + 256 * (u4 + 256 * (v4 + 256 * ((t4 + 2 ^ 1 * l5) + 256 * (u5 + 256 * ((t5 + 2 ^ 6 * l6) + 256 * (u6 + 256 * (v6 + 256 * ((t6 + 2 ^ 3 * l7) + 256 * (u7 + 256 * (t7 + 256 * (u8 + 256 * (v8 + 256 * ((t8 + 2 ^ 5 * l9) + 256 * (u9 + 256 * (v9 + 256 * ((t9 + 2 ^ 2 * l10) + 256 * (u10 + 256 * ((t10 + 2 ^ 7 * l11) + 256 * (u11 + 256 * (v11 + 256 * (t11 + 256 * (0))))))))))))))))))))))))))))))))
    = x0 + x1 * 2 ^ 21 + x2 * 2 ^ 42 + x3 * 2 ^ 63 + x4 * 2 ^ 84 + x5 * 2 ^ 105 + x6 * 2 ^ 126 + x7 * 2 ^ 147 + x8 * 2 ^ 168 + x9 * 2 ^ 189 + x10 * 2 ^ 210 + x11 * 2 ^ 231"
  unfolding assms by algebra

lemma cut_1: "x = x mod 2 ^ a + 2 ^ a * (x div 2 ^ a mod 256) + 2 ^ a * 256 * (x div 2 ^ (a + 8))" for x :: int
proof -
  have "x = x mod 2 ^ a + 2 ^ a * (x div 2 ^ a)" by simp
  also have "x div 2 ^ a = x div 2 ^ a mod 256 + 256 * (x div 2 ^ (a + 8))" by (rule cut_byte)
  finally show ?thesis by (simp only: distrib_left mult.assoc add.assoc)
qed

lemma sc_weights_eq: "sc_weights = [0, 21, 42, 63, 84, 105, 126, 147, 168, 189, 210, 231, 252, 273, 294, 315, 336, 357, 378, 399, 420, 441, 462, 483]"
  by code_simp

lemma upt_24: "[0..<24] = [0, 1, 2, 3, 4, 5, 6, 7, 8, 9, 10, 11, 12, 13, 14, 15, 16, 17, 18, 19, 20, 21, 22, 23]"
  by code_simp

lemma sc_val_12:
  assumes "length h = 24" and "\<And>i. 12 \<le> i \<Longrightarrow> i < 24 \<Longrightarrow> h ! i = 0"
  shows "limb_val sc_weights h = h ! 0 + h ! 1 * 2 ^ 21 + h ! 2 * 2 ^ 42 + h ! 3 * 2 ^ 63 + h ! 4 * 2 ^ 84 + h ! 5 * 2 ^ 105 + h ! 6 * 2 ^ 126 + h ! 7 * 2 ^ 147 + h ! 8 * 2 ^ 168 + h ! 9 * 2 ^ 189 + h ! 10 * 2 ^ 210 + h ! 11 * 2 ^ 231"
proof -
  have "h = map ((!) h) [0..<24]" using map_nth [of h] assms(1) by simp
  then have "limb_val sc_weights h = limb_val sc_weights (map ((!) h) [0..<24])" by (rule arg_cong)
  also have "\<dots> = h ! 0 + h ! 1 * 2 ^ 21 + h ! 2 * 2 ^ 42 + h ! 3 * 2 ^ 63 + h ! 4 * 2 ^ 84 + h ! 5 * 2 ^ 105 + h ! 6 * 2 ^ 126 + h ! 7 * 2 ^ 147 + h ! 8 * 2 ^ 168 + h ! 9 * 2 ^ 189 + h ! 10 * 2 ^ 210 + h ! 11 * 2 ^ 231"
    unfolding upt_24 sc_weights_eq limb_val_def by (simp add: assms(2))
  finally show ?thesis .
qed

lemma sc_reduce_pack_val:
  fixes h :: "i64 list"
  assumes r: "\<And>i. i < 11 \<Longrightarrow> 0 \<le> sint (h ! i) \<and> sint (h ! i) < 2 ^ 21"
    and r11: "0 \<le> sint (h ! 11) \<and> sint (h ! 11) < 2 ^ 25"
  shows "le_val (sc_reduce_pack h) = sint (h ! 0) + sint (h ! 1) * 2 ^ 21 + sint (h ! 2) * 2 ^ 42 + sint (h ! 3) * 2 ^ 63 + sint (h ! 4) * 2 ^ 84 + sint (h ! 5) * 2 ^ 105 + sint (h ! 6) * 2 ^ 126 + sint (h ! 7) * 2 ^ 147 + sint (h ! 8) * 2 ^ 168 + sint (h ! 9) * 2 ^ 189 + sint (h ! 10) * 2 ^ 210 + sint (h ! 11) * 2 ^ 231"
proof -
  let ?x = "\<lambda>i. sint (h ! i)"
  have j2: "uint (ucast (sar (h ! 0) 16 OR shl (h ! 1) 5) :: u8) = ?x 0 div 2 ^ 16 + 2 ^ 5 * (?x 1 mod 2 ^ 3)"
    using byte_join [of "h ! 0" 16 5 "h ! 1"] div_less_power [of "?x 0" 16 5] r [of 0] by simp
  have j5: "uint (ucast (sar (h ! 1) 19 OR shl (h ! 2) 2) :: u8) = ?x 1 div 2 ^ 19 + 2 ^ 2 * (?x 2 mod 2 ^ 6)"
    using byte_join [of "h ! 1" 19 2 "h ! 2"] div_less_power [of "?x 1" 19 2] r [of 1] by simp
  have j7: "uint (ucast (sar (h ! 2) 14 OR shl (h ! 3) 7) :: u8) = ?x 2 div 2 ^ 14 + 2 ^ 7 * (?x 3 mod 2 ^ 1)"
    using byte_join [of "h ! 2" 14 7 "h ! 3"] div_less_power [of "?x 2" 14 7] r [of 2] by simp
  have j10: "uint (ucast (sar (h ! 3) 17 OR shl (h ! 4) 4) :: u8) = ?x 3 div 2 ^ 17 + 2 ^ 4 * (?x 4 mod 2 ^ 4)"
    using byte_join [of "h ! 3" 17 4 "h ! 4"] div_less_power [of "?x 3" 17 4] r [of 3] by simp
  have j13: "uint (ucast (sar (h ! 4) 20 OR shl (h ! 5) 1) :: u8) = ?x 4 div 2 ^ 20 + 2 ^ 1 * (?x 5 mod 2 ^ 7)"
    using byte_join [of "h ! 4" 20 1 "h ! 5"] div_less_power [of "?x 4" 20 1] r [of 4] by simp
  have j15: "uint (ucast (sar (h ! 5) 15 OR shl (h ! 6) 6) :: u8) = ?x 5 div 2 ^ 15 + 2 ^ 6 * (?x 6 mod 2 ^ 2)"
    using byte_join [of "h ! 5" 15 6 "h ! 6"] div_less_power [of "?x 5" 15 6] r [of 5] by simp
  have j18: "uint (ucast (sar (h ! 6) 18 OR shl (h ! 7) 3) :: u8) = ?x 6 div 2 ^ 18 + 2 ^ 3 * (?x 7 mod 2 ^ 5)"
    using byte_join [of "h ! 6" 18 3 "h ! 7"] div_less_power [of "?x 6" 18 3] r [of 6] by simp
  have j23: "uint (ucast (sar (h ! 8) 16 OR shl (h ! 9) 5) :: u8) = ?x 8 div 2 ^ 16 + 2 ^ 5 * (?x 9 mod 2 ^ 3)"
    using byte_join [of "h ! 8" 16 5 "h ! 9"] div_less_power [of "?x 8" 16 5] r [of 8] by simp
  have j26: "uint (ucast (sar (h ! 9) 19 OR shl (h ! 10) 2) :: u8) = ?x 9 div 2 ^ 19 + 2 ^ 2 * (?x 10 mod 2 ^ 6)"
    using byte_join [of "h ! 9" 19 2 "h ! 10"] div_less_power [of "?x 9" 19 2] r [of 9] by simp
  have j28: "uint (ucast (sar (h ! 10) 14 OR shl (h ! 11) 7) :: u8) = ?x 10 div 2 ^ 14 + 2 ^ 7 * (?x 11 mod 2 ^ 1)"
    using byte_join [of "h ! 10" 14 7 "h ! 11"] div_less_power [of "?x 10" 14 7] r [of 10] by simp
  have t7: "?x 7 div 2 ^ 13 mod 256 = ?x 7 div 2 ^ 13"
    using div_less_power [of "?x 7" 13 8] r [of 7] by simp
  have t11: "?x 11 div 2 ^ 17 mod 256 = ?x 11 div 2 ^ 17"
    using div_less_power [of "?x 11" 17 8] r11 by simp
  have b: "uint (ucast (sar w n) :: u8) = sint w div 2 ^ n mod 256" for w :: i64 and n
    by (simp add: byte_sar)
  have c0: "x = 2 ^ 0 * (x div 2 ^ 0 mod 256) + 2 ^ 0 * 256 * (x div 2 ^ 8 mod 256) + 2 ^ 0 * 65536 * (x div 2 ^ 16)" for x :: int
    using cut_2 [of x 0] by simp
  have c2: "x = x mod 2 ^ a + 2 ^ a * (x div 2 ^ a mod 256) + 2 ^ a * 256 * (x div 2 ^ b mod 256)
      + 2 ^ a * 65536 * (x div 2 ^ d)" if "b = a + 8" "d = a + 16" for x :: int and a b d :: nat
    unfolding that by (rule cut_2)
  have c1: "x = x mod 2 ^ a + 2 ^ a * (x div 2 ^ a mod 256) + 2 ^ a * 256 * (x div 2 ^ b)"
    if "b = a + 8" for x :: int and a b :: nat
    unfolding that by (rule cut_1)
  show ?thesis
    unfolding sc_reduce_pack_def le_val.simps b t7 t11 j2 j5 j7 j10 j13 j15 j18 j23 j26 j28
    by (rule sc_pack_poly; (rule c0 | rule c2, simp, simp | rule c1, simp))
qed

lemma sc_finish:
  fixes h :: "i64 list"
  assumes "within (map sint h) b" and "head_ok b"
  shows "le_val (sc_reduce_pack (exec_ops (sc_floors @ sc_last) h)) = limb_val sc_weights (map sint h) mod order25519"
proof -
  define r where "r = exec_ops (sc_floors @ sc_last) h"
  let ?b = "replicate 11 (0, 2 ^ 21 - 1) @ [(- 1, 2 ^ 21)] @ zero_ivs 12"
  have v: "limb_val sc_weights (map sint r) = limb_val sc_weights (map sint h) mod order25519"
    and w: "within (map sint r) ?b"
    unfolding r_def by (rule sc_tail_ok [OF assms])+
  have len: "length r = 24" using within_length [OF w] by simp
  have iv: "in_iv (sint (r ! i)) (?b ! i)" if "i < 24" for i
    using within_nth [OF w, of i] that len by simp
  have low: "0 \<le> sint (r ! i) \<and> sint (r ! i) < 2 ^ 21" if "i < 11" for i
    using iv [of i] that by (simp add: nth_append in_iv_def)
  have top: "- 1 \<le> sint (r ! 11) \<and> sint (r ! 11) \<le> 2 ^ 21"
    using iv [of 11] by (simp add: nth_append in_iv_def)
  have zero: "sint (r ! i) = 0" if "12 \<le> i" "i < 24" for i
    using iv [of i] that by (simp add: nth_append nth_Cons' in_iv_def)
  have val: "limb_val sc_weights (map sint r) = sint (r ! 0) + sint (r ! 1) * 2 ^ 21 + sint (r ! 2) * 2 ^ 42 + sint (r ! 3) * 2 ^ 63 + sint (r ! 4) * 2 ^ 84 + sint (r ! 5) * 2 ^ 105 + sint (r ! 6) * 2 ^ 126 + sint (r ! 7) * 2 ^ 147 + sint (r ! 8) * 2 ^ 168 + sint (r ! 9) * 2 ^ 189 + sint (r ! 10) * 2 ^ 210 + sint (r ! 11) * 2 ^ 231"
    using sc_val_12 [of "map sint r"] zero len by simp
  have "0 \<le> limb_val sc_weights (map sint r)" unfolding v by simp
  then have "0 \<le> sint (r ! 11)"
    unfolding val using top low [of 0] low [of 1] low [of 2] low [of 3] low [of 4] low [of 5] low [of 6] low [of 7] low [of 8] low [of 9] low [of 10] by simp
  with top have "0 \<le> sint (r ! 11) \<and> sint (r ! 11) < 2 ^ 25" by simp
  from sc_reduce_pack_val [OF low this] show ?thesis
    unfolding v [symmetric] val r_def [symmetric] .
qed

lemma digits21_within:
  assumes "0 \<le> x" and "x < 2 ^ (21 * n + k)"
  shows "within (digits21 n x) (replicate n (0, 2 ^ 21 - 1) @ [(0, 2 ^ k - 1)])"
proof -
  have "in_iv (x div 2 ^ (21 * n)) (0, 2 ^ k - 1)"
    using div_less_power [OF assms] by (simp add: in_iv_def)
  moreover have "in_iv (y mod 2 ^ 21) (0, 2 ^ 21 - 1)" for y
    using pos_mod_bound [of "2 ^ 21" y] by (simp add: in_iv_def)
  ultimately show ?thesis unfolding within_def digits21_def
    by (intro list_all2_appendI) (simp_all only: list_all2_conv_all_nth length_map length_upt length_replicate
      minus_nat.diff_0 nth_map_upt nth_replicate add_0 simp_thms list.size nth_Cons_0 less_one, auto)
qed

lemma map_sint_of_int: "list_all (srange 64) xs \<Longrightarrow> map sint (map of_int xs :: i64 list) = xs"
  by (induction xs) (simp_all add: sint_of_int [where 'a = 64, simplified])

lemma within_srange:
  "within xs b \<Longrightarrow> list_all (iv_fits n) b \<Longrightarrow> list_all (srange n) xs"
  unfolding within_def by (induction xs b rule: list_all2_induct) (auto intro: iv_fits_srange)

lemma sc_head_ok_order: "list_all (op_ok order25519 sc_weights) sc_head"
  "list_all (op_ok order25519 sc_weights) sc_muladd_carry_all"
  by code_simp+

text \<open>A scalar from its limbs to its packed residue.\<close>

lemma sc_pipeline:
  fixes h :: "i64 list"
  assumes "bnd_ops 64 ops b = Some b'" and "head_ok b'" and "within (map sint h) b" and "length h = 24"
    and "list_all (op_ok order25519 sc_weights) ops"
  shows "le_val (sc_reduce_pack (exec_ops (ops @ sc_floors @ sc_last) h))
    = limb_val sc_weights (map sint h) mod order25519"
proof -
  note hd = exec_ops_sound [where 'a = 64, simplified, OF assms(1,3)]
  have "limb_val sc_weights (map sint (exec_ops ops h)) mod order25519 = limb_val sc_weights (map sint h) mod order25519"
    using iexec_ops_val [OF assms(5), of "map sint h"] hd assms(4) by simp
  then show ?thesis
    unfolding exec_ops_append [of ops] sc_finish [OF conjunct2 [OF hd] assms(2)] .
qed

lemma sc_reduce_ok:
  assumes "length s = 64"
  shows "le_val (sc_reduce s) = le_val s mod order25519"
proof -
  obtain b' where b': "bnd_ops 64 sc_head (replicate 23 (0, 2 ^ 21 - 1) @ [(0, 2 ^ 29 - 1)]) = Some b'" and "head_ok b'"
    using sc_reduce_head_bnd by (auto split: option.splits)
  have x: "le_val s < 2 ^ (21 * 23 + 29)" using le_val_less [of s] assms by simp
  note w = digits21_within [OF le_val_nonneg x]
  have "list_all (iv_fits 64) (replicate 23 (0, 2 ^ 21 - 1) @ [(0, 2 ^ 29 - 1)])" by code_simp
  from map_sint_of_int [OF within_srange [OF w this]]
  have d: "map sint (sc_reduce_load s) = digits21 23 (le_val s)"
    unfolding sc_reduce_load_digits [OF assms] .
  have "limb_val sc_weights (digits21 23 (le_val s)) = le_val s"
    using limb_val_digits21 [of 23 "le_val s"] by (simp add: sc_weights_def)
  moreover have "length (sc_reduce_load s) = 24" by (simp add: sc_reduce_load_def)
  ultimately show ?thesis
    using sc_pipeline [OF b' \<open>head_ok b'\<close> w [folded d] _ sc_head_ok_order(1)]
    unfolding sc_reduce_def sc_reduce_ops_eq by (simp add: d)
qed

section \<open>Multiply and add\<close>

text \<open>A word that holds a non-negative integer of at most \<open>B\<close>.\<close>

definition holds :: "i64 \<Rightarrow> int \<Rightarrow> int \<Rightarrow> bool" where
  "holds w x B \<longleftrightarrow> w = of_int x \<and> 0 \<le> x \<and> x \<le> B"

lemma holds_mult: "holds u a P \<Longrightarrow> holds v b Q \<Longrightarrow> holds (u * v) (a * b) (P * Q)"
  by (auto simp: holds_def intro: mult_mono)

lemma holds_add: "holds u a P \<Longrightarrow> holds v b Q \<Longrightarrow> holds (u + v) (a + b) (P + Q)"
  by (auto simp: holds_def)

definition fits :: "i64 \<Rightarrow> int \<times> int \<Rightarrow> bool" where
  "fits w xC \<longleftrightarrow> sint w = fst xC \<and> in_iv (fst xC) (0, snd xC)"

lemma fitsI:
  assumes "holds w x B" and "B \<le> C" and "C < 2 ^ 63"
  shows "fits w (x, C)"
proof -
  have "srange LENGTH(64) x" using assms by (simp add: holds_def srange_def)
  then show ?thesis using assms sint_of_int [where 'a = 64, of x] by (auto simp: holds_def in_iv_def fits_def)
qed

lemma sc_muladd_poly:
  fixes a0 a1 a2 a3 a4 a5 a6 a7 a8 a9 a10 a11 b0 b1 b2 b3 b4 b5 b6 b7 b8 b9 b10 b11 c0 c1 c2 c3 c4 c5 c6 c7 c8 c9 c10 c11 :: int
  shows "(c0 + a0 * b0) * 2 ^ 0
      + (c1 + a0 * b1 + a1 * b0) * 2 ^ 21
      + (c2 + a0 * b2 + a1 * b1 + a2 * b0) * 2 ^ 42
      + (c3 + a0 * b3 + a1 * b2 + a2 * b1 + a3 * b0) * 2 ^ 63
      + (c4 + a0 * b4 + a1 * b3 + a2 * b2 + a3 * b1 + a4 * b0) * 2 ^ 84
      + (c5 + a0 * b5 + a1 * b4 + a2 * b3 + a3 * b2 + a4 * b1 + a5 * b0) * 2 ^ 105
      + (c6 + a0 * b6 + a1 * b5 + a2 * b4 + a3 * b3 + a4 * b2 + a5 * b1 + a6 * b0) * 2 ^ 126
      + (c7 + a0 * b7 + a1 * b6 + a2 * b5 + a3 * b4 + a4 * b3 + a5 * b2 + a6 * b1 + a7 * b0) * 2 ^ 147
      + (c8 + a0 * b8 + a1 * b7 + a2 * b6 + a3 * b5 + a4 * b4 + a5 * b3 + a6 * b2 + a7 * b1 + a8 * b0) * 2 ^ 168
      + (c9 + a0 * b9 + a1 * b8 + a2 * b7 + a3 * b6 + a4 * b5 + a5 * b4 + a6 * b3 + a7 * b2 + a8 * b1 + a9 * b0) * 2 ^ 189
      + (c10 + a0 * b10 + a1 * b9 + a2 * b8 + a3 * b7 + a4 * b6 + a5 * b5 + a6 * b4 + a7 * b3 + a8 * b2 + a9 * b1 + a10 * b0) * 2 ^ 210
      + (c11 + a0 * b11 + a1 * b10 + a2 * b9 + a3 * b8 + a4 * b7 + a5 * b6 + a6 * b5 + a7 * b4 + a8 * b3 + a9 * b2 + a10 * b1 + a11 * b0) * 2 ^ 231
      + (a1 * b11 + a2 * b10 + a3 * b9 + a4 * b8 + a5 * b7 + a6 * b6 + a7 * b5 + a8 * b4 + a9 * b3 + a10 * b2 + a11 * b1) * 2 ^ 252
      + (a2 * b11 + a3 * b10 + a4 * b9 + a5 * b8 + a6 * b7 + a7 * b6 + a8 * b5 + a9 * b4 + a10 * b3 + a11 * b2) * 2 ^ 273
      + (a3 * b11 + a4 * b10 + a5 * b9 + a6 * b8 + a7 * b7 + a8 * b6 + a9 * b5 + a10 * b4 + a11 * b3) * 2 ^ 294
      + (a4 * b11 + a5 * b10 + a6 * b9 + a7 * b8 + a8 * b7 + a9 * b6 + a10 * b5 + a11 * b4) * 2 ^ 315
      + (a5 * b11 + a6 * b10 + a7 * b9 + a8 * b8 + a9 * b7 + a10 * b6 + a11 * b5) * 2 ^ 336
      + (a6 * b11 + a7 * b10 + a8 * b9 + a9 * b8 + a10 * b7 + a11 * b6) * 2 ^ 357
      + (a7 * b11 + a8 * b10 + a9 * b9 + a10 * b8 + a11 * b7) * 2 ^ 378
      + (a8 * b11 + a9 * b10 + a10 * b9 + a11 * b8) * 2 ^ 399
      + (a9 * b11 + a10 * b10 + a11 * b9) * 2 ^ 420
      + (a10 * b11 + a11 * b10) * 2 ^ 441
      + (a11 * b11) * 2 ^ 462
    = (a0 + a1 * 2 ^ 21 + a2 * 2 ^ 42 + a3 * 2 ^ 63 + a4 * 2 ^ 84 + a5 * 2 ^ 105 + a6 * 2 ^ 126 + a7 * 2 ^ 147 + a8 * 2 ^ 168 + a9 * 2 ^ 189 + a10 * 2 ^ 210 + a11 * 2 ^ 231) * (b0 + b1 * 2 ^ 21 + b2 * 2 ^ 42 + b3 * 2 ^ 63 + b4 * 2 ^ 84 + b5 * 2 ^ 105 + b6 * 2 ^ 126 + b7 * 2 ^ 147 + b8 * 2 ^ 168 + b9 * 2 ^ 189 + b10 * 2 ^ 210 + b11 * 2 ^ 231) + (c0 + c1 * 2 ^ 21 + c2 * 2 ^ 42 + c3 * 2 ^ 63 + c4 * 2 ^ 84 + c5 * 2 ^ 105 + c6 * 2 ^ 126 + c7 * 2 ^ 147 + c8 * 2 ^ 168 + c9 * 2 ^ 189 + c10 * 2 ^ 210 + c11 * 2 ^ 231)"
  by algebra

definition limbs12 :: "i64 list \<Rightarrow> int list \<Rightarrow> bool" where
  "limbs12 a A \<longleftrightarrow> (\<forall>i < 11. holds (a ! i) (A ! i) (2 ^ 21 - 1)) \<and> holds (a ! 11) (A ! 11) (2 ^ 25 - 1)"

lemma sc_muladd_sums_fit:
  assumes "limbs12 a A" and "limbs12 b B" and "limbs12 c C"
  shows "list_all2 fits (sc_muladd_sums a b c)
    [((C ! 0) + (A ! 0) * (B ! 0), 12 * 2 ^ 42),
     ((C ! 1) + (A ! 0) * (B ! 1) + (A ! 1) * (B ! 0), 12 * 2 ^ 42),
     ((C ! 2) + (A ! 0) * (B ! 2) + (A ! 1) * (B ! 1) + (A ! 2) * (B ! 0), 12 * 2 ^ 42),
     ((C ! 3) + (A ! 0) * (B ! 3) + (A ! 1) * (B ! 2) + (A ! 2) * (B ! 1) + (A ! 3) * (B ! 0), 12 * 2 ^ 42),
     ((C ! 4) + (A ! 0) * (B ! 4) + (A ! 1) * (B ! 3) + (A ! 2) * (B ! 2) + (A ! 3) * (B ! 1) + (A ! 4) * (B ! 0), 12 * 2 ^ 42),
     ((C ! 5) + (A ! 0) * (B ! 5) + (A ! 1) * (B ! 4) + (A ! 2) * (B ! 3) + (A ! 3) * (B ! 2) + (A ! 4) * (B ! 1) + (A ! 5) * (B ! 0), 12 * 2 ^ 42),
     ((C ! 6) + (A ! 0) * (B ! 6) + (A ! 1) * (B ! 5) + (A ! 2) * (B ! 4) + (A ! 3) * (B ! 3) + (A ! 4) * (B ! 2) + (A ! 5) * (B ! 1) + (A ! 6) * (B ! 0), 12 * 2 ^ 42),
     ((C ! 7) + (A ! 0) * (B ! 7) + (A ! 1) * (B ! 6) + (A ! 2) * (B ! 5) + (A ! 3) * (B ! 4) + (A ! 4) * (B ! 3) + (A ! 5) * (B ! 2) + (A ! 6) * (B ! 1) + (A ! 7) * (B ! 0), 12 * 2 ^ 42),
     ((C ! 8) + (A ! 0) * (B ! 8) + (A ! 1) * (B ! 7) + (A ! 2) * (B ! 6) + (A ! 3) * (B ! 5) + (A ! 4) * (B ! 4) + (A ! 5) * (B ! 3) + (A ! 6) * (B ! 2) + (A ! 7) * (B ! 1) + (A ! 8) * (B ! 0), 12 * 2 ^ 42),
     ((C ! 9) + (A ! 0) * (B ! 9) + (A ! 1) * (B ! 8) + (A ! 2) * (B ! 7) + (A ! 3) * (B ! 6) + (A ! 4) * (B ! 5) + (A ! 5) * (B ! 4) + (A ! 6) * (B ! 3) + (A ! 7) * (B ! 2) + (A ! 8) * (B ! 1) + (A ! 9) * (B ! 0), 12 * 2 ^ 42),
     ((C ! 10) + (A ! 0) * (B ! 10) + (A ! 1) * (B ! 9) + (A ! 2) * (B ! 8) + (A ! 3) * (B ! 7) + (A ! 4) * (B ! 6) + (A ! 5) * (B ! 5) + (A ! 6) * (B ! 4) + (A ! 7) * (B ! 3) + (A ! 8) * (B ! 2) + (A ! 9) * (B ! 1) + (A ! 10) * (B ! 0), 12 * 2 ^ 42),
     ((C ! 11) + (A ! 0) * (B ! 11) + (A ! 1) * (B ! 10) + (A ! 2) * (B ! 9) + (A ! 3) * (B ! 8) + (A ! 4) * (B ! 7) + (A ! 5) * (B ! 6) + (A ! 6) * (B ! 5) + (A ! 7) * (B ! 4) + (A ! 8) * (B ! 3) + (A ! 9) * (B ! 2) + (A ! 10) * (B ! 1) + (A ! 11) * (B ! 0), 3 * 2 ^ 46),
     ((A ! 1) * (B ! 11) + (A ! 2) * (B ! 10) + (A ! 3) * (B ! 9) + (A ! 4) * (B ! 8) + (A ! 5) * (B ! 7) + (A ! 6) * (B ! 6) + (A ! 7) * (B ! 5) + (A ! 8) * (B ! 4) + (A ! 9) * (B ! 3) + (A ! 10) * (B ! 2) + (A ! 11) * (B ! 1), 3 * 2 ^ 46),
     ((A ! 2) * (B ! 11) + (A ! 3) * (B ! 10) + (A ! 4) * (B ! 9) + (A ! 5) * (B ! 8) + (A ! 6) * (B ! 7) + (A ! 7) * (B ! 6) + (A ! 8) * (B ! 5) + (A ! 9) * (B ! 4) + (A ! 10) * (B ! 3) + (A ! 11) * (B ! 2), 3 * 2 ^ 46),
     ((A ! 3) * (B ! 11) + (A ! 4) * (B ! 10) + (A ! 5) * (B ! 9) + (A ! 6) * (B ! 8) + (A ! 7) * (B ! 7) + (A ! 8) * (B ! 6) + (A ! 9) * (B ! 5) + (A ! 10) * (B ! 4) + (A ! 11) * (B ! 3), 3 * 2 ^ 46),
     ((A ! 4) * (B ! 11) + (A ! 5) * (B ! 10) + (A ! 6) * (B ! 9) + (A ! 7) * (B ! 8) + (A ! 8) * (B ! 7) + (A ! 9) * (B ! 6) + (A ! 10) * (B ! 5) + (A ! 11) * (B ! 4), 3 * 2 ^ 46),
     ((A ! 5) * (B ! 11) + (A ! 6) * (B ! 10) + (A ! 7) * (B ! 9) + (A ! 8) * (B ! 8) + (A ! 9) * (B ! 7) + (A ! 10) * (B ! 6) + (A ! 11) * (B ! 5), 3 * 2 ^ 46),
     ((A ! 6) * (B ! 11) + (A ! 7) * (B ! 10) + (A ! 8) * (B ! 9) + (A ! 9) * (B ! 8) + (A ! 10) * (B ! 7) + (A ! 11) * (B ! 6), 3 * 2 ^ 46),
     ((A ! 7) * (B ! 11) + (A ! 8) * (B ! 10) + (A ! 9) * (B ! 9) + (A ! 10) * (B ! 8) + (A ! 11) * (B ! 7), 3 * 2 ^ 46),
     ((A ! 8) * (B ! 11) + (A ! 9) * (B ! 10) + (A ! 10) * (B ! 9) + (A ! 11) * (B ! 8), 3 * 2 ^ 46),
     ((A ! 9) * (B ! 11) + (A ! 10) * (B ! 10) + (A ! 11) * (B ! 9), 3 * 2 ^ 46),
     ((A ! 10) * (B ! 11) + (A ! 11) * (B ! 10), 3 * 2 ^ 46),
     ((A ! 11) * (B ! 11), 2 ^ 50),
     (0, 0)]"
proof -
  have *: "holds (d ! i) (D ! i) (2 ^ 21 - 1)" if "limbs12 d D" "i < 11" for d D i
    using that by (simp add: limbs12_def)
  have **: "holds (d ! 11) (D ! 11) (2 ^ 25 - 1)" if "limbs12 d D" for d D
    using that by (simp add: limbs12_def)
  have 0: "holds 0 0 0" by (simp add: holds_def)
  show ?thesis
    unfolding sc_muladd_sums_def list_all2_Cons list_all2_Nil simp_thms
    by (intro conjI; (rule fitsI,
        (rule holds_add holds_mult 0 | rule assms [THEN *], (simp; fail) | rule assms [THEN **])+, simp, simp))
qed

lemma fits_lists:
  assumes "list_all2 fits ws ps"
  shows "map sint ws = map fst ps" and "within (map sint ws) (map (\<lambda>p. (0, snd p)) ps)"
  using assms unfolding within_def
  by (induction ws ps rule: list_all2_induct) (simp_all add: fits_def)

lemma limbs12_load:
  assumes "length a = 32"
  shows "limbs12 (sc_muladd_load a) (digits21 11 (le_val a))"
proof -
  let ?d = "digits21 11 (le_val a)"
  have x: "le_val a < 2 ^ (21 * 11 + 25)" using le_val_less [of a] assms by simp
  have iv: "in_iv (?d ! i) ((replicate 11 (0, 2 ^ 21 - 1) @ [(0, 2 ^ 25 - 1)]) ! i)" if "i < 12" for i
    using within_nth [OF digits21_within [OF le_val_nonneg x], of i] that by simp
  have len: "length ?d = 12" by (simp add: digits21_def)
  have "holds (sc_muladd_load a ! i) (?d ! i) (2 ^ 21 - 1)" if "i < 11" for i
    using iv [of i] that len by (simp add: holds_def in_iv_def nth_append sc_muladd_load_digits [OF assms])
  moreover have "holds (sc_muladd_load a ! 11) (?d ! 11) (2 ^ 25 - 1)"
    using iv [of 11] len by (simp add: holds_def in_iv_def nth_append sc_muladd_load_digits [OF assms])
  ultimately show ?thesis by (simp add: limbs12_def)
qed

lemma upt_12: "[0..<12] = [0, 1, 2, 3, 4, 5, 6, 7, 8, 9, 10, 11]"
  by code_simp

lemma digits21_11_val:
  "D ! 0 + D ! 1 * 2 ^ 21 + D ! 2 * 2 ^ 42 + D ! 3 * 2 ^ 63 + D ! 4 * 2 ^ 84 + D ! 5 * 2 ^ 105 + D ! 6 * 2 ^ 126 + D ! 7 * 2 ^ 147 + D ! 8 * 2 ^ 168 + D ! 9 * 2 ^ 189 + D ! 10 * 2 ^ 210 + D ! 11 * 2 ^ 231 = x" if "D = digits21 11 x"
proof -
  have len: "length D = 12" by (simp add: that digits21_def)
  have "D = map ((!) D) [0..<12]" using map_nth [of D] len by simp
  then have "limb_val (map (\<lambda>i. 21 * i) [0..<12]) D = limb_val (map (\<lambda>i. 21 * i) [0..<12]) (map ((!) D) [0..<12])"
    by (rule arg_cong)
  also have "\<dots> = D ! 0 + D ! 1 * 2 ^ 21 + D ! 2 * 2 ^ 42 + D ! 3 * 2 ^ 63 + D ! 4 * 2 ^ 84 + D ! 5 * 2 ^ 105 + D ! 6 * 2 ^ 126 + D ! 7 * 2 ^ 147 + D ! 8 * 2 ^ 168 + D ! 9 * 2 ^ 189 + D ! 10 * 2 ^ 210 + D ! 11 * 2 ^ 231"
    unfolding upt_12 limb_val_def by simp
  finally show ?thesis using limb_val_digits21 [of 11 x] that by simp
qed

lemma limb_val_sums:
  "limb_val sc_weights [s0, s1, s2, s3, s4, s5, s6, s7, s8, s9, s10, s11, s12, s13, s14, s15, s16, s17, s18, s19, s20, s21, s22, s23] = s0 * 2 ^ 0 + s1 * 2 ^ 21 + s2 * 2 ^ 42 + s3 * 2 ^ 63 + s4 * 2 ^ 84 + s5 * 2 ^ 105 + s6 * 2 ^ 126 + s7 * 2 ^ 147 + s8 * 2 ^ 168 + s9 * 2 ^ 189 + s10 * 2 ^ 210 + s11 * 2 ^ 231 + s12 * 2 ^ 252 + s13 * 2 ^ 273 + s14 * 2 ^ 294 + s15 * 2 ^ 315 + s16 * 2 ^ 336 + s17 * 2 ^ 357 + s18 * 2 ^ 378 + s19 * 2 ^ 399 + s20 * 2 ^ 420 + s21 * 2 ^ 441 + s22 * 2 ^ 462 + s23 * 2 ^ 483"
  unfolding sc_weights_eq limb_val_def by simp

lemma sc_muladd_pack_eq: "sc_muladd_pack = sc_reduce_pack"
  by (rule ext) (simp only: sc_muladd_pack_def sc_reduce_pack_def)

lemma sc_muladd_ok:
  assumes "length a = 32" and "length b = 32" and "length c = 32"
  shows "le_val (sc_muladd a b c) = (le_val a * le_val b + le_val c) mod order25519"
proof -
  obtain iv where iv: "bnd_ops 64 (sc_muladd_carry_all @ sc_head)
      (replicate 11 (0, 12 * 2 ^ 42) @ replicate 11 (0, 3 * 2 ^ 46) @ [(0, 2 ^ 50), (0, 0)]) = Some iv" and "head_ok iv"
    using sc_muladd_head_bnd by (auto split: option.splits)
  define A B C where "A = digits21 11 (le_val a)" and "B = digits21 11 (le_val b)" and "C = digits21 11 (le_val c)"
  let ?h = "sc_muladd_sums (sc_muladd_load a) (sc_muladd_load b) (sc_muladd_load c)"
  note fit = fits_lists [OF sc_muladd_sums_fit [OF limbs12_load [OF assms(1)] limbs12_load [OF assms(2)]
        limbs12_load [OF assms(3)], folded A_def B_def C_def]]
  have ops: "list_all (op_ok order25519 sc_weights) (sc_muladd_carry_all @ sc_head)"
    using sc_head_ok_order by simp
  have w: "within (map sint ?h) (replicate 11 (0, 12 * 2 ^ 42) @ replicate 11 (0, 3 * 2 ^ 46) @ [(0, 2 ^ 50), (0, 0)])"
    using fit(2) by (simp only: list.map fst_conv snd_conv) (simp add: numeral_eq_Suc)
  have "limb_val sc_weights (map sint ?h) = le_val a * le_val b + le_val c"
    unfolding fit(1) list.map fst_conv limb_val_sums sc_muladd_poly mult_zero_left add_0_right
      digits21_11_val [OF A_def] digits21_11_val [OF B_def] digits21_11_val [OF C_def] ..
  moreover have "length ?h = 24" by (simp add: sc_muladd_sums_def)
  ultimately show ?thesis
    using sc_pipeline [OF iv \<open>head_ok iv\<close> w _ ops]
    unfolding sc_muladd_def sc_muladd_ops_eq sc_muladd_pack_eq by simp
qed

lemma length_sc_reduce [simp]: "length (sc_reduce s) = 32"
  by (simp add: sc_reduce_def sc_reduce_pack_def)

lemma length_sc_muladd [simp]: "length (sc_muladd a b c) = 32"
  by (simp add: sc_muladd_def sc_muladd_pack_def)

section \<open>Properties\<close>

text \<open>Claim (C22): \<open>sc_reduce\<close> reduces a 64-byte scalar modulo the group order: no 64-bit overflow in its 480
  statements, and the 32 bytes written are the fully reduced residue.\<close>

theorem sc_reduce_correct:
  assumes "length s = 64"
  shows "le_val (sc_reduce s) = le_val s mod order25519 \<and> length (sc_reduce s) = 32"
  using sc_reduce_ok [OF assms] by simp

theorem sc_reduce_correct_witness: "le_val (sc_reduce (replicate 64 255)) = le_val (replicate 64 255) mod order25519"
  by (rule sc_reduce_correct [THEN conjunct1]) simp

text \<open>\<open>sc_muladd\<close> computes \<open>(a b + c) mod l\<close>, fully reduced, for arbitrary 32-byte operands.\<close>

theorem sc_muladd_correct:
  assumes "length a = 32" and "length b = 32" and "length c = 32"
  shows "le_val (sc_muladd a b c) = (le_val a * le_val b + le_val c) mod order25519 \<and> length (sc_muladd a b c) = 32"
  using sc_muladd_ok [OF assms] by simp

theorem sc_muladd_correct_witness:
  "le_val (sc_muladd (replicate 32 255) (replicate 32 1) (replicate 32 7))
    = (le_val (replicate 32 255) * le_val (replicate 32 1) + le_val (replicate 32 7)) mod order25519"
  by (rule sc_muladd_correct [THEN conjunct1]) simp_all

end
