(* ===== verification/Sha512.thy ===== *)
theory Sha512
  imports Prelude
begin

text \<open>
  SHA-512 (\<^verbatim>\<open>sha512.c\<close>): the compression function, the streaming interface \<open>sha512_init\<close>,
  \<open>sha512_update\<close>, \<open>sha512_final\<close> over a context, and the one-shot \<open>sha512\<close>.  A pointer argument that
  the code compares with \<^verbatim>\<open>NULL\<close> is an \<open>option\<close>; an operation returns the code's return value together
  with the memory it may have changed.  \<^verbatim>\<open>size_t\<close> is 64 bits wide.  Shown here: the compression function is
  the one of the standard (rotating working variables instead of rotating names), an arbitrary sequence of
  updates followed by \<open>sha512_final\<close> produces the digest of the concatenated message, and the
  padding is the standard's (with the upper half of the 128-bit length zero).
\<close>

section \<open>Definitions\<close>

record sha512_context =
  ctx_length :: u64
  ctx_state :: "u64 list"
  ctx_curlen :: u64
  ctx_buf :: bytes

text \<open>The macro \<^verbatim>\<open>UINT64_C(x)\<close> of \<^verbatim>\<open>fixedint.h\<close>: a literal of type \<^verbatim>\<open>uint64_t\<close>.\<close>

definition UINT64_C :: "u64 \<Rightarrow> u64" where
  "UINT64_C x = x"

definition K :: "u64 list" where
  "K =
    [UINT64_C 0x428a2f98d728ae22, UINT64_C 0x7137449123ef65cd, UINT64_C 0xb5c0fbcfec4d3b2f,
     UINT64_C 0xe9b5dba58189dbbc, UINT64_C 0x3956c25bf348b538, UINT64_C 0x59f111f1b605d019,
     UINT64_C 0x923f82a4af194f9b, UINT64_C 0xab1c5ed5da6d8118, UINT64_C 0xd807aa98a3030242,
     UINT64_C 0x12835b0145706fbe, UINT64_C 0x243185be4ee4b28c, UINT64_C 0x550c7dc3d5ffb4e2,
     UINT64_C 0x72be5d74f27b896f, UINT64_C 0x80deb1fe3b1696b1, UINT64_C 0x9bdc06a725c71235,
     UINT64_C 0xc19bf174cf692694, UINT64_C 0xe49b69c19ef14ad2, UINT64_C 0xefbe4786384f25e3,
     UINT64_C 0x0fc19dc68b8cd5b5, UINT64_C 0x240ca1cc77ac9c65, UINT64_C 0x2de92c6f592b0275,
     UINT64_C 0x4a7484aa6ea6e483, UINT64_C 0x5cb0a9dcbd41fbd4, UINT64_C 0x76f988da831153b5,
     UINT64_C 0x983e5152ee66dfab, UINT64_C 0xa831c66d2db43210, UINT64_C 0xb00327c898fb213f,
     UINT64_C 0xbf597fc7beef0ee4, UINT64_C 0xc6e00bf33da88fc2, UINT64_C 0xd5a79147930aa725,
     UINT64_C 0x06ca6351e003826f, UINT64_C 0x142929670a0e6e70, UINT64_C 0x27b70a8546d22ffc,
     UINT64_C 0x2e1b21385c26c926, UINT64_C 0x4d2c6dfc5ac42aed, UINT64_C 0x53380d139d95b3df,
     UINT64_C 0x650a73548baf63de, UINT64_C 0x766a0abb3c77b2a8, UINT64_C 0x81c2c92e47edaee6,
     UINT64_C 0x92722c851482353b, UINT64_C 0xa2bfe8a14cf10364, UINT64_C 0xa81a664bbc423001,
     UINT64_C 0xc24b8b70d0f89791, UINT64_C 0xc76c51a30654be30, UINT64_C 0xd192e819d6ef5218,
     UINT64_C 0xd69906245565a910, UINT64_C 0xf40e35855771202a, UINT64_C 0x106aa07032bbd1b8,
     UINT64_C 0x19a4c116b8d2d0c8, UINT64_C 0x1e376c085141ab53, UINT64_C 0x2748774cdf8eeb99,
     UINT64_C 0x34b0bcb5e19b48a8, UINT64_C 0x391c0cb3c5c95a63, UINT64_C 0x4ed8aa4ae3418acb,
     UINT64_C 0x5b9cca4f7763e373, UINT64_C 0x682e6ff3d6b2b8a3, UINT64_C 0x748f82ee5defb2fc,
     UINT64_C 0x78a5636f43172f60, UINT64_C 0x84c87814a1f0ab72, UINT64_C 0x8cc702081a6439ec,
     UINT64_C 0x90befffa23631e28, UINT64_C 0xa4506cebde82bde9, UINT64_C 0xbef9a3f7b2c67915,
     UINT64_C 0xc67178f2e372532b, UINT64_C 0xca273eceea26619c, UINT64_C 0xd186b8c721c0c207,
     UINT64_C 0xeada7dd6cde0eb1e, UINT64_C 0xf57d4f7fee6ed178, UINT64_C 0x06f067aa72176fba,
     UINT64_C 0x0a637dc5a2c898a6, UINT64_C 0x113f9804bef90dae, UINT64_C 0x1b710b35131c471b,
     UINT64_C 0x28db77f523047d84, UINT64_C 0x32caab7b40c72493, UINT64_C 0x3c9ebe0a15c9bebc,
     UINT64_C 0x431d67c49c100d4c, UINT64_C 0x4cc5d4becb3e42b6, UINT64_C 0x597f299cfc657e2a,
     UINT64_C 0x5fcb6fab3ad6faec, UINT64_C 0x6c44198c4a475817]"

definition ROR64c :: "u64 \<Rightarrow> nat \<Rightarrow> u64" where
  "ROR64c x y =
    (shr (x AND 0xFFFFFFFFFFFFFFFF) (y mod 64) OR shl x (64 - y mod 64)) AND 0xFFFFFFFFFFFFFFFF"

definition STORE64H :: "u64 \<Rightarrow> bytes \<Rightarrow> nat \<Rightarrow> bytes" where
  "STORE64H x y k =
    y[k := ucast (shr x 56 AND 255), k + 1 := ucast (shr x 48 AND 255),
      k + 2 := ucast (shr x 40 AND 255), k + 3 := ucast (shr x 32 AND 255),
      k + 4 := ucast (shr x 24 AND 255), k + 5 := ucast (shr x 16 AND 255),
      k + 6 := ucast (shr x 8 AND 255), k + 7 := ucast (x AND 255)]"

definition LOAD64H :: "bytes \<Rightarrow> nat \<Rightarrow> u64" where
  "LOAD64H y k =
     shl (ucast (y ! k AND 255)) 56 OR shl (ucast (y ! (k + 1) AND 255)) 48 OR
     shl (ucast (y ! (k + 2) AND 255)) 40 OR shl (ucast (y ! (k + 3) AND 255)) 32 OR
     shl (ucast (y ! (k + 4) AND 255)) 24 OR shl (ucast (y ! (k + 5) AND 255)) 16 OR
     shl (ucast (y ! (k + 6) AND 255)) 8 OR ucast (y ! (k + 7) AND 255)"

definition Ch :: "u64 \<Rightarrow> u64 \<Rightarrow> u64 \<Rightarrow> u64" where
  "Ch x y z = z XOR (x AND (y XOR z))"

definition Maj :: "u64 \<Rightarrow> u64 \<Rightarrow> u64 \<Rightarrow> u64" where
  "Maj x y z = ((x OR y) AND z) OR (x AND y)"

definition Sigma0 :: "u64 \<Rightarrow> u64" where
  "Sigma0 x = ROR64c x 28 XOR ROR64c x 34 XOR ROR64c x 39"

definition Sigma1 :: "u64 \<Rightarrow> u64" where
  "Sigma1 x = ROR64c x 14 XOR ROR64c x 18 XOR ROR64c x 41"

definition Gamma0 :: "u64 \<Rightarrow> u64" where
  "Gamma0 x = ROR64c x 1 XOR ROR64c x 8 XOR shr (x AND 0xFFFFFFFFFFFFFFFF) 7"

definition Gamma1 :: "u64 \<Rightarrow> u64" where
  "Gamma1 x = ROR64c x 19 XOR ROR64c x 61 XOR shr (x AND 0xFFFFFFFFFFFFFFFF) 6"

text \<open>The array \<open>W\<close> after the two loops that fill it.\<close>

definition fill_W :: "bytes \<Rightarrow> u64 list" where
  "fill_W buf =
    (let W = map (\<lambda>i. LOAD64H buf (8 * i)) [0..<16]
     in fold (\<lambda>i W. W @ [Gamma1 (W ! (i - 2)) + W ! (i - 7) + Gamma0 (W ! (i - 15)) + W ! (i - 16)])
          [16..<80] W)"

text \<open>The macro \<open>RND\<close> on positions of the array \<open>S\<close>.\<close>

definition RND :: "u64 list \<Rightarrow> nat \<Rightarrow> nat \<Rightarrow> nat \<Rightarrow> nat \<Rightarrow> nat \<Rightarrow> nat \<Rightarrow> nat \<Rightarrow> nat \<Rightarrow> nat \<Rightarrow> u64 list \<Rightarrow> u64 list" where
  "RND W a b c d e f g h i S =
    (let t0 = S ! h + Sigma1 (S ! e) + Ch (S ! e) (S ! f) (S ! g) + K ! i + W ! i;
         t1 = Sigma0 (S ! a) + Maj (S ! a) (S ! b) (S ! c);
         S = S[d := S ! d + t0]
     in S[h := t0 + t1])"

definition RND8 :: "u64 list \<Rightarrow> nat \<Rightarrow> u64 list \<Rightarrow> u64 list" where
  "RND8 W i S =
    (let S = RND W 0 1 2 3 4 5 6 7 (i + 0) S;
         S = RND W 7 0 1 2 3 4 5 6 (i + 1) S;
         S = RND W 6 7 0 1 2 3 4 5 (i + 2) S;
         S = RND W 5 6 7 0 1 2 3 4 (i + 3) S;
         S = RND W 4 5 6 7 0 1 2 3 (i + 4) S;
         S = RND W 3 4 5 6 7 0 1 2 (i + 5) S;
         S = RND W 2 3 4 5 6 7 0 1 (i + 6) S;
         S = RND W 1 2 3 4 5 6 7 0 (i + 7) S
     in S)"

definition sha512_compress :: "sha512_context \<Rightarrow> bytes \<Rightarrow> int \<times> sha512_context" where
  "sha512_compress md buf =
    (let S = map (\<lambda>i. ctx_state md ! i) [0..<8];
         W = fill_W buf;
         S = fold (RND8 W) [0, 8, 16, 24, 32, 40, 48, 56, 64, 72] S
     in (0, md\<lparr>ctx_state := map (\<lambda>i. ctx_state md ! i + S ! i) [0..<8]\<rparr>))"

definition sha512_init :: "sha512_context option \<Rightarrow> int \<times> sha512_context option" where
  "sha512_init md =
    (case md of
       None \<Rightarrow> (1, None)
     | Some md \<Rightarrow> (0, Some (md\<lparr>ctx_curlen := 0, ctx_length := 0,
         ctx_state := [0x6a09e667f3bcc908, 0xbb67ae8584caa73b, 0x3c6ef372fe94f82b, 0xa54ff53a5f1d36f1,
           0x510e527fade682d1, 0x9b05688c2b3e6c1f, 0x1f83d9abfb41bd6b, 0x5be0cd19137e2179]\<rparr>)))"

text \<open>The loop \<^verbatim>\<open>for (i = 0; i < n; i++) md->buf[i + md->curlen] = in[i];\<close>.\<close>

definition fill_buf :: "bytes \<Rightarrow> u64 \<Rightarrow> bytes \<Rightarrow> nat \<Rightarrow> bytes" where
  "fill_buf buf curlen inp n = fold (\<lambda>i buf. buf[unat (of_nat i + curlen) := inp ! i]) [0..<n] buf"

text \<open>The \<^verbatim>\<open>while (inlen > 0)\<close> loop; \<open>inp\<close> are the \<open>inlen\<close> bytes still to be read at \<open>in\<close>.\<close>

lemma compress_curlen: "(err, md') = sha512_compress md b \<Longrightarrow> ctx_curlen md' = ctx_curlen md"
  by (simp add: sha512_compress_def Let_def)

lemma no_room: "inp \<noteq> [] \<Longrightarrow> min (length inp) (unat (128 - c)) = 0 \<longleftrightarrow> c = 128" for c :: u64
  by (auto simp: min_def unat_eq_0)

lemma no_room_iff: "inp \<noteq> [] \<Longrightarrow> length inp - min (length inp) (unat (128 - c)) < length inp \<longleftrightarrow> c \<noteq> 128" for c :: u64
  using no_room [of inp c] by (cases "length inp") (auto simp: diff_less_Suc)

function sha512_update_loop :: "sha512_context \<Rightarrow> bytes \<Rightarrow> int \<times> sha512_context" where
  "sha512_update_loop md inp =
    (if inp = [] then (0, md)
     else if ctx_curlen md = 0 \<and> 128 \<le> length inp then
       (let (err, md) = sha512_compress md inp
        in if err \<noteq> 0 then (err, md)
           else sha512_update_loop (md\<lparr>ctx_length := ctx_length md + 128 * 8\<rparr>) (drop 128 inp))
     else
       (let n = min (length inp) (unat (128 - ctx_curlen md));
            md = md\<lparr>ctx_buf := fill_buf (ctx_buf md) (ctx_curlen md) inp n\<rparr>;
            md = md\<lparr>ctx_curlen := ctx_curlen md + of_nat n\<rparr>
        in if ctx_curlen md = 128 then
             (let (err, md) = sha512_compress md (ctx_buf md)
              in if err \<noteq> 0 then (err, md)
                 else sha512_update_loop
                        (md\<lparr>ctx_length := ctx_length md + 8 * 128, ctx_curlen := 0\<rparr>) (drop n inp))
           else sha512_update_loop md (drop n inp)))"
  by pat_completeness auto

termination
  by (relation "measure (\<lambda>(md, inp). 2 * length inp + (if ctx_curlen md = 128 then 1 else 0))")
    (auto dest!: compress_curlen simp: no_room_iff)

declare sha512_update_loop.simps [simp del]

definition sha512_update :: "sha512_context option \<Rightarrow> bytes option \<Rightarrow> int \<times> sha512_context option" where
  "sha512_update md inp =
    (case md of
       None \<Rightarrow> (1, None)
     | Some md \<Rightarrow>
         (case inp of
            None \<Rightarrow> (1, Some md)
          | Some inp \<Rightarrow>
              if 128 < ctx_curlen md then (1, Some md)
              else (let (err, md) = sha512_update_loop md inp in (err, Some md))))"

text \<open>The loop \<^verbatim>\<open>while (md->curlen < n) md->buf[md->curlen++] = 0;\<close>.\<close>

function zero_fill :: "u64 \<Rightarrow> sha512_context \<Rightarrow> sha512_context" where
  "zero_fill n md =
    (if ctx_curlen md < n then
       zero_fill n (md\<lparr>ctx_buf := (ctx_buf md)[unat (ctx_curlen md) := 0], ctx_curlen := ctx_curlen md + 1\<rparr>)
     else md)"
  by pat_completeness auto

termination
proof (relation "measure (\<lambda>(n, md). unat n - unat (ctx_curlen md))")
  fix n :: u64 and md
  assume "ctx_curlen md < n"
  moreover from this have "unat (ctx_curlen md + 1) = unat (ctx_curlen md) + 1"
  proof -
    have "unat n < 2 ^ LENGTH(64)" by (rule unsigned_less)
    with \<open>ctx_curlen md < n\<close> show ?thesis
      using unat_add_lem [of "ctx_curlen md" 1] by (simp add: word_less_nat_alt)
  qed
  ultimately show "((n, md\<lparr>ctx_buf := (ctx_buf md)[unat (ctx_curlen md) := 0], ctx_curlen := ctx_curlen md + 1\<rparr>), n, md)
      \<in> measure (\<lambda>(n, md). unat n - unat (ctx_curlen md))"
    by (simp add: word_less_nat_alt)
qed simp

declare zero_fill.simps [simp del]

definition sha512_final ::
    "sha512_context option \<Rightarrow> bytes option \<Rightarrow> int \<times> sha512_context option \<times> bytes option" where
  "sha512_final md out =
    (case md of
       None \<Rightarrow> (1, None, out)
     | Some md \<Rightarrow>
         (case out of
            None \<Rightarrow> (1, Some md, None)
          | Some out \<Rightarrow>
              if 128 \<le> ctx_curlen md then (1, Some md, Some out)
              else
                (let md = md\<lparr>ctx_length := ctx_length md + ctx_curlen md * 8\<rparr>;
                     md = md\<lparr>ctx_buf := (ctx_buf md)[unat (ctx_curlen md) := 0x80], ctx_curlen := ctx_curlen md + 1\<rparr>;
                     md = (if 112 < ctx_curlen md then
                             (let md = zero_fill 128 md;
                                  (_, md) = sha512_compress md (ctx_buf md)
                              in md\<lparr>ctx_curlen := 0\<rparr>)
                           else md);
                     md = zero_fill 120 md;
                     md = md\<lparr>ctx_buf := STORE64H (ctx_length md) (ctx_buf md) 120\<rparr>;
                     (_, md) = sha512_compress md (ctx_buf md);
                     out = fold (\<lambda>i out. STORE64H (ctx_state md ! i) out (8 * i)) [0..<8] out
                 in (0, Some md, Some out))))"

text \<open>The one-shot function; \<open>ctx\<close> is the uninitialised local context.\<close>

definition sha512 :: "sha512_context \<Rightarrow> bytes option \<Rightarrow> bytes option \<Rightarrow> int \<times> bytes option" where
  "sha512 ctx message out =
    (let (ret, ctx) = sha512_init (Some ctx)
     in if ret \<noteq> 0 then (ret, out)
        else let (ret, ctx) = sha512_update ctx message
             in if ret \<noteq> 0 then (ret, out)
                else let (ret, ctx, out) = sha512_final ctx out
                     in if ret \<noteq> 0 then (ret, out) else (0, out))"

section \<open>The compression function of the standard\<close>

text \<open>FIPS 180-4, section 6.4: functions, message schedule, round and compression of one block.\<close>

definition fips_Ch :: "u64 \<Rightarrow> u64 \<Rightarrow> u64 \<Rightarrow> u64" where
  "fips_Ch x y z = (x AND y) XOR (NOT x AND z)"

definition fips_Maj :: "u64 \<Rightarrow> u64 \<Rightarrow> u64 \<Rightarrow> u64" where
  "fips_Maj x y z = (x AND y) XOR (x AND z) XOR (y AND z)"

definition fips_Sigma0 :: "u64 \<Rightarrow> u64" where
  "fips_Sigma0 x = word_rotr 28 x XOR word_rotr 34 x XOR word_rotr 39 x"

definition fips_Sigma1 :: "u64 \<Rightarrow> u64" where
  "fips_Sigma1 x = word_rotr 14 x XOR word_rotr 18 x XOR word_rotr 41 x"

definition fips_sigma0 :: "u64 \<Rightarrow> u64" where
  "fips_sigma0 x = word_rotr 1 x XOR word_rotr 8 x XOR shr x 7"

definition fips_sigma1 :: "u64 \<Rightarrow> u64" where
  "fips_sigma1 x = word_rotr 19 x XOR word_rotr 61 x XOR shr x 6"

fun fips_W :: "bytes \<Rightarrow> nat \<Rightarrow> u64" where
  "fips_W blk t =
    (if t < 16 then LOAD64H blk (8 * t)
     else fips_sigma1 (fips_W blk (t - 2)) + fips_W blk (t - 7) + fips_sigma0 (fips_W blk (t - 15)) + fips_W blk (t - 16))"

declare fips_W.simps [simp del]

fun fips_round :: "(nat \<Rightarrow> u64) \<Rightarrow> nat \<Rightarrow> u64 list \<Rightarrow> u64 list" where
  "fips_round W t [a, b, c, d, e, f, g, h] =
    (let T1 = h + fips_Sigma1 e + fips_Ch e f g + K ! t + W t;
         T2 = fips_Sigma0 a + fips_Maj a b c
     in [T1 + T2, a, b, c, d + T1, e, f, g])"
| "fips_round W t _ = []"

definition fips_compress :: "u64 list \<Rightarrow> bytes \<Rightarrow> u64 list" where
  "fips_compress st blk = map2 (+) st (fold (fips_round (fips_W blk)) [0..<80] st)"

lemma and_all_ones: "x AND 0xFFFFFFFFFFFFFFFF = x" for x :: u64
proof -
  have "(0xFFFFFFFFFFFFFFFF :: u64) = - 1" by simp
  then show ?thesis by (simp only: and.right_neutral)
qed

lemma ROR64c_rotr:
  assumes "0 < n" and "n < 64"
  shows "ROR64c x n = word_rotr n x"
proof (rule bit_word_eqI)
  fix k
  assume "k < LENGTH(64)"
  then have k: "k < 64" by simp
  have l: "bit (ROR64c x n) k \<longleftrightarrow> bit x (n + k) \<or> 64 - n \<le> k \<and> bit x (k - (64 - n))"
    unfolding ROR64c_def and_all_ones using assms(2) k
    by (simp add: bit_or_iff bit_drop_bit_eq bit_push_bit_iff)
  have r: "bit (word_rotr n x) k \<longleftrightarrow> bit x ((k + n) mod 64)"
    using k by (simp add: bit_word_rotr_iff)
  show "bit (ROR64c x n) k \<longleftrightarrow> bit (word_rotr n x) k"
  proof (cases "k + n < 64")
    case True
    then have "\<not> 64 - n \<le> k" using assms(2) by linarith
    with True show ?thesis unfolding l r by (simp add: add.commute)
  next
    case False
    then have "(k + n) mod 64 = k - (64 - n)" using k assms by (simp add: mod_if)
    moreover have "\<not> bit x (n + k)" using False bit_imp_le_length [of x "n + k"] by auto
    moreover have "64 - n \<le> k" using False by linarith
    ultimately show ?thesis unfolding l r by simp
  qed
qed

lemma Ch_eq: "Ch = fips_Ch"
  unfolding Ch_def fips_Ch_def fun_eq_iff
  by (intro allI bit_word_eqI) (auto simp: bit_xor_iff bit_and_iff bit_not_iff)

lemma Maj_eq: "Maj = fips_Maj"
  unfolding Maj_def fips_Maj_def fun_eq_iff
  by (intro allI bit_word_eqI) (auto simp: bit_xor_iff bit_and_iff bit_or_iff)

lemma Sigma_eq: "Sigma0 = fips_Sigma0" "Sigma1 = fips_Sigma1" "Gamma0 = fips_sigma0" "Gamma1 = fips_sigma1"
  by (intro ext, simp add: Sigma0_def Sigma1_def Gamma0_def Gamma1_def fips_Sigma0_def fips_Sigma1_def
      fips_sigma0_def fips_sigma1_def ROR64c_rotr and_all_ones)+

lemmas fips_eqs = Ch_eq Maj_eq Sigma_eq

text \<open>The array \<open>W\<close> is the message schedule.\<close>

lemma fill_W_prefix:
  "fold (\<lambda>i W. W @ [Gamma1 (W ! (i - 2)) + W ! (i - 7) + Gamma0 (W ! (i - 15)) + W ! (i - 16)])
    [16..<16 + n] (map (\<lambda>i. LOAD64H buf (8 * i)) [0..<16]) = map (fips_W buf) [0..<16 + n]"
proof (induction n)
  case 0
  show ?case by (simp add: fips_W.simps)
next
  case (Suc n)
  have "fips_W buf (16 + n) = fips_sigma1 (fips_W buf (16 + n - 2)) + fips_W buf (16 + n - 7)
      + fips_sigma0 (fips_W buf (16 + n - 15)) + fips_W buf (16 + n - 16)"
    by (subst fips_W.simps) simp
  moreover have "[16..<16 + Suc n] = [16..<16 + n] @ [16 + n]" and "[0..<16 + Suc n] = [0..<16 + n] @ [16 + n]"
    unfolding add_Suc_right by (rule upt_Suc_append, simp)+
  ultimately show ?case using Suc by (simp add: fips_eqs del: upt_Suc)
qed

lemma fill_W_eq: "fill_W buf = map (fips_W buf) [0..<80]"
proof -
  have "16 + 64 = (80::nat)" by simp
  from fill_W_prefix [of 64 buf, unfolded this] show ?thesis by (simp only: fill_W_def Let_def)
qed

text \<open>A round leaves the array in place and renames the positions: after \<open>k\<close> rounds the working variable
  number \<open>j\<close> of the standard is at position \<open>j - k\<close> modulo 8.\<close>

lemma RND_fips:
  assumes "distinct [a, b, c, d, e, f, g, h]" and "set [a, b, c, d, e, f, g, h] \<subseteq> {..<length S}" and "Wl ! t = W t"
  shows "fips_round W t (map ((!) S) [a, b, c, d, e, f, g, h])
    = map ((!) (RND Wl a b c d e f g h t S)) [h, a, b, c, d, e, f, g]"
  using assms by (auto simp: RND_def Let_def fips_eqs nth_list_update)

lemma length_RND [simp]: "length (RND W a b c d e f g h i S) = length S"
  by (simp add: RND_def Let_def)

lemma list_8: "length S = 8 \<Longrightarrow> map ((!) S) [0, 1, 2, 3, 4, 5, 6, 7] = S"
  by (rule nth_equalityI) (auto simp: less_Suc_eq numeral_eq_Suc)

lemma RND8_eq:
  assumes "length S = 8" and "i + 8 \<le> 80"
  shows "RND8 (map W [0..<80]) i S = fold (fips_round W) [i..<i + 8] S"
proof -
  have W: "map W [0..<80] ! (i + j) = W (i + j)" if "j < 8" for j
    using that assms(2) by simp
  have upt: "[i..<i + 8] = [i + 0, i + 1, i + 2, i + 3, i + 4, i + 5, i + 6, i + 7]"
    by (simp add: upt_conv_Cons numeral_eq_Suc)
  note step = RND_fips [where Wl = "map W [0..<80]" and W = W, OF _ _ W]
  have "fold (fips_round W) [i..<i + 8] (map ((!) S) [0, 1, 2, 3, 4, 5, 6, 7])
      = map ((!) (RND8 (map W [0..<80]) i S)) [0, 1, 2, 3, 4, 5, 6, 7]"
    unfolding upt RND8_def Let_def fold_simps
    by (subst step, simp, simp add: assms(1), simp)+ (rule refl)
  moreover have "length (RND8 (map W [0..<80]) i S) = 8"
    unfolding RND8_def Let_def using assms(1) by (simp only: length_RND)
  ultimately show ?thesis using assms(1) by (simp only: list_8)
qed

lemma length_fips_round [simp]: "length S = 8 \<Longrightarrow> length (fips_round W t S) = 8"
  by (auto simp: length_Suc_conv numeral_eq_Suc Let_def)

lemma length_fips_fold [simp]: "length S = 8 \<Longrightarrow> length (fold (fips_round W) ts S) = 8"
  by (induction ts arbitrary: S) simp_all

lemma rounds_eq:
  assumes "length S = 8" and "Wl = map W [0..<80]"
  shows "fold (RND8 Wl) [0, 8, 16, 24, 32, 40, 48, 56, 64, 72] S = fold (fips_round W) [0..<80] S"
proof -
  have upt: "[0..<80] = [0..<0+8] @ [8..<8+8] @ [16..<16+8] @ [24..<24+8] @ [32..<32+8] @ [40..<40+8]
      @ [48..<48+8] @ [56..<56+8] @ [64..<64+8] @ [72..<72+8::nat]" by code_simp
  show ?thesis unfolding upt fold_append o_apply fold_simps
    using assms(1) by (simp only: assms(2) RND8_eq length_fips_fold)
qed

definition compress :: "u64 list \<Rightarrow> bytes \<Rightarrow> u64 list" where
  "compress st blk = ctx_state (snd (sha512_compress \<lparr>ctx_length = 0, ctx_state = st, ctx_curlen = 0, ctx_buf = []\<rparr> blk))"

lemma sha512_compress_eq: "sha512_compress md blk = (0, md\<lparr>ctx_state := compress (ctx_state md) blk\<rparr>)"
  by (simp add: sha512_compress_def compress_def Let_def)

lemma compress_fips:
  assumes "length st = 8"
  shows "compress st blk = fips_compress st blk"
proof -
  have "map ((!) st) [0..<8] = st" using map_nth [of st] assms by simp
  then show ?thesis
    unfolding compress_def sha512_compress_def Let_def snd_conv sha512_context.select_convs sha512_context.update_convs
      fips_compress_def fill_W_eq
    using assms by (subst rounds_eq [OF _ refl]) (auto intro: nth_equalityI)
qed

lemma length_compress [simp]: "length (compress st blk) = 8"
  by (simp add: compress_def sha512_compress_def Let_def)

section \<open>Streaming\<close>

text \<open>The chaining value after the whole blocks of a message.\<close>

function hash_blocks :: "u64 list \<Rightarrow> bytes \<Rightarrow> u64 list" where
  "hash_blocks st m = (if length m < 128 then st else hash_blocks (compress st m) (drop 128 m))"
  by pat_completeness auto

termination by (relation "measure (\<lambda>(st, m). length m)") auto

declare hash_blocks.simps [simp del]

lemma LOAD64H_prefix: "k + 7 < length a \<Longrightarrow> LOAD64H (a @ b) k = LOAD64H a k"
  by (simp add: LOAD64H_def nth_append)

lemma fips_W_prefix: "128 \<le> length a \<Longrightarrow> fips_W (a @ b) t = fips_W a t"
proof (induction "a @ b" t rule: fips_W.induct)
  case (1 t)
  show ?case
  proof (cases "t < 16")
    case True
    then show ?thesis using 1(5) by (simp add: fips_W.simps [of _ t] LOAD64H_prefix)
  next
    case False
    then show ?thesis using 1 by (subst (1 2) fips_W.simps) simp
  qed
qed

lemma compress_prefix: "128 \<le> length a \<Longrightarrow> compress st (a @ b) = compress st a"
proof -
  assume "128 \<le> length a"
  then have "fill_W (a @ b) = fill_W a" by (simp add: fill_W_eq fips_W_prefix)
  then show ?thesis by (simp only: compress_def sha512_compress_def)
qed

lemma hash_blocks_append: "128 dvd length a \<Longrightarrow> hash_blocks st (a @ b) = hash_blocks (hash_blocks st a) b"
proof (induction st a rule: hash_blocks.induct)
  case (1 st a)
  show ?case
  proof (cases "length a < 128")
    case True
    with 1(2) have "a = []" by (auto dest: dvd_imp_le)
    then show ?thesis by (simp add: hash_blocks.simps [of st "[]"])
  next
    case False
    then have "128 dvd length (drop 128 a)" using 1(2) by (simp add: dvd_diff_nat)
    from 1(1) [OF False this] False show ?thesis
      by (simp add: hash_blocks.simps [of st] compress_prefix)
  qed
qed

lemma hash_blocks_one: "length b = 128 \<Longrightarrow> hash_blocks st b = compress st b"
  by (simp add: hash_blocks.simps)

lemma length_hash_blocks [simp]: "length st = 8 \<Longrightarrow> length (hash_blocks st m) = 8"
proof (induction st m rule: hash_blocks.induct)
  case (1 st m)
  then show ?case by (subst hash_blocks.simps) simp
qed

text \<open>The same over the compression function of the standard.\<close>

function fips_blocks :: "u64 list \<Rightarrow> bytes \<Rightarrow> u64 list" where
  "fips_blocks st m = (if length m < 128 then st else fips_blocks (fips_compress st m) (drop 128 m))"
  by pat_completeness auto

termination by (relation "measure (\<lambda>(st, m). length m)") auto

declare fips_blocks.simps [simp del]

lemma hash_blocks_fips: "length st = 8 \<Longrightarrow> hash_blocks st m = fips_blocks st m"
proof (induction st m rule: hash_blocks.induct)
  case (1 st m)
  then show ?case by (subst hash_blocks.simps, subst fips_blocks.simps) (auto simp: compress_fips [symmetric])
qed

definition sha512_iv :: "u64 list" where
  "sha512_iv = [0x6a09e667f3bcc908, 0xbb67ae8584caa73b, 0x3c6ef372fe94f82b, 0xa54ff53a5f1d36f1,
     0x510e527fade682d1, 0x9b05688c2b3e6c1f, 0x1f83d9abfb41bd6b, 0x5be0cd19137e2179]"

text \<open>The context after the message \<open>a @ r\<close>: whole blocks \<open>a\<close> are compressed, the rest \<open>r\<close> is buffered.\<close>

definition absorbed_split :: "sha512_context \<Rightarrow> bytes \<Rightarrow> bytes \<Rightarrow> bool" where
  "absorbed_split md a r \<longleftrightarrow>
     128 dvd length a \<and> length r < 128 \<and> ctx_state md = hash_blocks sha512_iv a \<and>
     ctx_curlen md = of_nat (length r) \<and> length (ctx_buf md) = 128 \<and> take (length r) (ctx_buf md) = r \<and>
     ctx_length md = of_nat (8 * length a)"

definition absorbed :: "sha512_context \<Rightarrow> bytes \<Rightarrow> bool" where
  "absorbed md m \<longleftrightarrow> (\<exists>a r. m = a @ r \<and> absorbed_split md a r)"

lemma unat_small: "n \<le> 128 \<Longrightarrow> unat (of_nat n :: u64) = n"
  by (simp add: unat_of_nat)

lemma of_nat_eq_small: "m \<le> 128 \<Longrightarrow> n \<le> 128 \<Longrightarrow> (of_nat m :: u64) = of_nat n \<longleftrightarrow> m = n"
  by (metis unat_small)

lemma unat_room: "c \<le> 128 \<Longrightarrow> unat (128 - of_nat c :: u64) = 128 - c"
  using unat_sub [of "of_nat c" "128 :: u64"] unat_small [of c]
  by (simp add: word_le_nat_alt)

lemma fill_buf_eq:
  assumes "c + n \<le> length buf" and "n \<le> length inp" and "c + n \<le> 128"
  shows "fill_buf buf (of_nat c) inp n = take c buf @ take n inp @ drop (c + n) buf"
  using assms
proof (induction n)
  case 0
  then show ?case by (simp add: fill_buf_def)
next
  case (Suc n)
  have "unat (of_nat n + of_nat c :: u64) = c + n"
    using unat_small [of "n + c"] Suc.prems by (simp add: add.commute)
  then have "fill_buf buf (of_nat c) inp (Suc n) = (take c buf @ take n inp @ drop (c + n) buf)[c + n := inp ! n]"
    using Suc by (simp add: fill_buf_def)
  also have "\<dots> = take c buf @ take (Suc n) inp @ drop (c + Suc n) buf"
    using Suc.prems by (simp add: list_update_append take_Suc_conv_app_nth Cons_nth_drop_Suc [symmetric])
  finally show ?case .
qed

lemma absorbed_block:
  assumes "absorbed_split md a []" and "128 \<le> length inp"
  shows "absorbed_split (md\<lparr>ctx_state := compress (ctx_state md) inp, ctx_length := ctx_length md + 128 * 8\<rparr>)
    (a @ take 128 inp) []"
proof -
  have "hash_blocks sha512_iv (a @ take 128 inp) = compress (hash_blocks sha512_iv a) (take 128 inp)"
    using assms by (simp add: absorbed_split_def hash_blocks_append hash_blocks_one)
  also have "\<dots> = compress (hash_blocks sha512_iv a) inp"
    using compress_prefix [of "take 128 inp" _ "drop 128 inp"] assms(2) by simp
  finally show ?thesis using assms by (simp add: absorbed_split_def)
qed

lemma absorbed_fill:
  assumes "absorbed_split md a r" and "n \<le> length inp" and "length r + n \<le> 128"
  defines "b \<equiv> fill_buf (ctx_buf md) (ctx_curlen md) inp n"
  shows "length r + n < 128 \<Longrightarrow>
      absorbed_split (md\<lparr>ctx_buf := b, ctx_curlen := ctx_curlen md + of_nat n\<rparr>) a (r @ take n inp)"
    and "length r + n = 128 \<Longrightarrow>
      absorbed_split (md\<lparr>ctx_buf := b, ctx_state := compress (ctx_state md) b,
        ctx_length := ctx_length md + 8 * 128, ctx_curlen := 0\<rparr>) (a @ r @ take n inp) []"
proof -
  have b: "b = r @ take n inp @ drop (length r + n) (ctx_buf md)"
    using assms fill_buf_eq [of "length r" n "ctx_buf md" inp] by (simp add: absorbed_split_def)
  show "length r + n < 128 \<Longrightarrow>
      absorbed_split (md\<lparr>ctx_buf := b, ctx_curlen := ctx_curlen md + of_nat n\<rparr>) a (r @ take n inp)"
    using assms(1,2) by (simp add: absorbed_split_def b)
  assume full: "length r + n = 128"
  then have "b = r @ take n inp" using assms(1) by (simp add: b absorbed_split_def)
  moreover have "hash_blocks sha512_iv (a @ r @ take n inp) = compress (hash_blocks sha512_iv a) (r @ take n inp)"
    using assms(1,2) full by (simp add: absorbed_split_def hash_blocks_append hash_blocks_one)
  ultimately show "absorbed_split (md\<lparr>ctx_buf := b, ctx_state := compress (ctx_state md) b,
        ctx_length := ctx_length md + 8 * 128, ctx_curlen := 0\<rparr>) (a @ r @ take n inp) []"
    using assms(1,2) full by (simp add: absorbed_split_def)
qed

lemma update_loop_ok:
  "absorbed_split md a r \<Longrightarrow> \<exists>md'. sha512_update_loop md inp = (0, md') \<and> absorbed md' (a @ r @ inp)"
proof (induction "length inp" arbitrary: md a r inp rule: less_induct)
  case less
  have len: "length r < 128" and cur: "ctx_curlen md = of_nat (length r)"
    using less.prems by (simp_all add: absorbed_split_def)
  show ?case
  proof (cases "inp = []")
    case True
    then show ?thesis using less.prems by (subst sha512_update_loop.simps) (auto simp: absorbed_def)
  next
    case False
    show ?thesis
    proof (cases "r = [] \<and> 128 \<le> length inp")
      case True
      let ?md = "md\<lparr>ctx_state := compress (ctx_state md) inp, ctx_length := ctx_length md + 128 * 8\<rparr>"
      have "absorbed_split ?md (a @ take 128 inp) []"
        using absorbed_block [of md a inp] less.prems True by simp
      from less.hyps [OF _ this, of "drop 128 inp"] show ?thesis
        using True False cur by (subst sha512_update_loop.simps) (simp add: sha512_compress_eq)
    next
      case partial: False
      define n where "n = min (length inp) (128 - length r)"
      have n: "0 < n" "n \<le> length inp" "length r + n \<le> 128"
        using False len by (auto simp: n_def)
      have un: "min (length inp) (unat (128 - ctx_curlen md)) = n"
        using len by (simp add: cur unat_room n_def)
      have "ctx_curlen md = 0 \<longleftrightarrow> r = []" using of_nat_eq_small [of "length r" 0] len by (simp add: cur)
      then have b1: "\<not> (ctx_curlen md = 0 \<and> 128 \<le> length inp)" using partial by blast
      have full: "ctx_curlen md + of_nat n = 128 \<longleftrightarrow> length r + n = 128"
        using of_nat_eq_small [of "length r + n" 128] n(3) by (simp add: cur)
      let ?b = "fill_buf (ctx_buf md) (ctx_curlen md) inp n"
      have less_n: "length (drop n inp) < length inp" using n False by simp
      show ?thesis
      proof (cases "length r + n = 128")
        case True
        note ab = absorbed_fill(2) [OF less.prems n(2,3) True]
        from less.hyps [OF less_n ab] show ?thesis
          using False b1 True by (subst sha512_update_loop.simps) (auto simp: un full sha512_compress_eq Let_def)
      next
        case nfull: False
        then have "length r + n < 128" using n(3) by simp
        note ab = absorbed_fill(1) [OF less.prems n(2,3) this]
        from less.hyps [OF less_n ab] show ?thesis
          using False b1 nfull by (subst sha512_update_loop.simps) (auto simp: un full Let_def)
      qed
    qed
  qed
qed

lemma sha512_update_ok:
  assumes "absorbed md m"
  shows "\<exists>md'. sha512_update (Some md) (Some inp) = (0, Some md') \<and> absorbed md' (m @ inp)"
proof -
  obtain a r where m: "m = a @ r" and ar: "absorbed_split md a r"
    using assms by (auto simp: absorbed_def)
  have "unat (ctx_curlen md) \<le> 128" using ar unat_small [of "length r"] by (simp add: absorbed_split_def)
  then have "\<not> 128 < ctx_curlen md" by (simp add: word_less_nat_alt)
  moreover obtain md' where "sha512_update_loop md inp = (0, md')" "absorbed md' (m @ inp)"
    using update_loop_ok [OF ar, of inp] m by auto
  ultimately show ?thesis by (simp add: sha512_update_def)
qed

lemma sha512_init_ok:
  "length (ctx_buf md) = 128 \<Longrightarrow> \<exists>md'. sha512_init (Some md) = (0, Some md') \<and> absorbed md' []"
  by (auto simp: sha512_init_def absorbed_def absorbed_split_def hash_blocks.simps sha512_iv_def)

section \<open>Padding and output\<close>

definition be64 :: "u64 \<Rightarrow> bytes" where
  "be64 x = map (\<lambda>i. ucast (shr x (56 - 8 * i))) [0..<8]"

text \<open>FIPS 180-4, section 5.1.2, with the upper 64 bits of the length zero.\<close>

definition sha512_pad :: "bytes \<Rightarrow> bytes" where
  "sha512_pad m = m @ [0x80] @ replicate ((239 - length m mod 128) mod 128) 0 @ replicate 8 0
     @ be64 (of_nat (8 * length m))"

definition sha512_digest :: "bytes \<Rightarrow> bytes" where
  "sha512_digest m = concat (map be64 (hash_blocks sha512_iv (sha512_pad m)))"

lemma length_be64 [simp]: "length (be64 x) = 8"
  by (simp add: be64_def)

lemma ucast_and_255: "(ucast (x AND 255) :: u8) = ucast (x :: u64)"
proof -
  have "(255 :: u64) = mask 8" by (simp add: mask_eq_exp_minus_1)
  then have "x AND 255 = take_bit 8 x" by (simp only: take_bit_eq_mask)
  then show ?thesis by (rule_tac bit_word_eqI) (simp add: bit_unsigned_iff bit_take_bit_iff)
qed

lemma list_update_8:
  "(xs @ [b0, b1, b2, b3, b4, b5, b6, b7] @ ys)
     [length xs := c0, length xs + 1 := c1, length xs + 2 := c2, length xs + 3 := c3,
      length xs + 4 := c4, length xs + 5 := c5, length xs + 6 := c6, length xs + 7 := c7]
   = xs @ [c0, c1, c2, c3, c4, c5, c6, c7] @ ys"
  by (simp add: list_update_append)

lemma STORE64H_eq: "k + 8 \<le> length y \<Longrightarrow> STORE64H x y k = take k y @ be64 x @ drop (k + 8) y"
proof -
  assume k: "k + 8 \<le> length y"
  have "y = take k y @ take 8 (drop k y) @ drop (k + 8) y"
    by (metis append_take_drop_id drop_drop add.commute)
  moreover obtain b0 b1 b2 b3 b4 b5 b6 b7 where "take 8 (drop k y) = [b0, b1, b2, b3, b4, b5, b6, b7]"
  proof -
    have "length (take 8 (drop k y)) = 8" using k by simp
    then show ?thesis using that by (auto simp: length_Suc_conv numeral_eq_Suc simp del: length_take)
  qed
  ultimately have y: "y = take k y @ [b0, b1, b2, b3, b4, b5, b6, b7] @ drop (k + 8) y" by simp
  have l: "length (take k y) = k" using k by simp
  have upt: "[0..<8] = [0, 1, 2, 3, 4, 5, 6, 7]" by code_simp
  have "STORE64H x y k = (take k y @ [b0, b1, b2, b3, b4, b5, b6, b7] @ drop (k + 8) y)
      [length (take k y) := ucast (shr x 56), length (take k y) + 1 := ucast (shr x 48),
       length (take k y) + 2 := ucast (shr x 40), length (take k y) + 3 := ucast (shr x 32),
       length (take k y) + 4 := ucast (shr x 24), length (take k y) + 5 := ucast (shr x 16),
       length (take k y) + 6 := ucast (shr x 8), length (take k y) + 7 := ucast x]"
    unfolding STORE64H_def ucast_and_255 y [symmetric] l ..
  then show ?thesis unfolding list_update_8 be64_def upt by simp
qed

lemma zero_fill_eq:
  assumes "length (ctx_buf md) = 128" and "ctx_curlen md = of_nat c" and "c \<le> n" and "n \<le> 128"
  shows "zero_fill (of_nat n) md =
    md\<lparr>ctx_buf := take c (ctx_buf md) @ replicate (n - c) 0 @ drop n (ctx_buf md), ctx_curlen := of_nat n\<rparr>"
  using assms
proof (induction "n - c" arbitrary: c md)
  case 0
  then have "c = n" by simp
  then show ?case using 0 by (subst zero_fill.simps) simp
next
  case (Suc k)
  then have c: "c < n" by simp
  then have lt: "(of_nat c :: u64) < of_nat n"
    using unat_small [of c] unat_small [of n] Suc.prems by (simp add: word_less_nat_alt)
  let ?md = "md\<lparr>ctx_buf := (ctx_buf md)[c := 0], ctx_curlen := of_nat (Suc c)\<rparr>"
  have "zero_fill (of_nat n) md = zero_fill (of_nat n) ?md"
    using lt Suc.prems unat_small [of c] c by (subst zero_fill.simps) (simp add: add.commute)
  also have "\<dots> = ?md\<lparr>ctx_buf := take (Suc c) (ctx_buf ?md) @ replicate (n - Suc c) 0 @ drop n (ctx_buf ?md),
      ctx_curlen := of_nat n\<rparr>"
    using Suc c by (intro Suc.hyps(1)) simp_all
  also have "take (Suc c) (ctx_buf ?md) @ replicate (n - Suc c) 0 @ drop n (ctx_buf ?md)
      = take c (ctx_buf md) @ replicate (n - c) 0 @ drop n (ctx_buf md)"
    using Suc.prems c by (simp add: take_Suc_conv_app_nth Suc_diff_Suc flip: replicate_Suc)
  finally show ?case by simp
qed

text \<open>The padded last block or two blocks.\<close>

definition last_blocks :: "bytes \<Rightarrow> u64 \<Rightarrow> bytes" where
  "last_blocks r len = r @ [0x80] @ replicate ((239 - length r) mod 128) 0 @ replicate 8 0 @ be64 len"

lemma sha512_pad_split:
  assumes "128 dvd length a" and "length r < 128"
  shows "sha512_pad (a @ r) = a @ last_blocks r (of_nat (8 * length (a @ r)))"
proof -
  have "length (a @ r) mod 128 = length r" using assms by (auto elim!: dvdE simp: mod_simps)
  then show ?thesis by (simp add: sha512_pad_def last_blocks_def)
qed

lemma store_digest:
  assumes "64 \<le> length out" and "length st = 8"
  shows "fold (\<lambda>i out. STORE64H (st ! i) out (8 * i)) [0..<8] out = concat (map be64 st) @ drop 64 out"
proof -
  have "fold (\<lambda>i out. STORE64H (st ! i) out (8 * i)) [0..<n] out = concat (map be64 (take n st)) @ drop (8 * n) out"
    if "n \<le> 8" for n
    using that
  proof (induction n)
    case 0
    then show ?case by simp
  next
    case (Suc n)
    have len: "length (concat (map be64 (take n st))) = 8 * n"
      using Suc.prems assms(2) by (simp add: length_concat o_def sum_list_triv)
    show ?case
      using Suc assms len
      by (simp add: STORE64H_eq take_Suc_conv_app_nth drop_drop add.commute)
  qed
  from this [of 8] assms(2) show ?thesis by simp
qed

lemma pad_zeros:
  fixes n :: nat
  assumes "n < 128"
  shows "(239 - n) mod 128 = (if n < 112 then 111 - n else 239 - n)"
proof (cases "n < 112")
  case True
  then have "239 - n = (111 - n) + 128" by linarith
  then have "(239 - n) mod 128 = (111 - n) mod 128" by (simp only: mod_add_self2)
  then show ?thesis using True by simp
qed (use assms in simp)

lemma store_length:
  assumes "length p = 120" and "length t = 8"
  shows "STORE64H x (p @ t) 120 = p @ be64 x"
  using assms by (simp add: STORE64H_eq)

lemma final_state:
  assumes "absorbed_split md a r"
  defines "len \<equiv> of_nat (8 * length (a @ r))"
  defines "md1 \<equiv> md\<lparr>ctx_length := len, ctx_buf := (ctx_buf md)[length r := 0x80], ctx_curlen := of_nat (length r + 1)\<rparr>"
  defines "md2 \<equiv> (if 112 < length r + 1
      then (zero_fill 128 md1)\<lparr>ctx_state := compress (ctx_state md) (ctx_buf (zero_fill 128 md1)), ctx_curlen := 0\<rparr>
      else md1)"
  defines "b \<equiv> STORE64H len (ctx_buf (zero_fill 120 md2)) 120"
  shows "compress (ctx_state md2) b = hash_blocks sha512_iv (sha512_pad (a @ r)) \<and> ctx_length (zero_fill 120 md2) = len
    \<and> ctx_state (zero_fill 120 md2) = ctx_state md2"
proof -
  note ar = assms(1) [unfolded absorbed_split_def]
  have r: "length r < 128" and buf: "length (ctx_buf md) = 128" "take (length r) (ctx_buf md) = r"
    and st: "ctx_state md = hash_blocks sha512_iv a"
    using ar by auto
  have b1: "take (length r + 1) (ctx_buf md1) = r @ [0x80]" "length (ctx_buf md1) = 128"
    using r buf by (simp_all add: md1_def take_Suc_conv_app_nth)
  have pad: "hash_blocks sha512_iv (sha512_pad (a @ r)) = hash_blocks (ctx_state md) (last_blocks r len)"
    using ar by (simp add: sha512_pad_split hash_blocks_append len_def)
  have z: "zero_fill 120 md' = md'\<lparr>ctx_buf := take c (ctx_buf md') @ replicate (120 - c) 0 @ drop 120 (ctx_buf md'), ctx_curlen := 120\<rparr>"
    if "length (ctx_buf md') = 128" "ctx_curlen md' = of_nat c" "c \<le> 120" for md' c
    using zero_fill_eq [of md' c 120] that by simp
  show ?thesis
  proof (cases "112 < length r + 1")
    case False
    then have md2: "md2 = md1" by (simp add: md2_def)
    define p where "p = (r @ [0x80]) @ replicate (120 - (length r + 1)) (0 :: u8)"
    have cur: "ctx_curlen md1 = of_nat (length r + 1)" by (simp add: md1_def)
    have z1: "zero_fill 120 md1 = md1\<lparr>ctx_buf := p @ drop 120 (ctx_buf md1), ctx_curlen := 120\<rparr>"
      using z [OF b1(2) cur] False unfolding b1(1) p_def by simp
    have "length p = 120" using False by (simp add: p_def)
    then have "b = p @ be64 len" unfolding b_def md2 z1 using b1(2) by (simp add: store_length)
    moreover have "last_blocks r len = p @ be64 len"
      using False r by (simp add: last_blocks_def p_def pad_zeros replicate_add [symmetric])
    ultimately show ?thesis using \<open>length p = 120\<close> 
      by (simp only: md2 pad z1) (simp add: hash_blocks_one md1_def)
  next
    case True
    have z1: "zero_fill 128 md1 = md1\<lparr>ctx_buf := r @ [0x80] @ replicate (127 - length r) 0, ctx_curlen := 128\<rparr>"
      using zero_fill_eq [of md1 "length r + 1" 128] b1 r by (simp add: md1_def)
    let ?B = "r @ [0x80] @ replicate (127 - length r) 0"
    have md2: "md2 = md1\<lparr>ctx_buf := ?B, ctx_state := compress (ctx_state md) ?B, ctx_curlen := 0\<rparr>"
      using True by (simp add: md2_def z1)
    have len2: "length (ctx_buf md2) = 128" and cur2: "ctx_curlen md2 = of_nat 0"
      using r by (simp_all add: md2)
    have z2: "zero_fill 120 md2 = md2\<lparr>ctx_buf := replicate 120 0 @ drop 120 (ctx_buf md2), ctx_curlen := 120\<rparr>"
      using z [OF len2 cur2] by simp
    have b: "b = replicate 120 0 @ be64 len"
      unfolding b_def z2 using len2 by (simp add: store_length)
    have split: "last_blocks r len = ?B @ replicate 120 0 @ be64 len"
      using True r by (simp add: last_blocks_def pad_zeros flip: replicate_add)
    have "hash_blocks (ctx_state md) (last_blocks r len) = compress (compress (ctx_state md) ?B) b"
      unfolding split b using r by (subst hash_blocks_append) (simp_all add: hash_blocks_one)
    then show ?thesis by (simp add: pad z2) (simp add: md2 md1_def)
  qed
qed

lemma zero_fill_state [simp]: "ctx_state (zero_fill n md) = ctx_state md"
proof (induction n md rule: zero_fill.induct)
  case (1 n md)
  then show ?case by (subst zero_fill.simps) simp
qed

lemma sha512_final_ok:
  assumes "absorbed md m" and "64 \<le> length out"
  shows "\<exists>md'. sha512_final (Some md) (Some out) = (0, Some md', Some (sha512_digest m @ drop 64 out))"
proof -
  obtain a r where m: "m = a @ r" and ar: "absorbed_split md a r"
    using assms(1) by (auto simp: absorbed_def)
  have r: "length r < 128" and cur: "ctx_curlen md = of_nat (length r)" and len: "ctx_length md = of_nat (8 * length a)"
    using ar by (auto simp: absorbed_split_def)
  have u: "unat (ctx_curlen md) = length r" using r by (simp add: cur unat_small)
  have g1: "\<not> 128 \<le> ctx_curlen md" using r u by (simp add: word_le_nat_alt)
  have c1: "ctx_curlen md + 1 = of_nat (length r + 1)" by (simp add: cur)
  have "unat (of_nat (length r + 1) :: u64) = length r + 1" using r by (intro unat_small) simp
  then have g2: "112 < ctx_curlen md + 1 \<longleftrightarrow> 111 < length r"
    unfolding c1 word_less_nat_alt by simp
  define l where "l = (of_nat (8 * length (a @ r)) :: u64)"
  have l: "ctx_length md + ctx_curlen md * 8 = l"
    by (simp add: l_def len cur algebra_simps)
  define md1 where "md1 = md\<lparr>ctx_length := l, ctx_buf := (ctx_buf md)[length r := 0x80], ctx_curlen := of_nat (length r + 1)\<rparr>"
  define md2 where "md2 = (if 112 < length r + 1
      then (zero_fill 128 md1)\<lparr>ctx_state := compress (ctx_state md) (ctx_buf (zero_fill 128 md1)), ctx_curlen := 0\<rparr>
      else md1)"
  note st = final_state [OF ar, folded l_def, folded md1_def, folded md2_def]
  have st1: "ctx_state md1 = ctx_state md" "ctx_curlen md1 = of_nat (length r + 1)" by (simp_all add: md1_def)
  have "md\<lparr>ctx_length := l, ctx_buf := (ctx_buf md)[length r := 0x80], ctx_curlen := ctx_curlen md + 1\<rparr> = md1"
    by (simp only: md1_def c1)
  then have fin: "sha512_final (Some md) (Some out) =
      (let md = zero_fill 120 md2;
           md = md\<lparr>ctx_buf := STORE64H (ctx_length md) (ctx_buf md) 120\<rparr>;
           (_, md) = sha512_compress md (ctx_buf md);
           out = fold (\<lambda>i out. STORE64H (ctx_state md ! i) out (8 * i)) [0..<8] out
       in (0, Some md, Some out))"
    unfolding sha512_final_def option.case if_not_P [OF g1]
    by (simp add: l u Let_def sha512_compress_eq st1 g2 md2_def del: of_nat_Suc of_nat_add)
  have "length (hash_blocks sha512_iv (sha512_pad (a @ r))) = 8" by (simp add: sha512_iv_def)
  from store_digest [OF assms(2) this] show ?thesis
    unfolding fin using st by (simp add: Let_def sha512_compress_eq sha512_digest_def m)
qed

text \<open>The buffer keeps its 128 bytes, so a finished context can be initialised again.\<close>

lemma length_zero_fill_buf [simp]: "length (ctx_buf (zero_fill n md)) = length (ctx_buf md)"
  by (induction n md rule: zero_fill.induct) (subst zero_fill.simps, simp)

lemma length_STORE64H [simp]: "length (STORE64H x y k) = length y"
  by (simp add: STORE64H_def Let_def)

lemma compress_buf [simp]: "ctx_buf (snd (sha512_compress md blk)) = ctx_buf md"
  by (simp add: sha512_compress_eq)

lemma sha512_final_buf:
  "sha512_final (Some md) out = (err, Some md', out') \<Longrightarrow> length (ctx_buf md') = length (ctx_buf md)"
  by (auto simp: sha512_final_def Let_def sha512_compress_eq split: option.splits if_splits)

lemma absorbed_buf: "absorbed md m \<Longrightarrow> length (ctx_buf md) = 128"
  by (auto simp: absorbed_def absorbed_split_def)

section \<open>The hash interface\<close>

text \<open>What the signature code uses of a hash: a context is initialised, fed in any number of pieces
  and finished; the digest is that of the concatenation.  \<open>holds c m\<close> says that context \<open>c\<close> has absorbed
  \<open>m\<close>.\<close>

locale streaming_hash =
  fixes init :: "'c option \<Rightarrow> int \<times> 'c option" and update :: "'c option \<Rightarrow> bytes option \<Rightarrow> int \<times> 'c option"
    and final :: "'c option \<Rightarrow> bytes option \<Rightarrow> int \<times> 'c option \<times> bytes option"
    and fresh :: "'c \<Rightarrow> bool" and absorbs :: "'c \<Rightarrow> bytes \<Rightarrow> bool" and digest :: "bytes \<Rightarrow> bytes"
  assumes init_ok: "fresh c \<Longrightarrow> \<exists>c'. init (Some c) = (0, Some c') \<and> absorbs c' []"
    and update_ok: "absorbs c m \<Longrightarrow> \<exists>c'. update (Some c) (Some x) = (0, Some c') \<and> absorbs c' (m @ x)"
    and final_ok: "absorbs c m \<Longrightarrow> 64 \<le> length out \<Longrightarrow>
      \<exists>c'. final (Some c) (Some out) = (0, Some c', Some (digest m @ drop 64 out)) \<and> fresh c'"
begin

text \<open>A run: initialise, update with each piece, finish.\<close>

definition run_ctx :: "'c \<Rightarrow> bytes list \<Rightarrow> 'c option" where
  "run_ctx c ms = fold (\<lambda>m c. snd (update c (Some m))) ms (snd (init (Some c)))"

definition run :: "'c \<Rightarrow> bytes list \<Rightarrow> bytes \<Rightarrow> bytes option" where
  "run c ms out = snd (snd (final (fold (\<lambda>m c. snd (update c (Some m))) ms (snd (init (Some c)))) (Some out)))"

lemma updates_ok: "absorbs c m \<Longrightarrow>
    \<exists>c'. fold (\<lambda>m c. snd (update c (Some m))) ms (Some c) = Some c' \<and> absorbs c' (m @ concat ms)"
proof (induction ms arbitrary: c m)
  case Nil
  then show ?case by simp
next
  case (Cons x ms)
  obtain c' where "update (Some c) (Some x) = (0, Some c')" and "absorbs c' (m @ x)"
    using update_ok [OF Cons.prems] by blast
  with Cons.IH [of c' "m @ x"] show ?case by simp
qed

lemma run_final:
  assumes "fresh c" and "64 \<le> length out"
  shows "\<exists>c'. final (run_ctx c ms) (Some out) = (0, Some c', Some (digest (concat ms) @ drop 64 out)) \<and> fresh c'"
proof -
  obtain c1 where i: "init (Some c) = (0, Some c1)" and a1: "absorbs c1 []"
    using init_ok [OF assms(1)] by blast
  obtain c2 where f: "fold (\<lambda>m c. snd (update c (Some m))) ms (Some c1) = Some c2" and a2: "absorbs c2 (concat ms)"
    using updates_ok [OF a1, of ms] by auto
  show ?thesis using final_ok [OF a2 assms(2)] by (simp add: run_ctx_def i f)
qed

lemma run_ok: "fresh c \<Longrightarrow> 64 \<le> length out \<Longrightarrow> run c ms out = Some (digest (concat ms) @ drop 64 out)"
  using run_final [of c out ms] by (auto simp: run_def run_ctx_def)

text \<open>Splitting a message differently does not change the digest.\<close>

lemma run_cong: "fresh c \<Longrightarrow> fresh c' \<Longrightarrow> 64 \<le> length out \<Longrightarrow> concat ms = concat ms' \<Longrightarrow> run c ms out = run c' ms' out"
  by (simp add: run_ok)

end

interpretation sha512_stream: streaming_hash sha512_init sha512_update sha512_final
    "\<lambda>md. length (ctx_buf md) = 128" absorbed sha512_digest
proof unfold_locales
  fix md m and out :: bytes
  assume "absorbed md m" and "64 \<le> length out"
  then show "\<exists>md'. sha512_final (Some md) (Some out) = (0, Some md', Some (sha512_digest m @ drop 64 out)) \<and>
      length (ctx_buf md') = 128"
    using sha512_final_ok [of md m out] sha512_final_buf [of md] absorbed_buf [of md m] by metis
qed (use sha512_init_ok sha512_update_ok in auto)

lemma length_digest [simp]: "length (sha512_digest m) = 64"
proof -
  have "length (hash_blocks sha512_iv (sha512_pad m)) = 8" by (simp add: sha512_iv_def)
  then show ?thesis by (simp add: sha512_digest_def length_concat o_def sum_list_triv)
qed

lemma sha512_ok:
  assumes "length (ctx_buf ctx) = 128" and "64 \<le> length out"
  shows "sha512 ctx (Some message) (Some out) = (0, Some (sha512_digest message @ drop 64 out))"
proof -
  obtain c1 where i: "sha512_init (Some ctx) = (0, Some c1)" and a1: "absorbed c1 []"
    using sha512_init_ok [OF assms(1)] by blast
  obtain c2 where u: "sha512_update (Some c1) (Some message) = (0, Some c2)" and a2: "absorbed c2 message"
    using sha512_update_ok [OF a1, of message] by auto
  obtain c3 where "sha512_final (Some c2) (Some out) = (0, Some c3, Some (sha512_digest message @ drop 64 out))"
    using sha512_final_ok [OF a2 assms(2)] by blast
  then show ?thesis by (simp add: sha512_def i u)
qed

section \<open>Properties\<close>

text \<open>\<open>sha512_compress\<close>, which rotates the roles of eight array slots and unrolls eight
  rounds, is the compression function of the standard, which shifts eight working variables; it always
  returns 0 and changes only the chaining value.\<close>

theorem sha512_compress_refines:
  assumes "length (ctx_state md) = 8"
  shows "sha512_compress md blk = (0, md\<lparr>ctx_state := fips_compress (ctx_state md) blk\<rparr>)"
  using sha512_compress_eq compress_fips [OF assms] by simp

theorem sha512_compress_refines_witness:
  "sha512_compress \<lparr>ctx_length = 0, ctx_state = sha512_iv, ctx_curlen = 0, ctx_buf = []\<rparr> (replicate 128 0)
    = (0, \<lparr>ctx_length = 0, ctx_state = fips_compress sha512_iv (replicate 128 0), ctx_curlen = 0, ctx_buf = []\<rparr>)"
  using sha512_compress_refines [of "\<lparr>ctx_length = 0, ctx_state = sha512_iv, ctx_curlen = 0, ctx_buf = []\<rparr>" "replicate 128 0"]
  by (simp add: sha512_iv_def)

text \<open>Claim (C26): streaming: initialising a context, updating it with the pieces of a message in order and
  finishing writes the hash of FIPS 180-4 of the concatenated message (its padding, its schedule, its 80 rounds on eight working
  variables for every block) into the first 64 bytes of the output, however the message is cut and whatever the context held
  before.\<close>

theorem sha512_streaming:
  assumes "length (ctx_buf ctx) = 128" and "64 \<le> length out"
  shows "snd (snd (sha512_final (fold (\<lambda>m c. snd (sha512_update c (Some m))) ms (snd (sha512_init (Some ctx)))) (Some out)))
    = Some (concat (map be64 (fips_blocks sha512_iv (sha512_pad (concat ms)))) @ drop 64 out)"
  using sha512_stream.run_ok [OF assms, of ms]
  by (simp add: sha512_stream.run_def sha512_digest_def hash_blocks_fips sha512_iv_def)

theorem sha512_streaming_witness:
  "snd (snd (sha512_final (fold (\<lambda>m c. snd (sha512_update c (Some m))) [[1, 2], [], [3]]
      (snd (sha512_init (Some \<lparr>ctx_length = 5, ctx_state = [], ctx_curlen = 9, ctx_buf = replicate 128 1\<rparr>)))) (Some (replicate 64 0))))
    = Some (concat (map be64 (fips_blocks sha512_iv (sha512_pad [1, 2, 3]))))"
  using sha512_streaming [of "\<lparr>ctx_length = 5, ctx_state = [], ctx_curlen = 9, ctx_buf = replicate 128 1\<rparr>" "replicate 64 0" "[[1, 2], [], [3]]"]
  by simp

text \<open>Error returns: a null context, a null input, a null output, and a context whose fill count is out
  of range are refused with 1 and nothing is changed.\<close>

theorem sha512_errors:
  "sha512_init None = (1, None) \<and> sha512_update None inp = (1, None) \<and> sha512_update (Some md) None = (1, Some md)
   \<and> (128 < ctx_curlen md \<longrightarrow> sha512_update (Some md) (Some m) = (1, Some md))
   \<and> sha512_final None out = (1, None, out) \<and> sha512_final (Some md) None = (1, Some md, None)
   \<and> (128 \<le> ctx_curlen md \<longrightarrow> sha512_final (Some md) (Some o') = (1, Some md, Some o'))"
  by (simp add: sha512_init_def sha512_update_def sha512_final_def split: option.split)

theorem sha512_errors_witness:
  "sha512_update (Some \<lparr>ctx_length = 0, ctx_state = [], ctx_curlen = 129, ctx_buf = []\<rparr>) (Some [1])
    = (1, Some \<lparr>ctx_length = 0, ctx_state = [], ctx_curlen = 129, ctx_buf = []\<rparr>)"
  using sha512_errors [of None "\<lparr>ctx_length = 0, ctx_state = [], ctx_curlen = 129, ctx_buf = []\<rparr>" "[1]" None "[]"] by simp

end
