(* ===== verification/Ge.thy ===== *)
theory Ge
  imports Fe_Pow Precomp
begin

text \<open>
  Group operations (\<^verbatim>\<open>ge.c\<close>, \<^verbatim>\<open>ge.h\<close>): the four representations of a point of the curve
  \<open>- x^2 + y^2 = 1 + d x^2 y^2\<close>, addition and subtraction of a cached or precomputed point, doubling, the
  conversions, packing and unpacking.  A local variable of an array or struct type that the
  code writes step by step is rebound by \<open>let\<close>.
\<close>

section \<open>Representations\<close>

record ge_p2 =
  p2_X :: fe
  p2_Y :: fe
  p2_Z :: fe

record ge_p3 =
  p3_X :: fe
  p3_Y :: fe
  p3_Z :: fe
  p3_T :: fe

record ge_p1p1 =
  p1_X :: fe
  p1_Y :: fe
  p1_Z :: fe
  p1_T :: fe

record ge_cached =
  YplusX :: fe
  YminusX :: fe
  cached_Z :: fe
  T2d :: fe

section \<open>Operations\<close>

definition ge_add :: "ge_p3 \<Rightarrow> ge_cached \<Rightarrow> ge_p1p1" where
  "ge_add p q =
    (let rX = fe_add (p3_Y p) (p3_X p);
         rY = fe_sub (p3_Y p) (p3_X p);
         rZ = fe_mul rX (YplusX q);
         rY = fe_mul rY (YminusX q);
         rT = fe_mul (T2d q) (p3_T p);
         rX = fe_mul (p3_Z p) (cached_Z q);
         t0 = fe_add rX rX;
         rX = fe_sub rZ rY;
         rY = fe_add rZ rY;
         rZ = fe_add t0 rT;
         rT = fe_sub t0 rT
     in \<lparr>p1_X = rX, p1_Y = rY, p1_Z = rZ, p1_T = rT\<rparr>)"

definition ge_sub :: "ge_p3 \<Rightarrow> ge_cached \<Rightarrow> ge_p1p1" where
  "ge_sub p q =
    (let rX = fe_add (p3_Y p) (p3_X p);
         rY = fe_sub (p3_Y p) (p3_X p);
         rZ = fe_mul rX (YminusX q);
         rY = fe_mul rY (YplusX q);
         rT = fe_mul (T2d q) (p3_T p);
         rX = fe_mul (p3_Z p) (cached_Z q);
         t0 = fe_add rX rX;
         rX = fe_sub rZ rY;
         rY = fe_add rZ rY;
         rZ = fe_sub t0 rT;
         rT = fe_add t0 rT
     in \<lparr>p1_X = rX, p1_Y = rY, p1_Z = rZ, p1_T = rT\<rparr>)"

definition ge_madd :: "ge_p3 \<Rightarrow> ge_precomp \<Rightarrow> ge_p1p1" where
  "ge_madd p q =
    (let rX = fe_add (p3_Y p) (p3_X p);
         rY = fe_sub (p3_Y p) (p3_X p);
         rZ = fe_mul rX (yplusx q);
         rY = fe_mul rY (yminusx q);
         rT = fe_mul (xy2d q) (p3_T p);
         t0 = fe_add (p3_Z p) (p3_Z p);
         rX = fe_sub rZ rY;
         rY = fe_add rZ rY;
         rZ = fe_add t0 rT;
         rT = fe_sub t0 rT
     in \<lparr>p1_X = rX, p1_Y = rY, p1_Z = rZ, p1_T = rT\<rparr>)"

definition ge_msub :: "ge_p3 \<Rightarrow> ge_precomp \<Rightarrow> ge_p1p1" where
  "ge_msub p q =
    (let rX = fe_add (p3_Y p) (p3_X p);
         rY = fe_sub (p3_Y p) (p3_X p);
         rZ = fe_mul rX (yminusx q);
         rY = fe_mul rY (yplusx q);
         rT = fe_mul (xy2d q) (p3_T p);
         t0 = fe_add (p3_Z p) (p3_Z p);
         rX = fe_sub rZ rY;
         rY = fe_add rZ rY;
         rZ = fe_sub t0 rT;
         rT = fe_add t0 rT
     in \<lparr>p1_X = rX, p1_Y = rY, p1_Z = rZ, p1_T = rT\<rparr>)"

definition ge_p1p1_to_p2 :: "ge_p1p1 \<Rightarrow> ge_p2" where
  "ge_p1p1_to_p2 p =
     \<lparr>p2_X = fe_mul (p1_X p) (p1_T p), p2_Y = fe_mul (p1_Y p) (p1_Z p), p2_Z = fe_mul (p1_Z p) (p1_T p)\<rparr>"

definition ge_p1p1_to_p3 :: "ge_p1p1 \<Rightarrow> ge_p3" where
  "ge_p1p1_to_p3 p =
     \<lparr>p3_X = fe_mul (p1_X p) (p1_T p), p3_Y = fe_mul (p1_Y p) (p1_Z p), p3_Z = fe_mul (p1_Z p) (p1_T p),
      p3_T = fe_mul (p1_X p) (p1_Y p)\<rparr>"

definition ge_p2_0 :: ge_p2 where
  "ge_p2_0 = \<lparr>p2_X = fe_0, p2_Y = fe_1, p2_Z = fe_1\<rparr>"

definition ge_p2_dbl :: "ge_p2 \<Rightarrow> ge_p1p1" where
  "ge_p2_dbl p =
    (let rX = fe_sq (p2_X p);
         rZ = fe_sq (p2_Y p);
         rT = fe_sq2 (p2_Z p);
         rY = fe_add (p2_X p) (p2_Y p);
         t0 = fe_sq rY;
         rY = fe_add rZ rX;
         rZ = fe_sub rZ rX;
         rX = fe_sub t0 rY;
         rT = fe_sub rT rZ
     in \<lparr>p1_X = rX, p1_Y = rY, p1_Z = rZ, p1_T = rT\<rparr>)"

definition ge_p3_0 :: ge_p3 where
  "ge_p3_0 = \<lparr>p3_X = fe_0, p3_Y = fe_1, p3_Z = fe_1, p3_T = fe_0\<rparr>"

definition ge_p3_to_p2 :: "ge_p3 \<Rightarrow> ge_p2" where
  "ge_p3_to_p2 p = \<lparr>p2_X = fe_copy (p3_X p), p2_Y = fe_copy (p3_Y p), p2_Z = fe_copy (p3_Z p)\<rparr>"

definition ge_p3_dbl :: "ge_p3 \<Rightarrow> ge_p1p1" where
  "ge_p3_dbl p = (let q = ge_p3_to_p2 p in ge_p2_dbl q)"

definition curve_d2 :: fe where
  "curve_d2 = fe_lit [-21827239, -5839606, -30745221, 13898782, 229458, 15978800, -12551817, -6495438, 29715968, 9444199]"

definition ge_p3_to_cached :: "ge_p3 \<Rightarrow> ge_cached" where
  "ge_p3_to_cached p =
     \<lparr>YplusX = fe_add (p3_Y p) (p3_X p), YminusX = fe_sub (p3_Y p) (p3_X p), cached_Z = fe_copy (p3_Z p),
      T2d = fe_mul (p3_T p) curve_d2\<rparr>"

definition curve_d :: fe where
  "curve_d = fe_lit [-10913610, 13857413, -15372611, 6949391, 114729, -8787816, -6275908, -3247719, -18696448, -12055116]"

definition sqrtm1 :: fe where
  "sqrtm1 = fe_lit [-32595792, -7943725, 9377950, 3500415, 12389472, -272473, -25146209, -2005654, 326686, 11406482]"

text \<open>The static constants \<^verbatim>\<open>d\<close>, \<^verbatim>\<open>d2\<close> of the code are \<open>curve_d\<close>, \<open>curve_d2\<close> here.\<close>

text \<open>Unpacking writes \<open>Y\<close>, \<open>Z\<close>, \<open>X\<close> and, on success, \<open>T\<close> of \<open>h\<close>; on failure \<open>T\<close> keeps its old value.\<close>

definition ge_frombytes_negate_vartime :: "ge_p3 \<Rightarrow> bytes \<Rightarrow> int \<times> ge_p3" where
  "ge_frombytes_negate_vartime h s =
    (let hY = fe_frombytes s;
         hZ = fe_1;
         u = fe_sq hY;
         v = fe_mul u curve_d;
         u = fe_sub u hZ;
         v = fe_add v hZ;
         v3 = fe_sq v;
         v3 = fe_mul v3 v;
         hX = fe_sq v3;
         hX = fe_mul hX v;
         hX = fe_mul hX u;
         hX = fe_pow22523 hX;
         hX = fe_mul hX v3;
         hX = fe_mul hX u;
         vxx = fe_sq hX;
         vxx = fe_mul vxx v;
         check = fe_sub vxx u
     in if fe_isnonzero check \<noteq> 0 \<and> fe_isnonzero (fe_add vxx u) \<noteq> 0
        then (- 1, h\<lparr>p3_X := hX, p3_Y := hY, p3_Z := hZ\<rparr>)
        else
          (let hX = (if fe_isnonzero check \<noteq> 0 then fe_mul hX sqrtm1 else hX);
               hX = (if fe_isnegative hX = ucast (shr (s ! 31) 7) then fe_neg hX else hX)
           in (0, \<lparr>p3_X = hX, p3_Y = hY, p3_Z = hZ, p3_T = fe_mul hX hY\<rparr>)))"

definition ge_p3_tobytes :: "ge_p3 \<Rightarrow> bytes" where
  "ge_p3_tobytes h =
    (let recip = fe_invert (p3_Z h);
         x = fe_mul (p3_X h) recip;
         y = fe_mul (p3_Y h) recip;
         s = fe_tobytes y
     in s[31 := s ! 31 XOR ucast (shl (fe_isnegative x) 7)])"

definition ge_tobytes :: "ge_p2 \<Rightarrow> bytes" where
  "ge_tobytes h =
    (let recip = fe_invert (p2_Z h);
         x = fe_mul (p2_X h) recip;
         y = fe_mul (p2_Y h) recip;
         s = fe_tobytes y
     in s[31 := s ! 31 XOR ucast (shl (fe_isnegative x) 7)])"

section \<open>Affine points\<close>

text \<open>The curve constant \<open>d = - 121665 / 121666\<close>, as the field element the table literal denotes.\<close>

abbreviation gf_d :: gf where
  "gf_d \<equiv> fe_abs curve_d"

definition on_curve :: "gf \<Rightarrow> gf \<Rightarrow> bool" where
  "on_curve x y \<longleftrightarrow> - (x * x) + y * y = 1 + gf_d * (x * x) * (y * y)"

text \<open>\<open>(x3, y3)\<close> is the sum of two affine points by the Edwards addition law, whose denominators are
  invertible: \<open>x3 = (x1 y2 + y1 x2) / (1 + t)\<close>, \<open>y3 = (y1 y2 + x1 x2) / (1 - t)\<close> with \<open>t = d x1 x2 y1 y2\<close>.\<close>

definition edwards_sum :: "gf \<times> gf \<Rightarrow> gf \<times> gf \<Rightarrow> gf \<times> gf \<Rightarrow> bool" where
  "edwards_sum P Q R \<longleftrightarrow>
    (let (x1, y1) = P; (x2, y2) = Q; (x3, y3) = R; t = gf_d * x1 * x2 * y1 * y2
     in 1 + t dvd 1 \<and> 1 - t dvd 1 \<and> x3 * (1 + t) = x1 * y2 + y1 * x2 \<and> y3 * (1 - t) = y1 * y2 + x1 * x2)"

text \<open>Each representation denotes an affine point; the denominators are units and the limbs within the
  bounds the field routines need.\<close>

definition rep_p2 :: "ge_p2 \<Rightarrow> gf \<times> gf \<Rightarrow> bool" where
  "rep_p2 p P \<longleftrightarrow>
     fe_abs (p2_X p) = fst P * fe_abs (p2_Z p) \<and> fe_abs (p2_Y p) = snd P * fe_abs (p2_Z p) \<and> fe_abs (p2_Z p) dvd 1 \<and>
     fe_bounded 102 25 (p2_X p) \<and> fe_bounded 102 25 (p2_Y p) \<and> fe_bounded 102 25 (p2_Z p)"

definition rep_p3 :: "ge_p3 \<Rightarrow> gf \<times> gf \<Rightarrow> bool" where
  "rep_p3 p P \<longleftrightarrow>
     fe_abs (p3_X p) = fst P * fe_abs (p3_Z p) \<and> fe_abs (p3_Y p) = snd P * fe_abs (p3_Z p) \<and>
     fe_abs (p3_T p) = fst P * snd P * fe_abs (p3_Z p) \<and> fe_abs (p3_Z p) dvd 1 \<and>
     fe_bounded 102 25 (p3_X p) \<and> fe_bounded 102 25 (p3_Y p) \<and> fe_bounded 102 25 (p3_Z p) \<and> fe_bounded 102 25 (p3_T p)"

definition rep_p1p1 :: "ge_p1p1 \<Rightarrow> gf \<times> gf \<Rightarrow> bool" where
  "rep_p1p1 p P \<longleftrightarrow>
     fe_abs (p1_X p) = fst P * fe_abs (p1_Z p) \<and> fe_abs (p1_Y p) = snd P * fe_abs (p1_T p) \<and>
     fe_abs (p1_Z p) dvd 1 \<and> fe_abs (p1_T p) dvd 1 \<and>
     fe_bounded 165 26 (p1_X p) \<and> fe_bounded 165 26 (p1_Y p) \<and> fe_bounded 165 26 (p1_Z p) \<and> fe_bounded 165 26 (p1_T p)"

definition rep_cached :: "ge_cached \<Rightarrow> gf \<times> gf \<Rightarrow> bool" where
  "rep_cached q P \<longleftrightarrow>
     fe_abs (YplusX q) = (snd P + fst P) * fe_abs (cached_Z q) \<and> fe_abs (YminusX q) = (snd P - fst P) * fe_abs (cached_Z q) \<and>
     fe_abs (T2d q) = 2 * gf_d * fst P * snd P * fe_abs (cached_Z q) \<and> fe_abs (cached_Z q) dvd 1 \<and>
     fe_bounded 165 26 (YplusX q) \<and> fe_bounded 165 26 (YminusX q) \<and> fe_bounded 102 25 (cached_Z q) \<and> fe_bounded 102 25 (T2d q)"

definition rep_precomp :: "ge_precomp \<Rightarrow> gf \<times> gf \<Rightarrow> bool" where
  "rep_precomp q P \<longleftrightarrow>
     fe_abs (yplusx q) = snd P + fst P \<and> fe_abs (yminusx q) = snd P - fst P \<and>
     fe_abs (xy2d q) = 2 * gf_d * fst P * snd P \<and> precomp_bounded q"

section \<open>Field operations on bounded elements\<close>

text \<open>The rules that read a straight-line sequence of field operations: what it computes, and the bound factor
  of every intermediate value.\<close>

named_theorems fe_rules

lemma fe_add_abs [fe_rules]: "fe_bounded a 25 f \<Longrightarrow> fe_bounded b 25 g \<Longrightarrow> a + b \<le> 6000 \<Longrightarrow>
    fe_abs (fe_add f g) = fe_abs f + fe_abs g"
  and fe_add_bd: "fe_bounded a 25 f \<Longrightarrow> fe_bounded b 25 g \<Longrightarrow> a + b \<le> 6000 \<Longrightarrow> fe_bounded (a + b) 25 (fe_add f g)"
  using fe_add_ok [of a f b g] by (simp_all add: fe_abs_def)

lemma fe_sub_abs [fe_rules]: "fe_bounded a 25 f \<Longrightarrow> fe_bounded b 25 g \<Longrightarrow> a + b \<le> 6000 \<Longrightarrow>
    fe_abs (fe_sub f g) = fe_abs f - fe_abs g"
  and fe_sub_bd: "fe_bounded a 25 f \<Longrightarrow> fe_bounded b 25 g \<Longrightarrow> a + b \<le> 6000 \<Longrightarrow> fe_bounded (a + b) 25 (fe_sub f g)"
  using fe_sub_ok [of a f b g] by (simp_all add: fe_abs_def)

lemma fe_neg_abs: "fe_bounded a 25 f \<Longrightarrow> a \<le> 6000 \<Longrightarrow> fe_abs (fe_neg f) = - fe_abs f"
  and fe_neg_bd: "fe_bounded a 25 f \<Longrightarrow> a \<le> 6000 \<Longrightarrow> fe_bounded a 25 (fe_neg f)"
  using fe_neg_ok [of a f] by (simp_all add: fe_abs_def)

definition wide :: "fe \<Rightarrow> bool" where
  "wide f \<longleftrightarrow> fe_bounded 165 26 f"

lemma wideI: "fe_bounded a 25 f \<Longrightarrow> a \<le> 330 \<Longrightarrow> wide f"
  unfolding wide_def fe_bounded_26 by (erule fe_bounded_mono) simp

lemma fe_mul_w: "wide f \<Longrightarrow> wide g \<Longrightarrow> fe_abs (fe_mul f g) = fe_abs f * fe_abs g"
  and fe_mul_bd: "wide f \<Longrightarrow> wide g \<Longrightarrow> fe_bounded 101 25 (fe_mul f g)"
  using fe_mul_ok by (auto simp: wide_def)

lemma fe_sq_w: "wide f \<Longrightarrow> fe_abs (fe_sq f) = fe_abs f * fe_abs f"
  and fe_sq_bd: "wide f \<Longrightarrow> fe_bounded 101 25 (fe_sq f)"
  and fe_sq2_w: "wide f \<Longrightarrow> fe_abs (fe_sq2 f) = 2 * (fe_abs f * fe_abs f)"
  and fe_sq2_bd: "wide f \<Longrightarrow> fe_bounded 101 25 (fe_sq2 f)"
  using fe_sq_ok fe_sq2_ok by (auto simp: wide_def)

lemma gf_unit_mult: "a dvd 1 \<Longrightarrow> b dvd 1 \<Longrightarrow> a * b dvd 1" for a b :: gf
  using mult_dvd_mono [of a 1 b 1] by simp

lemma gf_unit_2: "(2 :: gf) dvd 1"
proof (rule dvdI)
  have "(1 :: gf) = of_int 1" by simp
  also have "\<dots> = of_int (2 * ((p25519 + 1) div 2))"
    unfolding of_int_gf_eq_iff by (simp add: p25519_def)
  finally show "(1 :: gf) = 2 * of_int ((p25519 + 1) div 2)" by simp
qed

section \<open>Addition and doubling\<close>

text \<open>What the four additions have in common: from \<open>b = (y1 + x1)(y2 + x2) z\<close>, \<open>a = (y1 - x1)(y2 - x2) z\<close>,
  \<open>c = 2 d x1 y1 x2 y2 z\<close> and \<open>e = 2 z\<close> the completed point \<open>(b - a : e + c, b + a : e - c)\<close>.\<close>

lemma add_completed:
  fixes x1 y1 x2 y2 x3 y3 z a b c e :: gf
  assumes "edwards_sum (x1, y1) (x2, y2) (x3, y3)" and "z dvd 1"
    and "b = (y1 + x1) * (y2 + x2) * z" and "a = (y1 - x1) * (y2 - x2) * z"
    and "c = 2 * gf_d * x1 * y1 * x2 * y2 * z" and "e = 2 * z"
  shows "b - a = x3 * (e + c)" and "b + a = y3 * (e - c)" and "e + c dvd 1" and "e - c dvd 1"
proof -
  define t where "t = gf_d * x1 * x2 * y1 * y2"
  have u: "1 + t dvd 1" "1 - t dvd 1" and x3: "x3 * (1 + t) = x1 * y2 + y1 * x2" and y3: "y3 * (1 - t) = y1 * y2 + x1 * x2"
    using assms(1) by (simp_all add: edwards_sum_def Let_def t_def)
  have ec: "e + c = 2 * z * (1 + t)" "e - c = 2 * z * (1 - t)"
    by (simp_all add: assms(5,6) t_def algebra_simps)
  show "e + c dvd 1" "e - c dvd 1"
    unfolding ec by (intro gf_unit_mult gf_unit_2 assms(2) u)+
  have "b - a = 2 * z * (x1 * y2 + y1 * x2)" by (simp add: assms(3,4) algebra_simps)
  also have "\<dots> = x3 * (e + c)" unfolding ec x3 [symmetric] by (simp add: ac_simps)
  finally show "b - a = x3 * (e + c)" .
  have "b + a = 2 * z * (y1 * y2 + x1 * x2)" by (simp add: assms(3,4) algebra_simps)
  also have "\<dots> = y3 * (e - c)" unfolding ec y3 [symmetric] by (simp add: ac_simps)
  finally show "b + a = y3 * (e - c)" .
qed

text \<open>The last four statements of the additions, on reduced operands.\<close>

lemma completed_bd:
  assumes "fe_bounded 101 25 b" and "fe_bounded 101 25 a" and "fe_bounded 204 25 e" and "fe_bounded 101 25 c"
  shows "fe_bounded 165 26 (fe_sub b a)" "fe_bounded 165 26 (fe_add b a)" "fe_bounded 165 26 (fe_add e c)"
    "fe_bounded 165 26 (fe_sub e c)" "fe_abs (fe_sub b a) = fe_abs b - fe_abs a" "fe_abs (fe_add b a) = fe_abs b + fe_abs a"
    "fe_abs (fe_add e c) = fe_abs e + fe_abs c" "fe_abs (fe_sub e c) = fe_abs e - fe_abs c"
  using wideI [OF fe_sub_bd [OF assms(1,2)]] wideI [OF fe_add_bd [OF assms(1,2)]]
    wideI [OF fe_add_bd [OF assms(3,4)]] wideI [OF fe_sub_bd [OF assms(3,4)]]
    fe_sub_abs [OF assms(1,2)] fe_add_abs [OF assms(1,2)] fe_add_abs [OF assms(3,4)] fe_sub_abs [OF assms(3,4)]
  by (simp_all add: wide_def)

text \<open>The first statements: \<open>Y + X\<close> and \<open>Y - X\<close> of an extended point.\<close>

lemma p3_sums:
  assumes "rep_p3 p (x1, y1)"
  shows "wide (fe_add (p3_Y p) (p3_X p))" "wide (fe_sub (p3_Y p) (p3_X p))"
    "fe_abs (fe_add (p3_Y p) (p3_X p)) = (y1 + x1) * fe_abs (p3_Z p)"
    "fe_abs (fe_sub (p3_Y p) (p3_X p)) = (y1 - x1) * fe_abs (p3_Z p)"
    "wide (p3_Z p)" "wide (p3_T p)" "wide (p3_X p)" "wide (p3_Y p)"
proof -
  have X: "fe_bounded 102 25 (p3_X p)" and Y: "fe_bounded 102 25 (p3_Y p)"
    and Z: "fe_bounded 102 25 (p3_Z p)" and T: "fe_bounded 102 25 (p3_T p)"
    using assms by (simp_all add: rep_p3_def)
  show "wide (fe_add (p3_Y p) (p3_X p))" "wide (fe_sub (p3_Y p) (p3_X p))"
    by (rule wideI [OF fe_add_bd [OF Y X]] wideI [OF fe_sub_bd [OF Y X]]; simp)+
  show "wide (p3_Z p)" "wide (p3_T p)" "wide (p3_X p)" "wide (p3_Y p)" using X Y Z T wideI by auto
  show "fe_abs (fe_add (p3_Y p) (p3_X p)) = (y1 + x1) * fe_abs (p3_Z p)"
    "fe_abs (fe_sub (p3_Y p) (p3_X p)) = (y1 - x1) * fe_abs (p3_Z p)"
    using assms fe_add_abs [OF Y X] fe_sub_abs [OF Y X] by (simp_all add: rep_p3_def algebra_simps)
qed

lemma ge_add_rep:
  assumes p: "rep_p3 p P" and q: "rep_cached q Q" and sum: "edwards_sum P Q R"
  shows "rep_p1p1 (ge_add p q) R"
proof -
  obtain x1 y1 x2 y2 x3 y3 where P: "P = (x1, y1)" and Q: "Q = (x2, y2)" and R: "R = (x3, y3)"
    by (metis surj_pair)
  note s = p3_sums [OF p [unfolded P]]
  have w: "wide (YplusX q)" "wide (YminusX q)" "wide (cached_Z q)" "wide (T2d q)"
    using q wideI by (auto simp: rep_cached_def wide_def)
  let ?b = "fe_mul (fe_add (p3_Y p) (p3_X p)) (YplusX q)" and ?a = "fe_mul (fe_sub (p3_Y p) (p3_X p)) (YminusX q)"
  let ?c = "fe_mul (T2d q) (p3_T p)" and ?zz = "fe_mul (p3_Z p) (cached_Z q)"
  let ?z = "fe_abs (p3_Z p) * fe_abs (cached_Z q)"
  have zz: "fe_bounded 101 25 ?zz" by (rule fe_mul_bd [OF s(5) w(3)])
  have e: "fe_bounded 204 25 (fe_add ?zz ?zz)" "fe_abs (fe_add ?zz ?zz) = 2 * ?z"
    using fe_bounded_mono [OF fe_add_bd [OF zz zz]] fe_add_abs [OF zz zz] by (simp_all add: fe_mul_w [OF s(5) w(3)])
  note cb = completed_bd [OF fe_mul_bd [OF s(1) w(1)] fe_mul_bd [OF s(2) w(2)] e(1) fe_mul_bd [OF w(4) s(6)]]
  have b: "fe_abs ?b = (y1 + x1) * (y2 + x2) * ?z" and a: "fe_abs ?a = (y1 - x1) * (y2 - x2) * ?z"
    and c: "fe_abs ?c = 2 * gf_d * x1 * y1 * x2 * y2 * ?z" and z: "?z dvd 1"
    using p q unfolding P Q
    by (simp_all add: fe_mul_w s w rep_cached_def rep_p3_def ac_simps gf_unit_mult)
  note r = add_completed [OF sum [unfolded P Q R] z b a c e(2)]
  show ?thesis unfolding R rep_p1p1_def ge_add_def Let_def by (simp add: cb r)
qed

text \<open>Subtraction is addition of the negated point \<open>(- x2, y2)\<close>: the roles of \<open>y + x\<close> and \<open>y - x\<close> change, and
  the sign of \<open>2 d x y\<close>.\<close>

lemma ge_sub_rep:
  assumes p: "rep_p3 p P" and q: "rep_cached q (x2, y2)" and sum: "edwards_sum P (- x2, y2) R"
  shows "rep_p1p1 (ge_sub p q) R"
proof -
  obtain x1 y1 x3 y3 where P: "P = (x1, y1)" and R: "R = (x3, y3)" by (metis surj_pair)
  note s = p3_sums [OF p [unfolded P]]
  have w: "wide (YplusX q)" "wide (YminusX q)" "wide (cached_Z q)" "wide (T2d q)"
    using q wideI by (auto simp: rep_cached_def wide_def)
  let ?b = "fe_mul (fe_add (p3_Y p) (p3_X p)) (YminusX q)" and ?a = "fe_mul (fe_sub (p3_Y p) (p3_X p)) (YplusX q)"
  let ?c = "fe_mul (T2d q) (p3_T p)" and ?zz = "fe_mul (p3_Z p) (cached_Z q)"
  let ?z = "fe_abs (p3_Z p) * fe_abs (cached_Z q)"
  have zz: "fe_bounded 101 25 ?zz" by (rule fe_mul_bd [OF s(5) w(3)])
  have e: "fe_bounded 204 25 (fe_add ?zz ?zz)" "fe_abs (fe_add ?zz ?zz) = 2 * ?z"
    using fe_bounded_mono [OF fe_add_bd [OF zz zz]] fe_add_abs [OF zz zz] by (simp_all add: fe_mul_w [OF s(5) w(3)])
  note cb = completed_bd [OF fe_mul_bd [OF s(1) w(2)] fe_mul_bd [OF s(2) w(1)] e(1) fe_mul_bd [OF w(4) s(6)]]
  have b: "fe_abs ?b = (y1 + x1) * (y2 + - x2) * ?z" and a: "fe_abs ?a = (y1 - x1) * (y2 - - x2) * ?z"
    and c: "- fe_abs ?c = 2 * gf_d * x1 * y1 * (- x2) * y2 * ?z" and z: "?z dvd 1"
    using p q unfolding P
    by (simp_all add: fe_mul_w s w rep_cached_def rep_p3_def ac_simps gf_unit_mult)
  note r = add_completed [OF sum [unfolded P R] z b a c e(2)]
  show ?thesis unfolding R rep_p1p1_def ge_sub_def Let_def using r by (simp add: cb)
qed

lemma ge_madd_rep:
  assumes p: "rep_p3 p P" and q: "rep_precomp q Q" and sum: "edwards_sum P Q R"
  shows "rep_p1p1 (ge_madd p q) R"
proof -
  obtain x1 y1 x2 y2 x3 y3 where P: "P = (x1, y1)" and Q: "Q = (x2, y2)" and R: "R = (x3, y3)"
    by (metis surj_pair)
  note s = p3_sums [OF p [unfolded P]]
  have w: "wide (yplusx q)" "wide (yminusx q)" "wide (xy2d q)"
    using q wideI by (auto simp: rep_precomp_def precomp_bounded_def)
  let ?b = "fe_mul (fe_add (p3_Y p) (p3_X p)) (yplusx q)" and ?a = "fe_mul (fe_sub (p3_Y p) (p3_X p)) (yminusx q)"
  let ?c = "fe_mul (xy2d q) (p3_T p)" and ?e = "fe_add (p3_Z p) (p3_Z p)" and ?z = "fe_abs (p3_Z p)"
  have Z: "fe_bounded 102 25 (p3_Z p)" using p by (simp add: rep_p3_def)
  have e: "fe_bounded 204 25 ?e" "fe_abs ?e = 2 * ?z"
    using fe_add_bd [OF Z Z] fe_add_abs [OF Z Z] by simp_all
  note cb = completed_bd [OF fe_mul_bd [OF s(1) w(1)] fe_mul_bd [OF s(2) w(2)] e(1) fe_mul_bd [OF w(3) s(6)]]
  have b: "fe_abs ?b = (y1 + x1) * (y2 + x2) * ?z" and a: "fe_abs ?a = (y1 - x1) * (y2 - x2) * ?z"
    and c: "fe_abs ?c = 2 * gf_d * x1 * y1 * x2 * y2 * ?z" and z: "?z dvd 1"
    using p q unfolding P Q by (simp_all add: fe_mul_w s w rep_precomp_def rep_p3_def ac_simps)
  note r = add_completed [OF sum [unfolded P Q R] z b a c e(2)]
  show ?thesis unfolding R rep_p1p1_def ge_madd_def Let_def by (simp add: cb r)
qed

lemma ge_msub_rep:
  assumes p: "rep_p3 p P" and q: "rep_precomp q (x2, y2)" and sum: "edwards_sum P (- x2, y2) R"
  shows "rep_p1p1 (ge_msub p q) R"
proof -
  obtain x1 y1 x3 y3 where P: "P = (x1, y1)" and R: "R = (x3, y3)" by (metis surj_pair)
  note s = p3_sums [OF p [unfolded P]]
  have w: "wide (yplusx q)" "wide (yminusx q)" "wide (xy2d q)"
    using q wideI by (auto simp: rep_precomp_def precomp_bounded_def)
  let ?b = "fe_mul (fe_add (p3_Y p) (p3_X p)) (yminusx q)" and ?a = "fe_mul (fe_sub (p3_Y p) (p3_X p)) (yplusx q)"
  let ?c = "fe_mul (xy2d q) (p3_T p)" and ?e = "fe_add (p3_Z p) (p3_Z p)" and ?z = "fe_abs (p3_Z p)"
  have Z: "fe_bounded 102 25 (p3_Z p)" using p by (simp add: rep_p3_def)
  have e: "fe_bounded 204 25 ?e" "fe_abs ?e = 2 * ?z"
    using fe_add_bd [OF Z Z] fe_add_abs [OF Z Z] by simp_all
  note cb = completed_bd [OF fe_mul_bd [OF s(1) w(2)] fe_mul_bd [OF s(2) w(1)] e(1) fe_mul_bd [OF w(3) s(6)]]
  have b: "fe_abs ?b = (y1 + x1) * (y2 + - x2) * ?z" and a: "fe_abs ?a = (y1 - x1) * (y2 - - x2) * ?z"
    and c: "- fe_abs ?c = 2 * gf_d * x1 * y1 * (- x2) * y2 * ?z" and z: "?z dvd 1"
    using p q unfolding P by (simp_all add: fe_mul_w s w rep_precomp_def rep_p3_def ac_simps)
  note r = add_completed [OF sum [unfolded P R] z b a c e(2)]
  show ?thesis unfolding R rep_p1p1_def ge_msub_def Let_def using r by (simp add: cb)
qed

text \<open>Doubling uses the curve equation: \<open>y^2 - x^2\<close> is the denominator \<open>1 + d x^2 y^2\<close>.\<close>

lemma ge_p2_dbl_rep:
  assumes p: "rep_p2 p (x, y)" and c: "on_curve x y" and sum: "edwards_sum (x, y) (x, y) R"
  shows "rep_p1p1 (ge_p2_dbl p) R"
proof -
  obtain x3 y3 where R: "R = (x3, y3)" by (metis surj_pair)
  define t z where "t = gf_d * (x * x) * (y * y)" and "z = fe_abs (p2_Z p) * fe_abs (p2_Z p)"
  have z: "z dvd 1" and u: "1 + t dvd 1" "1 - t dvd 1" and x3: "x3 * (1 + t) = x * y + y * x"
    and y3: "y3 * (1 - t) = y * y + x * x" and yx: "y * y - x * x = 1 + t"
    using p c sum unfolding R
    by (simp_all add: edwards_sum_def Let_def rep_p2_def t_def z_def on_curve_def ac_simps gf_unit_mult)
  have b: "fe_bounded 102 25 (p2_X p)" "fe_bounded 102 25 (p2_Y p)" "fe_bounded 102 25 (p2_Z p)"
    using p by (simp_all add: rep_p2_def)
  have w: "wide (p2_X p)" "wide (p2_Y p)" "wide (p2_Z p)" "wide (fe_add (p2_X p) (p2_Y p))"
    using b wideI [OF fe_add_bd [OF b(1,2)]] by (auto intro: wideI)
  let ?xx = "fe_sq (p2_X p)" and ?yy = "fe_sq (p2_Y p)"
  have s: "fe_bounded 202 25 (fe_add ?yy ?xx)" "fe_abs (fe_add ?yy ?xx) = (y * y + x * x) * z"
    "fe_bounded 202 25 (fe_sub ?yy ?xx)" "fe_abs (fe_sub ?yy ?xx) = (1 + t) * z"
    using fe_add_bd [OF fe_sq_bd [OF w(2)] fe_sq_bd [OF w(1)]] fe_add_abs [OF fe_sq_bd [OF w(2)] fe_sq_bd [OF w(1)]]
      fe_sub_bd [OF fe_sq_bd [OF w(2)] fe_sq_bd [OF w(1)]] fe_sub_abs [OF fe_sq_bd [OF w(2)] fe_sq_bd [OF w(1)]] p
    by (simp_all add: fe_sq_w w rep_p2_def z_def flip: yx) (simp_all add: algebra_simps)
  note a = fe_sq_bd [OF w(4)] and b2 = fe_sq2_bd [OF w(3)]
  have X: "wide (fe_sub (fe_sq (fe_add (p2_X p) (p2_Y p))) (fe_add ?yy ?xx))"
    "fe_abs (fe_sub (fe_sq (fe_add (p2_X p) (p2_Y p))) (fe_add ?yy ?xx)) = (x * y + y * x) * z"
    using wideI [OF fe_sub_bd [OF a s(1)]] fe_sub_abs [OF a s(1)] p fe_add_abs [OF b(1,2)]
    by (simp_all add: fe_sq_w w s rep_p2_def z_def algebra_simps)
  have T: "wide (fe_sub (fe_sq2 (p2_Z p)) (fe_sub ?yy ?xx))"
    "fe_abs (fe_sub (fe_sq2 (p2_Z p)) (fe_sub ?yy ?xx)) = (1 - t) * z"
    using wideI [OF fe_sub_bd [OF b2 s(3)]] fe_sub_abs [OF b2 s(3)]
    by (simp_all add: fe_sq2_w w s z_def algebra_simps)
  show ?thesis
    using X T wideI [OF s(1)] wideI [OF s(3)] z u
    unfolding R rep_p1p1_def ge_p2_dbl_def Let_def wide_def
    by (simp add: s gf_unit_mult mult.assoc flip: x3 y3)
qed

lemma ge_p3_dbl_rep:
  "rep_p3 p (x, y) \<Longrightarrow> on_curve x y \<Longrightarrow> edwards_sum (x, y) (x, y) R \<Longrightarrow> rep_p1p1 (ge_p3_dbl p) R"
  unfolding ge_p3_dbl_def Let_def
  by (erule ge_p2_dbl_rep [rotated]) (auto simp: rep_p2_def rep_p3_def ge_p3_to_p2_def)

section \<open>Conversions\<close>

lemma fe_bounded_101_102: "fe_bounded 101 25 f \<Longrightarrow> fe_bounded 102 25 f"
  by (erule fe_bounded_mono) simp

lemma ge_p1p1_to_p3_rep:
  assumes "rep_p1p1 p P" shows "rep_p3 (ge_p1p1_to_p3 p) P"
proof -
  have w: "wide (p1_X p)" "wide (p1_Y p)" "wide (p1_Z p)" "wide (p1_T p)"
    using assms by (simp_all add: rep_p1p1_def wide_def)
  with assms show ?thesis
    by (simp add: rep_p1p1_def rep_p3_def ge_p1p1_to_p3_def fe_mul_w fe_bounded_101_102 fe_mul_bd gf_unit_mult ac_simps)
qed

lemma ge_p1p1_to_p2_rep:
  assumes "rep_p1p1 p P" shows "rep_p2 (ge_p1p1_to_p2 p) P"
  using ge_p1p1_to_p3_rep [OF assms] by (simp add: rep_p2_def rep_p3_def ge_p1p1_to_p2_def ge_p1p1_to_p3_def)

lemma ge_p3_to_p2_rep: "rep_p3 p P \<Longrightarrow> rep_p2 (ge_p3_to_p2 p) P"
  by (auto simp: rep_p2_def rep_p3_def ge_p3_to_p2_def)

lemma const_bounded: "fe_bounded 101 25 curve_d" "fe_bounded 101 25 curve_d2" "fe_bounded 101 25 sqrtm1"
  unfolding curve_d_def curve_d2_def sqrtm1_def by (rule fe_lit_bounded, code_simp)+

lemma const_vals:
  "fe_val curve_d = limb_val fe_weights [-10913610, 13857413, -15372611, 6949391, 114729, -8787816, -6275908, -3247719, -18696448, -12055116]"
  "fe_val curve_d2 = limb_val fe_weights [-21827239, -5839606, -30745221, 13898782, 229458, 15978800, -12551817, -6495438, 29715968, 9444199]"
  "fe_val sqrtm1 = limb_val fe_weights [-32595792, -7943725, 9377950, 3500415, 12389472, -272473, -25146209, -2005654, 326686, 11406482]"
  unfolding curve_d_def curve_d2_def sqrtm1_def by (rule fe_lit_val, code_simp)+

lemma curve_d2_eq: "fe_abs curve_d2 = 2 * gf_d"
proof -
  have "(fe_val curve_d2 - 2 * fe_val curve_d) mod p25519 = 0" unfolding const_vals by code_simp
  then have "(of_int (fe_val curve_d2 - 2 * fe_val curve_d) :: gf) = 0" by (simp only: of_int_gf_eq_0_iff)
  then show ?thesis by (simp add: fe_abs_def)
qed

text \<open>The value of \<open>d\<close>, and that \<open>sqrtm1\<close> is a square root of \<open>-1\<close>.\<close>

lemma curve_d_eq: "gf_d * 121666 = - 121665"
proof -
  have "(fe_val curve_d * 121666 + 121665) mod p25519 = 0" unfolding const_vals by code_simp
  then have "(of_int (fe_val curve_d * 121666 + 121665) :: gf) = 0" by (simp only: of_int_gf_eq_0_iff)
  then show ?thesis by (simp add: fe_abs_def eq_neg_iff_add_eq_0)
qed

lemma sqrtm1_eq: "fe_abs sqrtm1 * fe_abs sqrtm1 = - 1"
proof -
  have "(fe_val sqrtm1 * fe_val sqrtm1 + 1) mod p25519 = 0" unfolding const_vals by code_simp
  then have "(of_int (fe_val sqrtm1 * fe_val sqrtm1 + 1) :: gf) = 0" by (simp only: of_int_gf_eq_0_iff)
  then show ?thesis by (simp add: fe_abs_def eq_neg_iff_add_eq_0)
qed

lemma ge_p3_to_cached_rep:
  assumes "rep_p3 p P" shows "rep_cached (ge_p3_to_cached p) P"
proof -
  obtain x y where P: "P = (x, y)" by (metis surj_pair)
  note s = p3_sums [OF assms [unfolded P]]
  have w: "wide curve_d2" using const_bounded(2) by (rule wideI) simp
  show ?thesis
    using assms s fe_mul_bd [OF s(6) w] unfolding P
    by (simp add: rep_cached_def ge_p3_to_cached_def rep_p3_def fe_mul_w w curve_d2_eq fe_bounded_101_102 ac_simps
        flip: wide_def)
qed

lemma ge_p3_0_rep: "rep_p3 ge_p3_0 (0, 1)" and ge_p2_0_rep: "rep_p2 ge_p2_0 (0, 1)"
  by (simp_all add: rep_p3_def rep_p2_def ge_p3_0_def ge_p2_0_def)

section \<open>No overflow in the group operations\<close>

text \<open>Whatever the coordinates stand for, points on or off the curve: within these limb bounds every operation
  stays within them, so that the field routines of a scalar multiplication are always called inside their
  preconditions.\<close>

definition p3_bounded :: "ge_p3 \<Rightarrow> bool" where
  "p3_bounded p \<longleftrightarrow> fe_bounded 102 25 (p3_X p) \<and> fe_bounded 102 25 (p3_Y p) \<and> fe_bounded 102 25 (p3_Z p) \<and> fe_bounded 102 25 (p3_T p)"

definition p2_bounded :: "ge_p2 \<Rightarrow> bool" where
  "p2_bounded p \<longleftrightarrow> fe_bounded 102 25 (p2_X p) \<and> fe_bounded 102 25 (p2_Y p) \<and> fe_bounded 102 25 (p2_Z p)"

definition p1p1_bounded :: "ge_p1p1 \<Rightarrow> bool" where
  "p1p1_bounded p \<longleftrightarrow> wide (p1_X p) \<and> wide (p1_Y p) \<and> wide (p1_Z p) \<and> wide (p1_T p)"

definition cached_bounded :: "ge_cached \<Rightarrow> bool" where
  "cached_bounded q \<longleftrightarrow> wide (YplusX q) \<and> wide (YminusX q) \<and> wide (cached_Z q) \<and> wide (T2d q)"

lemmas bounded_defs = p3_bounded_def p2_bounded_def p1p1_bounded_def cached_bounded_def

lemma p3_wide:
  assumes "p3_bounded p"
  shows "wide (fe_add (p3_Y p) (p3_X p))" "wide (fe_sub (p3_Y p) (p3_X p))" "wide (p3_Z p)" "wide (p3_T p)"
    "fe_bounded 204 25 (fe_add (p3_Z p) (p3_Z p))"
proof -
  have X: "fe_bounded 102 25 (p3_X p)" and Y: "fe_bounded 102 25 (p3_Y p)"
    and Z: "fe_bounded 102 25 (p3_Z p)" and T: "fe_bounded 102 25 (p3_T p)"
    using assms by (simp_all add: p3_bounded_def)
  show "wide (fe_add (p3_Y p) (p3_X p))" "wide (fe_sub (p3_Y p) (p3_X p))"
    by (rule wideI [OF fe_add_bd [OF Y X]] wideI [OF fe_sub_bd [OF Y X]]; simp)+
  show "wide (p3_Z p)" "wide (p3_T p)" using Z T wideI by auto
  show "fe_bounded 204 25 (fe_add (p3_Z p) (p3_Z p))" using fe_add_bd [OF Z Z] by simp
qed

lemma ge_add_bounded:
  assumes p: "p3_bounded p" and q: "cached_bounded q"
  shows "p1p1_bounded (ge_add p q)" and "p1p1_bounded (ge_sub p q)"
proof -
  note s = p3_wide [OF p]
  have w: "wide (YplusX q)" "wide (YminusX q)" "wide (cached_Z q)" "wide (T2d q)"
    using q by (simp_all add: cached_bounded_def)
  have zz: "fe_bounded 101 25 (fe_mul (p3_Z p) (cached_Z q))" by (rule fe_mul_bd [OF s(3) w(3)])
  have e: "fe_bounded 204 25 (fe_add (fe_mul (p3_Z p) (cached_Z q)) (fe_mul (p3_Z p) (cached_Z q)))"
    using fe_bounded_mono [OF fe_add_bd [OF zz zz]] by simp
  show "p1p1_bounded (ge_add p q)"
    using completed_bd [OF fe_mul_bd [OF s(1) w(1)] fe_mul_bd [OF s(2) w(2)] e fe_mul_bd [OF w(4) s(4)]]
    by (simp add: p1p1_bounded_def ge_add_def Let_def wide_def)
  show "p1p1_bounded (ge_sub p q)"
    using completed_bd [OF fe_mul_bd [OF s(1) w(2)] fe_mul_bd [OF s(2) w(1)] e fe_mul_bd [OF w(4) s(4)]]
    by (simp add: p1p1_bounded_def ge_sub_def Let_def wide_def)
qed

lemma ge_madd_bounded:
  assumes p: "p3_bounded p" and q: "precomp_bounded q"
  shows "p1p1_bounded (ge_madd p q)" and "p1p1_bounded (ge_msub p q)"
proof -
  note s = p3_wide [OF p]
  have w: "wide (yplusx q)" "wide (yminusx q)" "wide (xy2d q)"
    using q wideI by (auto simp: precomp_bounded_def)
  show "p1p1_bounded (ge_madd p q)"
    using completed_bd [OF fe_mul_bd [OF s(1) w(1)] fe_mul_bd [OF s(2) w(2)] s(5) fe_mul_bd [OF w(3) s(4)]]
    by (simp add: p1p1_bounded_def ge_madd_def Let_def wide_def)
  show "p1p1_bounded (ge_msub p q)"
    using completed_bd [OF fe_mul_bd [OF s(1) w(2)] fe_mul_bd [OF s(2) w(1)] s(5) fe_mul_bd [OF w(3) s(4)]]
    by (simp add: p1p1_bounded_def ge_msub_def Let_def wide_def)
qed

lemma ge_p2_dbl_bounded:
  assumes "p2_bounded p" shows "p1p1_bounded (ge_p2_dbl p)"
proof -
  have b: "fe_bounded 102 25 (p2_X p)" "fe_bounded 102 25 (p2_Y p)" "fe_bounded 102 25 (p2_Z p)"
    using assms by (simp_all add: p2_bounded_def)
  have w: "wide (p2_X p)" "wide (p2_Y p)" "wide (p2_Z p)" "wide (fe_add (p2_X p) (p2_Y p))"
    using b wideI [OF fe_add_bd [OF b(1,2)]] by (auto intro: wideI)
  have s: "fe_bounded 202 25 (fe_add (fe_sq (p2_Y p)) (fe_sq (p2_X p)))" "fe_bounded 202 25 (fe_sub (fe_sq (p2_Y p)) (fe_sq (p2_X p)))"
    using fe_add_bd [OF fe_sq_bd [OF w(2)] fe_sq_bd [OF w(1)]] fe_sub_bd [OF fe_sq_bd [OF w(2)] fe_sq_bd [OF w(1)]] by simp_all
  show ?thesis
    using wideI [OF s(1)] wideI [OF s(2)] wideI [OF fe_sub_bd [OF fe_sq_bd [OF w(4)] s(1)]] wideI [OF fe_sub_bd [OF fe_sq2_bd [OF w(3)] s(2)]]
    by (simp add: p1p1_bounded_def ge_p2_dbl_def Let_def)
qed

lemma ge_p1p1_to_bounded:
  "p1p1_bounded p \<Longrightarrow> p3_bounded (ge_p1p1_to_p3 p)" "p1p1_bounded p \<Longrightarrow> p2_bounded (ge_p1p1_to_p2 p)"
  by (simp_all add: bounded_defs ge_p1p1_to_p3_def ge_p1p1_to_p2_def fe_mul_bd fe_bounded_101_102)

lemma ge_p3_to_bounded:
  assumes "p3_bounded p" shows "p2_bounded (ge_p3_to_p2 p)" and "cached_bounded (ge_p3_to_cached p)"
    and "p1p1_bounded (ge_p3_dbl p)"
proof -
  show b: "p2_bounded (ge_p3_to_p2 p)" using assms by (simp add: bounded_defs ge_p3_to_p2_def)
  then show "p1p1_bounded (ge_p3_dbl p)" by (simp add: ge_p3_dbl_def ge_p2_dbl_bounded)
  have "wide curve_d2" using const_bounded(2) by (rule wideI) simp
  with p3_wide [OF assms] have "wide (fe_mul (p3_T p) curve_d2)" using fe_mul_bd [of "p3_T p" curve_d2] wideI by simp
  with p3_wide [OF assms] show "cached_bounded (ge_p3_to_cached p)" by (simp add: cached_bounded_def ge_p3_to_cached_def)
qed

lemma ge_0_bounded: "p3_bounded ge_p3_0" "p2_bounded ge_p2_0"
  by (simp_all add: bounded_defs ge_p3_0_def ge_p2_0_def)

lemmas ge_bounded = ge_add_bounded ge_madd_bounded ge_p2_dbl_bounded ge_p1p1_to_bounded ge_p3_to_bounded ge_0_bounded


section \<open>Properties\<close>

text \<open>Addition and subtraction of a cached point implement the Edwards addition law: for operands that
  represent affine points with their limbs in range, and whose sum (difference) has invertible denominators, the
  completed result, converted either way, represents that sum (difference), with its limbs in range again.\<close>

theorem ge_add_sub_correct:
  assumes "rep_p3 p P" and "rep_cached q (x, y)"
  shows "(edwards_sum P (x, y) R \<longrightarrow> rep_p3 (ge_p1p1_to_p3 (ge_add p q)) R \<and> rep_p2 (ge_p1p1_to_p2 (ge_add p q)) R) \<and>
    (edwards_sum P (- x, y) R \<longrightarrow> rep_p3 (ge_p1p1_to_p3 (ge_sub p q)) R \<and> rep_p2 (ge_p1p1_to_p2 (ge_sub p q)) R)"
  using assms ge_add_rep ge_sub_rep ge_p1p1_to_p3_rep ge_p1p1_to_p2_rep by blast

lemma edwards_sum_0: "edwards_sum (0, 1) (0, 1) (0, 1)"
  by (simp add: edwards_sum_def)

theorem ge_add_sub_correct_witness:
  "rep_p3 (ge_p1p1_to_p3 (ge_add ge_p3_0 (ge_p3_to_cached ge_p3_0))) (0, 1)"
  using ge_add_sub_correct [OF ge_p3_0_rep ge_p3_to_cached_rep [OF ge_p3_0_rep], of "(0, 1)"] edwards_sum_0 by blast

text \<open>The same for the mixed operations with a table entry \<open>(y + x, y - x, 2 d x y)\<close>.\<close>

theorem ge_madd_msub_correct:
  assumes "rep_p3 p P" and "rep_precomp q (x, y)"
  shows "(edwards_sum P (x, y) R \<longrightarrow> rep_p3 (ge_p1p1_to_p3 (ge_madd p q)) R \<and> rep_p2 (ge_p1p1_to_p2 (ge_madd p q)) R) \<and>
    (edwards_sum P (- x, y) R \<longrightarrow> rep_p3 (ge_p1p1_to_p3 (ge_msub p q)) R \<and> rep_p2 (ge_p1p1_to_p2 (ge_msub p q)) R)"
  using assms ge_madd_rep ge_msub_rep ge_p1p1_to_p3_rep ge_p1p1_to_p2_rep by blast

theorem ge_madd_msub_correct_witness:
  "rep_p3 (ge_p1p1_to_p3 (ge_madd ge_p3_0 \<lparr>yplusx = fe_1, yminusx = fe_1, xy2d = fe_0\<rparr>)) (0, 1)"
  using ge_madd_msub_correct [OF ge_p3_0_rep, of "\<lparr>yplusx = fe_1, yminusx = fe_1, xy2d = fe_0\<rparr>" 0 1 "(0, 1)"] edwards_sum_0
  by (simp add: rep_precomp_def precomp_bounded_def)

text \<open>Doubling, from the extended or the projective form, is the Edwards sum of a point of the curve
  with itself.\<close>

theorem ge_dbl_correct:
  assumes "on_curve x y" and "edwards_sum (x, y) (x, y) R"
  shows "(rep_p3 p (x, y) \<longrightarrow> rep_p3 (ge_p1p1_to_p3 (ge_p3_dbl p)) R \<and> rep_cached (ge_p3_to_cached (ge_p1p1_to_p3 (ge_p3_dbl p))) R) \<and>
    (rep_p2 q (x, y) \<longrightarrow> rep_p2 (ge_p1p1_to_p2 (ge_p2_dbl q)) R)"
  using assms ge_p3_dbl_rep ge_p2_dbl_rep ge_p1p1_to_p3_rep ge_p1p1_to_p2_rep ge_p3_to_cached_rep by blast

theorem ge_dbl_correct_witness: "rep_p3 (ge_p1p1_to_p3 (ge_p3_dbl ge_p3_0)) (0, 1)"
  using ge_dbl_correct [of 0 1 "(0, 1)" ge_p3_0 ge_p2_0] edwards_sum_0 ge_p3_0_rep by (simp add: on_curve_def)

text \<open>The curve constants: \<open>d\<close> is \<open>- 121665 / 121666\<close>, \<open>d2\<close> is \<open>2 d\<close>, \<open>sqrtm1\<close> squares to \<open>-1\<close>, in the
  field that the ten-limb literals denote.\<close>

theorem ge_constants:
  "fe_abs curve_d * 121666 = - 121665 \<and> fe_abs curve_d2 = 2 * fe_abs curve_d \<and> fe_abs sqrtm1 * fe_abs sqrtm1 = - 1 \<and>
   fe_bounded 101 25 curve_d \<and> fe_bounded 101 25 curve_d2 \<and> fe_bounded 101 25 sqrtm1"
  by (simp add: curve_d_eq curve_d2_eq sqrtm1_eq const_bounded)

end
