(* ===== verification/Ge_Scalar.thy ===== *)
theory Ge_Scalar
  imports Ge
begin

text \<open>
  Scalar multiplication (\<^verbatim>\<open>ge.c\<close>): the signed sliding-window digits \<open>slide\<close>, the table lookup
  \<open>select\<close>, the signed radix-16 digits, \<open>ge_scalarmult_base\<close> and \<open>ge_double_scalarmult_vartime\<close>.
  \<^verbatim>\<open>signed char\<close> is an 8-bit word read with \<open>sint\<close>; storing an \<^verbatim>\<open>int\<close> expression of sums, differences and
  left shifts into one is the 8-bit word expression.
\<close>

section \<open>Definitions\<close>

text \<open>\<open>slide\<close>, innermost loop: \<^verbatim>\<open>for (k = i + b; k < 256; ++k) { if (!r[k]) { r[k] = 1; break; } r[k] = 0; }\<close>.\<close>

function slide_carry :: "8 word list \<Rightarrow> nat \<Rightarrow> 8 word list" where
  "slide_carry r k =
    (if k < 256 then (if r ! k = 0 then r[k := 1] else slide_carry (r[k := 0]) (k + 1)) else r)"
  by auto
termination by (relation "measure (\<lambda>(r, k). 256 - k)") auto

text \<open>\<open>slide\<close>, the loop over \<open>b\<close> for a fixed \<open>i\<close>.\<close>

function slide_window :: "8 word list \<Rightarrow> nat \<Rightarrow> nat \<Rightarrow> 8 word list" where
  "slide_window r i b =
    (if b \<le> 6 \<and> i + b < 256 then
       if r ! (i + b) \<noteq> 0 then
         if sint (r ! i) + sint (r ! (i + b)) * 2 ^ b \<le> 15 then
           slide_window (r[i := r ! i + shl (r ! (i + b)) b, i + b := 0]) i (b + 1)
         else if - 15 \<le> sint (r ! i) - sint (r ! (i + b)) * 2 ^ b then
           slide_window (slide_carry (r[i := r ! i - shl (r ! (i + b)) b]) (i + b)) i (b + 1)
         else r
       else slide_window r i (b + 1)
     else r)"
  by auto
termination by (relation "measure (\<lambda>(r, i, b). 7 - b)") auto

declare slide_carry.simps [simp del] slide_window.simps [simp del]

definition slide :: "bytes \<Rightarrow> 8 word list" where
  "slide a =
    (let r = map (\<lambda>i. 1 AND shr (a ! (i div 8)) (i mod 8)) [0..<256]
     in fold (\<lambda>i r. if r ! i \<noteq> 0 then slide_window r i 1 else r) [0..<256] r)"


definition equal_schar :: "8 word \<Rightarrow> 8 word \<Rightarrow> u8" where
  "equal_schar b c =
    (let x = b XOR c;
         y = (ucast x :: u64);
         y = y - 1;
         y = shr y 63
     in ucast y)"

definition negative_schar :: "8 word \<Rightarrow> u8" where
  "negative_schar b = (let x = (scast b :: u64); x = shr x 63 in ucast x)"

definition cmov :: "ge_precomp \<Rightarrow> ge_precomp \<Rightarrow> u8 \<Rightarrow> ge_precomp" where
  "cmov t u b =
     \<lparr>yplusx = fe_cmov (yplusx t) (yplusx u) (ucast b), yminusx = fe_cmov (yminusx t) (yminusx u) (ucast b),
      xy2d = fe_cmov (xy2d t) (xy2d u) (ucast b)\<rparr>"

definition select :: "nat \<Rightarrow> 8 word \<Rightarrow> ge_precomp" where
  "select pos b =
    (let bnegative = negative_schar b;
         babs = ucast (scast b - shl ((- ucast bnegative) AND scast b) 1 :: i32);
         t = \<lparr>yplusx = fe_1, yminusx = fe_1, xy2d = fe_0\<rparr>;
         t = cmov t (base ! pos ! 0) (equal_schar babs 1);
         t = cmov t (base ! pos ! 1) (equal_schar babs 2);
         t = cmov t (base ! pos ! 2) (equal_schar babs 3);
         t = cmov t (base ! pos ! 3) (equal_schar babs 4);
         t = cmov t (base ! pos ! 4) (equal_schar babs 5);
         t = cmov t (base ! pos ! 5) (equal_schar babs 6);
         t = cmov t (base ! pos ! 6) (equal_schar babs 7);
         t = cmov t (base ! pos ! 7) (equal_schar babs 8);
         minust = \<lparr>yplusx = fe_copy (yminusx t), yminusx = fe_copy (yplusx t), xy2d = fe_neg (xy2d t)\<rparr>
     in cmov t minust bnegative)"

text \<open>The signed radix-16 digits of \<open>ge_scalarmult_base\<close>: the nibbles, then the carry loop.\<close>

definition nibbles :: "bytes \<Rightarrow> 8 word list" where
  "nibbles a = concat (map (\<lambda>i. [shr (a ! i) 0 AND 15, shr (a ! i) 4 AND 15]) [0..<32])"

definition recode_step :: "nat \<Rightarrow> 8 word list \<times> 8 word \<Rightarrow> 8 word list \<times> 8 word" where
  "recode_step i = (\<lambda>(e, carry).
    let e = e[i := e ! i + carry];
        carry = e ! i + 8;
        carry = sar carry 4;
        e = e[i := e ! i - shl carry 4]
    in (e, carry))"

definition recode :: "8 word list \<Rightarrow> 8 word list" where
  "recode e =
    (let (e, carry) = fold recode_step [0..<63] (e, 0)
     in e[63 := e ! 63 + carry])"

definition ge_scalarmult_base :: "bytes \<Rightarrow> ge_p3" where
  "ge_scalarmult_base a =
    (let e = recode (nibbles a);
         step = (\<lambda>i h. ge_p1p1_to_p3 (ge_madd h (select (i div 2) (e ! i))));
         h = ge_p3_0;
         h = fold step (map (\<lambda>k. 2 * k + 1) [0..<32]) h;
         s = ge_p1p1_to_p2 (ge_p3_dbl h);
         s = ge_p1p1_to_p2 (ge_p2_dbl s);
         s = ge_p1p1_to_p2 (ge_p2_dbl s);
         h = ge_p1p1_to_p3 (ge_p2_dbl s)
     in fold step (map (\<lambda>k. 2 * k) [0..<32]) h)"

text \<open>\<open>A, 3A, ..., 15A\<close>.\<close>

definition odd_multiples :: "ge_p3 \<Rightarrow> ge_cached list" where
  "odd_multiples A =
    (let Ai0 = ge_p3_to_cached A;
         A2 = ge_p1p1_to_p3 (ge_p3_dbl A);
         Ai1 = ge_p3_to_cached (ge_p1p1_to_p3 (ge_add A2 Ai0));
         Ai2 = ge_p3_to_cached (ge_p1p1_to_p3 (ge_add A2 Ai1));
         Ai3 = ge_p3_to_cached (ge_p1p1_to_p3 (ge_add A2 Ai2));
         Ai4 = ge_p3_to_cached (ge_p1p1_to_p3 (ge_add A2 Ai3));
         Ai5 = ge_p3_to_cached (ge_p1p1_to_p3 (ge_add A2 Ai4));
         Ai6 = ge_p3_to_cached (ge_p1p1_to_p3 (ge_add A2 Ai5));
         Ai7 = ge_p3_to_cached (ge_p1p1_to_p3 (ge_add A2 Ai6))
     in [Ai0, Ai1, Ai2, Ai3, Ai4, Ai5, Ai6, Ai7])"

text \<open>The loop that looks for the highest nonzero digit; the result is one more than the \<open>i\<close> of the code, so
  that the code's \<^verbatim>\<open>-1\<close> is 0.\<close>

fun top_digit :: "8 word list \<Rightarrow> 8 word list \<Rightarrow> nat \<Rightarrow> nat" where
  "top_digit aslide bslide 0 = 0"
| "top_digit aslide bslide (Suc i) =
    (if aslide ! i \<noteq> 0 \<or> bslide ! i \<noteq> 0 then Suc i else top_digit aslide bslide i)"

definition dsm_step :: "8 word list \<Rightarrow> 8 word list \<Rightarrow> ge_cached list \<Rightarrow> nat \<Rightarrow> ge_p2 \<Rightarrow> ge_p2" where
  "dsm_step aslide bslide Ai i r =
    (let t = ge_p2_dbl r;
         t = (if 0 < sint (aslide ! i) then ge_add (ge_p1p1_to_p3 t) (Ai ! nat (sint (aslide ! i) div 2))
              else if sint (aslide ! i) < 0 then ge_sub (ge_p1p1_to_p3 t) (Ai ! nat ((- sint (aslide ! i)) div 2))
              else t);
         t = (if 0 < sint (bslide ! i) then ge_madd (ge_p1p1_to_p3 t) (Bi ! nat (sint (bslide ! i) div 2))
              else if sint (bslide ! i) < 0 then ge_msub (ge_p1p1_to_p3 t) (Bi ! nat ((- sint (bslide ! i)) div 2))
              else t)
     in ge_p1p1_to_p2 t)"

fun dsm_loop :: "8 word list \<Rightarrow> 8 word list \<Rightarrow> ge_cached list \<Rightarrow> nat \<Rightarrow> ge_p2 \<Rightarrow> ge_p2" where
  "dsm_loop aslide bslide Ai 0 r = r"
| "dsm_loop aslide bslide Ai (Suc i) r = dsm_loop aslide bslide Ai i (dsm_step aslide bslide Ai i r)"

definition ge_double_scalarmult_vartime :: "bytes \<Rightarrow> ge_p3 \<Rightarrow> bytes \<Rightarrow> ge_p2" where
  "ge_double_scalarmult_vartime a A b =
    (let aslide = slide a;
         bslide = slide b;
         Ai = odd_multiples A
     in dsm_loop aslide bslide Ai (top_digit aslide bslide 256) ge_p2_0)"


section \<open>The table lookup\<close>

lemma ucast_ucast_8_64: "uint (ucast (x :: 8 word) :: u64) = uint x"
  by (rule uint_up_ucast) (simp add: is_up)

lemma equal_schar_eq: "equal_schar b c = (if b = c then 1 else 0)"
proof (cases "b = c")
  case True
  have "shr (- 1 :: u64) 63 = 1" by code_simp
  with True show ?thesis by (simp add: equal_schar_def)
next
  case False
  let ?x = "b XOR c"
  have "?x \<noteq> 0" using False by (simp add: xor_zero_iff)
  then have "0 < uint ?x" by (simp add: word_neq_0_conv word_less_def)
  then have "uint (ucast ?x - 1 :: u64) = uint ?x - 1"
    by (subst uint_minus_simple_alt [THEN iffD1]) (simp_all add: word_le_def ucast_ucast_8_64)
  with uint_byte [of ?x] have "uint (ucast ?x - 1 :: u64) < 256" by linarith
  then have "shr (ucast ?x - 1 :: u64) 63 = 0"
    by (simp only: word_uint_eq_iff uint_shr) simp
  with False show ?thesis by (simp add: equal_schar_def)
qed

lemma cmov_eq:
  assumes "b = 0 \<or> b = 1" shows "cmov t u b = (if b = 1 then u else t)"
proof -
  have "(ucast b :: 32 word) = (if b = 1 then 1 else 0)" using assms by auto
  then show ?thesis using assms by (auto simp: cmov_def fe_cmov_eq)
qed

text \<open>What \<open>select\<close> chooses: entry \<open>|b|\<close> of a row counted from 1, negated for a negative \<open>b\<close>, the identity for 0.\<close>

definition precomp_neg :: "ge_precomp \<Rightarrow> ge_precomp" where
  "precomp_neg t = \<lparr>yplusx = yminusx t, yminusx = yplusx t, xy2d = fe_neg (xy2d t)\<rparr>"

definition precomp_0 :: ge_precomp where
  "precomp_0 = \<lparr>yplusx = fe_1, yminusx = fe_1, xy2d = fe_0\<rparr>"

definition table_entry :: "ge_precomp list \<Rightarrow> int \<Rightarrow> ge_precomp" where
  "table_entry row b =
    (if b = 0 then precomp_0 else if 0 < b then row ! nat (b - 1) else precomp_neg (row ! nat (- b - 1)))"

lemma small_digit:
  fixes x :: int
  assumes "- 8 \<le> x" and "x \<le> 8"
  shows "x \<in> {-8, -7, -6, -5, -4, -3, -2, -1, 0, 1, 2, 3, 4, 5, 6, 7, 8}"
  using assms by simp arith

lemma schar_range:
  assumes "- 8 \<le> sint b" and "sint b \<le> 8"
  shows "b \<in> set [-8, -7, -6, -5, -4, -3, -2, -1, 0, 1, 2, 3, 4, 5, 6, 7, 8 :: 8 word]"
proof -
  have "(of_int (sint b) :: 8 word) \<in> of_int ` {-8, -7, -6, -5, -4, -3, -2, -1, 0, 1, 2, 3, 4, 5, 6, 7, 8}"
    by (rule imageI [OF small_digit [OF assms]])
  then show ?thesis by simp
qed

lemma babs_values:
  "list_all (\<lambda>b. ucast (scast b - shl ((- ucast (negative_schar b)) AND scast b) 1 :: i32) = (of_int \<bar>sint b\<bar> :: 8 word) \<and>
      negative_schar b = (if sint b < 0 then 1 else 0))
    [-8, -7, -6, -5, -4, -3, -2, -1, 0, 1, 2, 3, 4, 5, 6, 7, 8 :: 8 word]"
  by code_simp

lemma select_babs:
  assumes "- 8 \<le> sint b" and "sint b \<le> 8"
  shows "ucast (scast b - shl ((- ucast (negative_schar b)) AND scast b) 1 :: i32) = (of_int \<bar>sint b\<bar> :: 8 word)"
    and "negative_schar b = (if sint b < 0 then 1 else 0)"
  using babs_values schar_range [OF assms] unfolding list_all_iff by blast+

lemma select_eq:
  assumes "- 8 \<le> sint b" and "sint b \<le> 8"
  shows "select pos b = table_entry (base ! pos) (sint b)"
  using small_digit [OF assms]
  unfolding select_def Let_def select_babs(1) [OF assms] unfolding select_babs(2) [OF assms] equal_schar_eq
  by (elim insertE emptyE) (simp_all add: cmov_eq table_entry_def precomp_neg_def precomp_0_def)


section \<open>Signed radix-16 digits\<close>

text \<open>The value of a list of signed digits.\<close>

definition digits_val :: "int \<Rightarrow> 8 word list \<Rightarrow> int" where
  "digits_val r ds = (\<Sum>i<length ds. sint (ds ! i) * r ^ i)"

lemma nibble_lo: "sint (b AND 15 :: 8 word) = uint b mod 16"
proof -
  have "uint (take_bit 4 b) = uint b mod 16"
    by (simp only: unsigned_take_bit_eq) (simp add: take_bit_eq_mod)
  moreover have "uint b mod 16 < 16" by simp
  ultimately show ?thesis unfolding and_15 by (subst sint_eq_uint_small) simp_all
qed

lemma nibble_hi: "uint (shr b 4) mod 16 = uint b div 16" for b :: "8 word"
proof -
  have "uint b div 16 < 16" "0 \<le> uint b div 16" using uint_byte [of b] by (auto simp: pos_imp_zdiv_nonneg_iff)
  then show ?thesis by (simp add: uint_shr)
qed

lemmas nibble_vals = nibble_lo nibble_hi

lemma digits_val_Cons: "digits_val r (d # ds) = sint d + r * digits_val r ds"
  by (simp add: digits_val_def sum.lessThan_Suc_shift sum_distrib_left ac_simps del: sum.lessThan_Suc)

lemma nibbles_concat:
  assumes "length a = 32"
  shows "nibbles a = concat (map (\<lambda>b. [b AND 15, shr b 4 AND 15]) a)"
proof -
  have "map (\<lambda>i. [shr (a ! i) 0 AND 15, shr (a ! i) 4 AND 15]) [0..<32] =
      map (\<lambda>b. [b AND 15, shr b 4 AND 15]) (map ((!) a) [0..<32])" by simp
  also have "map ((!) a) [0..<32] = a" using map_nth [of a] assms by simp
  finally show ?thesis by (simp only: nibbles_def)
qed

lemma nibbles_val:
  assumes "length a = 32"
  shows "length (nibbles a) = 64" "digits_val 16 (nibbles a) = le_val a"
    "i < 64 \<Longrightarrow> 0 \<le> sint (nibbles a ! i) \<and> sint (nibbles a ! i) \<le> 15"
proof -
  let ?f = "\<lambda>b :: 8 word. [b AND 15, shr b 4 AND 15]"
  have "length (concat (map ?f a)) = 2 * length a" by (induction a) auto
  then show len: "length (nibbles a) = 64" using assms by (simp add: nibbles_concat)
  have "digits_val 16 (concat (map ?f a)) = le_val a"
  proof (induction a)
    case Nil then show ?case by (simp add: digits_val_def)
  next
    case (Cons b a) then show ?case by (simp add: digits_val_Cons nibble_vals)
  qed
  then show "digits_val 16 (nibbles a) = le_val a" using assms by (simp add: nibbles_concat)
  have "\<forall>d \<in> set (concat (map ?f a)). 0 \<le> sint d \<and> sint d \<le> 15"
    by (auto simp: nibble_lo)
  then have "\<forall>d \<in> set (nibbles a). 0 \<le> sint d \<and> sint d \<le> 15" by (simp only: nibbles_concat [OF assms])
  then show "i < 64 \<Longrightarrow> 0 \<le> sint (nibbles a ! i) \<and> sint (nibbles a ! i) \<le> 15"
    using len nth_mem [of i "nibbles a"] by simp
qed

lemma recode_step_ok:
  assumes i: "i < length e" and e: "0 \<le> sint (e ! i)" "sint (e ! i) \<le> 15" and c: "0 \<le> sint c" "sint c \<le> 1"
  obtains d c' where "recode_step i (e, c) = (e[i := d], c')" and "- 8 \<le> sint d" and "sint d \<le> 7"
    and "0 \<le> sint c'" and "sint c' \<le> 1" and "sint d + 16 * sint c' = sint (e ! i) + sint c"
proof -
  let ?x = "e ! i + c" let ?c = "sar (?x + 8) 4" let ?d = "?x - shl ?c 4"
  have x: "sint ?x = sint (e ! i) + sint c" using e c by (subst sint_add_exact) (simp_all add: srange_def)
  have x8: "sint (?x + 8) = sint ?x + 8" using e c by (subst sint_add_exact) (simp_all add: srange_def x)
  have c': "sint ?c = (sint ?x + 8) div 16" by (simp add: sint_sar x8)
  have cr: "0 \<le> sint ?c" "sint ?c \<le> 1" unfolding c' x using e c by auto
  have sh: "sint (shl ?c 4) = 16 * sint ?c"
    unfolding shl_eq_mult using cr by (subst sint_mult_exact) (simp_all add: srange_def)
  have r: "- 8 \<le> sint ?x - 16 * sint ?c" "sint ?x - 16 * sint ?c \<le> 7"
    unfolding c' using minus_mod_eq_mult_div [of "sint ?x + 8" 16, symmetric] by auto
  have d: "sint ?d = sint ?x - 16 * sint ?c"
    using r by (subst sint_sub_exact) (simp_all add: srange_def sh)
  show ?thesis
  proof (rule that)
    show "recode_step i (e, c) = (e[i := ?d], ?c)" using i by (simp add: recode_step_def Let_def)
  qed (use cr r in \<open>simp_all add: d x\<close>)
qed

lemma recode_fold:
  assumes "n \<le> length e" and "\<forall>i < n. 0 \<le> sint (e ! i) \<and> sint (e ! i) \<le> 15"
  shows "\<exists>e' c. fold recode_step [0..<n] (e, 0) = (e', c) \<and> length e' = length e \<and> 0 \<le> sint c \<and> sint c \<le> 1 \<and>
    (\<forall>i < n. - 8 \<le> sint (e' ! i) \<and> sint (e' ! i) \<le> 7) \<and> (\<forall>i \<ge> n. e' ! i = e ! i) \<and>
    (\<Sum>i<n. sint (e' ! i) * 16 ^ i) + sint c * 16 ^ n = (\<Sum>i<n. sint (e ! i) * 16 ^ i)"
  using assms
proof (induction n)
  case 0
  then show ?case by simp
next
  case (Suc n)
  then obtain e' c where f: "fold recode_step [0..<n] (e, 0) = (e', c)" and len: "length e' = length e"
    and c: "0 \<le> sint c" "sint c \<le> 1" and r: "\<forall>i < n. - 8 \<le> sint (e' ! i) \<and> sint (e' ! i) \<le> 7"
    and same: "\<forall>i \<ge> n. e' ! i = e ! i"
    and v: "(\<Sum>i<n. sint (e' ! i) * 16 ^ i) + sint c * 16 ^ n = (\<Sum>i<n. sint (e ! i) * 16 ^ i)"
    using Suc.IH by auto
  have "n < length e'" "0 \<le> sint (e' ! n)" "sint (e' ! n) \<le> 15" using Suc.prems len same by auto
  then obtain d c' where st: "recode_step n (e', c) = (e'[n := d], c')" and d: "- 8 \<le> sint d" "sint d \<le> 7"
    and c': "0 \<le> sint c'" "sint c' \<le> 1" and eq: "sint d + 16 * sint c' = sint (e' ! n) + sint c"
    by (rule recode_step_ok [OF _ _ _ c])
  have "(\<Sum>i<n. sint (e'[n := d] ! i) * 16 ^ i) = (\<Sum>i<n. sint (e' ! i) * 16 ^ i)" by (rule sum.cong) auto
  moreover have "sint d * 16 ^ n + sint c' * 16 ^ Suc n = sint (e ! n) * 16 ^ n + sint c * 16 ^ n"
    using arg_cong [OF eq, of "\<lambda>x. x * 16 ^ n"] same by (simp add: algebra_simps)
  ultimately have "(\<Sum>i<Suc n. sint (e'[n := d] ! i) * 16 ^ i) + sint c' * 16 ^ Suc n = (\<Sum>i<Suc n. sint (e ! i) * 16 ^ i)"
    using v \<open>n < length e'\<close> by simp
  then show ?case
    using st c' d r same len f \<open>n < length e'\<close> by (auto simp: nth_list_update less_Suc_eq)
qed

text \<open>The digits of a scalar whose top bit is clear lie in \<open>-8 .. 8\<close> and have the scalar as their value.\<close>

lemma recode_ok:
  assumes "length a = 32" and "a ! 31 < 128"
  shows "length (recode (nibbles a)) = 64" "digits_val 16 (recode (nibbles a)) = le_val a"
    "i < 64 \<Longrightarrow> - 8 \<le> sint (recode (nibbles a) ! i) \<and> sint (recode (nibbles a) ! i) \<le> 8"
proof -
  let ?e = "nibbles a"
  note n = nibbles_val [OF assms(1)]
  obtain e' c where f: "fold recode_step [0..<63] (?e, 0) = (e', c)" and len: "length e' = 64"
    and c: "0 \<le> sint c" "sint c \<le> 1" and r: "\<forall>i < 63. - 8 \<le> sint (e' ! i) \<and> sint (e' ! i) \<le> 7"
    and same: "\<forall>i \<ge> 63. e' ! i = ?e ! i"
    and v: "(\<Sum>i<63. sint (e' ! i) * 16 ^ i) + sint c * 16 ^ 63 = (\<Sum>i<63. sint (?e ! i) * 16 ^ i)"
    using recode_fold [of 63 ?e] n by auto
  have "?e ! 63 = shr (a ! 31) 4 AND 15"
    by (simp add: nibbles_def upt_rec numeral_nat)
  then have top: "0 \<le> sint (?e ! 63)" "sint (?e ! 63) \<le> 7"
    using assms(2) n(3) [of 63] by (simp_all add: nibble_vals word_less_def)
  have s: "sint (?e ! 63 + c) = sint (?e ! 63) + sint c"
    using top c by (subst sint_add_exact) (simp_all add: srange_def)
  have rc: "recode ?e = e'[63 := ?e ! 63 + c]" using f same by (simp add: recode_def)
  show "length (recode ?e) = 64" by (simp add: rc len)
  show "i < 64 \<Longrightarrow> - 8 \<le> sint (recode ?e ! i) \<and> sint (recode ?e ! i) \<le> 8"
    using r [rule_format, of i] top c s len by (cases "i = 63") (auto simp: rc)
  have "(\<Sum>i<63. sint (recode ?e ! i) * 16 ^ i) = (\<Sum>i<63. sint (e' ! i) * 16 ^ i)"
    by (rule sum.cong) (auto simp: rc)
  moreover have "(\<Sum>i<64. f i) = (\<Sum>i<63. f i) + f 63" for f :: "nat \<Rightarrow> int"
    using sum.lessThan_Suc [of f 63] by simp
  ultimately have "digits_val 16 (recode ?e) = digits_val 16 ?e"
    using v len n(1) by (simp add: digits_val_def rc s distrib_right)
  then show "digits_val 16 (recode ?e) = le_val a" by (simp add: n(2))
qed


section \<open>Sliding-window digits\<close>

text \<open>The part of the value that the digits from position \<open>k\<close> on carry.\<close>

definition tail_val :: "8 word list \<Rightarrow> nat \<Rightarrow> int" where
  "tail_val r k = (\<Sum>j = k..<256. sint (r ! j) * 2 ^ j)"

definition bits_from :: "8 word list \<Rightarrow> nat \<Rightarrow> bool" where
  "bits_from r k \<longleftrightarrow> (\<forall>j. k \<le> j \<and> j < 256 \<longrightarrow> r ! j = 0 \<or> r ! j = 1)"

lemma tail_val_Suc: "k < 256 \<Longrightarrow> tail_val r k = sint (r ! k) * 2 ^ k + tail_val r (Suc k)"
  by (simp add: tail_val_def sum.atLeast_Suc_lessThan)

lemma tail_val_cong: "(\<And>j. k \<le> j \<Longrightarrow> j < 256 \<Longrightarrow> r ! j = r' ! j) \<Longrightarrow> tail_val r k = tail_val r' k"
  by (simp add: tail_val_def)

lemma tail_val_nonneg: "bits_from r k \<Longrightarrow> 0 \<le> tail_val r k"
  unfolding tail_val_def bits_from_def by (rule sum_nonneg) fastforce

lemma tail_val_dvd: "2 ^ k dvd tail_val r k"
  unfolding tail_val_def by (rule dvd_sum) (simp add: le_imp_power_dvd)

lemma bits_from_mono: "bits_from r k \<Longrightarrow> k \<le> k' \<Longrightarrow> bits_from r k'"
  by (simp add: bits_from_def)

lemma bits_from_Suc: "bits_from r (Suc k) \<Longrightarrow> r ! k = 0 \<or> r ! k = 1 \<Longrightarrow> bits_from r k"
  unfolding bits_from_def by (metis not_less_eq_eq le_antisym)

lemma tail_val_skip:
  assumes "k \<le> m" and "m \<le> 256" and "\<And>j. k \<le> j \<Longrightarrow> j < m \<Longrightarrow> r ! j = 0"
  shows "tail_val r k = tail_val r m"
  using assms
proof (induction m rule: dec_induct)
  case base
  then show ?case by simp
next
  case (step n)
  then show ?case using tail_val_Suc [of n r] by simp
qed

lemma slide_carry_ok:
  assumes "length r = 256" and "bits_from r k" and "tail_val r k + 2 ^ k \<le> 2 ^ 253"
  shows "length (slide_carry r k) = 256 \<and> bits_from (slide_carry r k) k \<and>
    tail_val (slide_carry r k) k = tail_val r k + 2 ^ k \<and> (\<forall>j < k. slide_carry r k ! j = r ! j) \<and>
    (r ! k \<noteq> 0 \<longrightarrow> slide_carry r k ! k = 0)"
  using assms
proof (induction r k rule: slide_carry.induct)
  case (1 r k)
  have "(2::int) ^ k \<le> 2 ^ 253" using 1(4) tail_val_nonneg [OF 1(3)] by linarith
  then have k: "k < 256" using power_le_imp_le_exp [of "2::int" k 253] by simp
  show ?case
  proof (cases "r ! k = 0")
    case True
    have s: "slide_carry r k = r[k := 1]" using k True by (subst slide_carry.simps) simp
    have "tail_val (r[k := 1]) (Suc k) = tail_val r (Suc k)" by (rule tail_val_cong) simp
    then show ?thesis
      unfolding s using True k 1(2,3) tail_val_Suc [OF k, of r] tail_val_Suc [OF k, of "r[k := 1]"]
      by (auto simp: bits_from_def nth_list_update)
  next
    case False
    then have rk: "r ! k = 1" using 1(3) k by (auto simp: bits_from_def)
    have t: "tail_val (r[k := 0]) (Suc k) = tail_val r (Suc k)" by (rule tail_val_cong) simp
    let ?s = "slide_carry (r[k := 0]) (k + 1)"
    have IH: "length ?s = 256 \<and> bits_from ?s (k + 1) \<and> tail_val ?s (k + 1) = tail_val (r[k := 0]) (k + 1) + 2 ^ (k + 1) \<and>
        (\<forall>j < k + 1. ?s ! j = r[k := 0] ! j) \<and> (r[k := 0] ! (k + 1) \<noteq> 0 \<longrightarrow> ?s ! (k + 1) = 0)"
      using k False 1(2,3,4) t tail_val_Suc [OF k, of r] rk
      by (intro 1(1)) (auto simp: bits_from_def nth_list_update)
    have s: "slide_carry r k = ?s" using k False by (subst slide_carry.simps) simp
    have "?s ! k = 0" using IH k 1(2) by simp
    moreover from this IH have "bits_from ?s k" by (simp add: bits_from_Suc)
    ultimately show ?thesis
      unfolding s using IH t rk tail_val_Suc [OF k, of r] tail_val_Suc [OF k, of ?s] by auto
  qed
qed

text \<open>What the loop over \<open>b\<close> keeps: the digits above \<open>i\<close> are bits, those between \<open>i\<close> and \<open>i + b\<close> have been
  absorbed, the digit at \<open>i\<close> is odd and a negative one means that a carry was made.\<close>

definition window_inv :: "8 word list \<Rightarrow> nat \<Rightarrow> nat \<Rightarrow> bool" where
  "window_inv r i b \<longleftrightarrow>
     length r = 256 \<and> i < 256 \<and> 1 \<le> b \<and> bits_from r (Suc i) \<and> (\<forall>j. i < j \<and> j < i + b \<and> j < 256 \<longrightarrow> r ! j = 0) \<and>
     odd (sint (r ! i)) \<and> - 15 \<le> sint (r ! i) \<and> sint (r ! i) \<le> 15 \<and> sint (r ! i) < 2 ^ b \<and>
     (sint (r ! i) < 0 \<longrightarrow> 5 \<le> b) \<and> tail_val r i \<le> 2 ^ 253 \<and> tail_val r (Suc i) \<le> 2 ^ 253"

lemma window_b: "b \<le> 6 \<Longrightarrow> 1 \<le> b \<Longrightarrow> b = 1 \<or> b = 2 \<or> b = 3 \<or> b = 4 \<or> b = 5 \<or> b = 6" for b :: nat
  by arith

lemma sint_shl_1: "b \<le> 6 \<Longrightarrow> sint (shl (1 :: 8 word) b) = 2 ^ b"
  unfolding shl_eq_mult using window_b [of b] by (cases "b = 0") auto


text \<open>The branch that adds the digit at \<open>i + b\<close> to the one at \<open>i\<close>.\<close>

lemma window_merge:
  assumes inv: "window_inv r i b" and b: "b \<le> 6" "i + b < 256" and one: "r ! (i + b) = 1"
    and le: "sint (r ! i) + 2 ^ b \<le> 15"
  defines "r' \<equiv> r[i := r ! i + shl (r ! (i + b)) b, i + b := 0]"
  shows "window_inv r' i (b + 1) \<and> tail_val r' i = tail_val r i \<and> (\<forall>j < i. r' ! j = r ! j)"
proof -
  have b1: "1 \<le> b" using inv by (simp add: window_inv_def)
  have d: "sint (r ! i + shl (r ! (i + b)) b) = sint (r ! i) + 2 ^ b"
    using inv le window_b [OF b(1) b1] unfolding one
    by (subst sint_add_exact) (auto simp: sint_shl_1 b srange_def window_inv_def)
  have len: "length r = 256" "i < 256" using inv by (simp_all add: window_inv_def)
  have ri: "r' ! i = r ! i + shl (r ! (i + b)) b" "r' ! (i + b) = 0" using len b b1 by (simp_all add: r'_def)
  have other: "r' ! j = r ! j" if "j \<noteq> i" "j \<noteq> i + b" for j using that by (simp add: r'_def)
  have mid: "tail_val q (Suc i) = tail_val q (i + b)" if "\<And>j. i < j \<Longrightarrow> j < i + b \<Longrightarrow> q ! j = 0" for q
    using that b b1 by (intro tail_val_skip) auto
  have z: "r ! j = 0" "r' ! j = 0" if "i < j" "j < i + b" for j
    using that inv b other [of j] by (auto simp: window_inv_def)
  have "tail_val r' (Suc (i + b)) = tail_val r (Suc (i + b))" by (rule tail_val_cong) (simp add: other)
  then have hi: "tail_val r' (Suc i) = tail_val r (Suc i) - 2 ^ (i + b)"
    using mid [of r] mid [of r'] z tail_val_Suc [OF b(2), of r] tail_val_Suc [OF b(2), of r'] one ri by simp
  then have eq: "tail_val r' i = tail_val r i"
    using tail_val_Suc [OF len(2), of r] tail_val_Suc [OF len(2), of r'] ri(1) d by (simp add: distrib_right power_add)
  have "r' ! j = 0 \<or> r' ! j = 1" if "Suc i \<le> j" "j < 256" for j
    using that inv ri(2) other [of j] by (cases "j = i + b") (auto simp: window_inv_def bits_from_def)
  then have "bits_from r' (Suc i)" by (simp add: bits_from_def)
  moreover have "r' ! j = 0" if "i < j" "j < i + (b + 1)" for j using z(2) ri(2) that by (cases "j = i + b") auto
  moreover have "tail_val r' (Suc i) \<le> tail_val r (Suc i)" using hi by simp
  moreover have "(0::int) \<le> 2 ^ b" by simp
  moreover have "length r' = 256" using len by (simp add: r'_def)
  ultimately have "window_inv r' i (b + 1)"
    using inv eq b1 le len unfolding window_inv_def ri(1) d by (auto simp del: zero_le_power zero_le_numeral)
  then show ?thesis using eq other by auto
qed

text \<open>The branch that subtracts it and carries.\<close>

lemma window_carry:
  assumes inv: "window_inv r i b" and b: "b \<le> 6" "i + b < 256" and one: "r ! (i + b) = 1"
    and gt: "15 < sint (r ! i) + 2 ^ b" and ge: "- 15 \<le> sint (r ! i) - 2 ^ b"
  defines "r' \<equiv> slide_carry (r[i := r ! i - shl (r ! (i + b)) b]) (i + b)"
  shows "window_inv r' i (b + 1) \<and> tail_val r' i = tail_val r i \<and> (\<forall>j < i. r' ! j = r ! j)"
proof -
  have b1: "1 \<le> b" using inv by (simp add: window_inv_def)
  have len: "length r = 256" "i < 256" using inv by (simp_all add: window_inv_def)
  let ?q = "r[i := r ! i - shl (r ! (i + b)) b]"
  have pos: "0 < sint (r ! i)" and b4: "4 \<le> b"
    using inv ge gt window_b [OF b(1) b1] by (auto simp: window_inv_def)
  have d: "sint (r ! i - shl (r ! (i + b)) b) = sint (r ! i) - 2 ^ b"
    using inv ge window_b [OF b(1) b1] unfolding one
    by (subst sint_sub_exact) (auto simp: sint_shl_1 b srange_def window_inv_def)
  have mid: "tail_val q (Suc i) = tail_val q (i + b)" if "\<And>j. i < j \<Longrightarrow> j < i + b \<Longrightarrow> q ! j = 0" for q
    using that b b1 by (intro tail_val_skip) auto
  have z: "r ! j = 0" if "i < j" "j < i + b" for j using that inv b by (auto simp: window_inv_def)
  have q: "tail_val ?q (i + b) = tail_val r (Suc i)"
    using mid [of r] z b1 tail_val_cong [of "i + b" ?q r] by simp
  have "0 < sint (r ! i) * 2 ^ i" using pos by simp
  then have lt: "tail_val r (Suc i) < 2 ^ 253"
    using inv tail_val_Suc [OF len(2), of r] by (simp add: window_inv_def)
  have bits: "bits_from ?q (i + b)" using inv b1 by (auto simp: window_inv_def bits_from_def)
  have "2 ^ (i + b) \<le> tail_val r (Suc i)"
    using tail_val_Suc [OF b(2), of ?q] tail_val_nonneg [OF bits_from_mono [OF bits, of "Suc (i + b)"]] b1 one q by simp
  then have "(2::int) ^ (i + b) < 2 ^ 253" using lt by (rule le_less_trans)
  then have "i + b < 253" by (rule power_less_imp_less_exp [rotated]) simp
  then have "(2::int) ^ (i + b) dvd 2 ^ 253 - tail_val r (Suc i)"
    using tail_val_dvd [of "i + b" ?q] le_imp_power_dvd [of "i + b" 253 "2::int"] unfolding q
    by (intro dvd_diff) simp_all
  then have "2 ^ (i + b) \<le> 2 ^ 253 - tail_val r (Suc i)" using lt by (intro zdvd_imp_le) simp_all
  then have room: "tail_val ?q (i + b) + 2 ^ (i + b) \<le> 2 ^ 253" unfolding q by simp
  have c: "length r' = 256" "bits_from r' (i + b)" "tail_val r' (i + b) = tail_val r (Suc i) + 2 ^ (i + b)"
    "\<And>j. j < i + b \<Longrightarrow> r' ! j = ?q ! j" "r' ! (i + b) = 0"
    using slide_carry_ok [OF _ bits room] len q b1 one by (simp_all add: r'_def)
  have z': "r' ! j = 0" if "i < j" "j < i + b" for j using that c(4) z by simp
  have ri: "r' ! i = r ! i - shl (r ! (i + b)) b" using c(4) [of i] b1 len by simp
  have hi: "tail_val r' (Suc i) = tail_val r (Suc i) + 2 ^ (i + b)" using mid [of r'] z' c(3) by simp
  then have eq: "tail_val r' i = tail_val r i"
    using tail_val_Suc [OF len(2), of r] tail_val_Suc [OF len(2), of r'] ri d by (simp add: left_diff_distrib power_add)
  have z'': "r' ! j = 0" if "i < j" "j < i + (b + 1)" for j using that z' c(5) by (cases "j = i + b") auto
  have "bits_from r' (Suc i)"
    using c(2) z'' by (auto simp: bits_from_def) (metis Suc_le_eq add.right_neutral add_Suc_right less_Suc_eq not_le)
  then have "window_inv r' i (b + 1)"
    using inv eq hi room b4 ge ri d len c(1) z'' b1 pos by (auto simp: window_inv_def q)
  then show ?thesis using eq c(4) by auto
qed

lemma slide_window_ok:
  assumes "window_inv r i b"
  shows "let r' = slide_window r i b in
    length r' = 256 \<and> bits_from r' (Suc i) \<and> odd (sint (r' ! i)) \<and> - 15 \<le> sint (r' ! i) \<and> sint (r' ! i) \<le> 15 \<and>
    tail_val r' i = tail_val r i \<and> tail_val r' (Suc i) \<le> 2 ^ 253 \<and> (\<forall>j < i. r' ! j = r ! j)"
  using assms
proof (induction r i b rule: slide_window.induct)
  case (1 r i b)
  note inv = 1(4)
  let ?m = "r[i := r ! i + shl (r ! (i + b)) b, i + b := 0]"
  let ?c = "slide_carry (r[i := r ! i - shl (r ! (i + b)) b]) (i + b)"
  have stop: ?case if "slide_window r i b = r" using inv by (simp add: that Let_def window_inv_def)
  show ?case
  proof (cases "b \<le> 6 \<and> i + b < 256")
    case False
    then have "slide_window r i b = r" by (subst slide_window.simps) (simp only: if_False)
    then show ?thesis by (rule stop)
  next
    case b: True
    show ?thesis
    proof (cases "r ! (i + b) = 0")
      case zero: True
      have "window_inv r i (b + 1)"
        using inv zero zero_le_power [of "2::int" b] by (auto simp: window_inv_def less_Suc_eq simp del: zero_le_power)
      from 1(3) [OF b _ this] zero b show ?thesis by (subst slide_window.simps) simp
    next
      case nz: False
      have "bits_from r (Suc i)" "Suc i \<le> i + b" using inv by (simp_all add: window_inv_def)
      with nz b have one: "r ! (i + b) = 1" unfolding bits_from_def by blast
      show ?thesis
      proof (cases "sint (r ! i) + 2 ^ b \<le> 15")
        case le: True
        have s: "slide_window r i b = slide_window ?m i (b + 1)" using b one le by (subst slide_window.simps) simp
        note m = window_merge [OF inv _ _ one le]
        from 1(1) [OF b nz] m b one le show ?thesis unfolding s Let_def by simp
      next
        case gt: False
        show ?thesis
        proof (cases "- 15 \<le> sint (r ! i) - 2 ^ b")
          case ge: True
          have s: "slide_window r i b = slide_window ?c i (b + 1)" using b one gt ge by (subst slide_window.simps) simp
          note c = window_carry [OF inv _ _ one _ ge]
          from 1(2) [OF b nz] c b one gt ge show ?thesis unfolding s Let_def by simp
        next
          case False
          then have "slide_window r i b = r" using b one gt by (subst slide_window.simps) simp
          then show ?thesis by (rule stop)
        qed
      qed
    qed
  qed
qed


text \<open>A digit string that \<open>slide\<close> may deliver: every digit is zero or odd, between \<open>-15\<close> and \<open>15\<close>.\<close>

definition slide_digit :: "8 word \<Rightarrow> bool" where
  "slide_digit d \<longleftrightarrow> d = 0 \<or> odd (sint d) \<and> - 15 \<le> sint d \<and> sint d \<le> 15"

definition slide_inv :: "int \<Rightarrow> 8 word list \<Rightarrow> nat \<Rightarrow> bool" where
  "slide_inv v r i \<longleftrightarrow>
     length r = 256 \<and> bits_from r i \<and> (\<forall>j < i. slide_digit (r ! j)) \<and> tail_val r i \<le> 2 ^ 253 \<and> tail_val r 0 = v"

lemma tail_val_0_eqI:
  assumes "i \<le> 256" and "tail_val r' i = tail_val r i" and "\<forall>j < i. r' ! j = r ! j"
  shows "tail_val r' 0 = tail_val r 0"
proof -
  have "tail_val q 0 = (\<Sum>j = 0..<i. sint (q ! j) * 2 ^ j) + tail_val q i" for q
    unfolding tail_val_def using assms(1) by (intro sum.atLeastLessThan_concat [symmetric]) simp_all
  then show ?thesis using assms(2,3) by simp
qed

lemma slide_step_inv:
  assumes inv: "slide_inv v r i" and i: "i < 256"
  shows "slide_inv v (if r ! i \<noteq> 0 then slide_window r i 1 else r) (Suc i)"
proof (cases "r ! i = 0")
  case True
  then show ?thesis
    using inv tail_val_Suc [OF i, of r] bits_from_mono [of r i "Suc i"]
    by (auto simp: slide_inv_def slide_digit_def less_Suc_eq)
next
  case False
  then have one: "r ! i = 1" using inv i unfolding slide_inv_def bits_from_def by blast
  have bits: "bits_from r (Suc i)" using inv bits_from_mono [of r i "Suc i"] by (simp add: slide_inv_def)
  have "(0::int) \<le> 2 ^ i" by simp
  then have "tail_val r (Suc i) \<le> tail_val r i" using tail_val_Suc [OF i, of r] one by simp
  then have "window_inv r i 1" using inv i one bits by (auto simp: window_inv_def slide_inv_def)
  from slide_window_ok [OF this] inv i False show ?thesis
    by (auto simp: slide_inv_def slide_digit_def Let_def less_Suc_eq intro: trans [OF tail_val_0_eqI [of i]])
qed

lemma bit_digit: "sint (1 AND shr (w :: 8 word) n) = of_bool (bit w n)"
proof -
  have "1 AND shr w n = of_bool (bit w n)"
    by (simp add: one_and_eq odd_iff_mod_2_eq_one [symmetric] bit_iff_odd_drop_bit mod2_eq_if)
  then show ?thesis by simp
qed

lemma uint_byte_bits: "uint (w :: 8 word) = (\<Sum>n = 0..<8. of_bool (bit w n) * 2 ^ n)"
proof -
  have "uint w = take_bit 8 (uint w)" using uint_byte [of w] by (simp add: take_bit_int_eq_self)
  also have "\<dots> = (\<Sum>n = 0..<8. of_bool (bit w n) * 2 ^ n)"
    unfolding take_bit_sum by (rule sum.cong) (auto simp: bit_uint_iff push_bit_eq_mult)
  finally show ?thesis .
qed

lemma le_val_sum: "le_val a = (\<Sum>i<length a. uint (a ! i) * 256 ^ i)"
  by (induction a) (simp_all add: sum.lessThan_Suc_shift sum_distrib_left ac_simps del: sum.lessThan_Suc)

lemma scalar_bits_val:
  assumes "length a = 32"
  shows "tail_val (map (\<lambda>i. 1 AND shr (a ! (i div 8)) (i mod 8)) [0..<256]) 0 = le_val a"
proof -
  let ?f = "\<lambda>i. of_bool (bit (a ! (i div 8)) (i mod 8)) * 2 ^ i :: int"
  have "tail_val (map (\<lambda>i. 1 AND shr (a ! (i div 8)) (i mod 8)) [0..<256]) 0 = (\<Sum>i<32 * 8. ?f i)"
    unfolding tail_val_def lessThan_atLeast0 by (rule sum.cong) (simp_all add: bit_digit)
  also have "\<dots> = (\<Sum>m<32. sum ?f {m * 8..<m * 8 + 8})" by (rule sum.nat_group [symmetric])
  also have "\<dots> = (\<Sum>m<32. uint (a ! m) * 256 ^ m)"
  proof (rule sum.cong)
    fix m :: nat
    have "sum ?f {m * 8..<m * 8 + 8} = (\<Sum>n = 0..<8. ?f (n + m * 8))"
      using sum.shift_bounds_nat_ivl [of ?f 0 "m * 8" 8] by (simp add: add.commute)
    also have "\<dots> = (\<Sum>n = 0..<8. of_bool (bit (a ! m) n) * 2 ^ n * 256 ^ m)"
      by (rule sum.cong) (simp_all add: power_add power_mult mult.commute [of m 8])
    finally show "sum ?f {m * 8..<m * 8 + 8} = uint (a ! m) * 256 ^ m"
      by (simp only: uint_byte_bits sum_distrib_right)
  qed simp
  finally show ?thesis using assms by (simp add: le_val_sum)
qed

text \<open>\<open>slide\<close> on a scalar below \<open>2^253\<close>: no carry leaves the 256 digits and the value is kept.\<close>

lemma slide_ok:
  assumes "length a = 32" and "le_val a < 2 ^ 253"
  shows "length (slide a) = 256 \<and> list_all slide_digit (slide a) \<and> digits_val 2 (slide a) = le_val a"
proof -
  let ?r = "map (\<lambda>i. 1 AND shr (a ! (i div 8)) (i mod 8)) [0..<256]"
  have "?r ! j = 0 \<or> ?r ! j = 1" if "j < 256" for j
    using that by (simp add: one_and_eq mod2_eq_if)
  then have "slide_inv (le_val a) ?r 0"
    using scalar_bits_val [OF assms(1)] assms(2) by (simp add: slide_inv_def bits_from_def)
  then have "slide_inv (le_val a) (fold (\<lambda>i r. if r ! i \<noteq> 0 then slide_window r i 1 else r) [0..<n] ?r) n" if "n \<le> 256" for n
    using that by (induction n) (simp_all add: slide_step_inv)
  from this [of 256] have "slide_inv (le_val a) (slide a) 256" by (simp add: slide_def Let_def)
  then show ?thesis
    by (simp add: slide_inv_def list_all_length digits_val_def tail_val_def lessThan_atLeast0)
qed

section \<open>Bounds of the scalar multiplications\<close>

lemma precomp_0_bounded: "precomp_bounded precomp_0"
  by (simp add: precomp_bounded_def precomp_0_def)

lemma table_entry_bounded:
  assumes "list_all precomp_bounded row" and "length row = 8" and "- 8 \<le> b" and "b \<le> 8"
  shows "precomp_bounded (table_entry row b)"
proof -
  have "precomp_bounded (row ! i)" if "i < 8" for i using assms(1,2) that by (simp add: list_all_length)
  moreover have "precomp_bounded t \<Longrightarrow> precomp_bounded (precomp_neg t)" for t
    using fe_neg_bd by (simp add: precomp_bounded_def precomp_neg_def)
  ultimately show ?thesis using assms(3,4) by (simp add: table_entry_def precomp_0_bounded)
qed

lemma base_row: "i < 32 \<Longrightarrow> list_all precomp_bounded (base ! i) \<and> length (base ! i) = 8"
  using base_bounded by (simp add: list_all_length)

lemma select_bounded: "- 8 \<le> sint b \<Longrightarrow> sint b \<le> 8 \<Longrightarrow> pos < 32 \<Longrightarrow> precomp_bounded (select pos b)"
  by (simp add: select_eq table_entry_bounded base_row)

lemma fold_p3_bounded:
  assumes "\<And>i h. i \<in> set is \<Longrightarrow> p3_bounded h \<Longrightarrow> p3_bounded (step i h)" and "p3_bounded h"
  shows "p3_bounded (fold step is h)"
  using assms by (induction "is" arbitrary: h) auto

lemma ge_scalarmult_base_bounded:
  assumes "length a = 32" and "a ! 31 < 128"
  shows "p3_bounded (ge_scalarmult_base a)"
proof -
  let ?e = "recode (nibbles a)"
  let ?step = "\<lambda>i h. ge_p1p1_to_p3 (ge_madd h (select (i div 2) (?e ! i)))"
  have st: "p3_bounded (?step i h)" if "i < 64" "p3_bounded h" for i h
    using that recode_ok(3) [OF assms, of i] by (simp add: ge_bounded select_bounded)
  have "p3_bounded (fold ?step (map (\<lambda>k. 2 * k + 1) [0..<32]) ge_p3_0)"
    by (rule fold_p3_bounded [OF st]) (auto simp: ge_bounded)
  then show ?thesis
    unfolding ge_scalarmult_base_def Let_def by (intro fold_p3_bounded [OF st]) (auto simp: ge_bounded)
qed

lemma odd_multiples_bounded:
  assumes "p3_bounded A" shows "list_all cached_bounded (odd_multiples A) \<and> length (odd_multiples A) = 8"
  using assms by (simp add: odd_multiples_def Let_def ge_bounded)

lemma dsm_step_bounded:
  assumes "slide_digit (aslide ! i)" and "slide_digit (bslide ! i)" and "list_all cached_bounded Ai" and "length Ai = 8"
    and "p2_bounded r"
  shows "p2_bounded (dsm_step aslide bslide Ai i r)"
proof -
  have A: "cached_bounded (Ai ! nat (d div 2))" if "d \<le> 15" for d :: int
    using assms(3,4) that by (simp add: list_all_length)
  have B: "precomp_bounded (Bi ! nat (d div 2))" if "d \<le> 15" for d :: int
    using Bi_bounded that by (simp add: list_all_length)
  have d: "sint (aslide ! i) \<le> 15" "- sint (aslide ! i) \<le> 15" "sint (bslide ! i) \<le> 15" "- sint (bslide ! i) \<le> 15"
    using assms(1,2) by (auto simp: slide_digit_def)
  show ?thesis
    unfolding dsm_step_def Let_def by (simp add: ge_bounded A B d assms(5))
qed

lemma top_digit_le: "top_digit aslide bslide n \<le> n"
  by (induction n) auto

lemma dsm_loop_bounded:
  assumes "list_all slide_digit aslide" and "list_all slide_digit bslide" and "n \<le> length aslide" and "n \<le> length bslide"
    and "list_all cached_bounded Ai" and "length Ai = 8" and "p2_bounded r"
  shows "p2_bounded (dsm_loop aslide bslide Ai n r)"
  using assms by (induction n arbitrary: r) (simp_all add: dsm_step_bounded list_all_length)

lemma ge_double_scalarmult_bounded:
  assumes "length a = 32" and "le_val a < 2 ^ 253" and "length b = 32" and "le_val b < 2 ^ 253" and "p3_bounded A"
  shows "p2_bounded (ge_double_scalarmult_vartime a A b)"
  unfolding ge_double_scalarmult_vartime_def Let_def
  using slide_ok [OF assms(1,2)] slide_ok [OF assms(3,4)] odd_multiples_bounded [OF assms(5)] top_digit_le [of "slide a" "slide b" 256]
  by (intro dsm_loop_bounded) (simp_all add: ge_bounded)


section \<open>Properties\<close>

text \<open>The constant-time lookup: for a digit between \<open>-8\<close> and \<open>8\<close>, \<open>select\<close> returns the table entry of the
  digit's absolute value, the identity for 0, and the negated entry for a negative digit.\<close>

theorem select_correct:
  assumes "- 8 \<le> sint b" and "sint b \<le> 8"
  shows "select pos b =
    (if sint b = 0 then \<lparr>yplusx = fe_1, yminusx = fe_1, xy2d = fe_0\<rparr>
     else if 0 < sint b then base ! pos ! nat (sint b - 1)
     else let t = base ! pos ! nat (- sint b - 1) in \<lparr>yplusx = yminusx t, yminusx = yplusx t, xy2d = fe_neg (xy2d t)\<rparr>)"
  using select_eq [OF assms] by (simp add: table_entry_def precomp_0_def precomp_neg_def Let_def)

theorem select_correct_witness:
  "select 3 (- 2) = \<lparr>yplusx = yminusx (base ! 3 ! 1), yminusx = yplusx (base ! 3 ! 1), xy2d = fe_neg (xy2d (base ! 3 ! 1))\<rparr>"
  using select_correct [of "- 2" 3] by (simp add: Let_def)

text \<open>The signed radix-16 digits of \<open>ge_scalarmult_base\<close>: for every 32-byte scalar below \<open>2^255\<close> there are 64
  digits between \<open>-8\<close> and \<open>8\<close> and their value is the scalar.\<close>

theorem recode_correct:
  assumes "length a = 32" and "a ! 31 < 128"
  shows "length (recode (nibbles a)) = 64 \<and> (\<Sum>i<64. sint (recode (nibbles a) ! i) * 16 ^ i) = le_val a \<and>
    list_all (\<lambda>d. - 8 \<le> sint d \<and> sint d \<le> 8) (recode (nibbles a))"
  using recode_ok [OF assms] by (simp add: digits_val_def list_all_length)

theorem recode_correct_witness:
  "(\<Sum>i<64. sint (recode (nibbles (replicate 31 255 @ [127])) ! i) * 16 ^ i) = le_val (replicate 31 255 @ [127])"
  using recode_correct [of "replicate 31 255 @ [127]"] by (simp add: nth_append)

text \<open>The sliding-window digits of \<open>ge_double_scalarmult_vartime\<close>: for a scalar below \<open>2^253\<close> every digit is
  zero or odd between \<open>-15\<close> and \<open>15\<close>, their value is the scalar, so no carry is lost at the end of the array.\<close>

theorem slide_correct:
  assumes "length a = 32" and "le_val a < 2 ^ 253"
  shows "length (slide a) = 256 \<and> (\<Sum>i<256. sint (slide a ! i) * 2 ^ i) = le_val a \<and>
    list_all (\<lambda>d. d = 0 \<or> odd (sint d) \<and> - 15 \<le> sint d \<and> sint d \<le> 15) (slide a)"
  using slide_ok [OF assms] by (auto simp: digits_val_def slide_digit_def [abs_def])

theorem slide_correct_witness: "(\<Sum>i<256. sint (slide (replicate 31 255 @ [31]) ! i) * 2 ^ i) = le_val (replicate 31 255 @ [31])"
proof -
  have "le_val (replicate 31 255 @ [31]) < 2 ^ 253" by code_simp
  then show ?thesis using slide_correct [of "replicate 31 255 @ [31]"] by simp
qed

text \<open>No overflow: the limbs of the results of both scalar multiplications are within the bounds of the
  packing routines, for all scalars that the signature code passes.\<close>

theorem scalarmult_bounds:
  assumes "length a = 32" and "le_val a < 2 ^ 253" and "length b = 32" and "le_val b < 2 ^ 253" and "p3_bounded A"
    and "length c = 32" and "c ! 31 < 128"
  shows "p2_bounded (ge_double_scalarmult_vartime a A b) \<and> p3_bounded (ge_scalarmult_base c)"
  using assms ge_double_scalarmult_bounded ge_scalarmult_base_bounded by blast

theorem scalarmult_bounds_witness:
  "p2_bounded (ge_double_scalarmult_vartime (1 # replicate 31 0) ge_p3_0 (replicate 32 0)) \<and> p3_bounded (ge_scalarmult_base (replicate 32 5))"
proof -
  have "le_val (1 # replicate 31 0) < 2 ^ 253" "le_val (replicate 32 0) < 2 ^ 253" by code_simp+
  then show ?thesis by (intro scalarmult_bounds) (simp_all add: ge_bounded)
qed

end
