(* ===== verification/Ge_Bytes.thy ===== *)
theory Ge_Bytes
  imports Ge
begin

text \<open>
  Packing and unpacking of points (\<^verbatim>\<open>ge_p3_tobytes\<close>, \<^verbatim>\<open>ge_tobytes\<close>, \<^verbatim>\<open>ge_frombytes_negate_vartime\<close> of
  \<^verbatim>\<open>ge.c\<close>): the 32 bytes are the \<open>y\<close> coordinate with the parity of \<open>x\<close> in the top bit; an unpacked point is on the
  curve and has the sign opposite to the one in the bytes.
\<close>

section \<open>Packing\<close>

lemma le_val_update_top:
  assumes "length s = 32"
  shows "le_val (s[31 := c]) = le_val s + 256 ^ 31 * (uint c - uint (s ! 31))"
proof -
  have "s = take 31 s @ [s ! 31]" using assms take_Suc_conv_app_nth [of 31 s] by simp
  moreover have "le_val (take 31 s @ [d]) = le_val (take 31 s) + 256 ^ 31 * uint d" for d
    using assms by (simp add: le_val_append)
  moreover have "s[31 := c] = take 31 s @ [c]" using assms by (simp add: upd_conv_take_nth_drop)
  ultimately have "le_val s = le_val (take 31 s) + 256 ^ 31 * uint (s ! 31)"
    and "le_val (s[31 := c]) = le_val (take 31 s) + 256 ^ 31 * uint c" by metis+
  then show ?thesis by (simp add: right_diff_distrib)
qed

lemma byte_xor_sign_table: "list_all (\<lambda>n. uint (word_of_int n XOR 128 :: 8 word) = n + 128) [0..127]"
  by code_simp

lemma byte_xor_sign:
  assumes "uint (w :: 8 word) < 128" shows "uint (w XOR 128) = uint w + 128"
proof -
  have "uint w \<in> set [0..127]" using assms by simp
  with byte_xor_sign_table have "uint (word_of_int (uint w) XOR 128 :: 8 word) = uint w + 128"
    unfolding list_all_iff by blast
  then show ?thesis by simp
qed

lemma top_byte_small:
  assumes "length s = 32" and "le_val s < 2 ^ 255" shows "uint (s ! 31) < 128"
proof -
  have "le_val (s[31 := 0]) \<ge> 0" by (rule le_val_nonneg)
  then have "256 ^ 31 * uint (s ! 31) \<le> le_val s" using le_val_update_top [OF assms(1), of 0] by simp
  then show ?thesis using assms(2) by simp
qed

text \<open>The encoding of a pair of field elements, and what the two packing routines write.\<close>

definition encodes :: "bytes \<Rightarrow> gf \<Rightarrow> gf \<Rightarrow> bool" where
  "encodes s x y \<longleftrightarrow> length s = 32 \<and> le_val s = rep_gf y + 2 ^ 255 * (rep_gf x mod 2)"

lemma pack_encodes:
  assumes "fe_bounded 110 26 fx" and "fe_bounded 110 26 fy"
  defines "s \<equiv> fe_tobytes fy"
  shows "encodes (s[31 := s ! 31 XOR ucast (shl (fe_isnegative fx) 7)]) (fe_abs fx) (fe_abs fy)"
proof -
  have v: "le_val s = rep_gf (fe_abs fy)" and len: "length s = 32" using fe_tobytes_ok [OF assms(2)] by (simp_all add: s_def)
  have "le_val s < 2 ^ 255" using rep_gf_range [of "fe_abs fy"] by (simp add: v p25519_def)
  then have top: "uint (s ! 31) < 128" by (rule top_byte_small [OF len])
  have x: "rep_gf (fe_abs fx) mod 2 = 0 \<or> rep_gf (fe_abs fx) mod 2 = 1" by auto
  have "(ucast (shl (1 :: i32) 7) :: 8 word) = 128" by code_simp
  then have "uint (s ! 31 XOR ucast (shl (fe_isnegative fx) 7)) = uint (s ! 31) + 128 * (rep_gf (fe_abs fx) mod 2)"
    using x byte_xor_sign [OF top] by (auto simp: fe_isnegative_ok [OF assms(1)])
  then show ?thesis using len by (simp add: encodes_def le_val_update_top v)
qed

lemma encodes_inj:
  assumes "encodes s x y" and "encodes t x' y'"
  shows "s = t \<longleftrightarrow> rep_gf x mod 2 = rep_gf x' mod 2 \<and> y = y'"
proof -
  have y: "0 \<le> rep_gf z" "rep_gf z < 2 ^ 255" for z using rep_gf_range [of z] by (simp_all add: p25519_def)
  have "rep_gf x mod 2 = rep_gf x' mod 2 \<and> rep_gf y = rep_gf y'" if "s = t"
  proof -
    have "rep_gf y + 2 ^ 255 * (rep_gf x mod 2) = rep_gf y' + 2 ^ 255 * (rep_gf x' mod 2)"
      using that assms by (simp add: encodes_def)
    from digit_inj [OF _ _ this] y show ?thesis by blast
  qed
  moreover have "s = t" if "rep_gf x mod 2 = rep_gf x' mod 2 \<and> y = y'"
    using that assms by (intro le_val_inj) (simp_all add: encodes_def)
  ultimately show ?thesis using rep_gf_inject [of y y'] by blast
qed

lemma ge_p3_tobytes_ok:
  assumes "p3_bounded h"
  shows "encodes (ge_p3_tobytes h) (fe_abs (p3_X h) * fe_abs (p3_Z h) ^ (2 ^ 255 - 21)) (fe_abs (p3_Y h) * fe_abs (p3_Z h) ^ (2 ^ 255 - 21))"
proof -
  have w: "wide (p3_X h)" "wide (p3_Y h)" "wide (p3_Z h)" using assms wideI by (auto simp: p3_bounded_def)
  have i: "fe_abs (fe_invert (p3_Z h)) = fe_abs (p3_Z h) ^ (2 ^ 255 - 21)" "wide (fe_invert (p3_Z h))"
    using fe_invert_ok [of "p3_Z h"] w(3) wideI [of 101 "fe_invert (p3_Z h)"] by (simp_all add: wide_def)
  have "fe_bounded 110 26 (fe_mul (p3_X h) (fe_invert (p3_Z h)))" "fe_bounded 110 26 (fe_mul (p3_Y h) (fe_invert (p3_Z h)))"
    using fe_mul_bd [OF w(1) i(2)] fe_mul_bd [OF w(2) i(2)] by (auto intro: fe_bounded_102_26 fe_bounded_101_102)
  from pack_encodes [OF this] show ?thesis
    by (simp add: ge_p3_tobytes_def Let_def fe_mul_w w i)
qed

lemma ge_tobytes_ok:
  assumes "p2_bounded h"
  shows "encodes (ge_tobytes h) (fe_abs (p2_X h) * fe_abs (p2_Z h) ^ (2 ^ 255 - 21)) (fe_abs (p2_Y h) * fe_abs (p2_Z h) ^ (2 ^ 255 - 21))"
  using ge_p3_tobytes_ok [of "\<lparr>p3_X = p2_X h, p3_Y = p2_Y h, p3_Z = p2_Z h, p3_T = fe_0\<rparr>"] assms
  by (simp add: ge_tobytes_def ge_p3_tobytes_def p2_bounded_def p3_bounded_def)

section \<open>Unpacking\<close>

text \<open>The candidate root and the two sides that are compared, over the field.\<close>

definition gf_u :: "gf \<Rightarrow> gf" where
  "gf_u y = y * y - 1"

definition gf_v :: "gf \<Rightarrow> gf" where
  "gf_v y = y * y * gf_d + 1"

definition root_candidate :: "gf \<Rightarrow> gf" where
  "root_candidate y = (gf_u y * gf_v y ^ 7) ^ (2 ^ 252 - 3) * gf_v y ^ 3 * gf_u y"

lemma on_curve_iff: "on_curve x y \<longleftrightarrow> gf_v y * (x * x) = gf_u y"
  by (simp add: on_curve_def gf_u_def gf_v_def algebra_simps eq_diff_eq) (metis add.commute)


text \<open>The sign bit of a nonzero element and of its negation differ.\<close>

lemma rep_gf_uminus: "a \<noteq> 0 \<Longrightarrow> rep_gf (- a) = p25519 - rep_gf a"
proof -
  assume "a \<noteq> 0"
  then have "rep_gf a \<noteq> 0" using rep_gf_inject [of a 0] by (simp add: zero_gf.rep_eq)
  then show ?thesis using rep_gf_range [of a] by (simp add: uminus_gf.rep_eq zmod_zminus1_eq_if)
qed

lemma parity_uminus: "a \<noteq> 0 \<Longrightarrow> rep_gf (- a) mod 2 \<noteq> rep_gf a mod 2"
proof -
  assume "a \<noteq> 0"
  moreover have "odd p25519" by (simp add: p25519_def)
  ultimately show ?thesis by (simp add: rep_gf_uminus mod2_eq_if)
qed

lemma sign_bit_eq: "fe_isnegative f = ucast (shr (b :: 8 word) 7) \<longleftrightarrow> rep_gf (fe_abs f) mod 2 = uint b div 128"
  if "fe_bounded 110 26 f"
proof -
  have x: "rep_gf (fe_abs f) mod 2 = 0 \<or> rep_gf (fe_abs f) mod 2 = 1" by auto
  have d: "uint b div 128 < 2" "0 \<le> uint b div 128" using uint_byte [of b] by (auto simp: pos_imp_zdiv_nonneg_iff)
  have "uint (ucast (shr b 7) :: i32) = uint b div 128"
    by (subst uint_up_ucast) (simp_all add: is_up uint_shr)
  moreover have "uint (of_int (rep_gf (fe_abs f) mod 2) :: i32) = rep_gf (fe_abs f) mod 2" using x by auto
  ultimately show ?thesis unfolding fe_isnegative_ok [OF that] word_uint_eq_iff by simp
qed

lemma unpack_values:
  assumes "length s = 32"
  defines "y \<equiv> of_int (le_val s mod 2 ^ 255) :: gf"
  defines "hY \<equiv> fe_frombytes s"
  defines "u \<equiv> fe_sub (fe_sq hY) fe_1" and "v \<equiv> fe_add (fe_mul (fe_sq hY) curve_d) fe_1"
  defines "v3 \<equiv> fe_mul (fe_sq v) v"
  defines "hX \<equiv> fe_mul (fe_mul (fe_pow22523 (fe_mul (fe_mul (fe_sq v3) v) u)) v3) u"
  defines "vxx \<equiv> fe_mul (fe_sq hX) v"
  shows "fe_abs hY = y" "fe_bounded 102 25 hY" "fe_abs u = gf_u y" "fe_abs hX = root_candidate y" "fe_bounded 101 25 hX"
    "fe_abs vxx = gf_v y * (fe_abs hX * fe_abs hX)" "fe_bounded 110 26 (fe_sub vxx u)" "fe_bounded 110 26 (fe_add vxx u)"
    "fe_abs (fe_sub vxx u) = fe_abs vxx - fe_abs u" "fe_abs (fe_add vxx u) = fe_abs vxx + fe_abs u"
proof -
  show y: "fe_abs hY = y" "fe_bounded 102 25 hY" using fe_frombytes_ok [OF assms(1)] by (simp_all add: hY_def y_def)
  have w101: "fe_bounded 101 25 f \<Longrightarrow> wide f" for f by (erule wideI) simp
  have wY: "wide hY" using y(2) by (rule wideI) simp
  have wd: "wide curve_d" using const_bounded(1) by (rule w101)
  have one: "fe_bounded 1 25 fe_1" by simp
  note yy = fe_sq_bd [OF wY]
  note dyy = fe_mul_bd [OF w101 [OF yy] wd]
  have u: "fe_bounded 102 25 u" "fe_abs u = gf_u y"
    unfolding u_def using fe_sub_bd [OF yy one] fe_sub_abs [OF yy one] by (simp_all add: fe_sq_w wY y gf_u_def)
  show "fe_abs u = gf_u y" by (rule u(2))
  have v: "fe_bounded 102 25 v" "fe_abs v = gf_v y"
    unfolding v_def using fe_add_bd [OF dyy one] fe_add_abs [OF dyy one]
    by (simp_all add: fe_mul_w w101 yy wd fe_sq_w wY y gf_v_def)
  have wu: "wide u" and wv: "wide v" using u(1) v(1) by (auto intro: wideI)
  note s = w101 [OF fe_sq_bd] and m = w101 [OF fe_mul_bd]
  have w3: "wide v3" "fe_abs v3 = gf_v y ^ 3"
    unfolding v3_def using m [OF s [OF wv] wv] by (simp_all add: fe_mul_w s wv fe_sq_w v power3_eq_cube)
  let ?p = "fe_mul (fe_mul (fe_sq v3) v) u"
  have p: "wide ?p" "fe_abs ?p = gf_u y * gf_v y ^ 7"
    by (simp_all add: m s w3 wv wu fe_mul_w fe_sq_w v u) (simp add: eval_nat_numeral ac_simps)
  have q: "wide (fe_pow22523 ?p)" "fe_abs (fe_pow22523 ?p) = (gf_u y * gf_v y ^ 7) ^ (2 ^ 252 - 3)"
    using fe_pow22523_ok [of ?p] p w101 [of "fe_pow22523 ?p"] by (simp_all add: wide_def)
  show hX: "fe_bounded 101 25 hX" "fe_abs hX = root_candidate y"
    unfolding hX_def root_candidate_def by (simp_all only: fe_mul_bd m q w3 wu fe_mul_w u)
  have x: "fe_bounded 101 25 vxx" unfolding vxx_def by (rule fe_mul_bd [OF s [OF w101 [OF hX(1)]] wv])
  show "fe_abs vxx = gf_v y * (fe_abs hX * fe_abs hX)"
    unfolding vxx_def by (simp add: fe_mul_w s w101 hX(1) wv fe_sq_w v mult.commute)
  show "fe_bounded 110 26 (fe_sub vxx u)" "fe_bounded 110 26 (fe_add vxx u)"
    using fe_bounded_mono [OF fe_sub_bd [OF x u(1)], of 220] fe_bounded_mono [OF fe_add_bd [OF x u(1)], of 220]
    by (simp_all add: fe_bounded_26)
  show "fe_abs (fe_sub vxx u) = fe_abs vxx - fe_abs u" "fe_abs (fe_add vxx u) = fe_abs vxx + fe_abs u"
    using fe_sub_abs [OF x u(1)] fe_add_abs [OF x u(1)] by simp_all
qed


text \<open>The sign correction: the resulting \<open>x\<close> is zero or has the parity that the top bit does not give.\<close>

lemma choose_sign:
  fixes b :: "8 word"
  assumes "fe_bounded 101 25 f"
  defines "g \<equiv> (if fe_isnegative f = ucast (shr b 7) then fe_neg f else f)"
  shows "fe_bounded 101 25 g" "fe_abs g * fe_abs g = fe_abs f * fe_abs f"
    "fe_abs g = 0 \<or> rep_gf (fe_abs g) mod 2 \<noteq> uint b div 128"
proof -
  have f: "fe_bounded 110 26 f" using assms(1) by (intro fe_bounded_102_26 fe_bounded_101_102)
  note n = fe_neg_abs [OF assms(1)] fe_neg_bd [OF assms(1)]
  show "fe_bounded 101 25 g" "fe_abs g * fe_abs g = fe_abs f * fe_abs f" using n assms(1) by (auto simp: g_def)
  show "fe_abs g = 0 \<or> rep_gf (fe_abs g) mod 2 \<noteq> uint b div 128"
    using n(1) parity_uminus [of "fe_abs f"] unfolding g_def sign_bit_eq [OF f] by (cases "fe_abs f = 0") auto
qed

lemma wide_sqrtm1: "wide sqrtm1"
  using const_bounded(3) by (rule wideI) simp

lemma gf_zero_iff: "a - b = 0 \<longleftrightarrow> a = b" "a + b = 0 \<longleftrightarrow> a = - b" for a b :: gf
  by (simp_all add: eq_neg_iff_add_eq_0)

lemma ge_frombytes_ok:
  assumes "length s = 32" and "ge_frombytes_negate_vartime h s = (ret, h')"
  defines "y \<equiv> of_int (le_val s mod 2 ^ 255) :: gf"
  shows "ret = (if gf_v y * (root_candidate y * root_candidate y) \<in> {gf_u y, - gf_u y} then 0 else - 1)"
    and "ret = 0 \<Longrightarrow> \<exists>x. rep_p3 h' (x, y) \<and> on_curve x y \<and> (x = 0 \<or> rep_gf x mod 2 \<noteq> uint (s ! 31) div 128)"
    and "ret = 0 \<Longrightarrow> p3_bounded h'"
proof -
  define hY where "hY = fe_frombytes s"
  define u v where "u = fe_sub (fe_sq hY) fe_1" and "v = fe_add (fe_mul (fe_sq hY) curve_d) fe_1"
  define v3 where "v3 = fe_mul (fe_sq v) v"
  define hX where "hX = fe_mul (fe_mul (fe_pow22523 (fe_mul (fe_mul (fe_sq v3) v) u)) v3) u"
  define vxx where "vxx = fe_mul (fe_sq hX) v"
  note uv = unpack_values [OF assms(1), folded hY_def, folded u_def v_def, folded v3_def, folded hX_def, folded vxx_def,
      folded y_def]
  let ?x = "if fe_isnonzero (fe_sub vxx u) \<noteq> 0 then fe_mul hX sqrtm1 else hX"
  let ?g = "if fe_isnegative ?x = ucast (shr (s ! 31) 7) then fe_neg ?x else ?x"
  have nz: "fe_isnonzero (fe_sub vxx u) \<noteq> 0 \<longleftrightarrow> fe_abs vxx \<noteq> gf_u y" "fe_isnonzero (fe_add vxx u) \<noteq> 0 \<longleftrightarrow> fe_abs vxx \<noteq> - gf_u y"
    by (simp_all add: fe_isnonzero_ok uv gf_zero_iff)
  have e: "ge_frombytes_negate_vartime h s =
      (if fe_abs vxx \<noteq> gf_u y \<and> fe_abs vxx \<noteq> - gf_u y then (- 1, h\<lparr>p3_X := hX, p3_Y := hY, p3_Z := fe_1\<rparr>)
       else (0, \<lparr>p3_X = ?g, p3_Y = hY, p3_Z = fe_1, p3_T = fe_mul ?g hY\<rparr>))"
    unfolding ge_frombytes_negate_vartime_def Let_def hY_def [symmetric] u_def [symmetric] v_def [symmetric]
      v3_def [symmetric] hX_def [symmetric] vxx_def [symmetric] nz [symmetric] by simp
  show ret: "ret = (if gf_v y * (root_candidate y * root_candidate y) \<in> {gf_u y, - gf_u y} then 0 else - 1)"
    using assms(2) unfolding e by (auto simp: uv split: if_splits)
  have wX: "wide hX" using uv(5) by (rule wideI) simp
  have b: "fe_bounded 101 25 ?x" using uv(5) fe_mul_bd [OF wX wide_sqrtm1] by simp
  note g = choose_sign [OF b, of "s ! 31"]
  have m: "fe_abs (fe_mul hX sqrtm1) * fe_abs (fe_mul hX sqrtm1) = - (fe_abs hX * fe_abs hX)"
  proof -
    have "fe_abs (fe_mul hX sqrtm1) * fe_abs (fe_mul hX sqrtm1) = (fe_abs hX * fe_abs hX) * (fe_abs sqrtm1 * fe_abs sqrtm1)"
      by (simp only: fe_mul_w wX wide_sqrtm1 ac_simps)
    then show ?thesis by (simp add: sqrtm1_eq)
  qed
  have h': "h' = \<lparr>p3_X = ?g, p3_Y = hY, p3_Z = fe_1, p3_T = fe_mul ?g hY\<rparr>" if "ret = 0"
    using that assms(2) unfolding e by (auto split: if_splits)
  have wg: "wide ?g" "wide hY" using g(1) uv(2) by (auto intro: wideI simp del: if_split)
  have bd: "fe_bounded 102 25 ?g" "fe_bounded 102 25 (fe_mul ?g hY)"
    using g(1) fe_mul_bd [OF wg] by (auto intro: fe_bounded_101_102 simp del: if_split)
  show "p3_bounded h'" if "ret = 0" unfolding h' [OF that] p3_bounded_def using bd uv(2) by (simp del: if_split)
  have "on_curve (fe_abs ?g) y" if "ret = 0"
    unfolding on_curve_iff g(2) using that m nz(1) ret uv by (auto split: if_splits)
  then show "\<exists>x. rep_p3 h' (x, y) \<and> on_curve x y \<and> (x = 0 \<or> rep_gf x mod 2 \<noteq> uint (s ! 31) div 128)" if "ret = 0"
    using that g(3) bd uv(1,2) fe_mul_w [OF wg] unfolding h' [OF that] by (intro exI [of _ "fe_abs ?g"]) (simp add: rep_p3_def del: if_split)
qed


section \<open>Properties\<close>

text \<open>Packing: both routines write 32 bytes holding the canonical \<open>Y * Z^(p-2)\<close> in the low 255 bits and the
  parity of the canonical \<open>X * Z^(p-2)\<close> in the top bit.\<close>

theorem ge_pack_correct:
  assumes "p3_bounded h" and "p2_bounded g"
  shows "le_val (ge_p3_tobytes h) = rep_gf (fe_abs (p3_Y h) * fe_abs (p3_Z h) ^ (2 ^ 255 - 21)) +
      2 ^ 255 * (rep_gf (fe_abs (p3_X h) * fe_abs (p3_Z h) ^ (2 ^ 255 - 21)) mod 2) \<and>
    le_val (ge_tobytes g) = rep_gf (fe_abs (p2_Y g) * fe_abs (p2_Z g) ^ (2 ^ 255 - 21)) +
      2 ^ 255 * (rep_gf (fe_abs (p2_X g) * fe_abs (p2_Z g) ^ (2 ^ 255 - 21)) mod 2)"
  using ge_p3_tobytes_ok [OF assms(1)] ge_tobytes_ok [OF assms(2)] by (simp add: encodes_def)

theorem ge_pack_correct_witness: "le_val (ge_p3_tobytes ge_p3_0) = 1"
  using ge_pack_correct [OF ge_0_bounded] by (simp add: ge_p3_0_def one_gf.rep_eq zero_gf.rep_eq)

text \<open>Unpacking accepts exactly when the candidate root \<open>x\<close> satisfies \<open>v x^2 = u\<close> or \<open>v x^2 = - u\<close>; the point it then
  delivers has the \<open>y\<close> of the input, lies on the curve, has \<open>T = x y\<close> and limbs in range, and is the negated one: its
  \<open>x\<close> is zero or has the parity that the top bit does not give.\<close>

theorem ge_unpack_correct:
  assumes "length s = 32" and "ge_frombytes_negate_vartime h s = (ret, h')" and "y = of_int (le_val s mod 2 ^ 255)"
  shows "ret = (if gf_v y * (root_candidate y * root_candidate y) \<in> {gf_u y, - gf_u y} then 0 else - 1) \<and>
    (ret = 0 \<longrightarrow> (\<exists>x. rep_p3 h' (x, y) \<and> on_curve x y \<and> (x = 0 \<or> rep_gf x mod 2 \<noteq> uint (s ! 31) div 128)))"
  using ge_frombytes_ok [OF assms(1,2)] unfolding assms(3) by blast

theorem ge_unpack_correct_witness:
  "fst (ge_frombytes_negate_vartime ge_p3_0 (1 # replicate 31 0)) = 0"
proof -
  obtain ret h' where "ge_frombytes_negate_vartime ge_p3_0 (1 # replicate 31 0) = (ret, h')" by fastforce
  moreover have "le_val (1 # replicate 31 0) mod 2 ^ 255 = 1" by code_simp
  ultimately show ?thesis
    using ge_unpack_correct [of "1 # replicate 31 0" ge_p3_0 ret h' 1] by (simp add: gf_u_def root_candidate_def)
qed

end
