(* ===== verification/Ed25519.thy ===== *)
theory Ed25519
  imports Sc Sha512 Ge_Scalar Ge_Bytes
begin

text \<open>
  The public interface of the signature library (\<^verbatim>\<open>seed.c\<close>, \<^verbatim>\<open>keypair.c\<close>, \<^verbatim>\<open>ed25519_keypair.c\<close>,
  \<^verbatim>\<open>sign.c\<close>, \<^verbatim>\<open>verify.c\<close>, \<^verbatim>\<open>add_scalar.c\<close>, \<^verbatim>\<open>key_exchange.c\<close>).  An output buffer is an argument
  and a result; a local array or struct the code does not initialise is an argument, so that what a function
  returns is stated for every content of the stack.  A pointer passed to a callee that reads \<open>n\<close> bytes is the
  list of those \<open>n\<close> bytes.
\<close>

section \<open>Definitions\<close>

text \<open>\<^verbatim>\<open>sha512_final(&hash, out)\<close> with its return code ignored: the context and the buffer it leaves.\<close>

definition final_into :: "sha512_context option \<Rightarrow> bytes \<Rightarrow> sha512_context option \<times> bytes" where
  "final_into hash out =
    (case sha512_final hash (Some out) of (_, hash, Some out) \<Rightarrow> (hash, out) | (_, hash, None) \<Rightarrow> (hash, out))"

text \<open>\<^verbatim>\<open>sc_reduce(s)\<close> on a buffer of 64 bytes: the low half is overwritten.\<close>

definition sc_reduce_buf :: "bytes \<Rightarrow> bytes" where
  "sc_reduce_buf s = sc_reduce s @ drop 32 s"

text \<open>The random source: \<open>None\<close> when \<^verbatim>\<open>fopen("/dev/urandom")\<close> fails, otherwise the bytes \<^verbatim>\<open>fread\<close> delivers.\<close>

definition ed25519_create_seed :: "bytes option \<Rightarrow> bytes \<Rightarrow> int \<times> bytes" where
  "ed25519_create_seed urandom seed =
    (case urandom of
       None \<Rightarrow> (1, seed)
     | Some bs \<Rightarrow> (0, take 32 bs @ drop (length (take 32 bs)) seed))"

definition clamp :: "bytes \<Rightarrow> bytes" where
  "clamp k =
    (let k = k[0 := k ! 0 AND 248];
         k = k[31 := k ! 31 AND 63]
     in k[31 := k ! 31 OR 64])"

definition ed25519_create_keypair :: "sha512_context \<Rightarrow> bytes \<Rightarrow> bytes \<Rightarrow> bytes \<Rightarrow> bytes \<times> bytes" where
  "ed25519_create_keypair ctx public_key private_key seed =
    (let private_key = (case sha512 ctx (Some (take 32 seed)) (Some private_key) of
           (_, Some out) \<Rightarrow> out | (_, None) \<Rightarrow> private_key);
         private_key = clamp private_key;
         A = ge_scalarmult_base (take 32 private_key);
         public_key = ge_p3_tobytes A @ drop 32 public_key
     in (public_key, private_key))"

definition ed25519_sign :: "sha512_context \<Rightarrow> bytes \<Rightarrow> bytes \<Rightarrow> bytes \<Rightarrow> bytes \<Rightarrow> bytes \<Rightarrow> bytes \<Rightarrow> bytes" where
  "ed25519_sign ctx r hram signature message public_key private_key =
    (let hash = snd (sha512_init (Some ctx));
         hash = snd (sha512_update hash (Some (take 32 (drop 32 private_key))));
         hash = snd (sha512_update hash (Some message));
         (hash, r) = final_into hash r;
         r = sc_reduce_buf r;
         R = ge_scalarmult_base (take 32 r);
         signature = ge_p3_tobytes R @ drop 32 signature;
         hash = snd (sha512_init hash);
         hash = snd (sha512_update hash (Some (take 32 signature)));
         hash = snd (sha512_update hash (Some (take 32 public_key)));
         hash = snd (sha512_update hash (Some message));
         (hash, hram) = final_into hash hram;
         hram = sc_reduce_buf hram
     in take 32 signature @ sc_muladd (take 32 hram) (take 32 private_key) (take 32 r) @ drop 64 signature)"

definition consttime_equal :: "bytes \<Rightarrow> bytes \<Rightarrow> bool" where
  "consttime_equal x y =
    (let r = x ! 0 XOR y ! 0;
         r = fold (\<lambda>i r. r OR (x ! i XOR y ! i)) [1..<32] r
     in r = 0)"

definition ed25519_verify :: "ge_p3 \<Rightarrow> sha512_context \<Rightarrow> bytes \<Rightarrow> bytes \<Rightarrow> bytes \<Rightarrow> bytes \<Rightarrow> bool" where
  "ed25519_verify A ctx h signature message public_key =
    (if signature ! 63 AND 224 \<noteq> 0 then False
     else
       let (ret, A) = ge_frombytes_negate_vartime A (take 32 public_key)
       in if ret \<noteq> 0 then False
          else
            let hash = snd (sha512_init (Some ctx));
                hash = snd (sha512_update hash (Some (take 32 signature)));
                hash = snd (sha512_update hash (Some (take 32 public_key)));
                hash = snd (sha512_update hash (Some message));
                (hash, h) = final_into hash h;
                h = sc_reduce_buf h;
                R = ge_double_scalarmult_vartime (take 32 h) A (take 32 (drop 32 signature));
                checker = ge_tobytes R
            in if \<not> consttime_equal checker signature then False else True)"

text \<open>The keys are null pointers or buffers.  When only the public key is given, \<open>T\<close> starts from the
  uninitialised \<^verbatim>\<open>public_key_unpacked\<close> and the result of the unpacking is not looked at.\<close>

definition ed25519_add_scalar ::
    "ge_p3 \<Rightarrow> sha512_context \<Rightarrow> bytes \<Rightarrow> bytes option \<Rightarrow> bytes option \<Rightarrow> bytes \<Rightarrow> bytes option \<times> bytes option" where
  "ed25519_add_scalar public_key_unpacked ctx hashbuf public_key private_key scalar =
    (let SC_1 = 1 # replicate 31 0;
         n = take 31 scalar @ [scalar ! 31 AND 127];
         private_key = (case private_key of
             None \<Rightarrow> None
           | Some private_key \<Rightarrow>
               (let private_key = sc_muladd SC_1 n (take 32 private_key) @ drop 32 private_key;
                    hash = snd (sha512_init (Some ctx));
                    hash = snd (sha512_update hash (Some (take 32 (drop 32 private_key))));
                    hash = snd (sha512_update hash (Some (take 32 scalar)));
                    (hash, hashbuf) = final_into hash hashbuf
                in Some (take 32 private_key @ take 32 hashbuf @ drop 64 private_key)));
         public_key = (case public_key of
             None \<Rightarrow> None
           | Some public_key \<Rightarrow>
               (let A = (case private_key of
                    Some private_key \<Rightarrow> ge_scalarmult_base (take 32 private_key)
                  | None \<Rightarrow>
                      (let (_, u) = ge_frombytes_negate_vartime public_key_unpacked (take 32 public_key);
                           u = u\<lparr>p3_X := fe_neg (p3_X u)\<rparr>;
                           u = u\<lparr>p3_T := fe_neg (p3_T u)\<rparr>;
                           T = ge_p3_to_cached u;
                           nB = ge_scalarmult_base n
                       in ge_p1p1_to_p3 (ge_add nB T)))
                in Some (ge_p3_tobytes A @ drop 32 public_key)))
     in (public_key, private_key))"

text \<open>One round of the Montgomery ladder, on \<open>(x2, z2, x3, z3, swap)\<close>.\<close>

definition ladder_step :: "fe \<Rightarrow> bytes \<Rightarrow> nat \<Rightarrow> fe \<times> fe \<times> fe \<times> fe \<times> 32 word \<Rightarrow> fe \<times> fe \<times> fe \<times> fe \<times> 32 word" where
  "ladder_step x1 e pos = (\<lambda>(x2, z2, x3, z3, swap).
    let b = ucast (shr (e ! (pos div 8)) (pos mod 8)) AND 1;
        swap = swap XOR b;
        (x2, x3) = fe_cswap x2 x3 swap;
        (z2, z3) = fe_cswap z2 z3 swap;
        swap = b;
        tmp0 = fe_sub x3 z3;
        tmp1 = fe_sub x2 z2;
        x2 = fe_add x2 z2;
        z2 = fe_add x3 z3;
        z3 = fe_mul tmp0 x2;
        z2 = fe_mul z2 tmp1;
        tmp0 = fe_sq tmp1;
        tmp1 = fe_sq x2;
        x3 = fe_add z3 z2;
        z2 = fe_sub z3 z2;
        x2 = fe_mul tmp1 tmp0;
        tmp1 = fe_sub tmp1 tmp0;
        z2 = fe_sq z2;
        z3 = fe_mul121666 tmp1;
        x3 = fe_sq x3;
        tmp0 = fe_add tmp0 z3;
        z3 = fe_mul x1 z2;
        z2 = fe_mul tmp1 tmp0
    in (x2, z2, x3, z3, swap))"

definition ed25519_key_exchange :: "bytes \<Rightarrow> bytes \<Rightarrow> bytes" where
  "ed25519_key_exchange public_key private_key =
    (let e = clamp (take 32 private_key);
         x1 = fe_frombytes (take 32 public_key);
         tmp1 = fe_1;
         tmp0 = fe_add x1 tmp1;
         tmp1 = fe_sub tmp1 x1;
         tmp1 = fe_invert tmp1;
         x1 = fe_mul tmp0 tmp1;
         (x2, z2, x3, z3, swap) = fold (ladder_step x1 e) (rev [0..<255]) (fe_1, fe_0, fe_copy x1, fe_1, 0);
         (x2, x3) = fe_cswap x2 x3 swap;
         (z2, z3) = fe_cswap z2 z3 swap;
         z2 = fe_invert z2;
         x2 = fe_mul x2 z2
     in fe_tobytes x2)"

section \<open>Hashing in pieces\<close>

lemma hash_pieces:
  assumes "length (ctx_buf ctx) = 128" and "length out = 64"
  shows "\<exists>ctx'. final_into (fold (\<lambda>m c. snd (sha512_update c (Some m))) ms (snd (sha512_init (Some ctx)))) out =
    (Some ctx', sha512_digest (concat ms)) \<and> length (ctx_buf ctx') = 128"
  using sha512_stream.run_final [of ctx out ms] assms
  by (auto simp: sha512_stream.run_ctx_def final_into_def)

lemma hash_2:
  assumes "length (ctx_buf ctx) = 128" and "length out = 64"
  obtains ctx' where "final_into (snd (sha512_update (snd (sha512_update (snd (sha512_init (Some ctx))) (Some a))) (Some b))) out =
    (Some ctx', sha512_digest (a @ b))" and "length (ctx_buf ctx') = 128"
  using hash_pieces [OF assms, of "[a, b]"] by auto

lemma hash_3:
  assumes "length (ctx_buf ctx) = 128" and "length out = 64"
  obtains ctx' where "final_into (snd (sha512_update (snd (sha512_update (snd (sha512_update (snd (sha512_init (Some ctx)))
      (Some a))) (Some b))) (Some c))) out = (Some ctx', sha512_digest (a @ b @ c))" and "length (ctx_buf ctx') = 128"
  using hash_pieces [OF assms, of "[a, b, c]"] by auto

section \<open>Signing\<close>

lemma sc_reduce_length [simp]: "length (sc_reduce s) = 32"
  by (simp add: sc_reduce_def sc_reduce_pack_def Let_def)

lemma ge_p3_tobytes_length [simp]: "length (ge_p3_tobytes h) = 32"
  by (simp add: ge_p3_tobytes_def Let_def)

lemma ge_tobytes_length [simp]: "length (ge_tobytes h) = 32"
  by (simp add: ge_tobytes_def Let_def)

lemma take_sc_reduce_buf [simp]: "take 32 (sc_reduce_buf s) = sc_reduce s"
  by (simp add: sc_reduce_buf_def)

text \<open>What a signature is, over the hash and the two group routines.\<close>

definition sign_nonce :: "bytes \<Rightarrow> bytes \<Rightarrow> bytes" where
  "sign_nonce m sk = sc_reduce (sha512_digest (drop 32 sk @ m))"

definition sign_R :: "bytes \<Rightarrow> bytes \<Rightarrow> bytes" where
  "sign_R m sk = ge_p3_tobytes (ge_scalarmult_base (sign_nonce m sk))"

definition challenge :: "bytes \<Rightarrow> bytes \<Rightarrow> bytes \<Rightarrow> bytes" where
  "challenge R pk m = sc_reduce (sha512_digest (R @ pk @ m))"

lemma sign_eq:
  assumes "length (ctx_buf ctx) = 128" and "length r = 64" and "length hram = 64" and "length signature = 64"
    and "length pk = 32" and "length sk = 64"
  shows "ed25519_sign ctx r hram signature m pk sk =
    sign_R m sk @ sc_muladd (challenge (sign_R m sk) pk m) (take 32 sk) (sign_nonce m sk)"
proof -
  obtain c1 where 1: "final_into (snd (sha512_update (snd (sha512_update (snd (sha512_init (Some ctx)))
      (Some (drop 32 sk)))) (Some m))) r = (Some c1, sha512_digest (drop 32 sk @ m))" and b1: "length (ctx_buf c1) = 128"
    by (rule hash_2 [OF assms(1,2)])
  obtain c2 where "final_into (snd (sha512_update (snd (sha512_update (snd (sha512_update (snd (sha512_init (Some c1)))
      (Some (sign_R m sk)))) (Some pk))) (Some m))) hram = (Some c2, sha512_digest (sign_R m sk @ pk @ m))"
    by (rule hash_3 [OF b1 assms(3)])
  then show ?thesis
    using 1 assms(4-6)
    by (simp add: ed25519_sign_def Let_def sign_R_def sign_nonce_def challenge_def)
qed

section \<open>Verification\<close>

lemma consttime_equal_iff:
  assumes "32 \<le> length x" and "32 \<le> length y"
  shows "consttime_equal x y \<longleftrightarrow> take 32 x = take 32 y"
proof -
  have "{0..<32} = insert 0 {1..<32 :: nat}" by auto
  then have "consttime_equal x y \<longleftrightarrow> (\<forall>i \<in> {0..<32}. x ! i = y ! i)"
    by (simp add: consttime_equal_def Let_def fold_or_zero xor_zero_iff)
  then show ?thesis using assms by (auto simp: list_eq_iff_nth_eq)
qed

lemma byte_mask_table:
  "list_all (\<lambda>n. ((word_of_int n AND 224 = (0 :: 8 word)) = (n < 32)) \<and>
      uint (word_of_int n AND 248 :: 8 word) = n - n mod 8 \<and> uint ((word_of_int n AND 63) OR 64 :: 8 word) = n mod 64 + 64 \<and>
      uint (word_of_int n AND 127 :: 8 word) = n mod 128) [0..255]"
  by code_simp

lemma byte_masks:
  fixes w :: "8 word"
  shows "w AND 224 = 0 \<longleftrightarrow> uint w < 32" "uint (w AND 248) = uint w - uint w mod 8"
    "uint ((w AND 63) OR 64) = uint w mod 64 + 64" "uint (w AND 127) = uint w mod 128"
proof -
  have "uint w \<in> set [0..255]" using uint_byte [of w] by auto
  with byte_mask_table show "w AND 224 = 0 \<longleftrightarrow> uint w < 32" "uint (w AND 248) = uint w - uint w mod 8"
    "uint ((w AND 63) OR 64) = uint w mod 64 + 64" "uint (w AND 127) = uint w mod 128"
    unfolding list_all_iff by (metis word_of_int_uint)+
qed

lemma split_32:
  assumes "length k = 32"
  obtains b0 mid b31 where "k = b0 # mid @ [b31]" and "length mid = 30"
proof -
  have "k = k ! 0 # tl k" using assms by (cases k) auto
  moreover have "tl k = take 30 (tl k) @ [k ! 31]"
    using assms take_Suc_conv_app_nth [of 30 "tl k"] by (simp add: nth_tl)
  ultimately show ?thesis using that [of "k ! 0" "take 30 (tl k)" "k ! 31"] assms by simp
qed

lemma le_val_split: "le_val (b0 # mid @ [b31]) = uint b0 + 256 * le_val mid + 256 ^ (length mid + 1) * uint b31"
  by (simp add: le_val_append algebra_simps)

lemma le_val_top:
  assumes "length s = 32"
  shows "le_val s < 2 ^ 253 \<longleftrightarrow> uint (s ! 31) < 32"
proof -
  obtain b0 mid b where s: "s = b0 # mid @ [b]" and len: "length mid = 30" by (rule split_32 [OF assms])
  have "0 \<le> le_val (b0 # mid)" "le_val (b0 # mid) < 256 ^ 31"
    using le_val_nonneg le_val_less [of "b0 # mid"] len by simp_all
  moreover have "le_val s = le_val (b0 # mid) + 256 ^ 31 * uint b" by (simp add: s le_val_append len algebra_simps)
  moreover have "s ! 31 = b" using len by (simp add: s nth_append)
  ultimately show ?thesis by auto
qed

lemma verify_iff:
  assumes "length (ctx_buf ctx) = 128" and "length h = 64" and "length signature = 64" and "length pk = 32"
    and "ge_frombytes_negate_vartime A pk = (ret, A')"
  shows "ed25519_verify A ctx h signature m pk \<longleftrightarrow>
    le_val (drop 32 signature) < 2 ^ 253 \<and> ret = 0 \<and>
    ge_tobytes (ge_double_scalarmult_vartime (challenge (take 32 signature) pk m) A' (drop 32 signature)) = take 32 signature"
proof -
  obtain c where "final_into (snd (sha512_update (snd (sha512_update (snd (sha512_update (snd (sha512_init (Some ctx)))
      (Some (take 32 signature)))) (Some pk))) (Some m))) h = (Some c, sha512_digest (take 32 signature @ pk @ m))"
    by (rule hash_3 [OF assms(1,2)])
  moreover have "signature ! 63 AND 224 = 0 \<longleftrightarrow> le_val (drop 32 signature) < 2 ^ 253"
    using le_val_top [of "drop 32 signature"] assms(3) by (simp add: byte_masks)
  ultimately show ?thesis
    using assms(3-5) by (simp add: ed25519_verify_def Let_def challenge_def consttime_equal_iff)
qed

section \<open>Keys\<close>

text \<open>Clamping: the scalar becomes \<open>2^254\<close> plus a multiple of 8 taken from the low 254 bits.\<close>

lemma clamp_length [simp]: "length (clamp k) = length k"
  by (simp add: clamp_def Let_def)

lemma clamp_val:
  assumes "length k = 32"
  shows "le_val (clamp k) = 2 ^ 254 + (le_val k mod 2 ^ 254) div 8 * 8"
proof -
  obtain b0 mid b where k: "k = b0 # mid @ [b]" and len: "length mid = 30" by (rule split_32 [OF assms])
  have "clamp k = (b0 AND 248) # mid @ [(b AND 63) OR 64]"
    using len by (simp add: clamp_def k Let_def nth_append list_update_append)
  then have c: "le_val (clamp k) = (uint b0 - uint b0 mod 8) + 256 * le_val mid + 256 ^ 31 * (uint b mod 64 + 64)"
    by (simp only: le_val_split len byte_masks) simp
  let ?l = "uint b0 + 256 * le_val mid"
  have l: "0 \<le> ?l" "?l < 256 ^ 31"
    using le_val_nonneg [of "b0 # mid"] le_val_less [of "b0 # mid"] len by simp_all
  have "256 ^ 31 * x = 256 ^ 31 * r + 2 ^ 254 * q" if "x = 64 * q + r" for x q r :: int using that by simp
  from this [OF mult_div_mod_eq [of 64 "uint b", symmetric]]
  have "le_val k = ?l + 256 ^ 31 * (uint b mod 64) + 2 ^ 254 * (uint b div 64)"
    using len unfolding k le_val_split by simp
  moreover have "0 \<le> ?l + 256 ^ 31 * (uint b mod 64)" "?l + 256 ^ 31 * (uint b mod 64) < 2 ^ 254"
    using l pos_mod_bound [of 64 "uint b"] pos_mod_sign [of 64 "uint b"] by auto
  ultimately have m: "le_val k mod 2 ^ 254 = ?l + 256 ^ 31 * (uint b mod 64)" by simp
  have "(?l + 256 ^ 31 * (uint b mod 64)) mod 8 = uint b0 mod 8"
    by (simp add: mod_add_eq [symmetric] mod_mult_left_eq [symmetric])
  then show ?thesis unfolding m c by (simp add: minus_mod_eq_div_mult [symmetric])
qed

lemma clamp_append: "length k = 32 \<Longrightarrow> clamp (k @ ks) = clamp k @ ks"
  by (simp add: clamp_def Let_def nth_append list_update_append)

lemma create_keypair_eq:
  assumes "length (ctx_buf ctx) = 128" and "length pk = 32" and "length sk = 64" and "length seed = 32"
  defines "a \<equiv> clamp (take 32 (sha512_digest seed))"
  shows "ed25519_create_keypair ctx pk sk seed =
    (ge_p3_tobytes (ge_scalarmult_base a), a @ drop 32 (sha512_digest seed))"
proof -
  have "clamp (sha512_digest seed) = a @ drop 32 (sha512_digest seed)"
    unfolding a_def by (subst clamp_append [symmetric]) simp_all
  then show ?thesis
    using assms(2-4) sha512_ok [OF assms(1), of sk seed] unfolding ed25519_create_keypair_def Let_def
    by (simp add: a_def)
qed


section \<open>Key exchange\<close>

text \<open>The ladder over the field: one round on \<open>(x2, z2, x3, z3)\<close> after the conditional swap.\<close>

fun mont_round :: "gf \<Rightarrow> gf \<times> gf \<times> gf \<times> gf \<Rightarrow> gf \<times> gf \<times> gf \<times> gf" where
  "mont_round x1 (x2, z2, x3, z3) =
    (let a = x2 + z2; b = x2 - z2; c = x3 + z3; d = x3 - z3; e = a * a - b * b
     in (a * a * (b * b), e * (b * b + 121666 * e), (d * a + c * b) ^ 2, x1 * (d * a - c * b) ^ 2))"

text \<open>With the swap that the code makes lazily done in every round: a set bit exchanges the two points before and
  after the round.\<close>

definition mont_swap :: "bool \<Rightarrow> gf \<times> gf \<times> gf \<times> gf \<Rightarrow> gf \<times> gf \<times> gf \<times> gf" where
  "mont_swap b p = (if b then (case p of (x2, z2, x3, z3) \<Rightarrow> (x3, z3, x2, z2)) else p)"

definition mont_ladder_step :: "gf \<Rightarrow> bool \<Rightarrow> gf \<times> gf \<times> gf \<times> gf \<Rightarrow> gf \<times> gf \<times> gf \<times> gf" where
  "mont_ladder_step x1 b p = mont_swap b (mont_round x1 (mont_swap b p))"

definition scalar_bit :: "bytes \<Rightarrow> nat \<Rightarrow> bool" where
  "scalar_bit e pos = bit (e ! (pos div 8)) (pos mod 8)"

definition ladder_abs :: "fe \<times> fe \<times> fe \<times> fe \<times> 32 word \<Rightarrow> gf \<times> gf \<times> gf \<times> gf" where
  "ladder_abs = (\<lambda>(x2, z2, x3, z3, swap). mont_swap (swap = 1) (fe_abs x2, fe_abs z2, fe_abs x3, fe_abs z3))"

definition ladder_inv :: "fe \<times> fe \<times> fe \<times> fe \<times> 32 word \<Rightarrow> bool" where
  "ladder_inv = (\<lambda>(x2, z2, x3, z3, swap). fe_bounded 101 25 x2 \<and> fe_bounded 101 25 z2 \<and> fe_bounded 101 25 x3 \<and>
     fe_bounded 101 25 z3 \<and> (swap = 0 \<or> swap = 1))"

lemma ladder_bit: "(ucast (shr (w :: 8 word) n) AND 1 :: 32 word) = of_bool (bit w n)"
  by (rule bit_word_eqI) (auto simp: bit_simps)

lemma xor_bits: "(of_bool a XOR of_bool b :: 32 word) = of_bool (a \<noteq> b)"
  by simp

text \<open>The arithmetic of one round, after the swap.\<close>

lemma ladder_round:
  assumes b: "fe_bounded 101 25 x2" "fe_bounded 101 25 z2" "fe_bounded 101 25 x3" "fe_bounded 101 25 z3" "fe_bounded 101 25 x1"
  defines "a \<equiv> fe_add x2 z2" and "b \<equiv> fe_sub x2 z2" and "c \<equiv> fe_add x3 z3" and "d \<equiv> fe_sub x3 z3"
  defines "da \<equiv> fe_mul d a" and "cb \<equiv> fe_mul c b" and "aa \<equiv> fe_sq a" and "bb \<equiv> fe_sq b"
  defines "e \<equiv> fe_sub aa bb"
  defines "x2' \<equiv> fe_mul aa bb" and "z2' \<equiv> fe_mul e (fe_add bb (fe_mul121666 e))" and "x3' \<equiv> fe_sq (fe_add da cb)"
    and "z3' \<equiv> fe_mul x1 (fe_sq (fe_sub da cb))"
  shows "fe_bounded 101 25 x2' \<and> fe_bounded 101 25 z2' \<and> fe_bounded 101 25 x3' \<and> fe_bounded 101 25 z3' \<and>
    (fe_abs x2', fe_abs z2', fe_abs x3', fe_abs z3') = mont_round (fe_abs x1) (fe_abs x2, fe_abs z2, fe_abs x3, fe_abs z3)"
proof -
  have w: "wide a" "wide b" "wide c" "wide d" "wide x1"
    unfolding a_def b_def c_def d_def
    using wideI [OF fe_add_bd [OF b(1,2)]] wideI [OF fe_sub_bd [OF b(1,2)]] wideI [OF fe_add_bd [OF b(3,4)]]
      wideI [OF fe_sub_bd [OF b(3,4)]] wideI [OF b(5)] by simp_all
  have v: "fe_abs a = fe_abs x2 + fe_abs z2" "fe_abs b = fe_abs x2 - fe_abs z2"
    "fe_abs c = fe_abs x3 + fe_abs z3" "fe_abs d = fe_abs x3 - fe_abs z3"
    unfolding a_def b_def c_def d_def
    using fe_add_abs [OF b(1,2)] fe_sub_abs [OF b(1,2)] fe_add_abs [OF b(3,4)] fe_sub_abs [OF b(3,4)] by simp_all
  have p: "fe_bounded 101 25 da" "fe_bounded 101 25 cb" "fe_bounded 101 25 aa" "fe_bounded 101 25 bb"
    unfolding da_def cb_def aa_def bb_def using w by (simp_all add: fe_mul_bd fe_sq_bd)
  have pv: "fe_abs da = fe_abs d * fe_abs a" "fe_abs cb = fe_abs c * fe_abs b" "fe_abs aa = fe_abs a * fe_abs a"
    "fe_abs bb = fe_abs b * fe_abs b"
    unfolding da_def cb_def aa_def bb_def using w by (simp_all add: fe_mul_w fe_sq_w)
  have e: "wide e" "fe_abs e = fe_abs aa - fe_abs bb" "fe_bounded 110 26 e"
    unfolding e_def using wideI [OF fe_sub_bd [OF p(3,4)]] fe_sub_abs [OF p(3,4)] fe_bounded_mono [OF fe_sub_bd [OF p(3,4)], of 220]
    by (simp_all add: fe_bounded_26)
  note m = fe_mul121666_ok [OF e(3), THEN conjunct1] fe_mul121666_ok [OF e(3), THEN conjunct2]
  have f: "wide (fe_add bb (fe_mul121666 e))" "fe_abs (fe_add bb (fe_mul121666 e)) = fe_abs bb + 121666 * fe_abs e"
    using wideI [OF fe_add_bd [OF p(4) m(2)]] fe_add_abs [OF p(4) m(2)] m(1) by simp_all
  have st: "wide (fe_add da cb)" "fe_abs (fe_add da cb) = fe_abs da + fe_abs cb"
    "wide (fe_sub da cb)" "fe_abs (fe_sub da cb) = fe_abs da - fe_abs cb" "wide aa" "wide bb"
    using wideI [OF fe_add_bd [OF p(1,2)]] fe_add_abs [OF p(1,2)] wideI [OF fe_sub_bd [OF p(1,2)]] fe_sub_abs [OF p(1,2)]
      wideI [OF p(3)] wideI [OF p(4)] by simp_all
  have z: "wide (fe_sq (fe_sub da cb))" using fe_sq_bd [OF st(3)] by (rule wideI) simp
  show ?thesis
    unfolding x2'_def z2'_def x3'_def z3'_def using w e(1) f(1) st(1,3,5,6) z
    by (simp add: fe_mul_bd fe_sq_bd fe_mul_w fe_sq_w f(2) st(2,4) pv e(2) Let_def v power2_eq_square)
qed

lemma ladder_step_ok:
  assumes "ladder_inv s" and "fe_bounded 101 25 x1"
  shows "ladder_inv (ladder_step x1 e pos s) \<and>
    ladder_abs (ladder_step x1 e pos s) = mont_ladder_step (fe_abs x1) (scalar_bit e pos) (ladder_abs s)"
proof -
  obtain x2 z2 x3 z3 swap where s: "s = (x2, z2, x3, z3, swap)" by (cases s) auto
  let ?b = "scalar_bit e pos"
  define w where "w \<longleftrightarrow> swap = 1"
  have w: "swap = of_bool w" using assms(1) by (auto simp: s ladder_inv_def w_def)
  have bits: "ucast (shr (e ! (pos div 8)) (pos mod 8)) AND 1 = (of_bool ?b :: 32 word)"
    by (simp add: ladder_bit scalar_bit_def)
  have i: "fe_bounded 101 25 x2" "fe_bounded 101 25 z2" "fe_bounded 101 25 x3" "fe_bounded 101 25 z3"
    using assms(1) by (simp_all add: s ladder_inv_def)
  note r = ladder_round [OF i assms(2)] ladder_round [OF i(3,4,1,2) assms(2)]
  show ?thesis
    using r unfolding s ladder_step_def prod.case Let_def bits w xor_bits
    by (cases ?b; cases w)
      (simp_all add: fe_cswap_eq ladder_inv_def ladder_abs_def mont_ladder_step_def mont_swap_def Let_def)
qed


lemma ladder_ok:
  assumes "ladder_inv s" and "fe_bounded 101 25 x1"
  shows "ladder_inv (fold (ladder_step x1 e) ps s) \<and>
    ladder_abs (fold (ladder_step x1 e) ps s) = fold (\<lambda>pos. mont_ladder_step (fe_abs x1) (scalar_bit e pos)) ps (ladder_abs s)"
  using assms(1) by (induction ps arbitrary: s) (simp_all add: ladder_step_ok assms(2))

text \<open>The map from the Edwards \<open>y\<close> to the Montgomery \<open>u\<close>, with the power that stands for the inverse.\<close>

definition mont_u :: "bytes \<Rightarrow> gf" where
  "mont_u pk = (let y = of_int (le_val pk mod 2 ^ 255) in (y + 1) * (1 - y) ^ (2 ^ 255 - 21))"

definition mont_ladder :: "gf \<Rightarrow> bytes \<Rightarrow> gf \<times> gf \<times> gf \<times> gf" where
  "mont_ladder u e = fold (\<lambda>pos. mont_ladder_step u (scalar_bit e pos)) (rev [0..<255]) (1, 0, u, 1)"

lemma key_exchange_ok:
  assumes "length pk = 32" and "32 \<le> length sk"
  shows "le_val (ed25519_key_exchange pk sk) =
    rep_gf (case mont_ladder (mont_u pk) (clamp (take 32 sk)) of (x, z, _, _) \<Rightarrow> x * z ^ (2 ^ 255 - 21))"
proof -
  let ?e = "clamp (take 32 sk)" and ?y = "fe_frombytes pk"
  let ?t = "fe_invert (fe_sub fe_1 ?y)"
  let ?x1 = "fe_mul (fe_add ?y fe_1) ?t"
  have y: "fe_bounded 102 25 ?y" "fe_abs ?y = of_int (le_val pk mod 2 ^ 255)" and o: "fe_bounded 101 25 fe_1"
    using fe_frombytes_ok [OF assms(1)] by simp_all
  have w: "wide (fe_add ?y fe_1)" "wide (fe_sub fe_1 ?y)"
    using wideI [OF fe_add_bd [OF y(1) o]] wideI [OF fe_sub_bd [OF o y(1)]] by simp_all
  have t: "fe_abs ?t = (1 - fe_abs ?y) ^ (2 ^ 255 - 21)" "wide ?t"
    using fe_invert_ok [of "fe_sub fe_1 ?y"] w(2) fe_sub_abs [OF o y(1)] wideI [of 101 ?t] by (simp_all add: wide_def)
  have x1: "fe_bounded 101 25 ?x1" "fe_abs ?x1 = mont_u pk"
    using fe_mul_bd [OF w(1) t(2)] fe_mul_w [OF w(1) t(2)] fe_add_abs [OF y(1) o] t(1) y(2)
    by (simp_all add: mont_u_def Let_def)
  obtain x2 z2 x3 z3 swap where f: "fold (ladder_step ?x1 ?e) (rev [0..<255]) (fe_1, fe_0, ?x1, fe_1, 0) = (x2, z2, x3, z3, swap)"
    by (metis prod_cases5)
  have inv: "ladder_inv (x2, z2, x3, z3, swap)" and ab: "ladder_abs (x2, z2, x3, z3, swap) = mont_ladder (mont_u pk) ?e"
    using ladder_ok [of "(fe_1, fe_0, ?x1, fe_1, 0)" ?x1 ?e "rev [0..<255]"] x1
    unfolding f by (simp_all add: ladder_inv_def ladder_abs_def mont_swap_def mont_ladder_def)
  define x z where "x = (if swap = 1 then x3 else x2)" and "z = (if swap = 1 then z3 else z2)"
  have b: "wide x" "wide z" using inv wideI [of 101] by (auto simp: ladder_inv_def x_def z_def)
  have "ed25519_key_exchange pk sk = fe_tobytes (fe_mul x (fe_invert z))"
    using inv assms(1) f by (auto simp: ed25519_key_exchange_def Let_def fe_cswap_eq x_def z_def ladder_inv_def)
  moreover have iz: "fe_abs (fe_invert z) = fe_abs z ^ (2 ^ 255 - 21)" "wide (fe_invert z)"
    using fe_invert_ok [of z] b(2) wideI [of 101 "fe_invert z"] by (simp_all add: wide_def)
  moreover have "fe_bounded 110 26 (fe_mul x (fe_invert z))"
    using fe_mul_bd [OF b(1) iz(2)] by (intro fe_bounded_102_26 fe_bounded_101_102)
  ultimately have "le_val (ed25519_key_exchange pk sk) = rep_gf (fe_abs x * fe_abs z ^ (2 ^ 255 - 21))"
    by (simp add: fe_tobytes_ok fe_mul_w b(1))
  moreover have "(case mont_ladder (mont_u pk) ?e of (x, z, _, _) \<Rightarrow> x * z ^ (2 ^ 255 - 21)) = fe_abs x * fe_abs z ^ (2 ^ 255 - 21)"
    unfolding ab [symmetric] by (simp add: ladder_abs_def mont_swap_def x_def z_def)
  ultimately show ?thesis by simp
qed


section \<open>Shifting a key by a scalar\<close>

lemma clear_top_bit:
  assumes "length s = 32"
  shows "le_val (take 31 s @ [s ! 31 AND 127]) = le_val s mod 2 ^ 255"
proof -
  obtain b0 mid b where s: "s = b0 # mid @ [b]" and len: "length mid = 30" by (rule split_32 [OF assms])
  let ?l = "le_val (b0 # mid)"
  have l: "0 \<le> ?l" "?l < 256 ^ 31" using le_val_nonneg [of "b0 # mid"] le_val_less [of "b0 # mid"] len by simp_all
  have v: "le_val ((b0 # mid) @ [c]) = ?l + 256 ^ 31 * uint c" for c
    unfolding le_val_append using len by simp
  have "256 ^ 31 * x = 256 ^ 31 * r + 2 ^ 255 * q" if "x = 128 * q + r" for x q r :: int using that by simp
  from this [OF mult_div_mod_eq [of 128 "uint b", symmetric]]
  have "le_val s = ?l + 256 ^ 31 * (uint b mod 128) + 2 ^ 255 * (uint b div 128)" using v [of b] by (simp add: s)
  moreover have "0 \<le> ?l + 256 ^ 31 * (uint b mod 128)" "?l + 256 ^ 31 * (uint b mod 128) < 2 ^ 255"
    using l pos_mod_bound [of 128 "uint b"] pos_mod_sign [of 128 "uint b"] by auto
  ultimately have "le_val s mod 2 ^ 255 = ?l + 256 ^ 31 * (uint b mod 128)" by simp
  moreover have "take 31 s @ [s ! 31 AND 127] = (b0 # mid) @ [b AND 127]" using len by (simp add: s nth_append)
  ultimately show ?thesis by (simp only: v byte_masks)
qed

lemma add_scalar_private:
  assumes "length (ctx_buf ctx) = 128" and "length hashbuf = 64" and "length sk = 64" and "length scalar = 32"
  shows "\<exists>a. ed25519_add_scalar u ctx hashbuf None (Some sk) scalar =
      (None, Some (a @ take 32 (sha512_digest (drop 32 sk @ scalar)))) \<and> length a = 32 \<and>
    le_val a = (le_val scalar mod 2 ^ 255 + le_val (take 32 sk)) mod order25519"
proof -
  let ?n = "take 31 scalar @ [scalar ! 31 AND 127]"
  let ?a = "sc_muladd (1 # replicate 31 0) ?n (take 32 sk)"
  obtain c where f: "final_into (snd (sha512_update (snd (sha512_update (snd (sha512_init (Some ctx)))
      (Some (drop 32 sk)))) (Some scalar))) hashbuf = (Some c, sha512_digest (drop 32 sk @ scalar))"
    by (rule hash_2 [OF assms(1,2)])
  have one: "le_val (1 # replicate 31 0) = 1" by code_simp
  have "length ?a = 32" "le_val ?a = (le_val scalar mod 2 ^ 255 + le_val (take 32 sk)) mod order25519"
    using sc_muladd_ok [of "1 # replicate 31 0" ?n "take 32 sk"] assms
    by (simp_all only: one clear_top_bit [OF assms(4)]) (simp_all add: clear_top_bit)
  then show ?thesis
    using f assms(3,4) by (intro exI [of _ ?a]) (simp add: ed25519_add_scalar_def Let_def)
qed


section \<open>Properties\<close>

text \<open>A context as the tests of this section use it: any content will do.\<close>

definition stack_ctx :: sha512_context where
  "stack_ctx = \<lparr>ctx_length = 7, ctx_state = [], ctx_curlen = 200, ctx_buf = replicate 128 170\<rparr>"

lemma stack_ctx_buf [simp]: "length (ctx_buf stack_ctx) = 128"
  by (simp add: stack_ctx_def)

lemma order_pos: "0 < order25519" "order25519 < 2 ^ 253"
  by (simp_all add: order25519_def)

text \<open>Claim (C5): a signature is \<open>R\<close> followed by \<open>S\<close>: with the nonce \<open>r = SHA512(sk[32..63] M) mod l\<close>, \<open>R\<close> packs
  \<open>r B\<close> as computed by the fixed-base multiplication, \<open>k = SHA512(R A M) mod l\<close>, and \<open>S\<close> is the reduced little-endian
  encoding of \<open>(k a + r) mod l\<close>; nothing depends on what the buffers and the stack held before.\<close>

theorem ed25519_sign_correct:
  assumes "length (ctx_buf ctx) = 128" and "length r = 64" and "length hram = 64" and "length signature = 64"
    and "length pk = 32" and "length sk = 64"
  shows "\<exists>rb S. ed25519_sign ctx r hram signature m pk sk = ge_p3_tobytes (ge_scalarmult_base rb) @ S \<and>
    length rb = 32 \<and> length S = 32 \<and> le_val rb = le_val (sha512_digest (drop 32 sk @ m)) mod order25519 \<and>
    le_val S = (le_val (sha512_digest (ge_p3_tobytes (ge_scalarmult_base rb) @ pk @ m)) mod order25519 * le_val (take 32 sk)
      + le_val rb) mod order25519"
proof (intro exI conjI)
  show "ed25519_sign ctx r hram signature m pk sk = ge_p3_tobytes (ge_scalarmult_base (sign_nonce m sk)) @
      sc_muladd (challenge (sign_R m sk) pk m) (take 32 sk) (sign_nonce m sk)"
    using sign_eq [OF assms] by (simp add: sign_R_def)
  show "length (sign_nonce m sk) = 32" by (simp add: sign_nonce_def)
  show "length (sc_muladd (challenge (sign_R m sk) pk m) (take 32 sk) (sign_nonce m sk)) = 32"
    by (simp add: sc_muladd_def sc_muladd_pack_def Let_def)
  show "le_val (sign_nonce m sk) = le_val (sha512_digest (drop 32 sk @ m)) mod order25519"
    by (simp add: sign_nonce_def sc_reduce_ok)
  show "le_val (sc_muladd (challenge (sign_R m sk) pk m) (take 32 sk) (sign_nonce m sk)) =
      (le_val (sha512_digest (ge_p3_tobytes (ge_scalarmult_base (sign_nonce m sk)) @ pk @ m)) mod order25519 * le_val (take 32 sk)
        + le_val (sign_nonce m sk)) mod order25519"
    using assms by (subst sc_muladd_ok) (simp_all add: challenge_def sign_nonce_def sc_reduce_ok sign_R_def)
qed

theorem ed25519_sign_correct_witness:
  "\<exists>rb S. ed25519_sign stack_ctx (replicate 64 1) (replicate 64 2) (replicate 64 3) [104, 105] (replicate 32 4) (replicate 64 5)
      = ge_p3_tobytes (ge_scalarmult_base rb) @ S \<and> length S = 32"
  using ed25519_sign_correct [of stack_ctx "replicate 64 1" "replicate 64 2" "replicate 64 3" "replicate 32 4" "replicate 64 5" "[104, 105]"]
  unfolding stack_ctx_buf length_replicate by blast

text \<open>Verification returns 1 exactly when \<open>S < 2^253\<close> (the three top bits are clear), the public key
  unpacks, and packing \<open>k (-A) + S B\<close>, with \<open>k = SHA512(R A M) mod l\<close>, gives the \<open>R\<close> half of the signature; every other
  input returns 0.\<close>

theorem ed25519_verify_exact:
  assumes "length (ctx_buf ctx) = 128" and "length h = 64" and "length signature = 64" and "length pk = 32"
    and "ge_frombytes_negate_vartime A pk = (ret, A')"
  shows "ed25519_verify A ctx h signature m pk \<longleftrightarrow>
    le_val (drop 32 signature) < 2 ^ 253 \<and> ret = 0 \<and>
    ge_tobytes (ge_double_scalarmult_vartime (sc_reduce (sha512_digest (take 32 signature @ pk @ m))) A' (drop 32 signature))
      = take 32 signature"
  using verify_iff [OF assms] by (simp add: challenge_def)

theorem ed25519_verify_exact_witness:
  "\<not> ed25519_verify ge_p3_0 stack_ctx (replicate 64 0) (replicate 64 255) [] (1 # replicate 31 0)"
proof -
  obtain ret A' where "ge_frombytes_negate_vartime ge_p3_0 (1 # replicate 31 0) = (ret, A')" by fastforce
  moreover have "\<not> le_val (drop 32 (replicate 64 255)) < 2 ^ 253" by code_simp
  ultimately show ?thesis
    using ed25519_verify_exact [of stack_ctx "replicate 64 0" "replicate 64 255" "1 # replicate 31 0" ge_p3_0 ret A' "[]"]
    by simp
qed

text \<open>Past its two early exits verification works on a point of the curve and inside the limb bounds: the
  unpacked key is on the curve, and the point that is packed for the comparison is within the bounds of the packing
  routine, for every message.\<close>

theorem ed25519_verify_bounds:
  assumes "length signature = 64" and "length pk = 32" and "ge_frombytes_negate_vartime A pk = (0, A')"
    and "signature ! 63 AND 224 = 0"
  shows "(\<exists>x y. rep_p3 A' (x, y) \<and> on_curve x y) \<and>
    p2_bounded (ge_double_scalarmult_vartime (sc_reduce (sha512_digest (take 32 signature @ pk @ m))) A' (drop 32 signature))"
proof -
  have v: "le_val (drop 32 signature) < 2 ^ 253"
    using le_val_top [of "drop 32 signature"] assms(1,4) by (simp add: byte_masks)
  let ?k = "sc_reduce (sha512_digest (take 32 signature @ pk @ m))"
  have "le_val ?k < order25519" using order_pos by (simp add: sc_reduce_ok)
  then have "le_val ?k < 2 ^ 253" using order_pos by linarith
  then show ?thesis
    using v ge_frombytes_ok [OF assms(2,3)] ge_double_scalarmult_bounded [of ?k "drop 32 signature" A'] assms(1) by auto
qed

lemma unpack_identity: "\<exists>A'. ge_frombytes_negate_vartime A (1 # replicate 31 0) = (0, A')"
proof -
  obtain ret A' where f: "ge_frombytes_negate_vartime A (1 # replicate 31 0) = (ret, A')" by fastforce
  moreover have "le_val (1 # replicate 31 0) mod 2 ^ 255 = 1" by code_simp
  ultimately show ?thesis
    using ge_frombytes_ok(1) [OF _ f] by (simp add: gf_u_def root_candidate_def)
qed

theorem ed25519_verify_bounds_witness:
  "\<exists>A' x y. ge_frombytes_negate_vartime ge_p3_0 (1 # replicate 31 0) = (0, A') \<and> rep_p3 A' (x, y) \<and> on_curve x y"
proof -
  obtain A' where A: "ge_frombytes_negate_vartime ge_p3_0 (1 # replicate 31 0) = (0, A')" using unpack_identity by blast
  from ed25519_verify_bounds [OF _ _ A, of "replicate 64 0"] show ?thesis using A by fastforce
qed

text \<open>Key generation: the private key is the SHA-512 digest of the seed with its low half clamped, so that the
  secret scalar is \<open>2^254\<close> plus a multiple of 8 below \<open>2^254\<close>; the public key packs that multiple of the base point and
  the upper half of the private key is the upper half of the digest.\<close>

theorem ed25519_create_keypair_correct:
  assumes "length (ctx_buf ctx) = 128" and "length pk = 32" and "length sk = 64" and "length seed = 32"
  shows "\<exists>a. ed25519_create_keypair ctx pk sk seed = (ge_p3_tobytes (ge_scalarmult_base a), a @ drop 32 (sha512_digest seed)) \<and>
    length a = 32 \<and> le_val a = 2 ^ 254 + (le_val (take 32 (sha512_digest seed)) mod 2 ^ 254) div 8 * 8 \<and>
    p3_bounded (ge_scalarmult_base a)"
proof (intro exI conjI)
  let ?a = "clamp (take 32 (sha512_digest seed))"
  show "ed25519_create_keypair ctx pk sk seed = (ge_p3_tobytes (ge_scalarmult_base ?a), ?a @ drop 32 (sha512_digest seed))"
    by (rule create_keypair_eq [OF assms])
  show len: "length ?a = 32" by simp
  show v: "le_val ?a = 2 ^ 254 + (le_val (take 32 (sha512_digest seed)) mod 2 ^ 254) div 8 * 8" by (rule clamp_val) simp
  have "x div 8 * 8 \<le> x" for x :: int by (simp add: minus_mod_eq_div_mult [symmetric])
  moreover have "le_val (take 32 (sha512_digest seed)) mod 2 ^ 254 < 2 ^ 254" by simp
  ultimately have "le_val ?a < 2 ^ 255"
    unfolding v using order_le_less_trans [of "(le_val (take 32 (sha512_digest seed)) mod 2 ^ 254) div 8 * 8" _ "2 ^ 254"] by simp
  from top_byte_small [OF len this] show "p3_bounded (ge_scalarmult_base ?a)"
    by (intro ge_scalarmult_base_bounded [OF len]) (simp add: word_less_def)
qed

theorem ed25519_create_keypair_correct_witness:
  "\<exists>a. ed25519_create_keypair stack_ctx (replicate 32 0) (replicate 64 0) (replicate 32 9)
      = (ge_p3_tobytes (ge_scalarmult_base a), a @ drop 32 (sha512_digest (replicate 32 9))) \<and> length a = 32"
  using ed25519_create_keypair_correct [of stack_ctx "replicate 32 0" "replicate 64 0" "replicate 32 9"]
  unfolding stack_ctx_buf length_replicate by blast

text \<open>Key exchange refines the Montgomery ladder over the field with a swap before and after every round: the
  shared secret is the canonical encoding of \<open>x / z\<close> (as \<open>x * z^(p-2)\<close>) after the 255 rounds over the clamped scalar,
  started from the \<open>u\<close> coordinate \<open>(1 + y) / (1 - y)\<close> of the public key; the lazy swaps and limb bounds leave no
  trace.\<close>

theorem ed25519_key_exchange_refines:
  assumes "length pk = 32" and "32 \<le> length sk"
  shows "le_val (ed25519_key_exchange pk sk) =
    rep_gf (case mont_ladder (mont_u pk) (clamp (take 32 sk)) of (x, z, _, _) \<Rightarrow> x * z ^ (2 ^ 255 - 21))"
  by (rule key_exchange_ok [OF assms])

theorem ed25519_key_exchange_refines_witness:
  "le_val (ed25519_key_exchange (replicate 32 9) (replicate 64 5)) =
    rep_gf (case mont_ladder (mont_u (replicate 32 9)) (clamp (take 32 (replicate 64 5))) of (x, z, _, _) \<Rightarrow> x * z ^ (2 ^ 255 - 21))"
  by (rule ed25519_key_exchange_refines) simp_all

text \<open>Adding a scalar to a private key: the secret scalar becomes \<open>(a + n) mod l\<close> with \<open>n\<close> the scalar without its
  top bit, the upper half is replaced by the head of the digest of itself and the scalar, and no public key is
  written when none is given.\<close>

theorem ed25519_add_scalar_private:
  assumes "length (ctx_buf ctx) = 128" and "length hashbuf = 64" and "length sk = 64" and "length scalar = 32"
  shows "\<exists>a. ed25519_add_scalar u ctx hashbuf None (Some sk) scalar =
      (None, Some (a @ take 32 (sha512_digest (drop 32 sk @ scalar)))) \<and> length a = 32 \<and>
    le_val a = (le_val scalar mod 2 ^ 255 + le_val (take 32 sk)) mod order25519"
  by (rule add_scalar_private [OF assms])

theorem ed25519_add_scalar_private_witness:
  "\<exists>a. ed25519_add_scalar ge_p3_0 stack_ctx (replicate 64 0) None (Some (replicate 64 1)) (replicate 32 255) =
      (None, Some (a @ take 32 (sha512_digest (drop 32 (replicate 64 1) @ replicate 32 255))))"
  using ed25519_add_scalar_private [of stack_ctx "replicate 64 0" "replicate 64 1" "replicate 32 255" ge_p3_0]
  unfolding stack_ctx_buf length_replicate by blast

text \<open>Seeds: a random source that cannot be opened is reported by 1 and leaves the seed alone; otherwise 0 is
  returned and the seed is what was read, but only as far as the read went: a short read is reported as success.\<close>

theorem ed25519_create_seed_results:
  assumes "length seed = 32"
  shows "ed25519_create_seed None seed = (1, seed) \<and>
    (length bs = 32 \<longrightarrow> ed25519_create_seed (Some bs) seed = (0, bs)) \<and>
    (length bs \<le> 32 \<longrightarrow> ed25519_create_seed (Some bs) seed = (0, bs @ drop (length bs) seed))"
  using assms by (simp add: ed25519_create_seed_def)

theorem ed25519_create_seed_results_witness: "ed25519_create_seed (Some [1, 2]) (replicate 32 0) = (0, [1, 2] @ replicate 30 0)"
  using ed25519_create_seed_results [of "replicate 32 0" "[1, 2]"] by simp

end
