(* ===== verification/Transaction.thy ===== *)
theory Transaction
  imports Cpp_String "HOL-Library.Countable"
begin

text \<open>
  Transactions (\<^verbatim>\<open>transaction.h\<close>, \<^verbatim>\<open>transaction.cpp\<close>): the class as a record, its constructors, the counting of
  verification results and the conversion to and from JSON.  A JSON document is a value of the datatype \<open>json\<close>; floating
  point numbers do not occur in the documents of the program and are left out.  The constant \<^verbatim>\<open>operator[]\<close> of a JSON
  object requires the key to be present, \<^verbatim>\<open>get\<close> throws on a value of the wrong type.
\<close>

section \<open>JSON values\<close>

datatype json = JNull | JBool bool | JInt int | JString string | JArray "json list" | JObject "(string \<times> json) list"

text \<open>There are countably many documents, so that a printer and a parser for them exist.\<close>

instance json :: countable
  by countable_datatype

definition json_at :: "json \<Rightarrow> string \<Rightarrow> cpp_error + json" where
  "json_at j k =
    (case j of
       JObject m \<Rightarrow> (case map_of m k of None \<Rightarrow> Inl Undefined | Some v \<Rightarrow> Inr v)
     | _ \<Rightarrow> Inl JsonError)"

fun get_string :: "json \<Rightarrow> cpp_error + string" where
  "get_string (JString s) = Inr s"
| "get_string _ = Inl JsonError"

fun get_int :: "json \<Rightarrow> cpp_error + int" where
  "get_int (JInt i) = Inr i"
| "get_int (JBool b) = Inr (if b then 1 else 0)"
| "get_int _ = Inl JsonError"

section \<open>The class\<close>

record Transaction =
  m_sentToClient :: bool
  m_receivedOutput :: bool
  m_receivedFullTransaction :: bool
  m_totalVerified :: int
  m_lastValidHash :: string
  m_inBlock :: bool
  m_timestamp :: int
  m_txId :: string
  m_blockId :: nat
  m_computeNode :: bool
  m_tenantId :: string
  m_masterNodeId :: string
  m_computeNodeId :: string
  m_code :: string
  m_signature :: string
  m_publicKey :: string
  m_output :: string
  m_input :: string
  m_exception :: string

definition tx_default :: Transaction where
  "tx_default = \<lparr>m_sentToClient = False, m_receivedOutput = False, m_receivedFullTransaction = False, m_totalVerified = 0,
     m_lastValidHash = [], m_inBlock = False, m_timestamp = 0, m_txId = [], m_blockId = 0, m_computeNode = False,
     m_tenantId = [], m_masterNodeId = [], m_computeNodeId = [], m_code = [], m_signature = [], m_publicKey = [],
     m_output = [], m_input = [], m_exception = []\<rparr>"

text \<open>The constructor of the originating master node and the one for an unexpected verification result.\<close>

definition tx_of_id :: "string \<Rightarrow> int \<Rightarrow> Transaction" where
  "tx_of_id txId timestamp =
    tx_default\<lparr>m_txId := txId, m_timestamp := timestamp, m_receivedFullTransaction := True, m_computeNode := True\<rparr>"

definition tx_of_hash :: "string \<Rightarrow> string \<Rightarrow> int \<Rightarrow> Transaction" where
  "tx_of_hash txId hash timestamp = tx_default\<lparr>m_txId := txId, m_lastValidHash := hash, m_timestamp := timestamp\<rparr>"

definition setOutput :: "string \<Rightarrow> Transaction \<Rightarrow> Transaction" where
  "setOutput out tx = tx\<lparr>m_output := out, m_receivedOutput := True\<rparr>"

definition incrementTotalVerified :: "Transaction \<Rightarrow> Transaction" where
  "incrementTotalVerified tx = tx\<lparr>m_totalVerified := m_totalVerified tx + 1\<rparr>"

definition verifyHash :: "string \<Rightarrow> Transaction \<Rightarrow> Transaction \<times> bool" where
  "verifyHash hash tx =
    (if m_lastValidHash tx = [] then (incrementTotalVerified (tx\<lparr>m_lastValidHash := hash\<rparr>), True)
     else if hash = m_lastValidHash tx then (incrementTotalVerified tx, True)
     else (tx, False))"

definition canSend :: "Transaction \<Rightarrow> bool" where
  "canSend tx \<longleftrightarrow> \<not> m_sentToClient tx \<and> m_computeNode tx"

text \<open>\<^verbatim>\<open>MAJORITY_THRESHOLD\<close> is \<open>21 * (2.0 / 3.0)\<close>; an integer reaches it exactly from 14 on.\<close>

definition TOTAL_MASTER_NODES :: int where
  "TOTAL_MASTER_NODES = 21"

definition reaches_majority :: "int \<Rightarrow> bool" where
  "reaches_majority n \<longleftrightarrow> TOTAL_MASTER_NODES * 2 \<le> n * 3"

definition isVerified :: "Transaction \<Rightarrow> bool" where
  "isVerified tx \<longleftrightarrow> reaches_majority (m_totalVerified tx) \<and> m_receivedFullTransaction tx \<and> m_receivedOutput tx"

section \<open>JSON\<close>

text \<open>The members are in key order, as in the \<^verbatim>\<open>std::map\<close> of the library.\<close>

definition toJson :: "Transaction \<Rightarrow> json" where
  "toJson tx = JObject
    [(''cid'', JString (m_computeNodeId tx)), (''co'', JString (m_code tx)), (''e'', JString (m_exception tx)),
     (''h'', JString (m_lastValidHash tx)), (''i'', JString (m_input tx)), (''k'', JString (m_publicKey tx)),
     (''mid'', JString (m_masterNodeId tx)), (''o'', JString (m_output tx)), (''s'', JString (m_signature tx)),
     (''t'', JInt (m_timestamp tx)), (''tid'', JString (m_tenantId tx)), (''txid'', JString (m_txId tx))]"

text \<open>\<^verbatim>\<open>fromJson\<close> assigns member after member; an exception leaves the members assigned so far.\<close>

definition assign :: "(json \<Rightarrow> cpp_error + 'a) \<Rightarrow> json \<Rightarrow> string \<Rightarrow> ('a \<Rightarrow> Transaction \<Rightarrow> Transaction) \<Rightarrow> Transaction \<Rightarrow> cpp_error + Transaction" where
  "assign get j key update tx =
    (case json_at j key of Inl e \<Rightarrow> Inl e
     | Inr v \<Rightarrow> (case get v of Inl e \<Rightarrow> Inl e | Inr x \<Rightarrow> Inr (update x tx)))"

fun assign_all :: "(Transaction \<Rightarrow> cpp_error + Transaction) list \<Rightarrow> Transaction \<Rightarrow> Transaction \<times> cpp_error option" where
  "assign_all [] tx = (tx, None)"
| "assign_all (f # fs) tx = (case f tx of Inl e \<Rightarrow> (tx, Some e) | Inr tx \<Rightarrow> assign_all fs tx)"

definition fromJson :: "json \<Rightarrow> Transaction \<Rightarrow> Transaction \<times> cpp_error option" where
  "fromJson j tx = assign_all
    [assign get_string j ''txid'' (\<lambda>x tx. tx\<lparr>m_txId := x\<rparr>),
     assign get_int j ''t'' (\<lambda>x tx. tx\<lparr>m_timestamp := x\<rparr>),
     assign get_string j ''h'' (\<lambda>x tx. tx\<lparr>m_lastValidHash := x\<rparr>),
     assign get_string j ''mid'' (\<lambda>x tx. tx\<lparr>m_masterNodeId := x\<rparr>),
     assign get_string j ''cid'' (\<lambda>x tx. tx\<lparr>m_computeNodeId := x\<rparr>),
     assign get_string j ''tid'' (\<lambda>x tx. tx\<lparr>m_tenantId := x\<rparr>),
     assign get_string j ''s'' (\<lambda>x tx. tx\<lparr>m_signature := x\<rparr>),
     assign get_string j ''k'' (\<lambda>x tx. tx\<lparr>m_publicKey := x\<rparr>),
     assign get_string j ''co'' (\<lambda>x tx. tx\<lparr>m_code := x\<rparr>),
     assign get_string j ''o'' (\<lambda>x tx. tx\<lparr>m_output := x\<rparr>),
     assign get_string j ''i'' (\<lambda>x tx. tx\<lparr>m_input := x\<rparr>),
     assign get_string j ''e'' (\<lambda>x tx. tx\<lparr>m_exception := x\<rparr>),
     (\<lambda>tx. Inr (tx\<lparr>m_receivedFullTransaction := True\<rparr>))] tx"

section \<open>Lemmas\<close>

lemma reaches_majority_iff: "reaches_majority n \<longleftrightarrow> 14 \<le> n"
  by (auto simp: reaches_majority_def TOTAL_MASTER_NODES_def)

text \<open>The private bookkeeping of a transaction, which JSON does not carry.\<close>

definition bookkeeping :: "Transaction \<Rightarrow> bool \<times> bool \<times> int \<times> bool \<times> nat \<times> bool" where
  "bookkeeping tx = (m_sentToClient tx, m_receivedOutput tx, m_totalVerified tx, m_inBlock tx, m_blockId tx, m_computeNode tx)"

lemma fromJson_toJson:
  "fromJson (toJson tx) tx0 = (tx\<lparr>m_sentToClient := m_sentToClient tx0, m_receivedOutput := m_receivedOutput tx0,
     m_receivedFullTransaction := True, m_totalVerified := m_totalVerified tx0, m_inBlock := m_inBlock tx0,
     m_blockId := m_blockId tx0, m_computeNode := m_computeNode tx0\<rparr>, None)"
  by (simp add: fromJson_def toJson_def assign_def json_at_def)

lemma assign_keeps:
  assumes "\<And>x tx. Q (update x tx) = Q tx" and "assign get j key update tx = Inr tx'"
  shows "Q tx' = Q tx"
  using assms by (auto simp: assign_def split: sum.splits)

lemma assign_all_keeps:
  assumes "\<And>f tx tx'. f \<in> set fs \<Longrightarrow> f tx = Inr tx' \<Longrightarrow> Q tx' = Q tx"
  shows "Q (fst (assign_all fs tx)) = Q tx"
  using assms by (induction fs arbitrary: tx) (auto split: sum.splits, metis)

text \<open>Whatever the document, \<^verbatim>\<open>fromJson\<close> leaves the bookkeeping alone, also when it fails half-way.\<close>

lemma fromJson_bookkeeping: "bookkeeping (fst (fromJson j tx)) = bookkeeping tx"
  unfolding fromJson_def by (rule assign_all_keeps) (auto simp: bookkeeping_def dest: assign_keeps [where Q = bookkeeping, rotated])

text \<open>A sequence of verification results.\<close>

definition verify_all :: "string list \<Rightarrow> Transaction \<Rightarrow> Transaction" where
  "verify_all hs tx = fold (\<lambda>h tx. fst (verifyHash h tx)) hs tx"

lemma verify_all_known:
  assumes "m_lastValidHash tx = h" and "h \<noteq> []"
  shows "verify_all hs tx = tx\<lparr>m_totalVerified := m_totalVerified tx + int (count_list hs h)\<rparr>"
  using assms unfolding verify_all_def
  by (induction hs arbitrary: tx) (auto simp: verifyHash_def incrementTotalVerified_def)

lemma verify_all_first:
  assumes "m_lastValidHash tx = []" and "h \<noteq> []"
  shows "verify_all (h # hs) tx =
    tx\<lparr>m_lastValidHash := h, m_totalVerified := m_totalVerified tx + int (count_list (h # hs) h)\<rparr>"
proof -
  have "verify_all (h # hs) tx = verify_all hs (incrementTotalVerified (tx\<lparr>m_lastValidHash := h\<rparr>))"
    using assms by (simp add: verify_all_def verifyHash_def)
  then show ?thesis using assms(2) by (simp add: verify_all_known incrementTotalVerified_def)
qed

section \<open>Properties\<close>

text \<open>The JSON form of a transaction carries every member a master node sends: reading it back into any
  transaction restores all of them, marks the transaction as complete and keeps the receiver's own bookkeeping (vote
  count, output flag, sent flag, block flag); and no document, well-formed or not, ever changes that bookkeeping.\<close>

theorem tx_json_roundtrip:
  "fromJson (toJson tx) tx0 = (tx\<lparr>m_sentToClient := m_sentToClient tx0, m_receivedOutput := m_receivedOutput tx0,
     m_receivedFullTransaction := True, m_totalVerified := m_totalVerified tx0, m_inBlock := m_inBlock tx0,
     m_blockId := m_blockId tx0, m_computeNode := m_computeNode tx0\<rparr>, None) \<and>
   toJson (fst (fromJson (toJson tx) tx0)) = toJson tx \<and>
   bookkeeping (fst (fromJson j tx0)) = bookkeeping tx0"
  by (simp add: fromJson_toJson fromJson_bookkeeping) (simp add: toJson_def)

text \<open>Claim (C37): verification counts agreement with the first result.  Of the results that reach a transaction, the first
  non-empty hash is kept, exactly the equal ones are counted, and a complete transaction with output is verified exactly
  when at least 14 of the results agree with it.\<close>

theorem verification_counts:
  assumes "m_lastValidHash tx = []" and "m_totalVerified tx = 0" and "h \<noteq> []"
  shows "m_lastValidHash (verify_all (h # hs) tx) = h \<and> m_totalVerified (verify_all (h # hs) tx) = int (count_list (h # hs) h) \<and>
    (isVerified (verify_all (h # hs) tx) \<longleftrightarrow>
       14 \<le> count_list (h # hs) h \<and> m_receivedFullTransaction tx \<and> m_receivedOutput tx)"
  using assms by (simp add: verify_all_first isVerified_def reaches_majority_iff)

theorem verification_counts_witness:
  "let tx = setOutput ''42'' (tx_of_id ''t'' 5)
   in isVerified (verify_all (''h'' # replicate 7 ''x'' @ replicate 13 ''h'') tx) \<and>
      \<not> isVerified (verify_all (''h'' # replicate 7 ''x'' @ replicate 12 ''h'') tx)"
  using verification_counts [of "setOutput ''42'' (tx_of_id ''t'' 5)" "''h''" "replicate 7 ''x'' @ replicate 13 ''h''"]
    verification_counts [of "setOutput ''42'' (tx_of_id ''t'' 5)" "''h''" "replicate 7 ''x'' @ replicate 12 ''h''"]
  by (simp add: setOutput_def tx_of_id_def tx_default_def numeral_eq_Suc)

end
