(* ===== verification/Account.thy ===== *)
theory Account
  imports Ed25519 Transaction
begin

text \<open>
  Accounts and client signatures (\<^verbatim>\<open>functions.cpp\<close>): \<^verbatim>\<open>generateAccount\<close>, \<^verbatim>\<open>createEd25519Signature\<close> and
  \<^verbatim>\<open>verifyEd25519Signature\<close>, which put base-64 text around the Ed25519 library.  Base 64 is a pair of parameters.  The
  wrappers pass the decoded buffers on without looking at their lengths; reading past the end of a buffer is
  \<open>Undefined\<close>.  Verification starts with the last byte of the signature, and does not touch the key when its top bits are set.
\<close>

section \<open>Definitions\<close>

definition bytes_of :: "string \<Rightarrow> bytes" where
  "bytes_of s = map of_char s"

text \<open>What the callee finds in its uninitialised automatic variables.\<close>

record stack =
  st_point :: ge_p3
  st_ctx :: sha512_context
  st_hash :: bytes
  st_hash2 :: bytes

definition createEd25519Signature ::
    "(string \<Rightarrow> string) \<Rightarrow> (bytes \<Rightarrow> string) \<Rightarrow> stack \<Rightarrow> bytes \<Rightarrow> string \<Rightarrow> string \<Rightarrow> string \<Rightarrow> cpp_error + string" where
  "createEd25519Signature base64_decode base64_encode stk signature message base64publicKey base64privateKey =
    (let publicKey = bytes_of (base64_decode base64publicKey);
         privateKey = bytes_of (base64_decode base64privateKey)
     in if length publicKey < 32 \<or> length privateKey < 64 then Inl Undefined
        else Inr (base64_encode (take 64 (ed25519_sign (st_ctx stk) (st_hash stk) (st_hash2 stk) signature
               (bytes_of message) (take 32 publicKey) (take 64 privateKey)))))"

definition verifyEd25519Signature :: "(string \<Rightarrow> string) \<Rightarrow> stack \<Rightarrow> string \<Rightarrow> string \<Rightarrow> string \<Rightarrow> cpp_error + bool" where
  "verifyEd25519Signature base64_decode stk message base64key base64signature =
    (let key = bytes_of (base64_decode base64key);
         signature = bytes_of (base64_decode base64signature)
     in if length signature < 64 then Inl Undefined
        else if signature ! 63 AND 224 \<noteq> 0 then Inr False
        else if length key < 32 then Inl Undefined
        else Inr (ed25519_verify (st_point stk) (st_ctx stk) (st_hash stk) (take 64 signature) (bytes_of message) (take 32 key)))"

definition generateAccount ::
    "(bytes \<Rightarrow> string) \<Rightarrow> sha512_context \<Rightarrow> bytes option \<Rightarrow> bytes \<Rightarrow> bytes \<Rightarrow> bytes \<Rightarrow> cpp_error + json" where
  "generateAccount base64_encode ctx urandom seed privateKey publicKey =
    (case ed25519_create_seed urandom seed of (ret, seed) \<Rightarrow>
       if 0 < ret then Inl (Thrown ''Seed generation failed!'')
       else (let (publicKey, privateKey) = ed25519_create_keypair ctx publicKey privateKey seed
             in Inr (JObject [(''PrivateKey'', JString (base64_encode privateKey)),
                              (''PublicKey'', JString (base64_encode publicKey)), (''Seed'', JString (base64_encode seed))])))"

section \<open>Properties\<close>

lemma length_bytes_of [simp]: "length (bytes_of s) = length s"
  by (simp add: bytes_of_def)

definition stack_ok :: "stack \<Rightarrow> bool" where
  "stack_ok stk \<longleftrightarrow> length (ctx_buf (st_ctx stk)) = 128 \<and> length (st_hash stk) = 64 \<and> length (st_hash2 stk) = 64"

lemma top_bits_clear:
  assumes "length signature = 64"
  shows "signature ! 63 AND 224 = 0 \<longleftrightarrow> le_val (drop 32 signature) < 2 ^ 253"
  using le_val_top [of "drop 32 signature"] assms by (simp add: byte_masks)

lemma signature_top:
  assumes "64 \<le> length signature"
  shows "signature ! 63 AND 224 = 0 \<longleftrightarrow> le_val (drop 32 (take 64 signature)) < 2 ^ 253"
  using top_bits_clear [of "take 64 signature"] assms by simp

text \<open>A client's request is accepted exactly when its signature satisfies the Ed25519 equation.  For keys and
  signatures of at least the right length the wrapper answers whether \<open>S < 2^253\<close>, the key unpacks and packing
  \<open>k (-A) + S B\<close> gives \<open>R\<close>, whatever the stack held before; extra decoded bytes are ignored.  A shorter signature is read out
  of bounds, and so is a shorter key when \<open>S < 2^253\<close>.\<close>

theorem client_signature_exact:
  assumes "stack_ok stk" and "ge_frombytes_negate_vartime (st_point stk) (take 32 (bytes_of (b64 key))) = (ret, A)"
  shows "verifyEd25519Signature b64 stk message key sig =
    (let s = take 64 (bytes_of (b64 sig)); pk = take 32 (bytes_of (b64 key))
     in if length (b64 sig) < 64 then Inl Undefined
        else if 2 ^ 253 \<le> le_val (drop 32 s) then Inr False
        else if length (b64 key) < 32 then Inl Undefined
        else Inr (ret = 0 \<and>
          ge_tobytes (ge_double_scalarmult_vartime (sc_reduce (sha512_digest (take 32 s @ pk @ bytes_of message))) A (drop 32 s)) = take 32 s))"
proof (cases "64 \<le> length (b64 sig)")
  case True
  note top = signature_top [of "bytes_of (b64 sig)"]
  show ?thesis
  proof (cases "le_val (drop 32 (take 64 (bytes_of (b64 sig)))) < 2 ^ 253 \<and> 32 \<le> length (b64 key)")
    case ok: True
    have "length (take 64 (bytes_of (b64 sig))) = 64" "length (take 32 (bytes_of (b64 key))) = 32" using ok True by simp_all
    from verify_iff [OF _ _ this assms(2), of "st_ctx stk" "st_hash stk" "bytes_of message"] assms(1) True ok top show ?thesis
      by (simp add: verifyEd25519Signature_def Let_def stack_ok_def challenge_def)
  qed (use True top in \<open>auto simp: verifyEd25519Signature_def Let_def\<close>)
qed (auto simp: verifyEd25519Signature_def Let_def)

theorem client_signature_exact_witness:
  "verifyEd25519Signature (\<lambda>s. s) \<lparr>st_point = ge_p3_0, st_ctx = stack_ctx, st_hash = replicate 64 0, st_hash2 = replicate 64 0\<rparr>
     ''m'' (replicate 32 CHR ''k'') (replicate 64 CHR 0xFF) = Inr False"
proof -
  obtain ret A where u: "ge_frombytes_negate_vartime ge_p3_0 (take 32 (bytes_of (replicate 32 CHR ''k''))) = (ret, A)" by fastforce
  have v: "\<not> le_val (drop 32 (take 64 (bytes_of (replicate 64 CHR 0xFF)))) < 2 ^ 253" by code_simp
  show ?thesis
    using client_signature_exact [of "\<lparr>st_point = ge_p3_0, st_ctx = stack_ctx, st_hash = replicate 64 0, st_hash2 = replicate 64 0\<rparr>"
        "\<lambda>s. s" "replicate 32 CHR ''k''" ret A "''m''" "replicate 64 CHR 0xFF"] u v
    by (simp add: stack_ok_def Let_def)
qed

text \<open>A new account: the keys are those of the clamped digest of the seed, and a missing random source is reported.\<close>

lemma generateAccount_results:
  assumes "length (ctx_buf ctx) = 128" and "length pk = 32" and "length sk = 64" and "length seed = 32" and "length bs = 32"
  shows "generateAccount b64 ctx None seed sk pk = Inl (Thrown ''Seed generation failed!'')"
    and "\<exists>a. length a = 32 \<and> generateAccount b64 ctx (Some bs) seed sk pk =
      Inr (JObject [(''PrivateKey'', JString (b64 (a @ drop 32 (sha512_digest bs)))),
        (''PublicKey'', JString (b64 (ge_p3_tobytes (ge_scalarmult_base a)))), (''Seed'', JString (b64 bs))])"
proof -
  show "generateAccount b64 ctx None seed sk pk = Inl (Thrown ''Seed generation failed!'')" by (simp add: generateAccount_def ed25519_create_seed_def)
  have "length (clamp (take 32 (sha512_digest bs))) = 32" by simp
  with create_keypair_eq [OF assms(1-3) assms(5)] assms(4,5)
  show "\<exists>a. length a = 32 \<and> generateAccount b64 ctx (Some bs) seed sk pk =
      Inr (JObject [(''PrivateKey'', JString (b64 (a @ drop 32 (sha512_digest bs)))),
        (''PublicKey'', JString (b64 (ge_p3_tobytes (ge_scalarmult_base a)))), (''Seed'', JString (b64 bs))])"
    by (intro exI [of _ "clamp (take 32 (sha512_digest bs))"]) (simp add: generateAccount_def ed25519_create_seed_def)
qed

end
