(* ===== verification/Action.thy ===== *)
theory Action
  imports Cpp_String "HOL-Library.Multiset"
begin

text \<open>
  The form of the operations of a node.  An operation maps the state to a result or an exception, the new state and the
  outputs in order; the state changes made before an exception remain, as they do in the C++ code.  The state and the
  outputs are parameters: master nodes and storage nodes instantiate them.  The theory also states the contract of
  \<^verbatim>\<open>std::sort\<close>.
\<close>

type_synonym ('s, 'o, 'a) effect = "'s \<Rightarrow> (cpp_error + 'a) \<times> 's \<times> 'o list"

definition ok :: "'a \<Rightarrow> ('s, 'o, 'a) effect" where
  "ok x = (\<lambda>st. (Inr x, st, []))"

definition lift :: "cpp_error + 'a \<Rightarrow> ('s, 'o, 'a) effect" where
  "lift r = (\<lambda>st. (r, st, []))"

definition gets :: "('s \<Rightarrow> 'a) \<Rightarrow> ('s, 'o, 'a) effect" where
  "gets f = (\<lambda>st. (Inr (f st), st, []))"

definition modify :: "('s \<Rightarrow> 's) \<Rightarrow> ('s, 'o, unit) effect" where
  "modify f = (\<lambda>st. (Inr (), f st, []))"

definition emit :: "'o \<Rightarrow> ('s, 'o, unit) effect" where
  "emit x = (\<lambda>st. (Inr (), st, [x]))"

definition andThen :: "('s, 'o, 'a) effect \<Rightarrow> ('a \<Rightarrow> ('s, 'o, 'b) effect) \<Rightarrow> ('s, 'o, 'b) effect" where
  "andThen m f = (\<lambda>st. case m st of
       (Inl e, st, outs) \<Rightarrow> (Inl e, st, outs)
     | (Inr x, st, outs) \<Rightarrow> (case f x st of (r, st, outs') \<Rightarrow> (r, st, outs @ outs')))"

definition perform :: "('s, 'o, unit) effect \<Rightarrow> ('s, 'o, 'b) effect \<Rightarrow> ('s, 'o, 'b) effect" where
  "perform m k = andThen m (\<lambda>_. k)"

text \<open>A \<^verbatim>\<open>try\<close> block with its handler; undefined behaviour cannot be caught.\<close>

definition catching :: "('s, 'o, 'a) effect \<Rightarrow> (cpp_error \<Rightarrow> ('s, 'o, 'a) effect) \<Rightarrow> ('s, 'o, 'a) effect" where
  "catching m h = (\<lambda>st. case m st of
       (Inl e, st, outs) \<Rightarrow>
         if e = Undefined then (Inl e, st, outs) else (case h e st of (r, st, outs') \<Rightarrow> (r, st, outs @ outs'))
     | (Inr x, st, outs) \<Rightarrow> (Inr x, st, outs))"

text \<open>A loop over the elements of a container.\<close>

fun for_each :: "'b list \<Rightarrow> ('b \<Rightarrow> 'a \<Rightarrow> ('s, 'o, 'a) effect) \<Rightarrow> 'a \<Rightarrow> ('s, 'o, 'a) effect" where
  "for_each [] f x = ok x"
| "for_each (y # ys) f x = andThen (f y x) (for_each ys f)"

named_theorems action_simps

lemma action_apply [action_simps]:
  "ok x st = (Inr x, st, [])" "lift r st = (r, st, [])" "gets g st = (Inr (g st), st, [])"
  "modify h st = (Inr (), h st, [])" "emit y st = (Inr (), st, [y])"
  by (simp_all add: ok_def lift_def gets_def modify_def emit_def)

lemma andThen_apply [action_simps]:
  "andThen m f st = (case m st of
       (Inl e, st, outs) \<Rightarrow> (Inl e, st, outs)
     | (Inr x, st, outs) \<Rightarrow> (case f x st of (r, st, outs') \<Rightarrow> (r, st, outs @ outs')))"
  "perform m' k st = andThen m' (\<lambda>_. k) st"
  by (simp_all add: andThen_def perform_def)

lemma catching_apply [action_simps]:
  "catching m h st = (case m st of
       (Inl e, st, outs) \<Rightarrow>
         if e = Undefined then (Inl e, st, outs) else (case h e st of (r, st, outs') \<Rightarrow> (r, st, outs @ outs'))
     | (Inr x, st, outs) \<Rightarrow> (Inr x, st, outs))"
  by (simp add: catching_def)

text \<open>The final state and the outputs.\<close>

definition state_after :: "('s, 'o, 'a) effect \<Rightarrow> 's \<Rightarrow> 's" where
  "state_after m st = fst (snd (m st))"

definition outputs :: "('s, 'o, 'a) effect \<Rightarrow> 's \<Rightarrow> 'o list" where
  "outputs m st = snd (snd (m st))"

text \<open>An operation that leaves a component of the state alone; the composition does if the parts do.\<close>

definition keeps :: "('s \<Rightarrow> 'c) \<Rightarrow> ('s, 'o, 'a) effect \<Rightarrow> bool" where
  "keeps f m \<longleftrightarrow> (\<forall>st. f (state_after m st) = f st)"

named_theorems keeps_intros

lemma keeps_basic [keeps_intros]:
  "keeps f (ok x)" "keeps f (lift r)" "keeps f (gets g)" "keeps f (emit y)" "(\<And>st. f (h st) = f st) \<Longrightarrow> keeps f (modify h)"
  by (simp_all add: keeps_def state_after_def action_simps)

lemma keeps_andThen [keeps_intros]: "keeps f m \<Longrightarrow> (\<And>x. keeps f (k x)) \<Longrightarrow> keeps f (andThen m k)"
  unfolding keeps_def state_after_def
  by (simp add: action_simps split: prod.split sum.split) (metis fst_conv snd_conv)

lemma keeps_perform [keeps_intros]: "keeps f m \<Longrightarrow> keeps f k \<Longrightarrow> keeps f (perform m k)"
  by (simp add: perform_def keeps_andThen)

lemma keeps_if [keeps_intros]: "keeps f m \<Longrightarrow> keeps f m' \<Longrightarrow> keeps f (if b then m else m')"
  by simp

lemma keeps_catching [keeps_intros]: "keeps f m \<Longrightarrow> (\<And>e. keeps f (h e)) \<Longrightarrow> keeps f (catching m h)"
  unfolding keeps_def state_after_def
  by (simp add: action_simps split: prod.split sum.split) (metis fst_conv snd_conv)

lemma keeps_for_each [keeps_intros]: "(\<And>y x. keeps f (g y x)) \<Longrightarrow> keeps f (for_each ys g x)"
  by (induction ys arbitrary: x) (simp_all add: keeps_intros)

lemma keeps_cases [keeps_intros]:
  "keeps f a \<Longrightarrow> (\<And>y. keeps f (b y)) \<Longrightarrow> keeps f (case opt of None \<Rightarrow> a | Some y \<Rightarrow> b y)"
  "(\<And>u v. keeps f (c u v)) \<Longrightarrow> keeps f (case p of (u, v) \<Rightarrow> c u v)"
  by (simp_all split: option.split prod.split)

lemma keepsD: "keeps f m \<Longrightarrow> m st = (r, st', outs) \<Longrightarrow> f st' = f st"
  by (auto simp: keeps_def state_after_def dest: spec [of _ st])

text \<open>What \<^verbatim>\<open>std::sort\<close> promises: a permutation ordered by the key; the order of equal elements is open.\<close>

definition sorts_by :: "('a \<Rightarrow> 'k::linorder) \<Rightarrow> ('a list \<Rightarrow> 'a list) \<Rightarrow> bool" where
  "sorts_by key s \<longleftrightarrow> (\<forall>xs. mset (s xs) = mset xs \<and> sorted (map key (s xs)))"

lemma sorts_by_sort_key: "sorts_by key (sort_key key)"
  by (simp add: sorts_by_def)

end
