(* ===== verification/Master_Base.thy ===== *)
theory Master_Base
  imports Packets Account Action "HOL-Library.Signed_Division"
begin

text \<open>
  The state of a master node (the globals of \<^verbatim>\<open>MasterNodeLib.cpp\<close> and \<^verbatim>\<open>BlockUtil.cpp\<close>), what surrounds it, and the
  form of its operations.  An operation maps the state to a result or an exception, the new state and the outputs in
  order; the state changes made before an exception remain.  The environment holds the clock, the random source and what
  the libraries return: X.509 signatures, base 64, hashes, JSON text, the DHT.
\<close>

section \<open>State\<close>

record Voter =
  v_signature :: string
  v_publicKey :: string
  v_number :: "32 word"
  v_valid :: bool

record Block =
  b_number :: nat
  b_hash :: string
  b_previousHash :: string
  b_data :: json
  b_time :: int

record master =
  nextVotingTimestampStr :: string
  electedMasterNodes :: "(string \<times> string list) list"
  blockStorageNode :: string
  stateChangeStorageNode :: string
  base64encodedKey :: string
  ignoreThisVotingRound :: bool
  subscribedTo21 :: bool
  transactions :: "(string \<times> Transaction) list"
  blocks :: "(nat \<times> Block) list"
  randomNumbers :: "Voter list"
  blockProducers :: "Voter list"
  queueOut :: "Transaction list"
  inVotingPhase :: bool
  lastRoundTimestamp :: int
  lastCleanupTime :: int
  nextBlockNumber :: nat
  previousHash :: string
  known_nodes :: registry

datatype out =
    Gossip string CommandType field_map  \<comment> \<open>the channel, the command and the fields\<close>
  | WsSend string json                   \<comment> \<open>to the client with this key\<close>
  | DhtPut string string
  | Subscribe string
  | Unsubscribe string
  | SaveElected                          \<comment> \<open>to \<^verbatim>\<open>masternodes.dat\<close>, whatever is found at the text of a destroyed temporary\<close>

record env =
  node_id :: string
  own_key :: string
  now :: int
  guid :: string
  random :: "nat \<Rightarrow> nat \<Rightarrow> nat"
  dht :: "string \<Rightarrow> string"
  x509_sign :: "string \<Rightarrow> string"
  x509_verify :: "string \<Rightarrow> string \<Rightarrow> string \<Rightarrow> cpp_error + bool"
  b64_encode :: "string \<Rightarrow> string"
  b64_decode :: "string \<Rightarrow> string"
  infohash :: "string \<Rightarrow> string"
  dump :: "json \<Rightarrow> string"
  parse :: "string \<Rightarrow> cpp_error + json"
  stk :: stack
  sort_voters :: "Voter list \<Rightarrow> Voter list"
  sort_transactions :: "Transaction list \<Rightarrow> Transaction list"

text \<open>The globals before \<^verbatim>\<open>main\<close> sets the timestamps.\<close>

definition initial_master :: master where
  "initial_master = \<lparr>nextVotingTimestampStr = [], electedMasterNodes = [], blockStorageNode = [], stateChangeStorageNode = [],
     base64encodedKey = [], ignoreThisVotingRound = False, subscribedTo21 = False, transactions = [], blocks = [],
     randomNumbers = [], blockProducers = [], queueOut = [], inVotingPhase = False, lastRoundTimestamp = 0,
     lastCleanupTime = 0, nextBlockNumber = 0, previousHash = [], known_nodes = empty_registry\<rparr>"

section \<open>Operations\<close>

type_synonym 'a action = "(master, out, 'a) effect"

section \<open>Helpers of the node\<close>

definition getSecondsPastHour :: "int \<Rightarrow> int" where
  "getSecondsPastHour timestamp = timestamp smod 3600"

text \<open>A uniform number from \<open>a\<close> to \<open>b - 1\<close>; an empty range is not allowed.\<close>

definition generateRandomNumber :: "env \<Rightarrow> nat \<Rightarrow> nat \<Rightarrow> nat action" where
  "generateRandomNumber E a b = lift (if a < b then Inr (random E a b) else Inl Undefined)"

definition random_ok :: "env \<Rightarrow> bool" where
  "random_ok E \<longleftrightarrow> (\<forall>a b. a < b \<longrightarrow> a \<le> random E a b \<and> random E a b < b)"

definition getBlockStorageNode :: "env \<Rightarrow> string action" where
  "getBlockStorageNode E =
    andThen (gets blockStorageNode) (\<lambda>s.
    if s \<noteq> [] then ok s
    else andThen (gets known_nodes) (\<lambda>r.
      if getNumberOfStorageNodes r < 1 then ok []
      else if dht E ''sn_block_close_key'' \<noteq> [] then
        perform (modify (\<lambda>st. st\<lparr>blockStorageNode := dht E ''sn_block_close_key''\<rparr>)) (gets blockStorageNode)
      else
        andThen (lift (getStorageNodeKey r 0)) (\<lambda>k.
        perform (modify (\<lambda>st. st\<lparr>blockStorageNode := k\<rparr>))
        (perform (emit (DhtPut ''sn_block_close_key'' k)) (ok k)))))"

definition getStateChangeStorageNode :: "env \<Rightarrow> string action" where
  "getStateChangeStorageNode E =
    andThen (gets stateChangeStorageNode) (\<lambda>s.
    if s \<noteq> [] then ok s
    else andThen (gets known_nodes) (\<lambda>r.
      if getNumberOfStorageNodes r < 2 then ok []
      else if dht E ''sn_state_change_key'' \<noteq> [] then
        perform (modify (\<lambda>st. st\<lparr>stateChangeStorageNode := dht E ''sn_state_change_key''\<rparr>)) (gets stateChangeStorageNode)
      else
        andThen (lift (getStorageNodeKey r 1)) (\<lambda>k.
        perform (modify (\<lambda>st. st\<lparr>stateChangeStorageNode := k\<rparr>))
        (perform (emit (DhtPut ''sn_state_change_key'' k)) (ok k)))))"

text \<open>A concrete surrounding: the libraries do nothing and the sorts are stable.\<close>

definition plain_env :: "string \<Rightarrow> int \<Rightarrow> env" where
  "plain_env nid t = \<lparr>node_id = nid, own_key = ''key'', now = t, guid = ''guid'', random = (\<lambda>a b. a), dht = (\<lambda>_. []),
     x509_sign = (\<lambda>s. s), x509_verify = (\<lambda>key message signature. Inr (message = signature)), b64_encode = (\<lambda>s. s),
     b64_decode = (\<lambda>s. s), infohash = (\<lambda>s. s), dump = (\<lambda>_. []), parse = (\<lambda>_. Inr (toJson tx_default)),
     stk = \<lparr>st_point = ge_p3_0, st_ctx = stack_ctx, st_hash = replicate 64 0, st_hash2 = replicate 64 0\<rparr>,
     sort_voters = sort_key v_number, sort_transactions = sort_key m_timestamp\<rparr>"

lemma plain_env_sel [simp]:
  "node_id (plain_env nid t) = nid" "now (plain_env nid t) = t" "x509_sign (plain_env nid t) = (\<lambda>s. s)"
  "x509_verify (plain_env nid t) = (\<lambda>key message signature. Inr (message = signature))" "b64_encode (plain_env nid t) = (\<lambda>s. s)"
  "b64_decode (plain_env nid t) = (\<lambda>s. s)" "infohash (plain_env nid t) = (\<lambda>s. s)" "dht (plain_env nid t) = (\<lambda>_. [])"
  "sort_voters (plain_env nid t) = sort_key v_number" "sort_transactions (plain_env nid t) = sort_key m_timestamp"
  "random (plain_env nid t) = (\<lambda>a b. a)" "guid (plain_env nid t) = ''guid''" "own_key (plain_env nid t) = ''key''"
  "parse (plain_env nid t) = (\<lambda>_. Inr (toJson tx_default))"
  by (simp_all add: plain_env_def)

lemma storage_keeps [keeps_intros]:
  "(\<And>st s. f (st\<lparr>stateChangeStorageNode := s\<rparr>) = f st) \<Longrightarrow> keeps f (getStateChangeStorageNode E)"
  "(\<And>st s. f (st\<lparr>blockStorageNode := s\<rparr>) = f st) \<Longrightarrow> keeps f (getBlockStorageNode E)"
  by (simp_all add: getStateChangeStorageNode_def getBlockStorageNode_def keeps_intros)

end
