(* ===== verification/Voting.thy ===== *)
theory Voting
  imports Master_Base
begin

text \<open>
  The hourly election of block producers (\<^verbatim>\<open>MasterNodeLib.cpp\<close>): \<^verbatim>\<open>enterAndExitVotingPhase\<close>, \<^verbatim>\<open>registerVote\<close>, the
  voting timestamps and the rotation of block producers.  \<^verbatim>\<open>registerVote\<close> holds its mutex in two separate sections, so
  that other operations can run in between; it is split there.
\<close>

section \<open>Operations\<close>

definition openVotingStartMinute :: int where
  "openVotingStartMinute = 55"

definition canParticipateInVoting :: "master \<Rightarrow> bool" where
  "canParticipateInVoting st \<longleftrightarrow> \<not> ignoreThisVotingRound st"

definition inVotingTime :: "env \<Rightarrow> bool" where
  "inVotingTime E \<longleftrightarrow> openVotingStartMinute \<le> getSecondsPastHour (now E) sdiv 60"

definition initializeNextVotingTimestamp :: "env \<Rightarrow> master \<Rightarrow> master" where
  "initializeNextVotingTimestamp E st =
    (let secondsUntilNextHour = 3600 - getSecondsPastHour (now E)
     in st\<lparr>nextVotingTimestampStr := to_string (now E + secondsUntilNextHour - (60 - openVotingStartMinute) * 60)\<rparr>)"

text \<open>\<^verbatim>\<open>time_t\<close> is a signed 64-bit number.\<close>

definition to_s64 :: "int \<Rightarrow> int" where
  "to_s64 x = (x + 2 ^ 63) mod 2 ^ 64 - 2 ^ 63"

definition updateNextVotingTimestamp :: "unit action" where
  "updateNextVotingTimestamp =
    andThen (gets nextVotingTimestampStr) (\<lambda>s.
    andThen (lift (stoull s)) (\<lambda>t.
      modify (\<lambda>st. st\<lparr>nextVotingTimestampStr := to_string (to_s64 (to_s64 t + 3600))\<rparr>)))"

text \<open>The sum of the characters of a signature, as signed \<^verbatim>\<open>char\<close>s, in 32 bits.\<close>

definition schar :: "char \<Rightarrow> int" where
  "schar c = (let n = of_char c in if n < 128 then n else n - 256)"

definition vote_number :: "string \<Rightarrow> 32 word" where
  "vote_number signature = fold (\<lambda>c number. number + word_of_int (schar c)) signature 0"

fun elect :: "string \<Rightarrow> Voter list \<Rightarrow> Voter list \<Rightarrow> bool \<Rightarrow> Voter list \<times> bool" where
  "elect nid [] producers nodeInList = (producers, nodeInList)"
| "elect nid (v # vs) producers nodeInList =
    (let (producers, nodeInList) =
       (if v_valid v then (producers @ [v], nodeInList \<or> v_publicKey v = nid) else (producers, nodeInList))
     in if length producers = nat TOTAL_MASTER_NODES then (producers, nodeInList)
        else elect nid vs producers nodeInList)"

definition cast_ballot :: "env \<Rightarrow> unit action" where
  "cast_ballot E =
    andThen (gets nextVotingTimestampStr) (\<lambda>s.
      let signature = x509_sign E s;
          chosenNumber = \<lparr>v_signature = signature, v_publicKey = node_id E, v_number = vote_number signature, v_valid = True\<rparr>
      in perform (modify (\<lambda>st. st\<lparr>randomNumbers := randomNumbers st @ [chosenNumber]\<rparr>))
           (emit (Gossip ''masternodes'' choseRandomNumber [(''s'', signature), (''key'', b64_encode E (own_key E))])))"

text \<open>The count at the end of the voting interval; the result tells whether this node was elected.  The elected nodes are kept by
  voting round; the file they are written to gets its text through the pointer that \<^verbatim>\<open>j.dump().c_str()\<close> leaves behind, so that
  only the write is modelled and not what it writes.\<close>

definition count_votes :: "env \<Rightarrow> bool action" where
  "count_votes E =
    andThen (gets randomNumbers) (\<lambda>votes.
    if 1 < length votes then
      (let (producers, nodeInList) = elect (node_id E) (sort_voters E votes) [] False
       in perform (modify (\<lambda>st. st\<lparr>blockProducers := producers, randomNumbers := [],
            electedMasterNodes := std_set (nextVotingTimestampStr st) (map v_publicKey producers) (electedMasterNodes st)\<rparr>))
          (perform (emit SaveElected) (ok nodeInList)))
    else ok False)"

definition update_subscription :: "bool \<Rightarrow> unit action" where
  "update_subscription nodeInList =
    andThen (gets subscribedTo21) (\<lambda>subscribed.
    if nodeInList then
      (if \<not> subscribed then perform (emit (Subscribe ''master21'')) (modify (\<lambda>st. st\<lparr>subscribedTo21 := True\<rparr>)) else ok ())
    else
      (if subscribed then perform (emit (Unsubscribe ''master21'')) (modify (\<lambda>st. st\<lparr>subscribedTo21 := False\<rparr>)) else ok ()))"

definition enterAndExitVotingPhase :: "env \<Rightarrow> unit action" where
  "enterAndExitVotingPhase E =
    andThen (gets inVotingPhase) (\<lambda>inPhase.
    if inVotingTime E then
      (if \<not> inPhase then
         perform (modify (\<lambda>st. st\<lparr>inVotingPhase := True\<rparr>))
         (andThen (gets canParticipateInVoting) (\<lambda>can. if can then cast_ballot E else ok ()))
       else ok ())
    else if inPhase then
      perform (modify (\<lambda>st. st\<lparr>inVotingPhase := False\<rparr>))
      (perform updateNextVotingTimestamp
      (perform (modify (\<lambda>st. st\<lparr>blockProducers := []\<rparr>))
      (andThen (count_votes E) (\<lambda>nodeInList.
       perform (update_subscription nodeInList)
       (modify (\<lambda>st. st\<lparr>ignoreThisVotingRound := False\<rparr>))))))
    else ok ())"

definition vote_known :: "string \<Rightarrow> master \<Rightarrow> bool" where
  "vote_known key st \<longleftrightarrow> list_ex (\<lambda>v. v_publicKey v = key) (randomNumbers st)"

text \<open>\<^verbatim>\<open>registerVote\<close>: the first critical section decides whether to go on, with the decoded key; the second one adds the
  vote.  The variable \<^verbatim>\<open>n\<close> that the second section compares with the number of votes is the length of the signature.\<close>

definition vote_first :: "env \<Rightarrow> string \<Rightarrow> master \<Rightarrow> string option" where
  "vote_first E publicKey st =
    (if \<not> canParticipateInVoting st then None
     else let key = b64_decode E publicKey in if vote_known key st then None else Some key)"

definition vote_second :: "env \<Rightarrow> string \<Rightarrow> string \<Rightarrow> unit action" where
  "vote_second E signature key =
    andThen (gets nextVotingTimestampStr) (\<lambda>s.
    andThen (lift (x509_verify E key s signature)) (\<lambda>valid.
    if valid then
      (let voter = \<lparr>v_signature = signature, v_publicKey = key, v_number = vote_number signature, v_valid = True\<rparr>
       in andThen (gets (\<lambda>st. length signature \<noteq> length (randomNumbers st) \<and> vote_known key st)) (\<lambda>known.
          if known then ok () else modify (\<lambda>st. st\<lparr>randomNumbers := randomNumbers st @ [voter]\<rparr>)))
    else ok ()))"

definition registerVote :: "env \<Rightarrow> string \<Rightarrow> string \<Rightarrow> unit action" where
  "registerVote E signature publicKey =
    andThen (gets (vote_first E publicKey)) (\<lambda>r. case r of None \<Rightarrow> ok () | Some key \<Rightarrow> vote_second E signature key)"

definition getBlockProducerFor :: "int \<Rightarrow> master \<Rightarrow> int" where
  "getBlockProducerFor timestamp st =
    (if length (blockProducers st) < 1 then - 1
     else getSecondsPastHour timestamp mod 2 ^ 64 mod int (length (blockProducers st)))"

definition getCurrentBlockProducer :: "env \<Rightarrow> master \<Rightarrow> int" where
  "getCurrentBlockProducer E st =
    (if length (blockProducers st) < 2 then - 1
     else getSecondsPastHour (now E) mod 2 ^ 64 mod int (length (blockProducers st)))"

text \<open>\<^verbatim>\<open>at\<close> throws outside the range.\<close>

definition producer_at :: "int \<Rightarrow> master \<Rightarrow> cpp_error + Voter" where
  "producer_at i st = (if 0 \<le> i \<and> i < int (length (blockProducers st)) then Inr (blockProducers st ! nat i) else Inl OutOfRange)"

definition isBlockProducer :: "env \<Rightarrow> bool action" where
  "isBlockProducer E =
    andThen (gets (getCurrentBlockProducer E)) (\<lambda>i.
    if i < 0 then ok False
    else andThen (gets (producer_at i)) (\<lambda>r. andThen (lift r) (\<lambda>v. ok (v_publicKey v = node_id E))))"

section \<open>The election\<close>

lemma elect_eq:
  assumes "length producers < 21"
  shows "elect nid vs producers b =
    (take 21 (producers @ filter v_valid vs), b \<or> nid \<in> v_publicKey ` set (take (21 - length producers) (filter v_valid vs)))"
  using assms
proof (induction vs arbitrary: producers b)
  case (Cons v vs)
  show ?case
  proof (cases "v_valid v \<and> length producers = 20")
    case True
    then show ?thesis by (auto simp: TOTAL_MASTER_NODES_def)
  next
    case False
    then have "length (if v_valid v then producers @ [v] else producers) < 21" using Cons.prems by auto
    moreover have "21 - length producers = Suc (20 - length producers)" using Cons.prems by simp
    ultimately show ?thesis using False Cons.IH Cons.prems by (auto simp: TOTAL_MASTER_NODES_def Let_def)
  qed
qed simp

lemma elect_all: "elect nid vs [] False = (take 21 (filter v_valid vs), nid \<in> v_publicKey ` set (take 21 (filter v_valid vs)))"
  using elect_eq [of "[]" nid vs False] by simp

text \<open>Taking a prefix of a sorted list picks the smallest elements, counted with multiplicity.\<close>

lemma sorted_prefix:
  assumes "sorted (map key xs)"
  shows "mset (take n xs) \<subseteq># mset xs" and "x \<in># mset (take n xs) \<Longrightarrow> y \<in># mset xs - mset (take n xs) \<Longrightarrow> key x \<le> key y"
proof -
  have "mset xs = mset (take n xs) + mset (drop n xs)" by (simp flip: mset_append)
  then have d: "mset xs - mset (take n xs) = mset (drop n xs)" and s: "mset (take n xs) \<subseteq># mset xs" by simp_all
  show "mset (take n xs) \<subseteq># mset xs" by (rule s)
  have "sorted (map key (take n xs @ drop n xs))" using assms by simp
  then show "key x \<le> key y" if "x \<in># mset (take n xs)" "y \<in># mset xs - mset (take n xs)"
    using that unfolding d map_append sorted_append by auto
qed

lemma sorted_filter_map: "sorted (map key xs) \<Longrightarrow> sorted (map key (filter P xs))"
  by (rule sorted_filter)

text \<open>The outcome of a count: the valid votes with the lowest numbers, at most 21.\<close>

definition lowest_valid :: "Voter list \<Rightarrow> Voter list \<Rightarrow> bool" where
  "lowest_valid votes elected \<longleftrightarrow>
    (let valid = filter v_valid votes
     in length elected = min 21 (length valid) \<and> mset elected \<subseteq># mset valid \<and> sorted (map v_number elected) \<and>
        (\<forall>v \<in># mset elected. \<forall>w \<in># mset valid - mset elected. v_number v \<le> v_number w))"

lemma elect_lowest:
  assumes "mset vs = mset votes" and "sorted (map v_number vs)"
  shows "lowest_valid votes (take 21 (filter v_valid vs))"
proof -
  let ?f = "filter v_valid vs"
  have m: "mset (filter v_valid votes) = mset ?f" using assms(1) by simp
  then have l: "length (filter v_valid votes) = length ?f" by (rule mset_eq_length)
  have s: "sorted (map v_number ?f)" by (rule sorted_filter_map [OF assms(2)])
  then have "sorted (map v_number (take 21 ?f))" by (simp add: take_map [symmetric] sorted_wrt_take)
  then show ?thesis
    unfolding lowest_valid_def Let_def m l using sorted_prefix [OF s, where n = 21] by (auto simp: min.commute)
qed

lemma to_s64_id: "- (2 ^ 63) \<le> x \<Longrightarrow> x < 2 ^ 63 \<Longrightarrow> to_s64 x = x"
  by (simp add: to_s64_def)

lemma update_timestamp:
  assumes "nextVotingTimestampStr st = to_string t" and "0 \<le> t" and "t + 3600 < 2 ^ 63"
  shows "updateNextVotingTimestamp st = (Inr (), st\<lparr>nextVotingTimestampStr := to_string (t + 3600)\<rparr>, [])"
  using assms by (simp add: updateNextVotingTimestamp_def action_simps stoull_to_string to_s64_id)

lemma update_subscription_eq:
  "update_subscription b st = (Inr (), st\<lparr>subscribedTo21 := b\<rparr>,
     if b = subscribedTo21 st then [] else [if b then Subscribe ''master21'' else Unsubscribe ''master21''])"
  by (cases st) (simp add: update_subscription_def action_simps)

definition elected :: "env \<Rightarrow> Voter list \<Rightarrow> Voter list" where
  "elected E votes = (if 1 < length votes then take 21 (filter v_valid (sort_voters E votes)) else [])"

lemma count_votes_eq:
  "count_votes E st =
    (if 1 < length (randomNumbers st)
     then (let bp = elected E (randomNumbers st);
               m = std_set (nextVotingTimestampStr st) (map v_publicKey bp) (electedMasterNodes st)
           in (Inr (node_id E \<in> v_publicKey ` set bp), st\<lparr>blockProducers := bp, randomNumbers := [], electedMasterNodes := m\<rparr>, [SaveElected]))
     else (Inr False, st, []))"
  by (simp add: count_votes_def action_simps elect_all elected_def Let_def)

text \<open>The end of the voting interval.\<close>

definition after_count :: "env \<Rightarrow> int \<Rightarrow> master \<Rightarrow> master" where
  "after_count E t st =
    (let ts = to_string (to_s64 (to_s64 t + 3600)); bp = elected E (randomNumbers st); counted = 1 < length (randomNumbers st)
     in st\<lparr>inVotingPhase := False, nextVotingTimestampStr := ts, blockProducers := bp,
          subscribedTo21 := node_id E \<in> v_publicKey ` set bp, ignoreThisVotingRound := False,
          randomNumbers := if counted then [] else randomNumbers st,
          electedMasterNodes := if counted then std_set ts (map v_publicKey bp) (electedMasterNodes st) else electedMasterNodes st\<rparr>)"

lemma exit_voting:
  assumes "inVotingPhase st" and "\<not> inVotingTime E" and "stoull (nextVotingTimestampStr st) = Inr t"
  shows "\<exists>outs. enterAndExitVotingPhase E st = (Inr (), after_count E t st, outs)"
  using assms
  by (cases st) (simp add: enterAndExitVotingPhase_def updateNextVotingTimestamp_def action_simps count_votes_eq update_subscription_eq
      Let_def elected_def after_count_def)

section \<open>Reachable states\<close>

text \<open>Ticks of the main loop and second sections of \<^verbatim>\<open>registerVote\<close>, in any order and with any first section before
  them.\<close>

inductive voting_reachable :: "string \<Rightarrow> master \<Rightarrow> bool" for nid where
  start: "voting_reachable nid (initial_master\<lparr>nextVotingTimestampStr := s, ignoreThisVotingRound := b\<rparr>)"
| tick: "voting_reachable nid st \<Longrightarrow> node_id E = nid \<Longrightarrow> enterAndExitVotingPhase E st = (r, st', outs) \<Longrightarrow> voting_reachable nid st'"
| vote: "voting_reachable nid st \<Longrightarrow> vote_second E signature key st = (r, st', outs) \<Longrightarrow> voting_reachable nid st'"

definition voting_inv :: "string \<Rightarrow> master \<Rightarrow> bool" where
  "voting_inv nid st \<longleftrightarrow> length (blockProducers st) \<le> 21 \<and> list_all v_valid (blockProducers st) \<and> list_all v_valid (randomNumbers st) \<and>
     (subscribedTo21 st \<longleftrightarrow> nid \<in> v_publicKey ` set (blockProducers st))"

lemma voting_inv_cong:
  "blockProducers st' = blockProducers st \<Longrightarrow> randomNumbers st' = randomNumbers st \<Longrightarrow> subscribedTo21 st' = subscribedTo21 st \<Longrightarrow>
    voting_inv nid st' = voting_inv nid st"
  by (simp add: voting_inv_def)

lemma vote_second_inv: "vote_second E signature key st = (r, st', outs) \<Longrightarrow> voting_inv nid st \<Longrightarrow> voting_inv nid st'"
  by (auto simp: vote_second_def action_simps Let_def voting_inv_def split: sum.splits if_splits)

lemma elected_ok: "length (elected E votes) \<le> 21" "list_all v_valid (elected E votes)"
  by (auto simp: elected_def list_all_iff dest: in_set_takeD)

lemma tick_inv:
  assumes "enterAndExitVotingPhase E st = (r, st', outs)" and "voting_inv nid st" and "node_id E = nid"
  shows "voting_inv nid st'"
proof (cases "inVotingTime E")
  case True
  with assms show ?thesis
    by (auto simp: enterAndExitVotingPhase_def action_simps cast_ballot_def Let_def voting_inv_def split: if_splits)
next
  case False
  show ?thesis
  proof (cases "inVotingPhase st \<and> (\<exists>t. stoull (nextVotingTimestampStr st) = Inr t)")
    case True
    then obtain t where "stoull (nextVotingTimestampStr st) = Inr t" by blast
    from exit_voting [OF _ False this] True assms(1) have "st' = after_count E t st" by auto
    then show ?thesis using assms(2,3) elected_ok [of E "randomNumbers st"] by (simp add: voting_inv_def after_count_def Let_def)
  next
    case no: False
    have "voting_inv nid (st\<lparr>inVotingPhase := False\<rparr>)" using assms(2) by (simp add: voting_inv_def)
    then show ?thesis
      using no assms(1,2) False
      by (auto simp: enterAndExitVotingPhase_def action_simps updateNextVotingTimestamp_def split: sum.splits if_splits)
  qed
qed

lemma reachable_voting_inv: "voting_reachable nid st \<Longrightarrow> voting_inv nid st"
proof (induction rule: voting_reachable.induct)
  case (start s b)
  then show ?case by (simp add: voting_inv_def initial_master_def)
qed (simp_all add: tick_inv vote_second_inv)

lemma smod_nonneg: "0 \<le> t \<Longrightarrow> (t :: int) smod 3600 = t mod 3600"
  by (cases "t = 0") (simp_all add: signed_modulo_int_def)

text \<open>The position of a producer is a valid index.\<close>

lemma producer_index: "getBlockProducerFor t st = - 1 \<or> 0 \<le> getBlockProducerFor t st \<and> getBlockProducerFor t st < int (length (blockProducers st))"
  "getCurrentBlockProducer E st = - 1 \<or> 0 \<le> getCurrentBlockProducer E st \<and> getCurrentBlockProducer E st < int (length (blockProducers st))"
proof -
  have "0 \<le> x mod int n \<and> x mod int n < int n" if "\<not> n < 1 \<or> \<not> n < 2" for x n using that by auto
  then show "getBlockProducerFor t st = - 1 \<or> 0 \<le> getBlockProducerFor t st \<and> getBlockProducerFor t st < int (length (blockProducers st))"
    "getCurrentBlockProducer E st = - 1 \<or> 0 \<le> getCurrentBlockProducer E st \<and> getCurrentBlockProducer E st < int (length (blockProducers st))"
    by (auto simp: getBlockProducerFor_def getCurrentBlockProducer_def simp del: One_nat_def)
qed

lemma isBlockProducer_result:
  "isBlockProducer E st = (Inr (\<exists>i. getCurrentBlockProducer E st = int i \<and> i < length (blockProducers st) \<and>
     v_publicKey (blockProducers st ! i) = node_id E), st, [])"
proof (cases "getCurrentBlockProducer E st < 0")
  case True
  then show ?thesis by (simp add: isBlockProducer_def action_simps)
next
  case False
  then obtain i where "getCurrentBlockProducer E st = int i" "i < length (blockProducers st)"
    using producer_index(2) [of E st] by (metis nonneg_int_cases not_less of_nat_less_iff neg_less_0_iff_less zero_less_one)
  then show ?thesis by (simp add: isBlockProducer_def action_simps producer_at_def)
qed

lemma registerVote_cases:
  "ignoreThisVotingRound st \<or> vote_known (b64_decode E publicKey) st \<or>
     x509_verify E (b64_decode E publicKey) (nextVotingTimestampStr st) signature \<noteq> Inr True \<Longrightarrow>
   \<exists>r. registerVote E signature publicKey st = (r, st, [])"
  "\<not> ignoreThisVotingRound st \<Longrightarrow> \<not> vote_known (b64_decode E publicKey) st \<Longrightarrow>
     x509_verify E (b64_decode E publicKey) (nextVotingTimestampStr st) signature = Inr True \<Longrightarrow>
   registerVote E signature publicKey st = (Inr (), st\<lparr>randomNumbers := randomNumbers st @
     [\<lparr>v_signature = signature, v_publicKey = b64_decode E publicKey, v_number = vote_number signature, v_valid = True\<rparr>]\<rparr>, [])"
  by (auto simp: registerVote_def vote_first_def canParticipateInVoting_def vote_second_def action_simps Let_def split: sum.splits)

section \<open>Properties\<close>

text \<open>Claim (C7): at the end of the voting interval, whatever order the sort leaves equal numbers in, a node with at least
  two votes elects exactly the (at most 21) valid votes with the lowest numbers, in increasing order, forgets the votes
  and records the result under the next voting timestamp; with fewer votes there are no producers.  It is subscribed to
  the channel of the 21 exactly when it is among the elected, may vote again, and signs the timestamp one hour
  later.\<close>

theorem election_correct:
  assumes "sorts_by v_number (sort_voters E)" and "inVotingPhase st" and "\<not> inVotingTime E"
    and "nextVotingTimestampStr st = to_string t" and "0 \<le> t" and "t + 3600 < 2 ^ 63"
  shows "\<exists>st' outs. enterAndExitVotingPhase E st = (Inr (), st', outs) \<and> \<not> inVotingPhase st' \<and> \<not> ignoreThisVotingRound st' \<and>
    nextVotingTimestampStr st' = to_string (t + 3600) \<and>
    (if 1 < length (randomNumbers st)
     then lowest_valid (randomNumbers st) (blockProducers st') \<and> randomNumbers st' = [] \<and>
       map_of (electedMasterNodes st') (to_string (t + 3600)) = Some (map v_publicKey (blockProducers st'))
     else blockProducers st' = []) \<and>
    (subscribedTo21 st' \<longleftrightarrow> node_id E \<in> v_publicKey ` set (blockProducers st'))"
proof -
  have "stoull (nextVotingTimestampStr st) = Inr t" using assms(4-6) by (simp add: stoull_to_string)
  from exit_voting [OF assms(2,3) this] obtain outs where e: "enterAndExitVotingPhase E st = (Inr (), after_count E t st, outs)" by blast
  have "lowest_valid (randomNumbers st) (elected E (randomNumbers st))" if "1 < length (randomNumbers st)"
    using that assms(1) elect_lowest [of "sort_voters E (randomNumbers st)"] by (simp add: elected_def sorts_by_def)
  then show ?thesis unfolding e using assms(4-6) by (auto simp: after_count_def Let_def to_s64_id elected_def)
qed

theorem election_correct_witness:
  "let v = \<lambda>k n. \<lparr>v_signature = [], v_publicKey = k, v_number = n, v_valid = True\<rparr>;
       st = initial_master\<lparr>inVotingPhase := True, nextVotingTimestampStr := to_string 3300, randomNumbers := [v ''b'' 7, v ''a'' 2]\<rparr>
   in \<exists>st' outs. enterAndExitVotingPhase (plain_env ''a'' 3600) st = (Inr (), st', outs) \<and> subscribedTo21 st' = (''a'' \<in> v_publicKey ` set (blockProducers st')) \<and>
        lowest_valid (randomNumbers st) (blockProducers st') \<and> nextVotingTimestampStr st' = to_string 6900"
proof -
  let ?v = "\<lambda>k n. \<lparr>v_signature = [], v_publicKey = k, v_number = n, v_valid = True\<rparr>"
  let ?st = "initial_master\<lparr>inVotingPhase := True, nextVotingTimestampStr := to_string 3300, randomNumbers := [?v ''b'' 7, ?v ''a'' 2]\<rparr>"
  have "\<not> inVotingTime (plain_env ''a'' 3600)" by (simp add: inVotingTime_def openVotingStartMinute_def getSecondsPastHour_def smod_nonneg)
  with election_correct [of "plain_env ''a'' 3600" ?st 3300] show ?thesis
    by (simp add: sorts_by_sort_key Let_def) blast
qed

text \<open>Claim (C24): in every reachable state, with votes arriving at any moment, there are at most 21 producers, every
  elected vote was valid, \<^verbatim>\<open>isBlockProducer\<close> never throws, and a node that takes itself for the current producer is
  subscribed to the channel of the 21.\<close>

theorem producer_safety:
  assumes "voting_reachable nid st" and "node_id E = nid"
  shows "length (blockProducers st) \<le> 21 \<and> list_all v_valid (blockProducers st) \<and>
    (\<exists>b. isBlockProducer E st = (Inr b, st, []) \<and> (b \<longrightarrow> subscribedTo21 st \<and> 2 \<le> length (blockProducers st)))"
proof -
  have i: "voting_inv nid st" by (rule reachable_voting_inv [OF assms(1)])
  let ?b = "\<exists>i. getCurrentBlockProducer E st = int i \<and> i < length (blockProducers st) \<and> v_publicKey (blockProducers st ! i) = node_id E"
  have "isBlockProducer E st = (Inr ?b, st, [])" by (rule isBlockProducer_result)
  moreover have "subscribedTo21 st \<and> 2 \<le> length (blockProducers st)" if b: ?b
  proof
    from b obtain j where j: "getCurrentBlockProducer E st = int j" "j < length (blockProducers st)" "v_publicKey (blockProducers st ! j) = nid"
      using assms(2) by blast
    then have "nid \<in> v_publicKey ` set (blockProducers st)" using nth_mem by blast
    then show "subscribedTo21 st" using i by (simp add: voting_inv_def)
    show "2 \<le> length (blockProducers st)" using j(1) by (simp add: getCurrentBlockProducer_def split: if_splits)
  qed
  moreover have "length (blockProducers st) \<le> 21 \<and> list_all v_valid (blockProducers st)" using i by (simp add: voting_inv_def)
  ultimately show ?thesis by blast
qed

theorem producer_safety_witness:
  "\<exists>b. isBlockProducer (plain_env ''a'' 5) (initial_master\<lparr>nextVotingTimestampStr := ''3300'', ignoreThisVotingRound := True\<rparr>) =
     (Inr b, initial_master\<lparr>nextVotingTimestampStr := ''3300'', ignoreThisVotingRound := True\<rparr>, [])"
  using producer_safety [OF start, of "plain_env ''a'' 5" "''a''"] by auto

text \<open>A vote counts once.  Running one \<^verbatim>\<open>registerVote\<close> after the other, the list of votes holds every key
  at most once; a vote is added exactly when this node takes part, the decoded key has not voted and the signature of the
  voting timestamp verifies, and its number is the sum of the characters of the signature.\<close>

theorem vote_registered:
  assumes "distinct (map v_publicKey (randomNumbers st))" and "registerVote E signature publicKey st = (r, st', outs)"
  shows "distinct (map v_publicKey (randomNumbers st')) \<and>
    (let key = b64_decode E publicKey;
         accepted = (\<not> ignoreThisVotingRound st \<and> key \<notin> v_publicKey ` set (randomNumbers st) \<and>
           x509_verify E key (nextVotingTimestampStr st) signature = Inr True)
     in st' = st\<lparr>randomNumbers := randomNumbers st @
          (if accepted then [\<lparr>v_signature = signature, v_publicKey = key, v_number = vote_number signature, v_valid = True\<rparr>] else [])\<rparr>)"
proof -
  let ?key = "b64_decode E publicKey"
  have k: "vote_known ?key st \<longleftrightarrow> ?key \<in> v_publicKey ` set (randomNumbers st)"
    unfolding vote_known_def list_ex_iff by force
  show ?thesis
  proof (cases "ignoreThisVotingRound st \<or> vote_known ?key st \<or> x509_verify E ?key (nextVotingTimestampStr st) signature \<noteq> Inr True")
    case True
    then have "st' = st" using registerVote_cases(1) [of st E publicKey signature] assms(2) by auto
    with True k assms(1) show ?thesis by (auto simp: Let_def)
  next
    case False
    then have "st' = st\<lparr>randomNumbers := randomNumbers st @
        [\<lparr>v_signature = signature, v_publicKey = ?key, v_number = vote_number signature, v_valid = True\<rparr>]\<rparr>"
      using registerVote_cases(2) [of st E publicKey signature] assms(2) by simp
    with False k assms(1) show ?thesis by (simp add: Let_def)
  qed
qed

theorem vote_registered_witness:
  "let st = initial_master\<lparr>nextVotingTimestampStr := ''ab''\<rparr>
   in \<exists>r st' outs. registerVote (plain_env ''n'' 0) ''ab'' ''k'' st = (r, st', outs) \<and>
        st' = st\<lparr>randomNumbers := [\<lparr>v_signature = ''ab'', v_publicKey = ''k'', v_number = vote_number ''ab'', v_valid = True\<rparr>]\<rparr>"
proof -
  let ?st = "initial_master\<lparr>nextVotingTimestampStr := ''ab''\<rparr>"
  obtain r st' outs where v: "registerVote (plain_env ''n'' 0) ''ab'' ''k'' ?st = (r, st', outs)" by (metis prod_cases3)
  from vote_registered [OF _ this] v show ?thesis by (simp add: Let_def initial_master_def)
qed

section \<open>Boundary cases\<close>

text \<open>The timestamp to be signed is the start of the voting interval of the current hour, so that all nodes started in the
  same hour sign the same text.\<close>

lemma voting_timestamp:
  assumes "0 \<le> now E"
  shows "nextVotingTimestampStr (initializeNextVotingTimestamp E st) = to_string (now E div 3600 * 3600 + 3300)"
proof -
  have "now E + (3600 - now E mod 3600) - 300 = now E div 3600 * 3600 + 3300" by (simp add: minus_mod_eq_div_mult [symmetric])
  then show ?thesis
    using assms by (simp add: initializeNextVotingTimestamp_def openVotingStartMinute_def getSecondsPastHour_def smod_nonneg add.commute)
qed

lemma voting_time: "0 \<le> now E \<Longrightarrow> inVotingTime E \<longleftrightarrow> 3300 \<le> now E mod 3600"
proof -
  assume "0 \<le> now E"
  moreover have "x sdiv 60 = x div 60" if "0 \<le> x" for x :: int using that by (cases "x = 0") (simp_all add: signed_divide_int_def)
  ultimately show ?thesis by (auto simp: inVotingTime_def openVotingStartMinute_def getSecondsPastHour_def smod_nonneg)
qed

text \<open>A single vote is not counted, but it is not forgotten either: a node that is alone for two intervals finds two votes
  of its own and elects itself twice.\<close>

theorem alone_twice_elects_itself:
  assumes "sorts_by v_number (sort_voters E4)" and "randomNumbers st = []" and "\<not> inVotingPhase st" and "\<not> ignoreThisVotingRound st"
    and "inVotingTime E1" "\<not> inVotingTime E2" "inVotingTime E3" "\<not> inVotingTime E4"
    and "node_id E1 = nid" "node_id E3 = nid"
    and "nextVotingTimestampStr st = to_string t" "0 \<le> t" "t + 7200 < 2 ^ 63"
  defines "st4 \<equiv> state_after (enterAndExitVotingPhase E4) (state_after (enterAndExitVotingPhase E3)
      (state_after (enterAndExitVotingPhase E2) (state_after (enterAndExitVotingPhase E1) st)))"
  shows "map v_publicKey (blockProducers st4) = [nid, nid]"
proof -
  have enter: "state_after (enterAndExitVotingPhase E) s = s\<lparr>inVotingPhase := True, randomNumbers := randomNumbers s @
      [\<lparr>v_signature = x509_sign E (nextVotingTimestampStr s), v_publicKey = node_id E,
        v_number = vote_number (x509_sign E (nextVotingTimestampStr s)), v_valid = True\<rparr>]\<rparr>"
    if "inVotingTime E" "\<not> inVotingPhase s" "\<not> ignoreThisVotingRound s" for E s
    using that by (simp add: state_after_def enterAndExitVotingPhase_def cast_ballot_def canParticipateInVoting_def action_simps Let_def)
  have leave: "state_after (enterAndExitVotingPhase E) s = after_count E u s"
    if "\<not> inVotingTime E" "inVotingPhase s" "stoull (nextVotingTimestampStr s) = Inr u" for E s u
    using exit_voting [OF that(2,1,3)] by (auto simp: state_after_def)
  have u: "stoull (to_string t) = Inr t" "stoull (to_string (to_s64 (to_s64 t + 3600))) = Inr (t + 3600)" "to_s64 t = t"
    using assms(12,13) by (simp_all add: stoull_to_string to_s64_id)
  define st2 where "st2 = after_count E2 t (state_after (enterAndExitVotingPhase E1) st)"
  have s2: "length (randomNumbers st2) = 1" "map v_publicKey (randomNumbers st2) = [nid]" "list_all v_valid (randomNumbers st2)"
      "\<not> inVotingPhase st2" "\<not> ignoreThisVotingRound st2" "nextVotingTimestampStr st2 = to_string (to_s64 (to_s64 t + 3600))"
    using assms(2-5,9) by (simp_all add: st2_def enter after_count_def Let_def)
  have "st4 = after_count E4 (t + 3600) (state_after (enterAndExitVotingPhase E3) st2)"
    unfolding st4_def st2_def using assms(2-11) s2(4-6) u
    by (subst leave [where s = "state_after (enterAndExitVotingPhase E1) st" and u = t]) (simp_all add: enter leave [where u = "t + 3600"] st2_def)
  moreover define votes where "votes = randomNumbers (state_after (enterAndExitVotingPhase E3) st2)"
  moreover have votes: "map v_publicKey votes = [nid, nid]" "list_all v_valid votes"
    using s2 assms(7,10) by (auto simp: votes_def enter)
  ultimately have bp: "blockProducers st4 = take 21 (filter v_valid (sort_voters E4 votes))"
    by (auto simp: after_count_def Let_def elected_def dest: arg_cong [where f = length])
  have m: "mset (sort_voters E4 votes) = mset votes" using assms(1) by (simp add: sorts_by_def)
  then have "set (sort_voters E4 votes) = set votes" "length (sort_voters E4 votes) = length votes"
    by (metis set_mset_mset, metis size_mset)
  moreover have "length votes = 2" "v_publicKey ` set votes = {nid}"
    using votes(1) by (auto dest: arg_cong [where f = length] simp flip: set_map)
  ultimately have s: "length (sort_voters E4 votes) = 2" "v_publicKey ` set (sort_voters E4 votes) = {nid}"
      "filter v_valid (sort_voters E4 votes) = sort_voters E4 votes"
    using votes(2) by (auto simp: list_all_iff filter_id_conv)
  then show ?thesis unfolding bp by (auto simp: length_Suc_conv numeral_2_eq_2)
qed

text \<open>Two copies of a vote whose first sections both run before their second ones are both added when the signature has as
  many characters as there are votes at the second check.\<close>

theorem vote_race:
  assumes "vote_first E publicKey st = Some key" and "x509_verify E key (nextVotingTimestampStr st) signature = Inr True"
    and "length signature = length (randomNumbers st) + 1"
  shows "\<exists>v. v_publicKey v = key \<and>
    randomNumbers (state_after (vote_second E signature key) (state_after (vote_second E signature key) st)) = randomNumbers st @ [v, v]"
proof -
  have "\<not> vote_known key st" using assms(1) by (auto simp: vote_first_def Let_def split: if_splits)
  then show ?thesis using assms(2,3) by (simp add: vote_second_def state_after_def action_simps Let_def)
qed

end
