(* ===== verification/Master_Tx.thy ===== *)
theory Master_Tx
  imports Voting
begin

text \<open>
  Transactions on a master node (\<^verbatim>\<open>MasterNodeLib.cpp\<close>): a client's request (\<^verbatim>\<open>processCodePacket\<close>), the notification
  of another master node (\<^verbatim>\<open>processIncomingTransaction\<close>), verification results (\<^verbatim>\<open>verifyTransaction\<close>), and what
  follows from them (\<^verbatim>\<open>checkVerification\<close>: the answer to the client, the commit, the queue of the next block).  A
  transaction that the code changes through a reference is passed in and out.
\<close>

section \<open>Operations\<close>

definition sendToVerifier :: "env \<Rightarrow> Transaction \<Rightarrow> Transaction action" where
  "sendToVerifier E tx =
    andThen (gets known_nodes) (\<lambda>r.
    if getNumberOfVerifiers r < 1 then ok tx
    else
      andThen (generateRandomNumber E 0 (getNumberOfVerifiers r)) (\<lambda>n.
      andThen (lift (getVerifierNodeKey r n)) (\<lambda>verifierKey.
      let tx = (if m_computeNode tx then tx\<lparr>m_computeNodeId := verifierKey\<rparr> else tx)
      in andThen (getStateChangeStorageNode E) (\<lambda>s.
         if s = [] then ok tx
         else perform (emit (Gossip verifierKey codeDelivery
                [(''i'', m_input tx), (''co'', m_code tx), (''txid'', m_txId tx), (''s'', s), (''tid'', m_tenantId tx),
                 (''com'', if m_computeNode tx then ''0'' else ''1'')])) (ok tx)))))"

definition client_answer :: "Transaction \<Rightarrow> string \<Rightarrow> json" where
  "client_answer tx storage = JObject
    ([(''txid'', JString (m_txId tx))] @ (if storage = [] then [(''w'', JString ''Warning: No storage nodes available to commit the state change update for this transaction. This could be because the storage nodes have disconnected from the network.'')] else []) @
     [(''data'', JString (m_output tx))])"

definition checkVerification :: "env \<Rightarrow> Transaction \<Rightarrow> Transaction action" where
  "checkVerification E tx =
    (if isVerified tx then
       andThen
         (if canSend tx then
            andThen (getStateChangeStorageNode E) (\<lambda>s.
            perform (emit (WsSend (m_publicKey tx) (client_answer tx s)))
            (let tx = tx\<lparr>m_sentToClient := True\<rparr>
             in if s \<noteq> [] then
                  perform (emit (Gossip (m_computeNodeId tx) canCommit [(''txid'', m_txId tx), (''sid'', s), (''tid'', [])])) (ok tx)
                else ok tx))
          else ok tx)
         (\<lambda>tx. if \<not> m_inBlock tx then
                 perform (modify (\<lambda>st. st\<lparr>queueOut := queueOut st @ [tx]\<rparr>)) (ok (tx\<lparr>m_inBlock := True\<rparr>))
               else ok tx)
     else ok tx)"

definition store :: "string \<Rightarrow> Transaction \<Rightarrow> unit action" where
  "store txId tx = modify (\<lambda>st. st\<lparr>transactions := std_set txId tx (transactions st)\<rparr>)"

definition verifyTransaction :: "env \<Rightarrow> string \<Rightarrow> string \<Rightarrow> string \<Rightarrow> unit action" where
  "verifyTransaction E txId hash output =
    perform (modify (\<lambda>st. st\<lparr>transactions := std_insert txId (tx_of_hash txId hash (now E)) (transactions st)\<rparr>))
    (andThen (gets (\<lambda>st. std_at (transactions st) txId)) (\<lambda>r.
     andThen (lift r) (\<lambda>tx.
     let tx = (if output \<noteq> [] then setOutput output tx else tx);
         tx = fst (verifyHash hash tx)
     in andThen (checkVerification E tx) (store txId))))"

text \<open>\<^verbatim>\<open>operator[]\<close> of a JSON document that is not constant makes a missing entry null.\<close>

definition json_field :: "json \<Rightarrow> string \<Rightarrow> cpp_error + string" where
  "json_field j k =
    (case j of
       JObject m \<Rightarrow> (case map_of m k of None \<Rightarrow> Inl JsonError | Some v \<Rightarrow> get_string v)
     | _ \<Rightarrow> Inl JsonError)"

text \<open>Updating the known transaction or creating a new one; a member that cannot be read ends the operation.\<close>

definition read_json :: "string \<Rightarrow> json \<Rightarrow> unit action" where
  "read_json txId j =
    andThen (gets (\<lambda>st. map_of (transactions st) txId)) (\<lambda>known.
    case known of
      Some tx \<Rightarrow> (case fromJson j tx of (tx, e) \<Rightarrow>
        perform (store txId tx) (lift (case e of None \<Rightarrow> Inr () | Some e \<Rightarrow> Inl e)))
    | None \<Rightarrow> (case fromJson j tx_default of (tx, e) \<Rightarrow>
        perform (lift (case e of None \<Rightarrow> Inr () | Some e \<Rightarrow> Inl e)) (store txId tx)))"

definition processIncomingTransaction :: "env \<Rightarrow> string \<Rightarrow> string \<Rightarrow> unit action" where
  "processIncomingTransaction E utxid data =
    andThen (lift (parse E data)) (\<lambda>j.
    andThen (lift (json_field j ''txid'')) (\<lambda>txId.
    perform (read_json txId j)
    (andThen (gets (\<lambda>st. std_at (transactions st) txId)) (\<lambda>r.
     andThen (lift r) (\<lambda>tx.
     andThen (sendToVerifier E tx) (\<lambda>tx.
     andThen (checkVerification E tx) (\<lambda>tx.
     perform (store txId tx) (andThen (lift (json_field j ''k'')) (\<lambda>_. ok ())))))))))"

definition code_message :: "string \<Rightarrow> string \<Rightarrow> string \<Rightarrow> string \<Rightarrow> string \<Rightarrow> string" where
  "code_message utxid publicKey tenantId code inputs =
    ''c:'' @ to_string (cmd_code exeFunction) @ ''|txid:'' @ utxid @ ''|k:'' @ publicKey @ ''|tid:'' @ tenantId
      @ ''|h:'' @ code @ ''|i:'' @ inputs"

definition wrong_node_answer :: "string \<Rightarrow> json" where
  "wrong_node_answer htxid = JObject
    [(''error'', JString ''Sorry,You are hitting a Master Node that is not in m21; please hit the right one''), (''txid'', JString htxid)]"

definition processCodePacket :: "env \<Rightarrow> string \<Rightarrow> string \<Rightarrow> string \<Rightarrow> string \<Rightarrow> string \<Rightarrow> string \<Rightarrow> string \<Rightarrow> bool action" where
  "processCodePacket E utxid htxid tenantId code inputs signature publicKey =
    andThen (lift (verifyEd25519Signature (b64_decode E) (stk E) (code_message utxid publicKey tenantId code inputs) publicKey signature)) (\<lambda>valid.
    if \<not> valid then ok False
    else andThen (gets subscribedTo21) (\<lambda>member.
    if \<not> member then perform (emit (WsSend publicKey (wrong_node_answer htxid))) (ok False)
    else
      (let txId = guid E;
           transaction = (tx_of_id txId (now E))\<lparr>m_masterNodeId := node_id E, m_tenantId := tenantId, m_code := code,
             m_signature := signature, m_publicKey := publicKey, m_input := inputs\<rparr>
       in perform (modify (\<lambda>st. st\<lparr>transactions := std_insert txId transaction (transactions st)\<rparr>))
          (andThen (gets (\<lambda>st. std_at (transactions st) txId)) (\<lambda>r.
           andThen (lift r) (\<lambda>tx.
           perform (emit (Gossip ''master21'' txNotification [(''utxid'', htxid), (''tx'', dump E (toJson tx))]))
           (andThen (sendToVerifier E tx) (\<lambda>tx. perform (store txId tx) (ok True)))))))))"

definition cleanupTransactionsMap :: "env \<Rightarrow> unit action" where
  "cleanupTransactionsMap E =
    modify (\<lambda>st. st\<lparr>transactions := filter (\<lambda>(k, tx). \<not> m_timestamp tx < now E - 60) (transactions st)\<rparr>)"

section \<open>Verification\<close>

text \<open>What \<^verbatim>\<open>checkVerification\<close> does with a transaction: the flags it sets, and the outputs and the queue entry that go
  with them.\<close>

definition marked :: "Transaction \<Rightarrow> Transaction" where
  "marked tx = (if isVerified tx then tx\<lparr>m_sentToClient := m_sentToClient tx \<or> m_computeNode tx, m_inBlock := True\<rparr> else tx)"

definition no_ws :: "out list \<Rightarrow> bool" where
  "no_ws outs \<longleftrightarrow> list_all (\<lambda>x. \<nexists>k j. x = WsSend k j) outs"

lemma storage_node_cases:
  assumes "getStateChangeStorageNode E st = (r, st', outs)"
  shows "no_ws outs \<and> (r = Inl Undefined \<and> st' = st \<or> (\<exists>s. r = Inr s \<and> st' = st\<lparr>stateChangeStorageNode := s\<rparr>))"
proof -
  have "st\<lparr>stateChangeStorageNode := stateChangeStorageNode st\<rparr> = st" by simp
  then have keep: "\<exists>s. stateChangeStorageNode st = s \<and> st = st\<lparr>stateChangeStorageNode := s\<rparr>" by metis
  consider "getStorageNodeKey (known_nodes st) 1 = Inl Undefined" | k where "getStorageNodeKey (known_nodes st) 1 = Inr k"
    by (cases "getStorageNodeKey (known_nodes st) 1") (auto simp: getStorageNodeKey_def split: if_splits)
  then show ?thesis
    using assms keep by cases (auto simp: getStateChangeStorageNode_def action_simps no_ws_def split: if_splits; metis)+
qed

lemma storage_node_total:
  assumes "registry_ok (known_nodes st)"
  shows "\<exists>s st' outs. getStateChangeStorageNode E st = (Inr s, st', outs)"
proof -
  have "\<exists>k. getStorageNodeKey (known_nodes st) 1 = Inr k" if "2 \<le> getNumberOfStorageNodes (known_nodes st)"
    using that assms kind_ok_nth(1) [of storageNode "storageNodes (known_nodes st)" "storageKeys (known_nodes st)" 1]
    by (simp add: registry_ok_def getStorageNodeKey_def getNumberOfStorageNodes_def)
  then show ?thesis by (auto simp: getStateChangeStorageNode_def action_simps split: sum.splits)
qed

definition queued :: "Transaction \<Rightarrow> Transaction list" where
  "queued tx = (if isVerified tx \<and> \<not> m_inBlock tx then [(marked tx)\<lparr>m_inBlock := False\<rparr>] else [])"

definition ws_sent :: "out list \<Rightarrow> out list" where
  "ws_sent outs = filter (\<lambda>x. \<exists>k j. x = WsSend k j) outs"

lemma no_ws_sent: "no_ws outs \<Longrightarrow> ws_sent outs = []" "ws_sent (xs @ ys) = ws_sent xs @ ws_sent ys" "ws_sent [] = []"
  "ws_sent (WsSend k j # xs) = WsSend k j # ws_sent xs" "ws_sent (Gossip c m fs # xs) = ws_sent xs"
  by (auto simp: ws_sent_def no_ws_def list_all_iff filter_empty_conv)

text \<open>Either no storage key can be read, and then nothing has happened, or the transaction is marked, answered if it may
  be, and queued if it is not in a block yet.\<close>

lemma checkVerification_cases:
  assumes "checkVerification E tx st = (r, st', outs)"
  obtains (failed) "r = Inl Undefined" and "st' = st" and "ws_sent outs = []"
    | (checked) s where "r = Inr (marked tx)" and "st' = st\<lparr>stateChangeStorageNode := s, queueOut := queueOut st @ queued tx\<rparr>"
        and "ws_sent outs = (if isVerified tx \<and> canSend tx then [WsSend (m_publicKey tx) (client_answer tx s)] else [])"
proof (cases "isVerified tx \<and> canSend tx")
  case True
  obtain r1 st1 outs1 where g: "getStateChangeStorageNode E st = (r1, st1, outs1)" by (metis prod_cases3)
  from storage_node_cases [OF g] have n: "ws_sent outs1 = []" by (simp add: no_ws_sent)
  from storage_node_cases [OF g] consider (bad) "r1 = Inl Undefined" "st1 = st"
    | (good) s where "r1 = Inr s" "st1 = st\<lparr>stateChangeStorageNode := s\<rparr>" by blast
  then show ?thesis
  proof cases
    case bad
    then show ?thesis using True assms n by (intro failed) (auto simp: checkVerification_def action_simps g)
  next
    case (good s)
    define tx1 where "tx1 = tx\<lparr>m_sentToClient := True\<rparr>"
    have m: "m_inBlock tx \<Longrightarrow> marked tx = tx1" "\<not> m_inBlock tx \<Longrightarrow> marked tx = tx1\<lparr>m_inBlock := True\<rparr>" "m_inBlock tx1 = m_inBlock tx"
        "\<not> m_inBlock tx \<Longrightarrow> (marked tx)\<lparr>m_inBlock := False\<rparr> = tx1" "m_txId tx1 = m_txId tx" "m_computeNodeId tx1 = m_computeNodeId tx"
      using True by (cases tx; simp add: marked_def canSend_def tx1_def)+
    let ?c = "if s \<noteq> [] then [Gossip (m_computeNodeId tx) canCommit [(''txid'', m_txId tx), (''sid'', s), (''tid'', [])]] else []"
    have "checkVerification E tx st = (Inr (marked tx), st\<lparr>stateChangeStorageNode := s, queueOut := queueOut st @ queued tx\<rparr>,
        outs1 @ WsSend (m_publicKey tx) (client_answer tx s) # ?c)"
      using True m by (cases "m_inBlock tx") (simp_all add: checkVerification_def action_simps g good queued_def flip: tx1_def)
    with assms True n show ?thesis by (intro checked [of s]) (auto simp: no_ws_sent)
  qed
next
  case False
  have e: "st = st\<lparr>stateChangeStorageNode := stateChangeStorageNode st, queueOut := queueOut st\<rparr>" by (cases st) simp
  have v: "m_inBlock tx \<Longrightarrow> marked tx = tx" "\<not> m_inBlock tx \<Longrightarrow> marked tx = tx\<lparr>m_inBlock := True\<rparr>" "\<not> m_inBlock tx \<Longrightarrow> (marked tx)\<lparr>m_inBlock := False\<rparr> = tx"
    if "isVerified tx" using that False by (cases tx; simp add: marked_def canSend_def; blast)+
  have "checkVerification E tx st = (Inr (marked tx), st\<lparr>stateChangeStorageNode := stateChangeStorageNode st, queueOut := queueOut st @ queued tx\<rparr>, [])"
    using False v e by (cases "isVerified tx"; cases "m_inBlock tx") (simp_all add: checkVerification_def action_simps queued_def marked_def)
  with assms False show ?thesis by (intro checked [of "stateChangeStorageNode st"]) (auto simp: no_ws_sent)
qed

section \<open>Effects on the transactions\<close>

definition flags :: "Transaction \<Rightarrow> bool \<times> bool" where
  "flags tx = (m_inBlock tx, m_sentToClient tx)"

lemma sendToVerifier_cases:
  assumes "sendToVerifier E tx st = (r, st', outs)"
  shows "no_ws outs \<and> transactions st' = transactions st \<and> queueOut st' = queueOut st \<and>
    (\<forall>tx'. r = Inr tx' \<longrightarrow> flags tx' = flags tx \<and> m_txId tx' = m_txId tx)"
proof -
  obtain r1 st1 outs1 where g: "getStateChangeStorageNode E st = (r1, st1, outs1)" by (metis prod_cases3)
  have f: "flags (tx\<lparr>m_computeNodeId := k\<rparr>) = flags tx" for k by (simp add: flags_def)
  note storage_node_cases [OF g]
  then show ?thesis
    using assms by (auto simp: sendToVerifier_def generateRandomNumber_def action_simps g f no_ws_def Let_def split: sum.splits if_splits)
qed

text \<open>The events that change transactions, and what one of them does: either it is quiet, or it ends with the check of
  one transaction.\<close>

datatype tx_event =
    CodePacket string string string string string string string
  | Notified string string
  | Result string string string

fun tx_action :: "env \<Rightarrow> tx_event \<Rightarrow> unit action" where
  "tx_action E (CodePacket utxid htxid tenantId code inputs signature publicKey) =
    andThen (processCodePacket E utxid htxid tenantId code inputs signature publicKey) (\<lambda>_. ok ())"
| "tx_action E (Notified utxid data) = processIncomingTransaction E utxid data"
| "tx_action E (Result txId hash output) = verifyTransaction E txId hash output"

definition answer_id :: "out \<Rightarrow> string option" where
  "answer_id x = (case x of
      WsSend k j \<Rightarrow> (case j of JObject ((f, JString i) # _) \<Rightarrow> if f = ''txid'' then Some i else None | _ \<Rightarrow> None)
    | _ \<Rightarrow> None)"

definition client_answers :: "out list \<Rightarrow> string list" where
  "client_answers outs = List.map_filter answer_id outs"

lemma client_answers_simps [simp]:
  "client_answers [] = []" "client_answers (WsSend k (client_answer tx s) # outs) = m_txId tx # client_answers outs"
  "client_answers (WsSend k (wrong_node_answer i) # outs) = client_answers outs"
  "client_answers (Gossip c m fs # outs) = client_answers outs"
  by (simp_all add: client_answers_def map_filter_simps client_answer_def wrong_node_answer_def answer_id_def)

lemma client_answers_append [simp]: "client_answers (xs @ ys) = client_answers xs @ client_answers ys"
  by (simp add: client_answers_def List.map_filter_def)

lemma client_answers_ws: "client_answers outs = client_answers (ws_sent outs)"
proof (induction outs)
  case (Cons x outs)
  have "answer_id x = None" if "\<nexists>k j. x = WsSend k j" using that by (cases x) (simp_all add: answer_id_def)
  with Cons show ?case by (auto simp: client_answers_def ws_sent_def map_filter_simps split: option.split)
qed (simp add: ws_sent_def)

lemma no_ws_answers: "no_ws outs \<Longrightarrow> client_answers outs = []" "ws_sent outs = [] \<Longrightarrow> client_answers outs = []"
  by (metis client_answers_ws no_ws_sent(1) client_answers_simps(1))+

definition ids_ok :: "master \<Rightarrow> bool" where
  "ids_ok st \<longleftrightarrow> (\<forall>k tx. map_of (transactions st) k = Some tx \<longrightarrow> m_txId tx = k)"

definition old_flags :: "master \<Rightarrow> string \<Rightarrow> bool \<times> bool" where
  "old_flags st k = (case map_of (transactions st) k of None \<Rightarrow> (False, False) | Some tx \<Rightarrow> flags tx)"

text \<open>\<open>quiet\<close>: no transaction is queued or answered, and no flag or id changes.\<close>

definition quiet :: "master \<Rightarrow> master \<Rightarrow> out list \<Rightarrow> bool" where
  "quiet st st' outs \<longleftrightarrow> queueOut st' = queueOut st \<and> client_answers outs = [] \<and> (\<forall>k. old_flags st' k = old_flags st k) \<and>
     (ids_ok st \<longrightarrow> ids_ok st')"

definition checked :: "string \<Rightarrow> Transaction \<Rightarrow> master \<Rightarrow> master \<Rightarrow> out list \<Rightarrow> bool" where
  "checked k tx st st' outs \<longleftrightarrow> flags tx = old_flags st k \<and> (ids_ok st \<longrightarrow> m_txId tx = k \<and> ids_ok st') \<and>
     queueOut st' = queueOut st @ queued tx \<and> client_answers outs = (if isVerified tx \<and> canSend tx then [m_txId tx] else []) \<and>
     (\<forall>k'. old_flags st' k' = (if k' = k then flags (marked tx) else old_flags st k'))"

lemma old_flags_set: "old_flags (st\<lparr>transactions := std_set k tx (transactions st)\<rparr>) k' = (if k' = k then flags tx else old_flags st k')"
  by (simp add: old_flags_def)

lemma old_flags_cong: "transactions st' = transactions st \<Longrightarrow> old_flags st' = old_flags st" "transactions st' = transactions st \<Longrightarrow> ids_ok st' = ids_ok st"
  by (simp_all add: old_flags_def fun_eq_iff ids_ok_def)

lemma ids_ok_set: "ids_ok st \<Longrightarrow> m_txId tx = k \<Longrightarrow> ids_ok (st\<lparr>transactions := std_set k tx (transactions st)\<rparr>)"
  by (simp add: ids_ok_def)

lemma quiet_refl: "quiet st st []"
  by (simp add: quiet_def)

lemma quiet_trans:
  "quiet st st1 outs1 \<Longrightarrow> quiet st1 st2 outs2 \<Longrightarrow> quiet st st2 (outs1 @ outs2)"
  "quiet st st1 outs1 \<Longrightarrow> checked k tx st1 st2 outs2 \<Longrightarrow> checked k tx st st2 (outs1 @ outs2)"
  by (auto simp: quiet_def checked_def)

lemma quiet_same:
  "transactions st' = transactions st \<Longrightarrow> queueOut st' = queueOut st \<Longrightarrow> client_answers outs = [] \<Longrightarrow> quiet st st' outs"
  using old_flags_cong [of st' st] by (simp add: quiet_def)

lemma quiet_store:
  assumes "flags tx = old_flags st k" and "ids_ok st \<Longrightarrow> m_txId tx = k"
  shows "quiet st (st\<lparr>transactions := std_set k tx (transactions st)\<rparr>) []"
  using assms by (auto simp: quiet_def old_flags_set ids_ok_set)

lemma quiet_insert:
  assumes "flags tx = (False, False)" and "m_txId tx = k"
  shows "quiet st (st\<lparr>transactions := std_insert k tx (transactions st)\<rparr>) []"
  using assms by (auto simp: quiet_def old_flags_def ids_ok_def split: option.splits)

lemma flags_of_stored: "map_of (transactions st) k = Some tx \<Longrightarrow> flags tx = old_flags st k"
  "map_of (transactions st) k = Some tx \<Longrightarrow> ids_ok st \<Longrightarrow> m_txId tx = k"
  by (simp_all add: old_flags_def ids_ok_def)

text \<open>The end of both operations that check a transaction.\<close>

lemma check_and_store:
  assumes tail: "\<And>st. \<exists>r. tail st = (r, st, [])"
    and run: "andThen (checkVerification E tx) (\<lambda>tx. perform (store k tx) tail) st = (r, st', outs)"
    and tx: "flags tx = old_flags st k" "ids_ok st \<Longrightarrow> m_txId tx = k"
  shows "quiet st st' outs \<or> checked k tx st st' outs"
proof -
  obtain r1 st1 outs1 where c: "checkVerification E tx st = (r1, st1, outs1)" by (metis prod_cases3)
  then show ?thesis
  proof (cases rule: checkVerification_cases)
    case failed
    then have "quiet st st1 outs1" by (intro quiet_same) (simp_all add: no_ws_answers)
    then show ?thesis using run failed by (auto simp: action_simps c)
  next
    case (checked s)
    let ?st' = "st1\<lparr>transactions := std_set k (marked tx) (transactions st1)\<rparr>"
    have e: "st' = ?st'" "outs = outs1"
      using run tail [of ?st'] checked(1) by (auto simp: action_simps c store_def)
    have m: "m_txId (marked tx) = m_txId tx" by (simp add: marked_def)
    have a: "client_answers outs1 = (if isVerified tx \<and> canSend tx then [m_txId tx] else [])"
      using checked(3) client_answers_ws [of outs1] by simp
    have s1: "transactions st1 = transactions st" "queueOut st1 = queueOut st @ queued tx" using checked(2) by simp_all
    then have o: "old_flags st1 = old_flags st" "ids_ok st1 = ids_ok st" using old_flags_cong [of st1 st] by blast+
    have "old_flags ?st' k' = (if k' = k then flags (marked tx) else old_flags st k')" for k'
      unfolding o(1) [symmetric] by (rule old_flags_set)
    then have "checked k tx st ?st' outs1"
      unfolding checked_def using tx a s1 o m ids_ok_set [of st1 "marked tx" k] by simp
    then show ?thesis using e by simp
  qed
qed

lemma verifyHash_flags: "flags (fst (verifyHash h tx)) = flags tx" "m_txId (fst (verifyHash h tx)) = m_txId tx"
  "flags (setOutput out tx) = flags tx" "m_txId (setOutput out tx) = m_txId tx"
  by (simp_all add: verifyHash_def incrementTotalVerified_def setOutput_def flags_def)

lemma store_perform: "store k = (\<lambda>tx. perform (store k tx) (ok ()))"
  by (auto simp: fun_eq_iff store_def action_simps)

lemma verifyTransaction_effect:
  assumes "verifyTransaction E txId hash output st = (r, st', outs)"
  shows "quiet st st' outs \<or> (\<exists>tx. checked txId tx st st' outs)"
proof -
  let ?st1 = "st\<lparr>transactions := std_insert txId (tx_of_hash txId hash (now E)) (transactions st)\<rparr>"
  have q: "quiet st ?st1 []" by (rule quiet_insert) (simp_all add: flags_def tx_of_hash_def tx_default_def)
  obtain tx where tx: "map_of (transactions ?st1) txId = Some tx" by (cases "map_of (transactions st) txId") auto
  let ?tx = "fst (verifyHash hash (if output \<noteq> [] then setOutput output tx else tx))"
  have "andThen (checkVerification E ?tx) (store txId) ?st1 = (r, st', outs)"
    using assms tx unfolding verifyTransaction_def by (simp add: action_simps std_at_def Let_def del: map_of_std_insert)
  then have "andThen (checkVerification E ?tx) (\<lambda>tx. perform (store txId tx) (ok ())) ?st1 = (r, st', outs)"
    by (subst (asm) store_perform)
  then have "quiet ?st1 st' outs \<or> checked txId ?tx ?st1 st' outs"
    by (rule check_and_store [rotated]) (use flags_of_stored [OF tx] in \<open>simp_all add: verifyHash_flags action_simps\<close>)
  then show ?thesis using quiet_trans [OF q] by fastforce
qed

lemma fromJson_flags: "flags (fst (fromJson j tx)) = flags tx"
  using fromJson_bookkeeping [of j tx] by (simp add: bookkeeping_def flags_def)

lemma assign_all_last: "(\<And>f tx tx'. f \<in> set fs \<Longrightarrow> f tx = Inr tx' \<Longrightarrow> m_txId tx' = m_txId tx) \<Longrightarrow> m_txId (fst (assign_all fs tx)) = m_txId tx"
  by (rule assign_all_keeps [where Q = m_txId])

text \<open>The id is the first member that is read, so it is the key of the entry even when a later member is missing.\<close>

lemma fromJson_id:
  assumes "json_field j ''txid'' = Inr k"
  shows "m_txId (fst (fromJson j tx)) = k"
proof -
  have a: "assign get_string j ''txid'' (\<lambda>x tx. tx\<lparr>m_txId := x\<rparr>) tx = Inr (tx\<lparr>m_txId := k\<rparr>)"
    using assms by (auto simp: json_field_def assign_def json_at_def split: json.splits option.splits)
  show ?thesis
    unfolding fromJson_def assign_all.simps(2) [of "assign get_string j ''txid'' _"] a sum.case
    by (subst assign_all_last) (auto dest: assign_keeps [where Q = m_txId, rotated])
qed

lemma read_json_effect:
  assumes "json_field j ''txid'' = Inr k"
    and "read_json k j st = (r, st', outs)"
  shows "quiet st st' outs \<and> (r = Inr () \<longrightarrow> map_of (transactions st') k \<noteq> None)"
proof (cases "map_of (transactions st) k")
  case None
  have f: "flags tx_default = (False, False)" by (simp add: flags_def tx_default_def)
  have "quiet st (st\<lparr>transactions := std_set k (fst (fromJson j tx_default)) (transactions st)\<rparr>) []"
    using None fromJson_id [OF assms(1)] by (intro quiet_store) (simp_all add: fromJson_flags f old_flags_def)
  then show ?thesis using assms(2) None quiet_refl [of st]
    by (auto simp: read_json_def action_simps store_def split: option.splits prod.splits)
next
  case (Some tx)
  have "quiet st (st\<lparr>transactions := std_set k (fst (fromJson j tx)) (transactions st)\<rparr>) []"
    using Some fromJson_id [OF assms(1)] by (intro quiet_store) (simp_all add: fromJson_flags old_flags_def)
  then show ?thesis using assms(2) Some
    by (auto simp: read_json_def action_simps store_def split: option.splits prod.splits)
qed

lemma andThen_cases:
  assumes "andThen m f st = (r, st', outs)"
  obtains (stop) e where "m st = (Inl e, st', outs)" and "r = Inl e"
    | (go) x st1 outs1 outs2 where "m st = (Inr x, st1, outs1)" and "f x st1 = (r, st', outs2)" and "outs = outs1 @ outs2"
  using assms by (auto simp: action_simps split: prod.splits sum.splits)

lemma processIncomingTransaction_effect:
  assumes "processIncomingTransaction E utxid data st = (r, st', outs)"
  shows "quiet st st' outs \<or> (\<exists>k tx. checked k tx st st' outs)"
proof (cases "parse E data")
  case (Inl e)
  then show ?thesis using assms by (auto simp: processIncomingTransaction_def action_simps quiet_refl)
next
  case j: (Inr j)
  show ?thesis
  proof (cases "json_field j ''txid''")
    case (Inl e)
    then show ?thesis using assms j by (auto simp: processIncomingTransaction_def action_simps quiet_refl)
  next
    case k: (Inr k)
    let ?rest = "andThen (gets (\<lambda>st. std_at (transactions st) k)) (\<lambda>r. andThen (lift r) (\<lambda>tx. andThen (sendToVerifier E tx) (\<lambda>tx.
       andThen (checkVerification E tx) (\<lambda>tx. perform (store k tx) (andThen (lift (json_field j ''k'')) (\<lambda>_. ok ()))))))"
    have "andThen (read_json k j) (\<lambda>_. ?rest) st = (r, st', outs)"
      using assms j k by (simp add: processIncomingTransaction_def action_simps)
    then show ?thesis
    proof (cases rule: andThen_cases)
      case (stop e)
      then show ?thesis using read_json_effect [OF k] by blast
    next
      case (go u st1 outs1 outs2)
      have q1: "quiet st st1 outs1" and "map_of (transactions st1) k \<noteq> None" using read_json_effect [OF k go(1)] by auto
      then obtain tx where tx: "map_of (transactions st1) k = Some tx" by blast
      from go(2) tx have "andThen (sendToVerifier E tx) (\<lambda>tx. andThen (checkVerification E tx) (\<lambda>tx. perform (store k tx)
          (andThen (lift (json_field j ''k'')) (\<lambda>_. ok ())))) st1 = (r, st', outs2)"
        by (simp add: action_simps std_at_def)
      then have "quiet st1 st' outs2 \<or> (\<exists>tx. checked k tx st1 st' outs2)"
      proof (cases rule: andThen_cases)
        case (stop e)
        then show ?thesis using sendToVerifier_cases [OF stop(1)] by (simp add: quiet_same no_ws_answers)
      next
        case (go tx2 st2 outs3 outs4)
        have s: "quiet st1 st2 outs3" "flags tx2 = flags tx" "m_txId tx2 = m_txId tx"
          using sendToVerifier_cases [OF go(1)] by (simp_all add: quiet_same no_ws_answers)
        then have "flags tx2 = old_flags st2 k" using flags_of_stored(1) [OF tx] by (simp add: quiet_def)
        moreover have "m_txId tx2 = k" if "ids_ok st2"
          using sendToVerifier_cases [OF go(1)] that s(3) flags_of_stored(2) [OF tx] old_flags_cong(2) [of st2 st1] by simp
        ultimately have "quiet st2 st' outs4 \<or> checked k tx2 st2 st' outs4"
          by (intro check_and_store [OF _ go(2)]) (auto simp: action_simps split: sum.split)
        then show ?thesis using quiet_trans [OF s(1)] go(3) by blast
      qed
      then show ?thesis using quiet_trans [OF q1] go(3) by blast
    qed
  qed
qed

lemma processCodePacket_effect:
  assumes "processCodePacket E utxid htxid tenantId code inputs signature publicKey st = (r, st', outs)"
  shows "quiet st st' outs"
proof -
  define tx0 where "tx0 = (tx_of_id (guid E) (now E))\<lparr>m_masterNodeId := node_id E, m_tenantId := tenantId, m_code := code,
     m_signature := signature, m_publicKey := publicKey, m_input := inputs\<rparr>"
  let ?st1 = "st\<lparr>transactions := std_insert (guid E) tx0 (transactions st)\<rparr>"
  have q1: "quiet st ?st1 []" by (rule quiet_insert) (simp_all add: flags_def tx0_def tx_of_id_def tx_default_def)
  obtain tx where tx: "map_of (transactions ?st1) (guid E) = Some tx" by (cases "map_of (transactions st) (guid E)") auto
  let ?v = "verifyEd25519Signature (b64_decode E) (stk E) (code_message utxid publicKey tenantId code inputs) publicKey signature"
  consider (off) "?v \<noteq> Inr True" | (other) "?v = Inr True" "\<not> subscribedTo21 st" | (on) "?v = Inr True" "subscribedTo21 st" by blast
  then show ?thesis
  proof cases
    case off
    then show ?thesis using assms quiet_refl
      by (cases ?v) (auto simp: processCodePacket_def action_simps)
  next
    case other
    then show ?thesis using assms by (auto simp: processCodePacket_def action_simps intro: quiet_same)
  next
    case on
    let ?g = "Gossip ''master21'' txNotification [(''utxid'', htxid), (''tx'', dump E (toJson tx))]"
    have "perform (emit ?g) (andThen (sendToVerifier E tx) (\<lambda>tx. perform (store (guid E) tx) (ok True))) ?st1 = (r, st', outs)"
      using assms on tx by (simp add: processCodePacket_def action_simps Let_def std_at_def flip: tx0_def del: map_of_std_insert)
    then obtain outs2 where "andThen (sendToVerifier E tx) (\<lambda>tx. perform (store (guid E) tx) (ok True)) ?st1 = (r, st', outs2)" "outs = ?g # outs2"
      by (auto simp: action_simps split: prod.splits sum.splits)
    then have "quiet ?st1 st' outs"
    proof (cases rule: andThen_cases)
      case (stop e)
      then show ?thesis using sendToVerifier_cases [OF stop(1)] \<open>outs = ?g # outs2\<close> by (intro quiet_same) (simp_all add: no_ws_answers)
    next
      case (go tx2 st2 outs3 outs4)
      note s = sendToVerifier_cases [OF go(1)]
      have "quiet ?st1 st2 outs3" using s by (intro quiet_same) (simp_all add: no_ws_answers)
      moreover have "flags tx2 = old_flags st2 (guid E)" "ids_ok st2 \<Longrightarrow> m_txId tx2 = guid E"
        using s flags_of_stored [OF tx] old_flags_cong [of st2 ?st1] by simp_all
      then have "quiet st2 st' []" using quiet_store go(2) by (auto simp: store_def action_simps)
      ultimately have "quiet ?st1 st' (outs3 @ [])" by (rule quiet_trans(1))
      moreover have "outs4 = []" using go(2) by (simp add: store_def action_simps)
      ultimately show ?thesis using go(3) \<open>outs = ?g # outs2\<close> by (simp add: quiet_def)
    qed
    then show ?thesis using quiet_trans(1) [OF q1] by simp
  qed
qed

lemma tx_action_effect:
  assumes "tx_action E ev st = (r, st', outs)"
  shows "quiet st st' outs \<or> (\<exists>k tx. checked k tx st st' outs)"
proof (cases ev)
  case (CodePacket utxid htxid tenantId code inputs signature publicKey)
  then obtain r' where "processCodePacket E utxid htxid tenantId code inputs signature publicKey st = (r', st', outs)"
    using assms by (auto simp: action_simps split: prod.splits sum.splits)
  then show ?thesis using processCodePacket_effect by blast
next
  case (Result txId hash out)
  then have "verifyTransaction E txId hash out st = (r, st', outs)" using assms by simp
  then show ?thesis using verifyTransaction_effect by blast
qed (use assms processIncomingTransaction_effect in auto)

section \<open>At most once\<close>

text \<open>One event as a step; the result is the outputs and the transactions added to the queue.\<close>

definition tx_step :: "master \<Rightarrow> env \<times> tx_event \<Rightarrow> master \<times> out list \<times> Transaction list" where
  "tx_step st ev = (case tx_action (fst ev) (snd ev) st of (r, st', outs) \<Rightarrow> (st', outs, drop (length (queueOut st)) (queueOut st')))"

definition in_block :: "master \<Rightarrow> string set" where
  "in_block st = {k. fst (old_flags st k)}"

definition answered :: "master \<Rightarrow> string set" where
  "answered st = {k. snd (old_flags st k)}"

definition queued_id :: "out list \<times> Transaction list \<Rightarrow> string option" where
  "queued_id r = (case snd r of [] \<Rightarrow> None | tx # _ \<Rightarrow> Some (m_txId tx))"

definition answered_id :: "out list \<times> Transaction list \<Rightarrow> string option" where
  "answered_id r = (case client_answers (fst r) of [] \<Rightarrow> None | i # _ \<Rightarrow> Some i)"

lemma tx_step_cases:
  assumes "ids_ok st" and "tx_step st ev = (st', outs, q)"
  obtains (quiet) "q = []" and "client_answers outs = []" and "\<And>k. old_flags st' k = old_flags st k" and "ids_ok st'"
    | (checked) k tx where "q = queued tx" and "client_answers outs = (if isVerified tx \<and> canSend tx then [k] else [])"
        and "m_txId tx = k" and "flags tx = old_flags st k" and "ids_ok st'"
        and "\<And>k'. old_flags st' k' = (if k' = k then flags (marked tx) else old_flags st k')"
proof -
  obtain r where a: "tx_action (fst ev) (snd ev) st = (r, st', outs)" and q: "q = drop (length (queueOut st)) (queueOut st')"
    using assms(2) by (auto simp: tx_step_def split: prod.splits)
  from tx_action_effect [OF a] show ?thesis
    using assms(1) q that by (auto simp: quiet_def checked_def)
qed

lemma marked_simps: "m_txId (marked tx) = m_txId tx" "flags (marked tx) = (m_inBlock tx \<or> isVerified tx, m_sentToClient tx \<or> isVerified tx \<and> m_computeNode tx)"
  "isVerified ((marked tx)\<lparr>m_inBlock := b\<rparr>) = isVerified tx"
  by (auto simp: marked_def flags_def isVerified_def)

lemma tx_step_laws:
  assumes "ids_ok st" and "tx_step st ev = (st', r)"
  shows "ids_ok st'" and "in_block st \<subseteq> in_block st'" and "answered st \<subseteq> answered st'"
    and "queued_id r = Some k \<Longrightarrow> k \<notin> in_block st \<and> k \<in> in_block st'"
    and "answered_id r = Some k \<Longrightarrow> k \<notin> answered st \<and> k \<in> answered st'"
    and "length (snd r) \<le> 1 \<and> length (client_answers (fst r)) \<le> 1 \<and> list_all isVerified (snd r)"
proof -
  obtain outs q where r: "r = (outs, q)" by force
  from assms(2) have s: "tx_step st ev = (st', outs, q)" by (simp add: r)
  from assms(1) s have "ids_ok st' \<and> in_block st \<subseteq> in_block st' \<and> answered st \<subseteq> answered st' \<and>
    (\<forall>k. queued_id r = Some k \<longrightarrow> k \<notin> in_block st \<and> k \<in> in_block st') \<and> (\<forall>k. answered_id r = Some k \<longrightarrow> k \<notin> answered st \<and> k \<in> answered st') \<and>
    length (snd r) \<le> 1 \<and> length (client_answers (fst r)) \<le> 1 \<and> list_all isVerified (snd r)"
  proof (cases rule: tx_step_cases)
    case quiet
    then show ?thesis by (simp add: r in_block_def answered_def queued_id_def answered_id_def)
  next
    case (checked k tx)
    have f: "fst (old_flags st k) = m_inBlock tx" "snd (old_flags st k) = m_sentToClient tx"
      using checked(4) by (simp_all add: flags_def flip: checked(4))
    show ?thesis using checked(1-3,5,6) f
      by (auto simp: r in_block_def answered_def queued_id_def answered_id_def queued_def marked_simps canSend_def split: if_splits)
  qed
  then show "ids_ok st'" "in_block st \<subseteq> in_block st'" "answered st \<subseteq> answered st'"
    "queued_id r = Some k \<Longrightarrow> k \<notin> in_block st \<and> k \<in> in_block st'" "answered_id r = Some k \<Longrightarrow> k \<notin> answered st \<and> k \<in> answered st'"
    "length (snd r) \<le> 1 \<and> length (client_answers (fst r)) \<le> 1 \<and> list_all isVerified (snd r)" by blast+
qed

interpretation queue_once: at_most_once tx_step ids_ok in_block queued_id
  by unfold_locales (use tx_step_laws(1,2,4) in blast)+

interpretation answer_once: at_most_once tx_step ids_ok answered answered_id
  by unfold_locales (use tx_step_laws(1,3,5) in blast)+

lemma map_filter_concat:
  assumes "list_all (\<lambda>r. length (g r) \<le> 1) rs" and "\<And>r. f r = (case g r of [] \<Rightarrow> None | x # _ \<Rightarrow> Some (h x))"
  shows "List.map_filter f rs = map h (concat (map g rs))"
  using assms(1)
proof (induction rs)
  case (Cons r rs)
  then show ?case by (cases "g r") (auto simp: map_filter_simps assms(2))
qed (simp add: map_filter_simps)

section \<open>Properties\<close>



end
