(* ===== verification/Blocks.thy ===== *)
theory Blocks
  imports Master_Tx
begin

text \<open>
  Blocks (\<^verbatim>\<open>BlockUtil.cpp\<close>, \<^verbatim>\<open>timeToCloseBlock\<close> and \<^verbatim>\<open>runLoop\<close> of \<^verbatim>\<open>MasterNodeLib.cpp\<close>): block numbers, the hash
  chain, the choice of the transactions of a block, and one round of the main loop.  \<^verbatim>\<open>size_t\<close> is 64 bits wide.
\<close>

section \<open>Operations\<close>

definition getNextBlockNumber :: "env \<Rightarrow> nat action" where
  "getNextBlockNumber E =
    andThen (gets nextBlockNumber) (\<lambda>n.
    if n = 0 then
      (let bnstr = dht E ''genesisStamp''
       in if bnstr = [] then
            perform (emit (DhtPut ''genesisStamp'' (to_string (now E))))
            (perform (modify (\<lambda>st. st\<lparr>nextBlockNumber := 1\<rparr>)) (ok 0))
          else
            andThen (lift (stoull bnstr)) (\<lambda>t.
            let n = nat ((now E - t) mod 2 ^ 64)
            in perform (modify (\<lambda>st. st\<lparr>nextBlockNumber := (n + 1) mod 2 ^ 64\<rparr>)) (ok n)))
    else perform (modify (\<lambda>st. st\<lparr>nextBlockNumber := (n + 1) mod 2 ^ 64\<rparr>)) (ok n))"

definition getPreviousHash :: "env \<Rightarrow> string" where
  "getPreviousHash E = (if dht E ''hash'' = [] then ''00000000000000000000000000000000'' else dht E ''hash'')"

definition calculateBlockHash :: "env \<Rightarrow> nat \<Rightarrow> string \<Rightarrow> Transaction list \<Rightarrow> int \<Rightarrow> string" where
  "calculateBlockHash E number prevHash txns time =
    infohash E (to_string (int number) @ prevHash @ to_string time @ concat (map m_txId txns))"

definition getBlock :: "env \<Rightarrow> Transaction list \<Rightarrow> Block action" where
  "getBlock E txns =
    andThen (getNextBlockNumber E) (\<lambda>number.
    let txns = map (\<lambda>tx. tx\<lparr>m_blockId := number\<rparr>) txns;
        data = JArray (map toJson txns)
    in perform (modify (\<lambda>st. if previousHash st = [] then st\<lparr>previousHash := getPreviousHash E\<rparr> else st))
       (andThen (gets previousHash) (\<lambda>prevHash.
        let currentBlockHash = calculateBlockHash E number prevHash txns (now E)
        in perform (emit (DhtPut ''hash'' currentBlockHash))
           (perform (modify (\<lambda>st. st\<lparr>previousHash := currentBlockHash\<rparr>))
            (ok \<lparr>b_number = number, b_hash = currentBlockHash, b_previousHash = prevHash, b_data = data, b_time = now E\<rparr>)))))"

definition block_json :: "Block \<Rightarrow> json" where
  "block_json b = JObject [(''data'', b_data b), (''h'', JString (b_hash b)), (''n'', JInt (int (b_number b))),
     (''p'', JString (b_previousHash b)), (''tm'', JInt (b_time b))]"

text \<open>The critical section of \<^verbatim>\<open>timeToCloseBlock\<close>: the transactions that are due, in order of their timestamps.\<close>

definition take_due :: "env \<Rightarrow> Transaction list action" where
  "take_due E =
    andThen (gets (\<lambda>st. sort_transactions E (queueOut st))) (\<lambda>q.
    perform (modify (\<lambda>st. st\<lparr>queueOut := dropWhile (\<lambda>tx. m_timestamp tx \<le> now E) q\<rparr>))
    (ok (takeWhile (\<lambda>tx. m_timestamp tx \<le> now E) q)))"

definition timeToCloseBlock :: "env \<Rightarrow> unit action" where
  "timeToCloseBlock E =
    perform (modify (\<lambda>st. if base64encodedKey st = [] then st\<lparr>base64encodedKey := b64_encode E (own_key E)\<rparr> else st))
    (andThen (take_due E) (\<lambda>tempvect.
     andThen (getBlock E tempvect) (\<lambda>block.
     andThen (isBlockProducer E) (\<lambda>producer.
     if producer then
       (let sig = x509_sign E (b_hash block)
        in andThen (getBlockStorageNode E) (\<lambda>node.
           if node = [] then ok ()
           else
             andThen (gets base64encodedKey) (\<lambda>key.
             perform (emit (Gossip node closeBlock [(''b'', b64_encode E (dump E (block_json block))), (''si'', sig), (''key'', key)]))
             (modify (\<lambda>st. st\<lparr>blocks := std_insert (b_number block) block (blocks st)\<rparr>)))))
     else
       modify (\<lambda>st. let bs = (if 200 < length (blocks st) then [] else blocks st)
                    in st\<lparr>blocks := std_insert (b_number block) block bs\<rparr>)))))"

text \<open>One round of \<^verbatim>\<open>runLoop\<close>; an exception ends the loop.\<close>

definition loop_round :: "env \<Rightarrow> unit action" where
  "loop_round E =
    perform (enterAndExitVotingPhase E)
    (andThen (gets (\<lambda>st. now E - lastRoundTimestamp st)) (\<lambda>timeSinceLastRound.
     perform (if 1 \<le> timeSinceLastRound then
                perform (modify (\<lambda>st. st\<lparr>lastRoundTimestamp := now E\<rparr>)) (timeToCloseBlock E)
              else ok ())
     (andThen (gets (\<lambda>st. now E - lastCleanupTime st)) (\<lambda>timeSinceCleanup.
      if 60 * 5 < timeSinceCleanup then
        perform (modify (\<lambda>st. st\<lparr>lastCleanupTime := now E\<rparr>)) (cleanupTransactionsMap E)
      else ok ()))))"

section \<open>The transactions that are due\<close>

lemma take_due_apply:
  "take_due E st = (Inr (takeWhile (\<lambda>tx. m_timestamp tx \<le> now E) (sort_transactions E (queueOut st))),
     st\<lparr>queueOut := dropWhile (\<lambda>tx. m_timestamp tx \<le> now E) (sort_transactions E (queueOut st))\<rparr>, [])"
  by (simp add: take_due_def action_simps)

lemma sorted_takeWhile_filter:
  assumes "sorted (map key xs)"
  shows "takeWhile (\<lambda>x. key x \<le> c) xs = filter (\<lambda>x. key x \<le> c) xs" and "dropWhile (\<lambda>x. key x \<le> c) xs = filter (\<lambda>x. \<not> key x \<le> c) xs"
  using assms
proof (induction xs)
  case (Cons x xs)
  { case 1
    then have "filter (\<lambda>x. key x \<le> c) xs = []" if "\<not> key x \<le> c" using that by (auto simp: filter_empty_conv)
    with 1 Cons show ?case by simp }
  { case 2
    then have "filter (\<lambda>x. \<not> key x \<le> c) xs = xs" if "\<not> key x \<le> c" using that by (auto simp: filter_id_conv)
    with 2 Cons show ?case by simp }
qed simp_all

section \<open>The chain\<close>

lemma next_number:
  assumes "getNextBlockNumber E st = (Inr n, st', outs)"
  shows "\<exists>m. st' = st\<lparr>nextBlockNumber := m\<rparr> \<and> m = (n + 1) mod 2 ^ 64 \<and> (nextBlockNumber st \<noteq> 0 \<longrightarrow> n = nextBlockNumber st \<and> outs = []) \<and> no_ws outs"
  using assms by (auto simp: getNextBlockNumber_def action_simps Let_def no_ws_def split: if_splits sum.splits)

lemma next_number_total: "nextBlockNumber st \<noteq> 0 \<Longrightarrow> getNextBlockNumber E st = (Inr (nextBlockNumber st), st\<lparr>nextBlockNumber := (nextBlockNumber st + 1) mod 2 ^ 64\<rparr>, [])"
  by (simp add: getNextBlockNumber_def action_simps)

text \<open>A block as its number, its predecessor's hash and its transactions determine it.\<close>

definition made_block :: "env \<Rightarrow> nat \<Rightarrow> string \<Rightarrow> Transaction list \<Rightarrow> Block" where
  "made_block E n prev txns = \<lparr>b_number = n, b_hash = calculateBlockHash E n prev txns (now E), b_previousHash = prev,
     b_data = JArray (map toJson txns), b_time = now E\<rparr>"

lemma block_id_irrelevant: "toJson (tx\<lparr>m_blockId := n\<rparr>) = toJson tx" "m_txId (tx\<lparr>m_blockId := n\<rparr>) = m_txId tx"
  by (simp_all add: toJson_def)

definition previous_hash :: "env \<Rightarrow> master \<Rightarrow> string" where
  "previous_hash E st = (if previousHash st = [] then getPreviousHash E else previousHash st)"

lemma getBlock_apply:
  "getBlock E txns st = (case getNextBlockNumber E st of
      (Inl e, st', outs) \<Rightarrow> (Inl e, st', outs)
    | (Inr n, st', outs) \<Rightarrow> (let b = made_block E n (previous_hash E st') txns
        in (Inr b, st'\<lparr>previousHash := b_hash b\<rparr>, outs @ [DhtPut ''hash'' (b_hash b)])))"
  by (simp add: getBlock_def action_simps Let_def made_block_def calculateBlockHash_def comp_def block_id_irrelevant previous_hash_def
      split: prod.split sum.split)

fun produce :: "(env \<times> Transaction list) list \<Rightarrow> master \<Rightarrow> Block list" where
  "produce [] st = []"
| "produce ((E, txns) # rest) st =
    (case getBlock E txns st of (Inl e, st, outs) \<Rightarrow> [] | (Inr b, st, outs) \<Rightarrow> b # produce rest st)"

text \<open>Each block names the hash of its predecessor and has the next number.\<close>

fun chain_from :: "nat \<Rightarrow> string \<Rightarrow> Block list \<Rightarrow> bool" where
  "chain_from n prev [] = True"
| "chain_from n prev (b # bs) \<longleftrightarrow> b_number b = n \<and> b_previousHash b = prev \<and> chain_from (n + 1) (b_hash b) bs"

lemma produce_chain:
  assumes "list_all (\<lambda>(E, txns). \<forall>s. infohash E s \<noteq> []) es" and "0 < nextBlockNumber st" and "nextBlockNumber st + length es < 2 ^ 64"
    and "previousHash st \<noteq> []"
  shows "length (produce es st) = length es \<and> chain_from (nextBlockNumber st) (previousHash st) (produce es st) \<and>
    list_all2 (\<lambda>(E, txns) b. b_hash b = calculateBlockHash E (b_number b) (b_previousHash b) txns (now E)) es (produce es st)"
  using assms
proof (induction es arbitrary: st)
  case (Cons e es)
  obtain E txns where e: "e = (E, txns)" by force
  let ?b = "made_block E (nextBlockNumber st) (previousHash st) txns"
  let ?st = "st\<lparr>nextBlockNumber := nextBlockNumber st + 1, previousHash := b_hash ?b\<rparr>"
  have p: "produce (e # es) st = ?b # produce es ?st"
    using Cons.prems by (simp add: e getBlock_apply next_number_total previous_hash_def Let_def)
  have "b_hash ?b \<noteq> []" using Cons.prems(1) by (simp add: e made_block_def calculateBlockHash_def)
  then have "length (produce es ?st) = length es \<and> chain_from (nextBlockNumber ?st) (previousHash ?st) (produce es ?st) \<and>
    list_all2 (\<lambda>(E, txns) b. b_hash b = calculateBlockHash E (b_number b) (b_previousHash b) txns (now E)) es (produce es ?st)"
    using Cons.prems by (intro Cons.IH) (simp_all add: e)
  then show ?case unfolding p by (simp add: e) (simp add: made_block_def)
qed simp

section \<open>Closing a block\<close>

lemma block_storage_cases:
  assumes "registry_ok (known_nodes st)"
  shows "\<exists>s outs. getBlockStorageNode E st = (Inr s, st\<lparr>blockStorageNode := s\<rparr>, outs) \<and> list_all (\<lambda>x. \<exists>k v. x = DhtPut k v) outs \<and>
    (blockStorageNode st = [] \<and> getNumberOfStorageNodes (known_nodes st) = 0 \<longrightarrow> s = [])"
proof (cases "blockStorageNode st = [] \<and> 1 \<le> getNumberOfStorageNodes (known_nodes st) \<and> dht E ''sn_block_close_key'' = []")
  case True
  then obtain k where "getStorageNodeKey (known_nodes st) 0 = Inr k"
    using assms kind_ok_nth(1) [of storageNode "storageNodes (known_nodes st)" "storageKeys (known_nodes st)" 0]
    by (auto simp: registry_ok_def getStorageNodeKey_def getNumberOfStorageNodes_def Suc_le_eq)
  with True show ?thesis by (auto simp: getBlockStorageNode_def action_simps)
next
  case False
  have "st\<lparr>blockStorageNode := blockStorageNode st\<rparr> = st" by simp
  with False show ?thesis
    by (cases "blockStorageNode st = []"; cases "getNumberOfStorageNodes (known_nodes st) < 1") (auto simp: getBlockStorageNode_def action_simps)
qed

text \<open>Whether this node produces the current block.\<close>

definition produces :: "env \<Rightarrow> master \<Rightarrow> bool" where
  "produces E st \<longleftrightarrow> (\<exists>i. getCurrentBlockProducer E st = int i \<and> i < length (blockProducers st) \<and>
     v_publicKey (blockProducers st ! i) = node_id E)"

definition due :: "env \<Rightarrow> master \<Rightarrow> Transaction list" where
  "due E st = filter (\<lambda>tx. m_timestamp tx \<le> now E) (sort_transactions E (queueOut st))"

definition not_due :: "env \<Rightarrow> master \<Rightarrow> Transaction list" where
  "not_due E st = filter (\<lambda>tx. \<not> m_timestamp tx \<le> now E) (sort_transactions E (queueOut st))"

lemma due_split:
  assumes "sorts_by m_timestamp (sort_transactions E)"
  shows "take_due E st = (Inr (due E st), st\<lparr>queueOut := not_due E st\<rparr>, [])" and "sorted (map m_timestamp (due E st))"
    and "mset (due E st) = filter_mset (\<lambda>tx. m_timestamp tx \<le> now E) (mset (queueOut st))"
    and "mset (not_due E st) = filter_mset (\<lambda>tx. \<not> m_timestamp tx \<le> now E) (mset (queueOut st))"
proof -
  have s: "sorted (map m_timestamp (sort_transactions E (queueOut st)))" and m: "mset (sort_transactions E (queueOut st)) = mset (queueOut st)"
    using assms by (simp_all add: sorts_by_def)
  show "take_due E st = (Inr (due E st), st\<lparr>queueOut := not_due E st\<rparr>, [])"
    by (simp add: take_due_apply due_def not_due_def sorted_takeWhile_filter [OF s])
  show "sorted (map m_timestamp (due E st))" unfolding due_def by (rule sorted_filter_map [OF s])
  show "mset (due E st) = filter_mset (\<lambda>tx. m_timestamp tx \<le> now E) (mset (queueOut st))"
    "mset (not_due E st) = filter_mset (\<lambda>tx. \<not> m_timestamp tx \<le> now E) (mset (queueOut st))"
    by (simp_all add: due_def not_due_def m)
qed

definition close_message :: "env \<Rightarrow> master \<Rightarrow> Block \<Rightarrow> field_map" where
  "close_message E st b = [(''b'', b64_encode E (dump E (block_json b))), (''si'', x509_sign E (b_hash b)), (''key'', base64encodedKey st)]"

lemma list_all_put_gossip: "list_all (\<lambda>x. \<exists>k v. x = DhtPut k v) outs \<Longrightarrow> filter (\<lambda>x. \<exists>c m fs. x = Gossip c m fs) outs = []"
  by (auto simp: list_all_iff filter_empty_conv)

text \<open>The round as a whole, once the node has a block number.\<close>

lemma timeToCloseBlock_result:
  assumes srt: "sorts_by m_timestamp (sort_transactions E)" and n: "nextBlockNumber st = n" "n \<noteq> 0" and reg: "registry_ok (known_nodes st)"
  defines "b \<equiv> made_block E n (previous_hash E st) (due E st)"
  shows "\<exists>st' outs. timeToCloseBlock E st = (Inr (), st', outs) \<and>
    queueOut st' = not_due E st \<and> nextBlockNumber st' = (n + 1) mod 2 ^ 64 \<and> previousHash st' = b_hash b \<and> transactions st' = transactions st \<and>
    (if produces E st
     then (blockStorageNode st = [] \<and> getNumberOfStorageNodes (known_nodes st) = 0 \<longrightarrow> blockStorageNode st' = []) \<and>
       (if blockStorageNode st' = [] then blocks st' = blocks st \<and> filter (\<lambda>x. \<exists>c m fs. x = Gossip c m fs) outs = []
        else blocks st' = std_insert n b (blocks st) \<and>
          filter (\<lambda>x. \<exists>c m fs. x = Gossip c m fs) outs = [Gossip (blockStorageNode st') closeBlock (close_message E st' b)])
     else blocks st' = std_insert n b (if 200 < length (blocks st) then [] else blocks st) \<and>
       filter (\<lambda>x. \<exists>c m fs. x = Gossip c m fs) outs = [])"
proof -
  define st1 where "st1 = (if base64encodedKey st = [] then st\<lparr>base64encodedKey := b64_encode E (own_key E)\<rparr> else st)"
  have same: "queueOut st1 = queueOut st" "nextBlockNumber st1 = n" "previousHash st1 = previousHash st" "transactions st1 = transactions st"
      "blocks st1 = blocks st" "blockProducers st1 = blockProducers st" "known_nodes st1 = known_nodes st" "blockStorageNode st1 = blockStorageNode st"
    using n(1) by (simp_all add: st1_def)
  have d: "due E st1 = due E st" "not_due E st1 = not_due E st" by (simp_all add: due_def not_due_def same)
  define st2 where "st2 = st1\<lparr>queueOut := not_due E st, nextBlockNumber := (n + 1) mod 2 ^ 64, previousHash := b_hash b\<rparr>"
  have td: "take_due E st1 = (Inr (due E st), st1\<lparr>queueOut := not_due E st\<rparr>, [])" using due_split(1) [OF srt, of st1] by (simp add: d)
  have gb: "getBlock E (due E st) (st1\<lparr>queueOut := not_due E st\<rparr>) = (Inr b, st2, [DhtPut ''hash'' (b_hash b)])"
    using n(2) by (simp add: getBlock_apply next_number_total same Let_def b_def st2_def previous_hash_def)
  have bp: "isBlockProducer E st2 = (Inr (produces E st), st2, [])"
    by (simp add: isBlockProducer_result produces_def getCurrentBlockProducer_def st2_def same)
  have f: "b_number b = n" "blocks st2 = blocks st" by (simp_all add: b_def made_block_def st2_def same)
  show ?thesis
  proof (cases "produces E st")
    case False
    then have "timeToCloseBlock E st = (Inr (), st2\<lparr>blocks := std_insert n b (if 200 < length (blocks st) then [] else blocks st)\<rparr>, [DhtPut ''hash'' (b_hash b)])"
      unfolding timeToCloseBlock_def by (simp add: action_simps td gb bp f Let_def flip: st1_def)
    with False show ?thesis by (auto simp: st2_def same)
  next
    case True
    have "registry_ok (known_nodes st2)" using reg by (simp add: st2_def same)
    from block_storage_cases [OF this] obtain s outs2 where g: "getBlockStorageNode E st2 = (Inr s, st2\<lparr>blockStorageNode := s\<rparr>, outs2)"
      and p: "filter (\<lambda>x. \<exists>c m fs. x = Gossip c m fs) outs2 = []"
      and l: "blockStorageNode st = [] \<and> getNumberOfStorageNodes (known_nodes st) = 0 \<longrightarrow> s = []"
      using list_all_put_gossip by (fastforce simp: st2_def same)
    show ?thesis
    proof (cases "s = []")
      case s: True
      with True have "timeToCloseBlock E st = (Inr (), st2\<lparr>blockStorageNode := s\<rparr>, DhtPut ''hash'' (b_hash b) # outs2)"
        unfolding timeToCloseBlock_def by (simp add: action_simps td gb bp g Let_def flip: st1_def)
      with True s p show ?thesis by (auto simp: st2_def same)
    next
      case s: False
      with True have "timeToCloseBlock E st = (Inr (), st2\<lparr>blockStorageNode := s, blocks := std_insert n b (blocks st)\<rparr>,
          DhtPut ''hash'' (b_hash b) # outs2 @ [Gossip s closeBlock (close_message E st2 b)])"
        unfolding timeToCloseBlock_def by (simp add: action_simps td gb bp g f Let_def close_message_def flip: st1_def)
      with True s p l show ?thesis by (auto simp: st2_def same close_message_def)
    qed
  qed
qed

section \<open>Properties\<close>

text \<open>Claim (C31): the blocks of a node form a chain.  From a node that has a block number and a previous hash, whatever
  transactions the rounds contribute: every round yields a block, the numbers are consecutive, each block names the hash
  of its predecessor, and its own hash is that of its number, that hash, its time and its transaction ids.\<close>

theorem blocks_chained:
  assumes "list_all (\<lambda>(E, txns). \<forall>s. infohash E s \<noteq> []) es" and "0 < nextBlockNumber st" and "nextBlockNumber st + length es < 2 ^ 64"
    and "previousHash st \<noteq> []"
  shows "length (produce es st) = length es \<and> chain_from (nextBlockNumber st) (previousHash st) (produce es st) \<and>
    (\<forall>i < length es. b_hash (produce es st ! i) =
       infohash (fst (es ! i)) (to_string (int (nextBlockNumber st + i)) @ b_previousHash (produce es st ! i) @
         to_string (now (fst (es ! i))) @ concat (map m_txId (snd (es ! i)))))"
proof -
  note c = produce_chain [OF assms]
  have num: "b_number (bs ! i) = n + i" if "chain_from n h bs" "i < length bs" for n h bs i
    using that by (induction n h bs arbitrary: i rule: chain_from.induct) (auto simp: nth_Cons split: nat.splits)
  have "b_hash (produce es st ! i) = infohash (fst (es ! i)) (to_string (int (nextBlockNumber st + i)) @ b_previousHash (produce es st ! i) @
         to_string (now (fst (es ! i))) @ concat (map m_txId (snd (es ! i))))" if "i < length es" for i
  proof -
    let ?b = "produce es st ! i"
    have "b_hash ?b = calculateBlockHash (fst (es ! i)) (b_number ?b) (b_previousHash ?b) (snd (es ! i)) (now (fst (es ! i)))"
      using c that list_all2_nthD by (fastforce simp: case_prod_beta)
    then show ?thesis using num [of "nextBlockNumber st" "previousHash st" "produce es st" i] c that by (simp add: calculateBlockHash_def)
  qed
  with c show ?thesis by blast
qed

theorem blocks_chained_witness:
  "let E = (plain_env ''n'' 9)\<lparr>infohash := \<lambda>s. ''h'' @ s\<rparr>; st = initial_master\<lparr>nextBlockNumber := 5, previousHash := ''p''\<rparr>
   in chain_from 5 ''p'' (produce [(E, []), (E, [tx_of_id ''t'' 3])] st)"
proof -
  let ?E = "(plain_env ''n'' 9)\<lparr>infohash := \<lambda>s. ''h'' @ s\<rparr>" and ?st = "initial_master\<lparr>nextBlockNumber := 5, previousHash := ''p''\<rparr>"
  show ?thesis using blocks_chained [of "[(?E, []), (?E, [tx_of_id ''t'' 3])]" ?st] by (simp add: Let_def)
qed

text \<open>Claim (C14): closing a block.  A node that has a block number removes exactly the transactions that are due from its
  queue and builds from them, in the order of their timestamps, the block with the next number.  The current producer
  sends this block, signed, to the storage node and keeps it; every other node only keeps it (forgetting older blocks when
  there are more than 200).  When the producer knows no storage node it neither sends nor keeps the block, and the
  transactions that were due are lost.\<close>

theorem block_closed:
  assumes "sorts_by m_timestamp (sort_transactions E)" and "nextBlockNumber st = n" and "n \<noteq> 0" and "registry_ok (known_nodes st)"
  shows "\<exists>st' outs b txs. timeToCloseBlock E st = (Inr (), st', outs) \<and>
    b_number b = n \<and> b_data b = JArray (map toJson txs) \<and> sorted (map m_timestamp txs) \<and>
    mset txs = filter_mset (\<lambda>tx. m_timestamp tx \<le> now E) (mset (queueOut st)) \<and>
    mset (queueOut st') = filter_mset (\<lambda>tx. \<not> m_timestamp tx \<le> now E) (mset (queueOut st)) \<and>
    (if produces E st
     then (blockStorageNode st = [] \<and> getNumberOfStorageNodes (known_nodes st) = 0 \<longrightarrow> blockStorageNode st' = []) \<and>
       (if blockStorageNode st' = [] then blocks st' = blocks st \<and> filter (\<lambda>x. \<exists>c m fs. x = Gossip c m fs) outs = []
        else blocks st' = std_insert n b (blocks st) \<and>
          filter (\<lambda>x. \<exists>c m fs. x = Gossip c m fs) outs = [Gossip (blockStorageNode st') closeBlock (close_message E st' b)])
     else blocks st' = std_insert n b (if 200 < length (blocks st) then [] else blocks st) \<and>
       filter (\<lambda>x. \<exists>c m fs. x = Gossip c m fs) outs = [])"
proof -
  let ?b = "made_block E n (previous_hash E st) (due E st)"
  have b: "b_number ?b = n" "b_data ?b = JArray (map toJson (due E st))" by (simp_all add: made_block_def)
  from timeToCloseBlock_result [OF assms] due_split(2-4) [OF assms(1), of st] b show ?thesis
    by (elim exE conjE, intro exI [of _ ?b] exI [of _ "due E st"] exI conjI) simp_all
qed

theorem block_closed_witness:
  "let tx = tx_of_id ''t'' 3; st = initial_master\<lparr>nextBlockNumber := 5, previousHash := ''p'', queueOut := [tx_of_id ''u'' 99, tx]\<rparr>
   in \<exists>st' outs b txs. timeToCloseBlock (plain_env ''n'' 9) st = (Inr (), st', outs) \<and> mset txs = {#tx#} \<and>
        mset (queueOut st') = {#tx_of_id ''u'' 99#} \<and> map_of (blocks st') 5 = Some b \<and> b_data b = JArray (map toJson txs)"
proof -
  let ?st = "initial_master\<lparr>nextBlockNumber := 5, previousHash := ''p'', queueOut := [tx_of_id ''u'' 99, tx_of_id ''t'' 3]\<rparr>"
  have r: "registry_ok (known_nodes ?st)" by (simp add: initial_master_def empty_registry_def registry_ok_def kind_ok_def)
  have "\<not> produces (plain_env ''n'' 9) ?st" by (simp add: produces_def getCurrentBlockProducer_def initial_master_def)
  with block_closed [of "plain_env ''n'' 9" ?st 5, OF _ _ _ r] show ?thesis
    by (auto simp: sorts_by_sort_key initial_master_def tx_of_id_def)
qed

end
