(* ===== verification/Master_Node.thy ===== *)
theory Master_Node
  imports Blocks
begin

text \<open>
  The master node as a whole (\<^verbatim>\<open>MasterNode/main.cpp\<close>): the handlers of the commands, and a message from the network going
  through \<^verbatim>\<open>processIncomingData\<close> to its handler.
\<close>

section \<open>Node synchronisation\<close>

text \<open>The JSON text of a registry (\<^verbatim>\<open>buildSyncNodesInput\<close>, \<^verbatim>\<open>toJSONString\<close>): three documents in a document, an empty
  map being null.  A document lists its members in key order, and so do the three maps of a \<open>sync_input\<close>.\<close>

fun type_code :: "NodeType option \<Rightarrow> int" where
  "type_code (Some masterNode) = 0"
| "type_code (Some verifierNode) = 1"
| "type_code (Some storageNode) = 2"
| "type_code None = 3"

definition node_json :: "BlockChainNode \<Rightarrow> json" where
  "node_json n = JObject [(''k'', JString (node_key n)), (''t'', JInt (type_code (node_type n))), (''u'', JString (node_uri n))]"

definition nodes_json :: "env \<Rightarrow> nodes_map \<Rightarrow> json" where
  "nodes_json E m = (if m = [] then JNull else JObject (map (\<lambda>(k, n). (k, JString (dump E (node_json n)))) m))"

definition sync_text :: "env \<Rightarrow> sync_input \<Rightarrow> string" where
  "sync_text E d = (case d of (mj, vj, sj) \<Rightarrow>
    dump E (JObject [(''m'', JString (dump E (nodes_json E mj))), (''s'', JString (dump E (nodes_json E sj))),
                     (''v'', JString (dump E (nodes_json E vj)))]))"

text \<open>\<^verbatim>\<open>items()\<close>: the entries of an object, the elements of an array under their indices, a primitive value itself.\<close>

definition json_items :: "json \<Rightarrow> (string \<times> json) list" where
  "json_items j = (case j of
      JObject m \<Rightarrow> m
    | JArray xs \<Rightarrow> zip (map (\<lambda>i. to_string (int i)) [0 ..< length xs]) xs
    | JNull \<Rightarrow> []
    | _ \<Rightarrow> [([], j)])"

definition json_number :: "json \<Rightarrow> string \<Rightarrow> cpp_error + int" where
  "json_number j k =
    (case j of
       JObject m \<Rightarrow> (case map_of m k of None \<Rightarrow> Inl JsonError | Some v \<Rightarrow> get_int v)
     | _ \<Rightarrow> Inl JsonError)"

fun sync_items :: "env \<Rightarrow> (string \<Rightarrow> BlockChainNode \<Rightarrow> registry \<Rightarrow> registry) \<Rightarrow> (string \<times> json) list \<Rightarrow> unit action" where
  "sync_items E ins [] = ok ()"
| "sync_items E ins ((key, v) # items) =
    andThen (lift (get_string v)) (\<lambda>s.
    andThen (lift (parse E s)) (\<lambda>j.
    andThen (lift (json_number j ''t'')) (\<lambda>t.
    andThen (lift (json_field j ''k'')) (\<lambda>k.
    andThen (lift (json_field j ''u'')) (\<lambda>u.
    perform (modify (\<lambda>st. st\<lparr>known_nodes := ins key \<lparr>node_key = k, node_uri = u, node_type = node_type_of_int t\<rparr> (known_nodes st)\<rparr>))
    (sync_items E ins items))))))"

definition add_master :: "string \<Rightarrow> BlockChainNode \<Rightarrow> registry \<Rightarrow> registry" where
  "add_master k n r = r\<lparr>masterNodes := std_insert k n (masterNodes r)\<rparr>"

definition add_verifier :: "string \<Rightarrow> BlockChainNode \<Rightarrow> registry \<Rightarrow> registry" where
  "add_verifier k n r = r\<lparr>verifierNodes := std_insert k n (verifierNodes r), verifierKeys := verifierKeys r @ [k]\<rparr>"

definition add_storage :: "string \<Rightarrow> BlockChainNode \<Rightarrow> registry \<Rightarrow> registry" where
  "add_storage k n r = r\<lparr>storageNodes := std_insert k n (storageNodes r), storageKeys := storageKeys r @ [k]\<rparr>"

definition handle_sync :: "env \<Rightarrow> string \<Rightarrow> unit action" where
  "handle_sync E data =
    andThen (lift (parse E data)) (\<lambda>j.
    andThen (lift (json_field j ''m'')) (\<lambda>m.
    andThen (lift (json_field j ''v'')) (\<lambda>v.
    andThen (lift (json_field j ''s'')) (\<lambda>s.
    andThen (lift (parse E m)) (\<lambda>mj.
    andThen (lift (parse E v)) (\<lambda>vj.
    andThen (lift (parse E s)) (\<lambda>sj.
    perform (sync_items E add_master (json_items mj))
    (perform (sync_items E add_verifier (json_items vj))
    (sync_items E add_storage (json_items sj))))))))))"

section \<open>Handlers\<close>

text \<open>\<^verbatim>\<open>operator[]\<close> of a field map: a missing entry is empty.\<close>

definition field_or_empty :: "field_map \<Rightarrow> string \<Rightarrow> string" where
  "field_or_empty fs k = (case map_of fs k of None \<Rightarrow> [] | Some v \<Rightarrow> v)"

definition handle_exeFunction :: "env \<Rightarrow> field_map \<Rightarrow> unit action" where
  "handle_exeFunction E fs =
    andThen (processCodePacket E (field_or_empty fs ''utxid'') (field_or_empty fs ''txid'') (field_or_empty fs ''tid'')
      (field_or_empty fs ''h'') (field_or_empty fs ''i'') (field_or_empty fs ''s'') (field_or_empty fs ''k'')) (\<lambda>_. ok ())"

definition handle_verificationResult :: "env \<Rightarrow> field_map \<Rightarrow> unit action" where
  "handle_verificationResult E fs =
    andThen (lift (std_at fs ''txid'')) (\<lambda>txId.
    andThen (lift (std_at fs ''h'')) (\<lambda>hash.
    verifyTransaction E txId hash (field_or_empty fs ''o'')))"

definition handle_exception :: "env \<Rightarrow> field_map \<Rightarrow> unit action" where
  "handle_exception E fs =
    (if field_or_empty fs ''tx'' = [] then
       andThen (lift (std_at fs ''txid'')) (\<lambda>txId.
       andThen (lift (std_at fs ''e'')) (\<lambda>exp.
       andThen (gets (\<lambda>st. map_of (transactions st) txId)) (\<lambda>known.
       case known of None \<Rightarrow> ok ()
       | Some tx \<Rightarrow>
           (let tx = (setOutput [] tx)\<lparr>m_code := [], m_exception := exp\<rparr>
            in perform (if m_computeNode tx then emit (WsSend (m_publicKey tx) (JObject [(''txid'', JString txId), (''data'', JString exp)])) else ok ())
               (andThen (isBlockProducer E) (\<lambda>producer.
                perform (if producer then modify (\<lambda>st. st\<lparr>queueOut := queueOut st @ [tx]\<rparr>) else ok ())
                (perform (modify (\<lambda>st. st\<lparr>transactions := std_erase txId (transactions st)\<rparr>))
                (emit (Gossip ''master21'' exception [(''tx'', dump E (toJson tx))])))))))))
     else
       andThen (lift (parse E (field_or_empty fs ''tx''))) (\<lambda>j.
       case fromJson j tx_default of (tx, e) \<Rightarrow>
         perform (lift (case e of None \<Rightarrow> Inr () | Some e \<Rightarrow> Inl e))
         (andThen (isBlockProducer E) (\<lambda>producer.
          if producer then modify (\<lambda>st. st\<lparr>queueOut := queueOut st @ [tx]\<rparr>) else ok ()))))"

definition handle_choseRandomNumber :: "env \<Rightarrow> field_map \<Rightarrow> unit action" where
  "handle_choseRandomNumber E fs =
    andThen (lift (std_at fs ''s'')) (\<lambda>signature.
    andThen (lift (std_at fs ''key'')) (\<lambda>key. registerVote E signature key))"

definition handle_txNotification :: "env \<Rightarrow> field_map \<Rightarrow> unit action" where
  "handle_txNotification E fs =
    andThen (lift (std_at fs ''utxid'')) (\<lambda>utxid.
    andThen (lift (std_at fs ''tx'')) (\<lambda>tx. processIncomingTransaction E utxid tx))"

definition handle_syncNodes :: "env \<Rightarrow> field_map \<Rightarrow> unit action" where
  "handle_syncNodes E fs = andThen (lift (std_at fs ''d'')) (handle_sync E)"

text \<open>\<^verbatim>\<open>storageNodes[key].getURI()\<close> makes a default node for an unknown key.\<close>

definition getStorageNodeURL :: "string \<Rightarrow> string action" where
  "getStorageNodeURL key =
    perform (modify (\<lambda>st. st\<lparr>known_nodes := (known_nodes st)\<lparr>storageNodes :=
      std_insert key \<lparr>node_key = [], node_uri = [], node_type = None\<rparr> (storageNodes (known_nodes st))\<rparr>\<rparr>))
    (andThen (gets (\<lambda>st. std_at (storageNodes (known_nodes st)) key)) (\<lambda>r. andThen (lift r) (\<lambda>n. ok (node_uri n))))"

definition handle_storageurl :: "env \<Rightarrow> field_map \<Rightarrow> unit action" where
  "handle_storageurl E fs =
    andThen (lift (std_at fs ''tid'')) (\<lambda>tenantId.
    andThen (lift (std_at fs ''txid'')) (\<lambda>txid.
    andThen (lift (std_at fs ''k'')) (\<lambda>publicKey.
    andThen (gets known_nodes) (\<lambda>r.
    andThen (if getNumberOfStorageNodes r = 0 then ok ''n/a''
             else andThen (generateRandomNumber E 1 (getNumberOfStorageNodes r)) (\<lambda>n.
                  andThen (lift (getStorageNodeKey r n)) getStorageNodeURL)) (\<lambda>url.
    emit (WsSend publicKey (JObject [(''txid'', JString txid), (''data'', JString url)])))))))"

definition handle_stateChangeResponse :: "env \<Rightarrow> field_map \<Rightarrow> unit action" where
  "handle_stateChangeResponse E fs =
    andThen (lift (std_at fs ''txid'')) (\<lambda>txId.
    andThen (lift (std_at fs ''data'')) (\<lambda>data.
    andThen (lift (std_at fs ''id'')) (\<lambda>i.
    andThen (gets (\<lambda>st. map_of (transactions st) txId)) (\<lambda>known.
    case known of None \<Rightarrow> ok ()
    | Some tx \<Rightarrow> emit (WsSend (m_publicKey tx) (JObject [(''txid'', JString txId), (''data'', JString data), (''id'', JString i)]))))))"

text \<open>\<^verbatim>\<open>long\<close> is 32 bits wide on the platform of the project files, so \<^verbatim>\<open>std::stol\<close> is \<open>stoi\<close>.  The text \<^verbatim>\<open>data\<close> is made
  before the verdict is put into \<^verbatim>\<open>j\<close>.\<close>

definition handle_verifyBlock :: "env \<Rightarrow> field_map \<Rightarrow> unit action" where
  "handle_verifyBlock E fs =
    andThen (lift (std_at fs ''b'')) (\<lambda>bt.
    andThen (lift (parse E (b64_decode E bt))) (\<lambda>b.
    andThen (lift (std_at fs ''tm'')) (\<lambda>timestamp.
    andThen (lift (json_field b ''k'')) (\<lambda>k.
    let producerPKey = b64_decode E k in
    andThen (lift (json_field b ''si'')) (\<lambda>s.
    andThen (lift (json_field b ''n'')) (\<lambda>blocknumber.
    andThen (lift (stoi blocknumber)) (\<lambda>bid.
    let bid = nat (bid mod 2 ^ 64) in
    andThen (gets (\<lambda>st. map_of (blocks st) bid)) (\<lambda>known.
    case known of None \<Rightarrow> ok ()
    | Some block \<Rightarrow>
        andThen (lift (x509_verify E (producerPKey @ [CHR 0x00]) (b_hash block) s)) (\<lambda>valid.
        andThen (getBlockStorageNode E) (\<lambda>node.
        if node = [] then ok ()
        else
          (let j = [(''k'', JString (b64_encode E (own_key E))), (''si'', JString (x509_sign E (b_hash block)))]
           in andThen (lift (stoi timestamp)) (\<lambda>t.
              andThen (gets (getBlockProducerFor t)) (\<lambda>producer.
              if producer = - 1 then ok ()
              else
                (let data = b64_encode E (dump E (JObject j))
                 in andThen (gets (producer_at producer)) (\<lambda>r.
                    andThen (lift r) (\<lambda>v.
                    perform
                      (if v_publicKey v \<noteq> producerPKey then emit (Gossip node verifyBlock [(''b'', blocknumber), (''d'', data)])
                       else if valid then emit (Gossip node verifyBlock [(''b'', blocknumber), (''d'', data)])
                       else emit (Gossip node verifyBlock [(''b'', blocknumber), (''d'', data)]))
                      (modify (\<lambda>st. st\<lparr>blocks := std_erase bid (blocks st)\<rparr>))))))))))))))))))"

definition handled :: "CommandType set" where
  "handled = {codeDelivery, exeFunction, verificationResult, exception, choseRandomNumber, txNotification, syncNodes, storageurl,
     stateChangeResponse, verifyBlock}"

fun handle :: "env \<Rightarrow> CommandType \<Rightarrow> field_map \<Rightarrow> unit action" where
  "handle E exeFunction fs = handle_exeFunction E fs"
| "handle E verificationResult fs = handle_verificationResult E fs"
| "handle E exception fs = handle_exception E fs"
| "handle E choseRandomNumber fs = handle_choseRandomNumber E fs"
| "handle E txNotification fs = handle_txNotification E fs"
| "handle E syncNodes fs = handle_syncNodes E fs"
| "handle E storageurl fs = handle_storageurl E fs"
| "handle E stateChangeResponse fs = handle_stateChangeResponse E fs"
| "handle E verifyBlock fs = handle_verifyBlock E fs"
| "handle E _ fs = ok ()"

text \<open>A message from the network: its acceptance, and then its handler or the reply to a new master node.\<close>

definition master_receive :: "env \<Rightarrow> int \<Rightarrow> string set \<times> master \<Rightarrow> string \<Rightarrow> (string set \<times> master) \<times> out list \<times> incoming_result" where
  "master_receive E appStartupTime = (\<lambda>(known, st) data.
    case receive appStartupTime (node_id E) handled \<lparr>processedMessages = known, nodes = known_nodes st\<rparr> data of (cs, res) \<Rightarrow>
      (let st = st\<lparr>known_nodes := nodes cs\<rparr>;
           act = (case res of
               Dispatch cmd fs \<Rightarrow> handle E cmd fs
             | ConnectionAccepted (Some (key, d)) \<Rightarrow> emit (Gossip key syncNodes [(''d'', sync_text E d)])
             | _ \<Rightarrow> ok ())
       in case act st of (r, st, outs) \<Rightarrow> ((processedMessages cs, st), outs, res)))"

section \<open>Synchronisation\<close>

lemma type_code_roundtrip: "node_type_of_int (type_code t) = t"
  by (induction t rule: type_code.induct) (simp_all add: node_type_of_int_def)

lemma node_json_fields:
  "json_number (node_json n) ''t'' = Inr (type_code (node_type n))" "json_field (node_json n) ''k'' = Inr (node_key n)"
  "json_field (node_json n) ''u'' = Inr (node_uri n)"
  by (simp_all add: node_json_def json_number_def json_field_def)

text \<open>A value of the JSON library: the members of every object are in key order.\<close>

fun json_sorted :: "json \<Rightarrow> bool" where
  "json_sorted (JObject m) \<longleftrightarrow> omap_ok m \<and> list_all (\<lambda>(_, v). json_sorted v) m"
| "json_sorted (JArray xs) \<longleftrightarrow> list_all json_sorted xs"
| "json_sorted _ \<longleftrightarrow> True"

lemma node_json_sorted: "json_sorted (node_json n)"
  by (simp add: node_json_def omap_ok_def less_char_def)

lemma nodes_json_sorted: "omap_ok m \<Longrightarrow> json_sorted (nodes_json E m)"
  by (auto simp: nodes_json_def omap_ok_def list_all_iff o_def case_prod_beta)

lemma sync_text_sorted:
  "json_sorted (JObject [(''m'', JString a), (''s'', JString b), (''v'', JString c)])"
  by (simp add: omap_ok_def less_char_def)

lemma sync_items_dumped:
  assumes "\<And>j. json_sorted j \<Longrightarrow> parse E (dump E j) = Inr j"
  shows "sync_items E ins (json_items (nodes_json E m)) st = (Inr (), st\<lparr>known_nodes := fold (\<lambda>(k, n). ins k n) m (known_nodes st)\<rparr>, [])"
proof -
  have "json_items (nodes_json E m) = map (\<lambda>(k, n). (k, JString (dump E (node_json n)))) m"
    by (simp add: json_items_def nodes_json_def)
  moreover have "sync_items E ins (map (\<lambda>(k, n). (k, JString (dump E (node_json n)))) m) st =
      (Inr (), st\<lparr>known_nodes := fold (\<lambda>(k, n). ins k n) m (known_nodes st)\<rparr>, [])"
  proof (induction m arbitrary: st)
    case (Cons e m)
    obtain k a u t where "e = (k, \<lparr>node_key = a, node_uri = u, node_type = t\<rparr>)" by (cases e) (metis BlockChainNode.cases)
    with Cons show ?case by (simp add: action_simps assms node_json_sorted node_json_fields type_code_roundtrip)
  qed (simp add: action_simps)
  ultimately show ?thesis by simp
qed

lemma sync_nodes_folds:
  "sync_nodes (mj, vj, sj) r = fold (\<lambda>(k, n). add_storage k n) sj (fold (\<lambda>(k, n). add_verifier k n) vj (fold (\<lambda>(k, n). add_master k n) mj r))"
  by (simp add: sync_nodes_def add_master_def [abs_def] add_verifier_def [abs_def] add_storage_def [abs_def] Let_def)

text \<open>Which keys a synchronisation appends.\<close>

lemma sync_nodes_keys:
  "storageKeys (sync_nodes (mj, vj, sj) r) = storageKeys r @ map fst sj" "verifierKeys (sync_nodes (mj, vj, sj) r) = verifierKeys r @ map fst vj"
proof -
  have "storageKeys (fold (\<lambda>(k, n). add_master k n) xs r) = storageKeys r" "verifierKeys (fold (\<lambda>(k, n). add_master k n) xs r) = verifierKeys r"
    "storageKeys (fold (\<lambda>(k, n). add_verifier k n) xs r) = storageKeys r" "verifierKeys (fold (\<lambda>(k, n). add_verifier k n) xs r) = verifierKeys r @ map fst xs"
    "storageKeys (fold (\<lambda>(k, n). add_storage k n) xs r) = storageKeys r @ map fst xs" "verifierKeys (fold (\<lambda>(k, n). add_storage k n) xs r) = verifierKeys r"
    for xs r
    by (induction xs arbitrary: r; force simp: add_master_def add_verifier_def add_storage_def)+
  then show "storageKeys (sync_nodes (mj, vj, sj) r) = storageKeys r @ map fst sj" "verifierKeys (sync_nodes (mj, vj, sj) r) = verifierKeys r @ map fst vj"
    by (simp_all add: sync_nodes_folds)
qed

section \<open>Properties\<close>

text \<open>Claim (C35): a new master node ends up with the registry of the one it joined.  For a JSON library whose parser
  reads what its printer wrote, the handler of \<^verbatim>\<open>syncNodes\<close>, given the text the other node sent, performs exactly the
  abstract synchronisation of the registries, without an exception and without outputs; the keys of storage nodes and verifiers are
  appended in the order of the keys, because the text is a document of JSON objects, and not in the order of the other
  node's unordered maps; the invariant of the registry is kept.\<close>

theorem sync_text_refines:
  assumes "\<And>j. json_sorted j \<Longrightarrow> parse E (dump E j) = Inr j"
  shows "handle_sync E (sync_text E (buildSyncNodesInput r)) st =
      (Inr (), st\<lparr>known_nodes := sync_nodes (buildSyncNodesInput r) (known_nodes st)\<rparr>, []) \<and>
    (let known = known_nodes (state_after (handle_sync E (sync_text E (buildSyncNodesInput r))) st) in
      storageKeys known = storageKeys (known_nodes st) @ sorted_list_of_set (fst ` set (storageNodes r)) \<and>
      verifierKeys known = verifierKeys (known_nodes st) @ sorted_list_of_set (fst ` set (verifierNodes r)) \<and>
      (registry_reachable r \<longrightarrow> registry_reachable (known_nodes st) \<longrightarrow> registry_reachable known))"
proof -
  have "handle_sync E (sync_text E (buildSyncNodesInput r)) st =
      (Inr (), st\<lparr>known_nodes := sync_nodes (buildSyncNodesInput r) (known_nodes st)\<rparr>, [])"
    by (simp add: handle_sync_def sync_text_def buildSyncNodesInput_def action_simps json_field_def sync_items_dumped [OF assms] sync_nodes_folds
      assms [OF sync_text_sorted] assms [OF nodes_json_sorted [OF sorted_entries_ok]])
  moreover have "storageKeys (sync_nodes (buildSyncNodesInput r) k) = storageKeys k @ sorted_list_of_set (fst ` set (storageNodes r))"
      "verifierKeys (sync_nodes (buildSyncNodesInput r) k) = verifierKeys k @ sorted_list_of_set (fst ` set (verifierNodes r))" for k
    by (simp_all add: buildSyncNodesInput_def sync_nodes_keys sorted_entries_keys)
  ultimately show ?thesis by (simp add: state_after_def Let_def reg_sync)
qed

theorem sync_text_refines_witness:
  "let E = (plain_env ''n'' 9)\<lparr>dump := \<lambda>j. to_string (int (to_nat j)), parse := \<lambda>s. Inr (from_nat (nat (atoi s)))\<rparr>;
       r = fst (addNode ''v'' ''ws:1'' (Some verifierNode) empty_registry)
   in handle_sync E (sync_text E (buildSyncNodesInput r)) initial_master =
        (Inr (), initial_master\<lparr>known_nodes := sync_nodes (buildSyncNodesInput r) empty_registry\<rparr>, [])"
proof -
  let ?E = "(plain_env ''n'' 9)\<lparr>dump := \<lambda>j. to_string (int (to_nat j)), parse := \<lambda>s. Inr (from_nat (nat (atoi s)))\<rparr>"
  have "parse ?E (dump ?E j) = Inr j" for j by (simp add: atoi_to_string)
  from sync_text_refines [of ?E "fst (addNode ''v'' ''ws:1'' (Some verifierNode) empty_registry)" initial_master, OF this]
  show ?thesis by (simp add: Let_def initial_master_def)
qed

text \<open>Claim (C33): from a verifier to the vote count.  When a verifier gossips a verification result for a transaction, a
  master node that has not seen the message runs \<^verbatim>\<open>verifyTransaction\<close> on exactly the transaction id, the hash and the
  output that were sent, in the state it had, and nothing else happens; a second delivery of the same message changes
  nothing.\<close>

theorem verification_result_delivered:
  assumes "sendable kv mid sender" and "kv = [(''txid'', txId), (''h'', hash)] @ (if out = [] then [] else [(''o'', out)])"
    and "sender \<noteq> node_id E" and "mid \<notin> known" and "appStartupTime \<le> t" and "- (2 ^ 63) \<le> t" and "t < 2 ^ 63"
  shows "\<exists>msg data. gossip_fields verificationResult kv = Inr msg \<and> data = gossip_msg mid sender t msg False @ ''|nonce:'' @ to_string nonce \<and>
    (\<exists>r outs res st'. verifyTransaction E txId hash out st = (r, st', outs) \<and>
      master_receive E appStartupTime (known, st) data = ((insert mid known, st'), outs, res) \<and>
      (\<forall>E'. node_id E' = node_id E \<longrightarrow>
        master_receive E' appStartupTime (insert mid known, st') data = ((insert mid known, st'), [], DuplicateMessage)))"
proof -
  let ?cs = "\<lparr>processedMessages = known, nodes = known_nodes st\<rparr>"
  have "''nonce'' \<notin> fst ` set kv" using assms(2) by auto
  then obtain msg where msg: "gossip_fields verificationResult kv = Inr msg"
    "getFieldsAndValues (gossip_msg mid sender t msg False @ ''|nonce:'' @ to_string nonce) =
       Inr (message_fields verificationResult kv mid sender t @ [(''nonce'', to_string nonce)])"
    using gossip_received [OF assms(1), of verificationResult t nonce] by blast
  define data where "data = gossip_msg mid sender t msg False @ ''|nonce:'' @ to_string nonce"
  define fs where "fs = message_fields verificationResult kv mid sender t @ [(''nonce'', to_string nonce)]"
  have m: "getFieldsAndValues data = Inr fs" unfolding data_def fs_def by (rule msg(2))
  note l = message_fields_lookup(1-4) [OF assms(1), of verificationResult t "[(''nonce'', to_string nonce)]", folded fs_def]
  have ws: "map_of fs ''ws'' = None" using message_fields_lookup(5) [OF assms(1), of verificationResult t] by (simp add: map_add_def fs_def)
  have h: "verificationResult \<in> handled" "verificationResult \<noteq> connectionRequest" by (simp_all add: handled_def)
  have first: "receive appStartupTime (node_id E) handled ?cs data =
      (?cs\<lparr>processedMessages := insert mid known\<rparr>, Dispatch verificationResult (fs @ [(''ws'', ''0'')]))"
    using process_dispatches [OF m l(3) assms(3) l(4) assms(5-7) l(2) _ ws l(1) h, of ?cs] assms(4) by (simp add: receive_def)
  have f: "std_at (fs @ [(''ws'', ''0'')]) ''txid'' = Inr txId" "std_at (fs @ [(''ws'', ''0'')]) ''h'' = Inr hash"
    "field_or_empty (fs @ [(''ws'', ''0'')]) ''o'' = out"
    by (simp_all add: fs_def std_at_def field_or_empty_def message_fields_def assms(2) map_add_def)
  obtain r st' outs where v: "verifyTransaction E txId hash out st = (r, st', outs)" by (metis prod_cases3)
  have "master_receive E appStartupTime (known, st) data = ((insert mid known, st'), outs, Dispatch verificationResult (fs @ [(''ws'', ''0'')]))"
    unfolding master_receive_def by (simp add: first Let_def handle_verificationResult_def f action_simps v)
  moreover have "master_receive E' appStartupTime (insert mid known, st') data = ((insert mid known, st'), [], DuplicateMessage)"
    if "node_id E' = node_id E" for E'
  proof -
    have "receive appStartupTime (node_id E') handled \<lparr>processedMessages = insert mid known, nodes = known_nodes st'\<rparr> data =
        (\<lparr>processedMessages = insert mid known, nodes = known_nodes st'\<rparr>, DuplicateMessage)"
      unfolding that receive_def using process_duplicate [OF m l(3) assms(3) l(4) assms(5-7) l(2)] by simp
    then show ?thesis by (simp add: master_receive_def action_simps)
  qed
  ultimately show ?thesis using msg(1) v data_def by blast
qed

theorem verification_result_delivered_witness:
  "\<exists>msg data r outs res st'. gossip_fields verificationResult [(''txid'', ''t1''), (''h'', ''9f'')] = Inr msg \<and>
    data = gossip_msg ''0af3'' ''v1'' 1500 msg False @ ''|nonce:'' @ to_string 17 \<and>
    verifyTransaction (plain_env ''n'' 1501) ''t1'' ''9f'' [] initial_master = (r, st', outs) \<and>
    master_receive (plain_env ''n'' 1501) 1000 ({}, initial_master) data = (({''0af3''}, st'), outs, res)"
proof -
  have "sendable [(''txid'', ''t1''), (''h'', ''9f'')] ''0af3'' ''v1''"
    by (simp add: sendable_def field_ok_def plain_def starts_with_def)
  with verification_result_delivered [of "[(''txid'', ''t1''), (''h'', ''9f'')]" "''0af3''" "''v1''" "''t1''" "''9f''" "[]" "plain_env ''n'' 1501" "{}" 1000 1500 17 initial_master]
  show ?thesis by (simp add: plain_env_def) blast
qed

section \<open>The answer to a block\<close>

text \<open>The verdict of \<^verbatim>\<open>verifyBlock\<close> is not part of what is sent: a block of the wrong producer, one with a wrong signature
  and a correct one get the same answer.\<close>

lemma lift_ignored: "\<exists>x. r = Inr x \<Longrightarrow> andThen (lift r) (\<lambda>_. k) = k"
  by (auto simp: fun_eq_iff action_simps)

theorem block_verdict_not_sent:
  assumes "\<And>k m s. \<exists>b. x509_verify E k m s = Inr b" and "\<And>k m s. \<exists>b. v k m s = Inr b"
  shows "handle_verifyBlock (E\<lparr>x509_verify := v\<rparr>) fs = handle_verifyBlock E fs"
proof -
  have "getBlockStorageNode (E\<lparr>x509_verify := v\<rparr>) = getBlockStorageNode E" by (simp add: getBlockStorageNode_def cong: if_cong)
  then show ?thesis by (simp add: handle_verifyBlock_def lift_ignored assms cong: option.case_cong if_cong)
qed

end
