(* ===== verification/Query_Expr.thy ===== *)
theory Query_Expr
  imports Cpp_String
begin

text \<open>
  The filter expressions of a storage node (\<^verbatim>\<open>StorageNode.cpp\<close>, \<^verbatim>\<open>StorageNode.h\<close>): the conversion to postfix form with an
  operator stack, the construction of the expression tree and the marking of the fields that have an index.  The text is
  read as a list of characters, the remaining list standing for \<^verbatim>\<open>currentIndex\<close>.  The specification is a grammar of
  expressions with a printer that writes parentheses only where precedence and associativity need them.
\<close>

section \<open>Postfix form\<close>

text \<open>The table \<^verbatim>\<open>precedence\<close>; a missing entry reads as false.\<close>

definition precedence :: "string \<Rightarrow> string \<Rightarrow> bool" where
  "precedence a b \<longleftrightarrow>
    (if a \<in> {''='', ''<'', ''>'', ''<='', ''>='', ''<>''} then b \<in> {''&'', ''|''} else a = ''&'' \<and> b = ''|'')"

text \<open>A quoted string up to and including the closing quotation mark; \<^verbatim>\<open>at\<close> throws when there is none.\<close>

fun quoted :: "string \<Rightarrow> string \<Rightarrow> cpp_error + string \<times> string" where
  "quoted operand [] = Inl OutOfRange"
| "quoted operand (c # cs) = (if c = CHR 0x22 then Inr (operand @ [c], cs) else quoted (operand @ [c]) cs)"

text \<open>A closing parenthesis: operators move to the output until the opening one, which is dropped.  Reading the top of an
  empty stack is undefined.\<close>

fun close_paren :: "string list \<Rightarrow> string list \<Rightarrow> cpp_error + string list \<times> string list" where
  "close_paren postfix [] = Inl Undefined"
| "close_paren postfix (t # operators) =
    (if t = ''('' then Inr (postfix, operators) else close_paren (postfix @ [t]) operators)"

text \<open>An operator: those on the stack over which it does not take precedence move to the output first.\<close>

fun reduce_operators :: "string \<Rightarrow> string list \<Rightarrow> string list \<Rightarrow> string list \<times> string list" where
  "reduce_operators op postfix [] = (postfix, [])"
| "reduce_operators op postfix (t # operators) =
    (if precedence op t \<or> t = ''('' then (postfix, t # operators) else reduce_operators op (postfix @ [t]) operators)"

definition push_operator :: "string \<Rightarrow> string list \<Rightarrow> string list \<Rightarrow> string list \<times> string list" where
  "push_operator op postfix operators =
    (let (postfix, operators) = reduce_operators op postfix operators in (postfix, op # operators))"

text \<open>The operator that starts with \<open>c\<close>, and what follows it: \<^verbatim>\<open><\<close> and \<^verbatim>\<open>>\<close> look at the next character, which must exist.\<close>

definition read_operator :: "char \<Rightarrow> string \<Rightarrow> cpp_error + string \<times> string" where
  "read_operator c cs =
    (if c = CHR ''<'' then
       (case cs of
          [] \<Rightarrow> Inl OutOfRange
        | d # ds \<Rightarrow> if d = CHR ''='' \<or> d = CHR ''>'' then Inr ([c, d], ds) else Inr ([c], cs))
     else if c = CHR ''>'' then
       (case cs of [] \<Rightarrow> Inl OutOfRange | d # ds \<Rightarrow> if d = CHR ''='' then Inr ([c, d], ds) else Inr ([c], cs))
     else if c = CHR ''='' \<or> c = CHR ''&'' \<or> c = CHR ''|'' then Inr ([c], cs)
     else Inr ([], cs))"

lemma quoted_length: "quoted operand cs = Inr (s, rest) \<Longrightarrow> length rest < length cs"
  by (induction cs arbitrary: operand) (auto split: if_splits intro: less_SucI)

lemma read_operator_length: "read_operator c cs = Inr (op, rest) \<Longrightarrow> length rest \<le> length cs"
  by (auto simp: read_operator_def split: if_splits list.splits)

function (sequential) scan :: "string list \<Rightarrow> string list \<Rightarrow> string \<Rightarrow> cpp_error + string list \<times> string list" where
  "scan postfix operators [] = Inr (postfix, operators)"
| "scan postfix operators (c # cs) =
    (if is_space c then scan postfix operators cs
     else if c = CHR 0x22 then
       (case quoted [c] cs of Inl e \<Rightarrow> Inl e | Inr (operand, rest) \<Rightarrow> scan (postfix @ [operand]) operators rest)
     else if is_digit c then
       scan (postfix @ [c # takeWhile is_digit cs]) operators (dropWhile is_digit cs)
     else if c = CHR ''('' then scan postfix (''('' # operators) cs
     else if c = CHR '')'' then
       (case close_paren postfix operators of Inl e \<Rightarrow> Inl e | Inr (postfix, operators) \<Rightarrow> scan postfix operators cs)
     else
       (case read_operator c cs of
          Inl e \<Rightarrow> Inl e
        | Inr (op, rest) \<Rightarrow>
            if op = [] then scan postfix operators rest
            else (let (postfix, operators) = push_operator op postfix operators in scan postfix operators rest)))"
  by pat_completeness auto

termination
  by (relation "measure (\<lambda>(postfix, operators, cs). length cs)")
    (auto dest: quoted_length read_operator_length simp: less_Suc_eq_le length_dropWhile_le)

declare scan.simps [simp del]

definition getPostfixedExpressionOf :: "string \<Rightarrow> cpp_error + string list" where
  "getPostfixedExpressionOf expr =
    (case scan [] [] expr of Inl e \<Rightarrow> Inl e | Inr (postfix, operators) \<Rightarrow> Inr (postfix @ operators))"

section \<open>Expression tree\<close>

text \<open>The structure \<^verbatim>\<open>TreeNode\<close>; \<open>Null\<close> is the null pointer.  The map \<^verbatim>\<open>fields\<close> belongs to the root only and is kept beside
  the tree.\<close>

datatype TreeNode = Null | Node string TreeNode TreeNode

text \<open>An operand loses its first and last character; \<^verbatim>\<open>substr\<close> clips the count, which wraps around for one character.\<close>

definition operand_root :: "string \<Rightarrow> string" where
  "operand_root element = take (length element - 2) (drop 1 element)"

fun tree_step :: "string \<Rightarrow> TreeNode list \<times> (string \<times> bool) list \<Rightarrow> cpp_error + TreeNode list \<times> (string \<times> bool) list" where
  "tree_step element (treePtrs, fields) =
    (case element of
       [] \<Rightarrow> Inl OutOfRange
     | c # _ \<Rightarrow>
         if c = CHR 0x22 \<or> is_digit c then
           Inr (Node (operand_root element) Null Null # treePtrs,
                if c = CHR 0x22 then std_insert (operand_root element) False fields else fields)
         else
           (case treePtrs of
              r # l # rest \<Rightarrow> Inr (Node element l r # rest, fields)
            | _ \<Rightarrow> Inl Undefined))"

fun build_tree :: "string list \<Rightarrow> TreeNode list \<times> (string \<times> bool) list \<Rightarrow> cpp_error + TreeNode list \<times> (string \<times> bool) list" where
  "build_tree [] s = Inr s"
| "build_tree (element # postfix) s = (case tree_step element s of Inl e \<Rightarrow> Inl e | Inr s \<Rightarrow> build_tree postfix s)"

definition getExpressionTreeFrom :: "string list \<Rightarrow> cpp_error + TreeNode \<times> (string \<times> bool) list" where
  "getExpressionTreeFrom postfix =
    (case build_tree postfix ([], []) of
       Inl e \<Rightarrow> Inl e
     | Inr ([], fields) \<Rightarrow> Inl Undefined
     | Inr (rootNode # _, fields) \<Rightarrow> Inr (rootNode, fields))"

definition markExistingIndexes :: "(string \<times> string) list \<Rightarrow> (string \<times> bool) list \<Rightarrow> (string \<times> bool) list" where
  "markExistingIndexes indexes fields = map (\<lambda>(f, _). (f, map_of indexes f \<noteq> None)) fields"

section \<open>Specification\<close>

datatype expr = Str string | Num string | Bin string expr expr

definition comparisons :: "string set" where
  "comparisons = {''='', ''<'', ''>'', ''<='', ''>='', ''<>''}"

definition level :: "string \<Rightarrow> nat" where
  "level op = (if op = ''|'' then 1 else if op = ''&'' then 2 else 3)"

fun strength :: "expr \<Rightarrow> nat" where
  "strength (Bin op l r) = level op"
| "strength _ = 4"

text \<open>Expressions that can be written down: no quotation mark in a string, a number has digits, known operators.\<close>

fun expr_ok :: "expr \<Rightarrow> bool" where
  "expr_ok (Str s) \<longleftrightarrow> CHR 0x22 \<notin> set s"
| "expr_ok (Num s) \<longleftrightarrow> s \<noteq> [] \<and> list_all is_digit s"
| "expr_ok (Bin op l r) \<longleftrightarrow> op \<in> comparisons \<union> {''&'', ''|''} \<and> expr_ok l \<and> expr_ok r"

text \<open>Printing, with the white space \<open>sp\<close> after every token; operators associate to the left.\<close>

definition in_parens :: "string \<Rightarrow> bool \<Rightarrow> string \<Rightarrow> string" where
  "in_parens sp b t = (if b then ''('' @ sp @ t @ '')'' @ sp else t)"

fun print_expr :: "string \<Rightarrow> expr \<Rightarrow> string" where
  "print_expr sp (Str s) = CHR 0x22 # s @ [CHR 0x22] @ sp"
| "print_expr sp (Num s) = s @ sp"
| "print_expr sp (Bin op l r) =
    in_parens sp (strength l < level op) (print_expr sp l) @ op @ sp @ in_parens sp (strength r \<le> level op) (print_expr sp r)"

fun postfix_of :: "expr \<Rightarrow> string list" where
  "postfix_of (Str s) = [CHR 0x22 # s @ [CHR 0x22]]"
| "postfix_of (Num s) = [s]"
| "postfix_of (Bin op l r) = postfix_of l @ postfix_of r @ [op]"

fun tree_of :: "expr \<Rightarrow> TreeNode" where
  "tree_of (Str s) = Node s Null Null"
| "tree_of (Num s) = Node (operand_root s) Null Null"
| "tree_of (Bin op l r) = Node op (tree_of l) (tree_of r)"

fun field_names :: "expr \<Rightarrow> string set" where
  "field_names (Str s) = {s}"
| "field_names (Num s) = {}"
| "field_names (Bin op l r) = field_names l \<union> field_names r"

section \<open>The scanner on printed expressions\<close>

text \<open>The operators that stay on the stack below an expression of strength \<open>n\<close>.\<close>

definition below :: "nat \<Rightarrow> string list \<Rightarrow> bool" where
  "below n operators \<longleftrightarrow> (case operators of [] \<Rightarrow> True | t # _ \<Rightarrow> t = ''('' \<or> level t < n)"

lemma precedence_level:
  "a \<in> comparisons \<union> {''&'', ''|''} \<Longrightarrow> b \<in> comparisons \<union> {''&'', ''|''} \<Longrightarrow> precedence a b \<longleftrightarrow> level b < level a"
  by (auto simp: precedence_def level_def comparisons_def)

definition operators :: "string set" where
  "operators = comparisons \<union> {''&'', ''|''}"

lemma reduce_all:
  "op \<in> operators \<Longrightarrow> set s \<subseteq> operators \<Longrightarrow> \<forall>t \<in> set s. level op \<le> level t \<Longrightarrow> below (level op) ops \<Longrightarrow> set ops \<subseteq> insert ''('' operators \<Longrightarrow>
   reduce_operators op postfix (s @ ops) = (postfix @ s, ops)"
proof (induction s arbitrary: postfix)
  case Nil
  then show ?case using precedence_level [of op] by (cases ops) (auto simp: below_def operators_def)
next
  case (Cons t s)
  have "t \<noteq> ''(''" using Cons.prems(2) by (auto simp: operators_def comparisons_def)
  moreover have "\<not> precedence op t" using Cons.prems(1,2,3) precedence_level [of op t] by (auto simp: operators_def)
  ultimately show ?case using Cons by simp
qed

lemma close_paren_all:
  "''('' \<notin> set s \<Longrightarrow> close_paren postfix (s @ ''('' # ops) = Inr (postfix @ s, ops)"
  by (induction s arbitrary: postfix) auto

lemma scan_space: "list_all is_space sp \<Longrightarrow> scan postfix ops (sp @ rest) = scan postfix ops rest"
  by (induction sp) (auto simp: scan.simps)

lemma quoted_string: "CHR 0x22 \<notin> set s \<Longrightarrow> quoted operand (s @ CHR 0x22 # rest) = Inr (operand @ s @ [CHR 0x22], rest)"
  by (induction s arbitrary: operand) auto

definition stops_number :: "string \<Rightarrow> bool" where
  "stops_number rest \<longleftrightarrow> (case rest of [] \<Rightarrow> True | c # _ \<Rightarrow> \<not> is_digit c)"

lemma digit_kinds:
  "is_digit c \<Longrightarrow> \<not> is_space c \<and> c \<noteq> CHR 0x22 \<and> c \<noteq> CHR ''('' \<and> c \<noteq> CHR '')''"
  by (auto simp: is_digit_def is_space_def)

lemma scan_number:
  assumes "s \<noteq> []" and "list_all is_digit s" and "stops_number rest"
  shows "scan postfix ops (s @ rest) = scan (postfix @ [s]) ops rest"
proof -
  obtain c cs where s: "s = c # cs" using assms(1) by (cases s) auto
  have "takeWhile is_digit (cs @ rest) = cs" "dropWhile is_digit (cs @ rest) = rest"
    using assms(2,3) by (auto simp: s stops_number_def list_all_iff takeWhile_append dropWhile_append split: list.splits)
  then show ?thesis using assms(2) digit_kinds [of c] by (simp add: s scan.simps(2))
qed

lemma scan_string:
  "CHR 0x22 \<notin> set s \<Longrightarrow> scan postfix ops (CHR 0x22 # s @ CHR 0x22 # rest) = scan (postfix @ [CHR 0x22 # s @ [CHR 0x22]]) ops rest"
  by (simp add: quoted_string is_space_def scan.simps(2))

lemma scan_open: "scan postfix ops (CHR ''('' # rest) = scan postfix (''('' # ops) rest"
  by (simp add: is_space_def is_digit_def scan.simps(2))

lemma scan_close:
  "''('' \<notin> set s \<Longrightarrow> scan postfix (s @ ''('' # ops) (CHR '')'' # rest) = scan (postfix @ s) ops rest"
  by (simp add: is_space_def is_digit_def close_paren_all scan.simps(2))

text \<open>What follows an operator does not extend it.\<close>

definition stops_operator :: "string \<Rightarrow> bool" where
  "stops_operator rest \<longleftrightarrow> (case rest of [] \<Rightarrow> False | c # _ \<Rightarrow> c \<noteq> CHR ''='' \<and> c \<noteq> CHR ''>'')"

lemma operator_cases:
  assumes "op \<in> operators"
  obtains "op = ''=''" | "op = ''<''" | "op = ''>''" | "op = ''<=''" | "op = ''>=''" | "op = ''<>''" | "op = ''&''" | "op = ''|''"
  using assms unfolding operators_def comparisons_def by blast

lemma operator_start:
  assumes "op \<in> operators"
  shows "op \<noteq> []" "\<not> is_space (hd op)" "\<not> is_digit (hd op)" "hd op \<notin> {CHR 0x22, CHR ''('', CHR '')''}"
  using assms by (cases rule: operator_cases; simp add: is_space_def is_digit_def)+

lemma read_operator_text:
  assumes "op \<in> operators" and "stops_operator rest"
  shows "read_operator (hd op) (tl op @ rest) = Inr (op, rest)"
proof -
  obtain d ds where r: "rest = d # ds" "d \<noteq> CHR ''=''" "d \<noteq> CHR ''>''" using assms(2) by (cases rest) (auto simp: stops_operator_def)
  show ?thesis using assms(1) by (cases rule: operator_cases) (simp_all add: r read_operator_def)
qed

lemma scan_operator:
  assumes "op \<in> operators" and "stops_operator rest"
  shows "scan postfix ops (op @ rest) =
    (let (postfix, operators) = reduce_operators op postfix ops in scan postfix (op # operators) rest)"
proof -
  have split: "op @ rest = hd op # tl op @ rest" using operator_start(1) [OF assms(1)] by simp
  show ?thesis
    unfolding split using operator_start [OF assms(1)] read_operator_text [OF assms]
    by (simp add: scan.simps(2) push_operator_def split: prod.split)
qed

text \<open>Scanning a printed expression: the operands and some operators are output, the remaining operators \<open>s\<close> are on the
  stack, in an order in which they are output when something weaker follows.\<close>

definition scans_to :: "nat \<Rightarrow> string \<Rightarrow> string list \<Rightarrow> bool" where
  "scans_to n text out \<longleftrightarrow> (\<exists>p s. out = p @ s \<and> set s \<subseteq> operators \<and> (\<forall>t \<in> set s. n \<le> level t) \<and>
    (\<forall>postfix ops rest. below n ops \<longrightarrow> set ops \<subseteq> insert ''('' operators \<longrightarrow> stops_number rest \<longrightarrow>
      scan postfix ops (text @ rest) = scan (postfix @ p) (s @ ops) rest))"

lemma scans_toI:
  assumes "out = p @ s" and "set s \<subseteq> operators" and "\<And>t. t \<in> set s \<Longrightarrow> n \<le> level t"
    and "\<And>postfix ops rest. below n ops \<Longrightarrow> set ops \<subseteq> insert ''('' operators \<Longrightarrow> stops_number rest \<Longrightarrow>
      scan postfix ops (t @ rest) = scan (postfix @ p) (s @ ops) rest"
  shows "scans_to n t out"
  unfolding scans_to_def by (rule exI [of _ p], rule exI [of _ s]) (use assms in simp)

lemma scans_toE:
  assumes "scans_to n t out"
  obtains p s where "out = p @ s" "set s \<subseteq> operators" "\<And>t. t \<in> set s \<Longrightarrow> n \<le> level t"
    "\<And>postfix ops rest. below n ops \<Longrightarrow> set ops \<subseteq> insert ''('' operators \<Longrightarrow> stops_number rest \<Longrightarrow>
      scan postfix ops (t @ rest) = scan (postfix @ p) (s @ ops) rest"
  using assms unfolding scans_to_def
proof (elim exE conjE)
  fix p s
  assume a: "out = p @ s" "set s \<subseteq> operators" "\<forall>t \<in> set s. n \<le> level t"
    and b: "\<forall>postfix ops rest. below n ops \<longrightarrow> set ops \<subseteq> insert ''('' operators \<longrightarrow> stops_number rest \<longrightarrow>
      scan postfix ops (t @ rest) = scan (postfix @ p) (s @ ops) rest"
  show thesis by (rule that [OF a(1,2)]) (use a(3) b in blast)+
qed

lemma below_mono: "below m ops \<Longrightarrow> m \<le> n \<Longrightarrow> below n ops"
  by (auto simp: below_def split: list.splits)

lemma scans_to_operand:
  assumes "list_all is_space sp"
    and "\<And>postfix ops rest. stops_number rest \<Longrightarrow> scan postfix ops (t @ rest) = scan (postfix @ [out]) ops rest"
  shows "scans_to n (t @ sp) [out]"
proof -
  have "stops_number (sp @ rest)" if "stops_number rest" for rest
    using that assms(1) digit_kinds by (cases sp) (auto simp: stops_number_def)
  then show ?thesis
    by (intro scans_toI [where p = "[out]" and s = "[]"]) (simp_all add: assms scan_space)
qed

lemma scans_to_mono: "scans_to n t out \<Longrightarrow> m \<le> n \<Longrightarrow> scans_to m t out"
  by (erule scans_toE, rule scans_toI) (assumption+, blast intro: order_trans, metis below_mono)

lemma scans_to_parens:
  assumes "list_all is_space sp" and "scans_to n t out"
  shows "scans_to m (''('' @ sp @ t @ '')'' @ sp) out"
proof -
  obtain p s where o: "out = p @ s" "set s \<subseteq> operators" and
    sc: "\<And>postfix ops rest. below n ops \<Longrightarrow> set ops \<subseteq> insert ''('' operators \<Longrightarrow> stops_number rest \<Longrightarrow>
      scan postfix ops (t @ rest) = scan (postfix @ p) (s @ ops) rest"
    using assms(2) by (rule scans_toE) blast
  have np: "''('' \<notin> set s" using o(2) by (auto simp: operators_def comparisons_def)
  have "scan postfix ops ((''('' @ sp @ t @ '')'' @ sp) @ rest) = scan (postfix @ out) ops rest"
    if "set ops \<subseteq> insert ''('' operators" for postfix ops rest
    using that sc [of "''('' # ops" "CHR '')'' # sp @ rest" postfix] scan_close [OF np] assms(1)
    by (auto simp: scan_open scan_space o(1) below_def stops_number_def is_digit_def)
  then show ?thesis by (intro scans_toI [where p = out and s = "[]"]) auto
qed

lemma print_stops_operator:
  "expr_ok e \<Longrightarrow> list_all is_space sp \<Longrightarrow> stops_operator (sp @ in_parens sp b (print_expr sp e) @ rest)"
proof (induction e arbitrary: b rest)
  case (Num s)
  then show ?case by (cases sp; cases s) (auto simp: stops_operator_def in_parens_def is_digit_def is_space_def)
next
  case (Bin op l r)
  show ?case using Bin.IH(1) [of "strength l < level op"] Bin.prems
    by (cases sp) (auto simp: stops_operator_def in_parens_def is_space_def)
qed (cases sp, auto simp: stops_operator_def in_parens_def is_space_def)

lemma scans_to_expr:
  "expr_ok e \<Longrightarrow> list_all is_space sp \<Longrightarrow> scans_to (strength e) (print_expr sp e) (postfix_of e)"
proof (induction e)
  case (Str s)
  then show ?case using scans_to_operand [of sp "CHR 0x22 # s @ [CHR 0x22]"] scan_string [of s] by simp
next
  case (Num s)
  then show ?case using scans_to_operand [of sp s s] scan_number [of s] by simp
next
  case (Bin op l r)
  have op: "op \<in> operators" using Bin.prems by (simp add: operators_def)
  have sub: "scans_to (if b then n else strength e) (in_parens sp b (print_expr sp e)) (postfix_of e)"
    if "scans_to (strength e) (print_expr sp e) (postfix_of e)" for b n e
    using that scans_to_parens [OF Bin.prems(2)] by (simp add: in_parens_def)
  have "scans_to (level op) (in_parens sp (strength l < level op) (print_expr sp l)) (postfix_of l)"
    by (rule scans_to_mono [OF sub [OF Bin.IH(1), where n = "level op"]]) (use Bin.prems in auto)
  then obtain p s where l: "postfix_of l = p @ s" "set s \<subseteq> operators" "\<And>t. t \<in> set s \<Longrightarrow> level op \<le> level t"
    "\<And>postfix ops rest. below (level op) ops \<Longrightarrow> set ops \<subseteq> insert ''('' operators \<Longrightarrow> stops_number rest \<Longrightarrow>
      scan postfix ops (in_parens sp (strength l < level op) (print_expr sp l) @ rest) = scan (postfix @ p) (s @ ops) rest"
    by (rule scans_toE) blast
  have "scans_to (Suc (level op)) (in_parens sp (strength r \<le> level op) (print_expr sp r)) (postfix_of r)"
    by (rule scans_to_mono [OF sub [OF Bin.IH(2), where n = "Suc (level op)"]]) (use Bin.prems in auto)
  then obtain p' s' where r: "postfix_of r = p' @ s'" "set s' \<subseteq> operators" "\<And>t. t \<in> set s' \<Longrightarrow> Suc (level op) \<le> level t"
    "\<And>postfix ops rest. below (Suc (level op)) ops \<Longrightarrow> set ops \<subseteq> insert ''('' operators \<Longrightarrow> stops_number rest \<Longrightarrow>
      scan postfix ops (in_parens sp (strength r \<le> level op) (print_expr sp r) @ rest) = scan (postfix @ p') (s' @ ops) rest"
    by (rule scans_toE) blast
  have "scan postfix ops (print_expr sp (Bin op l r) @ rest) = scan (postfix @ (p @ s @ p')) ((s' @ [op]) @ ops) rest"
    if "below (level op) ops" "set ops \<subseteq> insert ''('' operators" "stops_number rest" for postfix ops rest
  proof -
    let ?r = "in_parens sp (strength r \<le> level op) (print_expr sp r) @ rest"
    have "stops_number (op @ sp @ ?r)" using op by (auto simp: operators_def comparisons_def stops_number_def is_digit_def)
    then have "scan postfix ops (print_expr sp (Bin op l r) @ rest) = scan (postfix @ p) (s @ ops) (op @ sp @ ?r)"
      using l(4) [OF that(1,2)] by simp
    also have "\<dots> = scan (postfix @ p @ s) (op # ops) (sp @ ?r)"
      using op print_stops_operator [of r sp "strength r \<le> level op" rest] Bin.prems l(2,3) that
      by (subst scan_operator) (auto simp: reduce_all)
    also have "\<dots> = scan (postfix @ p @ s @ p') (s' @ op # ops) rest"
      using r(4) [of "op # ops" rest] op that by (simp add: scan_space [OF Bin.prems(2)] below_def)
    finally show ?thesis by simp
  qed
  then show ?case
    by (intro scans_toI [where p = "p @ s @ p'" and s = "s' @ [op]"]) (use op l(1) r(1,2) r(3) [THEN Suc_leD] in auto)
qed

lemma postfix_printed:
  assumes "expr_ok e" and "list_all is_space sp"
  shows "getPostfixedExpressionOf (sp @ print_expr sp e) = Inr (postfix_of e)"
proof -
  obtain p s where *: "postfix_of e = p @ s"
    "\<And>postfix ops rest. below (strength e) ops \<Longrightarrow> set ops \<subseteq> insert ''('' operators \<Longrightarrow> stops_number rest \<Longrightarrow>
      scan postfix ops (print_expr sp e @ rest) = scan (postfix @ p) (s @ ops) rest"
    using scans_to_expr [OF assms] by (rule scans_toE) blast
  have "scan [] [] (print_expr sp e) = Inr (p, s)" using *(2) [of "[]" "[]" "[]"] by (simp add: below_def stops_number_def scan.simps(1))
  then show ?thesis using *(1) by (simp add: getPostfixedExpressionOf_def scan_space [OF assms(2)])
qed

section \<open>The tree of a printed expression\<close>

lemma operand_root_string: "operand_root (CHR 0x22 # s @ [CHR 0x22]) = s"
  by (simp add: operand_root_def)

lemma fst_std_insert: "fst ` set (std_insert k v m) = insert k (fst ` set m)"
  by (auto simp: std_insert_def map_of_eq_None_iff)

lemma std_insert_values: "\<forall>(f, b) \<in> set m. b = v \<Longrightarrow> \<forall>(f, b) \<in> set (std_insert k v m). b = v"
  by (auto simp: std_insert_def)

text \<open>The stack grows by the tree of the expression, and the map of fields by its quoted strings, all unmarked.\<close>

definition fields_ok :: "string set \<Rightarrow> (string \<times> bool) list \<Rightarrow> bool" where
  "fields_ok fs m \<longleftrightarrow> fst ` set m = fs \<and> distinct (map fst m) \<and> (\<forall>(f, b) \<in> set m. b = False)"

lemma build_tree_append:
  "build_tree (xs @ ys) s = (case build_tree xs s of Inl e \<Rightarrow> Inl e | Inr s \<Rightarrow> build_tree ys s)"
  by (induction xs arbitrary: s) (auto split: sum.splits)

lemma build_tree_expr:
  "expr_ok e \<Longrightarrow> fields_ok fs m \<Longrightarrow>
   \<exists>m'. build_tree (postfix_of e) (ts, m) = Inr (tree_of e # ts, m') \<and> fields_ok (fs \<union> field_names e) m'"
proof (induction e arbitrary: ts fs m)
  case (Str s)
  then show ?case
    using std_insert_values [of m False s]
    by (auto simp: operand_root_string fields_ok_def fst_std_insert distinct_std_insert)
next
  case (Num s)
  then show ?case by (cases s) (auto simp: is_digit_def)
next
  case (Bin op l r)
  obtain m1 where l: "build_tree (postfix_of l) (ts, m) = Inr (tree_of l # ts, m1)" "fields_ok (fs \<union> field_names l) m1"
    using Bin.IH(1) [of fs m ts] Bin.prems by auto
  obtain m2 where r: "build_tree (postfix_of r) (tree_of l # ts, m1) = Inr (tree_of r # tree_of l # ts, m2)"
      "fields_ok (fs \<union> field_names l \<union> field_names r) m2"
    using Bin.IH(2) [OF _ l(2), of "tree_of l # ts"] Bin.prems by auto
  have "tree_step op (tree_of r # tree_of l # ts, m2) = Inr (Node op (tree_of l) (tree_of r) # ts, m2)"
    using Bin.prems by (auto simp: comparisons_def is_digit_def)
  then show ?case using l(1) r by (simp add: build_tree_append Un_assoc del: tree_step.simps)
qed

section \<open>Postfix text as a typed program\<close>

text \<open>The depth of the stack after the elements of a postfix text, when every operator finds its two operands.\<close>

definition is_operand :: "string \<Rightarrow> bool" where
  "is_operand element \<longleftrightarrow> element \<noteq> [] \<and> (hd element = CHR 0x22 \<or> is_digit (hd element))"

fun depth_after :: "string list \<Rightarrow> nat \<Rightarrow> nat option" where
  "depth_after [] n = Some n"
| "depth_after (element # postfix) n =
    (if is_operand element then depth_after postfix (Suc n)
     else if 2 \<le> n then depth_after postfix (n - 1) else None)"

text \<open>Trees whose inner nodes have two children and carry no operand.\<close>

fun full_tree :: "TreeNode \<Rightarrow> bool" where
  "full_tree Null \<longleftrightarrow> False"
| "full_tree (Node root l r) \<longleftrightarrow> (l = Null \<and> r = Null) \<or> (root \<noteq> [] \<and> \<not> is_operand root \<and> full_tree l \<and> full_tree r)"

text \<open>The scanner hands no empty element on.\<close>

lemma quoted_nonempty: "quoted operand cs = Inr (s, rest) \<Longrightarrow> operand \<noteq> [] \<Longrightarrow> s \<noteq> []"
  by (induction cs arbitrary: operand) (auto split: if_splits)

lemma close_paren_set: "close_paren postfix ops = Inr (postfix', ops') \<Longrightarrow> set postfix' \<union> set ops' \<subseteq> set postfix \<union> set ops"
  by (induction postfix ops rule: close_paren.induct) (auto split: if_splits)

lemma reduce_operators_set:
  "reduce_operators op postfix ops = (postfix', ops') \<Longrightarrow> set postfix' \<union> set ops' \<subseteq> set postfix \<union> set ops"
  by (induction op postfix ops rule: reduce_operators.induct) (auto split: if_splits)

lemma push_operator_set:
  "push_operator op postfix ops = (postfix', ops') \<Longrightarrow> set postfix' \<union> set ops' \<subseteq> insert op (set postfix \<union> set ops)"
  by (auto simp: push_operator_def split: prod.splits dest!: reduce_operators_set)

lemma scan_nonempty:
  "scan postfix ops cs = Inr (postfix', ops') \<Longrightarrow> [] \<notin> set postfix \<union> set ops \<Longrightarrow> [] \<notin> set postfix' \<union> set ops'"
proof (induction postfix ops cs rule: scan.induct)
  case (2 postfix ops c cs)
  note IH = 2(1-7) and s = 2(8) [unfolded scan.simps(2)] and ne = 2(9)
  consider "is_space c" | "\<not> is_space c" "c = CHR 0x22" | "\<not> is_space c" "c \<noteq> CHR 0x22" "is_digit c"
    | "\<not> is_space c" "c \<noteq> CHR 0x22" "\<not> is_digit c" "c = CHR ''(''"
    | "\<not> is_space c" "c \<noteq> CHR 0x22" "\<not> is_digit c" "c \<noteq> CHR ''(''" "c = CHR '')''"
    | "\<not> is_space c" "c \<noteq> CHR 0x22" "\<not> is_digit c" "c \<noteq> CHR ''(''" "c \<noteq> CHR '')''" by blast
  then show ?case
  proof cases
    case 1
    then show ?thesis using IH(1) s ne by simp
  next
    case k: 2
    then show ?thesis using IH(2) [OF k _ refl] s ne quoted_nonempty [of "[c]" cs] by (auto split: sum.splits prod.splits)
  next
    case 3
    then show ?thesis using IH(3) s ne by simp
  next
    case 4
    then show ?thesis using IH(4) s ne by simp
  next
    case k: 5
    then obtain p' o' where c: "close_paren postfix ops = Inr (p', o')" "scan p' o' cs = Inr (postfix', ops')"
      using s by (auto split: sum.splits prod.splits)
    then show ?thesis using IH(5) [OF k c(1) refl c(2)] close_paren_set [OF c(1)] ne by blast
  next
    case k: 6
    then show ?thesis using s ne IH(6,7) push_operator_set by (fastforce split: sum.splits prod.splits if_splits)
  qed
qed (simp add: scan.simps)

lemma postfix_nonempty: "getPostfixedExpressionOf text = Inr postfix \<Longrightarrow> [] \<notin> set postfix"
  using scan_nonempty [of "[]" "[]"] by (fastforce simp: getPostfixedExpressionOf_def split: sum.splits)

text \<open>One element: the depth tells whether the step succeeds, and it keeps the trees full.\<close>

lemma tree_step_typed:
  assumes "element \<noteq> []"
  shows "is_operand element \<Longrightarrow> \<exists>t m'. tree_step element (ts, m) = Inr (t # ts, m') \<and> full_tree t"
    and "\<not> is_operand element \<Longrightarrow> length ts < 2 \<Longrightarrow> tree_step element (ts, m) = Inl Undefined"
    and "\<not> is_operand element \<Longrightarrow> ts = r # l # rest \<Longrightarrow> list_all full_tree ts \<Longrightarrow>
      \<exists>t. tree_step element (ts, m) = Inr (t # rest, m) \<and> full_tree t"
  using assms by (auto simp: is_operand_def neq_Nil_conv split: list.splits)

lemma build_tree_typed:
  assumes "[] \<notin> set postfix" and "list_all full_tree ts"
  shows "(case depth_after postfix (length ts) of
      None \<Rightarrow> build_tree postfix (ts, m) = Inl Undefined
    | Some n \<Rightarrow> \<exists>ts' m'. build_tree postfix (ts, m) = Inr (ts', m') \<and> length ts' = n \<and> list_all full_tree ts')"
  using assms
proof (induction postfix arbitrary: ts m)
  case (Cons element postfix)
  have e: "element \<noteq> []" "[] \<notin> set postfix" using Cons.prems(1) by auto
  show ?case
  proof (cases "is_operand element")
    case True
    then obtain t m' where s: "tree_step element (ts, m) = Inr (t # ts, m')" "full_tree t" using tree_step_typed(1) [OF e(1)] by blast
    have "build_tree (element # postfix) (ts, m) = build_tree postfix (t # ts, m')" using s(1) by (simp del: tree_step.simps)
    moreover have "depth_after (element # postfix) (length ts) = depth_after postfix (length (t # ts))" using True by simp
    moreover have "list_all full_tree (t # ts)" using Cons.prems(2) s(2) by simp
    ultimately show ?thesis using Cons.IH [OF e(2), of "t # ts" m'] by (simp only:)
  next
    case False
    show ?thesis
    proof (cases "length ts < 2")
      case True
      then show ?thesis using tree_step_typed(2) [OF e(1) False True, of m] False by (simp del: tree_step.simps)
    next
      case long: False
      then obtain r l rest where ts: "ts = r # l # rest" by (metis One_nat_def Suc_1 length_Suc_conv linorder_not_less Suc_le_length_iff)
      obtain t where s: "tree_step element (ts, m) = Inr (t # rest, m)" "full_tree t"
        using tree_step_typed(3) [OF e(1) False ts Cons.prems(2)] by blast
      have n: "length ts - 1 = length (t # rest)" by (simp add: ts)
      have f: "list_all full_tree (t # rest)" using Cons.prems(2) s(2) by (simp add: ts)
      have "depth_after (element # postfix) (length ts) = depth_after postfix (length (t # rest))" using False long by (simp only: depth_after.simps n) simp
      moreover have "build_tree (element # postfix) (ts, m) = build_tree postfix (t # rest, m)" using s(1) by (simp del: tree_step.simps)
      ultimately show ?thesis using Cons.IH [OF e(2) f, of m] by (simp only:)
    qed
  qed
qed simp

section \<open>Properties\<close>

text \<open>Claim (C25): every filter expression is read as it is meant.  For any nesting of comparisons, conjunctions and
  disjunctions over quoted strings and numbers, written with parentheses only where precedence and left associativity
  require them and with any white space between the tokens, the scanner and the tree builder return exactly the tree of
  the expression, and every quoted string appears once in the map of fields, marked with whether an index of that name
  exists.  (A number is represented without its first and last digit.)\<close>

theorem query_parsed:
  assumes "expr_ok e" and "list_all is_space sp"
  shows "\<exists>postfix fields. getPostfixedExpressionOf (sp @ print_expr sp e) = Inr postfix \<and>
    getExpressionTreeFrom postfix = Inr (tree_of e, fields) \<and>
    distinct (map fst (markExistingIndexes indexes fields)) \<and>
    (\<forall>f. map_of (markExistingIndexes indexes fields) f = (if f \<in> field_names e then Some (map_of indexes f \<noteq> None) else None))"
proof -
  obtain m where m: "build_tree (postfix_of e) ([], []) = Inr ([tree_of e], m)" "fields_ok (field_names e) m"
    using build_tree_expr [OF assms(1), of "{}" "[]" "[]"] by (auto simp: fields_ok_def)
  have d: "map fst (markExistingIndexes indexes m) = map fst m" by (simp add: markExistingIndexes_def case_prod_unfold)
  have "map_of (markExistingIndexes indexes m) f = (if f \<in> fst ` set m then Some (map_of indexes f \<noteq> None) else None)" for f
    by (induction m) (auto simp: markExistingIndexes_def)
  then show ?thesis
    using m by (intro exI [of _ "postfix_of e"] exI [of _ m])
      (auto simp: postfix_printed [OF assms] getExpressionTreeFrom_def fields_ok_def d)
qed

theorem query_parsed_witness:
  "\<exists>postfix fields. getPostfixedExpressionOf (print_expr [] (Bin ''&'' (Bin ''|'' (Bin ''<='' (Str ''age'') (Str ''7'')) (Num ''123'')) (Str ''b''))) = Inr postfix \<and>
     getExpressionTreeFrom postfix = Inr
       (Node ''&'' (Node ''|'' (Node ''<='' (Node ''age'' Null Null) (Node ''7'' Null Null)) (Node ''2'' Null Null)) (Node ''b'' Null Null), fields) \<and>
     map_of (markExistingIndexes [(''age'', ''h'')] fields) ''age'' = Some True"
  using query_parsed [of "Bin ''&'' (Bin ''|'' (Bin ''<='' (Str ''age'') (Str ''7'')) (Num ''123'')) (Str ''b'')" "[]" "[(''age'', ''h'')]"]
  by (auto simp: comparisons_def is_digit_def operand_root_def)

text \<open>Claim (C38): no filter text gets the tree builder into a wrong state unnoticed.  For every text that is scanned, typing the postfix form by
  the depth of the stack decides what the builder does: it reads the top of an empty stack exactly when an operator is short of an
  operand or nothing is left at the end, never fails otherwise, and every tree it returns is full, with operators at the inner nodes
  only.\<close>

theorem tree_typed:
  assumes "getPostfixedExpressionOf text = Inr postfix"
  shows "(case depth_after postfix 0 of
      Some (Suc n) \<Rightarrow> \<exists>t fields. getExpressionTreeFrom postfix = Inr (t, fields) \<and> full_tree t
    | _ \<Rightarrow> getExpressionTreeFrom postfix = Inl Undefined)"
proof -
  note b = build_tree_typed [OF postfix_nonempty [OF assms], of "[]" "[]"]
  show ?thesis
  proof (cases "depth_after postfix 0")
    case None
    then show ?thesis using b by (simp add: getExpressionTreeFrom_def)
  next
    case (Some n)
    then obtain ts m where t: "build_tree postfix ([], []) = Inr (ts, m)" "length ts = n" "list_all full_tree ts" using b by auto
    then show ?thesis using Some by (cases ts) (auto simp: getExpressionTreeFrom_def)
  qed
qed

theorem tree_typed_witness:
  "getExpressionTreeFrom [''1'', ''&''] = Inl Undefined \<and> getPostfixedExpressionOf ''1 &'' = Inr [''1'', ''&'']"
proof -
  have p: "getPostfixedExpressionOf ''1 &'' = Inr [''1'', ''&'']" by code_simp
  have "depth_after [''1'', ''&''] 0 = None" by code_simp
  then show ?thesis using tree_typed [OF p] p by simp
qed

end
