(* ===== verification/Json_Order.thy ===== *)
theory Json_Order
  imports Transaction Ordered_Map
begin

text \<open>
  The order of JSON values (\<^verbatim>\<open>operator<\<close> of \<^verbatim>\<open>nlohmann/json.hpp\<close>), which the storage node uses to sort documents and to
  keep sets of them.  Values of different types are ordered by type, arrays and objects lexicographically.  An object is the
  list of its entries in the order of a \<^verbatim>\<open>std::map\<close>, that is by key.  The order is shown to be linear by an order-preserving
  code of values as lists of integers, so that JSON values become an instance of the class of linear orders.
\<close>

section \<open>Comparison\<close>

text \<open>The rank of a type.\<close>

fun type_order :: "json \<Rightarrow> nat" where
  "type_order JNull = 0"
| "type_order (JBool _) = 1"
| "type_order (JInt _) = 2"
| "type_order (JObject _) = 3"
| "type_order (JArray _) = 4"
| "type_order (JString _) = 5"

function (sequential) json_less :: "json \<Rightarrow> json \<Rightarrow> bool"
  and less_array :: "json list \<Rightarrow> json list \<Rightarrow> bool"
  and less_object :: "(string \<times> json) list \<Rightarrow> (string \<times> json) list \<Rightarrow> bool" where
  "json_less (JArray xs) (JArray ys) = less_array xs ys"
| "json_less (JObject m) (JObject n) = less_object m n"
| "json_less (JString s) (JString t) = (s < t)"
| "json_less (JBool a) (JBool b) = (\<not> a \<and> b)"
| "json_less (JInt i) (JInt j) = (i < j)"
| "json_less a b = (type_order a < type_order b)"
| "less_array xs [] = False"
| "less_array [] (y # ys) = True"
| "less_array (x # xs) (y # ys) = (json_less x y \<or> \<not> json_less y x \<and> less_array xs ys)"
| "less_object m [] = False"
| "less_object [] (q # n) = True"
| "less_object ((k, v) # m) ((l, w) # n) =
    ((k < l \<or> \<not> l < k \<and> json_less v w) \<or> \<not> (l < k \<or> \<not> k < l \<and> json_less w v) \<and> less_object m n)"
  by pat_completeness auto

termination
  by (relation "measure (\<lambda>x. case x of Inl (a, b) \<Rightarrow> size a + size b
      | Inr (Inl (xs, ys)) \<Rightarrow> size_list size xs + size_list size ys
      | Inr (Inr (m, n)) \<Rightarrow> size_list (size_prod (\<lambda>_. 0) size) m + size_list (size_prod (\<lambda>_. 0) size) n)") auto

section \<open>An order-preserving code\<close>

definition string_code :: "string \<Rightarrow> int list" where
  "string_code s = map (\<lambda>c. 1 + int (of_char c)) s @ [0]"

fun code :: "json \<Rightarrow> int list" where
  "code JNull = [0]"
| "code (JBool b) = [1, if b then 1 else 0]"
| "code (JInt i) = [2, i]"
| "code (JObject m) = 3 # concat (map (\<lambda>(k, v). 1 # string_code k @ code v) m) @ [0]"
| "code (JArray xs) = 4 # concat (map (\<lambda>x. 1 # code x) xs) @ [0]"
| "code (JString s) = 5 # string_code s"

abbreviation array_code :: "json list \<Rightarrow> int list" where
  "array_code xs \<equiv> concat (map (\<lambda>x. 1 # code x) xs) @ [0]"

abbreviation object_code :: "(string \<times> json) list \<Rightarrow> int list" where
  "object_code m \<equiv> concat (map (\<lambda>(k, v). 1 # string_code k @ code v) m) @ [0]"

lemma string_code_less: "string_code s @ r < string_code t @ u \<longleftrightarrow> s < t \<or> s = t \<and> r < u"
proof (induction s arbitrary: t)
  case Nil
  then show ?case by (cases t) (simp_all add: string_code_def)
next
  case (Cons c s)
  then show ?case by (cases t) (auto simp: string_code_def less_char_def)
qed

lemma string_code_neq: "string_code s @ r = string_code t @ u \<longleftrightarrow> s = t \<and> r = u"
proof (induction s arbitrary: t)
  case Nil
  then show ?case by (cases t) (simp_all add: string_code_def)
next
  case (Cons c s)
  then show ?case by (cases t) (auto simp: string_code_def)
qed

text \<open>No code is a prefix of another, so that comparison of codes continues exactly on equal values.\<close>

lemma less_append_same [simp]: "xs @ r < xs @ s \<longleftrightarrow> r < (s :: int list)"
  by (induction xs) auto

lemma code_trichotomy:
  assumes "\<And>r s. code a @ r < code b @ s \<longleftrightarrow> json_less a b \<or> a = b \<and> r < s"
    and "\<And>r s. code b @ r < code a @ s \<longleftrightarrow> json_less b a \<or> b = a \<and> r < s"
  shows "\<not> json_less a b \<and> \<not> json_less b a \<longleftrightarrow> a = b"
proof -
  have "json_less a b \<or> a = b" if "code a = code b" using assms(1) [of "[]" "[0]"] less_append_same [of "code b" "[]" "[0]"] that by auto
  moreover have "json_less b a \<or> a = b" if "code a = code b" using assms(2) [of "[]" "[0]"] less_append_same [of "code b" "[]" "[0]"] that by auto
  ultimately show ?thesis using assms(1) [of "[]" "[]"] assms(2) [of "[]" "[]"] by (cases "code a" "code b" rule: linorder_cases) auto
qed

lemma code_null:
  "0 # r < code b @ s \<longleftrightarrow> 0 < type_order b \<or> b = JNull \<and> r < s" "code b @ s < 0 # r \<longleftrightarrow> b = JNull \<and> s < r"
  by (cases b; simp)+

lemma type_order_null: "type_order b = 0 \<longleftrightarrow> b = JNull"
  by (cases b) auto

lemma less_zero_code:
  "array_code xs @ r < 0 # s \<longleftrightarrow> xs = [] \<and> r < s" "object_code m @ r < 0 # s \<longleftrightarrow> m = [] \<and> r < s"
  by (cases xs; auto) (cases m; auto)

lemma code_less:
  "code a @ r < code b @ s \<longleftrightarrow> json_less a b \<or> a = b \<and> r < s"
  "array_code xs @ r' < array_code ys @ s' \<longleftrightarrow> less_array xs ys \<or> xs = ys \<and> r' < s'"
  "object_code m @ r'' < object_code n @ s'' \<longleftrightarrow> less_object m n \<or> m = n \<and> r'' < s''"
proof (induction a b and xs ys and m n arbitrary: r s and r' s' and r'' s'' rule: json_less_less_array_less_object.induct)
  case (9 x xs y ys)
  show ?case using code_trichotomy [OF 9(1,2)] 9 by auto
next
  case (12 k v m l w n)
  show ?case using code_trichotomy [OF 12(1,2)] 12 by (auto simp: string_code_less)
qed (use less_zero_code in \<open>auto simp: string_code_less code_null type_order_null\<close>)

lemma json_less_code: "json_less a b \<longleftrightarrow> code a < code b"
  using code_less(1) [of a "[]" b "[]"] by simp

lemma code_inject: "code a = code b \<longleftrightarrow> a = b"
  using code_trichotomy [OF code_less(1) code_less(1), of a b] json_less_code [of a b] json_less_code [of b a] by auto

instantiation json :: linorder
begin

definition less_json :: "json \<Rightarrow> json \<Rightarrow> bool" where
  "less_json = json_less"

definition less_eq_json :: "json \<Rightarrow> json \<Rightarrow> bool" where
  "less_eq_json a b \<longleftrightarrow> json_less a b \<or> a = b"

instance
  by standard (auto simp: less_json_def less_eq_json_def json_less_code code_inject not_less_iff_gr_or_eq)

end

lemma json_string_less [simp]: "JString s < JString t \<longleftrightarrow> s < t"
  by (simp add: less_json_def)

end
