(* ===== verification/Doc_Search.thy ===== *)
theory Doc_Search
  imports Json_Order Prelude
begin

text \<open>
  Filtering of documents that are not indexed (\<^verbatim>\<open>StorageNode.cpp\<close>): a binary search with 32-bit indices in the documents
  sorted by the operand, the first and the last position of a value, and the six comparisons.  Reading
  \<^verbatim>\<open>_json[i][operand]\<close> writes a null into a document that has no such field, so the documents are passed on.  An index past
  the end makes the JSON library grow the array up to that index; the only such index that is ever read is
  \<open>2^31 - 1\<close>, and growing an array to 32 gigabytes is taken to fail.  A call that does not return has the value \<open>None\<close>.
\<close>

section \<open>Access to a field\<close>

text \<open>The value of the field and the document after the access.\<close>

definition field_ref :: "string \<Rightarrow> json \<Rightarrow> cpp_error + json \<times> json" where
  "field_ref operand doc =
    (case doc of
       JObject m \<Rightarrow>
         (case map_of m operand of
            Some x \<Rightarrow> Inr (x, doc)
          | None \<Rightarrow> Inr (JNull, JObject (omap_set operand JNull m)))
     | JNull \<Rightarrow> Inr (JNull, JObject [(operand, JNull)])
     | _ \<Rightarrow> Inl JsonError)"

text \<open>\<^verbatim>\<open>j[k]\<close> converted to a string.\<close>

definition json_string_at :: "json \<Rightarrow> string \<Rightarrow> cpp_error + string \<times> json" where
  "json_string_at j k =
    (case field_ref k j of Inl e \<Rightarrow> Inl e | Inr (x, j) \<Rightarrow> map_sum id (\<lambda>s. (s, j)) (get_string x))"

definition element_ref :: "json list \<Rightarrow> nat \<Rightarrow> string \<Rightarrow> cpp_error + json \<times> json list" where
  "element_ref docs i operand =
    (if i < length docs then
       (case field_ref operand (docs ! i) of Inl e \<Rightarrow> Inl e | Inr (x, d) \<Rightarrow> Inr (x, docs[i := d]))
     else Inl BadAlloc)"

section \<open>Search\<close>

type_synonym 'a search = "(cpp_error + 'a) option"

definition sbind :: "'a search \<Rightarrow> ('a \<Rightarrow> 'b search) \<Rightarrow> 'b search" where
  "sbind m f = Option.bind m (\<lambda>r. case r of Inl e \<Rightarrow> Some (Inl e) | Inr x \<Rightarrow> f x)"

lemma sbind_simps [simp]:
  "sbind (Some (Inr x)) f = f x" "sbind (Some (Inl e)) f = Some (Inl e)" "sbind None f = None"
  by (simp_all add: sbind_def)

lemma sbind_mono [partial_function_mono]:
  assumes "mono_option B" and "\<And>x. mono_option (\<lambda>f. C x f)"
  shows "mono_option (\<lambda>f. sbind (B f) (\<lambda>x. C x f))"
  unfolding sbind_def
proof (rule bind_mono [OF assms(1)])
  show "mono_option (\<lambda>f. case r of Inl e \<Rightarrow> Some (Inl e) | Inr x \<Rightarrow> C x f)" for r
    by (cases r) (simp_all add: assms(2) option.const_mono)
qed

partial_function (option) getSearchIndex ::
    "json list \<Rightarrow> 32 word \<Rightarrow> 32 word \<Rightarrow> string \<Rightarrow> string \<Rightarrow> ((32 word \<times> 32 word \<times> 32 word) option \<times> json list) search" where
  "getSearchIndex docs beginIndex endIndex operand searchvalue =
    (if beginIndex \<le> endIndex then
       let middlevalue = beginIndex + (endIndex - beginIndex) div 2
       in sbind (Some (element_ref docs (unat middlevalue) operand)) (\<lambda>r.
            if fst r = JString searchvalue then Some (Inr (Some (beginIndex, middlevalue, endIndex), snd r))
            else if JString searchvalue < fst r then getSearchIndex (snd r) beginIndex (middlevalue - 1) operand searchvalue
            else getSearchIndex (snd r) (middlevalue + 1) endIndex operand searchvalue)
     else Some (Inr (None, docs)))"

partial_function (option) lower_loop ::
    "json list \<Rightarrow> 32 word \<Rightarrow> 32 word \<Rightarrow> string \<Rightarrow> string \<Rightarrow> (int \<times> json list) search" where
  "lower_loop docs b m operand searchvalue =
    (if m = 0 then Some (Inr (sint m, docs))
     else sbind (getSearchIndex docs b (m - 1) operand searchvalue) (\<lambda>r.
            case fst r of
              None \<Rightarrow> Some (Inr (sint m, snd r))
            | Some t \<Rightarrow> lower_loop (snd r) (fst t) (fst (snd t)) operand searchvalue))"

definition getlowerIndex :: "json list \<Rightarrow> string \<Rightarrow> string \<Rightarrow> (int \<times> json list) search" where
  "getlowerIndex docs operand searchvalue =
    sbind (getSearchIndex docs 0 (of_nat (length docs) - 1) operand searchvalue) (\<lambda>(result, docs).
      case result of
        None \<Rightarrow> Some (Inr (- 1, docs))
      | Some (b, m, e) \<Rightarrow> lower_loop docs b m operand searchvalue)"

partial_function (option) upper_loop ::
    "json list \<Rightarrow> 32 word \<Rightarrow> 32 word \<Rightarrow> string \<Rightarrow> string \<Rightarrow> (int \<times> json list) search" where
  "upper_loop docs m e operand searchvalue =
    sbind (getSearchIndex docs (m + 1) e operand searchvalue) (\<lambda>r.
      case fst r of
        None \<Rightarrow> Some (Inr (sint m, snd r))
      | Some t \<Rightarrow> upper_loop (snd r) (fst (snd t)) (snd (snd t)) operand searchvalue)"

definition getUpperIndex :: "json list \<Rightarrow> string \<Rightarrow> string \<Rightarrow> (int \<times> json list) search" where
  "getUpperIndex docs operand searchvalue =
    sbind (getSearchIndex docs 0 (of_nat (length docs) - 1) operand searchvalue) (\<lambda>(result, docs).
      case result of
        None \<Rightarrow> Some (Inr (- 1, docs))
      | Some (b, m, e) \<Rightarrow> upper_loop docs m e operand searchvalue)"

section \<open>Filters\<close>

definition not_equals :: "json list \<Rightarrow> string \<Rightarrow> string \<Rightarrow> json list search" where
  "not_equals docs operand searchvalue =
    sbind (getlowerIndex docs operand searchvalue) (\<lambda>(from, docs).
      if from = - 1 then Some (Inr [])
      else sbind (getUpperIndex docs operand searchvalue) (\<lambda>(to, docs).
             Some (Inr (take (nat from) docs @ drop (nat (to + 1)) docs))))"

definition lessthan :: "json list \<Rightarrow> string \<Rightarrow> string \<Rightarrow> json list search" where
  "lessthan docs operand searchvalue =
    sbind (getlowerIndex docs operand searchvalue) (\<lambda>(from, docs).
      if from = - 1 then Some (Inr []) else Some (Inr (take (nat from) docs)))"

definition lessthan_equals :: "json list \<Rightarrow> string \<Rightarrow> string \<Rightarrow> json list search" where
  "lessthan_equals docs operand searchvalue =
    sbind (getUpperIndex docs operand searchvalue) (\<lambda>(from, docs).
      if from = - 1 then Some (Inr []) else Some (Inr (take (nat (from + 1)) docs)))"

definition greaterthan_equals :: "json list \<Rightarrow> string \<Rightarrow> string \<Rightarrow> json list search" where
  "greaterthan_equals docs operand searchvalue =
    sbind (getUpperIndex docs operand searchvalue) (\<lambda>(from, docs).
      if from = - 1 then Some (Inr []) else Some (Inr (drop (nat from) docs)))"

definition greaterthan :: "json list \<Rightarrow> string \<Rightarrow> string \<Rightarrow> json list search" where
  "greaterthan docs operand searchvalue =
    sbind (getUpperIndex docs operand searchvalue) (\<lambda>(from, docs).
      if from = - 1 \<or> int (length docs) - 1 = from then Some (Inr []) else Some (Inr (drop (nat from) docs)))"

definition equals :: "json list \<Rightarrow> string \<Rightarrow> string \<Rightarrow> json list search" where
  "equals docs operand searchvalue =
    sbind (getlowerIndex docs operand searchvalue) (\<lambda>(from, docs).
      if from = - 1 then Some (Inr [])
      else sbind (getUpperIndex docs operand searchvalue) (\<lambda>(to, docs).
             Some (Inr (drop (nat from) (take (nat (to + 1)) docs)))))"

text \<open>Sets of documents, ordered by \<^verbatim>\<open>operator<\<close>; \<^verbatim>\<open>_json[i]\<close> throws for anything but an array.\<close>

fun json_size :: "json \<Rightarrow> nat" where
  "json_size JNull = 0"
| "json_size (JArray xs) = length xs"
| "json_size (JObject m) = length m"
| "json_size _ = 1"

fun json_empty :: "json \<Rightarrow> bool" where
  "json_empty JNull = True"
| "json_empty (JArray xs) = (xs = [])"
| "json_empty (JObject m) = (m = [])"
| "json_empty _ = False"

definition elements :: "json \<Rightarrow> cpp_error + json list" where
  "elements j = (case j of JArray xs \<Rightarrow> Inr xs | _ \<Rightarrow> if json_size j = 0 then Inr [] else Inl JsonError)"

definition union_set :: "json \<Rightarrow> json \<Rightarrow> cpp_error + json" where
  "union_set json1 json2 =
    (case elements json1 of Inl e \<Rightarrow> Inl e | Inr xs \<Rightarrow>
     (case elements json2 of Inl e \<Rightarrow> Inl e | Inr ys \<Rightarrow> Inr (JArray (remdups_adj (sort (xs @ ys))))))"

definition intersection :: "json \<Rightarrow> json \<Rightarrow> cpp_error + json" where
  "intersection json1 json2 =
    (case elements json1 of Inl e \<Rightarrow> Inl e | Inr xs \<Rightarrow>
     (case elements json2 of Inl e \<Rightarrow> Inl e | Inr ys \<Rightarrow> Inr (JArray (filter (\<lambda>y. y \<in> set xs) ys))))"

section \<open>Keys\<close>

text \<open>The value a document is compared by, and the document after an access; the value does not change by it.\<close>

definition key :: "string \<Rightarrow> json \<Rightarrow> json" where
  "key operand doc = (case doc of JObject m \<Rightarrow> (case map_of m operand of Some x \<Rightarrow> x | None \<Rightarrow> JNull) | _ \<Rightarrow> JNull)"

definition touch :: "string \<Rightarrow> json \<Rightarrow> json" where
  "touch operand doc =
    (case doc of
       JObject m \<Rightarrow> if map_of m operand = None then JObject (omap_set operand JNull m) else doc
     | JNull \<Rightarrow> JObject [(operand, JNull)]
     | _ \<Rightarrow> doc)"

definition has_fields :: "json \<Rightarrow> bool" where
  "has_fields doc \<longleftrightarrow> doc = JNull \<or> (\<exists>m. doc = JObject m)"

definition touched :: "string \<Rightarrow> json list \<Rightarrow> json list \<Rightarrow> bool" where
  "touched operand = list_all2 (\<lambda>d d'. d' = d \<or> d' = touch operand d)"

lemma map_of_omap_set_new: "map_of (omap_set k v m) k = Some v"
  by (induction k v m rule: omap_set.induct) auto

lemma key_touch [simp]: "key operand (touch operand doc) = key operand doc"
  by (cases doc) (auto simp: key_def touch_def map_of_omap_set_new)

lemma touch_touch: "touch operand (touch operand doc) = touch operand doc"
  by (cases doc) (auto simp: touch_def map_of_omap_set_new)

lemma has_fields_touch: "has_fields doc \<Longrightarrow> has_fields (touch operand doc)"
  by (cases doc) (auto simp: has_fields_def touch_def)

lemma field_ref_eq: "has_fields doc \<Longrightarrow> field_ref operand doc = Inr (key operand doc, touch operand doc)"
  by (auto simp: has_fields_def field_ref_def key_def touch_def split: option.split)

lemma element_ref_eq:
  "i < length docs \<Longrightarrow> has_fields (docs ! i) \<Longrightarrow>
   element_ref docs i operand = Inr (key operand (docs ! i), docs[i := touch operand (docs ! i)])"
  by (simp add: element_ref_def field_ref_eq)

lemma touched_refl: "touched operand docs docs"
  by (simp add: touched_def list.rel_refl)

lemma touched_trans: "touched operand a b \<Longrightarrow> touched operand b c \<Longrightarrow> touched operand a c"
  unfolding touched_def by (erule (1) list_all2_trans [rotated]) (auto simp: touch_touch)

lemma touched_update: "touched operand docs (docs[i := touch operand (docs ! i)])"
  by (cases "i < length docs") (auto simp: touched_def list_all2_conv_all_nth nth_list_update)

lemma touched_length: "touched operand a b \<Longrightarrow> length b = length a"
  by (simp add: touched_def list_all2_lengthD)

lemma touched_keys: "touched operand a b \<Longrightarrow> map (key operand) b = map (key operand) a"
  unfolding touched_def by (induction rule: list_all2_induct) auto

lemma touched_has_fields: "touched operand a b \<Longrightarrow> list_all has_fields a \<Longrightarrow> list_all has_fields b"
  unfolding touched_def by (induction rule: list_all2_induct) (auto intro: has_fields_touch)

text \<open>Documents in which a value can be searched.\<close>

definition searchable :: "string \<Rightarrow> json list \<Rightarrow> bool" where
  "searchable operand docs \<longleftrightarrow> list_all has_fields docs \<and> sorted (map (key operand) docs) \<and> length docs < 2 ^ 31"

lemma searchable_touched: "touched operand a b \<Longrightarrow> searchable operand a \<Longrightarrow> searchable operand b"
  using touched_keys [of operand a b] touched_length [of operand a b] touched_has_fields [of operand a b] by (simp add: searchable_def)

lemma nth_key_touched: "touched operand a b \<Longrightarrow> i < length a \<Longrightarrow> key operand (b ! i) = key operand (a ! i)"
  using touched_keys [of operand a b] touched_length [of operand a b] by (metis nth_map)

lemma searchable_mono: "searchable operand docs \<Longrightarrow> i \<le> j \<Longrightarrow> j < length docs \<Longrightarrow> key operand (docs ! i) \<le> key operand (docs ! j)"
  by (auto simp: searchable_def sorted_iff_nth_mono)

section \<open>Correctness of the search\<close>

lemma unat_middle:
  assumes "b \<le> (e :: 32 word)"
  shows "unat (b + (e - b) div 2) = unat b + (unat e - unat b) div 2"
proof -
  have le: "unat b \<le> unat e" "unat e < 2 ^ 32" using assms unsigned_less [of e] by (auto simp: word_le_nat_alt)
  have h: "unat ((e - b) div 2) = (unat e - unat b) div 2"
    using assms by (simp add: unat_div_distrib unat_sub)
  then have "unat b + unat ((e - b) div 2) < 2 ^ LENGTH(32)" using le by simp
  then show ?thesis using h by (simp add: unat_add_lem [THEN iffD1])
qed

lemma unat_pred: "w \<noteq> 0 \<Longrightarrow> unat (w - 1 :: 32 word) = unat w - 1"
  by (metis unat_minus_one)

lemma unat_succ: "unat w < 2 ^ 31 \<Longrightarrow> unat (w + 1 :: 32 word) = unat w + 1"
  by (simp add: unat_word_ariths)

text \<open>What a search in the positions from \<open>b\<close> to \<open>e\<close> returns.\<close>

definition search_ok :: "string \<Rightarrow> json list \<Rightarrow> string \<Rightarrow> nat \<Rightarrow> nat \<Rightarrow> (32 word \<times> 32 word \<times> 32 word) option \<Rightarrow> bool" where
  "search_ok operand docs v b e result \<longleftrightarrow>
    (case result of
       None \<Rightarrow> \<forall>i. b \<le> i \<and> i < e \<longrightarrow> key operand (docs ! i) \<noteq> JString v
     | Some (b', m, e') \<Rightarrow>
         b \<le> unat b' \<and> unat b' \<le> unat m \<and> unat m \<le> unat e' \<and> unat e' < e \<and> key operand (docs ! unat m) = JString v \<and>
         (\<forall>i. b \<le> i \<and> i < unat b' \<longrightarrow> key operand (docs ! i) < JString v) \<and>
         (\<forall>i. unat e' < i \<and> i < e \<longrightarrow> JString v < key operand (docs ! i)))"

lemma search_step:
  assumes "b \<le> e" and "unat e < length docs" and "list_all has_fields docs"
  defines "m \<equiv> b + (e - b) div 2"
  shows "getSearchIndex docs b e operand v =
    (let docs' = docs[unat m := touch operand (docs ! unat m)]; x = key operand (docs ! unat m)
     in if x = JString v then Some (Inr (Some (b, m, e), docs'))
        else if JString v < x then getSearchIndex docs' b (m - 1) operand v
        else getSearchIndex docs' (m + 1) e operand v)"
proof -
  have "unat m < length docs" using assms(1,2) unat_middle [OF assms(1)] by (simp add: m_def word_le_nat_alt)
  moreover from this have "has_fields (docs ! unat m)" using assms(3) by (simp add: list_all_length)
  ultimately show ?thesis
    using assms(1) by (subst getSearchIndex.simps) (simp add: Let_def m_def [symmetric] element_ref_eq)
qed

lemma search_ok_left:
  assumes "search_ok operand docs v b m result" and "\<And>i. m \<le> i \<Longrightarrow> i < e \<Longrightarrow> JString v < key operand (docs ! i)" and "m \<le> e"
  shows "search_ok operand docs v b e result"
proof -
  have "i < m \<or> JString v < key operand (docs ! i)" if "i < e" for i using assms(2) [OF _ that] by (cases "i < m") auto
  then show ?thesis using assms(1,3) by (fastforce simp: search_ok_def split: option.splits)
qed

lemma search_ok_right:
  assumes "search_ok operand docs v m e result" and "\<And>i. b \<le> i \<Longrightarrow> i < m \<Longrightarrow> key operand (docs ! i) < JString v" and "b \<le> m"
  shows "search_ok operand docs v b e result"
proof -
  have "m \<le> i \<or> key operand (docs ! i) < JString v" if "b \<le> i" for i using assms(2) [OF that] by (cases "i < m") auto
  then show ?thesis using assms(1,3) by (fastforce simp: search_ok_def split: option.splits)
qed

lemma search_ok_touched:
  assumes "touched operand a c" and "e \<le> length a" and "search_ok operand c v b e result"
  shows "search_ok operand a v b e result"
proof -
  have "i < e \<Longrightarrow> key operand (c ! i) = key operand (a ! i)" for i using nth_key_touched [OF assms(1)] assms(2) by simp
  then show ?thesis using assms(3) by (auto simp: search_ok_def split: option.splits)
qed

lemma search_correct:
  assumes "searchable operand docs" and "unat e < length docs" and "unat b \<le> unat e + 1"
    and "b = 0 \<Longrightarrow> key operand (docs ! 0) \<le> JString v"
  shows "\<exists>result docs'. getSearchIndex docs b e operand v = Some (Inr (result, docs')) \<and> touched operand docs docs' \<and>
    search_ok operand docs v (unat b) (unat e + 1) result"
  using assms
proof (induction "unat e + 1 - unat b" arbitrary: docs b e rule: less_induct)
  case less
  show ?case
  proof (cases "b \<le> e")
    case False
    then show ?thesis
      by (subst getSearchIndex.simps) (auto simp: touched_refl search_ok_def word_le_nat_alt)
  next
    case True
    define m where "m = b + (e - b) div 2"
    define docs1 where "docs1 = docs[unat m := touch operand (docs ! unat m)]"
    have m: "unat b \<le> unat m" "unat m \<le> unat e" using True unat_middle [OF True] by (auto simp: m_def word_le_nat_alt)
    have t: "touched operand docs docs1" "length docs1 = length docs" by (simp_all add: docs1_def touched_update)
    note s1 = searchable_touched [OF t(1) less.prems(1)]
    have k1: "key operand (docs1 ! i) = key operand (docs ! i)" if "i < length docs" for i using nth_key_touched [OF t(1) that] .
    note mono = searchable_mono [OF less.prems(1)]
    have step: "getSearchIndex docs b e operand v =
      (if key operand (docs ! unat m) = JString v then Some (Inr (Some (b, m, e), docs1))
       else if JString v < key operand (docs ! unat m) then getSearchIndex docs1 b (m - 1) operand v
       else getSearchIndex docs1 (m + 1) e operand v)"
      using search_step [OF True less.prems(2)] less.prems(1) by (simp add: searchable_def Let_def m_def docs1_def)
    consider (eq) "key operand (docs ! unat m) = JString v" | (gt) "JString v < key operand (docs ! unat m)"
      | (lt) "key operand (docs ! unat m) < JString v" by (metis linorder_less_linear)
    then show ?thesis
    proof cases
      case eq
      then show ?thesis using step t m by (auto simp: search_ok_def)
    next
      case gt
      have m0: "m \<noteq> 0"
      proof
        assume "m = 0"
        then have "b = 0" using m(1) by (simp add: unat_eq_0)
        then show False using gt less.prems(4) \<open>m = 0\<close> by simp
      qed
      then have p: "unat (m - 1) + 1 = unat m" using unat_pred [OF m0] by (simp add: unat_gt_0)
      have dec: "unat (m - 1) + 1 - unat b < unat e + 1 - unat b" using p m by (intro diff_less_mono) simp_all
      obtain result docs' where r: "getSearchIndex docs1 b (m - 1) operand v = Some (Inr (result, docs'))"
          "touched operand docs1 docs'" "search_ok operand docs1 v (unat b) (unat m) result"
        using less.hyps [of "m - 1" b docs1, OF dec] s1 p m less.prems(2,4) k1 [of 0] t(2) by (cases docs) auto
      have "search_ok operand docs v (unat b) (unat e + 1) result"
        by (rule search_ok_left [OF search_ok_touched [OF t(1) _ r(3)]])
          (use m less.prems(2) gt mono in \<open>auto intro: less_le_trans\<close>)
      then show ?thesis using step gt r touched_trans [OF t(1)] by auto
    next
      case lt
      have p: "unat (m + 1) = unat m + 1" using m less.prems(1,2) by (intro unat_succ) (simp add: searchable_def)
      then have nz: "m + 1 \<noteq> 0" by (metis add_is_0 unat_0 zero_neq_one)
      have dec: "unat e + 1 - unat (m + 1) < unat e + 1 - unat b" using p m by (intro diff_less_mono2) simp_all
      obtain result docs' where r: "getSearchIndex docs1 (m + 1) e operand v = Some (Inr (result, docs'))"
          "touched operand docs1 docs'" "search_ok operand docs1 v (unat m + 1) (unat e + 1) result"
        using less.hyps [of e "m + 1" docs1, OF dec] s1 p m less.prems(2) t(2) nz by auto
      have "search_ok operand docs v (unat b) (unat e + 1) result"
        by (rule search_ok_right [OF search_ok_touched [OF t(1) _ r(3)]])
          (use m less.prems(2) lt mono [of _ "unat m"] in \<open>auto simp: less_Suc_eq_le intro: le_less_trans\<close>)
      then show ?thesis using step lt r touched_trans [OF t(1)] by auto
    qed
  qed
qed

text \<open>A value below all others: the end of the range wraps around and the index \<open>2^31 - 1\<close> is read.\<close>

lemma search_underflow:
  assumes "searchable operand docs" and "unat e < length docs" and "JString v < key operand (docs ! 0)"
  shows "getSearchIndex docs 0 e operand v = Some (Inl BadAlloc)"
  using assms
proof (induction "unat e" arbitrary: docs e rule: less_induct)
  case less
  define m where "m = (0 :: 32 word) + (e - 0) div 2"
  define docs1 where "docs1 = docs[unat m := touch operand (docs ! unat m)]"
  have m: "unat m = unat e div 2" using unat_middle [of 0 e] by (simp add: m_def)
  have t: "touched operand docs docs1" "length docs1 = length docs" by (simp_all add: docs1_def touched_update)
  note s1 = searchable_touched [OF t(1) less.prems(1)]
  have "JString v < key operand (docs ! unat m)"
    using less.prems(3) searchable_mono [OF less.prems(1), of 0 "unat m"] m less.prems(2) by (auto intro: less_le_trans)
  then have step: "getSearchIndex docs 0 e operand v = getSearchIndex docs1 0 (m - 1) operand v"
    using search_step [of 0 e docs operand v] less.prems(1,2) by (auto simp: searchable_def Let_def m_def docs1_def)
  show ?case
  proof (cases "m = 0")
    case True
    have "unat (0 + (m - 1 - 0) div 2) = 2 ^ 31 - 1" by (simp add: True)
    then have "\<not> unat (0 + (m - 1 - 0) div 2) < length docs1" using s1 by (simp add: searchable_def)
    then show ?thesis unfolding step by (subst getSearchIndex.simps) (simp add: element_ref_def Let_def)
  next
    case False
    then have "unat (m - 1) < unat e" using unat_pred [OF False] m unat_gt_0 [of m] by linarith
    then show ?thesis
      using less.hyps [of "m - 1" docs1] s1 less.prems(2,3) t nth_key_touched [OF t(1), of 0] step by (cases docs) auto
  qed
qed

section \<open>First and last position\<close>

definition first_at :: "string \<Rightarrow> json list \<Rightarrow> string \<Rightarrow> nat \<Rightarrow> bool" where
  "first_at operand docs v i \<longleftrightarrow> i < length docs \<and> key operand (docs ! i) = JString v \<and> (\<forall>j < i. key operand (docs ! j) < JString v)"

definition last_at :: "string \<Rightarrow> json list \<Rightarrow> string \<Rightarrow> nat \<Rightarrow> bool" where
  "last_at operand docs v i \<longleftrightarrow> i < length docs \<and> key operand (docs ! i) = JString v \<and>
    (\<forall>j. i < j \<and> j < length docs \<longrightarrow> JString v < key operand (docs ! j))"

lemma positions_touched:
  assumes "touched operand a c"
  shows "first_at operand c v i \<longleftrightarrow> first_at operand a v i" "last_at operand c v i \<longleftrightarrow> last_at operand a v i"
  using nth_key_touched [OF assms] touched_length [OF assms] by (auto simp: first_at_def last_at_def)

lemma sint_index:
  assumes "unat m < 2 ^ 31"
  shows "sint (m :: 32 word) = int (unat m)"
proof -
  have u: "uint m = int (unat m)" by simp
  have "int (unat m) < int (2 ^ 31)" using assms by (simp only: of_nat_less_iff)
  then have "uint m < 2 ^ (LENGTH(32) - 1)" by simp
  then show ?thesis unfolding u [symmetric] by (rule sint_eq_uint_small)
qed

lemma lower_loop_correct:
  assumes "searchable operand docs" and "unat m < length docs" and "key operand (docs ! unat m) = JString v"
    and "unat b \<le> unat m" and "\<forall>j < unat b. key operand (docs ! j) < JString v"
  shows "\<exists>i docs'. lower_loop docs b m operand v = Some (Inr (int i, docs')) \<and> touched operand docs docs' \<and> first_at operand docs v i"
  using assms
proof (induction "unat m" arbitrary: docs b m rule: less_induct)
  case less
  note len = less.prems(1) [unfolded searchable_def]
  have si: "sint m = int (unat m)" using less.prems(2) len by (intro sint_index) simp
  show ?case
  proof (cases "m = 0")
    case True
    then show ?thesis
      using less.prems(2,3) by (subst lower_loop.simps) (auto simp: touched_refl first_at_def)
  next
    case False
    then have p: "unat (m - 1) + 1 = unat m" using unat_pred [OF False] unat_gt_0 [of m] by linarith
    obtain result docs' where r: "getSearchIndex docs b (m - 1) operand v = Some (Inr (result, docs'))"
        "touched operand docs docs'" "search_ok operand docs v (unat b) (unat m) result"
      using search_correct [of operand docs "m - 1" b v] p less.prems searchable_mono [OF less.prems(1), of 0 "unat m"] by auto
    show ?thesis
    proof (cases result)
      case None
      have "key operand (docs ! j) < JString v" if "j < unat m" for j
        using that r(3) None less.prems(2,3,5) searchable_mono [OF less.prems(1), of j "unat m"]
        by (cases "j < unat b") (auto simp: search_ok_def order_less_le)
      then show ?thesis
        using r(1,2) None False less.prems(2,3) si
        by (subst lower_loop.simps) (auto simp: first_at_def intro!: exI [of _ "unat m"])
    next
      case (Some t)
      obtain b' m' e' where t: "t = (b', m', e')" by (cases t)
      note ok = r(3) [unfolded Some t search_ok_def, simplified]
      have k: "key operand (docs' ! j) = key operand (docs ! j)" if "j < length docs" for j using nth_key_touched [OF r(2) that] .
      have "\<forall>j < unat b'. key operand (docs ! j) < JString v" using ok less.prems(5) by (metis not_less)
      then obtain i docs'' where "lower_loop docs' b' m' operand v = Some (Inr (int i, docs''))" "touched operand docs' docs''"
          "first_at operand docs' v i"
        using less.hyps [of m' docs' b'] searchable_touched [OF r(2) less.prems(1)] ok less.prems(2) k touched_length [OF r(2)] by auto
      then show ?thesis
        using r(1) Some t False touched_trans [OF r(2)] positions_touched(1) [OF r(2)]
        by (subst lower_loop.simps) auto
    qed
  qed
qed

lemma upper_loop_correct:
  assumes "searchable operand docs" and "unat e < length docs" and "key operand (docs ! unat m) = JString v"
    and "unat m \<le> unat e" and "\<forall>j. unat e < j \<and> j < length docs \<longrightarrow> JString v < key operand (docs ! j)"
  shows "\<exists>i docs'. upper_loop docs m e operand v = Some (Inr (int i, docs')) \<and> touched operand docs docs' \<and> last_at operand docs v i"
  using assms
proof (induction "length docs - unat m" arbitrary: docs m e rule: less_induct)
  case less
  note len = less.prems(1) [unfolded searchable_def]
  have si: "sint m = int (unat m)" using less.prems(2,4) len by (intro sint_index) simp
  have p: "unat (m + 1) = unat m + 1" using less.prems(2,4) len by (intro unat_succ) simp
  then have nz: "m + 1 \<noteq> 0" by (metis add_is_0 unat_0 zero_neq_one)
  obtain result docs' where r: "getSearchIndex docs (m + 1) e operand v = Some (Inr (result, docs'))"
      "touched operand docs docs'" "search_ok operand docs v (unat m + 1) (unat e + 1) result"
    using search_correct [of operand docs e "m + 1" v] p nz less.prems by auto
  show ?case
  proof (cases result)
    case None
    have absent: "key operand (docs ! j) \<noteq> JString v" if "unat m < j" "j \<le> unat e" for j
      using that r(3) None by (simp add: search_ok_def)
    have "JString v < key operand (docs ! j)" if "unat m < j" "j < length docs" for j
    proof (cases "unat e < j")
      case False
      then show ?thesis using absent [OF that(1)] searchable_mono [OF less.prems(1), of "unat m" j] that less.prems(3) by auto
    qed (use less.prems(5) that in blast)
    then show ?thesis
      using r(1,2) None less.prems(2,3,4) si by (subst upper_loop.simps) (auto simp: last_at_def intro!: exI [of _ "unat m"])
  next
    case (Some t)
    obtain b' m' e' where t: "t = (b', m', e')" by (cases t)
    note ok = r(3) [unfolded Some t search_ok_def, simplified]
    have k: "key operand (docs' ! j) = key operand (docs ! j)" if "j < length docs" for j using nth_key_touched [OF r(2) that] .
    have "\<forall>j. unat e' < j \<and> j < length docs \<longrightarrow> JString v < key operand (docs ! j)" using ok less.prems(5) by (metis not_less less_Suc_eq_le)
    moreover have "length docs' - unat m' < length docs - unat m" using ok less.prems(2) touched_length [OF r(2)] by auto
    ultimately obtain i docs'' where "upper_loop docs' m' e' operand v = Some (Inr (int i, docs''))" "touched operand docs' docs''"
        "last_at operand docs' v i"
      using less.hyps [of docs' m' e'] searchable_touched [OF r(2) less.prems(1)] ok less.prems(2) k touched_length [OF r(2)] by auto
    then show ?thesis
      using r(1) Some t touched_trans [OF r(2)] positions_touched(2) [OF r(2)] by (subst upper_loop.simps) auto
  qed
qed

lemma unat_last_index: "searchable operand docs \<Longrightarrow> docs \<noteq> [] \<Longrightarrow> unat (of_nat (length docs) - 1 :: 32 word) = length docs - 1"
proof -
  assume a: "searchable operand docs" "docs \<noteq> []"
  have "(of_nat (length docs) - 1 :: 32 word) = of_nat (length docs - 1)" using a(2) by (cases docs) simp_all
  moreover have "unat (of_nat (length docs - 1) :: 32 word) = length docs - 1"
    using a(1) by (subst unat_of_nat) (auto simp: searchable_def intro!: mod_less)
  ultimately show ?thesis by simp
qed

lemma first_search:
  assumes "searchable operand docs" and "docs \<noteq> []"
  shows "JString v < key operand (docs ! 0) \<Longrightarrow> getSearchIndex docs 0 (of_nat (length docs) - 1) operand v = Some (Inl BadAlloc)"
    and "\<not> JString v < key operand (docs ! 0) \<Longrightarrow> \<exists>result docs'.
      getSearchIndex docs 0 (of_nat (length docs) - 1) operand v = Some (Inr (result, docs')) \<and> touched operand docs docs' \<and>
      search_ok operand docs v 0 (length docs) result"
  using search_underflow [OF assms(1), of "of_nat (length docs) - 1" v] search_correct [OF assms(1), of "of_nat (length docs) - 1" 0 v]
    unat_last_index [OF assms(1,2)] assms(2) by (auto simp: not_less)

definition position :: "string \<Rightarrow> json list \<Rightarrow> string \<Rightarrow> (nat \<Rightarrow> bool) \<Rightarrow> (int \<times> json list) search \<Rightarrow> bool" where
  "position operand docs v P r \<longleftrightarrow>
    (if JString v < key operand (docs ! 0) then r = Some (Inl BadAlloc)
     else \<exists>i docs'. r = Some (Inr (i, docs')) \<and> touched operand docs docs' \<and>
       (if JString v \<in> key operand ` set docs then 0 \<le> i \<and> P (nat i) else i = - 1))"

lemma search_ok_all:
  assumes "search_ok operand docs v 0 (length docs) result"
  shows "result = None \<longleftrightarrow> JString v \<notin> key operand ` set docs"
    and "result = Some (b, m, e) \<Longrightarrow> unat b \<le> unat m \<and> unat m \<le> unat e \<and> unat e < length docs \<and>
      key operand (docs ! unat m) = JString v \<and> (\<forall>i < unat b. key operand (docs ! i) < JString v) \<and>
      (\<forall>i. unat e < i \<and> i < length docs \<longrightarrow> JString v < key operand (docs ! i))"
proof -
  have "JString v \<in> key operand ` set docs" if "result = Some (b, m, e)" for b m e
  proof -
    have "unat m < length docs" "key operand (docs ! unat m) = JString v" using assms that by (auto simp: search_ok_def)
    then show ?thesis by (metis image_eqI nth_mem)
  qed
  then show "result = None \<longleftrightarrow> JString v \<notin> key operand ` set docs"
    using assms by (cases result) (auto simp: search_ok_def in_set_conv_nth)
qed (use assms in \<open>auto simp: search_ok_def\<close>)

lemma getlowerIndex_correct:
  assumes "searchable operand docs" and "docs \<noteq> []"
  shows "position operand docs v (first_at operand docs v) (getlowerIndex docs operand v)"
proof (cases "JString v < key operand (docs ! 0)")
  case False
  obtain result docs' where r: "getSearchIndex docs 0 (of_nat (length docs) - 1) operand v = Some (Inr (result, docs'))"
      "touched operand docs docs'" "search_ok operand docs v 0 (length docs) result"
    using first_search(2) [OF assms False] by blast
  note all = search_ok_all [OF r(3)]
  show ?thesis
  proof (cases result)
    case None
    then show ?thesis using False r(1,2) all(1) by (simp add: position_def getlowerIndex_def)
  next
    case (Some t)
    obtain b m e where t: "t = (b, m, e)" by (cases t)
    note ok = all(2) [OF Some [unfolded t]]
    obtain i docs'' where "lower_loop docs' b m operand v = Some (Inr (int i, docs''))" "touched operand docs' docs''" "first_at operand docs' v i"
      using lower_loop_correct [OF searchable_touched [OF r(2) assms(1)], of m v b] ok touched_length [OF r(2)] nth_key_touched [OF r(2)] by auto
    then show ?thesis
      using False r(1) Some t all(1) touched_trans [OF r(2)] positions_touched(1) [OF r(2)] by (auto simp: position_def getlowerIndex_def)
  qed
qed (simp add: position_def getlowerIndex_def first_search(1) [OF assms])

lemma getUpperIndex_correct:
  assumes "searchable operand docs" and "docs \<noteq> []"
  shows "position operand docs v (last_at operand docs v) (getUpperIndex docs operand v)"
proof (cases "JString v < key operand (docs ! 0)")
  case False
  obtain result docs' where r: "getSearchIndex docs 0 (of_nat (length docs) - 1) operand v = Some (Inr (result, docs'))"
      "touched operand docs docs'" "search_ok operand docs v 0 (length docs) result"
    using first_search(2) [OF assms False] by blast
  note all = search_ok_all [OF r(3)]
  show ?thesis
  proof (cases result)
    case None
    then show ?thesis using False r(1,2) all(1) by (simp add: position_def getUpperIndex_def)
  next
    case (Some t)
    obtain b m e where t: "t = (b, m, e)" by (cases t)
    note ok = all(2) [OF Some [unfolded t]]
    obtain i docs'' where "upper_loop docs' m e operand v = Some (Inr (int i, docs''))" "touched operand docs' docs''" "last_at operand docs' v i"
      using upper_loop_correct [OF searchable_touched [OF r(2) assms(1)], of e m v] ok touched_length [OF r(2)] nth_key_touched [OF r(2)] by auto
    then show ?thesis
      using False r(1) Some t all(1) touched_trans [OF r(2)] positions_touched(2) [OF r(2)] by (auto simp: position_def getUpperIndex_def)
  qed
qed (simp add: position_def getUpperIndex_def first_search(1) [OF assms])

section \<open>Filters as selections\<close>

lemma filter_split:
  assumes "\<forall>x \<in> set (take i xs). P x = a" and "\<forall>x \<in> set (drop i xs). P x = b"
  shows "filter P xs = (if a then take i xs else []) @ (if b then drop i xs else [])"
proof -
  have "filter P xs = filter P (take i xs) @ filter P (drop i xs)" by (metis append_take_drop_id filter_append)
  moreover have "filter P (take i xs) = (if a then take i xs else [])" "filter P (drop i xs) = (if b then drop i xs else [])"
    using assms by (auto simp: filter_empty_conv)
  ultimately show ?thesis by simp
qed

lemma in_set_dropE:
  assumes "x \<in> set (drop i xs)"
  obtains j where "i \<le> j" "j < length xs" "x = xs ! j"
proof -
  obtain k where "k < length (drop i xs)" "x = drop i xs ! k" using assms by (auto simp: in_set_conv_nth)
  then show thesis using that [of "i + k"] by auto
qed

lemma first_at_filters:
  assumes "searchable operand docs" and "first_at operand docs v i"
  shows "filter (\<lambda>d. key operand d < JString v) docs = take i docs"
    and "filter (\<lambda>d. JString v \<le> key operand d) docs = drop i docs"
proof -
  have "key operand d < JString v" if "d \<in> set (take i docs)" for d
    using that assms(2) by (auto simp: first_at_def in_set_conv_nth)
  moreover have "JString v \<le> key operand d" if "d \<in> set (drop i docs)" for d
    using that by (rule in_set_dropE) (use assms(2) searchable_mono [OF assms(1), of i] in \<open>auto simp: first_at_def\<close>)
  ultimately show "filter (\<lambda>d. key operand d < JString v) docs = take i docs"
    "filter (\<lambda>d. JString v \<le> key operand d) docs = drop i docs"
    using filter_split [of i docs "\<lambda>d. key operand d < JString v" True False]
      filter_split [of i docs "\<lambda>d. JString v \<le> key operand d" False True] by (auto simp: not_less not_le)
qed

lemma last_at_filters:
  assumes "searchable operand docs" and "last_at operand docs v i"
  shows "filter (\<lambda>d. key operand d \<le> JString v) docs = take (Suc i) docs"
    and "filter (\<lambda>d. JString v < key operand d) docs = drop (Suc i) docs"
proof -
  have "key operand d \<le> JString v" if "d \<in> set (take (Suc i) docs)" for d
    using that assms(2) searchable_mono [OF assms(1), of _ i] by (auto simp: last_at_def in_set_conv_nth less_Suc_eq_le)
  moreover have "JString v < key operand d" if "d \<in> set (drop (Suc i) docs)" for d
    using that by (rule in_set_dropE) (use assms(2) in \<open>auto simp: last_at_def\<close>)
  ultimately show "filter (\<lambda>d. key operand d \<le> JString v) docs = take (Suc i) docs"
    "filter (\<lambda>d. JString v < key operand d) docs = drop (Suc i) docs"
    using filter_split [of "Suc i" docs "\<lambda>d. key operand d \<le> JString v" True False]
      filter_split [of "Suc i" docs "\<lambda>d. JString v < key operand d" False True] by (auto simp: not_less not_le)
qed

lemma three_parts:
  assumes "searchable operand docs" and "first_at operand docs v i" and "last_at operand docs v k"
  shows "docs = take i docs @ drop i (take (Suc k) docs) @ drop (Suc k) docs"
    and "d \<in> set (take i docs) \<Longrightarrow> key operand d < JString v"
    and "d \<in> set (drop i (take (Suc k) docs)) \<Longrightarrow> key operand d = JString v"
    and "d \<in> set (drop (Suc k) docs) \<Longrightarrow> JString v < key operand d"
proof -
  have ik: "i \<le> k" using assms(2,3) by (auto simp: first_at_def last_at_def not_less [symmetric])
  then show "docs = take i docs @ drop i (take (Suc k) docs) @ drop (Suc k) docs"
    by (metis append.assoc append_take_drop_id le_SucI min.absorb1 take_take)
  show "key operand d < JString v" if "d \<in> set (take i docs)"
    using that unfolding first_at_filters(1) [OF assms(1,2), symmetric] by simp
  show "JString v < key operand d" if "d \<in> set (drop (Suc k) docs)"
    using that unfolding last_at_filters(2) [OF assms(1,3), symmetric] by simp
  show "key operand d = JString v" if "d \<in> set (drop i (take (Suc k) docs))"
  proof (rule in_set_dropE [OF that])
    fix j
    assume "i \<le> j" "j < length (take (Suc k) docs)" "d = take (Suc k) docs ! j"
    then show ?thesis
      using searchable_mono [OF assms(1), of i j] searchable_mono [OF assms(1), of j k] assms(2,3)
      by (auto simp: first_at_def last_at_def less_Suc_eq_le)
  qed
qed

lemma equal_filter:
  assumes "searchable operand docs" and "first_at operand docs v i" and "last_at operand docs v k"
  shows "filter (\<lambda>d. key operand d = JString v) docs = drop i (take (Suc k) docs)"
    and "filter (\<lambda>d. key operand d \<noteq> JString v) docs = take i docs @ drop (Suc k) docs"
    and "last (filter (\<lambda>d. key operand d = JString v) docs) = docs ! k"
proof -
  note parts = three_parts [OF assms]
  have fl: "filter P docs = filter P (take i docs) @ filter P (drop i (take (Suc k) docs)) @ filter P (drop (Suc k) docs)" for P
    by (subst parts(1)) (simp only: filter_append)
  have ne: "x \<in> set (take i docs) \<Longrightarrow> key operand x \<noteq> JString v" "x \<in> set (drop (Suc k) docs) \<Longrightarrow> key operand x \<noteq> JString v" for x
    using parts(2,4) by (metis order_less_irrefl)+
  have e1: "filter (\<lambda>d. key operand d = JString v) (take i docs) = []" "filter (\<lambda>d. key operand d = JString v) (drop (Suc k) docs) = []"
    "filter (\<lambda>d. key operand d = JString v) (drop i (take (Suc k) docs)) = drop i (take (Suc k) docs)"
    using ne parts(3) by (auto simp: filter_empty_conv intro!: filter_True)
  have e2: "filter (\<lambda>d. key operand d \<noteq> JString v) (take i docs) = take i docs"
    "filter (\<lambda>d. key operand d \<noteq> JString v) (drop (Suc k) docs) = drop (Suc k) docs"
    "filter (\<lambda>d. key operand d \<noteq> JString v) (drop i (take (Suc k) docs)) = []"
    using ne parts(3) by (auto simp: filter_empty_conv intro!: filter_True)
  show eq: "filter (\<lambda>d. key operand d = JString v) docs = drop i (take (Suc k) docs)"
    by (subst fl) (simp only: e1 append_Nil append_Nil2)
  show "filter (\<lambda>d. key operand d \<noteq> JString v) docs = take i docs @ drop (Suc k) docs"
    by (subst fl) (simp only: e2 append_Nil append_Nil2)
  have "i \<le> k" "k < length docs" using assms(2,3) by (auto simp: first_at_def last_at_def not_less [symmetric])
  then show "last (filter (\<lambda>d. key operand d = JString v) docs) = docs ! k"
    unfolding eq by (simp add: last_conv_nth)
qed

text \<open>A filter returns a selection from the documents as they are after the accesses.\<close>

definition selects :: "string \<Rightarrow> json list \<Rightarrow> json list search \<Rightarrow> (json list \<Rightarrow> json list) \<Rightarrow> bool" where
  "selects operand docs r sel \<longleftrightarrow> (\<exists>docs'. touched operand docs docs' \<and> r = Some (Inr (sel docs')))"

lemma positionD:
  assumes "position operand docs v P r"
  shows "JString v < key operand (docs ! 0) \<Longrightarrow> r = Some (Inl BadAlloc)"
    and "\<not> JString v < key operand (docs ! 0) \<Longrightarrow> JString v \<in> key operand ` set docs \<Longrightarrow>
      \<exists>i docs'. r = Some (Inr (int i, docs')) \<and> touched operand docs docs' \<and> P i"
    and "\<not> JString v < key operand (docs ! 0) \<Longrightarrow> JString v \<notin> key operand ` set docs \<Longrightarrow>
      \<exists>docs'. r = Some (Inr (- 1, docs')) \<and> touched operand docs docs'"
  using assms unfolding position_def by (auto split: if_splits) (metis int_nat_eq)

lemma touched_value:
  assumes "touched operand a c"
  shows "key operand ` set c = key operand ` set a" "c = [] \<longleftrightarrow> a = []"
  using touched_keys [OF assms] touched_length [OF assms] by (metis set_map, auto)

lemma filters_present:
  assumes "searchable operand docs" and "docs \<noteq> []" and "\<not> JString v < key operand (docs ! 0)" and "JString v \<in> key operand ` set docs"
  shows "selects operand docs (equals docs operand v) (filter (\<lambda>d. key operand d = JString v))"
    and "selects operand docs (not_equals docs operand v) (filter (\<lambda>d. key operand d \<noteq> JString v))"
    and "selects operand docs (lessthan docs operand v) (filter (\<lambda>d. key operand d < JString v))"
    and "selects operand docs (lessthan_equals docs operand v) (filter (\<lambda>d. key operand d \<le> JString v))"
    and "selects operand docs (greaterthan_equals docs operand v)
      (\<lambda>ds. last (filter (\<lambda>d. key operand d = JString v) ds) # filter (\<lambda>d. JString v < key operand d) ds)"
    and "selects operand docs (greaterthan docs operand v)
      (\<lambda>ds. if filter (\<lambda>d. JString v < key operand d) ds = [] then []
            else last (filter (\<lambda>d. key operand d = JString v) ds) # filter (\<lambda>d. JString v < key operand d) ds)"
proof -
  obtain i docs1 where lower: "getlowerIndex docs operand v = Some (Inr (int i, docs1))" "touched operand docs docs1" "first_at operand docs v i"
    using positionD(2) [OF getlowerIndex_correct [OF assms(1,2)] assms(3,4)] by blast
  note s1 = searchable_touched [OF lower(2) assms(1)]
  have "docs1 \<noteq> []" "\<not> JString v < key operand (docs1 ! 0)" "JString v \<in> key operand ` set docs1"
    using touched_value [OF lower(2)] assms(2-4) nth_key_touched [OF lower(2), of 0] by auto
  then obtain k docs2 where both: "getUpperIndex docs1 operand v = Some (Inr (int k, docs2))" "touched operand docs1 docs2" "last_at operand docs1 v k"
    using positionD(2) [OF getUpperIndex_correct [OF s1]] by blast
  note t2 = touched_trans [OF lower(2) both(2)]
  note s2 = searchable_touched [OF t2 assms(1)]
  have f: "first_at operand docs1 v i" "first_at operand docs2 v i" "last_at operand docs2 v k"
    using positions_touched [OF lower(2)] positions_touched [OF both(2)] lower(3) both(3) by blast+
  obtain k' docs3 where upper: "getUpperIndex docs operand v = Some (Inr (int k', docs3))" "touched operand docs docs3" "last_at operand docs v k'"
    using positionD(2) [OF getUpperIndex_correct [OF assms(1,2)] assms(3,4)] by blast
  note s3 = searchable_touched [OF upper(2) assms(1)]
  have f3: "last_at operand docs3 v k'" using positions_touched(2) [OF upper(2)] upper(3) by blast
  obtain i3 where "first_at operand docs3 v i3" using lower(3) positions_touched(1) [OF upper(2)] by blast
  note e3 = equal_filter(3) [OF s3 this f3]
  have k3: "k' < length docs3" using f3 by (simp add: last_at_def)
  note simps = selects_def lower(1) both(1) upper(1)
  show "selects operand docs (equals docs operand v) (filter (\<lambda>d. key operand d = JString v))"
    using t2 equal_filter(1) [OF s2 f(2,3)] by (auto simp: simps equals_def nat_add_distrib)
  show "selects operand docs (not_equals docs operand v) (filter (\<lambda>d. key operand d \<noteq> JString v))"
    using t2 equal_filter(2) [OF s2 f(2,3)] by (auto simp: simps not_equals_def nat_add_distrib)
  show "selects operand docs (lessthan docs operand v) (filter (\<lambda>d. key operand d < JString v))"
    using lower(2) first_at_filters(1) [OF s1 f(1)] by (auto simp: simps lessthan_def)
  show "selects operand docs (lessthan_equals docs operand v) (filter (\<lambda>d. key operand d \<le> JString v))"
    using upper(2) last_at_filters(1) [OF s3 f3] by (auto simp: simps lessthan_equals_def nat_add_distrib)
  have d3: "drop k' docs3 = last (filter (\<lambda>d. key operand d = JString v) docs3) # filter (\<lambda>d. JString v < key operand d) docs3"
    using last_at_filters(2) [OF s3 f3] e3 k3 by (simp add: Cons_nth_drop_Suc)
  then show "selects operand docs (greaterthan_equals docs operand v)
      (\<lambda>ds. last (filter (\<lambda>d. key operand d = JString v) ds) # filter (\<lambda>d. JString v < key operand d) ds)"
    using upper(2) by (auto simp: simps greaterthan_equals_def)
  have "int (length docs3) - 1 = int k' \<longleftrightarrow> filter (\<lambda>d. JString v < key operand d) docs3 = []"
    using last_at_filters(2) [OF s3 f3] k3 by auto
  then show "selects operand docs (greaterthan docs operand v)
      (\<lambda>ds. if filter (\<lambda>d. JString v < key operand d) ds = [] then []
            else last (filter (\<lambda>d. key operand d = JString v) ds) # filter (\<lambda>d. JString v < key operand d) ds)"
    using upper(2) d3 by (auto simp: simps greaterthan_def intro!: exI [of _ docs3])
qed

text \<open>Selection by equality: documents that have the value are not changed by accesses, so that the result is a selection
  from the original documents.\<close>

lemma touch_id: "key operand d = JString v \<Longrightarrow> touch operand d = d"
  by (cases d) (auto simp: key_def touch_def split: option.splits)

lemma touched_filter_equal:
  "touched operand a c \<Longrightarrow> filter (\<lambda>d. key operand d = JString v) c = filter (\<lambda>d. key operand d = JString v) a"
  unfolding touched_def by (induction rule: list_all2_induct) (auto simp: touch_id)

lemma equals_selects:
  assumes "searchable operand docs" and "docs \<noteq> []" and "\<not> JString v < key operand (docs ! 0)"
  shows "equals docs operand v = Some (Inr (filter (\<lambda>d. key operand d = JString v) docs))"
proof (cases "JString v \<in> key operand ` set docs")
  case True
  then show ?thesis
    using filters_present(1) [OF assms True] touched_filter_equal [of operand docs _ v] by (auto simp: selects_def)
next
  case False
  have "filter (\<lambda>d. key operand d = JString v) docs = []" using False by (auto simp: filter_empty_conv image_iff)
  then show ?thesis using positionD(3) [OF getlowerIndex_correct [OF assms(1,2)] assms(3) False] by (auto simp: equals_def)
qed

section \<open>Properties\<close>

text \<open>Claim (C28): on documents sorted by the operand, fewer than \<open>2^31\<close> of them, every filter returns.  For a value that
  some document has, \<^verbatim>\<open>=\<close>, \<^verbatim>\<open><>\<close>, \<^verbatim>\<open><\<close> and \<^verbatim>\<open><=\<close> select exactly the documents that satisfy the comparison, in order, whereas
  \<^verbatim>\<open>>=\<close> keeps only the last of the equal documents, and \<^verbatim>\<open>>\<close> keeps that one too when there is a greater one.  For a
  value that lies between those of the documents or above them every filter returns nothing, even \<^verbatim>\<open><>\<close> and \<^verbatim>\<open><\<close>.  For
  a value below all of them the index underflows and the search fails.\<close>

theorem filters_exact:
  assumes "searchable operand docs" and "docs \<noteq> []"
  shows "if JString v < key operand (docs ! 0) then
      equals docs operand v = Some (Inl BadAlloc) \<and> not_equals docs operand v = Some (Inl BadAlloc) \<and>
      lessthan docs operand v = Some (Inl BadAlloc) \<and> lessthan_equals docs operand v = Some (Inl BadAlloc) \<and>
      greaterthan_equals docs operand v = Some (Inl BadAlloc) \<and> greaterthan docs operand v = Some (Inl BadAlloc)
    else if JString v \<notin> key operand ` set docs then
      equals docs operand v = Some (Inr []) \<and> not_equals docs operand v = Some (Inr []) \<and>
      lessthan docs operand v = Some (Inr []) \<and> lessthan_equals docs operand v = Some (Inr []) \<and>
      greaterthan_equals docs operand v = Some (Inr []) \<and> greaterthan docs operand v = Some (Inr [])
    else
      selects operand docs (equals docs operand v) (filter (\<lambda>d. key operand d = JString v)) \<and>
      selects operand docs (not_equals docs operand v) (filter (\<lambda>d. key operand d \<noteq> JString v)) \<and>
      selects operand docs (lessthan docs operand v) (filter (\<lambda>d. key operand d < JString v)) \<and>
      selects operand docs (lessthan_equals docs operand v) (filter (\<lambda>d. key operand d \<le> JString v)) \<and>
      selects operand docs (greaterthan_equals docs operand v)
        (\<lambda>ds. last (filter (\<lambda>d. key operand d = JString v) ds) # filter (\<lambda>d. JString v < key operand d) ds) \<and>
      selects operand docs (greaterthan docs operand v)
        (\<lambda>ds. if filter (\<lambda>d. JString v < key operand d) ds = [] then []
              else last (filter (\<lambda>d. key operand d = JString v) ds) # filter (\<lambda>d. JString v < key operand d) ds)"
proof -
  note lower = positionD [OF getlowerIndex_correct [OF assms], of v] and upper = positionD [OF getUpperIndex_correct [OF assms], of v]
  consider (below) "JString v < key operand (docs ! 0)" | (absent) "\<not> JString v < key operand (docs ! 0)" "JString v \<notin> key operand ` set docs"
    | (present) "\<not> JString v < key operand (docs ! 0)" "JString v \<in> key operand ` set docs" by blast
  then show ?thesis
  proof cases
    case below
    then show ?thesis using lower(1) upper(1)
      by (simp add: equals_def not_equals_def lessthan_def lessthan_equals_def greaterthan_equals_def greaterthan_def)
  next
    case absent
    then show ?thesis using lower(3) upper(3)
      by (auto simp: equals_def not_equals_def lessthan_def lessthan_equals_def greaterthan_equals_def greaterthan_def)
  next
    case present
    then show ?thesis using filters_present [OF assms present] by simp
  qed
qed

theorem filters_exact_witness:
  "let docs = [JObject [(''a'', JString ''1'')], JObject [(''a'', JString ''3'')], JObject [(''a'', JString ''3''), (''b'', JNull)], JObject [(''a'', JString ''4'')]]
   in selects ''a'' docs (equals docs ''a'' ''3'') (filter (\<lambda>d. key ''a'' d = JString ''3'')) \<and>
      lessthan docs ''a'' ''2'' = Some (Inr []) \<and> equals docs ''a'' ''0'' = Some (Inl BadAlloc)"
proof -
  let ?docs = "[JObject [(''a'', JString ''1'')], JObject [(''a'', JString ''3'')], JObject [(''a'', JString ''3''), (''b'', JNull)], JObject [(''a'', JString ''4'')]]"
  have "searchable ''a'' ?docs" by (simp add: searchable_def has_fields_def key_def less_eq_json_def less_char_def)
  from filters_exact [OF this, of "''3''"] filters_exact [OF this, of "''2''"] filters_exact [OF this, of "''0''"]
  show ?thesis by (simp add: key_def less_char_def Let_def)
qed

end
