(* ===== verification/Query.thy ===== *)
theory Query
  imports Query_Expr Doc_Search Action Message
begin

text \<open>
  Searching documents on a storage node (\<^verbatim>\<open>StorageNode.cpp\<close>): reading nodes of the IPFS graph, fetching the documents of
  an entity, evaluation of the expression tree with indexes or by filtering, and \<^verbatim>\<open>searchDocument\<close>.  The IPFS client is
  a parameter: objects are content-addressed, so what a hash names does not change and the client is a record of functions
  on hashes.  Sorting, JSON text and base 64 are parameters too.  Every operation may fail with an exception; a search
  that does not return has the value \<open>None\<close>.
\<close>

section \<open>Surroundings\<close>

record ipfs =
  object_links :: "string \<Rightarrow> cpp_error + (string \<times> string) list"  \<comment> \<open>names and hashes\<close>
  object_data :: "string \<Rightarrow> cpp_error + string"
  object_put :: "string \<Rightarrow> (string \<times> string) list \<Rightarrow> cpp_error + string"
  patch_add_link :: "string \<Rightarrow> string \<Rightarrow> string \<Rightarrow> cpp_error + string"
  patch_rm_link :: "string \<Rightarrow> string \<Rightarrow> cpp_error + string"

record storage_env =
  client :: ipfs
  json_dump :: "json \<Rightarrow> string"
  json_parse :: "string \<Rightarrow> cpp_error + json"
  b64 :: "string \<Rightarrow> string"
  b64_text :: "string \<Rightarrow> string"
  sort_docs :: "string \<Rightarrow> json list \<Rightarrow> json list"
  map_order :: "(string \<times> string) list \<Rightarrow> (string \<times> string) list"  \<comment> \<open>iteration of an unordered map\<close>
  dht_order :: "string list \<Rightarrow> string list"                                \<comment> \<open>the values of a key, as a get lists them\<close>
  new_guid :: string

section \<open>Reading the graph\<close>

definition getUnorderedEdgeNamesOf :: "ipfs \<Rightarrow> string \<Rightarrow> (string \<times> string) list" where
  "getUnorderedEdgeNamesOf c nodeHash =
    (case object_links c nodeHash of Inl e \<Rightarrow> [] | Inr links \<Rightarrow> fold (\<lambda>(n, h). std_insert n h) links [])"

definition getOrderedEdgeNamesOf :: "ipfs \<Rightarrow> string \<Rightarrow> (string \<times> string) list" where
  "getOrderedEdgeNamesOf c nodeHash =
    (case object_links c nodeHash of Inl e \<Rightarrow> [] | Inr links \<Rightarrow> fold (\<lambda>(n, h). omap_insert n h) links [])"

definition fetchObject :: "ipfs \<Rightarrow> string \<Rightarrow> string" where
  "fetchObject c hash = (case object_data c hash of Inl e \<Rightarrow> [] | Inr d \<Rightarrow> d)"

definition fetchDocument :: "storage_env \<Rightarrow> string \<Rightarrow> cpp_error + json" where
  "fetchDocument E hash = json_parse E (fetchObject (client E) hash)"

fun fetch_all :: "storage_env \<Rightarrow> string list \<Rightarrow> cpp_error + json list" where
  "fetch_all E [] = Inr []"
| "fetch_all E (h # hs) =
    (case fetchDocument E h of Inl e \<Rightarrow> Inl e | Inr d \<Rightarrow>
     (case fetch_all E hs of Inl e \<Rightarrow> Inl e | Inr ds \<Rightarrow> Inr (d # ds)))"

text \<open>\<^verbatim>\<open>operator[]\<close> of a map of strings: the empty string when there is no entry.\<close>

definition entry :: "(string \<times> string) list \<Rightarrow> string \<Rightarrow> string" where
  "entry m k = (case map_of m k of None \<Rightarrow> [] | Some v \<Rightarrow> v)"

text \<open>\<^verbatim>\<open>indexes["id"]\<close> adds an empty entry to the indexes when they have none; the indexes are passed by reference through the whole
  evaluation, so every function that may reach it returns them too.\<close>

definition fetchDocumentsFromDefaultIndex ::
    "storage_env \<Rightarrow> (string \<times> string) list \<Rightarrow> cpp_error + json list \<times> (string \<times> string) list" where
  "fetchDocumentsFromDefaultIndex E indexes =
    (let indexes = std_insert ''id'' [] indexes;
         values = getOrderedEdgeNamesOf (client E) (entry indexes ''id'');
         values = getOrderedEdgeNamesOf (client E) (entry values ''__'')
     in map_sum id (\<lambda>ds. (ds, indexes)) (fetch_all E (map snd values)))"

text \<open>The comparison of \<^verbatim>\<open>std::sort\<close> throws on a value that is neither an object nor null; it is applied when there are two
  elements.  Iterators of an object cannot be subtracted.\<close>

definition sortDocumentsByOperand ::
    "storage_env \<Rightarrow> json \<Rightarrow> string \<Rightarrow> (string \<times> string) list \<Rightarrow> cpp_error + json \<times> (string \<times> string) list" where
  "sortDocumentsByOperand E docs operand indexes =
    (case (if docs = JNull then map_sum id (\<lambda>(ds, indexes). (JArray ds, indexes)) (fetchDocumentsFromDefaultIndex E indexes)
           else Inr (docs, indexes)) of
       Inl e \<Rightarrow> Inl e
     | Inr (docs, indexes) \<Rightarrow>
         (case json_parse E (json_dump E docs) of
            Inl e \<Rightarrow> Inl e
          | Inr (JArray xs) \<Rightarrow>
              if 1 < length xs \<and> \<not> list_all has_fields xs then Inl JsonError else Inr (JArray (sort_docs E operand xs), indexes)
          | Inr (JObject m) \<Rightarrow> Inl JsonError
          | Inr j \<Rightarrow> Inr (j, indexes)))"

section \<open>Evaluation\<close>

text \<open>An entry found by an index: \<open>None\<close> stands for \<^verbatim>\<open>end()\<close>, where the code returns the empty string.\<close>

definition index_equals :: "(string \<times> string) list \<Rightarrow> string \<Rightarrow> string list option" where
  "index_equals values right = map_option (\<lambda>h. [h]) (map_of values right)"

text \<open>Ranges of the ordered map from \<^verbatim>\<open>lower_bound\<close>, \<^verbatim>\<open>upper_bound\<close> and \<^verbatim>\<open>equal_range\<close>.\<close>

definition index_range :: "string \<Rightarrow> (string \<times> string) list \<Rightarrow> string \<Rightarrow> string list option" where
  "index_range op values right =
    (let before = takeWhile (\<lambda>(n, h). n < right) values;
         from_lower = dropWhile (\<lambda>(n, h). n < right) values;
         from_upper = dropWhile (\<lambda>(n, h). n \<le> right) values
     in if op = ''<>'' then (if from_lower = [] then None else Some (map snd (before @ from_upper)))
        else if op = ''>'' then (if from_upper = [] then None else Some (map snd from_upper))
        else if op = ''>='' then (if from_lower = [] then None else Some (map snd from_lower))
        else if op = ''<='' then (if from_lower = [] then None else Some (map snd (before @ [hd from_lower])))
        else (if from_lower = [] then None else Some (map snd before)))"

definition lookup_index :: "storage_env \<Rightarrow> string \<Rightarrow> (string \<times> string) list \<Rightarrow> string \<Rightarrow> string \<Rightarrow> cpp_error + json" where
  "lookup_index E op indexes left right =
    (let values = getOrderedEdgeNamesOf (client E) (entry indexes left);
         found = (if op = ''='' then
                    index_equals (if left = ''id'' then getOrderedEdgeNamesOf (client E) (entry values ''__'') else values) right
                  else index_range op values right)
     in case found of None \<Rightarrow> Inr (JString []) | Some hs \<Rightarrow> map_sum id JArray (fetch_all E hs))"

definition apply_filter :: "string \<Rightarrow> json list \<Rightarrow> string \<Rightarrow> string \<Rightarrow> json list search" where
  "apply_filter op docs left right =
    (if op = ''='' then equals docs left right
     else if op = ''<>'' then not_equals docs left right
     else if op = ''>'' then greaterthan docs left right
     else if op = ''>='' then greaterthan_equals docs left right
     else if op = ''<='' then lessthan_equals docs left right
     else lessthan docs left right)"

definition filter_documents :: "string \<Rightarrow> json \<Rightarrow> string \<Rightarrow> string \<Rightarrow> json search" where
  "filter_documents op rs left right =
    (case rs of
       JArray xs \<Rightarrow> sbind (apply_filter op xs left right) (\<lambda>ys. Some (Inr (JArray ys)))
     | _ \<Rightarrow> Some (Inl JsonError))"

text \<open>The operands are converted to strings, which throws for anything else.  The right operand is converted when it is used.\<close>

definition compare ::
    "storage_env \<Rightarrow> string \<Rightarrow> (string \<times> string) list \<Rightarrow> json \<Rightarrow> json \<Rightarrow> json \<Rightarrow> (json \<times> (string \<times> string) list) search" where
  "compare E op indexes docs left right =
    sbind (Some (get_string left)) (\<lambda>l.
      if map_of indexes l \<noteq> None then
        sbind (Some (get_string right)) (\<lambda>r. sbind (Some (lookup_index E op indexes l r)) (\<lambda>rs. Some (Inr (rs, indexes))))
      else
        sbind (Some (sortDocumentsByOperand E docs l indexes)) (\<lambda>(rs, indexes).
          if json_size rs = 0 then Some (Inr (rs, indexes))
          else sbind (Some (get_string right)) (\<lambda>r. sbind (filter_documents op rs l r) (\<lambda>rs. Some (Inr (rs, indexes))))))"

definition combine :: "string \<Rightarrow> json \<Rightarrow> json \<Rightarrow> cpp_error + json" where
  "combine op left right =
    (if op = ''|'' then
       (if json_empty left \<or> json_empty right then Inr (if json_empty left then right else left) else union_set left right)
     else if op = ''&'' then
       (if json_empty left \<or> json_empty right then Inr (JArray []) else intersection left right)
     else Inr (JArray []))"

fun evaluateExpression ::
    "storage_env \<Rightarrow> TreeNode \<Rightarrow> (string \<times> string) list \<Rightarrow> json \<Rightarrow> (json \<times> (string \<times> string) list) search" where
  "evaluateExpression E Null indexes docs = Some (Inr (JString [], indexes))"
| "evaluateExpression E (Node op l r) indexes docs =
    (if l = Null \<and> r = Null then Some (Inr (JString op, indexes))
     else
       sbind (evaluateExpression E l indexes docs) (\<lambda>(left, indexes).
       sbind (evaluateExpression E r indexes docs) (\<lambda>(right, indexes).
         if op \<in> {''='', ''<>'', ''>'', ''>='', ''<='', ''<''} then compare E op indexes docs left right
         else sbind (Some (combine op left right)) (\<lambda>rs. Some (Inr (rs, indexes))))))"

section \<open>Search\<close>

definition MSG_TEMPLATE_NOT_FOUND :: string where
  "MSG_TEMPLATE_NOT_FOUND = ''No Entity found for the given Id''"

text \<open>An exception while parsing the expression leaves the function; one during evaluation is logged.\<close>

definition search_tree :: "storage_env \<Rightarrow> string \<Rightarrow> string \<Rightarrow> json search" where
  "search_tree E hash expression =
    (let indexes = getUnorderedEdgeNamesOf (client E) hash
     in sbind (Some (getPostfixedExpressionOf expression)) (\<lambda>postfixform.
        sbind (Some (getExpressionTreeFrom postfixform)) (\<lambda>(filterCondition, fields).
          let fields = markExistingIndexes indexes fields
          in map_option (\<lambda>r. case r of Inl e \<Rightarrow> if e = Undefined then Inl e else Inr (JString []) | Inr (docs, _) \<Rightarrow> Inr docs)
               (evaluateExpression E filterCondition indexes JNull))))"

definition search_from :: "storage_env \<Rightarrow> string \<Rightarrow> string \<Rightarrow> json search" where
  "search_from E hash expression =
    (if hash = [] then Some (Inr (JString MSG_TEMPLATE_NOT_FOUND)) else search_tree E hash expression)"

section \<open>Meaning of equality queries\<close>

text \<open>The documents an expression of comparisons by \<^verbatim>\<open>=\<close>, conjunctions and disjunctions asks for.\<close>

fun wants :: "expr \<Rightarrow> json \<Rightarrow> bool" where
  "wants (Bin op l r) d \<longleftrightarrow>
    (if op = ''|'' then wants l d \<or> wants r d
     else if op = ''&'' then wants l d \<and> wants r d
     else case (l, r) of (Str f, Str v) \<Rightarrow> key f d = JString v | _ \<Rightarrow> False)"
| "wants e d \<longleftrightarrow> False"

text \<open>The queries whose answer the evaluation delivers: a value of the indexed field must be in the index, and a value of
  another field must not be below all values the documents have.\<close>

fun answerable :: "string set \<Rightarrow> json set \<Rightarrow> expr \<Rightarrow> bool" where
  "answerable ids docs (Bin op l r) \<longleftrightarrow>
    (if op = ''|'' \<or> op = ''&'' then answerable ids docs l \<and> answerable ids docs r
     else op = ''='' \<and> (case (l, r) of
       (Str f, Str v) \<Rightarrow> if f = ''id'' then v \<in> ids else docs = {} \<or> (\<exists>d \<in> docs. key f d \<le> JString v)
     | _ \<Rightarrow> False))"
| "answerable ids docs e \<longleftrightarrow> False"

text \<open>The graph of an entity: an index of the field \<^verbatim>\<open>id\<close> only, whose entries lead to the documents with that id.\<close>

definition entity_docs :: "storage_env \<Rightarrow> (string \<times> string) list \<Rightarrow> (string \<times> string) list \<Rightarrow> json list \<Rightarrow> bool" where
  "entity_docs E indexes ids docs \<longleftrightarrow>
    (\<forall>f. map_of indexes f \<noteq> None \<longleftrightarrow> f = ''id'') \<and>
    getOrderedEdgeNamesOf (client E) (entry (getOrderedEdgeNamesOf (client E) (entry indexes ''id'')) ''__'') = ids \<and>
    distinct (map fst ids) \<and> length ids < 2 ^ 31 \<and>
    list_all2 (\<lambda>(n, h) d. fetchDocument E h = Inr d \<and> has_fields d \<and> key ''id'' d = JString n) ids docs"

lemma entity_docsD:
  assumes "entity_docs E indexes ids docs"
  shows "map_of indexes f = None \<longleftrightarrow> f \<noteq> ''id''"
    and "getOrderedEdgeNamesOf (client E) (entry (getOrderedEdgeNamesOf (client E) (entry indexes ''id'')) ''__'') = ids"
    and "distinct (map fst ids)" "length ids < 2 ^ 31"
    and "list_all2 (\<lambda>(n, h) d. fetchDocument E h = Inr d \<and> has_fields d \<and> key ''id'' d = JString n) ids docs"
  using assms unfolding entity_docs_def by blast+

text \<open>What is assumed of the JSON text and of the sort.\<close>

definition json_text_ok :: "storage_env \<Rightarrow> bool" where
  "json_text_ok E \<longleftrightarrow> (\<forall>j. json_parse E (json_dump E j) = Inr j)"

definition sort_ok :: "storage_env \<Rightarrow> bool" where
  "sort_ok E \<longleftrightarrow> (\<forall>operand. sorts_by (key operand) (sort_docs E operand))"

lemma fetch_all_list: "list_all2 (\<lambda>h d. fetchDocument E h = Inr d) hs ds \<Longrightarrow> fetch_all E hs = Inr ds"
  by (induction rule: list_all2_induct) auto

lemma entity_default:
  assumes "entity_docs E indexes ids docs"
  shows "fetchDocumentsFromDefaultIndex E indexes = Inr (docs, indexes)" "list_all has_fields docs" "length docs < 2 ^ 31"
proof -
  have l: "list_all2 (\<lambda>(n, h) d. fetchDocument E h = Inr d \<and> has_fields d \<and> key ''id'' d = JString n) ids docs"
    by (rule entity_docsD(5) [OF assms])
  have "fetch_all E (map snd ids) = Inr docs"
    by (rule fetch_all_list, subst list_all2_map1, rule list_all2_mono [OF l]) auto
  moreover have "std_insert ''id'' [] indexes = indexes" using entity_docsD(1) [OF assms, of "''id''"] by (simp add: std_insert_def)
  ultimately show "fetchDocumentsFromDefaultIndex E indexes = Inr (docs, indexes)"
    using entity_docsD(2) [OF assms] by (simp add: fetchDocumentsFromDefaultIndex_def)
  show "list_all has_fields docs" using l by (induction rule: list_all2_induct) auto
  show "length docs < 2 ^ 31" using entity_docsD(4) [OF assms] list_all2_lengthD [OF l] by simp
qed

lemma entity_distinct:
  assumes "entity_docs E indexes ids docs"
  shows "distinct docs"
proof -
  have "list_all2 (\<lambda>n d. key ''id'' d = JString n) (map fst ids) docs"
    by (subst list_all2_map1, rule list_all2_mono [OF entity_docsD(5) [OF assms]]) auto
  then have "map (key ''id'') docs = map JString (map fst ids)" by (induction rule: list_all2_induct) auto
  moreover have "distinct (map JString (map fst ids))"
    using entity_docsD(3) [OF assms] by (simp only: distinct_map) (auto simp: inj_on_def)
  ultimately show ?thesis by (metis distinct_map)
qed

lemma sorted_documents:
  assumes "entity_docs E indexes ids docs" and "json_text_ok E" and "sort_ok E"
  shows "\<exists>xs. sortDocumentsByOperand E JNull operand indexes = Inr (JArray xs, indexes) \<and> mset xs = mset docs \<and> searchable operand xs"
proof -
  let ?xs = "sort_docs E operand docs"
  have "mset ?xs = mset docs" "sorted (map (key operand) ?xs)" using assms(3) by (auto simp: sort_ok_def sorts_by_def)
  moreover from this have "set ?xs = set docs" "length ?xs = length docs" by (metis mset_eq_setD, metis mset_eq_length)
  ultimately show ?thesis
    using entity_default [OF assms(1)] assms(2)
    by (intro exI [of _ ?xs]) (auto simp: sortDocumentsByOperand_def json_text_ok_def searchable_def list_all_iff)
qed

lemma compare_unindexed:
  assumes "entity_docs E indexes ids docs" and "json_text_ok E" and "sort_ok E" and "f \<noteq> ''id''"
    and "docs = [] \<or> (\<exists>d \<in> set docs. key f d \<le> JString v)"
  shows "\<exists>rs. compare E ''='' indexes JNull (JString f) (JString v) = Some (Inr (JArray rs, indexes)) \<and>
    distinct rs \<and> set rs = {d \<in> set docs. key f d = JString v}"
proof -
  obtain xs where xs: "sortDocumentsByOperand E JNull f indexes = Inr (JArray xs, indexes)" "mset xs = mset docs" "searchable f xs"
    using sorted_documents [OF assms(1-3)] by blast
  have same: "set xs = set docs" "length xs = length docs" "distinct xs"
    using xs(2) entity_distinct [OF assms(1)] by (metis mset_eq_setD, metis mset_eq_length, metis mset_eq_imp_distinct_iff)
  have idx: "map_of indexes f = None" using entity_docsD(1) [OF assms(1)] assms(4) by blast
  show ?thesis
  proof (cases "docs = []")
    case True
    then show ?thesis using xs idx by (simp add: compare_def)
  next
    case False
    then have ne: "xs \<noteq> []" using same(2) by auto
    obtain d where d: "d \<in> set xs" "key f d \<le> JString v" using assms(5) False same(1) by auto
    then obtain i where "i < length xs" "d = xs ! i" by (auto simp: in_set_conv_nth)
    then have "\<not> JString v < key f (xs ! 0)" using d(2) searchable_mono [OF xs(3), of 0 i] by (auto simp: not_less)
    then show ?thesis
      using equals_selects [OF xs(3) ne] xs same idx ne by (auto simp: compare_def filter_documents_def apply_filter_def)
  qed
qed

lemma compare_id:
  assumes "entity_docs E indexes ids docs" and "map_of ids v \<noteq> None"
  shows "\<exists>rs. compare E ''='' indexes JNull (JString ''id'') (JString v) = Some (Inr (JArray rs, indexes)) \<and>
    distinct rs \<and> set rs = {d \<in> set docs. key ''id'' d = JString v}"
proof -
  obtain h where h: "map_of ids v = Some h" using assms(2) by auto
  have l: "list_all2 (\<lambda>(n, h) d. fetchDocument E h = Inr d \<and> has_fields d \<and> key ''id'' d = JString n) ids docs"
    and dist: "distinct (map fst ids)" and idx: "map_of indexes ''id'' \<noteq> None"
    using entity_docsD [OF assms(1)] by blast+
  have "\<exists>d. fetchDocument E h = Inr d \<and> {d \<in> set docs. key ''id'' d = JString v} = {d}"
    using l dist h
  proof (induction rule: list_all2_induct)
    case (Cons nh ids d docs)
    obtain n h' where nh: "nh = (n, h')" by (cases nh)
    show ?case
    proof (cases "n = v")
      case True
      have "{d \<in> set docs. key ''id'' d = JString v} = {}"
        using Cons.hyps(2) Cons.prems(1) True unfolding nh
        by (induction rule: list_all2_induct) auto
      then show ?thesis using Cons.hyps(1) Cons.prems True by (auto simp: nh)
    next
      case False
      then show ?thesis using Cons.IH Cons.hyps(1) Cons.prems by (auto simp: nh)
    qed
  qed simp
  then show ?thesis
    using idx h entity_docsD(2) [OF assms(1)] by (auto simp: compare_def lookup_index_def index_equals_def Let_def)
qed

lemma distinct_remdups_sorted: "sorted xs \<Longrightarrow> distinct (remdups_adj (xs :: 'a::linorder list))"
  by (induction xs rule: remdups_adj.induct) auto

lemma distinct_remdups_sort: "distinct (remdups_adj (sort (xs :: 'a::linorder list)))"
  by (rule distinct_remdups_sorted) simp

lemma combine_sets:
  assumes "distinct xs" and "distinct ys"
  shows "\<exists>rs. combine ''|'' (JArray xs) (JArray ys) = Inr (JArray rs) \<and> distinct rs \<and> set rs = set xs \<union> set ys"
    and "\<exists>rs. combine ''&'' (JArray xs) (JArray ys) = Inr (JArray rs) \<and> distinct rs \<and> set rs = set xs \<inter> set ys"
  using assms by (auto simp: combine_def union_set_def intersection_def elements_def distinct_remdups_sort)

lemma evaluate_node:
  "l \<noteq> Null \<Longrightarrow> evaluateExpression E (Node op l r) indexes docs =
     sbind (evaluateExpression E l indexes docs) (\<lambda>(left, indexes).
     sbind (evaluateExpression E r indexes docs) (\<lambda>(right, indexes).
       if op \<in> {''='', ''<>'', ''>'', ''>='', ''<='', ''<''} then compare E op indexes docs left right
       else sbind (Some (combine op left right)) (\<lambda>rs. Some (Inr (rs, indexes)))))"
  by simp

lemma tree_of_not_Null: "tree_of e \<noteq> Null"
  by (cases e) auto

lemma evaluate_wanted:
  assumes "entity_docs E indexes ids docs" and "json_text_ok E" and "sort_ok E"
  shows "answerable (fst ` set ids) (set docs) e \<Longrightarrow>
    \<exists>rs. evaluateExpression E (tree_of e) indexes JNull = Some (Inr (JArray rs, indexes)) \<and> distinct rs \<and> set rs = {d \<in> set docs. wants e d}"
proof (induction e)
  case (Bin op l r)
  show ?case
  proof (cases "op = ''|'' \<or> op = ''&''")
    case True
    then obtain xs ys where ev: "evaluateExpression E (tree_of l) indexes JNull = Some (Inr (JArray xs, indexes))"
        "evaluateExpression E (tree_of r) indexes JNull = Some (Inr (JArray ys, indexes))"
        and sets: "distinct xs" "distinct ys" "set xs = {d \<in> set docs. wants l d}" "set ys = {d \<in> set docs. wants r d}"
      using Bin.IH Bin.prems by auto
    have "op \<notin> {''='', ''<>'', ''>'', ''>='', ''<='', ''<''}" using True by auto
    then have "evaluateExpression E (tree_of (Bin op l r)) indexes JNull =
        sbind (Some (combine op (JArray xs) (JArray ys))) (\<lambda>rs. Some (Inr (rs, indexes)))"
      unfolding tree_of.simps evaluate_node [OF tree_of_not_Null] by (simp add: ev)
    moreover have "{d \<in> set docs. wants (Bin op l r) d} = (if op = ''|'' then set xs \<union> set ys else set xs \<inter> set ys)"
      using True sets by auto
    ultimately show ?thesis using True combine_sets [OF sets(1,2)] by auto
  next
    case False
    then have op: "op = ''=''" and a: "answerable (fst ` set ids) (set docs) (Bin ''='' l r)" using Bin.prems by simp_all
    obtain f v where lr: "l = Str f" "r = Str v" using a by (cases l; cases r) simp_all
    have "\<exists>rs. compare E ''='' indexes JNull (JString f) (JString v) = Some (Inr (JArray rs, indexes)) \<and> distinct rs \<and> set rs = {d \<in> set docs. key f d = JString v}"
      using compare_id [OF assms(1), of v] compare_unindexed [OF assms, of f v] a unfolding lr by (cases "f = ''id''") (simp_all add: map_of_eq_None_iff)
    then show ?thesis unfolding op lr by simp
  qed
qed simp_all

lemma search_wanted:
  assumes "entity_docs E (getUnorderedEdgeNamesOf (client E) hash) ids docs" and "hash \<noteq> []" and "json_text_ok E" and "sort_ok E"
    and "answerable (fst ` set ids) (set docs) e" and "expr_ok e" and "list_all is_space sp"
  shows "\<exists>rs. search_from E hash (sp @ print_expr sp e) = Some (Inr (JArray rs)) \<and> distinct rs \<and> set rs = {d \<in> set docs. wants e d}"
proof -
  let ?indexes = "getUnorderedEdgeNamesOf (client E) hash"
  obtain m where m: "build_tree (postfix_of e) ([], []) = Inr ([tree_of e], m)"
    using build_tree_expr [OF assms(6), of "{}" "[]" "[]"] by (auto simp: fields_ok_def)
  obtain rs where "evaluateExpression E (tree_of e) ?indexes JNull = Some (Inr (JArray rs, ?indexes))" "distinct rs" "set rs = {d \<in> set docs. wants e d}"
    using evaluate_wanted [OF assms(1,3,4,5)] by blast
  then show ?thesis
    using assms(2) m by (auto simp: search_from_def search_tree_def postfix_printed [OF assms(6,7)] getExpressionTreeFrom_def Let_def)
qed

section \<open>Properties\<close>

text \<open>Claim (C13): a search finds exactly the documents it asks for.  For an entity whose documents are listed in its index
  of ids, and any combination of equality comparisons by conjunction and disjunction, written as text in any layout, the
  search returns an array of exactly the documents that satisfy the expression, each once, provided every id that is
  asked for is in the index and no value of another field is below all the values that occur.\<close>

theorem search_finds_documents:
  assumes "entity_docs E (getUnorderedEdgeNamesOf (client E) hash) ids docs" and "hash \<noteq> []" and "json_text_ok E" and "sort_ok E"
    and "answerable (fst ` set ids) (set docs) e" and "expr_ok e" and "list_all is_space sp"
  shows "\<exists>rs. search_from E hash (sp @ print_expr sp e) = Some (Inr (JArray rs)) \<and> distinct rs \<and> set rs = {d \<in> set docs. wants e d}"
  by (rule search_wanted [OF assms])

text \<open>A small graph with two documents; the text of a document is its number.\<close>

definition number_text :: "json \<Rightarrow> string" where
  "number_text j = dec (to_nat j)"

definition number_parse :: "string \<Rightarrow> cpp_error + json" where
  "number_parse s = Inr (from_nat (dec_val 0 s))"

lemma number_roundtrip: "number_parse (number_text j) = Inr j"
  by (simp add: number_parse_def number_text_def dec_val_dec)

definition sample_docs :: "json list" where
  "sample_docs = [JObject [(''id'', JString ''d1''), (''name'', JString ''x'')], JObject [(''id'', JString ''d2''), (''name'', JString ''y'')]]"

definition sample_env :: storage_env where
  "sample_env =
    \<lparr>client =
       \<lparr>object_links = (\<lambda>h. if h = ''A'' then Inr [(''id'', ''B'')] else if h = ''B'' then Inr [(''__'', ''C'')]
          else if h = ''C'' then Inr [(''d2'', ''H2''), (''d1'', ''H1'')] else Inl RuntimeError),
        object_data = (\<lambda>h. Inr (number_text (sample_docs ! (if h = ''H1'' then 0 else 1)))),
        object_put = (\<lambda>_ _. Inl RuntimeError), patch_add_link = (\<lambda>_ _ _. Inl RuntimeError), patch_rm_link = (\<lambda>_ _. Inl RuntimeError)\<rparr>,
     json_dump = number_text, json_parse = number_parse, b64 = id, b64_text = id, sort_docs = (\<lambda>operand. sort_key (key operand)),
     map_order = id, dht_order = id, new_guid = ''g''\<rparr>"

lemma sample_env_entity:
  "entity_docs sample_env (getUnorderedEdgeNamesOf (client sample_env) ''A'') [(''d1'', ''H1''), (''d2'', ''H2'')] sample_docs"
  "json_text_ok sample_env" "sort_ok sample_env"
  by (simp_all add: sample_env_def entity_docs_def getUnorderedEdgeNamesOf_def getOrderedEdgeNamesOf_def std_insert_def entry_def
      omap_insert_def less_char_def sample_docs_def fetchDocument_def fetchObject_def number_roundtrip has_fields_def key_def
      json_text_ok_def sort_ok_def sorts_by_sort_key)

theorem search_finds_documents_witness:
  "let e = Bin ''|'' (Bin ''='' (Str ''name'') (Str ''x'')) (Bin ''&'' (Bin ''='' (Str ''id'') (Str ''d2'')) (Bin ''='' (Str ''name'') (Str ''y'')))
   in \<exists>rs. search_from sample_env ''A'' ('' '' @ print_expr '' '' e) = Some (Inr (JArray rs)) \<and> set rs = set sample_docs"
proof -
  let ?e = "Bin ''|'' (Bin ''='' (Str ''name'') (Str ''x'')) (Bin ''&'' (Bin ''='' (Str ''id'') (Str ''d2'')) (Bin ''='' (Str ''name'') (Str ''y'')))"
  have "answerable (fst ` set [(''d1'', ''H1''), (''d2'', ''H2'')]) (set sample_docs) ?e" "expr_ok ?e" "list_all is_space '' ''"
    by (simp_all add: sample_docs_def key_def comparisons_def is_space_def)
  moreover have "{d \<in> set sample_docs. wants ?e d} = set sample_docs"
    by (auto simp: sample_docs_def key_def)
  ultimately show ?thesis
    using search_finds_documents [OF sample_env_entity(1) _ sample_env_entity(2,3), of ?e "'' ''"] unfolding Let_def by auto
qed

text \<open>An id that is not in the index makes the evaluation of a disjunction fail, and the search returns the empty string
  although the other side has an answer.\<close>

lemma missing_id_poisons:
  assumes "entity_docs E indexes ids docs" and "map_of ids v = None"
    and "evaluateExpression E r indexes JNull = Some (Inr (JArray (d # ds), indexes'))"
  shows "evaluateExpression E (Node ''|'' (Node ''='' (Node ''id'' Null Null) (Node v Null Null)) r) indexes JNull = Some (Inl JsonError)"
proof -
  have "map_of indexes ''id'' \<noteq> None" using entity_docsD(1) [OF assms(1)] by blast
  then have "compare E ''='' indexes JNull (JString ''id'') (JString v) = Some (Inr (JString [], indexes))"
    using assms(2) entity_docsD(2) [OF assms(1)] by (auto simp: compare_def lookup_index_def index_equals_def)
  then show ?thesis using assms(3) by (simp add: combine_def union_set_def elements_def)
qed

end
