(* ===== verification/Storage.thy ===== *)
theory Storage
  imports Query
begin

text \<open>
  The operations of a storage node on its data (\<^verbatim>\<open>StorageNode.cpp\<close>): functions, templates and documents of tenants, transactions and
  blocks are objects in IPFS that are linked to root objects, and the hashes of the roots are kept in the DHT.  The state
  holds what has been put into the DHT; the IPFS graph only grows and is the parameter \<open>client\<close>.  Puts give every value a
  random id, so the values of a key accumulate; a get takes the last value of the list it receives, whose order is a
  parameter.
\<close>

section \<open>State and output\<close>

record CommandInfo =
  ci_fields :: field_map
  ci_timestamp :: int
  ci_command :: "string list"

record storage =
  dht_values :: "string \<Rightarrow> string list"
  stateChangeQueueMap :: "(string \<times> CommandInfo list) list"
  blocksToCommit :: "(int \<times> string) list"

datatype storage_out =
    ToClient string string                     \<comment> \<open>web socket: channel and text\<close>
  | ToNode string CommandType field_map        \<comment> \<open>gossip: channel, command and fields\<close>
  | StartThread string                         \<comment> \<open>a thread that works on the queue with this key\<close>

type_synonym 'a store_action = "(storage, storage_out, 'a) effect"

definition dhtGet :: "storage_env \<Rightarrow> string \<Rightarrow> string store_action" where
  "dhtGet E k = gets (\<lambda>st. case dht_order E (dht_values st k) of [] \<Rightarrow> [] | vs \<Rightarrow> last vs)"

definition dhtPut :: "string \<Rightarrow> string \<Rightarrow> unit store_action" where
  "dhtPut k v = modify (\<lambda>st. st\<lparr>dht_values := (dht_values st)(k := dht_values st k @ [v])\<rparr>)"

section \<open>Names\<close>

definition FUNCTION_TREE :: string where
  "FUNCTION_TREE = ''function''"

definition DATA_TREE :: string where
  "DATA_TREE = ''data''"

definition TEMPLATE_TREE :: string where
  "TEMPLATE_TREE = ''template''"

definition TRANSACTION_TREE :: string where
  "TRANSACTION_TREE = ''tx''"

definition BLOCK_TREE :: string where
  "BLOCK_TREE = ''block''"

definition object_key :: "string \<Rightarrow> string \<Rightarrow> string \<Rightarrow> string" where
  "object_key tree tid objectId = tree @ ''_'' @ tid @ ''_'' @ objectId"

definition tree_key :: "string \<Rightarrow> string \<Rightarrow> string" where
  "tree_key tree tid = tree @ ''_'' @ tid"

definition root_key :: "string \<Rightarrow> string" where
  "root_key tree = ''.'' @ tree"

definition data_root_key :: "string \<Rightarrow> string \<Rightarrow> string" where
  "data_root_key tid entityId = root_key (object_key DATA_TREE tid entityId)"

definition document_key :: "string \<Rightarrow> string \<Rightarrow> string \<Rightarrow> string" where
  "document_key tid entityId documentId = object_key DATA_TREE tid entityId @ ''_'' @ documentId"

section \<open>Objects and answers\<close>

definition addObject :: "storage_env \<Rightarrow> string \<Rightarrow> string" where
  "addObject E data = (case object_put (client E) data [] of Inl e \<Rightarrow> [] | Inr h \<Rightarrow> h)"

definition addObjectAndLink :: "storage_env \<Rightarrow> string \<Rightarrow> string \<Rightarrow> string \<Rightarrow> string store_action" where
  "addObjectAndLink E data child link = lift (object_put (client E) data [(link, child)])"

definition answer_json :: "CommandType \<Rightarrow> string \<Rightarrow> string \<Rightarrow> string \<Rightarrow> json" where
  "answer_json cmd txid objectId val =
    (let j = omap_set (if cmd \<noteq> exception then ''data'' else ''error'') (JString val) [(''txid'', JString txid)]
     in JObject (if objectId \<noteq> [] then omap_set ''id'' (JString objectId) j else j))"

definition send :: "storage_env \<Rightarrow> string \<Rightarrow> string \<Rightarrow> CommandType \<Rightarrow> string \<Rightarrow> string \<Rightarrow> string \<Rightarrow> unit store_action" where
  "send E source channelId cmd txid objectId val =
    emit (if source = ''1'' then ToClient channelId (json_dump E (answer_json cmd txid objectId val))
          else ToNode channelId cmd [(''txid'', txid), (''id'', objectId), (''data'', val)])"

section \<open>Roots\<close>

definition linkToRoot :: "storage_env \<Rightarrow> string \<Rightarrow> string \<Rightarrow> string \<Rightarrow> string \<Rightarrow> unit store_action" where
  "linkToRoot E tree objectId objectHash txid =
    perform (if txid \<noteq> [] then dhtPut (tree_key TRANSACTION_TREE objectHash) txid else ok ())
    (andThen (dhtGet E (root_key tree)) (\<lambda>rootHash.
     andThen (if rootHash = [] then addObjectAndLink E tree objectHash objectId
              else lift (patch_add_link (client E) rootHash objectId objectHash)) (\<lambda>rootHash.
     dhtPut (root_key tree) rootHash)))"

definition unLinkToRoot :: "storage_env \<Rightarrow> string \<Rightarrow> string \<Rightarrow> string \<Rightarrow> string \<Rightarrow> unit store_action" where
  "unLinkToRoot E tree txid rootHash objectId =
    andThen (lift (patch_rm_link (client E) rootHash objectId)) (\<lambda>newRootHash.
    perform (dhtPut (tree_key TRANSACTION_TREE rootHash) txid) (dhtPut (root_key tree) newRootHash))"

definition addChildNode :: "storage_env \<Rightarrow> string \<Rightarrow> string \<Rightarrow> string \<Rightarrow> string \<Rightarrow> string \<Rightarrow> string \<Rightarrow> unit store_action" where
  "addChildNode E source channelId txid tid tree object =
    (let objectHash = addObject E object; objectId = new_guid E
     in perform (dhtPut (object_key tree tid objectId) objectHash)
       (perform (send E source channelId stateChange txid objectId objectHash)
       (perform (linkToRoot E (tree_key tree tid) objectId objectHash txid)
       (if tree = TEMPLATE_TREE then
          (let dataRootHash = addObject E (data_root_key tid objectId);
               hashB = addObject E ''id'';
               hashC = addObject E ''collection''
           in andThen (lift (patch_add_link (client E) hashB ''__'' hashC)) (\<lambda>b_c.
              andThen (lift (patch_add_link (client E) dataRootHash ''id'' b_c)) (\<lambda>newDataRootHash.
              dhtPut (data_root_key tid objectId) newDataRootHash)))
        else ok ()))))"

section \<open>Updates\<close>

text \<open>The entries of the new object overwrite those of the old one.  A new value that is not an object has no keys: its
  iteration throws unless it is empty.\<close>

definition MSG_INVALID_OBJECT_ID :: string where
  "MSG_INVALID_OBJECT_ID = ''Invalid Object Id''"

fun merge_json :: "json \<Rightarrow> json \<Rightarrow> cpp_error + json" where
  "merge_json old (JObject []) = Inr old"
| "merge_json (JObject m) (JObject n) = Inr (JObject (fold (\<lambda>(k, v). omap_set k v) n m))"
| "merge_json JNull (JObject n) = Inr (JObject (fold (\<lambda>(k, v). omap_set k v) n []))"
| "merge_json old (JObject n) = Inl JsonError"
| "merge_json old new = (if json_size new = 0 then Inr old else Inl JsonError)"

definition updateValues :: "storage_env \<Rightarrow> string \<Rightarrow> string \<Rightarrow> cpp_error + string" where
  "updateValues E oldObject newObject =
    (case json_parse E oldObject of Inl e \<Rightarrow> Inl e | Inr oldObj \<Rightarrow>
     (case json_parse E newObject of Inl e \<Rightarrow> Inl e | Inr newObj \<Rightarrow> map_sum id (json_dump E) (merge_json oldObj newObj)))"

definition updateChildNode :: "storage_env \<Rightarrow> string \<Rightarrow> string \<Rightarrow> string \<Rightarrow> string \<Rightarrow> string \<Rightarrow> string \<Rightarrow> string \<Rightarrow> unit store_action" where
  "updateChildNode E source tree channelId txid tid objectId object =
    andThen (dhtGet E (root_key (tree_key tree tid))) (\<lambda>rootHash.
    if rootHash = [] then send E source channelId exception txid objectId MSG_INVALID_OBJECT_ID
    else
      andThen (lift (std_at (getUnorderedEdgeNamesOf (client E) rootHash) objectId)) (\<lambda>existingObjectHash.
      if existingObjectHash = [] then send E source channelId exception txid objectId MSG_INVALID_OBJECT_ID
      else
        andThen (lift (updateValues E (fetchObject (client E) existingObjectHash) object)) (\<lambda>updatedObject.
        let objectHash = addObject E updatedObject
        in perform (dhtPut (object_key tree tid objectId) objectHash)
          (perform (send E source channelId stateChange txid objectId objectHash)
           (linkToRoot E (tree_key tree tid) objectId objectHash txid)))))"

definition deleteObject :: "storage_env \<Rightarrow> string \<Rightarrow> string \<Rightarrow> string \<Rightarrow> string \<Rightarrow> string \<Rightarrow> string \<Rightarrow> unit store_action" where
  "deleteObject E source tree channelId txid tid objectId =
    perform (dhtPut (object_key tree tid objectId) [])
   (perform (send E source channelId stateChange txid objectId ''deleted successfully'')
   (andThen (dhtGet E (root_key (tree_key tree tid))) (\<lambda>rootHash.
    perform (unLinkToRoot E (tree_key tree tid) txid rootHash objectId)
    (if tree = TEMPLATE_TREE then dhtPut (data_root_key tid objectId) [] else ok ()))))"

section \<open>Documents\<close>

definition MSG_INVALID_DOCUMENT_STRUCTURE :: string where
  "MSG_INVALID_DOCUMENT_STRUCTURE = ''Issue while parsing document body. Please ensure to pass the document in proper json format''"

definition MSG_DOCUMENT_ROOT_NOT_FOUND :: string where
  "MSG_DOCUMENT_ROOT_NOT_FOUND = ''No Entity found for the given document to operate''"

definition MSG_DOCUMENT_NOT_FOUND :: string where
  "MSG_DOCUMENT_NOT_FOUND = ''No document found for the given id''"

definition MSG_DOCUMENT_UPDATE :: string where
  "MSG_DOCUMENT_UPDATE = ''Documents are updated successfully''"

definition MSG_DOCUMENT_DELETE :: string where
  "MSG_DOCUMENT_DELETE = ''Documents are deleted successfully''"

text \<open>\<^verbatim>\<open>j[k] = x\<close>\<close>

definition set_field :: "string \<Rightarrow> json \<Rightarrow> json \<Rightarrow> cpp_error + json" where
  "set_field k x j =
    (case j of JObject m \<Rightarrow> Inr (JObject (omap_set k x m)) | JNull \<Rightarrow> Inr (JObject [(k, x)]) | _ \<Rightarrow> Inl JsonError)"

text \<open>One index of the entity: the node \<open>c\<close> below the value (or below \<^verbatim>\<open>__\<close>) gets its link to the document changed, and the
  path to the root is rebuilt.\<close>

definition patch_document :: "storage_env \<Rightarrow> string \<Rightarrow> string \<Rightarrow> string \<Rightarrow> string \<Rightarrow> string store_action" where
  "patch_document E op cNode documentId documentHash =
    andThen (if op = ''update'' \<or> op = ''delete'' then lift (patch_rm_link (client E) cNode documentId) else ok cNode) (\<lambda>cNode.
    if op \<noteq> ''delete'' then lift (patch_add_link (client E) cNode documentId documentHash) else ok cNode)"

definition relink_index :: "storage_env \<Rightarrow> string \<Rightarrow> string \<Rightarrow> string \<Rightarrow> string \<Rightarrow> string \<Rightarrow> string store_action" where
  "relink_index E tid entityId entityRoot index newBNode =
    andThen (lift (patch_rm_link (client E) entityRoot index)) (\<lambda>entityRoot.
    andThen (lift (patch_add_link (client E) entityRoot index newBNode)) (\<lambda>entityRoot.
    perform (dhtPut (data_root_key tid entityId) entityRoot) (ok entityRoot)))"

definition update_index ::
    "storage_env \<Rightarrow> string \<Rightarrow> string \<Rightarrow> string \<Rightarrow> string \<Rightarrow> string \<Rightarrow> json \<Rightarrow> string \<times> string \<Rightarrow> string \<Rightarrow> string store_action" where
  "update_index E tid entityId documentId documentHash op inputJson mapDef entityRoot =
    (let (index, bNode) = mapDef
     in case (case inputJson of JObject m \<Rightarrow> map_of m index | _ \<Rightarrow> None) of
          None \<Rightarrow> ok entityRoot
        | Some target \<Rightarrow>
            andThen (lift (get_string target)) (\<lambda>value.
            let b_c = getUnorderedEdgeNamesOf (client E) bNode;
                it = (case map_of b_c ''__'' of Some c \<Rightarrow> Some (''__'', c) | None \<Rightarrow> map_option (\<lambda>c. (value, c)) (map_of b_c value))
            in case it of
                 Some (indexValue, cNode) \<Rightarrow>
                   andThen (patch_document E op cNode documentId documentHash) (\<lambda>cNode.
                   andThen (lift (patch_rm_link (client E) bNode indexValue)) (\<lambda>newBNode.
                   andThen (lift (patch_add_link (client E) newBNode indexValue cNode)) (\<lambda>newBNode.
                   relink_index E tid entityId entityRoot index newBNode)))
               | None \<Rightarrow>
                   andThen (patch_document E op (addObject E entityRoot) documentId documentHash) (\<lambda>cNode.
                   andThen (lift (patch_add_link (client E) bNode value cNode)) (\<lambda>newBNode.
                   relink_index E tid entityId entityRoot index newBNode))))"

definition createOrDeleteDocument ::
    "storage_env \<Rightarrow> string \<Rightarrow> string \<Rightarrow> string \<Rightarrow> string \<Rightarrow> string \<Rightarrow> string \<Rightarrow> string \<Rightarrow> string \<Rightarrow> unit store_action" where
  "createOrDeleteDocument E source channelId txid tid entityId documentId documentJson op =
    andThen (dhtGet E (data_root_key tid entityId)) (\<lambda>entityRoot.
    if entityRoot = [] then send E source channelId exception txid documentId MSG_TEMPLATE_NOT_FOUND
    else
      let documentId = (if op = [] then new_guid E else documentId)
      in andThen
          (if op = [] then
             catching (lift (case json_parse E documentJson of Inl e \<Rightarrow> Inl e | Inr j \<Rightarrow> map_sum id (json_dump E) (set_field ''id'' (JString documentId) j)))
               (\<lambda>_. perform (send E source channelId exception txid [] MSG_INVALID_DOCUMENT_STRUCTURE) (ok documentJson))
           else ok documentJson) (\<lambda>documentJson.
         let documentHash = (if op \<noteq> ''delete'' then addObject E documentJson else [])
         in perform (dhtPut (document_key tid entityId documentId) documentHash)
           (perform (if op = [] then send E source channelId stateChange txid documentId documentHash else ok ())
           (andThen (lift (json_parse E documentJson)) (\<lambda>inputJson.
            andThen (for_each (map_order E (getUnorderedEdgeNamesOf (client E) entityRoot))
              (update_index E tid entityId documentId documentHash op inputJson) entityRoot) (\<lambda>_. ok ()))))))"

text \<open>A search that does not return exhausts the stack.\<close>

definition searchDocument :: "storage_env \<Rightarrow> string \<Rightarrow> string \<Rightarrow> string \<Rightarrow> json store_action" where
  "searchDocument E tid entityId expression =
    andThen (dhtGet E (data_root_key tid entityId)) (\<lambda>hash.
    lift (case search_from E hash expression of None \<Rightarrow> Inl Undefined | Some r \<Rightarrow> r))"

definition findDocument :: "storage_env \<Rightarrow> string \<Rightarrow> string \<Rightarrow> string \<Rightarrow> string \<Rightarrow> string \<Rightarrow> string \<Rightarrow> unit store_action" where
  "findDocument E source channelId txid tid entityId expression =
    andThen (searchDocument E tid entityId expression) (\<lambda>docs.
    send E source channelId CommandType.fetchDocument txid entityId
      (case docs of JString s \<Rightarrow> s | _ \<Rightarrow> json_dump E docs))"

text \<open>\<^verbatim>\<open>docs[i]\<close> throws for anything but an array; \<^verbatim>\<open>doc["id"]\<close> is converted to a string.\<close>

definition updateOrDeleteDocument ::
    "storage_env \<Rightarrow> string \<Rightarrow> string \<Rightarrow> string \<Rightarrow> string \<Rightarrow> string \<Rightarrow> string \<Rightarrow> string \<Rightarrow> string \<Rightarrow> unit store_action" where
  "updateOrDeleteDocument E source channelId txid tid entityId expression documentJson op =
    andThen (dhtGet E (data_root_key tid entityId)) (\<lambda>entityRoot.
    if entityRoot = [] then send E source channelId exception txid [] MSG_DOCUMENT_ROOT_NOT_FOUND
    else
      andThen (searchDocument E tid entityId expression) (\<lambda>docs.
      if json_empty docs \<or> json_size docs = 0 then send E source channelId exception txid [] MSG_DOCUMENT_NOT_FOUND
      else
        andThen (lift (elements docs)) (\<lambda>ds.
        andThen (for_each ds (\<lambda>doc _.
            andThen (lift (field_ref ''id'' doc)) (\<lambda>(x, doc).
            andThen (lift (get_string x)) (\<lambda>docId.
            andThen (if op = ''update'' then lift (updateValues E (json_dump E doc) documentJson) else ok (json_dump E doc)) (\<lambda>text.
            createOrDeleteDocument E source channelId txid tid entityId docId text op)))) ()) (\<lambda>_.
        send E source channelId stateChange txid [] (if op = ''update'' then MSG_DOCUMENT_UPDATE else MSG_DOCUMENT_DELETE)))))"

section \<open>Functions and templates\<close>

definition MSG_FUNCTION_NOT_FOUND :: string where
  "MSG_FUNCTION_NOT_FOUND = ''No function found for the given Id''"

definition fetchTemplate :: "storage_env \<Rightarrow> string \<Rightarrow> string \<Rightarrow> string \<Rightarrow> string \<Rightarrow> string \<Rightarrow> unit store_action" where
  "fetchTemplate E source channelId txid tid templateId =
    andThen (dhtGet E (object_key TEMPLATE_TREE tid templateId)) (\<lambda>val.
    send E source channelId CommandType.fetchTemplate txid templateId
      (if val = [] then MSG_TEMPLATE_NOT_FOUND else fetchObject (client E) val))"

definition fetchFunction :: "storage_env \<Rightarrow> string \<Rightarrow> string \<Rightarrow> string \<Rightarrow> string \<Rightarrow> string \<Rightarrow> string \<Rightarrow> unit store_action" where
  "fetchFunction E source channelId txid tid functionId hash =
    (if hash \<noteq> [] then send E source channelId CommandType.fetchFunction txid functionId (fetchObject (client E) hash)
     else
       andThen (dhtGet E (object_key FUNCTION_TREE tid functionId)) (\<lambda>val.
       send E source channelId CommandType.fetchFunction txid functionId
         (if val = [] then MSG_FUNCTION_NOT_FOUND else fetchObject (client E) val)))"

section \<open>Transactions and blocks\<close>

definition addToTxTree :: "storage_env \<Rightarrow> json \<Rightarrow> unit store_action" where
  "addToTxTree E transaction =
    (let txHash = addObject E (json_dump E transaction)
     in andThen (lift (json_string_at transaction ''txid'')) (\<lambda>(txid, transaction).
        andThen (lift (json_string_at transaction ''tid'')) (\<lambda>(tid, transaction).
        perform (dhtPut (tree_key TRANSACTION_TREE txid) txHash)
        (andThen (dhtGet E (root_key (tree_key TRANSACTION_TREE tid))) (\<lambda>txRootHash.
         let txRootHash = (if txRootHash = [] then addObject E (root_key (tree_key TRANSACTION_TREE tid)) else txRootHash)
         in andThen (lift (patch_add_link (client E) txRootHash txid txHash)) (\<lambda>newTxRootHash.
            perform (dhtPut (tree_key TRANSACTION_TREE newTxRootHash) txid)
            (dhtPut (root_key (tree_key TRANSACTION_TREE tid)) newTxRootHash)))))))"

text \<open>\<^verbatim>\<open>block["v"][0]\<close>: a missing value becomes an array with a null.\<close>

definition first_verifier :: "json \<Rightarrow> cpp_error + json" where
  "first_verifier v = (case v of JNull \<Rightarrow> Inr JNull | JArray [] \<Rightarrow> Inr JNull | JArray (x # xs) \<Rightarrow> Inr x | _ \<Rightarrow> Inl JsonError)"

definition addTransactions :: "storage_env \<Rightarrow> string \<Rightarrow> unit store_action" where
  "addTransactions E input =
    andThen (lift (json_parse E input)) (\<lambda>block.
    andThen (lift (field_ref ''data'' block)) (\<lambda>(transactions, block).
    andThen (lift (elements transactions)) (\<lambda>ts.
    perform (for_each ts (\<lambda>t _. addToTxTree E t) ())
    (andThen (lift (field_ref ''n'' block)) (\<lambda>(n, block).
     andThen (lift (get_int n)) (\<lambda>number.
     let blockId = to_string number; objectHash = addObject E (json_dump E block)
     in perform (dhtPut (tree_key BLOCK_TREE blockId) objectHash)
       (perform (linkToRoot E BLOCK_TREE blockId objectHash [])
       (andThen (lift (field_ref ''v'' block)) (\<lambda>(v, block).
        andThen (lift (first_verifier v)) (\<lambda>j.
        andThen (lift (set_field ''n'' (JString blockId) j)) (\<lambda>j.
        emit (ToNode ''master21'' verifyBlock [(''b'', b64_text E (json_dump E j))]))))))))))))"

end
