(* ===== verification/Documents.thy ===== *)
theory Documents
  imports Storage
begin

text \<open>
  The documents of an entity as a map from ids to documents, and the operations of a storage node on them as operations on that
  map.  The map is represented by a graph of IPFS objects: the root of the entity links by \<^verbatim>\<open>id\<close> to an index, which links by
  \<^verbatim>\<open>__\<close> to the collection, which links every id to a document; the DHT holds the hash of the root.  The hashes of
  several roots may have been put, the versions of the entity; an operation starts from the version the DHT delivers and puts a new one.
  What the code relies on of IPFS and the DHT is stated as \<open>ipfs_ok\<close> and \<open>surroundings_ok\<close>: nothing is said of the order in which the
  DHT lists versions.
\<close>

section \<open>What is relied on\<close>

text \<open>An object with the given links.\<close>

definition node :: "ipfs \<Rightarrow> string \<Rightarrow> (string \<rightharpoonup> string) \<Rightarrow> bool" where
  "node c h m \<longleftrightarrow> (\<exists>links. object_links c h = Inr links \<and> map_of links = m)"

text \<open>Storing an object returns a hash that leads to it; patching an object returns the hash of a copy with the link
  added, replaced or removed.\<close>

definition ipfs_ok :: "ipfs \<Rightarrow> bool" where
  "ipfs_ok c \<longleftrightarrow>
    (\<forall>d. \<exists>h. object_put c d [] = Inr h \<and> h \<noteq> [] \<and> node c h Map.empty \<and> object_data c h = Inr d) \<and>
    (\<forall>d n t. \<exists>h. object_put c d [(n, t)] = Inr h \<and> h \<noteq> [] \<and> node c h [n \<mapsto> t]) \<and>
    (\<forall>h m n t. node c h m \<longrightarrow> (\<exists>h'. patch_add_link c h n t = Inr h' \<and> h' \<noteq> [] \<and> node c h' (m(n \<mapsto> t)))) \<and>
    (\<forall>h m n. node c h m \<longrightarrow> m n \<noteq> None \<longrightarrow> (\<exists>h'. patch_rm_link c h n = Inr h' \<and> h' \<noteq> [] \<and> node c h' (m(n := None))))"

text \<open>A get lists values that were put for its key, in any order and perhaps not all of them; the iteration of an unordered map
  meets every entry once, JSON text is faithful and the sort sorts.\<close>

definition surroundings_ok :: "storage_env \<Rightarrow> bool" where
  "surroundings_ok E \<longleftrightarrow> ipfs_ok (client E) \<and> json_text_ok E \<and> sort_ok E \<and>
    (\<forall>vs. set (dht_order E vs) \<subseteq> set vs) \<and> (\<forall>m. mset (map_order E m) = mset m)"

lemma surroundings_okD:
  assumes "surroundings_ok E"
  shows "ipfs_ok (client E)" "json_text_ok E" "sort_ok E" "mset (map_order E m) = mset m"
    "set (dht_order E vs) \<subseteq> set vs"
  using assms by (simp_all add: surroundings_ok_def)

lemma ipfs_okD:
  assumes "ipfs_ok c"
  shows "\<exists>h. object_put c d [] = Inr h \<and> h \<noteq> [] \<and> node c h Map.empty \<and> object_data c h = Inr d"
    and "\<exists>h. object_put c d [(n, t)] = Inr h \<and> h \<noteq> [] \<and> node c h [n \<mapsto> t]"
    and "node c h m \<Longrightarrow> \<exists>h'. patch_add_link c h n t = Inr h' \<and> h' \<noteq> [] \<and> node c h' (m(n \<mapsto> t))"
    and "node c h m \<Longrightarrow> m n \<noteq> None \<Longrightarrow> \<exists>h'. patch_rm_link c h n = Inr h' \<and> h' \<noteq> [] \<and> node c h' (m(n := None))"
proof -
  note laws = assms [unfolded ipfs_ok_def]
  show "\<exists>h. object_put c d [] = Inr h \<and> h \<noteq> [] \<and> node c h Map.empty \<and> object_data c h = Inr d"
    by (rule laws [THEN conjunct1, THEN spec])
  show "\<exists>h. object_put c d [(n, t)] = Inr h \<and> h \<noteq> [] \<and> node c h [n \<mapsto> t]"
    by (rule laws [THEN conjunct2, THEN conjunct1, THEN spec, THEN spec, THEN spec])
  show "\<exists>h'. patch_add_link c h n t = Inr h' \<and> h' \<noteq> [] \<and> node c h' (m(n \<mapsto> t))" if "node c h m"
    by (rule laws [THEN conjunct2, THEN conjunct2, THEN conjunct1, THEN spec, THEN spec, THEN spec, THEN spec, THEN mp]) fact
  show "\<exists>h'. patch_rm_link c h n = Inr h' \<and> h' \<noteq> [] \<and> node c h' (m(n := None))" if "node c h m" "m n \<noteq> None"
    by (rule laws [THEN conjunct2, THEN conjunct2, THEN conjunct2, THEN spec, THEN spec, THEN spec, THEN mp, THEN mp]) fact+
qed

lemma put_object:
  assumes "surroundings_ok E"
  shows "addObject E d \<noteq> []" "node (client E) (addObject E d) Map.empty" "fetchObject (client E) (addObject E d) = d"
  using ipfs_okD(1) [OF surroundings_okD(1) [OF assms], of d] by (auto simp: addObject_def fetchObject_def)

lemma put_linked:
  assumes "surroundings_ok E"
  obtains h where "object_put (client E) d [(n, t)] = Inr h" "h \<noteq> []" "node (client E) h [n \<mapsto> t]"
  using ipfs_okD(2) [OF surroundings_okD(1) [OF assms], of d n t] that by blast

lemma add_link:
  assumes "surroundings_ok E" and "node (client E) h m"
  obtains h' where "patch_add_link (client E) h n t = Inr h'" "h' \<noteq> []" "node (client E) h' (m(n \<mapsto> t))"
  using ipfs_okD(3) [OF surroundings_okD(1) [OF assms(1)] assms(2), of n t] that by blast

lemma rm_link:
  assumes "surroundings_ok E" and "node (client E) h m" and "m n \<noteq> None"
  obtains h' where "patch_rm_link (client E) h n = Inr h'" "h' \<noteq> []" "node (client E) h' (m(n := None))"
  using ipfs_okD(4) [OF surroundings_okD(1) [OF assms(1)] assms(2,3)] that by blast

section \<open>Edges\<close>

lemma fold_std_insert: "map_of (fold (\<lambda>(n, h). std_insert n h) links m) = map_of links ++ map_of m"
proof (induction links arbitrary: m)
  case (Cons l links)
  obtain n h where l: "l = (n, h)" by (cases l)
  show ?case unfolding l by (auto simp: Cons map_add_def fun_eq_iff split: option.splits)
qed simp

lemma distinct_fold_std_insert: "distinct (map fst m) \<Longrightarrow> distinct (map fst (fold (\<lambda>(n, h). std_insert n h) links m))"
  by (induction links arbitrary: m) (auto simp: distinct_std_insert)

lemma fold_omap_insert:
  "omap_ok m \<Longrightarrow> omap_ok (fold (\<lambda>(n, h). omap_insert n h) links m) \<and>
   map_of (fold (\<lambda>(n, h). omap_insert n h) links m) = map_of links ++ map_of m"
proof (induction links arbitrary: m)
  case (Cons l links)
  obtain n h where l: "l = (n, h)" by (cases l)
  have "omap_ok (omap_insert n h m)" using Cons.prems by (rule omap_insert_ok)
  then show ?case
    unfolding l using Cons.IH Cons.prems by (auto simp: map_of_omap_insert map_add_def fun_eq_iff split: option.splits)
qed simp

lemma omap_ok_distinct: "omap_ok m \<Longrightarrow> distinct (map fst m)"
  by (auto simp: omap_ok_def strict_sorted_iff)

lemma edges:
  assumes "node c h m"
  shows "map_of (getUnorderedEdgeNamesOf c h) = m" "distinct (map fst (getUnorderedEdgeNamesOf c h))"
    and "map_of (getOrderedEdgeNamesOf c h) = m" "distinct (map fst (getOrderedEdgeNamesOf c h))"
proof -
  obtain links where l: "object_links c h = Inr links" "map_of links = m" using assms by (auto simp: node_def)
  have "omap_ok []" by (simp add: omap_ok_def)
  from fold_omap_insert [OF this, of links] show "map_of (getOrderedEdgeNamesOf c h) = m" "distinct (map fst (getOrderedEdgeNamesOf c h))"
    by (simp_all add: l getOrderedEdgeNamesOf_def omap_ok_distinct)
  show "map_of (getUnorderedEdgeNamesOf c h) = m" "distinct (map fst (getUnorderedEdgeNamesOf c h))"
    by (simp_all add: l getUnorderedEdgeNamesOf_def fold_std_insert distinct_fold_std_insert)
qed

lemma distinct_singleton:
  assumes "distinct xs" and "set xs = {x}"
  shows "xs = [x]"
proof -
  have "length xs = 1" using distinct_card [OF assms(1)] assms(2) by simp
  then obtain y where "xs = [y]" by (cases xs) simp_all
  then show ?thesis using assms(2) by simp
qed

lemma single_edge:
  assumes "node c h [n \<mapsto> t]"
  shows "getUnorderedEdgeNamesOf c h = [(n, t)]"
proof (rule distinct_singleton)
  have "(x, y) \<in> set (getUnorderedEdgeNamesOf c h) \<longleftrightarrow> x = n \<and> y = t" for x y
    unfolding map_of_eq_Some_iff [OF edges(2) [OF assms], symmetric] edges(1) [OF assms] by auto
  then show "set (getUnorderedEdgeNamesOf c h) = {(n, t)}" by auto
  show "distinct (getUnorderedEdgeNamesOf c h)" using edges(2) [OF assms] by (simp add: distinct_map)
qed

section \<open>Entities\<close>

text \<open>The root \<open>A\<close> represents the documents \<open>D\<close>.\<close>

definition entity :: "storage_env \<Rightarrow> string \<Rightarrow> (string \<rightharpoonup> json) \<Rightarrow> bool" where
  "entity E A D \<longleftrightarrow> (\<exists>B C m. node (client E) A [''id'' \<mapsto> B] \<and> node (client E) B [''__'' \<mapsto> C] \<and> node (client E) C m \<and>
    card (dom m) < 2 ^ 31 \<and> dom D = dom m \<and>
    (\<forall>n h. m n = Some h \<longrightarrow> (\<exists>d. D n = Some d \<and> fetchDocument E h = Inr d \<and> has_fields d \<and> key ''id'' d = JString n)))"

definition stored :: "storage_env \<Rightarrow> storage \<Rightarrow> string \<Rightarrow> string" where
  "stored E st k = (case dht_order E (dht_values st k) of [] \<Rightarrow> [] | vs \<Rightarrow> last vs)"

definition documents :: "storage_env \<Rightarrow> storage \<Rightarrow> string \<Rightarrow> string \<Rightarrow> (string \<rightharpoonup> json) \<Rightarrow> bool" where
  "documents E st tid entityId D \<longleftrightarrow> stored E st (data_root_key tid entityId) \<noteq> [] \<and> entity E (stored E st (data_root_key tid entityId)) D"

definition put :: "string \<Rightarrow> string \<Rightarrow> storage \<Rightarrow> storage" where
  "put k v st = st\<lparr>dht_values := (dht_values st)(k := dht_values st k @ [v])\<rparr>"

lemma dht_apply [action_simps]: "dhtGet E k st = (Inr (stored E st k), st, [])" "dhtPut k v st = (Inr (), put k v st, [])"
  by (simp_all add: dhtGet_def dhtPut_def stored_def put_def action_simps)

lemma put_values [simp]: "dht_values (put k v st) k' = (if k' = k then dht_values st k @ [v] else dht_values st k')"
  by (simp add: put_def)

lemma stored_other: "dht_values st' k = dht_values st k \<Longrightarrow> stored E st' k = stored E st k"
  by (simp add: stored_def)

lemma stored_eq: "stored E st k = (if dht_order E (dht_values st k) = [] then [] else last (dht_order E (dht_values st k)))"
  by (simp add: stored_def split: list.split)

text \<open>What a get delivers was put, unless it delivers nothing.\<close>

lemma stored_was_put: "surroundings_ok E \<Longrightarrow> stored E st k = [] \<or> stored E st k \<in> set (dht_values st k)"
  unfolding stored_eq using surroundings_okD(5) last_in_set by (metis subsetD)

text \<open>A DHT that delivers the newest value.  Nothing promises this of the DHT, and nothing here relies on it; where the
  outcome of several gets depends on it, a statement says so as a condition on the run.\<close>

definition current :: "storage_env \<Rightarrow> bool" where
  "current E \<longleftrightarrow> (\<forall>vs v. dht_order E (vs @ [v]) \<noteq> [] \<and> last (dht_order E (vs @ [v])) = v)"

text \<open>The weaker condition that, of a key with the values \<open>vs\<close>, gets deliver what was put last after that; what they deliver before
  is open.\<close>

definition reads_own :: "storage_env \<Rightarrow> string list \<Rightarrow> bool" where
  "reads_own E vs \<longleftrightarrow> (\<forall>ws v. dht_order E (vs @ ws @ [v]) \<noteq> [] \<and> last (dht_order E (vs @ ws @ [v])) = v)"

lemma current_reads_own: "current E \<longleftrightarrow> reads_own E []"
  unfolding current_def reads_own_def by simp

lemma reads_own_later: "reads_own E vs \<Longrightarrow> reads_own E (vs @ ws)"
  unfolding reads_own_def by (metis append.assoc)

lemma stored_own: "reads_own E vs \<Longrightarrow> dht_values st k = vs @ [v] \<Longrightarrow> stored E st k = v"
  unfolding reads_own_def stored_eq by (metis append_Nil)

lemma stored_newest: "current E \<Longrightarrow> dht_values st k = vs @ [v] \<Longrightarrow> stored E st k = v"
  by (simp add: current_def stored_eq)

lemma stored_put: "current E \<Longrightarrow> stored E (put k v st) k' = (if k' = k then v else stored E st k')"
  using stored_newest [of E "put k v st" k] by (auto intro: stored_other)

lemma entity_docs_list:
  assumes "entity E A D"
  shows "\<exists>ids docs. entity_docs E (getUnorderedEdgeNamesOf (client E) A) ids docs \<and> fst ` set ids = dom D \<and> set docs = ran D"
proof -
  obtain B C m where n: "node (client E) A [''id'' \<mapsto> B]" "node (client E) B [''__'' \<mapsto> C]" "node (client E) C m"
    and c: "card (dom m) < 2 ^ 31" "dom D = dom m"
    and d: "\<And>n h. m n = Some h \<Longrightarrow> \<exists>d. D n = Some d \<and> fetchDocument E h = Inr d \<and> has_fields d \<and> key ''id'' d = JString n"
    using assms unfolding entity_def by blast
  define ids where "ids = getOrderedEdgeNamesOf (client E) C"
  define docs where "docs = map (\<lambda>(n, h). the (D n)) ids"
  have ids: "map_of ids = m" "distinct (map fst ids)" using edges(3,4) [OF n(3)] by (simp_all add: ids_def)
  have fs: "fst ` set ids = dom m" using ids(1) by (metis dom_map_of_conv_image_fst)
  have "length ids < 2 ^ 31" using c(1) distinct_card [OF ids(2)] fs by simp
  moreover have "m n = Some h" if "(n, h) \<in> set ids" for n h using that ids by (metis map_of_is_SomeI)
  then have "list_all2 (\<lambda>(n, h) d. fetchDocument E h = Inr d \<and> has_fields d \<and> key ''id'' d = JString n) ids docs"
    using d by (force simp: docs_def list_all2_map2 list_all2_same)
  moreover have "getOrderedEdgeNamesOf (client E) (entry (getOrderedEdgeNamesOf (client E) (entry (getUnorderedEdgeNamesOf (client E) A) ''id'')) ''__'') = ids"
    using edges(1) [OF n(1)] edges(3) [OF n(2)] by (simp add: entry_def ids_def)
  ultimately have ed: "entity_docs E (getUnorderedEdgeNamesOf (client E) A) ids docs"
    using ids(2) edges(1) [OF n(1)] by (simp add: entity_docs_def)
  have "set docs = ran D"
  proof -
    have "set docs = (\<lambda>n. the (D n)) ` dom D" unfolding c(2) fs [symmetric] docs_def by force
    then show ?thesis by (force simp: ran_def dom_def)
  qed
  then show ?thesis using ed fs c(2) by (intro exI conjI) simp_all
qed

section \<open>Changing one document\<close>

lemma relink:
  assumes "surroundings_ok E" and "node (client E) A [''id'' \<mapsto> B]"
  shows "\<exists>A'. relink_index E tid entityId A ''id'' B' st = (Inr A', put (data_root_key tid entityId) A' st, []) \<and>
    A' \<noteq> [] \<and> node (client E) A' [''id'' \<mapsto> B']"
proof -
  obtain A1 where a1: "patch_rm_link (client E) A ''id'' = Inr A1" "node (client E) A1 ([''id'' \<mapsto> B](''id'' := None))"
    using rm_link [OF assms, of "''id''"] by auto
  obtain A2 where a2: "patch_add_link (client E) A1 ''id'' B' = Inr A2" "A2 \<noteq> []" "node (client E) A2 ([''id'' \<mapsto> B](''id'' := None, ''id'' \<mapsto> B'))"
    using add_link [OF assms(1) a1(2), of "''id''" B'] by blast
  then show ?thesis using a1(1) by (simp add: relink_index_def action_simps)
qed

lemma update_index_id:
  assumes "surroundings_ok E" and "node (client E) A [''id'' \<mapsto> B]" and "node (client E) B [''__'' \<mapsto> C]"
    and "map_of obj ''id'' = Some (JString v)"
    and "patch_document E op C documentId documentHash st = (Inr C', st, [])"
  shows "\<exists>A' B'. update_index E tid entityId documentId documentHash op (JObject obj) (''id'', B) A st =
      (Inr A', put (data_root_key tid entityId) A' st, []) \<and>
    A' \<noteq> [] \<and> node (client E) A' [''id'' \<mapsto> B'] \<and> node (client E) B' [''__'' \<mapsto> C']"
proof -
  obtain B1 where b1: "patch_rm_link (client E) B ''__'' = Inr B1" "node (client E) B1 ([''__'' \<mapsto> C](''__'' := None))"
    using rm_link [OF assms(1,3), of "''__''"] by auto
  obtain B2 where b2: "patch_add_link (client E) B1 ''__'' C' = Inr B2" "node (client E) B2 ([''__'' \<mapsto> C](''__'' := None, ''__'' \<mapsto> C'))"
    using add_link [OF assms(1) b1(2), of "''__''" C'] by blast
  obtain A' where "relink_index E tid entityId A ''id'' B2 st = (Inr A', put (data_root_key tid entityId) A' st, [])" "A' \<noteq> []"
      "node (client E) A' [''id'' \<mapsto> B2]"
    using relink [OF assms(1,2)] by blast
  then show ?thesis
    using assms(4,5) b1(1) b2 by (auto simp: update_index_def single_edge [OF assms(3)] action_simps Let_def)
qed

text \<open>The collection after the change.\<close>

definition patched :: "string \<Rightarrow> string \<Rightarrow> string \<Rightarrow> (string \<rightharpoonup> string) \<Rightarrow> (string \<rightharpoonup> string)" where
  "patched op documentId documentHash m = m(documentId := (if op = ''delete'' then None else Some documentHash))"

lemma patch_document_ok:
  assumes "surroundings_ok E" and "node (client E) C m" and "op \<in> {[], ''update'', ''delete''}"
    and "op \<noteq> [] \<Longrightarrow> m documentId \<noteq> None"
  shows "\<exists>C'. patch_document E op C documentId documentHash st = (Inr C', st, []) \<and> node (client E) C' (patched op documentId documentHash m)"
proof (cases "op = []")
  case True
  then show ?thesis
    using add_link [OF assms(1,2), of documentId documentHash] by (auto simp: patch_document_def patched_def action_simps)
next
  case False
  obtain C1 where c1: "patch_rm_link (client E) C documentId = Inr C1" "node (client E) C1 (m(documentId := None))"
    using rm_link [OF assms(1,2) assms(4) [OF False]] by blast
  show ?thesis
    using False assms(3) c1 add_link [OF assms(1) c1(2), of documentId documentHash]
    by (auto simp: patch_document_def patched_def action_simps)
qed

lemma map_order_single: "surroundings_ok E \<Longrightarrow> map_order E [x] = [x]"
  using surroundings_okD(4) [of E "[x]"] by simp

definition changed :: "string \<Rightarrow> string \<Rightarrow> json \<Rightarrow> (string \<rightharpoonup> json) \<Rightarrow> (string \<rightharpoonup> json)" where
  "changed op documentId doc D = D(documentId := (if op = ''delete'' then None else Some doc))"

text \<open>The loop over the indexes of an entity.\<close>

lemma index_loop:
  assumes "surroundings_ok E" and "entity E A D" and "op \<in> {[], ''update'', ''delete''}" and "op \<noteq> [] \<Longrightarrow> D documentId \<noteq> None"
    and "map_of obj ''id'' = Some (JString documentId)" and "op = [] \<Longrightarrow> card (dom D) < 2 ^ 31 - 1"
    and "op \<noteq> ''delete'' \<Longrightarrow> fetchDocument E documentHash = Inr (JObject obj)"
  shows "\<exists>A'. for_each (map_order E (getUnorderedEdgeNamesOf (client E) A))
      (update_index E tid entityId documentId documentHash op (JObject obj)) A st =
      (Inr A', put (data_root_key tid entityId) A' st, []) \<and> A' \<noteq> [] \<and> entity E A' (changed op documentId (JObject obj) D)"
proof -
  obtain B C m where n: "node (client E) A [''id'' \<mapsto> B]" "node (client E) B [''__'' \<mapsto> C]" "node (client E) C m"
    and c: "card (dom m) < 2 ^ 31" "dom D = dom m"
    and d: "\<And>n h. m n = Some h \<Longrightarrow> \<exists>d. D n = Some d \<and> fetchDocument E h = Inr d \<and> has_fields d \<and> key ''id'' d = JString n"
    using assms(2) unfolding entity_def by blast
  have md: "m documentId \<noteq> None" if "op \<noteq> []" using assms(4) [OF that] c(2) by (metis domIff)
  obtain C' where p: "patch_document E op C documentId documentHash st = (Inr C', st, [])" "node (client E) C' (patched op documentId documentHash m)"
    using patch_document_ok [OF assms(1) n(3) assms(3) md] by blast
  obtain A' B' where u: "update_index E tid entityId documentId documentHash op (JObject obj) (''id'', B) A st =
      (Inr A', put (data_root_key tid entityId) A' st, [])" "A' \<noteq> []" "node (client E) A' [''id'' \<mapsto> B']" "node (client E) B' [''__'' \<mapsto> C']"
    using update_index_id [OF assms(1) n(1,2) assms(5) p(1)] by blast
  have "finite (dom m)" using n(3) by (auto simp: node_def finite_dom_map_of)
  then have "card (dom (patched op documentId documentHash m)) < 2 ^ 31"
    using c assms(6) md by (cases "op = []") (auto simp: patched_def card_insert_if insert_absorb domIff card_Diff_singleton_if)
  moreover have "dom (changed op documentId (JObject obj) D) = dom (patched op documentId documentHash m)"
    using c(2) by (auto simp: changed_def patched_def)
  moreover have "\<exists>d. changed op documentId (JObject obj) D n = Some d \<and> fetchDocument E h = Inr d \<and> has_fields d \<and> key ''id'' d = JString n"
    if "patched op documentId documentHash m n = Some h" for n h
    using that d [of n h] assms(5,7) by (auto simp: changed_def patched_def has_fields_def key_def split: if_splits)
  ultimately have "entity E A' (changed op documentId (JObject obj) D)"
    unfolding entity_def using u(3,4) p(2) by blast
  then show ?thesis
    using u(1,2) by (simp add: single_edge [OF n(1)] map_order_single [OF assms(1)] action_simps)
qed

lemma keys_differ: "data_root_key tid entityId \<noteq> document_key tid' entityId' documentId"
  by (simp add: data_root_key_def root_key_def document_key_def object_key_def DATA_TREE_def)

text \<open>Values are only added in the DHT, and only for the given keys.\<close>

definition only_changes :: "string set \<Rightarrow> storage \<Rightarrow> storage \<Rightarrow> bool" where
  "only_changes ks st st' \<longleftrightarrow> (\<forall>k. \<exists>vs. dht_values st' k = dht_values st k @ vs \<and> (k \<notin> ks \<longrightarrow> vs = []))"

lemma only_changes_put: "k \<in> ks \<Longrightarrow> only_changes ks st st' \<Longrightarrow> only_changes ks st (put k v st')"
  unfolding only_changes_def by (metis append.assoc put_values)

lemma only_changes_refl [simp]: "only_changes ks st st"
  by (simp add: only_changes_def)

lemma only_changes_mono: "only_changes ks st st' \<Longrightarrow> ks \<subseteq> ks' \<Longrightarrow> only_changes ks' st st'"
  unfolding only_changes_def by blast

text \<open>One new root of the entity was put: it represents the documents \<open>D\<close>.\<close>

definition new_root :: "storage_env \<Rightarrow> string \<Rightarrow> string \<Rightarrow> storage \<Rightarrow> storage \<Rightarrow> string \<Rightarrow> (string \<rightharpoonup> json) \<Rightarrow> bool" where
  "new_root E tid entityId st st' A D \<longleftrightarrow>
    dht_values st' (data_root_key tid entityId) = dht_values st (data_root_key tid entityId) @ [A] \<and> A \<noteq> [] \<and> entity E A D"

text \<open>Whoever is given the new root sees these documents.\<close>

lemma new_root_documents:
  "new_root E tid entityId st st' A D \<Longrightarrow> stored E sst (data_root_key tid entityId) = A \<Longrightarrow> documents E sst tid entityId D"
  by (simp add: new_root_def documents_def)

lemma new_root_current: "current E \<Longrightarrow> new_root E tid entityId st st' A D \<Longrightarrow> documents E st' tid entityId D"
  using new_root_documents stored_newest by (metis new_root_def)

lemma new_root_own:
  "new_root E tid entityId st st' A D \<Longrightarrow> reads_own E (dht_values st (data_root_key tid entityId)) \<Longrightarrow>
    documents E st' tid entityId D \<and> reads_own E (dht_values st' (data_root_key tid entityId))"
  using new_root_documents stored_own reads_own_later by (metis new_root_def)

lemma finish_change:
  assumes ok: "surroundings_ok E" and ent: "entity E (stored E st (data_root_key tid entityId)) D"
    and op: "op \<in> {[], ''update'', ''delete''}" "op \<noteq> [] \<Longrightarrow> D documentId \<noteq> None" "op = [] \<Longrightarrow> card (dom D) < 2 ^ 31 - 1"
    and obj: "map_of obj ''id'' = Some (JString documentId)" and parse: "json_parse E text = Inr (JObject obj)"
  defines "documentHash \<equiv> if op \<noteq> ''delete'' then addObject E text else []"
  shows "\<exists>A'. for_each (map_order E (getUnorderedEdgeNamesOf (client E) (stored E st (data_root_key tid entityId))))
      (update_index E tid entityId documentId documentHash op (JObject obj)) (stored E st (data_root_key tid entityId))
      (put (document_key tid entityId documentId) documentHash st) =
      (Inr A', put (data_root_key tid entityId) A' (put (document_key tid entityId documentId) documentHash st), []) \<and>
    new_root E tid entityId st (put (data_root_key tid entityId) A' (put (document_key tid entityId documentId) documentHash st)) A'
      (changed op documentId (JObject obj) D) \<and>
    only_changes {data_root_key tid entityId, document_key tid entityId documentId} st
      (put (data_root_key tid entityId) A' (put (document_key tid entityId documentId) documentHash st))"
proof -
  have "fetchDocument E documentHash = Inr (JObject obj)" if "op \<noteq> ''delete''"
    using that parse put_object(3) [OF ok] by (simp add: documentHash_def fetchDocument_def)
  from index_loop [OF ok ent op(1,2) obj op(3) this] show ?thesis
    by (fastforce simp: new_root_def keys_differ intro: only_changes_put)
qed

lemma add_document:
  assumes ok: "surroundings_ok E" and docs: "documents E st tid entityId D" and small: "card (dom D) < 2 ^ 31 - 1"
    and parse: "json_parse E text = Inr (JObject m)"
  defines "obj \<equiv> omap_set ''id'' (JString (new_guid E)) m"
  shows "\<exists>st' A. createOrDeleteDocument E source channelId txid tid entityId documentId text [] st =
      (Inr (), st', outputs (send E source channelId stateChange txid (new_guid E) (addObject E (json_dump E (JObject obj)))) st) \<and>
    new_root E tid entityId st st' A (D(new_guid E \<mapsto> JObject obj)) \<and>
    only_changes {data_root_key tid entityId, document_key tid entityId (new_guid E)} st st'"
proof -
  let ?text = "json_dump E (JObject obj)"
  have p: "json_parse E ?text = Inr (JObject obj)" using surroundings_okD(2) [OF ok] by (simp add: json_text_ok_def)
  have i: "map_of obj ''id'' = Some (JString (new_guid E))" by (simp add: obj_def map_of_omap_set_new)
  have r: "stored E st (data_root_key tid entityId) \<noteq> []" "entity E (stored E st (data_root_key tid entityId)) D"
    using docs by (simp_all add: documents_def)
  from finish_change [OF ok r(2) _ _ _ i p, of "[]"] small obtain A where
      "for_each (map_order E (getUnorderedEdgeNamesOf (client E) (stored E st (data_root_key tid entityId))))
        (update_index E tid entityId (new_guid E) (addObject E ?text) [] (JObject obj)) (stored E st (data_root_key tid entityId))
        (put (document_key tid entityId (new_guid E)) (addObject E ?text) st) =
        (Inr A, put (data_root_key tid entityId) A (put (document_key tid entityId (new_guid E)) (addObject E ?text) st), [])"
      "new_root E tid entityId st (put (data_root_key tid entityId) A (put (document_key tid entityId (new_guid E)) (addObject E ?text) st)) A
        (D(new_guid E \<mapsto> JObject obj))"
      "only_changes {data_root_key tid entityId, document_key tid entityId (new_guid E)} st
        (put (data_root_key tid entityId) A (put (document_key tid entityId (new_guid E)) (addObject E ?text) st))"
    by (auto simp: changed_def)
  then show ?thesis
    using r(1) parse p by (auto simp: createOrDeleteDocument_def action_simps Let_def set_field_def obj_def [symmetric] send_def outputs_def)
qed

lemma modify_document:
  assumes ok: "surroundings_ok E" and docs: "documents E st tid entityId D" and op: "op = ''update'' \<or> op = ''delete''"
    and known: "D documentId \<noteq> None" and obj: "map_of obj ''id'' = Some (JString documentId)" and parse: "json_parse E text = Inr (JObject obj)"
  shows "\<exists>st' A. createOrDeleteDocument E source channelId txid tid entityId documentId text op st = (Inr (), st', []) \<and>
    new_root E tid entityId st st' A (changed op documentId (JObject obj) D) \<and>
    only_changes {data_root_key tid entityId, document_key tid entityId documentId} st st'"
proof -
  let ?h = "if op \<noteq> ''delete'' then addObject E text else []"
  have r: "stored E st (data_root_key tid entityId) \<noteq> []" "entity E (stored E st (data_root_key tid entityId)) D"
    using docs by (simp_all add: documents_def)
  have o: "op \<in> {[], ''update'', ''delete''}" "op \<noteq> []" using op by auto
  have k: "op \<noteq> [] \<Longrightarrow> D documentId \<noteq> None" "op = [] \<Longrightarrow> card (dom D) < 2 ^ 31 - 1" using known o(2) by simp_all
  obtain A where "for_each (map_order E (getUnorderedEdgeNamesOf (client E) (stored E st (data_root_key tid entityId))))
        (update_index E tid entityId documentId ?h op (JObject obj)) (stored E st (data_root_key tid entityId))
        (put (document_key tid entityId documentId) ?h st) =
        (Inr A, put (data_root_key tid entityId) A (put (document_key tid entityId documentId) ?h st), [])"
      "new_root E tid entityId st (put (data_root_key tid entityId) A (put (document_key tid entityId documentId) ?h st)) A
        (changed op documentId (JObject obj) D)"
      "only_changes {data_root_key tid entityId, document_key tid entityId documentId} st
        (put (data_root_key tid entityId) A (put (document_key tid entityId documentId) ?h st))"
    using finish_change [OF ok r(2) o(1) k obj parse] by blast
  then show ?thesis
    using r(1) parse o(2) by (intro exI [of _ "put (data_root_key tid entityId) A (put (document_key tid entityId documentId) ?h st)"] exI [of _ A])
      (simp add: createOrDeleteDocument_def action_simps Let_def)
qed

section \<open>Statements on all documents that satisfy an expression\<close>

lemma documents_key: "documents E st tid entityId D \<Longrightarrow> D n = Some d \<Longrightarrow> \<exists>m. d = JObject m \<and> map_of m ''id'' = Some (JString n)"
  unfolding documents_def entity_def has_fields_def
  by (force simp: key_def dom_def set_eq_iff split: option.splits)

lemma search_stored:
  assumes "surroundings_ok E" and "documents E st tid entityId D" and "answerable (dom D) (ran D) e" and "expr_ok e" and "list_all is_space sp"
  shows "\<exists>rs. searchDocument E tid entityId (sp @ print_expr sp e) st = (Inr (JArray rs), st, []) \<and> distinct rs \<and> set rs = {d \<in> ran D. wants e d}"
proof -
  let ?A = "stored E st (data_root_key tid entityId)"
  have a: "?A \<noteq> []" "entity E ?A D" using assms(2) by (simp_all add: documents_def)
  obtain ids docs where d: "entity_docs E (getUnorderedEdgeNamesOf (client E) ?A) ids docs" "fst ` set ids = dom D" "set docs = ran D"
    using entity_docs_list [OF a(2)] by blast
  have "answerable (fst ` set ids) (set docs) e" using assms(3) d(2,3) by simp
  from search_wanted [OF d(1) a(1) surroundings_okD(2,3) [OF assms(1)] this assms(4,5)] show ?thesis
    by (auto simp: searchDocument_def action_simps d(3))
qed

definition merged :: "(string \<times> json) list \<Rightarrow> json \<Rightarrow> json" where
  "merged new d = (case d of JObject m \<Rightarrow> JObject (fold (\<lambda>(k, v). omap_set k v) new m) | _ \<Rightarrow> d)"

lemma map_of_omap_set_other: "k \<noteq> l \<Longrightarrow> map_of (omap_set l v m) k = map_of m k"
  by (induction l v m rule: omap_set.induct) auto

lemma merged_other: "map_of new k = None \<Longrightarrow> map_of (fold (\<lambda>(k, v). omap_set k v) new m) k = map_of m k"
  by (induction new arbitrary: m) (auto simp: map_of_omap_set_other split: if_splits)

lemma merge_json_objects: "merge_json (JObject m) (JObject new) = Inr (merged new (JObject m))"
  by (cases new) (simp_all add: merged_def)

text \<open>What an update or a deletion makes of a document.\<close>

definition revision :: "string \<Rightarrow> (string \<times> json) list \<Rightarrow> json \<Rightarrow> json option" where
  "revision op new d = (if op = ''delete'' then None else Some (merged new d))"

definition revise :: "string \<Rightarrow> (string \<times> json) list \<Rightarrow> (json \<Rightarrow> bool) \<Rightarrow> (string \<rightharpoonup> json) \<Rightarrow> (string \<rightharpoonup> json)" where
  "revise op new P D n = (case D n of None \<Rightarrow> None | Some d \<Rightarrow> if P d then revision op new d else Some d)"

definition revise_one :: "storage_env \<Rightarrow> string \<Rightarrow> string \<Rightarrow> string \<Rightarrow> string \<Rightarrow> string \<Rightarrow> string \<Rightarrow> string \<Rightarrow> json \<Rightarrow> unit store_action" where
  "revise_one E source channelId txid tid entityId documentJson op doc =
    andThen (lift (field_ref ''id'' doc)) (\<lambda>(x, doc).
    andThen (lift (get_string x)) (\<lambda>docId.
    andThen (if op = ''update'' then lift (updateValues E (json_dump E doc) documentJson) else ok (json_dump E doc)) (\<lambda>text.
    createOrDeleteDocument E source channelId txid tid entityId docId text op)))"

definition entity_keys :: "string \<Rightarrow> string \<Rightarrow> string set" where
  "entity_keys tid entityId = insert (data_root_key tid entityId) (range (document_key tid entityId))"

lemma revise_one_ok:
  assumes "surroundings_ok E" and "documents E st tid entityId D" and "op = ''update'' \<or> op = ''delete''"
    and "op = ''update'' \<Longrightarrow> json_parse E documentJson = Inr (JObject new)" and "map_of new ''id'' = None" and "D n = Some d"
  shows "\<exists>st' A. revise_one E source channelId txid tid entityId documentJson op d st = (Inr (), st', []) \<and>
    new_root E tid entityId st st' A (D(n := revision op new d)) \<and> only_changes (entity_keys tid entityId) st st'"
proof -
  obtain m where m: "d = JObject m" "map_of m ''id'' = Some (JString n)" using documents_key [OF assms(2,6)] by blast
  have rt: "json_parse E (json_dump E j) = Inr j" for j using surroundings_okD(2) [OF assms(1)] by (simp add: json_text_ok_def)
  define obj where "obj = (if op = ''update'' then fold (\<lambda>(k, v). omap_set k v) new m else m)"
  have o: "map_of obj ''id'' = Some (JString n)" using m(2) merged_other [OF assms(5)] by (simp add: obj_def)
  have upd: "(if op = ''update'' then updateValues E (json_dump E d) documentJson else Inr (json_dump E d)) = Inr (json_dump E (JObject obj))"
    using assms(4) by (simp add: updateValues_def rt m(1) merge_json_objects merged_def obj_def)
  obtain st' A where "createOrDeleteDocument E source channelId txid tid entityId n (json_dump E (JObject obj)) op st = (Inr (), st', [])"
      "new_root E tid entityId st st' A (changed op n (JObject obj) D)"
      "only_changes {data_root_key tid entityId, document_key tid entityId n} st st'"
    using modify_document [OF assms(1,2,3) _ o rt] assms(6) by blast
  moreover from this(3) have "only_changes (entity_keys tid entityId) st st'"
    by (rule only_changes_mono) (auto simp: entity_keys_def)
  moreover have "changed op n (JObject obj) D = D(n := revision op new d)"
    using assms(3) by (auto simp: changed_def revision_def obj_def m(1) merged_def)
  moreover have "(if op = ''update'' then lift (updateValues E (json_dump E d) documentJson) else ok (json_dump E d)) st =
      (Inr (json_dump E (JObject obj)), st, [])"
    using upd by (simp add: action_simps split: if_splits)
  ultimately show ?thesis
    using m by (auto simp: revise_one_def action_simps field_ref_def)
qed

lemma only_changes_trans: "only_changes ks a b \<Longrightarrow> only_changes ks b c \<Longrightarrow> only_changes ks a c"
  unfolding only_changes_def by (metis append.assoc append_Nil2)

text \<open>The newest root of the entity represents the documents \<open>D\<close>.\<close>

definition newest_root :: "storage_env \<Rightarrow> string \<Rightarrow> string \<Rightarrow> storage \<Rightarrow> (string \<rightharpoonup> json) \<Rightarrow> bool" where
  "newest_root E tid entityId st D \<longleftrightarrow> (\<exists>vs A. dht_values st (data_root_key tid entityId) = vs @ [A] \<and> A \<noteq> [] \<and> entity E A D)"

lemma new_root_newest: "new_root E tid entityId st st' A D \<Longrightarrow> newest_root E tid entityId st' D"
  unfolding new_root_def newest_root_def by blast

lemma revise_all:
  assumes "surroundings_ok E" and "op = ''update'' \<or> op = ''delete''"
    and "op = ''update'' \<Longrightarrow> json_parse E documentJson = Inr (JObject new)" and "map_of new ''id'' = None"
  shows "documents E st tid entityId D \<Longrightarrow> distinct ds \<Longrightarrow> set ds \<subseteq> ran D \<Longrightarrow>
    reads_own E (dht_values st (data_root_key tid entityId)) \<or> length ds \<le> 1 \<Longrightarrow>
    \<exists>st'. for_each ds (\<lambda>doc _. revise_one E source channelId txid tid entityId documentJson op doc) () st = (Inr (), st', []) \<and>
      (if ds = [] then st' = st else newest_root E tid entityId st' (revise op new (\<lambda>d. d \<in> set ds) D)) \<and>
      only_changes (entity_keys tid entityId) st st'"
proof (induction ds arbitrary: st D)
  case Nil
  then show ?case by (simp add: action_simps)
next
  case (Cons d ds)
  obtain n where n: "D n = Some d" using Cons.prems(3) by (auto simp: ran_def)
  note keyed = documents_key [OF Cons.prems(1)]
  obtain st1 A where st1: "revise_one E source channelId txid tid entityId documentJson op d st = (Inr (), st1, [])"
      "new_root E tid entityId st st1 A (D(n := revision op new d))" "only_changes (entity_keys tid entityId) st st1"
    using revise_one_ok [OF assms(1) Cons.prems(1) assms(2,3,4) n] by blast
  have elsewhere: "n' \<noteq> n" if "D n' = Some d'" "d' \<in> set ds" for n' d' using that n Cons.prems(2) by auto
  have fresh: "revision op new d = Some d' \<Longrightarrow> d' \<notin> set ds" for d'
  proof
    assume r: "revision op new d = Some d'" and "d' \<in> set ds"
    then obtain n' where n': "D n' = Some d'" "n' \<noteq> n" using Cons.prems(3) elsewhere unfolding ran_def by auto
    obtain m' where m': "d' = JObject m'" "map_of m' ''id'' = Some (JString n')" using keyed [OF n'(1)] by blast
    obtain m where m: "d = JObject m" "map_of m ''id'' = Some (JString n)" using keyed [OF n] by blast
    have "map_of m' ''id'' = Some (JString n)"
      using r m merged_other [OF assms(4)] m'(1) by (auto simp: revision_def merged_def split: if_splits)
    then show False using m'(2) n'(2) by simp
  qed
  have "set ds \<subseteq> ran (D(n := revision op new d))"
  proof
    fix d'
    assume d': "d' \<in> set ds"
    then obtain n' where n': "D n' = Some d'" using Cons.prems(3) by (auto simp: ran_def)
    then show "d' \<in> ran (D(n := revision op new d))" using elsewhere [OF n' d'] by (intro ranI [of _ n']) simp
  qed
  note inside = this
  have "\<exists>st2. for_each ds (\<lambda>doc _. revise_one E source channelId txid tid entityId documentJson op doc) () st1 = (Inr (), st2, []) \<and>
      newest_root E tid entityId st2 (revise op new (\<lambda>d. d \<in> set ds) (D(n := revision op new d))) \<and> only_changes (entity_keys tid entityId) st1 st2"
  proof (cases "ds = []")
    case True
    have "revise op new (\<lambda>d. d \<in> set []) X = X" for X by (simp add: revise_def fun_eq_iff split: option.split)
    then show ?thesis using True new_root_newest [OF st1(2)] by (simp add: action_simps)
  next
    case False
    then have "reads_own E (dht_values st (data_root_key tid entityId))" using Cons.prems(4) by (cases ds) simp_all
    note own = new_root_own [OF st1(2) this]
    show ?thesis using Cons.IH [OF conjunct1 [OF own] _ inside] conjunct2 [OF own] Cons.prems(2) False by auto
  qed
  then obtain st2 where st2: "for_each ds (\<lambda>doc _. revise_one E source channelId txid tid entityId documentJson op doc) () st1 = (Inr (), st2, [])"
      "newest_root E tid entityId st2 (revise op new (\<lambda>d. d \<in> set ds) (D(n := revision op new d)))" "only_changes (entity_keys tid entityId) st1 st2"
    by blast
  have "revise op new (\<lambda>d. d \<in> set ds) (D(n := revision op new d)) = revise op new (\<lambda>x. x \<in> set (d # ds)) D"
  proof
    fix k
    have "d' \<noteq> d" if "k \<noteq> n" "D k = Some d'" for d' using that n keyed [of k d'] keyed [of n d] by auto
    then show "revise op new (\<lambda>d. d \<in> set ds) (D(n := revision op new d)) k = revise op new (\<lambda>x. x \<in> set (d # ds)) D k"
      using n fresh by (cases "k = n") (auto simp: revise_def split: option.split)
  qed
  then show ?case using st1(1) st2(1,2) only_changes_trans [OF st1(3) st2(3)] by (simp add: action_simps)
qed

text \<open>At most one document satisfies \<open>P\<close>.\<close>

definition at_most_one :: "(json \<Rightarrow> bool) \<Rightarrow> (string \<rightharpoonup> json) \<Rightarrow> bool" where
  "at_most_one P D \<longleftrightarrow> (\<forall>d \<in> ran D. \<forall>d' \<in> ran D. P d \<longrightarrow> P d' \<longrightarrow> d' = d)"

lemma at_most_one_length:
  assumes "at_most_one P D" and "distinct rs" and "set rs = {d \<in> ran D. P d}"
  shows "length rs \<le> 1"
proof -
  have "d = d'" if "d \<in> set rs" "d' \<in> set rs" for d d' using that assms(1) unfolding assms(3) at_most_one_def by blast
  then have "card (set rs) \<le> Suc 0" by (subst card_le_Suc0_iff_eq) auto
  then show ?thesis using assms(2) by (simp add: distinct_card)
qed

lemma revise_statement:
  assumes ok: "surroundings_ok E" and docs: "documents E st tid entityId D" and op: "op = ''update'' \<or> op = ''delete''"
    and new: "op = ''update'' \<Longrightarrow> json_parse E documentJson = Inr (JObject new)" "map_of new ''id'' = None"
    and e: "answerable (dom D) (ran D) e" "expr_ok e" "list_all is_space sp"
    and one: "reads_own E (dht_values st (data_root_key tid entityId)) \<or> at_most_one (wants e) D"
  shows "\<exists>st'. updateOrDeleteDocument E source channelId txid tid entityId (sp @ print_expr sp e) documentJson op st =
      (Inr (), st', outputs (if \<exists>d \<in> ran D. wants e d
        then send E source channelId stateChange txid [] (if op = ''update'' then MSG_DOCUMENT_UPDATE else MSG_DOCUMENT_DELETE)
        else send E source channelId exception txid [] MSG_DOCUMENT_NOT_FOUND) st) \<and>
    (if \<exists>d \<in> ran D. wants e d then newest_root E tid entityId st' (revise op new (wants e) D) else st' = st) \<and>
    only_changes (entity_keys tid entityId) st st'"
proof -
  obtain rs where rs: "searchDocument E tid entityId (sp @ print_expr sp e) st = (Inr (JArray rs), st, [])" "distinct rs"
      "set rs = {d \<in> ran D. wants e d}"
    using search_stored [OF ok docs e] by blast
  have eq: "revise op new (\<lambda>d. d \<in> set rs) D = revise op new (wants e) D"
    by (auto simp: revise_def rs(3) ran_def fun_eq_iff split: option.split)
  have some: "(\<exists>d \<in> ran D. wants e d) \<longleftrightarrow> rs \<noteq> []" using rs(3) by (cases rs) auto
  have "set rs \<subseteq> ran D" "reads_own E (dht_values st (data_root_key tid entityId)) \<or> length rs \<le> 1" using rs(3) one at_most_one_length [OF _ rs(2,3)] by auto
  from revise_all [OF ok op new docs rs(2) this]
  obtain st' where st': "for_each rs (\<lambda>doc _. revise_one E source channelId txid tid entityId documentJson op doc) () st = (Inr (), st', [])"
      "if rs = [] then st' = st else newest_root E tid entityId st' (revise op new (wants e) D)" "only_changes (entity_keys tid entityId) st st'"
    unfolding eq by blast
  have root: "stored E st (data_root_key tid entityId) \<noteq> []" using docs by (simp add: documents_def)
  show ?thesis
    unfolding some using st' rs(1) root
    by (cases "rs = []") (simp_all add: updateOrDeleteDocument_def action_simps elements_def outputs_def send_def revise_one_def)
qed

section \<open>Templates\<close>

definition root_ok :: "storage_env \<Rightarrow> storage \<Rightarrow> string \<Rightarrow> bool" where
  "root_ok E st k \<longleftrightarrow> stored E st k = [] \<or> (\<exists>m. node (client E) (stored E st k) m)"

lemma link_root:
  assumes "surroundings_ok E" and "root_ok E st (root_key tree)"
  shows "\<exists>h st1 m. linkToRoot E tree objectId objectHash txid st = (Inr (), put (root_key tree) h st1, []) \<and>
    st1 = (if txid \<noteq> [] then put (tree_key TRANSACTION_TREE objectHash) txid st else st) \<and> h \<noteq> [] \<and>
    node (client E) h (m(objectId \<mapsto> objectHash)) \<and> (if stored E st (root_key tree) = [] then m = Map.empty else node (client E) (stored E st (root_key tree)) m)"
proof -
  define st1 where "st1 = (if txid \<noteq> [] then put (tree_key TRANSACTION_TREE objectHash) txid st else st)"
  have same: "stored E st1 (root_key tree) = stored E st (root_key tree)"
    by (rule stored_other) (simp add: st1_def root_key_def tree_key_def TRANSACTION_TREE_def)
  let ?link = "if stored E st1 (root_key tree) = [] then addObjectAndLink E tree objectHash objectId
      else lift (patch_add_link (client E) (stored E st1 (root_key tree)) objectId objectHash)"
  have "\<exists>h m. ?link st1 = (Inr h, st1, []) \<and> h \<noteq> [] \<and> node (client E) h (m(objectId \<mapsto> objectHash)) \<and>
      (if stored E st (root_key tree) = [] then m = Map.empty else node (client E) (stored E st (root_key tree)) m)"
  proof (cases "stored E st (root_key tree) = []")
    case True
    obtain h where h: "object_put (client E) tree [(objectId, objectHash)] = Inr h" "h \<noteq> []" "node (client E) h [objectId \<mapsto> objectHash]"
      using put_linked [OF assms(1)] by blast
    then show ?thesis
      using True by (intro exI [of _ h] exI [of _ Map.empty]) (simp add: same addObjectAndLink_def action_simps)
  next
    case False
    then obtain m where m: "node (client E) (stored E st (root_key tree)) m" using assms(2) by (auto simp: root_ok_def)
    obtain h where h: "patch_add_link (client E) (stored E st (root_key tree)) objectId objectHash = Inr h" "h \<noteq> []"
        "node (client E) h (m(objectId \<mapsto> objectHash))"
      using add_link [OF assms(1) m] by blast
    then show ?thesis
      using False m by (intro exI [of _ h] exI [of _ m]) (simp add: same action_simps)
  qed
  then obtain h m where h: "?link st1 = (Inr h, st1, [])" "h \<noteq> []" "node (client E) h (m(objectId \<mapsto> objectHash))"
      "if stored E st (root_key tree) = [] then m = Map.empty else node (client E) (stored E st (root_key tree)) m" by blast
  have "(if txid \<noteq> [] then dhtPut (tree_key TRANSACTION_TREE objectHash) txid else ok ()) st = (Inr (), st1, [])"
    by (simp add: st1_def action_simps)
  then have "linkToRoot E tree objectId objectHash txid st = (Inr (), put (root_key tree) h st1, [])"
    unfolding linkToRoot_def andThen_apply dht_apply by (simp only: andThen_apply dht_apply h(1) prod.case sum.case append_Nil)
  then show ?thesis using h(2,3,4) st1_def by blast
qed

lemma template_entity:
  assumes ok: "surroundings_ok E" and root: "root_ok E st (root_key (tree_key TEMPLATE_TREE tid))"
  shows "\<exists>st' outs A. addChildNode E source channelId txid tid TEMPLATE_TREE object st = (Inr (), st', outs) \<and>
    new_root E tid (new_guid E) st st' A Map.empty"
proof -
  let ?k = "object_key TEMPLATE_TREE tid (new_guid E)" and ?h = "addObject E object" and ?r = "data_root_key tid (new_guid E)"
  have "stored E (put ?k ?h st) (root_key (tree_key TEMPLATE_TREE tid)) = stored E st (root_key (tree_key TEMPLATE_TREE tid))"
    by (rule stored_other) (simp add: root_key_def object_key_def TEMPLATE_TREE_def)
  then have "root_ok E (put ?k ?h st) (root_key (tree_key TEMPLATE_TREE tid))" using root by (simp add: root_ok_def)
  then obtain r st1 where link: "linkToRoot E (tree_key TEMPLATE_TREE tid) (new_guid E) ?h txid (put ?k ?h st) =
      (Inr (), put (root_key (tree_key TEMPLATE_TREE tid)) r st1, [])"
    and st1: "st1 = (if txid \<noteq> [] then put (tree_key TRANSACTION_TREE ?h) txid (put ?k ?h st) else put ?k ?h st)"
    using link_root [OF ok] by blast
  obtain B where B: "patch_add_link (client E) (addObject E ''id'') ''__'' (addObject E ''collection'') = Inr B"
      "node (client E) B (Map.empty(''__'' \<mapsto> addObject E ''collection''))"
    using add_link [OF ok put_object(2) [OF ok]] by blast
  obtain A where A: "patch_add_link (client E) (addObject E ?r) ''id'' B = Inr A" "A \<noteq> []" "node (client E) A (Map.empty(''id'' \<mapsto> B))"
    using add_link [OF ok put_object(2) [OF ok]] by blast
  have "entity E A Map.empty"
    unfolding entity_def using A(3) B(2) put_object(2) [OF ok, of "''collection''"]
    by (intro exI [of _ B] exI [of _ "addObject E ''collection''"] exI [of _ Map.empty]) simp
  moreover have "dht_values (put ?r A (put (root_key (tree_key TEMPLATE_TREE tid)) r st1)) ?r = dht_values st ?r @ [A]"
    by (simp add: st1 data_root_key_def root_key_def object_key_def tree_key_def TEMPLATE_TREE_def DATA_TREE_def TRANSACTION_TREE_def)
  ultimately have "new_root E tid (new_guid E) st (put ?r A (put (root_key (tree_key TEMPLATE_TREE tid)) r st1)) A Map.empty"
    using A(2) by (simp only: new_root_def not_False_eq_True simp_thms)
  then show ?thesis
    using A(1) B(1) by (auto simp: addChildNode_def action_simps Let_def link send_def)
qed

section \<open>A graph of objects\<close>

text \<open>A client that names every object by a number that encodes its data and links.\<close>

definition object_hash :: "string \<times> (string \<times> string) list \<Rightarrow> string" where
  "object_hash x = dec (to_nat x)"

definition object_of :: "string \<Rightarrow> string \<times> (string \<times> string) list" where
  "object_of h = from_nat (dec_val 0 h)"

definition graph_client :: ipfs where
  "graph_client =
    \<lparr>object_links = (\<lambda>h. Inr (snd (object_of h))), object_data = (\<lambda>h. Inr (fst (object_of h))),
     object_put = (\<lambda>d links. Inr (object_hash (d, links))),
     patch_add_link = (\<lambda>h n t. Inr (object_hash (fst (object_of h), (n, t) # std_erase n (snd (object_of h))))),
     patch_rm_link = (\<lambda>h n. if map_of (snd (object_of h)) n = None then Inl RuntimeError
        else Inr (object_hash (fst (object_of h), std_erase n (snd (object_of h)))))\<rparr>"

definition graph_env :: "string \<Rightarrow> storage_env" where
  "graph_env g =
    \<lparr>client = graph_client, json_dump = number_text, json_parse = number_parse, b64 = id, b64_text = id,
     sort_docs = (\<lambda>operand. sort_key (key operand)), map_order = id, dht_order = id, new_guid = g\<rparr>"

definition empty_storage :: storage where
  "empty_storage = \<lparr>dht_values = (\<lambda>_. []), stateChangeQueueMap = [], blocksToCommit = []\<rparr>"

lemma object_of_hash [simp]: "object_of (object_hash x) = x" "object_hash x \<noteq> []"
  using dec_nonempty [of "to_nat x"] by (auto simp: object_of_def object_hash_def dec_val_dec)

lemma graph_client_ok: "ipfs_ok graph_client"
  by (auto simp: ipfs_ok_def graph_client_def node_def)

lemma graph_env_ok: "surroundings_ok (graph_env g)"
  by (simp add: surroundings_ok_def graph_env_def graph_client_ok json_text_ok_def number_roundtrip sort_ok_def sorts_by_sort_key)

lemma empty_storage_root: "root_ok (graph_env g) empty_storage k"
  by (simp add: root_ok_def stored_def graph_env_def empty_storage_def)

text \<open>An entity with one document.\<close>

lemma graph_env_simps [simp]:
  "new_guid (graph_env g) = g" "json_parse (graph_env g) = number_parse" "json_dump (graph_env g) = number_text" "client (graph_env g) = graph_client"
  by (simp_all add: graph_env_def)

lemma graph_env_documents: "documents (graph_env g) = documents (graph_env h)" "newest_root (graph_env g) = newest_root (graph_env h)"
  by (simp_all add: graph_env_def documents_def newest_root_def entity_def fetchDocument_def stored_def fun_eq_iff)

lemma graph_env_current: "current (graph_env g)"
  by (simp add: current_def graph_env_def)

lemma newest_root_documents: "current E \<Longrightarrow> newest_root E tid entityId st D \<Longrightarrow> documents E st tid entityId D"
  unfolding newest_root_def documents_def using stored_newest by metis

lemma sample_entity: "\<exists>st. documents (graph_env g) st ''t'' ''e'' [''d'' \<mapsto> JObject [(''a'', JInt 1), (''id'', JString ''d'')]]"
proof -
  obtain st where "documents (graph_env ''d'') st ''t'' ''e'' Map.empty"
    using template_entity [OF graph_env_ok empty_storage_root, of "''e''" "[]" "[]" "[]" "''t''" "[]"] new_root_current [OF graph_env_current]
      graph_env_documents(1) [of "''e''" "''d''"] by fastforce
  from add_document [OF graph_env_ok this, of "number_text (JObject [(''a'', JInt 1)])" "[(''a'', JInt 1)]"] obtain st' A where
      "new_root (graph_env ''d'') ''t'' ''e'' st st' A [''d'' \<mapsto> JObject [(''a'', JInt 1), (''id'', JString ''d'')]]"
    by (force simp: number_roundtrip less_char_def)
  from new_root_current [OF graph_env_current this] show ?thesis using graph_env_documents(1) [of "''d''" g] by auto
qed

section \<open>A stale root\<close>

text \<open>A DHT that always delivers the oldest value keeps to what is relied on.  Two additions to an entity then both start from the
  root without documents: the first document is missing from the newest root.\<close>

definition stale_env :: "string \<Rightarrow> storage_env" where
  "stale_env g = (graph_env g)\<lparr>dht_order := take 1\<rparr>"

lemma stale_env_ok: "surroundings_ok (stale_env g)"
  using graph_env_ok [of g] by (simp add: surroundings_ok_def stale_env_def json_text_ok_def sort_ok_def set_take_subset)

lemma stale_env_entity: "entity (stale_env g) = entity (graph_env h)"
  by (simp add: stale_env_def graph_env_def entity_def fetchDocument_def fun_eq_iff)

lemma stale_root_loses:
  defines "doc \<equiv> \<lambda>g. JObject [(''a'', JInt 1), (''id'', JString g)]"
  defines "add \<equiv> \<lambda>g. createOrDeleteDocument (stale_env g) ''1'' ''ch'' ''tx'' ''t'' ''e'' [] (number_text (JObject [(''a'', JInt 1)])) []"
  shows "\<exists>st st1 st2. documents (stale_env ''g'') st ''t'' ''e'' Map.empty \<and> fst (add ''g'' st) = Inr () \<and> fst (snd (add ''g'' st)) = st1 \<and>
    fst (add ''h'' st1) = Inr () \<and> fst (snd (add ''h'' st1)) = st2 \<and> newest_root (stale_env ''h'') ''t'' ''e'' st2 [''h'' \<mapsto> doc ''h'']"
proof -
  let ?r = "data_root_key ''t'' ''e''" and ?text = "number_text (JObject [(''a'', JInt 1)])"
  have root: "root_ok (stale_env ''e'') empty_storage (root_key (tree_key TEMPLATE_TREE ''t''))"
    by (simp add: root_ok_def stored_def stale_env_def graph_env_def empty_storage_def)
  have guid: "new_guid (stale_env g) = g" "json_parse (stale_env g) = number_parse" for g by (simp_all add: stale_env_def)
  obtain st A where A: "new_root (stale_env ''e'') ''t'' ''e'' empty_storage st A Map.empty"
    using template_entity [OF stale_env_ok root, of "[]" "[]" "[]" "[]"] guid(1) [of "''e''"] by fastforce
  have docs: "documents (stale_env g) sst ''t'' ''e'' Map.empty" if "dht_values sst ?r = A # vs" for g sst vs
    using A that by (simp add: new_root_def documents_def stored_def stale_env_entity [of _ "[]"]) (simp add: stale_env_def)
  have st: "dht_values st ?r = [A]" using A by (simp add: new_root_def empty_storage_def)
  have run: "\<exists>st' A'. fst (add g sst) = Inr () \<and> fst (snd (add g sst)) = st' \<and> new_root (stale_env g) ''t'' ''e'' sst st' A' [g \<mapsto> doc g]"
    if "dht_values sst ?r = A # vs" for g sst vs
    using add_document [OF stale_env_ok docs [OF that, of g], of ?text "[(''a'', JInt 1)]" "''1''" "''ch''" "''tx''" "[]"]
    unfolding guid by (force simp: add_def doc_def number_roundtrip less_char_def)
  obtain st1 A1 where st1: "fst (add ''g'' st) = Inr ()" "fst (snd (add ''g'' st)) = st1" "new_root (stale_env ''g'') ''t'' ''e'' st st1 A1 [''g'' \<mapsto> doc ''g'']"
    using run [OF st] by blast
  have "dht_values st1 ?r = A # [A1]" using st1(3) st by (simp add: new_root_def)
  from run [OF this] obtain st2 A2 where "fst (add ''h'' st1) = Inr ()" "fst (snd (add ''h'' st1)) = st2"
      "new_root (stale_env ''h'') ''t'' ''e'' st1 st2 A2 [''h'' \<mapsto> doc ''h'']" by blast
  then show ?thesis using docs [OF st] st1(1,2) new_root_newest by blast
qed

section \<open>Properties\<close>

lemma search_by_id:
  assumes "surroundings_ok E" and "documents E st tid entityId D" and "D n = Some d" and "CHR 0x22 \<notin> set n"
  shows "searchDocument E tid entityId (print_expr [] (Bin ''='' (Str ''id'') (Str n))) st = (Inr (JArray [d]), st, [])"
proof -
  let ?e = "Bin ''='' (Str ''id'') (Str n)"
  have "answerable (dom D) (ran D) ?e" "expr_ok ?e" "list_all is_space []" using assms(3,4) by (auto simp: comparisons_def)
  then obtain rs where rs: "searchDocument E tid entityId ([] @ print_expr [] ?e) st = (Inr (JArray rs), st, [])" "distinct rs"
      "set rs = {d \<in> ran D. wants ?e d}"
    using search_stored [OF assms(1,2)] by blast
  have "d' = d" if "d' \<in> set rs" for d'
  proof -
    have w: "d' \<in> ran D" "key ''id'' d' = JString n" using that unfolding rs(3) by simp_all
    then obtain n' where "D n' = Some d'" by (auto simp: ran_def)
    moreover from documents_key [OF assms(2) this] have "n' = n" using w(2) by (auto simp: key_def)
    ultimately show ?thesis using assms(3) by simp
  qed
  moreover have "d \<in> set rs"
  proof -
    obtain m where "d = JObject m" "map_of m ''id'' = Some (JString n)" using documents_key [OF assms(2,3)] by blast
    then show ?thesis unfolding rs(3) using ranI [of D n d] assms(3) by (simp add: key_def)
  qed
  ultimately have "set rs = {d}" by blast
  then have "rs = [d]" by (rule distinct_singleton [OF rs(2)])
  then show ?thesis using rs(1) by simp
qed

text \<open>Claim (C16): a document that was added is found.  Adding a template puts one root for the new entity, which represents no
  documents.  Adding an object to an entity puts, whatever version \<open>D\<close> of it the DHT delivers, exactly one new root, which
  represents \<open>D\<close> with the object added under a new id together with that id; no other values are put but the entry of the
  document, none is removed, and the client is told the id.  Every search for the id on any storage that is given the new root returns exactly
  this document.  The DHT may deliver values in any order.\<close>

theorem document_found:
  assumes "surroundings_ok E"
  shows "(root_ok E st (root_key (tree_key TEMPLATE_TREE tid)) \<longrightarrow>
      (\<exists>st' outs A. addChildNode E source channelId txid tid TEMPLATE_TREE object st = (Inr (), st', outs) \<and>
        new_root E tid (new_guid E) st st' A Map.empty)) \<and>
    (documents E st tid entityId D \<longrightarrow> card (dom D) < 2 ^ 31 - 1 \<longrightarrow> json_parse E text = Inr (JObject m) \<longrightarrow> CHR 0x22 \<notin> set (new_guid E) \<longrightarrow>
      (let doc = JObject (omap_set ''id'' (JString (new_guid E)) m) in
       \<exists>st' A. createOrDeleteDocument E source channelId txid tid entityId [] text [] st =
          (Inr (), st', outputs (send E source channelId stateChange txid (new_guid E) (addObject E (json_dump E doc))) st) \<and>
        new_root E tid entityId st st' A (D(new_guid E \<mapsto> doc)) \<and>
        only_changes {data_root_key tid entityId, document_key tid entityId (new_guid E)} st st' \<and>
        (\<forall>sst. stored E sst (data_root_key tid entityId) = A \<longrightarrow>
          searchDocument E tid entityId (print_expr [] (Bin ''='' (Str ''id'') (Str (new_guid E)))) sst = (Inr (JArray [doc]), sst, []))))"
proof (intro conjI impI)
  assume docs: "documents E st tid entityId D" and small: "card (dom D) < 2 ^ 31 - 1" and parse: "json_parse E text = Inr (JObject m)"
    and q: "CHR 0x22 \<notin> set (new_guid E)"
  let ?doc = "JObject (omap_set ''id'' (JString (new_guid E)) m)"
  obtain st' A where st': "createOrDeleteDocument E source channelId txid tid entityId [] text [] st =
        (Inr (), st', outputs (send E source channelId stateChange txid (new_guid E) (addObject E (json_dump E ?doc))) st)"
      "new_root E tid entityId st st' A (D(new_guid E \<mapsto> ?doc))"
      "only_changes {data_root_key tid entityId, document_key tid entityId (new_guid E)} st st'"
    using add_document [OF assms docs small parse] by blast
  have "searchDocument E tid entityId (print_expr [] (Bin ''='' (Str ''id'') (Str (new_guid E)))) sst = (Inr (JArray [?doc]), sst, [])"
    if "stored E sst (data_root_key tid entityId) = A" for sst
    using search_by_id [OF assms new_root_documents [OF st'(2) that] _ q] by simp
  then show "let doc = ?doc in
       \<exists>st' A. createOrDeleteDocument E source channelId txid tid entityId [] text [] st =
          (Inr (), st', outputs (send E source channelId stateChange txid (new_guid E) (addObject E (json_dump E doc))) st) \<and>
        new_root E tid entityId st st' A (D(new_guid E \<mapsto> doc)) \<and>
        only_changes {data_root_key tid entityId, document_key tid entityId (new_guid E)} st st' \<and>
        (\<forall>sst. stored E sst (data_root_key tid entityId) = A \<longrightarrow>
          searchDocument E tid entityId (print_expr [] (Bin ''='' (Str ''id'') (Str (new_guid E)))) sst = (Inr (JArray [doc]), sst, []))"
    unfolding Let_def using st' by blast
qed (rule template_entity [OF assms])

theorem document_found_witness:
  "\<exists>st1 outs1 st2 outs2. addChildNode (graph_env ''e'') ''1'' ''ch'' ''tx'' ''t'' TEMPLATE_TREE ''def'' empty_storage = (Inr (), st1, outs1) \<and>
     createOrDeleteDocument (graph_env ''g'') ''1'' ''ch'' ''tx'' ''t'' ''e'' [] (number_text (JObject [(''a'', JInt 1)])) [] st1 = (Inr (), st2, outs2) \<and>
     searchDocument (graph_env ''g'') ''t'' ''e'' (print_expr [] (Bin ''='' (Str ''id'') (Str ''g''))) st2 =
       (Inr (JArray [JObject [(''a'', JInt 1), (''id'', JString ''g'')]]), st2, [])"
proof -
  obtain st1 outs1 A1 where st1: "addChildNode (graph_env ''e'') ''1'' ''ch'' ''tx'' ''t'' TEMPLATE_TREE ''def'' empty_storage = (Inr (), st1, outs1)"
      "new_root (graph_env ''e'') ''t'' ''e'' empty_storage st1 A1 Map.empty"
    using document_found [OF graph_env_ok, THEN conjunct1, THEN mp, OF empty_storage_root] by (metis graph_env_simps(1))
  have docs: "documents (graph_env ''g'') st1 ''t'' ''e'' Map.empty"
    using new_root_current [OF graph_env_current st1(2)] graph_env_documents(1) [of "''e''" "''g''"] by simp
  have o: "omap_set ''id'' (JString ''g'') [(''a'', JInt 1)] = [(''a'', JInt 1), (''id'', JString ''g'')]" by (simp add: less_char_def)
  obtain st2 outs2 A2 where st2: "createOrDeleteDocument (graph_env ''g'') ''1'' ''ch'' ''tx'' ''t'' ''e'' [] (number_text (JObject [(''a'', JInt 1)])) [] st1 = (Inr (), st2, outs2)"
      "new_root (graph_env ''g'') ''t'' ''e'' st1 st2 A2 [''g'' \<mapsto> JObject [(''a'', JInt 1), (''id'', JString ''g'')]]"
    and find: "\<forall>sst. stored (graph_env ''g'') sst (data_root_key ''t'' ''e'') = A2 \<longrightarrow>
      searchDocument (graph_env ''g'') ''t'' ''e'' (print_expr [] (Bin ''='' (Str ''id'') (Str ''g''))) sst =
        (Inr (JArray [JObject [(''a'', JInt 1), (''id'', JString ''g'')]]), sst, [])"
    using document_found [OF graph_env_ok, THEN conjunct2, THEN mp, OF docs, of "number_text (JObject [(''a'', JInt 1)])" "[(''a'', JInt 1)]"]
    unfolding Let_def graph_env_simps(1) o by (force simp: number_roundtrip)
  have "stored (graph_env ''g'') st2 (data_root_key ''t'' ''e'') = A2"
    using st2(2) stored_newest [OF graph_env_current] by (simp add: new_root_def)
  then show ?thesis using st1(1) st2(1) find by blast
qed



end
