(* ===== verification/Priority_Worker.thy ===== *)
theory Priority_Worker
  imports "HOL-Library.Multiset"
begin

text \<open>
  A worker on a priority queue, as the storage node has two of: a thread repeatedly takes an element that comes first, executes it
  and removes it.  The interface is a locale; it is interpreted on the queues of commands and on the queue of blocks.
\<close>

section \<open>Runs of a worker\<close>

text \<open>An element that comes first; ties are open.\<close>

definition comes_first :: "('c \<Rightarrow> 'k::linorder) \<Rightarrow> 'c list \<Rightarrow> 'c \<Rightarrow> bool" where
  "comes_first key q c \<longleftrightarrow> c \<in> set q \<and> list_all (\<lambda>c'. key c \<le> key c') q"

text \<open>The worker runs from one state to another, without new elements meanwhile, and executes the given elements.\<close>

inductive drains :: "('s \<Rightarrow> 'c list) \<Rightarrow> ('c \<Rightarrow> 'k::linorder) \<Rightarrow> ('c \<Rightarrow> 's \<Rightarrow> 's \<Rightarrow> bool) \<Rightarrow> 's \<Rightarrow> 'c list \<Rightarrow> 's \<Rightarrow> bool"
  for queue key step where
  drains_empty: "queue s = [] \<Longrightarrow> drains queue key step s [] s"
| drains_step: "comes_first key (queue s) c \<Longrightarrow> step c s s1 \<Longrightarrow> drains queue key step s1 cs s2 \<Longrightarrow>
    drains queue key step s (c # cs) s2"

inductive_cases drains_ConsE: "drains queue key step s (c # cs) s'"

lemma first_exists: "q \<noteq> [] \<Longrightarrow> \<exists>c. comes_first key q c"
  using ex_min_if_finite [of "key ` set q"] by (auto simp: comes_first_def list_all_iff not_less)

section \<open>The interface\<close>

locale priority_worker =
  fixes queue :: "'s \<Rightarrow> 'c list" and key :: "'c \<Rightarrow> 'k::linorder" and step :: "'c \<Rightarrow> 's \<Rightarrow> 's \<Rightarrow> bool" and ok :: "'s \<Rightarrow> bool"
  assumes step_ok: "ok s \<Longrightarrow> c \<in> set (queue s) \<Longrightarrow> step c s s' \<Longrightarrow> ok s'"
    and step_removes: "ok s \<Longrightarrow> c \<in> set (queue s) \<Longrightarrow> step c s s' \<Longrightarrow> queue s' = remove1 c (queue s)"
begin

lemma drains_order: "drains queue key step s cs s' \<Longrightarrow> ok s \<Longrightarrow>
    mset cs = mset (queue s) \<and> sorted (map key cs) \<and> queue s' = [] \<and> ok s'"
proof (induction rule: drains.induct)
  case (drains_step s c s1 cs s2)
  have top: "c \<in> set (queue s)" "\<forall>c' \<in> set (queue s). key c \<le> key c'" using drains_step.hyps(1) by (simp_all add: comes_first_def list_all_iff)
  note q1 = step_removes [OF drains_step.prems top(1) drains_step.hyps(2)]
  have ih: "mset cs = mset (remove1 c (queue s))" "sorted (map key cs)" "queue s2 = []" "ok s2"
    using drains_step.IH [OF step_ok [OF drains_step.prems top(1) drains_step.hyps(2)]] q1 by simp_all
  have "set cs \<subseteq> set (queue s)" using ih(1) by (metis mset_eq_setD set_remove1_subset)
  then have "sorted (map key (c # cs))" using ih(2) top(2) by auto
  moreover have "mset (c # cs) = mset (queue s)" using ih(1) top(1) by simp
  ultimately show ?case using ih(3,4) by blast
qed simp

lemma drains_exists:
  assumes "\<And>c s. ok s \<Longrightarrow> c \<in> set q \<Longrightarrow> c \<in> set (queue s) \<Longrightarrow> \<exists>s'. step c s s'"
  shows "ok s \<Longrightarrow> set (queue s) \<subseteq> set q \<Longrightarrow> \<exists>cs s'. drains queue key step s cs s'"
proof (induction "length (queue s)" arbitrary: s)
  case 0
  then show ?case using drains_empty by fastforce
next
  case (Suc n)
  obtain c where c: "comes_first key (queue s) c" using first_exists [of "queue s" key] Suc.hyps(2) by force
  then have cq: "c \<in> set (queue s)" by (simp add: comes_first_def)
  then obtain s1 where s1: "step c s s1" using assms Suc.prems by blast
  note q1 = step_removes [OF Suc.prems(1) cq s1]
  have "n = length (queue s1)" using Suc.hyps(2) cq by (simp add: q1 length_remove1)
  moreover have "set (queue s1) \<subseteq> set q" using Suc.prems(2) set_remove1_subset q1 by fastforce
  ultimately obtain cs s2 where "drains queue key step s1 cs s2" using Suc.hyps(1) step_ok [OF Suc.prems(1) cq s1] by blast
  with c s1 show ?case by (blast intro: drains_step)
qed

lemma drains_all:
  assumes "\<And>c s. ok s \<Longrightarrow> c \<in> set q \<Longrightarrow> c \<in> set (queue s) \<Longrightarrow> \<exists>s'. step c s s'" and "ok s" and "queue s = q"
  shows "(\<exists>cs s'. drains queue key step s cs s') \<and>
    (\<forall>cs s'. drains queue key step s cs s' \<longrightarrow> mset cs = mset q \<and> sorted (map key cs) \<and> queue s' = [])"
  using drains_exists [OF assms(1,2)] drains_order [OF _ assms(2)] assms(3) by blast

end

end
