(* ===== verification/Storage_Node.thy ===== *)
theory Storage_Node
  imports Documents Priority_Worker
begin

text \<open>
  The storage node as a whole (\<^verbatim>\<open>StorageNode.cpp\<close>, \<^verbatim>\<open>Command.h\<close>): state change commands are queued per tenant and kind and
  executed by one thread per queue in the order of their timestamps; blocks are queued and committed in the order of their
  numbers; the remaining commands are answered at once.  A priority queue is the list of its elements, its top any element
  that comes first.
\<close>

section \<open>Commands\<close>

datatype Command =
    addTemplate | addDocument | addFunction | updateTemplate | updateDocument | updateFunction
  | deleteTemplate | deleteDocument | deleteFunction

text \<open>The conversion of an integer to the enumeration, whose underlying type is \<^verbatim>\<open>char\<close>.\<close>

definition command_of_int :: "int \<Rightarrow> Command option" where
  "command_of_int n =
    map_of (zip [1..9] [addTemplate, addDocument, addFunction, updateTemplate, updateDocument, updateFunction,
      deleteTemplate, deleteDocument, deleteFunction]) (n mod 256)"

text \<open>\<^verbatim>\<open>command[i]\<close> of a vector.\<close>

definition arg :: "string list \<Rightarrow> nat \<Rightarrow> string store_action" where
  "arg command i = lift (if i < length command then Inr (command ! i) else Inl Undefined)"

definition run_switch ::
    "storage_env \<Rightarrow> string list \<Rightarrow> string \<Rightarrow> string \<Rightarrow> string \<Rightarrow> string \<Rightarrow> Command \<Rightarrow> unit store_action" where
  "run_switch E command source channelId txid tid cmd =
    (case cmd of
       addFunction \<Rightarrow>
         andThen (arg command 1) (\<lambda>a1. addChildNode E source channelId txid tid FUNCTION_TREE (b64 E a1))
     | addDocument \<Rightarrow>
         andThen (arg command 1) (\<lambda>a1. andThen (arg command 2) (\<lambda>a2.
         createOrDeleteDocument E source channelId txid tid a1 [] (b64 E a2) []))
     | addTemplate \<Rightarrow>
         andThen (arg command 1) (\<lambda>a1. addChildNode E source channelId txid tid TEMPLATE_TREE (b64 E a1))
     | updateFunction \<Rightarrow>
         andThen (arg command 1) (\<lambda>a1. andThen (arg command 2) (\<lambda>a2.
         updateChildNode E source FUNCTION_TREE channelId txid tid a1 (b64 E a2)))
     | updateTemplate \<Rightarrow>
         andThen (arg command 1) (\<lambda>a1. andThen (arg command 2) (\<lambda>a2.
         updateChildNode E source TEMPLATE_TREE channelId txid tid a1 (b64 E a2)))
     | updateDocument \<Rightarrow>
         andThen (arg command 1) (\<lambda>a1. andThen (arg command 2) (\<lambda>a2. andThen (arg command 3) (\<lambda>a3.
         updateOrDeleteDocument E source channelId txid tid a1 a2 (b64 E a3) ''update'')))
     | deleteFunction \<Rightarrow>
         andThen (arg command 1) (\<lambda>a1. deleteObject E source FUNCTION_TREE channelId txid tid a1)
     | deleteTemplate \<Rightarrow>
         andThen (arg command 1) (\<lambda>a1. deleteObject E source TEMPLATE_TREE channelId txid tid a1)
     | deleteDocument \<Rightarrow>
         andThen (arg command 1) (\<lambda>a1. andThen (arg command 2) (\<lambda>a2.
         updateOrDeleteDocument E source channelId txid tid a1 a2 [] ''delete'')))"

text \<open>Every exception is logged and ends the command.\<close>

definition executeStateChangeCommand ::
    "storage_env \<Rightarrow> string list \<Rightarrow> string \<Rightarrow> string \<Rightarrow> string \<Rightarrow> string \<Rightarrow> unit store_action" where
  "executeStateChangeCommand E command source channelId txid tid =
    catching
      (andThen (arg command 0) (\<lambda>c. andThen (lift (stoi c)) (\<lambda>n.
         case command_of_int n of None \<Rightarrow> ok () | Some cmd \<Rightarrow> run_switch E command source channelId txid tid cmd)))
      (\<lambda>_. ok ())"

section \<open>Queues of commands\<close>

definition enqueue :: "string \<Rightarrow> CommandInfo \<Rightarrow> unit store_action" where
  "enqueue k info =
    andThen (gets (\<lambda>st. map_of (stateChangeQueueMap st) k)) (\<lambda>it.
      case it of
        Some q \<Rightarrow> modify (\<lambda>st. st\<lparr>stateChangeQueueMap := std_set k (q @ [info]) (stateChangeQueueMap st)\<rparr>)
      | None \<Rightarrow>
          perform (modify (\<lambda>st. st\<lparr>stateChangeQueueMap := std_insert k [info] (stateChangeQueueMap st)\<rparr>))
            (emit (StartThread k)))"

definition queue_command :: "field_map \<Rightarrow> string \<Rightarrow> int \<Rightarrow> string \<Rightarrow> unit store_action" where
  "queue_command theFields tid tm val =
    (let command = split_at (CHR '' '') val; commandIndex = hd command
     in andThen
          (if commandIndex \<in> {''2'', ''5'', ''8''} then
             lift (if 1 < length command then Inr (tid @ command ! 1) else Inl OutOfRange)
           else ok (tid @ commandIndex)) (\<lambda>k.
        enqueue k \<lparr>ci_fields = theFields, ci_timestamp = tm, ci_command = command\<rparr>))"

definition onStateChange :: "field_map \<Rightarrow> unit store_action" where
  "onStateChange theFields =
    andThen (lift (std_at theFields ''tid'')) (\<lambda>tid.
    andThen (lift (std_at theFields ''cmds'')) (\<lambda>cmds.
    andThen (lift (std_at theFields ''txid'')) (\<lambda>_.
    andThen (lift (std_at theFields ''ws'')) (\<lambda>_.
    andThen (lift (std_at theFields ''k'')) (\<lambda>_.
    let commands = split_at (CHR '','') cmds; theFields = std_erase ''cmds'' theFields
    in catching
         (andThen (lift (std_at theFields ''tm'')) (\<lambda>tm.
          andThen (lift (stoll tm)) (\<lambda>tm.
          for_each commands (\<lambda>val _. queue_command theFields tid tm val) ())))
         (\<lambda>_. ok ()))))))"

text \<open>The worker of a queue takes the top while it holds the lock, executes it without the lock, and then removes what is
  the top by then.\<close>

definition is_top :: "CommandInfo list \<Rightarrow> CommandInfo \<Rightarrow> bool" where
  "is_top = comes_first ci_timestamp"

definition run_command :: "storage_env \<Rightarrow> CommandInfo \<Rightarrow> unit store_action" where
  "run_command E c =
    catching
      (andThen (lift (std_at (ci_fields c) ''ws'')) (\<lambda>source.
       andThen (lift (std_at (ci_fields c) ''k'')) (\<lambda>channelId.
       andThen (lift (std_at (ci_fields c) ''txid'')) (\<lambda>txid.
       andThen (lift (std_at (ci_fields c) ''tid'')) (\<lambda>tid.
       executeStateChangeCommand E (ci_command c) source channelId txid tid)))))
      (\<lambda>e. if e = OutOfRange then ok () else lift (Inl e))"

definition pop_command :: "string \<Rightarrow> CommandInfo \<Rightarrow> unit store_action" where
  "pop_command k c = modify (\<lambda>st. case map_of (stateChangeQueueMap st) k of
      None \<Rightarrow> st
    | Some q \<Rightarrow> st\<lparr>stateChangeQueueMap := std_set k (remove1 c q) (stateChangeQueueMap st)\<rparr>)"

definition process_command :: "storage_env \<Rightarrow> string \<Rightarrow> CommandInfo \<Rightarrow> unit store_action" where
  "process_command E k c = perform (run_command E c) (pop_command k c)"

text \<open>A worker whose queue has been empty for two seconds removes the queue and ends; the result tells whether it does.\<close>

definition retire_queue :: "string \<Rightarrow> int \<Rightarrow> bool store_action" where
  "retire_queue k idle =
    andThen (gets (\<lambda>st. map_of (stateChangeQueueMap st) k)) (\<lambda>q.
    if q = Some [] \<and> 2 \<le> idle then
      perform (modify (\<lambda>st. st\<lparr>stateChangeQueueMap := std_erase k (stateChangeQueueMap st)\<rparr>)) (ok True)
    else ok False)"

section \<open>Blocks\<close>

text \<open>\<^verbatim>\<open>get<int>\<close>\<close>

definition get_int32 :: "json \<Rightarrow> cpp_error + int" where
  "get_int32 j = map_sum id (\<lambda>n. (n + 2 ^ 31) mod 2 ^ 32 - 2 ^ 31) (get_int j)"

text \<open>The verifier of the block is added; every exception is logged.\<close>

definition handle_closeBlock :: "storage_env \<Rightarrow> field_map \<Rightarrow> unit store_action" where
  "handle_closeBlock E theFields =
    catching
      (andThen (lift (std_at theFields ''b'')) (\<lambda>b.
       andThen (lift (json_parse E (b64 E b))) (\<lambda>block.
       andThen (lift (field_ref ''n'' block)) (\<lambda>(n, block).
       andThen (lift (get_int32 n)) (\<lambda>blocknumber.
       andThen (lift (std_at theFields ''key'')) (\<lambda>k.
       andThen (lift (std_at theFields ''si'')) (\<lambda>si.
       andThen (lift (set_field ''v'' (JArray [JObject [(''k'', JString k), (''si'', JString si)]]) block)) (\<lambda>block.
       modify (\<lambda>st. st\<lparr>blocksToCommit := blocksToCommit st @ [(blocknumber, json_dump E block)]\<rparr>)))))))))
      (\<lambda>_. ok ())"

definition top_block :: "(int \<times> string) list \<Rightarrow> int \<times> string \<Rightarrow> bool" where
  "top_block = comes_first fst"

text \<open>One round of \<^verbatim>\<open>processBlocks\<close>; an exception ends the thread before the block is removed.\<close>

definition process_block :: "storage_env \<Rightarrow> int \<times> string \<Rightarrow> unit store_action" where
  "process_block E b =
    perform (addTransactions E (snd b)) (modify (\<lambda>st. st\<lparr>blocksToCommit := remove1 b (blocksToCommit st)\<rparr>))"

definition store_verifier :: "storage_env \<Rightarrow> field_map \<Rightarrow> unit store_action" where
  "store_verifier E theFields =
    andThen (lift (std_at theFields ''d'')) (\<lambda>d.
    andThen (lift (json_parse E (b64 E d))) (\<lambda>block.
    andThen (lift (std_at theFields ''b'')) (\<lambda>blockId.
    andThen (dhtGet E (tree_key BLOCK_TREE blockId)) (\<lambda>hash.
    andThen (lift (json_parse E (fetchObject (client E) hash))) (\<lambda>object_json.
    andThen (lift (field_ref ''v'' object_json)) (\<lambda>(v, object_json).
    andThen (lift (case v of JNull \<Rightarrow> Inr [block] | JArray vs \<Rightarrow> Inr (vs @ [block]) | _ \<Rightarrow> Inl JsonError)) (\<lambda>vs.
    andThen (lift (set_field ''v'' (JArray vs) object_json)) (\<lambda>object_json.
    let objectHash = addObject E (json_dump E object_json)
    in perform (dhtPut (tree_key BLOCK_TREE blockId) objectHash)
       (linkToRoot E BLOCK_TREE blockId objectHash [])))))))))"

section \<open>Handlers\<close>

definition storage_handler :: "storage_env \<Rightarrow> CommandType \<Rightarrow> field_map \<Rightarrow> unit store_action" where
  "storage_handler E cmd theFields =
    (let at = (\<lambda>k. lift (std_at theFields k)); find = (\<lambda>k. case map_of theFields k of None \<Rightarrow> [] | Some v \<Rightarrow> v)
     in if cmd = stateChange then onStateChange theFields
        else if cmd = CommandType.fetchFunction then
          andThen (at ''ws'') (\<lambda>ws. andThen (at ''k'') (\<lambda>k. andThen (at ''txid'') (\<lambda>txid. andThen (at ''tid'') (\<lambda>tid.
          fetchFunction E ws k txid tid (find ''id'') (find ''h'')))))
        else if cmd = CommandType.fetchTemplate then
          andThen (at ''ws'') (\<lambda>ws. andThen (at ''k'') (\<lambda>k. andThen (at ''txid'') (\<lambda>txid. andThen (at ''tid'') (\<lambda>tid.
          andThen (at ''id'') (\<lambda>i. fetchTemplate E ws k txid tid i)))))
        else if cmd = CommandType.fetchDocument then
          andThen (at ''ws'') (\<lambda>ws. andThen (at ''k'') (\<lambda>k. andThen (at ''txid'') (\<lambda>txid. andThen (at ''tid'') (\<lambda>tid.
          andThen (at ''id'') (\<lambda>i. andThen (at ''expression'') (\<lambda>e. findDocument E ws k txid tid i e))))))
        else if cmd = closeBlock then handle_closeBlock E theFields
        else if cmd = verifyBlock then store_verifier E theFields
        else ok ())"

definition sendConnectionRequest :: "int \<Rightarrow> string \<Rightarrow> unit store_action" where
  "sendConnectionRequest port ip =
    (let theFields = [(''t'', ''2''), (''u'', ''ws://'' @ ip @ '':'' @ to_string port)]
     in perform (emit (ToNode ''masternodes'' connectionRequest theFields)) (emit (ToNode ''storagenodes'' connectionRequest theFields)))"

section \<open>Order of execution\<close>

lemma dht_keeps [keeps_intros]:
  "keeps stateChangeQueueMap (dhtGet E k)" "keeps stateChangeQueueMap (dhtPut k v)"
  "keeps stateChangeQueueMap (send E source channelId cmd txid objectId val)" "keeps stateChangeQueueMap (arg command i)"
  by (simp_all add: dhtGet_def dhtPut_def send_def arg_def keeps_intros)

lemma operations_keep [keeps_intros]:
  "keeps stateChangeQueueMap (linkToRoot E tree objectId objectHash txid)"
  "keeps stateChangeQueueMap (unLinkToRoot E tree txid rootHash objectId)"
  "keeps stateChangeQueueMap (patch_document E op c d h)"
  "keeps stateChangeQueueMap (relink_index E tid entityId r index b)"
  "keeps stateChangeQueueMap (searchDocument E tid entityId expression)"
  by (simp_all add: linkToRoot_def unLinkToRoot_def addObjectAndLink_def patch_document_def relink_index_def searchDocument_def keeps_intros)

lemma update_index_keeps [keeps_intros]:
  "keeps stateChangeQueueMap (update_index E tid entityId documentId documentHash op inputJson mapDef r)"
  by (simp add: update_index_def Let_def keeps_intros split: prod.split)

lemma document_keeps [keeps_intros]:
  "keeps stateChangeQueueMap (createOrDeleteDocument E source channelId txid tid entityId documentId documentJson op)"
  by (simp add: createOrDeleteDocument_def Let_def keeps_intros)

lemma statement_keeps [keeps_intros]:
  "keeps stateChangeQueueMap (updateOrDeleteDocument E source channelId txid tid entityId expression documentJson op)"
  "keeps stateChangeQueueMap (addChildNode E source channelId txid tid tree object)"
  "keeps stateChangeQueueMap (updateChildNode E source tree channelId txid tid objectId object)"
  "keeps stateChangeQueueMap (deleteObject E source tree channelId txid tid objectId)"
  by (simp_all add: updateOrDeleteDocument_def addChildNode_def updateChildNode_def deleteObject_def Let_def keeps_intros)

lemma run_command_keeps: "keeps stateChangeQueueMap (run_command E c)"
  by (simp add: run_command_def executeStateChangeCommand_def run_switch_def keeps_intros split: Command.split)

text \<open>The worker of the queue \<open>k\<close> as a worker on a priority queue; each command may run in different surroundings.\<close>

definition commands :: "string \<Rightarrow> storage \<Rightarrow> CommandInfo list" where
  "commands k st = (case map_of (stateChangeQueueMap st) k of None \<Rightarrow> [] | Some q \<Rightarrow> q)"

definition executes :: "string \<Rightarrow> CommandInfo \<Rightarrow> storage \<Rightarrow> storage \<Rightarrow> bool" where
  "executes k c st st' \<longleftrightarrow> (\<exists>E outs. process_command E k c st = (Inr (), st', outs))"

lemma process_command_queues:
  assumes "map_of (stateChangeQueueMap st) k = Some q" and "process_command E k c st = (Inr (), st1, outs)"
  shows "map_of (stateChangeQueueMap st1) = (map_of (stateChangeQueueMap st))(k \<mapsto> remove1 c q)"
proof -
  obtain st0 outs0 where r: "run_command E c st = (Inr (), st0, outs0)" and p: "st1 = fst (snd (pop_command k c st0))"
    using assms(2) by (auto simp: process_command_def action_simps split: prod.splits sum.splits)
  have "stateChangeQueueMap st0 = stateChangeQueueMap st" using keepsD [OF run_command_keeps r] .
  then show ?thesis using assms(1) p by (simp add: pop_command_def action_simps)
qed

interpretation command_worker: priority_worker "commands k" ci_timestamp "executes k" "\<lambda>st. map_of (stateChangeQueueMap st) k \<noteq> None" for k
proof unfold_locales
  fix st c st'
  assume "map_of (stateChangeQueueMap st) k \<noteq> None" and "executes k c st st'"
  then obtain q where "map_of (stateChangeQueueMap st) k = Some q" "map_of (stateChangeQueueMap st') = (map_of (stateChangeQueueMap st))(k \<mapsto> remove1 c q)"
    unfolding executes_def using process_command_queues by blast
  then show "map_of (stateChangeQueueMap st') k \<noteq> None" "commands k st' = remove1 c (commands k st)" by (simp_all add: commands_def)
qed

lemma executes_total:
  assumes "fst (run_command E c st) = Inr ()"
  shows "\<exists>st'. executes k c st st'"
  using assms by (cases "run_command E c st") (auto simp: executes_def process_command_def pop_command_def action_simps intro!: exI [of _ E])

section \<open>Workers\<close>

text \<open>The queues and the workers that run: commands arrive, workers execute commands, and idle workers end.\<close>

inductive served :: "storage \<Rightarrow> string set \<Rightarrow> bool" where
  served_start: "stateChangeQueueMap st = [] \<Longrightarrow> served st {}"
| served_arrival: "served st W \<Longrightarrow> onStateChange theFields st = (r, st', outs) \<Longrightarrow> served st' (W \<union> {k. StartThread k \<in> set outs})"
| served_work: "served st W \<Longrightarrow> k \<in> W \<Longrightarrow> process_command E k c st = (Inr (), st', outs) \<Longrightarrow> served st' W"
| served_idle: "served st W \<Longrightarrow> k \<in> W \<Longrightarrow> retire_queue k idle st = (Inr b, st', outs) \<Longrightarrow> served st' (if b then W - {k} else W)"

definition starts :: "unit store_action \<Rightarrow> bool" where
  "starts m \<longleftrightarrow> (\<forall>st r st' outs. m st = (r, st', outs) \<longrightarrow>
     dom (map_of (stateChangeQueueMap st')) = dom (map_of (stateChangeQueueMap st)) \<union> {k. StartThread k \<in> set outs})"

lemma startsD: "starts m \<Longrightarrow> m st = (r, st', outs) \<Longrightarrow>
    dom (map_of (stateChangeQueueMap st')) = dom (map_of (stateChangeQueueMap st)) \<union> {k. StartThread k \<in> set outs}"
  by (simp add: starts_def)

lemma starts_lift: "(\<And>x. starts (m x)) \<Longrightarrow> starts (andThen (lift r) m)"
  by (auto simp: starts_def action_simps split: sum.splits prod.splits)

lemma starts_catching: "starts m \<Longrightarrow> starts (catching m (\<lambda>_. ok ()))"
  unfolding starts_def catching_apply by (auto simp: action_simps split: prod.splits sum.splits if_splits)

lemma starts_for_each:
  assumes "\<And>x. starts (f x)"
  shows "starts (for_each xs (\<lambda>x _. f x) ())"
proof (induction xs)
  case (Cons x xs)
  show ?case unfolding starts_def
  proof (intro allI impI)
    fix st r st' outs
    assume run: "for_each (x # xs) (\<lambda>x _. f x) () st = (r, st', outs)"
    obtain r1 st1 outs1 where first: "f x st = (r1, st1, outs1)" by (metis prod_cases3)
    obtain r2 st2 outs2 where rest: "for_each xs (\<lambda>x _. f x) () st1 = (r2, st2, outs2)" by (metis prod_cases3)
    show "dom (map_of (stateChangeQueueMap st')) = dom (map_of (stateChangeQueueMap st)) \<union> {k. StartThread k \<in> set outs}"
      using run startsD [OF assms first] startsD [OF Cons rest] first rest by (auto simp: action_simps split: sum.splits)
  qed
qed (simp add: starts_def action_simps)

lemma starts_enqueue: "starts (enqueue k info)"
  by (auto simp: starts_def enqueue_def action_simps split: option.splits if_splits)

lemma starts_arrival: "starts (onStateChange theFields)"
  unfolding onStateChange_def queue_command_def Let_def
  by (intro starts_lift starts_catching starts_for_each)
    (auto simp: action_simps starts_def if_distrib split: if_splits sum.splits prod.splits dest: startsD [OF starts_enqueue])

lemma served_queues: "served st W \<Longrightarrow> dom (map_of (stateChangeQueueMap st)) = W"
proof (induction rule: served.induct)
  case (served_work st W k E c st' outs)
  then obtain q where "map_of (stateChangeQueueMap st) k = Some q" by auto
  from process_command_queues [OF this served_work.hyps(3)] show ?case using served_work.IH served_work.hyps(2) by (metis dom_fun_upd insert_absorb option.distinct(1))
qed (auto simp: retire_queue_def action_simps dest: startsD [OF starts_arrival] split: if_splits)

section \<open>Properties\<close>

text \<open>Claim (C27): the commands of a queue are executed in the order of their timestamps, each exactly once.  When no new command
  arrives meanwhile and no command has undefined behaviour, the worker empties the queue, and however ties are broken the
  executed commands are those of the queue, in the order of their timestamps.\<close>

theorem commands_in_order:
  assumes "map_of (stateChangeQueueMap st) k = Some q" and "\<And>c st. c \<in> set q \<Longrightarrow> fst (run_command E c st) = Inr ()"
  shows "(\<exists>cs st'. drains (commands k) ci_timestamp (executes k) st cs st') \<and>
    (\<forall>cs st'. drains (commands k) ci_timestamp (executes k) st cs st' \<longrightarrow>
      mset cs = mset q \<and> sorted (map ci_timestamp cs) \<and> commands k st' = [])"
proof (rule command_worker.drains_all)
  show "\<exists>s'. executes k c s s'" if "c \<in> set q" for c s using executes_total assms(2) that by blast
qed (simp_all add: assms(1) commands_def)

theorem commands_in_order_witness:
  "let c = (\<lambda>t. \<lparr>ci_fields = [(''ws'', ''1'')], ci_timestamp = t, ci_command = [''3'']\<rparr>);
       st = empty_storage\<lparr>stateChangeQueueMap := [(''t3'', [c 7, c 2])]\<rparr>
   in \<exists>cs st'. drains (commands ''t3'') ci_timestamp (executes ''t3'') st cs st' \<and> map ci_timestamp cs = [2, 7]"
proof -
  let ?c = "\<lambda>t. \<lparr>ci_fields = [(''ws'', ''1'')], ci_timestamp = t, ci_command = [''3'']\<rparr>"
  let ?st = "empty_storage\<lparr>stateChangeQueueMap := [(''t3'', [?c 7, ?c 2])]\<rparr>"
  have q: "map_of (stateChangeQueueMap ?st) ''t3'' = Some [?c 7, ?c 2]" by simp
  have "fst (run_command (graph_env ''g'') c st) = Inr ()" if "c \<in> set [?c 7, ?c 2]" for c st
    using that by (auto simp: run_command_def action_simps std_at_def)
  from commands_in_order [OF q this] obtain cs st' where d: "drains (commands ''t3'') ci_timestamp (executes ''t3'') ?st cs st'" "mset cs = mset [?c 7, ?c 2]" "sorted (map ci_timestamp cs)"
    by blast
  have "mset (map ci_timestamp cs) = {#7, 2#}" using d(2) by simp
  then have "map ci_timestamp cs = sort [7, 2]" using d(3) by (intro properties_for_sort [symmetric]) simp_all
  then show ?thesis using d(1) unfolding Let_def by auto
qed

text \<open>Claim (C39): no queue is forgotten.  However commands arrive, workers execute them and idle workers end, the queues are
  exactly those for which a worker runs: a worker only ends when its queue is empty and takes the queue with it, and the next
  command for that key starts a new one.\<close>

theorem queues_have_workers:
  assumes "served st W"
  shows "dom (map_of (stateChangeQueueMap st)) = W"
  by (rule served_queues [OF assms])

theorem queues_have_workers_witness:
  "let st = fst (snd (onStateChange [(''tid'', ''t''), (''cmds'', ''3 a,1 b,3 c''), (''txid'', ''x''), (''ws'', ''1''), (''k'', ''c''), (''tm'', ''7'')] empty_storage))
   in served st {''t3'', ''t1''} \<and> dom (map_of (stateChangeQueueMap st)) = {''t3'', ''t1''}"
proof -
  let ?m = "onStateChange [(''tid'', ''t''), (''cmds'', ''3 a,1 b,3 c''), (''txid'', ''x''), (''ws'', ''1''), (''k'', ''c''), (''tm'', ''7'')]"
  have outs: "snd (snd (?m empty_storage)) = [StartThread ''t3'', StartThread ''t1'']" by code_simp
  have "served empty_storage {}" by (rule served_start) (simp add: empty_storage_def)
  moreover have "?m empty_storage = (fst (?m empty_storage), fst (snd (?m empty_storage)), [StartThread ''t3'', StartThread ''t1''])"
    by (simp add: outs [symmetric])
  ultimately have "served (fst (snd (?m empty_storage))) ({} \<union> {k. StartThread k \<in> set [StartThread ''t3'', StartThread ''t1'']})" by (rule served_arrival)
  moreover have "{k. StartThread k \<in> set [StartThread ''t3'', StartThread ''t1'']} = {''t3'', ''t1''}" by auto
  ultimately have s: "served (fst (snd (?m empty_storage))) {''t3'', ''t1''}" by (simp only: Un_empty_left)
  from queues_have_workers [OF s] s show ?thesis unfolding Let_def by blast
qed

text \<open>The command that is executed need not be the one that is removed: when an earlier command arrives between the
  two critical sections, it is removed without having been executed, and the executed one stays in the queue.\<close>

lemma earlier_command_lost:
  assumes "ci_timestamp early < ci_timestamp running" and "is_top [running, early] c"
  shows "c = early" "remove1 c [running, early] = [running]"
  using assms by (auto simp: is_top_def comes_first_def)

end
