(* ===== verification/Commit.thy ===== *)
theory Commit
  imports Storage_Node
begin

text \<open>
  What a storage node does with a block it receives from a master node (\<^verbatim>\<open>addToTxTree\<close>, \<^verbatim>\<open>addTransactions\<close> and the handlers of
  \<^verbatim>\<open>closeBlock\<close> and \<^verbatim>\<open>verifyBlock\<close> in \<^verbatim>\<open>StorageNode.cpp\<close>): the transactions hang at the roots of their tenants, the block at
  the root of all blocks.  A root has the versions that were put for it; each change adds one to the version the DHT delivers.
\<close>

section \<open>Links of a root\<close>

text \<open>A version of the root of a tree, one of the values that were put for it, links the object \<open>data\<close> under its name.\<close>

definition links_to :: "storage_env \<Rightarrow> string \<Rightarrow> string \<Rightarrow> string \<Rightarrow> bool" where
  "links_to E root name data \<longleftrightarrow> (\<exists>m h. node (client E) root m \<and> m name = Some h \<and> fetchObject (client E) h = data)"

definition published :: "storage_env \<Rightarrow> storage \<Rightarrow> string \<Rightarrow> string \<Rightarrow> string \<Rightarrow> bool" where
  "published E st tree name data \<longleftrightarrow> (\<exists>v \<in> set (dht_values st (root_key tree)). v \<noteq> [] \<and> links_to E v name data)"

text \<open>The version that a get delivers links the object.\<close>

definition linked :: "storage_env \<Rightarrow> storage \<Rightarrow> string \<Rightarrow> string \<Rightarrow> string \<Rightarrow> bool" where
  "linked E st tree name data \<longleftrightarrow> stored E st (root_key tree) \<noteq> [] \<and> links_to E (stored E st (root_key tree)) name data"

text \<open>The roots of all trees are empty or lead to objects, in all their versions.\<close>

definition roots_ok :: "storage_env \<Rightarrow> storage \<Rightarrow> bool" where
  "roots_ok E st \<longleftrightarrow> (\<forall>tree. \<forall>v \<in> set (dht_values st (root_key tree)). v = [] \<or> (\<exists>m. node (client E) v m))"

lemma roots_ok_root: "surroundings_ok E \<Longrightarrow> roots_ok E st \<Longrightarrow> root_ok E st (root_key tree)"
  using stored_was_put unfolding roots_ok_def root_ok_def by blast

text \<open>The root of a tree gets a new version: the delivered version with one more link, or a new object when there is none.\<close>

definition adds_version :: "storage_env \<Rightarrow> string \<Rightarrow> string \<Rightarrow> string \<Rightarrow> storage \<Rightarrow> storage \<Rightarrow> bool" where
  "adds_version E tree name data st st' \<longleftrightarrow>
    (\<exists>m r h. dht_values st' (root_key tree) = dht_values st (root_key tree) @ [r] \<and> r \<noteq> [] \<and>
      node (client E) r (m(name \<mapsto> h)) \<and> fetchObject (client E) h = data \<and>
      (if stored E st (root_key tree) = [] then m = Map.empty else node (client E) (stored E st (root_key tree)) m))"

text \<open>The roots of other trees get none.\<close>

definition adds_link :: "storage_env \<Rightarrow> string \<Rightarrow> string \<Rightarrow> string \<Rightarrow> storage \<Rightarrow> storage \<Rightarrow> bool" where
  "adds_link E tree name data st st' \<longleftrightarrow> adds_version E tree name data st st' \<and>
    (\<forall>x. x \<noteq> tree \<longrightarrow> dht_values st' (root_key x) = dht_values st (root_key x))"

text \<open>No value is lost.\<close>

definition grows :: "storage \<Rightarrow> storage \<Rightarrow> bool" where
  "grows st st' \<longleftrightarrow> only_changes UNIV st st'"

lemma grows_refl [simp]: "grows st st"
  by (simp add: grows_def)

lemma grows_put: "grows st st' \<Longrightarrow> grows st (put k v st')"
  by (simp add: grows_def only_changes_put)

lemma grows_cong:
  "dht_values st1 = dht_values st \<Longrightarrow> grows st1 st' = grows st st'" "dht_values st1 = dht_values st' \<Longrightarrow> grows st st1 = grows st st'"
  by (simp_all add: grows_def only_changes_def)

lemma grows_trans: "grows a b \<Longrightarrow> grows b c \<Longrightarrow> grows a c"
  unfolding grows_def by (rule only_changes_trans)

lemma grows_set: "grows st st' \<Longrightarrow> set (dht_values st k) \<subseteq> set (dht_values st' k)"
  unfolding grows_def only_changes_def by (metis UnCI set_append subsetI)

lemma published_grows: "grows st st' \<Longrightarrow> published E st tree name d \<Longrightarrow> published E st' tree name d"
  unfolding published_def using grows_set by blast

lemma published_same: "dht_values st' = dht_values st \<Longrightarrow> published E st' = published E st"
  by (simp add: published_def fun_eq_iff)

lemma linked_same: "stored E st' (root_key tree) = stored E st (root_key tree) \<Longrightarrow> linked E st' tree n d = linked E st tree n d"
  by (simp add: linked_def)

lemma node_unique: "node c h m \<Longrightarrow> node c h m' \<Longrightarrow> m' = m"
  by (auto simp: node_def)

lemma adds_link_roots_ok: "roots_ok E st \<Longrightarrow> adds_link E tree name d st st' \<Longrightarrow> roots_ok E st'"
  unfolding roots_ok_def
proof (intro allI ballI)
  fix x v
  assume ok: "\<forall>tree. \<forall>v \<in> set (dht_values st (root_key tree)). v = [] \<or> (\<exists>m. node (client E) v m)"
    and new: "adds_link E tree name d st st'" and v: "v \<in> set (dht_values st' (root_key x))"
  have "v \<in> set (dht_values st (root_key x)) \<or> (\<exists>m. node (client E) v m)"
    using new v by (cases "x = tree") (auto simp: adds_link_def adds_version_def)
  then show "v = [] \<or> (\<exists>m. node (client E) v m)" using ok by blast
qed

lemma adds_version_published: "adds_version E tree name d st st' \<Longrightarrow> published E st' tree name d"
  unfolding adds_version_def published_def links_to_def by fastforce

lemma adds_link_published: "adds_link E tree name d st st' \<Longrightarrow> published E st' tree name d"
  unfolding adds_link_def using adds_version_published by blast

lemma adds_version_cong:
  assumes "dht_values st1 (root_key tree) = dht_values st (root_key tree)" and "dht_values st2 (root_key tree) = dht_values st' (root_key tree)"
  shows "adds_version E tree name d st1 st2 = adds_version E tree name d st st'"
  by (simp add: adds_version_def assms stored_other [OF assms(1)])

text \<open>When gets deliver the newest version, the new link and all others are seen.\<close>

lemma adds_link_linked:
  assumes "current E" and "adds_link E tree name d st st'"
  shows "linked E st' tree name d" and "linked E st tree' n d' \<Longrightarrow> (tree', n) \<noteq> (tree, name) \<Longrightarrow> linked E st' tree' n d'"
proof -
  obtain m r h where r: "dht_values st' (root_key tree) = dht_values st (root_key tree) @ [r]" "r \<noteq> []"
      "node (client E) r (m(name \<mapsto> h))" "fetchObject (client E) h = d"
      "stored E st (root_key tree) \<noteq> [] \<longrightarrow> node (client E) (stored E st (root_key tree)) m"
    and other: "\<And>x. x \<noteq> tree \<Longrightarrow> dht_values st' (root_key x) = dht_values st (root_key x)"
    using assms(2) unfolding adds_link_def adds_version_def by (metis (no_types, lifting))
  have new: "stored E st' (root_key tree) = r" by (rule stored_newest [OF assms(1) r(1)])
  show "linked E st' tree name d" unfolding linked_def links_to_def new using r(2-4) by fastforce
  assume l: "linked E st tree' n d'" "(tree', n) \<noteq> (tree, name)"
  show "linked E st' tree' n d'"
  proof (cases "tree' = tree")
    case True
    obtain m' h' where h': "node (client E) (stored E st (root_key tree)) m'" "m' n = Some h'" "fetchObject (client E) h' = d'"
      using l(1) True unfolding linked_def links_to_def by blast
    have "m' = m" using node_unique r(5) l(1) h'(1) True unfolding linked_def by blast
    then show ?thesis
      unfolding linked_def links_to_def True new using r(2,3) l(2) h' True by (intro conjI exI [of _ "m(name \<mapsto> h)"] exI [of _ h']) simp_all
  next
    case False
    then show ?thesis using l(1) linked_same [OF stored_other [of st' "root_key tree'" st E]] other by simp
  qed
qed

section \<open>Transactions\<close>

abbreviation tx_root :: "string \<Rightarrow> string" where
  "tx_root tid \<equiv> tree_key TRANSACTION_TREE tid"

definition tx_ids :: "json \<Rightarrow> (string \<times> string) option" where
  "tx_ids t = (case (key ''tid'' t, key ''txid'' t) of (JString tid, JString txid) \<Rightarrow> Some (tid, txid) | _ \<Rightarrow> None)"

lemma tx_idsD:
  assumes "tx_ids t = Some (tid, txid)"
  shows "json_string_at t ''txid'' = Inr (txid, t)" "json_string_at t ''tid'' = Inr (tid, t)"
proof -
  have k: "key ''tid'' t = JString tid" "key ''txid'' t = JString txid"
    using assms by (auto simp: tx_ids_def split: json.splits)
  then obtain m where "t = JObject m" "map_of m ''tid'' = Some (JString tid)" "map_of m ''txid'' = Some (JString txid)"
    by (cases t) (auto simp: key_def split: option.splits)
  then show "json_string_at t ''txid'' = Inr (txid, t)" "json_string_at t ''tid'' = Inr (tid, t)"
    by (simp_all add: json_string_at_def field_ref_def)
qed

lemma key_simps [simp]:
  "root_key a = root_key b \<longleftrightarrow> a = b" "tree_key tree a = tree_key tree b \<longleftrightarrow> a = b"
  "root_key a \<noteq> tx_root b" "root_key a \<noteq> tree_key BLOCK_TREE b"
  "tx_root a \<noteq> root_key b" "tree_key BLOCK_TREE a \<noteq> root_key b"
  "tx_root a \<noteq> tree_key BLOCK_TREE b" "tree_key BLOCK_TREE a \<noteq> tx_root b"
  "tx_root a \<noteq> BLOCK_TREE" "BLOCK_TREE \<noteq> tx_root a"
  by (auto simp: root_key_def tree_key_def TRANSACTION_TREE_def BLOCK_TREE_def)

lemma add_transaction:
  assumes ok: "surroundings_ok E" and roots: "roots_ok E st" and ids: "tx_ids t = Some (tid, txid)"
  shows "\<exists>st'. addToTxTree E t st = (Inr (), st', []) \<and> adds_link E (tx_root tid) txid (json_dump E t) st st' \<and> grows st st' \<and>
    blocksToCommit st' = blocksToCommit st"
proof -
  let ?h = "addObject E (json_dump E t)" and ?root = "stored E st (root_key (tx_root tid))"
  define r where "r = (if ?root = [] then addObject E (root_key (tx_root tid)) else ?root)"
  obtain m where m: "node (client E) r m" "if ?root = [] then m = Map.empty else node (client E) ?root m"
    using roots_ok_root [OF ok roots, of "tx_root tid"] put_object(2) [OF ok] unfolding root_ok_def r_def by metis
  obtain r' where r': "patch_add_link (client E) r txid ?h = Inr r'" "r' \<noteq> []" "node (client E) r' (m(txid \<mapsto> ?h))"
    using add_link [OF ok m(1)] by blast
  have same: "stored E (put (tx_root txid) ?h st) (root_key (tx_root tid)) = ?root" by (rule stored_other) simp
  define st' where "st' = put (root_key (tx_root tid)) r' (put (tx_root r') txid (put (tx_root txid) ?h st))"
  have run: "addToTxTree E t st = (Inr (), st', [])"
    using tx_idsD [OF ids] r'(1) unfolding r_def st'_def
    by (simp add: addToTxTree_def action_simps Let_def same split: if_splits)
  have "adds_link E (tx_root tid) txid (json_dump E t) st st'"
    unfolding adds_link_def adds_version_def st'_def using r'(2,3) m(2) put_object(3) [OF ok] by (intro conjI exI [of _ m] exI [of _ r'] exI [of _ ?h]) simp_all
  moreover have "grows st st'" by (simp add: st'_def grows_put)
  ultimately show ?thesis using run by (intro exI [of _ st']) (simp add: st'_def put_def)
qed

text \<open>The transactions \<open>ts\<close> are published under their ids at the roots of their tenants.\<close>

definition txs_published :: "storage_env \<Rightarrow> storage \<Rightarrow> json list \<Rightarrow> bool" where
  "txs_published E st ts \<longleftrightarrow> (\<forall>t tid txid. t \<in> set ts \<longrightarrow> tx_ids t = Some (tid, txid) \<longrightarrow> published E st (tx_root tid) txid (json_dump E t))"

definition txs_linked :: "storage_env \<Rightarrow> storage \<Rightarrow> json list \<Rightarrow> bool" where
  "txs_linked E st ts \<longleftrightarrow> (\<forall>t tid txid. t \<in> set ts \<longrightarrow> tx_ids t = Some (tid, txid) \<longrightarrow> linked E st (tx_root tid) txid (json_dump E t))"

lemma add_all_transactions:
  assumes ok: "surroundings_ok E"
  shows "roots_ok E st \<Longrightarrow> list_all (\<lambda>t. tx_ids t \<noteq> None) ts \<Longrightarrow>
    \<exists>st'. for_each ts (\<lambda>t _. addToTxTree E t) () st = (Inr (), st', []) \<and> roots_ok E st' \<and> blocksToCommit st' = blocksToCommit st \<and>
    grows st st' \<and> txs_published E st' ts \<and> dht_values st' (root_key BLOCK_TREE) = dht_values st (root_key BLOCK_TREE) \<and>
    (current E \<longrightarrow> distinct (map tx_ids ts) \<longrightarrow> txs_linked E st' ts \<and>
     (\<forall>tree name d. linked E st tree name d \<longrightarrow> (\<forall>tid. tree = tx_root tid \<longrightarrow> Some (tid, name) \<notin> tx_ids ` set ts) \<longrightarrow> linked E st' tree name d))"
proof (induction ts arbitrary: st)
  case Nil
  then show ?case by (simp add: action_simps txs_published_def txs_linked_def)
next
  case (Cons t ts)
  obtain tid txid where t: "tx_ids t = Some (tid, txid)" using Cons.prems(2) by auto
  obtain st1 where st1: "addToTxTree E t st = (Inr (), st1, [])" "adds_link E (tx_root tid) txid (json_dump E t) st st1" "grows st st1"
      "blocksToCommit st1 = blocksToCommit st"
    using add_transaction [OF ok Cons.prems(1) t] by blast
  have p: "list_all (\<lambda>t. tx_ids t \<noteq> None) ts" using Cons.prems(2) by simp
  obtain st' where st': "for_each ts (\<lambda>t _. addToTxTree E t) () st1 = (Inr (), st', [])" "roots_ok E st'" "blocksToCommit st' = blocksToCommit st1"
      "grows st1 st'" "txs_published E st' ts" "dht_values st' (root_key BLOCK_TREE) = dht_values st1 (root_key BLOCK_TREE)"
    and cur: "current E \<Longrightarrow> distinct (map tx_ids ts) \<Longrightarrow> txs_linked E st' ts"
      "\<And>tree name d. current E \<Longrightarrow> distinct (map tx_ids ts) \<Longrightarrow> linked E st1 tree name d \<Longrightarrow>
        (\<And>tid. tree = tx_root tid \<Longrightarrow> Some (tid, name) \<notin> tx_ids ` set ts) \<Longrightarrow> linked E st' tree name d"
    using Cons.IH [OF adds_link_roots_ok [OF Cons.prems(1) st1(2)] p] by blast
  have "published E st' (tx_root tid) txid (json_dump E t)" using published_grows [OF st'(4) adds_link_published [OF st1(2)]] .
  then have "txs_published E st' (t # ts)" using st'(5) t by (auto simp: txs_published_def)
  moreover have "dht_values st1 (root_key BLOCK_TREE) = dht_values st (root_key BLOCK_TREE)" using st1(2) by (simp add: adds_link_def)
  moreover have "txs_linked E st' (t # ts)" if "current E" "distinct (map tx_ids (t # ts))"
  proof -
    have d: "distinct (map tx_ids ts)" "Some (tid, txid) \<notin> tx_ids ` set ts" using that(2) t by auto
    have "linked E st' (tx_root tid) txid (json_dump E t)" using cur(2) [OF that(1) d(1) adds_link_linked(1) [OF that(1) st1(2)]] d(2) by simp
    then show ?thesis using cur(1) [OF that(1) d(1)] t by (auto simp: txs_linked_def)
  qed
  moreover have "linked E st' tree name d" if "current E" "distinct (map tx_ids (t # ts))" "linked E st tree name d"
      "\<forall>tid'. tree = tx_root tid' \<longrightarrow> Some (tid', name) \<notin> tx_ids ` set (t # ts)" for tree name d
    using cur(2) [OF that(1) _ adds_link_linked(2) [OF that(1) st1(2) that(3)]] that(2,4) t by auto
  ultimately show ?case
    using st1(1,4) st'(1-3,6) grows_trans [OF st1(3) st'(4)] by (intro exI [of _ st']) (simp add: action_simps)
qed

section \<open>Blocks\<close>

text \<open>The block \<open>m\<close> has been stored and linked under its number, and its transactions under their ids.\<close>

definition recorded :: "storage_env \<Rightarrow> storage \<Rightarrow> int \<Rightarrow> (string \<times> json) list \<Rightarrow> json list \<Rightarrow> bool" where
  "recorded E st n m ts \<longleftrightarrow>
    (\<exists>h \<in> set (dht_values st (tree_key BLOCK_TREE (to_string n))). fetchObject (client E) h = json_dump E (JObject m)) \<and>
    published E st BLOCK_TREE (to_string n) (json_dump E (JObject m)) \<and> txs_published E st ts"

text \<open>The gets find the block, and the versions they deliver have the links.\<close>

definition committed :: "storage_env \<Rightarrow> storage \<Rightarrow> int \<Rightarrow> (string \<times> json) list \<Rightarrow> json list \<Rightarrow> bool" where
  "committed E st n m ts \<longleftrightarrow>
    fetchObject (client E) (stored E st (tree_key BLOCK_TREE (to_string n))) = json_dump E (JObject m) \<and>
    linked E st BLOCK_TREE (to_string n) (json_dump E (JObject m)) \<and> txs_linked E st ts"

text \<open>What was linked before and is not overwritten stays linked.\<close>

definition keeps_links :: "storage_env \<Rightarrow> int \<Rightarrow> json list \<Rightarrow> storage \<Rightarrow> storage \<Rightarrow> bool" where
  "keeps_links E n ts st st' \<longleftrightarrow>
    (\<forall>tree name d. linked E st tree name d \<longrightarrow> (tree, name) \<noteq> (BLOCK_TREE, to_string n) \<longrightarrow>
      (\<forall>tid. tree = tx_root tid \<longrightarrow> Some (tid, name) \<notin> tx_ids ` set ts) \<longrightarrow> linked E st' tree name d)"

lemma block_views_cong:
  assumes "dht_values st' = dht_values st"
  shows "recorded E st' = recorded E st" "committed E st' = committed E st" "roots_ok E st' = roots_ok E st"
    "keeps_links E n ts st' = keeps_links E n ts st" "keeps_links E n ts sst st' = keeps_links E n ts sst st"
    "adds_version E tree name d st' = adds_version E tree name d st" "adds_version E tree name d sst st' = adds_version E tree name d sst st"
    "linked E st' = linked E st"
proof -
  have "stored E st' k = stored E st k" for k by (rule stored_other) (simp add: assms)
  then show "recorded E st' = recorded E st" "committed E st' = committed E st" "roots_ok E st' = roots_ok E st"
    "keeps_links E n ts st' = keeps_links E n ts st" "keeps_links E n ts sst st' = keeps_links E n ts sst st"
    "adds_version E tree name d st' = adds_version E tree name d st" "adds_version E tree name d sst st' = adds_version E tree name d sst st"
    "linked E st' = linked E st"
    by (simp_all add: recorded_def committed_def roots_ok_def keeps_links_def adds_version_def linked_def published_def txs_published_def
      txs_linked_def assms fun_eq_iff)
qed

lemma link_block:
  assumes ok: "surroundings_ok E" and roots: "roots_ok E st"
  shows "\<exists>st'. linkToRoot E BLOCK_TREE blockId (addObject E d) [] (put (tree_key BLOCK_TREE blockId) (addObject E d) st) = (Inr (), st', []) \<and>
    adds_link E BLOCK_TREE blockId d st st' \<and> grows st st' \<and> blocksToCommit st' = blocksToCommit st \<and>
    dht_values st' (tree_key BLOCK_TREE blockId) = dht_values st (tree_key BLOCK_TREE blockId) @ [addObject E d]"
proof -
  let ?h = "addObject E d" and ?st = "put (tree_key BLOCK_TREE blockId) (addObject E d) st" and ?root = "stored E st (root_key BLOCK_TREE)"
  have s1: "stored E ?st (root_key BLOCK_TREE) = ?root" by (rule stored_other) simp
  have "root_ok E ?st (root_key BLOCK_TREE)" using roots_ok_root [OF ok roots, of BLOCK_TREE] by (simp add: root_ok_def s1)
  note link = link_root [OF ok this, of blockId ?h "[]", unfolded s1]
  obtain r m where
      run: "linkToRoot E BLOCK_TREE blockId ?h [] ?st = (Inr (), put (root_key BLOCK_TREE) r ?st, [])"
    and r: "r \<noteq> []" "node (client E) r (m(blockId \<mapsto> ?h))" "if ?root = [] then m = Map.empty else node (client E) ?root m"
    using link by auto
  have "adds_link E BLOCK_TREE blockId d st (put (root_key BLOCK_TREE) r ?st)"
    unfolding adds_link_def adds_version_def using r put_object(3) [OF ok]
    by (intro conjI exI [of _ m] exI [of _ r] exI [of _ ?h]) simp_all
  then show ?thesis
    using run by (intro exI [of _ "put (root_key BLOCK_TREE) r ?st"]) (simp add: grows_put, simp add: put_def)
qed

definition commit_notice :: "storage_env \<Rightarrow> int \<Rightarrow> (string \<times> json) list \<Rightarrow> storage_out" where
  "commit_notice E n verifier =
    ToNode ''master21'' verifyBlock [(''b'', b64_text E (json_dump E (JObject (omap_set ''n'' (JString (to_string n)) verifier))))]"

lemma commit_block:
  assumes ok: "surroundings_ok E" and roots: "roots_ok E st" and parse: "json_parse E text = Inr (JObject m)"
    and m: "map_of m ''data'' = Some (JArray ts)" "map_of m ''n'' = Some (JInt n)" "map_of m ''v'' = Some (JArray (JObject w # vs))"
    and ts: "list_all (\<lambda>t. tx_ids t \<noteq> None) ts"
  shows "\<exists>st'. addTransactions E text st = (Inr (), st', [commit_notice E n w]) \<and> roots_ok E st' \<and> blocksToCommit st' = blocksToCommit st \<and>
    grows st st' \<and> recorded E st' n m ts \<and> adds_version E BLOCK_TREE (to_string n) (json_dump E (JObject m)) st st' \<and>
    (current E \<longrightarrow> distinct (map tx_ids ts) \<longrightarrow> committed E st' n m ts \<and> keeps_links E n ts st st')"
proof -
  obtain st1 where st1: "for_each ts (\<lambda>t _. addToTxTree E t) () st = (Inr (), st1, [])" "roots_ok E st1" "blocksToCommit st1 = blocksToCommit st"
      "grows st st1" "txs_published E st1 ts" "dht_values st1 (root_key BLOCK_TREE) = dht_values st (root_key BLOCK_TREE)"
    and cur1: "current E \<Longrightarrow> distinct (map tx_ids ts) \<Longrightarrow> txs_linked E st1 ts"
      "\<And>tree name d. current E \<Longrightarrow> distinct (map tx_ids ts) \<Longrightarrow> linked E st tree name d \<Longrightarrow>
        (\<And>tid. tree = tx_root tid \<Longrightarrow> Some (tid, name) \<notin> tx_ids ` set ts) \<Longrightarrow> linked E st1 tree name d"
    using add_all_transactions [OF ok roots ts] by blast
  let ?d = "json_dump E (JObject m)" and ?k = "tree_key BLOCK_TREE (to_string n)"
  obtain st' where st': "linkToRoot E BLOCK_TREE (to_string n) (addObject E ?d) [] (put ?k (addObject E ?d) st1) = (Inr (), st', [])"
      "adds_link E BLOCK_TREE (to_string n) ?d st1 st'" "grows st1 st'" "blocksToCommit st' = blocksToCommit st1"
      "dht_values st' ?k = dht_values st1 ?k @ [addObject E ?d]"
    using link_block [OF ok st1(2)] by blast
  have "addTransactions E text st = (Inr (), st', [commit_notice E n w])"
    unfolding addTransactions_def Let_def
    by (simp add: action_simps parse field_ref_def m elements_def st1(1) st'(1) first_verifier_def set_field_def commit_notice_def)
  moreover have "recorded E st' n m ts"
    unfolding recorded_def using st'(5) put_object(3) [OF ok] adds_link_published [OF st'(2)] published_grows [OF st'(3)] st1(5)
    by (simp add: txs_published_def)
  moreover have "adds_version E BLOCK_TREE (to_string n) ?d st st'"
    using st'(2) adds_version_cong [OF st1(6) refl] by (simp add: adds_link_def)
  moreover have "committed E st' n m ts \<and> keeps_links E n ts st st'" if c: "current E" "distinct (map tx_ids ts)"
  proof
    note new = adds_link_linked [OF c(1) st'(2)]
    have "txs_linked E st' ts" using cur1(1) [OF c] new(2) unfolding txs_linked_def by simp
    then show "committed E st' n m ts" using new(1) stored_newest [OF c(1) st'(5)] put_object(3) [OF ok] by (simp add: committed_def)
    show "keeps_links E n ts st st'" unfolding keeps_links_def using cur1(2) [OF c] new(2) by blast
  qed
  ultimately show ?thesis
    using st1(3) st'(4) adds_link_roots_ok [OF st1(2) st'(2)] grows_trans [OF st1(4) st'(3)] by (intro exI [of _ st']) simp
qed

lemma block_stored:
  assumes "surroundings_ok E" and "roots_ok E st"
    and "map_of theFields ''b'' = Some b" and "map_of theFields ''key'' = Some k" and "map_of theFields ''si'' = Some si"
    and "json_parse E (b64 E b) = Inr (JObject m)" and "map_of m ''data'' = Some (JArray ts)"
    and "map_of m ''n'' = Some (JInt n)" and "0 \<le> n" and "n < 2 ^ 31"
    and "list_all (\<lambda>t. tx_ids t \<noteq> None) ts"
  shows "let verifier = [(''k'', JString k), (''si'', JString si)]; m' = omap_set ''v'' (JArray [JObject verifier]) m;
      st1 = st\<lparr>blocksToCommit := blocksToCommit st @ [(n, json_dump E (JObject m'))]\<rparr>
    in storage_handler E closeBlock theFields st = (Inr (), st1, []) \<and>
      (\<exists>st'. process_block E (n, json_dump E (JObject m')) st1 = (Inr (), st', [commit_notice E n verifier]) \<and>
        mset (blocksToCommit st') = mset (blocksToCommit st) \<and> roots_ok E st' \<and> grows st st' \<and> recorded E st' n m' ts \<and>
        adds_version E BLOCK_TREE (to_string n) (json_dump E (JObject m')) st st' \<and>
        (current E \<longrightarrow> distinct (map tx_ids ts) \<longrightarrow> committed E st' n m' ts \<and> keeps_links E n ts st st'))"
proof -
  define m' where "m' = omap_set ''v'' (JArray [JObject [(''k'', JString k), (''si'', JString si)]]) m"
  define st1 where "st1 = st\<lparr>blocksToCommit := blocksToCommit st @ [(n, json_dump E (JObject m'))]\<rparr>"
  have dht: "dht_values st1 = dht_values st" by (simp add: st1_def)
  have fields: "map_of m' ''data'' = Some (JArray ts)" "map_of m' ''n'' = Some (JInt n)"
      "map_of m' ''v'' = Some (JArray [JObject [(''k'', JString k), (''si'', JString si)]])"
    using assms(7,8) by (simp_all add: m'_def map_of_omap_set_other map_of_omap_set_new)
  have parse: "json_parse E (json_dump E (JObject m')) = Inr (JObject m')"
    using surroundings_okD(2) [OF assms(1)] by (simp add: json_text_ok_def)
  have roots: "roots_ok E st1" using assms(2) block_views_cong(3) [OF dht] by simp
  obtain st' where st': "addTransactions E (json_dump E (JObject m')) st1 = (Inr (), st', [commit_notice E n [(''k'', JString k), (''si'', JString si)]])"
      "roots_ok E st'" "blocksToCommit st' = blocksToCommit st1" "grows st1 st'" "recorded E st' n m' ts"
      "adds_version E BLOCK_TREE (to_string n) (json_dump E (JObject m')) st1 st'"
      "current E \<longrightarrow> distinct (map tx_ids ts) \<longrightarrow> committed E st' n m' ts \<and> keeps_links E n ts st1 st'"
    using commit_block [OF assms(1) roots parse fields assms(11)] by blast
  let ?st = "st'\<lparr>blocksToCommit := remove1 (n, json_dump E (JObject m')) (blocksToCommit st')\<rparr>"
  have same: "dht_values ?st = dht_values st'" by simp
  have "storage_handler E closeBlock theFields st = (Inr (), st1, [])"
    using assms(3-10) by (simp add: storage_handler_def handle_closeBlock_def action_simps std_at_def field_ref_def get_int32_def set_field_def st1_def m'_def)
  moreover have "process_block E (n, json_dump E (JObject m')) st1 = (Inr (), ?st, [commit_notice E n [(''k'', JString k), (''si'', JString si)]])"
    by (simp add: process_block_def action_simps st'(1))
  moreover have "mset (blocksToCommit ?st) = mset (blocksToCommit st)" by (simp add: st'(3) st1_def)
  moreover have "grows st ?st" using st'(4) grows_cong(1) [OF dht] grows_cong(2) [OF same] by simp
  ultimately show ?thesis
    using st'(2,5,6,7) unfolding Let_def m'_def [symmetric] st1_def [symmetric] block_views_cong [OF dht]
    by (intro conjI exI [of _ ?st]) (simp_all only: block_views_cong [OF same] simp_thms)
qed

text \<open>The handler of a verification reads the block back, so it depends on what a get delivers.\<close>

lemma verifier_recorded:
  assumes ok: "surroundings_ok E" "current E" and roots: "roots_ok E st" and c: "committed E st n m ts" and v: "map_of m ''v'' = Some (JArray vs)"
    and f: "map_of theFields ''d'' = Some d" "map_of theFields ''b'' = Some (to_string n)" and w: "json_parse E (b64 E d) = Inr w"
  shows "\<exists>st'. store_verifier E theFields st = (Inr (), st', []) \<and> roots_ok E st' \<and>
    committed E st' n (omap_set ''v'' (JArray (vs @ [w])) m) ts \<and> keeps_links E n [] st st'"
proof -
  let ?m = "omap_set ''v'' (JArray (vs @ [w])) m" and ?k = "tree_key BLOCK_TREE (to_string n)"
  let ?d = "json_dump E (JObject ?m)"
  have parse: "json_parse E (json_dump E (JObject m)) = Inr (JObject m)"
    using surroundings_okD(2) [OF ok(1)] by (simp add: json_text_ok_def)
  obtain st' where st': "linkToRoot E BLOCK_TREE (to_string n) (addObject E ?d) [] (put ?k (addObject E ?d) st) = (Inr (), st', [])"
      "adds_link E BLOCK_TREE (to_string n) ?d st st'" "dht_values st' ?k = dht_values st ?k @ [addObject E ?d]"
    using link_block [OF ok(1) roots] by blast
  note new = adds_link_linked [OF ok(2) st'(2)]
  have old: "fetchObject (client E) (stored E st ?k) = json_dump E (JObject m)" using c by (simp add: committed_def)
  have "store_verifier E theFields st = (Inr (), st', [])"
    by (simp add: store_verifier_def action_simps std_at_def f w old parse field_ref_def v set_field_def Let_def st'(1))
  moreover have "txs_linked E st' ts" using c new(2) by (simp add: committed_def txs_linked_def)
  then have "committed E st' n ?m ts" using new(1) stored_newest [OF ok(2) st'(3)] put_object(3) [OF ok(1)] by (simp add: committed_def)
  moreover have "keeps_links E n [] st st'" using new(2) by (simp add: keeps_links_def)
  ultimately show ?thesis using adds_link_roots_ok [OF roots st'(2)] by blast
qed

section \<open>The order of blocks\<close>

text \<open>A block as the handler queues it.\<close>

definition block_ok :: "storage_env \<Rightarrow> int \<times> string \<Rightarrow> bool" where
  "block_ok E b \<longleftrightarrow> (\<exists>m ts w vs. snd b = json_dump E (JObject m) \<and> map_of m ''data'' = Some (JArray ts) \<and>
     map_of m ''n'' = Some (JInt (fst b)) \<and> map_of m ''v'' = Some (JArray (JObject w # vs)) \<and>
     list_all (\<lambda>t. tx_ids t \<noteq> None) ts)"

text \<open>No id occurs twice in a block.\<close>

definition distinct_ids :: "storage_env \<Rightarrow> int \<times> string \<Rightarrow> bool" where
  "distinct_ids E b \<longleftrightarrow> (\<forall>m ts. json_parse E (snd b) = Inr (JObject m) \<longrightarrow> map_of m ''data'' = Some (JArray ts) \<longrightarrow> distinct (map tx_ids ts))"

definition commits :: "storage_env \<Rightarrow> int \<times> string \<Rightarrow> storage \<Rightarrow> storage \<Rightarrow> bool" where
  "commits E b st st' \<longleftrightarrow> (\<exists>outs. process_block E b st = (Inr (), st', outs))"

definition can_commit :: "storage_env \<Rightarrow> storage \<Rightarrow> bool" where
  "can_commit E st \<longleftrightarrow> surroundings_ok E \<and> roots_ok E st \<and> list_all (block_ok E) (blocksToCommit st)"

lemma process_block_ok:
  assumes "can_commit E st" and "b \<in> set (blocksToCommit st)"
  shows "\<exists>st' outs. process_block E b st = (Inr (), st', outs) \<and> can_commit E st' \<and> blocksToCommit st' = remove1 b (blocksToCommit st) \<and>
    grows st st' \<and> published E st' BLOCK_TREE (to_string (fst b)) (snd b) \<and>
    (current E \<longrightarrow> distinct_ids E b \<longrightarrow> linked E st' BLOCK_TREE (to_string (fst b)) (snd b) \<and>
      (\<forall>name d. linked E st BLOCK_TREE name d \<longrightarrow> name \<noteq> to_string (fst b) \<longrightarrow> linked E st' BLOCK_TREE name d))"
proof -
  have ok: "surroundings_ok E" "roots_ok E st" "list_all (block_ok E) (blocksToCommit st)" using assms(1) by (simp_all add: can_commit_def)
  then obtain m ts w vs where b: "snd b = json_dump E (JObject m)" "map_of m ''data'' = Some (JArray ts)" "map_of m ''n'' = Some (JInt (fst b))"
      "map_of m ''v'' = Some (JArray (JObject w # vs))" "list_all (\<lambda>t. tx_ids t \<noteq> None) ts"
    using assms(2) unfolding block_ok_def list_all_iff by blast
  have parse: "json_parse E (snd b) = Inr (JObject m)" using surroundings_okD(2) [OF ok(1)] by (simp add: json_text_ok_def b(1))
  obtain st1 where st1: "addTransactions E (snd b) st = (Inr (), st1, [commit_notice E (fst b) w])" "roots_ok E st1" "blocksToCommit st1 = blocksToCommit st"
      "grows st st1" "recorded E st1 (fst b) m ts"
      "current E \<longrightarrow> distinct (map tx_ids ts) \<longrightarrow> committed E st1 (fst b) m ts \<and> keeps_links E (fst b) ts st st1"
    using commit_block [OF ok(1,2) parse b(2-5)] by blast
  let ?st = "st1\<lparr>blocksToCommit := remove1 b (blocksToCommit st)\<rparr>"
  have same: "dht_values ?st = dht_values st1" by simp
  have "process_block E b st = (Inr (), ?st, [commit_notice E (fst b) w])"
    by (simp add: process_block_def action_simps st1(1,3))
  moreover have "can_commit E ?st"
    using ok(1,3) st1(2) set_remove1_subset [of b "blocksToCommit st"] by (auto simp: can_commit_def block_views_cong(3) [OF same] list_all_iff)
  moreover have "grows st ?st" using st1(4) grows_cong(2) [OF same] by simp
  moreover have "published E ?st BLOCK_TREE (to_string (fst b)) (snd b)" using st1(5) published_same [OF same] by (simp add: recorded_def b(1))
  moreover have "linked E ?st BLOCK_TREE (to_string (fst b)) (snd b) \<and>
      (\<forall>name d. linked E st BLOCK_TREE name d \<longrightarrow> name \<noteq> to_string (fst b) \<longrightarrow> linked E ?st BLOCK_TREE name d)" if "current E" "distinct_ids E b"
  proof -
    have "distinct (map tx_ids ts)" using that(2) parse b(2) by (simp add: distinct_ids_def)
    then show ?thesis using st1(6) that(1) block_views_cong(8) [OF same] by (simp add: committed_def keeps_links_def b(1))
  qed
  ultimately show ?thesis by (intro exI [of _ ?st] exI) auto
qed

lemma commits_removes:
  assumes "can_commit E st" and "b \<in> set (blocksToCommit st)" and "commits E b st st'"
  shows "can_commit E st'" "blocksToCommit st' = remove1 b (blocksToCommit st)" "grows st st'"
    "published E st' BLOCK_TREE (to_string (fst b)) (snd b)"
    "current E \<Longrightarrow> distinct_ids E b \<Longrightarrow> linked E st' BLOCK_TREE (to_string (fst b)) (snd b)"
    "current E \<Longrightarrow> distinct_ids E b \<Longrightarrow> linked E st BLOCK_TREE name d \<Longrightarrow> name \<noteq> to_string (fst b) \<Longrightarrow> linked E st' BLOCK_TREE name d"
  using process_block_ok [OF assms(1,2)] assms(3) unfolding commits_def by auto

interpretation block_worker: priority_worker blocksToCommit fst "commits E" "can_commit E" for E
  by unfold_locales (use commits_removes in blast)+

lemma to_string_inj: "inj to_string"
  by (rule inj_on_inverseI [of _ atoi]) (rule atoi_to_string)

lemma drained_blocks_published:
  "drains blocksToCommit fst (commits E) st bs st' \<Longrightarrow> can_commit E st \<Longrightarrow>
   grows st st' \<and> (\<forall>b \<in> set bs. published E st' BLOCK_TREE (to_string (fst b)) (snd b))"
proof (induction rule: drains.induct)
  case (drains_step st b st1 bs st2)
  have bq: "b \<in> set (blocksToCommit st)" using drains_step.hyps(1) by (simp add: comes_first_def)
  note c = commits_removes [OF drains_step.prems bq drains_step.hyps(2)]
  have ih: "grows st1 st2" "\<forall>b \<in> set bs. published E st2 BLOCK_TREE (to_string (fst b)) (snd b)" using drains_step.IH [OF c(1)] by simp_all
  show ?case using grows_trans [OF c(3) ih(1)] published_grows [OF ih(1) c(4)] ih(2) by simp
qed simp

lemma drained_blocks_linked:
  assumes "current E"
  shows "drains blocksToCommit fst (commits E) st bs st' \<Longrightarrow> can_commit E st \<Longrightarrow> distinct (map fst bs) \<Longrightarrow> list_all (distinct_ids E) bs \<Longrightarrow>
   (\<forall>b \<in> set bs. linked E st' BLOCK_TREE (to_string (fst b)) (snd b)) \<and>
   (\<forall>name d. linked E st BLOCK_TREE name d \<longrightarrow> name \<notin> to_string ` fst ` set bs \<longrightarrow> linked E st' BLOCK_TREE name d)"
proof (induction rule: drains.induct)
  case (drains_step st b st1 bs st2)
  have bq: "b \<in> set (blocksToCommit st)" using drains_step.hyps(1) by (simp add: comes_first_def)
  have ids: "distinct_ids E b" "list_all (distinct_ids E) bs" using drains_step.prems(3) by simp_all
  note c = commits_removes [OF drains_step.prems(1) bq drains_step.hyps(2)]
  have ih: "\<forall>b \<in> set bs. linked E st2 BLOCK_TREE (to_string (fst b)) (snd b)"
      "linked E st1 BLOCK_TREE name d \<Longrightarrow> name \<notin> to_string ` fst ` set bs \<Longrightarrow> linked E st2 BLOCK_TREE name d" for name d
    using drains_step.IH [OF c(1) _ ids(2)] drains_step.prems(2) by auto
  have "to_string (fst b) \<notin> to_string ` fst ` set bs" using drains_step.prems(2) by (auto simp: inj_eq [OF to_string_inj] image_iff)
  with ih(2) [OF c(5) [OF assms ids(1)]] ih(1) show ?case using ih(2) [OF c(6) [OF assms ids(1)]] by auto
qed simp

section \<open>Properties\<close>

text \<open>Claim (C23): a block that a master node closes reaches the storage.  The handler queues the block with the signature of its
  producer as its first verifier; when its turn comes, the block is stored under its number, the root of all blocks gets a new
  version, which is the version the DHT delivered with the link to the block added, every transaction of the block is published under its
  id in a version of the root of its tenant, nothing that was put before is lost, the block leaves the queue and the
  verifier is told.  This holds in whatever order the DHT delivers values.  If it delivers the newest one and no id occurs twice,
  then the block and its transactions are also linked in the versions that gets now deliver, and so is all that was before.\<close>

theorem block_committed:
  assumes "surroundings_ok E" and "roots_ok E st"
    and "map_of theFields ''b'' = Some b" and "map_of theFields ''key'' = Some k" and "map_of theFields ''si'' = Some si"
    and "json_parse E (b64 E b) = Inr (JObject m)" and "map_of m ''data'' = Some (JArray ts)"
    and "map_of m ''n'' = Some (JInt n)" and "0 \<le> n" and "n < 2 ^ 31"
    and "list_all (\<lambda>t. tx_ids t \<noteq> None) ts"
  shows "let verifier = [(''k'', JString k), (''si'', JString si)]; m' = omap_set ''v'' (JArray [JObject verifier]) m;
      st1 = st\<lparr>blocksToCommit := blocksToCommit st @ [(n, json_dump E (JObject m'))]\<rparr>
    in storage_handler E closeBlock theFields st = (Inr (), st1, []) \<and>
      (\<exists>st'. process_block E (n, json_dump E (JObject m')) st1 = (Inr (), st', [commit_notice E n verifier]) \<and>
        mset (blocksToCommit st') = mset (blocksToCommit st) \<and> roots_ok E st' \<and> grows st st' \<and> recorded E st' n m' ts \<and>
        adds_version E BLOCK_TREE (to_string n) (json_dump E (JObject m')) st st' \<and>
        (current E \<longrightarrow> distinct (map tx_ids ts) \<longrightarrow> committed E st' n m' ts \<and> keeps_links E n ts st st'))"
  by (rule block_stored [OF assms])

theorem block_committed_witness:
  "\<exists>st1 st'. let t = JObject [(''tid'', JString ''t''), (''txid'', JString ''x'')]; m = [(''data'', JArray [t]), (''n'', JInt 5)];
       E = graph_env ''g''; m' = omap_set ''v'' (JArray [JObject [(''k'', JString ''K''), (''si'', JString ''S'')]]) m
     in storage_handler E closeBlock [(''b'', number_text (JObject m)), (''key'', ''K''), (''si'', ''S'')] empty_storage = (Inr (), st1, []) \<and>
       process_block E (5, number_text (JObject m')) st1 = (Inr (), st', [commit_notice E 5 [(''k'', JString ''K''), (''si'', JString ''S'')]]) \<and>
       blocksToCommit st' = [] \<and> recorded E st' 5 m' [t] \<and> committed E st' 5 m' [t] \<and> linked E st' (tx_root ''t'') ''x'' (number_text t)"
proof -
  let ?t = "JObject [(''tid'', JString ''t''), (''txid'', JString ''x'')]"
  let ?m = "[(''data'', JArray [?t]), (''n'', JInt 5)]"
  have r: "roots_ok (graph_env ''g'') empty_storage" by (simp add: roots_ok_def empty_storage_def)
  have ids: "tx_ids ?t = Some (''t'', ''x'')" by (simp add: tx_ids_def key_def)
  note c = block_committed [OF graph_env_ok r, of "[(''b'', number_text (JObject ?m)), (''key'', ''K''), (''si'', ''S'')]" "number_text (JObject ?m)" "''K''" "''S''" ?m "[?t]" 5]
  show ?thesis
    using c ids graph_env_current [of "''g''"] by (force simp: Let_def number_roundtrip graph_env_def empty_storage_def committed_def txs_linked_def)
qed

text \<open>The verifiers of a committed block accumulate, where gets deliver the newest value.  A verification that arrives for a committed block is
  appended to its list of verifiers; the block stays committed with the same transactions, and nothing else that is linked
  changes.\<close>

theorem verifiers_accumulate:
  assumes "surroundings_ok E" and "current E" and "roots_ok E st" and "committed E st n m ts" and "map_of m ''v'' = Some (JArray vs)"
    and "map_of theFields ''d'' = Some d" and "map_of theFields ''b'' = Some (to_string n)" and "json_parse E (b64 E d) = Inr w"
  shows "\<exists>st'. storage_handler E verifyBlock theFields st = (Inr (), st', []) \<and> roots_ok E st' \<and>
    committed E st' n (omap_set ''v'' (JArray (vs @ [w])) m) ts \<and> keeps_links E n [] st st'"
  using verifier_recorded [OF assms] by (simp add: storage_handler_def)

theorem verifiers_accumulate_witness:
  "\<exists>st st'. let m = [(''data'', JArray []), (''n'', JInt 5), (''v'', JArray [JObject []])]; E = graph_env ''g''; w = JObject [(''k'', JString ''K'')]
     in addTransactions E (number_text (JObject m)) empty_storage = (Inr (), st, [commit_notice E 5 []]) \<and>
       storage_handler E verifyBlock [(''d'', number_text w), (''b'', to_string 5)] st = (Inr (), st', []) \<and>
       committed E st' 5 (omap_set ''v'' (JArray [JObject [], w]) m) []"
proof -
  let ?m = "[(''data'', JArray []), (''n'', JInt 5), (''v'', JArray [JObject []])]" and ?E = "graph_env ''g''"
  let ?w = "JObject [(''k'', JString ''K'')]"
  have r: "roots_ok ?E empty_storage" by (simp add: roots_ok_def empty_storage_def)
  obtain st where st: "addTransactions ?E (number_text (JObject ?m)) empty_storage = (Inr (), st, [commit_notice ?E 5 []])"
      "roots_ok ?E st" "committed ?E st 5 ?m []"
    using commit_block [OF graph_env_ok r, of "number_text (JObject ?m)" ?m "[]" 5 "[]" "[]"] graph_env_current [of "''g''"] by (auto simp: number_roundtrip)
  have f: "map_of [(''d'', number_text ?w), (''b'', to_string 5)] ''d'' = Some (number_text ?w)"
    "map_of [(''d'', number_text ?w), (''b'', to_string 5)] ''b'' = Some (to_string 5)"
    "json_parse ?E (b64 ?E (number_text ?w)) = Inr ?w" "map_of ?m ''v'' = Some (JArray [JObject []])"
    by (simp_all add: number_roundtrip graph_env_def)
  from verifiers_accumulate [OF graph_env_ok graph_env_current st(2,3) f(4,1,2,3)] show ?thesis using st(1) by (auto simp: Let_def)
qed

text \<open>Claim (C15): blocks are committed in the order of their numbers.  From a queue of blocks as the handler leaves
  them, the thread empties the queue when no block arrives meanwhile; however it runs, and in whatever order the DHT delivers values, it
  commits every block exactly once, lower numbers first, every block is published under its number in a version of the root of
  all blocks, and nothing that was put before is lost.  If the DHT delivers the newest value, the numbers differ and no block has
  an id twice, then in the end every block is linked in the version that a get delivers.\<close>

theorem blocks_in_order:
  assumes "surroundings_ok E" and "roots_ok E st" and "list_all (block_ok E) (blocksToCommit st)"
  shows "(\<exists>bs st'. drains blocksToCommit fst (commits E) st bs st') \<and>
    (\<forall>bs st'. drains blocksToCommit fst (commits E) st bs st' \<longrightarrow>
      mset bs = mset (blocksToCommit st) \<and> sorted (map fst bs) \<and> blocksToCommit st' = [] \<and> grows st st' \<and>
      list_all (\<lambda>b. published E st' BLOCK_TREE (to_string (fst b)) (snd b)) bs \<and>
      (current E \<longrightarrow> distinct (map fst bs) \<longrightarrow> list_all (distinct_ids E) bs \<longrightarrow>
        list_all (\<lambda>b. linked E st' BLOCK_TREE (to_string (fst b)) (snd b)) bs))"
proof -
  have can: "can_commit E st" using assms by (simp add: can_commit_def)
  have "\<exists>st'. commits E b st st'" if "can_commit E st" "b \<in> set (blocksToCommit st)" for b st
    using process_block_ok [OF that] unfolding commits_def by blast
  then have all: "(\<exists>bs st'. drains blocksToCommit fst (commits E) st bs st') \<and>
      (\<forall>bs st'. drains blocksToCommit fst (commits E) st bs st' \<longrightarrow> mset bs = mset (blocksToCommit st) \<and> sorted (map fst bs) \<and> blocksToCommit st' = [])"
    by (intro block_worker.drains_all can refl) blast
  have "grows st st' \<and> list_all (\<lambda>b. published E st' BLOCK_TREE (to_string (fst b)) (snd b)) bs"
    if "drains blocksToCommit fst (commits E) st bs st'" for bs st'
    using drained_blocks_published [OF that can] by (simp add: list_all_iff)
  moreover have "list_all (\<lambda>b. linked E st' BLOCK_TREE (to_string (fst b)) (snd b)) bs"
    if "drains blocksToCommit fst (commits E) st bs st'" "current E" "distinct (map fst bs)" "list_all (distinct_ids E) bs" for bs st'
    using drained_blocks_linked [OF that(2,1) can that(3,4)] by (simp add: list_all_iff)
  ultimately show ?thesis using all by blast
qed

theorem blocks_in_order_witness:
  "let E = graph_env ''g''; t = (\<lambda>n. number_text (JObject [(''data'', JArray []), (''n'', JInt n), (''v'', JArray [JObject []])]));
       st = empty_storage\<lparr>blocksToCommit := [(7, t 7), (5, t 5)]\<rparr>
   in \<exists>bs st'. drains blocksToCommit fst (commits E) st bs st' \<and> map fst bs = [5, 7] \<and> published E st' BLOCK_TREE (to_string 7) (t 7) \<and>
     linked E st' BLOCK_TREE (to_string 7) (t 7)"
proof -
  let ?E = "graph_env ''g''" and ?t = "\<lambda>n. number_text (JObject [(''data'', JArray []), (''n'', JInt n), (''v'', JArray [JObject []])])"
  let ?st = "empty_storage\<lparr>blocksToCommit := [(7, ?t 7), (5, ?t 5)]\<rparr>"
  have r: "roots_ok ?E ?st" by (simp add: roots_ok_def empty_storage_def)
  have b: "block_ok ?E (n, ?t n)" for n
    unfolding block_ok_def by (rule exI [of _ "[(''data'', JArray []), (''n'', JInt n), (''v'', JArray [JObject []])]"]) simp
  have i: "distinct_ids ?E (n, ?t n)" for n by (simp add: distinct_ids_def number_roundtrip)
  have "list_all (block_ok ?E) (blocksToCommit ?st)" using b by simp
  from blocks_in_order [OF graph_env_ok r this] obtain bs st' where d: "drains blocksToCommit fst (commits ?E) ?st bs st'"
      "mset bs = mset (blocksToCommit ?st)" "sorted (map fst bs)" "list_all (\<lambda>b. published ?E st' BLOCK_TREE (to_string (fst b)) (snd b)) bs"
      "current ?E \<longrightarrow> distinct (map fst bs) \<longrightarrow> list_all (distinct_ids ?E) bs \<longrightarrow>
        list_all (\<lambda>b. linked ?E st' BLOCK_TREE (to_string (fst b)) (snd b)) bs"
    by blast
  have "mset (map fst bs) = {#7, 5#}" using d(2) by simp
  then have fsts: "map fst bs = sort [7, 5]" using d(3) by (intro properties_for_sort [symmetric]) simp_all
  moreover have s: "set bs = {(7, ?t 7), (5, ?t 5)}" using mset_eq_setD [OF d(2)] by simp
  moreover have "list_all (distinct_ids ?E) bs" using i s by (auto simp: list_all_iff)
  moreover have "distinct (map fst bs)" unfolding fsts by simp
  ultimately show ?thesis using d(1,4,5) graph_env_current unfolding Let_def list_all_iff by (intro exI [of _ bs] exI [of _ st']) auto
qed

end
