(* ===== verification/Js_Processor.thy ===== *)
theory Js_Processor
  imports Doc_Search
begin

text \<open>
  Execution of a function on a compute node (\<^verbatim>\<open>ComputeNodeLib/JsProcessor.cpp\<close>): the inputs of a request are written into
  the text of the function as variable declarations, the library of commands is appended, and the function is called by the
  name its text starts with.  The JavaScript engine is a parameter: loading a script may fail with a text, and calling a
  function of a loaded script fails, yields no result because there is no such function, or returns the text of the result and
  of the state change commands the script has collected.
\<close>

section \<open>Surroundings\<close>

datatype js_result = NotFunction | Threw string | Returned string string

record js_env =
  js_decode :: "string \<Rightarrow> string"                              \<comment> \<open>base 64\<close>
  js_parse :: "string \<Rightarrow> cpp_error + json"
  js_dump :: "json \<Rightarrow> string"
  js_load :: "string \<Rightarrow> string \<Rightarrow> string option"               \<comment> \<open>script and tenant; the error, if there is one\<close>
  js_call :: "string \<Rightarrow> string \<Rightarrow> string \<Rightarrow> js_result"         \<comment> \<open>script, tenant and name of the function\<close>
  cmdBuilderScript :: string

section \<open>Operations\<close>

definition trim_right :: "string \<Rightarrow> string" where
  "trim_right s = rev (dropWhile is_space (rev s))"

text \<open>The nine characters of \<^verbatim>\<open>"function "\<close> are skipped, whatever they are.\<close>

definition getProcessFunName :: "string \<Rightarrow> cpp_error + string" where
  "getProcessFunName script =
    (if length script < length ''function '' then Inl OutOfRange
     else Inr (trim_right (takeWhile (\<lambda>c. c \<noteq> CHR ''('') (drop (length ''function '') script))))"

text \<open>The first opening brace after a closing parenthesis; a text without one reaches the end of a function that has to
  return a value.\<close>

fun logic_start :: "bool \<Rightarrow> nat \<Rightarrow> string \<Rightarrow> cpp_error + nat" where
  "logic_start closeParanSymFound i [] = Inl Undefined"
| "logic_start closeParanSymFound i (c # cs) =
    (if c = CHR '')'' then logic_start True (i + 1) cs
     else if c = CHR ''{'' \<and> closeParanSymFound then Inr i
     else logic_start closeParanSymFound (i + 1) cs)"

definition functionLogicStartIndex :: "string \<Rightarrow> cpp_error + nat" where
  "functionLogicStartIndex script = logic_start False 0 script"

definition declarations :: "js_env \<Rightarrow> (string \<times> json) list \<Rightarrow> string" where
  "declarations E m = concat (map (\<lambda>(k, v). '' var '' @ k @ '' = '' @ js_dump E v @ '';'') m)"

text \<open>The iterator of a value that is not an object has no key.\<close>

definition parseScript :: "js_env \<Rightarrow> string \<Rightarrow> string \<Rightarrow> cpp_error + string" where
  "parseScript E script input =
    (case js_parse E input of
       Inl e \<Rightarrow> Inl (Thrown ''Invalid input'')
     | Inr js \<Rightarrow>
         (case (case js of JObject m \<Rightarrow> Inr (declarations E m) | _ \<Rightarrow> if json_size js = 0 then Inr [] else Inl JsonError) of
            Inl e \<Rightarrow> Inl e
          | Inr statement \<Rightarrow>
              (case functionLogicStartIndex script of
                 Inl e \<Rightarrow> Inl e
               | Inr i \<Rightarrow> Inr (take (i + 1) script @ statement @ drop (i + 1) script))))"

definition executeScript :: "js_env \<Rightarrow> string \<Rightarrow> string \<Rightarrow> string \<Rightarrow> cpp_error + json" where
  "executeScript E fundef input tenantid =
    (case (if input = [] then Inr fundef else parseScript E fundef (js_decode E input)) of
       Inl e \<Rightarrow> Inl e
     | Inr src \<Rightarrow>
         (let src = src @ cmdBuilderScript E
          in case js_load E src tenantid of
               Some err \<Rightarrow> Inl (Thrown err)
             | None \<Rightarrow>
                 (case getProcessFunName src of
                    Inl e \<Rightarrow> Inl e
                  | Inr function_name \<Rightarrow>
                      (case js_call E src tenantid function_name of
                         NotFunction \<Rightarrow> Inr (JBool False)
                       | Threw err \<Rightarrow> Inl (Thrown err)
                       | Returned finalresult stateChangeCmd \<Rightarrow>
                           Inr (JObject [(''result'', JString (if finalresult = [] \<or> finalresult = ''undefined'' then ''N/A'' else finalresult)),
                                         (''statechangecmds'', JString stateChangeCmd)])))))"

section \<open>Texts of functions\<close>

lemma logic_start_found:
  assumes "CHR '')'' \<notin> set a" and "CHR ''{'' \<notin> set b"
  shows "logic_start False n (a @ '')'' @ b @ ''{'' @ c) = Inr (n + length a + 1 + length b)"
proof -
  have inside: "logic_start True n (b @ ''{'' @ c) = Inr (n + length b)" for n
    using assms(2) by (induction b arbitrary: n) auto
  show ?thesis using assms(1) by (induction a arbitrary: n) (auto simp: inside [simplified])
qed

lemma logic_start_none:
  assumes "\<And>a b c. s \<noteq> a @ '')'' @ b @ ''{'' @ c"
  shows "logic_start False n s = Inl Undefined"
proof (cases "CHR '')'' \<in> set s")
  case False
  then show ?thesis by (induction s arbitrary: n) auto
next
  case True
  then obtain a r where s: "s = a @ CHR '')'' # r" "CHR '')'' \<notin> set a" by (meson split_list_first)
  have "CHR ''{'' \<notin> set r" using assms s(1) by (metis append_Cons append_Nil split_list_first)
  then have "logic_start True n r = Inl Undefined" for n by (induction r arbitrary: n) auto
  then show ?thesis unfolding s(1) using s(2) by (induction a arbitrary: n) auto
qed

lemma trim_right_name: "list_all is_space sp \<Longrightarrow> name = [] \<or> \<not> is_space (last name) \<Longrightarrow> trim_right (name @ sp) = name"
proof -
  assume sp: "list_all is_space sp" and name: "name = [] \<or> \<not> is_space (last name)"
  have "dropWhile is_space (rev sp @ rev name) = dropWhile is_space (rev name)"
    using sp by (intro dropWhile_append2) (simp add: list_all_iff)
  also have "\<dots> = rev name" using name by (cases name rule: rev_cases) auto
  finally show ?thesis by (simp add: trim_right_def)
qed

text \<open>A function as its author writes it: name, white space, parameters, what comes before the body, and the rest.\<close>

definition function_text :: "string \<Rightarrow> string \<Rightarrow> string \<Rightarrow> string \<Rightarrow> string \<Rightarrow> string" where
  "function_text name sp params b body = ''function '' @ name @ sp @ ''('' @ params @ '')'' @ b @ ''{'' @ body"

definition function_ok :: "string \<Rightarrow> string \<Rightarrow> string \<Rightarrow> string \<Rightarrow> bool" where
  "function_ok name sp params b \<longleftrightarrow> {CHR ''('', CHR '')''} \<inter> set name = {} \<and> (name = [] \<or> \<not> is_space (last name)) \<and> list_all is_space sp \<and>
     CHR '')'' \<notin> set params \<and> CHR ''{'' \<notin> set b"

lemma paren_no_space: "list_all is_space sp \<Longrightarrow> CHR ''('' \<notin> set sp \<and> CHR '')'' \<notin> set sp"
  by (auto simp: list_all_iff is_space_def)

lemma function_name:
  assumes "function_ok name sp params b"
  shows "getProcessFunName (function_text name sp params b body @ lib) = Inr name"
proof -
  have "takeWhile (\<lambda>c. c \<noteq> CHR ''('') ((name @ sp) @ CHR ''('' # r) = name @ sp" for r
    using assms paren_no_space [of sp] by (subst takeWhile_append2) (auto simp: function_ok_def)
  then show ?thesis
    using assms by (simp add: getProcessFunName_def function_text_def trim_right_name function_ok_def)
qed

lemma function_inputs:
  assumes "function_ok name sp params b" and "js_parse E input = Inr (JObject m)"
  shows "parseScript E (function_text name sp params b body) input = Inr (function_text name sp params b (declarations E m @ body))"
proof -
  define a where "a = ''function '' @ name @ sp @ ''('' @ params"
  have t: "function_text name sp params b x = a @ '')'' @ b @ ''{'' @ x" for x by (simp add: function_text_def a_def)
  have "CHR '')'' \<notin> set a" "CHR ''{'' \<notin> set b" using assms(1) paren_no_space [of sp] by (auto simp: function_ok_def a_def)
  from logic_start_found [OF this, of 0 body] have "functionLogicStartIndex (function_text name sp params b body) = Inr (length a + 1 + length b)"
    unfolding functionLogicStartIndex_def t by simp
  moreover have "take (length a + 1 + length b + 1) (a @ '')'' @ b @ ''{'' @ body) = a @ '')'' @ b @ ''{''"
    "drop (length a + 1 + length b + 1) (a @ '')'' @ b @ ''{'' @ body) = body" by simp_all
  ultimately show ?thesis unfolding parseScript_def t assms(2) sum.case json.case by simp
qed

section \<open>Properties\<close>

text \<open>Claim (C40): functions see the inputs of the request.  For a function whose parameter list has no closing parenthesis and
  inputs that are a JSON object, the engine loads the function with one declaration per input at the start of its body and the
  library behind it, and calls exactly the function that is declared; its result (or \<^verbatim>\<open>N/A\<close>) and its commands are returned, and
  an error of the engine is thrown with its text.  A text without a brace after a parenthesis has undefined behaviour.\<close>

theorem script_prepared:
  assumes "function_ok name sp params b" and "input \<noteq> []" and "js_parse E (js_decode E input) = Inr (JObject m)"
    and "src = function_text name sp params b (declarations E m @ body) @ cmdBuilderScript E"
  shows "executeScript E (function_text name sp params b body) input tenantid =
      (case js_load E src tenantid of
         Some err \<Rightarrow> Inl (Thrown err)
       | None \<Rightarrow> (case js_call E src tenantid name of
            NotFunction \<Rightarrow> Inr (JBool False)
          | Threw err \<Rightarrow> Inl (Thrown err)
          | Returned r cmds \<Rightarrow> Inr (JObject [(''result'', JString (if r \<in> {[], ''undefined''} then ''N/A'' else r)), (''statechangecmds'', JString cmds)]))) \<and>
    ((\<forall>x y z. script \<noteq> x @ '')'' @ y @ ''{'' @ z) \<longrightarrow> executeScript E script input tenantid = Inl Undefined)"
proof
  show "executeScript E (function_text name sp params b body) input tenantid = (case js_load E src tenantid of
         Some err \<Rightarrow> Inl (Thrown err)
       | None \<Rightarrow> (case js_call E src tenantid name of
            NotFunction \<Rightarrow> Inr (JBool False)
          | Threw err \<Rightarrow> Inl (Thrown err)
          | Returned r cmds \<Rightarrow> Inr (JObject [(''result'', JString (if r \<in> {[], ''undefined''} then ''N/A'' else r)), (''statechangecmds'', JString cmds)])))"
    using assms(2) by (simp add: executeScript_def function_inputs [OF assms(1,3)] function_name [OF assms(1)] assms(4) split: option.split js_result.split)
  show "(\<forall>x y z. script \<noteq> x @ '')'' @ y @ ''{'' @ z) \<longrightarrow> executeScript E script input tenantid = Inl Undefined"
    using logic_start_none [of script 0] assms(2,3) by (auto simp: executeScript_def parseScript_def functionLogicStartIndex_def)
qed

theorem script_prepared_witness:
  "let E = \<lparr>js_decode = id, js_parse = (\<lambda>_. Inr (JObject [(''x'', JInt 1)])), js_dump = (\<lambda>_. ''1''), js_load = (\<lambda>_ _. None),
            js_call = (\<lambda>src tid name. Returned name src), cmdBuilderScript = ''//''\<rparr>
   in executeScript E ''function f (a) {return x}'' ''in'' ''t'' =
        Inr (JObject [(''result'', JString ''f''), (''statechangecmds'', JString ''function f (a) { var x = 1;return x}//'')])"
proof -
  let ?E = "\<lparr>js_decode = id, js_parse = (\<lambda>_. Inr (JObject [(''x'', JInt 1)])), js_dump = (\<lambda>_. ''1''), js_load = (\<lambda>_ _. None),
            js_call = (\<lambda>src tid name. Returned name src), cmdBuilderScript = ''//''\<rparr>"
  have "function_ok ''f'' '' '' ''a'' '' ''" by (simp add: function_ok_def is_space_def)
  from script_prepared [OF this, of "''in''" ?E "[(''x'', JInt 1)]" _ "''return x}''" "''t''" "[]"] show ?thesis
    by (simp add: function_text_def declarations_def)
qed

end
