(* ===== verification/Compute_Node.thy ===== *)
theory Compute_Node
  imports Js_Processor Action Message
begin

text \<open>
  A compute node (\<^verbatim>\<open>ComputeNode/main.cpp\<close>, \<^verbatim>\<open>RequestData.h\<close>, \<^verbatim>\<open>TransactionResult.h\<close>): it accepts requests of master nodes, asks a
  storage node for the text of the function, executes it and reports the result; the state change commands of a function wait
  until a master node commits the transaction.  A function that runs may ask for documents: the question and the answer are
  two steps, between which the thread of the function waits.
\<close>

section \<open>State\<close>

record RequestData =
  rq_reqId :: string
  rq_timestamp :: string
  rq_txId :: string
  rq_input :: string
  rq_tenantId :: string
  rq_hash :: string
  rq_channelId :: string
  rq_nodeType :: string
  rq_storageNode :: string

record TransactionResult =
  tr_timestamp :: string
  tr_txId :: string
  tr_result :: string
  tr_deterministicCode :: string
  tr_stateChangeCmds :: string

record compute =
  rds :: "(string \<times> RequestData) list"
  trs :: "(string \<times> TransactionResult) list"
  dds :: "(string \<times> string) list"

datatype compute_out =
    Send string CommandType field_map  \<comment> \<open>gossip: channel, command and fields\<close>
  | SendText string string             \<comment> \<open>gossip of a text that has the form of a message\<close>
  | NotifyOne                          \<comment> \<open>the condition variable of waiting functions\<close>

type_synonym 'a compute_action = "(compute, compute_out, 'a) effect"

text \<open>The JavaScript engine, a new identifier, the hash of a text, the text of an exception, and the iteration of the
  unordered map of requests.\<close>

record compute_env =
  js :: js_env
  uuid :: string
  hashCode :: "string \<Rightarrow> string"
  what :: "cpp_error \<Rightarrow> string"
  rds_order :: "(string \<times> RequestData) list \<Rightarrow> (string \<times> RequestData) list"

datatype ExecType = Compute | Verifier

definition exec_type_of_int :: "int \<Rightarrow> ExecType option" where
  "exec_type_of_int n = (if n = 0 then Some Compute else if n = 1 then Some Verifier else None)"

text \<open>\<^verbatim>\<open>operator[]\<close> of the fields: a missing field is the empty string.\<close>

definition field :: "field_map \<Rightarrow> string \<Rightarrow> string" where
  "field fs k = (case map_of fs k of None \<Rightarrow> [] | Some v \<Rightarrow> v)"

definition exception_text :: "compute_env \<Rightarrow> cpp_error \<Rightarrow> string" where
  "exception_text E e = (case e of Thrown s \<Rightarrow> s | _ \<Rightarrow> what E e)"

section \<open>Operations\<close>

definition new_request :: "string \<Rightarrow> field_map \<Rightarrow> RequestData" where
  "new_request reqId fs =
    \<lparr>rq_reqId = reqId, rq_timestamp = field fs ''tm'', rq_txId = field fs ''txid'', rq_input = field fs ''i'', rq_tenantId = field fs ''tid'',
     rq_hash = field fs ''co'', rq_channelId = field fs ''k'', rq_nodeType = field fs ''com'', rq_storageNode = field fs ''s''\<rparr>"

definition processRequest :: "compute_env \<Rightarrow> field_map \<Rightarrow> unit compute_action" where
  "processRequest E fs =
    perform (modify (\<lambda>st. st\<lparr>rds := std_insert (uuid E) (new_request (uuid E) fs) (rds st)\<rparr>))
    (emit (Send (field fs ''s'') fetchFunction [(''txid'', uuid E), (''h'', field fs ''co''), (''tid'', field fs ''tid'')]))"

definition new_result :: "string \<Rightarrow> string \<Rightarrow> string \<Rightarrow> TransactionResult" where
  "new_result txid timeStamp cmds =
    \<lparr>tr_timestamp = timeStamp, tr_txId = txid, tr_result = [], tr_deterministicCode = [], tr_stateChangeCmds = cmds\<rparr>"

definition report_result :: "compute_env \<Rightarrow> RequestData \<Rightarrow> json \<Rightarrow> unit compute_action" where
  "report_result E rq j =
    andThen (lift (json_string_at j ''result'')) (\<lambda>(result, j).
    andThen (lift (stoi (rq_nodeType rq))) (\<lambda>n.
    case exec_type_of_int n of
      Some Compute \<Rightarrow>
        andThen (lift (json_string_at j ''statechangecmds'')) (\<lambda>(cmds, j).
        perform (modify (\<lambda>st. st\<lparr>trs := std_insert (rq_txId rq) (new_result (rq_txId rq) (rq_timestamp rq) cmds) (trs st)\<rparr>))
        (emit (Send ''master21'' verificationResult [(''txid'', rq_txId rq), (''o'', result), (''h'', hashCode E result)])))
    | Some Verifier \<Rightarrow> emit (Send ''master21'' verificationResult [(''txid'', rq_txId rq), (''h'', hashCode E result)])
    | None \<Rightarrow> ok ()))"

definition executeJsCode :: "compute_env \<Rightarrow> field_map \<Rightarrow> unit compute_action" where
  "executeJsCode E fs =
    (let reqId = field fs ''txid''
     in andThen (lift (js_parse (js E) (field fs ''data''))) (\<lambda>d.
        andThen (lift (json_string_at d ''code'')) (\<lambda>(src, _).
        andThen (gets (\<lambda>st. map_of (rds st) reqId)) (\<lambda>it.
        case it of
          None \<Rightarrow> ok ()
        | Some rq \<Rightarrow>
            catching
              (andThen (lift (executeScript (js E) src (rq_input rq) (rq_tenantId rq))) (\<lambda>j.
               perform (report_result E rq j) (modify (\<lambda>st. st\<lparr>rds := std_erase reqId (rds st)\<rparr>))))
              (\<lambda>e. emit (Send (rq_channelId rq) exception [(''txid'', rq_txId rq), (''e'', exception_text E e)]))))))"

definition processStateChangeCmds :: "field_map \<Rightarrow> unit compute_action" where
  "processStateChangeCmds fs =
    andThen (gets (\<lambda>st. map_of (trs st) (field fs ''txid''))) (\<lambda>itr.
    case itr of
      None \<Rightarrow> ok ()
    | Some r \<Rightarrow>
        if tr_stateChangeCmds r \<noteq> [] then
          emit (SendText (field fs ''sid'') (''txid:'' @ field fs ''txid'' @ ''|'' @ tr_stateChangeCmds r))
        else ok ())"

definition updateDocumentMap :: "field_map \<Rightarrow> unit compute_action" where
  "updateDocumentMap fs =
    perform (modify (\<lambda>st. st\<lparr>dds := std_set (field fs ''txid'') (field fs ''data'') (dds st)\<rparr>)) (emit NotifyOne)"

text \<open>The function \<^verbatim>\<open>fetchDocument\<close> of a script.  The storage node is that of the first request in the map, whichever request the
  script belongs to; a map without requests has no first one.\<close>

definition fetchDocument_send :: "compute_env \<Rightarrow> string \<Rightarrow> unit compute_action" where
  "fetchDocument_send E input =
    andThen (gets (\<lambda>st. rds_order E (rds st))) (\<lambda>rqs.
    case rqs of
      [] \<Rightarrow> lift (Inl Undefined)
    | (_, rq) # _ \<Rightarrow> emit (SendText (rq_storageNode rq) (''txid:'' @ uuid E @ ''|'' @ input)))"

text \<open>Woken, the script has its answer or goes on waiting.\<close>

definition fetchDocument_receive :: "string \<Rightarrow> string option compute_action" where
  "fetchDocument_receive txid =
    andThen (gets (\<lambda>st. map_of (dds st) txid)) (\<lambda>result.
    case result of
      None \<Rightarrow> ok None
    | Some d \<Rightarrow> perform (modify (\<lambda>st. st\<lparr>dds := std_erase txid (dds st)\<rparr>)) (ok (Some d)))"

definition compute_connection_request :: "string \<Rightarrow> int \<Rightarrow> unit compute_action" where
  "compute_connection_request ip port =
    emit (Send ''masternodes'' connectionRequest [(''t'', ''1''), (''u'', ''ws://'' @ ip @ '':'' @ to_string port)])"

definition compute_handler :: "compute_env \<Rightarrow> CommandType \<Rightarrow> field_map \<Rightarrow> unit compute_action" where
  "compute_handler E cmd fs =
    (if cmd = codeDelivery then processRequest E fs
     else if cmd = canCommit then processStateChangeCmds fs
     else if cmd = fetchFunction then executeJsCode E fs
     else if cmd = fetchDocument then updateDocumentMap fs
     else if cmd = stateChange then
       emit (Send ''master21'' stateChangeResponse [(''id'', field fs ''id''), (''txid'', field fs ''txid''), (''data'', field fs ''data'')])
     else ok ())"

section \<open>Behaviour\<close>

abbreviation script_result :: "string \<Rightarrow> string \<Rightarrow> json" where
  "script_result r cmds \<equiv> JObject [(''result'', JString r), (''statechangecmds'', JString cmds)]"

text \<open>What a master node is told: a compute node sends the result and its hash, a verifier the hash.\<close>

definition result_message :: "compute_env \<Rightarrow> RequestData \<Rightarrow> string \<Rightarrow> field_map" where
  "result_message E rq r =
    [(''txid'', rq_txId rq)] @ (if rq_nodeType rq = ''0'' then [(''o'', r)] else []) @ [(''h'', hashCode E r)]"

lemma node_types: "exec_type_of_int 0 = Some Compute" "exec_type_of_int 1 = Some Verifier" "stoi ''0'' = Inr 0" "stoi ''1'' = Inr 1"
  by (simp_all add: exec_type_of_int_def) code_simp+

lemma report_result_apply:
  assumes "rq_nodeType rq = ''0'' \<or> rq_nodeType rq = ''1''"
  shows "report_result E rq (script_result r cmds) st =
    (Inr (), if rq_nodeType rq = ''0'' then st\<lparr>trs := std_insert (rq_txId rq) (new_result (rq_txId rq) (rq_timestamp rq) cmds) (trs st)\<rparr> else st,
     [Send ''master21'' verificationResult (result_message E rq r)])"
  using assms by (auto simp: report_result_def json_string_at_def field_ref_def action_simps node_types result_message_def)

lemma request_stored:
  "processRequest E fs st = (Inr (), st\<lparr>rds := std_insert (uuid E) (new_request (uuid E) fs) (rds st)\<rparr>,
     [Send (field fs ''s'') fetchFunction [(''txid'', uuid E), (''h'', field fs ''co''), (''tid'', field fs ''tid'')]])"
  by (simp add: processRequest_def action_simps)

lemma executed:
  assumes "map_of (rds st) (field fs ''txid'') = Some rq" and "js_parse (js E) (field fs ''data'') = Inr d" and "json_string_at d ''code'' = Inr (src, d')"
  shows "executeScript (js E) src (rq_input rq) (rq_tenantId rq) = Inr (script_result r cmds) \<Longrightarrow> rq_nodeType rq = ''0'' \<or> rq_nodeType rq = ''1'' \<Longrightarrow>
      executeJsCode E fs st =
        (Inr (), (if rq_nodeType rq = ''0'' then st\<lparr>trs := std_insert (rq_txId rq) (new_result (rq_txId rq) (rq_timestamp rq) cmds) (trs st)\<rparr> else st)
           \<lparr>rds := std_erase (field fs ''txid'') (rds st)\<rparr>, [Send ''master21'' verificationResult (result_message E rq r)])"
    and "executeScript (js E) src (rq_input rq) (rq_tenantId rq) = Inl e \<Longrightarrow> e \<noteq> Undefined \<Longrightarrow>
      executeJsCode E fs st = (Inr (), st, [Send (rq_channelId rq) exception [(''txid'', rq_txId rq), (''e'', exception_text E e)]])"
  using assms by (auto simp: executeJsCode_def Let_def action_simps report_result_apply)

lemma executed_undefined:
  assumes "map_of (rds st) (field fs ''txid'') = Some rq" and "js_parse (js E) (field fs ''data'') = Inr d" and "json_string_at d ''code'' = Inr (src, d')"
    and "executeScript (js E) src (rq_input rq) (rq_tenantId rq) = Inl Undefined"
  shows "executeJsCode E fs st = (Inl Undefined, st, [])"
  using assms by (simp add: executeJsCode_def Let_def action_simps)

lemma executed_unknown:
  assumes "map_of (rds st) (field fs ''txid'') = None" and "js_parse (js E) (field fs ''data'') = Inr d" and "json_string_at d ''code'' = Inr (src, d')"
  shows "executeJsCode E fs st = (Inr (), st, [])"
  using assms by (simp add: executeJsCode_def Let_def action_simps)

lemma commands_sent:
  assumes "map_of (trs st) (field gs ''txid'') = Some r"
  shows "processStateChangeCmds gs st = (Inr (), st,
    if tr_stateChangeCmds r = [] then [] else [SendText (field gs ''sid'') (''txid:'' @ field gs ''txid'' @ ''|'' @ tr_stateChangeCmds r)])"
  using assms by (simp add: processStateChangeCmds_def action_simps)

text \<open>The result of a known request: it is reported, the request is forgotten and the commands are kept.\<close>

lemma result_reported:
  assumes "map_of (rds st) (field gs ''txid'') = Some rq" and "js_parse (js E) (field gs ''data'') = Inr d" and "json_string_at d ''code'' = Inr (src, d')"
    and "executeScript (js E) src (rq_input rq) (rq_tenantId rq) = Inr (script_result r cmds)" and "rq_nodeType rq = ''0'' \<or> rq_nodeType rq = ''1''"
  shows "\<exists>st2. executeJsCode E gs st = (Inr (), st2, [Send ''master21'' verificationResult (result_message E rq r)]) \<and>
    map_of (rds st2) = (map_of (rds st))(field gs ''txid'' := None) \<and> executeJsCode E gs st2 = (Inr (), st2, []) \<and>
    (rq_nodeType rq = ''0'' \<longrightarrow> map_of (trs st) (rq_txId rq) = None \<longrightarrow>
      (\<forall>hs. field hs ''txid'' = rq_txId rq \<longrightarrow> processStateChangeCmds hs st2 =
        (Inr (), st2, if cmds = [] then [] else [SendText (field hs ''sid'') (''txid:'' @ rq_txId rq @ ''|'' @ cmds)])))"
proof -
  define st2 where "st2 = (if rq_nodeType rq = ''0'' then st\<lparr>trs := std_insert (rq_txId rq) (new_result (rq_txId rq) (rq_timestamp rq) cmds) (trs st)\<rparr> else st)
       \<lparr>rds := std_erase (field gs ''txid'') (rds st)\<rparr>"
  have gone: "map_of (rds st2) = (map_of (rds st))(field gs ''txid'' := None)" by (simp add: st2_def)
  have again: "executeJsCode E gs st2 = (Inr (), st2, [])" using executed_unknown [OF _ assms(2,3)] gone by simp
  have "processStateChangeCmds hs st2 = (Inr (), st2, if cmds = [] then [] else [SendText (field hs ''sid'') (''txid:'' @ rq_txId rq @ ''|'' @ cmds)])"
    if "rq_nodeType rq = ''0''" "map_of (trs st) (rq_txId rq) = None" "field hs ''txid'' = rq_txId rq" for hs
    using commands_sent [of st2 hs "new_result (rq_txId rq) (rq_timestamp rq) cmds"] that by (simp add: st2_def new_result_def)
  with gone again executed(1) [OF assms(1-5)] show ?thesis unfolding st2_def [symmetric] by blast
qed

text \<open>A script that waits for a document receives the answer to its own question, which is then forgotten.\<close>

lemma document_received:
  assumes "map_of (dds st) txid = None" and "field fs ''txid'' = txid"
  shows "\<exists>st1 st2. updateDocumentMap fs st = (Inr (), st1, [NotifyOne]) \<and>
    fetchDocument_receive txid st1 = (Inr (Some (field fs ''data'')), st2, []) \<and> map_of (dds st2) = map_of (dds st) \<and>
    (\<forall>other. other \<noteq> txid \<longrightarrow> map_of (dds st) other = None \<longrightarrow> fetchDocument_receive other st1 = (Inr None, st1, []))"
  using assms by (auto simp: updateDocumentMap_def fetchDocument_receive_def action_simps fun_upd_idem)

text \<open>What a script yields: an exception, \<^verbatim>\<open>false\<close> when there is no such function, or a result with commands.\<close>

lemma script_outcomes:
  assumes "executeScript J src input tenantId = Inr j"
  obtains "j = JBool False" | r cmds where "j = script_result r cmds"
  using assms by (auto simp: executeScript_def Let_def split: sum.splits option.splits js_result.splits)

text \<open>The text of the function in the answer of a storage node, which may be no JSON document, or one without the text.\<close>

definition reply_source :: "compute_env \<Rightarrow> field_map \<Rightarrow> cpp_error + string" where
  "reply_source E gs =
    (case js_parse (js E) (field gs ''data'') of Inl e \<Rightarrow> Inl e | Inr d \<Rightarrow> (case json_string_at d ''code'' of Inl e \<Rightarrow> Inl e | Inr (src, _) \<Rightarrow> Inr src))"

lemma reply_sourceD:
  assumes "reply_source E gs = Inr src"
  obtains d d' where "js_parse (js E) (field gs ''data'') = Inr d" "json_string_at d ''code'' = Inr (src, d')"
  using assms by (auto simp: reply_source_def split: sum.splits prod.splits intro: that)

lemma reply_unusable: "reply_source E gs = Inl e \<Longrightarrow> executeJsCode E gs st = (Inl e, st, [])"
  by (auto simp: reply_source_def executeJsCode_def Let_def action_simps split: sum.splits prod.splits)

lemma no_function:
  assumes "map_of (rds st) (field fs ''txid'') = Some rq" and "reply_source E fs = Inr src"
    and "executeScript (js E) src (rq_input rq) (rq_tenantId rq) = Inr (JBool False)"
  shows "executeJsCode E fs st = (Inr (), st, [Send (rq_channelId rq) exception [(''txid'', rq_txId rq), (''e'', exception_text E JsonError)]])"
proof -
  obtain d d' where "js_parse (js E) (field fs ''data'') = Inr d" "json_string_at d ''code'' = Inr (src, d')"
    by (rule reply_sourceD [OF assms(2)])
  then show ?thesis
    using assms(1,3) by (simp add: executeJsCode_def Let_def action_simps report_result_def json_string_at_def field_ref_def)
qed

text \<open>The answer of the storage node for a known request: nothing usable, an exception of the script, no such function, or a result.\<close>

lemma request_executed:
  assumes known: "map_of (rds st) (field gs ''txid'') = Some rq" and type: "rq_nodeType rq = ''0'' \<or> rq_nodeType rq = ''1''"
  shows "case reply_source E gs of
       Inl e \<Rightarrow> executeJsCode E gs st = (Inl e, st, [])
     | Inr src \<Rightarrow> (case executeScript (js E) src (rq_input rq) (rq_tenantId rq) of
         Inl e \<Rightarrow> executeJsCode E gs st =
           (if e = Undefined then (Inl Undefined, st, [])
            else (Inr (), st, [Send (rq_channelId rq) exception [(''txid'', rq_txId rq), (''e'', exception_text E e)]]))
       | Inr j \<Rightarrow>
           j = JBool False \<and> executeJsCode E gs st =
             (Inr (), st, [Send (rq_channelId rq) exception [(''txid'', rq_txId rq), (''e'', exception_text E JsonError)]]) \<or>
           (\<exists>r cmds st2. j = script_result r cmds \<and>
             executeJsCode E gs st = (Inr (), st2, [Send ''master21'' verificationResult (result_message E rq r)]) \<and>
             map_of (rds st2) = (map_of (rds st))(field gs ''txid'' := None) \<and> executeJsCode E gs st2 = (Inr (), st2, []) \<and>
             (rq_nodeType rq = ''0'' \<longrightarrow> map_of (trs st) (rq_txId rq) = None \<longrightarrow>
               (\<forall>hs. field hs ''txid'' = rq_txId rq \<longrightarrow> processStateChangeCmds hs st2 =
                 (Inr (), st2, if cmds = [] then [] else [SendText (field hs ''sid'') (''txid:'' @ rq_txId rq @ ''|'' @ cmds)])))))"
proof (cases "reply_source E gs")
  case (Inl e)
  then show ?thesis using reply_unusable [OF Inl] by simp
next
  case src: (Inr src)
  obtain d d' where d: "js_parse (js E) (field gs ''data'') = Inr d" "json_string_at d ''code'' = Inr (src, d')"
    by (rule reply_sourceD [OF src])
  show ?thesis
  proof (cases "executeScript (js E) src (rq_input rq) (rq_tenantId rq)")
    case (Inl e)
    then show ?thesis using src executed(2) [OF known d] executed_undefined [OF known d] by simp
  next
    case (Inr j)
    from script_outcomes [OF Inr] show ?thesis
    proof cases
      case 1
      then show ?thesis using src Inr no_function [OF known src] by simp
    next
      case (2 r cmds)
      show ?thesis
        unfolding src Inr sum.case using result_reported [OF known d Inr [unfolded 2] type] 2
        by (elim exE) (rule disjI2, intro exI conjI, assumption, (elim conjE, assumption)+)
    qed
  qed
qed

section \<open>Properties\<close>



text \<open>A script asks for documents on the storage node of whichever request comes first in the map, not of its own request.\<close>

lemma wrong_storage_node:
  assumes "rds_order E (rds st) = (k, other) # rqs"
  shows "fetchDocument_send E input st = (Inr (), st, [SendText (rq_storageNode other) (''txid:'' @ uuid E @ ''|'' @ input)])"
  using assms by (simp add: fetchDocument_send_def action_simps)

end
