(* ===== verification/Composition.thy ===== *)
theory Composition
  imports Master_Node Commit Compute_Node
begin

text \<open>
  Components together: the block a master node closes (\<^verbatim>\<open>timeToCloseBlock\<close>) as the storage node receives, queues and commits it
  (\<^verbatim>\<open>closeBlock\<close>, \<^verbatim>\<open>processBlocks\<close>); and a transaction on its way from a master node to a compute node, to the storage node that has the
  function, back to the compute node and, as a result, to the master nodes.
\<close>

text \<open>A transaction as storage finds it.\<close>

lemma tx_ids_toJson: "tx_ids (toJson tx) = Some (m_tenantId tx, m_txId tx)"
  by (simp add: tx_ids_def toJson_def key_def)

text \<open>What the storage node reads of the message of a master node, whatever other fields come with it.\<close>

definition carries :: "field_map \<Rightarrow> field_map \<Rightarrow> bool" where
  "carries theFields message \<longleftrightarrow> map_of message \<subseteq>\<^sub>m map_of theFields"

lemma carries_close_message:
  assumes "carries theFields (close_message E st b)"
  shows "map_of theFields ''b'' = Some (b64_encode E (dump E (block_json b)))" "map_of theFields ''key'' = Some (base64encodedKey st)"
    "map_of theFields ''si'' = Some (x509_sign E (b_hash b))"
  using assms by (auto simp: carries_def close_message_def map_le_def dom_def)

lemma tx_views_toJson:
  "txs_published S sst (map toJson txs) \<longleftrightarrow>
    list_all (\<lambda>tx. published S sst (tx_root (m_tenantId tx)) (m_txId tx) (json_dump S (toJson tx))) txs"
  "txs_linked S sst (map toJson txs) \<longleftrightarrow>
    list_all (\<lambda>tx. linked S sst (tx_root (m_tenantId tx)) (m_txId tx) (json_dump S (toJson tx))) txs"
  by (auto simp: txs_published_def txs_linked_def list_all_iff tx_ids_toJson)

text \<open>The storage node has the block \<open>b\<close>, with the number \<open>n\<close>, and the transactions \<open>txs\<close>: they are published, the newest root of
  all blocks is the delivered one with the block added, and nothing is lost.  The versions that gets deliver have the links
  when gets deliver the newest value.\<close>

definition block_arrived :: "storage_env \<Rightarrow> nat \<Rightarrow> string \<Rightarrow> Transaction list \<Rightarrow> storage \<Rightarrow> storage \<Rightarrow> bool" where
  "block_arrived S n text txs sst sst' \<longleftrightarrow>
    published S sst' BLOCK_TREE (to_string (int n)) text \<and> adds_version S BLOCK_TREE (to_string (int n)) text sst sst' \<and>
    list_all (\<lambda>tx. published S sst' (tx_root (m_tenantId tx)) (m_txId tx) (json_dump S (toJson tx))) txs \<and> grows sst sst' \<and>
    (current S \<longrightarrow> distinct (map (\<lambda>tx. (m_tenantId tx, m_txId tx)) txs) \<longrightarrow>
      linked S sst' BLOCK_TREE (to_string (int n)) text \<and>
      list_all (\<lambda>tx. linked S sst' (tx_root (m_tenantId tx)) (m_txId tx) (json_dump S (toJson tx))) txs \<and>
      keeps_links S (int n) (map toJson txs) sst sst')"

lemma block_reaches_storage:
  assumes "surroundings_ok S" and "roots_ok S sst" and "\<And>j. json_parse S (b64 S (b64_encode E (dump E j))) = Inr j"
    and "carries theFields (close_message E st b)" and "b = made_block E n prev txs" and "n < 2 ^ 31"
  shows "\<exists>text sst1 sst2 notice. storage_handler S closeBlock theFields sst = (Inr (), sst1, []) \<and>
      blocksToCommit sst1 = blocksToCommit sst @ [(int n, text)] \<and>
      process_block S (int n, text) sst1 = (Inr (), sst2, [notice]) \<and> mset (blocksToCommit sst2) = mset (blocksToCommit sst) \<and>
      block_arrived S n text txs sst sst2"
proof -
  let ?m = "[(''data'', JArray (map toJson txs)), (''h'', JString (b_hash b)), (''n'', JInt (int n)), (''p'', JString prev), (''tm'', JInt (now E))]"
  have b: "block_json b = JObject ?m" by (simp add: block_json_def assms(5) made_block_def)
  have ids: "list_all (\<lambda>t. tx_ids t \<noteq> None) (map toJson txs)" by (simp add: list_all_iff tx_ids_toJson)
  have dist: "distinct (map tx_ids (map toJson txs)) = distinct (map (\<lambda>tx. (m_tenantId tx, m_txId tx)) txs)"
    by (simp add: tx_ids_toJson comp_def distinct_map inj_on_def)
  have "json_parse S (b64 S (b64_encode E (dump E (block_json b)))) = Inr (JObject ?m)" using assms(3) b by simp
  note s = block_stored [OF assms(1,2) carries_close_message [OF assms(4)] this _ _ _ _ ids, of "int n", unfolded dist]
  have "map_of ?m ''data'' = Some (JArray (map toJson txs))" "map_of ?m ''n'' = Some (JInt (int n))" "0 \<le> int n" "int n < 2 ^ 31"
    using assms(6) by simp_all
  from s [OF this] show ?thesis
    unfolding Let_def block_arrived_def committed_def recorded_def tx_views_toJson by fastforce
qed

section \<open>Delivered messages\<close>

text \<open>The fields with which a handler is called for a message of a node, as reception produces them.\<close>

definition delivered :: "string \<Rightarrow> field_map \<Rightarrow> field_map \<Rightarrow> bool" where
  "delivered sender message fs \<longleftrightarrow>
    (\<exists>cmd mid t nonce. fs = message_fields cmd message mid sender t @ [(''nonce'', to_string nonce), (''ws'', ''0'')])"

lemma gossip_delivers:
  assumes "sendable kv mid sender" and "''nonce'' \<notin> fst ` set kv" and "sender \<noteq> nid" and "mid \<notin> processedMessages st" and "cmd \<in> handlers"
    and "cmd \<noteq> connectionRequest" and "appStartupTime \<le> t" and "- (2 ^ 63) \<le> t" and "t < 2 ^ 63"
  shows "\<exists>msg st' fs. gossip_fields cmd kv = Inr msg \<and> delivered sender kv fs \<and>
    processIncomingData appStartupTime nid handlers ih ref st (gossip_msg mid sender t msg False @ ''|nonce:'' @ to_string nonce) [] 0 False =
      (st', [], Dispatch cmd fs)"
  using gossip_delivered [OF assms] unfolding delivered_def by blast

lemma delivered_lookup:
  assumes "delivered sender message fs"
  shows "k \<notin> {''c'', ''msgid'', ''k'', ''tm'', ''nonce'', ''ws''} \<Longrightarrow> map_of fs k = map_of message k"
    and "map_of message ''k'' = None \<Longrightarrow> map_of fs ''k'' = Some sender" and "map_of message ''ws'' = None \<Longrightarrow> map_of fs ''ws'' = Some ''0''"
  using assms by (auto simp: delivered_def message_fields_def map_add_def split: option.splits)

section \<open>A transaction and its function\<close>

lemma verifier_message:
  assumes "sendToVerifier E tx st = (Inr tx', st', outs)" and "Gossip v codeDelivery message \<in> set outs"
  shows "\<exists>s. s \<noteq> [] \<and> message = [(''i'', m_input tx), (''co'', m_code tx), (''txid'', m_txId tx), (''s'', s), (''tid'', m_tenantId tx),
    (''com'', if m_computeNode tx then ''0'' else ''1'')]"
proof -
  have quiet: "Gossip v codeDelivery message \<notin> set outs" if "getStateChangeStorageNode E st = (r, st', outs)" for r st st' outs
    using that by (auto simp: getStateChangeStorageNode_def action_simps Let_def generateRandomNumber_def split: if_splits sum.splits)
  show ?thesis
    using assms by (auto simp: sendToVerifier_def action_simps Let_def generateRandomNumber_def split: if_splits sum.splits prod.splits dest: quiet)
qed

section \<open>Properties\<close>

text \<open>Claim (C3): closed blocks reach the storage.  When the current producer closes a block and has a storage node, it
  sends that node a message; a storage node that receives it, with whatever other fields, queues the block, and when it
  processes the block every transaction that was due on the master node is published under its id in a version of the root of its
  tenant, the version of the root of all blocks that the DHT delivered gets a successor with exactly the block added under its number, and
  nothing that was put before is lost.  This holds in whatever order the DHT delivers values.  If it delivers the newest value
  and no id of a tenant occurs twice, then the versions that gets now deliver have these links and all that were there before.\<close>

theorem closed_block_stored:
  assumes "sorts_by m_timestamp (sort_transactions E)" and "nextBlockNumber st = n" and "n \<noteq> 0" and "n < 2 ^ 31"
    and "registry_ok (known_nodes st)" and "produces E st"
    and "surroundings_ok S" and "roots_ok S sst" and "\<And>j. json_parse S (b64 S (b64_encode E (dump E j))) = Inr j"
  shows "\<exists>st' outs. timeToCloseBlock E st = (Inr (), st', outs) \<and>
    (blockStorageNode st' \<noteq> [] \<longrightarrow> (\<exists>message txs.
      Gossip (blockStorageNode st') closeBlock message \<in> set outs \<and>
      mset txs = filter_mset (\<lambda>tx. m_timestamp tx \<le> now E) (mset (queueOut st)) \<and>
      (\<forall>theFields. carries theFields message \<longrightarrow> (\<exists>text sst1 sst2 notice.
        storage_handler S closeBlock theFields sst = (Inr (), sst1, []) \<and> blocksToCommit sst1 = blocksToCommit sst @ [(int n, text)] \<and>
        process_block S (int n, text) sst1 = (Inr (), sst2, [notice]) \<and> mset (blocksToCommit sst2) = mset (blocksToCommit sst) \<and>
        block_arrived S n text txs sst sst2))))"
proof -
  let ?b = "made_block E n (previous_hash E st) (due E st)"
  obtain st' outs where run: "timeToCloseBlock E st = (Inr (), st', outs)"
    and out: "blockStorageNode st' \<noteq> [] \<longrightarrow> filter (\<lambda>x. \<exists>c m fs. x = Gossip c m fs) outs = [Gossip (blockStorageNode st') closeBlock (close_message E st' ?b)]"
    using timeToCloseBlock_result [OF assms(1,2,3,5)] assms(6) by auto
  have g: "Gossip (blockStorageNode st') closeBlock (close_message E st' ?b) \<in> set outs" if "blockStorageNode st' \<noteq> []"
  proof -
    have "Gossip (blockStorageNode st') closeBlock (close_message E st' ?b) \<in> set (filter (\<lambda>x. \<exists>c m fs. x = Gossip c m fs) outs)"
      using out that by simp
    then show ?thesis by simp
  qed
  show ?thesis
    using run g due_split(3) [OF assms(1), of st] block_reaches_storage [OF assms(7,8,9) _ refl assms(4)] by blast
qed

theorem closed_block_stored_witness:
  "let E = (plain_env ''n'' 9)\<lparr>dump := number_text\<rparr>; S = graph_env ''g''; v = \<lparr>v_signature = [], v_publicKey = ''n'', v_number = 0, v_valid = True\<rparr>;
       st = initial_master\<lparr>nextBlockNumber := 5, previousHash := ''p'', queueOut := [tx_of_id ''x'' 3], blockProducers := [v, v], blockStorageNode := ''s''\<rparr>
   in \<exists>st' outs message sst1 text sst2 notice. timeToCloseBlock E st = (Inr (), st', outs) \<and> Gossip ''s'' closeBlock message \<in> set outs \<and>
     storage_handler S closeBlock message empty_storage = (Inr (), sst1, []) \<and> process_block S (5, text) sst1 = (Inr (), sst2, [notice]) \<and>
     published S sst2 BLOCK_TREE (to_string 5) text \<and> linked S sst2 BLOCK_TREE (to_string 5) text \<and> linked S sst2 (tx_root []) ''x'' (json_dump S (toJson (tx_of_id ''x'' 3)))"
proof -
  let ?E = "(plain_env ''n'' 9)\<lparr>dump := number_text\<rparr>" and ?v = "\<lparr>v_signature = [], v_publicKey = ''n'', v_number = 0, v_valid = True\<rparr>"
  let ?st = "initial_master\<lparr>nextBlockNumber := 5, previousHash := ''p'', queueOut := [tx_of_id ''x'' 3], blockProducers := [?v, ?v], blockStorageNode := ''s''\<rparr>"
  have p: "getCurrentBlockProducer ?E ?st = int 1" by (simp add: getCurrentBlockProducer_def getSecondsPastHour_def)
  have prod: "produces ?E ?st" unfolding produces_def p by (intro exI [of _ 1]) simp
  have s: "blockStorageNode (fst (snd (timeToCloseBlock ?E ?st))) = ''s''"
    by (simp add: timeToCloseBlock_def action_simps take_due_apply getBlock_apply next_number_total Let_def
      isBlockProducer_result getBlockStorageNode_def initial_master_def split: prod.splits)
  have r: "registry_ok (known_nodes ?st)" by (simp add: initial_master_def empty_registry_def registry_ok_def kind_ok_def)
  have roots: "roots_ok (graph_env ''g'') empty_storage" by (simp add: roots_ok_def empty_storage_def)
  have rt: "json_parse (graph_env ''g'') (b64 (graph_env ''g'') (b64_encode ?E (dump ?E j))) = Inr j" for j
    by (simp add: graph_env_def number_roundtrip)
  have t: "m_timestamp (tx_of_id ''x'' 3) = 3" by (simp add: tx_of_id_def)
  have c: "carries message message" for message by (simp add: carries_def)
  obtain st' outs where run: "timeToCloseBlock ?E ?st = (Inr (), st', outs)"
    and rest: "blockStorageNode st' \<noteq> [] \<longrightarrow> (\<exists>message txs. Gossip (blockStorageNode st') closeBlock message \<in> set outs \<and>
      mset txs = {#tx_of_id ''x'' 3#} \<and> (\<exists>text sst1 sst2 notice.
        storage_handler (graph_env ''g'') closeBlock message empty_storage = (Inr (), sst1, []) \<and>
        process_block (graph_env ''g'') (int 5, text) sst1 = (Inr (), sst2, [notice]) \<and>
        block_arrived (graph_env ''g'') 5 text txs empty_storage sst2))"
    using closed_block_stored [OF _ _ _ _ r prod graph_env_ok roots rt, of 5] c by (simp add: sorts_by_sort_key t) blast
  have "blockStorageNode st' = ''s''" using run s by simp
  with rest obtain message txs block sst1 sst2 notice where g: "Gossip ''s'' closeBlock message \<in> set outs" and txs: "mset txs = {#tx_of_id ''x'' 3#}"
    and st: "storage_handler (graph_env ''g'') closeBlock message empty_storage = (Inr (), sst1, [])"
      "process_block (graph_env ''g'') (5, block) sst1 = (Inr (), sst2, [notice])"
      "block_arrived (graph_env ''g'') 5 block txs empty_storage sst2" by auto
  have one: "txs = [tx_of_id ''x'' 3]" using txs by simp
  have "published (graph_env ''g'') sst2 BLOCK_TREE (to_string 5) block" "linked (graph_env ''g'') sst2 BLOCK_TREE (to_string 5) block"
      "linked (graph_env ''g'') sst2 (tx_root (m_tenantId (tx_of_id ''x'' 3))) (m_txId (tx_of_id ''x'' 3)) (json_dump (graph_env ''g'') (toJson (tx_of_id ''x'' 3)))"
    using st(3) graph_env_current [of "''g''"] unfolding block_arrived_def one by simp_all
  moreover have "m_tenantId (tx_of_id ''x'' 3) = []" "m_txId (tx_of_id ''x'' 3) = ''x''" by (simp_all add: tx_of_id_def tx_default_def)
  ultimately show ?thesis using run g st unfolding Let_def by fastforce
qed

text \<open>Claim (C4): the path of a transaction.  When a master node sends a transaction to a compute node, the compute node asks the storage
  node named in the message for the function; the storage node answers with the object that has the hash of the transaction's
  code; the compute node executes that function on the inputs and for the tenant of the transaction and reports to the master nodes; and every
  master node that handles the report counts the hash of the result for this very transaction, with the output if the
  sender was the transaction's compute node.  Each node does nothing else.\<close>

theorem function_executed:
  assumes "sendToVerifier E tx st = (Inr tx', st', outs)" and "Gossip v codeDelivery message \<in> set outs" and "m_code tx \<noteq> []"
    and "map_of (rds cst) (uuid C) = None" and "js_parse (js C) (fetchObject (client S) (m_code tx)) = Inr d" and "json_string_at d ''code'' = Inr (src, d')"
    and "executeScript (js C) src (m_input tx) (m_tenantId tx) = Inr (script_result r cmds)" and "delivered (node_id E) message fs"
  shows "\<exists>sn cst1 request. compute_handler C codeDelivery fs cst = (Inr (), cst1, [Send sn CommandType.fetchFunction request]) \<and> sn \<noteq> [] \<and>
    (\<forall>gs. delivered v request gs \<longrightarrow> (\<exists>reply. storage_handler S CommandType.fetchFunction gs sst = (Inr (), sst, [ToNode v CommandType.fetchFunction reply]) \<and>
      (\<forall>hs. delivered sn reply hs \<longrightarrow> (\<exists>cst2 result. compute_handler C CommandType.fetchFunction hs cst1 = (Inr (), cst2, [Send ''master21'' verificationResult result]) \<and>
        (\<forall>ks. delivered v result ks \<longrightarrow>
          handle M verificationResult ks mst = verifyTransaction M (m_txId tx) (hashCode C r) (if m_computeNode tx then r else []) mst)))))"
proof -
  obtain s where s: "s \<noteq> []" "message = [(''i'', m_input tx), (''co'', m_code tx), (''txid'', m_txId tx), (''s'', s), (''tid'', m_tenantId tx),
      (''com'', if m_computeNode tx then ''0'' else ''1'')]"
    using verifier_message [OF assms(1,2)] by blast
  note fs = delivered_lookup(1) [OF assms(8)]
  have f: "field fs ''i'' = m_input tx" "field fs ''co'' = m_code tx" "field fs ''txid'' = m_txId tx" "field fs ''s'' = s" "field fs ''tid'' = m_tenantId tx"
      "field fs ''com'' = (if m_computeNode tx then ''0'' else ''1'')"
    using fs [of "''i''"] fs [of "''co''"] fs [of "''txid''"] fs [of "''s''"] fs [of "''tid''"] fs [of "''com''"] by (simp_all add: field_def s(2))
  define rq where "rq = new_request (uuid C) fs"
  have rq: "rq_txId rq = m_txId tx" "rq_input rq = m_input tx" "rq_tenantId rq = m_tenantId tx" "rq_nodeType rq = (if m_computeNode tx then ''0'' else ''1'')"
    by (simp_all add: rq_def new_request_def f)
  define cst1 where "cst1 = cst\<lparr>rds := std_insert (uuid C) rq (rds cst)\<rparr>"
  define request where "request = [(''txid'', uuid C), (''h'', m_code tx), (''tid'', m_tenantId tx)]"
  have first: "compute_handler C codeDelivery fs cst = (Inr (), cst1, [Send s CommandType.fetchFunction request])"
    by (simp add: compute_handler_def request_stored f cst1_def rq_def request_def)
  have store: "storage_handler S CommandType.fetchFunction gs sst = (Inr (), sst, [ToNode v CommandType.fetchFunction [(''txid'', uuid C), (''id'', []), (''data'', fetchObject (client S) (m_code tx))]])"
    if "delivered v request gs" for gs
  proof -
    note d = delivered_lookup [OF that]
    have "map_of gs ''txid'' = Some (uuid C)" "map_of gs ''h'' = Some (m_code tx)" "map_of gs ''tid'' = Some (m_tenantId tx)" "map_of gs ''id'' = None"
        "map_of gs ''k'' = Some v" "map_of gs ''ws'' = Some ''0''"
      using d(1) [of "''txid''"] d(1) [of "''h''"] d(1) [of "''tid''"] d(1) [of "''id''"] d(2,3) by (simp_all add: request_def)
    then show ?thesis using assms(3) by (simp add: storage_handler_def Storage.fetchFunction_def send_def action_simps std_at_def)
  qed
  have report: "\<exists>cst2. compute_handler C CommandType.fetchFunction hs cst1 = (Inr (), cst2, [Send ''master21'' verificationResult (result_message C rq r)])"
    if "delivered s [(''txid'', uuid C), (''id'', []), (''data'', fetchObject (client S) (m_code tx))] hs" for hs
  proof -
    have h: "field hs ''txid'' = uuid C" "field hs ''data'' = fetchObject (client S) (m_code tx)"
      using delivered_lookup(1) [OF that, of "''txid''"] delivered_lookup(1) [OF that, of "''data''"] by (simp_all add: field_def)
    have "map_of (rds cst1) (field hs ''txid'') = Some rq" using assms(4) by (simp add: cst1_def h)
    from executed(1) [OF this _ assms(6), of C r cmds] assms(5,7) show ?thesis by (simp add: h rq compute_handler_def)
  qed
  have count: "handle M verificationResult ks mst = verifyTransaction M (m_txId tx) (hashCode C r) (if m_computeNode tx then r else []) mst"
    if "delivered v (result_message C rq r) ks" for ks
    using delivered_lookup(1) [OF that, of "''txid''"] delivered_lookup(1) [OF that, of "''h''"] delivered_lookup(1) [OF that, of "''o''"]
    by (simp add: result_message_def rq handle_verificationResult_def action_simps std_at_def field_or_empty_def split: if_splits)
  show ?thesis using first s(1) store report count by (intro exI [of _ s] exI [of _ cst1] exI [of _ request]) blast
qed

theorem function_executed_witness:
  "let st = initial_master\<lparr>stateChangeStorageNode := ''sn'', known_nodes := empty_registry\<lparr>verifierNodes := [(''v'', \<lparr>node_key = ''v'', node_uri = [], node_type = Some verifierNode\<rparr>)], verifierKeys := [''v'']\<rparr>\<rparr>;
       tx = (tx_of_id ''x'' 3)\<lparr>m_code := object_hash (''def'', [])\<rparr>;
       C = \<lparr>js = \<lparr>js_decode = id, js_parse = (\<lambda>_. Inr (JObject [(''code'', JString ''function f(){}'')])), js_dump = (\<lambda>_. []), js_load = (\<lambda>_ _. None),
               js_call = (\<lambda>_ _ _. Returned ''42'' []), cmdBuilderScript = []\<rparr>,
            uuid = ''u'', hashCode = (\<lambda>s. s @ s), what = (\<lambda>_. []), rds_order = id\<rparr>
   in \<exists>tx' st' outs message cst1 request. sendToVerifier (plain_env ''n'' 9) tx st = (Inr tx', st', outs) \<and> Gossip ''v'' codeDelivery message \<in> set outs \<and>
     compute_handler C codeDelivery (message_fields codeDelivery message ''id'' ''n'' 9 @ [(''nonce'', to_string 1), (''ws'', ''0'')]) \<lparr>rds = [], trs = [], dds = []\<rparr> =
       (Inr (), cst1, [Send ''sn'' CommandType.fetchFunction request])"
proof -
  let ?st = "initial_master\<lparr>stateChangeStorageNode := ''sn'', known_nodes := empty_registry\<lparr>verifierNodes := [(''v'', \<lparr>node_key = ''v'', node_uri = [], node_type = Some verifierNode\<rparr>)], verifierKeys := [''v'']\<rparr>\<rparr>"
  let ?tx = "(tx_of_id ''x'' 3)\<lparr>m_code := object_hash (''def'', [])\<rparr>"
  let ?C = "\<lparr>js = \<lparr>js_decode = id, js_parse = (\<lambda>_. Inr (JObject [(''code'', JString ''function f(){}'')])), js_dump = (\<lambda>_. []), js_load = (\<lambda>_ _. None),
               js_call = (\<lambda>_ _ _. Returned ''42'' []), cmdBuilderScript = []\<rparr>,
            uuid = ''u'', hashCode = (\<lambda>s. s @ s), what = (\<lambda>_. []), rds_order = id\<rparr>"
  define message where "message = [(''i'', m_input ?tx), (''co'', m_code ?tx), (''txid'', m_txId ?tx), (''s'', ''sn''), (''tid'', m_tenantId ?tx), (''com'', ''0'')]"
  obtain tx' st' outs where run: "sendToVerifier (plain_env ''n'' 9) ?tx ?st = (Inr tx', st', outs)" and out: "Gossip ''v'' codeDelivery message \<in> set outs"
    by (simp add: sendToVerifier_def action_simps getNumberOfVerifiers_def getVerifierNodeKey_def generateRandomNumber_def Let_def
        getStateChangeStorageNode_def message_def tx_of_id_def)
  define fs where "fs = message_fields codeDelivery message ''id'' ''n'' 9 @ [(''nonce'', to_string 1), (''ws'', ''0'')]"
  have fs: "delivered (node_id (plain_env ''n'' 9)) message fs" unfolding delivered_def fs_def by auto
  have c: "json_string_at (JObject [(''code'', JString ''function f(){}'')]) ''code'' = Inr (''function f(){}'', JObject [(''code'', JString ''function f(){}'')])"
    by (simp add: json_string_at_def field_ref_def)
  have s: "executeScript (js ?C) ''function f(){}'' (m_input ?tx) (m_tenantId ?tx) = Inr (script_result ''42'' [])"
    by (simp add: executeScript_def getProcessFunName_def tx_of_id_def tx_default_def)
  obtain sn cst1 request where h: "compute_handler ?C codeDelivery fs \<lparr>rds = [], trs = [], dds = []\<rparr> = (Inr (), cst1, [Send sn CommandType.fetchFunction request])"
    using function_executed [OF run out _ _ _ c s fs, of "\<lparr>rds = [], trs = [], dds = []\<rparr>" "graph_env ''g''" empty_storage "plain_env ''n'' 9" initial_master] by auto
  then have "sn = ''sn''" using delivered_lookup(1) [OF fs, of "''s''"] by (auto simp: compute_handler_def request_stored field_def message_def)
  with run out h show ?thesis unfolding Let_def fs_def by blast
qed

text \<open>Updates and deletions of a script are joined by \<^verbatim>\<open>,cmds:\<close> (\<^verbatim>\<open>CommandBuilder.txt\<close>).  A value ends at the next colon, so the
  storage node receives the first command and the word \<^verbatim>\<open>cmds\<close>, which is no command: the second state change is lost.\<close>

lemma second_command_lost:
  "getFieldsAndValues ''txid:x|c:6|tid:t|cmds:8 e q,cmds:8 e r'' = Inr [(''txid'', ''x''), (''c'', ''6''), (''tid'', ''t''), (''cmds'', ''8 e q,cmds'')]"
  "executeStateChangeCommand S [''cmds''] source channelId txid tid sst = (Inr (), sst, [])"
proof -
  show "getFieldsAndValues ''txid:x|c:6|tid:t|cmds:8 e q,cmds:8 e r'' = Inr [(''txid'', ''x''), (''c'', ''6''), (''tid'', ''t''), (''cmds'', ''8 e q,cmds'')]"
    by code_simp
  have "stoi ''cmds'' = Inl InvalidArgument" by code_simp
  then show "executeStateChangeCommand S [''cmds''] source channelId txid tid sst = (Inr (), sst, [])"
    by (simp add: executeStateChangeCommand_def arg_def action_simps)
qed

end
