(* ===== verification/Web_Socket.thy ===== *)
theory Web_Socket
  imports Message "HOL-Library.Multiset"
begin

text \<open>
  The web socket server of master and storage nodes (\<^verbatim>\<open>webSocketServer.cpp\<close>): clients register a key with a first message, and
  later messages of the same connection are processed under that key.  A connection is a weak pointer; \<open>alive\<close> tells which
  can be locked.  The order in which the unordered map is iterated is a parameter.
\<close>

section \<open>State\<close>

type_synonym hdl = nat

record ws_server =
  m_connections :: "(string \<times> hdl) list"
  running :: bool

record ws_env =
  alive :: "hdl \<Rightarrow> bool"
  conn_order :: "(string \<times> hdl) list \<Rightarrow> (string \<times> hdl) list"
  startup :: int
  clock :: int
  self :: string
  supported :: "CommandType set"
  ref_hash :: "string \<Rightarrow> string"
  ref_guid :: string

datatype ws_result = Registered string | Processed string incoming_result | Rejected cpp_error

section \<open>Operations\<close>

text \<open>Comparison of two locked pointers: all expired ones are equal.\<close>

definition same_connection :: "ws_env \<Rightarrow> hdl \<Rightarrow> hdl \<Rightarrow> bool" where
  "same_connection E h h' \<longleftrightarrow> (if alive E h then Some h else None) = (if alive E h' then Some h' else None)"

definition getKeyFromHdl :: "ws_env \<Rightarrow> ws_server \<Rightarrow> hdl \<Rightarrow> string" where
  "getKeyFromHdl E s h =
    (case find (\<lambda>(k, h'). same_connection E h' h) (conn_order E (m_connections s)) of None \<Rightarrow> [] | Some (k, _) \<Rightarrow> k)"

definition exists_key :: "ws_server \<Rightarrow> string \<Rightarrow> bool" where
  "exists_key s k \<longleftrightarrow> map_of (m_connections s) k \<noteq> None"

definition addConnection :: "string \<Rightarrow> hdl \<Rightarrow> ws_server \<Rightarrow> ws_server" where
  "addConnection k h s = s\<lparr>m_connections := std_insert k h (m_connections s)\<rparr>"

definition onClose :: "ws_env \<Rightarrow> hdl \<Rightarrow> ws_server \<Rightarrow> ws_server" where
  "onClose E h s = s\<lparr>m_connections := std_erase (getKeyFromHdl E s h) (m_connections s)\<rparr>"

definition onMessage :: "ws_env \<Rightarrow> hdl \<Rightarrow> string \<Rightarrow> ws_server \<Rightarrow> comm_state \<Rightarrow> ws_server \<times> comm_state \<times> ws_ack list \<times> ws_result" where
  "onMessage E h data s st =
    (case getFieldsAndValues data of
       Inl e \<Rightarrow> (s, st, [], Rejected e)
     | Inr theFields \<Rightarrow>
         if cmd_of_int (atoi (case map_of theFields ''c'' of None \<Rightarrow> [] | Some c \<Rightarrow> c)) = Some connectionRequest then
           (case std_at theFields ''k'' of
              Inl e \<Rightarrow> (s, st, [], Rejected e)
            | Inr nodeKey \<Rightarrow> (if exists_key s nodeKey then s else addConnection nodeKey h s, st, [], Registered nodeKey))
         else
           (let nodeKey = getKeyFromHdl E s h
            in if nodeKey = [] then (s, st, [], Rejected RuntimeError)
               else
                 (case processIncomingData (startup E) (self E) (supported E) (ref_hash E) (ref_guid E) st data nodeKey (clock E) True of
                    (st, acks, r) \<Rightarrow> (s, st, acks, Processed nodeKey r))))"

definition getDataFromKey :: "ws_server \<Rightarrow> string \<Rightarrow> cpp_error + hdl" where
  "getDataFromKey s k = (case map_of (m_connections s) k of None \<Rightarrow> Inl InvalidArgument | Some h \<Rightarrow> Inr h)"

text \<open>What is written to which connection.\<close>

definition ws_send :: "ws_server \<Rightarrow> string \<Rightarrow> string \<Rightarrow> cpp_error + (hdl \<times> string) list" where
  "ws_send s k msg = (if running s then map_sum id (\<lambda>h. [(h, msg)]) (getDataFromKey s k) else Inr [])"

section \<open>Sessions\<close>

text \<open>The server in operation: messages and closings of live connections, each in its own surroundings.\<close>

inductive ws_reachable :: "ws_server \<Rightarrow> bool" where
  ws_start: "ws_reachable \<lparr>m_connections = [], running = r\<rparr>"
| ws_message: "ws_reachable s \<Longrightarrow> ws_reachable (fst (onMessage E h data s st))"
| ws_close: "ws_reachable s \<Longrightarrow> ws_reachable (onClose E h s)"

definition order_ok :: "ws_env \<Rightarrow> bool" where
  "order_ok E \<longleftrightarrow> (\<forall>m. set (conn_order E m) = set m)"

lemma message_connections:
  "fst (onMessage E h data s st) = s \<or> (\<exists>k. \<not> exists_key s k \<and> fst (onMessage E h data s st) = addConnection k h s)"
  by (auto simp: onMessage_def Let_def split: sum.splits option.splits prod.splits)

lemma reachable_keys: "ws_reachable s \<Longrightarrow> distinct (map fst (m_connections s))"
proof (induction rule: ws_reachable.induct)
  case (ws_message s E h data st)
  then show ?case using message_connections [of E h data s st] by (auto simp: addConnection_def distinct_std_insert)
next
  case (ws_close s E h)
  then show ?case by (simp add: onClose_def std_erase_def distinct_map_filter)
qed simp

lemma key_of_live:
  assumes "order_ok E" and "alive E h" and "getKeyFromHdl E s h = k" and "k \<noteq> []"
  shows "(k, h) \<in> set (m_connections s)"
proof -
  have "\<exists>h'. (k, h') \<in> set (conn_order E (m_connections s)) \<and> same_connection E h' h"
    using assms(3,4) by (auto simp: getKeyFromHdl_def find_Some_iff in_set_conv_nth split: option.splits) (metis nth_mem)
  then show ?thesis using assms(1,2) by (auto simp: order_ok_def same_connection_def split: if_splits)
qed

lemma acks_of_key:
  "processIncomingData a n hs ih g st data k t True = (st', acks, r) \<Longrightarrow> list_all (\<lambda>(key, _, _). key = k) acks"
  by (auto simp: processIncomingData_def dispatch_def attempt_def after_output_def Let_def split: sum.splits if_splits prod.splits option.splits)

lemma processed_key:
  assumes "ws_reachable s" and "order_ok E" and "alive E h" and "onMessage E h data s st = (s', st', acks, Processed k r)"
  shows "s' = s" "map_of (m_connections s) k = Some h" "list_all (\<lambda>(key, _, _). key = k) acks"
proof -
  have p: "getKeyFromHdl E s h = k" "k \<noteq> []" "s' = s" "list_all (\<lambda>(key, _, _). key = k) acks"
    using assms(4) acks_of_key by (auto simp: onMessage_def Let_def split: sum.splits if_splits prod.splits)
  then show "s' = s" "map_of (m_connections s) k = Some h" "list_all (\<lambda>(key, _, _). key = k) acks"
    using key_of_live [OF assms(2,3) p(1,2)] reachable_keys [OF assms(1)] by simp_all
qed

lemma close_releases:
  assumes "ws_reachable s" and "order_ok E" and "alive E h" and "map_of (m_connections s) k = Some g" and "k \<noteq> []"
  shows "map_of (m_connections (onClose E h s)) k = Some g \<or> g = h \<and> map_of (m_connections (onClose E h s)) k = None"
proof (cases "getKeyFromHdl E s h = k")
  case True
  then have "(k, h) \<in> set (m_connections s)" using key_of_live [OF assms(2,3)] assms(5) by blast
  then have "g = h" using reachable_keys [OF assms(1)] assms(4) by simp
  then show ?thesis using True by (simp add: onClose_def)
qed (use assms(4) in \<open>simp add: onClose_def\<close>)

section \<open>Properties\<close>

text \<open>Claim (C29): sessions are kept apart.  In every reachable state of the server the keys are distinct; a message of a live connection
  is processed only under a key which that very connection registered, the acknowledgements go back to it, and what is sent to
  the key is written to it; a registered key stays with its connection whatever messages arrive, and a key that is not empty
  is released only when the connection that holds it is closed.\<close>

theorem sessions_separate:
  assumes "ws_reachable s" and "order_ok E" and "alive E h" and "onMessage E h data s st = (s', st', acks, res)"
  shows "distinct (map fst (m_connections s')) \<and>
    (\<forall>k r. res = Processed k r \<longrightarrow> s' = s \<and> map_of (m_connections s) k = Some h \<and> list_all (\<lambda>(key, _, _). key = k) acks \<and>
      (running s \<longrightarrow> ws_send s k msg = Inr [(h, msg)])) \<and>
    (\<forall>k g. map_of (m_connections s) k = Some g \<longrightarrow> map_of (m_connections s') k = Some g \<and>
      (k \<noteq> [] \<longrightarrow> map_of (m_connections (onClose E h s)) k = Some g \<or> g = h \<and> map_of (m_connections (onClose E h s)) k = None))"
proof (intro conjI)
  have s': "s' = s \<or> (\<exists>k. \<not> exists_key s k \<and> s' = addConnection k h s)" using message_connections [of E h data s st] assms(4) by simp
  show "distinct (map fst (m_connections s'))" using reachable_keys [OF ws_message [OF assms(1)], of E h data st] assms(4) by simp
  show "\<forall>k r. res = Processed k r \<longrightarrow> s' = s \<and> map_of (m_connections s) k = Some h \<and> list_all (\<lambda>(key, _, _). key = k) acks \<and>
      (running s \<longrightarrow> ws_send s k msg = Inr [(h, msg)])"
    using processed_key [OF assms(1-3)] assms(4) by (auto simp: ws_send_def getDataFromKey_def)
  show "\<forall>k g. map_of (m_connections s) k = Some g \<longrightarrow> map_of (m_connections s') k = Some g \<and>
      (k \<noteq> [] \<longrightarrow> map_of (m_connections (onClose E h s)) k = Some g \<or> g = h \<and> map_of (m_connections (onClose E h s)) k = None)"
    using s' close_releases [OF assms(1-3)] by (auto simp: exists_key_def addConnection_def)
qed

definition sample_ws :: ws_env where
  "sample_ws = \<lparr>alive = (\<lambda>_. True), conn_order = id, startup = 0, clock = 5, self = ''n'', supported = {fetchTemplate}, ref_hash = id, ref_guid = []\<rparr>"

theorem sessions_separate_witness:
  "let s = fst (onMessage sample_ws 7 ''c:1|k:A'' \<lparr>m_connections = [], running = True\<rparr> \<lparr>processedMessages = {}, nodes = empty_registry\<rparr>);
       (s', st', acks, res) = onMessage sample_ws 7 ''c:11|txid:q'' s \<lparr>processedMessages = {}, nodes = empty_registry\<rparr>
   in (\<exists>r. res = Processed ''A'' r) \<and> map_of (m_connections s) ''A'' = Some 7 \<and> ws_send s ''A'' ''hi'' = Inr [(7, ''hi'')]"
proof -
  let ?st = "\<lparr>processedMessages = {}, nodes = empty_registry\<rparr>" and ?s0 = "\<lparr>m_connections = [], running = True\<rparr>"
  have f: "getFieldsAndValues ''c:1|k:A'' = Inr [(''c'', ''1''), (''k'', ''A'')]" "getFieldsAndValues ''c:11|txid:q'' = Inr [(''c'', ''11''), (''txid'', ''q'')]"
      "cmd_of_int (atoi ''1'') = Some connectionRequest" "cmd_of_int (atoi ''11'') = Some fetchTemplate" by code_simp+
  have s: "fst (onMessage sample_ws 7 ''c:1|k:A'' ?s0 ?st) = \<lparr>m_connections = [(''A'', 7)], running = True\<rparr>"
    by (simp add: onMessage_def f std_at_def exists_key_def addConnection_def std_insert_def)
  obtain s' st' acks res where m: "onMessage sample_ws 7 ''c:11|txid:q'' \<lparr>m_connections = [(''A'', 7)], running = True\<rparr> ?st = (s', st', acks, res)"
    by (metis prod_cases4)
  have k: "getKeyFromHdl sample_ws \<lparr>m_connections = [(''A'', 7)], running = True\<rparr> 7 = ''A''"
    by (simp add: getKeyFromHdl_def sample_ws_def same_connection_def)
  obtain r where res: "res = Processed ''A'' r"
    using m by (auto simp: onMessage_def f k Let_def split: prod.splits)
  have w: "ws_reachable \<lparr>m_connections = [(''A'', 7)], running = True\<rparr>" using ws_message [OF ws_start, of sample_ws 7 "''c:1|k:A''" True ?st] s by simp
  from sessions_separate [OF w _ _ m, of "''hi''"] show ?thesis unfolding s Let_def m prod.case res by (simp add: order_ok_def sample_ws_def)
qed

text \<open>A connection may register several keys; closing it releases one of them.\<close>

lemma second_key_stays:
  assumes "getKeyFromHdl E s h \<noteq> k" and "map_of (m_connections s) k = Some h"
  shows "map_of (m_connections (onClose E h s)) k = Some h"
  using assms by (simp add: onClose_def)

text \<open>The handler of a message sees the key the client wrote into the message, not the key of its session.\<close>

lemma client_names_key:
  assumes "dispatch handlers key True st ((''k'', other) # fs) = (st', outs, Dispatch cmd gs)"
  shows "map_of gs ''k'' = Some other"
  using assms by (auto simp: dispatch_def attempt_def Let_def std_insert_def split: sum.splits if_splits option.splits prod.splits)

end
