(* ===== verification/Hex.thy ===== *)
theory Hex
  imports Main
begin

text \<open>
  Arithmetic on hexadecimal digits, for the evaluation of certificates over large numbers by rewriting: an addition step
  consumes one digit of each operand, a multiplication adds precomputed multiples of one operand, and reduction modulo
  \<open>2\<^sup>2\<^sup>5\<^sup>5 - 19\<close> folds the digits above 256 bits.
\<close>

section \<open>Digits\<close>

datatype nib = N0 | N1 | N2 | N3 | N4 | N5 | N6 | N7 | N8 | N9 | NA | NB | NC | ND | NE | NF

fun nv :: "nib \<Rightarrow> int" where
  "nv N0 = 0"
| "nv N1 = 1"
| "nv N2 = 2"
| "nv N3 = 3"
| "nv N4 = 4"
| "nv N5 = 5"
| "nv N6 = 6"
| "nv N7 = 7"
| "nv N8 = 8"
| "nv N9 = 9"
| "nv NA = 10"
| "nv NB = 11"
| "nv NC = 12"
| "nv ND = 13"
| "nv NE = 14"
| "nv NF = 15"

definition dig :: "int \<Rightarrow> nib" where
  "dig n = [N0, N1, N2, N3, N4, N5, N6, N7, N8, N9, NA, NB, NC, ND, NE, NF] ! nat n"

fun hval :: "nib list \<Rightarrow> int" where
  "hval [] = 0"
| "hval (d # ds) = nv d + 16 * hval ds"

text \<open>Digits of a numeral.\<close>

fun hexn :: "num \<Rightarrow> nib list" where
  "hexn (num.Bit0 (num.Bit0 (num.Bit0 (num.Bit0 (m))))) = N0 # hexn m"
| "hexn (num.Bit1 (num.Bit0 (num.Bit0 (num.Bit0 (m))))) = N1 # hexn m"
| "hexn (num.Bit0 (num.Bit1 (num.Bit0 (num.Bit0 (m))))) = N2 # hexn m"
| "hexn (num.Bit1 (num.Bit1 (num.Bit0 (num.Bit0 (m))))) = N3 # hexn m"
| "hexn (num.Bit0 (num.Bit0 (num.Bit1 (num.Bit0 (m))))) = N4 # hexn m"
| "hexn (num.Bit1 (num.Bit0 (num.Bit1 (num.Bit0 (m))))) = N5 # hexn m"
| "hexn (num.Bit0 (num.Bit1 (num.Bit1 (num.Bit0 (m))))) = N6 # hexn m"
| "hexn (num.Bit1 (num.Bit1 (num.Bit1 (num.Bit0 (m))))) = N7 # hexn m"
| "hexn (num.Bit0 (num.Bit0 (num.Bit0 (num.Bit1 (m))))) = N8 # hexn m"
| "hexn (num.Bit1 (num.Bit0 (num.Bit0 (num.Bit1 (m))))) = N9 # hexn m"
| "hexn (num.Bit0 (num.Bit1 (num.Bit0 (num.Bit1 (m))))) = NA # hexn m"
| "hexn (num.Bit1 (num.Bit1 (num.Bit0 (num.Bit1 (m))))) = NB # hexn m"
| "hexn (num.Bit0 (num.Bit0 (num.Bit1 (num.Bit1 (m))))) = NC # hexn m"
| "hexn (num.Bit1 (num.Bit0 (num.Bit1 (num.Bit1 (m))))) = ND # hexn m"
| "hexn (num.Bit0 (num.Bit1 (num.Bit1 (num.Bit1 (m))))) = NE # hexn m"
| "hexn (num.Bit1 (num.Bit1 (num.Bit1 (num.Bit1 (m))))) = NF # hexn m"
| "hexn num.One = [N1]"
| "hexn (num.Bit0 (num.One)) = [N2]"
| "hexn (num.Bit1 (num.One)) = [N3]"
| "hexn (num.Bit0 (num.Bit0 (num.One))) = [N4]"
| "hexn (num.Bit1 (num.Bit0 (num.One))) = [N5]"
| "hexn (num.Bit0 (num.Bit1 (num.One))) = [N6]"
| "hexn (num.Bit1 (num.Bit1 (num.One))) = [N7]"
| "hexn (num.Bit0 (num.Bit0 (num.Bit0 (num.One)))) = [N8]"
| "hexn (num.Bit1 (num.Bit0 (num.Bit0 (num.One)))) = [N9]"
| "hexn (num.Bit0 (num.Bit1 (num.Bit0 (num.One)))) = [NA]"
| "hexn (num.Bit1 (num.Bit1 (num.Bit0 (num.One)))) = [NB]"
| "hexn (num.Bit0 (num.Bit0 (num.Bit1 (num.One)))) = [NC]"
| "hexn (num.Bit1 (num.Bit0 (num.Bit1 (num.One)))) = [ND]"
| "hexn (num.Bit0 (num.Bit1 (num.Bit1 (num.One)))) = [NE]"
| "hexn (num.Bit1 (num.Bit1 (num.Bit1 (num.One)))) = [NF]"

lemma nv_range: "0 \<le> nv d" "nv d < 16"
  by (cases d; simp)+

lemma nv_dig: "0 \<le> n \<Longrightarrow> n < 16 \<Longrightarrow> nv (dig n) = n"
proof -
  assume "0 \<le> n" "n < 16"
  then have "n \<in> {0, 1, 2, 3, 4, 5, 6, 7, 8, 9, 10, 11, 12, 13, 14, 15}" by (simp, arith)
  then show ?thesis by (elim insertE) (simp_all add: dig_def)
qed

lemma hval_nonneg: "0 \<le> hval ds"
  by (induction ds) (simp_all add: nv_range)

lemma hval_hexn: "hval (hexn n) = numeral n"
proof -
  have "hval (hexn n) = int (nat_of_num n)" by (induction n rule: hexn.induct) simp_all
  then show ?thesis by (simp add: nat_of_num_numeral)
qed

section \<open>Addition\<close>

fun addc :: "bool \<Rightarrow> nib list \<Rightarrow> nib list \<Rightarrow> nib list" where
  "addc c (x # xs) (y # ys) = (let s = nv x + nv y + of_bool c in dig (s mod 16) # addc (16 \<le> s) xs ys)"
| "addc False [] ys = ys"
| "addc False xs [] = xs"
| "addc True [] [] = [N1]"
| "addc True [] (y # ys) = (if y = NF then N0 # addc True [] ys else dig (nv y + 1) # ys)"
| "addc True (x # xs) [] = (if x = NF then N0 # addc True xs [] else dig (nv x + 1) # xs)"

lemma nv_NF: "d \<noteq> NF \<Longrightarrow> nv d + 1 < 16"
  by (cases d) simp_all

lemma digit_sum: "0 \<le> s \<Longrightarrow> s < 32 \<Longrightarrow> s mod 16 + 16 * of_bool (16 \<le> s) = s" for s :: int
proof -
  assume "0 \<le> s" "s < 32"
  then have "s mod 16 = (if 16 \<le> s then s - 16 else s)" by presburger
  then show ?thesis by simp
qed

lemma hval_addc: "hval (addc c xs ys) = hval xs + hval ys + of_bool c"
proof (induction c xs ys rule: addc.induct)
  case (1 c x xs y ys)
  define s where "s = nv x + nv y + of_bool c"
  have s: "0 \<le> s" "s < 32" using nv_range [of x] nv_range [of y] by (simp_all add: s_def of_bool_def)
  have "hval (addc c (x # xs) (y # ys)) = s mod 16 + 16 * (hval xs + hval ys + of_bool (16 \<le> s))"
    using 1 by (simp add: nv_dig Let_def flip: s_def)
  also have "\<dots> = s + 16 * (hval xs + hval ys)" using digit_sum [OF s] by (simp only: distrib_left)
  finally show ?case by (simp add: s_def)
next
  case (5 y ys)
  then show ?case using nv_NF [of y] nv_range [of y] by (simp add: nv_dig)
next
  case (6 x xs)
  then show ?case using nv_NF [of x] nv_range [of x] by (simp add: nv_dig)
qed simp_all

lemma addc_False:
  "addc False (N0 # xs) (N0 # ys) = N0 # addc False xs ys"
  "addc False (N0 # xs) (N1 # ys) = N1 # addc False xs ys"
  "addc False (N0 # xs) (N2 # ys) = N2 # addc False xs ys"
  "addc False (N0 # xs) (N3 # ys) = N3 # addc False xs ys"
  "addc False (N0 # xs) (N4 # ys) = N4 # addc False xs ys"
  "addc False (N0 # xs) (N5 # ys) = N5 # addc False xs ys"
  "addc False (N0 # xs) (N6 # ys) = N6 # addc False xs ys"
  "addc False (N0 # xs) (N7 # ys) = N7 # addc False xs ys"
  "addc False (N0 # xs) (N8 # ys) = N8 # addc False xs ys"
  "addc False (N0 # xs) (N9 # ys) = N9 # addc False xs ys"
  "addc False (N0 # xs) (NA # ys) = NA # addc False xs ys"
  "addc False (N0 # xs) (NB # ys) = NB # addc False xs ys"
  "addc False (N0 # xs) (NC # ys) = NC # addc False xs ys"
  "addc False (N0 # xs) (ND # ys) = ND # addc False xs ys"
  "addc False (N0 # xs) (NE # ys) = NE # addc False xs ys"
  "addc False (N0 # xs) (NF # ys) = NF # addc False xs ys"
  "addc False (N1 # xs) (N0 # ys) = N1 # addc False xs ys"
  "addc False (N1 # xs) (N1 # ys) = N2 # addc False xs ys"
  "addc False (N1 # xs) (N2 # ys) = N3 # addc False xs ys"
  "addc False (N1 # xs) (N3 # ys) = N4 # addc False xs ys"
  "addc False (N1 # xs) (N4 # ys) = N5 # addc False xs ys"
  "addc False (N1 # xs) (N5 # ys) = N6 # addc False xs ys"
  "addc False (N1 # xs) (N6 # ys) = N7 # addc False xs ys"
  "addc False (N1 # xs) (N7 # ys) = N8 # addc False xs ys"
  "addc False (N1 # xs) (N8 # ys) = N9 # addc False xs ys"
  "addc False (N1 # xs) (N9 # ys) = NA # addc False xs ys"
  "addc False (N1 # xs) (NA # ys) = NB # addc False xs ys"
  "addc False (N1 # xs) (NB # ys) = NC # addc False xs ys"
  "addc False (N1 # xs) (NC # ys) = ND # addc False xs ys"
  "addc False (N1 # xs) (ND # ys) = NE # addc False xs ys"
  "addc False (N1 # xs) (NE # ys) = NF # addc False xs ys"
  "addc False (N1 # xs) (NF # ys) = N0 # addc True xs ys"
  "addc False (N2 # xs) (N0 # ys) = N2 # addc False xs ys"
  "addc False (N2 # xs) (N1 # ys) = N3 # addc False xs ys"
  "addc False (N2 # xs) (N2 # ys) = N4 # addc False xs ys"
  "addc False (N2 # xs) (N3 # ys) = N5 # addc False xs ys"
  "addc False (N2 # xs) (N4 # ys) = N6 # addc False xs ys"
  "addc False (N2 # xs) (N5 # ys) = N7 # addc False xs ys"
  "addc False (N2 # xs) (N6 # ys) = N8 # addc False xs ys"
  "addc False (N2 # xs) (N7 # ys) = N9 # addc False xs ys"
  "addc False (N2 # xs) (N8 # ys) = NA # addc False xs ys"
  "addc False (N2 # xs) (N9 # ys) = NB # addc False xs ys"
  "addc False (N2 # xs) (NA # ys) = NC # addc False xs ys"
  "addc False (N2 # xs) (NB # ys) = ND # addc False xs ys"
  "addc False (N2 # xs) (NC # ys) = NE # addc False xs ys"
  "addc False (N2 # xs) (ND # ys) = NF # addc False xs ys"
  "addc False (N2 # xs) (NE # ys) = N0 # addc True xs ys"
  "addc False (N2 # xs) (NF # ys) = N1 # addc True xs ys"
  "addc False (N3 # xs) (N0 # ys) = N3 # addc False xs ys"
  "addc False (N3 # xs) (N1 # ys) = N4 # addc False xs ys"
  "addc False (N3 # xs) (N2 # ys) = N5 # addc False xs ys"
  "addc False (N3 # xs) (N3 # ys) = N6 # addc False xs ys"
  "addc False (N3 # xs) (N4 # ys) = N7 # addc False xs ys"
  "addc False (N3 # xs) (N5 # ys) = N8 # addc False xs ys"
  "addc False (N3 # xs) (N6 # ys) = N9 # addc False xs ys"
  "addc False (N3 # xs) (N7 # ys) = NA # addc False xs ys"
  "addc False (N3 # xs) (N8 # ys) = NB # addc False xs ys"
  "addc False (N3 # xs) (N9 # ys) = NC # addc False xs ys"
  "addc False (N3 # xs) (NA # ys) = ND # addc False xs ys"
  "addc False (N3 # xs) (NB # ys) = NE # addc False xs ys"
  "addc False (N3 # xs) (NC # ys) = NF # addc False xs ys"
  "addc False (N3 # xs) (ND # ys) = N0 # addc True xs ys"
  "addc False (N3 # xs) (NE # ys) = N1 # addc True xs ys"
  "addc False (N3 # xs) (NF # ys) = N2 # addc True xs ys"
  "addc False (N4 # xs) (N0 # ys) = N4 # addc False xs ys"
  "addc False (N4 # xs) (N1 # ys) = N5 # addc False xs ys"
  "addc False (N4 # xs) (N2 # ys) = N6 # addc False xs ys"
  "addc False (N4 # xs) (N3 # ys) = N7 # addc False xs ys"
  "addc False (N4 # xs) (N4 # ys) = N8 # addc False xs ys"
  "addc False (N4 # xs) (N5 # ys) = N9 # addc False xs ys"
  "addc False (N4 # xs) (N6 # ys) = NA # addc False xs ys"
  "addc False (N4 # xs) (N7 # ys) = NB # addc False xs ys"
  "addc False (N4 # xs) (N8 # ys) = NC # addc False xs ys"
  "addc False (N4 # xs) (N9 # ys) = ND # addc False xs ys"
  "addc False (N4 # xs) (NA # ys) = NE # addc False xs ys"
  "addc False (N4 # xs) (NB # ys) = NF # addc False xs ys"
  "addc False (N4 # xs) (NC # ys) = N0 # addc True xs ys"
  "addc False (N4 # xs) (ND # ys) = N1 # addc True xs ys"
  "addc False (N4 # xs) (NE # ys) = N2 # addc True xs ys"
  "addc False (N4 # xs) (NF # ys) = N3 # addc True xs ys"
  "addc False (N5 # xs) (N0 # ys) = N5 # addc False xs ys"
  "addc False (N5 # xs) (N1 # ys) = N6 # addc False xs ys"
  "addc False (N5 # xs) (N2 # ys) = N7 # addc False xs ys"
  "addc False (N5 # xs) (N3 # ys) = N8 # addc False xs ys"
  "addc False (N5 # xs) (N4 # ys) = N9 # addc False xs ys"
  "addc False (N5 # xs) (N5 # ys) = NA # addc False xs ys"
  "addc False (N5 # xs) (N6 # ys) = NB # addc False xs ys"
  "addc False (N5 # xs) (N7 # ys) = NC # addc False xs ys"
  "addc False (N5 # xs) (N8 # ys) = ND # addc False xs ys"
  "addc False (N5 # xs) (N9 # ys) = NE # addc False xs ys"
  "addc False (N5 # xs) (NA # ys) = NF # addc False xs ys"
  "addc False (N5 # xs) (NB # ys) = N0 # addc True xs ys"
  "addc False (N5 # xs) (NC # ys) = N1 # addc True xs ys"
  "addc False (N5 # xs) (ND # ys) = N2 # addc True xs ys"
  "addc False (N5 # xs) (NE # ys) = N3 # addc True xs ys"
  "addc False (N5 # xs) (NF # ys) = N4 # addc True xs ys"
  "addc False (N6 # xs) (N0 # ys) = N6 # addc False xs ys"
  "addc False (N6 # xs) (N1 # ys) = N7 # addc False xs ys"
  "addc False (N6 # xs) (N2 # ys) = N8 # addc False xs ys"
  "addc False (N6 # xs) (N3 # ys) = N9 # addc False xs ys"
  "addc False (N6 # xs) (N4 # ys) = NA # addc False xs ys"
  "addc False (N6 # xs) (N5 # ys) = NB # addc False xs ys"
  "addc False (N6 # xs) (N6 # ys) = NC # addc False xs ys"
  "addc False (N6 # xs) (N7 # ys) = ND # addc False xs ys"
  "addc False (N6 # xs) (N8 # ys) = NE # addc False xs ys"
  "addc False (N6 # xs) (N9 # ys) = NF # addc False xs ys"
  "addc False (N6 # xs) (NA # ys) = N0 # addc True xs ys"
  "addc False (N6 # xs) (NB # ys) = N1 # addc True xs ys"
  "addc False (N6 # xs) (NC # ys) = N2 # addc True xs ys"
  "addc False (N6 # xs) (ND # ys) = N3 # addc True xs ys"
  "addc False (N6 # xs) (NE # ys) = N4 # addc True xs ys"
  "addc False (N6 # xs) (NF # ys) = N5 # addc True xs ys"
  "addc False (N7 # xs) (N0 # ys) = N7 # addc False xs ys"
  "addc False (N7 # xs) (N1 # ys) = N8 # addc False xs ys"
  "addc False (N7 # xs) (N2 # ys) = N9 # addc False xs ys"
  "addc False (N7 # xs) (N3 # ys) = NA # addc False xs ys"
  "addc False (N7 # xs) (N4 # ys) = NB # addc False xs ys"
  "addc False (N7 # xs) (N5 # ys) = NC # addc False xs ys"
  "addc False (N7 # xs) (N6 # ys) = ND # addc False xs ys"
  "addc False (N7 # xs) (N7 # ys) = NE # addc False xs ys"
  "addc False (N7 # xs) (N8 # ys) = NF # addc False xs ys"
  "addc False (N7 # xs) (N9 # ys) = N0 # addc True xs ys"
  "addc False (N7 # xs) (NA # ys) = N1 # addc True xs ys"
  "addc False (N7 # xs) (NB # ys) = N2 # addc True xs ys"
  "addc False (N7 # xs) (NC # ys) = N3 # addc True xs ys"
  "addc False (N7 # xs) (ND # ys) = N4 # addc True xs ys"
  "addc False (N7 # xs) (NE # ys) = N5 # addc True xs ys"
  "addc False (N7 # xs) (NF # ys) = N6 # addc True xs ys"
  "addc False (N8 # xs) (N0 # ys) = N8 # addc False xs ys"
  "addc False (N8 # xs) (N1 # ys) = N9 # addc False xs ys"
  "addc False (N8 # xs) (N2 # ys) = NA # addc False xs ys"
  "addc False (N8 # xs) (N3 # ys) = NB # addc False xs ys"
  "addc False (N8 # xs) (N4 # ys) = NC # addc False xs ys"
  "addc False (N8 # xs) (N5 # ys) = ND # addc False xs ys"
  "addc False (N8 # xs) (N6 # ys) = NE # addc False xs ys"
  "addc False (N8 # xs) (N7 # ys) = NF # addc False xs ys"
  "addc False (N8 # xs) (N8 # ys) = N0 # addc True xs ys"
  "addc False (N8 # xs) (N9 # ys) = N1 # addc True xs ys"
  "addc False (N8 # xs) (NA # ys) = N2 # addc True xs ys"
  "addc False (N8 # xs) (NB # ys) = N3 # addc True xs ys"
  "addc False (N8 # xs) (NC # ys) = N4 # addc True xs ys"
  "addc False (N8 # xs) (ND # ys) = N5 # addc True xs ys"
  "addc False (N8 # xs) (NE # ys) = N6 # addc True xs ys"
  "addc False (N8 # xs) (NF # ys) = N7 # addc True xs ys"
  "addc False (N9 # xs) (N0 # ys) = N9 # addc False xs ys"
  "addc False (N9 # xs) (N1 # ys) = NA # addc False xs ys"
  "addc False (N9 # xs) (N2 # ys) = NB # addc False xs ys"
  "addc False (N9 # xs) (N3 # ys) = NC # addc False xs ys"
  "addc False (N9 # xs) (N4 # ys) = ND # addc False xs ys"
  "addc False (N9 # xs) (N5 # ys) = NE # addc False xs ys"
  "addc False (N9 # xs) (N6 # ys) = NF # addc False xs ys"
  "addc False (N9 # xs) (N7 # ys) = N0 # addc True xs ys"
  "addc False (N9 # xs) (N8 # ys) = N1 # addc True xs ys"
  "addc False (N9 # xs) (N9 # ys) = N2 # addc True xs ys"
  "addc False (N9 # xs) (NA # ys) = N3 # addc True xs ys"
  "addc False (N9 # xs) (NB # ys) = N4 # addc True xs ys"
  "addc False (N9 # xs) (NC # ys) = N5 # addc True xs ys"
  "addc False (N9 # xs) (ND # ys) = N6 # addc True xs ys"
  "addc False (N9 # xs) (NE # ys) = N7 # addc True xs ys"
  "addc False (N9 # xs) (NF # ys) = N8 # addc True xs ys"
  "addc False (NA # xs) (N0 # ys) = NA # addc False xs ys"
  "addc False (NA # xs) (N1 # ys) = NB # addc False xs ys"
  "addc False (NA # xs) (N2 # ys) = NC # addc False xs ys"
  "addc False (NA # xs) (N3 # ys) = ND # addc False xs ys"
  "addc False (NA # xs) (N4 # ys) = NE # addc False xs ys"
  "addc False (NA # xs) (N5 # ys) = NF # addc False xs ys"
  "addc False (NA # xs) (N6 # ys) = N0 # addc True xs ys"
  "addc False (NA # xs) (N7 # ys) = N1 # addc True xs ys"
  "addc False (NA # xs) (N8 # ys) = N2 # addc True xs ys"
  "addc False (NA # xs) (N9 # ys) = N3 # addc True xs ys"
  "addc False (NA # xs) (NA # ys) = N4 # addc True xs ys"
  "addc False (NA # xs) (NB # ys) = N5 # addc True xs ys"
  "addc False (NA # xs) (NC # ys) = N6 # addc True xs ys"
  "addc False (NA # xs) (ND # ys) = N7 # addc True xs ys"
  "addc False (NA # xs) (NE # ys) = N8 # addc True xs ys"
  "addc False (NA # xs) (NF # ys) = N9 # addc True xs ys"
  "addc False (NB # xs) (N0 # ys) = NB # addc False xs ys"
  "addc False (NB # xs) (N1 # ys) = NC # addc False xs ys"
  "addc False (NB # xs) (N2 # ys) = ND # addc False xs ys"
  "addc False (NB # xs) (N3 # ys) = NE # addc False xs ys"
  "addc False (NB # xs) (N4 # ys) = NF # addc False xs ys"
  "addc False (NB # xs) (N5 # ys) = N0 # addc True xs ys"
  "addc False (NB # xs) (N6 # ys) = N1 # addc True xs ys"
  "addc False (NB # xs) (N7 # ys) = N2 # addc True xs ys"
  "addc False (NB # xs) (N8 # ys) = N3 # addc True xs ys"
  "addc False (NB # xs) (N9 # ys) = N4 # addc True xs ys"
  "addc False (NB # xs) (NA # ys) = N5 # addc True xs ys"
  "addc False (NB # xs) (NB # ys) = N6 # addc True xs ys"
  "addc False (NB # xs) (NC # ys) = N7 # addc True xs ys"
  "addc False (NB # xs) (ND # ys) = N8 # addc True xs ys"
  "addc False (NB # xs) (NE # ys) = N9 # addc True xs ys"
  "addc False (NB # xs) (NF # ys) = NA # addc True xs ys"
  "addc False (NC # xs) (N0 # ys) = NC # addc False xs ys"
  "addc False (NC # xs) (N1 # ys) = ND # addc False xs ys"
  "addc False (NC # xs) (N2 # ys) = NE # addc False xs ys"
  "addc False (NC # xs) (N3 # ys) = NF # addc False xs ys"
  "addc False (NC # xs) (N4 # ys) = N0 # addc True xs ys"
  "addc False (NC # xs) (N5 # ys) = N1 # addc True xs ys"
  "addc False (NC # xs) (N6 # ys) = N2 # addc True xs ys"
  "addc False (NC # xs) (N7 # ys) = N3 # addc True xs ys"
  "addc False (NC # xs) (N8 # ys) = N4 # addc True xs ys"
  "addc False (NC # xs) (N9 # ys) = N5 # addc True xs ys"
  "addc False (NC # xs) (NA # ys) = N6 # addc True xs ys"
  "addc False (NC # xs) (NB # ys) = N7 # addc True xs ys"
  "addc False (NC # xs) (NC # ys) = N8 # addc True xs ys"
  "addc False (NC # xs) (ND # ys) = N9 # addc True xs ys"
  "addc False (NC # xs) (NE # ys) = NA # addc True xs ys"
  "addc False (NC # xs) (NF # ys) = NB # addc True xs ys"
  "addc False (ND # xs) (N0 # ys) = ND # addc False xs ys"
  "addc False (ND # xs) (N1 # ys) = NE # addc False xs ys"
  "addc False (ND # xs) (N2 # ys) = NF # addc False xs ys"
  "addc False (ND # xs) (N3 # ys) = N0 # addc True xs ys"
  "addc False (ND # xs) (N4 # ys) = N1 # addc True xs ys"
  "addc False (ND # xs) (N5 # ys) = N2 # addc True xs ys"
  "addc False (ND # xs) (N6 # ys) = N3 # addc True xs ys"
  "addc False (ND # xs) (N7 # ys) = N4 # addc True xs ys"
  "addc False (ND # xs) (N8 # ys) = N5 # addc True xs ys"
  "addc False (ND # xs) (N9 # ys) = N6 # addc True xs ys"
  "addc False (ND # xs) (NA # ys) = N7 # addc True xs ys"
  "addc False (ND # xs) (NB # ys) = N8 # addc True xs ys"
  "addc False (ND # xs) (NC # ys) = N9 # addc True xs ys"
  "addc False (ND # xs) (ND # ys) = NA # addc True xs ys"
  "addc False (ND # xs) (NE # ys) = NB # addc True xs ys"
  "addc False (ND # xs) (NF # ys) = NC # addc True xs ys"
  "addc False (NE # xs) (N0 # ys) = NE # addc False xs ys"
  "addc False (NE # xs) (N1 # ys) = NF # addc False xs ys"
  "addc False (NE # xs) (N2 # ys) = N0 # addc True xs ys"
  "addc False (NE # xs) (N3 # ys) = N1 # addc True xs ys"
  "addc False (NE # xs) (N4 # ys) = N2 # addc True xs ys"
  "addc False (NE # xs) (N5 # ys) = N3 # addc True xs ys"
  "addc False (NE # xs) (N6 # ys) = N4 # addc True xs ys"
  "addc False (NE # xs) (N7 # ys) = N5 # addc True xs ys"
  "addc False (NE # xs) (N8 # ys) = N6 # addc True xs ys"
  "addc False (NE # xs) (N9 # ys) = N7 # addc True xs ys"
  "addc False (NE # xs) (NA # ys) = N8 # addc True xs ys"
  "addc False (NE # xs) (NB # ys) = N9 # addc True xs ys"
  "addc False (NE # xs) (NC # ys) = NA # addc True xs ys"
  "addc False (NE # xs) (ND # ys) = NB # addc True xs ys"
  "addc False (NE # xs) (NE # ys) = NC # addc True xs ys"
  "addc False (NE # xs) (NF # ys) = ND # addc True xs ys"
  "addc False (NF # xs) (N0 # ys) = NF # addc False xs ys"
  "addc False (NF # xs) (N1 # ys) = N0 # addc True xs ys"
  "addc False (NF # xs) (N2 # ys) = N1 # addc True xs ys"
  "addc False (NF # xs) (N3 # ys) = N2 # addc True xs ys"
  "addc False (NF # xs) (N4 # ys) = N3 # addc True xs ys"
  "addc False (NF # xs) (N5 # ys) = N4 # addc True xs ys"
  "addc False (NF # xs) (N6 # ys) = N5 # addc True xs ys"
  "addc False (NF # xs) (N7 # ys) = N6 # addc True xs ys"
  "addc False (NF # xs) (N8 # ys) = N7 # addc True xs ys"
  "addc False (NF # xs) (N9 # ys) = N8 # addc True xs ys"
  "addc False (NF # xs) (NA # ys) = N9 # addc True xs ys"
  "addc False (NF # xs) (NB # ys) = NA # addc True xs ys"
  "addc False (NF # xs) (NC # ys) = NB # addc True xs ys"
  "addc False (NF # xs) (ND # ys) = NC # addc True xs ys"
  "addc False (NF # xs) (NE # ys) = ND # addc True xs ys"
  "addc False (NF # xs) (NF # ys) = NE # addc True xs ys"
  by (simp_all add: dig_def)

lemma addc_True:
  "addc True (N0 # xs) (N0 # ys) = N1 # addc False xs ys"
  "addc True (N0 # xs) (N1 # ys) = N2 # addc False xs ys"
  "addc True (N0 # xs) (N2 # ys) = N3 # addc False xs ys"
  "addc True (N0 # xs) (N3 # ys) = N4 # addc False xs ys"
  "addc True (N0 # xs) (N4 # ys) = N5 # addc False xs ys"
  "addc True (N0 # xs) (N5 # ys) = N6 # addc False xs ys"
  "addc True (N0 # xs) (N6 # ys) = N7 # addc False xs ys"
  "addc True (N0 # xs) (N7 # ys) = N8 # addc False xs ys"
  "addc True (N0 # xs) (N8 # ys) = N9 # addc False xs ys"
  "addc True (N0 # xs) (N9 # ys) = NA # addc False xs ys"
  "addc True (N0 # xs) (NA # ys) = NB # addc False xs ys"
  "addc True (N0 # xs) (NB # ys) = NC # addc False xs ys"
  "addc True (N0 # xs) (NC # ys) = ND # addc False xs ys"
  "addc True (N0 # xs) (ND # ys) = NE # addc False xs ys"
  "addc True (N0 # xs) (NE # ys) = NF # addc False xs ys"
  "addc True (N0 # xs) (NF # ys) = N0 # addc True xs ys"
  "addc True (N1 # xs) (N0 # ys) = N2 # addc False xs ys"
  "addc True (N1 # xs) (N1 # ys) = N3 # addc False xs ys"
  "addc True (N1 # xs) (N2 # ys) = N4 # addc False xs ys"
  "addc True (N1 # xs) (N3 # ys) = N5 # addc False xs ys"
  "addc True (N1 # xs) (N4 # ys) = N6 # addc False xs ys"
  "addc True (N1 # xs) (N5 # ys) = N7 # addc False xs ys"
  "addc True (N1 # xs) (N6 # ys) = N8 # addc False xs ys"
  "addc True (N1 # xs) (N7 # ys) = N9 # addc False xs ys"
  "addc True (N1 # xs) (N8 # ys) = NA # addc False xs ys"
  "addc True (N1 # xs) (N9 # ys) = NB # addc False xs ys"
  "addc True (N1 # xs) (NA # ys) = NC # addc False xs ys"
  "addc True (N1 # xs) (NB # ys) = ND # addc False xs ys"
  "addc True (N1 # xs) (NC # ys) = NE # addc False xs ys"
  "addc True (N1 # xs) (ND # ys) = NF # addc False xs ys"
  "addc True (N1 # xs) (NE # ys) = N0 # addc True xs ys"
  "addc True (N1 # xs) (NF # ys) = N1 # addc True xs ys"
  "addc True (N2 # xs) (N0 # ys) = N3 # addc False xs ys"
  "addc True (N2 # xs) (N1 # ys) = N4 # addc False xs ys"
  "addc True (N2 # xs) (N2 # ys) = N5 # addc False xs ys"
  "addc True (N2 # xs) (N3 # ys) = N6 # addc False xs ys"
  "addc True (N2 # xs) (N4 # ys) = N7 # addc False xs ys"
  "addc True (N2 # xs) (N5 # ys) = N8 # addc False xs ys"
  "addc True (N2 # xs) (N6 # ys) = N9 # addc False xs ys"
  "addc True (N2 # xs) (N7 # ys) = NA # addc False xs ys"
  "addc True (N2 # xs) (N8 # ys) = NB # addc False xs ys"
  "addc True (N2 # xs) (N9 # ys) = NC # addc False xs ys"
  "addc True (N2 # xs) (NA # ys) = ND # addc False xs ys"
  "addc True (N2 # xs) (NB # ys) = NE # addc False xs ys"
  "addc True (N2 # xs) (NC # ys) = NF # addc False xs ys"
  "addc True (N2 # xs) (ND # ys) = N0 # addc True xs ys"
  "addc True (N2 # xs) (NE # ys) = N1 # addc True xs ys"
  "addc True (N2 # xs) (NF # ys) = N2 # addc True xs ys"
  "addc True (N3 # xs) (N0 # ys) = N4 # addc False xs ys"
  "addc True (N3 # xs) (N1 # ys) = N5 # addc False xs ys"
  "addc True (N3 # xs) (N2 # ys) = N6 # addc False xs ys"
  "addc True (N3 # xs) (N3 # ys) = N7 # addc False xs ys"
  "addc True (N3 # xs) (N4 # ys) = N8 # addc False xs ys"
  "addc True (N3 # xs) (N5 # ys) = N9 # addc False xs ys"
  "addc True (N3 # xs) (N6 # ys) = NA # addc False xs ys"
  "addc True (N3 # xs) (N7 # ys) = NB # addc False xs ys"
  "addc True (N3 # xs) (N8 # ys) = NC # addc False xs ys"
  "addc True (N3 # xs) (N9 # ys) = ND # addc False xs ys"
  "addc True (N3 # xs) (NA # ys) = NE # addc False xs ys"
  "addc True (N3 # xs) (NB # ys) = NF # addc False xs ys"
  "addc True (N3 # xs) (NC # ys) = N0 # addc True xs ys"
  "addc True (N3 # xs) (ND # ys) = N1 # addc True xs ys"
  "addc True (N3 # xs) (NE # ys) = N2 # addc True xs ys"
  "addc True (N3 # xs) (NF # ys) = N3 # addc True xs ys"
  "addc True (N4 # xs) (N0 # ys) = N5 # addc False xs ys"
  "addc True (N4 # xs) (N1 # ys) = N6 # addc False xs ys"
  "addc True (N4 # xs) (N2 # ys) = N7 # addc False xs ys"
  "addc True (N4 # xs) (N3 # ys) = N8 # addc False xs ys"
  "addc True (N4 # xs) (N4 # ys) = N9 # addc False xs ys"
  "addc True (N4 # xs) (N5 # ys) = NA # addc False xs ys"
  "addc True (N4 # xs) (N6 # ys) = NB # addc False xs ys"
  "addc True (N4 # xs) (N7 # ys) = NC # addc False xs ys"
  "addc True (N4 # xs) (N8 # ys) = ND # addc False xs ys"
  "addc True (N4 # xs) (N9 # ys) = NE # addc False xs ys"
  "addc True (N4 # xs) (NA # ys) = NF # addc False xs ys"
  "addc True (N4 # xs) (NB # ys) = N0 # addc True xs ys"
  "addc True (N4 # xs) (NC # ys) = N1 # addc True xs ys"
  "addc True (N4 # xs) (ND # ys) = N2 # addc True xs ys"
  "addc True (N4 # xs) (NE # ys) = N3 # addc True xs ys"
  "addc True (N4 # xs) (NF # ys) = N4 # addc True xs ys"
  "addc True (N5 # xs) (N0 # ys) = N6 # addc False xs ys"
  "addc True (N5 # xs) (N1 # ys) = N7 # addc False xs ys"
  "addc True (N5 # xs) (N2 # ys) = N8 # addc False xs ys"
  "addc True (N5 # xs) (N3 # ys) = N9 # addc False xs ys"
  "addc True (N5 # xs) (N4 # ys) = NA # addc False xs ys"
  "addc True (N5 # xs) (N5 # ys) = NB # addc False xs ys"
  "addc True (N5 # xs) (N6 # ys) = NC # addc False xs ys"
  "addc True (N5 # xs) (N7 # ys) = ND # addc False xs ys"
  "addc True (N5 # xs) (N8 # ys) = NE # addc False xs ys"
  "addc True (N5 # xs) (N9 # ys) = NF # addc False xs ys"
  "addc True (N5 # xs) (NA # ys) = N0 # addc True xs ys"
  "addc True (N5 # xs) (NB # ys) = N1 # addc True xs ys"
  "addc True (N5 # xs) (NC # ys) = N2 # addc True xs ys"
  "addc True (N5 # xs) (ND # ys) = N3 # addc True xs ys"
  "addc True (N5 # xs) (NE # ys) = N4 # addc True xs ys"
  "addc True (N5 # xs) (NF # ys) = N5 # addc True xs ys"
  "addc True (N6 # xs) (N0 # ys) = N7 # addc False xs ys"
  "addc True (N6 # xs) (N1 # ys) = N8 # addc False xs ys"
  "addc True (N6 # xs) (N2 # ys) = N9 # addc False xs ys"
  "addc True (N6 # xs) (N3 # ys) = NA # addc False xs ys"
  "addc True (N6 # xs) (N4 # ys) = NB # addc False xs ys"
  "addc True (N6 # xs) (N5 # ys) = NC # addc False xs ys"
  "addc True (N6 # xs) (N6 # ys) = ND # addc False xs ys"
  "addc True (N6 # xs) (N7 # ys) = NE # addc False xs ys"
  "addc True (N6 # xs) (N8 # ys) = NF # addc False xs ys"
  "addc True (N6 # xs) (N9 # ys) = N0 # addc True xs ys"
  "addc True (N6 # xs) (NA # ys) = N1 # addc True xs ys"
  "addc True (N6 # xs) (NB # ys) = N2 # addc True xs ys"
  "addc True (N6 # xs) (NC # ys) = N3 # addc True xs ys"
  "addc True (N6 # xs) (ND # ys) = N4 # addc True xs ys"
  "addc True (N6 # xs) (NE # ys) = N5 # addc True xs ys"
  "addc True (N6 # xs) (NF # ys) = N6 # addc True xs ys"
  "addc True (N7 # xs) (N0 # ys) = N8 # addc False xs ys"
  "addc True (N7 # xs) (N1 # ys) = N9 # addc False xs ys"
  "addc True (N7 # xs) (N2 # ys) = NA # addc False xs ys"
  "addc True (N7 # xs) (N3 # ys) = NB # addc False xs ys"
  "addc True (N7 # xs) (N4 # ys) = NC # addc False xs ys"
  "addc True (N7 # xs) (N5 # ys) = ND # addc False xs ys"
  "addc True (N7 # xs) (N6 # ys) = NE # addc False xs ys"
  "addc True (N7 # xs) (N7 # ys) = NF # addc False xs ys"
  "addc True (N7 # xs) (N8 # ys) = N0 # addc True xs ys"
  "addc True (N7 # xs) (N9 # ys) = N1 # addc True xs ys"
  "addc True (N7 # xs) (NA # ys) = N2 # addc True xs ys"
  "addc True (N7 # xs) (NB # ys) = N3 # addc True xs ys"
  "addc True (N7 # xs) (NC # ys) = N4 # addc True xs ys"
  "addc True (N7 # xs) (ND # ys) = N5 # addc True xs ys"
  "addc True (N7 # xs) (NE # ys) = N6 # addc True xs ys"
  "addc True (N7 # xs) (NF # ys) = N7 # addc True xs ys"
  "addc True (N8 # xs) (N0 # ys) = N9 # addc False xs ys"
  "addc True (N8 # xs) (N1 # ys) = NA # addc False xs ys"
  "addc True (N8 # xs) (N2 # ys) = NB # addc False xs ys"
  "addc True (N8 # xs) (N3 # ys) = NC # addc False xs ys"
  "addc True (N8 # xs) (N4 # ys) = ND # addc False xs ys"
  "addc True (N8 # xs) (N5 # ys) = NE # addc False xs ys"
  "addc True (N8 # xs) (N6 # ys) = NF # addc False xs ys"
  "addc True (N8 # xs) (N7 # ys) = N0 # addc True xs ys"
  "addc True (N8 # xs) (N8 # ys) = N1 # addc True xs ys"
  "addc True (N8 # xs) (N9 # ys) = N2 # addc True xs ys"
  "addc True (N8 # xs) (NA # ys) = N3 # addc True xs ys"
  "addc True (N8 # xs) (NB # ys) = N4 # addc True xs ys"
  "addc True (N8 # xs) (NC # ys) = N5 # addc True xs ys"
  "addc True (N8 # xs) (ND # ys) = N6 # addc True xs ys"
  "addc True (N8 # xs) (NE # ys) = N7 # addc True xs ys"
  "addc True (N8 # xs) (NF # ys) = N8 # addc True xs ys"
  "addc True (N9 # xs) (N0 # ys) = NA # addc False xs ys"
  "addc True (N9 # xs) (N1 # ys) = NB # addc False xs ys"
  "addc True (N9 # xs) (N2 # ys) = NC # addc False xs ys"
  "addc True (N9 # xs) (N3 # ys) = ND # addc False xs ys"
  "addc True (N9 # xs) (N4 # ys) = NE # addc False xs ys"
  "addc True (N9 # xs) (N5 # ys) = NF # addc False xs ys"
  "addc True (N9 # xs) (N6 # ys) = N0 # addc True xs ys"
  "addc True (N9 # xs) (N7 # ys) = N1 # addc True xs ys"
  "addc True (N9 # xs) (N8 # ys) = N2 # addc True xs ys"
  "addc True (N9 # xs) (N9 # ys) = N3 # addc True xs ys"
  "addc True (N9 # xs) (NA # ys) = N4 # addc True xs ys"
  "addc True (N9 # xs) (NB # ys) = N5 # addc True xs ys"
  "addc True (N9 # xs) (NC # ys) = N6 # addc True xs ys"
  "addc True (N9 # xs) (ND # ys) = N7 # addc True xs ys"
  "addc True (N9 # xs) (NE # ys) = N8 # addc True xs ys"
  "addc True (N9 # xs) (NF # ys) = N9 # addc True xs ys"
  "addc True (NA # xs) (N0 # ys) = NB # addc False xs ys"
  "addc True (NA # xs) (N1 # ys) = NC # addc False xs ys"
  "addc True (NA # xs) (N2 # ys) = ND # addc False xs ys"
  "addc True (NA # xs) (N3 # ys) = NE # addc False xs ys"
  "addc True (NA # xs) (N4 # ys) = NF # addc False xs ys"
  "addc True (NA # xs) (N5 # ys) = N0 # addc True xs ys"
  "addc True (NA # xs) (N6 # ys) = N1 # addc True xs ys"
  "addc True (NA # xs) (N7 # ys) = N2 # addc True xs ys"
  "addc True (NA # xs) (N8 # ys) = N3 # addc True xs ys"
  "addc True (NA # xs) (N9 # ys) = N4 # addc True xs ys"
  "addc True (NA # xs) (NA # ys) = N5 # addc True xs ys"
  "addc True (NA # xs) (NB # ys) = N6 # addc True xs ys"
  "addc True (NA # xs) (NC # ys) = N7 # addc True xs ys"
  "addc True (NA # xs) (ND # ys) = N8 # addc True xs ys"
  "addc True (NA # xs) (NE # ys) = N9 # addc True xs ys"
  "addc True (NA # xs) (NF # ys) = NA # addc True xs ys"
  "addc True (NB # xs) (N0 # ys) = NC # addc False xs ys"
  "addc True (NB # xs) (N1 # ys) = ND # addc False xs ys"
  "addc True (NB # xs) (N2 # ys) = NE # addc False xs ys"
  "addc True (NB # xs) (N3 # ys) = NF # addc False xs ys"
  "addc True (NB # xs) (N4 # ys) = N0 # addc True xs ys"
  "addc True (NB # xs) (N5 # ys) = N1 # addc True xs ys"
  "addc True (NB # xs) (N6 # ys) = N2 # addc True xs ys"
  "addc True (NB # xs) (N7 # ys) = N3 # addc True xs ys"
  "addc True (NB # xs) (N8 # ys) = N4 # addc True xs ys"
  "addc True (NB # xs) (N9 # ys) = N5 # addc True xs ys"
  "addc True (NB # xs) (NA # ys) = N6 # addc True xs ys"
  "addc True (NB # xs) (NB # ys) = N7 # addc True xs ys"
  "addc True (NB # xs) (NC # ys) = N8 # addc True xs ys"
  "addc True (NB # xs) (ND # ys) = N9 # addc True xs ys"
  "addc True (NB # xs) (NE # ys) = NA # addc True xs ys"
  "addc True (NB # xs) (NF # ys) = NB # addc True xs ys"
  "addc True (NC # xs) (N0 # ys) = ND # addc False xs ys"
  "addc True (NC # xs) (N1 # ys) = NE # addc False xs ys"
  "addc True (NC # xs) (N2 # ys) = NF # addc False xs ys"
  "addc True (NC # xs) (N3 # ys) = N0 # addc True xs ys"
  "addc True (NC # xs) (N4 # ys) = N1 # addc True xs ys"
  "addc True (NC # xs) (N5 # ys) = N2 # addc True xs ys"
  "addc True (NC # xs) (N6 # ys) = N3 # addc True xs ys"
  "addc True (NC # xs) (N7 # ys) = N4 # addc True xs ys"
  "addc True (NC # xs) (N8 # ys) = N5 # addc True xs ys"
  "addc True (NC # xs) (N9 # ys) = N6 # addc True xs ys"
  "addc True (NC # xs) (NA # ys) = N7 # addc True xs ys"
  "addc True (NC # xs) (NB # ys) = N8 # addc True xs ys"
  "addc True (NC # xs) (NC # ys) = N9 # addc True xs ys"
  "addc True (NC # xs) (ND # ys) = NA # addc True xs ys"
  "addc True (NC # xs) (NE # ys) = NB # addc True xs ys"
  "addc True (NC # xs) (NF # ys) = NC # addc True xs ys"
  "addc True (ND # xs) (N0 # ys) = NE # addc False xs ys"
  "addc True (ND # xs) (N1 # ys) = NF # addc False xs ys"
  "addc True (ND # xs) (N2 # ys) = N0 # addc True xs ys"
  "addc True (ND # xs) (N3 # ys) = N1 # addc True xs ys"
  "addc True (ND # xs) (N4 # ys) = N2 # addc True xs ys"
  "addc True (ND # xs) (N5 # ys) = N3 # addc True xs ys"
  "addc True (ND # xs) (N6 # ys) = N4 # addc True xs ys"
  "addc True (ND # xs) (N7 # ys) = N5 # addc True xs ys"
  "addc True (ND # xs) (N8 # ys) = N6 # addc True xs ys"
  "addc True (ND # xs) (N9 # ys) = N7 # addc True xs ys"
  "addc True (ND # xs) (NA # ys) = N8 # addc True xs ys"
  "addc True (ND # xs) (NB # ys) = N9 # addc True xs ys"
  "addc True (ND # xs) (NC # ys) = NA # addc True xs ys"
  "addc True (ND # xs) (ND # ys) = NB # addc True xs ys"
  "addc True (ND # xs) (NE # ys) = NC # addc True xs ys"
  "addc True (ND # xs) (NF # ys) = ND # addc True xs ys"
  "addc True (NE # xs) (N0 # ys) = NF # addc False xs ys"
  "addc True (NE # xs) (N1 # ys) = N0 # addc True xs ys"
  "addc True (NE # xs) (N2 # ys) = N1 # addc True xs ys"
  "addc True (NE # xs) (N3 # ys) = N2 # addc True xs ys"
  "addc True (NE # xs) (N4 # ys) = N3 # addc True xs ys"
  "addc True (NE # xs) (N5 # ys) = N4 # addc True xs ys"
  "addc True (NE # xs) (N6 # ys) = N5 # addc True xs ys"
  "addc True (NE # xs) (N7 # ys) = N6 # addc True xs ys"
  "addc True (NE # xs) (N8 # ys) = N7 # addc True xs ys"
  "addc True (NE # xs) (N9 # ys) = N8 # addc True xs ys"
  "addc True (NE # xs) (NA # ys) = N9 # addc True xs ys"
  "addc True (NE # xs) (NB # ys) = NA # addc True xs ys"
  "addc True (NE # xs) (NC # ys) = NB # addc True xs ys"
  "addc True (NE # xs) (ND # ys) = NC # addc True xs ys"
  "addc True (NE # xs) (NE # ys) = ND # addc True xs ys"
  "addc True (NE # xs) (NF # ys) = NE # addc True xs ys"
  "addc True (NF # xs) (N0 # ys) = N0 # addc True xs ys"
  "addc True (NF # xs) (N1 # ys) = N1 # addc True xs ys"
  "addc True (NF # xs) (N2 # ys) = N2 # addc True xs ys"
  "addc True (NF # xs) (N3 # ys) = N3 # addc True xs ys"
  "addc True (NF # xs) (N4 # ys) = N4 # addc True xs ys"
  "addc True (NF # xs) (N5 # ys) = N5 # addc True xs ys"
  "addc True (NF # xs) (N6 # ys) = N6 # addc True xs ys"
  "addc True (NF # xs) (N7 # ys) = N7 # addc True xs ys"
  "addc True (NF # xs) (N8 # ys) = N8 # addc True xs ys"
  "addc True (NF # xs) (N9 # ys) = N9 # addc True xs ys"
  "addc True (NF # xs) (NA # ys) = NA # addc True xs ys"
  "addc True (NF # xs) (NB # ys) = NB # addc True xs ys"
  "addc True (NF # xs) (NC # ys) = NC # addc True xs ys"
  "addc True (NF # xs) (ND # ys) = ND # addc True xs ys"
  "addc True (NF # xs) (NE # ys) = NE # addc True xs ys"
  "addc True (NF # xs) (NF # ys) = NF # addc True xs ys"
  by (simp_all add: dig_def)

lemma addc_carry:
  "addc True [] (N0 # ys) = N1 # ys"
  "addc True (N0 # ys) [] = N1 # ys"
  "addc True [] (N1 # ys) = N2 # ys"
  "addc True (N1 # ys) [] = N2 # ys"
  "addc True [] (N2 # ys) = N3 # ys"
  "addc True (N2 # ys) [] = N3 # ys"
  "addc True [] (N3 # ys) = N4 # ys"
  "addc True (N3 # ys) [] = N4 # ys"
  "addc True [] (N4 # ys) = N5 # ys"
  "addc True (N4 # ys) [] = N5 # ys"
  "addc True [] (N5 # ys) = N6 # ys"
  "addc True (N5 # ys) [] = N6 # ys"
  "addc True [] (N6 # ys) = N7 # ys"
  "addc True (N6 # ys) [] = N7 # ys"
  "addc True [] (N7 # ys) = N8 # ys"
  "addc True (N7 # ys) [] = N8 # ys"
  "addc True [] (N8 # ys) = N9 # ys"
  "addc True (N8 # ys) [] = N9 # ys"
  "addc True [] (N9 # ys) = NA # ys"
  "addc True (N9 # ys) [] = NA # ys"
  "addc True [] (NA # ys) = NB # ys"
  "addc True (NA # ys) [] = NB # ys"
  "addc True [] (NB # ys) = NC # ys"
  "addc True (NB # ys) [] = NC # ys"
  "addc True [] (NC # ys) = ND # ys"
  "addc True (NC # ys) [] = ND # ys"
  "addc True [] (ND # ys) = NE # ys"
  "addc True (ND # ys) [] = NE # ys"
  "addc True [] (NE # ys) = NF # ys"
  "addc True (NE # ys) [] = NF # ys"
  "addc True [] (NF # ys) = N0 # addc True [] ys"
  "addc True (NF # ys) [] = N0 # addc True ys []"
  by (simp_all add: dig_def)

lemma addc_Nil: "addc False [] ys = ys" "addc False xs [] = xs" "addc True [] [] = [N1]"
  by simp_all (cases xs; simp)

lemmas addc_rules = addc_False addc_True addc_carry addc_Nil

section \<open>Multiplication\<close>

text \<open>The multiples of a number by the digits.\<close>

datatype multiples = Multiples "nib list" "nib list" "nib list" "nib list" "nib list" "nib list" "nib list" "nib list" "nib list" "nib list" "nib list" "nib list" "nib list" "nib list" "nib list"

fun multiple :: "multiples \<Rightarrow> nib \<Rightarrow> nib list" where
  "multiple (Multiples b1 b2 b3 b4 b5 b6 b7 b8 b9 b10 b11 b12 b13 b14 b15) N0 = []"
| "multiple (Multiples b1 b2 b3 b4 b5 b6 b7 b8 b9 b10 b11 b12 b13 b14 b15) N1 = b1"
| "multiple (Multiples b1 b2 b3 b4 b5 b6 b7 b8 b9 b10 b11 b12 b13 b14 b15) N2 = b2"
| "multiple (Multiples b1 b2 b3 b4 b5 b6 b7 b8 b9 b10 b11 b12 b13 b14 b15) N3 = b3"
| "multiple (Multiples b1 b2 b3 b4 b5 b6 b7 b8 b9 b10 b11 b12 b13 b14 b15) N4 = b4"
| "multiple (Multiples b1 b2 b3 b4 b5 b6 b7 b8 b9 b10 b11 b12 b13 b14 b15) N5 = b5"
| "multiple (Multiples b1 b2 b3 b4 b5 b6 b7 b8 b9 b10 b11 b12 b13 b14 b15) N6 = b6"
| "multiple (Multiples b1 b2 b3 b4 b5 b6 b7 b8 b9 b10 b11 b12 b13 b14 b15) N7 = b7"
| "multiple (Multiples b1 b2 b3 b4 b5 b6 b7 b8 b9 b10 b11 b12 b13 b14 b15) N8 = b8"
| "multiple (Multiples b1 b2 b3 b4 b5 b6 b7 b8 b9 b10 b11 b12 b13 b14 b15) N9 = b9"
| "multiple (Multiples b1 b2 b3 b4 b5 b6 b7 b8 b9 b10 b11 b12 b13 b14 b15) NA = b10"
| "multiple (Multiples b1 b2 b3 b4 b5 b6 b7 b8 b9 b10 b11 b12 b13 b14 b15) NB = b11"
| "multiple (Multiples b1 b2 b3 b4 b5 b6 b7 b8 b9 b10 b11 b12 b13 b14 b15) NC = b12"
| "multiple (Multiples b1 b2 b3 b4 b5 b6 b7 b8 b9 b10 b11 b12 b13 b14 b15) ND = b13"
| "multiple (Multiples b1 b2 b3 b4 b5 b6 b7 b8 b9 b10 b11 b12 b13 b14 b15) NE = b14"
| "multiple (Multiples b1 b2 b3 b4 b5 b6 b7 b8 b9 b10 b11 b12 b13 b14 b15) NF = b15"

fun mult_digits :: "nib list \<Rightarrow> multiples \<Rightarrow> nib list" where
  "mult_digits [] t = []"
| "mult_digits (d # ds) t = addc False (multiple t d) (N0 # mult_digits ds t)"

lemma mult_digits_rules:
  "mult_digits [] t = []"
  "mult_digits (N0 # ds) t = N0 # mult_digits ds t"
  "mult_digits (N1 # ds) (Multiples b1 b2 b3 b4 b5 b6 b7 b8 b9 b10 b11 b12 b13 b14 b15) = addc False b1 (N0 # mult_digits ds (Multiples b1 b2 b3 b4 b5 b6 b7 b8 b9 b10 b11 b12 b13 b14 b15))"
  "mult_digits (N2 # ds) (Multiples b1 b2 b3 b4 b5 b6 b7 b8 b9 b10 b11 b12 b13 b14 b15) = addc False b2 (N0 # mult_digits ds (Multiples b1 b2 b3 b4 b5 b6 b7 b8 b9 b10 b11 b12 b13 b14 b15))"
  "mult_digits (N3 # ds) (Multiples b1 b2 b3 b4 b5 b6 b7 b8 b9 b10 b11 b12 b13 b14 b15) = addc False b3 (N0 # mult_digits ds (Multiples b1 b2 b3 b4 b5 b6 b7 b8 b9 b10 b11 b12 b13 b14 b15))"
  "mult_digits (N4 # ds) (Multiples b1 b2 b3 b4 b5 b6 b7 b8 b9 b10 b11 b12 b13 b14 b15) = addc False b4 (N0 # mult_digits ds (Multiples b1 b2 b3 b4 b5 b6 b7 b8 b9 b10 b11 b12 b13 b14 b15))"
  "mult_digits (N5 # ds) (Multiples b1 b2 b3 b4 b5 b6 b7 b8 b9 b10 b11 b12 b13 b14 b15) = addc False b5 (N0 # mult_digits ds (Multiples b1 b2 b3 b4 b5 b6 b7 b8 b9 b10 b11 b12 b13 b14 b15))"
  "mult_digits (N6 # ds) (Multiples b1 b2 b3 b4 b5 b6 b7 b8 b9 b10 b11 b12 b13 b14 b15) = addc False b6 (N0 # mult_digits ds (Multiples b1 b2 b3 b4 b5 b6 b7 b8 b9 b10 b11 b12 b13 b14 b15))"
  "mult_digits (N7 # ds) (Multiples b1 b2 b3 b4 b5 b6 b7 b8 b9 b10 b11 b12 b13 b14 b15) = addc False b7 (N0 # mult_digits ds (Multiples b1 b2 b3 b4 b5 b6 b7 b8 b9 b10 b11 b12 b13 b14 b15))"
  "mult_digits (N8 # ds) (Multiples b1 b2 b3 b4 b5 b6 b7 b8 b9 b10 b11 b12 b13 b14 b15) = addc False b8 (N0 # mult_digits ds (Multiples b1 b2 b3 b4 b5 b6 b7 b8 b9 b10 b11 b12 b13 b14 b15))"
  "mult_digits (N9 # ds) (Multiples b1 b2 b3 b4 b5 b6 b7 b8 b9 b10 b11 b12 b13 b14 b15) = addc False b9 (N0 # mult_digits ds (Multiples b1 b2 b3 b4 b5 b6 b7 b8 b9 b10 b11 b12 b13 b14 b15))"
  "mult_digits (NA # ds) (Multiples b1 b2 b3 b4 b5 b6 b7 b8 b9 b10 b11 b12 b13 b14 b15) = addc False b10 (N0 # mult_digits ds (Multiples b1 b2 b3 b4 b5 b6 b7 b8 b9 b10 b11 b12 b13 b14 b15))"
  "mult_digits (NB # ds) (Multiples b1 b2 b3 b4 b5 b6 b7 b8 b9 b10 b11 b12 b13 b14 b15) = addc False b11 (N0 # mult_digits ds (Multiples b1 b2 b3 b4 b5 b6 b7 b8 b9 b10 b11 b12 b13 b14 b15))"
  "mult_digits (NC # ds) (Multiples b1 b2 b3 b4 b5 b6 b7 b8 b9 b10 b11 b12 b13 b14 b15) = addc False b12 (N0 # mult_digits ds (Multiples b1 b2 b3 b4 b5 b6 b7 b8 b9 b10 b11 b12 b13 b14 b15))"
  "mult_digits (ND # ds) (Multiples b1 b2 b3 b4 b5 b6 b7 b8 b9 b10 b11 b12 b13 b14 b15) = addc False b13 (N0 # mult_digits ds (Multiples b1 b2 b3 b4 b5 b6 b7 b8 b9 b10 b11 b12 b13 b14 b15))"
  "mult_digits (NE # ds) (Multiples b1 b2 b3 b4 b5 b6 b7 b8 b9 b10 b11 b12 b13 b14 b15) = addc False b14 (N0 # mult_digits ds (Multiples b1 b2 b3 b4 b5 b6 b7 b8 b9 b10 b11 b12 b13 b14 b15))"
  "mult_digits (NF # ds) (Multiples b1 b2 b3 b4 b5 b6 b7 b8 b9 b10 b11 b12 b13 b14 b15) = addc False b15 (N0 # mult_digits ds (Multiples b1 b2 b3 b4 b5 b6 b7 b8 b9 b10 b11 b12 b13 b14 b15))"
  by (simp_all, cases t, simp)

text \<open>The table of multiples, built in stages so that every entry is evaluated once.\<close>

definition stage14 :: "nib list \<Rightarrow> nib list \<Rightarrow> nib list \<Rightarrow> nib list \<Rightarrow> nib list \<Rightarrow> nib list \<Rightarrow> nib list \<Rightarrow> nib list \<Rightarrow> nib list \<Rightarrow> nib list \<Rightarrow> nib list \<Rightarrow> nib list \<Rightarrow> nib list \<Rightarrow> nib list \<Rightarrow> multiples" where
  "stage14 b1 b2 b3 b4 b5 b6 b7 b8 b9 b10 b11 b12 b13 b14 = Multiples b1 b2 b3 b4 b5 b6 b7 b8 b9 b10 b11 b12 b13 b14 (addc False b14 b1)"

definition stage12 :: "nib list \<Rightarrow> nib list \<Rightarrow> nib list \<Rightarrow> nib list \<Rightarrow> nib list \<Rightarrow> nib list \<Rightarrow> nib list \<Rightarrow> nib list \<Rightarrow> nib list \<Rightarrow> nib list \<Rightarrow> nib list \<Rightarrow> nib list \<Rightarrow> multiples" where
  "stage12 b1 b2 b3 b4 b5 b6 b7 b8 b9 b10 b11 b12 = stage14 b1 b2 b3 b4 b5 b6 b7 b8 b9 b10 b11 b12 (addc False b12 b1) (addc False b7 b7)"

definition stage10 :: "nib list \<Rightarrow> nib list \<Rightarrow> nib list \<Rightarrow> nib list \<Rightarrow> nib list \<Rightarrow> nib list \<Rightarrow> nib list \<Rightarrow> nib list \<Rightarrow> nib list \<Rightarrow> nib list \<Rightarrow> multiples" where
  "stage10 b1 b2 b3 b4 b5 b6 b7 b8 b9 b10 = stage12 b1 b2 b3 b4 b5 b6 b7 b8 b9 b10 (addc False b10 b1) (addc False b6 b6)"

definition stage8 :: "nib list \<Rightarrow> nib list \<Rightarrow> nib list \<Rightarrow> nib list \<Rightarrow> nib list \<Rightarrow> nib list \<Rightarrow> nib list \<Rightarrow> nib list \<Rightarrow> multiples" where
  "stage8 b1 b2 b3 b4 b5 b6 b7 b8 = stage10 b1 b2 b3 b4 b5 b6 b7 b8 (addc False b8 b1) (addc False b5 b5)"

definition stage6 :: "nib list \<Rightarrow> nib list \<Rightarrow> nib list \<Rightarrow> nib list \<Rightarrow> nib list \<Rightarrow> nib list \<Rightarrow> multiples" where
  "stage6 b1 b2 b3 b4 b5 b6 = stage8 b1 b2 b3 b4 b5 b6 (addc False b6 b1) (addc False b4 b4)"

definition stage4 :: "nib list \<Rightarrow> nib list \<Rightarrow> nib list \<Rightarrow> nib list \<Rightarrow> multiples" where
  "stage4 b1 b2 b3 b4 = stage6 b1 b2 b3 b4 (addc False b4 b1) (addc False b3 b3)"

definition stage2 :: "nib list \<Rightarrow> nib list \<Rightarrow> multiples" where
  "stage2 b1 b2 = stage4 b1 b2 (addc False b2 b1) (addc False b2 b2)"

definition multiples_of :: "nib list \<Rightarrow> multiples" where
  "multiples_of b = stage2 b (addc False b b)"

definition hmul :: "nib list \<Rightarrow> nib list \<Rightarrow> nib list" where
  "hmul xs ys = mult_digits xs (multiples_of ys)"

lemmas stage_defs = stage2_def stage4_def stage6_def stage8_def stage10_def stage12_def stage14_def

lemma hval_multiple: "hval (multiple (multiples_of b) d) = nv d * hval b"
  by (cases d) (simp_all add: multiples_of_def stage_defs hval_addc)

lemma hval_mult_digits: "hval (mult_digits ds (multiples_of b)) = hval ds * hval b"
  by (induction ds) (simp_all add: hval_addc hval_multiple algebra_simps)

lemma hval_hmul: "hval (hmul xs ys) = hval xs * hval ys"
  by (simp add: hmul_def hval_mult_digits)

section \<open>Comparison\<close>

fun eqh :: "nib list \<Rightarrow> nib list \<Rightarrow> bool" where
  "eqh (x # xs) (y # ys) \<longleftrightarrow> x = y \<and> eqh xs ys"
| "eqh [] (y # ys) \<longleftrightarrow> y = N0 \<and> eqh [] ys"
| "eqh (x # xs) [] \<longleftrightarrow> x = N0 \<and> eqh xs []"
| "eqh [] [] \<longleftrightarrow> True"

lemma eqhD: "eqh xs ys \<Longrightarrow> hval xs = hval ys"
  by (induction xs ys rule: eqh.induct) simp_all

lemma eqh_rules: "eqh (x # xs) (x # ys) = eqh xs ys" "eqh [] (N0 # ys) = eqh [] ys" "eqh (N0 # xs) [] = eqh xs []" "eqh [] [] = True"
  by simp_all

text \<open>Digits of a literal.\<close>

definition hexi :: "int \<Rightarrow> nib list" where
  "hexi n = (if n \<le> 0 then [] else hexn (num_of_nat (nat n)))"

lemma hexi_rules: "hexi (numeral n) = hexn n" "hexi 1 = [N1]" "hexi 0 = []"
  by (simp_all add: hexi_def num_of_nat_inverse nat_of_num_numeral [symmetric] del: nat_of_num_numeral) (simp add: nat_of_num_numeral num_of_nat.simps)

lemma hval_hexi:
  assumes "0 \<le> n" shows "hval (hexi n) = n"
proof (cases "n = 0")
  case False
  then have "nat_of_num (num_of_nat (nat n)) = nat n" using assms by (intro num_of_nat_inverse) simp
  then have "int (numeral (num_of_nat (nat n))) = int (nat n)" by (simp only: nat_of_num_numeral)
  then show ?thesis using assms False by (simp add: hexi_def hval_hexn)
qed (simp add: hexi_def)

lemmas hex_rules = hexn.simps hexi_rules addc_rules mult_digits_rules stage_defs multiples_of_def hmul_def eqh_rules

end
