(* ===== verification/Primes.thy ===== *)
theory Primes
  imports Main
begin

text \<open>
  Prime numbers as far as the signature scheme needs them: Fermat's theorem, and Pocklington's criterion, by which the modulus
  \<open>2\<^sup>2\<^sup>5\<^sup>5 - 19\<close> is shown to be prime from a chain of powers of 2.
\<close>

definition is_prime :: "nat \<Rightarrow> bool" where
  "is_prime p \<longleftrightarrow> 1 < p \<and> (\<forall>k. k dvd p \<longrightarrow> k = 1 \<or> k = p)"

lemma is_prime_gt_1: "is_prime p \<Longrightarrow> 1 < p"
  by (simp add: is_prime_def)

lemma prime_coprime: "is_prime p \<Longrightarrow> \<not> p dvd a \<Longrightarrow> coprime p a"
  unfolding is_prime_def coprime_iff_gcd_eq_1 by (metis gcd_dvd1 gcd_dvd2)

lemma prime_dvd_mult: "is_prime p \<Longrightarrow> p dvd a * b \<Longrightarrow> p dvd a \<or> p dvd b"
  using prime_coprime coprime_dvd_mult_right_iff by blast

lemma prime_dvd_prod: "finite A \<Longrightarrow> is_prime p \<Longrightarrow> p dvd prod f A \<Longrightarrow> \<exists>x\<in>A. p dvd f x"
proof (induction A rule: finite_induct)
  case empty
  then show ?case by (simp add: is_prime_def)
next
  case (insert x A)
  then show ?case using prime_dvd_mult [of p "f x" "prod f A"] by auto
qed

lemma prime_divisor: "1 < n \<Longrightarrow> \<exists>r. is_prime r \<and> r dvd n \<and> (is_prime n \<or> r * r \<le> n)"
proof -
  assume n: "1 < n"
  define r where "r = (LEAST r. 1 < r \<and> r dvd n)"
  have r: "1 < r" "r dvd n" unfolding r_def by (rule LeastI2 [of _ n]; use n in simp)+
  have least: "r \<le> k" if "1 < k" "k dvd n" for k unfolding r_def using that by (intro Least_le) simp
  have "is_prime r"
    unfolding is_prime_def
  proof (intro conjI allI impI)
    fix k assume k: "k dvd r"
    then have "k \<noteq> 0" "k \<le> r" using r(1) by (auto dest: dvd_imp_le intro!: Nat.gr0I)
    moreover have "k dvd n" using k r(2) by (rule dvd_trans)
    ultimately show "k = 1 \<or> k = r" using least [of k] by linarith
  qed (rule r)
  moreover have "is_prime n \<or> r * r \<le> n"
  proof (cases "r = n")
    case False
    obtain m where m: "n = r * m" using r(2) by (rule dvdE)
    have "1 < m" using m n False by (cases m) (auto intro: Nat.gr0I)
    then have "r \<le> m" using m by (intro least) auto
    then show ?thesis using m by simp
  qed (use \<open>is_prime r\<close> in simp)
  ultimately show ?thesis using r(2) by blast
qed

section \<open>Fermat's theorem\<close>

lemma mult_mod_cancel:
  assumes "is_prime p" and "\<not> p dvd a" and "a * x mod p = a * y mod p"
  shows "x mod p = y mod p"
proof -
  have "x mod p = y mod p" if "a * x mod p = a * y mod p" "x \<le> y" for x y
  proof -
    have "p dvd a * y - a * x" using that(1) [symmetric] that(2) by (subst (asm) mod_eq_dvd_iff_nat) simp_all
    then have "p dvd a * (y - x)" by (simp add: diff_mult_distrib2)
    then have "p dvd y - x" using prime_dvd_mult assms(1,2) by blast
    then show ?thesis using that(2) mod_eq_dvd_iff_nat [of x y p] by simp
  qed
  then show ?thesis using assms(3) by (metis nat_le_linear)
qed

lemma fermat:
  assumes "is_prime p" and "\<not> p dvd a"
  shows "a ^ (p - 1) mod p = 1"
proof -
  let ?f = "\<lambda>i. a * i mod p"
  have nd: "\<not> p dvd i" if "i \<in> {1..<p}" for i using that by (auto dest: dvd_imp_le)
  have inj: "inj_on ?f {1..<p}"
    proof (rule inj_onI)
    fix x y assume xy: "x \<in> {1..<p}" "y \<in> {1..<p}" "a * x mod p = a * y mod p"
    from mult_mod_cancel [OF assms xy(3)] xy(1,2) show "x = y" by simp
  qed
  have "?f ` {1..<p} = {1..<p}"
  proof (rule card_subset_eq)
    show "?f ` {1..<p} \<subseteq> {1..<p}"
    proof
      fix z assume "z \<in> ?f ` {1..<p}"
      then obtain i where i: "i \<in> {1..<p}" "z = a * i mod p" by blast
      have "\<not> p dvd a * i" using prime_dvd_mult assms nd [OF i(1)] by blast
      then show "z \<in> {1..<p}" using i is_prime_gt_1 [OF assms(1)] by (simp add: dvd_eq_mod_eq_0)
    qed
      show "card (?f ` {1..<p}) = card {1..<p}" by (rule card_image [OF inj])
  qed simp
  then have "prod ?f {1..<p} = \<Prod>{1..<p}" using prod.reindex [OF inj, of "\<lambda>x. x"] by simp
  moreover have "prod ?f {1..<p} mod p = (\<Prod>i\<in>{1..<p}. a * i) mod p" by (rule mod_prod_eq)
  moreover have "(\<Prod>i\<in>{1..<p}. a * i) = a ^ (p - 1) * \<Prod>{1..<p}" by (simp add: prod.distrib)
  ultimately have "\<Prod>{1..<p} * a ^ (p - 1) mod p = \<Prod>{1..<p} * 1 mod p" by (simp add: mult.commute)
  moreover have "\<not> p dvd \<Prod>{1..<p}" using prime_dvd_prod [OF _ assms(1), of "{1..<p}" "\<lambda>x. x"] nd by auto
  ultimately have "a ^ (p - 1) mod p = 1 mod p" using mult_mod_cancel [OF assms(1)] by blast
  then show ?thesis using is_prime_gt_1 [OF assms(1)] by simp
qed

section \<open>Pocklington's criterion\<close>

lemma power_mod_one: "b mod r = 1 \<Longrightarrow> 1 < r \<Longrightarrow> b ^ k mod r = 1" for b r :: nat
  by (metis power_mod power_one mod_less)

text \<open>The prime divisors of \<open>n\<close> are congruent to 1 modulo a prime divisor \<open>q\<close> of \<open>n - 1\<close> when 2 has a certificate.\<close>

definition certified :: "nat \<Rightarrow> nat \<Rightarrow> nat \<Rightarrow> bool" where
  "certified n q m \<longleftrightarrow> n - 1 = q * m \<and> is_prime q \<and> (\<exists>s. 2 ^ m * s mod n = (s + 1) mod n)"

lemma certified_divisor:
  assumes "certified n q m" and "2 ^ (n - 1) mod n = 1" and "is_prime r" and "r dvd n"
  shows "q dvd r - 1"
proof -
  note r1 = is_prime_gt_1 [OF assms(3)]
  obtain s where q: "n - 1 = q * m" "is_prime q" and s: "2 ^ m * s mod n = (s + 1) mod n"
    using assms(1) by (auto simp: certified_def)
  have "2 ^ (n - 1) mod n mod r = 1" unfolding assms(2) using r1 by simp
  then have "2 ^ (n - 1) mod r = 1" by (simp only: mod_mod_cancel [OF assms(4)])
  then have bq: "(2 ^ m) ^ q mod r = 1" by (simp only: q(1) power_mult mult.commute [of q m])
  have nb: "(2 ^ m) mod r \<noteq> 1"
  proof
    assume "(2 ^ m) mod r = 1"
    then have "2 ^ m * s mod r = s mod r" by (metis mod_mult_left_eq mult_1)
    moreover have "2 ^ m * s mod r = (s + 1) mod r" using s assms(4) by (metis mod_mod_cancel)
    ultimately have "r dvd 1" by (metis mod_eq_dvd_iff_nat add_diff_cancel_left' le_add1)
    then show False using r1 by simp
  qed
  show ?thesis
  proof (rule ccontr)
    assume "\<not> q dvd r - 1"
    then have "gcd q (r - 1) = 1" using prime_coprime [OF q(2)] by (simp add: coprime_iff_gcd_eq_1)
    then obtain u v where uv: "q * u = (r - 1) * v + 1" using bezout_nat [of q "r - 1"] q(2) by (auto simp: is_prime_def)
    have "\<not> r dvd 2 ^ m"
    proof
      assume "r dvd 2 ^ m"
      then have "r dvd (2 ^ m) ^ q" using is_prime_gt_1 [OF q(2)] by (simp add: dvd_power_same power_mult dvd_trans [OF _ dvd_power])
      then show False using bq r1 by (simp add: mod_eq_0_iff_dvd [symmetric])
    qed
    from fermat [OF assms(3) this] have f: "((2 ^ m) ^ (r - 1)) ^ v mod r = 1" by (rule power_mod_one) (rule r1)
    have "((2 ^ m) ^ q) ^ u mod r = 1" by (rule power_mod_one [OF bq r1])
    then have "(2 ^ m) ^ ((r - 1) * v + 1) mod r = 1" by (simp only: power_mult [symmetric, of "2 ^ m"] uv)
    then have "((2 ^ m) ^ (r - 1)) ^ v mod r * (2 ^ m) mod r = 1" by (simp only: power_add power_mult power_one_right mod_mult_left_eq)
    then show False using nb f by simp
  qed
qed

lemma pocklington:
  assumes "1 < n" and "\<And>r. is_prime r \<Longrightarrow> r dvd n \<Longrightarrow> F dvd r - 1"
    and "n < (K * F + 1) * (K * F + 1)" and "\<forall>k\<in>{1..<K}. \<not> (k * F + 1) dvd n"
  shows "is_prime n"
proof -
  obtain r where r: "is_prime r" "r dvd n" "is_prime n \<or> r * r \<le> n" using prime_divisor [OF assms(1)] by blast
  have r1: "1 < r" by (rule is_prime_gt_1 [OF r(1)])
  obtain k where k: "r - 1 = F * k" using assms(2) [OF r(1,2)] by (rule dvdE)
  then have rk: "r = k * F + 1" using r1 by (simp add: mult.commute)
  have "k \<noteq> 0" using rk r1 by (intro notI) simp
  then have "K \<le> k" using assms(4) r(2) rk by (metis atLeastLessThan_iff le_less_linear less_one)
  then have "K * F + 1 \<le> r" unfolding rk by simp
  then have "(K * F + 1) * (K * F + 1) \<le> r * r" by (intro mult_le_mono)
  then show ?thesis using r(3) assms(3) by linarith
qed

text \<open>Candidates for small divisors, and small primes by trial division.\<close>

definition undivided :: "int \<Rightarrow> int list \<Rightarrow> bool" where
  "undivided n ks \<longleftrightarrow> list_all (\<lambda>k. n mod k \<noteq> 0) ks"

lemma undividedD: "undivided (int n) ks \<Longrightarrow> int k \<in> set ks \<Longrightarrow> \<not> k dvd n"
  by (auto simp: undivided_def list_all_iff dvd_eq_mod_eq_0 simp flip: zmod_int)

lemma trial_division:
  assumes "1 < n" and "n < K * K" and "undivided (int n) [2..int K - 1]"
  shows "is_prime n"
proof -
  obtain r where r: "is_prime r" "r dvd n" "is_prime n \<or> r * r \<le> n" using prime_divisor [OF assms(1)] by blast
  have "\<not> r * r \<le> n"
  proof
    assume "r * r \<le> n"
    then have "r < K" using assms(2) mult_le_mono [of K r K r] by linarith
    then show False using undividedD [OF assms(3), of r] is_prime_gt_1 [OF r(1)] r(2) by auto
  qed
  with r(3) show ?thesis by blast
qed

lemma prime_991: "is_prime 991"
proof (rule trial_division [of _ 32])
  have "undivided 991 [2..31]" by code_simp
  then show "undivided (int 991) [2..int 32 - 1]" by simp
qed simp_all

lemma certified_prime:
  assumes "certified n q m" and "2 ^ (n - 1) mod n = 1" and "1 < n"
    and "n < (K * q + 1) * (K * q + 1)" and "undivided (int n) (map (\<lambda>k. k * int q + 1) [1..int K - 1])"
  shows "is_prime n"
proof (rule pocklington [OF assms(3) certified_divisor [OF assms(1,2)] assms(4)])
  show "\<forall>k\<in>{1..<K}. \<not> k * q + 1 dvd n"
  proof
    fix k assume "k \<in> {1..<K}"
    then have "int (k * q + 1) \<in> set (map (\<lambda>k. k * int q + 1) [1..int K - 1])" by (auto intro!: image_eqI [of _ _ "int k"])
    then show "\<not> k * q + 1 dvd n" by (rule undividedD [OF assms(5)])
  qed
qed

end
