(* ===== verification/Gf_Field.thy ===== *)
theory Gf_Field
  imports Prime25519
begin

text \<open>
  The integers modulo \<open>2\<^sup>2\<^sup>5\<^sup>5 - 19\<close> are a field: by Fermat's theorem the power that \<^verbatim>\<open>fe_invert\<close> computes is the inverse.
  Squares of the field: \<open>-1\<close> is one, 2 is not.
\<close>

definition fermat_exp :: nat where
  "fermat_exp = nat p25519 - 1"

lemma fermat_exp_Suc: "fermat_exp = Suc (2 ^ 255 - 21)"
  by (simp add: fermat_exp_def p25519_def)

lemma of_nat_gf_eq_iff: "(of_nat x :: gf) = of_nat y \<longleftrightarrow> x mod nat p25519 = y mod nat p25519"
proof -
  have "(of_nat x :: gf) = of_nat y \<longleftrightarrow> int x mod p25519 = int y mod p25519"
    using of_int_gf_eq_iff [of "int x" "int y"] by simp
  also have "\<dots> \<longleftrightarrow> int (x mod nat p25519) = int (y mod nat p25519)" by (simp add: zmod_int less_imp_le [OF p25519_pos])
  finally show ?thesis by (simp only: of_nat_eq_iff)
qed

lemma gf_of_nat: "a = of_nat (nat (rep_gf a))"
  using of_int_rep_gf [of a] rep_gf_range [of a] by (metis int_nat_eq of_int_of_nat_eq)

lemma gf_fermat:
  fixes a :: gf
  assumes "a \<noteq> 0" shows "a ^ fermat_exp = 1"
proof -
  let ?n = "nat (rep_gf a)"
  have a: "a = of_nat ?n" by (rule gf_of_nat)
  have "\<not> nat p25519 dvd ?n"
    using assms of_nat_gf_eq_iff [of ?n 0] a by (simp add: dvd_eq_mod_eq_0)
  from fermat [OF prime_p25519 this] have "(?n ^ fermat_exp) mod nat p25519 = 1 mod nat p25519"
    by (simp only: fermat_exp_def mod_less [OF is_prime_gt_1 [OF prime_p25519]])
  then have "(of_nat (?n ^ fermat_exp) :: gf) = of_nat 1" unfolding of_nat_gf_eq_iff .
  then show ?thesis using a by (simp only: of_nat_power of_nat_1)
qed

instantiation gf :: field
begin

definition inverse_gf :: "gf \<Rightarrow> gf" where "inverse_gf a = a ^ (2 ^ 255 - 21)"
definition divide_gf :: "gf \<Rightarrow> gf \<Rightarrow> gf" where "divide_gf a b = a * inverse b"

instance
proof
  fix a :: gf
  assume "a \<noteq> 0"
  then have "a ^ fermat_exp = 1" by (rule gf_fermat)
  then have "a ^ (2 ^ 255 - 21) * a = 1" by (simp only: fermat_exp_Suc power_Suc2)
  then show "inverse a * a = 1" by (simp only: inverse_gf_def)
next
  show "a div b = a * inverse b" for a b :: gf by (rule divide_gf_def)
  show "inverse (0 :: gf) = 0" by (simp add: inverse_gf_def)
qed

end

lemma gf_unit_iff: "a dvd 1 \<longleftrightarrow> a \<noteq> 0" for a :: gf
  by (auto simp: dvd_def intro: exI [of _ "inverse a"])

section \<open>Squares\<close>

lemma gf_2_nonzero [simp]: "(2 :: gf) \<noteq> 0"
  using of_int_gf_eq_0_iff [of 2] by (simp add: p25519_def)

definition euler_exp :: nat where
  "euler_exp = nat ((p25519 - 1) div 2)"

lemma euler_exp_double: "2 * euler_exp = fermat_exp"
  by (simp add: euler_exp_def fermat_exp_def p25519_def)

lemma gf_euler_2: "(2 :: gf) ^ euler_exp = - 1"
proof -
  have "(2 :: int) ^ euler_exp mod p25519 = (- 1) mod p25519" using euler_2 unfolding power2_def euler_exp_def .
  then have "(of_int (2 ^ euler_exp) :: gf) = of_int (- 1)" unfolding of_int_gf_eq_iff .
  then show ?thesis by (simp only: of_int_power of_int_minus of_int_1 of_int_numeral)
qed

lemma gf_minus_1: "(- 1 :: gf) \<noteq> 1"
  using gf_2_nonzero by (metis add.right_inverse one_add_one)

lemma two_not_square: "(2 :: gf) \<noteq> w * w"
proof
  assume w: "2 = w * w"
  then have "w \<noteq> 0" using gf_2_nonzero by (intro notI) (simp only: mult_zero_left)
  have "(2 :: gf) ^ euler_exp = w ^ fermat_exp" unfolding w by (simp only: euler_exp_double [symmetric] power_mult power2_eq_square)
  then show False using gf_euler_2 gf_fermat [OF \<open>w \<noteq> 0\<close>] gf_minus_1 by simp
qed

end
