(* ===== verification/Edwards.thy ===== *)
theory Edwards
  imports Gf_Field Ge
begin

text \<open>
  The group of the curve \<open>- x\<^sup>2 + y\<^sup>2 = 1 + d x\<^sup>2 y\<^sup>2\<close> over the field: because \<open>d\<close> is not a square and \<open>-1\<close> is one, the
  denominators of the addition law never vanish on the curve; the points form a commutative group.
\<close>

section \<open>Completeness\<close>

lemma gf_root_2k: "\<exists>z :: gf. z * z = 2 * (121665 * 121666)"
proof
  have "(of_int (17540718078606688719096417959420649803327141774663719482163985228206922886506 * 17540718078606688719096417959420649803327141774663719482163985228206922886506) :: gf) = of_int (2 * (121665 * 121666))"
    unfolding of_int_gf_eq_iff by (simp add: p25519_def)
  then show "of_int 17540718078606688719096417959420649803327141774663719482163985228206922886506 * of_int 17540718078606688719096417959420649803327141774663719482163985228206922886506 = (2 * (121665 * 121666) :: gf)" by (simp only: of_int_mult of_int_numeral)
qed

lemma gf_k_nonzero: "(121665 * 121666 :: gf) \<noteq> 0"
  using of_int_gf_eq_0_iff [of "121665 * 121666"] by (simp add: p25519_def)

lemma square_quotient: "a * a = c * (b * b) \<Longrightarrow> b \<noteq> 0 \<Longrightarrow> c = (a / b) * (a / b)" for a b c :: gf
  by (simp add: times_divide_times_eq)

lemma d_not_square: "gf_d \<noteq> w * w"
proof
  assume w: "gf_d = w * w"
  define i k s where "i = fe_abs sqrtm1" and "k = (121665 * 121666 :: gf)" and "s = w * 121666 * i"
  obtain z :: gf where z: "z * z = 2 * k" using gf_root_2k unfolding k_def by blast
  have "gf_d * 121666 = - 121665" "i * i = - 1" unfolding i_def by (rule curve_d_eq sqrtm1_eq)+
  then have sk: "s * s = k" unfolding w s_def k_def by algebra
  then have "s \<noteq> 0" using gf_k_nonzero unfolding k_def [symmetric] by auto
  then show False using square_quotient [of z 2 s] z sk two_not_square by blast
qed

lemma gf_d_nonzero: "gf_d \<noteq> 0"
  using d_not_square [of 0] by simp

abbreviation gf_i :: gf where
  "gf_i \<equiv> fe_abs sqrtm1"

text \<open>If \<open>t = d x1 x2 y1 y2\<close> were \<open>1\<close> or \<open>-1\<close>, then \<open>d\<close> would be a square.\<close>

lemma denominators_square:
  assumes "on_curve x1 y1" and "on_curve x2 y2" and "t = gf_d * x1 * x2 * y1 * y2" and "t * t = 1" and "j * j = - 1"
  shows "(j * x1 + t * y1) * (j * x1 + t * y1) = gf_d * ((x1 * y1) * (x1 * y1)) * ((j * x2 + y2) * (j * x2 + y2))"
proof -
  have c: "- (x1 * x1) + y1 * y1 = 1 + gf_d * (x1 * x1) * (y1 * y1)" "- (x2 * x2) + y2 * y2 = 1 + gf_d * (x2 * x2) * (y2 * y2)"
    using assms(1,2) by (simp_all add: on_curve_def)
  have "gf_d * ((x1 * y1) * (x1 * y1)) * (- (x2 * x2) + y2 * y2) = - (x1 * x1) + t * t * (y1 * y1)"
    using c assms(3,4) by algebra
  then show ?thesis using assms(3,4,5) by algebra
qed

lemma denominators_nonzero:
  assumes "on_curve x1 y1" and "on_curve x2 y2"
  shows "1 + gf_d * x1 * x2 * y1 * y2 \<noteq> 0" and "1 - gf_d * x1 * x2 * y1 * y2 \<noteq> 0"
proof -
  define t where "t = gf_d * x1 * x2 * y1 * y2"
  have t: "t * t \<noteq> 1"
  proof
    assume t: "t * t = 1"
    have nz: "x1 * y1 \<noteq> 0" "x2 * y2 \<noteq> 0" using t unfolding t_def by auto
    have z: "j * x2 + y2 = 0" if j: "j * j = - 1" for j
    proof (rule ccontr)
      assume n: "j * x2 + y2 \<noteq> 0"
      define a b where "a = j * x1 + t * y1" and "b = (x1 * y1) * (j * x2 + y2)"
      have "b \<noteq> 0" using nz n by (simp add: b_def)
      moreover have "a * a = gf_d * (b * b)"
        using denominators_square [OF assms t_def t j] by (simp add: a_def b_def ac_simps)
      ultimately show False using square_quotient d_not_square by blast
    qed
    have "(- gf_i) * (- gf_i) = - 1" using sqrtm1_eq by simp
    then have "gf_i * x2 + y2 = 0" "- gf_i * x2 + y2 = 0" using z sqrtm1_eq by blast+
    then have "2 * y2 = 0" by algebra
    then show False using nz(2) gf_2_nonzero by (metis mult_eq_0_iff)
  qed
  have "t * t = 1" if "1 + t = 0 \<or> 1 - t = 0" using that by (elim disjE) algebra+
  then show "1 + gf_d * x1 * x2 * y1 * y2 \<noteq> 0" "1 - gf_d * x1 * x2 * y1 * y2 \<noteq> 0"
    using t unfolding t_def [symmetric] by blast+
qed

section \<open>Addition\<close>

definition padd :: "gf \<times> gf \<Rightarrow> gf \<times> gf \<Rightarrow> gf \<times> gf" where
  "padd P Q = (let (x1, y1) = P; (x2, y2) = Q; t = gf_d * x1 * x2 * y1 * y2
     in ((x1 * y2 + y1 * x2) / (1 + t), (y1 * y2 + x1 * x2) / (1 - t)))"

definition curve_point :: "gf \<times> gf \<Rightarrow> bool" where
  "curve_point P \<longleftrightarrow> on_curve (fst P) (snd P)"

lemma edwards_sum_padd:
  assumes "curve_point P" and "curve_point Q"
  shows "edwards_sum P Q R \<longleftrightarrow> R = padd P Q"
proof -
  obtain x1 y1 x2 y2 x3 y3 where p: "P = (x1, y1)" "Q = (x2, y2)" "R = (x3, y3)" by (metis surj_pair)
  have "on_curve x1 y1" "on_curve x2 y2" using assms by (simp_all add: curve_point_def p)
  note nz = denominators_nonzero [OF this]
  show ?thesis
    unfolding p edwards_sum_def padd_def Let_def gf_unit_iff prod.case prod.inject by (simp only: nz eq_divide_eq if_True not_False_eq_True simp_thms)
qed

text \<open>The sum in terms of the coordinates, cleared of denominators.\<close>

lemma padd_coords:
  assumes "on_curve x1 y1" and "on_curve x2 y2" and "padd (x1, y1) (x2, y2) = (x3, y3)"
  shows "x3 * (1 + gf_d * x1 * x2 * y1 * y2) = x1 * y2 + y1 * x2" and "y3 * (1 - gf_d * x1 * x2 * y1 * y2) = y1 * y2 + x1 * x2"
  using edwards_sum_padd [of "(x1, y1)" "(x2, y2)" "(x3, y3)"] assms
  by (simp_all add: curve_point_def edwards_sum_def Let_def)

lemma padd_closed:
  assumes "curve_point P" and "curve_point Q" shows "curve_point (padd P Q)"
proof -
  obtain x1 y1 x2 y2 x3 y3 where p: "P = (x1, y1)" "Q = (x2, y2)" "padd P Q = (x3, y3)" by (metis surj_pair)
  have c: "on_curve x1 y1" "on_curve x2 y2" using assms by (simp_all add: curve_point_def p)
  define t where "t = gf_d * x1 * x2 * y1 * y2"
  have s: "x3 * (1 + t) = x1 * y2 + y1 * x2" "y3 * (1 - t) = y1 * y2 + x1 * x2"
    using padd_coords [OF c] p(3) by (simp_all add: p t_def)
  have e: "- (x1 * x1) + y1 * y1 = 1 + gf_d * (x1 * x1) * (y1 * y1)" "- (x2 * x2) + y2 * y2 = 1 + gf_d * (x2 * x2) * (y2 * y2)"
    using c by (simp_all add: on_curve_def)
  have "- ((x1 * y2 + y1 * x2) * (x1 * y2 + y1 * x2)) * ((1 - t) * (1 - t)) + (y1 * y2 + x1 * x2) * (y1 * y2 + x1 * x2) * ((1 + t) * (1 + t)) =
      (1 + t) * (1 + t) * ((1 - t) * (1 - t)) + gf_d * ((x1 * y2 + y1 * x2) * (x1 * y2 + y1 * x2)) * ((y1 * y2 + x1 * x2) * (y1 * y2 + x1 * x2))"
    using e t_def by algebra
  then have "(1 + t) * (1 + t) * ((1 - t) * (1 - t)) * (- (x3 * x3) + y3 * y3) = (1 + t) * (1 + t) * ((1 - t) * (1 - t)) * (1 + gf_d * (x3 * x3) * (y3 * y3))"
    unfolding s [symmetric] by algebra
  moreover have "(1 + t) * (1 + t) * ((1 - t) * (1 - t)) \<noteq> 0" using denominators_nonzero [OF c] by (simp add: t_def)
  ultimately have "- (x3 * x3) + y3 * y3 = 1 + gf_d * (x3 * x3) * (y3 * y3)" by (metis mult_left_cancel)
  then show ?thesis unfolding p(3) curve_point_def fst_conv snd_conv on_curve_def .
qed

lemma padd_comm: "padd P Q = padd Q P"
  by (simp add: padd_def split_beta Let_def ac_simps)

lemma padd_0: "padd (0, 1) P = P"
  by (simp add: padd_def split_beta Let_def)

lemma padd_neg:
  assumes "curve_point (x, y)" shows "padd (- x, y) (x, y) = (0, 1)"
proof -
  have c: "on_curve x y" "on_curve (- x) y" using assms by (simp_all add: curve_point_def on_curve_def)
  have "y * y - x * x = 1 + gf_d * x * x * y * y" using c by (simp add: on_curve_def ac_simps)
  moreover have "1 + gf_d * x * x * y * y \<noteq> 0" using denominators_nonzero [OF c(1) c(1)] by simp
  ultimately show ?thesis by (simp add: padd_def)
qed

text \<open>Associativity is an identity of polynomials modulo the three curve equations.\<close>

lemma assoc_poly:
  fixes d x1 y1 x2 y2 x3 y3 :: gf
  assumes "- (x1 * x1) + y1 * y1 = 1 + d * (x1 * x1) * (y1 * y1)" and "- (x2 * x2) + y2 * y2 = 1 + d * (x2 * x2) * (y2 * y2)"
    and "- (x3 * x3) + y3 * y3 = 1 + d * (x3 * x3) * (y3 * y3)"
  defines "t12 \<equiv> d * x1 * x2 * y1 * y2" and "t23 \<equiv> d * x2 * x3 * y2 * y3"
    and "X12 \<equiv> x1 * y2 + y1 * x2" and "Y12 \<equiv> y1 * y2 + x1 * x2" and "X23 \<equiv> x2 * y3 + y2 * x3" and "Y23 \<equiv> y2 * y3 + x2 * x3"
  shows "(X12 * (1 - t12) * y3 + Y12 * (1 + t12) * x3) * ((1 + t23) * (1 - t23) + d * X23 * x1 * Y23 * y1) =
      (X23 * (1 - t23) * y1 + Y23 * (1 + t23) * x1) * ((1 + t12) * (1 - t12) + d * X12 * x3 * Y12 * y3)"
    and "(Y12 * (1 + t12) * y3 + X12 * (1 - t12) * x3) * ((1 + t23) * (1 - t23) - d * X23 * x1 * Y23 * y1) =
      (Y23 * (1 + t23) * y1 + X23 * (1 - t23) * x1) * ((1 + t12) * (1 - t12) - d * X12 * x3 * Y12 * y3)"
  unfolding t12_def t23_def X12_def Y12_def X23_def Y23_def using assms(1-3) by algebra+

text \<open>A sum with a sum, over a common denominator.\<close>

lemma padd_left:
  assumes "on_curve x1 y1" and "on_curve x2 y2" and "on_curve x3 y3"
  defines "t \<equiv> gf_d * x1 * x2 * y1 * y2" and "X \<equiv> x1 * y2 + y1 * x2" and "Y \<equiv> y1 * y2 + x1 * x2"
  defines "D \<equiv> (1 + t) * (1 - t)" and "S \<equiv> gf_d * X * x3 * Y * y3"
  shows "padd (padd (x1, y1) (x2, y2)) (x3, y3) =
      ((X * (1 - t) * y3 + Y * (1 + t) * x3) / (D + S), (Y * (1 + t) * y3 + X * (1 - t) * x3) / (D - S))"
    and "D + S \<noteq> 0" and "D - S \<noteq> 0"
proof -
  have nz: "1 + t \<noteq> 0" "1 - t \<noteq> 0" using denominators_nonzero [OF assms(1,2)] by (simp_all add: t_def)
  define u v where "u = X / (1 + t)" and "v = Y / (1 - t)"
  have uv: "padd (x1, y1) (x2, y2) = (u, v)" by (simp add: padd_def u_def v_def X_def Y_def t_def Let_def)
  have X: "X = u * (1 + t)" and Y: "Y = v * (1 - t)" using nz by (simp_all add: u_def v_def)
  have "on_curve u v" using padd_closed [of "(x1, y1)" "(x2, y2)"] assms(1,2) by (simp add: curve_point_def uv)
  note n = denominators_nonzero [OF this assms(3)]
  have D: "D \<noteq> 0" using nz by (simp add: D_def)
  have S: "D + S = D * (1 + gf_d * u * x3 * v * y3)" "D - S = D * (1 - gf_d * u * x3 * v * y3)"
    unfolding S_def X Y D_def by algebra+
  show "D + S \<noteq> 0" "D - S \<noteq> 0" unfolding S using D n by simp_all
  have N: "X * (1 - t) * y3 + Y * (1 + t) * x3 = D * (u * y3 + v * x3)" "Y * (1 + t) * y3 + X * (1 - t) * x3 = D * (v * y3 + u * x3)"
    unfolding X Y D_def by algebra+
  show "padd (padd (x1, y1) (x2, y2)) (x3, y3) =
      ((X * (1 - t) * y3 + Y * (1 + t) * x3) / (D + S), (Y * (1 + t) * y3 + X * (1 - t) * x3) / (D - S))"
    unfolding uv N S using D by (simp add: padd_def Let_def)
qed

lemma padd_assoc:
  assumes "curve_point P" and "curve_point Q" and "curve_point R"
  shows "padd (padd P Q) R = padd P (padd Q R)"
proof -
  obtain x1 y1 x2 y2 x3 y3 where p: "P = (x1, y1)" "Q = (x2, y2)" "R = (x3, y3)" by (metis surj_pair)
  have c: "on_curve x1 y1" "on_curve x2 y2" "on_curve x3 y3" using assms by (simp_all add: curve_point_def p)
  note l = padd_left [OF c] and r = padd_left [OF c(2,3,1)] and a = assoc_poly [OF c [unfolded on_curve_def]]
  show ?thesis
    unfolding p padd_comm [of "(x1, y1)" "padd (x2, y2) (x3, y3)"] l(1) r(1) prod.inject
    using frac_eq_eq [THEN iffD2, OF l(2) r(2) a(1)] frac_eq_eq [THEN iffD2, OF l(3) r(3) a(2)] by (rule conjI)
qed

section \<open>The group of points\<close>

typedef ed = "{P. curve_point P}" morphisms coords ed_of
  by (rule exI [of _ "(0, 1)"]) (simp add: curve_point_def on_curve_def)

lemma curve_point_coords [simp]: "curve_point (coords P)"
  using coords [of P] by simp

setup_lifting type_definition_ed

lemma curve_point_neg: "curve_point P \<Longrightarrow> curve_point (- fst P, snd P)"
  by (simp add: curve_point_def on_curve_def)

instantiation ed :: ab_group_add
begin

lift_definition zero_ed :: ed is "(0, 1)" by (simp add: curve_point_def on_curve_def)
lift_definition plus_ed :: "ed \<Rightarrow> ed \<Rightarrow> ed" is padd by (rule padd_closed)
lift_definition uminus_ed :: "ed \<Rightarrow> ed" is "\<lambda>P. (- fst P, snd P)" by (rule curve_point_neg)
lift_definition minus_ed :: "ed \<Rightarrow> ed \<Rightarrow> ed" is "\<lambda>P Q. padd P (- fst Q, snd Q)" by (intro padd_closed curve_point_neg)

instance
proof
  fix a b c :: ed
  show "a + b + c = a + (b + c)" by transfer (rule padd_assoc)
  show "a + b = b + a" by transfer (rule padd_comm)
  show "0 + a = a" by transfer (rule padd_0)
  show "- a + a = 0" by transfer (metis padd_neg prod.collapse)
  show "a - b = a + - b" by transfer simp
qed

end

fun nsmul :: "nat \<Rightarrow> ed \<Rightarrow> ed" where
  "nsmul 0 P = 0"
| "nsmul (Suc n) P = P + nsmul n P"

definition smul :: "int \<Rightarrow> ed \<Rightarrow> ed" where
  "smul n P = nsmul (nat n) P - nsmul (nat (- n)) P"

lemma nsmul_add: "nsmul (m + n) P = nsmul m P + nsmul n P"
  by (induction m) (simp_all add: ac_simps)

lemma smul_add: "smul (i + j) P = smul i P + smul j P"
proof -
  have "nat (i + j) + nat (- i) + nat (- j) = nat i + nat j + nat (- (i + j))" by simp
  then have "nsmul (nat (i + j) + nat (- i) + nat (- j)) P = nsmul (nat i + nat j + nat (- (i + j))) P" by (rule arg_cong)
  then show ?thesis by (simp only: nsmul_add smul_def) (simp add: algebra_simps)
qed

lemma smul_0 [simp]: "smul 0 P = 0" and smul_1 [simp]: "smul 1 P = P"
  by (simp_all add: smul_def)

lemma smul_neg: "smul (- i) P = - smul i P"
  by (simp add: smul_def)

lemma smul_diff: "smul (i - j) P = smul i P - smul j P"
  using smul_add [of i "- j" P] by (simp add: smul_neg)

lemma smul_smul: "smul i (smul j P) = smul (i * j) P"
proof (induction i rule: int_induct [where k = 0])
  case (step1 i)
  then show ?case by (simp add: smul_add distrib_right)
next
  case (step2 i)
  then show ?case by (simp add: smul_diff left_diff_distrib)
qed simp

lemma smul_zero [simp]: "smul i 0 = 0"
  using smul_smul [of i 0 0] by simp

lemma smul_plus: "smul i (P + Q) = smul i P + smul i Q"
proof (induction i rule: int_induct [where k = 0])
  case (step1 i)
  then show ?case by (simp add: smul_add ac_simps)
next
  case (step2 i)
  then show ?case by (simp add: smul_diff algebra_simps)
qed simp

lemma smul_double: "P + P = smul 2 P"
  using smul_add [of 1 1 P] by simp

lemma smul_minus: "smul i (- P) = - smul i P"
  using smul_smul [of i "- 1" P] smul_neg [of i P] smul_neg [of 1 P] by simp

end
