(* ===== verification/Hex_Field.thy ===== *)
theory Hex_Field
  imports Hex Edwards
begin

text \<open>
  Evaluation of equations of the field on hexadecimal digits: products are reduced by folding the digits above 256 bits, and
  results are compared up to multiples of the modulus.
\<close>

section \<open>Reduction\<close>

fun lo :: "nib list \<Rightarrow> nib list \<Rightarrow> nib list" where
  "lo (t # ts) (x # xs) = x # lo ts xs"
| "lo (t # ts) [] = []"
| "lo [] xs = []"

fun hi :: "nib list \<Rightarrow> nib list \<Rightarrow> nib list" where
  "hi (t # ts) (x # xs) = hi ts xs"
| "hi (t # ts) [] = []"
| "hi [] xs = xs"

lemma hval_lo_hi: "hval xs = hval (lo t xs) + 16 ^ length t * hval (hi t xs)"
  by (induction t xs rule: lo.induct) simp_all

definition width :: "nib list" where
  "width = [N0, N0, N0, N0, N0, N0, N0, N0, N0, N0, N0, N0, N0, N0, N0, N0, N0, N0, N0, N0, N0, N0, N0, N0, N0, N0, N0, N0, N0, N0, N0, N0, N0, N0, N0, N0, N0, N0, N0, N0, N0, N0, N0, N0, N0, N0, N0, N0, N0, N0, N0, N0, N0, N0, N0, N0, N0, N0, N0, N0, N0, N0, N0, N0]"

definition times38 :: "nib list \<Rightarrow> nib list \<Rightarrow> nib list" where
  "times38 h h2 = addc False (addc False (addc False h2 h) (addc False h2 h)) (N0 # h2)"

definition fold38 :: "nib list \<Rightarrow> nib list \<Rightarrow> nib list" where
  "fold38 l h = addc False l (times38 h (addc False h h))"

definition hred1 :: "nib list \<Rightarrow> nib list" where
  "hred1 xs = fold38 (lo width xs) (hi width xs)"

definition hred :: "nib list \<Rightarrow> nib list" where
  "hred xs = hred1 (hred1 xs)"

definition fv :: "nib list \<Rightarrow> gf" where
  "fv xs = of_int (hval xs)"

lemma fv_hred: "fv (hred xs) = fv xs"
proof -
  have "fv (hred1 xs) = fv xs" for xs
  proof -
    have "hval (hred1 xs) = hval (lo width xs) + 38 * hval (hi width xs)"
      by (simp add: hred1_def fold38_def times38_def hval_addc)
    moreover have "hval xs = hval (lo width xs) + 16 ^ 64 * hval (hi width xs)"
      using hval_lo_hi [of xs width] by (simp add: width_def)
    ultimately have "hval xs = hval (hred1 xs) + p25519 * (2 * hval (hi width xs))" by (simp add: p25519_def)
    then show ?thesis unfolding fv_def of_int_gf_eq_iff by (metis mod_mult_self2)
  qed
  then show ?thesis by (simp add: hred_def)
qed

section \<open>Field operations\<close>

definition hadd :: "nib list \<Rightarrow> nib list \<Rightarrow> nib list" where
  "hadd xs ys = addc False xs ys"

definition mm :: "nib list \<Rightarrow> nib list \<Rightarrow> nib list" where
  "mm xs ys = hred (hmul xs ys)"

lemma fv_hadd: "fv (hadd xs ys) = fv xs + fv ys"
  by (simp add: fv_def hadd_def hval_addc)

lemma fv_hmul: "fv (hmul xs ys) = fv xs * fv ys"
  by (simp add: fv_def hval_hmul)

lemma fv_mm: "fv (mm xs ys) = fv xs * fv ys"
  by (simp add: mm_def fv_hred fv_hmul)

lemma fv_hexi: "0 \<le> n \<Longrightarrow> fv (hexi n) = of_int n"
  by (simp add: fv_def hval_hexi)

lemma fv_Nil: "fv [] = 0"
  by (simp add: fv_def)

text \<open>Equality modulo \<open>p\<close>, on values that are below \<open>3 p\<close> after reduction.\<close>

definition mod1 :: "nib list" where
  "mod1 = hexi 57896044618658097711785492504343953926634992332820282019728792003956564819949"

definition mod2 :: "nib list" where
  "mod2 = hexi 115792089237316195423570985008687907853269984665640564039457584007913129639898"

definition eqv :: "nib list \<Rightarrow> nib list \<Rightarrow> bool" where
  "eqv xs ys \<longleftrightarrow> eqh xs ys \<or> eqh (addc False xs mod1) ys \<or> eqh (addc False xs mod2) ys \<or> eqh xs (addc False ys mod1) \<or> eqh xs (addc False ys mod2)"

definition eqm :: "nib list \<Rightarrow> nib list \<Rightarrow> bool" where
  "eqm xs ys \<longleftrightarrow> eqv (hred xs) (hred ys)"

lemma fv_mods: "fv mod1 = 0" "fv mod2 = 0"
  by (simp_all add: mod1_def mod2_def fv_hexi of_int_gf_eq_0_iff p25519_def del: of_int_numeral)

lemma eqm_sound: "eqm xs ys \<Longrightarrow> fv xs = fv ys"
proof -
  have a: "fv (addc False us vs) = fv us + fv vs" for us vs by (rule fv_hadd [unfolded hadd_def])
  have e: "eqh us vs \<Longrightarrow> fv us = fv vs" for us vs by (simp add: fv_def eqhD)
  assume "eqm xs ys"
  then have "fv (hred xs) = fv (hred ys)" unfolding eqm_def eqv_def by (auto dest!: e simp: a fv_mods)
  then show ?thesis by (simp only: fv_hred)
qed

lemmas field_rules = hex_rules lo.simps hi.simps width_def times38_def fold38_def hred1_def hred_def hadd_def mm_def mod1_def mod2_def eqv_def eqm_def simp_thms

lemmas fv_simps = fv_hadd fv_mm fv_hexi fv_Nil

end
