(* ===== verification/Table_Check.thy ===== *)
theory Table_Check
  imports Hex_Field
begin

text \<open>
  A checker for the tables of multiples of the base point.  A row holds a point \<open>P\<close>, its multiples up to \<open>8 P\<close> in affine form with
  the fields \<open>y + x\<close>, \<open>y - x\<close> and \<open>2 d x y\<close> of the table, the points \<open>16 P\<close> to \<open>128 P\<close>, and \<open>256 P\<close>; every point is
  the double of another one or the sum of one with \<open>P\<close>.
\<close>

section \<open>Checks\<close>

definition isp :: "ed \<Rightarrow> nib list \<Rightarrow> nib list \<Rightarrow> bool" where
  "isp P x y \<longleftrightarrow> coords P = (fv x, fv y)"

text \<open>\<open>y + x = u\<close> and \<open>y - x = v\<close>.\<close>

definition uv_ok :: "nib list \<Rightarrow> nib list \<Rightarrow> nib list \<Rightarrow> nib list \<Rightarrow> bool" where
  "uv_ok x y u v \<longleftrightarrow> eqm (hadd x y) u \<and> eqm (hadd v x) y"

text \<open>\<open>w = 2 d x y\<close>, with \<open>d = - 121665 / 121666\<close>.\<close>

definition w_ok :: "nib list \<Rightarrow> nib list \<Rightarrow> bool" where
  "w_ok xy w \<longleftrightarrow> eqm (hadd (hmul (hexi 121666) w) (hmul (hexi 243330) xy)) []"

definition dbl_ok :: "nib list \<Rightarrow> nib list \<Rightarrow> nib list \<Rightarrow> nib list \<Rightarrow> nib list \<Rightarrow> bool" where
  "dbl_ok uv uu vv x3 y3 \<longleftrightarrow>
    eqm (hadd (hmul (hexi 2) (mm x3 uv)) vv) uu \<and> eqm (hmul (hexi 4) y3) (hadd (hadd uu vv) (hmul (hexi 2) (mm y3 uv)))"

definition add_ok :: "nib list \<Rightarrow> nib list \<Rightarrow> nib list \<Rightarrow> nib list \<Rightarrow> nib list \<Rightarrow> bool" where
  "add_ok a c s x3 y3 \<longleftrightarrow>
    eqm (hadd (hadd (hadd x3 x3) (mm x3 s)) c) a \<and> eqm (hadd y3 y3) (hadd (hadd a c) (mm y3 s))"

lemma uv_sound: "uv_ok x y u v \<Longrightarrow> fv u = fv y + fv x \<and> fv v = fv y - fv x"
  unfolding uv_ok_def by (drule conjE [OF _ conjI]) (auto dest!: eqm_sound simp: fv_simps algebra_simps)

lemma gf_121666_nonzero: "(121666 :: gf) \<noteq> 0"
  using gf_k_nonzero by (metis mult_zero_right)

lemma w_sound:
  assumes "w_ok (mm x y) w" shows "fv w = 2 * gf_d * fv x * fv y"
proof -
  have "121666 * fv w + 243330 * (fv x * fv y) = 0" using assms unfolding w_ok_def by (auto dest!: eqm_sound simp: fv_simps fv_hmul)
  then have "121666 * fv w = - (243330 * (fv x * fv y))" by (simp only: eq_neg_iff_add_eq_0)
  also have "\<dots> = - 121665 * (2 * (fv x * fv y))" by simp
  also have "\<dots> = 121666 * (2 * gf_d * fv x * fv y)" unfolding curve_d_eq [symmetric] by (simp only: ac_simps)
  finally have "121666 * fv w = 121666 * (2 * gf_d * fv x * fv y)" .
  then show ?thesis using gf_121666_nonzero by (metis mult_left_cancel)
qed

lemma coords_sum: "coords (P + Q) = R \<longleftrightarrow> edwards_sum (coords P) (coords Q) R"
  by (auto simp: edwards_sum_padd plus_ed.rep_eq)

lemma on_curve_coords: "coords P = (x, y) \<Longrightarrow> on_curve x y"
  using curve_point_coords [of P] by (simp add: curve_point_def)

lemma sum_point:
  assumes "coords P = (x1, y1)" and "coords Q = (x2, y2)" and "t = gf_d * x1 * x2 * y1 * y2"
    and "x3 * (1 + t) = x1 * y2 + y1 * x2" and "y3 * (1 - t) = y1 * y2 + x1 * x2"
  shows "coords (P + Q) = (x3, y3)"
  using assms denominators_nonzero [of x1 y1 x2 y2] on_curve_coords
  unfolding coords_sum by (auto simp: edwards_sum_def gf_unit_iff)

lemma gf_half: "2 * a = 2 * b \<Longrightarrow> a = b" for a b :: gf
  using gf_2_nonzero by (metis mult_left_cancel)

lemma dbl_sound:
  assumes "isp P x y" and "fv u = fv y + fv x" and "fv v = fv y - fv x" and "dbl_ok (mm u v) (mm u u) (mm v v) x3 y3"
  shows "isp (P + P) x3 y3"
  unfolding isp_def
proof (rule sum_point)
  show c: "coords P = (fv x, fv y)" "coords P = (fv x, fv y)" using assms(1) by (simp_all add: isp_def)
  define t where "t = gf_d * fv x * fv x * fv y * fv y"
  then show "t = gf_d * fv x * fv x * fv y * fv y" .
  have yx: "fv u * fv v = 1 + t" using on_curve_coords [OF c(1)] unfolding assms(2,3) t_def on_curve_def by algebra
  have e: "2 * (fv x3 * (fv u * fv v)) + fv v * fv v = fv u * fv u" "4 * fv y3 = fv u * fv u + fv v * fv v + 2 * (fv y3 * (fv u * fv v))"
    using assms(4) unfolding dbl_ok_def by (auto dest!: eqm_sound simp: fv_simps fv_hmul)
  have "2 * (fv x3 * (1 + t)) = 2 * (fv x * fv y + fv y * fv x)" using e(1) yx assms(2,3) by algebra
  then show "fv x3 * (1 + t) = fv x * fv y + fv y * fv x" by (rule gf_half)
  have "2 * (fv y3 * (1 - t)) = 2 * (fv y * fv y + fv x * fv x)" using e(2) yx assms(2,3) by algebra
  then show "fv y3 * (1 - t) = fv y * fv y + fv x * fv x" by (rule gf_half)
qed

lemma add_sound:
  assumes "isp P x1 y1" and "isp Q x2 y2" and "fv u1 = fv y1 + fv x1" and "fv v1 = fv y1 - fv x1" and "fv u2 = fv y2 + fv x2" and "fv v2 = fv y2 - fv x2"
    and "fv w1 = 2 * gf_d * fv x1 * fv y1" and "add_ok (mm u1 u2) (mm v1 v2) (mm w1 (mm x2 y2)) x3 y3"
  shows "isp (P + Q) x3 y3"
  unfolding isp_def
proof (rule sum_point)
  show "coords P = (fv x1, fv y1)" "coords Q = (fv x2, fv y2)" using assms(1,2) by (simp_all add: isp_def)
  define t where "t = gf_d * fv x1 * fv x2 * fv y1 * fv y2"
  then show "t = gf_d * fv x1 * fv x2 * fv y1 * fv y2" .
  define s where "s = fv w1 * (fv x2 * fv y2)"
  have s: "s = 2 * t" unfolding s_def t_def assms(7) by algebra
  have e: "fv x3 + fv x3 + fv x3 * s + fv v1 * fv v2 = fv u1 * fv u2" "fv y3 + fv y3 = fv u1 * fv u2 + fv v1 * fv v2 + fv y3 * s"
    using assms(8) unfolding add_ok_def s_def by (auto dest!: eqm_sound simp: fv_simps)
  have "2 * (fv x3 * (1 + t)) = 2 * (fv x1 * fv y2 + fv y1 * fv x2)" using e(1) s assms(3-6) by algebra
  then show "fv x3 * (1 + t) = fv x1 * fv y2 + fv y1 * fv x2" by (rule gf_half)
  have "2 * (fv y3 * (1 - t)) = 2 * (fv y1 * fv y2 + fv x1 * fv x2)" using e(2) s assms(3-6) by algebra
  then show "fv y3 * (1 - t) = fv y1 * fv y2 + fv x1 * fv x2" by (rule gf_half)
qed

section \<open>Rows\<close>

text \<open>An entry \<open>(x, y, u, v, w)\<close> in digits.\<close>

type_synonym entry5 = "nib list \<times> nib list \<times> nib list \<times> nib list \<times> nib list"

fun xy_of :: "entry5 \<Rightarrow> nib list \<times> nib list" where
  "xy_of (x, y, u, v, w) = (x, y)"

fun prod_of :: "entry5 \<Rightarrow> nib list" where
  "prod_of (x, y, u, v, w) = mm x y"

fun uv_entry :: "entry5 \<Rightarrow> bool" where
  "uv_entry (x, y, u, v, w) \<longleftrightarrow> uv_ok x y u v"

fun w_entry :: "entry5 \<Rightarrow> bool" where
  "w_entry (x, y, u, v, w) \<longleftrightarrow> w_ok (mm x y) w"

fun dbl_entry :: "entry5 \<Rightarrow> nib list \<times> nib list \<Rightarrow> bool" where
  "dbl_entry (x, y, u, v, w) (x3, y3) \<longleftrightarrow> dbl_ok (mm u v) (mm u u) (mm v v) x3 y3"

fun add_entry :: "nib list \<Rightarrow> entry5 \<Rightarrow> entry5 \<Rightarrow> nib list \<times> nib list \<Rightarrow> bool" where
  "add_entry z2 (x1, y1, u1, v1, w1) (x2, y2, u2, v2, w2) (x3, y3) \<longleftrightarrow> add_ok (mm u1 u2) (mm v1 v2) (mm w1 z2) x3 y3"

fun hexi5 :: "int \<times> int \<times> int \<times> int \<times> int \<Rightarrow> entry5" where
  "hexi5 (x, y, u, v, w) = (hexi x, hexi y, hexi u, hexi v, hexi w)"

fun hexi3 :: "int \<times> int \<times> int \<Rightarrow> entry5" where
  "hexi3 (x, y, v) = (hexi x, hexi y, hadd (hexi x) (hexi y), hexi v, [])"

fun hexi2 :: "int \<times> int \<Rightarrow> nib list \<times> nib list" where
  "hexi2 (x, y) = (hexi x, hexi y)"

definition multiples_ok :: "nib list \<Rightarrow> entry5 \<Rightarrow> entry5 \<Rightarrow> entry5 \<Rightarrow> entry5 \<Rightarrow> entry5 \<Rightarrow> entry5 \<Rightarrow> entry5 \<Rightarrow> entry5 \<Rightarrow> bool" where
  "multiples_ok z e1 e2 e3 e4 e5 e6 e7 e8 \<longleftrightarrow>
    dbl_entry e1 (xy_of e2) \<and> add_entry z e2 e1 (xy_of e3) \<and> dbl_entry e2 (xy_of e4) \<and> add_entry z e4 e1 (xy_of e5) \<and>
    dbl_entry e3 (xy_of e6) \<and> add_entry z e6 e1 (xy_of e7) \<and> dbl_entry e4 (xy_of e8)"

definition doublings_ok :: "entry5 \<Rightarrow> entry5 \<Rightarrow> entry5 \<Rightarrow> entry5 \<Rightarrow> entry5 \<Rightarrow> nib list \<times> nib list \<Rightarrow> bool" where
  "doublings_ok e8 i1 i2 i3 i4 n \<longleftrightarrow>
    dbl_entry e8 (xy_of i1) \<and> dbl_entry i1 (xy_of i2) \<and> dbl_entry i2 (xy_of i3) \<and> dbl_entry i3 (xy_of i4) \<and> dbl_entry i4 n"

definition row_digits_ok :: "entry5 \<Rightarrow> entry5 \<Rightarrow> entry5 \<Rightarrow> entry5 \<Rightarrow> entry5 \<Rightarrow> entry5 \<Rightarrow> entry5 \<Rightarrow> entry5 \<Rightarrow> entry5 \<Rightarrow> entry5 \<Rightarrow> entry5 \<Rightarrow> entry5 \<Rightarrow>
    nib list \<times> nib list \<Rightarrow> bool" where
  "row_digits_ok e1 e2 e3 e4 e5 e6 e7 e8 i1 i2 i3 i4 n \<longleftrightarrow>
    list_all (\<lambda>e. uv_entry e) [e1, e2, e3, e4, e5, e6, e7, e8, i1, i2, i3, i4] \<and> list_all (\<lambda>e. w_entry e) [e1, e2, e3, e4, e5, e6, e7, e8] \<and>
    multiples_ok (prod_of e1) e1 e2 e3 e4 e5 e6 e7 e8 \<and> doublings_ok e8 i1 i2 i3 i4 n"

lemmas row_rules = field_rules uv_ok_def w_ok_def dbl_ok_def add_ok_def xy_of.simps prod_of.simps uv_entry.simps w_entry.simps dbl_entry.simps
  add_entry.simps hexi5.simps hexi3.simps hexi2.simps multiples_ok_def doublings_ok_def row_digits_ok_def list.pred_inject list.map

text \<open>An entry denotes a point.\<close>

definition entry_point :: "ed \<Rightarrow> entry5 \<Rightarrow> bool" where
  "entry_point P e \<longleftrightarrow> isp P (fst (xy_of e)) (snd (xy_of e))"

lemma dbl_entry_sound:
  "entry_point P e \<Longrightarrow> uv_entry e \<Longrightarrow> dbl_entry e n \<Longrightarrow> isp (P + P) (fst n) (snd n)"
  by (cases e; cases n) (auto simp: entry_point_def dest!: uv_sound intro: dbl_sound)

lemma add_entry_sound:
  assumes "entry_point P e" and "entry_point Q f" and "uv_entry e" and "uv_entry f" and "w_entry e" and "add_entry (prod_of f) e f n"
  shows "isp (P + Q) (fst n) (snd n)"
proof -
  obtain x1 y1 u1 v1 w1 x2 y2 u2 v2 w2 x3 y3 where e: "e = (x1, y1, u1, v1, w1)" "f = (x2, y2, u2, v2, w2)" "n = (x3, y3)"
    by (metis prod_cases5 surj_pair)
  have u: "fv u1 = fv y1 + fv x1" "fv v1 = fv y1 - fv x1" "fv u2 = fv y2 + fv x2" "fv v2 = fv y2 - fv x2" "fv w1 = 2 * gf_d * fv x1 * fv y1"
    using assms(3-5) uv_sound w_sound by (auto simp: e)
  show ?thesis using add_sound [OF _ _ u, of P Q x3 y3] assms(1,2,6) by (simp add: e entry_point_def)
qed

lemma dbl_point: "entry_point P e \<Longrightarrow> uv_entry e \<Longrightarrow> dbl_entry e (xy_of f) \<Longrightarrow> entry_point (P + P) f"
  unfolding entry_point_def [of "P + P"] by (rule dbl_entry_sound)

lemma add_point:
  "entry_point P e \<Longrightarrow> entry_point Q f \<Longrightarrow> uv_entry e \<Longrightarrow> uv_entry f \<Longrightarrow> w_entry e \<Longrightarrow> add_entry (prod_of f) e f (xy_of g) \<Longrightarrow> entry_point (P + Q) g"
  unfolding entry_point_def [of "P + Q"] by (rule add_entry_sound)

lemma smul_steps: "smul k P + P = smul (k + 1) P" "smul k P + smul k P = smul (2 * k) P" "P + P = smul 2 P"
  using smul_double [of P] smul_double [of "smul k P"] by (simp_all add: smul_add smul_smul)

lemma row_sound:
  assumes "row_digits_ok e1 e2 e3 e4 e5 e6 e7 e8 i1 i2 i3 i4 n" and "entry_point P e1"
  shows "list_all2 (\<lambda>k e. entry_point (smul k P) e \<and> uv_entry e \<and> w_entry e) [1, 2, 3, 4, 5, 6, 7, 8] [e1, e2, e3, e4, e5, e6, e7, e8]"
    and "isp (smul 256 P) (fst n) (snd n)"
proof -
  have uv: "uv_entry e1" "uv_entry e2" "uv_entry e3" "uv_entry e4" "uv_entry e5" "uv_entry e6" "uv_entry e7" "uv_entry e8" "uv_entry i1"
      "uv_entry i2" "uv_entry i3" "uv_entry i4"
    and w: "w_entry e1" "w_entry e2" "w_entry e3" "w_entry e4" "w_entry e5" "w_entry e6" "w_entry e7" "w_entry e8"
    and m: "dbl_entry e1 (xy_of e2)" "add_entry (prod_of e1) e2 e1 (xy_of e3)" "dbl_entry e2 (xy_of e4)" "add_entry (prod_of e1) e4 e1 (xy_of e5)"
      "dbl_entry e3 (xy_of e6)" "add_entry (prod_of e1) e6 e1 (xy_of e7)" "dbl_entry e4 (xy_of e8)"
    and d: "dbl_entry e8 (xy_of i1)" "dbl_entry i1 (xy_of i2)" "dbl_entry i2 (xy_of i3)" "dbl_entry i3 (xy_of i4)" "dbl_entry i4 n"
    using assms(1) by (simp_all add: row_digits_ok_def multiples_ok_def doublings_ok_def)
  note a = add_point [OF _ assms(2) _ uv(1)]
  have p2: "entry_point (smul 2 P) e2" using dbl_point [OF assms(2) uv(1) m(1)] by (simp add: smul_steps smul_smul)
  have p3: "entry_point (smul 3 P) e3" using a [OF p2 uv(2) w(2) m(2)] by (simp add: smul_steps smul_smul)
  have p4: "entry_point (smul 4 P) e4" using dbl_point [OF p2 uv(2) m(3)] by (simp add: smul_steps smul_smul)
  have p5: "entry_point (smul 5 P) e5" using a [OF p4 uv(4) w(4) m(4)] by (simp add: smul_steps smul_smul)
  have p6: "entry_point (smul 6 P) e6" using dbl_point [OF p3 uv(3) m(5)] by (simp add: smul_steps smul_smul)
  have p7: "entry_point (smul 7 P) e7" using a [OF p6 uv(6) w(6) m(6)] by (simp add: smul_steps smul_smul)
  have p8: "entry_point (smul 8 P) e8" using dbl_point [OF p4 uv(4) m(7)] by (simp add: smul_steps smul_smul)
  show "list_all2 (\<lambda>k e. entry_point (smul k P) e \<and> uv_entry e \<and> w_entry e) [1, 2, 3, 4, 5, 6, 7, 8] [e1, e2, e3, e4, e5, e6, e7, e8]"
    using assms(2) p2 p3 p4 p5 p6 p7 p8 uv w by simp
  have q1: "entry_point (smul 16 P) i1" using dbl_point [OF p8 uv(8) d(1)] by (simp add: smul_steps smul_smul)
  have q2: "entry_point (smul 32 P) i2" using dbl_point [OF q1 uv(9) d(2)] by (simp add: smul_steps smul_smul)
  have q3: "entry_point (smul 64 P) i3" using dbl_point [OF q2 uv(10) d(3)] by (simp add: smul_steps smul_smul)
  have q4: "entry_point (smul 128 P) i4" using dbl_point [OF q3 uv(11) d(4)] by (simp add: smul_steps smul_smul)
  show "isp (smul 256 P) (fst n) (snd n)" using dbl_entry_sound [OF q4 uv(12) d(5)] by (simp add: smul_steps smul_smul)
qed

section \<open>The entries of the program\<close>

fun lit_val :: "int list \<Rightarrow> int" where
  "lit_val [a, b, c, d, e, f, g, h, i, j] =
    a + 67108864 * (b + 33554432 * (c + 67108864 * (d + 33554432 * (e + 67108864 * (f + 33554432 * (g + 67108864 * (h + 33554432 * (i + 67108864 * j))))))))"
| "lit_val _ = 0"

definition lit_is :: "int list \<Rightarrow> int \<Rightarrow> bool" where
  "lit_is t u \<longleftrightarrow> 0 \<le> u \<and> (lit_val t = u \<or> lit_val t = u - 57896044618658097711785492504343953926634992332820282019728792003956564819949)"

lemma lit_val: "lit_ok t \<Longrightarrow> limb_val fe_weights t = lit_val t"
  unfolding lit_ok_def by (auto simp: list_all2_Cons2 limb_val_def fe_weights_def)

fun link_ok :: "int list \<times> int list \<times> int list \<Rightarrow> int \<times> int \<times> int \<times> int \<times> int \<Rightarrow> bool" where
  "link_ok (a, b, c) (x, y, u, v, w) \<longleftrightarrow> raw_ok (a, b, c) \<and> lit_is a u \<and> lit_is b v \<and> lit_is c w"

lemma lit_is_abs: "lit_is t u \<Longrightarrow> lit_ok t \<Longrightarrow> fe_abs (fe_lit t) = fv (hexi u)"
proof -
  assume t: "lit_is t u" "lit_ok t"
  have "limb_val fe_weights t mod p25519 = u mod p25519"
    unfolding lit_val [OF t(2)] using t(1) minus_mod_self2 [of u p25519] by (auto simp: lit_is_def p25519_def)
  then show ?thesis using t by (simp add: fe_abs_def fe_lit_val fv_hexi lit_is_def of_int_gf_eq_iff)
qed

lemma entry_rep:
  assumes "link_ok l e" and "entry_point P (hexi5 e)" and "uv_entry (hexi5 e)" and "w_entry (hexi5 e)"
  shows "rep_precomp (precomp_lit l) (coords P)"
proof -
  obtain a b c x y u v w where e: "l = (a, b, c)" "e = (x, y, u, v, w)" by (metis prod_cases5 prod_cases3)
  have ok: "lit_ok a" "lit_ok b" "lit_ok c" "lit_is a u" "lit_is b v" "lit_is c w" using assms(1) by (simp_all add: e)
  have "fv (hexi u) = fv (hexi y) + fv (hexi x)" "fv (hexi v) = fv (hexi y) - fv (hexi x)" "fv (hexi w) = 2 * gf_d * fv (hexi x) * fv (hexi y)"
    using assms(3,4) uv_sound w_sound by (auto simp: e)
  then show ?thesis
    using assms(2) ok by (simp add: e rep_precomp_def precomp_bounded_def fe_lit_bounded lit_is_abs entry_point_def isp_def)
qed

text \<open>Row \<open>es\<close> holds \<open>P\<close>, \<open>2 P\<close>, ..., \<open>8 P\<close>.\<close>

definition row_reps :: "ge_precomp list \<Rightarrow> ed \<Rightarrow> bool" where
  "row_reps row P \<longleftrightarrow> list_all2 (\<lambda>k q. rep_precomp q (coords (smul k P))) [1, 2, 3, 4, 5, 6, 7, 8] row"

definition row_starts :: "ed \<Rightarrow> int \<times> int \<Rightarrow> bool" where
  "row_starts P xy \<longleftrightarrow> isp P (fst (hexi2 xy)) (snd (hexi2 xy))"

text \<open>A row as it is supplied: eight entries, the points between them and the next row, and where the next row starts.\<close>

fun row_ok :: "(int \<times> int \<times> int \<times> int \<times> int) list \<Rightarrow> (int \<times> int \<times> int) list \<Rightarrow> int \<times> int \<Rightarrow> bool" where
  "row_ok [e1, e2, e3, e4, e5, e6, e7, e8] [i1, i2, i3, i4] n \<longleftrightarrow>
    row_digits_ok (hexi5 e1) (hexi5 e2) (hexi5 e3) (hexi5 e4) (hexi5 e5) (hexi5 e6) (hexi5 e7) (hexi5 e8) (hexi3 i1) (hexi3 i2) (hexi3 i3) (hexi3 i4) (hexi2 n)"
| "row_ok _ _ _ \<longleftrightarrow> False"

fun start_of :: "(int \<times> int \<times> int \<times> int \<times> int) list \<Rightarrow> int \<times> int" where
  "start_of ((x, y, _) # _) = (x, y)"
| "start_of [] = (0, 0)"

text \<open>The entries \<open>es\<close> hold \<open>P\<close>, \<open>2 P\<close>, ..., \<open>8 P\<close>.\<close>

definition row_entries :: "(int \<times> int \<times> int \<times> int \<times> int) list \<Rightarrow> ed \<Rightarrow> bool" where
  "row_entries es P \<longleftrightarrow>
    list_all2 (\<lambda>k e. entry_point (smul k P) (hexi5 e) \<and> uv_entry (hexi5 e) \<and> w_entry (hexi5 e)) [1, 2, 3, 4, 5, 6, 7, 8] es"

text \<open>A row of the program, the entries supplied for it and the start of the next row: wherever the row starts, it holds the multiples of that point.\<close>

definition row_fact :: "ge_precomp list \<Rightarrow> (int \<times> int \<times> int \<times> int \<times> int) list \<Rightarrow> int \<times> int \<Rightarrow> bool" where
  "row_fact row es n \<longleftrightarrow> (\<forall>P. row_starts P (start_of es) \<longrightarrow> row_entries es P \<and> row_reps row P \<and> row_starts (smul 256 P) n)"

lemma reps_entries:
  "list_all2 link_ok ls es \<Longrightarrow> list_all2 (\<lambda>k e. entry_point (f k) (hexi5 e) \<and> uv_entry (hexi5 e) \<and> w_entry (hexi5 e)) ks es \<Longrightarrow>
    list_all2 (\<lambda>k q. rep_precomp q (coords (f k))) ks (map precomp_lit ls)"
proof (induction ls es arbitrary: ks rule: list_all2_induct)
  case (Cons l ls e es)
  then obtain k ks' where ks: "ks = k # ks'" by (auto simp only: list_all2_Cons2)
  then show ?case using Cons entry_rep by (simp only: list_all2_Cons list.map)
qed simp

lemma row_represents:
  assumes "row_ok es is n" and "list_all2 link_ok ls es"
  shows "row_fact (map precomp_lit ls) es n"
  unfolding row_fact_def
proof (intro allI impI)
  fix P
  assume start: "row_starts P (start_of es)"
  obtain e1 e2 e3 e4 e5 e6 e7 e8 i1 i2 i3 i4 where es: "es = [e1, e2, e3, e4, e5, e6, e7, e8]" "is = [i1, i2, i3, i4]"
    using assms(1) by (cases rule: row_ok.cases [of "(es, is, n)"]) simp_all
  have "entry_point P (hexi5 e1)" using start by (cases e1) (simp add: es row_starts_def entry_point_def)
  note r = row_sound [OF assms(1) [unfolded es row_ok.simps] this]
  have "row_entries es P" using r(1) by (simp only: row_entries_def es list_all2_Cons list_all2_Nil simp_thms)
  moreover have "row_reps (map precomp_lit ls) P"
    using reps_entries [OF assms(2)] \<open>row_entries es P\<close> by (simp only: row_reps_def row_entries_def)
  ultimately show "row_entries es P \<and> row_reps (map precomp_lit ls) P \<and> row_starts (smul 256 P) n"
    using r(2) by (simp add: row_starts_def)
qed

text \<open>Consecutive rows.\<close>

fun chained :: "ge_precomp list list \<Rightarrow> (int \<times> int \<times> int \<times> int \<times> int) list list \<Rightarrow> int \<times> int \<Rightarrow> bool" where
  "chained [] [] n \<longleftrightarrow> True"
| "chained (r # rs) (es # ess) n \<longleftrightarrow> row_fact r es (case ess of [] \<Rightarrow> n | fs # _ \<Rightarrow> start_of fs) \<and> chained rs ess n"
| "chained _ _ n \<longleftrightarrow> False"

lemma chained_rows:
  assumes "chained rs ess n" and "i < length rs" and "row_starts P (start_of (hd ess))"
  shows "row_entries (ess ! i) (smul (256 ^ i) P) \<and> row_reps (rs ! i) (smul (256 ^ i) P)"
  using assms
proof (induction rs ess n arbitrary: i P rule: chained.induct)
  case (2 r rs es ess n)
  show ?case
  proof (cases i)
    case 0
    then show ?thesis using 2 by (simp add: row_fact_def)
  next
    case (Suc j)
    then have "chained rs ess n" "j < length rs" using 2 by auto
    moreover from this have "ess \<noteq> []" by (cases rs; cases ess) auto
    moreover from this have "row_starts (smul 256 P) (start_of (hd ess))" using 2 by (auto simp: row_fact_def split: list.splits)
    ultimately show ?thesis using 2(1) [of j "smul 256 P"] Suc by (simp add: smul_smul mult.commute)
  qed
qed auto

section \<open>Sums of entries\<close>

text \<open>Adding entries one after the other; every sum is supplied.\<close>

fun sum_chain :: "entry5 \<Rightarrow> (entry5 \<times> (int \<times> int \<times> int)) list \<Rightarrow> bool" where
  "sum_chain a [] \<longleftrightarrow> True"
| "sum_chain a ((t, n) # cs) \<longleftrightarrow> add_entry (prod_of a) t a (xy_of (hexi3 n)) \<and> uv_entry (hexi3 n) \<and> sum_chain (hexi3 n) cs"

lemma sum_chain_sound:
  assumes "sum_chain a cs" and "entry_point Q a" and "uv_entry a"
    and "list_all2 (\<lambda>(t, n) P. entry_point P t \<and> uv_entry t \<and> w_entry t) cs Ps"
  shows "entry_point (Q + sum_list Ps) (last (a # map (\<lambda>(t, n). hexi3 n) cs)) \<and> uv_entry (last (a # map (\<lambda>(t, n). hexi3 n) cs))"
  using assms
proof (induction a cs arbitrary: Q Ps rule: sum_chain.induct)
  case (2 a t n cs)
  then obtain P Ps' where P: "Ps = P # Ps'" and t: "entry_point P t" "uv_entry t" "w_entry t"
    and rest: "list_all2 (\<lambda>(t, n) P. entry_point P t \<and> uv_entry t \<and> w_entry t) cs Ps'" by (auto simp: list_all2_Cons1)
  have "entry_point (P + Q) (hexi3 n)" using add_point [OF t(1) 2(3) t(2) 2(4) t(3)] 2(2) by simp
  from 2(1) [OF _ this _ rest] 2(2) show ?case by (simp add: P ac_simps)
qed simp

text \<open>Doubling an entry repeatedly.\<close>

fun dbl_chain :: "entry5 \<Rightarrow> (int \<times> int \<times> int) list \<Rightarrow> bool" where
  "dbl_chain a [] \<longleftrightarrow> True"
| "dbl_chain a (n # cs) \<longleftrightarrow> dbl_entry a (xy_of (hexi3 n)) \<and> uv_entry (hexi3 n) \<and> dbl_chain (hexi3 n) cs"

lemma dbl_chain_sound:
  "dbl_chain a cs \<Longrightarrow> entry_point Q a \<Longrightarrow> uv_entry a \<Longrightarrow>
    entry_point (smul (2 ^ length cs) Q) (last (a # map hexi3 cs)) \<and> uv_entry (last (a # map hexi3 cs))"
proof (induction a cs arbitrary: Q rule: dbl_chain.induct)
  case (2 a n cs)
  then have "entry_point (Q + Q) (hexi3 n)" using dbl_point by simp
  from 2(1) [OF _ this] 2(2) show ?case by (simp add: smul_double smul_smul mult.commute)
qed simp

lemmas sum_rules = sum_chain.simps dbl_chain.simps

text \<open>The table of odd multiples: \<open>P\<close>, \<open>3 P\<close>, ..., \<open>15 P\<close>, from \<open>2 P\<close>.\<close>

fun odd_ok :: "(int \<times> int \<times> int \<times> int \<times> int) list \<Rightarrow> int \<times> int \<times> int \<Rightarrow> bool" where
  "odd_ok [e1, e2, e3, e4, e5, e6, e7, e8] d \<longleftrightarrow>
    list_all (\<lambda>e. uv_entry e) [hexi5 e1, hexi5 e2, hexi5 e3, hexi5 e4, hexi5 e5, hexi5 e6, hexi5 e7, hexi5 e8, hexi3 d] \<and>
    list_all (\<lambda>e. w_entry e) [hexi5 e1, hexi5 e2, hexi5 e3, hexi5 e4, hexi5 e5, hexi5 e6, hexi5 e7, hexi5 e8] \<and>
    dbl_entry (hexi5 e1) (xy_of (hexi3 d)) \<and>
    add_entry (prod_of (hexi3 d)) (hexi5 e1) (hexi3 d) (xy_of (hexi5 e2)) \<and> add_entry (prod_of (hexi3 d)) (hexi5 e2) (hexi3 d) (xy_of (hexi5 e3)) \<and>
    add_entry (prod_of (hexi3 d)) (hexi5 e3) (hexi3 d) (xy_of (hexi5 e4)) \<and> add_entry (prod_of (hexi3 d)) (hexi5 e4) (hexi3 d) (xy_of (hexi5 e5)) \<and>
    add_entry (prod_of (hexi3 d)) (hexi5 e5) (hexi3 d) (xy_of (hexi5 e6)) \<and> add_entry (prod_of (hexi3 d)) (hexi5 e6) (hexi3 d) (xy_of (hexi5 e7)) \<and>
    add_entry (prod_of (hexi3 d)) (hexi5 e7) (hexi3 d) (xy_of (hexi5 e8))"
| "odd_ok _ d \<longleftrightarrow> False"

lemma odd_represents:
  assumes "odd_ok es d" and "list_all2 link_ok ls es" and "row_starts P (start_of es)"
  shows "list_all2 (\<lambda>k q. rep_precomp q (coords (smul k P))) [1, 3, 5, 7, 9, 11, 13, 15] (map precomp_lit ls)"
proof (rule reps_entries [OF assms(2)])
  obtain e1 e2 e3 e4 e5 e6 e7 e8 where es: "es = [e1, e2, e3, e4, e5, e6, e7, e8]"
    using assms(1) by (cases rule: odd_ok.cases [of "(es, d)"]) simp_all
  note ok = assms(1) [unfolded es odd_ok.simps list.pred_inject]
  then have uv: "uv_entry (hexi5 e1)" "uv_entry (hexi5 e2)" "uv_entry (hexi5 e3)" "uv_entry (hexi5 e4)" "uv_entry (hexi5 e5)"
      "uv_entry (hexi5 e6)" "uv_entry (hexi5 e7)" "uv_entry (hexi5 e8)" "uv_entry (hexi3 d)"
    and w: "w_entry (hexi5 e1)" "w_entry (hexi5 e2)" "w_entry (hexi5 e3)" "w_entry (hexi5 e4)" "w_entry (hexi5 e5)" "w_entry (hexi5 e6)"
      "w_entry (hexi5 e7)" "w_entry (hexi5 e8)" by blast+
  have p1: "entry_point P (hexi5 e1)" using assms(3) by (cases e1) (simp add: es row_starts_def entry_point_def)
  have d: "entry_point (smul 2 P) (hexi3 d)" using dbl_point [OF p1 uv(1)] ok by (simp only: smul_steps)
  note a = add_point [OF _ d _ uv(9)]
  have st: "smul k P + smul 2 P = smul (k + 2) P" for k by (simp add: smul_add)
  have p3: "entry_point (smul 3 P) (hexi5 e2)" using a [OF p1 uv(1) w(1)] ok st [of 1] by simp
  have p5: "entry_point (smul 5 P) (hexi5 e3)" using a [OF p3 uv(2) w(2)] ok st [of 3] by simp
  have p7: "entry_point (smul 7 P) (hexi5 e4)" using a [OF p5 uv(3) w(3)] ok st [of 5] by simp
  have p9: "entry_point (smul 9 P) (hexi5 e5)" using a [OF p7 uv(4) w(4)] ok st [of 7] by simp
  have p11: "entry_point (smul 11 P) (hexi5 e6)" using a [OF p9 uv(5) w(5)] ok st [of 9] by simp
  have p13: "entry_point (smul 13 P) (hexi5 e7)" using a [OF p11 uv(6) w(6)] ok st [of 11] by simp
  have p15: "entry_point (smul 15 P) (hexi5 e8)" using a [OF p13 uv(7) w(7)] ok st [of 13] by simp
  show "list_all2 (\<lambda>k e. entry_point (smul k P) (hexi5 e) \<and> uv_entry (hexi5 e) \<and> w_entry (hexi5 e)) [1, 3, 5, 7, 9, 11, 13, 15] es"
    unfolding es using p1 p3 p5 p7 p9 p11 p13 p15 uv w by simp
qed

end
