(* ===== verification/Base_Table.thy ===== *)
theory Base_Table
  imports Table_Check
begin

text \<open>
  The tables of \<^verbatim>\<open>precomp_data.h\<close> hold the multiples of the base point that their comments promise, and the base point has
  the order \<open>l\<close>.  For every row the affine coordinates \<open>x\<close>, \<open>y\<close> of its eight points are supplied with the residues
  of the table's fields, and the doublings between \<open>8 P\<close> and \<open>256 P\<close>; the checker of \<^verbatim>\<open>Table_Check\<close> runs on them.
\<close>

section \<open>Points\<close>

definition points_0 :: "(int \<times> int \<times> int \<times> int \<times> int) list" where
  "points_0 =
    [(0x216936d3cd6e53fec0a4e231fdd6dc5c692cc7609525a7b2c9562d608f25d51a, 0x6666666666666666666666666666666666666666666666666666666666666658, 0x7cf9d3a33d4ba65270b4898643d42c2cf932dc6fb8c0e192fbc93c6f58c3b85, 0x44fd2f9298f81267a5c18434688f8a09fd399f05d140beb39d103905d740913e, 0x6f117b689f0c65a85a1b7dcbdd43598c26d9e823ccaac49eabc91205877aaa68),
     (0x36ab384c9f5a046c3d043b7d1833e7ac080d8e4515d7a45f83c5a14e2843ce0e, 0x2260cdf3092329c21da25ee8c9a21f5697390f51643851560e5f46ae6af8a3c9, 0x590c063fa87d2e2e5aa69a65e1d607029f469d967a0ff5b59224e7fc933c71d7, 0x6bb595a669c92555e09e236bb16e37aa8f2b810c4e60acf68a99a56042b4d5a8, 0x701af5b13ea50b73500fa0840b3d6a3136c16bdd5d9acf7843faa8b3a59b7a5f),
     (0x67ae9c4a22928f491ff4ae743edac83a6343981981624886ac62485fd3f8e25c, 0x1267b1d177ee69aba126a18e60269ef79f16ec176724030402c3684878f5b4d4, 0x7a164e1b9a80f8f4c11b50029f016732025a8430e8864b8aaf25b0a84cee9730, 0x2ab91587555bda628131f31a214bd6bd3bd353fde5c1ba7d56611fe8a4fcd265, 0x5a2826af12b9b4c6d170e5458cf2db4c589423221c35da6214ae933f0dd0d889),
     (0x203da8db56cff1468325d4b87a3520f91a739ec193ce1547493aa657c4c9f870, 0x47d0e827cb1595e1470eb88580d5716c4cf22832ea2f0ff0df38ab61ca32112f, 0x680e910321e58727ca348d3dfb0a92656765c6f47dfd2538287351b98efc099f, 0x27933f4c7445a49ac3e8e3cd06a05073327e89715660faa995fe050a056818bf, 0x7f9d0cbf63553e2b5ddbdcf9102b44946e9e39457b5cc1725a13fbe9c476ff09),
     (0x49fda73eade3587bfcef7cf7d12da5de5c2819f93e1be1a591409cc0322ef233, 0x5f4825b298feae6fe02c6e148992466631282eca89430b5d10d21f83d676c8ed, 0x2945ccf146e206ebdd1beb0c5abfec448d5048c3c75eed02a212bc4408a5bb33, 0x154a7e73eb1b55f3e33cf11cb864a087d50014d14b2729b77f9182c3a447d6ba, 0x43aabe696b3bb69ab41b670b1bbda72d270e0807d0bdd1fcbcbbdbf1812a8285),
     (0x4c9797ba7a45601c62aeacc0dd0a29bea1e599826c7b4427783a741a7dcbf23d, 0x54de3fc2886d8a11db709a7fd4f7d77f9417c06944d6b60c1d27ad0f9497ef4, 0x51e57bb6a2cc38bd8065b668da59a7369b27158900c8af883a0ceeeb77157131, 0x38b64c41ae417884bb085ce7204553b9575be28427d22739499806b67b7d8ca4, 0x10b8e91a9f0d61e353e4a24b083bc144be70e00341a1bb0185ac326702ea4b71),
     (0x14568685fcf4bd4ee9e3ee194b1d810783e809f3bbf1ce955855981af50e4107, 0x31c563e32b47d52f87ce6468dd36ad41f0882b46f7abf23d12c4c4b59f4062b8, 0x461bea69283c927e71b2528228542e497470353ab39dc0d26b1a5cd0944ea3bf, 0x1d6edd5d2e5317e09dea764f92192c3a6ca021533bba23a7ba6f2c9aaa3221b1, 0x7a9fbb1c6a0f90a7529c41ba5877adf3b3035f47053ea49af1836dc801b8b3a2),
     (0x6742e15f97d771b642862d5cf84ecf93eb3ac67b80698b993b87fdbc08a584c8, 0x21d30600c9e573796ead6f09668af38f81783cfc621ee4931e2f5ba9fc37b9b4, 0x915e76061bce52fb1339c665ed9c3236cb30377e288702c59b7596604dd3e8f, 0x3a9024a1320e01c32c2741ac6e3c23fb963d7680e1b558f9e2a75dedf39234d9, 0x26907c5c2ecc4e95636412190eb62a32b8a371788bcca7d7e7c1f5d9c9a2911a)]"

definition between_0 :: "(int \<times> int \<times> int) list" where
  "between_0 =
    [(0x23a4860627e53aeeb8e22b1508249c9109578d33e7bf237459b2596d6c28f9f8, 0x709696f2827fc3729f980f2e3aad6e78b06a11ff8e079c27d87aab37c16727eb, 0x4cf210ec5a9a8883e6b5e4193288d1e7a71284cba64878b37ec851ca553e2df3),
     (0x39cf6c6917421af98582561d0b39567de6033190f97852fc4fdd40f6977e4f26, 0x4434a90ee12cce6b7ade93ecc0f88b78b41205e74c8c4038f92d394f3a06d269, 0xa653ca5c9eab371f55c3dcfb5bf34face0ed4565313ed3ca94ff858a2888343),
     (0x5fa64200bf829139cf290f9871d79a8b8e846fd6ad9d678f1517a0fb03ca40b, 0x3d199eeaf926002872f486796fa8aa4c99f1125e6e0d196afbd695af17da0926, 0x371f3acaed2dd714d601f57fe88b30a3e108cb61033342f20a851b9f679d651b),
     (0x379dbeb1a97b5f082402eabf1ad28bb78a837aa426237a405da2495bf0cfdd87, 0x28eb9fe001ce99d063f7995348559bfc233261c134094521fda0e7ee084b86fc, 0x714de12e58533ac83ff4ae942d83104498aee71d0de5cae19ffe9e92177ba962)]"

definition points_1 :: "(int \<times> int \<times> int \<times> int \<times> int) list" where
  "points_1 =
    [(0x5e7e07ed4e1decbfe6e9cbc126905449d4b578fbb561576d20b8bcdd0cc2a556, 0xf55755c51f102796bf5ebaa81d3260e7d1b3d9ac127d9a80e142031566cf6c7, 0x6dd37d49a00eef3952dfb76ba8637a5851d0b696768931152eccdd0e632f9c1d, 0x30d76d6f03d315b9850c1fe95b42d1c4a865c49f0bc6823aed5b635449aa515e, 0x10c697112e864bb0b4739ea4694d3f26fb53d680928d7f696c4444172106e4c7),
     (0x2eecbf81b3d084733331f9eefa70d42621effd9b303961d25409333c82cd340a, 0x54d2dc2da137827c4132d9b740a119b6484d4d4849e6e074b89cf764008b93e8, 0x3bf9baf550806ef7464d3a63b11eddc6a3d4ae37a2042470ca62aa08358c805, 0x25e61cabed66fe090e00dfc846304590265d4fad19ad7ea26493c4277dbe5fde, 0x566d78634586e22ca0b63dedcc1268f56f5873ecb459747e3f13e128cc586604),
     (0x70b225147463be28a5aa7b1879cd8dbe57eadd2aa53d51b94566cef314cc93bb, 0x244980ded32ff401c2606727f94d609a147934004dd9160a5b9e7392b18d9c02, 0x14fba5f34793b22a680ae240731aee586c64112af31667c3a1054285c65a2fd0, 0x33975bca5ecc35d91cb5ec0f7f7fd2dbbc8e56d5a89bc4511637a49f9cc10834, 0x14829cea83fc526c2fc3f2b67b61131e593e5e84c9c800573cd746166985f7d4),
     (0x6b113a52f9f3fd0590ac7cb6c8cbb37abcf147c44b2ae11d9151c7d55b4a2b68, 0x1aeb017159697e792eb8da1805519c06296595f4f57996c590954359f327c13d, 0x5fc3bc4535d7b7ebf6556cece1d4f80e656ddb940a477e321e70b2f4e71ecb8, 0x2fd9c71e5f7581739e0c5d613c85e88b6c744e30aa4eb5a7ff437b8497dd95c2, 0x373767475c651f0433a4bc83a9be81953495638ced3b30cf24b8b3ae52afdedd),
     (0x661b75757abbc179ad6a11dd399040591e057ee83fe6428719c2fde6e9a95bd2, 0x5da1ae1b5d4bb12f0ce022f4f807c07d10c9557d6db12ae497d97e42a7b09be, 0x6bf5905730907c8c9e38140c8910bc60ef12144016c15535634095cb14246590, 0x1fbea56c3b18f9994363f05215f03baeb307166f96f4d0272fba99fd40d1add9, 0x2521cf67a635a566f52d7b89aa29a5006409ff7bac3a77e0fa778f1e1415b8a),
     (0x603ba4adc34a9feb3b4b4de22065bd3e2cafd6aac31420342fea3c8ab6490615, 0x1fdbaf2c3482ccd90facd46ae046c50cbc48be06d2f37a9a812a2a95c0e658bc, 0x1753d9f7cd6cc44af8224d00ac824ae8f894b196079aceb1146720772f5ee4, 0x3fa00a7e71382cedd4618688bfe107ce8f98e75c0fdf5a66513fee0b0a9d5294, 0x12b5fe2fa048edb6aad7d1f9a091f2851dde87dab49738583c69232d963ddb34),
     (0x3d718e644bf2d3a45d1e15af3af9e330ebd6a85bd12c1693369d40310b391d99, 0x320d055dbba3f4142f2288113a22a8925f902ac77f1f7280a88e3bf5a23600f9, 0x6f7e93c20796c7b88c409dc0751c8bc34b66d323504b8913df2b7c26ad6f1e92, 0x749b76f96fb1206fd2047261ff28c56173b9826badf35bed71f0fbc496fce34d, 0xfcec10f01e0215161a808b5eeff6b66c12351f1bee49c991f5af604aea6ae05),
     (0x3c1ae7527612d38bb541f511fcc6283d8482afe93115b345ecd2bcfbbd1317f7, 0x51c91c3f9d7e57eb786116c8545f90fa67f5e8b62c32ac4512015a20711364e, 0x413779166feab90a6cc8067e820c214d2b020e7493d8de0a3df2d29dc4244e45, 0x4901aa7183c511f302441c5a887fd0d221fcaea231ad777e644d58a649fe1e44, 0x41bb887b726d1213f760b0f91e06d939ce0f7a7c246299b408b1b7548c1af8f0)]"

definition between_1 :: "(int \<times> int \<times> int) list" where
  "between_1 =
    [(0x7d13c0248b891b47eb524f2692008e2f97b199bac426cb5902b9003a29ded6ea, 0x59a976ab2c01a81a91f1a56c75ccc77a9e1e9e878e9fe9c3952080a6805b20d5, 0x5c95b686a0788cd2a69f5645e3cc394b066d04ccca791e6a9267806c567c49d8),
     (0x17d5a9ff7f338d8ee53c26531f9a5d4ad2718234b5d46a1435aa161031b1c9de, 0x73022287d3b73f6c43c3f9071cf0a87aac83dabd44efad1de010d564a4f6af89, 0x5b2c78885483b1dd5e87d2b3fd564b2fda1258888f1b4309aa66bf547344e5ab),
     (0x7a8bc68bf5f3ed3bed79c11bf2d6b20cb84442dfe4ae185b0c2dabc38e74b8a, 0x7249d7c47afd427018b32d20a2a81307bddc3e039574c80329aa786a22288901, 0x6aa11b5bbb9e039c59db910ee37aa7e6f257f9d59729e67d78e79dade9413d77),
     (0x5b4fd9f4a9a79b1f34a4c426c1a467d36560338b1a5457e83254935c2b32ff02, 0x40ebd1230468fbf85a49aa47278ec1375a3cf9c2ecc5bbdf685b265433b08d46, 0x659bf72e5ac160d925a4e62065ea5963f4dcc637d27163f7360692f8087d8e31)]"

definition points_2 :: "(int \<times> int \<times> int \<times> int \<times> int) list" where
  "points_2 =
    [(0x5de7faa2ee4e70132f541f79ca07cd54a39fe1347a6844d19e9d678a8411a565, 0x2c9f23641e1c2e0aab8ea9926b432d92c0e8bc08901d6ff6df85e4cef854ec36, 0xa871e070c6a9e1ddae2c90c354afae764889d3d0a85b4c87e234c597c6691ae, 0x4eb728c12fcdbdf77c3a8a18a13b603e1d48dad415b52b2540e87d44744346be, 0x3ee7300f2685d4640d61ade219d59e3c736bae3a5bdd42603301b5994bbc8989),
     (0x74e337a01c13b537323663602811d1d532d8747e81489415271411b172d04f27, 0x8648f02b3a4daf96ecffabdbaf3599fb2ee85dae253b2c21ce66796114e25f1, 0x7d47c6a2cfb89030a1065e1de3052b74e5c6fa59639c46d743fa7947841e7518, 0x13815762979125c23c99975d92e187ca8016115c610b1eacf5d255e49e7dd6b7, 0x148cf58d34c9ec8071ec621026bb81579d3e749a91546f3c3fdad0148ef0d6e0),
     (0x73ce78c748a872f2a197a7a16fffc81c8814e07e49379eeb4dd94e4390d7c290, 0x33c172e606062ec6fe3963cbf960e070ceae653d3fbba994947de13a0a0cb2ca, 0x278febad4eaea1b99fd10b6d6960a88d56c345bb88f3487fe2572f7d9ae4756d, 0x3ff2fa1ebd5dbbd45ca1bc2a89611854469984bef6840aa946a492f67934f027, 0x4104dd02fe9c677b39115291219d3c528c21949c20290c98b1aa681f8c933966),
     (0x6a6fbd51efa6a855e82cb0142325ba473fd7554aba208a400737475464f29434, 0x16f5f8529f55fc2b7cf811161d7870ade1d1617e52c3c4f579ea06b27616d671, 0x165b5a48efca4816524c12a409e2af521a8b6c90ce44f3581214e06db096ab8, 0x2c863b00afaf53d594cb6101fa52b666a1fa0c3398a33ab572b2bf5e1124422a, 0x591b67d9bffec8b8695e290658aa2b8f12eff984cd2f7cc0f190a474a0846a76),
     (0x455d905f52d04b5ff74beebb11d774b2c5764a4dfacc3bca3445532a8f320ca8, 0x33dbf271d5fc72b69bc227bb0c7913b1eef9baca6c02854657460470fe6a8b5, 0x489b4f867030128b61081136c29f05ede465e5faa18c641e99b9b3719f18b55d, 0x3de02ec7ca8f7bcb727033c09ef01c885979515eabf3ec8a312f0d1c80b49bfa, 0x49f5fbba496cbebf3d7eabe7190baa24e16253b46116a861d232102d3aeb92ef),
     (0x584e7f2a5e3671737f705f1a906dab675706549e0491e9aaf264643dca20439a, 0x2e5327982a30dfe81232f3dbc0e9b8843347320ec0f65d9622f8fe4e547c1381, 0x6a1a6c28867515b91a352f6515763eb8a4d86acc5884741155d628c1e9c572e, 0x5604a86dcbfa6e7492c294c1307c0d1cdc40dd70bc6473eb30949a108a5bcfd4, 0x20989e89fe2742c69f031a6018acf6d172541140e0418b517288d1d47c1764b6),
     (0x7783d619f52f8bd4e0c839d8c7e2085d11ce2fed6abda9a6666e57c725de8fce, 0x7b87c33701d609fe8342123d99e9ebfd4453ac1a100d8238b005cfc4600c5c4d, 0x730b9950f70595d3640a4c1661cbf45a5621dc077acb2bdf1674278b85eaec2e, 0x403ed1d0ca67e29a279d864d207e3a032857c2ca54fd892499777fd3a2dcc7f, 0x5bd7454308303dccf7cb46fa16c035cec5e6c8cf98246f8dc94b2d35874ec552),
     (0x243eb188de73a5549b32c39d2ef1b29623709a9ead4c0e240314e0c5f69a9634, 0x3779298951f452d801eb7a0b7eb224cca2dbef041081cfa582afb25b1f4ce2f6, 0x5bb7db123067f82c9d1e3da8ada3d762c64c89a2bdcdddc985c4932115e7792a, 0x133a78007380ad8366b8b66e4fc072367f6b54656335c1817f9ad19528b24cc2, 0x740dca6d58f0e0d2182360779bd5477004ec21d6211952ee0961f467c6ca62be)]"

definition between_2 :: "(int \<times> int \<times> int) list" where
  "between_2 =
    [(0x6b349eebfed4dad4a805b63a6ed2231a565cda752d9477ff427dd9a8c9ab5ed, 0x7a09289ff3e1f9aab68aa374c48df65f550c2323607b97744dee990608b64f8, 0xed489b3f50d1ed60e84ed3a55bbd344feaf48ae32e71f750b70bf5d3f0af0b),
     (0x482a4cdf57d9eadaab1c92b8edd4d15f66a39c16b2ebaaf9ec314ac0199c4f7d, 0x7391de4381c2f7a80b3c5fc6145192983f115fa525e4fd6abd513b116e4eb04b, 0x2b67916429e90ccd601fcd0d267cc138d86dc38e72f95270d11ff05154b260ce),
     (0x3bad86defe0d244dcc4b246c137dcc68bf6b733d1fff688f33431f2a339f8f3c, 0x2de3cdf2fa86ba8c2b899f9fc04b8d5384145c3f68ea9b6ee05373dc01815179, 0x72364713fc79963e5f3e7b33accdc0eac4a8e90248eb32dfad1054b1cde1c22a),
     (0x45afc85dc571ed1bd5e8115a9622d44627cf19fc4a8626e7b754b005cb75be54, 0x6c0c8abfa60bfc771e39a18f57b8142f7adbcf220b81ee2339809e4957777b40, 0x265cc261e09a0f5b48519034c1953fe9530cb525c0fbc73b822bee438c01bcec)]"

definition points_3 :: "(int \<times> int \<times> int \<times> int \<times> int) list" where
  "points_3 =
    [(0xaf367956af630266b1cc760154256ed79da960dddca9d72a1e8cf27d8d43a77, 0x21108d900134d3b3708dd28ace96b0b23dda9100e4b6a62a8131bd2f2ba408c5, 0x2c03f5256c2b03d9dbaa99eae3d9079fb7b5270ec281439d231a8c570478433c, 0x161d25fa963ea38d05710b2ab95459c4c3fffaf306ec08b7df48ee0752cfce4e, 0x699468bdbd96bbaf31903d77257ef7f9307b0130cf0c5879790f18757b53a47d),
     (0x2b760154fc5ceb5a64141345f55b1b57e5b0b1d6c5a07dea8ddf074fbae70d33, 0x7dc81af96fed42e0373411203fa2ced7629fb2eb6a2054e24afe3696afc20c02, 0x293e1c4e6c4a2e3a9b48246634fdea2f485064c22fc0d2ccd8dd3de66aa91948, 0x525219a473905785d31ffdda4a47b37f7cef0114a47fd6f7bd1f2f46f4dafecf, 0x5b605c447f032823b04589af461c3111703778b5dca15da0376e134b925112e1),
     (0x4535c89311d604f3aaa0e4d88d9d7b514f3d23c8f1d3dccac1423f36e811b9d8, 0x69dd3661ba84b8e1aaa20a3d90806ac9372d33d5840f6c977aa7bf9008d63661, 0x2f12fef4cc5abdd55542ef161e1de61a866a579e75e349623be9fec6f0e7f04c, 0x24a76dcea8aeb3ee0001256502e2ef77e7f0100c923b8fccb965805920c47c89, 0x5e607b2518a43790c6cf144178cff66810d06e7f40c9a4070a4522b2dfc0c740),
     (0x67dbc33418bbcd3878489398639484b6d6fa42f875b8c5af23bc92c69c5bdb6b, 0x38436fdf8589a33059fc92e7ca7aa2250cc9ea48391b1e517c6fb056093af396, 0x201f33139e457068d24526802e0f26dbe3c42d40aed3e400a02c431ca596cf14, 0x5067acab6ccdd5f7e1b3ff4f66e61d6e35cfa74fc36258a258b31d8f6cdf1818, 0x397cba8862460375d5220eb02e25a4a818b14964017c0006fd527f6b08039d51),
     (0x69f0b68125b9ab0c6ebcf63389c5cfd7621379497a1bd8bda3aa49b3ebdd1011, 0xd2a89a19c28174690eccac4fbe32dfe444e1ad763c55233d46b7a47dc3669d6, 0x771b4022c1e1c252ffa9c0f885a8fdd5a6619420dde12af17815c3fbc81379e7, 0x2339d320766e6c3a222fd491721d5e26e23aa18de9a9797630c13093f05959b2, 0x331a189219971a76d06bc31b1ea283b3f5ac9b71f9d4cf08d87dd986513a2fa7),
     (0x34d9729a3945d42cd08c6cd2c09f8f53dfca8d55031fea67189d5ffa5112f8eb, 0x65efef05bd03d24eb46154ee50e168707c01553364e760370db3cf404c6279b1, 0x1ac9619ff649a67b84edc1c11180f7c45bcbe28868074a9e26512f3a9d7572af, 0x31167c6b83bdfe21e3d4e81b9041d91c9c36c7de61c775cff5166f45fb4f80c6, 0x612436341f08b111fc9d71844a6250c85068343bee9ce987f22b3842524b1068),
     (0x271b64006d3d0282832762a869c867f449f0888797e6108a58e30403c96f4e4c, 0x6e0746310b9c01c2fc648f1039d803b053ef2e7903edecab328045df50bdd7d9, 0x1522aa3178d904457f8bf1b8a3a06ba49ddfb7009bd3fd358b6349e31a2d2638, 0x46ebe2309e5eff40793d2c67d00f9bbc09fea5f16c07dc20d99d41db874e898d, 0x45fe70f50524306ce8c83391b646f227dafe409ab72d6d102c382f5369614938),
     (0x29ea44a50a4b47b8b3dffa01dc5f2271d5439ba8a82a6ec0c454e9bd19448479, 0x6c775ac8ab2eda8cbbdb4bd1196ab24630ac6c1f97389de19e9d5f63af509005, 0x16619f6db57a22456fbb45d2f5c9d4b805f007c83f630ca262f24920c8951491, 0x428d1623a0e392d407fb51cf3d0b8fd45b68d076ef0e2f20da4875a6960c0b8c, 0x1d81592d60bd38c6deb8de4643d1bc7da82219c376a5caac084f4a4401a308fd)]"

definition between_3 :: "(int \<times> int \<times> int) list" where
  "between_3 =
    [(0x1e45a60140a3b2dee9b8dc6ff307154a1b410bcd38e0e38fb10b2f6da1afbe2b, 0xe730da473dffd60d2f3241a85e68acb47d26e5043ad047d893f072c8dda0a76, 0x702d67a3333c4a81e93a47aa92df75812c9162830acc20edd833d7beec2a4c38),
     (0x61708161cb4660ff22c3c1eaafb1414244579864b07e73fb9bcd90aabec9935d, 0x38d6936d12e8157c0621bd2d8fdf95a1f84987ee724e0c98f5c4cd21feb9820d, 0x5766120b47a1b47ce35dfb42e02e545fb3f1ef89c1cf989d59f73c773fefee9d),
     (0x48f451397792915909604c632c838021641749a67fb8e91301427defd951f791, 0x315385d3bd5a22b69068de89e52a3126525be7da886d693e99ff2f088322d560, 0x685f349a45c7915d87089226b8a6b104ee449e3408b4802b98bcb118a9d0ddbc),
     (0x7956a04df862178ee4c705ffbd30f9dcbccdfc7abe362f2c1da24b3cf9dcced8, 0x5eeac17f2e772f551e761978b395b6ddea37a16aa33cff34a30a8453baf6e782, 0x65942131361517c639af1378f664bd012d69a4efe506d00885683916c11a1897)]"

definition points_4 :: "(int \<times> int \<times> int \<times> int \<times> int) list" where
  "points_4 =
    [(0x4d1e116d136158c5ddabd4276832800f2c081c1072de6f2d931797a46abc0cbb, 0x6d415be49d4e35b65cc51354b5008f8c43e84b7b5e8a4b84f44e1efb10c9b91a, 0x3a5f6d51b0af8e7c3a70e77c1d330f9b6ff0678bd168bab28765b69f7b85c5e8, 0x20234a7789ecdcf07f193f2d4cce0f7d17e02f6aebabdc5761368756a60dac5f, 0x7cd682353cffe366f62a4a20b3e41170071c34f9d51ed16076d20db67178b252),
     (0x4b5bae5a77a867ddbee3944524f8e2ec8c2a6172c14bd432cd42148248127d15, 0x739476e0b38471219875a4580e6742ecb6aecba57b8c0fa0d923b8de209a77cb, 0x3ef0253b2b2cd8ff5759389d336025d942d92d183cd7e3d3a665cd6068acf4f3, 0x2838c8863bdc0943d9921012e96e60002a846a32ba403b6e0be1a45bd887fab6, 0x21dcb8a606a8281282cfae8af4ab419dfa496b4115c577abd16bb0cf4a465030),
     (0x28e01e9eebe624f050385a759882d4f1ae61ab87c739ba5f1f167e5a18ecc8f9, 0x34a3ef208089429b6293a7c1ab71048dd3a1b4f69b645e2a7b7682a0a58a68c1, 0x5d840dbf6c6f678bb2cc023743f3d97f8203607e629e18899a8d00fabe7731ba, 0xbc3d08194a31dab125b4d4c12ee2f9c2540096ed42aa3cb5c6004468c9d9fc8, 0x3a4276232ac196dd57bbba997dae20ab6eb02da6b9e165c7706e380d309fe18b),
     (0x33bfa90cc1b9df13e106ffcf6ca898d06b22d51df337243bf85b3f232869fcdf, 0x53b120db6327cae59fa5fff109017d2df4acef01d2f10981439d824fb2da81d9, 0x770c9e824e1a9f980acffc075aa15fe5fcfc41fc6282dbd3bf8c172db447ecb, 0x1ff177cea16debd1be9f00219c58e45d898a19e3dfb9e5454b42432c8a7084fa, 0x39f264fd41500b1ee7300919303e3e89860984e91b3a7924cf61d99a45b5b5fd),
     (0x6759a4f961d6ac87116ff682cca6bb2af36ce2bbda2202c694f70b4a1110cc99, 0x7e6c7c2dca5f44c7b2591211600036d4b1011a2605be16633ca43f61ecf8af35, 0x65c621272c35f14ec3c908942ca6f1ffa46dfce1dfe01929d19b4aabfe097be1, 0x1712d73468889840a0e91b8e93597ba9bd94376a2b9c139ca7ad3417dbe7e29c, 0x22f9800ab19ce2720419a93d2e1cfe834d103356a125c0bbe72b89f8ce3193dd),
     (0x56bec703109151e787690e04944ce775ea94874dc7aa8115f0d434a9ade80267, 0x6ab2ddd0750778ccdca656b4f3710c05ce7e47706cfac82b512e6b33ec86fb32, 0x4171a4d38598cab4640f64b987bdf37bb912cebe34a5494142029fdd9a6efdac, 0x13f416cd647626e5553d48b05f24248fe3e9c022a5504715605a368a3e9ef8cb, 0x508214fa574bd1abfbd291ddadda539223006f6fb000b807fa2758aa99c94c8c),
     (0x4bbefbdc2c60867dadf3a817a029c56305dae0a7b5eb28d0420bd6530a7c82bc, 0x6eb85cc89c0c2dc979d1ce5dcc3e74f7ac3547e10708a095040e3f6849538107, 0x3a7758a4c86cb44727c576756c683a5ab2102888bcf3c965461a15bb53d003d6, 0x22f960ec6faba74bcbde26462c14af94a65a6739511d77c4c20269153ed6fe4b, 0x5d9fd15f8de7f49412248c90f3115e651dae21df1dfd54a6548111f693ae5076),
     (0x444929347c2ded029bc19558b0f69a4492017a9c35b370711e08222bc0b9efc6, 0x77785ec5cbbdabd645a3251e7da57c8ffc39158c0d7b25a4211c2aff2e1d6245, 0x3bc187fa47eb98d8e164ba772e9c16d48e3a9028432e96153f244d2aeed7521e, 0x332f35914f8fbed3a9e18fc5ccaee24b6a379aefd7c7b533031408d36d63727f, 0x450d81ce906fba03d77832b53a660188998ab7cb6c46d1256d470115ea86c20c)]"

definition between_4 :: "(int \<times> int \<times> int) list" where
  "between_4 =
    [(0x2b6b892ae94b454b2c2d92bb947fc4d506d173d281779c2c153c001ded42d3d0, 0x7f1cf64e0e180fc4d6e12c1b5c5285f376e979616a52c94a0dea4d48c5880cd2, 0x53b16d2324ccca79aab3995fc7d2c11e7018058ee8db2d1df8ae4d2ad8453902),
     (0x1b9175b7fc19a618d5848c5761c2b760529e3eaaac087b51112b1fcb422e04b4, 0x1730a59fff4717e258cc853dece7c5f70ecb52cc35320a53cc3838c844ca68e8, 0x7b9f2fe8032d71c98347f8e68b250e96bc2d142189298f02bb0d18fd029c6421),
     (0x1371cf67fe47f8ef91246ae0485874d601e31984d854224569ac29e56a6ee87, 0x71cad7d8350661ce798e332a98ee5b62f8431fd9ac5a4a48856ce9c4c5b64c73, 0x7093bae1b521e23f807bec7c9468d4159824ee415ed508242ed227266f0f5dec),
     (0x63bd671eca1e6accd0f980845b163ca4e927d2a74d198e78cccd8fcaa6aed372, 0x460cc32f5d27a15f4294faa20a99112392cdbdc8515e9caa1ff4887d22a6e7b, 0x20a365142bb40f49232fcf25c593546d5005093537fc5b51d531b8bd2b7b9af6)]"

definition points_5 :: "(int \<times> int \<times> int \<times> int \<times> int) list" where
  "points_5 =
    [(0xf6c3a96e0032a9394337a02ffb2c83ba70efb8f566feab530fc90fa3b4710e5, 0x3d4e97e286378675038a4b58e84224ee515e1d6697ac79389f78479be167635a, 0x4cbad279663ab10897bdc55be7f4ed29f86d18f5ee1c63edd074d8961cae743f, 0x2de25d4ba6345be16f56d155e88f5cb2aa4f21d7413c8e836e7bb6a1a6205275, 0x7d7fbcefe2007233b1a3974b5f3a6419c525c20afb288af880d19024a0d71fcd),
     (0x3b13c71c2a90bd24c51df6bd138c5d16208a9ceaaa8eb34a69469fade6abb440, 0x14890a7ab24817b2bba826792e8fd342a6f705af800252616435be180d16dc54, 0x4f9cd196dcd8d4d780c61d36421c3058c781a29a2a9105abcd7c5dc5f3c29094, 0x5975435e87b75a8df68a2fbc1b03762c866c68c4d5739f16faef1e6a266b2801, 0x7ccdd084387a0307ba029cad5c1c0c17d0d058241ad17a63199297d86a7b3768),
     (0x7983fccb8fdffd787f669568b35189d08fcc6194c31874eddf3320f5fd1d642b, 0x3c0fcdb8f1b0cccc2927571daeba50483de19ee5579ab5abbbd963226a436855, 0x3593ca848190ca44a88dec86620bda18cdae007a1ab32a999b0c84186760cc93, 0x428bd0ed61d0cf53a9c0c1b4fb68c677ae153d50948240bddca6422c6d260417, 0x27398308da2d63e68c52545b53fdbbd1d4d8c33565d8facd9213189a5e849aa7),
     (0x184b48cb455000542259174da9a6eb83a928b2835182278abb6ec091e388a820, 0x3ee0e07a03dc33a9dd60c2682380ef736679a5e383faf453fe324dba26e77c33, 0x572c2945492c33fdffb9d9b5cd27daf70fa25866d57d1bdeb9a10e4c0a702453, 0x269597aebe8c3355bb07ab1a79da03efbd50f3603278ccc942c38d28435ed413, 0x7f985498c05bca80a22c8830aa5dda0ce4dfe8d3e3baaefbc77fc745d6cd30be),
     (0x5d17bc7ae6348ff1d88f460eb1a18752c3ff569529fcac8f4d862364b859c113, 0x53daa8c1f06682f6163309add59e196f440503b0a5514f1785cff1ed5765a23d, 0x30f2653cd69b12e7eec24fbc873fa0c208045a45cf4dfba6d35615520fbf6363, 0x76c2ec470a31f3043da3c39f23fc921c8005ad1b7b54a2883849ce889f0be117, 0x2f1273f1596473daa920c01e0e6fac7046179b60db276bcb8a08c938aac10c85),
     (0x2d86e1368ab546c9547c0e0e1a73691984c2208a53b4cba3f48747ad656376ce, 0xb2538616310b0bb96559890a1e5f8488214951a9e1f77433bc14429f04394f2, 0x38ac1997edc5f784ead1a69ebc59616206d6b5a4f1d442e730488bd755a70bc0, 0x5d9e572ad85b69f241d98a8287728f2efd5274904a6aab9f4739fc7c8ae01e11, 0x22dfcd9cbfe9e69cacacc011454dde49747d06867e9b858c0666b517a751b13b),
     (0x5260385be84291557508c683f0e59b8940aaaa4692cf5b1ae4884369a69769d1, 0x3d894f1c3c8b531d0473ec10231031a8ee3910a63f8a9e4e7264164a69a476bd, 0xfe9877824cde472797cb29413f5cd322ee3baecd259f96956ec59b4103be0a1, 0x6b2916c05448c1c78f6b258c322a961fad8e665facbb43338ddbd2e0c30d0cd9, 0x4c303f307ff00a1766083dff6578f8154ea3cd822e6dac0e7edb34d10aba913b),
     (0x5a04ae1195edf508262196e9d23c259c937f81769b2258542b78e3c0fb135c34, 0x676667092118acccece87e75f0a6825c5952f92dd499943efe831f9712c5e8b9, 0x416b151ab706a1d5130a155fc2e2a7f8ecd27aa46fbbec9329fc03580dd94500, 0xd61b8f78b2ab7c4c6c6e78c1e6a5cbfc5d377b739773bead30a3bd617b28c85, 0x191a2af74277e8d2afe62fda1b57e0abbd07e5cd58e44b2056a8d7efe9c136b0)]"

definition between_5 :: "(int \<times> int \<times> int) list" where
  "between_5 =
    [(0x52ee53b981dfbc41ddaa5ddc2754c4175f4811aa45f8e2b19a425657c238a83e, 0x7eb0a1be3400dec87b388cad51613957643cdf0595b891cc6f925fb36da7f1c3, 0x2bc24e04b22122869d8e2ed12a0c754004f4cd5b4fbfaf1ad550095bab6f4985),
     (0x501fe138924e05cc1a05129d241e6b5e9d46cd8b0bed38eb42ee20678a1d2425, 0x2f8022ecede0189c215882ca856dae0f7b4daf6675181a558ebd11e6911cee4e, 0x5f6041b45b9212d00753702d614f42b0de06e1db692ae16a4bcef17f06ffca16),
     (0x2d8294fd94996032b73b4f09a0ff645ce8db39db5463f0fc57156a1d390a3b68, 0x3a8a6faa67c6dd905a4fdeb95ac127c9fde3ac017c847ceadb2c55f1445af624, 0xd07daacd32d7d5da3148fafb9c1c36d1508722628208bee8416ebd40b50babc),
     (0x56857d02674276af0099d63b04a39544a23b841cb2ef18688ba9500361e4da1d, 0xb543a6720e318d2647915bcd619efcdedcf7fed0657be45d27db284290e72ce, 0x34cebd64b9a0a22363df3f81d1765a894b93fbd05368a5dd46d46280c729989e)]"

definition points_6 :: "(int \<times> int \<times> int \<times> int \<times> int) list" where
  "points_6 =
    [(0x52a837bc7a7bc9459bcc2ecf80f74d9ed99def0342e18cfbe8e799fbc504fd52, 0x50d6460185d8924e5485f23f36a98c86053514d163547adab6fe91478a411196, 0x237e7dbe00545b93f052210eb7a0da24ded303d4a63607d69fe62b434f460efb, 0x7e2e0e450b5cc908b8b9c36fb5b23ee72b9725ce2072eddece16f74bc53c1431, 0x71afa699b11155e375320f1583e47f22231094e69f0bfd10013575ed6701b430),
     (0x3f30ee695b236bc74620afb10469324b45c8201a45cbd6954239e64086f3cd53, 0x414231531dd52e5555640faeae608c4a0c205a04f56d187ba80855dbc0478370, 0x731fbc78f89a1c9b84bf5fb2c9be9551e87a1f3b38ef10ea423c1c473b50d6, 0x21142e9c2b1c28e0f435ffda9f759fec65839eaafa141e665ce6f9b3953b61d, 0x4c4d6f3347e15808b6dae0836bba15e3bf960c225ecec119e430c71848f81880),
     (0x4fbfdbab005592c2c974a2cc3fd1b4ef7f8db640afbcdc838b0a78966b88fcca, 0x68ffb955a83a0ce5a55313f837bfc1ceec03abe700fd1897a40265662d061c93, 0x38bf9500a88f9fa86ec7b6c4779176be6b916227b0b9f51b2f0cddfc988f1970, 0x193fddaaa7e47a22dbde712bf7ee0cdf6c75f5a651403c1418f7eccfc17d1fc9, 0x6a6fb99ebf0d49695080f58239241276a2f61e5a18d1462c1fd2c93c37e8876f),
     (0xebc38c54fd6aa12dcc60ca5c72ed865b7c35a6bfcf98778c235307d306de6e4, 0x4b3a1d9f2ef40fdb3e31ddd56a08526dbda15a4f58d78162c7bf23886763ce2, 0x136fda9f42c5eb1090a92a831dcf5d8c939d7010f286ff8eeeb122b5b6e423c6, 0x75f76914a31896ead71d11378f71acc12416bb38f893f09d6a46c1bb560855eb, 0x22183510be8dcba2a87d8a5c3bb588a0f364b9d9ff82c08f94cdfb1a305bdd1),
     (0x14c053b040dfeb348ad42bb65738ae4b07ea830efd00a617a93185647241a6ac, 0x7ec77091bc60573797e7d29c6759cc88a8795b8fc77cfe47f428eb9cd0eed3c0, 0x1387c441fd40426c22bbfe52be927ad3b063de9ec47da45f9d5a710143307a7f, 0x6a071ce17b806c030d13a6e610211e3da08ed880ca7c58304af766385ead2d14, 0x3171b26aaf1edc920d7b4848bb477ca0722b5a3d7f0e4413b5d3c3d187978af8),
     (0x6518baedfba8e047c2a5fd2dd7ab3603d3a1ae44fa7d61ebfe6f43240d99fd8b, 0x7388f75389963a211fbfb657c328754d31d66911cf34305a79e74b4a4f04a46, 0x6c514a63344243e9d4a1f89353ddbd58a6bf14d61770a4f1a60db7d8b28a47d1, 0x221fd4873cf0835a4f55fe37a4875150ff7bb84c2275e119a92f319097564ca8, 0x48daa596fb924aaafce0dd4c410f030efb73e0e9ba0a032d2322204f3a156341),
     (0x78ad307ea1d917594e22f8c331222feef87d6a4c60846ab2d315c77bb5d37d53, 0x601b077b6cb162507fd2bfcc034047bda0c48f978ebd175341e055e212791a2d, 0x58c837fa0e8a79a9cdf5b88f346277ac9941f9e3ef41820614f61d5dc84c9793, 0x676dd6fccad84af731afc708d21e17cea847254b2e38aca06eca8e665ca59cc7, 0x1c4f73f2c6a57f0adcc2e77d4935d66a1ddcbbf37b56a01b0cf9688596fc9058),
     (0x3b75696730dc8d8cfb7ddb23241cc7ce78a13e6a377db5da527a1058e60e49db, 0x34d031744cd2d9cfef9f9ea654000016fb3e8b4a8c44198760f46016166deaa9, 0x70459adb7daf675ceb1d79c9781cc7e573dfc9b4c3c1cf61b36e706efc7c3484, 0x795ac80d1bf64c42f421c3832fe33848829d4ce054c663ad0e7a4fbd305fa0bb, 0x5fe162848ce21fd39fdf9ee51f8c78dc572696234b02dcca1b91db4991b42bb3)]"

definition between_6 :: "(int \<times> int \<times> int) list" where
  "between_6 =
    [(0x6b2bd5d00fab38ceca21a27d6aaec82626b14b555d859527718f8ca404eba4, 0x727340c27a15f6ab3d80547f0827c56ab1ba33bc30d1ef3909ea9a3af10c67e5, 0x720814ecaa064b726eb632dc8abd16a28b938270db7469a3e2790aae4d077c41),
     (0x1f4e8938dcf3a6d5907d88572bfb36a8191aa9d05bae8f68d3f120ea165b2bd8, 0x5a8b0c6f649f8e191aeeca653774a6ddfc8cf8ae3d4d232e2148433b9bda19cc, 0x3b3c833687abe7438a71420e0b797035e3724edde19e93c54d572251857eedf4),
     (0x8fe8df51b345989553484e20f600c2e46f4ed256f3c8dcc1615b872f0c2b925, 0x2738e06810f4cec5d894c91432edeab5ba632e54d06f494b751bba44bc93abf8, 0x1e3a5272f5c0753c83604432238dde87736e412f6132bb7f5f0601d1cbd0f2d3),
     (0x1a2403cc5ef2ad62b4f09afac79a48a5ba8ef74f3321b65a716164d49b141c74, 0x7779fbcd8be50c9b021180ac97a544ad0c21cd1f3bd263ce5903b9afe4fd76f5, 0x5d55f8012cf25f384d20e5b1d00afc075192d5d008b0ad73e7a254db49e95a81)]"

definition points_7 :: "(int \<times> int \<times> int \<times> int \<times> int) list" where
  "points_7 =
    [(0x71dd75fe35761c01a48597ec730bc33237902fd4ad8612cbed1031eebdf40de4, 0x39674a4532078e34378667beae5cb55f814ead9bbaf7e01b3b69533e9f88a411, 0x2b44c043677daa35dc0bffab21687891b8dedd70687df2e72879852d5d7cb208, 0x4789d446fc9172329300cfd23b50f22d49be7dc70d71cd4f4e59214fe194961a, 0x60c52eef2bb9a4e43eacbbcd484f9067fac6d18e99daf4671a1c87ab074eb78e),
     (0x300d6b0bd6734e6170b814d2f28c82de4a2debb1c5589bc8b2671e0320587090, 0x40ca073d0343190c7f042b83c7bcabd3fa997de98f4bf0e2bdc4a7bf5c55fc81, 0x70d77248d9b6676defbc4056ba492eb244c7699b54a48cab702bc5c27cae6d11, 0x10bc9c312ccfcaab0e4c16b0d53028f5b06b9237c9f3551a0b5d89bc3bfd8bf1, 0x63755bd3a976f413794513e4708e85d198699ef4ed1781e0aa8ae84b3ec2a05b),
     (0xceb59a95601dd68d84a34cf289ba4bf943583e7113fc3374433b7ed36905232, 0x1a781b6de1c34ced784426cce7055d4fc9a4f977b025f8a0f993582b61615a85, 0x2763751737c52a56508e5b9c0fa1020f5dda7d5ec165bbd83dc7101897f1acb7, 0xd8cc1c48bc16f849ff9f1fdbe69b890356f75909ee63569b55fa03e2ad10853, 0x70c2dd8a7ad166e7cfa86230d43c4956f0b44e7e77b460a5029402d36eb419a9),
     (0x42545a6a59885c28266ae07652d24503c2fb5830c85817f6963981168cbec8f9, 0x706406cdbd1ce0bdbd9ea269bab2e060b129d6da0f1e6983fb9b15672c2eb507, 0x32b8613816a53ce5e40982e00d85256474252f0ad776817a91d4967db8ed7e13, 0x2e0fac63639484959733c1f367e09b5cee2e7ea946c6518d656194509f6fec0e, 0x4179215c735a4f41f89fd4d9a0e4db2e6ac83a67087886d079e7f7bee448cd64),
     (0x60fba0618ab41287a32799f605665a8e8ff9f9f986e51d362c1ecf68a8476ff2, 0x50fee504978daffe84637a29ae6d339127f584bcceb8b9a6b88f645080245d2f, 0x31fa85662241c286278b141fb3d38e1fb7ef7eb6559dd6dce4ae33b9286bcd34, 0x700344a30cd99d76e13be033a906d90297fb8ac347d39c708c7094e7d7dced2a, 0x24bb2312a99524899bc1b7e12b389123c12029879833502daf826c422e3622f4),
     (0x7e97763970e96e86fd444e2b16752f6d95def8555f6f8f25c8278f89e18cfa41, 0xe85b4c08f01ee8f8c01916e8d44ec3fd2938c6da58ad86e79d07ca1146b6217, 0xd1d2af9ffeb5d168945df99a3ba1bad687284c304fa679441f80c2af5f85c6b, 0xfee3e871e1880088ebd434376cfbcd23cb49418461b4948b1a8ed1732de67c3, 0x16acd79718531d764004197ba79ac19330b822a159226579a9da8aa132621edf),
     (0x208622a2f72f9fb6c09d6f4c647af6698cdba3b5daf6d302b3d2a0b25764cb8, 0x14467120e8a31d04aad8776ddcfb459dfc13e47201e1918a9e1c9cba531169f5, 0x164ed34b1816170016e24e62a342f50494e19ead5f90febac959c6c57887b6ad, 0x123e0ef6b93023093ecea07916b3963763462a36a432245a72df72af2d9b1d3d, 0x78da0fc61073f3eb877bf6d3b9a4de2761ae2cea3a911513487ed94c192fe69a),
     (0x6c1262e3f8a43b517673a0ce209f76cb22d7cd7e54fce6ac235711e441703a02, 0x193841cf1e0f528b9a8d508a276202a84f1fb096c5ed013a7f486f0d269c007f, 0x54aa4b316b38ddd1100f1584801797371f77e151ae9e7e6a29f80f1680c3a94, 0x2d25deeb256b173a2419afbc06c28bdd2c47e31870f01a8e5bf15d28e52bc66a, 0x134610a6ab7da7602aeb1d2a666eec170b28789c66e54dafdfc8468d19267cb8)]"

definition between_7 :: "(int \<times> int \<times> int) list" where
  "between_7 =
    [(0x57426aefc21be9ccf162e23d25ac3002ba8534351e65613f870f690f2fd46cf5, 0x6b45b002fb4e8a6f59a6ffb006ed71f75434217333b266325204c7d1ac2e1f34, 0x140345133932a0a268441d72e14141f499aeed3e154d04f2caf55ec27c59b23f),
     (0x205aa3463e7e41af60f5cff4853fbd6f748aa1b132fe5308807d22c5030b48f5, 0x320b08e8ec6153e2be9955058bd26993bf50353e040c556ef8976663448735aa, 0x11b065a2ade312335da385110692ac244ac5938cd10e0266781a439e417becb5),
     (0x592c8b8843ca1f7d9ee692d5e29bc1612b0a98bea402c5c2e1e8253b65feea37, 0x42a352d8dc52fef9017cbe617cdbee3aaefed1935aa62f8679af6f2a1d00b5e0, 0x6976c7509888df7b62962b8b9a402cd983f438d4b6a369c397c749eeb701cb96),
     (0x41c030fbca90151ce0d0064a815e03825ed77a4ac634604ac7137bd3713af22, 0x72467625ee43fb7ac67dc71c655e5c16e4e97c2a3d4445e7e9b33fcf0780f989, 0x6e2a7316319afa28f870c6b7bd487bdebefc048590e0ffe33d420811d06d4a67)]"

definition points_8 :: "(int \<times> int \<times> int \<times> int \<times> int) list" where
  "points_8 =
    [(0x6222bd88bf2df9d5d44b60cfb4a08a960078db7ed51a35eb3e0b6b8ff4eda202, 0x325bb42ea4ed025dd6bdaed261b7c4f5410b608ba902b068f1efa5782e45313, 0x654878cba97cc9fbb1b73bbcdabc06e5548991878faa60f1cd2a65e777d1f515, 0x2102fdba2b20d65009207a1d717af1b95397da89e575f51b51138ec78df6b0fe, 0xad725db29ecb2ba3a1af517aa7da41536bca7681251ad29969ee405055ce6a1),
     (0x23bc7abc84cb4c4ae5fa62b25a0a8114e8406d9bb93f2091142aa2d8bdba597, 0x4d2b97a739eceb14c95020371d7206e904f94b8f2c620dceed8511df0f29c9ee, 0x4f675f5302399fd977afc6624312aefa537d5268e7f5ffd7fec7bc0c9b056f85, 0x4aefcffb71a036501af07a0bf7d15ed7b67544b570ce1bc5dc4267b1834e2457, 0xbccbb72a2a86561870a6eadd0945110cd2bef118998483bc32d36360415171e),
     (0x132a065edb5c4041c59a8b49ca8a61df2ca8caa6ccea10d88007640e33263467, 0x534ef70a3532f780762d6b7b85e5cfd1b390b0dc31fe8ea59865fa3e1dd7de2f, 0x6678fd69108f37c23bc7f6c5507031b0e0397b82fee89f7e186d5e4c50fe1296, 0x4024f0ab59d6b73eb092e031bb5b6df286e7e63565147dcd185e962feab1a9c8, 0x2d42e2108ead47014f73cc9f789eaefc07f68c48572d33f21586fa31636863c2),
     (0x6d5066cf7137b4a5980aa453b672c84797fc6856f0ef5cf0c4be33fbbd39d169, 0x54bb8cd82a0a87c883abe35abeb81857f95200b4222ea95b5cb347115219a417, 0x420bf3a79b423c6e1bb687ae752ae09f914e690b131e064c21717b0d0f537593, 0x676b2608b8d2d322eba13f07084550106155985d313f4c6a97f5131594dfd29b, 0x745d2ffa9c0cf1e07bff0cb1bc3135b08671b6ec311b1b808138ba651c5b2b47),
     (0x35ff8f7cdb0869347f58215a74ba0a8f63c0310fb99a0b275072429c7b04c2cd, 0x50e1cc6871155f055469e86953bb606b4e1b5717dfe1a8a90fc49cbaa6ce8b8a, 0x6e15be54c1dc839d3c209c3c8756afab1db8827997bb3d06036df5721d34e6a, 0x1ae23ceb960cf5d0d511c70edf0155dbea5b260826479d81bf525a1e2bc9c8bd, 0x58ded861278ec1f77dc41549dab7ca0532351cb5ceb1dab05b725d871932994a),
     (0x6c6365c17f4bb26f6b4e87079a8328e54012bc64947385a12af2120a622e0213, 0x1c5703a9d3d1a968c8320a0056a9ec8e08dc332a60b8d3eb0309499e5494c782, 0x8ba696b531d5bd833809107f12d157348eeef8ef52c598c2dfb5ba8b6c2c9a8, 0x2ff39de85485f6f95ce382f8bc26c3a8c8c976c5cc454e49d8173793f266c55c, 0x120633b4947cfe54ea3d7a3ff1a671cb04e05517d4ff481177ed3eeec3efc57a),
     (0x68b818a50b31d52cb8300141be7cea83479de51848c1e18f3b944c675bd887d1, 0x1e8b233ec00766b228ee74d7536d8f439685965535addc774728e4dfed398826, 0x7433be3cb393bdee11e761911ea79c6de237b6d7e6fbe0682bd31474912100a, 0x35d30a99b4d5918570be739594f0a4c04ee7b13cecebfae80b94987891610042, 0x2d873ede7af6da9f583381fd5a76847c575d3de4b05c51a3ff7944c05ce997f4),
     (0x6b66159ac8702d4e34073b76629deab2d3aa50942db5b00e4a73e8be859362a9, 0x19dd4bef38efd504e49b3a5d584432b9ce630883226031e75fee1a22c8ca96c5, 0x543618a0160025318a275d3bae21d6ca20d59175015e1f5aa6202e14e5df981, 0x2e773654707fa7b6b093fee6f5a64806fab8b7eef4aa81d9157a316443373409, 0x4b1443362d07960d04202cb8a29aba2caa6f0a259dce46930deabdf4974c23c1)]"

definition between_8 :: "(int \<times> int \<times> int) list" where
  "between_8 =
    [(0x71ac99647b61b9eca6f0c23432a518f738aee708d5932d4ef0f172240250a226, 0x3a96c2c028ebe5f48913be30147e41bc5e1cab9595d5404138a9aa1b5574cf25, 0x48ea295bad8a2c07e222fbfbe1d928c5256dc48cc04212f247b837f753242cec),
     (0x221b138a1bbb6548d2ef719bbaee436114e7cb6b3225dfb94c327667ec45772b, 0x7951b295fab7fbffa46c08f6979bb32060974fb037bf5998d0ba5a38180cad84, 0x57369f0bdefc96b6d17c975adcad6fbf4baf8445059979df8487e3d02bc73659),
     (0x1c1b0d95db6a057eb34f28beeda9f6bbb5315285de2804d15c3b186bdb3f5c28, 0x57bd5de4e0056cbb4d98abef9d1e0ed6cab1628ac08e36073e31d00a9ac3c5d5, 0x3ba2504f049b673c9a498330af74181b15801004e2663135e1f6b79ebf8469ad),
     (0x4f846fad2eefb8c948a8bd3a87d8b4dfa0a0ab643e724ebb1c91437c567c9f47, 0xa2640ccde505da1aa9227bacaca13d49a67a199f0e16aa9f86c2a7e1bf02d2d, 0x3aa1d11faf60a4d861e96a8042f15ef4f9c6f635b26f1beedbdae701c5738dd3)]"

definition points_9 :: "(int \<times> int \<times> int \<times> int \<times> int) list" where
  "points_9 =
    [(0x1f6a1fd8cc0e05b2742ba0fc0369b5247670543637dd033e64dbce90b2f23e9f, 0x779964401ee869a9b31c0ef874a86440ba85d25c2ce932bd31a0865869605e19, 0x17038418eaf66f5c2747aff47812196530f6269264c635fb967c54e91c529ccb, 0x582f446752da63f73ef06dfc713eaf1c44157e25f50c2f7eccc4b7c7b66e1f7a, 0xc2a1c4bcda28dc9b21ef18b4e5a1364a81042e8a4488bc4c6317bd320324ce4),
     (0x6f0a87af6e0f4a05fa7067cfecd4f98dada3791f714a66648dbb5cbbfd4f326c, 0x6b6013813505927dcbcb6a42e887cc1d5fca175e4cd226be6009248c6c6e36c6, 0x5a6a9b30a314dc83c63bd212d55cc5ab0d6d907dbe1c8d22edc4814869bd6945, 0x7c558bd1c6f64877d15b0272fbb2d28fb2269e3edb87c059d24dc7d06f1f0447, 0x404a5ca0afbafc3a50c3a791cbc5fa412bb628ac35a24f0d0ec1524d396463d),
     (0x398c8c8c8e8dac3256749db66b66cb447486132ec414fd516b4eaf0a0fcd15f4, 0x7fc5e88a596b4265adbfa221d1f69e234140e3fa1f3b5c39f76def111a7459ca, 0x39527516e7f8ee9804343fd83d5d6967b5c6f728e350598b62bc9e1b2a416fd1, 0x46395bfdcadd9633574b046b668fd2deccbad0cb5b265ee88c1f40070aa743d6, 0x76579a29e822d016efd4bef154d56fea9c7745bcd1005c2a117fdb2d1a5d9a9c),
     (0x1f90c7ef4610dd083b3d64bac47574d9da326b536b9a6eb0f6c3134a847a0564, 0x63344ccbe4169ab97a13c3ccb097c0f4fdffbcf6284412303c79a1c8ce3a2f7b, 0x2c514bb2a2777c1b5512887750d35ced832284993de80e1333cb51352b434f2, 0x43a384dc9e05bdb13ed65f11ec224c1b23cd51a2bca9a37f45b68e7e49c02a17, 0x1160920961548059313916d7a9b0d253fb8bd37ef6b54b53684bd5da8bf1b645),
     (0x3d22b58c663ea91b49e95c17c7da1563cdb6c6ad70a46de9e2f59fd686603f08, 0x7240c7e82ba8372733d8bfe20d176abda80965f9f4b7c7799742b63fb03b0eb2, 0x2f637d7491e6e0427dc21bf9d4f1802175c02ca7655c35637a385616369b4dcd, 0x351e125bc5698e0be9ef63ca453d5559da529f4c8413598fb44d166929dacfaa, 0x7f182d06e7ce2a9a71dee19ff9a699fbd603037ac8ab8961d4b49b461af67bbe),
     (0x6e6c09db77eedf33e50185bd1bbcc0b0ef7f4f4fdf4b79ca47645e86f1900608, 0x5640b667ac2d72e3ee569f906389cf8bbad999a4f5393f0dc1e0eceb9c916f07, 0x44acc043241c5217d358254d7f46903caa58e8f4d484b8d809454b728e217522, 0x67d4ac8c343e93b0095519d347cd0edacb5a4a5515edc5437a7c8e64ab0168ec, 0x556d1c8312ad71bd4adca1c6c96b46848b35fed4918313e11c7d6bbb4f7a5777),
     (0xa8728e5d785180354c86e453192f0f76edc78727d7ffcd4b5009339d2475746, 0x7ef39552f5076702a3ea621039065565a0d37fb09323f708ccefd41cded490c8, 0x97abe38cc8c7f05f8b2d0556a99465d0faff82310a3f3dd81f06756b11be821, 0x746c6c6d1d824eff4f21f3cb0773646e31f7073e15a3fa3417ef40e30c8d3982, 0x577e14a34bee84bd022c3809f7ccebd24c4369559bdc1d430c49c9877ea52da4),
     (0x47ac42e7c59481a928348d7aaaade88b00b7aae4e73ebe0dd20e33092dd34e07, 0x28a6c1d1356c10ebea15cbfd161ae974f3b2a4f51ed06403c2f09bb58f7a8924, 0x705304b8fb009295124a5977c0c8d1fff46a4fda060f221194fecebebd4dd72b, 0x60fa7ee96fd78f42c1e13e826b6d00e9f2fafa103791a5f5f0e268ac61a73b0a, 0x21398e0ca16353fd670b958cb4bd42ecf3c3053e5fad31d8b63d1d354d296ec6)]"

definition between_9 :: "(int \<times> int \<times> int) list" where
  "between_9 =
    [(0x22e2c039067920c42980dcb3a905fc91601c2b34e819ce1532ada4a5fc39d5cc, 0x631cf9945a09bf26d7e595b3f8e3390696870512820df63c5418577089e1a8bb, 0x403a395b53909e62ae64b9004fdd3c75366ad9dd99f42827216ab2ca8da7d2ef),
     (0x1a62e85ba4a14a3f24f9dca8529ca842f5c7f18a3f429886d6b13673649ad53d, 0x1f6d17d9a1e5c5d8cbb98100757e5183551d00091183e6a5e1eb0dd514c8bdc5, 0x50a2f7dfd447b99a6bfa45822e1a9405f550e7ed2414e1f0b39d761b02de888),
     (0x36b566a2c0f8e36e760992eb83d509238731939dd9dd0d19513f52e1e9e4f9ea, 0x1bde4ad0433ee4e19e734c558978dd945ed244e38414387a43e70232ed39bb3a, 0x6528e42d824601732869b96a05a3d470d7a0b145aa372b60f2a7af510354c13d),
     (0xfc8f365bb4b04e275d358bd3c277745c565eedff84179ee72cbc5a3e38fe7b2, 0x16f91c8191db1e7817455b6a395de2b0f4396697920ba0cd4874e2b534937b24, 0x730291bd6901995a17202acfd366b6b2ed377b799ca26ded5a91d1151039372)]"

definition points_10 :: "(int \<times> int \<times> int \<times> int \<times> int) list" where
  "points_10 =
    [(0x608de273a9f6a534219d7aaede3cf65a81e4dc03d7a2765eced1d2b7be4610f4, 0x3b31d0113f98d81ab1312fb2837aa9c8dcc7960f84eb371358c6d841f67144fa, 0x1bbfb284e98f7d4ed2ceaa6161b7a0235eac72135c8dad722798aaf9b4b75601, 0x5aa3ed9d95a232e68f93b503a53db36e5ae2ba0bad48c0b489f5058a382b33f3, 0x4a07e14e5e8957cc65053299d9506eeecb2b125472c78036656777e9c7d96561),
     (0x8d1e75a33bf363f2ef64faa0ab5f9582d1181b793ec9452ea93a3011634d581, 0x47dd939350f06a41ea9c3d889d127155d0275926d05b5bc43977b5ccae42cf1a, 0x50af7aed84afa08119928d32a7c86aadfd38dade6447f017240b58cdc477a49b, 0x3f0bac391d313402bba5edde925c77fda315d76f3c6ec7714ee412cb980df999, 0x1921a316baebd006780205810badd6d929982621216109b26e4fde0115f65be5),
     (0x4b55df555ef78ca29bb08cebf74ce07115205182089d86efa70c3f0dfd1da83e, 0x2faebe97416b3b52a2e97ec02e0f2e684149bd6d58143aad304e6e8cdcd6194d, 0x7b049deca062c7f53e9a0bac255c0ed9566a0eef60b1c19cd75aad9ad9f3c18b, 0x6458df41e273aeb00738f1d436c24df72c296beb4f76b3bd89422f7edfb870fc, 0x6093dccbc2950e64786004c312c5dd87758879330fedbe93dccbe37a35444483),
     (0xb2fcb60a19e6a0a29bcc1e5224ee0acfd648e6ee2143f90a5f5aa1c6d51c96f, 0x6301b568e9c613866d76b4c693de25e83435344795fb78c3c5e944a1f33239dc, 0x6e3180c98b647d90973376abb62d06953199c2b6780fb8546bdeeebe6084034b, 0x57d1ea084827a97c43b9f2e1718f453b36d0a5d8b3e739331ff39a8585e0706d, 0x363e999ddd97bd18f7b4de82b2216130a4c1596d93a88baaee7ab6e7a128b071),
     (0x6d187e11aedfd714ee4dea3643b18b006f965f8058ebf3484c38028dd62ec76e, 0x3607198a1819dc40a27d5237f93e5e31070512d561d0bc17e2e0464f0c1ce745, 0x231f979bc6f9b35590cb3c6e3cefe931769b7255babcaf602f1848dce24baec6, 0x48ee9b78693a052bb42f6801b58cd330976eb35508e4c8cf96a843c135ee1fc4, 0x79bfa9b08792413b78d7009c14fb466b04bb030fe208d1f5c31de4bcc2af3c6),
     (0x4db4418f87f778eb75185d9b62e977fa433393aa9d266f51081cd99764529a1f, 0x5140b9860c78ea8062554ec86e1edc7ac76cf7cddacfca01ebad13e93e82a813, 0x1ef4fb159470636bd76dac63d10854750aa08b7877f63952f3c9ed80a2d54245, 0x38c77f684817194ed3cf12d0b356480843964233da95ab0e3903a51da300df4, 0x575ee92a4a0bff5672b2df349810219959590a4296d0cdc2854e5ee65b167bec),
     (0x6e1a9bb685adad8d9971bee76c48e9724966d0b285f58e0d44431dda40465406, 0x31ef82c7b281aa8d9f2c7c3ebf401d507a4841751f3e2bcb19039e6aca5e83e8, 0x200a1e7e382f581b389e3b262b8906c2c3af1227a533b9d85d46bc450aa4d801, 0x43d4e7112cd3fd0005babd5752f733de30e170c299489dbdd4c080908a182fcf, 0x50eca52651e4e38fe2b85d9567197f571bc989b056652c0518db967eaf93ac5),
     (0xb216ceec26c5cc827ebff75a3b41630d8925bcf8ae53c7dea348f4c0dd3ae27, 0x563053b0dec5518f24c57a3f9138916ec287602e8a557819ad77aa2a5312bac3, 0x6151c09fa131ae574cb179b534eca79f9b19bbfe153ab49797ac397660e668ea, 0x4b0ee6c21c58f4c6fcd97ac9ed847b3de9f5045eff703b9bc3431ade453f0c9c, 0x1fef24fa800f030b11b2bb8712171709dd262ee02ab4ee7a3af55c0dfdf05d96)]"

definition between_10 :: "(int \<times> int \<times> int) list" where
  "between_10 =
    [(0x3f748617ca63ab3e44c6e34f63e7328ea56a2a146da34368a57dca181254fe02, 0xfed89e6420fc47b3938a2891ba9acee4cbb2899ee4e9ca15a13dc527dc1641e, 0x507903ce77ac193cf471bf39b7c27a5fa750fe8580ab5938b496123a6b6c6609),
     (0x8f050e6e4bbb5e43b756c82a0ffd60723f78c3fdfb49c50378a1083808c3cf3, 0x38900048f0768542b4b9354736b6880632a94601a17a15adf4f233924875ee62, 0x2f9faf620bbacf5e7943c8c495b6b1ff0eb1b9c1c1c5795dbd68230ec7e9b16f),
     (0x2583374456f20c85e78e820263e1507524897a5232050bd0ebfc357d04b900bd, 0x62d1c4fffd5ac72c7e7dd52c2bc9ea4077ebb7032a39291e0212da60cbcea18f, 0x3d4e8dbba668baa696ef5329c7e899cb53623cb0f8341d4d1616a4e3c715a0d2),
     (0x5b4079d8c7a5a10bb68984233b2726bd95196ae2b50e6052441fc4e5b98881d, 0x2329432253e9aa57901c1369e57e54e4a363d2cfe69069108c833fa8d79f612f, 0x1d753b84c76f5046d4b37b27b1cbe278ca123c21bb3f830b6841435a7c06d912)]"

definition points_11 :: "(int \<times> int \<times> int \<times> int \<times> int) list" where
  "points_11 =
    [(0x69d98b5ecc35d56c97c0bf312955d199befe116b417d70f5f57e2dfd0af81ce5, 0x3e26d487fbfe36ab44e0ca3b248fe94bce92a69b8154d50e2d5481f8259f4e8e, 0x28005fe6c8340c17dca1896c4de5bae58d90b806c2d2460422d2aff530976b86, 0x544d49292fc8613ead200b09fb3a17b20f9495303fd7641837d653fb1aa73196, 0x72e472930f316dfaf75bbbcd66d94b365c1bff9425107da16aefba9f34528688),
     (0x62a8a839f45660759f741c7892703326e4ad11bd9e102c0770af6ad49dd4b6d9, 0x3d45d6c61b8a03c29d11cb1e9660112995fd3bc8c1553ae897448b613555bf3b, 0x1fee7f000fe064383c85e79728d044507aaa4d865f6566f007f3f635d32a7627, 0x5a9d2e8c2733a34cfd9daea603efde02b1502a0b23450ee12695208c9781084f, 0xf94051ee0405437b4ad5cdd24a88eca4daf2491434cdbd765305da03dbf7e5),
     (0x5ff031a9e8f4a9a28d7eb3a97fe4334433112299c6b825d0a55d144ba1ee3347, 0x67c7ce2874df5ab040eae515ee26eb81252dae3576ff40d732927f6f65c163f9, 0x47b7ffd25dd40452ce6998bf6e0b1ec5583ed0cf3db766a7d7ef93bb07af9753, 0x7d79c7e8beab10db36c316c6e42b83cf21c8b9bb0471b068d356b23c3d330b2, 0x1c3520a35ea64bb60d57242bdb1fc1bf8a066b3ae1eec29b87fbfb9cbc08dd12),
     (0x4e1c036204e123f311e8da4e3fa212fcf0acafbded425b71a66b0dccb2500e7e, 0x6a5908d961f00a62a2ac904fd824f6932f0e735f257a7d0d273d61736f1bb1c8, 0x38750c3b66d12e55b4956a9e17c709901fbb231d12bcd87ecda86f40216bc059, 0x1c3d05775d0ee66f90c3b6019882e3963e61c3a13838219b80d253a6bccba34a, 0x621e2c7d330487c21014fe7744ce029cbc0c73c2b5df671692ef1409422e51a),
     (0x2ec34149929644706035f41d422942c1e1fab37c0d6ea35d040adb65174136b3, 0x2ecb17530e69ea2cc55c3c54a78160f272e4fc3dd40e3e39b3a33c31999aba40, 0x5d8e589ca1002e9d25923071e9aaa3b454dfafb9e17ce196b7ae1796b0dbf0f3, 0x7d6097bd3a5bc6526483765581e3090ea48c1c69f9adcaf9860cc8259838d, 0x1583d7783c1cbf860a961438bb51e2efb2d3c363588f2e3ec0bf1d950842a94b),
     (0x1216d39000ebe44ca69d80a6ac293855e1cf96c550e2e20d518a520ab77d56f3, 0x374132be82d973bd7043aab912324ed03b4bd0d9a649e3823e78f4fa151fd1d4, 0x4958064e83c5580a16e12b5fbe5b87261d1b679ef72cc58f90034704cc9d28c7, 0x252a5f2e81ed8f70c9a62a126609167a597c3a1455670174eceea2ef5da27ae1, 0x79c170bd843b3881b53da780c1112fdfcc3f785307c8c6b0d2894265066e80d),
     (0x3cbe5d79f358c7e60396980dd1058282ee0a12a7ac7eb90c6467f0362dedb022, 0x2aaa635d3e22c2e6390fda3222be6cc5aced55c60e849e2f696edd1a92e82034, 0x6768c0d7317b8acc3ca6723ff3c3ef489af7686dbb03573bcdd6cd50c0d5d056, 0x6dec05e34ac9fb003579422451b8ea42bee3431e6205e5230506ece464fa6fff, 0x51445e14ddcd52f4c22cbddc6d6b2600417bf3a7997b7b9194b625e5f155c1b3),
     (0x7fe8906b455e9f3a49464810d3e6b8e5fef5d17226ddea3b18f08e2ff8552d6f, 0x1300ff9d28f135030203b137ea4a3ec18d5dd0dd6b29a6ee7040b97b336976d3, 0x12e990086e4fd43d4b49f948be30f7a78c53a24f92079129893147ab2bbea455, 0x13186f31e39295c8b8bd6927166385db8e67ff6b444bbcb357502b4b3b144951, 0x77b2e3f05d3e99afdf1136c43a5b983f9f9a935e121ceaf9f10c96b37fdfbb2e)]"

definition between_11 :: "(int \<times> int \<times> int) list" where
  "between_11 =
    [(0x1e34443347f9e627b3531157faab6eaca1bc3114df4a1423cc12bf8417b5d622, 0x295955a5ed061eca7f87b9485666ba9489ec20a9c484224dc920350bb4a6fc79, 0xb251172a50c38a2cc34a7f05bbb4be7e82fef94e53a0e29fd0d75879cf12657),
     (0x4cab819c06b2f861b4be5b06a918bc314bf29f56cff389ae2ba8abd5f1f5e156, 0x1f10fb18bd5ecfe633b53936f70ce8e58b6a864e679297770f2b38160176681f, 0x5265797cb6abd7847ef6de304df42cb43f77e6f7979f0dc8e3828c400f8086b6),
     (0x7c686b90cf6ff6a3a59cc7d8a5e00a2c9b2204decf83f96bb56b53ef630df083, 0xf1deab1d3a4a3d2528d9103d118fafda873ccf0a518c45821d51a7fd71533, 0x3a6b259e263ae002cb5c5b85df10ece62866eee21211f58a2b6812b1cc9249d),
     (0xaecf4e5a0c4c4da709921a44dca45965f89a3215bb5445cf72dddf4ade53a2c, 0x19304020c00e6169712d6050734bf5c51bd0af80b5ba4a6a0ba008e965216807, 0xe434b3b1f499c8f00943eac2581b02ebc470c5f5a05060d14722af4b73c2ddb)]"

definition points_12 :: "(int \<times> int \<times> int \<times> int \<times> int) list" where
  "points_12 =
    [(0x51f4ff8c599b1c96da82941520a9f5abf4a31eb8b84fc95056145ceb3b5775d0, 0x35ac9588d46e41f3f6f99aee3852eeb4b12e807807d4bd1b7f8406b0d7863ac1, 0x7a195152e095e8ad17c2f0358fce460a5d19f30c024866bd598639c12ddb0a4, 0x63b795fc7ad3255d1c7706d917a8f908bc8b61bf4f84f3cb296fa9c59c2ec4de, 0x3e8fe83d032f0137afa1fd5dc541264390433b02cf8de43ba8368f02389e5fc8),
     (0x568de690133ca63f63c08161d852682fa5696c0ee66bf8f3ec729b6a71bf9741, 0x4c48220992e8e64741dcdc433a0e65b43a5bae7f4d743e3d1bfdb123773039e8, 0x22d60899a6258c86a59d5da51260cde3dfc51a8e33e0373108704c8de8efd13c, 0x75ba3b797fac4007de1c5ae161bbfd8494f24270670845492f8b15b90570a294, 0x904d07b87779e5eb38847bceb40126060fe8a8b6c7d8a9a6239dbc070cdd196),
     (0x4f2f4b477f6ca632750965a4f97d966f9bb1a9e6faf03f479fb206c8b59f5785, 0x13115f873b8a8439a16d3208a70462c16ae38525c23cccf25480269d9359e934, 0x6240aacebaf72a6c167697ada081f93106952f0cbd2d0c39f4322d6648f940b9, 0x43e2143fbc1dde072c63cc63ad86cc51cf31db3ec74c8daab4ce1fd4ddba919c, 0x56bdaf238db40cac66f13ba7e7c9316ad6947c5bca37d25af834749c5ba295a0),
     (0x3342c4717d55221def46b89fdd237cf4e9528170f9b524bc6e730cc4663403da, 0x50676cdf00c935368d54ccf1fa7dd2671cd7ea46686e61fca49dc6a85b6937c5, 0x3aa31507e1e57547c9b8591d7a14f5c062a6bb7622386b91310d36cc19d3bb2, 0x1d24a86d837413189e0e14521d5a5572338568d56eb93d40362ab9e3f53533eb, 0x43b261dc9aeb485988d225821d09357ce045eaf054ac8c1cf4ec7648ffd4ce1f),
     (0x282a400973b64ed0a93070fdba88d599fa2fd0541f48df6e99fb0fb8f1eccccb, 0x5a8a95d8ceddba93595c9fe01ac6bfcd9acea0d1e0c3150c7f562dd27aa84686, 0x2b4d5e242940964028d10ddd54f956794fe7126000bf47b19513d8b6c951364, 0x326055cf5b276bc2b02c2ee2603dea33a09ed07dc17a359de55b1e1988bb79bb, 0x27a6c809ae5d3410c49cf4936c824389eacc4646186ce508b4a155cb28d18df2),
     (0x7aaf48f59f15c20d43e5bcc0a9f0d58952bb338e8186376520c29d9ed297dbd3, 0x2765ba6a9e76638c36149c63bfe62de38a8f0ac8e8e0934dac69896bf1a58d6e, 0x221503603d8c259979fa592469d7036cdd4a3e576a66cab2cd2c270ac43d6954, 0x2cb67174ff60a17ef22edfa315f5585a37d3d73a675a5be88ba6ebcd1f0db188, 0x7b1df4b73890f43682891c667a94f0f4a9422044728ce3f159eecdf9390be1d0),
     (0x336498fbd2b4355ce5f8c55891b959133745f4cd49f7c39bd4d979baa2329b4, 0x653338b616279ce7e44b1c37969b109fafe0fd52fff48d9aa1e08a7c5dd5cbd8, 0x68698245d352e03db2aaa88d1fb6a630e3555c9fd49409d45f2e221807f8f58c, 0x61fcef2658fc599215eb8fe20d7f7b0e7c6c9e062b551160e492f2e0b3b2a224, 0x46cf4c473daf01cf44bae2810ff6c482f3e4aad386ddacd7dbb15d852a18187a),
     (0x3396978bfc50b33d58eb8dccc52201ef36dfd27b914d8aa86f6ba45d29424d9a, 0x5ccf1359113c127dcb9d35bf9107cccb453eac7ca7ddbdabb1d0ca4ac8073393, 0x1065aae50d8cc5bb2488c38c5629ceba7c1e7ef8392b4854213c6ea7f1498140, 0x29387bcd14eb5f4072b1a7f2cbe5cadc0e5eda0116903303426525ed9ec4e5f9, 0x69a198e64f1ce7160a07e7b1e18340305c3b2dd6bfca674a1c2c4525df200d57)]"

definition between_12 :: "(int \<times> int \<times> int) list" where
  "between_12 =
    [(0x3faa2a093a19a02424f65a10955101f4dc015c43b2dfce8e001507abd741b845, 0x7a1de10dacfda389ca663b15574bdc8ae8c5b6e7cee647e77b11ddbfc6eb8edc, 0x3a73b70472e40365a56fe104c1fada960cc45aa41c0679597afcd613efa9d697),
     (0x30f9cd3076c51c96a9baeda10ec893105d920f022947716064e32717aee8e3c5, 0x2caedfaa420120c6711921684f9f5a2b8079045fbf3a4efd7e4fa7bc8cbdb095, 0x7bb51279cb3c042fc75e33c740d6c71b22e6f55d95f2dd9d196c80a4ddd4ccbd),
     (0x6070951e96e618be7d750fa819593ecbfe9c26972471ebed72c093714b7e6e90, 0x7bb8b8086b2c8f273841de642871dc22c7adb51944d64304c0fe5f4c1d3e6689, 0x1b4822e9d4467668bacccebc0f189d56c9118e82206457174e3dcbdad1bff7f9),
     (0x1ec0eb040164dd81f57ebc3a26c3e8606154303a1e5de3af27b1afd99d27703d, 0x3df62c38b3077c694268ed7aae9a3329999e190eb81f07326e5cc3a1d1a42cda, 0x1f354134b1a29ee74cea314087d64ac93849e8d499c1238346ab13c8347cbc9d)]"

definition points_13 :: "(int \<times> int \<times> int \<times> int \<times> int) list" where
  "points_13 =
    [(0x1924416956ea2c1269062588569b18178011ea7cba1a3266284f48aa01d5a90f, 0xc8e28127b7dcdd206fb6fee96eb88cfc7db7319826ac8cdb8b1fb8adaf021de, 0x25b2697bd267f9e470019576ed86a0e747ed5d963c84fb33e1014434dcc5caed, 0x7369e6a92493a1bf9df54a66405070b847c9889cc85096679062b2e0d91a78bc, 0x1420683db54e4cd2e04ecc3bdf273b5e3ca5fbd9415dc7b89d673ffb13986864),
     (0x2898ffaab663ed49ec57038cecd898fb84076bf49bf6f5c4403aff28ce974493, 0x94f3b96ab6c9477e759d6bcb9934557e613a0f4fa4fb6c6f4b3bc46f335163d, 0x31e83b4161d081c1d3b0da49a66bde536a1b0ce99646ac8b34eebb6fc1cc5ad0, 0x60b63bebf508a72dfb02d32fccbaac5c620c35005e58c102b478bd1e249dd197, 0x55cf1eb62d5503175bece14b6f18683f49e48f4f29320ad897e8c7129e062b4f),
     (0x59de4b2305d8b7af6da1769d1b27473ca5ced8b84b82a54cebfed2e98c19a76a, 0x4078b0875ce149844fe1a6462deca6e4316be1259c1726e94477e2f9f1dbe4d5, 0x1a56fbaa62ba0133bd831ce34913ee20d73ab9dde799cc363076b5e37df58c52, 0x669a6564570891d4e2402fa912c55fa78b9d086d5094819c5879101065c23d58, 0x13c4836799c58a5c9873ae5641347651302557bba77c371a943e6b505c9dc9ec),
     (0x34e2ddf5115701105d5d590f6617ccd7716c01b247948470c1514f12016bf75a, 0x1bdaea88b78eb71777558f7452cd868e6d7fc33a0f85c3d2038bac585c1fd926, 0x50bdc87dc8e5b827d4b2e883b8e55365deebc4ec571a4842c4dcfb6a5d8bd080, 0x66f80c93a637b60719f83664ecb5b9b6fc13c187c7f13f61423a5d465ab3e1b9, 0x1dd56444725fd5ae64b03ac325b73b9632353e15f011abd9606d37836edfe111),
     (0x55eaf5fea101c94fc2b9234f2b62c5786056bfa6bc8a23e59979b303eaac5b05, 0x644f4f10c2a13c7e312a68927484d2041cf62a6b2e579ffb291e32fc1e0e6d82, 0x3a3a450f63a305cdf3e38be19fe7977c7d4cea11eae1c3e0c297e60008bac89a, 0xe645912219f732e6e71454349220c8bbc9f6ac471cd7c158fa47ff83362127d, 0x318c8d9393a9a87bd1e36c6d17996f80389d3183de94a510078f2f31d8394627),
     (0x5726e2adc5bbdbf0cc76250d1c69ed6f77f96d075a84616a35792093400eeab6, 0x79735f155fd92f05890ef8f0d6ef865e8498a950d9a93cd127ed7d966b0ee8cf, 0x509a41c325950af655851dfdf35973cdfc921658342d9e3b5d669e29ab1dd398, 0x224c7c679a1d5314bc98d3e3ba8598ef0c9f3c497f24db66f2745d032afffe19, 0x5bff02328a1138982ec12809d833e89793ef3f4641b1f33bdc06edca6f925e9),
     (0x2fab7584f9ebafa144803f10de981adbfdce1f5eb97c95d29927c6b674fd1963, 0x27b70248f415f448daf44f5ab0b237645218ee698b29652bcf59da2698c7f981, 0x576277cdee01a3ea1f748e6b8f4a52404fe70dc844a5fafe6881a0dd0dc512e4, 0x780b8cc3fa2a44a796741049d21a1c88544acf0ad1accf593632137023cae00b, 0x5ff418726271b7a15e82a51434e62a0d9a577fbd1405de081ef38abc234f305f),
     (0x4cb56bd83d7bb25558c34ece98dd878ca5fe850aa79f4bf656269fedfe165cc8, 0x5d1f6fb463251914535bd81a9f9a8aea4d5ea5309b86c4eb8fb4a7fa15a03865, 0x29d4db8ca0a0cb69ac1f26e938781276f35d2a3b432610e1e5db47e813b69540, 0x106a03dc25a966befa98894c06bd035da7602025f3e778f5398e080c1789db9d, 0x4ab38a51052cbefa3c57658ac888f7f038669da5acd309e5d9ad0aaf333353d0)]"

definition between_13 :: "(int \<times> int \<times> int) list" where
  "between_13 =
    [(0x49761c57ce3c8c4f1435d495903e2f536f3be3712e76af8d0b5a8b7d1ebc8fac, 0x3225035e1065094ef32d7f3e7a6f8ff2748025f96e0c0b44eb35576b61e150a8, 0x68aee70642287cffdef7aaa8ea31609f054442883f955bb7dfdacbee4324c0e9),
     (0x654b39f4650804bfb7c76a3d254377050002240e2f794f8de21de5640fdc60a9, 0x50ce7be2f1011218849a34ce62654414a8dcaea8b4db9b45dce3b76a6b121996, 0x6b8341ee8bf90d58ccd2ca913d21cd0fa8da8a9a85624bb7fac5d2065b35b8da),
     (0x91605b338ea1bd98bdfae06ba25bd540525a3b02efa65df30de5c6e8c637d0f, 0x1df405521e9a2232baf654aa3d2f66bdd6d57fd5bac96f5aa5f8ad2864bf8cc7, 0x14ddff9ee5b006592f16a6a38309a969d1afdc258bcf097b751a50b9d85c0fb8),
     (0x4606fdec56d46970938a8f9fa5f24624f5b9c6f488b72cb1fc87e4feebbb1faa, 0xf00d9e6656d8243e0350fa5b89beefa58e9af955ed650a6d90cce344ecf664e, 0x48f9dbfa0e9918d34caa800612a9a8d5632fe8a0d61f23f4dc84e93563144691)]"

definition points_14 :: "(int \<times> int \<times> int \<times> int \<times> int) list" where
  "points_14 =
    [(0x4339fa86a23242851a16afc3ab05b352a7b4bf53599a49dd7e29d364fc3a757b, 0x6d07cc3462bae9160bbebb997510817040767faa9dbd13f158a5fe8a63a34b0e, 0x3041c6bb04ed2b9b25d56b5d201634c2e82b3efdf7575dced6cfd1ef5fddc09c, 0x29cdd1adc088a690f1a80bd5ca0ace1d98c1c0574422ca13da7c2b256768d593, 0x104bbd6814049a7b1a4698bb5f6c025cade797759f356b2e0ff2f2f9d956e148),
     (0x62332ee4f8ee5e56398dd304eca6ffbcde556467ba2c0d5fabb64e9736c701eb, 0x3e1bfb3c0218cf9f7e6a2f47f179f29b0ad68235929b4921fda74bc89fb8ef65, 0x204f2a20fb072df5b7f8024cde20f257e92be69d4cc75681a95d9a5fd67ff163, 0x5be8cc57092a714944dc5c4304d2f2de2c811dcdd86f3bc251f0fd3168f1ed67, 0x2570fb17c279161f653c3c318f6d5c317589155abd652e30c8143b3d30ebb079),
     (0x33287cd3c57f3dcd485feb019177d1e96976c619395d27326d1a396aef810769, 0x70f3e2be1882489b3126ff2bf72cf74c5f70358f5633299eac146fea1c371cde, 0x241c5f91de0186687986ea2d88a4c935c8e6fba88f9050d1192ea9550bb8245a, 0x3dcb65ea53030acde8c7142a65b52562f5f96f761cd6026c3efa367f2cb61575, 0x8420edd5fcdf0e516d7fcdd235b01d18fbf2cf022d9733a28d8172940de6caa),
     (0x7b9e0081b2e20f4f3d3f6d57f7bf977b2f192142a2a9e40b1aacd15140c88b2f, 0x93854716ef9794d2057036ff3f97da686fa3a1784c42279e8abf1fcc42b858c, 0x4d654f321db889c5d9670c7ebb91521b6135b5a276e06850358c34e04f410ce, 0xd9a53efbc1769fde3179617fc39e62b57e118d4e21a3e6ecdff20ab8362fa4a, 0x4a7a4f2618991ad71cb608173334a2922954deb68da5dd2d5e7dc116ddbdb5d5),
     (0x1c70927aa306eaf587c3ca6fc2d4c6f02af2119e03129631180e4d47a7c2e55b, 0x2e259ec780da033e55c0baf4c3b4d80268e870d26e6eb1c10cb5654a077444f0, 0x4a96314223e0ee33dd84856486899ef293da8270718147f224c3b291af372a4b, 0x11b50c4cddd31848cdfcf08500e011123df65f346b5c1b8ff4a718025fb15f95, 0x4f4bce4dce6bcc51773348b63d02b3f2738e177e9c1576d9a6e8274408a4ffd6),
     (0x1e22f8e8551eaea83b689b626ac089595eb5ff9c9bfb4c3c44e14989f13c72ec, 0x121fd5fd0c3ab08f0d82a53987aac64d85a071f32ef0d6daec0117e4d3609883, 0x3042cee561595f3748eb409bf26b4fa6e456718fcaec231730e2616ec49d0b6f, 0x73fcdd14b71c01e6d21a09d71cea3cf426ea725692f58a9ea71fce5ae2242584, 0x389e740c9a9ce1d64cae76215f841a7c855ae36dbce2310a427e7079449bac41),
     (0x6237e93647e5e784102427171f6aace9270584072224661a326062a41118f91a, 0x438c3caf8e404f0c55d817948230e504be55872b056d36c7975d165245f5b2fb, 0x25c425e5d626369065fc3eaba19b91ede55b0b3227919ce1c9bd78f6570eac28, 0x61545379465a678845b3f07d62c6381b97500323e348d0ad64fcb3ae34dcb9ce, 0x6539a089154847598c14f6264e8a6c773ef976278e0623083f3e06a6f1d7de6e),
     (0x7ecfa6b215265291f32d21771e88699aac3133fdb93ef3a479f95e2fa8742940, 0x10958b5cdaf36afe557b7e60184207ce6d81883edf035bea63cb7da46c4720c6, 0xf65320ef019bd9048a89fd736ca716919b2bc3c98424f8eddc4dbd414bb4a19, 0x11c5e4aac5cd186c624e5ce8f9b99e33c150544125c46845e9d21f74c3d2f773, 0x4cabc7bdec33072a59a8af0dfaf2939a4f3fe6e3163b5181d486d1b1cafde0c6)]"

definition between_14 :: "(int \<times> int \<times> int) list" where
  "between_14 =
    [(0x6bda13918dcbaf8529d6326ae7a9c278b72417c2188c5ea4f062fc50639295fb, 0x2c3fa803b162ee887d0d97a6734866f992f846625f314117075da54bb6c20a36, 0x4065947223973f035337653b8b9ea480dbd42ea046a4e27216faa8fb532f7428),
     (0x19af956d2b5b4ac28b0c67889f19ad66a40f4bca1625e2007963e8a98a70b14a, 0x5e228bb5fbae687754307287833c3245a1ab34684a5a69174f72b460ccb69d8b, 0x4472f648d0531db4c9240afee42284defd9be89e34348716d60ecbb74245ec41),
     (0x45bf322997c4469aac6d1e4251fb3490e60e7c0cd5cdd6f5cfb9bbc53587b9f1, 0x529d884884075753fd9a2f9ba021ff427fea7b9773f0d4885da5edc024c69e66, 0xcde561eec4310b9512d11594e26cab199dbff8a9e22fd928dec31faef3ee475),
     (0x39632228d7d1471800e549128f91a680c9a64e37ae27d919a2609ce21522c607, 0x6f59557cabbd86e8e4d546e2aae6ac26b27b671ebd049539991e9ef27e00e2e8, 0x35f63353d3ec3fd0e3effdd01b5505a5e8d518e70edcbc1ff6be021068de1ce1)]"

definition points_15 :: "(int \<times> int \<times> int \<times> int \<times> int) list" where
  "points_15 =
    [(0x4da4821314574d4fed4dcf692c8b15b99b73f13633210333ce7871359b6e6424, 0x314016034673d2d20529bc93a2dab6e462bcb5f66e1f4a6bf2170759a40a6e65, 0x7ee498165acb2021f2778bfccf65cc9dfe30a72ca1404d9fc08f788f3f78d289, 0x639b93f0321c858217dbed2a764fa12ac748c4c03afe4738239e9624089c0a2e, 0xedf493c85b602a6e7d2aec2ae72fd192b2b90d4809074897bd508e39111a1c3),
     (0x22423cb8e82129da6655d94354181feb5b1c789806240b135c4da1bd156d734c, 0x627dcf9be9be798eb639f6b776ce9ef34573c7a7f1d1ed220b1a23156f08cdb4, 0x4c00c54d1dfa3691c8fcffacae6bedea090403ff7f5f8356767c4d284764113, 0x403b92e3019d4fb44fe41d7422b67f07ea574f0febade20eaecc8158599b5a68, 0x355bb12ab26176f4aee8bfad04c7d65771a0f35a1480eff84dc22f818b465cf8),
     (0x32beb4e36411f53e324ddbd920d42bd403e93f61e3957ca6fdf1bafd72fc5b92, 0x425a36157c40b8503cb9a0e61ada1359e9a6c43bd0392d6aa5101fc9e7901786, 0x7518eaf8e052ad8e6f077cbf3bae3f2ded90039db3ceaa11a301dac75a8c7318, 0xf9b8132182ec3120a6bc50cfa05e785e5bd84d9eca3b0c3a71e64cc7493bbf4, 0x47c3871bbb1755c41815a929c9b1d1d90f2d60bcf4383298a48859c41b7f6c32),
     (0x4230253b946f9c176ea49e7fe2b913a35738999750b1e21555104dcab320bb4, 0x4db9dd92f8d939e6e4d0b0245ef57a62d793b173e977b8fa69558741d1e5afc, 0x8fea02ce8d48d5fe53754ea441ae8e062ecc4b0b3a299b0fbe65d50c85066b0, 0xb89b85764699dcf762c11a47c3c66bf805b17dc98c5d6e5144539771ec4f48, 0x473829a74f75d537b514cfcd5d89d665c86445204b685d23824ddd7668deead0),
     (0x65f711807e58866defe3423611cca254bf4382fb1e50e54f50833c62b35f9f4f, 0x66f79ccc68c4d222542315abe148d5fa57f5ad3d0b2733fd35616d7f9d9637a, 0x6c668b4d44e4d39015257390cfe12fb464c2ddceef03588f23d9533aad3902c9, 0x2078684c4833c6b4355eef24ac47eb0ae63bd7d8b2618df082d2da754679c418, 0x7411a6054f8a433fa96c65a78c8eed7bf76a0ab281273e973b48cf217a78820c),
     (0x115b217ea5058247e884bdc6a11628b6b2122a7249abd7f6851aa4052f89d69a, 0xd6e86f3a086b7479bd12ef37dd90d3eb65f06e7a9e6c90bd2804137e9279f1a, 0x1ec9a872458c398f8455ecba1eef35f568713159f392a102579ae53d18b175b4, 0x7c136574fb8134ffb34c712cdcc2e488044cdc75603af1154d659d32b99dc86d, 0x3add88a5c7cd646057e7cc9bf19575619b81d7020bc882b4b8e6a4d400a2509b),
     (0x1e90739a6bbf8455cbeccfe11a1fce59c64f2315b4c51d17ed1ca0b1d181a9aa, 0x43299d97384722ca513fd249d8d69fe0c92f1282ab313cd498a5f82287b7869c, 0x61ba1131a406a7201d2ca22af2f66e3a8f7e35985ff659ec85c298d459393046, 0x249929fccc879e7485530268beb6d18702dfef6cf66c1fbcab895770b635dcf2, 0x5620310cbbd8ece77bf15a3e26783307023b6b6cba7ebd89a3d0a0f116959029),
     (0x63b06e648bf7aa8e8bbf75c0f3e0bc5d438683b063be9f4f09de91589756d7c0, 0x1b17d88ed99541bf1b2cfd50b7d4d87ffd627bb708d0c2445c68249be08bae16, 0x7ec846f3658cec4da6ec7311abb594dd40e8ff676c8f61936646b5f477e285d6, 0x37676a2a4d9d97308f6d878fc3f41c22b9dbf806a51222f5528993434934d643, 0x6daaf723399b9dd5214c8fcfa2989fb8130f1d776c01cd139b5e8f3f1da22ec7)]"

definition between_15 :: "(int \<times> int \<times> int) list" where
  "between_15 =
    [(0xb2cea0029ee963c0034b61bf19e384435f14554a7d297b5144838c38e375586, 0x47ea95da28d39aaade5edb8ed941c687603cfdd1508776e96d6683199e99daea, 0x3cbdabd9fee5046ede2a2572e7a38e432a4bb87ca8b4df34591e4a5610628564),
     (0x6e3d157d1cd96bb4ed4cb069497e6041334d698b1640a59a44a45cde613aabd, 0x72f5ce3c9ce0c93d9339b91978f1d9c688b56b3a3850627c7d7f93c427456c7a, 0x6c11fce4cb1332824464ee12e459f3c2758094a186ec5822d9354df64131c1bd),
     (0x1f13202c95083f854583ff4cda13ef4b1e745a880460850e59e22c567d23ea24, 0x66336d356c381b7ef21109e7fdfd7ffa0085087eb55c4778ad42025c90275f48, 0x47204d08d72fdbf9ac8d0a9b23e990aee210adf6b0fbc26a535fd60613037524),
     (0x1d4e70e7fa35c13ec61efe8d7b8ae9e621144c1eb2454c350920e4ac81360393, 0x7b2807a91ce09ff20a518d85be729e118ae448b51763e880abd15795ddc22e61, 0x5dd996c122aadeb344328ef842e7b42b69cffc96651e9c4ba2b072e95c8c2ace)]"

definition points_16 :: "(int \<times> int \<times> int \<times> int \<times> int) list" where
  "points_16 =
    [(0x4c27afff3c45f32c952d3984e14e29a098e685c9c2e723e5fc8047ae60b7e824, 0x5f2c99e6526dc87d95f11eb626c29c3a90d0be1e51a4c49e5bbabd114bf5a66b, 0x2b5449e58eb3bbaa2b1e583b0810c5db29b743e8148be884583b04bfacad8ea2, 0x1304e9e71627d55100c3e53145747299f7ea38548ebda0b85f3a7562eb3dbe47, 0x4468de2d7c2dd693da0fe1fff979c60a3c1bab3f8b48dd0b789814d26adc9cfe),
     (0x786be30733efdaf7a08157f7907d6ee4f6952c728fbfa269fcefd1b43224e085, 0x653a5f772f34985b34270ecdd4fd08472a7c08beb39d69be4eab0712c63e2736, 0x5da6427e63247352d4a866c5657a772c21113531435d0c284b9ad8c6f86307ce, 0x6cce7c6ffb44bd6393a5b6d6447f996233e6dc4c23ddc75451bb355e9419469e, 0x58f29abfe79f2ca888ad8c388d59580fb9066ef7bbae1ff81a94c688deac22ca),
     (0x9c186afb833951ca2fd3aa58b84f09baea4bacc8756d94b3125ca89f193c7c7, 0x6137b0746027b353934695b149864a1e02a82a6bbed54ff11a349a357f7b062f, 0x6af93724185b48703643d056d50b3ab9b14ce538462c293c4b5a64bf710ecdf6, 0x577629c4a7f41e36f0495b0bbe01598254036f9f377e76a5e90ecfab8de73e68, 0x701f25bb0caec18f83e236233c33289fd2e036134b5589733220024509c6a888),
     (0x21fee4804968a933df8957815bc8dd9cc6a4d06beb4d19b36cb822f04c2eaa13, 0x500b7740072cb51d416c5da150858339bda5367a8972c2313060d3e930901700, 0x720a5bc050955e5120f5b522ac4e60d6844a06e674bfdbe49d18f6d97cbec113, 0x2e0c92bfbdc40be961e3061ff4bca59cf700660e9e25a87dc3a8b0f8e4616ced, 0xe9b9cbb144ef0ec691417f35c229346e84e8b376242abfc0c3f09439b805a35),
     (0x4a2e1f96eee4e082b813e0365c89c9e8eda10ce5973c99554919e3a2b12d4f17, 0x6c3f24822e185c5b8c951188bfdf0da8dc229e517335a66444d4b832ac846fc4, 0x366d44191cfd3cde44a8f1bf1c68d791c9c3ab370a723fb98dee9bd55db1beee, 0x221104eb3f337bd8d4813152635543bfee81916bdbf90d0efbbad48ffb5720ad, 0x4167a4e6bc593244ccb82f0e68a7fb972eda26fcb5856c3b9e3c1743f2bc8c14),
     (0x5dbd3bf95494d7466af195bd869d2435462530ea6d0536a0af41449ec0ec3464, 0x56f5f77776e9fbb0863cd8c0a8992ab9a342ce2a7b7b9f8c137ce1c737e25b77, 0x34b33370cb7ed2f6f12e6e7e2f364eeee967ff14e880d62cc2be2665f8ce8fee, 0x7938bb7e2255246a1b4b430321fc06845d1d9d400e7668eb643b9d2876f62700, 0x1176fc6e2dfe65e4ed7485c158808883ce02109ced85a753cdc591ee8681d6cc),
     (0x4b3702044575d3c0f1f2d57df9771cebb58e011afd275e119370badc76ed5685, 0x54333c50acf332f52f427a80e5606aafe36dcb0fafcce292482027acd289b820, 0x1f6a3e54f26906b621354ffeded7879b98fbcc2aacf440a3db90e28949770eb8, 0x8fc3a4c677d5f343d4fa502ebe94dc42ddfc9f4b2a58480b4af6cd05b9c619b, 0x4f2fad0116b900d1e2333e23f759829540c085b631165cd660a4c199d30734ea),
     (0x77fe8a5d490afb6ae4a198065e9488f8c358adacf1dd564e28b7136e1146b3df, 0x3c530f01e039f3168ac0033395218d9122acc9fe0a3545ba6d75c5afa5f50246, 0x3451995f2944ee816f619b39f3b61689e60577aafc129c08962cd91db73bb638, 0x445484a4972ef7aba61e6b2d368d04985f541c511857ef6c44beb24194ae4e54, 0x10b89ca6042893b7258e9aaa47285c404a816c94b0935cf69152fcd09fea7d7c)]"

definition between_16 :: "(int \<times> int \<times> int) list" where
  "between_16 =
    [(0x53e2a4ed1bbb48bd016c524a02f797654cfc969849f867681da94e341f377534, 0x5a2334fdda642732a3c9520ce06581aa7f0f082882554c37b8d390a25a9bd559, 0x6409010bea8de75a25cffc2dd6dea4532127190385ce4cf9b2a426e3b646025),
     (0x2618676f8fb18ef8c0ff9e057c9cca37104cbae666398a1fc8237bb34d0cb0b5, 0x2aa05b60a232ec56c8f2f51b1eb6cb7ebb2415fc4b1e8ba94ea41a235413414b, 0x487f3f112815d5e07f35715a21a0147aad75b15e4e5018986809e7007069096),
     (0x566dcd766740cb27bccff752ad6b8fd3c2f7bf3849c1131a4ae7323ebc4f6c0a, 0x51e9f19fc00f3d398f7539196f459ef37e0ab795233ade63b5f29bbead27b0e5, 0x7b7c242958ce7211d2a541c6c1da0f1fbb12f85cd979cb496b0b697ff0d844c8),
     (0x2151b330947c9f7b22fb8d7258ba6d9cd59ce0bbccb51a3e121194862414aa88, 0x2a01507ee46f38350a3dfc49fba49adc907025fcc96b237c031ed0aff23d74f6, 0x8af9d4e4ff298b9e7426ed7a2ea2d3fbad34540fcb6093df10d3c29ce28ca6e)]"

definition points_17 :: "(int \<times> int \<times> int \<times> int \<times> int) list" where
  "points_17 =
    [(0x7b8d2c823baafe0d878a55e8af1db150dec85b1424a4901f9beffd3a6196e3d6, 0x1c45a557b3624f9b89ed15b3c3e1a065f1b453d948f7cf45d9494483f8af0c85, 0x17d2d1d9ef0d4da911776b9c72ff51b6d07caeed6d9c5f65753941be5a45f06e, 0x20b878d577b7518e0262bfcb14c3ef1512ebf8c524533f263d5947499718289c, 0x72214f63cc65c6a722e3b72c3ca60022fd3fe519d752106927f2af18073f3e6a),
     (0x5fa2b1dfec51bcf38de2510adedcc695952f36b9900f13efb45d1c3cd099c188, 0x3f81faa56dc388bd64de21b25252d72f40d64b90bf427b8569409b7d23a1682e, 0x1f24ac855a1545b0f2c072bd312f9dc4d605824a4f518f751d9db7b9f43b29c9, 0x5fdf48c58171cbc9d6fbd0a773761099aba714d72f336795b4e37f405307a693, 0xba739e2ae395e6c7ffe45c06fb25a24748c1d10c1420ee24d608328e9505aa),
     (0x3780a1d4b6b5ac99a5a263d5965a5a96a82361031f6a4c8e2a8ac70bc7009528, 0x3aa8dc131e63258cb6fc9f36900ef3b98de318d6652cef6d83b95fea238825fe, 0x72297de7d518d2265c9f030c26694e50360679d984973bfbae4426f5ea88bb26, 0x3283a3e67ad78f3115a3b60f9b49922e5bfb7d345c2a2df592e98de5c8790d6, 0x5e1296846271945d3dfc90d0228930832f19b4d8b63308048241dc7be0cb939),
     (0x1f878c9bb777a0586a03dd7c310986d8f6ec21f7ef82642e799e668a7b47fdfb, 0x59479937cae12df41a31892ac4bf58b9c5dbeaf4e0ae1dab3421553da8e44755, 0x78cf25d38258ce4c843566a6f5c8df92bcc80cecd03081d9adbfbbc8242c4550, 0x39c00c9c13698d9bb02dabae93b5d1e0ceefc8fcf12bb97cba82eeb32d9c495a, 0x6b52076b3ff832c9a75a97f04efa05aa851cab9c2bf08715ae6b8e31489d68),
     (0x58458308ef6c0a563e6a18fd5dd19e38bec30919d58bd5a3e5f5571a8e1c47ff, 0x259d664d2b336b78964952d0ce2309727544e8326beee6860fd626fc2bb1c02e, 0x7de2e9561a9f75ced4b36bce2bf4a7ab3407f14c417abc29f5cb7e16b9ce082d, 0x4d57e3443bc7612257df39d370516b39b681df18966310e229e0cfe19d95781c, 0x6b2a90af1a6029eddbc9c440d3ee9a814801527f5d85db99de70d4f4b6a55ecb),
     (0x333f8eef2b1f715f8f719c5733005103407d7994a7bcd3e50763ff13e0665cb0, 0x131883d8fc4cafaa36d64a9b19ee223097b2a1b287fc33b67087f4107b4c7b5a, 0x465812c8276c2109c647e6f24cee7333d8301b472fb9079b77ebf3245bb2d80a, 0x5fd8f4e9d12d3e4aa764ae43e6edd12d5735281de03f5fd16923f4fc9ae61e97, 0x5b32c2b1cb16790180d4a7bde2968d77065fb753831dc164d43beb22a1062d9),
     (0x7b10e1d26d95f4a3ed81d68d5b08e51dc82286e11eaa0224979e22afd443ec39, 0x36663875e8dd133dc940c67fd902b27f69f1a18d2489f1a8605e817ca6919549, 0x31771a48567307e1b6c29d0d340b979d3214286e4333f3ccf7fca42c7ad58195, 0x3b5556a37b471e99dbbeeff27df9cd61a1cf1aac05dfef83c8c05eccd24da8fd, 0x4fc079d27a7336eba3d16048282b5af3edb351541a2ba4b632b0c524e14dd482),
     (0x8e60479f7f51f3ab2119b5875deac32f750073264da7e554535a949c163cac7, 0x1b2b6c48c2eeadcdb2115bf4ee5f90861be7c49767ba67fc96fee1fa4b22fa46, 0x241170c2bae3cd086422f74d643e3cb91337cbc9cc94e651dc348b440c86c50d, 0x124567cecaf98e92ffffc09c7880e4532497bd6502dfe9a751c938b089bf2f7f, 0x3f8612966c87000d4ae75060ebc6c4aff0911dee0113e4353ff9ab860ac473b4)]"

definition between_17 :: "(int \<times> int \<times> int) list" where
  "between_17 =
    [(0x78877b5d8777410997dacaeea59400fc9db4421fac02c4282301c67d35fb7ffe, 0x341b46c328333e4484ce8607619014d41775c408c88856d2f9e19812d90fbf5, 0xaba390eab0bf2dab0721d71d0850050a3c31a20e085c1450c9c5303f7957be4),
     (0x1787c129a60520114b3687d43367dab6a3ba1d1c7bca7edfd2f46e4f09c210ff, 0xba4e0f55131c2b6deb4a1fa4b5d6a2b47e28908fe7dcafc1ba738da2fca96f6, 0x741d1fcbab2ca2a5937e1a2617f58f74a4286bec82b34c1c48b2ca8b260885e4),
     (0x1f54318884a9a29932eb2d5aa126ed3a94fbeb7cb238538be572b8e04c6e55c, 0xb704f0aa8dd40ec8405ef01634d0dc797d01a872fae337ebd8d2159a2dbfc50, 0x97b0bf22092a6c2f0d73c2bb93a9ef3ee805bcf648aae45ff35f5cb9e1516f4),
     (0x2fcd57c067c348aee6eabd76e66d27de79846089d1e0916906ad03e940e9263f, 0x1a3da7acfabf171a0b078f4d602a67bcf8c74dfb7a284b553d86bcc7b9dcc17f, 0x6a704fec92fbce6b241cd1d679bd3fde7f42ed71a847b9ec36d9b8de78f39b2d)]"

definition points_18 :: "(int \<times> int \<times> int \<times> int \<times> int) list" where
  "points_18 =
    [(0x2b556bbc070b5c4bae9e575836d1d68ee9fbe800448c0d2c233f78185eed3f91, 0x7ba01332807ebd892e00ddb368c0fa1b3f19b5b32efd90b178d984e1d7174d6f, 0x26f57eee878a19d4dc9f350b9f92d0aa29159db373899ddd9c18fcfa36048d13, 0x504aa7767973613d7f62865b31ef238c551dcdb2ea718385559a0cc9782a0dde, 0x4041943d9dba306985c15a344f5a24675180d162247af17b0cab2cd55687efb1),
     (0x3f5c47b490be4e04f8915cc5f3c1fe8e5d190bc41ed00d8f43b04444af406f1a, 0x537ce98e07428214d28bf2b41039cb54ea8da86045baaa3f077132fef32c3bb0, 0x12d931429800d019cb1d4f7a03fbc9e347a6b424648ab7ce4b217743a26caadd, 0x1420a1d97684340fd9fa95ee1c77ccc68d749c9c26ea9cafc3c0eeba43ebcc96, 0x1b4f92314359a01244182854e35ff3955e3c5140b23aa47b00c67799d337594f),
     (0x1e2b1d5578437b24454be3005d3fe26af5a83ca079baef777ab98fc98dc1aeb0, 0x41c6747ff756a8d26636c73ff49f128b2f773731a7a458e1b915a06716d6b801, 0x5ff191d56f9a23f6ab82aa4051def4f6251f73d2215f485933cf3030a49866b1, 0x239b572a7f132dae20eae43f975f302039cefa912de9696a3e5c109d89150951, 0x20c526a758f36cbef4572805593eb3d2883ab795fc98523819ed433ac2d9068),
     (0x614118e22068c64a823b4a570572d49131b2f8d1d8cad3a538ccdd30a8b4f85d, 0x63ebe5283599fec22b8d9733a9548505faa5a3cbb5477811b0651229478dd419, 0x452cfe0a5602c50cadc8e18aaec759972c589c9d8e124bb6e931ef59f042cc89, 0x2aacc4615313877a9524cdca3e1b074c8f2aaf9dc7ca46c779834f89ed8dbbc, 0x4cfb7d7b304b877bab17ea25f1fb11c9bbc464270e607c9f86a0f7a0647877df),
     (0x233475488522f3b085400f1056f312186b541c4c21761e46b7e92e2aef773c8a, 0x37e8d773be2a47153e03b94795d65eb7c01ab125bde0fac72a9d6b97a812b288, 0x5b1d4cbc434d3ac5c343c857ecc970d02b6ecd71df57190de28699c29789ef12, 0x14b4622b39075364b8c3aa373ee34c9f54c694d99c6adc8072b43d6cb89b75fe, 0x2f98f71258592dd11301498b3369a7053a4f0e2bb88dcce5b6fb2615cc0a9f26),
     (0x318ac05007ad4d2d9a4a5e75f9a9a73cd0ef25238d9ee25f10bf037bcd22844c, 0x6bf5a299dfb3f82734752a977bd9b6a42c0f19cd1c2cf57f1d53aac8823222a2, 0x1d8062e9e7614554cebf890d75835de0fcfe3ef0a9cbd7de2e12ae444f54a701, 0x3a6ae249d806aaf99a2acc2182300f675b1ff4a98e8e13200c94a74cb50f9e56, 0x298b8ce8aef25ff38d0e1dfbdf34b4e91a0ea8b591b90f62657ada85a9907c5a),
     (0x1b76bf6bdb2579ab5efef8a6a3486f82fa109f44c95d04c02c73fccb0d152c96, 0x502f67ac28825e30f3173e20d3f03eed459a686f427275365706761efd0c3948, 0x6ba6271803a7d7dc521636c77738ae703fab07b40bcf79f6837a72ea0a2165de, 0x34b8a8404d5ce4859418457a30a7cf6a4b89c92a791570762a927953eff70cb2, 0x71d62bdd465e1c6aa293aa9aa4b22573d5a813df63b5fefdc26eecb583693335),
     (0x13aea1849989ffcc18795ff824240b157052292b065060a0b3fcf4d8ef3f3fb1, 0x884949c8ca12b70fbddbff21b25e570672d6ca4106005551930c101c2b81f44, 0x1c333621262b2b3d14571fea3f49f085d77f95cf16b065f5cd2db5dab1f75ef5, 0x74d5f317f3172ba4e3645ff9f701da5af6db43790a0fa4b46533cc28d378df80, 0x4aebcc4547e9d98cda6d0892e3ac623b398b7c752b298c37a86fe55467d9ca81)]"

definition between_18 :: "(int \<times> int \<times> int) list" where
  "between_18 =
    [(0xf72556998b0044799f0fd03210ded3d984e3843bbaf3c1d5d692bc94d43c4e7, 0x16c19c5037c103d447caef4efe6bd81a490e7c668f6870f1b080863b5315df5e, 0x74f46e69f10ff8cadd9f24bdd5deadcb0c04422d3b934d453175a7205d21a77),
     (0x25aea0bc0827815b535d8c110e694b9247811ff43682e72a2cea9ef5e347371b, 0x5ddcc7dccc9e41754112bbfd9b9da05d50e2138b624dac59d200421105a13269, 0x382e2720c476c019edb52fec8d3454cb0960f3972bcac52fa515a31b2259fb4e),
     (0x4eecfca39170c07de4669bae23b0068d294ed225ff7949285e8270460638e3d9, 0x5e9e7c4381074bea73e24638aaac0508e76a81b70e0d5c14fb1ef6306a371262, 0xfb17f9fef968b6c8f7baa8a86fbfe7bbe1baf910e9412ec9c9c85ea63fe2e89),
     (0x2884187fa61140983062669218c62a3017be9d32437760281f9b762e4f21f9fc, 0x3200426867df5f3d9f57fd086cc32a17850b08eac3492dca3ca1768af4d3ab3f, 0x97c29e8c1ce1ea56ef5967653fcffe76d4c6bb87fd1cda21d06005ca5b1b143)]"

definition points_19 :: "(int \<times> int \<times> int \<times> int \<times> int) list" where
  "points_19 =
    [(0x1cd96ef237b213cd446f13b3ec40d32ecc593bc6ea71e77efc284341a5f3da1a, 0x7a626aeb91efcb5f9777264f5e17ced8b411f68c713673ef0f184a5ccd60dbe3, 0x173bd9ddc9a1df2cdbe63a034a58a207806b32535ba85b6e0b408d9e7354b610, 0x5d88fbf95a3db7925308129b71d6fba9e7b8bac586c48c7012f0071b276d01c9, 0x6e1cd13b19ea319e6ed278ec9673ae058d6582ed43918c12b500f1efe5872df),
     (0x275d04f2b3510c56664a8098fafb5b4c950dec7e83f0ccc4832d810897a24a18, 0x57dd6527da326ebca62ddead9b4863daa69c1f11a39c3782c3fe2e5a06b8b93b, 0x7f3a6a1a8d837b130c785f469643bf273baa0b90278d0447472baf629e5b0353, 0x3080603526e162663fe35e14a04d088e118e32931fab6abe40d0ad516f166f23, 0x30d0fded2e51307e68cd7830592c633995a8d555c901edf6f7e644395d3d800b),
     (0x5dc17a1192ddf8b87994675371d8535a425cc54d3acc37195e2da501bb5309c5, 0x68538e31bee79120e2f97fd30121edd15e38acdc2b9884b63e86f21cad653d78, 0x4615084351c589d95c8de72672fa412ba09572296664bbcf9cb4971e68b84750, 0xa9214202c0998686965187f8f499a771bdbe78ef0cc4d9ce0594d1af21233b3, 0x3bca0d2895ca5dfe0e6df501659932ec55c7110d16034caebc9019c0aeb9a02e),
     (0x3c3b6a92efb1b73a190aabdea635754eeb5ffc376b2a0787adbc2e7d31374f84, 0x126d49709e40cb07b122e980b9452a94055c87763b1a81e7eeac60396d94b23b, 0x4ea8b4038df28241ca2d955f5f7a9fe2f0bc83ada644896f9c688eb69ecc01bf, 0x5631deddae8f13cd98183da2130fb54519fc8b3ecff07a6040f031bc3c5d62a4, 0x24ce0930542ca4639121774549f11a5f46305305a48cee832aed460af1cad202),
     (0x496222725424359a98342deffb0324830e99572c6c578ed90ff3883000762536, 0xb370634de2b0ce61aac36ee698fd3c1c45dbf61c9df9fcb2fdc1925fd7ce64f, 0x549928a7324f4280b2e064de6492f844d2f7168e36372ea43fcfa155fdf30b85, 0x41d4e3c28a06d74b827808fe6e8caf3eb5c468355d8810f21fe890f5fd06c106, 0x491b66dec0dcff6abc3bd33bd17f4d69ae91e4b7d25ffdeaf26e32a763ee1a2e),
     (0x2201bfeff751535d6b14f21329c1512e84a619f174e5a6596e7d4ca8847818fd, 0x2af4f8c0bfb0380a171fb165f5ba2a76687c12bdf2fc81f20772fde64c624ba4, 0x4cf6b8b0b7018b678234a3791f7b7ba4ed222caf67e2284b75f04a8ed0da64a1, 0x8f338d0c85ee4acac0abf52cbf8d947e3d5f8cc7e16db9898f5b13dc7ea32a7, 0x530d4a82eb078a99c13d331b84777063ab27bc01df320c7ac383a821991a73bd),
     (0x13e4b9507e542650b23268777e255c6253a91d6ade2aaa93368e9e8a4550bbb3, 0x79cf2e8f8e6b970a797a8b9b4aaa5bedd1d695916ad5fded36dad4bb274a03d8, 0xdb3e7e00cbfbd5b2bacf412c8cfb850257fb2fc4900a8806d6973456c9abf9e, 0x65ea753f101770b9c7482323cc84ff8b7e2d78268cab535a004c3630e1f94825, 0x2a4ec1921e1a1db0fbe044213443b1a81d62c7f61b5cb6b3d66fc3ee2096363),
     (0x3cde77866cc73b07a52a9ece4832e2a02c9a85a6709f5b9d4c711de45b556055, 0x79f2b3d77f3f44c771f685b6d3d352d7e4f20072b64efc55a957437e967a18f7, 0x36d12b5dec067fcf172124851c063578118c861926ee57f2f5c86162f1cf795f, 0x3d143c51127809bfcccbe6e88ba07037b8577acc45afa0b85ce6259a3b24b8a2, 0x2ef517885ba8285936bdb6e8df179bacd5e48f5cfc783a0a126d279179154557)]"

definition between_19 :: "(int \<times> int \<times> int) list" where
  "between_19 =
    [(0x31a75b21cb532622a7caf9e29e652ac4e47b1450edf6655acaf3797b55a7ca46, 0x77006e7cf104982f8865081a2ff8a6911546755e31c3586353b0bd0826c5d790, 0x4559135b25b1720ce09a0e3791937bcc30cb610d43ccf30888bd438cd11e0d4a),
     (0x507fddb828993775917eb8d147c94b420e54c787736163ee92f14ef609612181, 0x5ffa5d8998f8df1974f1133fc878d7bb58987b3ace819df0a09fd65dbec08f89, 0xf7a7fd1705fa7a3e3725a6e80af8c794a43b3b35b203a020dae8767b55f6e08),
     (0x247ab53368a2d4aff8eb158b291ea4796942c0ae4364ba270e1259e237612aa3, 0x33cbed49442e2eed384d45782a002d3dea88062b42f823b001ecab1bdd33192c, 0xf513815db8b5a3d3f622fed00e188c48145457cff936988f3da5139a5d1ee89),
     (0x7300f956c862bb5c5bcedbef880061a0adef30aba72e901311f8918f41e868a0, 0x116d410aa365e041a43c071511113f1a4e09cc70e39f9e245828a32d82c1603f, 0x1e6c47b3db0324e5486d2b258910dd79a01a9bc53c710e114630119e40d8f78c)]"

definition points_20 :: "(int \<times> int \<times> int \<times> int \<times> int) list" where
  "points_20 =
    [(0x543d84cb04fb2bf787b7aa382eaab5cd8d050ad8ee52aa8a285b945652014031, 0x358fdc5b63ed49e693d838f182b275846f42dd49a42ec2e6e932ba4de59ef20, 0x57968290bb3a0095f0f52dc746d5dd25d3f938ad889596b896eebffb305b2f51, 0x2f1b78fab143a8a6e185d956e980718ab9ef22fbabf041a44637974e8c58aedc, 0x7dc43e35dc2aa3e1cf7509a86ee2eed1f393658d24f0ec47f71ab8430a20e101),
     (0x2ac4c0386a424b4a4272506180181c6363395b4094f551f6a70e1fb4f605ea1, 0x1a36c19fc30e5e46b07b2ff0721fb77ff4330e554ffa874f0074860d7de3877, 0x44fb81d82d50a990f2ed8051f237d3e3576c6995e4efd945a782a5c273e9718, 0x7ef72016758cc12fc6e08df8ef2079b1c90f9b314bb0535585966665887dd9c3, 0x7f79823f9c30dd2eca704534b201bb4957b3371dce4c6359c1df18c5a907e3d9),
     (0x2d2dd667a240fe9e15052c0f442e4f59a3788c3ca3989002f3b3a6db62a039e9, 0x377bd9db79c5d85227ba6d4639bf0c8d64aefd115cb838db76e8791506554dd1, 0x64a9b0431c06d6f03cbf99557ded5be70827894e0050c8de6a9c1ff068f587ba, 0xa4e0373d784d9b412b54136f590bd33c13670d4b91fa8d88334d239a3b513e8, 0x71a7d0ace18346c7156ce4389a45d47b0b4f6a0d53a82352eb3d6a15b7d2919),
     (0x2816f8430d466b9b65d0990c2fd6f455861fb600a505f7297c8283d3ac2cc513, 0x5452c4b45430ea383524c90ef0c66ae08745df0664ab5a184f89b17e74b47f1e, 0x7c69bcf7617755d39af5621b209d5f360d65950709b15141cc0c355220e14431, 0x2c3bcc7146ea7e9ccf543002c0ef768b01262905bfa562eed3072daac887ba0b, 0x6f5a9a7322aca51de951a9a3171798d710db18252f50f37d07f0d7eb04e8295f),
     (0x1caeba6f06a2c5acfb1587850560bfb1e47f47bfb9bcda01adc46a6fba4bbef3, 0x65fcdc11e7ea75774a0fcef54225dc51a91ec180c6bbd59d39656a7be98d85b8, 0x2ab9680ee8d3b244525567a47869c038d9e09408078af9ee729d4eba3d944be, 0x494e21a2e147afca4efa47703cc51c9fc49f79c10cfefb9b8ba1000c2f41c6c5, 0x6b5d76cbea46bb34fa091f1dd91ef6d9219a224e0fb9a249efa48a85dde50d9a),
     (0x60c2952bf5adef4c8c4eac720dd0967c6b9e902534c8c8cac50f5d51935a5c7, 0x10ef5d494482524977c653dbb01fbddf2b2cc571b01caa4734a84b4205427f5b, 0x16fb869c03dd313e408b3ea2d0fcc746f1e6ae74036936d3e0f941171e782522, 0xae333f685277354af0169148f42b4776472dc6f5cd01dba8857556cec0cd994, 0x3f81e38b8f70d0754811f7ed0991d03e24fc72b4d8abe133288e199733b60962),
     (0x5d41698923f4e95516a15fdcc07651f9902e3591596e892c45a537b4701f0c00, 0x2d92794a28e9f2e8bedadeaf0b8298fde48aee327dd41077c5364780eef8bc11, 0xad3e2d34cdedc3dd57c3e8bcbf8eaf774b923c3d74299a40adb7f355f17c824, 0x50510fc104f50993a8397ed24b0c4704545cb8a12465874b7f910fcc7ed9affe, 0x127c158bf0fa1ebef2d6fd0009eefe1c745ede19c331cfd96f0c0fc5336e249d),
     (0xcc495fe64bc4816637f94251df4cdee3ca74aff90c1e427744489c13fdc9fe9, 0x42138e7b6cab977efec0d3e669437ab9e0f228d3e38c1a6f6a5e06036e75198b, 0x4ed82479d167df956240680b873848a81d9973d3744dfe96dea28fc4ae51b974, 0x354ef87d07ef4f689b413fc14b4eaccba44addd452ca3647f6197c422e9879a2, 0x302d92d20539236d8808ac30a9f6653c50352efceb41b0b8fee3b52260c5d975)]"

definition between_20 :: "(int \<times> int \<times> int) list" where
  "between_20 =
    [(0xa2818f5f5d8937800c30ac6b847db2cdef655b864126302249144a5a15b205a, 0x187c76a49af10851bb049ba97c0fbbb14b2621522a4e8d9670ea46e56c9a1bd6, 0xe545daea51874d9ba4190e2c3c7e0846c2fcb99c63c2a944c59023fcb3efb7c),
     (0x389973be3632bbbdac59f537aa63f28abf7a33b915d53682a9ebd7d040f794fa, 0x4d6bb19304a47533a460358e9f3eaef4b7984f8e99daf4d2ca993dd87adab32c, 0x14d23dd4ce71b975f8064056f4dabc69f81e1bd58405be5020ad660839e31e32),
     (0x68c0bfb003eeb945d29ec91ba57d6462c36b42a8fdefa5e7b99d7b97cda89d97, 0x4b0ad6be2fccb3042e2189c9f3edac9f6279599756876d246ba1d3f62c84b7ed, 0x624a170e2bddf9be5b82c0ae4e70483c9f0e16ee5897c73cb204585e5edc1a43),
     (0x3710538d7cd7971d68f19272dcfe0d7a577b7e889977526e62704dfcbe6b8c22, 0x7d10827db74ae0dc09323717542a2deaca18ab2a48a8e245e5a827ca02778853, 0x46002ef03a7349bea040a4a4772c2070729d2ca1af318fd78337d9cd440bfc31)]"

definition points_21 :: "(int \<times> int \<times> int \<times> int \<times> int) list" where
  "points_21 =
    [(0x7efb45d3a2851109d7a8d50ddb08fe308bbf674c019b965cdad4570a141e648a, 0xfe1198b11a1bf56867091c69d71f8b7792257dda321d43652e818acd0c28cda, 0xedc5f5eb426d0605e1966d4787af6e804e1bf29a4bd6a932dbc6fb6e4e0f177, 0x10e5d3b76f1cae4caec7bcb8c268fa86ed62f091a1863dd97813c1a2bca4283d, 0x45b46c51361cba72bf87263b03578a23e9dc1eec24a9f6415453bfd653da8e67),
     (0x5d5225a5e2235c5216cebd1847b2ed69e45db93cf3ea8cf012ae918f2c983218, 0x7ec9e5494feecd8d348a92636b5babeec6b5ab1982778140bbeebc4e5de7b1b9, 0x5c1c0aef321229df4b594f7bb30e9958ab13645676620e30ce9d4ddd8a7fe3e4, 0x2177bfa36dcb713b1dbbd54b23a8be84e257f1dc8e8cf450a9402abf314f7fa1, 0x4ae619387d8ab5bb087a76659c8324876048811ec25f59b337081bbcfa79db8f),
     (0x6db3c0d1a1f27fb0927da458c5094175bfabadbadebd785ee99ac3cd228bac21, 0x7b499ecb9b1bdb3f12e8ff00f1c4ed63d34986f92d8b8d77776ba7775d04f62, 0x75685abe5ba43d6483ac3448d425904bfce0462a7196313661117e44985bfb83, 0x1a00d91b17bf3e035eb0eb974a130d607d88eab4b41b40788ddbf6aa5344a32e, 0x135529b623b0e6aadf7275107af66569543d0fa8c9ff49526e960933eb61f2b2),
     (0x6fde98f557e3360932b5622351886a898e4639488c2433586e6b1d729a2e5760, 0x6994510fbdad700ab9e84413c29ce02525e5b1d15be55269875bf94a48002c8b, 0x5972ea051590a613ec9da63714254aaeb42beb19e80985c1f5c716bce22e83fe, 0x79b5b81a65ca3a018732e1f07114759b979f7888cfc11f1118f0dbd7add1d518, 0x4f7e9c95905f3bdbc01b2d64b33604349a9ad294ac4d4fa80fd4ac20dc8f7811),
     (0x73d4d9f5b9708fbdfa3457f84ed45d4fd9bd95f1a91f076407b07c406ee8b4d5, 0x256e14cee7d41e0a865df1a6a2d03716b20fa52b32cce3736a17c7fcc669e516, 0x1942eec4a144adc88092499ef1a494668bcd3b1cdbebead771c8443d355299fe, 0x31993ad92e638e4c8c2999ae53fbd9c6d8520f3989addc0f62674bbc5781302e, 0x2a0a65314ef9ca75553ce494253c11222c1b3d910cea3e927dac5319ae234992),
     (0x5c3370c184b6f61303b2b6a3cbbbfb9a2a154ed321328b0350bf43a6a211a8a9, 0x292a52d9e93324005d35aa45dd11ab1105896dd9390331387e76d7269a0ad07e, 0x55dc39b6dea1a1360e860e9a8cda6ab2f9ebcac5a35bc3bcf361acd3c1c793a, 0x4cf6e218647c2ded5982f3a21155af76db741f0617d0a6352db7937ff7f927c2, 0x121a307710aa24b6a83c78cee4a32c8907e24ebc774dffabb119227cc28d5bb6),
     (0xf9df8eef9562ab6f14c70c8bda2f490d3b5f23743fb6d40f8bf09f014389c99, 0x42ddc05b73970fe43751b75a52f4c842b509ee407430296edd9a674eb33be730, 0x527bb94a6ced3a9b289e28231097bcd388bfe077b82b96afd659713ec77483c9, 0x333fc76c7a40e52d460546919551d3b1e153fc093034bc2de4db5d5e9f034a97, 0x6b89069b20a7a9f7485035de2f64d8e53405d07c6e383801563d992a995b482e),
     (0x705bd9027e77d82d951c8205d33a5b3c3695fe7ee70833035fac2d25a9abdca2, 0x1417fa0628ebc3a194ca46d423ad4a41cff08879e02c8e51e0d6cd670c1bfec2, 0x473d308a7639bcf29e6c8d9f6e7a57e068686f8c734c1554082fa8cb5c7db77, 0x23bc2103aa73eb73ffadc4ce5072ef05995a89faf9245b4e812aa0416270220d, 0x102f73bfde04341a02a1ef74e601a94f2b4b421246dcc492caee792603589e05)]"

definition between_21 :: "(int \<times> int \<times> int) list" where
  "between_21 =
    [(0x472e960dd122a534f52377235350549df4a1dd7a08cfc580bff5fb4b0a70aa7b, 0x10585d04fc529fef4c0c0776154fc7ebbaedbae8a99937e47598d0578932b7cc, 0x4929c6f72b2ffaba56e89052c1ff734dc64bdd6ea0c97263b5a2d50c7ec20d3e),
     (0x3734c7d50aa73403b92723a944d6c90cec86c737774dbc4418a1a6693dccc58b, 0x416c8b45805ea84fa8247cfc6a0b0d0fcdc566e2d811adff2899f9ee663e7ef9, 0xa37c37075b7744beefd595325344402e13e9fab60c3f1bb0ff853852871b96e),
     (0x3c3c51d3a301c63868a041b4210b71c3675effc0210360dbeaf2778df7ec1eef, 0x6c161ec4de54d51b1a839d13f50e0274bd11c93f722ec44ab21342ef4bd6f892, 0x2fd9ccf13b530ee2b1e35b5fd40290b155b2c97f512b636ec720cb6153ead9a3),
     (0x2a4ebd1072842b788ea22727c676cce2bdb6faac56c69c28c3e694aa63e45227, 0x49b857654a0e51927bcbbd26fd2dd718c3c8d1d196a56ec950806104ef23a7ea, 0x1f699a54d78a2619ed2995ff36b70a360611d7253fded2a08c99cc5a8b3f55c3)]"

definition points_22 :: "(int \<times> int \<times> int \<times> int \<times> int) list" where
  "points_22 =
    [(0x4892cfff7f94ff7f07c1241e3ac4945bc46ea9d6a3c1c3adbce109a9afceb6a, 0x3ae2aa25e2555135a7a3251c11a3f8eebe81758bc1c3e2cbc6e6ca461a543130, 0x3f6bd725da4ea12d981f375df55042347ac860292bffff06a2b4dae0b5511c9a, 0x36597d25ea5c013db72712da2df7afa9023a8aee5787c690eb18b9ab7f5745c6, 0x7b7ecc19da60d6d06466f8f99202932dd940579e6fc6905f734d8d7b106058ac),
     (0x60c497780d40c8b1ba4f5dc4a2262b84528083f770b07af0fa76098a9f1048b4, 0x22fa44ee0eb502084f6ca208ed0757572fa5b25d76f30b5f733840c7086cb1d4, 0x3bedc661bf5caba09bbffcd8f2d82db82263654e7a386506dae4a51a77cfa9b, 0x4235ad7601743956951d44444ae12bd2dd252e660642906e78c2373c695c690d, 0xe7ce2b0cdf066a1a0cab423e2e36ee4492942549189f2986258cb0d078975f5),
     (0x7d7225dafd9c43b59f53de50a2232f2079fd512ec2cdc0401d094d528a5f7598, 0x63e030388d50aaffa92ef62ddd0c7c6977336f22ff2ef9ede19db18d4eebfb4e, 0x615256138aeceeb54882d47e7f2fab89f130c051c1fcba2dfea6fedfd94b70f9, 0x666e0a5d8fb4674a09db17dd3ae94d48fd361df43c6139adc494643ac48c85a3, 0x7f0bc810d514dee49abe4eba75e8985dcd65bcf0aa458b6b2abbf64e4870cb0d),
     (0x480d816072eb67bfb2aaa781fa5316978947e10deb8b7f3165561904a63f000f, 0x552d0f1d6bda43b57e73875b499952c016af17ac436baf671e5684a8cd33137e, 0x1d3a907ddec5ab75311e2edd43ec69579ff6f8ba2ef72e9883ac9dad737213a0, 0xd1f8dbcf8eedbf5cbc8dfd94f463c288d67369e57e03035b9006ba426f4136f, 0x11b44a31bfde30128013c030321cb29329fad851b3480ba1693313ed081dc),
     (0x148a7d88b200dc224b62a923b9f58c9e323f4767053e57cbeb3b3f7e95221da8, 0x4f4f0b1a20843403c646345be083da0f8f802af55314659e2b1adfead4e889b4, 0x63d988a2d285102611a8dd7f9a7966adc1bf725c5852bd6a16561f696a0aa75c, 0x3ac48d916e8357e17ae38b38268e4d715d40e38e4dd60dd23fdfa06c3fc66c0c, 0x33fad52b2368a066f81669b384e72b91e92bceb8fdd8f68300120753afbd232e),
     (0x130130d18b59ca9d78a8dd09fcf85f147e1975a56930e1cb1c933f84ff1f58e9, 0x29c224fb2db0a7452b55d9dceffe465a8911d9d59c7059007099894bc50376ff, 0x3cc355ccb90a71e2a3feb6e6ecf6a56f072b4f7b05a13acb8d2cc8d0c422cfe8, 0x16c0f429a256dca7b2acfcd2f305e7460af86430333f7735540649c6c5e41e16, 0x631eaf426bae7568c87cd1a4baba9244b8a494cb7a5637cee9b69443903e9131),
     (0x36c2e3fa23db337fcb93fbe309f54f2ef651bd54bb708fd5c9f838d46484879b, 0xc5c488542844d3587d1934428ef0eb27c2f08a72787757c7de13ce53eeb864d, 0x431f2c7f665f80b553658f2732e45de17280c5fbe2f8055247d975b9a3700de8, 0x5599648b1ea919b5bc3d97611ef9bf8385dd4b526c16e5a6b3e90410da66fe9f, 0x7b04715f91253b268900441a2090a9d714ab352fa1ea514ad6026344858f7b19),
     (0x378e98824a6bc4f1f82d26f746906680086caba8f7e0902b97c482ac0bf80638, 0x114214780d621d31b86d6e60fe7b92c48ea22834753d0ae01bb23fd4b8eeb48e, 0x48d0acfa57cde223b09a9558450bf944970ed3dd6d1d9b0bb376c280c4e6bac6, 0x59b37bf5c2f6583fc0404769b7eb2c4486357c8b7d5c7ab483edbd28acf6ae43, 0x16234191336d3bdb4208ce7ee9960394f1d1a197622f3a37b60f26e47dabe671)]"

definition between_22 :: "(int \<times> int \<times> int) list" where
  "between_22 =
    [(0x2401d311a3abfd2583f1c6aa519c1f18ff730a0abf730ddcc9c9739b04d8a85e, 0x653224f3488cae1ae19a414a9932035a2bf2c46803b5532bbb645e62387ee34d, 0x413051e1a4e0b0f55da87aa04795e4412c7fba5d4442454ef19aeac733a63aef),
     (0x72964d278e0326e84801f12bfb0c0cb1edbf8bedf273e5b2b3f4ea8c3aaddde8, 0xeb4ace1c6b7220c4211bb023c76443304c2263ba1d49cf27c4d26c9603b09c8, 0x1c1e5fba38b3fb23fa0fc9d6416a378117029a4daf60b73fc8583c3d258d2bcd),
     (0x5aa06a8b5ddb350d8c58306257ecbf219d0070caa4f986c78fdf8e42fa9b8ed2, 0x7920277cec6d1e37a5f267d8fce232dfe38bf858973b895f2611dd200d7c58c1, 0x1e7fbcf18e91e92a199a3776a4f573be468b878df242029796324edd12e0c9ef),
     (0xebb89efa79e3b56b75663d950362c441440ce1425792cf196234595fac0e9d0, 0xe5f7b80005248f80da7d738df4c11a70f30018d74e871780a1c82cc0adc7fce, 0x7fa3f19058b40da15651735f8f15e562faef33794f6f448673f93d36101b95eb)]"

definition points_23 :: "(int \<times> int \<times> int \<times> int \<times> int) list" where
  "points_23 =
    [(0xea2c846a535a115972161612a192588d92d68a3c9050eae91b2817b94e68325, 0x3b82a8337b05f11bbac176a113be183a50a0331f3d3116f24b971b5a8b0d031b, 0x4a25707a203b923151e2d8023dd73dc329cd9bc3063625a0dd499cd61ff38640, 0x2cdfdfecd5d0500623a0153fe9a4f2b17772ca7b742c0843b9e499def6267ff6, 0x5721896d248e49fc4000144c3ae20161304242581dd170a12ab7668a53f6ed6a),
     (0x561d2c1d673a0e91876dad49d7c6a6c6ddc4068445226d2a0e777dbcd25c5f3d, 0x2dac09925d76226bdc776a3309ccecec6de6692370dbd0de19e5d2d4cf747afe, 0x3c935afc4b030fd63e5177ce19393b34baa6fa7b5fe3e08285d5091a1d0da4e, 0x578edd74f63c13da5509bce9320646259022629f2bb963b40b6e5517fd181bae, 0x3ec2ab590288c7a2dcd29b84dd623a3c47ccc2c4dfe205fc997276c6492b0c3d),
     (0x70231a092565f0c7b906e37b3a2987d2b2d01cf9efde53f402c033c6e4ad2af6, 0x1df8dc634575bb9652a7c14badf523565c5b6ae551176ee1a4610642c985a6c2, 0xe1bf66c6adbac5e0baea4c6e81eab290f2b87df40f5c2d5a7213a09ae32d1cb, 0x2dd5c25a200fcace99a0ddd073cb9b83a98b4deb61391aeda1a0d27be4d87bb9, 0x730548b35ae88f5fbfba69cdbaae5f1e1a020018cb926d5de2abd5e9792c887e),
     (0x140b6f1e4bad46896617dbbc2d4b1bedacce412cab91f0015e12dbd3eb171523, 0x444eb3598ccaff53dc272b0ed8d7543e1270b04a5da34f1822482d77b6bfce11, 0x585a2277d87845dd423f06cb0622702bbf3ef17709353f19805b094ba1d6e334, 0x3043443b411db8ca760f4f52ab8c385065a26f1db2115f16c43551a3cba8b8ee, 0x7656278950ef981fa78e6fa5373e41ff6698c4b5ec78257fa18a5f8233d48962),
     (0x34bd49edfa2dd7b810ca6bae43163dff4f4f945d01075475545652250ab38365, 0x73feaa96bbe61e5e37897c4dee6d4c8eeb3d675a060e0b678d1a217edfd34c25, 0x28bbf484b613f6164853e7fc31838a8e3a8cfbb707155fdce17073a3ea86cf9d, 0x3f4160a8c1b846a626bf109fab570e8f9bedd2fd0506b6f238c3cf59d51fc8c0, 0x1e79cb358188f75d527e9ad213de6f33afead107f6dd11bef2612f5c6f136c7c),
     (0x70d99008ffcb5d61ae39921364a5a374810cd0e2157fe6f0bb5a8e8a83744eb5, 0x56b125243a0695932e329af9219f827103983b62141df7e8bc8ec54e726c32b9, 0x478ab52d39d1f2f4dc6c2d0c864525e584a50c44299dded977e953d8f5e08181, 0x65d7951b3a3b38317ff908e5bcf9defc828b6a7ffe9e10f8013436c3eef7e3f1, 0x16d87a411a212214b82c6b40a6c1c96fe5dde1bc871ac80766a6a4d39252d159),
     (0x7b50476b0a33709bf8dd3260cbf7f16c2d41e6051131ba9ca3f3abc449a3d1a4, 0x2448c3ec7026fd42509d9012a2f18623b4ddc9d21d8bdf5e57b12a1e8baa33cc, 0x1f990b577a5a6dde497ac2736ee9778fe21fafd72ebd99fafba4d5e2d54e0583, 0x28f87c8165f38ca657c05db1d6f994b7879be3cd0c5a24c1b3bd7e5a42066215, 0x45882fe1534d6d3e77c6569e520de0527d1e50ebacea798fa3344ead1be8f7d6),
     (0xa9fcf41f6ef7ccb545e615e1335443229a1822845ecc07e3921b2660f617607, 0x732fb4faed1673a8d23b79b5ab9356c18c586f395d96d2249f8ae6c384daf9dd, 0x7dcf843ce405f0742699db13bec89af3b5f9f161a38392a2d8ac9929943c6fe4, 0x688fe5b8f626f6dd7ddd1857985e128f62b6ed1117aa11a66669345d757983d6, 0x6739687e7327191bb3be28c3915dc6e1d52143fdca5632996c90d6484a4732c0)]"

definition between_23 :: "(int \<times> int \<times> int) list" where
  "between_23 =
    [(0xfb3f87c2c6c89c65b74299b77f3736546a8b9e41b19197476bff27354e1c128, 0x1034d42c15a2bfe3e682fad49dbc2812caadf0c584bc30b51625b85d74e9d5f7, 0x80dbafe936361d8b0ed13925c8b4ad840536e169a317409f65c5ea200814cf),
     (0x7b6a55657786383d359c5b5f2f6cc814790f8527d9d67f6c67a5310eba46b161, 0xcb7acea0eac739a61d526f6eddb857114a32d8f09995826f1431b60663ab0d3, 0x114d578497263b5d2c38cb97be6ebd5c9b93a8672fc2d8ba899dea51abf3ff5f),
     (0x5ad25870b2c161c671b014f548bfd24114e54bac5c675f43e79f100e17e5f45e, 0x65c775edcb82b0b26040f9f5ed43f8ed61ba00427fc92b50bddc94920716ba2d, 0xaf51d7d18c14eebee90e500a48426ac4cd4b4962361cc0cd63d8483ef30c5cf),
     (0x3f18362ff22f583b16d40da2f5e67645ef65016e5183a44475b3ae5c3056b6d0, 0x5cfc7a0f0d2fec43237b88efc4fb7e9f0a95b6352bd4caa918c58c1e9be02ffd, 0x1de443df1b0094080ca77b4ccf1508591b30b4c6da512664a311ddc26b89792d)]"

definition points_24 :: "(int \<times> int \<times> int \<times> int \<times> int) list" where
  "points_24 =
    [(0x1bc7af1e38185e7c2d8d04371c7e177d7a9ddee1b81d7d26db7ad644c7dad28d, 0x61d909d855661f2f7a5eef87795dc0491d027e12631b270fcaf2f65900314833, 0x7da0b8f68d7e7daba7ebf3be95dbd7c697a05cf41b38a436a66dcc9dc80c1ac0, 0x46115aba1d4dc0b34cd1eb505cdfa8cba2649f30aafda9e8ef782014385675a6, 0x5a5f887e83674b4b03cc6021feb259601dac6f7321119e9bd40f1953c3b5da76),
     (0x6bce245f8c2596bd228355a6bb8a3d9f2fa8975d8daa7d00799938218028354, 0x3d26989cdd0f6da0c92acd2f10754858c2c9418b0de8789496fc955188a3c065, 0x43e37ae2d5d1c70c9b5302897c2dec32b5c3cb00e6c320649e9628d3a0a643b9, 0x3669b656e44d1434f70297d4a4bca47ecfceb815350dd0c48f6301cf70a13d11, 0x6a21e6cd4fd5e9bebd5ad8f83626381167301d5199a13ac0387e3f06eda6e133),
     (0x7665908aaf4445ef643c3ac9c27ffcb40cb0ef0eb7dd6eee7ebd89041b29662f, 0x4ed18a7c50da4546ce17f8064f02b40965221938b8afa4137083a00e4b704ca1, 0x45371b07001e8b36325432d01182b0bd71d30847708d1301ef4129126699b2e3, 0x586bf9f1a195ff5769dbbd3c8c82b75558712a2a00d23524f1c6170a3046e65f, 0xeafb03790e52179ac0349d261a16eb85278f0dc610937e5a6db088d5ef8790b),
     (0xa09b36eb5a04aa90834f3f33ba4e630e5345cfe522b910f5d9d954e6c16d4f7, 0x3aa47fd60fa3110a24b6eb2baeed533d06ce9ee4d4373b20f3a2eb0fa35ed926, 0x44ae3344c5435bb32cebdf1eea92396dec02fbe32662cc305140805e0f75ae1d, 0x309acc675a02c6611c81f73873486d0c219a41e6820baa11960555c13748042f, 0x62d5221b7f94678f1d82e5c64f9360aaf3760e9d5ac971429cf289b9bba543ee),
     (0x1c71ce37638e6d6a80c8b5a8bf5649860ba162d2ba6e7d20919cd5451113735e, 0x7880cc1c2003b2cd243dbad79aa0cfb7d40d183f447a972ce3e8fee129e406cb, 0x14f29a5383922037a506708059f7193ddfae7b11fee9144d7585d4263af77a3c, 0x5c0efde4bc754562a375052edb4a8631c86bb56c8a0c1a0c524c299c18d0936d, 0x5e72365c7bee093eda9234b7c3ed4c6221f970db99b53040df717edc25b2d7f5),
     (0x3c607a84c1df2f7d897a82f895c2cfe5120e79446c852cb1931b9e7f74cbc8d6, 0x34518ad109941a3a2384bab489dbee184987e0a1731a060cea779a86ba3cea68, 0x70b20555cb7349b7acff3dad1f9ebdfd5b9659e5df9f32be7d9339062f08b33e, 0x77f1104c47b4eabc9a0a37bbf4191e333779675d0694d95b575bfc074571217f, 0xe34398f4a06404a446677855e503b476688423a9a881fcdbe5113c555112c4c),
     (0x89b6cd02000bc663ff938dd616ef7f13a17fc66a638e39c310af417ffbe2da0, 0x66ef7206aa36dfd8b438defd11ca657e43cbe4a7cdbb12a3e78816f13e8ceb88, 0x6f8aded6ca379c3ef43217da73395d6f7de3e10e73f3f64018930b093e4b1928, 0x5e5405368a362372743fa61fb05b6d8d09b3e84127822f07b67d22d93ecebde8, 0x780de72ec8d3de97f9967d02fde6949e487b97e1a21ab291e340123dfdb7b29a),
     (0x79e9d5b60917d60f87ab5434677906d2b72862d87067a522e1eb2d6fc2c9fdb, 0x16512951d2240a453126ca9450bfa225640064fca385c7583901381c04c78797, 0x1defc6ad32b587a629a17fd7973732928f72eb2a2a8c41aa671feaf300f42772, 0xeb28bf671928ce438ac15510a4811b8388ddecf1c7f4d060ae28545089ae7bc, 0x467d201bf8dd28672991f7fb7ae5da2e148c1277917b15edaf5bbe1aef5195a7)]"

definition between_24 :: "(int \<times> int \<times> int) list" where
  "between_24 =
    [(0x469d0960dbd0ef9c91c4597ccf7c209549b187ff63bd378b7dac577198d74a4d, 0xb5f21c7f86832241f2157c288bdc9394f83f8d57457f6d9f6b345e4909478cb, 0x44c218671c9742878d5cfe45b941a8a405d270d6109abf4e7906ee72f7bd2e6b),
     (0x5911ade9998930a4ceb0b66eb93d7e9e4d94ca0a3ae3f095c5c4ffa156776792, 0x63ad2432a173e9df4056a370db21b2625d68ad21c0030bba5b75f6fa19548f6, 0x2d292459908e0df92554b3c854749c87d841c0c7e11c4025dff25fce4b1de151),
     (0x10b304ff67577ecb1c73a3e405d39a64b2d4f9dd4cb4bd16a9f3729ad1939932, 0x13b7faa0f91cc1419bb0e7cccd85e369d9ec65aaa934afb423616dd0ada44bb9, 0x304f5a191c542767f3d43e8c7b2490527176bcd5c7ff29d796dfb35dc10b287),
     (0x1b795d9be8dec6dd3617f3f9bc33c580debbc3cc19064f515209d00c3c88fd04, 0x6c87f61b675c50c01e862a53cfba384baefb8f95079b71087950ad5751be0a65, 0x510e987f7e7d89e2e86e365a138672cad03fcbc8ee9521b72746dd4b15350d61)]"

definition points_25 :: "(int \<times> int \<times> int \<times> int \<times> int) list" where
  "points_25 =
    [(0x5e9ac4ab2f4a3c3526e1317f913d69e3826fe862efd0c80d9310319170c5cbeb, 0x505f00fa8aee03ccbd2f33529ae1e4e4bcf2644fe673d0b0290ec32be5b51bab, 0x2ef9c5a5ba384001e41064d22c1f4ec83f624cb2d64498bdbc1ef4bd567ae7a9, 0x71c43c4f5ba3c797964e01d309a47b013a827becf6a308a295fe919a74ef4fad, 0x5a758ca390c5f2938255b3d0f1ef990ef18278bce4af267ab6fd6df6fa9e74cd),
     (0x2e5c4ef1a12730a9788953b5079a1184a9a237b9e281f0317514b53d220ddbf6, 0x5c1731365512a3965c5d5474a84e994ee44afe8cb7ff403517cbdc4dfb54008b, 0xa738027f639d43fd4e6a829afe8aad38ded36469a8130668ce0918b1d61dc94, 0x2dbae244b3eb72ece3d400bfa0b487ca3aa8c6d2d57d5003a2b72710d9462495, 0x2698ca635126a69c105c3f4a49fb15fd00670d0de1839843980f4a2f57ffe1cc),
     (0xe2606a00097a415aae791b2311244cf33136b90a93aa9fd236c1f5395c68f4b, 0x2dda446c4a628f1cb38fad43d13b649b6b2b9d883b97a9890ad150dbc87749c3, 0x3c004b0c4afa33325e773ef6024da96a9e3f0918e4d253862e3d702f5e3dd90e, 0x1fb43dcc49caeb0708a81b91a0291fcc381831f7925cff8be765318832b0ba78, 0x6b43fd01cd1fd2173ed3265fc6cd47871ca284a5a806c4f39aa946ac06f4b82b),
     (0x4c6c9a0e8a4ef16e4b55b6eb2e728cf2afef2d38877d5ce8770ff2867bef24ce, 0x26d5711ee5a1e88273be70d6d8b9054cc5ed2581668d5ca83eb74fd1c286ea25, 0x73420b2d6ff0d9f0bf1427c2072b923f75dc52b9ee0ab990b5c742583e760ef3, 0x5a68d7105b52f7142868b9ebaa46785a15fdf848df0fffbfc7a75d4b4697c544, 0x3db5632fea34bc9eda8ab89699fbf3738f593913c62238c4af2cf6cb9e851e06),
     (0x6a73b1e2a603e5fde97eb6040168ec42f0699cc8829997f59ced5142c59d25f5, 0x6ea5ccc1efdb4511057187354b075eb5fd814ebebc00f19b915c3f6ebcfaffcd, 0x59197ea495df2b0eeef03d394c704af8edeaeb873e9a89912e4990b1829825d5, 0x4321adf49d75f131bf2d131499e72730d17b1f6396759a5f46eee2bf75dd9d8, 0x45eafdc1f4d70cc0c7ce2dc16f159aa4e77b437a7e2f92e904e16019e4e55aae),
     (0x728a71912cf9ff30cec3335c38712a0186dc63f7f7167ea22645224fa7c36d4e, 0x4ce95d59305cda0f62dd69c1a39357c7d2ff5e9ac64584f38fc923d52809448c, 0x3f73ceea5d56d94031a09d1ddc0481c959dbc292bd5c0395b60e4624cfccb1ed, 0x5a5eebc80362dade941a36656b222dc64c22faa2cf2f0651698401858045d72b, 0x26058891266218db60c1207f1557aefabe57007e44c9b339b7a7bfd10a4e8dc6),
     (0x5ca076f131f17330b476512bd0c5b4db4d34765a46b672dc794544cb218af30c, 0x314d831f8052d08837917b9ee34cea2d110db638bd1859d0d33c4971a4ebf223, 0xdedfa10b24443b8ec07cccab4129f085e422c9303ceccad4c818e3cc676e542, 0x54ad0c2e4e615d57831b2a7312873551c3d93fde7661e6f459f704a68360ff04, 0x62ecb2baa77a9408a5b4d2f26ec19fd336f163469fa5c1ebee3b67d5b82b522a),
     (0x599ba21b65ffb36cf3151c6e8662aa6c8b35948435819669d60cd77227507e92, 0x7f59b350f668c2b6797e53f3fcdf6ddd497ca01445f6e3bbbfa50c48865a9e2, 0x61913d5075663f985aad01adc630a14a5fcd5e8579e104a592072836afb62874, 0x2e59f919a966d8be7482c8d0b96b4c714962357d0eddd7d1e5ed795261152b3d, 0x3ddbc2a131c05d5c02d801513f9594cefa475832942002700dc62d361a3231da)]"

definition between_25 :: "(int \<times> int \<times> int) list" where
  "between_25 =
    [(0x11cd80e1fdcbc565efed81d17f3f54643ffeed1cff38f3825e115adbd82759f1, 0x43f11943f7ef3fa68b980fee45e98134f1df22263b2d14419d61ffe62822dbe0, 0x32239861fa237a409baa8e1cc6aa2cd0b1e035093bf420bf3f50a50a4ffb81ef),
     (0x68c33d8f33219a980ef7a4a10edcd58b0d2314d3c8ce301b6c0de50a100f3ee, 0x1032a93593881da4de11eedf679416b57135344cf9061c393b12d830ff4f7dcb, 0x9a6755ca05603fb5d22749556a6495cc06302ffbc7939378451f9e05e4e89dd),
     (0x1eac17c83ec7972fe82321bf2c4e6aa73565be5cef720aa9930c6fa3f0b1c087, 0x419a160079a825b1b3c51e57c6e5a257a86757c7a97bdd6dc1ecc40e521ef7b, 0x656d8997c8d2eb2b33193026501fef7e4520b71f8b25b32d49125c9cf4702ee1),
     (0x4ee45ad6672f7b5dce99d4f64c57742640feb26ae734fef8493ae38faba68896, 0x7041a7fe4facb6c6904101f856fbff5b2bb15c7dc602a4936af62555bdb3825c, 0x215d4d27e87d3b68c1a72d020aa48b34eab2aa12decda59b21bb41c6120cf9c6)]"

definition points_26 :: "(int \<times> int \<times> int \<times> int \<times> int) list" where
  "points_26 =
    [(0x3328bc121616a9477165ed282053d203c24f4826076c638a2c6723d42c9bfadb, 0x2bbf3f26c21b5cb273e5f4f0114c6718c5eb7291939b7697c74333cdfafac039, 0x5ee7fb38d83205f9e54be21831a0391c883abab79b07da21f3aa57a22796bb14, 0x78968314ac04b36b028007c7f0f89515039c2a6b8c2f130d9adc0ff9ce5ec54b, 0x61d0633c9bca0d0946af908d263c8c78a5acfda9434937f9538dfdcb41446a8e),
     (0x3646a62ad82bd1f37a32412d71c1de8314637eea177267a0a5176fc37c90a733, 0x24dd06031fdaa9e8e94d73adc700ca86da20ea738f7dd05c088bb8f97c6bccac, 0x5b23ac2df8067bdc637fb4db38c2a909ee84695da6f037fcada328bcf8fc73df, 0x6e965fd847aed7f56f1b3280553eec03c5bd6b89780b68bb63744935ffdb2566, 0x79b9bbb9dd95dedc0e711704150e82cfe88f19aafade6d8d9ad2b953ee80527b),
     (0x65a10ff6a067cb76b0b02af443c57243e6e78fa83379224172f3143712372646, 0x3607014f6a64ecbe1cbc8f1e297eecc6b94b13509c41e5d55ea669777c684d1b, 0x1ba811460accb834cd6cba126d445f0aa032a2f8cfbb0816d1997dae8e9f7374, 0x5065f158c9fd21476c0c6429e5b97a82d26383a868c8c393ebb355406a3126c2, 0x3981f39e58a4faf22eaab98a70e645bae14600acd76ecf67708169fb0c429954),
     (0x3c0c1e7beb87a53457a69c0f5985dcbee21e0acb65aca9eed7a52a980a61b29c, 0x74e826b2f1347631922c45546e2f1973ff349a34c6939e4bf0a0b50d6384bd2f, 0x30f4452edcbc1b65e9d2e163c7b4f632e152a5002c40483ac845dfa56de66fde, 0x38dc083705acd0fd3a85a94514a93cb51d168f6960e6f45d18fb8a7559230a93, 0x632d9a1a593f24698844fc73c0ea4e71fa134569f99cbecc856d2782c5759740),
     (0x579ac4b5218480a533397a94f4d3103725e654d0a8a53c31642748fe1a825c77, 0x62bfb93d6971cafcee57119862fc77423e0a1cb064fa2d095ae2b413d28a281d, 0x3a5a7df28af64ba221908c2d57cf877963f071810d9f693abf09fd11ed0c84a7, 0xb24f48847ed4a57bb1d97036e29670b1823c7dfbc54f0d7f6bb6b15b807cba6, 0x34fcf74475481f63e19cff9f005f9a65a4538075ed26ccf2dcdad4be511beac7),
     (0x61eee376f0dc885c9e95a047434c8072d23e2a4df019163a72119eaf801c2154, 0x1f2abf8d3ed6ec53f47428c9c745e01b8aaf781928f25cb833a97efbf8b38931, 0x119a3042fb374b09309c9110a92608e5ceda267190b72f2a5bb1dab78cfaa98, 0x3d3bdc164dfa63f755de888283f95fa8b8714dcb38d9467dc197e04c789767ca, 0x56c088f1ede20a73f56598e5b282a2b0669da5f66895d0c167a2d89ce8c2177d),
     (0x3d12191c75243c03d0861ac632e434b3e88c30e657b6ace19257114d8a25906c, 0x467965880e34c78bc99b4e3c57eb5e3cc07fb918632c5fdbc5c44e5e9acdfe83, 0x38b7ea48359038f9a2169028acf92f0a90be9febae30cbd581b5fac24f38f02, 0x9674c6b99108b87f915337625072988d7f388320b75b2fa336d3d1110a86e17, 0x6e5e31025969eb650971a5ab5aef31742f49d282eaa78d4f9f4ef82199316ff8),
     (0x53b1cdfe23ed553c0443b14bbba2119b58cd8c555ea7bde6c0cc4c0c6d90670a, 0x5ca6df45ad9630e4b8d5732bd06e5008a2677a342904fc587238af01f575fb05, 0x3058ad43d1838620bd1924778c1061a3fb35068987acba3f3304fb0e63066222, 0x8f5114789a8dba8b491c1e014cc3e6d4999eddeca5d3e71b16c62f587e593fb, 0x26549fa4efe3dc99bdc78abdac994f9a05c3df38a22ea610323c0ffde57663d0)]"

definition between_26 :: "(int \<times> int \<times> int) list" where
  "between_26 =
    [(0xba774bb605dd804cae6887e81f6bd2c59e024fac8bf5f5c48a841a037c28398, 0x54ba013ad2d04dcdfb5a151b7347ee9a10067ddd0a3907e9bc337a77bf911321, 0x49128c7f727275c930738c9cf151316db62658e24179a88d738b38d787ce8f89),
     (0x6e6b14df76458c45466bef23b9377cf147c97c495e8207a0436a200b4a39d548, 0x30f3b35dc952ba9d6b5fde2d131ab9b5b403f2583a7c2d8ada37764c29cac942, 0x42889e7e530d2e5824f3ef0959e33cc46c3a760edbfa25ea96cd5640df90f3e7),
     (0x496490af4080feeb8e38f78e769308b124edc07985b1ef7148d7620c6bfe6f4c, 0x7f6410727b65cafa07e53ab1e775ef0408cd5f12b94bdb4e533c4498c1da884a, 0x35ff7fc33ae4cc0e79ac432370e2e652e3df9e993399ebdd0a64e28c55dc18fe),
     (0x75bf0ea1fb606d05dd67e0f313809ac9792dc903159d032b05c96db7be967e0, 0x43ba373488c317aad659043f9bca4c85d9b081903e7767143522416bdec79f81, 0x3c5e464a690d10da788286306a9242d9421da5000d1d96e184c5aa9062de37a1)]"

definition points_27 :: "(int \<times> int \<times> int \<times> int \<times> int) list" where
  "points_27 =
    [(0x1074ff0267662dc2b4ce65aaa0229c375a3d0d843ce9349233949581c869b64c, 0x299be0decb680ec28923da4d049770107d42c180b460da13a7b1efc7e6d5b022, 0x3a10dfe132ce3c853df23ff7a4ba0c47d77fcf04f14a0ea5db468549af3f666e, 0x1926e1dc6401e0ffd45574a26474d3d92305b3fc7777a581741d5a461e6bf9d6, 0x1fa1d01d861e5d15175322fd31f2c0f12fd515463a1fc1fde07f4e8aea17cea0),
     (0x3e63c4ae42121958f28e78e557e827a108156a81cc8b5c64362e2b362a42fe33, 0x3599286aac87e88c8c857059a5edbac1265bc15c047cb18502ae80caa79c9678, 0x73fced18ee9a01e57f13e93efdd5e2622e712bddd1080de938dcac00d1df94ab, 0x773563bc6a75cf3399f6f7744e0593201e4656da37f15520cc8055947d599832, 0x1f426b701b864f448d77cec8ad638932a493da67c5a03ecd06b1e90863139cb3),
     (0x1eade2fa113b19d45106b3018d462efb62e3e4cd9fde382880da87be2808049f, 0x6cc8d8212e6cca64a97c8d6d8055434354879c85b780644e70a3ae0a699920a0, 0xb76bb1b3fa7e438fa83406f0d9b723eb76b8153575e9c76f17e35c891a12552, 0x4e1af5271d31b0905875da6bf30f1447f1a3b7b817a22c25efc9264c41911c01, 0x7b6dd61eb772a95522e5646399bb8017be6771cbd444ab6e08b8c1f97f92939b),
     (0x31ddffcb76711dd76c6b48540967ab52ceb13e466fc3b2a44fc17508ad074a91, 0x221c9b9a258e4d271a0176119764072e484a3895d0508874076f36f0fdfa8836, 0x53fa9b659bff6afe866cbe65a0cbb28116fb76dc40143b185730abf9ab01d2c7, 0x703e9bceaf1d2f4fad962dbd8dfc5bdb7998fa4f608cd5cfb7adc1e850f33d92, 0x398d93e5c4c61f50181bb73ebcd65af1843a5d6665aed4e56c14c8e994885455),
     (0x4af6009911d4f531a9ff4cfb6949f6e0becb4c0c8d61c0a9539dd57ccf82cd76, 0x1ea69bf6f0ee10457e3ed9ec0a54fa577c695e93a320cb086fe9a6e40365167c, 0x699c9c9002c30577283e26e7739ef1383b34aaa030828bb1c3877c60d2e7e3f2, 0x53b09b5ddf191b13d43f8cf0a10b0376bd9e128715bf0a5f1c4bd16733e248f3, 0x51caf30c6fcdd90728cdd24781b4e975921718b5cce5d97df306a7235946f1cc),
     (0x1ed4bfcc333a75f7fa18b2fabed6f3fd969279b611d11b8de6b7a92bd11bba55, 0x73d969f556be73a2317109388e0a18c9f9a0ff26b34b97818cc3506e47909a5f, 0x12ae29c189f8e99a2b89bc334ce10cc7903378dcc51cb30f737af99a18ac54c7, 0x5504aa292383fdaa3758563dcf3324cc630e8570a17a7bf3a60ba7427674e00a, 0x5fd14fe958eba5ea55ca7521d09c4e220dd1efcc3a34f7aea99ec0cb1f0d01cf),
     (0x3a4ba693d760ae2bc9a2c8e4241f9ed15c258b50162a3665c333683fcba71031, 0x438b99022fc522fd174dbcba6422821762ba1d0120aa1ff9790f961ef3ecbb5d, 0x7dd73f960725d128e0f0859e884220e8bedfa85136d4565f3c42fe5ebf93cb8e, 0x93ff26e586474d14daaf3d64002e346069491b10a7fe993b5dc2ddf2845ab2c, 0x2f59bcbc86b470a41367253ab457ac2975730672dbaf23e5b10d24fe68059829),
     (0x6b265507695b3cb34c25cc44a95dd559ec0245102bad71a3765eac0f0ebd57be, 0x3f7f093597acebfdca9d151e67d5802b991dd62f822a757af9e32951a7d46b30, 0x2aa55e3d010828b116c2e1631133558585201b3fadd7e71e7041d560b691c301, 0x5458b42e2e51af4a7e7748d9be77aad1ad1b911f567d03d783847d429917135f, 0x13e9004a8a768664352b4c82fdb5c86442c54e2d74421d10ed5192e60c07444f)]"

definition between_27 :: "(int \<times> int \<times> int) list" where
  "between_27 =
    [(0x25ed76d78c87c3bd64b4331902c5a853734283e25f19f320295667b80a340d35, 0x179b5f92f545c7b326b3a63fb0b32a0f52b4159988436d5af50c1d0d76373947, 0x71ade8bb68be03f5c1ff7326aded81bbdf7191b729297a3acbb5b5556c032bff),
     (0x71880463417e760ecb72e31789bdb017139aaf83eaf20fc20e423bafa442b92c, 0x7be598f9de5bd5dc434f938efd89e30d39e02cf1bf657054ee9fdd5786387875, 0xa5d94969cdd5fcd77dcb07773cc32f626457d6dd4736092e05da1a7e1f5bf49),
     (0x76db1d03f26fe3e7dd73951d7a58abd8b6c1779e5c6f129463f2b2df11653be7, 0x24b91ba65c06f1df0b18d1030726681714e1ebbd27bea55a5abc1b522c4e06ae, 0x2dddfea269970df72da53be58ccdbc3e5e20741ecb4f92c5f6c968731ae8cab4),
     (0x3d09f11b74381d32b6407d2f5f3305c5b6ecc5ed60b48431878c480e138066c5, 0x45f4a22ff69fc1dacbf100959bab8026af793c58551855753634f88dbc8269d4, 0x8eab1148267a4a815b083663c787a60f88c766af463d143aea8b07fa902030f)]"

definition points_28 :: "(int \<times> int \<times> int \<times> int \<times> int) list" where
  "points_28 =
    [(0x75d942c04210dcde5d1bd4fabfc732d3f95568e399382c0423c83c41cb05dc3f, 0x696cc14856cdc13c8fd7e2c5771731cbf38e3fad47a424679765c4874e35ab2d, 0x5f46040898de9e1aecf3b7c036de649fece3a890e0dc506bbb2e00c9193b877f, 0x73937e8814bce45e32bc0dcab74ffef7fa38d6c9ae6bf863739d8845832fcedb, 0x2cf8a4e891d5e835e19715574696bdc6a9d13b22d4f06834b9037116297bf48d),
     (0x6d12e0dd1cd8bd76ad5a191a61920fd4a3c317245e8bb210df90a57b885fae14, 0xd5c9e4b74fde7802a0b836724057a5b810f20f7dac4675a4d24a3028f70bd8e, 0x7a6f7f2891d6a4f6d7659c8185978a3024d2381c3950196b2cb5487e17d06ba2, 0x2049bd6e58252a097cb16a4cc2736a86dd4c09d37c38b5496d93fd8707110f67, 0x6011aadfc545941d4c21b52c519ebfd4f0ee60be5b3db90b7d09fd8d6a9aef49),
     (0x7d04264e36e8889ec5d591851013b99f3fa909b44e6b6d1c823b9f2d199b0017, 0x6cc9f269424b827f9c777978a9a333fabc278f15bf93fd8de1a3319ae930f866, 0x69ce18b779340b1e624d0afdb9b6ed99fbd098ca0dff6aaa63ded0c802cbf890, 0x6fc5cc1b0b62f9e0d6a1e7f3998f7a5b7c7e8561712890715f67926dcf95f83c, 0x15596b3ae57101f1127e0442189f2352dd1aae3cd47e9092d1ef5528b29879cb),
     (0x16c1556c9a2bc1af0b11cf369581a12d063081ad20f83407e1ebfba21f5fd594, 0x23e38cd5158b0f891e19adebe973b5b805b393deb8cf11d7281335745ef14f36, 0x3aa4e241afb6d138292b7d227ef556e50be4158bd9c745df09ff31167e5124ca, 0xd2237687b5f4dda1307deb553f2148aff83123197d6ddcf462739d23f9179a2, 0x32fcaa6e4687a36c083ab1a25549d2eb48583f8fa2e926c32cc138bf2a3305f5),
     (0x1723bcb3e1d150c695796bfce98ed8d56ceba30daa119302db211af2b10518f5, 0x5d4ba682e08ebb23403980db0c7ebd78aaf775fb480250f556e689807682b3ea, 0x746f6336c2600be9d5b2ecd7f60d964e17e31908f213e3f83207a4732787ccdf, 0x4627e9cefebd6a5caac014de22efe4a33e0bd2ed9df0bdf27bc56e8dc57d9af5, 0x7b4917007ed6629333596a8a0344186de288eb729943731f3f4af345ab6c971c),
     (0x456bdf4c7423eb00e4455b4a695e9574304fbfc4aaa7a01593570fe618e77933, 0x579782c36c68e87c2bb0378ee474638079c7d097349b5c29c0dd0b42c46c2997, 0x1d03620fe08cd37d0ff592d94dd2f8f4aa17905bdf42fc3f54341b28dd53a2dd, 0x122ba376f844fd7b476adc447b15ce0c497810d289f3bc142d85fb5cab84b064, 0x2c70bf52b68ec4c2eabb4be7dd479d99ed0fd42115d187fc20232cda2b4e554),
     (0x2269a46cdf0aa2113b456bbb165d9e458d4588a83ab75cf5852ea339f4412193, 0x489cf3771fa997f21b8a11d9d82e1fa1cea1e03841ffdfc027b68f85514c514e, 0x6b0697e3feb43a0356cf7d94ee8bbde75be768e07cb73cb5ace532bf458d72e1, 0x26334f0a409ef5e0e044a61ec1d0815c415c5790074882caa287ec4b5d0b2fbb, 0x1cc37f43441b2fae9c9cb95849f0d2a93ef000ef076da45db6c8f04adf62a3c0),
     (0x66e632db15cc9b7695e73e2b94033b8d25fca89b99ef5e24436b804bb683be22, 0x534e3c9c194cccc190ffea06f048e7a6f65e6d5c7ef6074693fad6a6134af084, 0x3a346f772f19683826e72832844c23341c5b15f818e5656ad76656f1c9ceaeb9, 0x6c6809c10380314afb18abdb5c45ac19d061c4c0e506a922508f565a5cc7324f, 0x5911b9f6ef7c5d0960746dd8ec67262e9bd0331b1e851edd2d55112e2da6ac8)]"

definition between_28 :: "(int \<times> int \<times> int) list" where
  "between_28 =
    [(0x5d9324f56975477d5945599eeeccec67708c996cd3f3f2818bf2591507e3502a, 0x10985a3cfd573205281aec24e2c8b41f5cd8cdfc9d7be34675cf306bbe1b4f6a, 0x3305354793e1ea87ced59285f3fbc7b7ec4c348fc987f0c4e9dcd756b637ff2d),
     (0x3c08b09976fa5b99270e861a71c0ab1fe4d91e80e522ced3e19ac2d830f7dba3, 0x30a2ba28dfd74083de7aa9ecb4443a3773366abd33d1d1eea65d6a1b85d2932a, 0x749a098f68dce4eab76c23d242838f178e5d4c3c4eaf031ac4c2a74354dab774),
     (0x27d83b61339890b9c8fbd00cb8657e01e08fe7e02cf1cc0c991f3e184647ebb2, 0x2aa089af71e21dc6264ed78eebeecab46c08c7e4c593c801ab744b503a72bea0, 0x2c84e4e3e498d0c5d53078233894cb28b78e00498a1fbf512550d37f42ad2ee),
     (0x4676d3812cc6b66e1f8c510f446ac562ff8a52086d52067482faa8dbdee40b98, 0x7d89e2b7744c57b1051450a0457fa0eb2a95c1bf8ed6bdf68f1aa7802e7429f4, 0x37130f364785a142e587ff910114db882b0b6fb72184b7820c1ffea44f901e5c)]"

definition points_29 :: "(int \<times> int \<times> int \<times> int \<times> int) list" where
  "points_29 =
    [(0x7511066c0e12105a7b937c7ecef367d5afe6e621e5cabf4e490b09b7ada7ee07, 0x604df365b8391cbca8848f88daa700b770da5bb136f70bfb0a3ea33ba386fcd5, 0x555ef9d1c64b2d1724180c07a99a688d20c141d31cc1cb495349acf3512eeaef, 0x6b3cecf9aa270c622cf1130a0bb398e1c0f3758f512c4cacc1339983f5df0ebb, 0x675f4de13381749d5737ff98b40946f2624aef08a3afbf0c36a770ba3b73bd08),
     (0x668d5960c0b43b91185fc90d18ad46a4515235c7185bd5254981d26ae8619807, 0x7a66f757c21900b1e93c86e682114de2b5d3a248850958d957ae246e53791b03, 0x60f450b882cd3c43019c4ff39abe94870725d80f9d652dfea12ff6d93bdab31d, 0x13d99df70164c520d0dcbdd96964073e64816c816cad83b40e2c52036b1782fc, 0x1c06de9e55edac804e5f1c18750023a04fcb69c9d719bfa2014b5ec321e5c0ca),
     (0x158af2b74882820fe0d48c352012a9c0e72508f00f08b496b362d8352e175264, 0x627e7cd734b0381d7d75cffa833aeed64d2e0228cd3795254c72530bd1561746, 0x78096f8e7d32ba2d5e4a5c2fa34d989734530b18dc4049bbffd52b40ff6d69aa, 0x4cf38a1fec2db60d9ca143c5632845156608f938be2ee08e990f7ad6a33ec4e2, 0x373cad3a26091abe4f09cc7d7003725bf9c49e2a48b5478ca0aaaa650dfa5ce7),
     (0x5089c58085e74644f85e2d03ef0759218dff976d9e8db4ca9f9522d70389e30f, 0x50cab959cb2b604196fa7ab73094347badcb954ec320fa01522986248653d88b, 0x21547eda5112a6868f58a7bb1f9b8d9d3bcb2cbc61aeaecbf1bea8fb89ddbbad, 0x40f3d9454419fc9e9c4db3418cdb5a1fcbfde124934536b294634d82c9f57c, 0x63550a334a254df4b72ba407bb3119b9f4272c89510a380cdefde939fd5986d3),
     (0x7d5f6473e7c2f3943b367cec6de48d986dc0cea56b0f6cff9b5940abde7555f6, 0x3c49c73bc2ba82e625b27d7d595063f58544f85577b49be10061179993df2540, 0x39a92bafaa7d767a60e8fa69c734f18df305c6fae2c408e09bba584572547b49, 0x3eea62c7daf78f51ea7c0090eb6bd65d178429b00ca52ee16507d6edb569cf37, 0x68436a0665c9c4cd70525560eb8ab39a5f63857768dbd3759d24c713e693274e),
     (0x5dde3f530354c53c981ddbf84741ec31fee533b10f88b9da312a4e97e3f868a1, 0x759527498e0c4f3629c2c5cdeace1048c641349374822f8aed2c84800427a7c8, 0x5373669c91611472c1e0a1c6320ffc7ac5266844840ae9651e56d317e820107c, 0x17b6e7f68ab789f991a4e9d5a38c2416c75c00e264f975b0bc0235e8202f3f27, 0x1cb4b5a678f87d11afcaf5885b2d1eca908f2084c9cab3fc5d2814ab9a0e5257),
     (0x3d5a995a523d9d0503bd7090da2084f7f34481462bcbb3ffda87f4fbb4aa85b4, 0x706663d330b1d1a7534a73a725eb5d2bffcd5f6ac4a613b190ecb566edf58220, 0x2dc0fd2d82ef6eac5707e438000be223f311e0b0f071c7b16b74aa62a2a007e7, 0x330bca78de7434a24f8d03164bcad8340c88de2498da5fb1b664c06b394afc6c, 0x3c31be1b369f1cf5c58ac14fbfc953fbf9695e962b074724982eff841119744e),
     (0x761affb1e0d408002cc427dc6fff611536e2b989b0a5f94883a1b23789b5bc2, 0x3a6d110e6070153b7c42102c6dac97695b4a45872cc47c04392ea170812fe6b0, 0x41cec1097e7d55bb7f0e52aa34ac8d7aaeb8711fc7cedb98c168bc93f9cb4272, 0x330b61134262d4bb7975cdaea6aca15807dc19ee91ba1c6fb0f4864d08948aee, 0x26b44cd91f28777d73d7c36cdba1df27bb1fd49e1d9e156df79619d7a26d808a)]"

definition between_29 :: "(int \<times> int \<times> int) list" where
  "between_29 =
    [(0x2596e5b3cf5494e60d2a750d03c66abc2e0183af53620b893f9cf9fc3b76dc26, 0x68a0a7ac9a0cc093884a6b84f45a2cde595194e0f48dbd566fa78a3174b182fe, 0x4309c1f8cab82bad7b1ff677f093c2222b501131a12bb1cd300a9035393aa6d8),
     (0x249651cc143249f875c53d5aac9cd3b818989387875c08c7ad104723c7d60d25, 0x28fdf17c15bb6b0c4dd06abd210155b2bdeca64a5f02a6934f00437f05d9c65, 0x5df98d4bad296cb84f17c951257341a3134636dd1e9421a187dfbd1428878f2d),
     (0x555439a0891500e49a25ccc1dc98fb600ad0f84600494322c44315cbf3d59bd, 0x5835c99533f44bcefffd61bc8926af99af9d0f669e428593ec19129bdf55935d, 0x52e085fb2b62fbc0b65b04f06b5d1fe3aeefffe23e3df161bfd4e13f201839a0),
     (0xdec3676055d5dafe7544edd68b7a80cda0443b311638b16a8aad05972aeb417, 0x48fa8dc3a82049989f4cdca7c6545513f02906fbc4c37d5b7457553832827c6d, 0x3b0e574da2c2ebe8b7f88dca5d9cad071624c348b35ff244cbac84debfd3c856)]"

definition points_30 :: "(int \<times> int \<times> int \<times> int \<times> int) list" where
  "points_30 =
    [(0x28bd38d44030dd9ca028b2a2f31a795f4c7a5e85a785df7847e3d525e99d4787, 0x552dd7405c4183733ad3c4e7ccb999b4fed81b7a4444aab499d41d6d78d5bbfc, 0x7deb10149c72610fdafc778abfd413144b5279ffebca8a2ce1b7f29362730383, 0x2c709e6c1c10a5d69aab1244d99f2055b25dbcf49cbecb3c51f048478f387475, 0x8e68e9ff62ce2ea588001380f0be4b566cbec045553cd0ecb62af6a8766ee7a),
     (0xec8fe27a51e6f75d4197b4711b5f17d8fc023224426a7a17d3fdce55f7be126, 0x3de83daf93d8aa7f7675b8df61c07b3c1cf8fe6b81327c3db1ed2cefab3d11d3, 0x4cb13bd738f719f54a8f342673766cb9acb9218dc55923df2f2d09d50ab8f2f9, 0x2f1f3f87eeba3b09a25c3d98500a89be8d38db493d0bd49c34ad500a4bc130ad, 0x19a1e353c0ae2ee8c20d313f3f751b50a59501badb4a9038f7848c75e515b64a),
     (0x190bb443a02d3cd6de2f5e1779b552a0efff52516904ceef9b827eb68d4e5bfd, 0x5a601f556239715dc181f5303a8bb714a3e0f2f22fea2d51189ef417484861c0, 0x736bd3990266ae349fb15347b44109b593e0454398eefc40b42172cdd596bdbd, 0x41546b11c20c3486e3529718c0d66473b3e1a0a0c6e55e617d1c7560bafa05c3, 0x412295a2b87fab5ccc5f5f30425c837546fd114b6081657385532d509334b3b4),
     (0x393fb3d0b216d7a5f48da1dbe2fae37c1863636e599d725b0a4ddb6c768a89e5, 0x4e2107bc674405da517bd3ef9605b5ef6bf72e94c7963a80241776f56c0960ce, 0x760bb8d195add80460975cb7900996b845a92032133acdb2e655261e293eac6, 0x14e153ebb52d2e345cee3213b30ad2735393cb266df8c82519c99b88f57ed6e9, 0x6b34be9bc33ac5f22cbf268f46caccb157156da9ed69a084413e1a17cde6818a),
     (0x30d3831392a57aeefb5ee5a2459e4d493d45a8933070387e8f0e9d00957c9907, 0x50e644a29bc8581ce7dc02008f6002ec89843fb2229e3afb82edcc64cff559b9, 0x1b9c7b62e6dd30be33ae7a2d4fe5035c6c9e845530e737a11fc69656571f2d3, 0x2012c18f0922dd2dec7d1c5e49c1b5a34c3e971ef22e027cf3df2f643a78c0b2, 0x8af5b784e4bade83d36efdfc2e76c1f1483241f45a0a763880b55e55ac89d29),
     (0x18b612324ccfb5f047ad256dc97f916cd76fcb9b9579f9ebdd1f3d7b00d6838c, 0x4b6dafa36309cc7dd128036930b3d3617474f1760d0d1da20553d75788f5a8bf, 0x6423c1d5afd9826e18d528d6fa3364ce4be4bd11a287178de27314d289cc2c4b, 0x32b79d71163a168d897addfb673441f49d0525da779323b6283499dc881f2533, 0x480a5efbc13e2dcce49de338f9e5d3cd22bcc28f3746e5f9cc85f8d9edfcb36a),
     (0x6e847af3ae32676a9cea02217661091b33b24bfe6073c4b1d587b2eca0b600c4, 0x362ea253baea269bc955b28365bbb4e83a6751cdeb917476e0d999f7a2182148, 0x24b31d47691c8e06663fb4a4dc1cbe036e199dcc4c053928b6614ce442ce221f, 0x47aa27600cb7bf312c6bb061ef5aabcd06b505cf8b1dafc50b51e70b01622071, 0x545b585d14dda094f0af66134ea278d611a4fe7e7c693f7c2a541eedc015f8c3),
     (0x1edff13d99073e0e6441de58438feb37c6e1eaa3103197eb7d22deb9216f73e9, 0x2e42eb00cbc19262a6caf1a51809d26674c878d718cd86a9e4e20617c243adf8, 0x4d22dc3e64c8d0710b0ccffd5b99bd9e3baa637a28ff1e956204e4d0e3b321e1, 0xf62f9c332ba54544289134cd479e72eade68e34089beebe67bf275ea0d43a0f, 0x1c0fa01a36371436febac2d2953afa055cae6a3f57cbcf61fcb46589d63b5f39)]"

definition between_30 :: "(int \<times> int \<times> int) list" where
  "between_30 =
    [(0x59233a3346f61135f431f96cf0197e24ad38240b222c010a6ce538cf4c24347b, 0x3cce55908611d2b93f221613f09cfc4dbcd2e2b609233eea5439ad1908a10b20, 0x63ab1b5d3f1bc1834af01ca700837e290f9abeaae6f73ddfe7547449bc7cd692),
     (0x4b82eba78af08da395d2b48bf17f55f984d7991277777e29ec8e3c4afdbfea1a, 0x1437579645925f5d241c94c1c64c55c39f64033ff8234441e00adef63af4282c, 0x48b46beebaa1d1b98e49e035d4ccffca1a8c6a2d80abc617f37ca2ab3d343dff),
     (0x1a2cd99d3d94ed5a186f69c4ebb16fb282a589f9237585a55ba076b96690cdc1, 0x4044babe0b4de497049f1a9e995ac6e6ef0bedd2e822b0f8e037b70673e6b035, 0x2617e120cdb8f73cec2fb0d9ada957346c6663d9c4ad2b538497404d0d55e274),
     (0x24497c51a639670f653076aa14ee826a4241d6b20a89886f54bb1f5f919656c1, 0x3b80f82901f17808a3d7a986367410548092cb5120db4670d3750f11d178a335, 0x17377bd75bb810f93ea732dc21858dea3e50f49f1651be017eb9efb23fe24c74)]"

definition points_31 :: "(int \<times> int \<times> int \<times> int \<times> int) list" where
  "points_31 =
    [(0x5830f025f1078d408948f73096af97de1e9e70b3be85890acb21132c34ff961f, 0x67d451752c2433ffe66e47242e301e56db2b2f8203553cab9de717e25793d41e, 0x4005419b1d2bc1406fb73e54c4dfb634f9c9a035c1dac5b669082b0e8c936a50, 0xfa3614f3b1ca6bf5d254ff397808678bc8cbece44cfb3a0d2c604b622943dff, 0x1fba218aef40ab42f8499f911954fa8e2089c1af3a44ac90a003febdb9be82f0),
     (0x19929124ab5779c9a99e2d1716d8c07813132b29c69a3c1ed1f4e15da1d9062b, 0x52c0cbef541fe80c1e9b999483041e79950a13c4424073607d4975a69ca1fb69, 0x6c535d13ff7761d5c839c6ab99dcdef1a81d3eee08daaf7f4f3e57043e7b0194, 0x392e3acaa8c86e4274fd6c7d6c2b5e0181f6e89a7ba63741ab549448fac8f53e, 0x25e17fe4d50ac13b19319c76f29ab0ab2e0781445887e8164cbd34e93e8a35af),
     (0x633198a5af64eb253d99ab970c5962bdd15e0aea2cc5bc27439b720f2c76158f, 0x888e9e9da049e768f20844740c28268f1ec273d0307cbbc4dc40de64a7b0c18, 0x6bba828f8969899bccba2fde4d1be526c34a32272fcd87e3915f7ff576f121a7, 0x255751442a9fb3515186d8b034691fab208e1c52d6420f950a289bd71e04f676, 0x559d504f7f6b7be4971d6914af8460d44cb54a18a0997ad5e2d1bc6690fe3901),
     (0x849c9e6da66d17bbf08dfdd339cf0c074ed671a2ed91dcf7a6a8737a1738914, 0x9f4dcbc5ae50392c92faf402cc4f17a92573a80d42e5a4c21de0ab0555edde9, 0x123ea6a3354bd50e88388f1d6061e23b0744a19b0307781b9c4891e7f6d266fd, 0x1ab12d5807e32170a26cf62f92800ba1d69d366a5553c7ca7738378b3eb54d5, 0x4a3961e2c918a1541eab4271d83245d9b9ede3c2d8315848118d189041e32d96),
     (0x1deb18e4d05b2cdded11b25b88d03907396596ecdafe8685c8a5cd31fd1e41bf, 0x4ac1d5c8cb78e44196a3f4bb6a0a807210348f2159fe69903a820912f604fd5f, 0x68aceead9bd4111f83b5a716f2dab979499a260e34fcf0160327d644f3233f1e, 0x2cd6bce3fb1db763a992425fe13a476ad6cef8347effe30a71dc3be0f8e6bba0, 0x595760d5b508f5973860d9f1b7e73e23308e6e24b7ad040c38b4c90ef3d7c210),
     (0x1e0990d03bcf64411334692cffd1efcdfd0c997e8fb4ad4a938086057c2be1f3, 0xea9350f1881f5ea52c029b67d6284268ca29987345caa15f4aa45e680d6459d, 0x2cb2c5df54515a2b65f492e37d3473f489af3305c4115760882acbebfd022790, 0x709fa43edcb291a93f8bc0897d9094588f960008a4a7fccb6129bfe104aa6397, 0x70f029ecf0c8131f2723f36ef8cbb03ad22bc1662e694effeb0a5d8c63fd2aca),
     (0x1cb7a40c1d8d48c456fd58d2486de95c65763a1ea5574c60f22bd3fb9791b943, 0x2835019689be911d2041a2a561ccecc3137a695249acce48383edbaec67ef776, 0x44eca5a2a74bd9e1773efb77aa3ad61f78f0a370ef041aa92a6aafaa5e10b0b9, 0xb7d5d8a6c314858c94449d3195f0366ae042f33a45581e7461307b32eed3e33, 0x272224512c7de9e4de1c531c60e1c52b70d38300a3340f1d25d448327b95d543),
     (0x3dec05fa937adb1796e9d70e892ae0f4636b0b2f1e35444525f946d7c7220e7, 0x15949f784d8472f5691129fee55afc39462588c4a4ca4f146d1c271cc6375515, 0x19735fd7f6bc20a6e27fc76fcdedaa488c5c397796ada358bf7bbb8a42a975fc, 0x11b5df18a44cc543efa28c8dfcc84e29ffeed811b2e6fad01abc92af49c5342e, 0xfef911191df895f2503a1d065a497b9eb848e0f7f19547ee3ab90d042c84266)]"

definition between_31 :: "(int \<times> int \<times> int) list" where
  "between_31 =
    [(0x6a0c8b194571e874b82d904da36d43096bbe36d512e24ff8dcb2b00b57ffd3ec, 0x5f85adb7749cc735ec838bcccfe7d4b52902c6132998d7ac8e032cad031c42b8, 0x7579229e2f2adec13455fb7f2c7a91abbd448f3e16b687b3b1507ca1ab1c6eb9),
     (0x3491b2f25603bb1a9841e6e62596cbb7310333ff29b1b84f5a68694556e18478, 0x988beda393eb3e3e57bf5875980dcbeaa11f81cd365bab3396b62a466f76c2c, 0x54f70be7e33af8c94d3a0ea133ea1107790ec41da9b40263df02f95f1015e7a1),
     (0x55f070d6c15fb0d96c033b175f5e2c810ede0fb19fb128f251037f7cf4e861d, 0x511144a03a99b8559991e1b02adb476f022f82391bad83787c52af2c97473e69, 0x4bb23d92ce83bd4802d1adfeb4e564a6f141a13e01b270e957427734c7f8b84c),
     (0x11f540171499d7d1ddade06b6b7b5664e1a039172961513beeebb3837cfadf6c, 0x418b827fe0251682fd2c6901eb4b82a2ee53e97009ae688e8cbda81ca4944b6e, 0x2f964268cb8b3eb11f7e88967fd02c3e0cb3b058e04d17529dd1f49927996c02)]"

section \<open>Rows\<close>

lemma row_ok_0: "row_ok points_0 between_0 (start_of points_1)"
  by (simp only: points_0_def between_0_def points_1_def start_of.simps row_ok.simps row_rules)

lemma row_0: "row_fact base_0 points_0 (start_of points_1)"
  unfolding base_0_def by (rule row_represents [OF row_ok_0]) code_simp

lemma row_ok_1: "row_ok points_1 between_1 (start_of points_2)"
  by (simp only: points_1_def between_1_def points_2_def start_of.simps row_ok.simps row_rules)

lemma row_1: "row_fact base_1 points_1 (start_of points_2)"
  unfolding base_1_def by (rule row_represents [OF row_ok_1]) code_simp

lemma row_ok_2: "row_ok points_2 between_2 (start_of points_3)"
  by (simp only: points_2_def between_2_def points_3_def start_of.simps row_ok.simps row_rules)

lemma row_2: "row_fact base_2 points_2 (start_of points_3)"
  unfolding base_2_def by (rule row_represents [OF row_ok_2]) code_simp

lemma row_ok_3: "row_ok points_3 between_3 (start_of points_4)"
  by (simp only: points_3_def between_3_def points_4_def start_of.simps row_ok.simps row_rules)

lemma row_3: "row_fact base_3 points_3 (start_of points_4)"
  unfolding base_3_def by (rule row_represents [OF row_ok_3]) code_simp

lemma row_ok_4: "row_ok points_4 between_4 (start_of points_5)"
  by (simp only: points_4_def between_4_def points_5_def start_of.simps row_ok.simps row_rules)

lemma row_4: "row_fact base_4 points_4 (start_of points_5)"
  unfolding base_4_def by (rule row_represents [OF row_ok_4]) code_simp

lemma row_ok_5: "row_ok points_5 between_5 (start_of points_6)"
  by (simp only: points_5_def between_5_def points_6_def start_of.simps row_ok.simps row_rules)

lemma row_5: "row_fact base_5 points_5 (start_of points_6)"
  unfolding base_5_def by (rule row_represents [OF row_ok_5]) code_simp

lemma row_ok_6: "row_ok points_6 between_6 (start_of points_7)"
  by (simp only: points_6_def between_6_def points_7_def start_of.simps row_ok.simps row_rules)

lemma row_6: "row_fact base_6 points_6 (start_of points_7)"
  unfolding base_6_def by (rule row_represents [OF row_ok_6]) code_simp

lemma row_ok_7: "row_ok points_7 between_7 (start_of points_8)"
  by (simp only: points_7_def between_7_def points_8_def start_of.simps row_ok.simps row_rules)

lemma row_7: "row_fact base_7 points_7 (start_of points_8)"
  unfolding base_7_def by (rule row_represents [OF row_ok_7]) code_simp

lemma row_ok_8: "row_ok points_8 between_8 (start_of points_9)"
  by (simp only: points_8_def between_8_def points_9_def start_of.simps row_ok.simps row_rules)

lemma row_8: "row_fact base_8 points_8 (start_of points_9)"
  unfolding base_8_def by (rule row_represents [OF row_ok_8]) code_simp

lemma row_ok_9: "row_ok points_9 between_9 (start_of points_10)"
  by (simp only: points_9_def between_9_def points_10_def start_of.simps row_ok.simps row_rules)

lemma row_9: "row_fact base_9 points_9 (start_of points_10)"
  unfolding base_9_def by (rule row_represents [OF row_ok_9]) code_simp

lemma row_ok_10: "row_ok points_10 between_10 (start_of points_11)"
  by (simp only: points_10_def between_10_def points_11_def start_of.simps row_ok.simps row_rules)

lemma row_10: "row_fact base_10 points_10 (start_of points_11)"
  unfolding base_10_def by (rule row_represents [OF row_ok_10]) code_simp

lemma row_ok_11: "row_ok points_11 between_11 (start_of points_12)"
  by (simp only: points_11_def between_11_def points_12_def start_of.simps row_ok.simps row_rules)

lemma row_11: "row_fact base_11 points_11 (start_of points_12)"
  unfolding base_11_def by (rule row_represents [OF row_ok_11]) code_simp

lemma row_ok_12: "row_ok points_12 between_12 (start_of points_13)"
  by (simp only: points_12_def between_12_def points_13_def start_of.simps row_ok.simps row_rules)

lemma row_12: "row_fact base_12 points_12 (start_of points_13)"
  unfolding base_12_def by (rule row_represents [OF row_ok_12]) code_simp

lemma row_ok_13: "row_ok points_13 between_13 (start_of points_14)"
  by (simp only: points_13_def between_13_def points_14_def start_of.simps row_ok.simps row_rules)

lemma row_13: "row_fact base_13 points_13 (start_of points_14)"
  unfolding base_13_def by (rule row_represents [OF row_ok_13]) code_simp

lemma row_ok_14: "row_ok points_14 between_14 (start_of points_15)"
  by (simp only: points_14_def between_14_def points_15_def start_of.simps row_ok.simps row_rules)

lemma row_14: "row_fact base_14 points_14 (start_of points_15)"
  unfolding base_14_def by (rule row_represents [OF row_ok_14]) code_simp

lemma row_ok_15: "row_ok points_15 between_15 (start_of points_16)"
  by (simp only: points_15_def between_15_def points_16_def start_of.simps row_ok.simps row_rules)

lemma row_15: "row_fact base_15 points_15 (start_of points_16)"
  unfolding base_15_def by (rule row_represents [OF row_ok_15]) code_simp

lemma row_ok_16: "row_ok points_16 between_16 (start_of points_17)"
  by (simp only: points_16_def between_16_def points_17_def start_of.simps row_ok.simps row_rules)

lemma row_16: "row_fact base_16 points_16 (start_of points_17)"
  unfolding base_16_def by (rule row_represents [OF row_ok_16]) code_simp

lemma row_ok_17: "row_ok points_17 between_17 (start_of points_18)"
  by (simp only: points_17_def between_17_def points_18_def start_of.simps row_ok.simps row_rules)

lemma row_17: "row_fact base_17 points_17 (start_of points_18)"
  unfolding base_17_def by (rule row_represents [OF row_ok_17]) code_simp

lemma row_ok_18: "row_ok points_18 between_18 (start_of points_19)"
  by (simp only: points_18_def between_18_def points_19_def start_of.simps row_ok.simps row_rules)

lemma row_18: "row_fact base_18 points_18 (start_of points_19)"
  unfolding base_18_def by (rule row_represents [OF row_ok_18]) code_simp

lemma row_ok_19: "row_ok points_19 between_19 (start_of points_20)"
  by (simp only: points_19_def between_19_def points_20_def start_of.simps row_ok.simps row_rules)

lemma row_19: "row_fact base_19 points_19 (start_of points_20)"
  unfolding base_19_def by (rule row_represents [OF row_ok_19]) code_simp

lemma row_ok_20: "row_ok points_20 between_20 (start_of points_21)"
  by (simp only: points_20_def between_20_def points_21_def start_of.simps row_ok.simps row_rules)

lemma row_20: "row_fact base_20 points_20 (start_of points_21)"
  unfolding base_20_def by (rule row_represents [OF row_ok_20]) code_simp

lemma row_ok_21: "row_ok points_21 between_21 (start_of points_22)"
  by (simp only: points_21_def between_21_def points_22_def start_of.simps row_ok.simps row_rules)

lemma row_21: "row_fact base_21 points_21 (start_of points_22)"
  unfolding base_21_def by (rule row_represents [OF row_ok_21]) code_simp

lemma row_ok_22: "row_ok points_22 between_22 (start_of points_23)"
  by (simp only: points_22_def between_22_def points_23_def start_of.simps row_ok.simps row_rules)

lemma row_22: "row_fact base_22 points_22 (start_of points_23)"
  unfolding base_22_def by (rule row_represents [OF row_ok_22]) code_simp

lemma row_ok_23: "row_ok points_23 between_23 (start_of points_24)"
  by (simp only: points_23_def between_23_def points_24_def start_of.simps row_ok.simps row_rules)

lemma row_23: "row_fact base_23 points_23 (start_of points_24)"
  unfolding base_23_def by (rule row_represents [OF row_ok_23]) code_simp

lemma row_ok_24: "row_ok points_24 between_24 (start_of points_25)"
  by (simp only: points_24_def between_24_def points_25_def start_of.simps row_ok.simps row_rules)

lemma row_24: "row_fact base_24 points_24 (start_of points_25)"
  unfolding base_24_def by (rule row_represents [OF row_ok_24]) code_simp

lemma row_ok_25: "row_ok points_25 between_25 (start_of points_26)"
  by (simp only: points_25_def between_25_def points_26_def start_of.simps row_ok.simps row_rules)

lemma row_25: "row_fact base_25 points_25 (start_of points_26)"
  unfolding base_25_def by (rule row_represents [OF row_ok_25]) code_simp

lemma row_ok_26: "row_ok points_26 between_26 (start_of points_27)"
  by (simp only: points_26_def between_26_def points_27_def start_of.simps row_ok.simps row_rules)

lemma row_26: "row_fact base_26 points_26 (start_of points_27)"
  unfolding base_26_def by (rule row_represents [OF row_ok_26]) code_simp

lemma row_ok_27: "row_ok points_27 between_27 (start_of points_28)"
  by (simp only: points_27_def between_27_def points_28_def start_of.simps row_ok.simps row_rules)

lemma row_27: "row_fact base_27 points_27 (start_of points_28)"
  unfolding base_27_def by (rule row_represents [OF row_ok_27]) code_simp

lemma row_ok_28: "row_ok points_28 between_28 (start_of points_29)"
  by (simp only: points_28_def between_28_def points_29_def start_of.simps row_ok.simps row_rules)

lemma row_28: "row_fact base_28 points_28 (start_of points_29)"
  unfolding base_28_def by (rule row_represents [OF row_ok_28]) code_simp

lemma row_ok_29: "row_ok points_29 between_29 (start_of points_30)"
  by (simp only: points_29_def between_29_def points_30_def start_of.simps row_ok.simps row_rules)

lemma row_29: "row_fact base_29 points_29 (start_of points_30)"
  unfolding base_29_def by (rule row_represents [OF row_ok_29]) code_simp

lemma row_ok_30: "row_ok points_30 between_30 (start_of points_31)"
  by (simp only: points_30_def between_30_def points_31_def start_of.simps row_ok.simps row_rules)

lemma row_30: "row_fact base_30 points_30 (start_of points_31)"
  unfolding base_30_def by (rule row_represents [OF row_ok_30]) code_simp

lemma row_ok_31: "row_ok points_31 between_31 (0x53b3f967bff8760948dec5e9282f35d1434a5503790b9012e17faefbe7c4d699, 0x404462283c8664a17daa5b4059dcd10e2699fd86d0140de9f3e8ad0566098ae5)"
  by (simp only: points_31_def between_31_def start_of.simps row_ok.simps row_rules)

lemma row_31: "row_fact base_31 points_31 (0x53b3f967bff8760948dec5e9282f35d1434a5503790b9012e17faefbe7c4d699, 0x404462283c8664a17daa5b4059dcd10e2699fd86d0140de9f3e8ad0566098ae5)"
  unfolding base_31_def by (rule row_represents [OF row_ok_31]) code_simp

definition all_points :: "(int \<times> int \<times> int \<times> int \<times> int) list list" where
  "all_points = [points_0, points_1, points_2, points_3, points_4, points_5, points_6, points_7, points_8, points_9, points_10, points_11, points_12, points_13, points_14, points_15, points_16, points_17, points_18, points_19, points_20, points_21, points_22, points_23, points_24, points_25, points_26, points_27, points_28, points_29, points_30, points_31]"

lemma rows_chained: "chained base all_points (0x53b3f967bff8760948dec5e9282f35d1434a5503790b9012e17faefbe7c4d699, 0x404462283c8664a17daa5b4059dcd10e2699fd86d0140de9f3e8ad0566098ae5)"
  by (simp only: base_def all_points_def chained.simps list.case simp_thms row_0 row_1 row_2 row_3 row_4 row_5 row_6 row_7 row_8 row_9 row_10 row_11 row_12 row_13 row_14 row_15 row_16 row_17 row_18 row_19 row_20 row_21 row_22 row_23 row_24 row_25 row_26 row_27 row_28 row_29 row_30 row_31)

lemma all_points_nth:
  "all_points ! 0 = points_0"
  "all_points ! 1 = points_1"
  "all_points ! 2 = points_2"
  "all_points ! 3 = points_3"
  "all_points ! 4 = points_4"
  "all_points ! 5 = points_5"
  "all_points ! 6 = points_6"
  "all_points ! 7 = points_7"
  "all_points ! 8 = points_8"
  "all_points ! 9 = points_9"
  "all_points ! 10 = points_10"
  "all_points ! 11 = points_11"
  "all_points ! 12 = points_12"
  "all_points ! 13 = points_13"
  "all_points ! 14 = points_14"
  "all_points ! 15 = points_15"
  "all_points ! 16 = points_16"
  "all_points ! 17 = points_17"
  "all_points ! 18 = points_18"
  "all_points ! 19 = points_19"
  "all_points ! 20 = points_20"
  "all_points ! 21 = points_21"
  "all_points ! 22 = points_22"
  "all_points ! 23 = points_23"
  "all_points ! 24 = points_24"
  "all_points ! 25 = points_25"
  "all_points ! 26 = points_26"
  "all_points ! 27 = points_27"
  "all_points ! 28 = points_28"
  "all_points ! 29 = points_29"
  "all_points ! 30 = points_30"
  "all_points ! 31 = points_31"
  by (simp_all add: all_points_def)

section \<open>The base point\<close>

definition base_x :: int where
  "base_x = 0x216936d3cd6e53fec0a4e231fdd6dc5c692cc7609525a7b2c9562d608f25d51a"

definition base_y :: int where
  "base_y = 0x6666666666666666666666666666666666666666666666666666666666666658"

definition base_point :: ed where
  "base_point = ed_of (of_int base_x, of_int base_y)"

text \<open>On the curve \<open>121666 (y\<^sup>2 - x\<^sup>2 - 1) + 121665 x\<^sup>2 y\<^sup>2 = 0\<close>.\<close>

lemma base_on_curve: "on_curve (of_int base_x) (of_int base_y)"
proof -
  have "eqm (hadd (hmul (hexi 121666) (mm (hexi base_y) (hexi base_y))) (hmul (hexi 121665) (mm (mm (hexi base_x) (hexi base_x)) (mm (hexi base_y) (hexi base_y)))))
      (hadd (hmul (hexi 121666) (mm (hexi base_x) (hexi base_x))) (hexi 121666))"
    by (simp only: base_x_def base_y_def field_rules)
  from eqm_sound [OF this] have e: "121666 * (of_int base_y * of_int base_y) + 121665 * (of_int base_x * of_int base_x * (of_int base_y * of_int base_y)) =
      121666 * (of_int base_x * of_int base_x) + (121666 :: gf)"
    by (simp add: fv_simps fv_hmul base_x_def base_y_def del: of_int_numeral) (simp add: fv_def)
  define x y where "x = (of_int base_x :: gf)" and "y = (of_int base_y :: gf)"
  have "121666 * (- (x * x) + y * y) = 121666 - 121665 * (x * x * (y * y))"
    using e unfolding x_def [symmetric] y_def [symmetric] by algebra
  also have "\<dots> = 121666 + - 121665 * (x * x * (y * y))" by simp
  also have "\<dots> = 121666 * (1 + gf_d * (x * x) * (y * y))" unfolding curve_d_eq [symmetric] by algebra
  finally have "121666 * (- (x * x) + y * y) = 121666 * (1 + gf_d * (x * x) * (y * y))" .
  then show ?thesis unfolding on_curve_def x_def [symmetric] y_def [symmetric] using gf_121666_nonzero by (metis mult_left_cancel)
qed

lemma coords_base: "coords base_point = (of_int base_x, of_int base_y)"
  unfolding base_point_def by (rule ed_of_inverse) (simp add: curve_point_def base_on_curve)

lemma base_starts: "row_starts base_point (start_of points_0)"
proof -
  have "start_of points_0 = (base_x, base_y)" by (simp add: points_0_def base_x_def base_y_def)
  then show ?thesis by (simp add: row_starts_def isp_def coords_base fv_hexi base_x_def base_y_def)
qed

text \<open>Row \<open>i\<close> of the table holds \<open>256\<^sup>i B\<close>, ..., \<open>8 * 256\<^sup>i B\<close>.\<close>

lemma base_rows: "i < 32 \<Longrightarrow> row_entries (all_points ! i) (smul (256 ^ i) base_point) \<and> row_reps (base ! i) (smul (256 ^ i) base_point)"
  by (rule chained_rows [OF rows_chained]) (simp_all add: base_starts all_points_def)

definition Bi_double :: "int \<times> int \<times> int" where
  "Bi_double = (0x36ab384c9f5a046c3d043b7d1833e7ac080d8e4515d7a45f83c5a14e2843ce0e, 0x2260cdf3092329c21da25ee8c9a21f5697390f51643851560e5f46ae6af8a3c9, 0x6bb595a669c92555e09e236bb16e37aa8f2b810c4e60acf68a99a56042b4d5a8)"

definition Bi_points :: "(int \<times> int \<times> int \<times> int \<times> int) list" where
  "Bi_points =
    [(0x216936d3cd6e53fec0a4e231fdd6dc5c692cc7609525a7b2c9562d608f25d51a, 0x6666666666666666666666666666666666666666666666666666666666666658, 0x7cf9d3a33d4ba65270b4898643d42c2cf932dc6fb8c0e192fbc93c6f58c3b85, 0x44fd2f9298f81267a5c18434688f8a09fd399f05d140beb39d103905d740913e, 0x6f117b689f0c65a85a1b7dcbdd43598c26d9e823ccaac49eabc91205877aaa68),
     (0x67ae9c4a22928f491ff4ae743edac83a6343981981624886ac62485fd3f8e25c, 0x1267b1d177ee69aba126a18e60269ef79f16ec176724030402c3684878f5b4d4, 0x7a164e1b9a80f8f4c11b50029f016732025a8430e8864b8aaf25b0a84cee9730, 0x2ab91587555bda628131f31a214bd6bd3bd353fde5c1ba7d56611fe8a4fcd265, 0x5a2826af12b9b4c6d170e5458cf2db4c589423221c35da6214ae933f0dd0d889),
     (0x49fda73eade3587bfcef7cf7d12da5de5c2819f93e1be1a591409cc0322ef233, 0x5f4825b298feae6fe02c6e148992466631282eca89430b5d10d21f83d676c8ed, 0x2945ccf146e206ebdd1beb0c5abfec448d5048c3c75eed02a212bc4408a5bb33, 0x154a7e73eb1b55f3e33cf11cb864a087d50014d14b2729b77f9182c3a447d6ba, 0x43aabe696b3bb69ab41b670b1bbda72d270e0807d0bdd1fcbcbbdbf1812a8285),
     (0x14568685fcf4bd4ee9e3ee194b1d810783e809f3bbf1ce955855981af50e4107, 0x31c563e32b47d52f87ce6468dd36ad41f0882b46f7abf23d12c4c4b59f4062b8, 0x461bea69283c927e71b2528228542e497470353ab39dc0d26b1a5cd0944ea3bf, 0x1d6edd5d2e5317e09dea764f92192c3a6ca021533bba23a7ba6f2c9aaa3221b1, 0x7a9fbb1c6a0f90a7529c41ba5877adf3b3035f47053ea49af1836dc801b8b3a2),
     (0x357cc970c80071651bf336e06f9422b886d80e5c2e4e0294d3e023065185715c, 0x7f3d23c2c2dd0df4b2befce956f2d2fd1f789013236e4430c74e44845522f1c0, 0x34b9ed338add7f59ceb233c9c686f5b5a6509e6f51bc46c59b2e678aa6a8632f, 0x49c05a51fadc9c8f96cbc608e75eb04498a081b6f520419bf36e217e039d8064, 0x73c172021b008b06aaf6fc2993d4cf16e2ff83e8a719d22f06b4e8bf9045af1b),
     (0x14e528b1154be417b6cf078dd6712438d381a5b2c593d552ff2fd2c1207cf3cb, 0x2d9082313f21ab975a6f7ce340ff0fce1258591c3c9c58d4308f2dc36a033713, 0x4275aae2546d8faf113e847117703406e5d9fecf02302e272fbf00848a802ade, 0x18ab598029d5c77fa3a075556a8deb953ed6b36977088381315f5b0249864348, 0x3dc65522b53df94844311199b51a8622031eb4a13282e4a4d82b2cc5fd6089e9),
     (0x107427e0d5f366ccdb33adf0282d304f8843e3e88d22b7b83780e073b7c05fed, 0x12dbb00ded538b7478466022d2da89b83740cfb2289a272387efe1aeea401f80, 0x234fd7eec346f241537a0e12fb07ba07bf84b39ab5bcdedbbf70c222a2007f6d, 0x267882d176024a79d12b232aaad5968aefcebc99b776f6b506f013b327fbf93, 0x497ba6fdaa097863a2ef37f891a7e5332437e6b1df8dd4715360a119732ea378),
     (0x4f162deaec2ec435dc5ac6f95d20419ed9631374770189cb90617f3e66a18dc1, 0x12cbfb2d04ff22f55162f70164d29331ace5af18a19a9aa1946d4cc4ad2e5cdf, 0x61e22917f12de72b2dbdbdfac1f2d4d08648c28d189c246d24cecc0313cfeaa0, 0x43b5cd4218d05ebf7508300807b25192d3829ba42a9910d6040bcd86468ccf0b, 0x511d61210ae4d842032e5a7d93d64270eb38af4e373fdeee5d9a762f9bd0b516)]"

lemma Bi_ok: "odd_ok Bi_points Bi_double"
  by (simp only: Bi_points_def Bi_double_def odd_ok.simps row_rules)

text \<open>\<open>Bi\<close> holds \<open>B\<close>, \<open>3 B\<close>, ..., \<open>15 B\<close>.\<close>

lemma Bi_reps: "list_all2 (\<lambda>k q. rep_precomp q (coords (smul k base_point))) [1, 3, 5, 7, 9, 11, 13, 15] Bi"
  unfolding Bi_def
proof (rule odd_represents [OF Bi_ok])
  have "start_of Bi_points = start_of points_0" by (simp add: Bi_points_def points_0_def)
  then show "row_starts base_point (start_of Bi_points)" using base_starts by simp
qed code_simp

section \<open>The order of the base point\<close>

text \<open>The entry \<open>(j + 1) 256\<^sup>k B\<close>.\<close>

definition ent :: "nat \<times> nat \<Rightarrow> entry5" where
  "ent = (\<lambda>(k, j). hexi5 (all_points ! k ! j))"

definition ent_mult :: "nat \<times> nat \<Rightarrow> int" where
  "ent_mult = (\<lambda>(k, j). (int j + 1) * 256 ^ k)"

lemma ent_point:
  assumes "k < 32" and "j < 8"
  shows "entry_point (smul (ent_mult (k, j)) base_point) (ent (k, j)) \<and> uv_entry (ent (k, j)) \<and> w_entry (ent (k, j))"
proof -
  have "row_entries (all_points ! k) (smul (256 ^ k) base_point)" using base_rows [OF assms(1)] by blast
  from list_all2_nthD [OF this [unfolded row_entries_def], of j] assms(2)
  have "entry_point (smul ([1, 2, 3, 4, 5, 6, 7, 8] ! j) (smul (256 ^ k) base_point)) (ent (k, j)) \<and> uv_entry (ent (k, j)) \<and> w_entry (ent (k, j))"
    by (simp add: ent_def)
  moreover have "[1, 2, 3, 4, 5, 6, 7, 8] ! j = int j + 1" using assms(2) by (auto simp: less_Suc_eq eval_nat_numeral)
  ultimately show ?thesis by (simp add: ent_mult_def smul_smul)
qed

definition ent_sums :: "(nat \<times> nat) list \<Rightarrow> (int \<times> int \<times> int) list \<Rightarrow> (entry5 \<times> (int \<times> int \<times> int)) list" where
  "ent_sums ks ns = map2 (\<lambda>k n. (ent k, n)) ks ns"

lemma ent_sums_point:
  assumes "sum_chain a (ent_sums ks ns)" and "entry_point (smul m base_point) a" and "uv_entry a"
    and "list_all (\<lambda>(k, j). k < 32 \<and> j < 8) ks" and "length ks = length ns"
  shows "entry_point (smul (m + sum_list (map ent_mult ks)) base_point) (last (a # map hexi3 ns)) \<and> uv_entry (last (a # map hexi3 ns))"
proof -
  have all: "list_all2 (\<lambda>(t, n) P. entry_point P t \<and> uv_entry t \<and> w_entry t) (ent_sums ks ns) (map (\<lambda>k. smul (ent_mult k) base_point) ks)"
    using assms(4,5) ent_point by (auto simp: list_all2_conv_all_nth ent_sums_def list_all_length split: prod.splits) (metis prod.collapse)+
  have s: "sum_list (map (\<lambda>k. smul (ent_mult k) base_point) ks) = smul (sum_list (map ent_mult ks)) base_point"
    by (induction ks) (simp_all add: smul_add)
  have l: "map (\<lambda>(t, n). hexi3 n) (ent_sums ks ns) = map hexi3 ns"
    using assms(5) by (auto simp: ent_sums_def intro!: nth_equalityI)
  show ?thesis using sum_chain_sound [OF assms(1-3) all] by (simp only: s l smul_add)
qed

text \<open>The digits of \<open>l - 2\<^sup>2\<^sup>5\<^sup>2\<close> at odd places, four doublings, the digits at even places, and twice \<open>2\<^sup>2\<^sup>5\<^sup>1\<close>.\<close>

definition odd_digits :: "(nat \<times> nat) list" where
  "odd_digits = [(0, 5), (1, 7), (1, 4), (2, 7), (2, 6), (3, 4), (4, 0), (5, 5), (6, 0), (7, 4), (8, 7), (8, 4), (9, 7), (9, 0), (10, 7), (10, 6), (11, 7), (11, 1), (12, 7), (12, 4), (13, 7), (13, 6), (14, 7), (14, 4), (15, 0)]"

definition odd_sums :: "(int \<times> int \<times> int) list" where
  "odd_sums =
    [(0x205f3b42f5884aaf048c7a895ccabb15d8dee6d83e39832aa38e7353b58515b9, 0x4e50256f50c4cb8115bad17acbb702bfa74898e819b6265c8369fd98899c2839, 0x2df0ea2c5b3c80d2112e56f16eec47a9ce69b20fdb7ca331dfdb8a44d4171280),
     (0x5ed623a8d2d9f2fbe8174062b65c39b6766a4a25610cbeaec721c9e9213fb4e2, 0x14dff3e401b52dbac69f31d9d5120415fa9f14f2c8dcef3aaf08801277744d5f, 0x3609d03b2edb3abede87f1771eb5ca5f8434cacd67d0308be7e6b6295634986a),
     (0x1774fc9e0b2aa5d52cc8a5d8ba2a4dc29d9a4e801c9aa61f5c425d0ad30b1390, 0x73ad36819a4f57c9aa29de6daa292fc75240c71b40e01aab9ee921db3cd7375d, 0x5c3839e38f24b1f47d613894effee204b4a6789b2445748c42a6c4d069cc23cd),
     (0x15419a7e1bb6cadf3f008f753f1174808628f933e1f76b2219f0c24c9028979e, 0x30fc92e42c5c00e4bf67275c6b24dc4aa63b562a4c48c17072a7127b116b3650, 0x1bbaf86610a53605806697e72c1367ca20125cf66a51564e58b6502e81429eb2),
     (0x37e12efe90de9baa1766dd1bab173a06b4066d5547ad2e9decf58dabcce04cfb, 0x7a06b741f840fe4eef53c4096a1f5cedf8d830afddb40bfab07c46b3b6125639, 0x42258843676262a4d7ece6edbf0822e744d1c35a9606dd5cc386b907e932093e),
     (0x5eb9a4a31ee3c8ec6a9f78d8e312885de0a625a775a18851294e32e921ab0af9, 0x736b206a8b8d83923c55b17f2ac02be536cda42a6adc156ac376612dd0cb6b39, 0x14b17bc76ca9baa5d1b638a647ada38756277e82f53a8d199a282e44af206040),
     (0x74cd8ad563dc4cbaff66044f96d7b6b0a0b28178a62439e153498157d0117d00, 0x45238db2a79b2167849e80674415ad81a6b5d745cddc5cb0dd33b274e2502c73, 0x505602dd43bed4ac85387c17ad3df6d1060355cd27b822cf89ea311d123eaf60),
     (0x4983c51c94aba296553f72ed5a172e11fa0731d608622500ba6a48d52f6ae42b, 0x6ff992473bcc6e65f0318004453078ee2e66a03d9a1a7af7e1bb68b69c22528e, 0x2675cd2aa720cbcf9af20d16eb194adc345f6e6791b855f727511fe16cb76e63),
     (0xfc6f7c82b39633b704150192195479a59a46daa4b3ad61f05c1ecf46d40587a, 0x879029b031124ff0dfe6e4aef6613ad3108e8f96088868a2cd30f4496ea03d3, 0x78b20ad2d7d7c1c39dbd1e31cdd0cc12d7647b4f154db06b2711225029a9ab46),
     (0x673f8d1a75c4afbb5d021218c62a8b1b9e465a6776608fe60f9003e412e4bbcc, 0x3037496bcae2f2e9052c10f9d55a8268bc6c80e9ed5f386806f3925cd7448f87, 0x48f7bc51551e432da829fee10f2ff74d1e26268276fea881f7638e78c45fd3a8),
     (0x5c65ba2757978eeaf250d6d4655ac7ad6506ab23f7059a4cbed0eed918027d7e, 0x2636dc81a4ec0f9b6f55ba853bbb28a3ccd0c9270fef573b532f0c6a402b24cc, 0x49d1225a4d5480b07d04e3b0d66060f667ca1e0318e9bcee945e1d912828a73b),
     (0xdcfca40e16a945d0a89c5eedae241cb5c3c0be1dab50ca76e3969b7579dad63, 0x282e11080e8753c4b763f69efec3c090bd552615b3ab6c73c1a44dfad114d670, 0x1a5e46c72d1cbf67acda30b023e17ec561191a33d8f65fcc536ae4437977290d),
     (0x79199642450a9bfe5382232ea9c83ac5565e67cc03b514105a3e041e1cfbc0c9, 0x7fffa4c90a584e5da7f91963d36edd9475ad9bd2ed93c6b21a83b92fd4c8bd2e, 0x6e60e86c54db25f5476f63529a6a2cf1f4f3406e9deb2a1c045b511b7ccfc65),
     (0x71dbc817672bb0f6054ce05fa80f9e384b79f0996c71792334f5afe10ff33ac6, 0x43e9a864c7d34a1269dd6bb9d0ad7a20baf64c0a2683be295c0df567bbfa4953, 0x520de04d60a7991c64908b5a289ddbe86f7c5b70ba12450627184586ac070e7a),
     (0x2164227b9d2e79ab72df901bdccb672c1524202dad837687f2f6bf1506318d8, 0x9625f657b2e313f5c409f28ebe84d501b483fb5159d081426875c95ae01b0bf, 0x74c1d3dc15b49a4a512a6272e1b96dd59f5fdb23ac4d0aba757f0a45d9e97e7),
     (0x15980006d8568f694068fc4f504fe7b00328a4da0bfc4ff85d9014eed325b94a, 0x7cdc8630d6c082edff4547f1bd3905f74462ba1acec6a4e675d66dea70ab1af1, 0x67448629fe69f384bedc4ba26ce91e47413a1540c2ca54ee184658fb9d8561a7),
     (0x3c58dbb27b535a9bc8833bfc162fc546ffcafebd54fa1af72348d06773d6733e, 0x3ded44e9009f3c8aaabdf4919dc76c04cf3dddc08436786b211f918e83515223, 0x1946936854be1eee23ab8958797a6bdcf72df032f3c5d73fdd6c1270f7adee5),
     (0x5e9ef43271e4f24033f9f590b76e6b6c3779ed0744936c230b16499cd8b78845, 0x711f17ec3b0dc0f39a6b1e01783f5bbc78c86b5d98a71703686254de065bd66, 0x2872fd4c51cbe9cf05acbc4f60158a4f901299ae94f7054d2b6fdbb107ae350e),
     (0x6da9e9eb5c674eaf1338c1b24b9451777715d918b017d38127155dc2523a747f, 0x44186e7b98de38e61ea58a5198ce11bd9c822cde941967c1d1d32a33bcac91e8, 0x566e84903c76ea370b6cc89f4d39c046256c53c5e4019440aabdcc716a721d56),
     (0x233b5cba8e395fcf825cb8a1de43224cc246d89644e3006a5c6d94787b212dce, 0x59213a6b12e904b300de9ac72ab9876fec54caadbf10dd98eced102e31192e5, 0x6256b6ec22f5307badb1310a9468762a3c7e7414970e0d6f32613c8a67f06504),
     (0x2cabbedd751318aa7029bd1497a195434be898e38579724a17542629451c44fc, 0xb8fdf94d238522dd6711583d56fc53770f7c6f43acb1dba65470a34eb45f828, 0x5ee420b75d2539836647586f3dce2ff4250f2e10b551ab704df2e40ba629b319),
     (0x697ec750665fc7baed3a45788ca2053480b16dbadaca1d6f5f5095a93993c61b, 0x6c06249deac330169c5e1be2455cc9235df1c8f65c0b68b912ddf8a470770b8d, 0x2875d4d8463685baf23d669b8bac3eedd405b3b81414b49b38d62fb36e34572),
     (0x6eb6d776b6068fb7ef67c3b859147cbbb27fef0a9ce9aea0249a1103ab412926, 0x7530e4009a4d8ec119c2882417ada6ba739bed3f85c96b1ff95c8c6aa21395ad, 0x67a0c89e446ff092a5ac46bbe9929fec11bfe34e8dfbc7fd4c27b66f6d26c87),
     (0x165610b7c2922ceb31755de9d55c0d33c141b6bce44754c12c54d37f3a9f8770, 0x544581cc5bd7705b3be667b751a211ea3f2a4321412798e21db94d00b267f02e, 0x3def7114994543700a7109cd7c4604b67de88c645ce04420f164798177c868be),
     (0xb4ae48c70769d2fba8657bf77aabf8729dcc729bd14f7b74970aa65c448a673, 0x6cb572ad98d79aa7428afc6d2091f452e49af250db380de2bd46a888cb0ad7e0, 0x616a8e212860fd778804a4ada8e734cbbabe2b271e23162b73d5fe2306c2316d)]"

definition shifted :: "(int \<times> int \<times> int) list" where
  "shifted =
    [(0x33995ea3054f7dcd4c3baac0fd5f8230f17a3b9c0e34071ebbddf0ba52e911c7, 0x2af41ac45b6061bcf82f01b963cae15c6fe857e56380d0290efe35e425328405, 0x775abc215610e3efabf356f8666b5f2b7e6e1c49554cc90a53204529d249722b),
     (0x2bc4dbfb5a11acbd7e99e1a5d0d1c1689d1f30291ce39f5246db349e1e17cd32, 0x64afdf3c4c0520a22e5b5e3f3fd06912b0119e1b7d4e5f44d880f81ca6648ffc, 0x38eb0340f1f373e4afc17c996efea7aa12f26df2606abff291a5c37e884cc2ca),
     (0x1a6e6c1dbf55df7b31736f492101376edaff42dff056ca1e34794e76605e032, 0x32648b4702f7b57e44a1d5eef112900dbb57f7a78008e442492686313d01c02d, 0x30bda48527025786918a9efa5f027c96cda80379810377a065def149d6fbdffb),
     (0x2f9704da3c687115ab61f0495e97aef2a669ee04ab9540a8727e2b83802525a0, 0x224d9f704eda6fa2869eb69f2e20703470e5560bc0024d102889fddb896f5d5e, 0x72b69a961271fe8cdb3cc655cf88c141ca7b6807146d0c67b60bd258094a37ab)]"

definition even_digits :: "(nat \<times> nat) list" where
  "even_digits = [(0, 7), (0, 4), (1, 2), (2, 4), (3, 7), (3, 3), (4, 7), (4, 1), (5, 2), (6, 1), (7, 7), (8, 5), (9, 7), (9, 3), (10, 6), (11, 1), (12, 7), (12, 5), (13, 7), (13, 0), (14, 7), (14, 5), (15, 3), (31, 7), (31, 7)]"

definition even_sums :: "(int \<times> int \<times> int) list" where
  "even_sums =
    [(0x3d93f72db5b2fd892a7ad967e772b020b0626bfc014593a3112e33d17beec0f9, 0x438179b715c943cff744cbfbee872160975886a59f104e2ed90c236881ef8303, 0x5ed828960164646ccc9f2940714713fe6f61aa99dcaba8bc7ddef970600c20a),
     (0x272d4f64e686ea57486ad58c300a94ef3cbf5d9fd83b3124b225ad03238c4d0d, 0x4ac41076ca7c9def381efa3063cdee1a8db40bec596e55ba8603b3be2830f590, 0x2396c111e3f5b397efb424a433c3592b50f4ae4c81332495d3de06bb04a4a883),
     (0x6cc8afdc89b6db8c32b4f88683284d88ae6fdfe54b7e610c2166a1c02ebd7afd, 0x764abd87db3c37294aa0600fadbcbc68936985f47abd380009ef67bfee9594c5, 0x9820dab51855b9d17eb67892a946edfe4f9a60f2f3ed6f3e888c5ffbfd819c8),
     (0x2ea4f9d4e9f49b41144691f39c0a391c9dbec48ee69e8ade097234671c87f5df, 0x4f8bde5a2ae86c0b0dfe7e0e2dcf7d36538368623a0a29feec04382f5ccc2d46, 0x20e6e48540f3d0c9f9b7ec1a91c54419b5c4a3d3536b9f20e29203c840443767),
     (0x1fe884923b739af7d6a835e8af43a3fb9667d85654a5ecf4f6a894ac8b4b4a69, 0x520a46a7feabe261ad0e8d80f4a7e5798ad57a89587d6046c88532059854b87d, 0x3221c215c3384769d66657984564417df46da23303d77351d1dc9d590d096e14),
     (0x4e7924ff42a2a21e2336195829904f726bfa0e4b9a943cf9d69455b4fb798c3c, 0x507f1f70064b1e0521be5535a9ef8017d608605cec01e6f9492d1ff141c77d90, 0x205fa70c3a87be6fe883bdd805f30a56a0e5211516da9ff7298ca3c464df154),
     (0x4e2284210ef9af4e609b931ad5ef91ba8cb2be65bbee69ce0c7c55838445b0ec, 0x5d277cf162686c88c96afbcf99e96a4ef7db296225490b65de3c40d57c47ed70, 0xf04f8d0536ebd3a68cf68b4c3f9d8946b286afc695aa197d1bfeb51f8023c84),
     (0x565b556fedda31de8b2743d88316d070b74a713e2296dff22ae7428841d3d87c, 0xc937df9cfbb1301c4a0880663b6be0eea1bc08c2af4104d7a7e67e6fec499c6, 0x36382889e1e0e1233979442de09fed9e32d14f4e085d305b4f97255ebcf0c137),
     (0x12aae0222c29cf8fac922b6feefcb48b876d9f71bc5e337d5433c0cbf04511d, 0x703d7b7dbe380f3461a61ade738993dbb19745d265b2b70880c4d2329519a5d1, 0x6f12cd7b9b75723b66dcf8277499c892f9206bdb49ecd3d0ab819625d61554b4),
     (0x17c3c5824a21042bb4408efd549ddb17be7afa6b466e0b8131dfaa9ffbcbff59, 0x1e0887289eb758615a6798ea3f06e282aa32ed6771d6064e94adf1b9c1ccc9e2, 0x644c1a654965435a62709ecea69076aebb7f2fc2b67facd62ce4719c600ca89),
     (0x6f28e82de88a3543a755d6391cb54ee024f4829f307c718fabfa2804971adb33, 0x431e6fc407f9b5c54baba3890f382ccb44476e41b935103e9349d65681ff31f7, 0x53f587961f6f8081a455cd4ff282ddeb1f52eba288b89eaee74fae51eae456b1),
     (0x1249fed853aa82d6277e04ed5fbbf0f5433cc984331b7969e62d3d7b3aa1a8ad, 0x332eebd6b2696efb3ab63ed793eba28536013f53c081200d33a53bd0d9ae7d07, 0x20e4ecfe5ebeec25133839ea342fb18ff2c475cf8d65a6a34d77fe559f0cd45a),
     (0x27e2fcb0713652fdedda8d9a762684b8f09b0405b40ab07bddf072f5bfee6995, 0x5e4c446096739133ebc8d82362758743b46fbeb92a308e75bd9583450cccf5aa, 0x366947b0253d3e35fdee4a88ec4f028ac3d4bab37625ddf9dfa5104f4cde8c15),
     (0x4a13b4587d55da4bd5a11461e1d259211a9ac932493a1a0c94ade268e5c63563, 0x24fa62cc4cc894d1f8179430a783daaa66b0ef7ca6e6045de2965e898f308747, 0x5ae6ae73cf72ba8622767fcec5b181894c16264a5dabea514de87c20a96a51d1),
     (0x5bf6e206bab4b7911e92f00d780493d860f2f0300f4b0b9f6be8ffd738deead0, 0x397ca4596ece98074bcf8e55f43a6bb1cc4f8abecd84810e5ef341515c519e46, 0x5d85c252b419e0762d3c9e487c35d7d96b5c9a8ebe39756ef30a417a2372b363),
     (0x5af950f7b49e03d903e5347ed82a9a7827848be4295cef4663957d09b221c917, 0x7b732ab9f80cfa0aa566db13b01599f9690422f24e8e08b02b16311cf171900b, 0x2079d9c2436ef631a181a694d7eaff81417f970e25311969c780b4133f4fc6f4),
     (0x6e5ca793dc41fbefd5a290473337e529af49289a552b2e02cf76071d91b7c16a, 0x4eb234e1a3cde1b85797370e176a0615dba466b7238bb33d5d6a8de750eca6e2, 0x60558d4dc78be5c881f4a6c6e43220ec2c5b3e1cce60853a8df486c9bf34e565),
     (0x4abfcc41e90565c403e573e35880bf78ccfa30e6afb20a76843bac0230ba988c, 0x46038607c1891e60c43a85103a274b3316938b6a2ca746979fb17cc952718f6e, 0x7b43b9c5d883b89cc055112ce1a68bba49995a837cf53c211b75d0c721b6f6cf),
     (0x12a893bb64fae6130dac6280fb16a50835ea11ac21cd7fa3ef517b12c35cc517, 0x2414d4351b116a403378d9d579cbaded5efa369c7e91486d564be3e869808dc9, 0x116c4079b616842d25cc77547eb508e5291024f05cc3c8c966fa68d5a623c8b2),
     (0x14b60761f6d7d980f3cc083e024b16996b1eba7571fe61439489eeb7335d9b26, 0x30a038284e83e00b6308ecb3aa2b4eb12818ba4a0392323d5007175538c9d232, 0x1bea30c657ac068a6f3ce475a7e03817bcf9ffd49193d0f9bb7d289e056c370c),
     (0xa3eeb579018f0917fe624686dda8aa15a413c6e2cd8ab98e0fd62065d386f57, 0x1c65f92cf4418afe8a5a5188671fba861e9c46f4ef9943161226d18d6af8fa3c, 0x12270dd564289a6d0a742d1ff9452fe4c45b0a86c2c0977d31296f870dc08ae5),
     (0x178698e7d9c44be2c15d051b15b226991439fcbf2e17b16c99e53a31f61a5e3e, 0x4e7aeddfd28da91e41538d805bd33bb2b974582310d9f7775c193abcfc470621, 0x36f454f7f8c95d3b7ff6886546211519a53a5b63e2c2460ac234008b062ca7e3),
     (0x15f374e6ba8e178b47d26fb25c92bcf69441c92aed1db007234d4ff4a8002c01, 0x5f85adb7749cc735ec838bcccfe7d4b52902c6132998d7ac8e032cad031c42b8, 0x499238d0ba0eafaaa4b11c1a735517be94c0fce83c7b27a56ab5dcb85b1c16b7),
     (0x7c213fa056c8524e8691628f176d51f0b9c94f4d0e1cabbbada06b92838ddf06, 0x15949f784d8472f5691129fee55afc39462588c4a4ca4f146d1c271cc6375515, 0x19735fd7f6bc20a6e27fc76fcdedaa488c5c397796ada358bf7bbb8a42a975fc),
     (0x0, 0x1, 0x1)]"

lemma nth_8:
  "[a, b, c, d, e, f, g, h] ! 0 = a" "[a, b, c, d, e, f, g, h] ! 1 = b" "[a, b, c, d, e, f, g, h] ! 2 = c" "[a, b, c, d, e, f, g, h] ! 3 = d"
  "[a, b, c, d, e, f, g, h] ! 4 = e" "[a, b, c, d, e, f, g, h] ! 5 = f" "[a, b, c, d, e, f, g, h] ! 6 = g" "[a, b, c, d, e, f, g, h] ! 7 = h"
  by simp_all

lemmas ent_rules = ent_def ent_sums_def prod.case all_points_nth nth_8 zip_Cons_Cons zip_Nil
  points_0_def points_1_def points_2_def points_3_def points_4_def points_5_def points_6_def points_7_def points_8_def points_9_def points_10_def points_11_def points_12_def points_13_def points_14_def points_15_def points_31_def

lemma odd_chain: "sum_chain (ent (0, 7)) (ent_sums odd_digits odd_sums)"
  by (simp only: odd_digits_def odd_sums_def ent_rules sum_rules row_rules)

lemma shift_chain: "dbl_chain (hexi3 (last odd_sums)) shifted"
  by (simp only: odd_sums_def shifted_def last.simps list.distinct if_False if_True sum_rules row_rules)

lemma even_chain: "sum_chain (hexi3 (last shifted)) (ent_sums even_digits even_sums)"
  by (simp only: shifted_def even_digits_def even_sums_def last.simps list.distinct if_False if_True ent_rules sum_rules row_rules)

definition order_l :: int where
  "order_l = 2 ^ 252 + 27742317777372353535851937790883648493"

lemma last_hexi3: "ns \<noteq> [] \<Longrightarrow> last (a # map hexi3 ns) = hexi3 (last ns)"
  by (simp add: last_map)

theorem order_base: "smul order_l base_point = 0"
proof -
  have ne: "odd_sums \<noteq> []" "shifted \<noteq> []" "even_sums \<noteq> []" by (simp_all add: odd_sums_def shifted_def even_sums_def)
  note first = ent_point [of 0 7, simplified]
  have 1: "entry_point (smul (ent_mult (0, 7) + sum_list (map ent_mult odd_digits)) base_point) (hexi3 (last odd_sums)) \<and> uv_entry (hexi3 (last odd_sums))"
    using ent_sums_point [OF odd_chain, of "ent_mult (0, 7)"] first ne last_hexi3 by (simp add: odd_digits_def odd_sums_def)
  have 2: "entry_point (smul (2 ^ length shifted) (smul (ent_mult (0, 7) + sum_list (map ent_mult odd_digits)) base_point)) (hexi3 (last shifted)) \<and> uv_entry (hexi3 (last shifted))"
    using dbl_chain_sound [OF shift_chain] 1 ne last_hexi3 by metis
  define m where "m = 2 ^ length shifted * (ent_mult (0, 7) + sum_list (map ent_mult odd_digits))"
  have 3: "entry_point (smul m base_point) (hexi3 (last shifted))" "uv_entry (hexi3 (last shifted))" using 2 by (simp_all add: m_def smul_smul)
  have "entry_point (smul (m + sum_list (map ent_mult even_digits)) base_point) (hexi3 (last even_sums))"
    using ent_sums_point [OF even_chain 3] ne last_hexi3 by (simp add: even_digits_def even_sums_def)
  moreover have "m + sum_list (map ent_mult even_digits) = order_l"
    by (simp add: m_def shifted_def odd_digits_def even_digits_def ent_mult_def order_l_def)
  moreover have "last even_sums = (0, 1, 1)" by (simp add: even_sums_def)
  ultimately have "coords (smul order_l base_point) = (0, 1)" by (simp add: entry_point_def isp_def fv_simps fv_hexi fv_def hexi_rules)
  then show ?thesis by (metis coords_inject zero_ed.rep_eq)
qed

end
