(* ===== verification/Prime_Order.thy ===== *)
theory Prime_Order
  imports Prime25519
begin

text \<open>
  The order \<open>2\<^sup>2\<^sup>5\<^sup>2 + 27742317777372353535851937790883648493\<close> of the base point is prime.  The certificate is a chain of seven primes as
  for the modulus: each divides its successor minus one, and a chain of squares gives the powers of 2 that
  Pocklington's criterion needs.
\<close>

lemma prime_2551: "is_prime 2551"
proof (rule trial_division [of _ 51])
  have "undivided 2551 [2..50]" by code_simp
  then show "undivided (int 2551) [2..int 51 - 1]" by simp
qed simp_all

section \<open>The prime 1224481\<close>

lemma o0_m_0:
  assumes "power2 1224481 1 2"
  shows "power2 1224481 480 921659"
proof -
  have "pow2_chain (multiples_of (hexi 1224481)) (hexi 2)
    [(True, 0, 8),
     (True, 0, 128),
     (True, 0, 32768),
     (False, 876, 1096468),
     (False, 981838, 98946),
     (False, 7995, 585321),
     (False, 279792, 685089),
     (False, 383302, 921659)]
    (hexi 921659)"
    by (simp only: chain_rules)
  then show ?thesis by (rule pow2_chain_sound [OF _ assms]) simp_all
qed

lemma o0_n_0:
  assumes "power2 1224481 1 2"
  shows "power2 1224481 1224480 1"
proof -
  have "pow2_chain (multiples_of (hexi 1224481)) (hexi 2)
    [(False, 0, 4),
     (False, 0, 16),
     (True, 0, 512),
     (False, 0, 262144),
     (True, 112242, 757070),
     (False, 468079, 1142901),
     (True, 2133512, 484330),
     (False, 191571, 499249),
     (True, 407110, 668092),
     (True, 729038, 661650),
     (True, 715046, 1203874),
     (True, 2367227, 731565),
     (False, 437072, 989593),
     (False, 799762, 932127),
     (True, 1419149, 501589),
     (False, 205467, 1087294),
     (False, 965476, 1224480),
     (False, 1224479, 1),
     (False, 0, 1),
     (False, 0, 1)]
    (hexi 1)"
    by (simp only: chain_rules)
  then show ?thesis by (rule pow2_chain_sound [OF _ assms]) simp_all
qed

lemma o0_prime: "is_prime 1224481"
proof (rule prime_by_chain)
  have start: "power2 1224481 1 2" by (simp add: power2_def)
  have "power2 (int 1224481) 480 921659" using o0_m_0 [OF start] by (simp only: of_nat_numeral)
  then show "certified 1224481 2551 480"
    by (rule certified_int [where s = 1100631 and k = 828437]) (simp_all add: prime_2551)
  show "power2 (int 1224481) 1224480 1" using o0_n_0 [OF start] by (simp only: of_nat_numeral)
  have "undivided 1224481 (map (\<lambda>k. k * 2551 + 1) [1..0])" by code_simp
  then show "undivided (int 1224481) (map (\<lambda>k. k * int 2551 + 1) [1..int 1 - 1])" by simp
qed simp_all

section \<open>The prime 1257559732178653\<close>

lemma o1_m_0:
  assumes "power2 1257559732178653 1 2"
  shows "power2 1257559732178653 1027014492 1252739704402215"
proof -
  have "pow2_chain (multiples_of (hexi 1257559732178653)) (hexi 2)
    [(True, 0, 8),
     (True, 0, 128),
     (True, 0, 32768),
     (False, 0, 1073741824),
     (True, 1833, 736020130223003),
     (False, 430775269143658, 576012532405335),
     (False, 263836722024486, 769983143964867),
     (True, 942896033992595, 337464441580843),
     (True, 181116246675894, 285572012690516),
     (False, 64848907248985, 345654423429051),
     (True, 190014004709076, 437227538966574),
     (True, 304029965240027, 435954988051321),
     (False, 151131391013581, 1228761888558648),
     (True, 2401247018554694, 575866011428626),
     (True, 527405028378569, 704972560008195),
     (True, 790397939195312, 383109490241314),
     (True, 233424906598565, 441172771460247),
     (True, 309541422641966, 661069035450220),
     (True, 695016321608810, 790812897363870),
     (True, 994600928503958, 550491089145226),
     (True, 481949972592230, 405070757515962),
     (False, 130476759390420, 162049868081184),
     (True, 41763677816933, 459073045152463),
     (False, 167584930872783, 266113543665070),
     (True, 112625136301550, 727396395397650),
     (True, 841479736506588, 455322723579036),
     (True, 329716000445184, 227252455921440),
     (False, 41066581094208, 882974972131776),
     (False, 619966417070637, 1252739704402215)]
    (hexi 1252739704402215)"
    by (simp only: chain_rules)
  then show ?thesis by (rule pow2_chain_sound [OF _ assms]) simp_all
qed

lemma o1_n_0:
  assumes "power2 1257559732178653 1 2"
  shows "power2 1257559732178653 1199302417 985374706761514"
proof -
  have "pow2_chain (multiples_of (hexi 1257559732178653)) (hexi 2)
    [(False, 0, 4),
     (False, 0, 16),
     (False, 0, 256),
     (True, 0, 131072),
     (True, 0, 34359738368),
     (True, 1877591, 406333773341925),
     (False, 131291684310094, 810971103482243),
     (True, 1045952909996287, 343016581960687),
     (True, 187124909440528, 316385652375154),
     (True, 159197020177219, 436452084341425),
     (True, 302952483371839, 1044152964908383),
     (False, 866961136102982, 124450553631443),
     (True, 24631737010759, 238080585396871),
     (True, 90146596925010, 1010035389369752),
     (True, 1622462077426597, 772377047249167),
     (True, 948768138565988, 896949118933614),
     (True, 1279490272103423, 385408349372773),
     (False, 118117328318797, 1073163971669088),
     (False, 915806128821688, 162104577725480),
     (True, 41791882241698, 831897420388006),
     (True, 1100628940860366, 1183125738345074),
     (True, 2226194870774883, 121836698958353),
     (False, 11803957166592, 607762201312033),
     (False, 293723537651548, 923389432588245),
     (False, 678017928212821, 704546735069912),
     (True, 789443378626176, 688692521154560),
     (False, 377156946551182, 1092939976475754),
     (False, 949869625762734, 584031472151214),
     (False, 271233844194573, 536335552623627),
     (True, 457482563487848, 985374706761514)]
    (hexi 985374706761514)"
    by (simp only: chain_rules)
  then show ?thesis by (rule pow2_chain_sound [OF _ assms]) simp_all
qed

lemma o1_n_1:
  assumes "power2 1257559732178653 1199302417 985374706761514"
  shows "power2 1257559732178653 1257559732178652 1"
proof -
  have "pow2_chain (multiples_of (hexi 1257559732178653)) (hexi 985374706761514)
    [(True, 1544202295732226, 163556461772814),
     (True, 42543849811885, 997184236266287),
     (True, 1581438043241533, 885260359937689),
     (False, 623179865595182, 634480562610875),
     (True, 640232943263203, 635838939525691),
     (True, 642977262506240, 33673890760242),
     (False, 901691498159, 111116119298737),
     (False, 9818056074856, 244702116546201),
     (True, 95230666679272, 1203872579084186),
     (True, 2304954825740104, 367381875765280),
     (True, 214652933275763, 465507276069561),
     (False, 172315492082659, 1025762079454394),
     (True, 1673380304287805, 100743262587807),
     (True, 16141109956268, 1091599576991494),
     (False, 947541183132227, 1255322862601805),
     (True, 2506179943660794, 621565938685568),
     (True, 614434775936648, 832987396990104),
     (True, 1103514983486726, 408415061801554),
     (False, 132640111191688, 1257559732178652),
     (False, 1257559732178651, 1)]
    (hexi 1)"
    by (simp only: chain_rules)
  then show ?thesis by (rule pow2_chain_sound [OF _ assms]) simp_all
qed

lemma o1_prime: "is_prime 1257559732178653"
proof (rule prime_by_chain)
  have start: "power2 1257559732178653 1 2" by (simp add: power2_def)
  have "power2 (int 1257559732178653) 1027014492 1252739704402215" using o1_m_0 [OF start] by (simp only: of_nat_numeral)
  then show "certified 1257559732178653 1224481 1027014492"
    by (rule certified_int [where s = 790900187493841 and k = 787868792026441]) (simp_all add: o0_prime)
  show "power2 (int 1257559732178653) 1257559732178652 1" using o1_n_1 [OF o1_n_0 [OF start]] by (simp only: of_nat_numeral)
  have "undivided 1257559732178653 (map (\<lambda>k. k * 1224481 + 1) [1..28])" by code_simp
  then show "undivided (int 1257559732178653) (map (\<lambda>k. k * int 1224481 + 1) [1..int 29 - 1])" by simp
qed simp_all

section \<open>The prime 4434155615661930479\<close>

lemma o2_m_0:
  assumes "power2 4434155615661930479 1 2"
  shows "power2 4434155615661930479 3526 415787812636281767"
proof -
  have "pow2_chain (multiples_of (hexi 4434155615661930479)) (hexi 2)
    [(True, 0, 8),
     (False, 0, 64),
     (True, 0, 8192),
     (True, 0, 134217728),
     (True, 0, 36028797018963968),
     (False, 292744397614004, 2028562959957477108),
     (False, 928038625432216325, 1418984147305173989),
     (False, 454092319897711611, 1642176686889080452),
     (True, 1216350757486632393, 2194920277261642361),
     (True, 2172984189602079512, 2767138247365062394),
     (False, 1726834767139209811, 415787812636281767)]
    (hexi 415787812636281767)"
    by (simp only: chain_rules)
  then show ?thesis by (rule pow2_chain_sound [OF _ assms]) simp_all
qed

lemma o2_n_0:
  assumes "power2 4434155615661930479 1 2"
  shows "power2 4434155615661930479 2064814612 3993249705004720652"
proof -
  have "pow2_chain (multiples_of (hexi 4434155615661930479)) (hexi 2)
    [(True, 0, 8),
     (True, 0, 128),
     (True, 0, 32768),
     (False, 0, 1073741824),
     (True, 0, 2305843009213693952),
     (True, 2398162105253924515, 3206676086398963923),
     (False, 2318992027876307186, 204768209475427835),
     (False, 9456145261043884, 4027281638116646789),
     (False, 3657742036708003773, 3050627321788313254),
     (True, 4197564480403148416, 4246727724753165768),
     (False, 4067222247339865112, 1935425468705481176),
     (False, 844776789448479468, 3815557445615437804),
     (True, 6566516776889489394, 4328087346548845106),
     (False, 4224556308576883414, 2399250445823975930),
     (True, 2596391827771805350, 626811198418467150),
     (False, 88605884077468052, 2356877274861565592),
     (False, 1252745949902718756, 2064976115756946340),
     (True, 1923309296401451137, 3783762140869286577),
     (False, 3228767138461943108, 3790923968203188197),
     (False, 3241001394253523380, 1786615557039011789),
     (True, 1439730774165587125, 3473324945394478167),
     (False, 2720695262405364098, 1030441034681136947),
     (False, 239461313041045659, 419060351845740148),
     (False, 39604288552435082, 1801367293494397626),
     (False, 731802040192251845, 2672427657744952121),
     (True, 3221298576285547478, 1789249860275015320),
     (False, 721989785650825608, 1943396584785796168),
     (True, 1703499206215069748, 1424015767974919156),
     (False, 457318390062520574, 4094416571240577390),
     (False, 3780707875843658312, 3993249705004720652)]
    (hexi 3993249705004720652)"
    by (simp only: chain_rules)
  then show ?thesis by (rule pow2_chain_sound [OF _ assms]) simp_all
qed

lemma o2_n_1:
  assumes "power2 4434155615661930479 2064814612 3993249705004720652"
  shows "power2 4434155615661930479 2217077807830965239 1"
proof -
  have "pow2_chain (multiples_of (hexi 4434155615661930479)) (hexi 3993249705004720652)
    [(False, 3596184840738807529, 2090434687995528713),
     (False, 985512815414039659, 3355223940600569708),
     (False, 2538821067040673149, 2181897489167196893),
     (True, 2147275407484067093, 3593590399320079351),
     (True, 5824735565198544510, 1327773830266042112),
     (True, 795183343639227854, 1481236744126479022),
     (False, 494809493018409278, 2339946899801492322),
     (False, 1234812660735465643, 1970882187865918687),
     (True, 1752025384371762018, 438753604342861316),
     (False, 43414066173930388, 2064743550967756004),
     (True, 1922876101237837718, 4325699182956089110),
     (False, 4219895520882322354, 3309614577844964534),
     (True, 4940534164022007484, 68003959009969476),
     (False, 1042935530881059, 4196891854775817315),
     (True, 7944647309385959814, 866027866951847544),
     (False, 169142522578158628, 3785010879448809124),
     (False, 3230898642109838806, 928338760317279302),
     (True, 388715655744423655, 411936114422133663),
     (True, 76538298189552231, 3448733780814246489),
     (False, 2682306558867539131, 92491745314753372),
     (True, 3858557837326669, 1708688649280096317),
     (True, 1316876155571188614, 2662247817729562872),
     (True, 3196804107628409779, 3144125740380022627),
     (True, 4458809084824829554, 2046613546291385892),
     (True, 1889255755061327390, 4268737640474751518),
     (True, 8218981299999211613, 428050250071156021),
     (False, 41321737996474687, 3769637184447267368),
     (True, 6409411727534162678, 918500284642832086),
     (True, 380520146793731605, 897678727087133997),
     (True, 363463607013929023, 1)]
    (hexi 1)"
    by (simp only: chain_rules)
  then show ?thesis by (rule pow2_chain_sound [OF _ assms]) simp_all
qed

lemma o2_n_2:
  assumes "power2 4434155615661930479 2217077807830965239 1"
  shows "power2 4434155615661930479 4434155615661930478 1"
proof -
  have "pow2_chain (multiples_of (hexi 4434155615661930479)) (hexi 1)
    [(False, 0, 1)]
    (hexi 1)"
    by (simp only: chain_rules)
  then show ?thesis by (rule pow2_chain_sound [OF _ assms]) simp_all
qed

lemma o2_prime: "is_prime 4434155615661930479"
proof (rule prime_by_chain)
  have start: "power2 4434155615661930479 1 2" by (simp add: power2_def)
  have "power2 (int 4434155615661930479) 3526 415787812636281767" using o2_m_0 [OF start] by (simp only: of_nat_numeral)
  then show "certified 4434155615661930479 1257559732178653 3526"
    by (rule certified_int [where s = 1010501025739283171 and k = 94754006754933215]) (simp_all add: o1_prime)
  show "power2 (int 4434155615661930479) 4434155615661930478 1" using o2_n_2 [OF o2_n_1 [OF o2_n_0 [OF start]]] by (simp only: of_nat_numeral)
  have "undivided 4434155615661930479 (map (\<lambda>k. k * 1257559732178653 + 1) [1..0])" by code_simp
  then show "undivided (int 4434155615661930479) (map (\<lambda>k. k * int 1257559732178653 + 1) [1..int 1 - 1])" by simp
qed simp_all

section \<open>The prime 172054593956031949258510691\<close>

lemma o3_m_0:
  assumes "power2 172054593956031949258510691 1 2"
  shows "power2 172054593956031949258510691 38802110 81982237619807054769897707"
proof -
  have "pow2_chain (multiples_of (hexi 172054593956031949258510691)) (hexi 2)
    [(False, 0, 4),
     (False, 0, 16),
     (True, 0, 512),
     (False, 0, 262144),
     (True, 0, 137438953472),
     (False, 0, 18889465931478580854784),
     (False, 2073829677966472774, 31984044512296906456259822),
     (False, 5945665732273380560698350, 29024443532358241270411834),
     (False, 4896226848661359734432396, 19808387174203048784497920),
     (False, 2280509885969109424278951, 150010420116626843684561259),
     (False, 130790614921432972698007344, 140535356440195322503150377),
     (False, 114790229982582456155186612, 9305664854811807573173237),
     (True, 1006603734303181253662368, 118875755576714418193740050),
     (False, 82133495764408352887561335, 144280111927389765958270015),
     (False, 120989217545099543588439385, 90133693166330921620135190),
     (True, 94436102599833808036158834, 131278503214799028589577906),
     (False, 100166145001173924076201018, 66351917947308499425261398),
     (True, 51176512222759079539645847, 23146504394297308454578531),
     (False, 3113899218594167203600917, 167480910592361093104214314),
     (True, 326057616572731665733124296, 44645500580478167137132656),
     (True, 23169630943894914114272249, 29295608793347465632114613),
     (True, 9976283397491568503194961, 27497632718918193860451487),
     (True, 8789300974291271736830324, 114262896645587233754028454),
     (True, 151765893018544748163420371, 28969258566049086852573871),
     (False, 4877625889379437891713874, 81982237619807054769897707)]
    (hexi 81982237619807054769897707)"
    by (simp only: chain_rules)
  then show ?thesis by (rule pow2_chain_sound [OF _ assms]) simp_all
qed

lemma o3_n_0:
  assumes "power2 172054593956031949258510691 1 2"
  shows "power2 172054593956031949258510691 1193868573 155849974018653924336708373"
proof -
  have "pow2_chain (multiples_of (hexi 172054593956031949258510691)) (hexi 2)
    [(False, 0, 4),
     (False, 0, 16),
     (False, 0, 256),
     (True, 0, 131072),
     (True, 0, 34359738368),
     (True, 0, 2361183241434822606848),
     (False, 32403588718226137, 16629868878882634406364437),
     (False, 1607353413646725202964404, 96871806178257332331883805),
     (True, 109083362628910064148584441, 4289815693316360527797319),
     (False, 106957438679760198985055, 65145982441971570876864756),
     (True, 49333167231956733420292239, 161937696246404929504051923),
     (False, 152415677272147289636874225, 81846030359905255095158454),
     (False, 38933994912024171843644822, 50130339001185226473878114),
     (False, 14606124896705492504610781, 94360963610943572245837325),
     (True, 103501932135112952657178436, 55958470222262333125651974),
     (True, 36399497596861932425191982, 96942170747293602065713790),
     (True, 109241889485368857412499141, 92208385878681490415511769),
     (True, 98833588000848012223238480, 144576786183119954632429042),
     (True, 242974588732936064969341499, 28564586967552342608609719),
     (True, 9484613108736534070829754, 29454765347053383472617908),
     (False, 5042487862147320448264096, 100977994980450929754846128),
     (True, 118526977232327469733655985, 67348371964003242274549133),
     (False, 26362581212803008616915188, 96050729320176486892776781),
     (False, 53621018717439318846156540, 67166299682207802843152821),
     (False, 26220234573643529689115434, 11413594539312451538153147),
     (True, 1514288428022016873091950, 24086237507163597950969768),
     (True, 6743752943902786217579895, 133885302935231773295790203),
     (True, 208367285405230544193955829, 82610680913197084003294579),
     (False, 39664878711033152656238948, 4660513788403658342194173),
     (True, 252482520489411652898335, 155849974018653924336708373)]
    (hexi 155849974018653924336708373)"
    by (simp only: chain_rules)
  then show ?thesis by (rule pow2_chain_sound [OF _ assms]) simp_all
qed

lemma o3_n_1:
  assumes "power2 172054593956031949258510691 1193868573 155849974018653924336708373"
  shows "power2 172054593956031949258510691 1281906619340419391 116489120944895938851734767"
proof -
  have "pow2_chain (multiples_of (hexi 172054593956031949258510691)) (hexi 155849974018653924336708373)
    [(False, 141171554000017815831314475, 119267517564558213077754904),
     (False, 82675739246156327383345701, 150557999360806761038659825),
     (True, 263494401984074388432222514, 95459349180429378164076),
     (False, 52962766854570663850, 38984972136842806184713426),
     (False, 8833405825239386454831921, 166968813139647092558090065),
     (True, 324066726964427101941286381, 85996909291737008522209179),
     (False, 42983266169696889701927693, 57861796522635521682388178),
     (False, 19458867210964704667701754, 108405263524598049665707670),
     (False, 68302164386500841653193699, 128196126438500325411492891),
     (False, 95517628770991642779254845, 66479288483572313897489986),
     (False, 25686589911173309160624660, 37946554125071460122040136),
     (False, 8369093418888603291258318, 56297240282281070749220758),
     (False, 18420776746076400036162115, 22337541034681035881423099),
     (True, 5800086216861705716434256, 145989962448484205326896706),
     (True, 247747748498436736611871891, 14438778751472272441414191),
     (True, 2423397446594692211869760, 53456983337355773972764802),
     (True, 33217933933930258957270525, 73957778471294336128515633),
     (True, 63581597801530686816766563, 97136866904823086263956345),
     (False, 54840563655606587711707009, 63015141429298263379625806),
     (False, 23079349165005244645249122, 122207402847599530185786334),
     (False, 86801804981574533982851643, 167681491909110434518744243),
     (True, 326839081507469736890776437, 10812518559508506035898131),
     (False, 679496867311732758050784, 123331931473104187824361417),
     (False, 88406621242403641541983861, 106608286813168061420289938),
     (True, 132113029427660378169333727, 22058825189248436191712331),
     (True, 5656248491152388724953178, 102016850195492322727481124),
     (True, 120978318387349917394671121, 63871845798043103345152141),
     (True, 47422304651644809737946487, 68625776404960854598375245),
     (True, 54744219016752092729735688, 78424465505986826705379642),
     (True, 71493549209984286947127571, 116489120944895938851734767)]
    (hexi 116489120944895938851734767)"
    by (simp only: chain_rules)
  then show ?thesis by (rule pow2_chain_sound [OF _ assms]) simp_all
qed

lemma o3_n_2:
  assumes "power2 172054593956031949258510691 1281906619340419391 116489120944895938851734767"
  shows "power2 172054593956031949258510691 172054593956031949258510690 1"
proof -
  have "pow2_chain (multiples_of (hexi 172054593956031949258510691)) (hexi 116489120944895938851734767)
    [(False, 78868660153197042568838154, 129060605540996093058839875),
     (False, 96810201457713749208484853, 92030085040024261477952202),
     (True, 98451733926249743610876808, 131640696559808112041343280),
     (True, 201439236143615213001131525, 36213442084041054292683025),
     (True, 15244154281742963190417773, 107603859062788066169390107),
     (False, 67296026330823997308110574, 33191942752588601960324815),
     (True, 12806459140203562844635451, 43880813624530125528461809),
     (True, 22382730505211749332225453, 57363751328337979720286939),
     (True, 38250649294494287986040369, 60147213792478197843894463),
     (True, 42052783873037055002933596, 51166245551536598435041902),
     (False, 15216011520791808179267916, 124590959096109963656487648),
     (False, 90220823121150603052195699, 152051311594972909760853895),
     (True, 268747271737012614396366759, 56901804737414909314821581),
     (False, 18818534907602107471179697, 91901234100244506806698934),
     (True, 98176243190649739764236288, 56359529941164544335317704),
     (False, 18461562357357000631801722, 59344311240781236886621714),
     (False, 20468777936511747744632327, 163971234199517154342589839),
     (False, 156267641721811203970121198, 123747702650551333537318103),
     (True, 178007381949970930049590254, 62986063444089396794631704),
     (False, 23058054405665403805498219, 33466043495908907808984287),
     (True, 13018845257410255909811492, 132520914449198278749135766),
     (True, 204142096559648900347385283, 64617141317453307249252959),
     (False, 24267733026104122792163663, 25865633804477598663034548),
     (False, 3888480956679966491760812, 124986276829901698524723212),
     (False, 90794259174462198739751237, 42203025079099066766622177),
     (True, 20703839227707206906282848, 172054593956031949258510690),
     (False, 172054593956031949258510689, 1)]
    (hexi 1)"
    by (simp only: chain_rules)
  then show ?thesis by (rule pow2_chain_sound [OF _ assms]) simp_all
qed

lemma o3_prime: "is_prime 172054593956031949258510691"
proof (rule prime_by_chain)
  have start: "power2 172054593956031949258510691 1 2" by (simp add: power2_def)
  have "power2 (int 172054593956031949258510691) 38802110 81982237619807054769897707" using o3_m_0 [OF start] by (simp only: of_nat_numeral)
  then show "certified 172054593956031949258510691 4434155615661930479 38802110"
    by (rule certified_int [where s = 154275350521713489305385904 and k = 73510611687487158067405653]) (simp_all add: o2_prime)
  show "power2 (int 172054593956031949258510691) 172054593956031949258510690 1" using o3_n_2 [OF o3_n_1 [OF o3_n_0 [OF start]]] by (simp only: of_nat_numeral)
  have "undivided 172054593956031949258510691 (map (\<lambda>k. k * 4434155615661930479 + 1) [1..0])" by code_simp
  then show "undivided (int 172054593956031949258510691) (map (\<lambda>k. k * int 4434155615661930479 + 1) [1..int 1 - 1])" by simp
qed simp_all

section \<open>The prime 19757330305831588566944191468367130476339\<close>

lemma o4_m_0:
  assumes "power2 19757330305831588566944191468367130476339 1 2"
  shows "power2 19757330305831588566944191468367130476339 1752193467 5559330094633165847650652553677567736791"
proof -
  have "pow2_chain (multiples_of (hexi 19757330305831588566944191468367130476339)) (hexi 2)
    [(True, 0, 8),
     (False, 0, 64),
     (True, 0, 8192),
     (False, 0, 67108864),
     (False, 0, 4503599627370496),
     (False, 0, 20282409603651670423947251286016),
     (False, 20821443634461049522097, 18748596071776446107177033409625920989373),
     (True, 35582727951749561139672184478506847998237, 19721272643449736927818165121131915651915),
     (True, 39370561574554687301581838168829004414486, 18477411835312802816702207322939914487696),
     (True, 34560817969519434990886678306333903303987, 19523825019163716789559465115755042913239),
     (False, 19293079453473215695698998085832837987456, 2741074543570134387368872531500694667537),
     (False, 380288709916973613942502556697489333234, 18129074954164426131222341246417038296043),
     (False, 16635008556631933400475953206080385080329, 18809579709454361105253480884714360622318),
     (False, 17907292299602302366417758034714585391413, 16983469284660113529419339998214789416117),
     (False, 14599048782307286849932576057763754948145, 3097813472089334610536828706139684916534),
     (True, 971431682247644942009228690512624938726, 164580144388749734687458214494025342198),
     (False, 1370965788785077018286373018622158657, 7294318263710464622891738576646156954481),
     (True, 5386059564595668639357184563906369756578, 3503720168317033537504664039577593350780),
     (True, 1242683584051650149527848379523960869815, 7208976363552009668359812791358536409515),
     (False, 2630382719010991443572685526520117421222, 4067196661299211085214309862462615068967),
     (False, 837263356213712444687325741322744717274, 10092219781375010978830624923642664867203),
     (True, 10310390982886396884317052184490097818554, 3958465358828108782955647323664437892612),
     (True, 1586190821784979916441459249440682587843, 12307617549479279985696195657247487818311),
     (False, 7666898685170038292600220041457734787029, 9519791704869126618125401996451058285890),
     (True, 9173955458683166872136660192551249814696, 16910861352137393034221682432921983706256),
     (True, 28948975113991476961760718558251605025304, 12510372665995464893132709347956518793016),
     (True, 15843175350051321021271226685164880127904, 7248993891039766726246535810340135089056),
     (False, 2659666646197729244138036022980969550938, 14696419350991820950982570575210186715154),
     (True, 21863757744279512894159191721587587694155, 1000800396041786658643875649397670388887),
     (True, 101390361674700917265942562400919592073, 5559330094633165847650652553677567736791)]
    (hexi 5559330094633165847650652553677567736791)"
    by (simp only: chain_rules)
  then show ?thesis by (rule pow2_chain_sound [OF _ assms]) simp_all
qed

lemma o4_m_1:
  assumes "power2 19757330305831588566944191468367130476339 1752193467 5559330094633165847650652553677567736791"
  shows "power2 19757330305831588566944191468367130476339 114831751082918 9148758478138211201771971577098600188172"
proof -
  have "pow2_chain (multiples_of (hexi 19757330305831588566944191468367130476339)) (hexi 5559330094633165847650652553677567736791)
    [(False, 1564287817366282619059731248455431668964, 17165912182971479704515406995458772334885),
     (True, 29828781167515742964764306696043480635009, 6293122669717138753539957413292806374399),
     (True, 4008982218049814191852102300302208068688, 5098046884010214108570199030460054449170),
     (True, 2630930558861487594910332034193975035926, 5251203743877784770365842570837209422886),
     (False, 1395691641171629548326246902906297595646, 11425944374501064380602063708702788149002),
     (False, 6607785709320182381223143520816606648848, 11630358414123007096396431092496607988532),
     (True, 13692663406152281510216047375549691483942, 14265641388208725410251473003479857581710),
     (True, 20600812059806080197748111100446930957463, 18525015456028222876042134081102116080243),
     (True, 34739126423856202892583423970774564569802, 19624084581796951438104079787668754963220),
     (False, 19491737482358789991289569573383607547672, 8605839234462744138583551664326542235592),
     (True, 7497011770619491644432398638029799801725, 12016577457375382630174239618735459296153),
     (False, 7308585297401317084387724670572847442742, 5592002592978128606989292496417672317871),
     (False, 1582728664036369908457436297281939119257, 928513593475896652103538037313128212518),
     (True, 87272670945330454374536224206744759772, 5380239711509991466164012245749058765940),
     (True, 2930252104431852704621644124163911201887, 15333042075391074190205731085039102515507),
     (False, 11899491259521033692969125360158426181743, 9148758478138211201771971577098600188172)]
    (hexi 9148758478138211201771971577098600188172)"
    by (simp only: chain_rules)
  then show ?thesis by (rule pow2_chain_sound [OF _ assms]) simp_all
qed

lemma o4_n_0:
  assumes "power2 19757330305831588566944191468367130476339 1 2"
  shows "power2 19757330305831588566944191468367130476339 1948223183 15085588252406633529453414902829941774329"
proof -
  have "pow2_chain (multiples_of (hexi 19757330305831588566944191468367130476339)) (hexi 2)
    [(True, 0, 8),
     (True, 0, 128),
     (False, 0, 16384),
     (True, 0, 536870912),
     (False, 0, 288230376151711744),
     (False, 0, 83076749736557242056487941267521536),
     (False, 349325857287178071418934062587, 1619361847007976702014523425326475170303),
     (False, 132727081592145878700922027800538989798, 19562361158645873597581409104891251722287),
     (False, 19369316004619452272808222939004939638299, 11703182838014489695100769160889534803008),
     (True, 13864675684403610263405268401355368275044, 18880617727888554791907352021290245512212),
     (True, 36085616859018785335353913275709199270340, 8186063759360150637770811242217047780628),
     (True, 6783471130462442681752612304755979291173, 15137470273834310244178733764317756093121),
     (True, 23195745856775332080070445360842985514482, 13336465597306171292088369112389604199884),
     (True, 18004589878788772587530515761001622651431, 16658519595388914898900202686708461235803),
     (True, 28091474993263385868861795165686074338579, 10392783780435703415783569069555303727337),
     (False, 5466829426595511803713355242870585680599, 9731061256971484152178024118141860264508),
     (False, 4792831405920344425028051623995638830607, 8445612247177216603463075118926881974291),
     (False, 3610222895783468269446270307527004129896, 7742269166387525084957806299243274421937),
     (False, 3033948965620230608190408766559355666510, 5342816821726778074614170052046377125079),
     (True, 2889630445880743548681511175818486306933, 12439973860133595534260708182925173354195),
     (True, 15665370497463430245236467571860310797446, 3978678905118092496381558421918923565856),
     (False, 801215831541741355132612946980309921424, 13138802078496741084939323099265587826000),
     (True, 17474842742995215007131299764514134368566, 4175370477986640217187608120925983640126),
     (True, 1764784852870191152591949718050219653330, 6884451411422439117455419951372607032882),
     (False, 2398890462556425039006310723064013584817, 2899717532777486813747096178095641080961),
     (False, 425581879724678029498043171561441927793, 15554825367944987205289407003058023693694),
     (True, 24492437842763604184348678388673382241921, 15326265273001920157321719593109806324053),
     (True, 23777950115972198044299613516321736117151, 10581653344545812732519539782957955103429),
     (True, 11334667768457363402433055105465560189142, 436537712718503123566775228154779404944),
     (True, 19290579412872902427785408583652956637, 15085588252406633529453414902829941774329)]
    (hexi 15085588252406633529453414902829941774329)"
    by (simp only: chain_rules)
  then show ?thesis by (rule pow2_chain_sound [OF _ assms]) simp_all
qed

lemma o4_n_1:
  assumes "power2 19757330305831588566944191468367130476339 1948223183 15085588252406633529453414902829941774329"
  shows "power2 19757330305831588566944191468367130476339 2091888714853154693 19603227265107078576245240238081531412907"
proof -
  have "pow2_chain (multiples_of (hexi 19757330305831588566944191468367130476339)) (hexi 15085588252406633529453414902829941774329)
    [(True, 23037016580522301258486325157668002355043, 10950042474005030808164944435227137972905),
     (False, 6068807289572084979381716494949928633434, 11691828580684039707609597826712772820899),
     (True, 13837786122323624739487871550822792226725, 12342179655867855468476310845060126376627),
     (True, 15420038669167434492533005827929477313357, 13209754946270787462754927364534326634235),
     (True, 17664089534305217712545938803113247055037, 15728154782787925552120978473084188800907),
     (False, 12520661903309848942476227545178781383219, 13062752512106526018090676591421712867408),
     (False, 8636566810961319601584751883887455264007, 16954463015510559380800672376034476808091),
     (True, 29098447178308328890196983028721823226122, 10115390547343274290876271029563718401204),
     (True, 10357788662882300982778980268007194831613, 3602777628843355901757948682728231594425),
     (True, 1313943376151682330310867456140887874876, 15902499285523653161523587471940071602286),
     (True, 25599560225142082876940005391855885947481, 4952337138585441474911418425578853699533),
     (False, 1241343984970157165950930951382113519902, 18460587600651156974321413410847427819311),
     (False, 17248954655615917600497788026957760565531, 3074910640844818053279930998090810043712),
     (False, 478560377481259318552294620760140040205, 11158197767385901331818491026167089529449),
     (False, 6301730825411498617992850329882980148885, 7463426772326548444198858830457048511586),
     (True, 5638690888256235522614138892024987243644, 4954415581713227535779016964535582331476),
     (True, 2484772322612608633629894871994213194768, 17012444883971741020900742563841058082800),
     (True, 29297812654855486234385452071453660684558, 13808093328164256467970600455367950006838),
     (True, 19300526782509465583264272033810609144469, 10760604004700830034263621211515256297497),
     (True, 11721279824107278325556313447144920850267, 3018145329411352110606926409657331597505),
     (True, 922108512480441794723951476991006021075, 1832876295288540002267869300868821605625),
     (True, 340069782893599724530854082896399751316, 283177909839319082134009424801841169126),
     (True, 8117466011822120120745528630460960500, 18858767871530106537055385973192607598252),
     (False, 18001072013625309445392982645607419247134, 9479982266044965941139418391621652893078),
     (False, 4548694705883462977981585899980320355441, 8390565137055451058771314261375179903585),
     (False, 3563314589035876754676145224631864458708, 2510370284539389580222553436897459342213),
     (False, 318968143364910229071008615537422987031, 15381213368278193359867389444171394377860),
     (True, 23948754312283797305894596942531135126434, 13141263587204363069644592465943505914074),
     (False, 8740695528960769785101481204935611563412, 858000744963162942060994796890207168808),
     (True, 74520723899630860343926291187323604439, 19603227265107078576245240238081531412907)]
    (hexi 19603227265107078576245240238081531412907)"
    by (simp only: chain_rules)
  then show ?thesis by (rule pow2_chain_sound [OF _ assms]) simp_all
qed

lemma o4_n_2:
  assumes "power2 19757330305831588566944191468367130476339 2091888714853154693 19603227265107078576245240238081531412907"
  shows "power2 19757330305831588566944191468367130476339 2246148404291442212404966934 5807354526329973776940839584007547898291"
proof -
  have "pow2_chain (multiples_of (hexi 19757330305831588566944191468367130476339)) (hexi 19603227265107078576245240238081531412907)
    [(False, 19450326195842929835955360675950763831445, 15103470954901421376513216613316169510794),
     (False, 11545832931599078745574029588029197190330, 3414241553426565695093199834103937908566),
     (True, 1180022321305621550791466652476014178136, 11676694876518579601243487210961073228608),
     (False, 6900993258136272264316925183357509507013, 16506654837968491184141812380601278552257),
     (True, 27581626639041029411303922857240249666833, 8612688314379037259666025456862420023711),
     (True, 7508949726749941459631229288273949973568, 9414904300215241232260624714287305015490),
     (False, 4486457512736336997361831844319038098300, 435705108150346903965159130541433816400),
     (True, 19217064079985795094216270294248515985, 18772652047336607671406033737320912141085),
     (False, 17837048803418192473220279548311854733676, 216270484648483705049703522717080485061),
     (False, 2367370581251278403722965816223282265, 3625678127686420775532009167387543345886),
     (False, 665350109660497077405722145502054899170, 5149350621479649566232555868905117386366),
     (False, 1342074633185963699652324110467744524496, 12361746476791716654432770976843388785812),
     (True, 15468970107906540904531198549313154643209, 1172131063560488075419871862789463466837),
     (True, 139076606899457682421136574241747802920, 1947456036028832605853897730663702459258),
     (True, 383916749232634076868846082976734306874, 14811579295750740854449310040939677766842),
     (False, 11103872731710052706152506819294476021121, 19225620332140871327210919683601959896945),
     (True, 37416439512228008567699061235773507097121, 13960060100916944636366497489440175146031),
     (True, 19727693469161804580598311108276119025965, 17346315590094180754837533242033190963787),
     (False, 15229520380207042920296901863529580495159, 10922988966528132202468292568542791838468),
     (True, 12077713548948380487736506938084544748111, 18100813620737317680156972534990608728419),
     (True, 33166369004415874453285421051997272986840, 5397444497224535627262680516229718100362),
     (False, 1474511315530351631114481833479063396095, 18041248118887594315696159565989522034839),
     (False, 16474221397776311879920831178914924326715, 14255677331121657048233458658898316659536),
     (False, 10286022100317472646128932109436410644666, 8635475489388849910809319681279090177522),
     (False, 3774368083820769808332372710458169806011, 16180048278757857621174426190295818586755),
     (True, 26500945041715864518622331523202947564992, 8832184709570162725358267579097802135762),
     (False, 3948280741196103345044652415908222198974, 3673914295162933430005467107630022244458),
     (True, 1366343128273618876291791713464479273640, 15698305665419561451471649839745897023568),
     (True, 24946366432129286962406993087125606583091, 3227133556061120444171020980690081917399),
     (False, 527115294801837335384314394076250827690, 5807354526329973776940839584007547898291)]
    (hexi 5807354526329973776940839584007547898291)"
    by (simp only: chain_rules)
  then show ?thesis by (rule pow2_chain_sound [OF _ assms]) simp_all
qed

lemma o4_n_3:
  assumes "power2 19757330305831588566944191468367130476339 2246148404291442212404966934 5807354526329973776940839584007547898291"
  shows "power2 19757330305831588566944191468367130476339 2411783484598582588738304622603409481 3116706464691121822232208830202006085180"
proof -
  have "pow2_chain (multiples_of (hexi 19757330305831588566944191468367130476339)) (hexi 5807354526329973776940839584007547898291)
    [(False, 1706979944781852908541666704435200725571, 1682996929309808442595278090651632956112),
     (False, 143363431203567407571437881109704892168, 13894969628929111689595452049907247743592),
     (True, 19544156826884214721019191662736657270093, 4180692966765390086900430127720285295401),
     (True, 1769286984811173823980999561589138418735, 14352364924342046256072688791025871690437),
     (False, 10426022935937027635778052163086409133554, 14375054909927868804190912809347669272163),
     (True, 20918028950748336587048931585331186944698, 19571282801844662067742664337465542896516),
     (True, 38773974477384094031287433482095139818716, 16391378967931793004839352111002982515788),
     (False, 13598866866696748753999737946278859450552, 11564717337363423036608599393638092771816),
     (True, 13538538357445848663489629898489785570151, 14235383532233750166484336876146357718523),
     (True, 20513514849724271930854487467834749902947, 15959221112549160346246651132649264732025),
     (True, 25782505488006988192343824350003641099786, 17586164952392367219799354506158110237796),
     (True, 31307185024028101658834724696048914661767, 11928548357951797696981894721335552444219),
     (True, 14403794816954194117146020113968775723260, 524849565703421183270312505587171094782),
     (False, 13942524741703729158142533548147500287, 14582637383276471324498961480093978418231),
     (False, 10763261521692813831232777509352609145494, 12263539898472494077194558563500777702895),
     (False, 7612081617982375999688556402149779227729, 9946549506586676508295279814957564176894),
     (False, 5007450174469081418196467463253201501716, 15683757686931630381278583322938517589512),
     (True, 24900151121103976948357222818165365757118, 4237563034418926893985225395939144965286),
     (True, 1817749685074967770868431812129874478362, 14863274210456896743096292734764081646874),
     (False, 11181516775575042234692148879173769995125, 265872784925332325263061557017076124501),
     (False, 3577828414554956165570638043829062106, 8772235075335678664098979803506257989067),
     (False, 3894863679747071770256829760512653083676, 7187407821868695670541883281535586388325),
     (False, 2614666576820434511794370425187651080615, 758198465794860330415470502304657237140),
     (True, 58192570011749252121558130031286767426, 10653747182369981405393508137341501825786),
     (False, 5744821150879624889995136013396957740557, 5315728706825655226922789919026905336973),
     (False, 1430201917322301569723119310857660392955, 10738096786235579312948064898967611010984),
     (True, 11672297907225740636589426697695777275152, 11211437261921008878652227811551908667984),
     (False, 6362009620342796317817042256771771609274, 17949873054152915805010850290192936656370),
     (False, 16307767176676938830744574323837634238668, 957669989516387990413462810197008700448),
     (True, 92839649347727649683214990238059249452, 3116706464691121822232208830202006085180)]
    (hexi 3116706464691121822232208830202006085180)"
    by (simp only: chain_rules)
  then show ?thesis by (rule pow2_chain_sound [OF _ assms]) simp_all
qed

lemma o4_n_4:
  assumes "power2 19757330305831588566944191468367130476339 2411783484598582588738304622603409481 3116706464691121822232208830202006085180"
  shows "power2 19757330305831588566944191468367130476339 19757330305831588566944191468367130476338 1"
proof -
  have "pow2_chain (multiples_of (hexi 19757330305831588566944191468367130476339)) (hexi 3116706464691121822232208830202006085180)
    [(True, 983316980248113882891791668872215306287, 7308133757857051608325150864185739821507),
     (True, 5406481361195408388110703941940277185838, 11951838282062243661396897468505074615016),
     (True, 14460095175754175757467393118212662059759, 11166573888284832482162356906566671818211),
     (True, 12622390826327416052204363651926760834709, 7639791988753127129718196573076848030691),
     (True, 5908330804611692317838242544622579025532, 1228861237180856371139865819936152987614),
     (False, 76432388226052114724526162604356095735, 12269325361069731028457136747049201098831),
     (False, 7619265482004745560154399259635426915544, 5918703698850793400733836064887586253145),
     (True, 3546132289386311574819410644534201372132, 16339114451600895145340672360191484797302),
     (True, 27024568292378564807076738499169820730840, 19084947610355070521900031989049745363648),
     (False, 18435447484647749799414404734316296361536, 14844156124004850728336875399467522171200),
     (False, 11152770522280145523811701749013994537467, 18290544821388317092614628490158416946687),
     (True, 33865307173051686578565390960835052860400, 19757330305831588566944191468367130476338),
     (False, 19757330305831588566944191468367130476337, 1)]
    (hexi 1)"
    by (simp only: chain_rules)
  then show ?thesis by (rule pow2_chain_sound [OF _ assms]) simp_all
qed

lemma o4_prime: "is_prime 19757330305831588566944191468367130476339"
proof (rule prime_by_chain)
  have start: "power2 19757330305831588566944191468367130476339 1 2" by (simp add: power2_def)
  have "power2 (int 19757330305831588566944191468367130476339) 114831751082918 9148758478138211201771971577098600188172" using o4_m_1 [OF o4_m_0 [OF start]] by (simp only: of_nat_numeral)
  then show "certified 19757330305831588566944191468367130476339 172054593956031949258510691 114831751082918"
    by (rule certified_int [where s = 16371654433361644093796961727196399386194 and k = 7580999557119167215323054323116539631207]) (simp_all add: o3_prime)
  show "power2 (int 19757330305831588566944191468367130476339) 19757330305831588566944191468367130476338 1" using o4_n_4 [OF o4_n_3 [OF o4_n_2 [OF o4_n_1 [OF o4_n_0 [OF start]]]]] by (simp only: of_nat_numeral)
  have "undivided 19757330305831588566944191468367130476339 (map (\<lambda>k. k * 172054593956031949258510691 + 1) [1..0])" by code_simp
  then show "undivided (int 19757330305831588566944191468367130476339) (map (\<lambda>k. k * int 172054593956031949258510691 + 1) [1..int 1 - 1])" by simp
qed simp_all

section \<open>The prime 276602624281642239937218680557139826668747\<close>

lemma o5_m_0:
  assumes "power2 276602624281642239937218680557139826668747 1 2"
  shows "power2 276602624281642239937218680557139826668747 14 16384"
proof -
  have "pow2_chain (multiples_of (hexi 276602624281642239937218680557139826668747)) (hexi 2)
    [(True, 0, 8),
     (True, 0, 128),
     (False, 0, 16384)]
    (hexi 16384)"
    by (simp only: chain_rules)
  then show ?thesis by (rule pow2_chain_sound [OF _ assms]) simp_all
qed

lemma o5_n_0:
  assumes "power2 276602624281642239937218680557139826668747 1 2"
  shows "power2 276602624281642239937218680557139826668747 1704695285 264816795522180568001483414927331184672408"
proof -
  have "pow2_chain (multiples_of (hexi 276602624281642239937218680557139826668747)) (hexi 2)
    [(True, 0, 8),
     (False, 0, 64),
     (False, 0, 4096),
     (True, 0, 33554432),
     (False, 0, 1125899906842624),
     (True, 0, 2535301200456458802993406410752),
     (True, 46476436684064842683, 70353966269710811067824481980038174682807),
     (False, 17894553902857206055508041733161791055307, 212856644023487045304013853280775616008920),
     (False, 163801594517078895452742343591837327292910, 156582828171149672818525621127440707882630),
     (True, 177280907162405572089078559681975578968828, 76081431650864465283242547450583116615284),
     (True, 41853429677885589353303442799543486311222, 174027431430060482746779183325769382022478),
     (False, 109491176986473789992688937980024998301747, 111011292360259784473943481815722376859475),
     (True, 89106219172722199554433830872776694950200, 109928747843697709402756356406844733151850),
     (True, 87376825392508000094615690086792394745997, 14317682655849506634191859832484593589241),
     (True, 1482242167195657404753202406891139262797, 45192329780444293748055185797388162206803),
     (False, 7383685083569108084944879168518245679252, 90731068547858551758062419989841524743565),
     (False, 29761564342405130916628314076928722820248, 179318225697468380159041016549542288519969),
     (True, 232499790273481487111073822560174943919155, 134240868605597167973721818616348890373137),
     (False, 65149818628026690343745234418739555281871, 185627809385704545742869161440404559835132),
     (True, 249149361520518102642170573648418792475790, 46480228491231259869716209852037695779718),
     (False, 7810524741794540882184071639995880796346, 191943484231664255973159830003377270161062),
     (True, 266391551668559646180640082460820822359492, 219967045057132398030342790774676006739164),
     (True, 349855689452168353429766638026389478633597, 250745098536287159231538567699286758744833),
     (True, 454609601794332389339516905310790383685182, 221648017188464041396044481869418561988824),
     (True, 355223264068201415565803525288081503817552, 143044699768437632002074887302145173358608),
     (True, 147950773677460612094795483770259960123406, 114177770231377213637910079168133932003046),
     (False, 47131017823370624232475307672166544259170, 217622382134961419039905059263235646118126),
     (True, 342437106871934794724340294533533148852452, 203723616741166263379903526628056508786108),
     (False, 150046703735688744875885451878844131290845, 101956565890192115988601486640438365066449),
     (True, 75162998580494658103435237372936191731902, 264816795522180568001483414927331184672408)]
    (hexi 264816795522180568001483414927331184672408)"
    by (simp only: chain_rules)
  then show ?thesis by (rule pow2_chain_sound [OF _ assms]) simp_all
qed

lemma o5_n_1:
  assumes "power2 276602624281642239937218680557139826668747 1704695285 264816795522180568001483414927331184672408"
  shows "power2 276602624281642239937218680557139826668747 1830402625496510356 164245360654508702471257254509649902927307"
proof -
  have "pow2_chain (multiples_of (hexi 276602624281642239937218680557139826668747)) (hexi 264816795522180568001483414927331184672408)
    [(True, 507066304036441456887858525916262040575951, 232179462166430805108443018569214981533531),
     (True, 389781570524823338652639872295517529186715, 256419174349469629550445421296978336559817),
     (False, 237708492986367877696525933153093977528090, 169203232511839421241940569827660101470259),
     (False, 103504925041145791903799772468411819718862, 260566261853566214888724898281293919721167),
     (False, 245459626396058473383071313182829868423563, 222538270137709186403989005634748337356328),
     (False, 179041257488065071391916062420410446701673, 79759462587725454381152848185850739929853),
     (True, 45997914074779700278501057689235789999765, 203053551521260696669200178733578858358763),
     (False, 149061292865447710908122852357145068309308, 52447857060452146514517244401496966093093),
     (True, 19889744122114503382022368596211286106042, 122935924436072566902350157573862435343924),
     (False, 54638821870190009106684202424516419303517, 130451462592376927117089742768880152634577),
     (True, 123047162959398949512434741504663929234462, 78222396131556472821117932889100821178744),
     (False, 22121060031346326443549911877730009787815, 133448338832920893863264675058453835499731),
     (False, 64382827832946150187093290402215201292383, 140045514475016996126235836163122465818260),
     (True, 141811714010363911779108684991055717876850, 170729153373929162828836771967591609048250),
     (False, 105380214260364746409645880362397525076781, 71527553180435404333214180810588199999093),
     (True, 36993075371335657471731598275637104666567, 77803624399962516347353826772778606963749),
     (True, 43769678508955486146361887327604857668664, 206435616331346379784669892916509390225994),
     (False, 154068182833691180145453895463434914131538, 135776931645502567033136823615265281645150),
     (True, 133298628058540864254078314732106402937636, 75289930501705680228100779136444365782908),
     (True, 40987128373589239846074423256802586820017, 82394338154934170359464596866654401964229),
     (True, 49087220178194141087108369814057268854500, 134674830741160024858462214123855150817382),
     (True, 131143441478648698177031330893129495911833, 210816797637131544558353970862241818084597),
     (True, 321354305884833537424498232110043172851548, 48600679529942174390987488114058095134462),
     (False, 8539420249198644067693178334696677089898, 242330486699291841957025536627366274011638),
     (False, 212304799842107285817424104402172239223454, 212155371055178793120292836638250788250906),
     (True, 325448115934942305369801961591006669488370, 30699225405018380488480178788957660669282),
     (False, 3407207154725012632403458999169010124638, 149457686695183284197034547590001369106938),
     (True, 161514014339437228891310318436405309249339, 231971657127414513688607902925195777763455),
     (False, 194542079454920477286930578860262260505549, 44591351396097192702425332365621155159922),
     (False, 7188610825707866754440682582293142412491, 164245360654508702471257254509649902927307)]
    (hexi 164245360654508702471257254509649902927307)"
    by (simp only: chain_rules)
  then show ?thesis by (rule pow2_chain_sound [OF _ assms]) simp_all
qed

lemma o5_n_2:
  assumes "power2 276602624281642239937218680557139826668747 1830402625496510356 164245360654508702471257254509649902927307"
  shows "power2 276602624281642239937218680557139826668747 1965379853755011935854346067 20345276778855941742673631520946950501733"
proof -
  have "pow2_chain (multiples_of (hexi 276602624281642239937218680557139826668747)) (hexi 164245360654508702471257254509649902927307)
    [(True, 195056272995165747446768013312393625306502, 252780424058245930244344781875723953251504),
     (False, 231009893535950309810325312229730439568353, 40457958014587486528759939115417282898325),
     (False, 5917681984981655941697449426894753635760, 230995144897712490814626354204924874212905),
     (False, 192907630955750628364155894284769403401068, 53021299221740305600621423418692846517229),
     (False, 10163526750559100613171704951530267700672, 158661503378933536954813767050257900540457),
     (True, 182019044250507272825668633664792554037867, 5967115716907620982023803092099084095049),
     (True, 257455763996734481307312789350436423361, 239045287360052269396496326669176533226135),
     (True, 413175034455683212754287794684526878375909, 52252565231814678577438446720077006060427),
     (False, 9870949635405381435421312026957186038635, 276309912735515660738814925952017486381984),
     (True, 552035021896032985445689455928497065203781, 145996877665706704140236902354034780620105),
     (True, 154120651194052926530462776588288702750206, 157173172429815976039245107952374412410168),
     (False, 89310093119359453980928593665530791538975, 42380965118357990463832855235843004873899),
     (True, 12987195685711248169007482666437835701501, 249973321930109328718430516736547085235155),
     (True, 451815392851435334253087415386344835937243, 99292096711987632987750039307265054303529),
     (False, 35642902864956763089276207272434024752896, 149292031826472855050542006018055740912529),
     (False, 80578088601872375994142492825340900778894, 209204367987549443488126223854560002150023),
     (True, 316457356098734067536514649245598019390140, 149468611161057865530218597464376459846478),
     (True, 161537626625462543915158645388066981749935, 95366977754106419485022921597223024227523),
     (True, 65761201431636907810051232422556299169572, 7331251961035710305025282502486515664774),
     (True, 388624333957608688871476377359813995296, 148217070086301962890463980511185880728040),
     (True, 158843755890032283661487609974420866913416, 237941246288116580214546850094569522273448),
     (True, 409367314082274133555727279661417482299462, 94689240898976288650797682059148041303294),
     (False, 32414921461102815934217836491641363069262, 46020764696135488103929785029729203495722),
     (True, 15313743235209309015248157512409088852486, 191458974073211450198765536467719475147526),
     (False, 132524190066404592566003687338241857439630, 140575148997689222928575529700417903677066),
     (True, 142886370417086908238289413036038391813560, 179592211900117949503309669201316525927392),
     (False, 116605410591968419672196325377345716375982, 138598326955997689228203526517517235087110),
     (False, 69447989818932984077492409193238322022731, 169915272418767322633817820212166746864043),
     (True, 208755790919370938131383959249834661555528, 258265603259370148438207476860680049928282),
     (True, 482288423691960266206745533367674112259145, 20345276778855941742673631520946950501733)]
    (hexi 20345276778855941742673631520946950501733)"
    by (simp only: chain_rules)
  then show ?thesis by (rule pow2_chain_sound [OF _ assms]) simp_all
qed

lemma o5_n_3:
  assumes "power2 276602624281642239937218680557139826668747 1965379853755011935854346067 20345276778855941742673631520946950501733"
  shows "power2 276602624281642239937218680557139826668747 2110310549023759765146016544777983296 14261549569120370996774703612027084589805"
proof -
  have "pow2_chain (multiples_of (hexi 276602624281642239937218680557139826668747)) (hexi 20345276778855941742673631520946950501733)
    [(False, 1496479971161744414639507896214826429791, 128600432662998803847903437116893626561412),
     (True, 119580002713720457780033521749688811811111, 181411410393591215366863925418831083819571),
     (True, 237959418544650270671403542444263395026220, 272823773989774864087860001728573645701742),
     (True, 538193098112003455369755597785730670947562, 29893560008760373580804060981334862424314),
     (False, 3230717468130204731060741740958324676606, 97773670139190902901898330855586316137914),
     (False, 34561098606040142294320299600940895647650, 46297005218628063141393040218938089276846),
     (False, 7749068533895069243015504051663621348284, 207335271996450179596998205464506846827568),
     (False, 155413981069358316342157950989114373392026, 179666137266174470148399040054455651583202),
     (False, 116701426691020094924660494941284623677561, 51917688246056186138339340006614244686737),
     (False, 9744832898151118407665289329936950847207, 229461634340221322260043665222001064567540),
     (False, 190354815941563448168850417881308220348144, 11788757005839887734863395228031117396032),
     (True, 1004869654463091172246524325684041474108, 249197566260479375446657796315315765387372),
     (True, 449015458124613807572105692622534303748020, 10478776036212785150505051485705337001828),
     (False, 396976520024994314101596180935554074049, 187480237397385533269567953947756243294981),
     (False, 127073412646984854702795316312381361818477, 33594551686312040116874895799782756752042),
     (True, 8160399099143286491257779041534706710175, 242894795911868408099838994824244282938803),
     (False, 213294729340656582484091472786845801695300, 183139025912900202994724530817866116283709),
     (True, 242513265370721446186635483212954734921988, 20690597397637500157268708465768994884326),
     (False, 1547710625605717342827232876951496275469, 208690569172743372983426134170549995406933),
     (True, 314904847882414400127129486112257407984833, 206655756330490786494333263061715837818727),
     (False, 154396950265527777006944181060052905779072, 34440364526853865582277195644726802837745),
     (True, 8576481960885694948243835062436185414009, 185168289721443850711563577304460097093327),
     (False, 123958677570074565892958707459774197497312, 60736295561698986065304732445552701020865),
     (True, 26672903831902532947834215510757308098640, 137968104351037473473229019532470649492370),
     (False, 68817849677509755252698048376318653319509, 81248670880993642536724262811021792531677),
     (False, 23865813048853806969944922921693704246113, 61153298704317222226487113773263235101918),
     (False, 13520211357834348814835677796559495952905, 97258459725170291265667087140645299918689),
     (False, 34197824451878734629881594509410819485862, 53681303967761676999050688458591287723807),
     (False, 10418131075810183904691659441242756537073, 148869847657225780635933793553387918615718),
     (False, 80122998106191471235957918968950885892677, 14261549569120370996774703612027084589805)]
    (hexi 14261549569120370996774703612027084589805)"
    by (simp only: chain_rules)
  then show ?thesis by (rule pow2_chain_sound [OF _ assms]) simp_all
qed

lemma o5_n_4:
  assumes "power2 276602624281642239937218680557139826668747 2110310549023759765146016544777983296 14261549569120370996774703612027084589805"
  shows "power2 276602624281642239937218680557139826668747 276602624281642239937218680557139826668746 1"
proof -
  have "pow2_chain (multiples_of (hexi 276602624281642239937218680557139826668747)) (hexi 14261549569120370996774703612027084589805)
    [(True, 1470642562706707416351154419476382414557, 46709770264656791214855775330652550125971),
     (False, 7887859501851512966122659782920135886906, 99990267136941987179324002108135651966059),
     (True, 72291819704044497615490074180541589457373, 246278152786163021896943022405382228161331),
     (True, 438556421489382910420410377987426482762384, 16023598011316136938572114729780847370274),
     (True, 1856494990928363389081009632140570506403, 182361332345463845975517911102232194183111),
     (False, 120228995011092717901681934939580758060541, 183006249711494574980820017591168019026194),
     (True, 242161747528211588534491968332763923940109, 113422257292425085084474080503835906177849),
     (False, 46509350671272293106756240480210335927388, 71061824089083083225899648539649097323965),
     (False, 18256453119280605310762522615481295765105, 11471479317928590902269449841853406647790),
     (True, 951508237374284298200547097759253350874, 114064078156326435174241717479621662833322),
     (True, 94074406990476576693716201880599781566621, 821121246262339589676506926402228017481),
     (False, 2437576660071356325991488759172727315, 112361373123293941225554991403664577861056),
     (False, 45643378123907381296035709577603977715891, 574068407018257077722423225307506476559),
     (True, 2382873530519510565006028371523230692, 243480722944643250208350079281676085378038),
     (False, 214325018063759033307653567637053343011797, 107201392961138624201561052344278940521085),
     (True, 83094935795742413781698532364962235721432, 276602624281642239937218680557139826668746),
     (False, 276602624281642239937218680557139826668745, 1)]
    (hexi 1)"
    by (simp only: chain_rules)
  then show ?thesis by (rule pow2_chain_sound [OF _ assms]) simp_all
qed

lemma o5_prime: "is_prime 276602624281642239937218680557139826668747"
proof (rule prime_by_chain)
  have start: "power2 276602624281642239937218680557139826668747 1 2" by (simp add: power2_def)
  have "power2 (int 276602624281642239937218680557139826668747) 14 16384" using o5_m_0 [OF start] by (simp only: of_nat_numeral)
  then show "certified 276602624281642239937218680557139826668747 19757330305831588566944191468367130476339 14"
    by (rule certified_int [where s = 94074944912245044309966580483695483989395 and k = 5572]) (simp_all add: o4_prime)
  show "power2 (int 276602624281642239937218680557139826668747) 276602624281642239937218680557139826668746 1" using o5_n_4 [OF o5_n_3 [OF o5_n_2 [OF o5_n_1 [OF o5_n_0 [OF start]]]]] by (simp only: of_nat_numeral)
  have "undivided 276602624281642239937218680557139826668747 (map (\<lambda>k. k * 19757330305831588566944191468367130476339 + 1) [1..0])" by code_simp
  then show "undivided (int 276602624281642239937218680557139826668747) (map (\<lambda>k. k * int 19757330305831588566944191468367130476339 + 1) [1..int 1 - 1])" by simp
qed simp_all

section \<open>The prime 7237005577332262213973186563042994240857116359379907606001950938285454250989\<close>

lemma o6_m_0:
  assumes "power2 7237005577332262213973186563042994240857116359379907606001950938285454250989 1 2"
  shows "power2 7237005577332262213973186563042994240857116359379907606001950938285454250989 1352642333 1139369185415425288430273286321748804376940360587482645792315684719108417668"
proof -
  have "pow2_chain (multiples_of (hexi 7237005577332262213973186563042994240857116359379907606001950938285454250989)) (hexi 2)
    [(False, 0, 4),
     (True, 0, 32),
     (False, 0, 1024),
     (False, 0, 1048576),
     (False, 0, 1099511627776),
     (False, 0, 1208925819614629174706176),
     (True, 0, 2923003274661805836407369665432566039311865085952),
     (False, 1180591620717411303423, 7237005577332262181220838655797515680085442238763285995306520868193670910957),
     (False, 7237005577332262148468490748552037267540307668870186080822129444820427749816, 2611804832130676291319858385883126619435344693425115756700986764597260087825),
     (True, 1885178727098820731891406126137868713026169488819676955566191267336752566880, 4017485412355440310094926674946908467883027725932059148200319967099897816930),
     (True, 4460460577519254000154614908083969709135982838162369233541486552158999531085, 5954349536862333263040815575697029833042237835187423801778513183288691756735),
     (True, 9798051978343783278418794006374323176637583106976849570273957790464117555225, 105557589556938751428501072189621482849841474754364338700376375882617352925),
     (True, 3079285926757157112348630337259153364883490458613189682035007588027015500, 4827596321863700739405003279911731563091213775333425362972648674818418781750),
     (True, 6440698711044238196006083390196071763307329586897214006752892749035185770768, 3811983215330863293229707139288980898569062990183842372811515657258174835448),
     (True, 4015808991353794025805456034107131254746509694422359031679193343094062079076, 937781808683861718277875613979453994729442522256439566052168817096085515244),
     (False, 121519143698457150148402787929160464601486360567607496437357575251095675679, 1110076267799312249603094516958336734885867779746383368477762331179147383005),
     (True, 340546737780875140957277988865173993670081434194262030407868215121144036916, 3602452038933096886909846666721965718006048048612489491542586132439780150126),
     (False, 1793236243103340414126070225649795135369080081690096111000907629793505025084, 7125774810740666022623121613736269223021558917840936527390279244486221007800),
     (True, 14032507260303563176004557654754349381931955484871945272408933305027973617221, 4177646349082429697640394332056893210165526240831812219179769757821774998431),
     (True, 4823190705467234999394338508689652519680349197135289616417099307638095650067, 4817605178043158475489090468488951008977997557101018685879807842325572257259),
     (True, 6414067089903716018112317678896853725554108106941448719186333943699451337391, 2589870763790148150344111952240530229032624834247000605612789702238721956463),
     (True, 1853648032037993482985491965454657361362492081754614428946638017561741160485, 5970438957854705944380525230652300172709531223543142182298385140107615971073),
     (False, 4925537360523802348250306482711578556825987725710529495005551291821681464755, 1175903960616180080889157288408106529894096820106321245821673607801845378634),
     (False, 191066610328982834746374093136655894302694606187925785179162474035355085257, 3726150025039699938929026044735931681432159900307483822495469680013652136783),
     (False, 1918499835427985255930231457452197729189608629537182893618618577797591965733, 3235137147955153393239389755332453315147462078442311316029612338584072229152),
     (True, 2892387536320642112384223017198930762765384037206581019311523439023816467732, 5878319334376293248365392831773361611459433206296518087545571492531049691260),
     (True, 9549429754520055131960380765470724592281089484241121278983265241186029103870, 1425425448580836209558132689396693829236221266173985235335486938316909547770),
     (True, 561513373936313409693424753723187194364686415050592243573510094344263366101, 2120568748155080600683797443334754342602943838034801786544658958258975621911),
     (False, 621363596808176124213104158369480103882669841277557863243014924301439452903, 499520584794519990120309964324635657320633152822213309979224123229416620854),
     (True, 68956922021728972828328363664171338397364267948926361589243183935354392276, 1139369185415425288430273286321748804376940360587482645792315684719108417668)]
    (hexi 1139369185415425288430273286321748804376940360587482645792315684719108417668)"
    by (simp only: chain_rules)
  then show ?thesis by (rule pow2_chain_sound [OF _ assms]) simp_all
qed

lemma o6_m_1:
  assumes "power2 7237005577332262213973186563042994240857116359379907606001950938285454250989 1352642333 1139369185415425288430273286321748804376940360587482645792315684719108417668"
  shows "power2 7237005577332262213973186563042994240857116359379907606001950938285454250989 1452388646377026333 1845361661838516135180268783192527985744959146440731445237671749858046871041"
proof -
  have "pow2_chain (multiples_of (hexi 7237005577332262213973186563042994240857116359379907606001950938285454250989)) (hexi 1139369185415425288430273286321748804376940360587482645792315684719108417668)
    [(False, 179378352939275221605994312316747492950830748011258065255282512451272883394, 1437977444237429928769915285643319893610097778392045018724035324094128381558),
     (True, 571446051281846603771694712682937300422978772230449701382281028804101617363, 6561688620917912004004213372806927110841566994450828736734825508058226692721),
     (True, 11898776945189261090664321418729136075871170743325382929581037304752511823372, 4514471880770372973505872640590308294196817521165128112794289069430584452774),
     (True, 5632289803976943961003106586660494670250894835453614188121963895087236493936, 1500444802511618633933524210771063245765362910351225142911069406962752087448),
     (True, 622172964032460344418415123350700241480958333980622394602105529853754808361, 3657020186905155123499389687557573367730793822000684892768077175016388586379),
     (True, 3695947586200900850613370982578036464257833004624288601982471008508127944300, 4850344185767635225107706174644929111293116540133812628948506768267076750582),
     (False, 3250769737430837463636531989155289931974283705300339131187315501167882311420, 6180783840200222662920904053383527818540706043311650923895756743741696344344),
     (False, 5278714859490606982664642978658975420830951120585002706238739648488892265624, 3396120435908219389213880617461848588781281634402929565603447715239268088200),
     (False, 1593702518527699478232578782661590362687633959821591661271486741547990292101, 965619591279968602344434368338918612134160240133832769149408062948701102111),
     (True, 257681491357204934276811710440032937427474894157729522812167972095556148292, 5691392155944435834310625158151162189980992221094897088113506879165425651854),
     (True, 8951753408676055997249742015017472750534029412580808247230242563557375461704, 5063884045141117366391025700369213326700675086619040055119989147278253649376),
     (True, 7086610988100792908111708729376358179334039848684525348466282375138274195489, 3376028641225745103548801789062941928330568491187553995036581408704832790131),
     (False, 1574901285426116034546009205495524138297729754386896180622023468516931474427, 435843798335572085711041021712287037888841710763420579974071716651598038858),
     (False, 26248399910395354020782229867858275012688375227454362187330713354291711956, 1623984475907613967740195506245056013989799347608068708149069746581161819680),
     (True, 728844423237576256126949266331969567460901013472727112701637209028715266716, 6977111591715565755810367626184354019123682152056362475559002166172528822676),
     (True, 13453101740235604313388195151429361920676624341092816557807713326292334072381, 6178583140845116446978992620247260732628621170336415772673227709850836767143),
     (True, 10549913004877828170252860095092308461713259234945751830982325708631525309849, 2182689126414920216193923106936800717679195421568139464842972315160769074237),
     (True, 1316603054028902219659709382626905223888959408990419198957791577584368525680, 2885453622033188444158597956786647803795336188906141635904697789513422366818),
     (False, 1150454081586262386348676895878636628212008360850242589283252171461166809912, 5145745539838177555133627103053671229471831670527412798134386673580446442156),
     (False, 3658791868794606438832004976534700331706402582304141592319406032491091711080, 4743142618867068972568744494122800357280383972099262530237870946310861670216),
     (True, 6217323356328337041474674632160684886678389410970444914180808830070529621421, 1107554376125822989571401554581261258080092292287160240413477339692998137943),
     (True, 339001174717249313788311203890265002053550575734873993698767649857855571593, 5975209018297670150835835507217814336139647884744445701348654352110231987021),
     (False, 4933410984810495884900883310532892374241443273171199011340747346120503123476, 5573444365848962473729431320998493393986545539782570542083647210921350336677),
     (False, 4292283841332098468300782335984846195238332294480339033367574273681282083519, 1196503838460363647830489001845405599061731334861857675097421552679765052038),
     (False, 197819584378172438452565870086241223158391154858942676408286465143828491188, 6274767538492446986828372664311936975920639425811260434366619472276321168512),
     (True, 10880938874896461823792144563861036454692211580182722863094047534308246662354, 3675016020712552690134451074537405002577983476101811972594219691553947020182),
     (True, 3732411867913047426365924351795883464567737315011569410738064252025153782146, 4833793800694891698927235503984320150792955043680670202360665167007319583854),
     (True, 6457245958417372366001194853950713863080161269408558127184201731024032053401, 5655530478811257262365822935562061499230730542274391948860453187281369923043),
     (False, 4419649073775282851911850544639413680037464361129072120896031457692106535651, 267123692686847191988093182870624308622236491355678879225205325375911871010),
     (True, 19719500401700784144134281928461317407200834184903825093541068967894846531, 1845361661838516135180268783192527985744959146440731445237671749858046871041)]
    (hexi 1845361661838516135180268783192527985744959146440731445237671749858046871041)"
    by (simp only: chain_rules)
  then show ?thesis by (rule pow2_chain_sound [OF _ assms]) simp_all
qed

lemma o6_m_2:
  assumes "power2 7237005577332262213973186563042994240857116359379907606001950938285454250989 1452388646377026333 1845361661838516135180268783192527985744959146440731445237671749858046871041"
  shows "power2 7237005577332262213973186563042994240857116359379907606001950938285454250989 1559490434317759247405955636 3842146550872381237203513431230549047196706059773248818115231798531491921839"
proof -
  have "pow2_chain (multiples_of (hexi 7237005577332262213973186563042994240857116359379907606001950938285454250989)) (hexi 1845361661838516135180268783192527985744959146440731445237671749858046871041)
    [(True, 941096321287818900916587196138551209470776194697025396617675943601202862807, 2260527335106983930074679913577278208385982821465748678292415154486257781239),
     (True, 1412181814194358494587100763122910805962330748314243723759779138386028156934, 2783269685281434627935444849556554892494832325639038663211292882691244042516),
     (False, 1070413730959455653525368758291795756660876345783129608640980765195155138145, 6725323525365839703718628360323971980066436962981005526849248157025817734851),
     (True, 12499638431261810698812452328435659214846438316199187987049242515812781088223, 4704802044303763536159546903309631354190630547693465205991772027952285981855),
     (True, 6117215757140382461339898880205785178930257707744760560318235920017045222249, 2763690157806818824802035988750538821474694446523544853706487223053445427789),
     (False, 1055406577588106149488332422191575682362953718313826929550497532631790678098, 5738153914782625623838146529072198090198883432736635298604143775252216289599),
     (True, 9099456950224613351501343530496318703265865408458829757398389044504788529671, 3912892250095155041810666317385178645293238720956130669721420819099363566983),
     (False, 2115616133945088716176048083183160267073797868878887239833124768577836567285, 3264312685169514244821452160846305435510914073744642814471393207190551427424),
     (False, 1472395895331971042961989665402837039929198251734146586546987691000124761101, 6591681757659379865112286601113410276962543706833737456148011305685421296887),
     (False, 6003901465870679390730458512419635627139022350360233728578549963586878628690, 743511002384845381334909495207431841448404784873648202372095295101599616359),
     (False, 76386373446888563696907795802901235523895681745275726694886109721522686771, 3497422166423102048698901595977028881009387895649021247599372731509316450362),
     (False, 1690196543236141280905447628689239788262711520194952425797987134721873849448, 2909471083522110165711060240657929524451861520969684902813887100622618826972),
     (True, 2339371414156554099651294029161741178640034064068312991046030419168419693750, 3572580424592613849087134433433762548260023354990695903963662777775534758818),
     (False, 1763620430272933119788907965765088727970825150503388170313453066208922855059, 1731694890804388718101801884318231082875256957448040938735802585543174353773),
     (False, 414365743233742665779160911601057711009836395510202707265620284724117782459, 1063930095449879844393366599576955776084541343883679968111228369066671733578),
     (False, 156410995667804080878366343374135399268399252916009773516485698474564425901, 7025378486590662371498458191466820183502228385479041901486335420701066215995),
     (True, 13639879740992190010645851345888025210069091738539037970497213810322516157056, 1348556146240331667086051196855715518507523956390952278528765356824820351666),
     (True, 502584573171755586175636180031254532439713387086661635273847157707658612378, 3042255317122063440595711132825626834027267886944608041706199439570743809270),
     (True, 2557775399136614685756650177231176436260143753001454680005760522664008024564, 1348252109991741172735449851352185443159453945778082134498579167458142572004),
     (False, 251178990077172473357949892755059379440916442029337427493208113508133250603, 6453769709553246824009667300669756849432575763343591304051511793955126979649),
     (True, 11510601454946130659393985327075359750414287165349648193709161026119188815264, 4604270491351603442866954559541718158172924404873643674795870801391110030306),
     (False, 2929292582547065039428247276158744096043704361985568080709066210623969999095, 796341523453050335404220276658866817922914186199357311139774486690005598681),
     (False, 87627377815189135763551196719921277597252160498296968966491051925211186307, 6194617715409362199404257189122770961122006463841266473352560544216410932138),
     (False, 5302371019342069018214281194594999684423831177585825109857029367229435994749, 1958832464138357784733598358479952567123214779175085325295519136846109194283),
     (True, 1060390124495875306015556980744839596331180510761281374897278720456210295189, 3946464569676863857950075319426219063668413244333104059403475783808294576257),
     (True, 4304151056204095792070075949264881222076404282730890029562719515141449874345, 6532189792343843294611617672391353646514095233007271760914677058326234282893),
     (False, 5896016387889827810156885668389368292044113528660142563938624360774503829329, 6869235043837095817381338677346472732152352974841671659348381791487966993068),
     (True, 13040307785661176347061474003540761065321876473125413556810106556484710960363, 3691870950161008658652252554906113387575407324212104503671413285072087556241),
     (False, 1883363356155802282691409421920283036301105847505899145632917045284290179410, 2958322708905941519728065555336946935595792168180216859144904822789358113591),
     (False, 1209294805221729489259258784278661786725633062622095712627083604501905116778, 3842146550872381237203513431230549047196706059773248818115231798531491921839)]
    (hexi 3842146550872381237203513431230549047196706059773248818115231798531491921839)"
    by (simp only: chain_rules)
  then show ?thesis by (rule pow2_chain_sound [OF _ assms]) simp_all
qed

lemma o6_m_3:
  assumes "power2 7237005577332262213973186563042994240857116359379907606001950938285454250989 1559490434317759247405955636 3842146550872381237203513431230549047196706059773248818115231798531491921839"
  shows "power2 7237005577332262213973186563042994240857116359379907606001950938285454250989 26163907866482859529727157400808004 2975531125133123119648879457563281269120703404158613135195788908093573672641"
proof -
  have "pow2_chain (multiples_of (hexi 7237005577332262213973186563042994240857116359379907606001950938285454250989)) (hexi 3842146550872381237203513431230549047196706059773248818115231798531491921839)
    [(True, 4079612751610509098788772396336034160423649206727600726528458891600480105355, 7019635331666654028133891614922621875771510745484690196827807151320037337747),
     (False, 6808794005067893418001365792221646053845783182317500270155761809772783997243, 1332918924517356882699493142856174374310993703967087778967135001901345012682),
     (False, 245498340487866880215618429837366470631266417091779108350769242608455356508, 6374188420617293976168651343404034082532951537575058732434544356478634246712),
     (False, 5614238870948737033508195673741085500858327650494163497212370002494426763410, 2856007608584746157073667060264289817653332707176298642580825093446621298454),
     (True, 2254186313146590005311853013043737433384862678416060796308844812876313550296, 3226068417891948299204455340991129141456912027334892355609068506217826337488),
     (True, 2876194394410381150508890941726559727901239054776095394182853468771250503748, 2768625750172722694288732356310649089557468140019638981849507970597871093516),
     (False, 1059179582302475562269853740525530299192733803870415800758982067796915118219, 5870908681857710792663355422604293191594190733516577120405727644002584573665),
     (False, 4762683734647311768470264414843641555356801115116255477675990479296423951281, 43340748415225003893213662881322179775429115183868834776408243912129465316),
     (True, 519115386362396739297477638155513070313992154357650858724313797176979999, 1217925815792693538171927343726237615542613503879357150038879797016514990701),
     (False, 204966443223482328464602730190048245463009713519627649140264438131951466846, 69124628901190054606737025558685767785245782699553476921542446429320260707),
     (True, 1320494856517329474994531784831322442856278673047879388745551819040063036, 3490019556828185374794009938742705143051500224985716324468754364128170937094),
     (False, 1683049208251838519838532484307973073636472740648728926789370215163127538291, 3099254869956675443167523301600884608033458798877158734277036696017283045037),
     (True, 2654517989881375270444887583620497943927314100240602025434359368794372299891, 14174788217718845098876324885237656234077953282388351819005717707249320539),
     (False, 27763502303565549735555363852485162495366731108471674319496440843172763, 132519813397325631271586313887749444914019736835409931230203406200676637914),
     (True, 4853250631136201477731363276670582356694521643197931199935271164776433530, 6469539990136696692195297335980482989915450267966377404966348771988429281622),
     (False, 5783462129015891955269966291299480499029544717905330632872867950894482422534, 5129451927560834399831211981051166362445360162975388049316268502513801564758),
     (False, 3635657979810006127563023890795605377791458167194151074125861847802556028610, 5457226314789839271281202031632734691260975151199518578614870093195262803274),
     (True, 8230287715713717791909582339169995180231836778814793407235244644073753572734, 4237384754090503099216940166079123036783892202138438950425714342294947304226),
     (False, 2481057857746939199964201523464926043590231971919656365295098640739305944251, 3007451707067829586002618916901521083425011859863474962108993888300001844837),
     (False, 1249793947744797067928801553195984031559706199141510056794080934292803457998, 3563261994466887876552575845726691709939174004975931541978581777795212096547),
     (False, 1754432258692898357239585418871764500034893269313110597920198388853503020434, 3233177761479467822872886232408611582284494554515571783939188293838617613983),
     (True, 2888885002401442494253691067498378601972967660612107312190248928334413468972, 365979940237149356608087986514861648705115591459065704776577207044542435270),
     (False, 18507836594118180807166378055642526409990205611621147499734710271072611193, 3743276341021084130220847770418178715050142664038367499324203904051907253023),
     (False, 1936176173352267343520497200905905078743049758970125478992980689367857384192, 2975531125133123119648879457563281269120703404158613135195788908093573672641)]
    (hexi 2975531125133123119648879457563281269120703404158613135195788908093573672641)"
    by (simp only: chain_rules)
  then show ?thesis by (rule pow2_chain_sound [OF _ assms]) simp_all
qed

lemma o6_n_0:
  assumes "power2 7237005577332262213973186563042994240857116359379907606001950938285454250989 1 2"
  shows "power2 7237005577332262213973186563042994240857116359379907606001950938285454250989 1073741824 5163316386418799127306362420515719783955892287169087990875515794646706657631"
proof -
  have "pow2_chain (multiples_of (hexi 7237005577332262213973186563042994240857116359379907606001950938285454250989)) (hexi 2)
    [(False, 0, 4),
     (False, 0, 16),
     (False, 0, 256),
     (False, 0, 65536),
     (False, 0, 4294967296),
     (False, 0, 18446744073709551616),
     (False, 0, 340282366920938463463374607431768211456),
     (False, 15, 7237005577332262213973186563042994240413239274941949949428319933631315875101),
     (False, 7237005577332262213973186563042994239969362190503992292854688928977177499240, 1627715501170711445284395025044413883736156588369414752970002579683115011841),
     (False, 366098619717808128819716404516769999285687009209230871130201714971063287108, 4460531758850015836181350679139994174100493552997170650645149546199170259469),
     (False, 2749250827445665192446140270154516795078445639981165598865190313677752906816, 6296368983248914727815342852381933597288498944308070913585183069169991320937),
     (False, 5477992513560120794091624584356882757115879159076018145870596263255392560461, 6835038230836649041129843311500620796431096176830742705941271920348483012040),
     (False, 6455397486956186243939054146344199889966432884838984090389805380206955652528, 7039930457811067649673902465159767523690970682995390718697680416150800611408),
     (False, 6848222005804396403532409446759737605095915534899677084212128472147524458514, 5645917675513515478896491896805673757446698105415329748759467109354945772118),
     (False, 4404637533860566105224845558775561502567995599334282561130869252656244708216, 6776315972082996496340175452773963442869618238981245500410996383150051780300),
     (False, 6344952710459813663401061200246444799712370231571395486938305767254096773433, 4784498346523861356500353588357029728336905222471856861391858715160818914763),
     (False, 3163107197207370937930991316012012106014371812879058366484028739607151408778, 4361217650212848722569037915529088465155124838597941966462485170908909564727),
     (False, 2628189130059977259604009887393911648678018574174390891857497164229346540132, 5090056102835009019844514877008137113277824563772687693310110189925913393981),
     (False, 3580026414676122394183928986360043766884554686494593054927996580121262596083, 227396815405719726307642340825831039572788470745306523928840959560116752274),
     (False, 7145125301357622140591966255111047871363928676335560979025758388457046542, 3311227481411755661686655794442654976534142452219419120844711389927761641038),
     (False, 1515022659095161548900299684217948022186501425454672017185996982379240606138, 6017948102341605966222449087741595862266139983146683263060410333785619746962),
     (False, 5004238144559635885309856792530035627214407298699067711348595712045700619772, 6784969975362325110915850597444091200171356168159339713179362017887564274936),
     (False, 6361169281223376129754080860584115998493510754666201571212199917201126649041, 5235914857497286385831850575113627039878959066303084051095178639741267652547),
     (False, 3788141946557211057232979619043239968366074548177822530131911716997283382082, 649396332513218500543574328056481486767705355943565670769658882545902208111),
     (False, 58272111604074977346670768098860224042312863419570940591746295022589491978, 3203750950569865977825263413989989492829691449473068942606726992663540122079),
     (False, 1418268929545428020808796892624387889159162513634399091099428603123913991055, 6024473293013539979509879166593198570232139409848614682394132883951552378846),
     (False, 5015096101613392387313879377591511020302573455830953689339086832636222206622, 903762493064593465276469589444421811734708922725249386868393985629702442558),
     (False, 112862514080225007213758983391407509839427967941092271776062268741101388053, 5038801569111668581892234830961465457736391435301653445755125023933941548947),
     (False, 3508290961168695654617931500777477337422909145233684818696301782414245582550, 2901084670550627560751107433798296916867461085354494449071761621209378166859),
     (False, 1162952297848897753561006296451807016629854512007663636735016971565896589250, 5163316386418799127306362420515719783955892287169087990875515794646706657631)]
    (hexi 5163316386418799127306362420515719783955892287169087990875515794646706657631)"
    by (simp only: chain_rules)
  then show ?thesis by (rule pow2_chain_sound [OF _ assms]) simp_all
qed

lemma o6_n_1:
  assumes "power2 7237005577332262213973186563042994240857116359379907606001950938285454250989 1073741824 5163316386418799127306362420515719783955892287169087990875515794646706657631"
  shows "power2 7237005577332262213973186563042994240857116359379907606001950938285454250989 1152921504606846976 2699272742937149238076182943388817317777877650755075886176572849650313683225"
proof -
  have "pow2_chain (multiples_of (hexi 7237005577332262213973186563042994240857116359379907606001950938285454250989)) (hexi 5163316386418799127306362420515719783955892287169087990875515794646706657631)
    [(False, 3683821412237788459395340409318992124758409751528627494865108078682334947363, 801679053654715595599176086362913140070049364209555133674472093135544840154),
     (False, 88805970674079735938139350135373028713269631928012987132793027312168982018, 2527106544734160346671529848292917923101391282423788522012798805426611027914),
     (False, 882446119489155019619427471450529950705933243102420410089804274243902482057, 4115028273789676276137754823479233519074461028408880619795407895900740187023),
     (False, 2339843117867339109358751222222393047407036896425305512903773409013182905290, 2774991396082907723563304118367568615157822848201642816560447811813141770719),
     (False, 1064055729410227555868913812154114098778045610653859872923133831392720518576, 4802947769841506627746524329116232691746185839077551683569956880907024905297),
     (False, 3187548639188564239291021907342051216725966550642248342513819099519254213907, 1654392169876241757967827305791037195957733675253372880758909168327146354186),
     (False, 378196952109680405488439724256051506715635609523665580363442045836367216054, 2360512569251797307066580412610128569404770369868557506201923185742053545190),
     (False, 769934405888589115162258549464431527665042676276394620316330391967670297713, 5654093843388139231176296626096271764126730183104386283788212698080317447943),
     (False, 4417403972987421051356363482232091307476451264533282013946035361398372730742, 1793712940137299701659334466329257271604359156042581919055305378676330727411),
     (False, 444576983841708039923907759923972463130844037138045986882061346158599622659, 1999258849202363690312241303707473942454030729292749507700673727029509203170),
     (False, 552305218422584814255837714583191643004819486592375678668581833631737114968, 3937677029153955925763807715669731076566333470761797474917854455586117345548),
     (False, 2142502202083746126790373097488306986624396283884547600603526589966585800559, 3030796489495847121575099210710718566347085566654760562117928854061352917453),
     (False, 1269271836615943992518934017810528121274611735274854711908701729216884331750, 1296727118465386674581327637950578847043798768012600615911462252048590406459),
     (False, 232347647351598085284573391833414518300859631034751207175070316754040126891, 136675057104026925736830340276351863128312430608104820284023016529906673482),
     (False, 2581187900821675684808705644622435981219048268706815161287293937230503851, 3590557691305450296932333198739207599948454890516968931953929528928676945685),
     (False, 1781414204650243104157023672078993588233493503831220870032655247404226229008, 5013866656166822929625398177645817344577670663832670478585948588233815630313),
     (False, 3473654756403860370369952276065119666506368480716566826755720694999671289471, 6063941872717738342464268490555204725393364189154959156978785731513377441150),
     (False, 5081022895833437830707779944264570939889238735731304010309058550568013315033, 4561337922418587014220864864158082618484769863401585380438786083197804504863),
     (False, 2874918834892406057122680400571829481164099436581489108246196541762950865787, 4022409813790765622358643002525431716533498153070041701085110212459439635426),
     (False, 2235701014347501144551491374302573737602074563853514356871945551567919400190, 5738791276211700196695032930573463670498227861141831918925134062017199913566),
     (False, 4550739247055229395527306011770540945540358252041714054040504422027234857372, 1576821451744277353777906453826111118872133909548495175322513104761365895448),
     (False, 343562798744928680226326157874145223528923566439678599129360147608850065128, 5763231549419467457229453942902837224864886132638133070154463182617758709112),
     (False, 4589583017078137945073885316075168951650370439264340345229000808732033787672, 2113179715659523647084026883209351097038403644276148593798459445173209820936),
     (False, 617040910492287966847360910780666291541838171429730324583858830052056465657, 4664589445957162846185028758443339771802290308725284581397964559427647131323),
     (False, 3006546625787682408267960222263959120535579887220906941085114509984065197069, 604896687342319865654410239608819116377470725345534211791138166117134579088),
     (False, 50559585514730526309468333045055157235061094560121531345488908613683552352, 1349327741689056282167937949047857107732533036106013632860439865213997635616),
     (False, 251579929714913647953866607325129006719690073408770390047581439344935923276, 2695305814247621705406359817066654382894962111800545373824000052288560579492),
     (False, 1003823108147302530705174551873390522180940744334328634643905535423179043149, 5878498742647980943044726250055191511888047617563341410405870531419344053703),
     (False, 4775006333496893297388294568409353766279116604947064423075045936215055400903, 5353596239867494319434398659407317871377259209595089301343881858159568769142),
     (False, 3960338622550643212623860077445943987021951095471274811298886453318305142551, 2699272742937149238076182943388817317777877650755075886176572849650313683225)]
    (hexi 2699272742937149238076182943388817317777877650755075886176572849650313683225)"
    by (simp only: chain_rules)
  then show ?thesis by (rule pow2_chain_sound [OF _ assms]) simp_all
qed

lemma o6_n_2:
  assumes "power2 7237005577332262213973186563042994240857116359379907606001950938285454250989 1152921504606846976 2699272742937149238076182943388817317777877650755075886176572849650313683225"
  shows "power2 7237005577332262213973186563042994240857116359379907606001950938285454250989 1237940039285380274899124224 6675158481851869024456830337590819033879935796853324859602138554898690071400"
proof -
  have "pow2_chain (multiples_of (hexi 7237005577332262213973186563042994240857116359379907606001950938285454250989)) (hexi 2699272742937149238076182943388817317777877650755075886176572849650313683225)
    [(False, 1006780119609810597829075256124770821301930432436857407681664958636088446986, 5491000976391381730598124088057415827097718321166071349853135112520781831471),
     (False, 4166238563801900446761204423051479520121043807662739888967423843137916581605, 4555094810867386227372892730917739278752024965334339174650034776270475566496),
     (False, 2867054407278699166456624574815007264405049733773994256539717994792953592355, 3716585689011103498565366456309547669841787181570210684088513032598756128921),
     (False, 1908663609024597844698787339875401237475567677834140548365298299795744447157, 3112734776432989962555634119511870139882290373513408335273112745603847135968),
     (False, 1338829669934700050892845480995378192129845834615140146135348124917744138589, 6278898245724447578865135499102378136855295925630925790437981138288272982503),
     (False, 5447634765357526005473109885891474464039141980192716469631976701129507897750, 174964831033501327789167062032881038825479773330446602293992530788695770259),
     (False, 4230021902216946829437423743755255216776754758622144647176317622013226990, 5221759499469622561358071617093815613094059124477777653876984615756019933971),
     (False, 3767687060475148103976842769588609008462146942726786594409099442186938613407, 1643171063341245148086671817357975575892142005642835547278557116497781419318),
     (False, 373084021360846956223288192432147711484334075415174954807874646198949968024, 1893507714358118229195435350290342188485700321650104140562429681666123209388),
     (False, 495421956777786667018549766997104802908328842141657291216835599164656281751, 3794355272946009140577876564632940104208542330028573759993495114503836932805),
     (False, 1989376929931884829546856454419667748963025122325407879095441307773245061383, 586266673329763448275258970951685537681599285979218606492564693322491710238),
     (False, 47493208148645229379691690290545079405991123734819432938178754656191426063, 5773628544683968332506775502429672672657470217399578138295340208012715890337),
     (False, 4606157369340806584613763895433739512795140676705292238255420762098413272797, 2926385833074357836135739373960351477108957070479182516785079781418845927336),
     (False, 1183325610642282490843336503609556120120992117772879902602281040275346612052, 5078301719985989153348867604287517029256809531274035743511183436291371737468),
     (False, 3563510913959965262704127517259054092755368135625437338032052812729635611725, 5219758006287543812754313265118022342277298475498496234365483333260413804999),
     (False, 3764799315554267081882624116270822057826175125098769029647906944301981211295, 1520303490747869935228237090254882500987851861146607852613280359092025669246),
     (False, 319375559308628983155697962082615473687260046107089437207543726477497727710, 1200697656009093473978003255637454047951825835775530233269909221766670003326),
     (False, 199208753639950638420435835718056318846534885675814195114321985883514742448, 6077890308093419811098488486305037695544342295022000547803283659655766781204),
     (False, 5104424779348200040037676486045999342053117968617292633618365909056807499937, 3916093088720375213210376643563813981706237052444265342177994950580808001923),
     (False, 2119078797943476936188903322073701101054945468860107952904274823585017743193, 6609368818009231778209319308495775710651113640858197906565696118354603430052),
     (False, 6036164502801952199802136967430594362769365217300935457631900950011033107310, 2867083320775550404507374091242790170506008625711179843599325163386346093114),
     (False, 1135851932188162383121458795872507790055356116573102484390734182384235822092, 2557487986015732046390795822129712787210558008608183750613881736037039168008),
     (False, 903791592907115627561977526657093746325920868736150043114862348126510281746, 239502159355461752651170687171368239314532128709287644525566104513061541270),
     (False, 7926107520988504206730777653511049135406213355518906886834908121614028470, 7029377834924118161651725575212505184038502003004462006021199011689141556070),
     (False, 6827706876569385569883199367751530024958933265021382768877415751661754914807, 5777651029092684768918792594016609915912975785913296569745757593059263350777),
     (False, 4612577820657270722347264030870846536419913927735641281487108361590963444688, 5281529253197589591731240254948543950594945843533327500372380429025375707297),
     (False, 3854432742148653186004824637757889194356861904535781002705670995096575029319, 229117608023388194543032939011246619176069783728891003009839411327159299718),
     (False, 7253673877326188032161559302662706664948316392819412228616881873440862179, 3400263337827589751837938958039834490850334455779005350426853280479331434493),
     (False, 1597593181741941043220755343500328011110870376117980001866167804561082426800, 3294707410101899408861710264163503364765740125469082672296337731832730061849),
     (False, 1499943146676670184935008498744961287705370242488709964411428022657445866509, 6675158481851869024456830337590819033879935796853324859602138554898690071400)]
    (hexi 6675158481851869024456830337590819033879935796853324859602138554898690071400)"
    by (simp only: chain_rules)
  then show ?thesis by (rule pow2_chain_sound [OF _ assms]) simp_all
qed

lemma o6_n_3:
  assumes "power2 7237005577332262213973186563042994240857116359379907606001950938285454250989 1237940039285380274899124224 6675158481851869024456830337590819033879935796853324859602138554898690071400"
  shows "power2 7237005577332262213973186563042994240857116359379907606001950938285454250989 1329227995784915872903807060280344576 3841839563262087987611863382675405896108780372051087756073376032593139614531"
proof -
  have "pow2_chain (multiples_of (hexi 7237005577332262213973186563042994240857116359379907606001950938285454250989)) (hexi 6675158481851869024456830337590819033879935796853324859602138554898690071400)
    [(False, 6156930553902381422914762610155927486919783357223050647992505083758239252055, 6194827431353048296434699430280066913625464639838264911640783190117493927605),
     (False, 5302730044100712108517502989217108554488927377259811470939161977346698063209, 2779519471025543971833181157400530365917218753226401085636021676386908272324),
     (False, 1067531095182327165696497720993927818696906233721263513275322696223842044918, 4901785170600030310207267223836026686734515213301920225970758540828760437074),
     (False, 3320088343440450045825756761238226744514279616272597511557210589627012710143, 1065494124639771462418168578394484582974212381611375329461155789634485600049),
     (False, 156871197280514472776279603596767705567258317462732490939645609002494291271, 5279631207024979636111789920061169261593373640826337087508618446027882985382),
     (False, 3851662871381573532341037996454240167816914668397061625233364405314108839732, 1006648077550984713180657050131269058832870355007884743443154882090922190976),
     (False, 140022049341937283012208358295545908362751529784108035526020792589181917415, 4521897602811648443428454193739825206056846860493328120785502985914535759141),
     (False, 2825416909219960025880796797012020217257692711451279682541226421409717536326, 2794423109620188500490658504104520347136597326935637761516159911608436131467),
     (False, 1079009879450428648654584439939912408840448126683122330644103138410297168063, 3909764884290748338534032657663562023671249735289292259534497580196990607782),
     (False, 2112235687410916670945605054302904976339289431275277014421481525688946125532, 1931248268365753333736857532558533744453485878739627763729407197811129808376),
     (False, 515367831931475040768056415954354812027150254955672514894509296672549910444, 4461818637230369236813191578795454658503258715691449423760409025575431328260),
     (False, 2750837392455731964840052843044144488425155985411964757765869503791866611288, 2460522624638185793747797906988269159548260376911710420286939523654222063768),
     (False, 836557540499796423405266095551284213250639024415798070437786383253582133457, 6381183279019772237478764772501738581443190937808862058220600625700486118851),
     (False, 5626567453254850051401070287785856585877929979429723999169022554707011444454, 3610949101229093389825561072062767585287701888203791068833140377669749495195),
     (False, 1801705591122906861964605961563647781682567574006683882043457801858247081610, 4141312058583009739579106052765494658052016233795135731232020130479621875735),
     (False, 2369828982899185248015565494918121864431027059699727244453043114990441239931, 3252197776791476477041552551652628412029260573590170708725927466439738748466),
     (False, 1461487111809893981783359087343299724023859942277389410295443544297397363843, 1316826441265737247606827515664071518314928413148486988069559722537341762429),
     (False, 239606265034245397954452989916436565021537011654581865425252670468738870628, 304752334069101649281068473201523012887809802065485162327596207758363928949),
     (False, 12833206238152570694228999947486413903172079375490499389598184071204306251, 5601146537701769101288776846658045618287968094537588725186752294893344612362),
     (False, 4335058499205042049362759876350671564986994313320304864553971399845718595230, 2626085790022234232850138573813823528977362949772857647324855792363125036574),
     (False, 952925419617937790101762517816463092915007320438860251349679939340070239684, 2775030876097027041615047031499193195603949065056931723943936587222913610000),
     (False, 1064086006429545394315043222928690967872501519177599420349644432992296272098, 5100257159183706229215089334335782924459993721664035483404757240320570395078),
     (False, 3594390361019113693466200928758649705252185197778983533762305758699992837422, 6496871582713998839374068436039225394745834481875820256164880038503146915726),
     (False, 5832431647487564677703582192953771905822507757304168759649137513752033262377, 5467726557670796714144020172396976471612284721592681975344572366945897366223),
     (False, 4130994979898709939610137291401495673104954749406001905721929497073883125022, 2295701645331855481892231607237782226642037552360982062722069380726527138971),
     (False, 728235730657282476806371796397220838478671962600511124393991513611055534482, 2000089611710161015208022833114889299973315082077228907571799240144374836143),
     (False, 552764318352996615715132760962257648134142702611490887895819140114522581704, 5340626186873345878356431788968822954284435214358008599722430357676223811193),
     (False, 3941172597303890622482402542517241483995439813434489978069389265719303679144, 284333590015813164928410001516181207391266916591960075635451505703611409833),
     (False, 11171138331647133502311251210497400467675368916099043978709852007578125133, 5956132822642793884530647383648478028216370279999705754503336961440458081352),
     (False, 4901960876205371316897491413634105695864029702242674389737346461463461343057, 3841839563262087987611863382675405896108780372051087756073376032593139614531)]
    (hexi 3841839563262087987611863382675405896108780372051087756073376032593139614531)"
    by (simp only: chain_rules)
  then show ?thesis by (rule pow2_chain_sound [OF _ assms]) simp_all
qed

lemma o6_n_4:
  assumes "power2 7237005577332262213973186563042994240857116359379907606001950938285454250989 1329227995784915872903807060280344576 3841839563262087987611863382675405896108780372051087756073376032593139614531"
  shows "power2 7237005577332262213973186563042994240857116359379907606001950938285454250989 1427247692705959881058285969449495136388217831 530392442541637691314172746489936689721990350535215334026198237134372525153"
proof -
  have "pow2_chain (multiples_of (hexi 7237005577332262213973186563042994240857116359379907606001950938285454250989)) (hexi 3841839563262087987611863382675405896108780372051087756073376032593139614531)
    [(False, 2039480427661440323138711856813373009164143598277519116380298299071336522586, 5192733042727783197411439637178374188835998808824055809903277308036755012407),
     (False, 3725916218372835489934028297384696002730442133873423967929123055573929237311, 182267987389002183830776996679131846668529110766288759506011978739186483070),
     (False, 4590520053058154879197853946252538247946124883174056940299432034883294539, 5883654767348131456829308458711588264878663725267287384844031128736477575829),
     (False, 4783386312395135020870605330269019672318431825134295305137436913956776093551, 7056929592589063046722350420976464130419380011782753640540668979178346765302),
     (False, 6881334378232831913248478618206235428793286754850668119838972434323625879663, 3892664850987322762817638910543859297949601037144316263690907809828758414497),
     (False, 2093799635801560917771467374599641500453035779492095580363000365990190896296, 4769198355059561213418962719079810354882345975046607184411986474280005326265),
     (False, 3142909412857918883332269870547636673448531741128950517342155548214835371160, 5078024576175201683193588698867252846113301830106001236940206944347486772985),
     (True, 7126243947360563402375389438501879860939517809124803545351329355430378704093, 1580293041063162259917089660055755398309164336307740180055844211574068022473),
     (False, 345077265582712608755432515067601426110098091761112356106779945722802183047, 955205760628093481865558375264795038397723528857385921886082566165374252246),
     (True, 252153472976439047503385772241241105976649038370675743276223760522443941827, 5207373647105742968634072601019226205590940191611515047285833091880298872129),
     (False, 3746955838407307484505956270406943960236505786185036557583176745305880161615, 1893138407674244076355239040401604928963364335206234330584057648385399405406),
     (False, 495228723028359574635543427561469583691821819958121386473865173979297142080, 2733167024590211784586860171756170011652924141605559082778682538183628507716),
     (True, 2064445551266525637284551620045034900047709678703148836223929592927417760798, 5423193274027318762954841512120527366547040193415331498445273249521486144090),
     (True, 8127954296339446608176858920670911598118720962865843227494897349340438066782, 5501147924828808360343444428779922211177871481621975445093627557313512308802),
     (False, 4181650569074710011424700486321793861597438795871318981300503915476507406033, 553688661633331478102101546935283293314176915945030279092285629499291858567),
     (True, 84723199601103382878583682329206003514036813424138356052214449856503918398, 3947849666599548225238362908503983221486589655994982172180672754133595791356),
     (True, 4307172855825093330131879358765379850901658643061735528157915677786407393033, 5846042278340009811254537785627806321418348058058825373599125774624616677835),
     (True, 9444848412770476886711161107522128202325926974083263463195078436785850373804, 6230719236004948258442176781729522317850733017262634300725734419617873882294),
     (True, 10728708658044941525467366986325357992228884768407829808027133588088742854516, 6472254392455181733085885093146811442611529352221228811558297979628957288548),
     (False, 5788316241162426126038094172268646007650906769705341891109745581449072602556, 4972692615439147507191931893241139162486692534973765706941049262348265020420),
     (True, 6833674945641884054473148816785497088808280102243923567066079740019489977610, 2041751969867213642359726110096426578165771175914570255450911055831103596510),
     (True, 1152065191027074268595461601410067751656223697725913952359403358078785342042, 6759637357601126872025250910227011823830946991823493966996281204202486580662),
     (True, 12627514713929568047456992637192584315309745563240181607442635142608514082050, 884547077836214565699244777178794886324064887205787589194489042535625069038),
     (True, 216228528373473144992899200415828968293004614272900643805331441642632255764, 3134346622838530361916510633983509318423999486359528224541494536440434540292),
     (True, 2714970617922534571827784680799559793486473033077877179805952090028626458085, 3850339921203772179607652946091133672418695974847292977100451721329064594463),
     (False, 2048515418483396076648218623922288477890702455293952291061185411211043046895, 3157435952628978242768936864919611556608889953704388680708855108250023129214),
     (False, 1377558948714950334175465765182751530151749828742252606536811150799370252276, 2687883697291952272797981227466528060477365346882018260275216501626987756832),
     (True, 1996604449994375680803732756161385372328631356771395265557235376843222263323, 7082787551485719860928746024825626570827483468978847186476820330330034176001),
     (True, 13863711714306416927530950047601043375137874035237993737092836413184389163492, 3193392184209565243814953181539069708636470587954101149244827469220965010414),
     (True, 2818224618787672685984805435978392277471976674335709526904582612471332474851, 530392442541637691314172746489936689721990350535215334026198237134372525153)]
    (hexi 530392442541637691314172746489936689721990350535215334026198237134372525153)"
    by (simp only: chain_rules)
  then show ?thesis by (rule pow2_chain_sound [OF _ assms]) simp_all
qed

lemma o6_n_5:
  assumes "power2 7237005577332262213973186563042994240857116359379907606001950938285454250989 1427247692705959881058285969449495136388217831 530392442541637691314172746489936689721990350535215334026198237134372525153"
  shows "power2 7237005577332262213973186563042994240857116359379907606001950938285454250989 1532495540865888858358347027150309183624613786481260444 3085614266937730082158407960271907042531395538482476670904360329630729287424"
proof -
  have "pow2_chain (multiples_of (hexi 7237005577332262213973186563042994240857116359379907606001950938285454250989)) (hexi 530392442541637691314172746489936689721990350535215334026198237134372525153)
    [(False, 38871898066020901303410422871957081306020265386340569615844662380983659817, 5574528793250009192804003009360052217654227394835758574696151721883905864396),
     (True, 8587908613503804398685659451107609912411854285755652826113831422731054760040, 1495727365775818826318631124057752504360525470261612403502873454118553210072),
     (True, 618266858806362024045511585345393626775485788315068425103181220481330885915, 6197173980287781884934738404973057329933581914585556479352229622013389570433),
     (True, 10613496129462130814539561918038347149555760755479794889631365785747371521592, 4777432166513576597824888300636429019917335032690646012601383929206934760490),
     (True, 6307541941691314893243490662318159649055364322524637283782950168626957434170, 2627656740168259515306046868835624961921472156444189909420518653124705186070),
     (False, 954065859197096493311350662418292192615806600660501933438854785311305134099, 2801638986382227672411203363433216729126127634558508231407069742493073670989),
     (True, 2169179207102459291176084076793593541915330592980809801842168446019952525061, 2206951799943595462124128340837534949126409369877764208650665988510233940913),
     (False, 673018169632212969639163024459880533043097753709639194291762976941569007984, 1376444714886662316086318566283234146483316640738968642445460363082294377393),
     (True, 523586732908894943471325809688644954702864167655849174614016553133832267088, 1981715439579776907106002721872760628918216382891460003770084716238182802866),
     (False, 542654837211902388959030124483145335613993145046831063358957089311738537989, 1203829031149478169323776252730047583318520861189858187525154124047900492835),
     (False, 200249166696442363265970586544264097940452062029566471981183175501361482978, 1238213006080193961691924083892168051090475512032934898532050256616623171983),
     (False, 211851632839464392772094768258106436530881383296404650328133610497372242218, 5822411392818364804708567947331826824281379045444829492066529883317722098687),
     (True, 9368646760036804412967633836730153720924365058936374504958612027628192582245, 1797132587355788762794210064175665606078571498218533384864734917551279157633),
     (False, 446273738775623970761337091787227857759547986951757001237713417745929257994, 1902926569113290775248452990794226125136355091339862986681257146092251506623),
     (True, 1000725918680890940216552054603324884924361660049864425226149480299258628036, 4552014613743797165647556710065848418399285606360035913121211774414689600654),
     (True, 5726356521995468666978353032911096593946686406617831957304611207481503325200, 6936071208341841115751944758628483004912155660659709488680088198469105832632),
     (True, 13295301017281469708545790065966550441931792195982241730084478881790726202406, 4296220501720720347159806816146849364077268949167056920236896980542852415314),
     (True, 5100869524605045074352917608092710671578902052686995710162622186659137887224, 4749496780322544218971053294691970522992977508420200631344326542488210972656),
     (False, 3116996308106970215845590076866841312060289413821465369537120054492882793895, 3392041359446561654433209740290403250075186171501844142951379253054692782181),
     (True, 3179752858070188612017497504042512084609293677724713023858827299535267723947, 1991287500317204557879764018426410253542930157208455547821455802518918499939),
     (True, 1095819497870615289138910608298316862135990128689379224771320140643955737408, 2908060107073058343156523376471302800667891029155476707987793614014077710930),
     (True, 2337102962263338892319023250391030928391630329960184663642881763592060541857, 1611442107616133305180505300630401103598676662604568106895943981125864783227),
     (True, 717629864575992189692592411046818169884704859209948748432435040322612306745, 561785107766282267124350221934850767845759347733482700899728309831913446253),
     (False, 43609543192353349912728584070333082781320249216416258104834423552650389900, 510866476475516707188239027020197770660381280252133293772010755859809128909),
     (False, 36062505962958643318204719200937865289850778755198753821284380483246339322, 3319345756124996893666398509492435524066286803152308767576413054915731440823),
     (True, 3044921309226502812528161395612313839227637592411801312422304352055730383008, 2434094561149620517540609908992374534068138298291108992122616820656369039746),
     (True, 1637366800206943142412371274554457431774184719174295386135157437870901740420, 992598895135580634676491630728017512653320992845804823391070404564649213652),
     (True, 272281831510640804709649548877258289447837847289915764758394317712444534602, 3830067683636686637844387461306177056227300506943154985970383402623283132830),
     (False, 2027001126983461828391945561466319207949333186498938449058584284748971883625, 6081583489709940680852525411189232291294980465568682535628783812384574653775),
     (False, 5110629990138319183426983725887921106065042512267901794645106273387825408709, 3085614266937730082158407960271907042531395538482476670904360329630729287424)]
    (hexi 3085614266937730082158407960271907042531395538482476670904360329630729287424)"
    by (simp only: chain_rules)
  then show ?thesis by (rule pow2_chain_sound [OF _ assms]) simp_all
qed

lemma o6_n_6:
  assumes "power2 7237005577332262213973186563042994240857116359379907606001950938285454250989 1532495540865888858358347027150309183624613786481260444 3085614266937730082158407960271907042531395538482476670904360329630729287424"
  shows "power2 7237005577332262213973186563042994240857116359379907606001950938285454250989 1645504557321206042154969182557350504989043738391935131858633880 1479537244890886228919412082582275867641550717039842674242308175072262443370"
proof -
  have "pow2_chain (multiples_of (hexi 7237005577332262213973186563042994240857116359379907606001950938285454250989)) (hexi 3085614266937730082158407960271907042531395538482476670904360329630729287424)
    [(True, 2631203003118133627934205711515286343973024964791768384696216833911627410312, 1801950294516489668407367578492156267592765631461756399659787928119874312984),
     (True, 897339328873364464974671634583641450015984591601504720443419148148810359767, 4346725512431521531271930773285725116455207100141124352624931830079376408949),
     (False, 2610751432830575997619445966957210491225610658653671049679895135276824920283, 7169223645289952417753603075189686821034748360537896302116543394165488374714),
     (True, 14204153120227670594755346387905865709843221813858501001523535682614875980091, 912017434422466102481566033342653570828423407776410796935134390958868103593),
     (False, 114933696236993950471995065112725229699201225861483063504225812751157007977, 717351126503581048920165496326933736356707165666368435191845046823346370396),
     (True, 142211480479651146336429231134471317978748901910354029454695608644908097033, 5968345450979043450346967377363125181111334832185931820284043091238102177995),
     (True, 9844167464453736210569364619556343951400433039936662249678518957641512761397, 5795848043970859527678608652995287729029738097870841857423840848459616168417),
     (False, 4641678687386561343777072983215178119263328320262248395006721141319866691455, 3884139027733210185210308045201311325389199429412382272443617437707516686894),
     (False, 2084637883106558910684496544873192597853685690073899903007433019471901270147, 6097438884853476462517098477054110921478368914508083110759126301892800441853),
     (True, 10274625480730445950851051683979706349911128270415596692092404416628093208739, 1376276257821079373714028352306889371607538092661293067200469899955193954347),
     (False, 261729290878924438106067528078841906307031281883557993741395504831826128689, 6898172159113124345204085259493237564858854545331592183870174071060700672988),
     (True, 13150405545024974427397492049334921566212093254452848615375235640246228384740, 6799786302629167091566677128555339797413336570672232510667046776204208188428),
     (True, 12777962727083420528175335952554724355360559543047207735433099916392571414570, 4902572217889344587349127677600031200881142612931862035555238264319554712638),
     (False, 3321154598374707462318437608720696850787097086925182372975648570955914873570, 123961067800272643033081254742015507512672682481138528077366598985774458314),
     (False, 2123301711734786763912975141788298515979670242635090354002496563318389636, 4053581382690177668180243737536488544107537881337940842687498114386083372592),
     (False, 2270486301345296836878585829345854484375286321844726652256030107132645265886, 1924369375893898865565515805506061472914301791977163188659171656288213337210),
     (False, 511703004137156305417996270916492166563775036174553944258292265510840628721, 3071921769744303537658284684317210900987504138984096458906547836422274529031),
     (False, 1303951373063273800981209312782560116913861698713584368052892117300511609838, 6089254402540305892640717039443072924358280949657688529946233443547968169179),
     (False, 5123530551778949122423295587407871560929073510654679756477586856126778997361, 1662602277539411405464082222122501216865362446578588724157942092564502894012),
     (True, 763919912384040748273755078616141642346237110590913265628550277554692051336, 694689474370770106006920010219975779510636213006608280013215947176794140984),
     (False, 66684136227988461204858962626216572959061732580926224743526006951176397582, 43770926721728239072652872974658773378672335681490253730414002085387779658),
     (False, 264735739886654715916059960546671996302629674644532695774424660553333841, 6756767847804747046451866231415486318049515203022496036281260203053637178215),
     (True, 12616796066076031724863953829797977658158869924859557555640638030204242187803, 3553620423792709049080343126736369204612883761653901072737882730075304685283),
     (False, 1744950723259183122177357925329542688238741171039601873475542026070772306777, 2746226427639903965500726969148817445009574095009498767029794443779413137636),
     (False, 1042110512597933672269345094716121225765480538148000215833736282334930425516, 3486194560665547504159461172094694679978072289850852015212421960497445833172),
     (True, 3358724097956035394342090659053090797466596439698688480089509398454026856991, 4951432744198904398793865037131621515654467181607021513327243789114787849069),
     (True, 6775367507554842868955726492991103813327697701871265296325664968735425043707, 5806611360608618787702038315899136520328878660629254682704724823840775357299),
     (False, 4658934573541933200774887048370060818527328270047948881250152158703956704434, 1955077017484268559525339271864205087123717718258311959347790448368787390175),
     (False, 528164045674839196775837058964605716431510406570469546739057264413816729641, 6463140795414429342383265909388786123819431886350942003314503991698516665676),
     (False, 5772026633804048546405650502167982550796852884365293799763050850945138841854, 1479537244890886228919412082582275867641550717039842674242308175072262443370)]
    (hexi 1479537244890886228919412082582275867641550717039842674242308175072262443370)"
    by (simp only: chain_rules)
  then show ?thesis by (rule pow2_chain_sound [OF _ assms]) simp_all
qed

lemma o6_n_7:
  assumes "power2 7237005577332262213973186563042994240857116359379907606001950938285454250989 1645504557321206042154969182557350504989043738391935131858633880 1479537244890886228919412082582275867641550717039842674242308175072262443370"
  shows "power2 7237005577332262213973186563042994240857116359379907606001950938285454250989 1766847064778384329583297500742918515834256923676735255371570053292347229 648224240994021814394302594781123650450843440206774939027241062188327009535"
proof -
  have "pow2_chain (multiples_of (hexi 7237005577332262213973186563042994240857116359379907606001950938285454250989)) (hexi 1479537244890886228919412082582275867641550717039842674242308175072262443370)
    [(True, 604954752522449920390957627374259516240424904637346690205308001986860219661, 1263655743402866481673364263522261451265245349538557618113620602434147419071),
     (True, 441294626837549104394187694700415279984638606835790037012064542605554876107, 2430109816955760634662631062975901630523196009493066908465181944160611786259),
     (False, 816005136290311965279319651650910434288646144492422698848599475556187115904, 494628165741899640760429894160074187989422236625897882267235570198251586025),
     (False, 33806388530569948999472969566113526286564077763275345286137652258021406893, 6052514108774584372752491858618533392672298836043985993308048955658658633448),
     (False, 5061890120916446342815476454643115019922328803584137529645769911696455702727, 2664993804721090504134628959291139445207398291211286539288848221633394621701),
     (True, 1962743265376848321971793333152232135056696455201882225385299704321308778676, 4822391389150963490461978358768046037142085164738228645209907186357845156238),
     (True, 6426817959902662380346345210371813805143603787064033666917128256736275254222, 3047515480545654080433531206061630050900256110532498209279910122320690699730),
     (False, 1283314003965291149285808950439972273032714504855855327878885903202500596953, 6018559235875097359462957098336396748785666610128006780143002804273031436383),
     (True, 10010509150136690256082127123717984109408822799127599016683125091679080225971, 5219831577851960302440495760352835731497099455646357995819589171735682010059),
     (False, 3764905444661031479172203694403656979167065126708938804194192067945929491539, 3446542091621591397503457352259217819549523351667932555092549761779719301410),
     (False, 1641376707864594015672902632839896326749105939399257895666961296211951486544, 1727502720758804117469086107606774002455200068237445416036762157875795796084),
     (True, 824723877393816871896591877190736181121752481688828188219827984037602140460, 942835553003919147822645441240493047791652572678472865776207132222147555172),
     (False, 122832416046843881312366268510369422497295368486195182099875161781444074146, 1379707508136547870728817729609833074639618714266027059235743624757774119190),
     (True, 526071947207224155484837764181478117734775643702026214548753297269883201854, 12778846517448583150798841628060426901408587698670099500202643613986378594),
     (True, 45128863470270743916598101786194757794472098841630505748451875594183680, 1111532944336713283572098238790205011288902183378923698313900214250115174152),
     (True, 341441076186452403199917873108004518867939600581341259097924052572165982291, 6227029157829731089101063734157038736991636263006501338001536491907734602409),
     (False, 5358002245281589939805744272044598056522800032165538054441582921088238052971, 423421087503523213938594704849237819191358929481380610597299062060797464962),
     (False, 24773425338267497269080807348688559912889414888670886546215884906895403194, 2264059006443796989497270620939238819844812241744320404749109741695189402578),
     (True, 1416597826237638178617990898910312884641406713404240934800581724240984282952, 4088438017694024628351077744522657256642045815327751777471738103328704252640),
     (True, 4619403770222745809578421271396784307084577234138521738369976367934939659913, 3548361097479815105628895177721732008290263132790186227068113389866090035243),
     (True, 3479579045108173087083440637233528966406194809057722433624062637924062460018, 6973549450278852517685352451705448320247687712918285470889220133951014680296),
     (True, 13439368372964786786082676354258437008078575716378700293320697142174521489300, 6981817373162516824204766496431034999523637105917883583871403901389903377532),
     (False, 6735627506613423768328207340092283028263934492348306977397830147896632233521, 6024126807776609759032675225498239559476948236478786088868507761530129208755),
     (True, 10029038504499876058827718311801507959449745850405164195517905261909396827461, 529607876451237680556446252570451716875549584831812197718694388752115691121),
     (False, 38756983092250552556924596288100256027801126768388047384381946326754662878, 2057656277952285964668922623260819595598476190912137688602639019416785150299),
     (True, 1170083209955792990090294620026114556085334903973378324248967698421635421291, 523764727436431042296757862198216038934087168592575414301592088466171172003),
     (True, 75812982807644451226172154879312211338368715079785400511607704948755764218, 3148459619161213899213264887049304708927631529608861324318450482955744752416),
     (True, 2739475012852726463490372227546113315514114739691362956648509467698513537831, 6232630776600959428860010961175970328327513062226800230656314501217655009253),
     (False, 5367646325865200115650638284725490853820954516455919424212062079922671027280, 3415521438468207159150713937769451634503847535668334831324756786459929638089),
     (True, 3223926407677642324491220398024371313047274299482007660012679723510736698063, 648224240994021814394302594781123650450843440206774939027241062188327009535)]
    (hexi 648224240994021814394302594781123650450843440206774939027241062188327009535)"
    by (simp only: chain_rules)
  then show ?thesis by (rule pow2_chain_sound [OF _ assms]) simp_all
qed

lemma o6_n_8:
  assumes "power2 7237005577332262213973186563042994240857116359379907606001950938285454250989 1766847064778384329583297500742918515834256923676735255371570053292347229 648224240994021814394302594781123650450843440206774939027241062188327009535"
  shows "power2 7237005577332262213973186563042994240857116359379907606001950938285454250989 7237005577332262213973186563042994240857116359379907606001950938285454250988 1"
proof -
  have "pow2_chain (multiples_of (hexi 7237005577332262213973186563042994240857116359379907606001950938285454250989)) (hexi 648224240994021814394302594781123650450843440206774939027241062188327009535)
    [(False, 58061951469045258524015422016540099069088898489234847151027529334013000049, 1935888718308138893846486140149975227483450954720608955452611967819865617764),
     (False, 517847483966457027496171379611095975093138551595522815913979512162029227379, 3873001265330890846632359068171634851271984639792962026539994157746535731865),
     (True, 4145399265198328253671532420848563785361912699129838875982375824731474105355, 4640279811868840667358036902964992324008246033071110498328893334461953810355),
     (True, 5950581770969097209627333688168772446557071006867915917907361862529509569495, 2043258341788969847463852649565706682156008251399586885604764703303542471495),
     (True, 1153765768639681771114698330081050750334129183931000439433436853033091097815, 917624786484374621477429587240086343758827444304150995735335314401215581015),
     (True, 232702666806811819969220788656250815199588678237737413909882739943222478185, 6058068606829362359372853385524432391365011749673199850920807311120489685485),
     (True, 10142370308516479998975020649918504612527052524683526778125003698304823455448, 5695245539383507570080751804507743623619794040431210544766733251760787932378),
     (False, 4481939582230414648195234463942290385899500617864257846000284064835647828334, 4175108886707338195638130053205679194111973649648163554496038292325879012558),
     (True, 4817333365186732408635348848956335158470017293895391873159204745205594973164, 1517324550730149047136726081747285395831783494694165768749415686921067947532),
     (True, 636250384954690955468714319183014362220978758881328021278319197846137662716, 4202356475871964119699734399548423449193549369991576068503119564443318355924),
     (False, 2440208144321047936363710874419881381971939898365900573560926586293457786292, 7237005577332262213973186563042994240857116359379907606001950938285454250988),
     (False, 7237005577332262213973186563042994240857116359379907606001950938285454250987, 1)]
    (hexi 1)"
    by (simp only: chain_rules)
  then show ?thesis by (rule pow2_chain_sound [OF _ assms]) simp_all
qed

lemma o6_prime: "is_prime 7237005577332262213973186563042994240857116359379907606001950938285454250989"
proof (rule prime_by_chain)
  have start: "power2 7237005577332262213973186563042994240857116359379907606001950938285454250989 1 2" by (simp add: power2_def)
  have "power2 (int 7237005577332262213973186563042994240857116359379907606001950938285454250989) 26163907866482859529727157400808004 2975531125133123119648879457563281269120703404158613135195788908093573672641" using o6_m_3 [OF o6_m_2 [OF o6_m_1 [OF o6_m_0 [OF start]]]] by (simp only: of_nat_numeral)
  then show "certified 7237005577332262213973186563042994240857116359379907606001950938285454250989 276602624281642239937218680557139826668747 26163907866482859529727157400808004"
    by (rule certified_int [where s = 2233364593245673852815932892735013076939656528578070433728021143254617821614 and k = 918259049265850385831298250211759012539362291049224222049079815310237912731]) (simp_all add: o5_prime)
  show "power2 (int 7237005577332262213973186563042994240857116359379907606001950938285454250989) 7237005577332262213973186563042994240857116359379907606001950938285454250988 1" using o6_n_8 [OF o6_n_7 [OF o6_n_6 [OF o6_n_5 [OF o6_n_4 [OF o6_n_3 [OF o6_n_2 [OF o6_n_1 [OF o6_n_0 [OF start]]]]]]]]] by (simp only: of_nat_numeral)
  have "undivided 7237005577332262213973186563042994240857116359379907606001950938285454250989 (map (\<lambda>k. k * 276602624281642239937218680557139826668747 + 1) [1..0])" by code_simp
  then show "undivided (int 7237005577332262213973186563042994240857116359379907606001950938285454250989) (map (\<lambda>k. k * int 276602624281642239937218680557139826668747 + 1) [1..int 1 - 1])" by simp
qed simp_all

end
