(* ===== verification/Ge_Mult.thy ===== *)
theory Ge_Mult
  imports Base_Table Ge_Scalar Prime_Order
begin

text \<open>
  Scalar multiplication computes multiples in the group of the curve: the operations of \<^verbatim>\<open>ge.c\<close> over representations are the
  operations of the group, without a condition on denominators, \<open>ge_scalarmult_base\<close> multiplies the base point by its
  scalar and \<open>ge_double_scalarmult_vartime\<close> computes \<open>a A + b B\<close>.
\<close>

section \<open>Representations of points of the group\<close>

abbreviation is_p3 :: "ge_p3 \<Rightarrow> ed \<Rightarrow> bool" where "is_p3 p P \<equiv> rep_p3 p (coords P)"
abbreviation is_p2 :: "ge_p2 \<Rightarrow> ed \<Rightarrow> bool" where "is_p2 p P \<equiv> rep_p2 p (coords P)"
abbreviation is_p1 :: "ge_p1p1 \<Rightarrow> ed \<Rightarrow> bool" where "is_p1 p P \<equiv> rep_p1p1 p (coords P)"
abbreviation is_cached :: "ge_cached \<Rightarrow> ed \<Rightarrow> bool" where "is_cached p P \<equiv> rep_cached p (coords P)"
abbreviation is_precomp :: "ge_precomp \<Rightarrow> ed \<Rightarrow> bool" where "is_precomp p P \<equiv> rep_precomp p (coords P)"

lemma sum_coords: "edwards_sum (coords P) (coords Q) (coords (P + Q))"
  by (simp only: coords_sum [symmetric])

lemma diff_coords: "coords Q = (x, y) \<Longrightarrow> edwards_sum (coords P) (- x, y) (coords (P - Q))"
  using sum_coords [of P "- Q"] by (simp add: uminus_ed.rep_eq)

lemma add_is: "is_p3 p P \<Longrightarrow> is_cached q Q \<Longrightarrow> is_p1 (ge_add p q) (P + Q)"
  by (rule ge_add_rep [OF _ _ sum_coords])

lemma madd_is: "is_p3 p P \<Longrightarrow> is_precomp q Q \<Longrightarrow> is_p1 (ge_madd p q) (P + Q)"
  by (rule ge_madd_rep [OF _ _ sum_coords])

lemma sub_is: "is_p3 p P \<Longrightarrow> is_cached q Q \<Longrightarrow> is_p1 (ge_sub p q) (P - Q)"
  by (cases "coords Q") (auto intro: ge_sub_rep diff_coords)

lemma msub_is: "is_p3 p P \<Longrightarrow> is_precomp q Q \<Longrightarrow> is_p1 (ge_msub p q) (P - Q)"
  by (cases "coords Q") (auto intro: ge_msub_rep diff_coords)

lemma p2_dbl_is: "is_p2 p P \<Longrightarrow> is_p1 (ge_p2_dbl p) (P + P)"
  using sum_coords [of P P] on_curve_coords [of P] by (cases "coords P") (auto intro: ge_p2_dbl_rep)

lemma p3_dbl_is: "is_p3 p P \<Longrightarrow> is_p1 (ge_p3_dbl p) (P + P)"
  unfolding ge_p3_dbl_def Let_def by (rule p2_dbl_is [OF ge_p3_to_p2_rep])

lemma p3_0_is: "is_p3 ge_p3_0 0" and p2_0_is: "is_p2 ge_p2_0 0"
  using ge_p3_0_rep ge_p2_0_rep by (simp_all add: zero_ed.rep_eq)

lemmas group_is = add_is sub_is madd_is msub_is p2_dbl_is p3_dbl_is p3_0_is p2_0_is ge_p1p1_to_p3_rep ge_p1p1_to_p2_rep ge_p3_to_p2_rep
  ge_p3_to_cached_rep

section \<open>The base point\<close>

text \<open>An entry of the table, the identity or a negated entry.\<close>

lemma precomp_0_is: "is_precomp precomp_0 0"
  by (simp add: rep_precomp_def precomp_0_def zero_ed.rep_eq precomp_bounded_def)

lemma precomp_neg_is: "is_precomp q P \<Longrightarrow> is_precomp (precomp_neg q) (- P)"
  using fe_neg_abs [of 101 "xy2d q"] fe_neg_bd [of 101 "xy2d q"]
  by (simp add: rep_precomp_def precomp_neg_def uminus_ed.rep_eq precomp_bounded_def)

lemma row_nth:
  assumes "row_reps row P" and "1 \<le> b" and "b \<le> 8"
  shows "is_precomp (row ! nat (b - 1)) (smul b P)"
proof -
  have "is_precomp (row ! nat (b - 1)) (smul ([1, 2, 3, 4, 5, 6, 7, 8] ! nat (b - 1)) P)"
    using assms by (intro list_all2_nthD [of "\<lambda>k q. is_precomp q (smul k P)"]) (simp_all add: row_reps_def)
  moreover have "b \<in> {1, 2, 3, 4, 5, 6, 7, 8}" using assms(2,3) by auto
  then have "[1, 2, 3, 4, 5, 6, 7, 8] ! nat (b - 1) = b" by auto
  ultimately show ?thesis by simp
qed

lemma table_entry_is:
  assumes "row_reps row P" and "- 8 \<le> b" and "b \<le> 8"
  shows "is_precomp (table_entry row b) (smul b P)"
proof -
  consider "b = 0" | "1 \<le> b" | "1 \<le> - b" by linarith
  then show ?thesis
  proof cases
    case 3
    then have "is_precomp (precomp_neg (row ! nat (- b - 1))) (- smul (- b) P)"
      using assms by (intro precomp_neg_is row_nth) simp_all
    then show ?thesis using 3 by (simp add: table_entry_def smul_neg)
  qed (use assms in \<open>simp_all add: table_entry_def precomp_0_is row_nth\<close>)
qed

lemma select_is:
  assumes "i < 32" and "- 8 \<le> sint b" and "sint b \<le> 8"
  shows "is_precomp (select i b) (smul (sint b * 256 ^ i) base_point)"
  using table_entry_is [OF _ assms(2,3)] base_rows [OF assms(1)] unfolding select_eq [OF assms(2,3)] smul_smul [symmetric] by blast

lemma fold_madd_is:
  assumes "\<forall>k \<in> set ks. k < 64 \<and> - 8 \<le> sint (e ! k) \<and> sint (e ! k) \<le> 8" and "is_p3 h (smul m base_point)"
  shows "is_p3 (fold (\<lambda>i h. ge_p1p1_to_p3 (ge_madd h (select (i div 2) (e ! i)))) ks h)
    (smul (m + (\<Sum>k\<leftarrow>ks. sint (e ! k) * 256 ^ (k div 2))) base_point)"
  using assms
proof (induction ks arbitrary: h m)
  case (Cons k ks)
  then have "is_p3 (ge_p1p1_to_p3 (ge_madd h (select (k div 2) (e ! k)))) (smul (m + sint (e ! k) * 256 ^ (k div 2)) base_point)"
    unfolding smul_add by (intro group_is select_is) auto
  from Cons.IH [OF _ this] Cons.prems(1) show ?case by (simp add: add.assoc)
qed simp

lemma digits_odd_even:
  "digits_val 16 e = 16 * (\<Sum>k\<leftarrow>map (\<lambda>k. 2 * k + 1) [0..<32]. sint (e ! k) * 256 ^ (k div 2)) +
      (\<Sum>k\<leftarrow>map (\<lambda>k. 2 * k) [0..<32]. sint (e ! k) * 256 ^ (k div 2))" if "length e = 64"
proof -
  have s: "(\<Sum>i<2 * n. f i) = (\<Sum>k<n. f (2 * k) + f (2 * k + 1))" for f :: "nat \<Rightarrow> int" and n
    by (induction n) (simp_all add: ac_simps)
  have "digits_val 16 e = (\<Sum>k<32. sint (e ! (2 * k)) * 16 ^ (2 * k) + sint (e ! (2 * k + 1)) * 16 ^ (2 * k + 1))"
    unfolding digits_val_def that using s [of "\<lambda>i. sint (e ! i) * 16 ^ i" 32] by simp
  also have "\<dots> = (\<Sum>k<32. sint (e ! (2 * k)) * 256 ^ k) + 16 * (\<Sum>k<32. sint (e ! (2 * k + 1)) * 256 ^ k)"
    by (simp add: sum.distrib sum_distrib_left power_mult mult.left_commute)
  finally show ?thesis by (simp add: interv_sum_list_conv_sum_set_nat comp_def atLeast0LessThan)
qed

text \<open>\<open>ge_scalarmult_base\<close> computes \<open>a B\<close>.\<close>

lemma scalarmult_base_is:
  assumes "length a = 32" and "a ! 31 < 128"
  shows "is_p3 (ge_scalarmult_base a) (smul (le_val a) base_point)"
proof -
  define e where "e = recode (nibbles a)"
  note r = recode_ok [OF assms, folded e_def]
  define so se where "so = (\<Sum>k\<leftarrow>map (\<lambda>k. 2 * k + 1) [0..<32]. sint (e ! k) * 256 ^ (k div 2))"
    and "se = (\<Sum>k\<leftarrow>map (\<lambda>k. 2 * k) [0..<32]. sint (e ! k) * 256 ^ (k div 2))"
  let ?step = "\<lambda>i h. ge_p1p1_to_p3 (ge_madd h (select (i div 2) (e ! i)))"
  define h where "h = fold ?step (map (\<lambda>k. 2 * k + 1) [0..<32]) ge_p3_0"
  have h: "is_p3 h (smul so base_point)"
    using fold_madd_is [of "map (\<lambda>k. 2 * k + 1) [0..<32]" e ge_p3_0 0] r(3) p3_0_is by (auto simp: h_def so_def)
  define s where "s = ge_p1p1_to_p2 (ge_p2_dbl (ge_p1p1_to_p2 (ge_p2_dbl (ge_p1p1_to_p2 (ge_p3_dbl h)))))"
  have "is_p2 s (smul 8 (smul so base_point))"
    using p3_dbl_is [OF h, THEN ge_p1p1_to_p2_rep, THEN p2_dbl_is, THEN ge_p1p1_to_p2_rep, THEN p2_dbl_is, THEN ge_p1p1_to_p2_rep]
    by (simp add: s_def smul_double smul_smul)
  from p2_dbl_is [OF this, THEN ge_p1p1_to_p3_rep] have "is_p3 (ge_p1p1_to_p3 (ge_p2_dbl s)) (smul (16 * so) base_point)"
    by (simp add: smul_double smul_smul)
  from fold_madd_is [OF _ this, of "map (\<lambda>k. 2 * k) [0..<32]" e] r(3)
  have "is_p3 (fold ?step (map (\<lambda>k. 2 * k) [0..<32]) (ge_p1p1_to_p3 (ge_p2_dbl s))) (smul (16 * so + se) base_point)"
    unfolding se_def by fastforce
  moreover have "16 * so + se = le_val a" using digits_odd_even [OF r(1)] r(2) by (simp add: so_def se_def)
  ultimately show ?thesis by (simp add: ge_scalarmult_base_def Let_def e_def h_def s_def)
qed

section \<open>Two scalars\<close>

definition odds :: "int list" where
  "odds = [1, 3, 5, 7, 9, 11, 13, 15]"

lemma odd_multiples_is:
  assumes "is_p3 A P"
  shows "list_all2 (\<lambda>k q. is_cached q (smul k P)) odds (odd_multiples A)"
proof -
  have c1: "is_cached (ge_p3_to_cached A) (smul 1 P)" using assms by (simp add: group_is)
  define A2 where "A2 = ge_p1p1_to_p3 (ge_p3_dbl A)"
  have A2: "is_p3 A2 (smul 2 P)" using group_is(6) [OF assms, THEN ge_p1p1_to_p3_rep] by (simp add: A2_def smul_double)
  have step: "is_cached (ge_p3_to_cached (ge_p1p1_to_p3 (ge_add A2 q))) (smul (2 + k) P)" if "is_cached q (smul k P)" for q k
    unfolding smul_add by (intro group_is A2 that)
  note c3 = step [OF c1, simplified] note c5 = step [OF c3, simplified] note c7 = step [OF c5, simplified] note c9 = step [OF c7, simplified]
  note c11 = step [OF c9, simplified] note c13 = step [OF c11, simplified] note c15 = step [OF c13, simplified]
  show ?thesis unfolding odd_multiples_def Let_def odds_def A2_def [symmetric] using c1 c3 c5 c7 c9 c11 c13 c15 by simp
qed

text \<open>The entry for an odd digit.\<close>

lemma odds_nth:
  assumes "list_all2 R odds qs" and "odd d" and "0 < d" and "d \<le> 15"
  shows "R d (qs ! nat (d div 2))"
proof -
  have "d \<in> {1, 2, 3, 4, 5, 6, 7, 8, 9, 10, 11, 12, 13, 14, 15}" using assms(3,4) by (simp, presburger)
  then have "nat (d div 2) < length odds \<and> odds ! nat (d div 2) = d" using assms(2) by (auto simp: odds_def)
  then show ?thesis using list_all2_nthD [OF assms(1), of "nat (d div 2)"] by metis
qed

lemma dsm_step_is:
  assumes "slide_digit (s ! i)" and "slide_digit (t ! i)" and "list_all2 (\<lambda>k q. is_cached q (smul k P)) odds Ai" and "is_p2 r R"
  shows "is_p2 (dsm_step s t Ai i r) (R + R + smul (sint (s ! i)) P + smul (sint (t ! i)) base_point)"
proof -
  have B: "list_all2 (\<lambda>k q. is_precomp q (smul k base_point)) odds Bi" using Bi_reps by (simp only: odds_def)
  let ?a = "sint (s ! i)" and ?b = "sint (t ! i)"
  have a: "?a = 0 \<or> odd ?a \<and> - 15 \<le> ?a \<and> ?a \<le> 15" and b: "?b = 0 \<or> odd ?b \<and> - 15 \<le> ?b \<and> ?b \<le> 15"
    using assms(1,2) by (auto simp: slide_digit_def)
  define u where "u = ge_p2_dbl r"
  have u: "is_p1 u (R + R)" unfolding u_def by (rule p2_dbl_is [OF assms(4)])
  define v where "v = (if 0 < ?a then ge_add (ge_p1p1_to_p3 u) (Ai ! nat (?a div 2))
      else if ?a < 0 then ge_sub (ge_p1p1_to_p3 u) (Ai ! nat ((- ?a) div 2)) else u)"
  have v: "is_p1 v (R + R + smul ?a P)"
  proof -
    consider "?a = 0" | "0 < ?a" | "?a < 0" by linarith
    then show ?thesis
    proof cases
      case 2
      then show ?thesis using a odds_nth [OF assms(3), of ?a] by (simp add: v_def group_is u)
    next
      case 3
      then have "is_p1 (ge_sub (ge_p1p1_to_p3 u) (Ai ! nat ((- ?a) div 2))) (R + R - smul (- ?a) P)"
        using a odds_nth [OF assms(3), of "- ?a"] by (intro group_is u) simp_all
      then show ?thesis using 3 by (simp add: v_def smul_neg)
    qed (simp add: v_def u)
  qed
  define w where "w = (if 0 < ?b then ge_madd (ge_p1p1_to_p3 v) (Bi ! nat (?b div 2))
      else if ?b < 0 then ge_msub (ge_p1p1_to_p3 v) (Bi ! nat ((- ?b) div 2)) else v)"
  have w: "is_p1 w (R + R + smul ?a P + smul ?b base_point)"
  proof -
    consider "?b = 0" | "0 < ?b" | "?b < 0" by linarith
    then show ?thesis
    proof cases
      case 2
      then show ?thesis using b odds_nth [OF B, of ?b] by (simp add: w_def group_is v)
    next
      case 3
      then have "is_p1 (ge_msub (ge_p1p1_to_p3 v) (Bi ! nat ((- ?b) div 2))) (R + R + smul ?a P - smul (- ?b) base_point)"
        using b odds_nth [OF B, of "- ?b"] by (intro group_is v) simp_all
      then show ?thesis using 3 by (simp add: w_def smul_neg)
    qed (simp add: w_def v)
  qed
  have "dsm_step s t Ai i r = ge_p1p1_to_p2 w" unfolding dsm_step_def Let_def u_def v_def w_def ..
  with ge_p1p1_to_p2_rep [OF w] show ?thesis by simp
qed

text \<open>The loop from digit \<open>n - 1\<close> down: Horner's scheme for both scalars.\<close>

lemma dsm_loop_is:
  assumes "\<forall>i < n. slide_digit (s ! i) \<and> slide_digit (t ! i)" and "list_all2 (\<lambda>k q. is_cached q (smul k P)) odds Ai" and "is_p2 r R"
  shows "is_p2 (dsm_loop s t Ai n r) (smul (2 ^ n) R + smul (\<Sum>i<n. sint (s ! i) * 2 ^ i) P + smul (\<Sum>i<n. sint (t ! i) * 2 ^ i) base_point)"
  using assms(1,3)
proof (induction n arbitrary: r R)
  case (Suc n)
  then have "is_p2 (dsm_step s t Ai n r) (R + R + smul (sint (s ! n)) P + smul (sint (t ! n)) base_point)"
    by (intro dsm_step_is assms(2)) auto
  from Suc.IH [OF _ this] Suc.prems(1) show ?case
    by (simp add: smul_double smul_plus smul_smul smul_add ac_simps)
qed simp

lemma top_digit_zero: "top_digit s t n \<le> i \<Longrightarrow> i < n \<Longrightarrow> s ! i = 0 \<and> t ! i = 0"
proof (induction n)
  case (Suc n)
  then show ?case by (cases "i = n") (auto split: if_splits)
qed simp

lemma top_digit_sum:
  assumes "\<forall>i. top_digit s t n \<le> i \<longrightarrow> i < n \<longrightarrow> u ! i = 0"
  shows "(\<Sum>i<top_digit s t n. sint (u ! i) * 2 ^ i) = (\<Sum>i<n. sint (u ! i) * 2 ^ i)"
  using assms top_digit_le [of s t n] by (intro sum.mono_neutral_left) auto

text \<open>\<open>ge_double_scalarmult_vartime\<close> computes \<open>a A + b B\<close>.\<close>

lemma double_scalarmult_is:
  assumes "length a = 32" and "le_val a < 2 ^ 253" and "length b = 32" and "le_val b < 2 ^ 253" and "is_p3 A P"
  shows "is_p2 (ge_double_scalarmult_vartime a A b) (smul (le_val a) P + smul (le_val b) base_point)"
proof -
  note sa = slide_ok [OF assms(1,2)] and sb = slide_ok [OF assms(3,4)]
  let ?n = "top_digit (slide a) (slide b) 256"
  have d: "\<forall>i < ?n. slide_digit (slide a ! i) \<and> slide_digit (slide b ! i)"
    using sa sb top_digit_le [of "slide a" "slide b" 256] by (auto simp: list_all_length)
  have "(\<Sum>i<?n. sint (slide a ! i) * 2 ^ i) = le_val a" "(\<Sum>i<?n. sint (slide b ! i) * 2 ^ i) = le_val b"
    using sa sb top_digit_zero by (auto simp: top_digit_sum digits_val_def)
  then show ?thesis
    using dsm_loop_is [OF d odd_multiples_is [OF assms(5)] p2_0_is] by (simp add: ge_double_scalarmult_vartime_def Let_def)
qed

section \<open>The order of the base point\<close>

lemma base_nonzero: "base_point \<noteq> 0"
proof
  assume "base_point = 0"
  then have "coords base_point = coords 0" by (rule arg_cong)
  then have "(of_int base_x :: gf) = 0" by (simp add: coords_base zero_ed.rep_eq)
  then show False unfolding of_int_gf_eq_0_iff by (simp add: base_x_def p25519_def)
qed

lemma prime_order_l: "is_prime (nat order_l)"
proof -
  have "nat order_l = 7237005577332262213973186563042994240857116359379907606001950938285454250989" by (simp add: order_l_def)
  then show ?thesis using o6_prime by simp
qed

text \<open>As \<open>l\<close> is prime, a multiple that vanishes and is no multiple of \<open>l\<close> would make the base point vanish.\<close>

lemma order_exact: "smul n base_point = 0 \<longleftrightarrow> order_l dvd n"
proof
  assume zero: "smul n base_point = 0"
  show "order_l dvd n"
  proof (rule ccontr)
    assume "\<not> order_l dvd n"
    moreover have l: "order_l = int (nat order_l)" by (simp add: order_l_def)
    ultimately have "\<not> int (nat order_l) dvd int (nat \<bar>n\<bar>)" by simp
    then have "coprime (nat order_l) (nat \<bar>n\<bar>)" unfolding int_dvd_int_iff by (rule prime_coprime [OF prime_order_l])
    then have "coprime (int (nat order_l)) (int (nat \<bar>n\<bar>))" by (simp only: coprime_int_iff)
    then have "gcd order_l n = 1" unfolding l [symmetric] by (simp add: coprime_iff_gcd_eq_1)
    then obtain u v where "u * order_l + v * n = 1" using bezout_int [of order_l n] by auto
    then have "base_point = smul (u * order_l + v * n) base_point" by simp
    also have "\<dots> = 0" by (simp only: smul_add smul_smul [symmetric] order_base zero smul_zero add_0_left)
    finally show False using base_nonzero by simp
  qed
next
  assume "order_l dvd n"
  then obtain k where "n = order_l * k" by (rule dvdE)
  then have "smul n base_point = smul k (smul order_l base_point)" by (simp add: smul_smul mult.commute)
  then show "smul n base_point = 0" by (simp add: order_base)
qed

section \<open>Properties\<close>

text \<open>Claim (C21): the operations of \<^verbatim>\<open>ge.c\<close> are the operations of the group of the curve.  For representations of any two points, with limbs in
  range, addition and subtraction of a cached or a precomputed point and doubling from either form represent sum, difference and double, with
  limbs in range again; no denominator can vanish, so that no case is excepted.\<close>

theorem group_operations:
  assumes "rep_p3 p (coords P)" and "rep_cached q (coords Q)" and "rep_precomp t (coords T)" and "rep_p2 r (coords R)"
  shows "rep_p3 (ge_p1p1_to_p3 (ge_add p q)) (coords (P + Q)) \<and> rep_p3 (ge_p1p1_to_p3 (ge_sub p q)) (coords (P - Q)) \<and>
    rep_p3 (ge_p1p1_to_p3 (ge_madd p t)) (coords (P + T)) \<and> rep_p3 (ge_p1p1_to_p3 (ge_msub p t)) (coords (P - T)) \<and>
    rep_p2 (ge_p1p1_to_p2 (ge_p2_dbl r)) (coords (R + R)) \<and> rep_p3 (ge_p1p1_to_p3 (ge_p3_dbl p)) (coords (P + P)) \<and>
    rep_cached (ge_p3_to_cached p) (coords P) \<and> rep_p3 ge_p3_0 (coords 0)"
  using assms by (intro conjI group_is)

theorem group_operations_witness:
  "rep_p3 (ge_p1p1_to_p3 (ge_add (ge_scalarmult_base (9 # replicate 31 0)) (ge_p3_to_cached (ge_scalarmult_base (9 # replicate 31 0)))))
    (coords (smul 9 base_point + smul 9 base_point))"
proof -
  have "le_val (9 # replicate 31 0) = 9" by code_simp
  then have "is_p3 (ge_scalarmult_base (9 # replicate 31 0)) (smul 9 base_point)" using scalarmult_base_is [of "9 # replicate 31 0"] by simp
  then show ?thesis using group_operations [OF _ ge_p3_to_cached_rep precomp_0_is p2_0_is] by blast
qed

text \<open>Claim (C18): the tables of \<^verbatim>\<open>precomp_data.h\<close> are what their comments say: entry \<open>j\<close> of row \<open>i\<close> of \<open>base\<close> is \<open>(j + 1) 256\<^sup>i B\<close>, entry \<open>j\<close> of
  \<open>Bi\<close> is \<open>(2 j + 1) B\<close>, each as \<open>(y + x, y - x, 2 d x y)\<close> with limbs in range, where \<open>B\<close> has the coordinates of RFC 8032 and
  the order \<open>l\<close>: its multiples vanish exactly for the multiples of \<open>l\<close>, which is prime.\<close>

theorem tables_correct:
  "(i < 32 \<longrightarrow> j < 8 \<longrightarrow> rep_precomp (base ! i ! j) (coords (smul ((int j + 1) * 256 ^ i) base_point))) \<and>
    (j < 8 \<longrightarrow> rep_precomp (Bi ! j) (coords (smul (2 * int j + 1) base_point))) \<and>
    coords base_point = (of_int base_x, of_int base_y) \<and>
    is_prime (nat order_l) \<and> (smul n base_point = 0 \<longleftrightarrow> order_l dvd n)"
proof (intro conjI impI)
  show "rep_precomp (base ! i ! j) (coords (smul ((int j + 1) * 256 ^ i) base_point))" if "i < 32" "j < 8"
    using row_nth [of "base ! i" "smul (256 ^ i) base_point" "int j + 1"] base_rows [OF that(1)] that(2) by (simp add: smul_smul)
  show "rep_precomp (Bi ! j) (coords (smul (2 * int j + 1) base_point))" if "j < 8"
  proof -
    have "list_all2 (\<lambda>k q. is_precomp q (smul k base_point)) odds Bi" using Bi_reps by (simp only: odds_def)
    from odds_nth [OF this, of "2 * int j + 1"] that show ?thesis by simp
  qed
qed (rule coords_base prime_order_l order_exact)+

theorem tables_correct_witness: "rep_precomp (base ! 31 ! 7) (coords (smul (8 * 256 ^ 31) base_point))"
  using tables_correct [of 31 7] by simp

text \<open>Claim (C9): scalar multiplication.  For a scalar below \<open>2\<^sup>2\<^sup>5\<^sup>5\<close> \<open>ge_scalarmult_base\<close> computes \<open>a B\<close>; for scalars below \<open>2\<^sup>2\<^sup>5\<^sup>3\<close>
  and any point \<open>A\<close> of the curve \<open>ge_double_scalarmult_vartime\<close> computes \<open>a A + b B\<close>.\<close>

theorem scalarmult_correct:
  assumes "length c = 32" and "c ! 31 < 128" and "length a = 32" and "le_val a < 2 ^ 253" and "length b = 32" and "le_val b < 2 ^ 253"
    and "rep_p3 A (coords P)"
  shows "rep_p3 (ge_scalarmult_base c) (coords (smul (le_val c) base_point)) \<and>
    rep_p2 (ge_double_scalarmult_vartime a A b) (coords (smul (le_val a) P + smul (le_val b) base_point))"
  using scalarmult_base_is [OF assms(1,2)] double_scalarmult_is [OF assms(3-7)] by blast

theorem scalarmult_correct_witness:
  "rep_p2 (ge_double_scalarmult_vartime (3 # replicate 31 0) ge_p3_0 (5 # replicate 31 0)) (coords (smul 3 0 + smul 5 base_point))"
proof -
  have v: "le_val (3 # replicate 31 0) = 3" "le_val (5 # replicate 31 0) = 5" by code_simp+
  show ?thesis using scalarmult_correct [of "replicate 32 0" "3 # replicate 31 0" "5 # replicate 31 0", OF _ _ _ _ _ _ p3_0_is] unfolding v by simp
qed

end
