(* ===== verification/Signature.thy ===== *)
theory Signature
  imports Ge_Mult Ed25519
begin

text \<open>
  The signature scheme as a whole: packing and unpacking are inverse on the points of the curve, signatures made with a generated key
  pair verify, verification is the group equation \<open>R = S B - k A\<close>, and the two ways of adding a scalar to a key pair agree.
\<close>

section \<open>Packing and unpacking\<close>

definition packs :: "bytes \<Rightarrow> ed \<Rightarrow> bool" where
  "packs s P \<longleftrightarrow> encodes s (fst (coords P)) (snd (coords P))"

lemma cancel_inverse:
  fixes x z :: gf
  assumes "z \<noteq> 0" shows "x * z * z ^ (2 ^ 255 - 21) = x"
  using right_inverse [OF assms] by (simp only: inverse_gf_def mult.assoc mult_1_right)

lemma pack_p3: "is_p3 h P \<Longrightarrow> packs (ge_p3_tobytes h) P"
  using ge_p3_tobytes_ok [of h] by (simp add: packs_def rep_p3_def p3_bounded_def gf_unit_iff cancel_inverse del: power_numeral)

lemma pack_p2: "is_p2 h P \<Longrightarrow> packs (ge_tobytes h) P"
  using ge_tobytes_ok [of h] by (simp add: packs_def rep_p2_def p2_bounded_def gf_unit_iff cancel_inverse del: power_numeral)

lemma packs_unique: "packs s P \<Longrightarrow> packs t P \<Longrightarrow> s = t"
  unfolding packs_def using encodes_inj by blast

lemma gf_v_nonzero: "gf_v y \<noteq> 0"
proof
  assume "gf_v y = 0"
  then have v: "y * y * gf_d = - 1" by (simp add: gf_v_def eq_neg_iff_add_eq_0)
  then have "y \<noteq> 0" by auto
  moreover have "gf_i * gf_i = gf_d * (y * y)" using v sqrtm1_eq by (simp add: ac_simps)
  ultimately show False using square_quotient d_not_square by blast
qed

lemma gf_square_eq: "a * a = b * b \<longleftrightarrow> a = b \<or> a = - b" for a b :: gf
proof -
  have "a * a = b * b \<longleftrightarrow> (a - b) * (a + b) = 0" by (simp add: algebra_simps)
  then show ?thesis by (simp add: eq_neg_iff_add_eq_0)
qed

text \<open>A point with the given \<open>x\<close>, \<open>y\<close> is determined by \<open>y\<close> up to the sign of \<open>x\<close>.\<close>

lemma same_y: "on_curve x y \<Longrightarrow> on_curve x' y \<Longrightarrow> x' = x \<or> x' = - x"
  using gf_v_nonzero unfolding on_curve_iff gf_square_eq [symmetric] by (metis mult_left_cancel)

lemma gf_sign_power: "(a * a) ^ ((2 :: nat) ^ 253 - 5) = 1 \<or> (a * a) ^ ((2 :: nat) ^ 253 - 5) = - 1" if "a \<noteq> 0" for a :: gf
proof -
  define e where "e = (a * a) ^ ((2 :: nat) ^ 253 - 5)"
  have x: "2 * (2 * (2 ^ 253 - 5)) = fermat_exp" by (simp add: fermat_exp_def p25519_def)
  have "e * e = a ^ (2 * (2 * (2 ^ 253 - 5)))"
    unfolding e_def power_mult power2_eq_square power_mult_distrib ..
  then have "e * e = 1 * 1" unfolding x gf_fermat [OF that] by simp
  then show ?thesis unfolding gf_square_eq e_def .
qed

lemma root_test:
  assumes "on_curve x y"
  shows "gf_v y * (root_candidate y * root_candidate y) \<in> {gf_u y, - gf_u y}"
proof (cases "x = 0")
  case True
  then have "gf_u y = 0" using assms by (simp add: on_curve_iff)
  then show ?thesis by (simp add: root_candidate_def)
next
  case False
  define u v w where "u = gf_u y" and "v = gf_v y" and "w = v ^ 4 * x"
  have u: "u = v * (x * x)" using assms by (simp add: on_curve_iff u_def v_def)
  have w: "u * v ^ 7 = w * w" unfolding u w_def by (simp add: eval_nat_numeral ac_simps)
  have "w \<noteq> 0" using False gf_v_nonzero by (simp add: w_def v_def)
  define k where "k = (2 :: nat) ^ 252 - 3"
  have n: "(2 :: nat) ^ 253 - 5 = Suc (k + k)" by (simp add: k_def)
  define c where "c = (u * v ^ 7) ^ k"
  have "root_candidate y = c * v ^ 3 * u" unfolding root_candidate_def u_def [symmetric] v_def [symmetric] c_def k_def ..
  then have "v * (root_candidate y * root_candidate y) = (u * v ^ 7) * (c * c) * u" by (simp add: eval_nat_numeral ac_simps)
  also have "\<dots> = (w * w) ^ ((2 :: nat) ^ 253 - 5) * u" unfolding n power_Suc power_add c_def w ..
  finally show ?thesis using gf_sign_power [OF \<open>w \<noteq> 0\<close>] unfolding u_def v_def by (elim disjE) simp_all
qed

lemma packs_y:
  assumes "packs s P" and "coords P = (x, y)"
  shows "length s = 32" "of_int (le_val s mod 2 ^ 255) = y" "uint (s ! 31) div 128 = rep_gf x mod 2"
proof -
  have e: "length s = 32" "le_val s = rep_gf y + 2 ^ 255 * (rep_gf x mod 2)" using assms by (simp_all add: packs_def encodes_def)
  show "length s = 32" by (rule e(1))
  have y: "0 \<le> rep_gf y" "rep_gf y < 2 ^ 255" using rep_gf_range [of y] by (simp_all add: p25519_def)
  then have "le_val s mod 2 ^ 255 = rep_gf y" unfolding e(2) by simp
  then show "of_int (le_val s mod 2 ^ 255) = y" by simp
  obtain b0 mid b where s: "s = b0 # mid @ [b]" and len: "length mid = 30" by (rule split_32 [OF e(1)])
  have l: "0 \<le> le_val (b0 # mid)" "le_val (b0 # mid) < 256 ^ 31" using le_val_nonneg le_val_less [of "b0 # mid"] len by simp_all
  have "le_val s = le_val (b0 # mid) + 256 ^ 31 * uint b" by (simp add: s le_val_append len algebra_simps)
  moreover have "s ! 31 = b" using len by (simp add: s nth_append)
  moreover have "le_val s div 2 ^ 255 = rep_gf x mod 2" unfolding e(2) using y by simp
  moreover have "(le_val (b0 # mid) + 256 ^ 31 * uint b) div 2 ^ 255 = uint b div 128"
  proof -
    have "(le_val (b0 # mid) + 256 ^ 31 * uint b) div 256 ^ 31 = uint b" using l by simp
    moreover have "(2 :: int) ^ 255 = 256 ^ 31 * 128" by simp
    ultimately show ?thesis by (metis zdiv_zmult2_eq zero_le_numeral)
  qed
  ultimately show "uint (s ! 31) div 128 = rep_gf x mod 2" by simp
qed

text \<open>Unpacking a packed point gives its negation.\<close>

lemma unpack_packed:
  assumes "packs s P"
  shows "\<exists>h'. ge_frombytes_negate_vartime h s = (0, h') \<and> is_p3 h' (- P)"
proof -
  obtain x y where P: "coords P = (x, y)" by (metis surj_pair)
  note s = packs_y [OF assms P]
  have c: "on_curve x y" by (rule on_curve_coords [OF P])
  obtain ret h' where f: "ge_frombytes_negate_vartime h s = (ret, h')" by (metis surj_pair)
  note u = ge_frombytes_ok [OF s(1) f, unfolded s(2,3)]
  have ret: "ret = 0" using u(1) root_test [OF c] by simp
  obtain x' where x': "rep_p3 h' (x', y)" "on_curve x' y" "x' = 0 \<or> rep_gf x' mod 2 \<noteq> rep_gf x mod 2" using u(2) [OF ret] by blast
  have "x' = - x" using same_y [OF c x'(2)] x'(3) by auto
  then have "is_p3 h' (- P)" using x'(1) by (simp add: uminus_ed.rep_eq P)
  then show ?thesis using f ret by blast
qed

section \<open>Signing and verifying\<close>

lemma order_l_eq: "order_l = order25519"
  by (simp add: order_l_def order25519_def)

lemma smul_mod: "smul (n mod order25519) base_point = smul n base_point"
proof -
  have "smul (n div order25519 * order25519) base_point = 0"
    unfolding smul_smul [symmetric] using order_base by (simp add: order_l_eq)
  then have "smul (n div order25519 * order25519 + n mod order25519) base_point = smul (n mod order25519) base_point"
    by (simp only: smul_add add_0_left)
  then show ?thesis by simp
qed

lemma small_scalar: "length s = 32 \<Longrightarrow> le_val s < order25519 \<Longrightarrow> s ! 31 < 128"
  using top_byte_small [of s] by (simp add: order25519_def word_less_def)

lemma reduced_small: "length s = 64 \<Longrightarrow> le_val (sc_reduce s) < order25519"
  by (simp add: sc_reduce_ok)

lemma small_challenge: "le_val (challenge R pk m) < 2 ^ 253"
  using reduced_small [of "sha512_digest (R @ pk @ m)"] order_pos(2) by (simp add: challenge_def)

lemma verify_group:
  assumes "length (ctx_buf ctx) = 128" and "length h = 64" and "length signature = 64" and "packs pk P"
  shows "ed25519_verify A ctx h signature m pk \<longleftrightarrow> le_val (drop 32 signature) < 2 ^ 253 \<and>
    packs (take 32 signature) (smul (le_val (drop 32 signature)) base_point - smul (le_val (challenge (take 32 signature) pk m)) P)"
proof -
  obtain A' where f: "ge_frombytes_negate_vartime A pk = (0, A')" and A': "is_p3 A' (- P)" using unpack_packed [OF assms(4)] by blast
  have pk: "length pk = 32" using assms(4) by (simp add: packs_def encodes_def)
  let ?S = "drop 32 signature" and ?k = "challenge (take 32 signature) pk m"
  have k: "length ?k = 32" "le_val ?k < 2 ^ 253"
    using small_challenge by (simp_all add: challenge_def)
  have "packs (ge_tobytes (ge_double_scalarmult_vartime ?k A' ?S)) (smul (le_val ?S) base_point - smul (le_val ?k) P)" if "le_val ?S < 2 ^ 253"
    using pack_p2 [OF double_scalarmult_is [OF k _ that A']] assms(3) by (simp add: smul_minus)
  then show ?thesis using verify_iff [OF assms(1-3) pk f] packs_unique by auto
qed

lemma scalar_multiple_packs:
  assumes "length a = 32" and "a ! 31 < 128"
  shows "packs (ge_p3_tobytes (ge_scalarmult_base a)) (smul (le_val a) base_point)"
  by (rule pack_p3 [OF scalarmult_base_is [OF assms]])

text \<open>A key pair: the public key packs the secret multiple of the base point.\<close>

definition key_pair :: "bytes \<Rightarrow> bytes \<Rightarrow> bool" where
  "key_pair pk sk \<longleftrightarrow> length sk = 64 \<and> packs pk (smul (le_val (take 32 sk)) base_point)"

lemma clamp_low: "(le_val k mod 2 ^ 254) div 8 * 8 < 2 ^ 254"
proof -
  have "x div 8 * 8 \<le> x" for x :: int by (simp add: minus_mod_eq_div_mult [symmetric])
  moreover have "le_val k mod 2 ^ 254 < 2 ^ 254" by simp
  ultimately show ?thesis by (rule order_le_less_trans)
qed

lemma clamp_less: "length k = 32 \<Longrightarrow> le_val (clamp k) < 2 ^ 255"
  using clamp_low [of k] by (simp add: clamp_val)

lemma clamp_top: "length k = 32 \<Longrightarrow> clamp k ! 31 < 128"
  using clamp_less [of k] top_byte_small [of "clamp k"] by (simp add: word_less_def)

lemma create_keypair_pair:
  assumes "length (ctx_buf ctx) = 128" and "length pk0 = 32" and "length sk0 = 64" and "length seed = 32"
    and "ed25519_create_keypair ctx pk0 sk0 seed = (pk, sk)"
  shows "key_pair pk sk"
proof -
  let ?a = "clamp (take 32 (sha512_digest seed))"
  have e: "pk = ge_p3_tobytes (ge_scalarmult_base ?a)" "sk = ?a @ drop 32 (sha512_digest seed)"
    using create_keypair_eq [OF assms(1-4)] assms(5) by simp_all
  show ?thesis using scalar_multiple_packs [of ?a] clamp_top [of "take 32 (sha512_digest seed)"] by (simp add: key_pair_def e)
qed

lemma signature_verifies:
  assumes "length (ctx_buf ctx) = 128" and "length r = 64" and "length hram = 64" and "length signature = 64" and "key_pair pk sk"
    and "length (ctx_buf ctx') = 128" and "length h = 64"
  shows "ed25519_verify A ctx' h (ed25519_sign ctx r hram signature m pk sk) m pk"
proof -
  have sk: "length sk = 64" "length pk = 32" and P: "packs pk (smul (le_val (take 32 sk)) base_point)"
    using assms(5) by (simp_all add: key_pair_def packs_def encodes_def)
  define a rb R k where "a = take 32 sk" and "rb = sign_nonce m sk" and "R = sign_R m sk" and "k = challenge R pk m"
  define S where "S = sc_muladd k a rb"
  have len: "length a = 32" "length rb = 32" "length k = 32" "length R = 32"
    using sk by (simp_all add: a_def rb_def k_def R_def sign_nonce_def challenge_def sign_R_def)
  have sig: "ed25519_sign ctx r hram signature m pk sk = R @ S"
    using sign_eq [OF assms(1-4) sk(2,1)] by (simp add: R_def S_def k_def a_def rb_def)
  have S: "le_val S = (le_val k * le_val a + le_val rb) mod order25519" using len by (simp add: S_def sc_muladd_ok)
  then have "le_val S < order25519" by simp
  then have S253: "le_val S < 2 ^ 253" using order_pos(2) by linarith
  have "length S = 32" by (simp add: S_def)
  have "le_val rb < order25519" unfolding rb_def sign_nonce_def by (rule reduced_small) simp
  then have "packs R (smul (le_val rb) base_point)"
    unfolding R_def sign_R_def rb_def [symmetric] by (intro scalar_multiple_packs small_scalar len)
  moreover have "smul (le_val S) base_point - smul (le_val k) (smul (le_val a) base_point) = smul (le_val rb) base_point"
    unfolding S smul_mod smul_smul smul_add by simp
  ultimately show ?thesis
    using verify_group [OF assms(6,7) _ P, of "R @ S" A m] len \<open>length S = 32\<close> S253 by (simp add: sig a_def k_def)
qed

section \<open>Verification as an equation\<close>

text \<open>The point a public key stands for: the \<open>y\<close> of its low 255 bits, reduced, and the \<open>x\<close> with the parity of its top bit.\<close>

definition decodes :: "bytes \<Rightarrow> ed \<Rightarrow> bool" where
  "decodes s P \<longleftrightarrow> length s = 32 \<and> snd (coords P) = of_int (le_val s mod 2 ^ 255) \<and>
    (fst (coords P) = 0 \<or> rep_gf (fst (coords P)) mod 2 = uint (s ! 31) div 128)"

lemma packs_decodes: "packs s P \<Longrightarrow> decodes s P"
  using packs_y [of s P] by (cases "coords P") (simp add: decodes_def)

lemma decodes_unique:
  assumes "decodes s P" and "decodes s Q" shows "P = Q"
proof -
  obtain x y x' y' where c: "coords P = (x, y)" "coords Q = (x', y')" by (metis surj_pair)
  have y: "y' = y" using assms by (simp add: decodes_def c)
  have "x' = x \<or> x' = - x" using same_y [of x y x'] on_curve_coords c y by blast
  moreover have "x' = x" if "x' = - x" "x \<noteq> 0"
    using assms parity_uminus [OF that(2)] that by (simp add: decodes_def c)
  ultimately have "x' = x" by (cases "x = 0") auto
  then show ?thesis using c y by (metis coords_inject)
qed

lemma unpack_decodes:
  assumes "length s = 32" and "ge_frombytes_negate_vartime h s = (ret, h')"
  shows "ret = 0 \<longleftrightarrow> (\<exists>P. decodes s P)" and "ret = 0 \<Longrightarrow> decodes s P \<Longrightarrow> is_p3 h' (- P)"
proof -
  define y where "y = (of_int (le_val s mod 2 ^ 255) :: gf)"
  note u = ge_frombytes_ok [OF assms, folded y_def] and dec_def = decodes_def [of s, folded y_def]
  have b: "uint (s ! 31) div 128 = 0 \<or> uint (s ! 31) div 128 = 1"
    using uint_byte [of "s ! 31"] by (auto simp: pos_imp_zdiv_nonneg_iff)
  have dec: "\<exists>Q. decodes s Q \<and> is_p3 h' (- Q)" if ret: "ret = 0"
  proof -
    obtain x where x: "rep_p3 h' (x, y)" "on_curve x y" "x = 0 \<or> rep_gf x mod 2 \<noteq> uint (s ! 31) div 128" using u(2) [OF ret] by blast
    define Q where "Q = - ed_of (x, y)"
    have q: "coords (ed_of (x, y)) = (x, y)" using x(2) by (intro ed_of_inverse) (simp add: curve_point_def)
    then have Q: "coords Q = (- x, y)" by (simp add: Q_def uminus_ed.rep_eq)
    have "- x = 0 \<or> rep_gf (- x) mod 2 = uint (s ! 31) div 128"
    proof (cases "x = 0")
      case False
      then have "rep_gf (- x) mod 2 \<noteq> rep_gf x mod 2" "rep_gf x mod 2 \<noteq> uint (s ! 31) div 128" using parity_uminus x(3) by auto
      moreover have "rep_gf z mod 2 = 0 \<or> rep_gf z mod 2 = 1" for z by auto
      ultimately show ?thesis using b by metis
    qed simp
    then have "decodes s Q" using assms(1) by (simp add: dec_def Q)
    moreover have "is_p3 h' (- Q)" using x(1) by (simp add: Q_def q)
    ultimately show ?thesis by blast
  qed
  show "ret = 0 \<Longrightarrow> decodes s P \<Longrightarrow> is_p3 h' (- P)" using dec decodes_unique by blast
  have "ret = 0" if "decodes s Q" for Q
  proof -
    have "snd (coords Q) = y" using that by (simp only: dec_def)
    then have "on_curve (fst (coords Q)) y" using on_curve_coords [OF prod.collapse [symmetric], of Q] by simp
    then show ?thesis using u(1) root_test by simp
  qed
  then show "ret = 0 \<longleftrightarrow> (\<exists>P. decodes s P)" using dec by blast
qed

lemma verify_equation:
  assumes "length (ctx_buf ctx) = 128" and "length h = 64" and "length signature = 64" and "length pk = 32"
  shows "ed25519_verify A ctx h signature m pk \<longleftrightarrow> le_val (drop 32 signature) < 2 ^ 253 \<and>
    (\<exists>P. decodes pk P \<and>
      packs (take 32 signature) (smul (le_val (drop 32 signature)) base_point - smul (le_val (challenge (take 32 signature) pk m)) P))"
proof -
  obtain ret A' where f: "ge_frombytes_negate_vartime A pk = (ret, A')" by (metis surj_pair)
  note d = unpack_decodes [OF assms(4) f]
  let ?S = "drop 32 signature" and ?k = "challenge (take 32 signature) pk m"
  have k: "length ?k = 32" "le_val ?k < 2 ^ 253" using small_challenge by (simp_all add: challenge_def)
  have p: "packs (ge_tobytes (ge_double_scalarmult_vartime ?k A' ?S)) (smul (le_val ?S) base_point - smul (le_val ?k) P)"
    if "le_val ?S < 2 ^ 253" "ret = 0" "decodes pk P" for P
    using pack_p2 [OF double_scalarmult_is [OF k _ that(1) d(2) [OF that(2,3)]]] assms(3) by (simp add: smul_minus)
  show ?thesis unfolding verify_iff [OF assms f] using d(1) p packs_unique by metis
qed

section \<open>Adding a scalar to a key pair\<close>

lemma add_scalar_public:
  assumes "packs (take 32 pk) P" and "length pk = 32" and "length scalar = 32"
  shows "\<exists>pk'. ed25519_add_scalar u ctx hashbuf (Some pk) None scalar = (Some pk', None) \<and>
    packs pk' (smul (le_val scalar mod 2 ^ 255) base_point + P)"
proof -
  let ?n = "take 31 scalar @ [scalar ! 31 AND 127]"
  obtain u' where f: "ge_frombytes_negate_vartime u (take 32 pk) = (0, u')" and u': "is_p3 u' (- P)" using unpack_packed [OF assms(1)] by blast
  define v where "v = u'\<lparr>p3_X := fe_neg (p3_X u'), p3_T := fe_neg (p3_T u')\<rparr>"
  have "is_p3 v P"
    using u' fe_neg_abs [of 102 "p3_X u'"] fe_neg_bd [of 102 "p3_X u'"] fe_neg_abs [of 102 "p3_T u'"] fe_neg_bd [of 102 "p3_T u'"]
    by (simp add: rep_p3_def v_def uminus_ed.rep_eq)
  moreover have "?n ! 31 < 128" using assms(3) by (simp add: nth_append word_less_def byte_masks)
  then have "is_p3 (ge_scalarmult_base ?n) (smul (le_val scalar mod 2 ^ 255) base_point)"
    using scalarmult_base_is [of ?n] assms(3) by (simp add: clear_top_bit)
  ultimately have "packs (ge_p3_tobytes (ge_p1p1_to_p3 (ge_add (ge_scalarmult_base ?n) (ge_p3_to_cached v)))) (smul (le_val scalar mod 2 ^ 255) base_point + P)"
    by (intro pack_p3 group_is)
  then show ?thesis using f assms(2) by (simp add: ed25519_add_scalar_def Let_def v_def)
qed

lemma add_scalar_pair:
  assumes "length (ctx_buf ctx) = 128" and "length hashbuf = 64" and "key_pair pk sk" and "length scalar = 32"
  shows "\<exists>pk' sk'. ed25519_add_scalar u ctx hashbuf (Some pk) None scalar = (Some pk', None) \<and>
    ed25519_add_scalar u ctx hashbuf None (Some sk) scalar = (None, Some sk') \<and>
    ed25519_add_scalar u ctx hashbuf (Some pk) (Some sk) scalar = (Some pk', Some sk') \<and> key_pair pk' sk'"
proof -
  have sk: "length sk = 64" "length pk = 32" and P: "packs pk (smul (le_val (take 32 sk)) base_point)"
    using assms(3) by (simp_all add: key_pair_def packs_def encodes_def)
  obtain pk' where pk': "ed25519_add_scalar u ctx hashbuf (Some pk) None scalar = (Some pk', None)"
    and Q: "packs pk' (smul (le_val scalar mod 2 ^ 255) base_point + smul (le_val (take 32 sk)) base_point)"
    using add_scalar_public [of pk _ scalar u ctx hashbuf] P sk assms(4) by auto
  obtain a where a: "ed25519_add_scalar u ctx hashbuf None (Some sk) scalar = (None, Some (a @ take 32 (sha512_digest (drop 32 sk @ scalar))))"
    "length a = 32" "le_val a = (le_val scalar mod 2 ^ 255 + le_val (take 32 sk)) mod order25519"
    using add_scalar_private [OF assms(1,2) sk(1) assms(4)] by blast
  define sk' where "sk' = a @ take 32 (sha512_digest (drop 32 sk @ scalar))"
  have len: "length sk' = 64" using a(2) by (simp add: sk'_def)
  have Q': "packs pk' (smul (le_val a) base_point)" using Q unfolding a(3) smul_mod smul_add .
  have kp: "key_pair pk' sk'" using Q' len a(2) by (simp add: key_pair_def sk'_def)
  have both: "ed25519_add_scalar u ctx hashbuf (Some pk) (Some sk) scalar = (Some (ge_p3_tobytes (ge_scalarmult_base a)), Some sk')"
    using a(1,2) sk(2) by (auto simp: ed25519_add_scalar_def Let_def sk'_def split: prod.splits)
  have "le_val a < order25519" unfolding a(3) by simp
  then have "ge_p3_tobytes (ge_scalarmult_base a) = pk'"
    using scalar_multiple_packs [OF a(2) small_scalar [OF a(2)]] Q' packs_unique by blast
  then show ?thesis using pk' a(1) both kp by (metis sk'_def)
qed

section \<open>Properties\<close>

text \<open>Claim (C1): signatures verify.  For a key pair made from any seed, the signature of any message under it is accepted with its public key,
  whatever the buffers and the stack held before.\<close>

theorem signature_roundtrip:
  assumes "length (ctx_buf ctx) = 128" and "length pk0 = 32" and "length sk0 = 64" and "length seed = 32"
    and "ed25519_create_keypair ctx pk0 sk0 seed = (pk, sk)"
    and "length (ctx_buf ctx1) = 128" and "length r = 64" and "length hram = 64" and "length signature = 64"
    and "length (ctx_buf ctx2) = 128" and "length h = 64"
  shows "ed25519_verify A ctx2 h (ed25519_sign ctx1 r hram signature m pk sk) m pk"
  using signature_verifies [OF assms(6-9) create_keypair_pair [OF assms(1-5)] assms(10,11)] .

theorem signature_roundtrip_witness:
  "case ed25519_create_keypair stack_ctx (replicate 32 0) (replicate 64 0) (replicate 32 9) of (pk, sk) \<Rightarrow>
    ed25519_verify ge_p3_0 stack_ctx (replicate 64 0) (ed25519_sign stack_ctx (replicate 64 1) (replicate 64 2) (replicate 64 3) [104, 105] pk sk) [104, 105] pk"
proof -
  obtain pk sk where k: "ed25519_create_keypair stack_ctx (replicate 32 0) (replicate 64 0) (replicate 32 9) = (pk, sk)" by (metis surj_pair)
  show ?thesis
    using signature_roundtrip [OF _ _ _ _ k, of stack_ctx "replicate 64 1" "replicate 64 2" "replicate 64 3" stack_ctx "replicate 64 0" ge_p3_0 "[104, 105]"]
    unfolding k stack_ctx_buf length_replicate by simp
qed

text \<open>Claim (C10): verification is the group equation.  A signature \<open>(R, S)\<close> is accepted exactly when \<open>S < 2\<^sup>2\<^sup>5\<^sup>3\<close>, the public key decodes to a point
  \<open>A\<close> of the curve, and \<open>R\<close> is the canonical encoding of the point \<open>S B - k A\<close> with \<open>k = SHA512(R A M) mod l\<close>.\<close>

theorem verification_equation:
  assumes "length (ctx_buf ctx) = 128" and "length h = 64" and "length signature = 64" and "length pk = 32"
  shows "ed25519_verify A ctx h signature m pk \<longleftrightarrow> le_val (drop 32 signature) < 2 ^ 253 \<and>
    (\<exists>P. decodes pk P \<and> packs (take 32 signature) (smul (le_val (drop 32 signature)) base_point -
      smul (le_val (sha512_digest (take 32 signature @ pk @ m)) mod order25519) P))"
  using verify_equation [OF assms] by (simp add: challenge_def sc_reduce_ok)

theorem verification_equation_witness:
  "\<not> ed25519_verify ge_p3_0 stack_ctx (replicate 64 0) (replicate 64 255) [] (1 # replicate 31 0)"
proof -
  have "\<not> le_val (drop 32 (replicate 64 255)) < 2 ^ 253" by code_simp
  then show ?thesis
    using verification_equation [of stack_ctx "replicate 64 0" "replicate 64 255" "1 # replicate 31 0" ge_p3_0 "[]"] by simp
qed

text \<open>Claim (C20): packing and unpacking are inverse: a packed point of the curve is 32 bytes that unpack, on any uninitialised point, to its negation, and
  conversely whatever unpacks is an encoding of exactly one point of the curve, which the result is the negation of.\<close>

theorem pack_roundtrip:
  assumes "rep_p3 g (coords P)" and "length s = 32"
  shows "(\<exists>h'. ge_frombytes_negate_vartime h (ge_p3_tobytes g) = (0, h') \<and> rep_p3 h' (coords (- P))) \<and>
    (fst (ge_frombytes_negate_vartime h s) = 0 \<longleftrightarrow> (\<exists>!Q. decodes s Q)) \<and>
    (\<forall>Q. decodes s Q \<longrightarrow> rep_p3 (snd (ge_frombytes_negate_vartime h s)) (coords (- Q)))"
proof -
  obtain ret h' where f: "ge_frombytes_negate_vartime h s = (ret, h')" by (metis surj_pair)
  show ?thesis using unpack_packed [OF pack_p3 [OF assms(1)], of h] unpack_decodes [OF assms(2) f] decodes_unique unfolding f by auto
qed

theorem pack_roundtrip_witness: "\<exists>h'. ge_frombytes_negate_vartime ge_p3_0 (ge_p3_tobytes ge_p3_0) = (0, h') \<and> rep_p3 h' (coords (- 0))"
  using pack_roundtrip [OF p3_0_is, of "replicate 32 0" ge_p3_0] by simp

text \<open>Claim (C19): adding a scalar to a key pair.  The public key can be advanced without the private key: both ways lead to the same public key,
  and with the new private key it is a key pair again, so that its signatures verify.\<close>

theorem add_scalar_agrees:
  assumes "length (ctx_buf ctx) = 128" and "length hashbuf = 64" and "key_pair pk sk" and "length scalar = 32"
  shows "\<exists>pk' sk'. ed25519_add_scalar u ctx hashbuf (Some pk) None scalar = (Some pk', None) \<and>
    ed25519_add_scalar u ctx hashbuf None (Some sk) scalar = (None, Some sk') \<and>
    ed25519_add_scalar u ctx hashbuf (Some pk) (Some sk) scalar = (Some pk', Some sk') \<and> key_pair pk' sk' \<and>
    (\<forall>A ctx1 r hram signature ctx2 h m. length (ctx_buf ctx1) = 128 \<longrightarrow> length r = 64 \<longrightarrow> length hram = 64 \<longrightarrow> length signature = 64 \<longrightarrow>
      length (ctx_buf ctx2) = 128 \<longrightarrow> length h = 64 \<longrightarrow> ed25519_verify A ctx2 h (ed25519_sign ctx1 r hram signature m pk' sk') m pk')"
proof -
  obtain pk' sk' where k: "ed25519_add_scalar u ctx hashbuf (Some pk) None scalar = (Some pk', None)"
      "ed25519_add_scalar u ctx hashbuf None (Some sk) scalar = (None, Some sk')"
      "ed25519_add_scalar u ctx hashbuf (Some pk) (Some sk) scalar = (Some pk', Some sk')" "key_pair pk' sk'"
    using add_scalar_pair [OF assms] by blast
  show ?thesis by (rule exI [of _ pk'], rule exI [of _ sk'], intro conjI k allI impI) (rule signature_verifies [OF _ _ _ _ k(4)])
qed

theorem add_scalar_agrees_witness:
  "case ed25519_create_keypair stack_ctx (replicate 32 0) (replicate 64 0) (replicate 32 9) of (pk, sk) \<Rightarrow>
    \<exists>pk' sk'. ed25519_add_scalar ge_p3_0 stack_ctx (replicate 64 0) (Some pk) None (replicate 32 7) = (Some pk', None) \<and>
      ed25519_add_scalar ge_p3_0 stack_ctx (replicate 64 0) (Some pk) (Some sk) (replicate 32 7) = (Some pk', Some sk')"
proof -
  obtain pk sk where k: "ed25519_create_keypair stack_ctx (replicate 32 0) (replicate 64 0) (replicate 32 9) = (pk, sk)" by (metis surj_pair)
  have "key_pair pk sk" using create_keypair_pair [OF _ _ _ _ k] by simp
  then show ?thesis using add_scalar_agrees [of stack_ctx "replicate 64 0" pk sk "replicate 32 7" ge_p3_0] unfolding k by fastforce
qed

end
