(* ===== verification/Key_Exchange.thy ===== *)
theory Key_Exchange
  imports Signature
begin

text \<open>
  The key exchange as a group operation: the ladder of \<^verbatim>\<open>key_exchange.c\<close> computes on the \<open>u\<close> coordinates \<open>(1 + y) / (1 - y)\<close> of the
  multiples of a point of the curve, so that two key pairs arrive at the same secret.
\<close>

section \<open>Coordinates of the Montgomery form\<close>

definition mont_coord :: "ed \<Rightarrow> gf" where
  "mont_coord P = (1 + snd (coords P)) / (1 - snd (coords P))"

text \<open>A quotient \<open>X : Z\<close> that stands for the point, the neutral element being \<open>1 : 0\<close>.\<close>

definition rep_mont :: "gf \<Rightarrow> gf \<Rightarrow> ed \<Rightarrow> bool" where
  "rep_mont X Z P \<longleftrightarrow> (\<exists>k. k \<noteq> 0 \<and> X = k * (1 + snd (coords P)) \<and> Z = k * (1 - snd (coords P)))"

lemma rep_montI: "k \<noteq> 0 \<Longrightarrow> X = k * (1 + snd (coords P)) \<Longrightarrow> Z = k * (1 - snd (coords P)) \<Longrightarrow> rep_mont X Z P"
  unfolding rep_mont_def by blast

lemma rep_mont_coord: "rep_mont X Z P \<Longrightarrow> X / Z = mont_coord P"
  by (auto simp: rep_mont_def mont_coord_def)

text \<open>Two quotients are equal when the cross products are, unless both are zero.\<close>

lemma rep_mont_cross:
  assumes "X * (1 - snd (coords P)) = Z * (1 + snd (coords P))" and "X \<noteq> 0 \<or> Z \<noteq> 0"
  shows "rep_mont X Z P"
proof (rule rep_montI)
  define y where "y = snd (coords P)"
  have "X * 2 = (X + Z) * (1 + y)" "Z * 2 = (X + Z) * (1 - y)" using assms(1) unfolding y_def [symmetric] by algebra+
  then show "X = (X + Z) / 2 * (1 + snd (coords P))" "Z = (X + Z) / 2 * (1 - snd (coords P))"
    unfolding y_def [symmetric] by (simp_all add: nonzero_eq_divide_eq)
  then show "(X + Z) / 2 \<noteq> 0" using assms(2) by (metis mult_zero_left)
qed

lemma one_y_nonzero: "1 + y \<noteq> 0 \<or> 1 - y \<noteq> 0" for y :: gf
proof (rule ccontr)
  assume "\<not> ?thesis"
  then have "1 + y = 0" "1 - y = 0" by blast+
  moreover have "2 = (1 + y) + (1 - y)" by (simp add: algebra_simps)
  ultimately have "(2 :: gf) = 0" by (simp only: add_0_left)
  then show False by simp
qed

section \<open>Doubling\<close>

text \<open>The double on \<open>y\<close> alone, from the equation of the curve.\<close>

lemma double_y:
  fixes d x y w :: gf
  assumes "- (x * x) + y * y = 1 + d * (x * x) * (y * y)" and "w * (1 - d * x * x * y * y) = y * y + x * x"
  shows "(d * (y * y) + 1) * (1 - d * x * x * y * y) = 1 + 2 * (d * (y * y)) - d * (y * y) * (y * y)"
    and "(1 + w) * (1 + 2 * (d * (y * y)) - d * (y * y) * (y * y)) = 2 * (d + 1) * (y * y)"
    and "(1 - w) * (1 + 2 * (d * (y * y)) - d * (y * y) * (y * y)) = 2 * (1 - y * y) * (1 + d * (y * y))"
  using assms by algebra+

lemma double_scaled:
  fixes d y w e k :: gf
  assumes "d * 121666 = - 121665" and "(1 + w) * e = 2 * (d + 1) * (y * y)" and "(1 - w) * e = 2 * (1 - y * y) * (1 + d * (y * y))"
  shows "k * (1 + w) * (121666 * e) = k * (2 * (y * y))"
    and "k * (1 - w) * (121666 * e) = k * (2 * (1 - y * y) * (y * y + 121666 * (1 - y * y)))"
proof -
  have n: "(d + 1) * 121666 = 1" using assms(1) by (simp add: distrib_right)
  have "k * (1 + w) * (121666 * e) = k * 121666 * ((1 + w) * e)" by (simp only: ac_simps)
  also have "\<dots> = k * (2 * (y * y)) * ((d + 1) * 121666)" unfolding assms(2) by (simp only: ac_simps)
  finally show "k * (1 + w) * (121666 * e) = k * (2 * (y * y))" by (simp only: n mult_1_right)
  have m: "(1 + d * (y * y)) * 121666 = y * y + 121666 * (1 - y * y)" using n by algebra
  have "k * (1 - w) * (121666 * e) = k * 121666 * ((1 - w) * e)" by (simp only: ac_simps)
  also have "\<dots> = k * (2 * (1 - y * y) * ((1 + d * (y * y)) * 121666))" unfolding assms(3) by (simp only: ac_simps)
  finally show "k * (1 - w) * (121666 * e) = k * (2 * (1 - y * y) * (y * y + 121666 * (1 - y * y)))" by (simp only: m)
qed

lemma sum_y:
  assumes "coords P = (x1, y1)" and "coords Q = (x2, y2)"
  shows "snd (coords (P + Q)) * (1 - gf_d * x1 * x2 * y1 * y2) = y1 * y2 + x1 * x2"
    and "1 - gf_d * x1 * x2 * y1 * y2 \<noteq> 0"
proof -
  have c: "on_curve x1 y1" "on_curve x2 y2" using assms on_curve_coords by blast+
  obtain x3 y3 where s: "padd (x1, y1) (x2, y2) = (x3, y3)" by (metis surj_pair)
  show "snd (coords (P + Q)) * (1 - gf_d * x1 * x2 * y1 * y2) = y1 * y2 + x1 * x2"
    using padd_coords(2) [OF c s] by (simp add: plus_ed.rep_eq assms s)
  show "1 - gf_d * x1 * x2 * y1 * y2 \<noteq> 0" by (rule denominators_nonzero(2) [OF c])
qed

lemma rep_mont_double:
  assumes "rep_mont X Z P"
  defines "a \<equiv> X + Z" and "b \<equiv> X - Z"
  defines "e \<equiv> a * a - b * b"
  shows "rep_mont (a * a * (b * b)) (e * (b * b + 121666 * e)) (P + P)"
proof -
  obtain x y where P: "coords P = (x, y)" by (metis surj_pair)
  obtain k where k: "k \<noteq> 0" "X = k * (1 + y)" "Z = k * (1 - y)" using assms(1) by (auto simp: rep_mont_def P)
  define w f where "w = snd (coords (P + P))" and "f = 1 + 2 * (gf_d * (y * y)) - gf_d * (y * y) * (y * y)"
  note sy = sum_y [OF P P]
  have c: "on_curve x y" by (rule on_curve_coords [OF P])
  note dy = double_y [OF c [unfolded on_curve_def] sy(1)[folded w_def], folded f_def]
  have f: "f \<noteq> 0" using sy(2) gf_v_nonzero [of y] unfolding dy(1) [symmetric] by (simp add: gf_v_def ac_simps)
  define q where "q = 8 * (k * k * k * k)"
  have q: "q \<noteq> 0" using k(1) gf_2_nonzero
  proof -
    have "(8 :: gf) = 2 * 2 * 2" by simp
    then show ?thesis unfolding q_def using k(1) gf_2_nonzero by (metis mult_eq_0_iff)
  qed
  have n: "(121666 :: gf) \<noteq> 0" using gf_k_nonzero by (metis mult_zero_right)
  have ab: "a = 2 * k" "b = 2 * k * y" unfolding a_def b_def k(2,3) by (simp_all add: algebra_simps)
  note sc = double_scaled [OF curve_d_eq dy(2,3), of q]
  show ?thesis
  proof (rule rep_montI [of "q * (121666 * f)"])
    show "q * (121666 * f) \<noteq> 0" using q n f by simp
    have "a * a * (b * b) = q * (2 * (y * y))" unfolding ab q_def by algebra
    also have "\<dots> = q * (121666 * f) * (1 + w)" unfolding sc(1) [symmetric] by (simp only: ac_simps)
    finally show "a * a * (b * b) = q * (121666 * f) * (1 + snd (coords (P + P)))" unfolding w_def .
    have e: "e = 4 * (k * k) * (1 - y * y)" "b * b = 4 * (k * k) * (y * y)" unfolding e_def ab by algebra+
    have "e * (b * b + 121666 * e) = q * (2 * (1 - y * y) * (y * y + 121666 * (1 - y * y)))" unfolding e q_def by algebra
    also have "\<dots> = q * (121666 * f) * (1 - w)" unfolding sc(2) [symmetric] by (simp only: ac_simps)
    finally show "e * (b * b + 121666 * e) = q * (121666 * f) * (1 - snd (coords (P + P)))" unfolding w_def .
  qed
qed

section \<open>Adding with a known difference\<close>

lemma diff_add_poly:
  fixes d x1 y1 x2 y2 :: gf
  assumes "(d * (y1 * y1) + 1) * (x1 * x1) = y1 * y1 - 1" and "(d * (y2 * y2) + 1) * (x2 * x2) = y2 * y2 - 1"
  defines "V \<equiv> (d * (y1 * y1) + 1) * (d * (y2 * y2) + 1)" and "t \<equiv> d * x1 * x2 * y1 * y2"
  shows "V * ((y1 + y2) * (y1 + y2) * ((1 - t - (y1 * y2 + x1 * x2)) * (1 + t - (y1 * y2 - x1 * x2)))) =
    V * ((y1 - y2) * (y1 - y2) * ((1 - t + (y1 * y2 + x1 * x2)) * (1 + t + (y1 * y2 - x1 * x2))))"
  unfolding V_def t_def using assms(1,2) by algebra

lemma diff_add_y:
  assumes "coords P = (x1, y1)" and "coords Q = (x2, y2)"
  defines "w \<equiv> snd (coords (P + Q))" and "v \<equiv> snd (coords (P - Q))"
  shows "(y1 + y2) * (y1 + y2) * ((1 - w) * (1 - v)) = (y1 - y2) * (y1 - y2) * ((1 + w) * (1 + v))"
    and "y1 = 0 \<Longrightarrow> y2 = 0 \<Longrightarrow> v = 1 \<or> v = - 1"
proof -
  define t where "t = gf_d * x1 * x2 * y1 * y2"
  have mQ: "coords (- Q) = (- x2, y2)" by (simp add: uminus_ed.rep_eq assms(2))
  have c: "gf_v y1 * (x1 * x1) = gf_u y1" "gf_v y2 * (x2 * x2) = gf_u y2"
    using on_curve_coords [OF assms(1)] on_curve_coords [OF assms(2)] by (simp_all add: on_curve_iff)
  have w: "w * (1 - t) = y1 * y2 + x1 * x2" "1 - t \<noteq> 0"
    using sum_y [OF assms(1,2)] by (simp_all add: w_def t_def)
  have v: "v * (1 + t) = y1 * y2 - x1 * x2" "1 + t \<noteq> 0"
    using sum_y [OF assms(1) mQ] by (simp_all add: v_def t_def)
  have "gf_v y1 * gf_v y2 * ((y1 + y2) * (y1 + y2) * ((1 - t - (y1 * y2 + x1 * x2)) * (1 + t - (y1 * y2 - x1 * x2)))) =
    gf_v y1 * gf_v y2 * ((y1 - y2) * (y1 - y2) * ((1 - t + (y1 * y2 + x1 * x2)) * (1 + t + (y1 * y2 - x1 * x2))))"
    using diff_add_poly [of gf_d y1 x1 y2 x2] c unfolding t_def gf_v_def gf_u_def by (simp only: ac_simps)
  then have "(y1 + y2) * (y1 + y2) * ((1 - t - w * (1 - t)) * (1 + t - v * (1 + t))) =
      (y1 - y2) * (y1 - y2) * ((1 - t + w * (1 - t)) * (1 + t + v * (1 + t)))"
    unfolding w(1) v(1) using gf_v_nonzero [of y1] gf_v_nonzero [of y2] by (metis mult_left_cancel mult_eq_0_iff)
  then have "((1 - t) * (1 + t)) * ((y1 + y2) * (y1 + y2) * ((1 - w) * (1 - v))) = ((1 - t) * (1 + t)) * ((y1 - y2) * (y1 - y2) * ((1 + w) * (1 + v)))"
    by algebra
  then show "(y1 + y2) * (y1 + y2) * ((1 - w) * (1 - v)) = (y1 - y2) * (y1 - y2) * ((1 + w) * (1 + v))"
    using w(2) v(2) by (metis mult_left_cancel mult_eq_0_iff)
  show "v = 1 \<or> v = - 1" if "y1 = 0" "y2 = 0"
  proof -
    have "x1 * x1 = - 1" "x2 * x2 = - 1" "v = - (x1 * x2)" using c v that by (simp_all add: gf_u_def gf_v_def t_def)
    then have "v * v = 1 * 1" by algebra
    then show ?thesis unfolding gf_square_eq .
  qed
qed

lemma rep_mont_diff:
  assumes "rep_mont X1 Z1 P" and "rep_mont X2 Z2 Q" and "snd (coords (P - Q)) = v" and "v \<noteq> 1" and "v \<noteq> - 1"
  defines "da \<equiv> (X2 - Z2) * (X1 + Z1)" and "cb \<equiv> (X2 + Z2) * (X1 - Z1)"
  shows "rep_mont ((da + cb) ^ 2) ((1 + v) / (1 - v) * (da - cb) ^ 2) (P + Q)"
proof -
  obtain x1 y1 x2 y2 where c: "coords P = (x1, y1)" "coords Q = (x2, y2)" by (metis surj_pair)
  obtain k l where k: "k \<noteq> 0" "X1 = k * (1 + y1)" "Z1 = k * (1 - y1)" and l: "l \<noteq> 0" "X2 = l * (1 + y2)" "Z2 = l * (1 - y2)"
    using assms(1,2) by (auto simp: rep_mont_def c)
  note d = diff_add_y [OF c, unfolded assms(3)]
  define w m where "w = snd (coords (P + Q))" and "m = 4 * (k * l)"
  have m: "m \<noteq> 0"
  proof -
    have "(4 :: gf) = 2 * 2" by simp
    then show ?thesis unfolding m_def using k(1) l(1) gf_2_nonzero by (metis mult_eq_0_iff)
  qed
  have s: "da + cb = m * (y1 + y2)" "da - cb = m * (y2 - y1)" unfolding da_def cb_def k(2,3) l(2,3) m_def by algebra+
  have v: "1 - v \<noteq> 0" "1 + v \<noteq> 0" using assms(4,5) by (simp_all add: eq_neg_iff_add_eq_0 add.commute)
  show ?thesis
  proof (rule rep_mont_cross)
    have "(1 - v) * ((da + cb) ^ 2 * (1 - w)) = (1 + v) * (da - cb) ^ 2 * (1 + w)"
      unfolding s using d(1) [folded w_def] by algebra
    then have "(da + cb) ^ 2 * (1 - w) = (1 + v) * (da - cb) ^ 2 * (1 + w) / (1 - v)"
      using v(1) by (simp add: nonzero_eq_divide_eq mult.commute)
    then show "(da + cb) ^ 2 * (1 - snd (coords (P + Q))) = (1 + v) / (1 - v) * (da - cb) ^ 2 * (1 + snd (coords (P + Q)))"
      by (simp add: w_def)
    show "(da + cb) ^ 2 \<noteq> 0 \<or> (1 + v) / (1 - v) * (da - cb) ^ 2 \<noteq> 0"
    proof (rule ccontr)
      assume "\<not> ?thesis"
      then have z: "y1 + y2 = 0" "y2 - y1 = 0" using m v unfolding s by auto
      have "2 * y2 = (y1 + y2) + (y2 - y1)" by (simp add: algebra_simps)
      then have "2 * y2 = 0" by (simp only: z add_0_left)
      then have "y2 = 0" using gf_2_nonzero by (metis mult_eq_0_iff)
      then have "y1 = 0" using z(1) by simp
      then show False using d(2) \<open>y2 = 0\<close> assms(4,5) by blast
    qed
  qed
qed

section \<open>The ladder\<close>

text \<open>The two points of the state are consecutive multiples.\<close>

definition ladder_at :: "ed \<Rightarrow> int \<Rightarrow> gf \<times> gf \<times> gf \<times> gf \<Rightarrow> bool" where
  "ladder_at P n s \<longleftrightarrow> (case s of (x2, z2, x3, z3) \<Rightarrow> rep_mont x2 z2 (smul n P) \<and> rep_mont x3 z3 (smul (n + 1) P))"

lemma minus_y: "snd (coords (- P)) = snd (coords P)"
  by (simp add: uminus_ed.rep_eq)

lemma ladder_at_step:
  assumes "ladder_at P n s" and "snd (coords P) \<noteq> 1" and "snd (coords P) \<noteq> - 1"
  shows "ladder_at P (2 * n + of_bool b) (mont_ladder_step (mont_coord P) b s)"
proof -
  obtain x2 z2 x3 z3 where s: "s = (x2, z2, x3, z3)" by (cases s) auto
  have r: "rep_mont x2 z2 (smul n P)" "rep_mont x3 z3 (smul (n + 1) P)" using assms(1) by (simp_all add: ladder_at_def s)
  have d: "snd (coords (smul n P - smul (n + 1) P)) = snd (coords P)" "snd (coords (smul (n + 1) P - smul n P)) = snd (coords P)"
    by (simp_all add: smul_add minus_y)
  have m: "smul n P + smul n P = smul (2 * n) P" "smul (n + 1) P + smul (n + 1) P = smul (2 + 2 * n) P"
    "smul n P + smul (n + 1) P = smul (2 * n + 1) P" "smul (n + 1) P + smul n P = smul (2 * n + 1) P"
    by (simp_all only: smul_add [symmetric]) (simp_all add: algebra_simps)
  note f = rep_mont_double [OF r(1)] rep_mont_diff [OF r d(1) assms(2,3)] rep_mont_double [OF r(2)] rep_mont_diff [OF r(2,1) d(2) assms(2,3)]
  show ?thesis
    using f unfolding m mont_coord_def [symmetric]
    by (cases b) (simp_all add: s ladder_at_def mont_ladder_step_def mont_swap_def Let_def)
qed

lemma ladder_at_fold:
  assumes "ladder_at P n s" and "snd (coords P) \<noteq> 1" and "snd (coords P) \<noteq> - 1"
  shows "ladder_at P (fold (\<lambda>i m. 2 * m + of_bool (scalar_bit e i)) is n) (fold (\<lambda>i. mont_ladder_step (mont_coord P) (scalar_bit e i)) is s)"
  using assms(1) by (induction "is" arbitrary: n s) (simp_all add: ladder_at_step [OF _ assms(2,3)])

text \<open>The bits of the scalar, from the top, make up its low part.\<close>

lemma le_val_bit: "i < 8 * length s \<Longrightarrow> bit (le_val s) i \<longleftrightarrow> scalar_bit s i"
proof (induction s arbitrary: i)
  case (Cons b s)
  let ?n = "uint b + 256 * le_val s"
  have b: "0 \<le> uint b" "uint b < 256" by (simp_all add: uint_byte)
  show ?case
  proof (cases "i < 8")
    case True
    have "bit ?n i \<longleftrightarrow> bit (take_bit 8 ?n) i" using True by (simp add: bit_take_bit_iff)
    also have "take_bit 8 ?n = uint b" using b by (simp add: take_bit_eq_mod)
    finally show ?thesis using True by (simp add: scalar_bit_def bit_uint_iff)
  next
    case False
    have "bit ?n i \<longleftrightarrow> bit (drop_bit 8 ?n) (i - 8)" using False by (simp add: bit_drop_bit_eq)
    also have "drop_bit 8 ?n = le_val s" using b by (simp add: drop_bit_eq_div)
    also have "bit (le_val s) (i - 8) \<longleftrightarrow> scalar_bit s (i - 8)" using Cons False by simp
    also have "\<dots> \<longleftrightarrow> scalar_bit (b # s) i" using False by (simp add: scalar_bit_def nth_Cons' le_div_geq le_mod_geq)
    finally show ?thesis by simp
  qed
qed simp

lemma bits_from_top:
  "n \<le> 8 * length s \<Longrightarrow> fold (\<lambda>i m. 2 * m + of_bool (scalar_bit s i)) (rev [0..<n]) m = m * 2 ^ n + take_bit n (le_val s)"
  by (induction n arbitrary: m) (simp_all add: take_bit_Suc_from_most le_val_bit algebra_simps)

lemma ladder_multiple:
  assumes "length e = 32" and "le_val e < 2 ^ 255" and "snd (coords P) \<noteq> 1" and "snd (coords P) \<noteq> - 1"
  shows "case mont_ladder (mont_coord P) e of (x, z, _, _) \<Rightarrow> x * z ^ (2 ^ 255 - 21) = mont_coord (smul (le_val e) P)"
proof -
  have y: "1 - snd (coords P) \<noteq> 0" using assms(3) by simp
  have "rep_mont 1 0 (0 :: ed)" by (rule rep_montI [of "1 / 2"]) (simp_all add: zero_ed.rep_eq)
  moreover have "rep_mont (mont_coord P) 1 P"
    using y by (intro rep_montI [of "1 / (1 - snd (coords P))"]) (simp_all add: mont_coord_def)
  ultimately have "ladder_at P 0 (1, 0, mont_coord P, 1)" by (simp add: ladder_at_def)
  note f = ladder_at_fold [OF this assms(3,4), of e "rev [0..<255]", folded mont_ladder_def]
  have "take_bit 255 (le_val e) = le_val e" using assms(2) le_val_nonneg [of e] by (simp add: take_bit_int_eq_self_iff)
  then have n: "fold (\<lambda>i m. 2 * m + of_bool (scalar_bit e i)) (rev [0..<255]) 0 = le_val e"
    using bits_from_top [of 255 e 0] assms(1) by (simp del: upt_rec_numeral)
  obtain x z x3 z3 where l: "mont_ladder (mont_coord P) e = (x, z, x3, z3)" by (cases "mont_ladder (mont_coord P) e") auto
  have "rep_mont x z (smul (le_val e) P)" using f unfolding n l by (simp add: ladder_at_def)
  then have "x * inverse z = mont_coord (smul (le_val e) P)" unfolding divide_inverse [symmetric] by (rule rep_mont_coord)
  then show ?thesis unfolding l prod.case inverse_gf_def .
qed

text \<open>The two points with \<open>x = 0\<close> have no usable coordinate: both count as \<open>u = 0\<close>, and so does everything the ladder makes of them.\<close>

definition dead :: "gf \<times> gf \<times> gf \<times> gf \<Rightarrow> bool" where
  "dead s \<longleftrightarrow> (case s of (x2, z2, x3, z3) \<Rightarrow> x2 * z2 = 0 \<and> x3 * z3 = 0)"

lemma dead_double: "x * z = 0 \<Longrightarrow> (x + z) * (x + z) - (x - z) * (x - z) = 0" for x z :: gf
  by algebra

lemma dead_step:
  assumes "dead s" shows "dead (mont_ladder_step 0 b s)" "case mont_ladder_step 0 b s of (x2, z2, x3, z3) \<Rightarrow> z2 = 0 \<and> z3 = 0"
proof -
  obtain x2 z2 x3 z3 where s: "s = (x2, z2, x3, z3)" by (cases s) auto
  have z: "(x2 + z2) * (x2 + z2) - (x2 - z2) * (x2 - z2) = 0" "(x3 + z3) * (x3 + z3) - (x3 - z3) * (x3 - z3) = 0"
    using assms by (simp_all only: dead_def s prod.case dead_double)
  show "case mont_ladder_step 0 b s of (x2, z2, x3, z3) \<Rightarrow> z2 = 0 \<and> z3 = 0"
    by (cases b) (simp_all only: s mont_ladder_step_def mont_swap_def mont_round.simps Let_def z prod.case if_True if_False mult_zero_left)
  then show "dead (mont_ladder_step 0 b s)" by (auto simp: dead_def split: prod.splits)
qed

lemma dead_fold: "dead s \<Longrightarrow> dead (fold (\<lambda>i. mont_ladder_step 0 (scalar_bit e i)) is s)"
  by (induction "is" arbitrary: s) (simp_all add: dead_step)

lemma ladder_dead: "case mont_ladder 0 e of (x, z, _, _) \<Rightarrow> x * z ^ (2 ^ 255 - 21) = 0"
proof -
  define s where "s = fold (\<lambda>i. mont_ladder_step 0 (scalar_bit e i)) (rev [1..<255]) (1, 0, 0, 1)"
  have "[0..<255] = 0 # [1..<255]" using upt_conv_Cons [of 0 255] by (simp del: upt_rec_numeral)
  then have l: "mont_ladder 0 e = mont_ladder_step 0 (scalar_bit e 0) s"
    by (simp only: mont_ladder_def s_def rev.simps fold_append fold.simps comp_apply id_apply)
  have "dead s" unfolding s_def by (rule dead_fold) (simp add: dead_def)
  obtain x z x3 z3 where m: "mont_ladder 0 e = (x, z, x3, z3)" by (cases "mont_ladder 0 e") auto
  have "z = 0" using dead_step(2) [OF \<open>dead s\<close>, of "scalar_bit e 0"] unfolding l [symmetric] m by simp
  then show ?thesis unfolding m by simp
qed

section \<open>The exchange\<close>

lemma multiple_of_8: "smul 2 P = 0 \<Longrightarrow> smul (8 * n) P = 0"
  using smul_smul [of "4 * n" 2 P] by (simp add: ac_simps)

lemma clamp_multiple: "length k = 32 \<Longrightarrow> \<exists>n. le_val (clamp k) = 8 * n"
  by (rule exI [of _ "2 ^ 251 + (le_val k mod 2 ^ 254) div 8"]) (simp add: clamp_val)

lemma order_2:
  assumes "coords P = (x, y)" and "y = 1 \<or> y = - 1" shows "smul 2 P = 0"
proof -
  have "gf_u y = 0" using assms(2) by (auto simp: gf_u_def)
  then have "gf_v y * (x * x) = 0" using on_curve_coords [OF assms(1)] by (simp add: on_curve_iff)
  then have "x = 0" using gf_v_nonzero [of y] by simp
  then have "coords (- P) = coords P" by (simp add: uminus_ed.rep_eq assms(1))
  then have "- P = P" by (simp add: coords_inject)
  then show ?thesis unfolding smul_double [symmetric] by (metis add.left_inverse)
qed

lemma mont_coord_0: "mont_coord 0 = 0"
  by (simp add: mont_coord_def zero_ed.rep_eq)

lemma mont_u_coord: "snd (coords P) = of_int (le_val pk mod 2 ^ 255) \<Longrightarrow> mont_u pk = mont_coord P"
  unfolding mont_u_def mont_coord_def Let_def divide_inverse inverse_gf_def by (simp only: add.commute)

lemma exchange_multiple:
  assumes "decodes pk P" and "32 \<le> length sk"
  shows "le_val (ed25519_key_exchange pk sk) = rep_gf (mont_coord (smul (le_val (clamp (take 32 sk))) P))"
proof -
  let ?e = "clamp (take 32 sk)"
  have pk: "length pk = 32" and y: "snd (coords P) = of_int (le_val pk mod 2 ^ 255)" using assms(1) by (simp_all only: decodes_def)
  have e: "length ?e = 32" "le_val ?e < 2 ^ 255" using clamp_less [of "take 32 sk"] assms(2) by simp_all
  obtain x z x3 z3 where l: "mont_ladder (mont_coord P) ?e = (x, z, x3, z3)" by (cases "mont_ladder (mont_coord P) ?e") auto
  have "x * z ^ (2 ^ 255 - 21) = mont_coord (smul (le_val ?e) P)"
  proof (cases "snd (coords P) = 1 \<or> snd (coords P) = - 1")
    case True
    obtain n where n: "le_val ?e = 8 * n" using clamp_multiple [of "take 32 sk"] assms(2) by auto
    have "smul 2 P = 0" using True by (intro order_2 [OF prod.collapse [symmetric]])
    then have "smul (le_val ?e) P = 0" unfolding n by (rule multiple_of_8)
    moreover have "mont_coord P = 0" using True by (auto simp: mont_coord_def)
    ultimately show ?thesis using ladder_dead [of ?e] l by (simp only: mont_coord_0 prod.case)
  next
    case False
    then have "snd (coords P) \<noteq> 1" "snd (coords P) \<noteq> - 1" by blast+
    from ladder_multiple [OF e this] show ?thesis unfolding l prod.case .
  qed
  then show ?thesis unfolding key_exchange_ok [OF pk assms(2)] mont_u_coord [OF y] l prod.case by (rule arg_cong)
qed

lemma exchange_length [simp]: "length (ed25519_key_exchange pk sk) = 32"
  by (simp add: ed25519_key_exchange_def Let_def split: prod.splits)

text \<open>The secret scalar of a private key that came from \<^verbatim>\<open>ed25519_create_keypair\<close> is clamped already.\<close>

definition clamped :: "bytes \<Rightarrow> bool" where
  "clamped sk \<longleftrightarrow> clamp (take 32 sk) = take 32 sk"

lemma clamp_clamp:
  assumes "length k = 32" shows "clamp (clamp k) = clamp k"
proof (rule le_val_inj)
  define q where "q = (le_val k mod 2 ^ 254) div 8 * 8"
  have v: "le_val (clamp k) = 2 ^ 254 + q" unfolding q_def by (rule clamp_val [OF assms])
  have q: "0 \<le> q" "q < 2 ^ 254" "q div 8 * 8 = q" unfolding q_def using clamp_low [of k] by (simp_all del: zero_less_numeral)
  then have "(2 ^ 254 + q) mod 2 ^ 254 = q" by simp
  then show "le_val (clamp (clamp k)) = le_val (clamp k)" using clamp_val [of "clamp k"] assms q(3) by (simp only: clamp_length v)
qed simp

lemma create_keypair_clamped:
  assumes "length (ctx_buf ctx) = 128" and "length pk0 = 32" and "length sk0 = 64" and "length seed = 32"
    and "ed25519_create_keypair ctx pk0 sk0 seed = (pk, sk)"
  shows "clamped sk"
  using create_keypair_eq [OF assms(1-4)] assms(5) by (auto simp: clamped_def clamp_clamp)

lemma key_pair_decodes: "key_pair pk sk \<Longrightarrow> decodes pk (smul (le_val (take 32 sk)) base_point)"
  unfolding key_pair_def by (blast intro: packs_decodes)

lemma exchange_pair:
  assumes "key_pair pk sk" and "key_pair pk' sk'"
  shows "le_val (ed25519_key_exchange pk sk') = rep_gf (mont_coord (smul (le_val (clamp (take 32 sk')) * le_val (take 32 sk)) base_point))"
  using exchange_multiple [OF key_pair_decodes [OF assms(1)], of sk'] assms(2) by (simp add: smul_smul key_pair_def)

lemma exchange_agrees:
  assumes "key_pair pk1 sk1" and "key_pair pk2 sk2" and "clamped sk1" and "clamped sk2"
  shows "ed25519_key_exchange pk1 sk2 = ed25519_key_exchange pk2 sk1"
proof (rule le_val_inj)
  show "le_val (ed25519_key_exchange pk1 sk2) = le_val (ed25519_key_exchange pk2 sk1)"
    using assms(3,4) unfolding exchange_pair [OF assms(1,2)] exchange_pair [OF assms(2,1)] clamped_def by (simp only: mult.commute)
qed simp

section \<open>Key pairs with an added scalar\<close>

text \<open>The exchange clamps the private scalar; \<^verbatim>\<open>ed25519_add_scalar\<close> leaves a scalar that is reduced modulo the order of the base
  point and no longer clamped.  Such a pair signs correctly and does not take part in an exchange.\<close>

lemma mont_coord_eq:
  assumes "mont_coord P = mont_coord Q" shows "smul 2 P = smul 2 Q \<or> smul 2 P = - smul 2 Q"
proof -
  obtain x y x' y' where c: "coords P = (x, y)" "coords Q = (x', y')" by (metis surj_pair)
  have m: "(1 + y) / (1 - y) = (1 + y') / (1 - y')" using assms by (simp add: mont_coord_def c)
  show ?thesis
  proof (cases "y = 1 \<or> y' = 1")
    case True
    have "1 + y = 0 \<or> y = 1" "1 + y' = 0 \<or> y' = 1" using True m by auto
    then have "smul 2 P = 0" "smul 2 Q = 0" using order_2 [OF c(1)] order_2 [OF c(2)] by (auto simp: eq_neg_iff_add_eq_0 add.commute)
    then show ?thesis by simp
  next
    case False
    then have "(1 + y) * (1 - y') = (1 + y') * (1 - y)" using m by (simp add: frac_eq_eq)
    then have "2 * y = 2 * y'" by algebra
    then have "y = y'" using gf_2_nonzero by (metis mult_left_cancel)
    then have "x' = x \<or> x' = - x" using same_y on_curve_coords [OF c(1)] on_curve_coords [OF c(2)] by blast
    then have "Q = P \<or> Q = - P" using c \<open>y = y'\<close> by (metis coords_inject uminus_ed.rep_eq fst_conv snd_conv)
    then show ?thesis by (auto simp: smul_minus)
  qed
qed

text \<open>A number with an inverse modulo the order does not annihilate the base point.\<close>

lemma base_inverse:
  assumes "i * n = q * order25519 + 1" shows "smul n base_point \<noteq> 0"
proof
  assume "smul n base_point = 0"
  moreover have "i * n mod order25519 = 1" unfolding assms by (simp add: order25519_def)
  moreover have "smul (i * n mod order25519) base_point = smul i (smul n base_point)" by (simp only: smul_mod smul_smul)
  ultimately show False using base_nonzero by simp
qed

definition plain_key :: bytes where
  "plain_key = replicate 31 0 @ 64 # replicate 32 0"

definition cancelling_scalar :: bytes where
  "cancelling_scalar = [181, 79, 215, 115, 105, 140, 73, 96, 89, 115, 222, 139, 122, 231, 123, 83] @ replicate 16 0"

lemma plain_key: "length plain_key = 64" "le_val (take 32 plain_key) = 2 ^ 254" "take 32 plain_key ! 31 < 128" "clamped plain_key"
  unfolding plain_key_def clamped_def by code_simp+

lemma cancelled: "length cancelling_scalar = 32" "(le_val cancelling_scalar mod 2 ^ 255 + 2 ^ 254) mod order25519 = 1"
  unfolding cancelling_scalar_def order25519_def by code_simp+

lemma inverses:
  "1938078733052164392050569037704260885923217149732080195517993920034724477155 * (2 * (2 ^ 254 * 2 ^ 254) - 2 * 2 ^ 254) =
    448828371213041864572449381067441202323783211390518229907014787579344723164644892361846640775329414091430190698424756024937397364265857438429691635858971 * order25519 + 1"
  "3353693437250007722846440271274016017003132117402081366875420623695906995002 * (2 * (2 ^ 254 * 2 ^ 254) + 2 * 2 ^ 254) =
    776662339521309153279385348728469644949797806688681855844508822753129213291643526621906530500128512780342946970391123467315213113816010384890286182792731 * order25519 + 1"
  by (simp_all add: order25519_def)

lemma added_scalar_disagrees:
  "\<exists>pk sk scalar pk' sk'. key_pair pk sk \<and> clamped sk \<and> length scalar = 32 \<and> key_pair pk' sk' \<and>
    ed25519_add_scalar ge_p3_0 stack_ctx (replicate 64 0) (Some pk) (Some sk) scalar = (Some pk', Some sk') \<and>
    ed25519_key_exchange pk' sk \<noteq> ed25519_key_exchange pk sk'"
proof -
  define pk where "pk = ge_p3_tobytes (ge_scalarmult_base (take 32 plain_key))"
  define a :: int where "a = 2 ^ 254"
  have kp: "key_pair pk plain_key"
    using scalar_multiple_packs [of "take 32 plain_key"] plain_key by (simp add: key_pair_def pk_def)
  have b: "length (ctx_buf stack_ctx) = 128" "length (replicate 64 (0 :: 8 word)) = 64" by (simp_all only: stack_ctx_buf length_replicate)
  obtain pk' sk' where k: "ed25519_add_scalar ge_p3_0 stack_ctx (replicate 64 0) None (Some plain_key) cancelling_scalar = (None, Some sk')"
      "ed25519_add_scalar ge_p3_0 stack_ctx (replicate 64 0) (Some pk) (Some plain_key) cancelling_scalar = (Some pk', Some sk')" "key_pair pk' sk'"
    using add_scalar_pair [OF b kp cancelled(1)] by blast
  have one: "le_val (take 32 sk') = 1"
    using add_scalar_private [OF b plain_key(1) cancelled(1), of ge_p3_0] k(1) cancelled(2) by (auto simp: plain_key(2))
  have sk': "length (take 32 sk') = 32" using k(3) by (simp add: key_pair_def)
  have c: "le_val (clamp (take 32 sk')) = a" unfolding clamp_val [OF sk'] one by (simp add: a_def)
  have d: "le_val (clamp (take 32 plain_key)) = a" "le_val (take 32 plain_key) = a"
    using plain_key(2,4) by (simp_all only: clamped_def a_def)
  have "ed25519_key_exchange pk' plain_key \<noteq> ed25519_key_exchange pk sk'"
  proof
    assume "ed25519_key_exchange pk' plain_key = ed25519_key_exchange pk sk'"
    then have "le_val (ed25519_key_exchange pk' plain_key) = le_val (ed25519_key_exchange pk sk')" by (rule arg_cong)
    then have "mont_coord (smul (a * a) base_point) = mont_coord (smul a base_point)"
      unfolding exchange_pair [OF k(3) kp] exchange_pair [OF kp k(3)] c d one by (simp add: rep_gf_inject)
    from mont_coord_eq [OF this] have "smul (2 * (a * a) - 2 * a) base_point = 0 \<or> smul (2 * (a * a) + 2 * a) base_point = 0"
      by (simp add: smul_smul smul_diff smul_add eq_neg_iff_add_eq_0)
    then show False using base_inverse [OF inverses(1)] base_inverse [OF inverses(2)] unfolding a_def by blast
  qed
  then show ?thesis using kp plain_key(4) cancelled(1) k(2,3) by blast
qed

section \<open>Properties\<close>

text \<open>Claim (C11): key agreement.  Two key pairs created from any seeds arrive at the same shared secret, each from its own private key and
  the public key of the other; it is the coordinate \<open>(1 + y) / (1 - y)\<close> of the product of the two secret scalars times the base
  point.  More generally, for every public key that decodes to a point \<open>P\<close> of the curve, on or off the subgroup of the base point, the
  secret is the canonical encoding of the coordinate of \<open>a P\<close> with \<open>a\<close> the secret scalar; a multiple without such a coordinate gives zero.\<close>

theorem key_agreement:
  assumes "length (ctx_buf ctx1) = 128" and "length pk01 = 32" and "length sk01 = 64" and "length seed1 = 32"
    and "ed25519_create_keypair ctx1 pk01 sk01 seed1 = (pk1, sk1)"
    and "length (ctx_buf ctx2) = 128" and "length pk02 = 32" and "length sk02 = 64" and "length seed2 = 32"
    and "ed25519_create_keypair ctx2 pk02 sk02 seed2 = (pk2, sk2)"
  shows "ed25519_key_exchange pk1 sk2 = ed25519_key_exchange pk2 sk1 \<and> length (ed25519_key_exchange pk1 sk2) = 32 \<and>
    le_val (ed25519_key_exchange pk1 sk2) = rep_gf (mont_coord (smul (le_val (take 32 sk1) * le_val (take 32 sk2)) base_point)) \<and>
    (\<forall>pk P. decodes pk P \<longrightarrow> le_val (ed25519_key_exchange pk sk1) = rep_gf (mont_coord (smul (le_val (take 32 sk1)) P)))"
proof (intro conjI allI impI)
  note k = create_keypair_pair [OF assms(1-5)] create_keypair_pair [OF assms(6-10)]
    and c = create_keypair_clamped [OF assms(1-5)] create_keypair_clamped [OF assms(6-10)]
  show "ed25519_key_exchange pk1 sk2 = ed25519_key_exchange pk2 sk1" by (rule exchange_agrees [OF k c])
  show "le_val (ed25519_key_exchange pk1 sk2) = rep_gf (mont_coord (smul (le_val (take 32 sk1) * le_val (take 32 sk2)) base_point))"
    using exchange_pair [OF k] c(2) by (simp only: clamped_def mult.commute)
  show "le_val (ed25519_key_exchange pk sk1) = rep_gf (mont_coord (smul (le_val (take 32 sk1)) P))" if "decodes pk P" for pk P
    using exchange_multiple [OF that, of sk1] c(1) k(1) by (simp add: clamped_def key_pair_def)
qed simp

theorem key_agreement_witness:
  "case ed25519_create_keypair stack_ctx (replicate 32 0) (replicate 64 0) (replicate 32 9) of (pk1, sk1) \<Rightarrow>
    case ed25519_create_keypair stack_ctx (replicate 32 1) (replicate 64 2) (replicate 32 7) of (pk2, sk2) \<Rightarrow>
    ed25519_key_exchange pk1 sk2 = ed25519_key_exchange pk2 sk1"
proof -
  obtain pk1 sk1 where k1: "ed25519_create_keypair stack_ctx (replicate 32 0) (replicate 64 0) (replicate 32 9) = (pk1, sk1)" by (metis surj_pair)
  obtain pk2 sk2 where k2: "ed25519_create_keypair stack_ctx (replicate 32 1) (replicate 64 2) (replicate 32 7) = (pk2, sk2)" by (metis surj_pair)
  show ?thesis using key_agreement [OF _ _ _ _ k1 _ _ _ _ k2] unfolding k1 k2 stack_ctx_buf length_replicate by simp
qed

end
