(* ===== verification/Client_Account.thy ===== *)
theory Client_Account
  imports Signature Account
begin

text \<open>
  Accounts of clients end to end: the key pair that \<^verbatim>\<open>generateAccount\<close> returns as text signs requests with
  \<^verbatim>\<open>createEd25519Signature\<close>, which \<^verbatim>\<open>verifyEd25519Signature\<close> accepts; and what that function accepts in general.
\<close>

text \<open>The base 64 functions of the repository are parameters; decoding is only asked to undo encoding.\<close>

definition base64_ok :: "(bytes \<Rightarrow> string) \<Rightarrow> (string \<Rightarrow> string) \<Rightarrow> bool" where
  "base64_ok base64_encode base64_decode \<longleftrightarrow> (\<forall>bs. bytes_of (base64_decode (base64_encode bs)) = bs)"

lemma base64_length: "base64_ok encode64 decode64 \<Longrightarrow> length (decode64 (encode64 bs)) = length bs"
  by (metis base64_ok_def length_bytes_of)

lemma sign_length:
  assumes "length (ctx_buf ctx) = 128" and "length r = 64" and "length hram = 64" and "length signature = 64" and "length pk = 32" and "length sk = 64"
  shows "length (ed25519_sign ctx r hram signature m pk sk) = 64"
  using sign_eq [OF assms] by (simp add: sign_R_def)

lemma account_text:
  assumes "length (ctx_buf ctx) = 128" and "length publicKey = 32" and "length privateKey = 64" and "length seed = 32" and "length bs = 32"
    and "generateAccount encode64 ctx (Some bs) seed privateKey publicKey = Inr (JObject members)"
  obtains pk sk where "key_pair pk sk" "map_of members ''PublicKey'' = Some (JString (encode64 pk))" "map_of members ''PrivateKey'' = Some (JString (encode64 sk))"
proof -
  obtain pk sk where k: "ed25519_create_keypair ctx publicKey privateKey bs = (pk, sk)" by (metis surj_pair)
  have s: "ed25519_create_seed (Some bs) seed = (0, bs)" using assms(4,5) by (simp add: ed25519_create_seed_def)
  show ?thesis
    using that [OF create_keypair_pair [OF assms(1-3,5) k]] assms(6) by (auto simp: generateAccount_def s k)
qed

lemma pair_signs:
  assumes "base64_ok encode64 decode64" and "stack_ok stk" and "stack_ok stk'" and "length signature = 64" and "key_pair pk sk"
  shows "\<exists>s. createEd25519Signature decode64 encode64 stk signature message (encode64 pk) (encode64 sk) = Inr s \<and>
    verifyEd25519Signature decode64 stk' message (encode64 pk) s = Inr True"
proof -
  have len: "length pk = 32" "length sk = 64" using assms(5) by (simp_all add: key_pair_def packs_def encodes_def)
  note st = assms(2,3) [unfolded stack_ok_def]
  note d = assms(1) [unfolded base64_ok_def, rule_format]
  define s where "s = ed25519_sign (st_ctx stk) (st_hash stk) (st_hash2 stk) signature (bytes_of message) pk sk"
  have s: "length s = 64" unfolding s_def using st(1) assms(4) len by (intro sign_length) simp_all
  have v: "ed25519_verify (st_point stk') (st_ctx stk') (st_hash stk') s (bytes_of message) pk"
    unfolding s_def using signature_verifies [OF _ _ _ assms(4,5)] st by simp
  have top: "s ! 63 AND 224 = 0" using v by (simp add: ed25519_verify_def split: if_splits)
  have "createEd25519Signature decode64 encode64 stk signature message (encode64 pk) (encode64 sk) = Inr (encode64 s)"
    unfolding createEd25519Signature_def using len s by (simp add: d Let_def base64_length [OF assms(1)] s_def)
  moreover have "verifyEd25519Signature decode64 stk' message (encode64 pk) (encode64 s) = Inr True"
    unfolding verifyEd25519Signature_def using len s v top by (simp add: d Let_def base64_length [OF assms(1)])
  ultimately show ?thesis by blast
qed

section \<open>Properties\<close>

text \<open>Claim (C12): an account works.  Whatever the random source delivers, the keys of a generated account sign every message, and the
  signature is accepted with its public key, for any base 64 functions of which decoding undoes encoding; without a random source no
  account is made.\<close>

theorem account_signs:
  assumes "base64_ok encode64 decode64" and "length (ctx_buf ctx) = 128" and "length publicKey = 32" and "length privateKey = 64" and "length seed = 32"
    and "length bs = 32" and "stack_ok stk" and "stack_ok stk'" and "length signature = 64"
  shows "generateAccount encode64 ctx None seed privateKey publicKey = Inl (Thrown ''Seed generation failed!'') \<and>
    (\<exists>members pub priv. generateAccount encode64 ctx (Some bs) seed privateKey publicKey = Inr (JObject members) \<and>
      map_of members ''PublicKey'' = Some (JString pub) \<and> map_of members ''PrivateKey'' = Some (JString priv) \<and>
      (\<forall>message. \<exists>s. createEd25519Signature decode64 encode64 stk signature message pub priv = Inr s \<and>
        verifyEd25519Signature decode64 stk' message pub s = Inr True))"
proof -
  obtain members where f: "generateAccount encode64 ctx (Some bs) seed privateKey publicKey = Inr (JObject members)"
    using generateAccount_results(2) [OF assms(2-6)] by blast
  obtain pk sk where k: "key_pair pk sk" "map_of members ''PublicKey'' = Some (JString (encode64 pk))" "map_of members ''PrivateKey'' = Some (JString (encode64 sk))"
    by (rule account_text [OF assms(2-6) f])
  show ?thesis
    using f k(2,3) pair_signs [OF assms(1,7-9) k(1)] generateAccount_results(1) [OF assms(2-6)] by blast
qed

text \<open>Base 64 replaced by the identity on characters, and a stack to run on.\<close>

definition sample_stack :: stack where
  "sample_stack = \<lparr>st_point = ge_p3_0, st_ctx = stack_ctx, st_hash = replicate 64 0, st_hash2 = replicate 64 0\<rparr>"

lemma sample_stack: "stack_ok sample_stack" "length (replicate 64 (0 :: 8 word)) = 64"
  by (simp_all add: sample_stack_def stack_ok_def)

definition plain64 :: "bytes \<Rightarrow> string" where
  "plain64 bs = map (\<lambda>b. char_of (unat b)) bs"

lemma of_char_unat: "of_char (char_of (unat b)) = b" for b :: "8 word"
proof -
  have u: "unat b < 256" using uint_byte [of b] unfolding uint_nat by linarith
  have "(of_char (char_of (unat b)) :: 8 word) = of_nat (of_char (char_of (unat b)))" by (simp only: of_nat_of_char)
  also have "\<dots> = of_nat (unat b)" using u by (simp only: of_char_of) simp
  finally show ?thesis by simp
qed

lemma plain_base64: "base64_ok plain64 id"
  by (simp add: base64_ok_def bytes_of_def plain64_def o_def of_char_unat)

theorem account_signs_witness:
  "\<exists>members pub priv. generateAccount plain64 stack_ctx (Some (replicate 32 9)) (replicate 32 0) (replicate 64 0) (replicate 32 0) = Inr (JObject members) \<and>
    map_of members ''PublicKey'' = Some (JString pub) \<and> map_of members ''PrivateKey'' = Some (JString priv) \<and>
    (\<exists>s. createEd25519Signature id plain64 sample_stack (replicate 64 0) ''hi'' pub priv = Inr s \<and>
      verifyEd25519Signature id sample_stack ''hi'' pub s = Inr True)"
  using account_signs [OF plain_base64 _ _ _ _ _ sample_stack(1,1,2), of stack_ctx "replicate 32 0" "replicate 64 0" "replicate 32 0" "replicate 32 9"]
  by (metis stack_ctx_buf length_replicate)

text \<open>Claim (C36): what is accepted from a client.  A signature with \<open>S \<ge> 2\<^sup>2\<^sup>5\<^sup>3\<close> is rejected without a look at the key.  Otherwise,
  with a key and a signature of at least the right length, the answer is whether the key decodes to a point \<open>A\<close> of the curve and
  \<open>R\<close> is the encoding of \<open>S B - k A\<close>, whatever the stack held before; extra bytes are ignored.  A shorter
  signature is read out of bounds, and so is a shorter key when \<open>S < 2\<^sup>2\<^sup>5\<^sup>3\<close>.\<close>

theorem client_accepted:
  assumes "stack_ok stk"
  shows "verifyEd25519Signature b64 stk message key sig =
    (let s = take 64 (bytes_of (b64 sig)); pk = take 32 (bytes_of (b64 key));
         k = le_val (sha512_digest (take 32 s @ pk @ bytes_of message)) mod order25519
     in if length (b64 sig) < 64 then Inl Undefined
        else if 2 ^ 253 \<le> le_val (drop 32 s) then Inr False
        else if length (b64 key) < 32 then Inl Undefined
        else Inr (\<exists>P. decodes pk P \<and> packs (take 32 s) (smul (le_val (drop 32 s)) base_point - smul k P)))"
proof (cases "64 \<le> length (b64 sig)")
  case True
  note top = signature_top [of "bytes_of (b64 sig)"]
  have st: "length (ctx_buf (st_ctx stk)) = 128" "length (st_hash stk) = 64" using assms by (simp_all add: stack_ok_def)
  show ?thesis
  proof (cases "le_val (drop 32 (take 64 (bytes_of (b64 sig)))) < 2 ^ 253 \<and> 32 \<le> length (b64 key)")
    case ok: True
    then have l: "length (take 64 (bytes_of (b64 sig))) = 64" "length (take 32 (bytes_of (b64 key))) = 32" using True by simp_all
    show ?thesis
      using verify_equation [OF st l, of "st_point stk" "bytes_of message"] True ok top
      by (simp add: verifyEd25519Signature_def Let_def challenge_def sc_reduce_ok)
  qed (use True top in \<open>auto simp: verifyEd25519Signature_def Let_def\<close>)
qed (auto simp: verifyEd25519Signature_def Let_def)

theorem client_accepted_witness:
  "verifyEd25519Signature id sample_stack ''m'' (replicate 32 CHR ''k'') (replicate 64 CHR 0xFF) = Inr False"
proof -
  have "\<not> le_val (drop 32 (take 64 (bytes_of (replicate 64 CHR 0xFF)))) < 2 ^ 253" by code_simp
  then show ?thesis
    using client_accepted [OF sample_stack(1), of id "''m''" "replicate 32 CHR ''k''" "replicate 64 CHR 0xFF"] by (simp add: Let_def)
qed

end
