(* ===== verification/Storage_Block.thy ===== *)
theory Storage_Block
  imports Cpp_String
begin

text \<open>
  The class \<^verbatim>\<open>Block\<close> of the storage node (\<^verbatim>\<open>StorageNode/Block.cpp\<close>): a block with its hash, its text and the number of verifications
  that agreed with the hash.  The constructors assign the \<^verbatim>\<open>int\<close> \<^verbatim>\<open>number\<close> to a string, which takes it as one character.
\<close>

record storage_block =
  sb_number :: string
  sb_hash :: string
  sb_jsonString :: string
  sb_totalVerified :: int

definition number_string :: "int \<Rightarrow> string" where
  "number_string n = [char_of (n mod 256)]"

definition Block_2 :: "int \<Rightarrow> string \<Rightarrow> storage_block" where
  "Block_2 n h = \<lparr>sb_number = number_string n, sb_hash = h, sb_jsonString = [], sb_totalVerified = 1\<rparr>"

definition Block_3 :: "int \<Rightarrow> string \<Rightarrow> string \<Rightarrow> storage_block" where
  "Block_3 n h data = \<lparr>sb_number = number_string n, sb_hash = h, sb_jsonString = data, sb_totalVerified = 1\<rparr>"

definition getString :: "storage_block \<Rightarrow> string" where
  "getString b = sb_jsonString b"

definition getHash :: "storage_block \<Rightarrow> string" where
  "getHash b = sb_hash b"

definition setString :: "string \<Rightarrow> storage_block \<Rightarrow> storage_block" where
  "setString data b = b\<lparr>sb_jsonString := data\<rparr>"

text \<open>Signed overflow is undefined.\<close>

definition incrementTotalVerified :: "storage_block \<Rightarrow> cpp_error + storage_block" where
  "incrementTotalVerified b =
    (if sb_totalVerified b = 2 ^ 31 - 1 then Inl Undefined else Inr (b\<lparr>sb_totalVerified := sb_totalVerified b + 1\<rparr>))"

definition getTotalVerified :: "storage_block \<Rightarrow> int" where
  "getTotalVerified b = sb_totalVerified b"

definition block_verifyHash :: "string \<Rightarrow> storage_block \<Rightarrow> cpp_error + bool \<times> storage_block" where
  "block_verifyHash h b =
    (if sb_hash b = h then (case incrementTotalVerified b of Inl e \<Rightarrow> Inl e | Inr b \<Rightarrow> Inr (True, b)) else Inr (False, b))"

text \<open>A sequence of verifications.\<close>

fun verify_hashes :: "string list \<Rightarrow> storage_block \<Rightarrow> cpp_error + storage_block" where
  "verify_hashes [] b = Inr b"
| "verify_hashes (h # hs) b = (case block_verifyHash h b of Inl e \<Rightarrow> Inl e | Inr (_, b) \<Rightarrow> verify_hashes hs b)"

lemma verify_hashes_count:
  "sb_totalVerified b + int (count_list hs (sb_hash b)) < 2 ^ 31 \<Longrightarrow>
   verify_hashes hs b = Inr (b\<lparr>sb_totalVerified := sb_totalVerified b + int (count_list hs (sb_hash b))\<rparr>)"
proof (induction hs arbitrary: b)
  case (Cons h hs)
  show ?case
  proof (cases "sb_hash b = h")
    case True
    then have "block_verifyHash h b = Inr (True, b\<lparr>sb_totalVerified := sb_totalVerified b + 1\<rparr>)"
      using Cons.prems by (auto simp: block_verifyHash_def incrementTotalVerified_def)
    then show ?thesis using Cons.IH [of "b\<lparr>sb_totalVerified := sb_totalVerified b + 1\<rparr>"] Cons.prems True by simp
  next
    case False
    then show ?thesis using Cons by (simp add: block_verifyHash_def)
  qed
qed simp

text \<open>A new block counts the verifications that name its hash, and one for itself.\<close>

theorem block_verifications:
  assumes "int (count_list hs h) < 2 ^ 31 - 1"
  shows "\<exists>b. verify_hashes hs (Block_3 n h data) = Inr b \<and> getTotalVerified b = 1 + int (count_list hs h) \<and>
    getHash b = h \<and> getString (setString t b) = t \<and> getString b = data"
  using verify_hashes_count [of "Block_3 n h data" hs] assms
  by (simp add: Block_3_def getTotalVerified_def getHash_def setString_def getString_def)

text \<open>Blocks whose numbers differ by 256 have the same number string.\<close>

theorem block_numbers_collide: "sb_number (Block_2 0 h) = sb_number (Block_2 256 h)"
  by (simp add: Block_2_def number_string_def)

end
